(* ===== verification/Snowcat_Prelude.thy ===== *)
theory Snowcat_Prelude
  imports Main "HOL-Library.Sublist" "HOL-Library.Char_ord" "HOL-Library.List_Lexorder"
    "HOL-Library.Product_Lexorder"
begin

text \<open>
  What every component of the development shares: the result type of code that throws
  (a sum with the error on the left) with its two combinators, loops that stop at the first
  error, the JavaScript string operations the queue uses, JavaScript numbers as the guards
  of the code see them, and the collections of rewrite rules the component theories fill.

  Strings are lists of \<open>char\<close>, read as UTF-16 code units below 256: \<open>trim\<close>,
  \<open>toLowerCase\<close> and the \<open>\s\<close> class are exact on that range, code units above it
  are outside the model. Instants are milliseconds since the epoch; the code compares
  \<open>Date.toISOString\<close> renderings as strings, which for the years 0 to 9999 orders them
  as the milliseconds do.
\<close>

type_synonym timestamp = int

named_theorems res_iffs "when a fallible computation succeeds"
named_theorems decode_simps "fields of decoded rows"
named_theorems store_simps "how the statements of the store act on its tables"

subsection \<open>Fallible computations\<close>

primrec and_then :: "'e + 'a \<Rightarrow> ('a \<Rightarrow> 'e + 'b) \<Rightarrow> 'e + 'b" where
  "and_then (Inl e) f = Inl e"
| "and_then (Inr x) f = f x"

definition require :: "bool \<Rightarrow> 'e \<Rightarrow> 'e + unit" where
  "require b e = (if b then Inr () else Inl e)"

lemma and_then_Inr_iff [res_iffs]:
  "and_then m f = Inr y \<longleftrightarrow> (\<exists>x. m = Inr x \<and> f x = Inr y)"
  by (cases m) auto

lemma and_then_Inl_iff:
  "and_then m f = Inl e \<longleftrightarrow> m = Inl e \<or> (\<exists>x. m = Inr x \<and> f x = Inl e)"
  by (cases m) auto

lemma require_Inr_iff [res_iffs]: "require b e = Inr u \<longleftrightarrow> b"
  by (cases u) (simp add: require_def)

lemma require_Inl_iff: "require b e = Inl e' \<longleftrightarrow> \<not> b \<and> e' = e"
  by (auto simp: require_def)

lemma require_simps [simp]:
  "require True e = Inr ()" "require False e = Inl e"
  by (simp_all add: require_def)

lemma and_then_require [simp]:
  "b \<Longrightarrow> and_then (require b e) f = f ()"
  "\<not> b \<Longrightarrow> and_then (require b e) f = Inl e"
  by (simp_all add: require_def)

lemma case_option_Inr_iff [res_iffs]:
  "(case x of None \<Rightarrow> Inl e | Some y \<Rightarrow> f y) = Inr z \<longleftrightarrow> (\<exists>y. x = Some y \<and> f y = Inr z)"
  "(case x of None \<Rightarrow> Inr a | Some y \<Rightarrow> g y) = Inr b \<longleftrightarrow>
     x = None \<and> a = b \<or> (\<exists>y. x = Some y \<and> g y = Inr b)"
  by (cases x; auto)+

lemma if_Inr_iff [res_iffs]:
  "(if b then m else Inl e) = Inr x \<longleftrightarrow> b \<and> m = Inr x"
  "(if b then Inl e else m) = Inr x \<longleftrightarrow> \<not> b \<and> m = Inr x"
  by auto

text \<open>
  \<open>for (const x of xs) check(x)\<close> stops at the first refusal; \<open>fold_res\<close> is the same
  loop threading a state.
\<close>

primrec check_all :: "('a \<Rightarrow> 'e + unit) \<Rightarrow> 'a list \<Rightarrow> 'e + unit" where
  "check_all f [] = Inr ()"
| "check_all f (x # xs) = and_then (f x) (\<lambda>_. check_all f xs)"

lemma check_all_Inr_iff [res_iffs]:
  "check_all f xs = Inr u \<longleftrightarrow> (\<forall>x \<in> set xs. f x = Inr ())"
  by (induction xs) (auto simp: and_then_Inr_iff)

primrec fold_res :: "('a \<Rightarrow> 's \<Rightarrow> 'e + 's) \<Rightarrow> 'a list \<Rightarrow> 's \<Rightarrow> 'e + 's" where
  "fold_res f [] s = Inr s"
| "fold_res f (x # xs) s = and_then (f x s) (fold_res f xs)"

lemma fold_res_invariant:
  assumes "fold_res f xs s = Inr s'" and "I s"
    and "\<And>x t t'. x \<in> set xs \<Longrightarrow> I t \<Longrightarrow> f x t = Inr t' \<Longrightarrow> I t'"
  shows "I s'"
  using assms
proof (induction xs arbitrary: s)
  case Nil
  then show ?case by simp
next
  case (Cons x xs)
  from Cons.prems(1) obtain t where t: "f x s = Inr t" and r: "fold_res f xs t = Inr s'"
    by (auto simp: and_then_Inr_iff)
  from Cons.prems(3) [of x s t] Cons.prems(2) t have "I t" by simp
  with Cons.IH [OF r] Cons.prems(3) show ?case by (metis list.set_intros(2))
qed

text \<open>\<open>xs.map(f)\<close>, \<open>xs.filter(p)\<close> and an optional argument, with a callback that may throw.\<close>

primrec map_res :: "('a \<Rightarrow> 'e + 'b) \<Rightarrow> 'a list \<Rightarrow> 'e + 'b list" where
  "map_res f [] = Inr []"
| "map_res f (x # xs) = and_then (f x) (\<lambda>y. and_then (map_res f xs) (\<lambda>ys. Inr (y # ys)))"

primrec filter_res :: "('a \<Rightarrow> 'e + bool) \<Rightarrow> 'a list \<Rightarrow> 'e + 'a list" where
  "filter_res p [] = Inr []"
| "filter_res p (x # xs) =
     and_then (p x) (\<lambda>keep. and_then (filter_res p xs) (\<lambda>ys. Inr (if keep then x # ys else ys)))"

lemma map_res_mem:
  "map_res f xs = Inr ys \<Longrightarrow> y \<in> set ys \<Longrightarrow> \<exists>x \<in> set xs. f x = Inr y"
  by (induction xs arbitrary: ys) (auto simp: and_then_Inr_iff)

lemma filter_res_Inr:
  "filter_res p xs = Inr ys \<longleftrightarrow>
     (\<forall>x \<in> set xs. \<exists>b. p x = Inr b) \<and> ys = filter (\<lambda>x. p x = Inr True) xs"
proof (induction xs arbitrary: ys)
  case Nil
  then show ?case by auto
next
  case (Cons x xs)
  show ?case
  proof (cases "p x")
    case (Inl e)
    then show ?thesis by simp
  next
    case (Inr b)
    with Cons.IH show ?thesis by (cases b) (auto simp: and_then_Inr_iff)
  qed
qed

definition optional_res :: "('a \<Rightarrow> 'e + 'b) \<Rightarrow> 'a option \<Rightarrow> 'e + 'b option" where
  "optional_res f x = (case x of None \<Rightarrow> Inr None | Some y \<Rightarrow> and_then (f y) (\<lambda>z. Inr (Some z)))"

subsection \<open>JavaScript numbers\<close>

text \<open>
  A number argument that a guard tests with \<open>Number.isSafeInteger\<close> or
  \<open>Number.isInteger\<close>: an integer, or anything those tests refuse (a fraction, NaN or an
  infinity). Only integers pass the guards, so nothing else is computed with.
\<close>

datatype jsnum = JInt int | JNonInt

definition max_safe_integer :: int where
  "max_safe_integer = 9007199254740991"

fun is_safe_integer :: "jsnum \<Rightarrow> bool" where
  "is_safe_integer (JInt n) = (- max_safe_integer \<le> n \<and> n \<le> max_safe_integer)"
| "is_safe_integer JNonInt = False"

fun js_int :: "jsnum \<Rightarrow> int" where
  "js_int (JInt n) = n"
| "js_int JNonInt = 0"

lemma is_safe_integerE: "is_safe_integer n \<Longrightarrow> \<exists>k. n = JInt k"
  by (cases n) auto

subsection \<open>JavaScript strings\<close>

definition code_unit :: "char \<Rightarrow> int" where
  "code_unit c = of_char c"

definition is_space :: "char \<Rightarrow> bool" where
  "is_space c = (code_unit c \<in> {9, 10, 11, 12, 13, 32, 160})"

definition is_control :: "char \<Rightarrow> bool" where
  "is_control c = (code_unit c \<le> 31 \<or> 127 \<le> code_unit c \<and> code_unit c \<le> 159)"

definition is_digit_char :: "char \<Rightarrow> bool" where
  "is_digit_char c = (48 \<le> code_unit c \<and> code_unit c \<le> 57)"

definition is_lower_char :: "char \<Rightarrow> bool" where
  "is_lower_char c = (97 \<le> code_unit c \<and> code_unit c \<le> 122)"

definition is_upper_char :: "char \<Rightarrow> bool" where
  "is_upper_char c = (65 \<le> code_unit c \<and> code_unit c \<le> 90)"

definition is_alnum :: "char \<Rightarrow> bool" where
  "is_alnum c = (is_digit_char c \<or> is_lower_char c \<or> is_upper_char c)"

definition is_hex_lower :: "char \<Rightarrow> bool" where
  "is_hex_lower c = (is_digit_char c \<or> 97 \<le> code_unit c \<and> code_unit c \<le> 102)"

definition is_hex_char :: "char \<Rightarrow> bool" where
  "is_hex_char c = (is_hex_lower c \<or> 65 \<le> code_unit c \<and> code_unit c \<le> 70)"

definition lower_char :: "char \<Rightarrow> char" where
  "lower_char c =
     (let n = code_unit c in
      if 65 \<le> n \<and> n \<le> 90 \<or> 192 \<le> n \<and> n \<le> 222 \<and> n \<noteq> 215 then char_of (n + 32) else c)"

definition to_lower :: "string \<Rightarrow> string" where
  "to_lower = map lower_char"

definition trim :: "string \<Rightarrow> string" where
  "trim s = rev (dropWhile is_space (rev (dropWhile is_space s)))"

definition blank :: "string \<Rightarrow> bool" where
  "blank s = (trim s = [])"

lemma trim_Nil [simp]: "trim [] = []"
  by (simp add: trim_def)

lemma dropWhile_Nil_iff: "dropWhile P xs = [] \<longleftrightarrow> (\<forall>x \<in> set xs. P x)"
  by (simp add: dropWhile_eq_Nil_conv)

lemma blank_iff: "blank s \<longleftrightarrow> (\<forall>c \<in> set s. is_space c)"
proof -
  have "blank s \<longleftrightarrow> (\<forall>c \<in> set (dropWhile is_space s). is_space c)"
    by (simp add: blank_def trim_def dropWhile_Nil_iff)
  also have "\<dots> \<longleftrightarrow> (\<forall>c \<in> set s. is_space c)"
    by (induction s) auto
  finally show ?thesis .
qed

lemma set_trim: "set (trim s) \<subseteq> set s"
proof -
  have "set (dropWhile is_space t) \<subseteq> set t" for t
    by (auto dest: set_dropWhileD)
  from this [of "rev (dropWhile is_space s)"] this [of s] show ?thesis
    by (auto simp: trim_def)
qed

lemma dropWhile_hd: "dropWhile P xs = y # ys \<Longrightarrow> \<not> P y"
  by (metis hd_dropWhile list.distinct(1) list.sel(1))

lemma trim_trim [simp]: "trim (trim s) = trim s"
proof -
  let ?d = "dropWhile is_space"
  define u where "u = ?d s"
  define v where "v = ?d (rev u)"
  have t: "trim s = rev v" by (simp add: trim_def u_def v_def)
  have lead: "?d (rev v) = rev v"
  proof (cases "rev v")
    case Nil
    then show ?thesis by simp
  next
    case (Cons y ys)
    then have "v \<noteq> []" by auto
    have "suffix v (rev u)" unfolding v_def by (rule suffix_dropWhile)
    then have "prefix (rev v) u" by (simp add: suffix_to_prefix)
    with Cons obtain zs where "u = y # zs" by (auto simp: prefix_def)
    then have "\<not> is_space y" using dropWhile_hd [of is_space s y zs] by (simp add: u_def)
    with Cons show ?thesis by simp
  qed
  have "?d v = v" unfolding v_def by (induction u rule: rev_induct) auto
  with lead t show ?thesis by (simp add: trim_def)
qed

lemma lower_char_idem [simp]: "lower_char (lower_char c) = lower_char c"
proof -
  have "0 \<le> code_unit c" "code_unit c < 256"
    by (simp_all add: code_unit_def of_char_def)
  then show ?thesis
    by (auto simp: lower_char_def Let_def code_unit_def)
qed

lemma to_lower_idem [simp]: "to_lower (to_lower s) = to_lower s"
  by (simp add: to_lower_def)

lemma to_lower_Nil_iff [simp]: "to_lower s = [] \<longleftrightarrow> s = []"
  by (simp add: to_lower_def)

text \<open>\<open>s.split(c)\<close>: always at least one piece, joined again by the separator.\<close>

fun split_char :: "char \<Rightarrow> string \<Rightarrow> string list" where
  "split_char c [] = [ [] ]"
| "split_char c (x # xs) =
     (case split_char c xs of
        [] \<Rightarrow> [ [x] ]
      | p # ps \<Rightarrow> if x = c then [] # p # ps else (x # p) # ps)"

definition strip_prefix :: "string \<Rightarrow> string \<Rightarrow> string option" where
  "strip_prefix p s = (if prefix p s then Some (drop (length p) s) else None)"

subsection \<open>Lists as the code uses them\<close>

text \<open>\<open>[...new Set(xs)].sort()\<close> on strings, and \<open>xs.findIndex(p)\<close>.\<close>

definition sorted_unique :: "'a::linorder list \<Rightarrow> 'a list" where
  "sorted_unique xs = sort (remdups xs)"

lemma sorted_unique_props [simp]:
  "sorted (sorted_unique xs)" "distinct (sorted_unique xs)" "set (sorted_unique xs) = set xs"
  by (simp_all add: sorted_unique_def)

lemma sorted_unique_Nil_iff [simp]: "sorted_unique xs = [] \<longleftrightarrow> xs = []"
  by (metis set_empty2 sorted_unique_props(3))

lemma sorted_unique_cong: "set xs = set ys \<Longrightarrow> sorted_unique xs = sorted_unique ys"
  by (rule sorted_distinct_set_unique) simp_all

lemma sorted_unique_idem [simp]: "sorted_unique (sorted_unique xs) = sorted_unique xs"
  by (rule sorted_unique_cong) simp

lemma sorted_sorted_unique: "sorted xs \<Longrightarrow> distinct xs \<Longrightarrow> sorted_unique xs = xs"
  by (simp add: sorted_unique_def sorted_sort_id)

fun find_index :: "('a \<Rightarrow> bool) \<Rightarrow> 'a list \<Rightarrow> nat option" where
  "find_index p [] = None"
| "find_index p (x # xs) = (if p x then Some 0 else map_option Suc (find_index p xs))"

lemma find_index_Some:
  "find_index p xs = Some i \<Longrightarrow> i < length xs \<and> p (xs ! i) \<and> (\<forall>j < i. \<not> p (xs ! j))"
proof (induction xs arbitrary: i)
  case Nil
  then show ?case by simp
next
  case (Cons x xs)
  then show ?case
    by (auto simp: less_Suc_eq_0_disj split: if_splits)
qed

lemma find_index_None: "find_index p xs = None \<longleftrightarrow> (\<forall>x \<in> set xs. \<not> p x)"
  by (induction xs) auto

text \<open>
  \<open>ORDER BY key LIMIT 1\<close>: the first row of the stable sort has the least key.
\<close>

lemma hd_sort_key_min:
  assumes "sort_key f xs = y # ys"
  shows "y \<in> set xs" and "\<forall>x \<in> set xs. f y \<le> f x"
proof -
  have "set (sort_key f xs) = set xs" by simp
  with assms show "y \<in> set xs" by (metis list.set_intros(1))
  have "sorted (map f (y # ys))" using assms by (metis sorted_sort_key)
  then show "\<forall>x \<in> set xs. f y \<le> f x"
    using assms by (metis list.set_intros(1) set_ConsD set_sort sorted_simps(2) list.simps(9)
        in_set_conv_decomp map_append order_refl set_map image_eqI)
qed

lemma find_SomeD: "List.find P xs = Some x \<Longrightarrow> x \<in> set xs \<and> P x"
  by (auto simp: find_Some_iff in_set_conv_nth)

lemma find_NoneD: "List.find P xs = None \<Longrightarrow> x \<in> set xs \<Longrightarrow> \<not> P x"
  by (auto simp: find_None_iff)

text \<open>The first match of a sorted table is a least match.\<close>

lemma find_sort_key_min:
  assumes "List.find P (sort_key f xs) = Some x" and "y \<in> set xs" and "P y"
  shows "f x \<le> f y"
proof -
  have "sorted (map f zs) \<Longrightarrow> List.find P zs = Some x \<Longrightarrow> z \<in> set zs \<Longrightarrow> P z \<Longrightarrow> f x \<le> f z" for zs z
    by (induction zs) (auto split: if_splits dest: find_SomeD)
  from this [of "sort_key f xs" y] assms show ?thesis by simp
qed

end
