(* ===== verification/Queue_Types.thy ===== *)
theory Queue_Types
  imports Snowcat_Prelude
begin

text \<open>
  The data model of \<open>src/src/queue/types.ts\<close>: the closed string unions as datatypes, the
  interfaces as records, and the derivations that need no store (\<open>deriveDelivery\<close>,
  \<open>withoutLeaseToken\<close>). A union the store re-checks at run time (actions, required
  artifacts, execution targets, observed states, review decisions) has one constructor more,
  carrying the string of a value an untyped caller could send, so that the code's refusal of
  it is a branch of the model.
\<close>

subsection \<open>Closed unions\<close>

datatype work_status = Proposed | Queued | Claimed | Completed | Blocked | Cancelled

definition work_statuses :: "work_status list" where
  "work_statuses = [Proposed, Queued, Claimed, Completed, Blocked, Cancelled]"

fun status_name :: "work_status \<Rightarrow> string" where
  "status_name Proposed = ''proposed''"
| "status_name Queued = ''queued''"
| "status_name Claimed = ''claimed''"
| "status_name Completed = ''completed''"
| "status_name Blocked = ''blocked''"
| "status_name Cancelled = ''cancelled''"

datatype action = Read | Write | RunTests | OpenIssue | OpenPr | CreateFollowup | OtherAction string

definition allowed_actions :: "action list" where
  "allowed_actions = [Read, Write, RunTests, OpenIssue, OpenPr, CreateFollowup]"

fun action_name :: "action \<Rightarrow> string" where
  "action_name Read = ''read''"
| "action_name Write = ''write''"
| "action_name RunTests = ''run-tests''"
| "action_name OpenIssue = ''open-issue''"
| "action_name OpenPr = ''open-pr''"
| "action_name CreateFollowup = ''create-followup''"
| "action_name (OtherAction s) = s"

datatype required_artifact = NoArtifact | PullRequestArtifact | OtherArtifact string

datatype execution_target = ReadOnly | NewPullRequest | ExistingPullRequest | OtherTarget string

datatype policy_decision = Allow | ReviewRequired | Deny

record policy_boundary =
  pb_id :: string
  pb_decision :: policy_decision
  pb_minimum_risk_tier :: string
  pb_paths :: "string list"

text \<open>
  \<open>PolicyAuthorization\<close>: an operator's decision, or a standing authorization. The id and the
  decision record of the latter are options because the code can store an authorization
  without them (see \<open>Policy_Binding\<close>).
\<close>

datatype policy_authorization =
    OperatorAuthorization (auth_actor: string) (auth_covered: "action list") (auth_at: timestamp)
  | StandingAuthorized (auth_standing_id: "string option") (auth_adr: "string option")
      (auth_covered: "action list") (auth_at: timestamp)

record policy_record =
  pol_core_snapshot_id :: string
  pol_repository_commit_id :: "string option"
  pol_review_required :: "action list"
  pol_authorization :: "policy_authorization option"

subsection \<open>Artifacts, verifications and results\<close>

datatype artifact_kind = Issue | PullRequest | Release | Commit | Report | OtherKind

datatype observed_state = Open | Closed | Merged | Published | DraftRelease | OtherState string

datatype handoff =
    HandoffUnverified (handoff_time: string) (handoff_reason: string)
  | HandoffRejected (handoff_time: string) (handoff_reason: string)

record verified_observation =
  vo_verified_at :: string
  vo_number :: jsnum
  vo_state :: observed_state
  vo_head_sha :: "string option"
  vo_merged_at :: "string option"
  vo_closed_at :: "string option"
  vo_draft :: "bool option"
  vo_tag :: "string option"
  vo_published_at :: "string option"
  vo_handoff :: "handoff option"

datatype verification =
    Verified verified_observation
  | Unverified (attempted_at: string) (unverified_reason: string)

record work_artifact =
  wa_kind :: artifact_kind
  wa_url :: string
  wa_description :: "string option"
  wa_verification :: "verification option"

record work_result =
  wr_summary :: string
  wr_evidence :: "string list"
  wr_artifacts :: "work_artifact list"
  wr_model :: "string option"

datatype delivery_state = DNone | DUnverified | DOpen | DClosed | DMerged | DPublished

definition delivery_states :: "delivery_state list" where
  "delivery_states = [DNone, DUnverified, DOpen, DClosed, DMerged, DPublished]"

text \<open>
  The state a delivery derivation reads off one artifact: the verified state, or
  \<open>None\<close> where the code writes \<open>"unverified"\<close>.
\<close>

definition observed_of :: "work_artifact \<Rightarrow> observed_state option" where
  "observed_of a =
     (case wa_verification a of
        Some (Verified v) \<Rightarrow> Some (vo_state v)
      | _ \<Rightarrow> None)"

definition artifacts_of :: "work_result option \<Rightarrow> work_artifact list" where
  "artifacts_of r = (case r of None \<Rightarrow> [] | Some w \<Rightarrow> wr_artifacts w)"

definition derive_delivery :: "work_result option \<Rightarrow> delivery_state" where
  "derive_delivery result =
     (let releases = filter (\<lambda>a. wa_kind a = Release) (artifacts_of result) in
      if releases \<noteq> [] then
        (let states = map observed_of releases in
         if Some Published \<in> set states then DPublished
         else if None \<in> set states then DUnverified
         else DOpen)
      else
        (let pulls = filter (\<lambda>a. wa_kind a = PullRequest) (artifacts_of result) in
         if pulls = [] then DNone
         else
           (let states = map observed_of pulls in
            if Some Merged \<in> set states then DMerged
            else if None \<in> set states then DUnverified
            else if Some Open \<in> set states then DOpen
            else DClosed)))"

subsection \<open>Notes, proposals and pull-request bindings\<close>

datatype operator_note_action = NoteRequeue | NoteDefer | NotePrioritize | NoteNote | NoteReleaseLease

record operator_note =
  on_at :: timestamp
  on_actor :: string
  on_action :: operator_note_action
  on_reason :: string

datatype pull_request_decay =
    Behind | Dirty | FailingChecks | ChangesRequested | UnresolvedThreads | BadTitle
  | OtherDecay string

record pull_request_cure =
  pc_pull_request_url :: string
  pc_head_sha :: string
  pc_patch_digest :: string
  pc_decay :: "pull_request_decay list"
  pc_origin_item_id :: "string option"

definition cure_change_kind :: string where
  "cure_change_kind = ''pr-cure-change''"

datatype review_decision = Pass | Block | UnableToReview | OtherDecision string

definition max_review_blockers :: nat where "max_review_blockers = 5"
definition max_review_advisories :: nat where "max_review_advisories = 3"
definition max_review_rounds :: int where "max_review_rounds = 3"
definition max_item_attempts :: nat where "max_item_attempts = 10"

record review_blocker =
  rb_fingerprint :: string
  rb_location :: string
  rb_contract :: string
  rb_impact :: string
  rb_resolution :: string
  rb_verification :: string

record review_advisory =
  ra_fingerprint :: string
  ra_text :: string

record review_result =
  rr_decision :: review_decision
  rr_blockers :: "review_blocker list"
  rr_advisories :: "review_advisory list"

record pull_request_review =
  pr_pull_request_url :: string
  pr_head_sha :: string
  pr_patch_digest :: "string option"
  pr_round :: jsnum
  pr_origin_item_id :: "string option"
  pr_author_model :: "string option"
  pr_prior_reviewer_model :: "string option"
  pr_prior_blockers :: "review_blocker list"
  pr_review_item_id :: "string option"
  pr_reviewer_model :: "string option"
  pr_decision :: "review_decision option"
  pr_blockers :: "review_blocker list option"
  pr_advisories :: "review_advisory list option"
  pr_reviewed_at :: "timestamp option"

record follow_up_input =
  fu_kind :: string
  fu_objective :: string
  fu_instructions :: string
  fu_acceptance_criteria :: "string list"
  fu_allowed_actions :: "action list"
  fu_delegable_actions :: "action list"
  fu_required_artifact :: required_artifact
  fu_execution_target :: execution_target

datatype follow_up_intent = IntentReadOnly | IntentNewPrChange | IntentExistingPrChange | OtherIntent string

text \<open>
  A proposal as it arrives: the typed fields, and the further own properties of the object
  (\<open>"priority" in proposal\<close> and its like look at those), each with whether its value is
  defined.
\<close>

record follow_up_proposal =
  fp_intent :: "follow_up_intent option"
  fp_kind :: "string option"
  fp_objective :: string
  fp_instructions :: string
  fp_acceptance_criteria :: "string list"
  fp_allowed_actions :: "action list option"
  fp_delegable_actions :: "action list option"
  fp_required_artifact :: "required_artifact option"
  fp_execution_target :: "execution_target option"
  fp_extra :: "(string \<times> bool) list"

subsection \<open>Work items\<close>

record work_item =
  wi_id :: string
  wi_root_id :: string
  wi_parent_id :: "string option"
  wi_repository :: string
  wi_kind :: string
  wi_objective :: string
  wi_instructions :: string
  wi_acceptance_criteria :: "string list"
  wi_allowed_actions :: "action list"
  wi_delegable_actions :: "action list"
  wi_required_artifact :: required_artifact
  wi_execution_target :: "execution_target option"
  wi_policy :: "policy_record option"
  wi_priority :: int
  wi_status :: work_status
  wi_created_by :: string
  wi_source_ref :: "string option"
  wi_predecessors :: "string list option"
  wi_cure :: "pull_request_cure option"
  wi_review :: "pull_request_review option"
  wi_created_at :: timestamp
  wi_updated_at :: timestamp
  wi_lease_owner :: "string option"
  wi_lease_token :: "string option"
  wi_lease_expires_at :: "timestamp option"
  wi_result :: "work_result option"
  wi_delivery :: "delivery_state option"
  wi_operator_notes :: "operator_note list"
  wi_previous_results :: "work_result list"

definition without_lease_token :: "work_item \<Rightarrow> work_item" where
  "without_lease_token item = item\<lparr>wi_lease_token := None\<rparr>"

datatype attempt_outcome = AttemptCompleted | AttemptBlocked | AttemptReleased | AttemptExpired

record work_attempt =
  at_sequence :: nat
  at_claimed_at :: timestamp
  at_worker :: string
  at_label :: "string option"
  at_kinds_restriction :: "string list option"
  at_outcome :: "attempt_outcome option"
  at_ended_at :: "timestamp option"
  at_ended_by :: "string option"

subsection \<open>Inputs of the creation paths and of the worker operations\<close>

record seed_input =
  si_repository :: string
  si_kind :: string
  si_objective :: string
  si_instructions :: string
  si_acceptance_criteria :: "string list"
  si_allowed_actions :: "action list"
  si_delegable_actions :: "action list"
  si_required_artifact :: "required_artifact option"
  si_execution_target :: "execution_target option"
  si_priority :: "jsnum option"
  si_created_by :: string
  si_extra :: "(string \<times> bool) list"

record claim_input =
  ci_worker :: string
  ci_repository :: "string option"
  ci_kinds :: "string list option"
  ci_allowed_kinds :: "string list option"
  ci_allowed_tools :: "string list option"
  ci_lease_seconds :: "jsnum option"
  ci_label :: "string option"

record completion_input =
  co_id :: string
  co_lease_token :: string
  co_worker :: string
  co_result :: work_result
  co_follow_ups :: "follow_up_proposal list"
  co_review :: "review_result option"

definition mcp_tool_names :: "string list" where
  "mcp_tool_names =
     [''list_work'', ''get_work'', ''claim_work'', ''heartbeat_work'', ''complete_work'',
      ''block_work'', ''release_work'']"

subsection \<open>What the derived delivery says\<close>

lemma derive_delivery_none: "artifacts_of r = [] \<Longrightarrow> derive_delivery r = DNone"
  by (simp add: derive_delivery_def)

lemma derive_delivery_published:
  "derive_delivery r = DPublished \<longleftrightarrow>
     (\<exists>a \<in> set (artifacts_of r). wa_kind a = Release \<and> observed_of a = Some Published)"
  by (auto simp: derive_delivery_def Let_def filter_empty_conv image_iff)

lemma derive_delivery_merged:
  "derive_delivery r = DMerged \<longleftrightarrow>
     (\<forall>a \<in> set (artifacts_of r). wa_kind a \<noteq> Release) \<and>
     (\<exists>a \<in> set (artifacts_of r). wa_kind a = PullRequest \<and> observed_of a = Some Merged)"
  by (auto simp: derive_delivery_def Let_def filter_empty_conv image_iff)

lemma derive_delivery_nothing_reported:
  "derive_delivery r = DNone \<longleftrightarrow>
     (\<forall>a \<in> set (artifacts_of r). wa_kind a \<noteq> Release \<and> wa_kind a \<noteq> PullRequest)"
  by (auto simp: derive_delivery_def Let_def filter_empty_conv)

instantiation work_status :: linorder
begin

definition less_eq_work_status :: "work_status \<Rightarrow> work_status \<Rightarrow> bool" where
  "less_eq_work_status a b = (status_name a \<le> status_name b)"

definition less_work_status :: "work_status \<Rightarrow> work_status \<Rightarrow> bool" where
  "less_work_status a b = (status_name a < status_name b)"

instance
proof
  have inj: "status_name a = status_name b \<Longrightarrow> a = b" for a b
    by (cases a; cases b) simp_all
  fix x y z :: work_status
  show "(x < y) = (x \<le> y \<and> \<not> y \<le> x)"
    by (auto simp: less_eq_work_status_def less_work_status_def)
  show "x \<le> x" by (simp add: less_eq_work_status_def)
  show "x \<le> y \<Longrightarrow> y \<le> z \<Longrightarrow> x \<le> z" by (auto simp: less_eq_work_status_def)
  show "x \<le> y \<Longrightarrow> y \<le> x \<Longrightarrow> x = y" by (auto simp: less_eq_work_status_def intro: inj)
  show "x \<le> y \<or> y \<le> x" by (auto simp: less_eq_work_status_def)
qed

end

end
