(* ===== verification/Queue_Errors.thy ===== *)
theory Queue_Errors
  imports Queue_Types
begin

text \<open>
  Every \<open>throw\<close> of the queue, and every statement SQLite refuses, as a value. The constructors
  follow the messages of the code; a message's interpolated values are kept where a caller
  can tell two refusals apart by them. The errors are grouped by the part of the code that
  raises them.
\<close>

datatype principal_error =
    ActorRequired
  | ActorNamespace string
  | NotMemberPrincipal
  | WorkerRequired
  | ReservedNamespace string
  | ClaimLabelShape
  | ClaimLabelHoldsToken
  | InvalidWorkKind string
  | NoWorkKinds
  | UnknownMcpTool string
  | NoMcpTools
  | TokenClientShape
  | TokenNotFound string
  | TokenBelongsTo string

datatype contract_code =
    DiscoveryKindWithChangeContract
  | RequiredPullRequestWithoutOpenPr
  | WriteWithoutOpenPr
  | ChildWriteWithoutRequiredPullRequest
  | ChangeChildCannotPropose
  | ReadOnlyWithMutation
  | ReadOnlyRequiredPullRequest
  | MutatingTargetWithoutWrite
  | MutatingTargetWithoutRequiredPullRequest
  | ExistingPullRequestWithoutBinding
  | CureChangeWithoutExistingTarget
  | UndeclaredExecutionTarget
  | UnboundPolicy

datatype definition_error =
    RepositoryShape string
  | RepositoryNotOptedIn string
  | RepositoryUnknown string
  | RepositoryExists string
  | SameRepository
  | KindShape string
  | PriorityNotSafeInteger
  | ObjectiveRequired
  | InstructionsRequired
  | AcceptanceCriterionRequired
  | CreatedByRequired
  | UnknownAction action
  | UnknownRequiredArtifact required_artifact
  | ExecutionTargetInvalid
  | ContractRefused contract_code
  | ExceedsDelegationCeiling "action list"
  | SourceRefShape
  | SourceRefTooLong
  | TooManyPredecessors
  | PredecessorTooLong
  | PredecessorShape string
  | CarriesPredecessors
  | CooldownInvalid
  | CureRootKind
  | ReviewRootKind

datatype review_root_error =
    ReviewRootDelegates
  | FixRootActions
  | FixRootWithoutReviewItem

datatype follow_up_error =
    TooManyFollowUps
  | FollowUpsNotAllowed
  | LineageTooDeep
  | LineageExceedsDepth
  | FollowUpSetsPriority
  | FollowUpSetsBinding string
  | LegacyFieldsMissing
  | IntentUnknown
  | IntentKindMissing
  | IntentKindMismatch
  | IntentExceedsCeiling "action list"
  | IntentNeedsCure
  | IntentContractMismatch string
  | FollowUpRequiredArtifact
  | FollowUpExecutionTarget
  | FollowUpContract string contract_code

datatype record_error =
    CureUrl
  | CureHeadSha
  | CurePatchDigest
  | CureDecay
  | TooManyBlockers
  | BlockerFieldRequired string
  | BlockerFingerprintRepeated string
  | TooManyAdvisories
  | AdvisoryFieldRequired string
  | DecisionInvalid
  | BlockWithoutBlocker
  | PassWithBlocker
  | ReviewUrl
  | ReviewHeadSha
  | ReviewPatchDigest
  | ReviewRound
  | UnreportedUrl string
  | UnreportedNumber
  | LabeledIssueUrl string
  | LabeledIssueTitle

datatype result_error =
    SummaryRequired
  | EvidenceEmpty
  | ModelShape
  | ArtifactCannotCarryVerification artifact_kind
  | VerificationNumber
  | VerificationState
  | VerifiedAtRequired
  | HandoffIncomplete
  | UnverifiedIncomplete
  | UrlInvalid
  | UrlNotHttps
  | UrlCredentials
  | ArtifactScope artifact_kind string
  | ArtifactNeedsAction artifact_kind action
  | RequiredPullRequestMissing
  | ReviewResultRequired
  | ReviewRecordMissing
  | ReviewResultRefused
  | VerificationRequired
  | DescriptionEmpty
  | DescriptionTooLong
  | ArtifactKindNotAttachable artifact_kind
  | ArtifactAlreadyReported string
  | ArtifactNotFound string
  | ArtifactNotVerifiable artifact_kind
  | ReviewFixUnreported string
  | OpenPullRequestNotDraft string
  | ReviewHeadUnconfirmed
  | ReviewHeadRefused
  | ReviewHeadMoved

datatype state_error =
    ItemNotFound string
  | NotProposed string
  | NotQueuedAdmitted string
  | NotClaimed string
  | NotBlocked string
  | NotQueuedOrBlocked string
  | NotPrioritizable string
  | NotCompleted string
  | PredecessorsNotReplaceable string
  | PreconditionMismatch string work_status timestamp
  | LeaseMismatch
  | LeaseHasExpired
  | LeaseSecondsInvalid
  | ReasonRequired
  | ReasonTooLong
  | CannotBeAdmitted string contract_code
  | LimitInvalid
  | TimestampInvalid
  | SequenceInvalid
  | WindowEmpty
  | WindowTooLarge

datatype policy_error =
    NoPolicyAuthority string
  | ActionExceedsCeiling action
  | ActionDenied action
  | NoStandingAuthorization string
  | StandingMemberNotAnEntry string
  | OutsideStandingAuthorization string "action list"
  | EligibilityHookFailed
  | BoundaryPattern string

text \<open>The constraints and triggers of the schema, and the schema version guard.\<close>

datatype storage_error =
    DuplicateItemId string
  | DuplicateSourceRef string string
  | UnknownRepositoryKey string
  | UnknownParentKey string
  | ClaimRequiresAdmission
  | ChildrenStartProposed
  | DuplicateTokenKey
  | SchemaNewer nat
  | NoMigrationRung nat

datatype error =
    PrincipalError principal_error
  | DefinitionError definition_error
  | ReviewRootError review_root_error
  | FollowUpError follow_up_error
  | RecordError record_error
  | ResultError result_error
  | StateError state_error
  | PolicyError policy_error
  | StorageError storage_error

type_synonym 'a res = "error + 'a"

end
