(* ===== verification/Text_Patterns.thy ===== *)
theory Text_Patterns
  imports Queue_Errors
begin

text \<open>
  The regular expressions of the queue as executable predicates. Each is anchored at both
  ends in the source, and its literal parts are separated by characters their neighbours
  exclude, so that splitting at the separator decides the match.
\<close>

subsection \<open>Words\<close>

definition kind_char :: "char \<Rightarrow> bool" where
  "kind_char c = (is_lower_char c \<or> is_digit_char c \<or> c = CHR ''-'')"

text \<open>\<open>WORK_KIND_PATTERN\<close>: \<open>/^[a-z][a-z0-9-]{1,63}$/\<close>.\<close>

definition work_kind_pattern :: "string \<Rightarrow> bool" where
  "work_kind_pattern s =
     (case s of
        [] \<Rightarrow> False
      | c # cs \<Rightarrow> is_lower_char c \<and> 1 \<le> length cs \<and> length cs \<le> 63 \<and> list_all kind_char cs)"

text \<open>\<open>[1-9][0-9]*\<close> and fixed-length lowercase hexadecimal.\<close>

definition positive_numeral :: "string \<Rightarrow> bool" where
  "positive_numeral s =
     (case s of
        [] \<Rightarrow> False
      | c # cs \<Rightarrow> is_digit_char c \<and> c \<noteq> CHR ''0'' \<and> list_all is_digit_char cs)"

definition commit_sha :: "string \<Rightarrow> bool" where
  "commit_sha s = (length s = 40 \<and> list_all is_hex_lower s)"

definition sha256_digest :: "string \<Rightarrow> bool" where
  "sha256_digest s =
     (case strip_prefix ''sha256:'' s of
        None \<Rightarrow> False
      | Some h \<Rightarrow> length h = 64 \<and> list_all is_hex_lower h)"

text \<open>\<open>MODEL_NAME_PATTERN\<close>: \<open>/^[a-z0-9][a-z0-9._:/@-]{1,120}$/i\<close>.\<close>

definition model_name_char :: "char \<Rightarrow> bool" where
  "model_name_char c = (is_alnum c \<or> c \<in> set ''._:/@-'')"

definition model_name_pattern :: "string \<Rightarrow> bool" where
  "model_name_pattern s =
     (case s of
        [] \<Rightarrow> False
      | c # cs \<Rightarrow> is_alnum c \<and> 1 \<le> length cs \<and> length cs \<le> 120 \<and> list_all model_name_char cs)"

text \<open>
  \<open>RELEASE_TAG_PATTERN\<close>: no leading \<open>-\<close>, no \<open>..\<close>, 1 to 128 characters of the class
  \<open>[A-Za-z0-9._+/-]\<close>.
\<close>

definition tag_char :: "char \<Rightarrow> bool" where
  "tag_char c = (is_alnum c \<or> c \<in> set ''._+/-'')"

fun has_double_dot :: "string \<Rightarrow> bool" where
  "has_double_dot (a # b # cs) = (a = CHR ''.'' \<and> b = CHR ''.'' \<or> has_double_dot (b # cs))"
| "has_double_dot _ = False"

definition release_tag_pattern :: "string \<Rightarrow> bool" where
  "release_tag_pattern s =
     (\<not> prefix ''-'' s \<and> \<not> has_double_dot s \<and> 1 \<le> length s \<and> length s \<le> 128 \<and>
      list_all tag_char s)"

text \<open>\<open>CLAIM_LABEL_PATTERN\<close>: 1 to 120 characters, none a control character.\<close>

definition claim_label_pattern :: "string \<Rightarrow> bool" where
  "claim_label_pattern s = (1 \<le> length s \<and> length s \<le> 120 \<and> list_all (\<lambda>c. \<not> is_control c) s)"

subsection \<open>Repositories and GitHub URLs\<close>

definition slug_char :: "char \<Rightarrow> bool" where
  "slug_char c = (is_alnum c \<or> c \<in> set ''_.-'')"

definition repository_slug :: "string \<Rightarrow> bool" where
  "repository_slug s =
     (case split_char CHR ''/'' s of
        [a, b] \<Rightarrow> a \<noteq> [] \<and> b \<noteq> [] \<and> list_all slug_char a \<and> list_all slug_char b
      | _ \<Rightarrow> False)"

definition no_space :: "string \<Rightarrow> bool" where
  "no_space = list_all (\<lambda>c. \<not> is_space c)"

text \<open>The path segments after \<open>https://github.com/\<close>, when the string starts with it.\<close>

definition github_segments :: "string \<Rightarrow> string list" where
  "github_segments s =
     (case strip_prefix ''https://github.com/'' s of
        None \<Rightarrow> []
      | Some r \<Rightarrow> split_char CHR ''/'' r)"

text \<open>\<open>/^https:\/\/github\.com\/[^/]+\/[^/]+\/pull\/[1-9][0-9]*$/\<close>.\<close>

definition pull_request_url :: "string \<Rightarrow> bool" where
  "pull_request_url s =
     (case github_segments s of
        [o', n, p, k] \<Rightarrow> o' \<noteq> [] \<and> n \<noteq> [] \<and> p = ''pull'' \<and> positive_numeral k
      | _ \<Rightarrow> False)"

text \<open>The same with \<open>[^\s/]+\<close> for owner and name.\<close>

definition pull_request_url_nospace :: "string \<Rightarrow> bool" where
  "pull_request_url_nospace s =
     (case github_segments s of
        [o', n, p, k] \<Rightarrow>
          o' \<noteq> [] \<and> n \<noteq> [] \<and> no_space o' \<and> no_space n \<and> p = ''pull'' \<and> positive_numeral k
      | _ \<Rightarrow> False)"

text \<open>The issue URL pattern, with the owner and name it captures.\<close>

definition issue_url_parts :: "string \<Rightarrow> (string \<times> string) option" where
  "issue_url_parts s =
     (case github_segments s of
        [o', n, p, k] \<Rightarrow>
          if o' \<noteq> [] \<and> n \<noteq> [] \<and> no_space o' \<and> no_space n \<and> p = ''issues'' \<and> positive_numeral k
          then Some (o', n) else None
      | _ \<Rightarrow> None)"

definition predecessor_url_pattern :: "string \<Rightarrow> bool" where
  "predecessor_url_pattern s = (issue_url_parts s \<noteq> None)"

text \<open>
  A source reference naming a pull request at a head:
  \<open>/^[a-z][a-z0-9-]*:https:\/\/github\.com\/[^/]+\/[^/]+\/pull\/[1-9][0-9]*@[0-9a-f]{40}$/\<close>.
\<close>

definition head_source_ref :: "string \<Rightarrow> bool" where
  "head_source_ref s =
     (let scheme = takeWhile (\<lambda>c. c \<noteq> CHR '':'') s;
          rest = drop (length scheme + 1) s in
      length scheme < length s \<and>
      (case scheme of [] \<Rightarrow> False | c # cs \<Rightarrow> is_lower_char c \<and> list_all kind_char cs) \<and>
      (case github_segments rest of
         [o', n, p, k] \<Rightarrow>
           o' \<noteq> [] \<and> n \<noteq> [] \<and> p = ''pull'' \<and>
           (case split_char CHR ''@'' k of
              [num, sha] \<Rightarrow> positive_numeral num \<and> commit_sha sha
            | _ \<Rightarrow> False)
       | _ \<Rightarrow> False))"

subsection \<open>Facts about the patterns\<close>

lemma work_kind_pattern_bounds: "work_kind_pattern s \<Longrightarrow> 2 \<le> length s \<and> length s \<le> 64"
  by (auto simp: work_kind_pattern_def split: list.splits)

lemma kind_char_not_space: "kind_char c \<Longrightarrow> \<not> is_space c"
  by (auto simp: kind_char_def is_space_def is_lower_char_def is_digit_char_def code_unit_def)

lemma trim_no_space: "list_all (\<lambda>c. \<not> is_space c) s \<Longrightarrow> trim s = s"
proof -
  assume a: "list_all (\<lambda>c. \<not> is_space c) s"
  have d: "dropWhile is_space t = t" if "list_all (\<lambda>c. \<not> is_space c) t" for t
    using that by (cases t) auto
  from a have "list_all (\<lambda>c. \<not> is_space c) (rev s)" by simp
  then show ?thesis by (simp add: trim_def d [OF a] d [of "rev s"])
qed

lemma is_lower_char_not_space: "is_lower_char c \<Longrightarrow> \<not> is_space c"
  by (auto simp: is_space_def is_lower_char_def)

lemma work_kind_pattern_trim: "work_kind_pattern s \<Longrightarrow> trim s = s"
  by (rule trim_no_space)
     (auto simp: work_kind_pattern_def list_all_iff kind_char_not_space is_lower_char_not_space
        split: list.splits)

lemma sha256_digest_length: "sha256_digest s \<Longrightarrow> length s = 71"
  by (auto simp: sha256_digest_def strip_prefix_def prefix_def split: option.splits if_splits)

end
