(* ===== verification/Principals.thy ===== *)
theory Principals
  imports Text_Patterns
begin

text \<open>
  Who may act: the identity rules of \<open>src/src/queue/store.ts\<close> (\<open>validateOperatorActor\<close>,
  \<open>validateMemberPrincipal\<close>, \<open>validateWorkerIdentity\<close>, \<open>validateWorkerPrincipal\<close>), the claim
  label and the two grant validators. The \<open>purpose\<close> argument of the source only enters error
  messages and is left out.
\<close>

definition starts_any :: "string list \<Rightarrow> string \<Rightarrow> bool" where
  "starts_any ps s = list_ex (\<lambda>p. prefix p s) ps"

definition reserved_principal_prefixes :: "string list" where
  "reserved_principal_prefixes = [''operator:'', ''policy:'', ''system:'', ''member:'']"

definition validate_operator_actor :: "string \<Rightarrow> string res" where
  "validate_operator_actor actor =
     (let identity = trim actor; lowered = to_lower identity in
      and_then (require (identity \<noteq> []) (PrincipalError ActorRequired)) (\<lambda>_.
      and_then
        (require
          (prefix ''operator:'' lowered \<or> prefix ''policy:'' lowered \<or> prefix ''member:'' lowered)
          (PrincipalError (ActorNamespace identity))) (\<lambda>_.
      Inr identity)))"

definition validate_member_principal :: "string \<Rightarrow> string res" where
  "validate_member_principal who =
     (let identity = trim who; rest = drop 7 identity in
      and_then
        (require
          (to_lower (take 7 identity) = ''member:'' \<and> 1 \<le> length rest \<and> length rest \<le> 254 \<and>
           list_all (\<lambda>c. \<not> is_space c \<and> c \<noteq> CHR '':'') rest)
          (PrincipalError NotMemberPrincipal)) (\<lambda>_.
      Inr identity))"

definition validate_worker_identity :: "string \<Rightarrow> string res" where
  "validate_worker_identity worker =
     (let identity = trim worker; lowered = to_lower identity in
      and_then (require (identity \<noteq> []) (PrincipalError WorkerRequired)) (\<lambda>_.
      and_then
        (require (\<not> (lowered = ''system'' \<or> starts_any reserved_principal_prefixes lowered))
          (PrincipalError (ReservedNamespace identity))) (\<lambda>_.
      Inr identity)))"

definition validate_worker_principal :: "string \<Rightarrow> string res" where
  "validate_worker_principal worker =
     (let identity = trim worker; lowered = to_lower identity in
      and_then (require (identity \<noteq> []) (PrincipalError WorkerRequired)) (\<lambda>_.
      and_then
        (require
          (\<not> (lowered = ''system'' \<or> starts_any [''operator:'', ''policy:'', ''system:''] lowered))
          (PrincipalError (ReservedNamespace identity))) (\<lambda>_.
      Inr identity)))"

definition validate_claim_label :: "string \<Rightarrow> string res" where
  "validate_claim_label label =
     and_then (require (claim_label_pattern label) (PrincipalError ClaimLabelShape)) (\<lambda>_.
     Inr label)"

definition validate_work_kinds :: "string list \<Rightarrow> string list res" where
  "validate_work_kinds kinds =
     (let trimmed = map trim kinds in
      and_then
        (check_all (\<lambda>k. require (work_kind_pattern k) (PrincipalError (InvalidWorkKind k))) trimmed) (\<lambda>_.
      let unique = sorted_unique trimmed in
      and_then (require (unique \<noteq> []) (PrincipalError NoWorkKinds)) (\<lambda>_.
      Inr unique)))"

definition validate_mcp_tools :: "string list \<Rightarrow> string list res" where
  "validate_mcp_tools tools =
     (let trimmed = map trim tools in
      and_then
        (check_all (\<lambda>t. require (t \<in> set mcp_tool_names) (PrincipalError (UnknownMcpTool t))) trimmed) (\<lambda>_.
      let unique = sorted_unique trimmed in
      and_then (require (unique \<noteq> []) (PrincipalError NoMcpTools)) (\<lambda>_.
      Inr unique)))"

subsection \<open>What the validators accept\<close>

lemma validate_operator_actor_Inr [res_iffs]:
  "validate_operator_actor a = Inr i \<longleftrightarrow>
     i = trim a \<and> i \<noteq> [] \<and>
     (prefix ''operator:'' (to_lower i) \<or> prefix ''policy:'' (to_lower i) \<or>
      prefix ''member:'' (to_lower i))"
  by (auto simp: validate_operator_actor_def Let_def res_iffs)

lemma validate_worker_principal_Inr [res_iffs]:
  "validate_worker_principal a = Inr i \<longleftrightarrow>
     i = trim a \<and> i \<noteq> [] \<and> to_lower i \<noteq> ''system'' \<and> \<not> prefix ''operator:'' (to_lower i) \<and>
     \<not> prefix ''policy:'' (to_lower i) \<and> \<not> prefix ''system:'' (to_lower i)"
  by (auto simp: validate_worker_principal_def Let_def res_iffs starts_any_def)

lemma validate_worker_identity_Inr [res_iffs]:
  "validate_worker_identity a = Inr i \<longleftrightarrow>
     i = trim a \<and> i \<noteq> [] \<and> to_lower i \<noteq> ''system'' \<and>
     (\<forall>p \<in> set reserved_principal_prefixes. \<not> prefix p (to_lower i))"
  by (auto simp: validate_worker_identity_def Let_def res_iffs starts_any_def list_ex_iff)

lemma validate_claim_label_Inr [res_iffs]:
  "validate_claim_label l = Inr l' \<longleftrightarrow> l' = l \<and> claim_label_pattern l"
  by (auto simp: validate_claim_label_def res_iffs)

lemma validate_work_kinds_Inr [res_iffs]:
  "validate_work_kinds ks = Inr us \<longleftrightarrow>
     us = sorted_unique (map trim ks) \<and> ks \<noteq> [] \<and> (\<forall>k \<in> set ks. work_kind_pattern (trim k))"
  by (auto simp: validate_work_kinds_def Let_def res_iffs)

lemma validate_mcp_tools_Inr [res_iffs]:
  "validate_mcp_tools ts = Inr us \<longleftrightarrow>
     us = sorted_unique (map trim ts) \<and> ts \<noteq> [] \<and> (\<forall>t \<in> set ts. trim t \<in> set mcp_tool_names)"
  by (auto simp: validate_mcp_tools_def Let_def res_iffs)

lemma prefix_same_head:
  "prefix (x # xs) s \<Longrightarrow> prefix (y # ys) s \<Longrightarrow> x = y"
  by (auto simp: prefix_def)

end
