(* ===== verification/Work_Contract.thy ===== *)
theory Work_Contract
  imports Principals
begin

text \<open>
  The delivery contract of a work item (\<open>contractProblem\<close> and its callers in
  \<open>src/src/queue/store.ts\<close>): which combinations of actions, required artifact, execution
  target, binding and lineage can be carried out, and the validation of a new definition that
  ends with that check. \<open>contract_view\<close> is the object literal the callers pass; a field the
  caller leaves out is \<open>None\<close>. Problem messages are reduced to their codes.
\<close>

record contract_view =
  cv_allowed_actions :: "action list"
  cv_delegable_actions :: "action list option"
  cv_required_artifact :: required_artifact
  cv_execution_target :: "execution_target option"
  cv_source_ref :: "string option"
  cv_cure :: "pull_request_cure option"
  cv_review :: "pull_request_review option"
  cv_parent_id :: "string option"
  cv_parent_delegable_actions :: "action list option"
  cv_kind :: "string option"

definition has_pull_request_binding ::
    "string option \<Rightarrow> pull_request_cure option \<Rightarrow> pull_request_review option \<Rightarrow> bool" where
  "has_pull_request_binding source_ref cure review =
     (if cure \<noteq> None \<or> review \<noteq> None then True
      else (case source_ref of None \<Rightarrow> False | Some s \<Rightarrow> head_source_ref s))"

definition is_discovery_kind :: "string option \<Rightarrow> bool" where
  "is_discovery_kind kind = (case kind of None \<Rightarrow> False | Some k \<Rightarrow> suffix ''-discovery'' k)"

definition includes_opt :: "action list option \<Rightarrow> action \<Rightarrow> bool" where
  "includes_opt xs a = (case xs of None \<Rightarrow> False | Some ys \<Rightarrow> a \<in> set ys)"

definition contract_problem :: "contract_view \<Rightarrow> contract_code option" where
  "contract_problem item =
     (let allowed = set (cv_allowed_actions item);
          required = cv_required_artifact item;
          target = cv_execution_target item in
      if is_discovery_kind (cv_kind item) \<and>
         (required = PullRequestArtifact \<or> Write \<in> allowed \<or> OpenPr \<in> allowed)
      then Some DiscoveryKindWithChangeContract
      else if required = PullRequestArtifact \<and> OpenPr \<notin> allowed
      then Some RequiredPullRequestWithoutOpenPr
      else if Write \<in> allowed \<and> OpenPr \<notin> allowed
      then Some WriteWithoutOpenPr
      else if cv_parent_id item \<noteq> None \<and> Write \<in> allowed \<and> required \<noteq> PullRequestArtifact
      then Some ChildWriteWithoutRequiredPullRequest
      else if Write \<in> allowed \<and> includes_opt (cv_parent_delegable_actions item) CreateFollowup \<and>
         (CreateFollowup \<notin> allowed \<or> cv_delegable_actions item = Some [])
      then Some ChangeChildCannotPropose
      else if target = Some ReadOnly \<and> (Write \<in> allowed \<or> OpenPr \<in> allowed)
      then Some ReadOnlyWithMutation
      else if target = Some ReadOnly \<and> required \<noteq> NoArtifact
      then Some ReadOnlyRequiredPullRequest
      else if (target = Some NewPullRequest \<or> target = Some ExistingPullRequest) \<and>
         (Write \<notin> allowed \<or> OpenPr \<notin> allowed)
      then Some MutatingTargetWithoutWrite
      else if (target = Some NewPullRequest \<or> target = Some ExistingPullRequest) \<and>
         required \<noteq> PullRequestArtifact
      then Some MutatingTargetWithoutRequiredPullRequest
      else if cv_kind item = Some cure_change_kind \<and> target \<noteq> None \<and>
         target \<noteq> Some ExistingPullRequest
      then Some CureChangeWithoutExistingTarget
      else if target = Some ExistingPullRequest \<and>
         \<not> has_pull_request_binding (cv_source_ref item) (cv_cure item) (cv_review item)
      then Some ExistingPullRequestWithoutBinding
      else None)"

definition assert_known_actions :: "action list \<Rightarrow> unit res" where
  "assert_known_actions actions =
     check_all (\<lambda>a. require (a \<in> set allowed_actions) (DefinitionError (UnknownAction a))) actions"

definition assert_subset :: "action list \<Rightarrow> action list \<Rightarrow> unit res" where
  "assert_subset values ceiling =
     (let excess = filter (\<lambda>v. v \<notin> set ceiling) values in
      require (excess = []) (DefinitionError (ExceedsDelegationCeiling excess)))"

subsection \<open>Definitions\<close>

text \<open>
  What \<open>validateWorkDefinition\<close> reads of its argument. The creation paths spread their input
  into it, so a cure or review root brings its source reference and record along while a
  proposed root does not.
\<close>

record work_definition =
  wd_kind :: string
  wd_objective :: string
  wd_instructions :: string
  wd_acceptance_criteria :: "string list"
  wd_allowed_actions :: "action list"
  wd_delegable_actions :: "action list"
  wd_required_artifact :: "required_artifact option"
  wd_execution_target :: "execution_target option"
  wd_source_ref :: "string option"
  wd_cure :: "pull_request_cure option"
  wd_review :: "pull_request_review option"
  wd_priority :: "jsnum option"
  wd_created_by :: string

definition known_required_artifact :: "required_artifact \<Rightarrow> bool" where
  "known_required_artifact r = (r \<in> {NoArtifact, PullRequestArtifact})"

definition known_execution_target :: "execution_target option \<Rightarrow> bool" where
  "known_execution_target t = (t \<in> {Some ReadOnly, Some NewPullRequest, Some ExistingPullRequest})"

definition required_or_none :: "required_artifact option \<Rightarrow> required_artifact" where
  "required_or_none r = (case r of None \<Rightarrow> NoArtifact | Some x \<Rightarrow> x)"

definition definition_view :: "work_definition \<Rightarrow> contract_view" where
  "definition_view d =
     \<lparr>cv_allowed_actions = wd_allowed_actions d, cv_delegable_actions = None,
      cv_required_artifact = required_or_none (wd_required_artifact d),
      cv_execution_target = wd_execution_target d, cv_source_ref = wd_source_ref d,
      cv_cure = wd_cure d, cv_review = wd_review d, cv_parent_id = None,
      cv_parent_delegable_actions = None, cv_kind = Some (wd_kind d)\<rparr>"

definition assert_deliverable :: "work_definition \<Rightarrow> unit res" where
  "assert_deliverable d =
     (let required = required_or_none (wd_required_artifact d) in
      and_then
        (require (known_required_artifact required)
          (DefinitionError (UnknownRequiredArtifact required))) (\<lambda>_.
      and_then
        (require (known_execution_target (wd_execution_target d))
          (DefinitionError ExecutionTargetInvalid)) (\<lambda>_.
      case contract_problem (definition_view d) of
        None \<Rightarrow> Inr ()
      | Some code \<Rightarrow> Inl (DefinitionError (ContractRefused code)))))"

definition validate_work_definition :: "work_definition \<Rightarrow> unit res" where
  "validate_work_definition d =
     and_then (require (work_kind_pattern (wd_kind d)) (DefinitionError (KindShape (wd_kind d)))) (\<lambda>_.
     and_then
       (require (case wd_priority d of None \<Rightarrow> True | Some p \<Rightarrow> is_safe_integer p)
         (DefinitionError PriorityNotSafeInteger)) (\<lambda>_.
     and_then (require (\<not> blank (wd_objective d)) (DefinitionError ObjectiveRequired)) (\<lambda>_.
     and_then (require (\<not> blank (wd_instructions d)) (DefinitionError InstructionsRequired)) (\<lambda>_.
     and_then
       (require
         (wd_acceptance_criteria d \<noteq> [] \<and> \<not> list_ex blank (wd_acceptance_criteria d))
         (DefinitionError AcceptanceCriterionRequired)) (\<lambda>_.
     and_then (require (\<not> blank (wd_created_by d)) (DefinitionError CreatedByRequired)) (\<lambda>_.
     and_then (assert_known_actions (wd_allowed_actions d)) (\<lambda>_.
     and_then (assert_known_actions (wd_delegable_actions d)) (\<lambda>_.
     assert_deliverable d))))))))"

definition validate_repository :: "string \<Rightarrow> unit res" where
  "validate_repository repository =
     require (repository_slug repository) (DefinitionError (RepositoryShape repository))"

definition max_source_ref_length :: nat where "max_source_ref_length = 512"
definition max_predecessors :: nat where "max_predecessors = 20"

definition validate_source_ref :: "string \<Rightarrow> unit res" where
  "validate_source_ref source_ref =
     and_then
       (require (\<not> blank source_ref \<and> source_ref = trim source_ref) (DefinitionError SourceRefShape)) (\<lambda>_.
     require (length source_ref \<le> max_source_ref_length) (DefinitionError SourceRefTooLong))"

definition normalize_predecessors :: "string list option \<Rightarrow> string list option res" where
  "normalize_predecessors values =
     (case values of
        None \<Rightarrow> Inr None
      | Some vs \<Rightarrow>
          and_then (require (length vs \<le> max_predecessors) (DefinitionError TooManyPredecessors)) (\<lambda>_.
          and_then
            (check_all (\<lambda>v.
               and_then (require (length v \<le> max_source_ref_length) (DefinitionError PredecessorTooLong)) (\<lambda>_.
               require (predecessor_url_pattern v) (DefinitionError (PredecessorShape v)))) vs) (\<lambda>_.
          let unique = sorted_unique vs in
          Inr (if unique = [] then None else Some unique))))"

definition assert_no_predecessors :: "(string \<times> bool) list \<Rightarrow> unit res" where
  "assert_no_predecessors extra =
     require ((''predecessors'', True) \<notin> set extra) (DefinitionError CarriesPredecessors)"

text \<open>The pull-request binding a proposed follow-up inherits from its parent.\<close>

definition inherited_cure_binding :: "work_item \<Rightarrow> follow_up_input \<Rightarrow> pull_request_cure option" where
  "inherited_cure_binding parent follow_up =
     (if fu_kind follow_up \<noteq> cure_change_kind \<or>
         fu_execution_target follow_up \<noteq> ExistingPullRequest then None
      else wi_cure parent)"

subsection \<open>What a contract without problem guarantees\<close>

lemma contract_problem_None_imp:
  assumes "contract_problem item = None"
  shows "cv_required_artifact item = PullRequestArtifact \<Longrightarrow> OpenPr \<in> set (cv_allowed_actions item)"
    and "Write \<in> set (cv_allowed_actions item) \<Longrightarrow> OpenPr \<in> set (cv_allowed_actions item)"
    and "cv_parent_id item \<noteq> None \<Longrightarrow> Write \<in> set (cv_allowed_actions item) \<Longrightarrow>
           cv_required_artifact item = PullRequestArtifact"
    and "is_discovery_kind (cv_kind item) \<Longrightarrow>
           cv_required_artifact item \<noteq> PullRequestArtifact \<and>
           Write \<notin> set (cv_allowed_actions item) \<and> OpenPr \<notin> set (cv_allowed_actions item)"
    and "cv_execution_target item = Some ReadOnly \<Longrightarrow>
           Write \<notin> set (cv_allowed_actions item) \<and> OpenPr \<notin> set (cv_allowed_actions item) \<and>
           cv_required_artifact item = NoArtifact"
    and "cv_execution_target item = Some NewPullRequest \<or>
         cv_execution_target item = Some ExistingPullRequest \<Longrightarrow>
           Write \<in> set (cv_allowed_actions item) \<and> OpenPr \<in> set (cv_allowed_actions item) \<and>
           cv_required_artifact item = PullRequestArtifact"
    and "cv_execution_target item = Some ExistingPullRequest \<Longrightarrow>
           has_pull_request_binding (cv_source_ref item) (cv_cure item) (cv_review item)"
  using assms by (auto simp: contract_problem_def Let_def split: if_splits)

lemma assert_known_actions_Inr [res_iffs]:
  "assert_known_actions as = Inr u \<longleftrightarrow> set as \<subseteq> set allowed_actions"
  by (auto simp: assert_known_actions_def res_iffs)

lemma assert_subset_Inr [res_iffs]: "assert_subset vs c = Inr u \<longleftrightarrow> set vs \<subseteq> set c"
  by (auto simp: assert_subset_def Let_def res_iffs filter_empty_conv)

lemma validate_repository_Inr [res_iffs]: "validate_repository r = Inr u \<longleftrightarrow> repository_slug r"
  by (simp add: validate_repository_def res_iffs)

lemma validate_source_ref_Inr [res_iffs]:
  "validate_source_ref s = Inr u \<longleftrightarrow>
     \<not> blank s \<and> s = trim s \<and> length s \<le> max_source_ref_length"
  by (auto simp: validate_source_ref_def res_iffs)

lemma assert_no_predecessors_Inr [res_iffs]:
  "assert_no_predecessors x = Inr u \<longleftrightarrow> (''predecessors'', True) \<notin> set x"
  by (simp add: assert_no_predecessors_def res_iffs)

lemma assert_deliverable_Inr [res_iffs]:
  "assert_deliverable d = Inr u \<longleftrightarrow>
     known_required_artifact (required_or_none (wd_required_artifact d)) \<and>
     known_execution_target (wd_execution_target d) \<and>
     contract_problem (definition_view d) = None"
  by (auto simp: assert_deliverable_def Let_def res_iffs split: option.splits)

lemma validate_work_definition_Inr:
  "validate_work_definition d = Inr u \<longleftrightarrow>
     work_kind_pattern (wd_kind d) \<and>
     (\<forall>p. wd_priority d = Some p \<longrightarrow> is_safe_integer p) \<and>
     \<not> blank (wd_objective d) \<and> \<not> blank (wd_instructions d) \<and>
     wd_acceptance_criteria d \<noteq> [] \<and> (\<forall>c \<in> set (wd_acceptance_criteria d). \<not> blank c) \<and>
     \<not> blank (wd_created_by d) \<and>
     set (wd_allowed_actions d) \<subseteq> set allowed_actions \<and>
     set (wd_delegable_actions d) \<subseteq> set allowed_actions \<and>
     known_required_artifact (required_or_none (wd_required_artifact d)) \<and>
     known_execution_target (wd_execution_target d) \<and>
     contract_problem (definition_view d) = None"
  by (auto simp: validate_work_definition_def res_iffs list_ex_iff split: option.splits)

lemma normalize_predecessors_Inr [res_iffs]:
  "normalize_predecessors vs = Inr r \<longleftrightarrow>
     (case vs of
        None \<Rightarrow> r = None
      | Some xs \<Rightarrow>
          length xs \<le> max_predecessors \<and>
          (\<forall>x \<in> set xs. length x \<le> max_source_ref_length \<and> predecessor_url_pattern x) \<and>
          r = (if xs = [] then None else Some (sorted_unique xs)))"
  by (auto simp: normalize_predecessors_def Let_def res_iffs split: option.splits)

end
