(* ===== verification/Web_Url.thy ===== *)
theory Web_Url
  imports Queue_Errors
begin

text \<open>
  The parts of the platform's URL class that the queue reads: \<open>new URL(s)\<close> for an absolute
  URL without a base, after the WHATWG algorithm for the special schemes (https, http, ws,
  wss, ftp). For any other scheme only the protocol is computed, which is all the code looks at before it
  refuses it. Two steps are left out, neither of which can turn another host into
  \<open>github.com\<close> on ASCII input: IDNA mapping of non-ASCII hosts and the canonical form of IP
  addresses (such hosts are kept as written, lowercased).
\<close>

record url =
  u_protocol :: string
  u_username :: string
  u_password :: string
  u_hostname :: string
  u_port :: string
  u_pathname :: string
  u_search :: string
  u_hash :: string

definition is_c0_or_space :: "char \<Rightarrow> bool" where
  "is_c0_or_space c = (code_unit c \<le> 32)"

definition url_strip :: "string \<Rightarrow> string" where
  "url_strip s =
     filter (\<lambda>c. code_unit c \<notin> {9, 10, 13})
       (rev (dropWhile is_c0_or_space (rev (dropWhile is_c0_or_space s))))"

definition scheme_char :: "char \<Rightarrow> bool" where
  "scheme_char c = (is_alnum c \<or> c \<in> set ''+-.'')"

text \<open>The scheme and what follows its colon.\<close>

definition split_scheme :: "string \<Rightarrow> (string \<times> string) option" where
  "split_scheme s =
     (let name = takeWhile (\<lambda>c. c \<noteq> CHR '':'') s in
      if length name < length s \<and>
         (case name of
            [] \<Rightarrow> False
          | c # cs \<Rightarrow> (is_lower_char c \<or> is_upper_char c) \<and> list_all scheme_char cs)
      then Some (to_lower name, drop (length name + 1) s) else None)"

definition special_schemes :: "string list" where
  "special_schemes = [''https'', ''http'', ''ws'', ''wss'', ''ftp'']"

definition default_port :: "string \<Rightarrow> int" where
  "default_port scheme =
     (if scheme \<in> {''https'', ''wss''} then 443 else if scheme = ''ftp'' then 21 else 80)"

definition is_slash :: "char \<Rightarrow> bool" where
  "is_slash c = (c = CHR ''/'' \<or> code_unit c = 92)"

definition ends_authority :: "char \<Rightarrow> bool" where
  "ends_authority c = (is_slash c \<or> c = CHR ''?'' \<or> c = CHR ''#'')"

text \<open>Everything before the last \<open>@\<close> of the authority, and the host part after it.\<close>

definition split_userinfo :: "string \<Rightarrow> string option \<times> string" where
  "split_userinfo authority =
     (let h = rev (takeWhile (\<lambda>c. c \<noteq> CHR ''@'') (rev authority)) in
      if length h = length authority then (None, h)
      else (Some (take (length authority - length h - 1) authority), h))"

definition split_first :: "char \<Rightarrow> string \<Rightarrow> string \<times> string" where
  "split_first c s = (let a = takeWhile (\<lambda>x. x \<noteq> c) s in (a, drop (length a + 1) s))"

definition split_host_port :: "string \<Rightarrow> string \<times> string" where
  "split_host_port s =
     (if prefix ''['' s
      then (let a = takeWhile (\<lambda>x. x \<noteq> CHR '']'') s; r = drop (length a) s in
            (a @ take 1 r, drop 2 r))
      else split_first CHR '':'' s)"

fun digit_value :: "int \<Rightarrow> string \<Rightarrow> int" where
  "digit_value n [] = n"
| "digit_value n (c # cs) = digit_value (10 * n + (code_unit c - 48)) cs"

definition decimal_value :: "string \<Rightarrow> int" where
  "decimal_value = digit_value 0"

definition hex_value :: "char \<Rightarrow> int" where
  "hex_value c =
     (if is_digit_char c then code_unit c - 48
      else if is_lower_char c then code_unit c - 87 else code_unit c - 55)"

text \<open>
  Percent-decoding. The URL parser keeps a \<open>%\<close> that is not followed by two hexadecimal
  digits; \<open>decodeURIComponent\<close> throws on it (\<open>None\<close>). A byte from 128 up stands for a part of
  a non-ASCII character, which no pattern of the queue accepts.
\<close>

fun percent_decode :: "string \<Rightarrow> string" where
  "percent_decode (p # a # b # cs) =
     (if p = CHR ''%'' \<and> is_hex_char a \<and> is_hex_char b
      then char_of (16 * hex_value a + hex_value b) # percent_decode cs
      else p # percent_decode (a # b # cs))"
| "percent_decode cs = cs"

fun decode_uri_component :: "string \<Rightarrow> string option" where
  "decode_uri_component [] = Some []"
| "decode_uri_component (p # cs) =
     (if p = CHR ''%'' then
        (case cs of
           a # b # ds \<Rightarrow>
             if is_hex_char a \<and> is_hex_char b
             then map_option ((#) (char_of (16 * hex_value a + hex_value b))) (decode_uri_component ds)
             else None
         | _ \<Rightarrow> None)
      else map_option ((#) p) (decode_uri_component cs))"

definition forbidden_host_char :: "char \<Rightarrow> bool" where
  "forbidden_host_char c =
     (code_unit c \<le> 32 \<or> code_unit c = 127 \<or> code_unit c = 92 \<or> c \<in> set ''#/:<>?@[]^|%'')"

definition parse_host :: "string \<Rightarrow> string option" where
  "parse_host s =
     (if prefix ''['' s then Some (to_lower s)
      else
        (let h = to_lower (percent_decode s) in
         if h = [] \<or> list_ex forbidden_host_char h then None else Some h))"

text \<open>The port as the URL reports it: empty when absent or the scheme's default.\<close>

definition port_digits :: "int \<Rightarrow> string" where
  "port_digits n =
     (let d = (\<lambda>k. char_of (48 + (n div k) mod 10));
          ds = map d [10000, 1000, 100, 10, 1] in
      (case dropWhile (\<lambda>c. c = CHR ''0'') ds of [] \<Rightarrow> ''0'' | cs \<Rightarrow> cs))"

definition parse_port :: "string \<Rightarrow> string \<Rightarrow> string option" where
  "parse_port scheme s =
     (if \<not> list_all is_digit_char s then None
      else if s = [] then Some []
      else if decimal_value s > 65535 then None
      else if decimal_value s = default_port scheme then Some []
      else Some (port_digits (decimal_value s)))"

subsection \<open>Paths\<close>

definition hex_digit_upper :: "int \<Rightarrow> char" where
  "hex_digit_upper n = char_of (if n < 10 then 48 + n else 55 + n)"

definition percent_byte :: "int \<Rightarrow> string" where
  "percent_byte n = [CHR ''%'', hex_digit_upper (n div 16), hex_digit_upper (n mod 16)]"

definition encode_path_char :: "char \<Rightarrow> string" where
  "encode_path_char c =
     (let n = code_unit c in
      if n \<le> 32 \<or> n = 127 \<or> n = 34 \<or> c \<in> set ''#<>?^`{}'' then percent_byte n
      else if n \<ge> 128 then percent_byte (192 + n div 64) @ percent_byte (128 + n mod 64)
      else [c])"

definition encode_path :: "string \<Rightarrow> string" where
  "encode_path s = concat (map encode_path_char s)"

fun split_slash :: "string \<Rightarrow> string list" where
  "split_slash [] = [ [] ]"
| "split_slash (x # xs) =
     (if is_slash x then [] # split_slash xs
      else (case split_slash xs of [] \<Rightarrow> [ [x] ] | p # ps \<Rightarrow> (x # p) # ps))"

definition single_dot :: "string \<Rightarrow> bool" where
  "single_dot s = (to_lower s \<in> {''.'', ''%2e''})"

definition double_dot :: "string \<Rightarrow> bool" where
  "double_dot s = (to_lower s \<in> {''..'', ''.%2e'', ''%2e.'', ''%2e%2e''})"

text \<open>Dot segments are removed as they are read; the accumulator is the path so far.\<close>

fun path_segments :: "string list \<Rightarrow> string list \<Rightarrow> string list" where
  "path_segments acc [] = acc"
| "path_segments acc [s] =
     (if double_dot s then butlast acc @ [ [] ]
      else if single_dot s then acc @ [ [] ]
      else acc @ [encode_path s])"
| "path_segments acc (s # t # ss) =
     (if double_dot s then path_segments (butlast acc) (t # ss)
      else if single_dot s then path_segments acc (t # ss)
      else path_segments (acc @ [encode_path s]) (t # ss))"

definition join_path :: "string list \<Rightarrow> string" where
  "join_path ps = concat (map (\<lambda>p. CHR ''/'' # p) ps)"

definition parse_path :: "string \<Rightarrow> string" where
  "parse_path s =
     join_path (path_segments [] (split_slash (case s of [] \<Rightarrow> [] | c # cs \<Rightarrow> if is_slash c then cs else s)))"

subsection \<open>The parser\<close>

definition parse_authority :: "string \<Rightarrow> string \<Rightarrow> (string \<times> string \<times> string \<times> string) option" where
  "parse_authority scheme authority =
     (case split_userinfo authority of
        (userinfo, hp) \<Rightarrow>
          (case split_host_port hp of
             (h, p) \<Rightarrow>
               (case parse_host h of
                  None \<Rightarrow> None
                | Some host \<Rightarrow>
                    (case parse_port scheme p of
                       None \<Rightarrow> None
                     | Some port \<Rightarrow>
                         (case userinfo of
                            None \<Rightarrow> Some ([], [], host, port)
                          | Some ui \<Rightarrow>
                              (case split_first CHR '':'' ui of
                                 (user, pass) \<Rightarrow> Some (user, pass, host, port)))))))"

definition parse_url :: "string \<Rightarrow> url option" where
  "parse_url input =
     (case split_scheme (url_strip input) of
        None \<Rightarrow> None
      | Some (scheme, rest) \<Rightarrow>
          if scheme \<notin> set special_schemes
          then Some \<lparr>u_protocol = scheme @ '':'', u_username = [], u_password = [], u_hostname = [],
                 u_port = [], u_pathname = [], u_search = [], u_hash = []\<rparr>
          else
            (let r = dropWhile is_slash rest;
                 authority = takeWhile (\<lambda>c. \<not> ends_authority c) r;
                 r1 = drop (length authority) r;
                 path = takeWhile (\<lambda>c. c \<noteq> CHR ''?'' \<and> c \<noteq> CHR ''#'') r1;
                 r2 = drop (length path) r1;
                 query = (if prefix ''?'' r2 then takeWhile (\<lambda>c. c \<noteq> CHR ''#'') r2 else []);
                 fragment = drop (length query) r2 in
             case parse_authority scheme authority of
               None \<Rightarrow> None
             | Some (user, pass, host, port) \<Rightarrow>
                 Some \<lparr>u_protocol = scheme @ '':'', u_username = user, u_password = pass,
                   u_hostname = host, u_port = port, u_pathname = parse_path path,
                   u_search = (if query = ''?'' then [] else query),
                   u_hash = (if fragment = ''#'' then [] else fragment)\<rparr>))"

lemma split_char_nonempty [simp]: "split_char c s \<noteq> []"
  by (induction s) (auto split: list.splits)

lemma split_slash_nonempty [simp]: "split_slash s \<noteq> []"
  by (induction s) (auto split: list.splits)

lemma parse_url_github_pull:
  "parse_url ''https://github.com/Acme/Tool/pull/12'' =
     Some \<lparr>u_protocol = ''https:'', u_username = [], u_password = [], u_hostname = ''github.com'',
       u_port = [], u_pathname = ''/Acme/Tool/pull/12'', u_search = [], u_hash = []\<rparr>"
  by code_simp

lemma parse_url_normalises:
  "map_option u_pathname (parse_url ''HTTPS://GitHub.com:443/a/./b/../c?q'') = Some ''/a/c''"
  by code_simp

lemma parse_url_credentials:
  "map_option u_username (parse_url ''https://u:p@github.com/'') = Some ''u''"
  by code_simp

lemma parse_url_bad_port: "parse_url ''https://github.com:x/'' = None"
  by code_simp

end
