(* ===== verification/Work_Records.thy ===== *)
theory Work_Records
  imports Work_Contract Web_Url
begin

text \<open>
  The structured records of the queue and their validators in \<open>src/src/queue/store.ts\<close>: cure
  and review bindings, review verdicts, results, artifacts and Snowcat's own verifications of
  them. Checks that a value is an array or a string are discharged by the types.
\<close>

subsection \<open>Cure and review records\<close>

definition validate_cure :: "pull_request_cure \<Rightarrow> unit res" where
  "validate_cure cure =
     and_then (require (pull_request_url (pc_pull_request_url cure)) (RecordError CureUrl)) (\<lambda>_.
     and_then (require (commit_sha (pc_head_sha cure)) (RecordError CureHeadSha)) (\<lambda>_.
     and_then (require (sha256_digest (pc_patch_digest cure)) (RecordError CurePatchDigest)) (\<lambda>_.
     require
       (pc_decay cure \<noteq> [] \<and> distinct (pc_decay cure) \<and>
        list_all (\<lambda>d. d \<in> {Behind, Dirty, FailingChecks, ChangesRequested, UnresolvedThreads, BadTitle})
          (pc_decay cure))
       (RecordError CureDecay))))"

definition blocker_fields :: "(string \<times> (review_blocker \<Rightarrow> string)) list" where
  "blocker_fields =
     [(''fingerprint'', rb_fingerprint), (''location'', rb_location), (''contract'', rb_contract),
      (''impact'', rb_impact), (''resolution'', rb_resolution), (''verification'', rb_verification)]"

fun check_blockers :: "string list \<Rightarrow> review_blocker list \<Rightarrow> unit res" where
  "check_blockers seen [] = Inr ()"
| "check_blockers seen (b # bs) =
     and_then
       (check_all (\<lambda>(name, field). require (\<not> blank (field b)) (RecordError (BlockerFieldRequired name)))
         blocker_fields) (\<lambda>_.
     and_then
       (require (rb_fingerprint b \<notin> set seen)
         (RecordError (BlockerFingerprintRepeated (rb_fingerprint b)))) (\<lambda>_.
     check_blockers (rb_fingerprint b # seen) bs))"

definition validate_review_blockers :: "review_blocker list \<Rightarrow> unit res" where
  "validate_review_blockers blockers =
     and_then
       (require (length blockers \<le> max_review_blockers) (RecordError TooManyBlockers)) (\<lambda>_.
     check_blockers [] blockers)"

definition validate_review_advisories :: "review_advisory list \<Rightarrow> unit res" where
  "validate_review_advisories advisories =
     and_then
       (require (length advisories \<le> max_review_advisories) (RecordError TooManyAdvisories)) (\<lambda>_.
     check_all
       (\<lambda>a.
          and_then
            (require (\<not> blank (ra_fingerprint a)) (RecordError (AdvisoryFieldRequired ''fingerprint''))) (\<lambda>_.
          require (\<not> blank (ra_text a)) (RecordError (AdvisoryFieldRequired ''text''))))
       advisories)"

definition known_decision :: "review_decision \<Rightarrow> bool" where
  "known_decision d = (d \<in> {Pass, Block, UnableToReview})"

definition validate_review_result :: "review_result \<Rightarrow> unit res" where
  "validate_review_result review =
     and_then (require (known_decision (rr_decision review)) (RecordError DecisionInvalid)) (\<lambda>_.
     and_then (validate_review_blockers (rr_blockers review)) (\<lambda>_.
     and_then (validate_review_advisories (rr_advisories review)) (\<lambda>_.
     and_then
       (require (\<not> (rr_decision review = Block \<and> rr_blockers review = []))
         (RecordError BlockWithoutBlocker)) (\<lambda>_.
     require (\<not> (rr_decision review = Pass \<and> rr_blockers review \<noteq> []))
       (RecordError PassWithBlocker)))))"

fun positive_round :: "jsnum \<Rightarrow> bool" where
  "positive_round (JInt n) = (1 \<le> n)"
| "positive_round JNonInt = False"

definition validate_review :: "pull_request_review \<Rightarrow> unit res" where
  "validate_review review =
     and_then (require (pull_request_url (pr_pull_request_url review)) (RecordError ReviewUrl)) (\<lambda>_.
     and_then (require (commit_sha (pr_head_sha review)) (RecordError ReviewHeadSha)) (\<lambda>_.
     and_then
       (require (case pr_patch_digest review of None \<Rightarrow> True | Some d \<Rightarrow> sha256_digest d)
         (RecordError ReviewPatchDigest)) (\<lambda>_.
     and_then (require (positive_round (pr_round review)) (RecordError ReviewRound)) (\<lambda>_.
     and_then (validate_review_blockers (pr_prior_blockers review)) (\<lambda>_.
     and_then
       (case pr_blockers review of None \<Rightarrow> Inr () | Some bs \<Rightarrow> validate_review_blockers bs) (\<lambda>_.
     and_then
       (case pr_advisories review of None \<Rightarrow> Inr () | Some as \<Rightarrow> validate_review_advisories as) (\<lambda>_.
     require (case pr_decision review of None \<Rightarrow> True | Some d \<Rightarrow> known_decision d)
       (RecordError DecisionInvalid))))))))"

subsection \<open>Verifications, artifacts and results\<close>

fun valid_number :: "jsnum \<Rightarrow> bool" where
  "valid_number (JInt n) = (is_safe_integer (JInt n) \<and> 1 \<le> n)"
| "valid_number JNonInt = False"

definition validate_handoff :: "handoff option \<Rightarrow> unit res" where
  "validate_handoff h =
     (case h of
        None \<Rightarrow> Inr ()
      | Some k \<Rightarrow>
          require (\<not> (blank (handoff_time k) \<or> blank (handoff_reason k)))
            (ResultError HandoffIncomplete))"

fun validate_verification :: "verification \<Rightarrow> unit res" where
  "validate_verification (Verified v) =
     and_then (require (valid_number (vo_number v)) (ResultError VerificationNumber)) (\<lambda>_.
     and_then
       (require (vo_state v \<in> {Open, Closed, Merged, Published, DraftRelease})
         (ResultError VerificationState)) (\<lambda>_.
     and_then (require (\<not> blank (vo_verified_at v)) (ResultError VerifiedAtRequired)) (\<lambda>_.
     validate_handoff (vo_handoff v))))"
| "validate_verification (Unverified at why) =
     require (\<not> (blank at \<or> blank why)) (ResultError UnverifiedIncomplete)"

definition verifiable_kind :: "artifact_kind \<Rightarrow> bool" where
  "verifiable_kind k = (k \<in> {Issue, PullRequest, Release})"

definition validate_artifact :: "work_artifact \<Rightarrow> unit res" where
  "validate_artifact artifact =
     and_then
       (case wa_verification artifact of
          None \<Rightarrow> Inr ()
        | Some v \<Rightarrow>
            and_then
              (require (verifiable_kind (wa_kind artifact))
                (ResultError (ArtifactCannotCarryVerification (wa_kind artifact)))) (\<lambda>_.
            validate_verification v)) (\<lambda>_.
     (case parse_url (wa_url artifact) of
        None \<Rightarrow> Inl (ResultError UrlInvalid)
      | Some url \<Rightarrow>
          and_then (require (u_protocol url = ''https:'') (ResultError UrlNotHttps)) (\<lambda>_.
          require (u_username url = [] \<and> u_password url = []) (ResultError UrlCredentials))))"

definition validate_result :: "work_result \<Rightarrow> unit res" where
  "validate_result result =
     and_then (require (\<not> blank (wr_summary result)) (ResultError SummaryRequired)) (\<lambda>_.
     and_then (require (\<not> list_ex blank (wr_evidence result)) (ResultError EvidenceEmpty)) (\<lambda>_.
     and_then
       (require (case wr_model result of None \<Rightarrow> True | Some m \<Rightarrow> model_name_pattern m)
         (ResultError ModelShape)) (\<lambda>_.
     check_all validate_artifact (wr_artifacts result))))"

text \<open>\<open>decodeTagSegment\<close>: an undecodable segment reads as empty.\<close>

definition decode_tag_segment :: "string \<Rightarrow> string" where
  "decode_tag_segment s = (case decode_uri_component s of None \<Rightarrow> [] | Some t \<Rightarrow> t)"

definition nth_or_empty :: "string list \<Rightarrow> nat \<Rightarrow> string" where
  "nth_or_empty xs i = (if i < length xs then xs ! i else [])"

definition commit_identifier :: "string \<Rightarrow> bool" where
  "commit_identifier s = (7 \<le> length s \<and> length s \<le> 64 \<and> list_all is_hex_char s)"

definition github_scope_ok :: "string \<Rightarrow> artifact_kind \<Rightarrow> url \<Rightarrow> bool" where
  "github_scope_ok repository kind url =
     (let parts = split_char CHR ''/'' repository;
          segments = split_char CHR ''/'' (u_pathname url);
          release = (kind = Release);
          expected_path =
            (if kind = Issue then ''issues'' else if kind = PullRequest then ''pull'' else ''commit'');
          identifier =
            (if release then decode_tag_segment (nth_or_empty segments 5) else nth_or_empty segments 4);
          valid_identifier =
            (if release then release_tag_pattern identifier
             else if kind = Commit then commit_identifier identifier
             else positive_numeral identifier);
          matches_repository =
            (to_lower (nth_or_empty segments 1) = to_lower (nth_or_empty parts 0) \<and>
             to_lower (nth_or_empty segments 2) = to_lower (nth_or_empty parts 1));
          matches_path =
            (if release then nth_or_empty segments 3 = ''releases'' \<and> nth_or_empty segments 4 = ''tag''
             else nth_or_empty segments 3 = expected_path) in
      to_lower (u_hostname url) = ''github.com'' \<and> u_port url = [] \<and> u_search url = [] \<and>
      u_hash url = [] \<and> length segments = (if release then 6 else 5) \<and>
      matches_repository \<and> matches_path \<and> valid_identifier)"

definition assert_github_artifact_scope :: "string \<Rightarrow> work_artifact \<Rightarrow> unit res" where
  "assert_github_artifact_scope repository artifact =
     (case parse_url (wa_url artifact) of
        None \<Rightarrow> Inl (ResultError UrlInvalid)
      | Some url \<Rightarrow>
          require (github_scope_ok repository (wa_kind artifact) url)
            (ResultError (ArtifactScope (wa_kind artifact) (wa_url artifact))))"

subsection \<open>What the validators accept\<close>

lemma check_blockers_Inr:
  "check_blockers seen bs = Inr u \<longleftrightarrow>
     (\<forall>b \<in> set bs. \<forall>(name, field) \<in> set blocker_fields. \<not> blank (field b)) \<and>
     distinct (map rb_fingerprint bs) \<and> set (map rb_fingerprint bs) \<inter> set seen = {}"
  by (induction bs arbitrary: seen) (auto simp: res_iffs)

lemma validate_review_blockers_Inr [res_iffs]:
  "validate_review_blockers bs = Inr u \<longleftrightarrow>
     length bs \<le> max_review_blockers \<and> distinct (map rb_fingerprint bs) \<and>
     (\<forall>b \<in> set bs. \<forall>(name, field) \<in> set blocker_fields. \<not> blank (field b))"
  by (auto simp: validate_review_blockers_def res_iffs check_blockers_Inr)

lemma validate_review_result_Inr:
  "validate_review_result r = Inr u \<Longrightarrow>
     known_decision (rr_decision r) \<and> length (rr_blockers r) \<le> max_review_blockers \<and>
     length (rr_advisories r) \<le> max_review_advisories \<and>
     (rr_decision r = Block \<longrightarrow> rr_blockers r \<noteq> []) \<and>
     (rr_decision r = Pass \<longrightarrow> rr_blockers r = [])"
  by (auto simp: validate_review_result_def validate_review_advisories_def res_iffs)

lemma validate_artifact_https:
  "validate_artifact a = Inr u \<Longrightarrow>
     \<exists>url. parse_url (wa_url a) = Some url \<and> u_protocol url = ''https:'' \<and>
       u_username url = [] \<and> u_password url = []"
  by (auto simp: validate_artifact_def res_iffs split: option.splits)

lemma assert_github_artifact_scope_Inr:
  "assert_github_artifact_scope r a = Inr u \<longleftrightarrow>
     (\<exists>url. parse_url (wa_url a) = Some url \<and> github_scope_ok r (wa_kind a) url)"
  by (auto simp: assert_github_artifact_scope_def res_iffs split: option.splits)

end
