(* ===== verification/Queue_Database.thy ===== *)
theory Queue_Database
  imports Work_Records
begin

text \<open>
  The queue database: the tables of the migration ladder of \<open>src/src/queue/store.ts\<close> (at its
  last rung) with the constraints and triggers the statements of the store run into, the
  decoding of rows into work items, and the private helpers every operation is built from.
  A table is the list of its rows in insertion (rowid) order. A JSON column holds the value its
  text encodes; \<open>BadJson\<close> is text that does not parse, which the decoders replace by their
  fallback.

  An operation takes a \<open>ctx\<close>: the readings of the injected clock in the order the operation
  makes them, the draws of \<open>randomUUID\<close>, the order in which SQLite returns rows its ORDER BY
  does not separate, and the two hooks of \<open>QueueStoreOptions\<close>, which may throw. It returns an
  error, and the transaction is rolled back, or a value and the new database.
\<close>

subsection \<open>Tables\<close>

datatype 'a json_col = SqlNull | Json 'a | BadJson

fun parse_json :: "'a json_col \<Rightarrow> 'a \<Rightarrow> 'a" where
  "parse_json (Json x) d = x"
| "parse_json _ d = d"

fun json_option :: "'a json_col \<Rightarrow> 'a option" where
  "json_option (Json x) = Some x"
| "json_option _ = None"

fun json_of_option :: "'a option \<Rightarrow> 'a json_col" where
  "json_of_option None = SqlNull"
| "json_of_option (Some x) = Json x"

datatype row_status = RQueued | RClaimed | RCompleted | RBlocked | RCancelled

record row =
  r_id :: string
  r_root_id :: string
  r_parent_id :: "string option"
  r_repository :: string
  r_kind :: string
  r_objective :: string
  r_instructions :: string
  r_acceptance_criteria :: "string list json_col"
  r_allowed_actions :: "action list json_col"
  r_delegable_actions :: "action list json_col"
  r_required_artifact :: required_artifact
  r_execution_target :: "execution_target option"
  r_policy :: "policy_record json_col"
  r_priority :: int
  r_status :: row_status
  r_admitted :: bool
  r_created_by :: string
  r_created_at :: timestamp
  r_updated_at :: timestamp
  r_source_ref :: "string option"
  r_predecessors :: "string list json_col"
  r_cure :: "pull_request_cure json_col"
  r_review :: "pull_request_review json_col"
  r_lease_owner :: "string option"
  r_lease_token :: "string option"
  r_lease_expires_at :: "timestamp option"
  r_result :: "work_result json_col"
  r_operator_notes :: "operator_note list json_col"
  r_previous_results :: "work_result list json_col"

record unreported_pull_request =
  up_url :: string
  up_number :: jsnum
  up_draft :: bool
  up_created_at :: "string option"

record unreported_observation =
  uo_observed_at :: string
  uo_pull_requests :: "unreported_pull_request list"

datatype issue_outcome = IssueCreated | IssueExisting

record labeled_issue =
  li_url :: string
  li_title :: string
  li_seen_at :: timestamp
  li_outcome :: issue_outcome

record labeled_issue_observations =
  lo_issues :: "labeled_issue list"
  lo_truncated :: bool

record repo_row =
  rp_slug :: string
  rp_enabled :: bool
  rp_cure_foreign :: bool
  rp_review_gate :: bool
  rp_unreported :: "unreported_observation json_col"
  rp_labeled_issues :: "labeled_issue_observations json_col"
  rp_created_at :: timestamp
  rp_updated_at :: timestamp

record token_row =
  tk_id :: string
  tk_owner :: string
  tk_client :: string
  tk_token_hash :: string
  tk_created_at :: timestamp
  tk_kinds :: "string list json_col"
  tk_tools :: "string list json_col"
  tk_last_used_at :: "timestamp option"
  tk_revoked_at :: "timestamp option"
  tk_revoked_by :: "string option"

text \<open>Event type and payload of one ledger row; the payload's optional members are options.\<close>

datatype event_body =
    EvQueued "(string \<times> string \<times> pull_request_decay list) option"
      "(string \<times> string \<times> string \<times> jsnum \<times> string option \<times> string list option) option"
  | EvProposedRoot string "string list option"
  | EvProposedChild string string
  | EvPredecessorsUpdated "string list" "string list"
  | EvClaimed timestamp "string option" "string list option" "string list option"
  | EvLeaseExpired "string option" "timestamp option"
  | EvLeaseRenewed timestamp
  | EvCompleted "string list" nat "string option"
  | EvReviewed review_decision jsnum string string "string list"
  | EvBlocked string
  | EvReleased string "(string option \<times> timestamp option) option"
  | EvApproved "(string \<times> string option \<times> action list) option"
  | EvDeferred string
  | EvNoted string
  | EvPrioritized int int string
  | EvRejected string
  | EvRequeued string
  | EvCancelled string
  | EvArtifactReady string string string
  | EvArtifactVerified string artifact_kind "observed_state option" "observed_state option"
      "handoff option" "handoff option"
  | EvArtifactAttached string artifact_kind "observed_state option"

record event_row =
  ev_sequence :: nat
  ev_item :: string
  ev_body :: event_body
  ev_actor :: string
  ev_occurred_at :: timestamp

record store =
  st_repositories :: "repo_row list"
  st_items :: "row list"
  st_events :: "event_row list"
  st_sequence :: nat
  st_tokens :: "token_row list"
  st_user_version :: nat

definition schema_version :: nat where "schema_version = 17"

subsection \<open>The context of one operation\<close>

record policy_authority =
  pa_core_snapshot_id :: string
  pa_repository_commit_id :: "string option"
  pa_action_ceiling :: "action list"
  pa_default_decision :: policy_decision
  pa_action_decisions :: "(action \<times> policy_decision) list"
  pa_protected_boundaries :: "policy_boundary list"

record ctx =
  cx_clock :: "nat \<Rightarrow> timestamp"
  cx_uuid :: "nat \<Rightarrow> string"
  cx_tie :: "string \<Rightarrow> nat"
  cx_claim_eligibility :: "(string \<Rightarrow> bool res) option"
  cx_policy_authority :: "(string \<Rightarrow> policy_authority option res) option"

subsection \<open>Decoding\<close>

definition logical_status :: "row \<Rightarrow> work_status" where
  "logical_status r =
     (case r_status r of
        RQueued \<Rightarrow> if r_admitted r then Queued else Proposed
      | RClaimed \<Rightarrow> Claimed
      | RCompleted \<Rightarrow> Completed
      | RBlocked \<Rightarrow> Blocked
      | RCancelled \<Rightarrow> Cancelled)"

definition decode_required_artifact :: "required_artifact \<Rightarrow> required_artifact" where
  "decode_required_artifact v = (if v = PullRequestArtifact then PullRequestArtifact else NoArtifact)"

definition decode_execution_target :: "execution_target option \<Rightarrow> execution_target option" where
  "decode_execution_target t = (if known_execution_target t then t else None)"

definition decode_work_item :: "row \<Rightarrow> work_item" where
  "decode_work_item r =
     \<lparr>wi_id = r_id r, wi_root_id = r_root_id r, wi_parent_id = r_parent_id r,
      wi_repository = r_repository r, wi_kind = r_kind r, wi_objective = r_objective r,
      wi_instructions = r_instructions r,
      wi_acceptance_criteria = parse_json (r_acceptance_criteria r) [],
      wi_allowed_actions = parse_json (r_allowed_actions r) [],
      wi_delegable_actions = parse_json (r_delegable_actions r) [],
      wi_required_artifact = decode_required_artifact (r_required_artifact r),
      wi_execution_target = decode_execution_target (r_execution_target r),
      wi_policy = json_option (r_policy r),
      wi_priority = r_priority r, wi_status = logical_status r, wi_created_by = r_created_by r,
      wi_source_ref = r_source_ref r,
      wi_predecessors =
        (case r_predecessors r of SqlNull \<Rightarrow> None | c \<Rightarrow> Some (parse_json c [])),
      wi_cure = json_option (r_cure r), wi_review = json_option (r_review r),
      wi_created_at = r_created_at r, wi_updated_at = r_updated_at r,
      wi_lease_owner = r_lease_owner r, wi_lease_token = r_lease_token r,
      wi_lease_expires_at = r_lease_expires_at r,
      wi_result = json_option (r_result r), wi_delivery = None,
      wi_operator_notes = parse_json (r_operator_notes r) [],
      wi_previous_results = parse_json (r_previous_results r) []\<rparr>"

definition with_delivery :: "work_item \<Rightarrow> work_item" where
  "with_delivery item =
     (if wi_status item \<noteq> Completed then item
      else item\<lparr>wi_delivery := Some (derive_delivery (wi_result item))\<rparr>)"

definition item_of :: "row \<Rightarrow> work_item" where
  "item_of r = with_delivery (decode_work_item r)"

subsection \<open>Statements\<close>

definition find_row :: "string \<Rightarrow> store \<Rightarrow> row option" where
  "find_row id' s = List.find (\<lambda>r. r_id r = id') (st_items s)"

definition get_item :: "string \<Rightarrow> store \<Rightarrow> work_item option" where
  "get_item id' s = map_option item_of (find_row id' s)"

definition get_required :: "string \<Rightarrow> store \<Rightarrow> work_item res" where
  "get_required id' s =
     (case get_item id' s of
        None \<Rightarrow> Inl (StateError (ItemNotFound id'))
      | Some item \<Rightarrow> Inr item)"

definition update_row :: "string \<Rightarrow> (row \<Rightarrow> row) \<Rightarrow> store \<Rightarrow> store" where
  "update_row id' f s =
     s\<lparr>st_items := map (\<lambda>r. if r_id r = id' then f r else r) (st_items s)\<rparr>"

text \<open>
  An UPDATE that sets \<open>status\<close> fires the trigger \<open>work_items_claim_requires_admission\<close>, which
  aborts it where the new status is \<open>claimed\<close> and either version of the row is not admitted.
\<close>

definition update_claim :: "string \<Rightarrow> (row \<Rightarrow> row) \<Rightarrow> store \<Rightarrow> store res" where
  "update_claim id' f s =
     (if list_ex (\<lambda>r. r_id r = id' \<and> r_status (f r) = RClaimed \<and>
           (\<not> r_admitted r \<or> \<not> r_admitted (f r))) (st_items s)
      then Inl (StorageError ClaimRequiresAdmission)
      else Inr (update_row id' f s))"

definition find_repository :: "string \<Rightarrow> store \<Rightarrow> repo_row option" where
  "find_repository slug s = List.find (\<lambda>r. rp_slug r = slug) (st_repositories s)"

definition update_repository :: "string \<Rightarrow> (repo_row \<Rightarrow> repo_row) \<Rightarrow> store \<Rightarrow> store" where
  "update_repository slug f s =
     s\<lparr>st_repositories := map (\<lambda>r. if rp_slug r = slug then f r else r) (st_repositories s)\<rparr>"

definition source_ref_exists :: "string \<Rightarrow> string \<Rightarrow> store \<Rightarrow> bool" where
  "source_ref_exists repository source_ref s =
     list_ex (\<lambda>r. r_repository r = repository \<and> r_source_ref r = Some source_ref) (st_items s)"

text \<open>
  INSERT INTO work_items: the trigger on children, the primary key, the two foreign keys and
  the partial unique index on \<open>(repository, source_ref)\<close>.
\<close>

definition insert_row :: "row \<Rightarrow> store \<Rightarrow> store res" where
  "insert_row r s =
     and_then
       (require (\<not> (r_parent_id r \<noteq> None \<and> r_admitted r)) (StorageError ChildrenStartProposed)) (\<lambda>_.
     and_then (require (find_row (r_id r) s = None) (StorageError (DuplicateItemId (r_id r)))) (\<lambda>_.
     and_then
       (case r_parent_id r of
          None \<Rightarrow> Inr ()
        | Some p \<Rightarrow> require (find_row p s \<noteq> None) (StorageError (UnknownParentKey p))) (\<lambda>_.
     and_then
       (require (find_repository (r_repository r) s \<noteq> None)
         (StorageError (UnknownRepositoryKey (r_repository r)))) (\<lambda>_.
     and_then
       (case r_source_ref r of
          None \<Rightarrow> Inr ()
        | Some ref \<Rightarrow>
            require (\<not> source_ref_exists (r_repository r) ref s)
              (StorageError (DuplicateSourceRef (r_repository r) ref))) (\<lambda>_.
     Inr (s\<lparr>st_items := st_items s @ [r]\<rparr>))))))"

definition add_event :: "string \<Rightarrow> event_body \<Rightarrow> string \<Rightarrow> timestamp \<Rightarrow> store \<Rightarrow> store" where
  "add_event id' body actor at s =
     s\<lparr>st_events := st_events s @
         [\<lparr>ev_sequence = Suc (st_sequence s), ev_item = id', ev_body = body, ev_actor = actor,
           ev_occurred_at = at\<rparr>],
       st_sequence := Suc (st_sequence s)\<rparr>"

definition assert_supported_schema_version :: "store \<Rightarrow> unit res" where
  "assert_supported_schema_version s =
     require (st_user_version s \<le> schema_version) (StorageError (SchemaNewer (st_user_version s)))"

text \<open>
  \<open>BEGIN IMMEDIATE\<close>, the version check, the operation, then COMMIT; an error of the check or of
  the operation is the transaction's, and ROLLBACK leaves the database as it was, so the
  caller of a failed operation keeps the store it had.
\<close>

definition transaction :: "(store \<Rightarrow> ('a \<times> store) res) \<Rightarrow> store \<Rightarrow> ('a \<times> store) res" where
  "transaction operation s =
     and_then (assert_supported_schema_version s) (\<lambda>_. operation s)"

definition assert_repository_enabled :: "string \<Rightarrow> store \<Rightarrow> unit res" where
  "assert_repository_enabled repository s =
     and_then (validate_repository repository) (\<lambda>_.
     require
       (case find_repository repository s of None \<Rightarrow> False | Some r \<Rightarrow> rp_enabled r)
       (DefinitionError (RepositoryNotOptedIn repository)))"

definition assert_active_lease :: "string \<Rightarrow> string \<Rightarrow> string \<Rightarrow> timestamp \<Rightarrow> store \<Rightarrow> work_item res" where
  "assert_active_lease id' lease_token worker now s =
     and_then (get_required id' s) (\<lambda>item.
     and_then (require (wi_status item = Claimed) (StateError (NotClaimed id'))) (\<lambda>_.
     and_then
       (require (wi_lease_token item = Some lease_token \<and> wi_lease_owner item = Some worker)
         (StateError LeaseMismatch)) (\<lambda>_.
     and_then
       (require (case wi_lease_expires_at item of None \<Rightarrow> False | Some e \<Rightarrow> now < e)
         (StateError LeaseHasExpired)) (\<lambda>_.
     Inr item))))"

type_synonym precondition = "(work_status \<times> timestamp) option"

definition assert_precondition :: "work_item \<Rightarrow> precondition \<Rightarrow> unit res" where
  "assert_precondition item pre =
     (case pre of
        None \<Rightarrow> Inr ()
      | Some (status, updated_at) \<Rightarrow>
          require (wi_status item = status \<and> wi_updated_at item = updated_at)
            (StateError (PreconditionMismatch (wi_id item) (wi_status item) (wi_updated_at item))))"

definition default_lease_seconds :: int where "default_lease_seconds = 15 * 60"
definition max_lease_seconds :: int where "max_lease_seconds = 60 * 60"

fun bounded_lease :: "jsnum option \<Rightarrow> int res" where
  "bounded_lease None = Inr default_lease_seconds"
| "bounded_lease (Some JNonInt) = Inl (StateError LeaseSecondsInvalid)"
| "bounded_lease (Some (JInt n)) =
     (if n < 30 \<or> n > max_lease_seconds then Inl (StateError LeaseSecondsInvalid) else Inr n)"

definition max_operator_note_length :: nat where "max_operator_note_length = 4000"

definition validate_operator_note_reason :: "string \<Rightarrow> unit res" where
  "validate_operator_note_reason reason =
     and_then (require (\<not> blank reason) (StateError ReasonRequired)) (\<lambda>_.
     require (length reason \<le> max_operator_note_length) (StateError ReasonTooLong))"

definition append_operator_note :: "work_item \<Rightarrow> operator_note \<Rightarrow> operator_note list json_col" where
  "append_operator_note item note' = Json (wi_operator_notes item @ [note'])"

definition reason_result :: "string \<Rightarrow> work_result" where
  "reason_result reason =
     \<lparr>wr_summary = reason, wr_evidence = [], wr_artifacts = [], wr_model = None\<rparr>"

end
