(* ===== verification/Database_Laws.thy ===== *)
theory Database_Laws
  imports Queue_Database
begin

text \<open>
  The laws the operations rest on. \<open>keyed_table\<close> is the interface of a table updated by primary
  key, interpreted on the work items and on the repositories. \<open>item_mutation\<close> is the contract
  most operations share: a success writes one row and appends one event, keeps the row's
  definition and moves its logical status along one of the operation's edges. The theories of
  the operations interpret it for each of them.
\<close>

subsection \<open>Fields of decoded rows\<close>

lemma item_of_simps [simp]:
  "wi_id (item_of r) = r_id r"
  "wi_root_id (item_of r) = r_root_id r"
  "wi_parent_id (item_of r) = r_parent_id r"
  "wi_repository (item_of r) = r_repository r"
  "wi_kind (item_of r) = r_kind r"
  "wi_allowed_actions (item_of r) = parse_json (r_allowed_actions r) []"
  "wi_delegable_actions (item_of r) = parse_json (r_delegable_actions r) []"
  "wi_required_artifact (item_of r) = decode_required_artifact (r_required_artifact r)"
  "wi_execution_target (item_of r) = decode_execution_target (r_execution_target r)"
  "wi_policy (item_of r) = json_option (r_policy r)"
  "wi_priority (item_of r) = r_priority r"
  "wi_status (item_of r) = logical_status r"
  "wi_created_by (item_of r) = r_created_by r"
  "wi_source_ref (item_of r) = r_source_ref r"
  "wi_predecessors (item_of r) =
     (case r_predecessors r of SqlNull \<Rightarrow> None | c \<Rightarrow> Some (parse_json c []))"
  "wi_cure (item_of r) = json_option (r_cure r)"
  "wi_review (item_of r) = json_option (r_review r)"
  "wi_created_at (item_of r) = r_created_at r"
  "wi_updated_at (item_of r) = r_updated_at r"
  "wi_lease_owner (item_of r) = r_lease_owner r"
  "wi_lease_token (item_of r) = r_lease_token r"
  "wi_lease_expires_at (item_of r) = r_lease_expires_at r"
  "wi_result (item_of r) = json_option (r_result r)"
  "wi_operator_notes (item_of r) = parse_json (r_operator_notes r) []"
  "wi_previous_results (item_of r) = parse_json (r_previous_results r) []"
  by (simp_all add: item_of_def with_delivery_def decode_work_item_def)

lemma json_of_option_inverse [simp]:
  "json_option (json_of_option x) = x" "json_of_option x = SqlNull \<longleftrightarrow> x = None"
  by (cases x; simp)+

lemma logical_status_simps [simp]:
  "logical_status r = Claimed \<longleftrightarrow> r_status r = RClaimed"
  "logical_status r = Completed \<longleftrightarrow> r_status r = RCompleted"
  "logical_status r = Blocked \<longleftrightarrow> r_status r = RBlocked"
  "logical_status r = Cancelled \<longleftrightarrow> r_status r = RCancelled"
  "logical_status r = Queued \<longleftrightarrow> r_status r = RQueued \<and> r_admitted r"
  "logical_status r = Proposed \<longleftrightarrow> r_status r = RQueued \<and> \<not> r_admitted r"
  by (simp_all add: logical_status_def split: row_status.splits)

lemma logical_status_update [simp]:
  "logical_status (r\<lparr>r_repository := a\<rparr>) = logical_status r"
  "logical_status (r\<lparr>r_policy := b\<rparr>) = logical_status r"
  "logical_status (r\<lparr>r_priority := c\<rparr>) = logical_status r"
  "logical_status (r\<lparr>r_updated_at := d\<rparr>) = logical_status r"
  "logical_status (r\<lparr>r_predecessors := e\<rparr>) = logical_status r"
  "logical_status (r\<lparr>r_review := f\<rparr>) = logical_status r"
  "logical_status (r\<lparr>r_lease_owner := g\<rparr>) = logical_status r"
  "logical_status (r\<lparr>r_lease_token := h\<rparr>) = logical_status r"
  "logical_status (r\<lparr>r_lease_expires_at := i\<rparr>) = logical_status r"
  "logical_status (r\<lparr>r_result := j\<rparr>) = logical_status r"
  "logical_status (r\<lparr>r_operator_notes := k\<rparr>) = logical_status r"
  "logical_status (r\<lparr>r_previous_results := l\<rparr>) = logical_status r"
  by (simp_all add: logical_status_def cong: row_status.case_cong)

lemma logical_status_at:
  "r_status r = RQueued \<Longrightarrow> logical_status r = (if r_admitted r then Queued else Proposed)"
  "r_status r = RClaimed \<Longrightarrow> logical_status r = Claimed"
  "r_status r = RCompleted \<Longrightarrow> logical_status r = Completed"
  "r_status r = RBlocked \<Longrightarrow> logical_status r = Blocked"
  "r_status r = RCancelled \<Longrightarrow> logical_status r = Cancelled"
  by (simp_all add: logical_status_def)

subsection \<open>Tables updated by key\<close>

locale keyed_table =
  fixes rows :: "'s \<Rightarrow> 'r list"
    and key :: "'r \<Rightarrow> 'k"
    and lookup :: "'k \<Rightarrow> 's \<Rightarrow> 'r option"
    and modify :: "'k \<Rightarrow> ('r \<Rightarrow> 'r) \<Rightarrow> 's \<Rightarrow> 's"
  assumes lookup_find: "lookup k s = List.find (\<lambda>r. key r = k) (rows s)"
    and rows_modify: "rows (modify k f s) = map (\<lambda>r. if key r = k then f r else r) (rows s)"
begin

lemma lookup_SomeD: "lookup k s = Some r \<Longrightarrow> r \<in> set (rows s) \<and> key r = k"
  by (auto simp: lookup_find dest: find_SomeD)

lemma lookup_None_iff: "lookup k s = None \<longleftrightarrow> k \<notin> key ` set (rows s)"
  by (auto simp: lookup_find find_None_iff)

lemma lookup_in_rows:
  assumes "distinct (map key (rows s))" and "r \<in> set (rows s)"
  shows "lookup (key r) s = Some r"
proof -
  have "lookup (key r) s \<noteq> None" using assms(2) by (simp add: lookup_None_iff)
  then obtain r' where r': "lookup (key r) s = Some r'" by blast
  then have "r' \<in> set (rows s)" "key r' = key r" by (auto dest: lookup_SomeD)
  with assms have "r' = r" by (auto simp: distinct_map inj_on_def)
  with r' show ?thesis by simp
qed

lemma lookup_modify:
  assumes "\<And>r. key (f r) = key r"
  shows "lookup j (modify k f s) = (if j = k then map_option f (lookup j s) else lookup j s)"
proof -
  have "List.find (\<lambda>r. key r = j) (map (\<lambda>r. if key r = k then f r else r) xs) =
      (if j = k then map_option f (List.find (\<lambda>r. key r = j) xs)
       else List.find (\<lambda>r. key r = j) xs)" for xs
    using assms by (induction xs) auto
  then show ?thesis by (simp add: lookup_find rows_modify)
qed

lemma keys_modify:
  "(\<And>r. key (f r) = key r) \<Longrightarrow> map key (rows (modify k f s)) = map key (rows s)"
  by (simp add: rows_modify comp_def)

lemma modified_row:
  "r' \<in> set (rows (modify k f s)) \<Longrightarrow>
     \<exists>r \<in> set (rows s). r' = (if key r = k then f r else r)"
  by (auto simp: rows_modify)

lemma modify_all:
  assumes "\<forall>r \<in> set (rows s). P r" and "\<And>r. r \<in> set (rows s) \<Longrightarrow> key r = k \<Longrightarrow> P r \<Longrightarrow> P (f r)"
  shows "\<forall>r \<in> set (rows (modify k f s)). P r"
  using assms by (auto simp: rows_modify)

end

interpretation item_table: keyed_table st_items r_id find_row update_row
  by unfold_locales (simp_all add: find_row_def update_row_def)

interpretation repo_table: keyed_table st_repositories rp_slug find_repository update_repository
  by unfold_locales (simp_all add: find_repository_def update_repository_def)

subsection \<open>Statements and the parts of the store they leave alone\<close>

lemma add_event_simps [simp]:
  "st_items (add_event i b a t s) = st_items s"
  "st_repositories (add_event i b a t s) = st_repositories s"
  "st_tokens (add_event i b a t s) = st_tokens s"
  "st_user_version (add_event i b a t s) = st_user_version s"
  "st_sequence (add_event i b a t s) = Suc (st_sequence s)"
  "find_row j (add_event i b a t s) = find_row j s"
  "find_repository g (add_event i b a t s) = find_repository g s"
  by (simp_all add: add_event_def find_row_def find_repository_def)

lemma st_events_add_event:
  "st_events (add_event i b a t s) =
     st_events s @ [\<lparr>ev_sequence = Suc (st_sequence s), ev_item = i, ev_body = b, ev_actor = a,
       ev_occurred_at = t\<rparr>]"
  by (simp add: add_event_def)

lemma update_row_simps [simp]:
  "st_events (update_row i f s) = st_events s"
  "st_repositories (update_row i f s) = st_repositories s"
  "st_tokens (update_row i f s) = st_tokens s"
  "st_user_version (update_row i f s) = st_user_version s"
  "st_sequence (update_row i f s) = st_sequence s"
  "find_repository g (update_row i f s) = find_repository g s"
  by (simp_all add: update_row_def find_repository_def)

lemma update_repository_simps [simp]:
  "st_events (update_repository g f s) = st_events s"
  "st_items (update_repository g f s) = st_items s"
  "st_tokens (update_repository g f s) = st_tokens s"
  "st_user_version (update_repository g f s) = st_user_version s"
  "st_sequence (update_repository g f s) = st_sequence s"
  "find_row j (update_repository g f s) = find_row j s"
  by (simp_all add: update_repository_def find_row_def)

lemma insert_row_Inr [res_iffs]:
  "insert_row r s = Inr s' \<longleftrightarrow>
     s' = s\<lparr>st_items := st_items s @ [r]\<rparr> \<and>
     (r_parent_id r \<noteq> None \<longrightarrow> \<not> r_admitted r) \<and> find_row (r_id r) s = None \<and>
     (\<forall>p. r_parent_id r = Some p \<longrightarrow> find_row p s \<noteq> None) \<and>
     find_repository (r_repository r) s \<noteq> None \<and>
     (\<forall>ref. r_source_ref r = Some ref \<longrightarrow> \<not> source_ref_exists (r_repository r) ref s)"
  by (auto simp: insert_row_def res_iffs split: option.splits)

lemma find_row_append:
  "find_row j (s\<lparr>st_items := st_items s @ [r]\<rparr>) =
     (case find_row j s of Some x \<Rightarrow> Some x | None \<Rightarrow> if r_id r = j then Some r else None)"
proof -
  have "List.find P (xs @ [r]) =
      (case List.find P xs of Some x \<Rightarrow> Some x | None \<Rightarrow> if P r then Some r else None)" for P xs
    by (induction xs) auto
  then show ?thesis by (simp add: find_row_def)
qed

lemma source_ref_exists_iff:
  "source_ref_exists g ref s \<longleftrightarrow>
     (\<exists>r \<in> set (st_items s). r_repository r = g \<and> r_source_ref r = Some ref)"
  by (auto simp: source_ref_exists_def list_ex_iff)

lemma get_required_Inr [res_iffs]:
  "get_required i s = Inr item \<longleftrightarrow> (\<exists>r. find_row i s = Some r \<and> item = item_of r)"
  by (auto simp: get_required_def get_item_def split: option.splits)

lemma get_required_row: "find_row i s = Some r \<Longrightarrow> get_required i s = Inr (item_of r)"
  by (simp add: get_required_def get_item_def)

lemma transaction_Inr [res_iffs]:
  "transaction f s = Inr r \<longleftrightarrow> st_user_version s \<le> schema_version \<and> f s = Inr r"
  by (auto simp: transaction_def assert_supported_schema_version_def res_iffs)

lemma assert_repository_enabled_Inr [res_iffs]:
  "assert_repository_enabled g s = Inr u \<longleftrightarrow>
     repository_slug g \<and> (\<exists>r. find_repository g s = Some r \<and> rp_enabled r)"
  by (auto simp: assert_repository_enabled_def res_iffs split: option.splits)

lemma assert_active_lease_Inr [res_iffs]:
  "assert_active_lease i tok w now s = Inr item \<longleftrightarrow>
     (\<exists>r e. find_row i s = Some r \<and> item = item_of r \<and> r_status r = RClaimed \<and>
        r_lease_token r = Some tok \<and> r_lease_owner r = Some w \<and>
        r_lease_expires_at r = Some e \<and> now < e)"
  by (auto simp: assert_active_lease_def res_iffs split: option.splits)

lemma assert_precondition_Inr [res_iffs]:
  "assert_precondition item pre = Inr u \<longleftrightarrow>
     (\<forall>st at. pre = Some (st, at) \<longrightarrow> wi_status item = st \<and> wi_updated_at item = at)"
  by (cases pre) (auto simp: assert_precondition_def res_iffs)

lemma bounded_lease_Inr [res_iffs]:
  "bounded_lease n = Inr k \<longleftrightarrow>
     n = None \<and> k = default_lease_seconds \<or> n = Some (JInt k) \<and> 30 \<le> k \<and> k \<le> max_lease_seconds"
  by (cases n rule: bounded_lease.cases) auto

lemma bounded_lease_bounds:
  "bounded_lease n = Inr k \<Longrightarrow> 30 \<le> k \<and> k \<le> max_lease_seconds"
  by (auto simp: res_iffs default_lease_seconds_def max_lease_seconds_def)

lemma validate_operator_note_reason_Inr [res_iffs]:
  "validate_operator_note_reason x = Inr u \<longleftrightarrow>
     \<not> blank x \<and> length x \<le> max_operator_note_length"
  by (auto simp: validate_operator_note_reason_def res_iffs)

lemma update_claim_Inr [res_iffs]:
  "update_claim i f s = Inr s' \<longleftrightarrow>
     s' = update_row i f s \<and>
     (\<forall>r \<in> set (st_items s). r_id r = i \<longrightarrow> r_status (f r) = RClaimed \<longrightarrow>
        r_admitted r \<and> r_admitted (f r))"
  by (auto simp: update_claim_def list_ex_iff)

subsection \<open>Definitions never change\<close>

text \<open>The columns no statement sets after the row is inserted.\<close>

definition same_definition :: "row \<Rightarrow> row \<Rightarrow> bool" where
  "same_definition r r' =
     (r_id r' = r_id r \<and> r_root_id r' = r_root_id r \<and> r_parent_id r' = r_parent_id r \<and>
      r_kind r' = r_kind r \<and> r_objective r' = r_objective r \<and>
      r_instructions r' = r_instructions r \<and>
      r_acceptance_criteria r' = r_acceptance_criteria r \<and>
      r_allowed_actions r' = r_allowed_actions r \<and>
      r_delegable_actions r' = r_delegable_actions r \<and>
      r_required_artifact r' = r_required_artifact r \<and>
      r_execution_target r' = r_execution_target r \<and>
      r_created_by r' = r_created_by r \<and> r_created_at r' = r_created_at r \<and>
      r_source_ref r' = r_source_ref r \<and> r_cure r' = r_cure r)"

lemma same_definition_refl [simp]: "same_definition r r"
  by (simp add: same_definition_def)

lemma same_definition_trans:
  "same_definition a b \<Longrightarrow> same_definition b c \<Longrightarrow> same_definition a c"
  by (simp add: same_definition_def)

lemma same_definition_id: "same_definition r r' \<Longrightarrow> r_id r' = r_id r"
  by (simp add: same_definition_def)

subsection \<open>The shape of a single-row mutation\<close>

text \<open>
  \<open>mutates\<close> says what a successful mutation did: the row it found, the update and the event it
  wrote. The lease and result columns of the new row are tied to its status by
  \<open>lease_consistent\<close> and \<open>result_consistent\<close>, which every operation keeps.
\<close>

definition lease_consistent :: "row \<Rightarrow> bool" where
  "lease_consistent r =
     (if r_status r = RClaimed
      then r_lease_owner r \<noteq> None \<and> r_lease_token r \<noteq> None \<and> r_lease_expires_at r \<noteq> None
      else r_lease_owner r = None \<and> r_lease_token r = None \<and> r_lease_expires_at r = None)"

definition result_consistent :: "row \<Rightarrow> bool" where
  "result_consistent r =
     ((r_status r = RQueued \<or> r_status r = RClaimed \<longrightarrow> r_result r = SqlNull) \<and>
      (r_status r = RCompleted \<or> r_status r = RBlocked \<or> r_status r = RCancelled \<longrightarrow>
         (\<exists>w. r_result r = Json w)) \<and>
      (r_status r = RClaimed \<or> r_status r = RCompleted \<or> r_status r = RBlocked \<longrightarrow> r_admitted r))"

definition row_consistent :: "row \<Rightarrow> bool" where
  "row_consistent r = (lease_consistent r \<and> result_consistent r)"

text \<open>The status the ledger implies for an item, event by event.\<close>

fun replay_status :: "event_body \<Rightarrow> work_status option \<Rightarrow> work_status option" where
  "replay_status (EvQueued _ _) _ = Some Queued"
| "replay_status (EvProposedRoot _ _) _ = Some Proposed"
| "replay_status (EvProposedChild _ _) _ = Some Proposed"
| "replay_status (EvClaimed _ _ _ _) _ = Some Claimed"
| "replay_status (EvLeaseExpired _ _) _ = Some Queued"
| "replay_status (EvCompleted _ _ _) _ = Some Completed"
| "replay_status (EvBlocked _) _ = Some Blocked"
| "replay_status (EvReleased _ _) _ = Some Queued"
| "replay_status (EvApproved _) _ = Some Queued"
| "replay_status (EvDeferred _) _ = Some Proposed"
| "replay_status (EvRejected _) _ = Some Cancelled"
| "replay_status (EvRequeued _) _ = Some Queued"
| "replay_status (EvCancelled _) _ = Some Cancelled"
| "replay_status _ st = st"

definition mutates ::
    "(work_status \<times> work_status) set \<Rightarrow> string \<Rightarrow> store \<Rightarrow> work_item \<times> store \<Rightarrow> bool" where
  "mutates edges id' s out =
     (\<exists>r f body actor at.
        find_row id' s = Some r \<and>
        out = (item_of (f r), add_event id' body actor at (update_row id' f s)) \<and>
        (\<forall>x. same_definition x (f x)) \<and> (\<forall>x. r_repository (f x) = r_repository x \<and> r_review (f x) = r_review x) \<and>
        logical_status r \<in> fst ` edges \<and>
        (row_consistent r \<longrightarrow>
           row_consistent (f r) \<and> (logical_status r, logical_status (f r)) \<in> edges \<and>
           replay_status body (Some (logical_status r)) = Some (logical_status (f r))))"

locale item_mutation =
  fixes op :: "store \<Rightarrow> (work_item \<times> store) res"
    and target :: string
    and edges :: "(work_status \<times> work_status) set"
  assumes shape: "op s = Inr out \<Longrightarrow> mutates edges target s out"
begin

lemma found: "op s = Inr out \<Longrightarrow> find_row target s \<noteq> None"
  by (drule shape) (auto simp: mutates_def)

lemma others_unchanged:
  assumes "op s = Inr (item, s')" and "j \<noteq> target"
  shows "find_row j s' = find_row j s"
  using shape [OF assms(1)] assms(2)
  by (auto simp: mutates_def item_table.lookup_modify same_definition_def)

lemma one_event:
  "op s = Inr (item, s') \<Longrightarrow>
     \<exists>e. st_events s' = st_events s @ [e] \<and> ev_item e = target \<and>
       ev_sequence e = Suc (st_sequence s) \<and> st_sequence s' = Suc (st_sequence s)"
  by (drule shape) (auto simp: mutates_def st_events_add_event)

lemma status_edge:
  assumes "op s = Inr (item, s')"
  shows "\<exists>r r'. find_row target s = Some r \<and> find_row target s' = Some r' \<and>
           same_definition r r' \<and> item = item_of r' \<and>
           (row_consistent r \<longrightarrow> (logical_status r, logical_status r') \<in> edges)"
  using shape [OF assms]
  by (auto simp: mutates_def item_table.lookup_modify same_definition_def)

lemma refused_elsewhere:
  "find_row target s = Some r \<Longrightarrow> logical_status r \<notin> fst ` edges \<Longrightarrow> \<exists>e. op s = Inl e"
proof (cases "op s")
  case (Inr out)
  assume "find_row target s = Some r" and "logical_status r \<notin> fst ` edges"
  with shape [OF Inr] have False by (force simp: mutates_def)
  then show ?thesis ..
qed simp

end

lemma mutatesI:
  assumes "find_row i s = Some r"
    and "out = (item_of (f r), add_event i body actor at (update_row i f s))"
    and "\<And>x. same_definition x (f x)" and "\<And>x. r_repository (f x) = r_repository x \<and> r_review (f x) = r_review x"
    and "logical_status r \<in> fst ` edges"
    and "row_consistent r \<Longrightarrow> row_consistent (f r)"
    and "row_consistent r \<Longrightarrow> (logical_status r, logical_status (f r)) \<in> edges"
    and "row_consistent r \<Longrightarrow>
           replay_status body (Some (logical_status r)) = Some (logical_status (f r))"
  shows "mutates edges i s out"
  using assms by (auto simp: mutates_def)

subsection \<open>The common ending: UPDATE one row, append the event, read the item back\<close>

definition commit_row ::
    "string \<Rightarrow> (row \<Rightarrow> row) \<Rightarrow> event_body \<Rightarrow> string \<Rightarrow> timestamp \<Rightarrow> store \<Rightarrow> (work_item \<times> store) res"
where
  "commit_row id' f body actor at s =
     (let s' = add_event id' body actor at (update_row id' f s) in
      and_then (get_required id' s') (\<lambda>item. Inr (item, s')))"

lemma commit_row_Inr:
  assumes "\<And>x. r_id (f x) = r_id x"
  shows "commit_row i f body actor at s = Inr out \<longleftrightarrow>
     (\<exists>r. find_row i s = Some r \<and>
        out = (item_of (f r), add_event i body actor at (update_row i f s)))"
  using assms by (auto simp: commit_row_def Let_def res_iffs item_table.lookup_modify)

lemma commit_row_mutates:
  assumes "commit_row i f body actor at s = Inr out"
    and "\<And>x. same_definition x (f x)" and "\<And>x. r_repository (f x) = r_repository x \<and> r_review (f x) = r_review x"
    and "\<And>r. find_row i s = Some r \<Longrightarrow>
           logical_status r \<in> fst ` edges \<and>
           (row_consistent r \<longrightarrow>
              row_consistent (f r) \<and> (logical_status r, logical_status (f r)) \<in> edges \<and>
              replay_status body (Some (logical_status r)) = Some (logical_status (f r)))"
  shows "mutates edges i s out"
  using assms(1) assms(4)
  by (subst (asm) commit_row_Inr)
    (auto intro!: mutatesI simp: assms(2,3) same_definition_id [OF assms(2)])

definition clear_lease :: "row \<Rightarrow> row" where
  "clear_lease r = r\<lparr>r_lease_owner := None, r_lease_token := None, r_lease_expires_at := None\<rparr>"

lemmas row_consistency =
  same_definition_def row_consistent_def lease_consistent_def result_consistent_def

lemma fst_Id [simp]: "fst ` Id = UNIV"
  by force

end
