(* ===== verification/Predecessors.thy ===== *)
theory Predecessors
  imports Database_Laws
begin

text \<open>
  Sequencing edges (\<open>evaluatePredecessor\<close>, \<open>predecessorStatus\<close>, \<open>predecessorStatuses\<close>,
  \<open>proposedItemBySourceRef\<close> and \<open>undeliveredArtifact\<close> of \<open>src/src/queue/store.ts\<close>). The
  per-call cache of the source memoizes a function of the unchanged database, so it is left out.
\<close>

definition undelivered_artifact :: "work_item \<Rightarrow> (work_artifact \<times> observed_state option) option" where
  "undelivered_artifact item =
     (case List.find
         (\<lambda>a. (wa_kind a = PullRequest \<or> wa_kind a = Release) \<and>
            \<not> (if wa_kind a = PullRequest then observed_of a = Some Merged
               else observed_of a = Some Published))
         (artifacts_of (wi_result item)) of
        None \<Rightarrow> None
      | Some a \<Rightarrow> Some (a, observed_of a))"

datatype unmet_reason =
    NoSuchItem
  | IncompleteItem string work_status
  | UndeliveredArtifact string artifact_kind string "observed_state option"

record predecessor_status =
  ps_source_ref :: string
  ps_satisfied :: bool
  ps_reason :: "unmet_reason option"
  ps_item_id :: "string option"
  ps_status :: "work_status option"
  ps_delivery :: "delivery_state option"

definition carriers :: "string \<Rightarrow> store \<Rightarrow> work_item list" where
  "carriers source_ref s =
     map item_of
       (sort_key (\<lambda>r. (- r_created_at r, r_id r))
         (filter (\<lambda>r. r_source_ref r = Some source_ref) (st_items s)))"

definition evaluate_predecessor :: "store \<Rightarrow> string \<Rightarrow> predecessor_status" where
  "evaluate_predecessor s source_ref =
     (case carriers source_ref s of
        [] \<Rightarrow>
          \<lparr>ps_source_ref = source_ref, ps_satisfied = False, ps_reason = Some NoSuchItem,
           ps_item_id = None, ps_status = None, ps_delivery = None\<rparr>
      | first # rest \<Rightarrow>
          (case List.find
              (\<lambda>item. wi_status item = Completed \<and> undelivered_artifact item = None) (first # rest) of
             Some item \<Rightarrow>
               \<lparr>ps_source_ref = source_ref, ps_satisfied = True, ps_reason = None,
                ps_item_id = Some (wi_id item), ps_status = Some (wi_status item),
                ps_delivery = wi_delivery item\<rparr>
           | None \<Rightarrow>
               \<lparr>ps_source_ref = source_ref, ps_satisfied = False,
                ps_reason =
                  Some
                    (if wi_status first \<noteq> Completed then IncompleteItem (wi_id first) (wi_status first)
                     else
                       (case undelivered_artifact first of
                          None \<Rightarrow> IncompleteItem (wi_id first) (wi_status first)
                        | Some (a, observed) \<Rightarrow>
                            UndeliveredArtifact (wi_id first) (wa_kind a) (wa_url a) observed)),
                ps_item_id = Some (wi_id first), ps_status = Some (wi_status first),
                ps_delivery = wi_delivery first\<rparr>))"

definition predecessor_statuses :: "string \<Rightarrow> store \<Rightarrow> predecessor_status list res" where
  "predecessor_statuses id' s =
     and_then (get_required id' s) (\<lambda>item.
     Inr (map (evaluate_predecessor s)
       (case wi_predecessors item of None \<Rightarrow> [] | Some ps \<Rightarrow> ps)))"

definition proposed_item_by_source_ref :: "string \<Rightarrow> string \<Rightarrow> store \<Rightarrow> work_item option" where
  "proposed_item_by_source_ref repository source_ref s =
     map_option item_of
       (List.find
         (\<lambda>r. r_repository r = repository \<and> r_source_ref r = Some source_ref \<and>
            r_status r = RQueued \<and> \<not> r_admitted r)
         (st_items s))"

subsection \<open>When a predecessor is satisfied\<close>

definition delivered :: "work_item \<Rightarrow> bool" where
  "delivered item =
     (\<forall>a \<in> set (artifacts_of (wi_result item)).
        (wa_kind a = PullRequest \<longrightarrow> observed_of a = Some Merged) \<and>
        (wa_kind a = Release \<longrightarrow> observed_of a = Some Published))"

lemma undelivered_artifact_None: "undelivered_artifact item = None \<longleftrightarrow> delivered item"
  by (auto simp: undelivered_artifact_def delivered_def find_None_iff split: option.splits
      dest: find_SomeD)

lemma set_carriers:
  "set (carriers ref s) = item_of ` {r \<in> set (st_items s). r_source_ref r = Some ref}"
  by (simp add: carriers_def)

lemma evaluate_predecessor_satisfied:
  "ps_satisfied (evaluate_predecessor s ref) \<longleftrightarrow>
     (\<exists>r \<in> set (st_items s). r_source_ref r = Some ref \<and> r_status r = RCompleted \<and>
        delivered (item_of r))"
proof -
  have "ps_satisfied (evaluate_predecessor s ref) \<longleftrightarrow>
      (\<exists>item \<in> set (carriers ref s). wi_status item = Completed \<and> undelivered_artifact item = None)"
    by (cases "carriers ref s")
      (auto simp: evaluate_predecessor_def find_None_iff split: option.splits
        dest: find_SomeD)
  then show ?thesis by (auto simp: set_carriers undelivered_artifact_None)
qed

lemma ps_source_ref_evaluate [simp]: "ps_source_ref (evaluate_predecessor s ref) = ref"
  by (auto simp: evaluate_predecessor_def split: list.splits option.splits)

lemma delivered_delivery:
  assumes "delivered item" and "wi_result item = Some w"
  shows "derive_delivery (Some w) \<in> {DNone, DMerged, DPublished}"
proof -
  have arts: "artifacts_of (Some w) = artifacts_of (wi_result item)" using assms(2) by simp
  show ?thesis
  proof (cases "\<exists>a \<in> set (artifacts_of (Some w)). wa_kind a = Release")
    case True
    with assms(1) arts have "derive_delivery (Some w) = DPublished"
      by (auto simp: derive_delivery_published delivered_def)
    then show ?thesis by simp
  next
    case no_release: False
    show ?thesis
    proof (cases "\<exists>a \<in> set (artifacts_of (Some w)). wa_kind a = PullRequest")
      case True
      with no_release assms(1) arts have "derive_delivery (Some w) = DMerged"
        by (auto simp: derive_delivery_merged delivered_def)
      then show ?thesis by simp
    next
      case False
      with no_release have "derive_delivery (Some w) = DNone"
        by (auto simp: derive_delivery_nothing_reported)
      then show ?thesis by simp
    qed
  qed
qed

end
