(* ===== verification/Claiming.thy ===== *)
theory Claiming
  imports Predecessors
begin

text \<open>
  Claiming (\<open>QueueStore.claim\<close>, \<open>betterClaimCandidate\<close> and the backoff predicate of
  \<open>src/src/queue/store.ts\<close>). The SQL conditions are conjuncts of \<open>candidate_row\<close>. The
  ORDER BY of the two selections separates rows by priority and creation time only; rows equal
  in both come in an order SQLite does not promise, which is the \<open>cx_tie\<close> of the context.
\<close>

definition claim_backoff_releases :: nat where "claim_backoff_releases = 3"
definition claim_backoff_window_seconds :: int where "claim_backoff_window_seconds = 30 * 60"

definition worker_release :: "event_row \<Rightarrow> bool" where
  "worker_release e =
     ((case ev_body e of EvReleased _ _ \<Rightarrow> True | _ \<Rightarrow> False) \<and>
      \<not> prefix ''operator:'' (to_lower (ev_actor e)) \<and> \<not> prefix ''policy:'' (to_lower (ev_actor e)))"

definition backoff_release_count :: "timestamp \<Rightarrow> string \<Rightarrow> store \<Rightarrow> nat" where
  "backoff_release_count since id' s =
     length (filter (\<lambda>e. ev_item e = id' \<and> worker_release e \<and> since < ev_occurred_at e) (st_events s))"

definition repository_enabled :: "string \<Rightarrow> store \<Rightarrow> bool" where
  "repository_enabled repository s =
     (case find_repository repository s of None \<Rightarrow> False | Some r \<Rightarrow> rp_enabled r)"

text \<open>\<open>string.includes\<close>.\<close>

fun includes_string :: "string \<Rightarrow> string \<Rightarrow> bool" where
  "includes_string t [] = (t = [])"
| "includes_string t (c # cs) = (prefix t (c # cs) \<or> includes_string t cs)"

record claim_filter =
  cf_repository :: "string option"
  cf_kinds :: "string list option"

definition lease_available :: "timestamp \<Rightarrow> row \<Rightarrow> bool" where
  "lease_available now r =
     (r_status r = RQueued \<and> r_admitted r \<or>
      r_status r = RClaimed \<and> (case r_lease_expires_at r of None \<Rightarrow> False | Some e \<Rightarrow> e \<le> now))"

definition candidate_row :: "timestamp \<Rightarrow> timestamp \<Rightarrow> claim_filter \<Rightarrow> store \<Rightarrow> row \<Rightarrow> bool" where
  "candidate_row now since flt s r =
     (repository_enabled (r_repository r) s \<and> lease_available now r \<and>
      backoff_release_count since (r_id r) s < claim_backoff_releases \<and>
      (case cf_repository flt of None \<Rightarrow> True | Some g \<Rightarrow> r_repository r = g) \<and>
      (case cf_kinds flt of None \<Rightarrow> True | Some ks \<Rightarrow> r_kind r \<in> set ks))"

text \<open>
  The candidates after the eligibility hook: \<open>None\<close> when a hook is configured and no
  candidate repository is eligible.
\<close>

definition eligible_candidates :: "ctx \<Rightarrow> row list \<Rightarrow> row list option res" where
  "eligible_candidates cx candidates =
     (case cx_claim_eligibility cx of
        None \<Rightarrow> Inr (Some candidates)
      | Some hook \<Rightarrow>
          and_then (filter_res hook (remdups (map r_repository candidates))) (\<lambda>eligible.
          Inr (if eligible = [] then None
               else Some (filter (\<lambda>r. r_repository r \<in> set eligible) candidates))))"

definition claim_order :: "ctx \<Rightarrow> row list \<Rightarrow> row list" where
  "claim_order cx = sort_key (\<lambda>r. (- r_priority r, r_created_at r, cx_tie cx (r_id r)))"

definition first_row :: "row list \<Rightarrow> row option" where
  "first_row rs = (case rs of [] \<Rightarrow> None | r # _ \<Rightarrow> Some r)"

definition better_claim_candidate :: "row option \<Rightarrow> row option \<Rightarrow> row option" where
  "better_claim_candidate left right =
     (case left of
        None \<Rightarrow> right
      | Some l \<Rightarrow>
          (case right of
             None \<Rightarrow> Some l
           | Some r \<Rightarrow>
               (let by_priority = r_priority r - r_priority l in
                if by_priority \<noteq> 0 then (if by_priority > 0 then Some r else Some l)
                else if r_created_at l \<noteq> r_created_at r
                then (if r_created_at l < r_created_at r then Some l else Some r)
                else if r_id l \<le> r_id r then Some l else Some r)))"

definition predecessors_met :: "store \<Rightarrow> row \<Rightarrow> bool" where
  "predecessors_met s r =
     list_all (\<lambda>ref. ps_satisfied (evaluate_predecessor s ref)) (parse_json (r_predecessors r) [])"

definition select_candidate :: "ctx \<Rightarrow> store \<Rightarrow> row list \<Rightarrow> row option" where
  "select_candidate cx s candidates =
     (let ungated = first_row (claim_order cx (filter (\<lambda>r. r_predecessors r = SqlNull) candidates));
          gated_candidates = claim_order cx (filter (\<lambda>r. r_predecessors r \<noteq> SqlNull) candidates);
          gated = List.find (predecessors_met s) gated_candidates in
      better_claim_candidate ungated gated)"

text \<open>The effective kind filter; \<open>Inl\<close> never occurs here, \<open>None\<close> is an empty intersection.\<close>

definition effective_kinds :: "string list option \<Rightarrow> string list option \<Rightarrow> string list option option" where
  "effective_kinds restriction requested =
     (case restriction of
        None \<Rightarrow> Some requested
      | Some allowed \<Rightarrow>
          (let kinds =
             (case requested of
                None \<Rightarrow> allowed
              | Some ks \<Rightarrow> filter (\<lambda>k. trim k \<in> set allowed) ks) in
           if kinds = [] then None else Some (Some kinds)))"

definition claimed_row :: "string \<Rightarrow> string \<Rightarrow> timestamp \<Rightarrow> timestamp \<Rightarrow> row \<Rightarrow> row" where
  "claimed_row worker token expires_at now r =
     r\<lparr>r_status := RClaimed, r_lease_owner := Some worker, r_lease_token := Some token,
       r_lease_expires_at := Some expires_at, r_updated_at := now\<rparr>"

definition take_lease ::
    "ctx \<Rightarrow> string \<Rightarrow> int \<Rightarrow> (string option \<times> string list option \<times> string list option) \<Rightarrow>
       timestamp \<Rightarrow> row \<Rightarrow> store \<Rightarrow> (work_item option \<times> store) res"
where
  "take_lease cx worker lease_seconds evidence now r s =
     (let id' = r_id r;
          s1 = (if r_status r = RClaimed
                then add_event id' (EvLeaseExpired (r_lease_owner r) (r_lease_expires_at r))
                       ''system'' (cx_clock cx 2) s
                else s);
          token = cx_uuid cx 0;
          expires_at = cx_clock cx 3 + lease_seconds * 1000 in
      and_then (update_claim id' (claimed_row worker token expires_at now) s1) (\<lambda>s2.
      let s3 =
        add_event id' (EvClaimed expires_at (fst evidence) (fst (snd evidence)) (snd (snd evidence)))
          worker (cx_clock cx 4) s2 in
      and_then (get_required id' s3) (\<lambda>item. Inr (Some item, s3))))"

text \<open>What the arguments of a claim come to before any row is read.\<close>

record claim_request =
  cq_worker :: string
  cq_lease_seconds :: int
  cq_label :: "string option"
  cq_restriction :: "string list option"
  cq_grant :: "string list option"
  cq_filter :: "claim_filter option"

definition non_empty :: "'a list option \<Rightarrow> 'a list option" where
  "non_empty x = (case x of None \<Rightarrow> None | Some ys \<Rightarrow> if ys = [] then None else Some ys)"

definition check_claim :: "claim_input \<Rightarrow> claim_request res" where
  "check_claim input =
     and_then (validate_worker_principal (ci_worker input)) (\<lambda>worker.
     and_then
       (case non_empty (ci_repository input) of None \<Rightarrow> Inr () | Some g \<Rightarrow> validate_repository g) (\<lambda>_.
     and_then (bounded_lease (ci_lease_seconds input)) (\<lambda>lease_seconds.
     and_then
       (optional_res validate_claim_label
         (if ci_label input = Some worker then None else ci_label input)) (\<lambda>label.
     and_then (optional_res validate_work_kinds (ci_allowed_kinds input)) (\<lambda>restriction.
     and_then (optional_res validate_mcp_tools (ci_allowed_tools input)) (\<lambda>grant.
     Inr
       \<lparr>cq_worker = worker, cq_lease_seconds = lease_seconds, cq_label = label,
        cq_restriction = restriction, cq_grant = grant,
        cq_filter =
          map_option
            (\<lambda>kinds. \<lparr>cf_repository = non_empty (ci_repository input), cf_kinds = kinds\<rparr>)
            (effective_kinds restriction (non_empty (ci_kinds input)))\<rparr>))))))"

definition label_holds_token :: "string option \<Rightarrow> store \<Rightarrow> bool" where
  "label_holds_token label s =
     (case label of
        None \<Rightarrow> False
      | Some l \<Rightarrow>
          list_ex (\<lambda>r. case r_lease_token r of None \<Rightarrow> False | Some t \<Rightarrow> includes_string t l) (st_items s))"

definition claim :: "ctx \<Rightarrow> claim_input \<Rightarrow> store \<Rightarrow> (work_item option \<times> store) res" where
  "claim cx input s =
     and_then (check_claim input) (\<lambda>q.
     case cq_filter q of
       None \<Rightarrow> Inr (None, s)
     | Some flt \<Rightarrow>
         transaction (\<lambda>s.
           let now = cx_clock cx 0;
               since = cx_clock cx 1 - claim_backoff_window_seconds * 1000 in
           and_then
             (require (\<not> label_holds_token (cq_label q) s) (PrincipalError ClaimLabelHoldsToken)) (\<lambda>_.
           and_then
             (eligible_candidates cx (filter (candidate_row now since flt s) (st_items s))) (\<lambda>eligible.
           case eligible of
             None \<Rightarrow> Inr (None, s)
           | Some candidates \<Rightarrow>
               (case select_candidate cx s candidates of
                  None \<Rightarrow> Inr (None, s)
                | Some r \<Rightarrow>
                    take_lease cx (cq_worker q) (cq_lease_seconds q)
                      (cq_label q, cq_restriction q, cq_grant q) now r s)))) s)"

subsection \<open>What the selection returns\<close>

definition claim_rank :: "row \<Rightarrow> int \<times> timestamp" where
  "claim_rank r = (- r_priority r, r_created_at r)"

definition ready :: "store \<Rightarrow> row \<Rightarrow> bool" where
  "ready s r = (r_predecessors r = SqlNull \<or> predecessors_met s r)"

lemma claim_order_rank:
  "(- r_priority r, r_created_at r, cx_tie cx (r_id r)) \<le>
     (- r_priority r', r_created_at r', cx_tie cx (r_id r')) \<Longrightarrow> claim_rank r \<le> claim_rank r'"
  by (auto simp: claim_rank_def less_eq_prod_def)

lemma find_claim_order:
  "List.find P (claim_order cx rs) = Some r \<Longrightarrow>
     r \<in> set rs \<and> P r \<and> (\<forall>r' \<in> set rs. P r' \<longrightarrow> claim_rank r \<le> claim_rank r')"
  unfolding claim_order_def
  by (auto dest: find_SomeD intro: claim_order_rank find_sort_key_min)

lemma first_row_find: "first_row rs = List.find (\<lambda>_. True) rs"
  by (cases rs) (simp_all add: first_row_def)

lemma better_claim_candidate_Some:
  "better_claim_candidate a b = Some r \<Longrightarrow>
     (a = Some r \<or> b = Some r) \<and> (\<forall>x. a = Some x \<or> b = Some x \<longrightarrow> claim_rank r \<le> claim_rank x)"
  by (auto simp: better_claim_candidate_def Let_def claim_rank_def split: option.splits if_splits)

lemma better_claim_candidate_None: "better_claim_candidate a b = None \<longleftrightarrow> a = None \<and> b = None"
  by (auto simp: better_claim_candidate_def Let_def split: option.splits)

lemma select_candidate_Some:
  assumes "select_candidate cx s rs = Some r"
  shows "r \<in> set rs" and "ready s r"
    and "r' \<in> set rs \<Longrightarrow> ready s r' \<Longrightarrow> claim_rank r \<le> claim_rank r'"
proof -
  let ?u = "List.find (\<lambda>_. True) (claim_order cx (filter (\<lambda>r. r_predecessors r = SqlNull) rs))"
  let ?g = "List.find (predecessors_met s) (claim_order cx (filter (\<lambda>r. r_predecessors r \<noteq> SqlNull) rs))"
  have best: "better_claim_candidate ?u ?g = Some r"
    using assms by (simp add: select_candidate_def Let_def first_row_find)
  have one: "?u = Some r \<or> ?g = Some r" using better_claim_candidate_Some [OF best] by simp
  show "r \<in> set rs" "ready s r" using one by (auto dest!: find_claim_order simp: ready_def)
  assume r': "r' \<in> set rs" "ready s r'"
  show "claim_rank r \<le> claim_rank r'"
  proof (cases "r_predecessors r' = SqlNull")
    case True
    with r' have "?u \<noteq> None" by (auto simp: find_None_iff claim_order_def)
    then obtain u where u: "?u = Some u" by auto
    with True r' have "claim_rank u \<le> claim_rank r'" by (auto dest!: find_claim_order)
    with better_claim_candidate_Some [OF best] u show ?thesis by (blast intro: order_trans)
  next
    case False
    with r' have "?g \<noteq> None" by (auto simp: find_None_iff claim_order_def ready_def)
    then obtain g where g: "?g = Some g" by auto
    with False r' have "claim_rank g \<le> claim_rank r'"
      by (auto dest!: find_claim_order simp: ready_def)
    with better_claim_candidate_Some [OF best] g show ?thesis by (blast intro: order_trans)
  qed
qed

lemma select_candidate_None:
  "select_candidate cx s rs = None \<longleftrightarrow> (\<forall>r \<in> set rs. \<not> ready s r)"
  by (auto simp: select_candidate_def Let_def first_row_find better_claim_candidate_None
      find_None_iff claim_order_def ready_def)

subsection \<open>Eligibility\<close>

definition hook_allows :: "ctx \<Rightarrow> string \<Rightarrow> bool" where
  "hook_allows cx repository =
     (case cx_claim_eligibility cx of None \<Rightarrow> True | Some hook \<Rightarrow> hook repository = Inr True)"

lemma eligible_candidates_Inr:
  assumes "eligible_candidates cx rs = Inr out"
  shows "set (case out of None \<Rightarrow> [] | Some es \<Rightarrow> es) = {r \<in> set rs. hook_allows cx (r_repository r)}"
  using assms
  by (auto simp: eligible_candidates_def hook_allows_def res_iffs filter_res_Inr filter_empty_conv
      split: option.splits if_splits)

text \<open>The rows a claim may lease: what the property of the claim is stated with.\<close>

definition claimable :: "ctx \<Rightarrow> claim_filter \<Rightarrow> store \<Rightarrow> row \<Rightarrow> bool" where
  "claimable cx flt s r =
     (candidate_row (cx_clock cx 0) (cx_clock cx 1 - claim_backoff_window_seconds * 1000) flt s r \<and>
      hook_allows cx (r_repository r) \<and> ready s r)"

definition claim_succeeds ::
    "ctx \<Rightarrow> claim_request \<Rightarrow> claim_filter \<Rightarrow> store \<Rightarrow> row \<Rightarrow> work_item option \<Rightarrow> store \<Rightarrow> bool" where
  "claim_succeeds cx q flt s r res s' =
     (r \<in> set (st_items s) \<and> claimable cx flt s r \<and>
      (\<forall>r' \<in> set (st_items s). claimable cx flt s r' \<longrightarrow> claim_rank r \<le> claim_rank r') \<and>
      take_lease cx (cq_worker q) (cq_lease_seconds q) (cq_label q, cq_restriction q, cq_grant q)
        (cx_clock cx 0) r s = Inr (res, s'))"

lemma claim_cases:
  assumes "claim cx input s = Inr (res, s')"
  obtains (idle) q where "check_claim input = Inr q" and "res = None" and "s' = s"
      and "\<forall>flt. cq_filter q = Some flt \<longrightarrow> (\<forall>r \<in> set (st_items s). \<not> claimable cx flt s r)"
  | (leased) q flt r where "check_claim input = Inr q" and "cq_filter q = Some flt"
      and "\<not> label_holds_token (cq_label q) s" and "claim_succeeds cx q flt s r res s'"
proof -
  obtain q where q: "check_claim input = Inr q" using assms by (auto simp: claim_def res_iffs)
  show thesis
  proof (cases "cq_filter q")
    case None
    with assms q have "res = None" "s' = s" by (simp_all add: claim_def)
    moreover have "\<forall>flt. cq_filter q = Some flt \<longrightarrow> (\<forall>r \<in> set (st_items s). \<not> claimable cx flt s r)"
      using None by simp
    ultimately show thesis by (rule idle [OF q])
  next
    case (Some flt)
    let ?cands =
      "filter (candidate_row (cx_clock cx 0) (cx_clock cx 1 - claim_backoff_window_seconds * 1000) flt s)
         (st_items s)"
    obtain out where ok: "\<not> label_holds_token (cq_label q) s"
      and el: "eligible_candidates cx ?cands = Inr out"
      and rest: "(case out of None \<Rightarrow> Inr (None, s)
        | Some candidates \<Rightarrow>
            (case select_candidate cx s candidates of None \<Rightarrow> Inr (None, s)
             | Some r \<Rightarrow>
                 take_lease cx (cq_worker q) (cq_lease_seconds q)
                   (cq_label q, cq_restriction q, cq_grant q) (cx_clock cx 0) r s)) = Inr (res, s')"
      using assms q Some by (auto simp: claim_def Let_def and_then_Inr_iff require_Inr_iff transaction_Inr)
    let ?es = "case out of None \<Rightarrow> [] | Some es \<Rightarrow> es"
    note es = eligible_candidates_Inr [OF el]
    have cl: "r \<in> set ?es \<and> ready s r \<longleftrightarrow> r \<in> set (st_items s) \<and> claimable cx flt s r" for r
      unfolding es by (auto simp: claimable_def)
    show thesis
    proof (cases "select_candidate cx s ?es")
      case None
      have "\<not> claimable cx flt s r" if "r \<in> set (st_items s)" for r
        using None cl [of r] that unfolding select_candidate_None by blast
      then have "\<forall>flt. cq_filter q = Some flt \<longrightarrow> (\<forall>r \<in> set (st_items s). \<not> claimable cx flt s r)"
        using Some by simp
      moreover have "res = None" "s' = s" using rest None by (auto split: option.splits)
      ultimately show thesis by (intro idle [OF q])
    next
      case r: (Some r)
      from select_candidate_Some(1) [OF r] have "out \<noteq> None" by (cases out) simp_all
      with rest r have tl: "take_lease cx (cq_worker q) (cq_lease_seconds q)
          (cq_label q, cq_restriction q, cq_grant q) (cx_clock cx 0) r s = Inr (res, s')"
        by auto
      have "claim_succeeds cx q flt s r res s'"
        unfolding claim_succeeds_def
        using select_candidate_Some [OF r] cl tl by blast
      then show thesis by (rule leased [OF q Some ok])
    qed
  qed
qed

subsection \<open>Taking the lease\<close>

definition lease_start :: "ctx \<Rightarrow> row \<Rightarrow> store \<Rightarrow> store" where
  "lease_start cx r s =
     (if r_status r = RClaimed
      then add_event (r_id r) (EvLeaseExpired (r_lease_owner r) (r_lease_expires_at r))
             ''system'' (cx_clock cx 2) s
      else s)"

definition leased_row :: "ctx \<Rightarrow> claim_request \<Rightarrow> row \<Rightarrow> row" where
  "leased_row cx q =
     claimed_row (cq_worker q) (cx_uuid cx 0) (cx_clock cx 3 + cq_lease_seconds q * 1000) (cx_clock cx 0)"

definition leased_event :: "ctx \<Rightarrow> claim_request \<Rightarrow> event_body" where
  "leased_event cx q =
     EvClaimed (cx_clock cx 3 + cq_lease_seconds q * 1000) (cq_label q) (cq_restriction q) (cq_grant q)"

definition leased_store :: "ctx \<Rightarrow> claim_request \<Rightarrow> row \<Rightarrow> store \<Rightarrow> store" where
  "leased_store cx q r s =
     add_event (r_id r) (leased_event cx q) (cq_worker q) (cx_clock cx 4)
       (update_row (r_id r) (leased_row cx q) (lease_start cx r s))"

lemma leased_row_simps [simp]:
  "r_id (leased_row cx q r) = r_id r" "r_status (leased_row cx q r) = RClaimed"
  "r_admitted (leased_row cx q r) = r_admitted r" "r_result (leased_row cx q r) = r_result r"
  "r_lease_owner (leased_row cx q r) = Some (cq_worker q)"
  "r_lease_token (leased_row cx q r) = Some (cx_uuid cx 0)"
  "r_lease_expires_at (leased_row cx q r) = Some (cx_clock cx 3 + cq_lease_seconds q * 1000)"
  "r_repository (leased_row cx q r) = r_repository r" "same_definition r (leased_row cx q r)"
  "r_kind (leased_row cx q r) = r_kind r" "r_updated_at (leased_row cx q r) = cx_clock cx 0"
  by (simp_all add: leased_row_def claimed_row_def same_definition_def)

lemma lease_start_simps [simp]:
  "st_items (lease_start cx r s) = st_items s"
  "st_repositories (lease_start cx r s) = st_repositories s"
  "st_tokens (lease_start cx r s) = st_tokens s"
  "st_user_version (lease_start cx r s) = st_user_version s"
  "find_row j (lease_start cx r s) = find_row j s"
  by (simp_all add: lease_start_def)

lemma take_lease_Inr:
  assumes "r \<in> set (st_items s)" and "distinct (map r_id (st_items s))"
  shows "take_lease cx (cq_worker q) (cq_lease_seconds q) (cq_label q, cq_restriction q, cq_grant q)
           (cx_clock cx 0) r s = Inr (res, s') \<longleftrightarrow>
         r_admitted r \<and> res = Some (item_of (leased_row cx q r)) \<and> s' = leased_store cx q r s"
proof -
  have row: "find_row (r_id r) s = Some r" using assms by (simp add: item_table.lookup_in_rows)
  have "r' = r" if "r' \<in> set (st_items s)" "r_id r' = r_id r" for r'
    using assms that by (auto simp: distinct_map inj_on_def)
  then have trigger: "(\<forall>r' \<in> set (st_items s). r_id r' = r_id r \<longrightarrow>
      r_status (leased_row cx q r') = RClaimed \<longrightarrow> r_admitted r' \<and> r_admitted (leased_row cx q r'))
      \<longleftrightarrow> r_admitted r"
    using assms(1) by auto
  show ?thesis
    using row trigger
    by (auto simp: take_lease_def Let_def and_then_Inr_iff update_claim_Inr get_required_Inr
        leased_store_def leased_event_def lease_start_def leased_row_def [symmetric]
        item_table.lookup_modify)
qed

lemma find_row_leased_store:
  assumes "find_row (r_id r) s = Some r"
  shows "find_row j (leased_store cx q r s) = (if j = r_id r then Some (leased_row cx q r) else find_row j s)"
  using assms by (simp add: leased_store_def item_table.lookup_modify)

lemma check_claim_parts:
  assumes "check_claim input = Inr q"
  shows "validate_worker_principal (ci_worker input) = Inr (cq_worker q)"
    and "bounded_lease (ci_lease_seconds input) = Inr (cq_lease_seconds q)"
    and "optional_res validate_work_kinds (ci_allowed_kinds input) = Inr (cq_restriction q)"
    and "cq_filter q =
           map_option
             (\<lambda>kinds. \<lparr>cf_repository = non_empty (ci_repository input), cf_kinds = kinds\<rparr>)
             (effective_kinds (cq_restriction q) (non_empty (ci_kinds input)))"
  using assms by (auto simp: check_claim_def and_then_Inr_iff)

lemma validated_kinds_trimmed:
  assumes "optional_res validate_work_kinds x = Inr (Some allowed)" and "k \<in> set allowed"
  shows "trim k = k"
proof -
  obtain ks where "validate_work_kinds ks = Inr allowed"
    using assms(1) by (auto simp: optional_res_def and_then_Inr_iff split: option.splits)
  with assms(2) show ?thesis by (auto simp: validate_work_kinds_Inr)
qed

lemma effective_kinds_restricted:
  assumes "effective_kinds (Some allowed) requested = Some (Some ks)"
    and "\<And>k. k \<in> set allowed \<Longrightarrow> trim k = k" and "k \<in> set ks"
  shows "trim k \<in> set allowed"
  using assms by (auto simp: effective_kinds_def Let_def split: option.splits if_splits)

lemma check_claim_Inr:
  assumes "check_claim input = Inr q"
  shows "cq_worker q = trim (ci_worker input)" and "cq_worker q \<noteq> []"
    and "30 \<le> cq_lease_seconds q" and "cq_lease_seconds q \<le> max_lease_seconds"
    and "\<not> prefix ''operator:'' (to_lower (cq_worker q))"
    and "\<not> prefix ''policy:'' (to_lower (cq_worker q))"
    and "\<not> prefix ''system:'' (to_lower (cq_worker q))"
  using check_claim_parts(1,2) [OF assms] bounded_lease_bounds
  by (auto simp: validate_worker_principal_Inr)

lemma claim_kinds_restricted:
  assumes "check_claim input = Inr q" and "cq_filter q = Some flt"
    and "cq_restriction q = Some allowed"
  shows "\<exists>ks. cf_kinds flt = Some ks \<and> (\<forall>k \<in> set ks. trim k \<in> set allowed)"
proof -
  note parts = check_claim_parts(3,4) [OF assms(1)]
  from parts(2) assms(2,3) obtain ks where
    ks: "effective_kinds (Some allowed) (non_empty (ci_kinds input)) = Some ks" "cf_kinds flt = ks"
    by (cases "effective_kinds (Some allowed) (non_empty (ci_kinds input))") auto
  from ks(1) have "ks \<noteq> None"
    by (auto simp: effective_kinds_def Let_def split: option.splits if_splits)
  then obtain ks' where "ks = Some ks'" by auto
  with ks parts(1) assms(3) show ?thesis
    by (auto intro: effective_kinds_restricted validated_kinds_trimmed)
qed

end
