(* ===== verification/Policy_Binding.thy ===== *)
theory Policy_Binding
  imports Database_Laws
begin

text \<open>
  Policy binding: the closed registry of \<open>src/src/queue/standing-authorizations.ts\<close> and
  \<open>bindPolicy\<close>, \<open>admissionAuthorization\<close> of \<open>src/src/queue/store.ts\<close>. The authority itself is
  the hook of the context.

  \<open>STANDING_AUTHORIZATIONS[kind]\<close> is a property access on an object literal, so a kind that
  names a member of \<open>Object.prototype\<close> finds that member. One such name fits the pattern of
  kinds, \<open>constructor\<close>; the member has no \<open>actions\<close>, \<open>id\<close> or \<open>adr\<close>.
\<close>

record standing_authorization =
  sa_id :: string
  sa_adr :: string
  sa_actions :: "action list"

datatype standing_lookup = NoEntry | Entry standing_authorization | InheritedMember

definition standing_authorizations :: "(string \<times> standing_authorization) list" where
  "standing_authorizations =
     [(''pr-cure'',
       \<lparr>sa_id = ''pr-cure:v1'', sa_adr = ''ADR-0061'',
        sa_actions = [Read, Write, RunTests, OpenPr, CreateFollowup]\<rparr>),
      (''pr-review'',
       \<lparr>sa_id = ''pr-review:v1'', sa_adr = ''ADR-0065'', sa_actions = [Read, RunTests]\<rparr>),
      (''pr-review-fix'',
       \<lparr>sa_id = ''pr-review-fix:v1'', sa_adr = ''ADR-0065'',
        sa_actions = [Read, Write, RunTests, OpenPr]\<rparr>)]"

definition standing_authorization_for :: "string \<Rightarrow> standing_lookup" where
  "standing_authorization_for kind =
     (case map_of standing_authorizations kind of
        Some s \<Rightarrow> Entry s
      | None \<Rightarrow> if kind = ''constructor'' then InheritedMember else NoEntry)"

record binding_input =
  bi_repository :: string
  bi_kind :: string
  bi_allowed_actions :: "action list"
  bi_delegable_actions :: "action list"
  bi_created_by :: string
  bi_admitted :: bool

definition effective_decision :: "policy_authority \<Rightarrow> action \<Rightarrow> policy_decision" where
  "effective_decision authority a =
     (case map_of (pa_action_decisions authority) a of
        Some d \<Rightarrow> d
      | None \<Rightarrow> pa_default_decision authority)"

text \<open>\<open>at\<close> is the clock reading the authorization is stamped with.\<close>

definition admission_authorization ::
    "timestamp \<Rightarrow> binding_input \<Rightarrow> action list \<Rightarrow> policy_authorization res" where
  "admission_authorization at input review_required =
     (let creator = to_lower (bi_created_by input) in
      if prefix ''operator:'' creator \<or> prefix ''member:'' creator
      then Inr (OperatorAuthorization (bi_created_by input) review_required at)
      else
        (case standing_authorization_for (bi_kind input) of
           NoEntry \<Rightarrow> Inl (PolicyError (NoStandingAuthorization (bi_kind input)))
         | InheritedMember \<Rightarrow>
             if bi_allowed_actions input = []
             then Inr (StandingAuthorized None None review_required at)
             else Inl (PolicyError (StandingMemberNotAnEntry (bi_kind input)))
         | Entry standing \<Rightarrow>
             (let outside = filter (\<lambda>a. a \<notin> set (sa_actions standing)) (bi_allowed_actions input) in
              if outside \<noteq> [] then Inl (PolicyError (OutsideStandingAuthorization (sa_id standing) outside))
              else
                Inr (StandingAuthorized (Some (sa_id standing)) (Some (sa_adr standing))
                  review_required at))))"

text \<open>
  The loop runs over the set of both action lists in order of first occurrence; visiting a
  repeated action again repeats a check that passed. \<open>.sort()\<close> compares the action names.
\<close>

definition bind_policy :: "ctx \<Rightarrow> timestamp \<Rightarrow> binding_input \<Rightarrow> policy_record option res" where
  "bind_policy cx at input =
     (case cx_policy_authority cx of
        None \<Rightarrow> Inr None
      | Some hook \<Rightarrow>
          and_then (hook (bi_repository input)) (\<lambda>answer.
          case answer of
            None \<Rightarrow> Inl (PolicyError (NoPolicyAuthority (bi_repository input)))
          | Some authority \<Rightarrow>
              and_then
                (check_all
                  (\<lambda>a. and_then
                     (require (a \<in> set (pa_action_ceiling authority)) (PolicyError (ActionExceedsCeiling a))) (\<lambda>_.
                     require (effective_decision authority a \<noteq> Deny) (PolicyError (ActionDenied a))))
                  (bi_allowed_actions input @ bi_delegable_actions input)) (\<lambda>_.
              let review_required =
                sort_key action_name
                  (filter (\<lambda>a. effective_decision authority a = ReviewRequired)
                    (remdups (bi_allowed_actions input)));
                unauthorized =
                  \<lparr>pol_core_snapshot_id = pa_core_snapshot_id authority,
                   pol_repository_commit_id = pa_repository_commit_id authority,
                   pol_review_required = review_required, pol_authorization = None\<rparr> in
              if bi_admitted input
              then and_then (admission_authorization at input review_required) (\<lambda>auth.
                Inr (Some (unauthorized\<lparr>pol_authorization := Some auth\<rparr>)))
              else Inr (Some unauthorized))))"

subsection \<open>What a binding guarantees\<close>

lemma bind_policy_None_iff: "bind_policy cx at input = Inr None \<longleftrightarrow> cx_policy_authority cx = None"
  by (auto simp: bind_policy_def Let_def res_iffs split: option.splits if_splits)

lemma bind_policy_within:
  assumes "bind_policy cx at input = Inr (Some p)"
  obtains hook authority where "cx_policy_authority cx = Some hook"
    and "hook (bi_repository input) = Inr (Some authority)"
    and "set (bi_allowed_actions input) \<union> set (bi_delegable_actions input)
           \<subseteq> set (pa_action_ceiling authority)"
    and "\<forall>a \<in> set (bi_allowed_actions input) \<union> set (bi_delegable_actions input).
           effective_decision authority a \<noteq> Deny"
    and "set (pol_review_required p) =
           {a \<in> set (bi_allowed_actions input). effective_decision authority a = ReviewRequired}"
    and "pol_core_snapshot_id p = pa_core_snapshot_id authority"
    and "bi_admitted input \<longrightarrow>
           (\<exists>auth. pol_authorization p = Some auth \<and>
              admission_authorization at input (pol_review_required p) = Inr auth)"
    and "\<not> bi_admitted input \<longrightarrow> pol_authorization p = None"
proof -
  obtain hook authority where hook: "cx_policy_authority cx = Some hook"
    "hook (bi_repository input) = Inr (Some authority)"
    using assms by (auto simp: bind_policy_def res_iffs split: option.splits)
  show ?thesis
  proof (rule that [OF hook])
  qed (use assms hook in \<open>auto simp: bind_policy_def res_iffs Let_def split: if_splits\<close>)
qed

lemma admission_authorization_standing:
  assumes "admission_authorization at input required = Inr (StandingAuthorized sid adr covered t)"
    and "bi_kind input \<noteq> ''constructor''"
  shows "\<exists>entry. (bi_kind input, entry) \<in> set standing_authorizations \<and> sid = Some (sa_id entry) \<and>
           adr = Some (sa_adr entry) \<and> set (bi_allowed_actions input) \<subseteq> set (sa_actions entry)"
  using assms
  by (auto simp: admission_authorization_def Let_def standing_authorization_for_def filter_empty_conv
      split: if_splits option.splits dest: map_of_SomeD)

end
