(* ===== verification/Work_Creation.thy ===== *)
theory Work_Creation
  imports Policy_Binding
begin

text \<open>
  Every path that inserts a work item in \<open>src/src/queue/store.ts\<close>, except the children a
  completion proposes: \<open>insertWork\<close>, \<open>enqueueSeed\<close>, \<open>enqueueInactiveRootBatch\<close> with the
  no-finding cooldown (\<open>noFindingStreaks\<close>, \<open>activeRootKinds\<close>, \<open>backedOffCooldownSeconds\<close>),
  \<open>enqueueCureRoot\<close>, \<open>enqueueReviewRoot\<close> and \<open>enqueueProposedRoots\<close>.

  The readings of the clock in one creation are \<open>createdAt\<close>, the admission's \<open>at\<close> and the
  event's \<open>occurred_at\<close>; a batch reads four per candidate, the first for the cooldown.
\<close>

subsection \<open>Insertion\<close>

record new_work =
  nw_id :: string
  nw_root_id :: string
  nw_parent_id :: "string option"
  nw_repository :: string
  nw_kind :: string
  nw_objective :: string
  nw_instructions :: string
  nw_acceptance_criteria :: "string list"
  nw_allowed_actions :: "action list"
  nw_delegable_actions :: "action list"
  nw_required_artifact :: "required_artifact option"
  nw_execution_target :: "execution_target option"
  nw_priority :: int
  nw_created_by :: string
  nw_admitted :: bool
  nw_created_at :: timestamp
  nw_source_ref :: "string option"
  nw_predecessors :: "string list option"
  nw_cure :: "pull_request_cure option"
  nw_review :: "pull_request_review option"

definition row_of_work :: "policy_record option \<Rightarrow> new_work \<Rightarrow> row" where
  "row_of_work policy w =
     \<lparr>r_id = nw_id w, r_root_id = nw_root_id w, r_parent_id = nw_parent_id w,
      r_repository = nw_repository w, r_kind = nw_kind w, r_objective = nw_objective w,
      r_instructions = nw_instructions w,
      r_acceptance_criteria = Json (nw_acceptance_criteria w),
      r_allowed_actions = Json (nw_allowed_actions w),
      r_delegable_actions = Json (nw_delegable_actions w),
      r_required_artifact = required_or_none (nw_required_artifact w),
      r_execution_target = nw_execution_target w, r_policy = json_of_option policy,
      r_priority = nw_priority w, r_status = RQueued, r_admitted = nw_admitted w,
      r_created_by = nw_created_by w, r_created_at = nw_created_at w,
      r_updated_at = nw_created_at w, r_source_ref = nw_source_ref w,
      r_predecessors =
        (case nw_predecessors w of None \<Rightarrow> SqlNull | Some ps \<Rightarrow> if ps = [] then SqlNull else Json ps),
      r_cure = json_of_option (nw_cure w), r_review = json_of_option (nw_review w),
      r_lease_owner = None, r_lease_token = None, r_lease_expires_at = None, r_result = SqlNull,
      r_operator_notes = Json [], r_previous_results = Json []\<rparr>"

definition binding_of_work :: "new_work \<Rightarrow> binding_input" where
  "binding_of_work w =
     \<lparr>bi_repository = nw_repository w, bi_kind = nw_kind w,
      bi_allowed_actions = nw_allowed_actions w, bi_delegable_actions = nw_delegable_actions w,
      bi_created_by = nw_created_by w, bi_admitted = nw_admitted w\<rparr>"

definition insert_work :: "ctx \<Rightarrow> timestamp \<Rightarrow> new_work \<Rightarrow> store \<Rightarrow> store res" where
  "insert_work cx at w s =
     and_then (bind_policy cx at (binding_of_work w)) (\<lambda>policy. insert_row (row_of_work policy w) s)"

definition create_item ::
    "ctx \<Rightarrow> nat \<Rightarrow> new_work \<Rightarrow> event_body \<Rightarrow> store \<Rightarrow> (work_item \<times> store) res" where
  "create_item cx site w body s =
     and_then (insert_work cx (cx_clock cx (site + 1)) w s) (\<lambda>s1.
     let s2 = add_event (nw_id w) body (nw_created_by w) (cx_clock cx (site + 2)) s1 in
     and_then (get_required (nw_id w) s2) (\<lambda>item. Inr (item, s2)))"

subsection \<open>Roots from a definition\<close>

definition definition_of_seed ::
    "string option \<Rightarrow> pull_request_cure option \<Rightarrow> pull_request_review option \<Rightarrow> seed_input \<Rightarrow> work_definition"
where
  "definition_of_seed source_ref cure review input =
     \<lparr>wd_kind = si_kind input, wd_objective = si_objective input,
      wd_instructions = si_instructions input,
      wd_acceptance_criteria = si_acceptance_criteria input,
      wd_allowed_actions = si_allowed_actions input,
      wd_delegable_actions = si_delegable_actions input,
      wd_required_artifact = si_required_artifact input,
      wd_execution_target = si_execution_target input, wd_source_ref = source_ref,
      wd_cure = cure, wd_review = review, wd_priority = si_priority input,
      wd_created_by = si_created_by input\<rparr>"

definition root_of_seed :: "string \<Rightarrow> bool \<Rightarrow> timestamp \<Rightarrow> seed_input \<Rightarrow> new_work" where
  "root_of_seed id' admitted created_at input =
     \<lparr>nw_id = id', nw_root_id = id', nw_parent_id = None, nw_repository = si_repository input,
      nw_kind = si_kind input, nw_objective = si_objective input,
      nw_instructions = si_instructions input,
      nw_acceptance_criteria = si_acceptance_criteria input,
      nw_allowed_actions = si_allowed_actions input,
      nw_delegable_actions = si_delegable_actions input,
      nw_required_artifact = si_required_artifact input,
      nw_execution_target = si_execution_target input,
      nw_priority = (case si_priority input of None \<Rightarrow> 0 | Some p \<Rightarrow> js_int p),
      nw_created_by = si_created_by input, nw_admitted = admitted, nw_created_at = created_at,
      nw_source_ref = None, nw_predecessors = None, nw_cure = None, nw_review = None\<rparr>"

definition enqueue_seed :: "ctx \<Rightarrow> seed_input \<Rightarrow> store \<Rightarrow> (work_item \<times> store) res" where
  "enqueue_seed cx input s =
     and_then (validate_work_definition (definition_of_seed None None None input)) (\<lambda>_.
     and_then (assert_no_predecessors (si_extra input)) (\<lambda>_.
     transaction (\<lambda>s.
       and_then (assert_repository_enabled (si_repository input) s) (\<lambda>_.
       create_item cx 0 (root_of_seed (cx_uuid cx 0) True (cx_clock cx 0) input)
         (EvQueued None None) s)) s))"

subsection \<open>No-finding cooldowns\<close>

definition max_no_finding_cooldown_seconds :: int where
  "max_no_finding_cooldown_seconds = 14 * 24 * 60 * 60"

definition backed_off_cooldown_seconds :: "int \<Rightarrow> int \<Rightarrow> int" where
  "backed_off_cooldown_seconds base streak =
     (if base \<le> 0 \<or> streak \<le> 1 then base
      else
        (let doublings = min (streak - 1) 60 in
         max base (min (base * 2 ^ nat doublings) max_no_finding_cooldown_seconds)))"

definition active_root_kinds :: "string \<Rightarrow> store \<Rightarrow> string list res" where
  "active_root_kinds repository s =
     and_then (validate_repository repository) (\<lambda>_.
     Inr
       (sorted_unique
         (concat
           (map
             (\<lambda>item. case find_row (r_root_id item) s of None \<Rightarrow> [] | Some root \<Rightarrow> [r_kind root])
             (filter
               (\<lambda>item. r_repository item = repository \<and>
                  r_status item \<noteq> RCompleted \<and> r_status item \<noteq> RCancelled)
               (st_items s))))))"

definition completed_event_times :: "string \<Rightarrow> store \<Rightarrow> timestamp list" where
  "completed_event_times id' s =
     map ev_occurred_at
       (filter
         (\<lambda>e. ev_item e = id' \<and> (case ev_body e of EvCompleted _ _ _ \<Rightarrow> True | _ \<Rightarrow> False))
         (st_events s))"

definition completed_at :: "store \<Rightarrow> row \<Rightarrow> timestamp" where
  "completed_at s r =
     (case completed_event_times (r_id r) s of
        [] \<Rightarrow> r_updated_at r
      | t # ts \<Rightarrow> foldl max t ts)"

definition has_child :: "store \<Rightarrow> row \<Rightarrow> bool" where
  "has_child s r = list_ex (\<lambda>c. r_parent_id c = Some (r_id r)) (st_items s)"

definition no_finding_root :: "store \<Rightarrow> row \<Rightarrow> bool" where
  "no_finding_root s r = (r_status r = RCompleted \<and> \<not> has_child s r)"

text \<open>\<open>ORDER BY root.kind, root.created_at DESC, root.rowid DESC\<close>.\<close>

definition roots_by_kind :: "string \<Rightarrow> store \<Rightarrow> row list" where
  "roots_by_kind repository s =
     sort_key r_kind
       (rev (sort_key r_created_at
         (filter (\<lambda>r. r_repository r = repository \<and> r_parent_id r = None) (st_items s))))"

type_synonym streaks = "string \<Rightarrow> (timestamp \<times> int) option"

primrec streak_walk :: "store \<Rightarrow> row list \<Rightarrow> string list \<Rightarrow> streaks \<Rightarrow> streaks" where
  "streak_walk s [] settled streaks = streaks"
| "streak_walk s (r # rows) settled streaks =
     (let kind = r_kind r in
      if kind \<in> set settled then streak_walk s rows settled streaks
      else if \<not> no_finding_root s r then streak_walk s rows (kind # settled) streaks
      else
        streak_walk s rows settled
          (streaks(kind \<mapsto>
            (case streaks kind of
               None \<Rightarrow> (completed_at s r, 1)
             | Some (at, n) \<Rightarrow> (at, n + 1)))))"

definition no_finding_streaks :: "string \<Rightarrow> store \<Rightarrow> streaks" where
  "no_finding_streaks repository s = streak_walk s (roots_by_kind repository s) [] Map.empty"

record batch_candidate =
  bc_input :: seed_input
  bc_cooldown_seconds :: "jsnum option"

definition cooldown_of :: "jsnum option \<Rightarrow> batch_candidate \<Rightarrow> int res" where
  "cooldown_of override candidate =
     (let seconds =
        (case override of
           Some n \<Rightarrow> n
         | None \<Rightarrow> (case bc_cooldown_seconds candidate of Some n \<Rightarrow> n | None \<Rightarrow> JInt 0)) in
      and_then
        (require (is_safe_integer seconds \<and> 0 \<le> js_int seconds) (DefinitionError CooldownInvalid)) (\<lambda>_.
      Inr (js_int seconds)))"

record batch_outcome =
  bo_created :: "work_item list"
  bo_skipped_kinds :: "string list"
  bo_cooled_kinds :: "string list"

text \<open>One turn of the loop: the outcome so far, the active kinds and the database.\<close>

definition batch_step ::
    "ctx \<Rightarrow> string \<Rightarrow> streaks \<Rightarrow> nat \<times> batch_candidate \<times> int \<Rightarrow>
       batch_outcome \<times> string list \<times> store \<Rightarrow> (batch_outcome \<times> string list \<times> store) res"
where
  "batch_step cx repository no_finding entry acc =
     (case entry of (index, candidate, base) \<Rightarrow>
      case acc of (outcome, active, s) \<Rightarrow>
      let input = (bc_input candidate)\<lparr>si_repository := repository\<rparr>; kind = si_kind input in
      and_then (validate_work_definition (definition_of_seed None None None input)) (\<lambda>_.
      and_then (assert_no_predecessors (si_extra input)) (\<lambda>_.
      if kind \<in> set active
      then Inr (outcome\<lparr>bo_skipped_kinds := bo_skipped_kinds outcome @ [kind]\<rparr>, active, s)
      else
        (let streak = (case no_finding kind of None \<Rightarrow> 0 | Some (_, n) \<Rightarrow> n);
             cooldown = backed_off_cooldown_seconds base streak;
             cooled =
               (case no_finding kind of
                  None \<Rightarrow> False
                | Some (at, _) \<Rightarrow> cooldown > 0 \<and> at \<ge> cx_clock cx (4 * index) - cooldown * 1000) in
         if cooled
         then Inr (outcome\<lparr>bo_cooled_kinds := bo_cooled_kinds outcome @ [kind]\<rparr>, active, s)
         else
           and_then
             (create_item cx (4 * index + 1)
               (root_of_seed (cx_uuid cx index) True (cx_clock cx (4 * index + 1)) input)
               (EvQueued None None) s) (\<lambda>(item, s').
           Inr (outcome\<lparr>bo_created := bo_created outcome @ [item]\<rparr>, kind # active, s'))))))"

definition enqueue_inactive_root_batch ::
    "ctx \<Rightarrow> string \<Rightarrow> batch_candidate list \<Rightarrow> jsnum option \<Rightarrow> store \<Rightarrow> (batch_outcome \<times> store) res"
where
  "enqueue_inactive_root_batch cx repository candidates override s =
     and_then (validate_repository repository) (\<lambda>_.
     and_then (map_res (cooldown_of override) candidates) (\<lambda>cooldowns.
     transaction (\<lambda>s.
       and_then (assert_repository_enabled repository s) (\<lambda>_.
       and_then (active_root_kinds repository s) (\<lambda>active.
       let no_finding =
         (if list_ex (\<lambda>n. n > 0) cooldowns then no_finding_streaks repository s else Map.empty) in
       and_then
         (fold_res (batch_step cx repository no_finding)
           (zip [0..<length candidates] (zip candidates cooldowns))
           (\<lparr>bo_created = [], bo_skipped_kinds = [], bo_cooled_kinds = []\<rparr>, active, s)) (\<lambda>(outcome, _, s').
       Inr (outcome, s'))))) s))"

subsection \<open>Roots bound to a pull request\<close>

record bound_root_input =
  br_seed :: seed_input
  br_source_ref :: string

definition enqueue_cure_root ::
    "ctx \<Rightarrow> string \<Rightarrow> bound_root_input \<Rightarrow> pull_request_cure \<Rightarrow> store \<Rightarrow> (work_item option \<times> store) res"
where
  "enqueue_cure_root cx repository input cure s =
     (let seed = (br_seed input)\<lparr>si_repository := repository\<rparr>; ref = br_source_ref input in
      and_then (validate_repository repository) (\<lambda>_.
      and_then (validate_source_ref ref) (\<lambda>_.
      and_then (validate_cure cure) (\<lambda>_.
      and_then (require (si_kind seed = ''pr-cure'') (DefinitionError CureRootKind)) (\<lambda>_.
      and_then (assert_no_predecessors (si_extra seed)) (\<lambda>_.
      and_then (validate_work_definition (definition_of_seed (Some ref) (Some cure) None seed)) (\<lambda>_.
      transaction (\<lambda>s.
        and_then (assert_repository_enabled repository s) (\<lambda>_.
        if source_ref_exists repository ref s then Inr (None, s)
        else
          and_then
            (create_item cx 0
              ((root_of_seed (cx_uuid cx 0) True (cx_clock cx 0) seed)
                \<lparr>nw_source_ref := Some ref, nw_cure := Some cure\<rparr>)
              (EvQueued (Some (pc_pull_request_url cure, pc_head_sha cure, pc_decay cure)) None) s) (\<lambda>(item, s').
          Inr (Some item, s')))) s)))))))"

definition review_fix_actions :: "action list" where
  "review_fix_actions = [Read, Write, RunTests, OpenPr]"

definition check_review_actions :: "pull_request_review \<Rightarrow> seed_input \<Rightarrow> unit res" where
  "check_review_actions review seed =
     (if si_kind seed = ''pr-review'' then assert_subset (si_allowed_actions seed) [Read, RunTests]
      else
        and_then
          (require
            (sort_key action_name (si_allowed_actions seed) = sort_key action_name review_fix_actions)
            (ReviewRootError FixRootActions)) (\<lambda>_.
        require (case pr_review_item_id review of None \<Rightarrow> False | Some i \<Rightarrow> i \<noteq> [])
          (ReviewRootError FixRootWithoutReviewItem)))"

definition enqueue_review_root ::
    "ctx \<Rightarrow> string \<Rightarrow> bound_root_input \<Rightarrow> pull_request_review \<Rightarrow> store \<Rightarrow> (work_item option \<times> store) res"
where
  "enqueue_review_root cx repository input review s =
     (let seed = (br_seed input)\<lparr>si_repository := repository\<rparr>; ref = br_source_ref input; kind = si_kind seed in
      and_then (validate_repository repository) (\<lambda>_.
      and_then (validate_source_ref ref) (\<lambda>_.
      and_then (validate_review review) (\<lambda>_.
      and_then
        (require (kind = ''pr-review'' \<or> kind = ''pr-review-fix'') (DefinitionError ReviewRootKind)) (\<lambda>_.
      and_then (assert_no_predecessors (si_extra seed)) (\<lambda>_.
      and_then (require (si_delegable_actions seed = []) (ReviewRootError ReviewRootDelegates)) (\<lambda>_.
      and_then (check_review_actions review seed) (\<lambda>_.
      and_then (validate_work_definition (definition_of_seed (Some ref) None (Some review) seed)) (\<lambda>_.
      transaction (\<lambda>s.
        and_then (assert_repository_enabled repository s) (\<lambda>_.
        if source_ref_exists repository ref s then Inr (None, s)
        else
          and_then
            (create_item cx 0
              ((root_of_seed (cx_uuid cx 0) True (cx_clock cx 0) seed)
                \<lparr>nw_source_ref := Some ref, nw_review := Some review\<rparr>)
              (EvQueued None
                (Some
                  (kind, pr_pull_request_url review, pr_head_sha review, pr_round review,
                   (case pr_review_item_id review of None \<Rightarrow> None | Some i \<Rightarrow> if i = [] then None else Some i),
                   (if kind = ''pr-review-fix''
                    then Some (map rb_fingerprint (case pr_blockers review of None \<Rightarrow> [] | Some bs \<Rightarrow> bs))
                    else None))))
              s) (\<lambda>(item, s').
          Inr (Some item, s')))) s)))))))))"

subsection \<open>Proposed roots\<close>

record proposed_root_input =
  pi_seed :: seed_input
  pi_source_ref :: string
  pi_predecessors :: "string list option"

record proposal_outcome =
  po_created :: "work_item list"
  po_skipped_source_refs :: "string list"

definition proposal_step ::
    "ctx \<Rightarrow> string \<Rightarrow> nat \<times> proposed_root_input \<Rightarrow>
       proposal_outcome \<times> string list \<times> store \<Rightarrow> (proposal_outcome \<times> string list \<times> store) res"
where
  "proposal_step cx repository entry acc =
     (case entry of (index, candidate) \<Rightarrow>
      case acc of (outcome, seen, s) \<Rightarrow>
      let input = (pi_seed candidate)\<lparr>si_repository := repository\<rparr>; ref = pi_source_ref candidate in
      and_then (validate_work_definition (definition_of_seed None None None input)) (\<lambda>_.
      and_then (validate_source_ref ref) (\<lambda>_.
      and_then (normalize_predecessors (pi_predecessors candidate)) (\<lambda>predecessors.
      if ref \<in> set seen \<or> source_ref_exists repository ref s
      then Inr (outcome\<lparr>po_skipped_source_refs := po_skipped_source_refs outcome @ [ref]\<rparr>, seen, s)
      else
        and_then
          (create_item cx (3 * index)
            ((root_of_seed (cx_uuid cx index) False (cx_clock cx (3 * index)) input)
              \<lparr>nw_source_ref := Some ref, nw_predecessors := predecessors\<rparr>)
            (EvProposedRoot ref predecessors) s) (\<lambda>(item, s').
        Inr (outcome\<lparr>po_created := po_created outcome @ [item]\<rparr>, ref # seen, s'))))))"

definition enqueue_proposed_roots ::
    "ctx \<Rightarrow> string \<Rightarrow> proposed_root_input list \<Rightarrow> store \<Rightarrow> (proposal_outcome \<times> store) res"
where
  "enqueue_proposed_roots cx repository candidates s =
     and_then (validate_repository repository) (\<lambda>_.
     transaction (\<lambda>s.
       and_then (assert_repository_enabled repository s) (\<lambda>_.
       and_then
         (fold_res (proposal_step cx repository) (zip [0..<length candidates] candidates)
           (\<lparr>po_created = [], po_skipped_source_refs = []\<rparr>, [], s)) (\<lambda>(outcome, _, s').
       Inr (outcome, s')))) s)"

end
