(* ===== verification/Follow_Up_Intent.thy ===== *)
theory Follow_Up_Intent
  imports Database_Laws
begin

text \<open>
  Follow-up proposals made explicit (\<open>src/src/queue/follow-up-intent.ts\<close>): an intent derives
  the child's whole delivery contract from the parent's delegation ceiling, and a proposal
  without one must declare every field. \<open>JSON.stringify\<close> of a refused field is left out of
  the error values.
\<close>

record derived_contract =
  dc_kind :: "string option"
  dc_allowed_actions :: "action list"
  dc_delegable_actions :: "action list"
  dc_required_artifact :: required_artifact
  dc_execution_target :: execution_target

definition require_intent :: "follow_up_intent \<Rightarrow> follow_up_intent res" where
  "require_intent intent =
     (case intent of
        OtherIntent _ \<Rightarrow> Inl (FollowUpError IntentUnknown)
      | _ \<Rightarrow> Inr intent)"

text \<open>The \<open>required\<close> and \<open>direct\<close> action sets of \<open>derivedContract\<close>.\<close>

definition required_actions :: "bool \<Rightarrow> action list" where
  "required_actions change = (if change then [Read, Write, OpenPr] else [Read])"

definition direct_actions :: "action list \<Rightarrow> bool \<Rightarrow> action list" where
  "direct_actions ceiling change =
     required_actions change @
     filter (\<lambda>a. \<not> (change \<and> a = OpenIssue) \<and> a \<in> set ceiling) [RunTests, OpenIssue, CreateFollowup]"

definition in_declared_order :: "action list \<Rightarrow> action list" where
  "in_declared_order xs = filter (\<lambda>a. a \<in> set xs) allowed_actions"

definition derived_contract ::
    "action list \<Rightarrow> pull_request_cure option \<Rightarrow> follow_up_intent \<Rightarrow> derived_contract res" where
  "derived_contract ceiling cure intent =
     (let change = (intent \<noteq> IntentReadOnly);
          unavailable = filter (\<lambda>a. a \<notin> set ceiling) (required_actions change);
          direct = direct_actions ceiling change in
      and_then (require (unavailable = []) (FollowUpError (IntentExceedsCeiling unavailable))) (\<lambda>_.
      and_then
        (require (\<not> (intent = IntentExistingPrChange \<and> cure = None)) (FollowUpError IntentNeedsCure)) (\<lambda>_.
      Inr
        \<lparr>dc_kind = (if intent = IntentExistingPrChange then Some cure_change_kind else None),
         dc_allowed_actions = in_declared_order direct,
         dc_delegable_actions =
           (if CreateFollowup \<in> set direct then in_declared_order ceiling else []),
         dc_required_artifact = (if change then PullRequestArtifact else NoArtifact),
         dc_execution_target =
           (if intent = IntentReadOnly then ReadOnly
            else if intent = IntentNewPrChange then NewPullRequest else ExistingPullRequest)\<rparr>)))"

definition assert_optional_actions :: "string \<Rightarrow> action list option \<Rightarrow> action list \<Rightarrow> unit res" where
  "assert_optional_actions field supplied derived =
     (case supplied of
        None \<Rightarrow> Inr ()
      | Some given \<Rightarrow>
          (let normalized = filter (\<lambda>a. a \<in> set given) allowed_actions in
           require (length normalized = length given \<and> normalized = derived)
             (FollowUpError (IntentContractMismatch field))))"

definition assert_optional_scalar :: "string \<Rightarrow> 'a option \<Rightarrow> 'a \<Rightarrow> unit res" where
  "assert_optional_scalar field supplied derived =
     require (supplied = None \<or> supplied = Some derived)
       (FollowUpError (IntentContractMismatch field))"

definition normalize_legacy_follow_up :: "follow_up_proposal \<Rightarrow> follow_up_input res" where
  "normalize_legacy_follow_up proposal =
     (case (fp_kind proposal, fp_allowed_actions proposal, fp_delegable_actions proposal,
            fp_required_artifact proposal, fp_execution_target proposal) of
        (Some kind, Some allowed, Some delegable, Some required, Some target) \<Rightarrow>
          Inr
            \<lparr>fu_kind = kind, fu_objective = fp_objective proposal,
             fu_instructions = fp_instructions proposal,
             fu_acceptance_criteria = fp_acceptance_criteria proposal,
             fu_allowed_actions = allowed, fu_delegable_actions = delegable,
             fu_required_artifact = required, fu_execution_target = target\<rparr>
      | _ \<Rightarrow> Inl (FollowUpError LegacyFieldsMissing))"

definition normalize_follow_up_intent ::
    "action list \<Rightarrow> pull_request_cure option \<Rightarrow> follow_up_proposal \<Rightarrow> follow_up_input res" where
  "normalize_follow_up_intent ceiling cure proposal =
     (case fp_intent proposal of
        None \<Rightarrow> normalize_legacy_follow_up proposal
      | Some raw \<Rightarrow>
          and_then (require_intent raw) (\<lambda>intent.
          and_then (derived_contract ceiling cure intent) (\<lambda>derived.
          and_then
            (case dc_kind derived of
               Some k \<Rightarrow> Inr k
             | None \<Rightarrow>
                 (case fp_kind proposal of
                    None \<Rightarrow> Inl (FollowUpError IntentKindMissing)
                  | Some k \<Rightarrow> Inr k)) (\<lambda>kind.
          and_then
            (require (fp_kind proposal = None \<or> fp_kind proposal = Some kind)
              (FollowUpError IntentKindMismatch)) (\<lambda>_.
          and_then
            (assert_optional_actions ''allowedActions'' (fp_allowed_actions proposal)
              (dc_allowed_actions derived)) (\<lambda>_.
          and_then
            (assert_optional_actions ''delegableActions'' (fp_delegable_actions proposal)
              (dc_delegable_actions derived)) (\<lambda>_.
          and_then
            (assert_optional_scalar ''requiredArtifact'' (fp_required_artifact proposal)
              (dc_required_artifact derived)) (\<lambda>_.
          and_then
            (assert_optional_scalar ''executionTarget'' (fp_execution_target proposal)
              (dc_execution_target derived)) (\<lambda>_.
          Inr
            \<lparr>fu_kind = kind, fu_objective = fp_objective proposal,
             fu_instructions = fp_instructions proposal,
             fu_acceptance_criteria = fp_acceptance_criteria proposal,
             fu_allowed_actions = dc_allowed_actions derived,
             fu_delegable_actions = dc_delegable_actions derived,
             fu_required_artifact = dc_required_artifact derived,
             fu_execution_target = dc_execution_target derived\<rparr>)))))))))"

subsection \<open>What an intent derives\<close>

lemma derived_contract_Inr:
  assumes "derived_contract ceiling cure intent = Inr d"
  shows "set (dc_allowed_actions d) \<subseteq> set ceiling"
    and "set (dc_delegable_actions d) \<subseteq> set ceiling"
    and "set (dc_allowed_actions d) \<subseteq> set allowed_actions"
    and "set (dc_delegable_actions d) \<subseteq> set allowed_actions"
    and "intent \<noteq> IntentReadOnly \<longleftrightarrow> Write \<in> set (dc_allowed_actions d)"
    and "intent \<noteq> IntentReadOnly \<longleftrightarrow> OpenPr \<in> set (dc_allowed_actions d)"
    and "CreateFollowup \<in> set (dc_allowed_actions d) \<longleftrightarrow> CreateFollowup \<in> set ceiling"
    and "dc_required_artifact d = (if intent = IntentReadOnly then NoArtifact else PullRequestArtifact)"
    and "dc_delegable_actions d = [] \<longleftrightarrow> CreateFollowup \<notin> set ceiling"
    and "intent = IntentExistingPrChange \<longleftrightarrow> dc_kind d = Some cure_change_kind"
    and "intent = IntentExistingPrChange \<Longrightarrow> cure \<noteq> None"
proof -
  let ?change = "intent \<noteq> IntentReadOnly"
  have parts: "filter (\<lambda>a. a \<notin> set ceiling) (required_actions ?change) = []"
    "intent = IntentExistingPrChange \<longrightarrow> cure \<noteq> None"
    "dc_allowed_actions d = in_declared_order (direct_actions ceiling ?change)"
    "dc_delegable_actions d =
       (if CreateFollowup \<in> set (direct_actions ceiling ?change) then in_declared_order ceiling else [])"
    "dc_required_artifact d = (if ?change then PullRequestArtifact else NoArtifact)"
    "dc_kind d = (if intent = IntentExistingPrChange then Some cure_change_kind else None)"
    using assms unfolding derived_contract_def Let_def and_then_Inr_iff require_Inr_iff by auto
  have required: "set (required_actions ?change) \<subseteq> set ceiling"
    using parts(1) by (auto simp: filter_empty_conv)
  then have direct: "set (direct_actions ceiling ?change) \<subseteq> set ceiling"
    by (auto simp: direct_actions_def)
  show "set (dc_allowed_actions d) \<subseteq> set ceiling" "set (dc_delegable_actions d) \<subseteq> set ceiling"
    "set (dc_allowed_actions d) \<subseteq> set allowed_actions"
    "set (dc_delegable_actions d) \<subseteq> set allowed_actions"
    using direct unfolding parts(3,4) by (auto simp: in_declared_order_def)
  show "intent \<noteq> IntentReadOnly \<longleftrightarrow> Write \<in> set (dc_allowed_actions d)"
    "intent \<noteq> IntentReadOnly \<longleftrightarrow> OpenPr \<in> set (dc_allowed_actions d)"
    unfolding parts(3)
    by (auto simp: in_declared_order_def allowed_actions_def direct_actions_def required_actions_def)
  have cf: "CreateFollowup \<in> set (direct_actions ceiling ?change) \<longleftrightarrow> CreateFollowup \<in> set ceiling"
    by (auto simp: direct_actions_def required_actions_def)
  show "CreateFollowup \<in> set (dc_allowed_actions d) \<longleftrightarrow> CreateFollowup \<in> set ceiling"
    unfolding parts(3) cf [symmetric] by (simp add: in_declared_order_def allowed_actions_def)
  show "dc_delegable_actions d = [] \<longleftrightarrow> CreateFollowup \<notin> set ceiling"
    unfolding parts(4) cf by (auto simp: in_declared_order_def filter_empty_conv allowed_actions_def)
qed (use assms in \<open>auto simp: derived_contract_def Let_def and_then_Inr_iff require_Inr_iff split: if_splits\<close>)

lemma derived_contract_target:
  assumes "derived_contract ceiling cure intent = Inr d" and "require_intent intent = Inr i"
  shows "dc_execution_target d = ReadOnly \<longleftrightarrow> intent = IntentReadOnly"
    and "dc_execution_target d = NewPullRequest \<longleftrightarrow> intent = IntentNewPrChange"
    and "dc_execution_target d = ExistingPullRequest \<longleftrightarrow> intent = IntentExistingPrChange"
  using assms
  by (auto simp: derived_contract_def Let_def res_iffs require_intent_def
      split: if_splits follow_up_intent.splits)

lemma normalize_follow_up_intent_Inr:
  assumes "normalize_follow_up_intent ceiling cure proposal = Inr f"
    and "fp_intent proposal = Some intent"
  obtains d where "derived_contract ceiling cure intent = Inr d" and "require_intent intent = Inr intent"
    and "fu_allowed_actions f = dc_allowed_actions d"
    and "fu_delegable_actions f = dc_delegable_actions d"
    and "fu_required_artifact f = dc_required_artifact d"
    and "fu_execution_target f = dc_execution_target d"
    and "\<And>k. dc_kind d = Some k \<Longrightarrow> fu_kind f = k"
proof -
  obtain i d where i: "require_intent intent = Inr i" and d: "derived_contract ceiling cure i = Inr d"
    using assms by (auto simp: normalize_follow_up_intent_def and_then_Inr_iff)
  then have "i = intent" by (auto simp: require_intent_def split: follow_up_intent.splits)
  with i d show thesis
    using assms
    by (intro that [of d])
      (auto simp: normalize_follow_up_intent_def and_then_Inr_iff split: option.splits)
qed

end
