(* ===== verification/Artifact_Identity.thy ===== *)
theory Artifact_Identity
  imports Database_Laws
begin

text \<open>
  The identity of a delivered artifact (\<open>src/src/queue/artifact-identity.ts\<close>). The source
  renders an identity as a string; the rendering is kept apart here as a constructor per
  template, which the templates' distinct prefixes make faithful. \<open>Number(digits)\<close> is the
  nearest double, so long numerals of two different pull requests can share an identity.
\<close>

text \<open>How many low bits of a numeral do not fit the 53 bits of a double (\<open>9007199254740992 = 2 ^ 53\<close>).\<close>

function excess_bits :: "int \<Rightarrow> nat" where
  "excess_bits v = (if v < 9007199254740992 then 0 else Suc (excess_bits (v div 2)))"
  by auto
termination by (relation "measure nat") auto

declare excess_bits.simps [simp del]

definition nearest_double :: "int \<Rightarrow> int" where
  "nearest_double v =
     (let e = excess_bits v; m = v div 2 ^ e; r = v mod 2 ^ e in
      if e = 0 then v
      else
        (let up = (2 ^ (e - 1) < r \<or> r = 2 ^ (e - 1) \<and> odd m) in
         min (2 ^ 1024) ((if up then m + 1 else m) * 2 ^ e)))"

definition pull_request_number :: "string \<Rightarrow> jsnum option" where
  "pull_request_number value =
     (case parse_url value of
        None \<Rightarrow> None
      | Some url \<Rightarrow>
          if u_protocol url \<noteq> ''https:'' \<or> to_lower (u_hostname url) \<noteq> ''github.com'' then None
          else
            (case split_char CHR ''/'' (u_pathname url) of
               lead # owner # name # pull # digits # rest \<Rightarrow>
                 if lead = [] \<and> owner \<noteq> [] \<and> name \<noteq> [] \<and> to_lower pull = ''pull'' \<and>
                    positive_numeral digits \<and> (rest = [] \<or> rest = [ [] ])
                 then Some (JInt (nearest_double (decimal_value digits)))
                 else None
             | _ \<Rightarrow> None))"

datatype artifact_identity =
    PullRequestNumber string jsnum
  | PullRequestAddress string
  | ReleaseAddress string

definition pull_request_artifact_identity :: "string \<Rightarrow> work_artifact \<Rightarrow> artifact_identity" where
  "pull_request_artifact_identity repository artifact =
     (let verified_number =
        (case wa_verification artifact of
           Some (Verified v) \<Rightarrow> if wa_kind artifact = PullRequest then Some (vo_number v) else None
         | _ \<Rightarrow> None) in
      case (case verified_number of Some n \<Rightarrow> Some n | None \<Rightarrow> pull_request_number (wa_url artifact)) of
        None \<Rightarrow> PullRequestAddress (to_lower (wa_url artifact))
      | Some n \<Rightarrow> PullRequestNumber (to_lower repository) n)"

definition delivery_artifact_identity :: "string \<Rightarrow> work_artifact \<Rightarrow> artifact_identity option" where
  "delivery_artifact_identity repository artifact =
     (if wa_kind artifact = PullRequest then Some (pull_request_artifact_identity repository artifact)
      else if wa_kind artifact = Release then Some (ReleaseAddress (to_lower (wa_url artifact)))
      else None)"

definition reported_pull_request :: "string \<Rightarrow> work_artifact" where
  "reported_pull_request url =
     \<lparr>wa_kind = PullRequest, wa_url = url, wa_description = None, wa_verification = None\<rparr>"

lemma nearest_double_exact: "v < 9007199254740992 \<Longrightarrow> nearest_double v = v"
  by (simp add: nearest_double_def excess_bits.simps [of v])

lemma pull_request_identity_verified:
  "wa_kind a = PullRequest \<Longrightarrow> wa_verification a = Some (Verified v) \<Longrightarrow>
     pull_request_artifact_identity g a = PullRequestNumber (to_lower g) (vo_number v)"
  by (simp add: pull_request_artifact_identity_def)

lemma pull_request_identity_case:
  "to_lower g = to_lower g' \<Longrightarrow>
     pull_request_artifact_identity g a = pull_request_artifact_identity g' a"
  by (simp add: pull_request_artifact_identity_def cong: option.case_cong)

end
