(* ===== verification/Operator_Decisions.thy ===== *)
theory Operator_Decisions
  imports Policy_Binding Artifact_Identity
begin

text \<open>
  The mutations of \<open>QueueStore\<close> an operator or a policy actor makes on one existing item:
  \<open>approve\<close>, \<open>defer\<close>, \<open>note\<close>, \<open>prioritize\<close>, \<open>reject\<close>, \<open>requeue\<close>, \<open>releaseLease\<close>,
  \<open>cancel\<close>, \<open>retirePullRequestBoundWork\<close>, \<open>recordArtifactVerification\<close>, \<open>attachArtifact\<close>,
  \<open>recordPullRequestReady\<close> and \<open>replaceProposedPredecessors\<close>. Each interprets
  \<open>item_mutation\<close> with its edges of the status machine.

  The clock readings are numbered in the order of the calls: the operation's \<open>now\<close> first, the
  event's \<open>occurred_at\<close> last.
\<close>

definition operator_note_of ::
    "timestamp \<Rightarrow> string \<Rightarrow> operator_note_action \<Rightarrow> string \<Rightarrow> operator_note" where
  "operator_note_of at actor act reason =
     \<lparr>on_at = at, on_actor = actor, on_action = act, on_reason = reason\<rparr>"

subsection \<open>Admission\<close>

definition item_view :: "work_item \<Rightarrow> action list option \<Rightarrow> contract_view" where
  "item_view item parent_delegable =
     \<lparr>cv_allowed_actions = wi_allowed_actions item,
      cv_delegable_actions = Some (wi_delegable_actions item),
      cv_required_artifact = wi_required_artifact item,
      cv_execution_target = wi_execution_target item, cv_source_ref = wi_source_ref item,
      cv_cure = wi_cure item, cv_review = wi_review item, cv_parent_id = wi_parent_id item,
      cv_parent_delegable_actions = parent_delegable, cv_kind = Some (wi_kind item)\<rparr>"

definition delegable_actions_of :: "string option \<Rightarrow> store \<Rightarrow> action list option" where
  "delegable_actions_of parent_id s =
     (case parent_id of
        None \<Rightarrow> None
      | Some p \<Rightarrow>
         map_option (\<lambda>r. parse_json (r_delegable_actions r) []) (find_row p s))"

definition approve :: "ctx \<Rightarrow> string \<Rightarrow> string \<Rightarrow> precondition \<Rightarrow> store \<Rightarrow> (work_item \<times> store) res" where
  "approve cx id' actor pre s =
     and_then (validate_operator_actor actor) (\<lambda>_.
     transaction (\<lambda>s.
       and_then (get_required id' s) (\<lambda>item.
       and_then (assert_precondition item pre) (\<lambda>_.
       and_then (require (wi_status item = Proposed) (StateError (NotProposed id'))) (\<lambda>_.
       and_then
         (case contract_problem (item_view item (delegable_actions_of (wi_parent_id item) s)) of
            None \<Rightarrow> Inr ()
          | Some code \<Rightarrow> Inl (StateError (CannotBeAdmitted id' code))) (\<lambda>_.
       let now = cx_clock cx 0 in
       and_then
         (bind_policy cx now
           \<lparr>bi_repository = wi_repository item, bi_kind = wi_kind item,
            bi_allowed_actions = wi_allowed_actions item,
            bi_delegable_actions = wi_delegable_actions item,
            bi_created_by = wi_created_by item, bi_admitted = False\<rparr>) (\<lambda>rebound.
       let policy_update =
         map_option
           (\<lambda>p. p\<lparr>pol_authorization :=
              Some (OperatorAuthorization actor (pol_review_required p) now)\<rparr>)
           rebound in
       commit_row id'
         (\<lambda>r. r\<lparr>r_admitted := True,
           r_policy := (case policy_update of None \<Rightarrow> r_policy r | Some p \<Rightarrow> Json p),
           r_updated_at := now\<rparr>)
         (EvApproved
           (map_option
             (\<lambda>p. (pol_core_snapshot_id p, pol_repository_commit_id p, pol_review_required p))
             policy_update))
         actor (cx_clock cx 1) s)))))) s)"

subsection \<open>Decisions that carry a reason\<close>

definition defer_item ::
    "ctx \<Rightarrow> string \<Rightarrow> string \<Rightarrow> string \<Rightarrow> precondition \<Rightarrow> store \<Rightarrow> (work_item \<times> store) res" where
  "defer_item cx id' actor reason pre s =
     and_then (validate_operator_actor actor) (\<lambda>_.
     and_then (validate_operator_note_reason reason) (\<lambda>_.
     transaction (\<lambda>s.
       and_then (get_required id' s) (\<lambda>item.
       and_then (assert_precondition item pre) (\<lambda>_.
       and_then (require (wi_status item = Queued) (StateError (NotQueuedAdmitted id'))) (\<lambda>_.
       let now = cx_clock cx 0 in
       commit_row id'
         (\<lambda>r. r\<lparr>r_admitted := False,
           r_operator_notes := append_operator_note item (operator_note_of now actor NoteDefer reason),
           r_updated_at := now\<rparr>)
         (EvDeferred reason) actor (cx_clock cx 1) s)))) s))"

definition note_item ::
    "ctx \<Rightarrow> string \<Rightarrow> string \<Rightarrow> string \<Rightarrow> precondition \<Rightarrow> store \<Rightarrow> (work_item \<times> store) res" where
  "note_item cx id' actor reason pre s =
     and_then (validate_operator_actor actor) (\<lambda>_.
     and_then (validate_operator_note_reason reason) (\<lambda>_.
     transaction (\<lambda>s.
       and_then (get_required id' s) (\<lambda>item.
       and_then (assert_precondition item pre) (\<lambda>_.
       let now = cx_clock cx 0 in
       commit_row id'
         (\<lambda>r. r\<lparr>r_operator_notes :=
             append_operator_note item (operator_note_of now actor NoteNote reason),
           r_updated_at := now\<rparr>)
         (EvNoted reason) actor (cx_clock cx 1) s))) s))"

definition prioritize ::
    "ctx \<Rightarrow> string \<Rightarrow> string \<Rightarrow> jsnum \<Rightarrow> string \<Rightarrow> precondition \<Rightarrow> store \<Rightarrow> (work_item \<times> store) res"
where
  "prioritize cx id' actor priority reason pre s =
     and_then (validate_operator_actor actor) (\<lambda>_.
     and_then (require (is_safe_integer priority) (DefinitionError PriorityNotSafeInteger)) (\<lambda>_.
     and_then (validate_operator_note_reason reason) (\<lambda>_.
     transaction (\<lambda>s.
       and_then (get_required id' s) (\<lambda>item.
       and_then (assert_precondition item pre) (\<lambda>_.
       and_then
         (require (wi_status item = Proposed \<or> wi_status item = Queued \<or> wi_status item = Blocked)
           (StateError (NotPrioritizable id'))) (\<lambda>_.
       let now = cx_clock cx 0 in
       commit_row id'
         (\<lambda>r. r\<lparr>r_priority := js_int priority,
           r_operator_notes :=
             append_operator_note item (operator_note_of now actor NotePrioritize reason),
           r_updated_at := now\<rparr>)
         (EvPrioritized (wi_priority item) (js_int priority) reason) actor (cx_clock cx 1) s)))) s)))"

definition reject ::
    "ctx \<Rightarrow> string \<Rightarrow> string \<Rightarrow> string \<Rightarrow> precondition \<Rightarrow> store \<Rightarrow> (work_item \<times> store) res" where
  "reject cx id' actor reason pre s =
     and_then (validate_operator_actor actor) (\<lambda>_.
     and_then (require (\<not> blank reason) (StateError ReasonRequired)) (\<lambda>_.
     transaction (\<lambda>s.
       and_then (get_required id' s) (\<lambda>item.
       and_then (assert_precondition item pre) (\<lambda>_.
       and_then (require (wi_status item = Proposed) (StateError (NotProposed id'))) (\<lambda>_.
       let now = cx_clock cx 0 in
       commit_row id'
         (\<lambda>r. r\<lparr>r_status := RCancelled, r_result := Json (reason_result reason),
           r_updated_at := now\<rparr>)
         (EvRejected reason) actor (cx_clock cx 1) s)))) s))"

definition requeue ::
    "ctx \<Rightarrow> string \<Rightarrow> string \<Rightarrow> string \<Rightarrow> precondition \<Rightarrow> store \<Rightarrow> (work_item \<times> store) res" where
  "requeue cx id' actor reason pre s =
     and_then (validate_operator_actor actor) (\<lambda>_.
     and_then (validate_operator_note_reason reason) (\<lambda>_.
     transaction (\<lambda>s.
       and_then (get_required id' s) (\<lambda>item.
       and_then (assert_precondition item pre) (\<lambda>_.
       and_then (require (wi_status item = Blocked) (StateError (NotBlocked id'))) (\<lambda>_.
       let now = cx_clock cx 0;
           previous_results =
             (case wi_result item of
                None \<Rightarrow> wi_previous_results item
              | Some w \<Rightarrow> wi_previous_results item @ [w]) in
       commit_row id'
         (\<lambda>r. clear_lease
           (r\<lparr>r_status := RQueued, r_result := SqlNull, r_previous_results := Json previous_results,
             r_operator_notes :=
               append_operator_note item (operator_note_of now actor NoteRequeue reason),
             r_updated_at := now\<rparr>))
         (EvRequeued reason) actor (cx_clock cx 1) s)))) s))"

definition release_lease ::
    "ctx \<Rightarrow> string \<Rightarrow> string \<Rightarrow> string \<Rightarrow> precondition \<Rightarrow> store \<Rightarrow> (work_item \<times> store) res" where
  "release_lease cx id' actor reason pre s =
     and_then (validate_operator_actor actor) (\<lambda>_.
     and_then (validate_operator_note_reason reason) (\<lambda>_.
     transaction (\<lambda>s.
       and_then (get_required id' s) (\<lambda>item.
       and_then (assert_precondition item pre) (\<lambda>_.
       and_then (require (wi_status item = Claimed) (StateError (NotClaimed id'))) (\<lambda>_.
       let now = cx_clock cx 0 in
       commit_row id'
         (\<lambda>r. clear_lease
           (r\<lparr>r_status := RQueued,
             r_operator_notes :=
               append_operator_note item (operator_note_of now actor NoteReleaseLease reason),
             r_updated_at := now\<rparr>))
         (EvReleased reason (Some (wi_lease_owner item, wi_lease_expires_at item))) actor
         (cx_clock cx 1) s)))) s))"

definition cancelled_row :: "timestamp \<Rightarrow> string \<Rightarrow> row \<Rightarrow> row" where
  "cancelled_row now reason r =
     clear_lease
       (r\<lparr>r_status := RCancelled, r_result := Json (reason_result reason), r_updated_at := now\<rparr>)"

definition cancel ::
    "ctx \<Rightarrow> string \<Rightarrow> string \<Rightarrow> string \<Rightarrow> precondition \<Rightarrow> store \<Rightarrow> (work_item \<times> store) res" where
  "cancel cx id' actor reason pre s =
     and_then (validate_operator_actor actor) (\<lambda>_.
     and_then (require (\<not> blank reason) (StateError ReasonRequired)) (\<lambda>_.
     transaction (\<lambda>s.
       and_then (get_required id' s) (\<lambda>item.
       and_then (assert_precondition item pre) (\<lambda>_.
       and_then (require (wi_status item = Blocked) (StateError (NotBlocked id'))) (\<lambda>_.
       let now = cx_clock cx 0 in
       commit_row id' (cancelled_row now reason) (EvCancelled reason) actor (cx_clock cx 1) s)))) s))"

definition retire_pull_request_bound_work ::
    "ctx \<Rightarrow> string \<Rightarrow> string \<Rightarrow> string \<Rightarrow> store \<Rightarrow> (work_item \<times> store) res" where
  "retire_pull_request_bound_work cx id' actor reason s =
     and_then (validate_operator_actor actor) (\<lambda>_.
     and_then (require (\<not> blank reason) (StateError ReasonRequired)) (\<lambda>_.
     transaction (\<lambda>s.
       and_then (get_required id' s) (\<lambda>item.
       and_then
         (require (wi_status item = Queued \<or> wi_status item = Blocked)
           (StateError (NotQueuedOrBlocked id'))) (\<lambda>_.
       let now = cx_clock cx 0 in
       commit_row id' (cancelled_row now reason) (EvCancelled reason) actor (cx_clock cx 1) s))) s))"

subsection \<open>Edges of a proposal and the artifacts of a completed item\<close>

definition replace_proposed_predecessors ::
    "ctx \<Rightarrow> string \<Rightarrow> string list \<Rightarrow> string \<Rightarrow> store \<Rightarrow> (work_item \<times> store) res" where
  "replace_proposed_predecessors cx id' predecessors actor s =
     and_then (validate_operator_actor actor) (\<lambda>_.
     and_then (normalize_predecessors (Some predecessors)) (\<lambda>replacement.
     transaction (\<lambda>s.
       and_then (get_required id' s) (\<lambda>item.
       and_then
         (require
           ((case find_row id' s of None \<Rightarrow> True | Some r \<Rightarrow> \<not> r_admitted r) \<and>
            wi_status item = Proposed)
           (StateError (PredecessorsNotReplaceable id'))) (\<lambda>_.
       commit_row id'
         (\<lambda>r. r\<lparr>r_predecessors := json_of_option replacement, r_updated_at := cx_clock cx 0\<rparr>)
         (EvPredecessorsUpdated
           (case replacement of None \<Rightarrow> [] | Some ps \<Rightarrow> ps)
           (case wi_predecessors item of None \<Rightarrow> [] | Some ps \<Rightarrow> ps))
         actor (cx_clock cx 1) s))) s))"

fun verified_state :: "verification option \<Rightarrow> observed_state option" where
  "verified_state (Some (Verified v)) = Some (vo_state v)"
| "verified_state _ = None"

fun verified_handoff :: "verification option \<Rightarrow> handoff option" where
  "verified_handoff (Some (Verified v)) = vo_handoff v"
| "verified_handoff _ = None"

definition completed_result :: "string \<Rightarrow> work_item \<Rightarrow> work_result res" where
  "completed_result id' item =
     (case wi_result item of
        None \<Rightarrow> Inl (StateError (NotCompleted id'))
      | Some w \<Rightarrow> if wi_status item \<noteq> Completed then Inl (StateError (NotCompleted id')) else Inr w)"

lemma completed_result_Inr [res_iffs]:
  "completed_result i item = Inr w \<longleftrightarrow> wi_result item = Some w \<and> wi_status item = Completed"
  by (auto simp: completed_result_def split: option.splits)

definition set_artifacts :: "timestamp \<Rightarrow> work_result \<Rightarrow> work_artifact list \<Rightarrow> row \<Rightarrow> row" where
  "set_artifacts now result artifacts r =
     r\<lparr>r_result := Json (result\<lparr>wr_artifacts := artifacts\<rparr>), r_updated_at := now\<rparr>"

definition record_artifact_verification ::
    "ctx \<Rightarrow> string \<Rightarrow> string \<Rightarrow> verification \<Rightarrow> string \<Rightarrow> store \<Rightarrow> (work_item \<times> store) res" where
  "record_artifact_verification cx id' url v actor s =
     and_then (require (\<not> blank actor) (PrincipalError ActorRequired)) (\<lambda>_.
     and_then (validate_verification v) (\<lambda>_.
     transaction (\<lambda>s.
       and_then (get_required id' s) (\<lambda>item.
       and_then (completed_result id' item) (\<lambda>result.
       (case find_index (\<lambda>a. wa_url a = url) (wr_artifacts result) of
          None \<Rightarrow> Inl (ResultError (ArtifactNotFound url))
        | Some index \<Rightarrow>
            (let artifact = wr_artifacts result ! index in
             and_then
               (require (verifiable_kind (wa_kind artifact))
                 (ResultError (ArtifactNotVerifiable (wa_kind artifact)))) (\<lambda>_.
             let artifacts = (wr_artifacts result)[index := artifact\<lparr>wa_verification := Some v\<rparr>];
                 now = cx_clock cx 0 in
             commit_row id' (set_artifacts now result artifacts)
               (EvArtifactVerified url (wa_kind artifact) (verified_state (Some v))
                 (verified_state (wa_verification artifact)) (verified_handoff (Some v))
                 (verified_handoff (wa_verification artifact)))
               actor (cx_clock cx 1) s)))))) s))"

definition attach_artifact ::
    "ctx \<Rightarrow> string \<Rightarrow> string \<Rightarrow> work_artifact \<Rightarrow> precondition \<Rightarrow> store \<Rightarrow> (work_item \<times> store) res" where
  "attach_artifact cx id' actor artifact pre s =
     and_then (validate_operator_actor actor) (\<lambda>_.
     and_then
       (require (verifiable_kind (wa_kind artifact))
         (ResultError (ArtifactKindNotAttachable (wa_kind artifact)))) (\<lambda>_.
     (case wa_verification artifact of
        None \<Rightarrow> Inl (ResultError VerificationRequired)
      | Some v \<Rightarrow>
     and_then (validate_verification v) (\<lambda>_.
     and_then
       (case wa_description artifact of
          None \<Rightarrow> Inr ()
        | Some d \<Rightarrow>
            and_then (require (\<not> blank d) (ResultError DescriptionEmpty)) (\<lambda>_.
            require (length d \<le> max_operator_note_length) (ResultError DescriptionTooLong))) (\<lambda>_.
     transaction (\<lambda>s.
       and_then (get_required id' s) (\<lambda>item.
       and_then (assert_precondition item pre) (\<lambda>_.
       and_then (completed_result id' item) (\<lambda>result.
       and_then (validate_artifact artifact) (\<lambda>_.
       and_then (assert_github_artifact_scope (wi_repository item) artifact) (\<lambda>_.
       and_then
         (require (\<not> list_ex (\<lambda>a. wa_url a = wa_url artifact) (wr_artifacts result))
           (ResultError (ArtifactAlreadyReported (wa_url artifact)))) (\<lambda>_.
       let artifacts = wr_artifacts result @ [artifact]; now = cx_clock cx 0 in
       commit_row id' (set_artifacts now result artifacts)
         (EvArtifactAttached (wa_url artifact) (wa_kind artifact) (verified_state (Some v)))
         actor (cx_clock cx 1) s))))))) s)))))"

text \<open>The verification without its \<open>draft\<close> property; an unverified one is left alone.\<close>

fun without_draft :: "verification option \<Rightarrow> verification option" where
  "without_draft (Some (Verified v)) = Some (Verified (v\<lparr>vo_draft := None\<rparr>))"
| "without_draft v = v"

definition record_pull_request_ready ::
    "ctx \<Rightarrow> string \<Rightarrow> string \<Rightarrow> string \<Rightarrow> string \<Rightarrow> string \<Rightarrow> store \<Rightarrow> (work_item \<times> store) res" where
  "record_pull_request_ready cx id' url actor head_sha review_item_id s =
     and_then (validate_operator_actor actor) (\<lambda>_.
     transaction (\<lambda>s.
       and_then (get_required id' s) (\<lambda>item.
       and_then (completed_result id' item) (\<lambda>result.
       let identity =
         pull_request_artifact_identity (wi_repository item) (reported_pull_request url) in
       (case find_index
           (\<lambda>a. wa_kind a = PullRequest \<and>
              pull_request_artifact_identity (wi_repository item) a = identity)
           (wr_artifacts result) of
          None \<Rightarrow> Inl (ResultError (ArtifactNotFound url))
        | Some index \<Rightarrow>
            (let artifact = wr_artifacts result ! index;
                 artifacts =
                   (wr_artifacts result)
                     [index := artifact\<lparr>wa_verification := without_draft (wa_verification artifact)\<rparr>];
                 now = cx_clock cx 0 in
             commit_row id' (set_artifacts now result artifacts)
               (EvArtifactReady url head_sha review_item_id) actor (cx_clock cx 1) s))))) s)"

subsection \<open>Each decision honours the mutation contract\<close>

lemmas mutation_facts =
  row_consistency clear_lease_def cancelled_row_def set_artifacts_def logical_status_at

interpretation approving: item_mutation "approve cx i actor pre" i "{(Proposed, Queued)}"
  for cx i actor pre
  by unfold_locales
    (clarsimp simp: approve_def res_iffs Let_def, erule commit_row_mutates; simp add: mutation_facts)

interpretation deferring: item_mutation "defer_item cx i actor reason pre" i "{(Queued, Proposed)}"
  for cx i actor reason pre
  by unfold_locales
    (clarsimp simp: defer_item_def res_iffs Let_def, erule commit_row_mutates; simp add: mutation_facts)

interpretation noting: item_mutation "note_item cx i actor reason pre" i "Id"
  for cx i actor reason pre
  by unfold_locales
    (clarsimp simp: note_item_def res_iffs Let_def, erule commit_row_mutates; simp add: mutation_facts)

interpretation prioritizing: item_mutation "prioritize cx i actor p reason pre" i "{(Proposed,Proposed),(Queued,Queued),(Blocked,Blocked)}"
  for cx i actor p reason pre
  by unfold_locales
    (clarsimp simp: prioritize_def res_iffs Let_def, erule commit_row_mutates; simp add: mutation_facts)

interpretation rejecting: item_mutation "reject cx i actor reason pre" i "{(Proposed, Cancelled)}"
  for cx i actor reason pre
  by unfold_locales
    (clarsimp simp: reject_def res_iffs Let_def, erule commit_row_mutates; simp add: mutation_facts)

interpretation requeuing: item_mutation "requeue cx i actor reason pre" i "{(Blocked, Queued)}"
  for cx i actor reason pre
  by unfold_locales
    (clarsimp simp: requeue_def res_iffs Let_def, erule commit_row_mutates; simp add: mutation_facts)

interpretation releasing_lease: item_mutation "release_lease cx i actor reason pre" i "{(Claimed, Queued)}"
  for cx i actor reason pre
  by unfold_locales
    (clarsimp simp: release_lease_def res_iffs Let_def, erule commit_row_mutates; simp add: mutation_facts)

interpretation cancelling: item_mutation "cancel cx i actor reason pre" i "{(Blocked, Cancelled)}"
  for cx i actor reason pre
  by unfold_locales
    (clarsimp simp: cancel_def res_iffs Let_def, erule commit_row_mutates; simp add: mutation_facts)

interpretation retiring: item_mutation "retire_pull_request_bound_work cx i actor reason" i "{(Queued, Cancelled), (Blocked, Cancelled)}"
  for cx i actor reason
  by unfold_locales
    (clarsimp simp: retire_pull_request_bound_work_def res_iffs Let_def, erule commit_row_mutates; simp add: mutation_facts)

interpretation replacing_predecessors: item_mutation "replace_proposed_predecessors cx i ps actor" i "{(Proposed, Proposed)}"
  for cx i ps actor
  by unfold_locales
    (clarsimp simp: replace_proposed_predecessors_def res_iffs Let_def, erule commit_row_mutates; simp add: mutation_facts)

interpretation recording_verification: item_mutation "record_artifact_verification cx i url v actor" i "{(Completed, Completed)}"
  for cx i url v actor
  by unfold_locales
    (clarsimp simp: record_artifact_verification_def res_iffs Let_def, erule commit_row_mutates; simp add: mutation_facts)

interpretation attaching: item_mutation "attach_artifact cx i actor artifact pre" i "{(Completed, Completed)}"
  for cx i actor artifact pre
  by unfold_locales
    (clarsimp simp: attach_artifact_def res_iffs Let_def, erule commit_row_mutates; simp add: mutation_facts)

interpretation recording_ready: item_mutation "record_pull_request_ready cx i url actor sha review" i "{(Completed, Completed)}"
  for cx i url actor sha review
  by unfold_locales
    (clarsimp simp: record_pull_request_ready_def res_iffs Let_def, erule commit_row_mutates; simp add: mutation_facts)

end
