(* ===== verification/Lease_Operations.thy ===== *)
theory Lease_Operations
  imports Claiming Work_Creation Follow_Up_Intent Operator_Decisions
begin

text \<open>
  What the holder of a lease does (\<open>heartbeat\<close>, \<open>block\<close>, \<open>release\<close>, \<open>complete\<close> and the
  helpers \<open>lineageDepth\<close>, \<open>assertArtifactsAllowed\<close>, \<open>assertRequiredArtifactReported\<close> of
  \<open>src/src/queue/store.ts\<close>). Each first checks the lease against reading 0 of the clock.
\<close>

subsection \<open>Heartbeat, block and release\<close>

definition heartbeat ::
    "ctx \<Rightarrow> string \<Rightarrow> string \<Rightarrow> string \<Rightarrow> jsnum option \<Rightarrow> store \<Rightarrow> (work_item \<times> store) res" where
  "heartbeat cx id' lease_token worker lease_seconds s =
     and_then (validate_worker_principal worker) (\<lambda>_.
     transaction (\<lambda>s.
       and_then (assert_active_lease id' lease_token worker (cx_clock cx 0) s) (\<lambda>_.
       let now = cx_clock cx 1 in
       and_then (bounded_lease lease_seconds) (\<lambda>seconds.
       let expires_at = cx_clock cx 2 + seconds * 1000 in
       commit_row id' (\<lambda>r. r\<lparr>r_lease_expires_at := Some expires_at, r_updated_at := now\<rparr>)
         (EvLeaseRenewed expires_at) worker (cx_clock cx 3) s))) s)"

definition block ::
    "ctx \<Rightarrow> string \<Rightarrow> string \<Rightarrow> string \<Rightarrow> string \<Rightarrow> store \<Rightarrow> (work_item \<times> store) res" where
  "block cx id' lease_token worker reason s =
     and_then (validate_worker_principal worker) (\<lambda>_.
     and_then (require (\<not> blank reason) (StateError ReasonRequired)) (\<lambda>_.
     transaction (\<lambda>s.
       and_then (assert_active_lease id' lease_token worker (cx_clock cx 0) s) (\<lambda>_.
       let now = cx_clock cx 1 in
       commit_row id'
         (\<lambda>r. clear_lease
           (r\<lparr>r_status := RBlocked, r_result := Json (reason_result reason), r_updated_at := now\<rparr>))
         (EvBlocked reason) worker (cx_clock cx 2) s)) s))"

definition release ::
    "ctx \<Rightarrow> string \<Rightarrow> string \<Rightarrow> string \<Rightarrow> string \<Rightarrow> store \<Rightarrow> (work_item \<times> store) res" where
  "release cx id' lease_token worker reason s =
     and_then (validate_worker_principal worker) (\<lambda>_.
     transaction (\<lambda>s.
       and_then (assert_active_lease id' lease_token worker (cx_clock cx 0) s) (\<lambda>_.
       let now = cx_clock cx 1 in
       commit_row id' (\<lambda>r. clear_lease (r\<lparr>r_status := RQueued, r_updated_at := now\<rparr>))
         (EvReleased reason None) worker (cx_clock cx 2) s)) s)"

interpretation heartbeating: item_mutation "heartbeat cx i tok w n" i "{(Claimed, Claimed)}"
  for cx i tok w n
  by unfold_locales
    (clarsimp simp: heartbeat_def res_iffs Let_def, erule commit_row_mutates; simp add: mutation_facts)

interpretation blocking: item_mutation "block cx i tok w reason" i "{(Claimed, Blocked)}"
  for cx i tok w reason
  by unfold_locales
    (clarsimp simp: block_def res_iffs Let_def, erule commit_row_mutates; simp add: mutation_facts)

interpretation releasing: item_mutation "release cx i tok w reason" i "{(Claimed, Queued)}"
  for cx i tok w reason
  by unfold_locales
    (clarsimp simp: release_def res_iffs Let_def, erule commit_row_mutates; simp add: mutation_facts)

subsection \<open>Lineage\<close>

definition max_follow_ups :: nat where "max_follow_ups = 10"
definition max_lineage_depth :: nat where "max_lineage_depth = 4"

text \<open>
  The walk up the parents. An empty \<open>parentId\<close> is falsy and ends it; the depth is checked on
  every edge, so it stops after at most five.
\<close>

function lineage_depth_from :: "nat \<Rightarrow> work_item \<Rightarrow> store \<Rightarrow> nat res" where
  "lineage_depth_from depth current s =
     (case wi_parent_id current of
        None \<Rightarrow> Inr depth
      | Some p \<Rightarrow>
          if p = [] then Inr depth
          else if max_lineage_depth < Suc depth then Inl (FollowUpError LineageExceedsDepth)
          else
            (case get_required p s of
               Inl e \<Rightarrow> Inl e
             | Inr parent \<Rightarrow> lineage_depth_from (Suc depth) parent s))"
  by pat_completeness auto
termination
  by (relation "measure (\<lambda>(depth, _). Suc max_lineage_depth - depth)") auto

declare lineage_depth_from.simps [simp del]

definition lineage_depth :: "work_item \<Rightarrow> store \<Rightarrow> nat res" where
  "lineage_depth item s = lineage_depth_from 0 item s"

subsection \<open>Completion\<close>

fun required_action :: "artifact_kind \<Rightarrow> action option" where
  "required_action Issue = Some OpenIssue"
| "required_action PullRequest = Some OpenPr"
| "required_action Commit = Some Write"
| "required_action _ = None"

definition artifact_allowed :: "work_item \<Rightarrow> work_artifact \<Rightarrow> unit res" where
  "artifact_allowed item artifact =
     and_then
       (case required_action (wa_kind artifact) of
          None \<Rightarrow> Inr ()
        | Some a \<Rightarrow>
            require (a \<in> set (wi_allowed_actions item))
              (ResultError (ArtifactNeedsAction (wa_kind artifact) a))) (\<lambda>_.
     if required_action (wa_kind artifact) \<noteq> None \<or> wa_kind artifact = Release
     then assert_github_artifact_scope (wi_repository item) artifact
     else Inr ())"

definition assert_artifacts_allowed :: "work_item \<Rightarrow> work_artifact list \<Rightarrow> unit res" where
  "assert_artifacts_allowed item artifacts = check_all (artifact_allowed item) artifacts"

definition assert_required_artifact_reported :: "work_item \<Rightarrow> work_artifact list \<Rightarrow> unit res" where
  "assert_required_artifact_reported item artifacts =
     require
       (wi_required_artifact item \<noteq> PullRequestArtifact \<or>
        list_ex (\<lambda>a. wa_kind a = PullRequest) artifacts)
       (ResultError RequiredPullRequestMissing)"

definition reviewed_record ::
    "pull_request_review \<Rightarrow> review_result \<Rightarrow> timestamp \<Rightarrow> pull_request_review" where
  "reviewed_record record' verdict at =
     record'\<lparr>pr_decision := Some (rr_decision verdict), pr_blockers := Some (rr_blockers verdict),
       pr_advisories := Some (rr_advisories verdict), pr_reviewed_at := Some at\<rparr>"

definition completion_review ::
    "timestamp \<Rightarrow> work_item \<Rightarrow> review_result option \<Rightarrow> pull_request_review option res" where
  "completion_review at parent verdict =
     (if wi_kind parent = ''pr-review'' then
        (case verdict of
           None \<Rightarrow> Inl (ResultError ReviewResultRequired)
         | Some v \<Rightarrow>
             (case wi_review parent of
                None \<Rightarrow> Inl (ResultError ReviewRecordMissing)
              | Some record' \<Rightarrow>
                  and_then (validate_review_result v) (\<lambda>_. Inr (Some (reviewed_record record' v at)))))
      else if verdict \<noteq> None then Inl (ResultError ReviewResultRefused)
      else Inr None)"

definition follow_up_view :: "work_item \<Rightarrow> follow_up_input \<Rightarrow> pull_request_cure option \<Rightarrow> contract_view"
where
  "follow_up_view parent f cure =
     \<lparr>cv_allowed_actions = fu_allowed_actions f, cv_delegable_actions = Some (fu_delegable_actions f),
      cv_required_artifact = fu_required_artifact f,
      cv_execution_target = Some (fu_execution_target f), cv_source_ref = None, cv_cure = cure,
      cv_review = None, cv_parent_id = Some (wi_id parent),
      cv_parent_delegable_actions = Some (wi_delegable_actions parent), cv_kind = Some (fu_kind f)\<rparr>"

definition follow_up_definition ::
    "string \<Rightarrow> follow_up_input \<Rightarrow> pull_request_cure option \<Rightarrow> work_definition" where
  "follow_up_definition worker f cure =
     \<lparr>wd_kind = fu_kind f, wd_objective = fu_objective f, wd_instructions = fu_instructions f,
      wd_acceptance_criteria = fu_acceptance_criteria f,
      wd_allowed_actions = fu_allowed_actions f, wd_delegable_actions = fu_delegable_actions f,
      wd_required_artifact = Some (fu_required_artifact f),
      wd_execution_target = Some (fu_execution_target f), wd_source_ref = None, wd_cure = cure,
      wd_review = None, wd_priority = None, wd_created_by = worker\<rparr>"

definition check_follow_up ::
    "string \<Rightarrow> work_item \<Rightarrow> follow_up_proposal \<Rightarrow> (follow_up_input \<times> pull_request_cure option) res"
where
  "check_follow_up worker parent proposal =
     and_then
       (require (''priority'' \<notin> fst ` set (fp_extra proposal)) (FollowUpError FollowUpSetsPriority)) (\<lambda>_.
     and_then
       (check_all
         (\<lambda>field. require (field \<notin> fst ` set (fp_extra proposal)) (FollowUpError (FollowUpSetsBinding field)))
         [''sourceRef'', ''cure'', ''review'']) (\<lambda>_.
     and_then (assert_no_predecessors (fp_extra proposal)) (\<lambda>_.
     and_then (normalize_follow_up_intent (wi_delegable_actions parent) (wi_cure parent) proposal) (\<lambda>f.
     and_then
       (require (known_required_artifact (fu_required_artifact f)) (FollowUpError FollowUpRequiredArtifact)) (\<lambda>_.
     and_then
       (require (known_execution_target (Some (fu_execution_target f)))
         (FollowUpError FollowUpExecutionTarget)) (\<lambda>_.
     and_then (assert_known_actions (fu_allowed_actions f)) (\<lambda>_.
     let binding = inherited_cure_binding parent f in
     and_then
       (case contract_problem (follow_up_view parent f binding) of
          None \<Rightarrow> Inr ()
        | Some code \<Rightarrow> Inl (FollowUpError (FollowUpContract (fu_kind f) code))) (\<lambda>_.
     and_then (validate_work_definition (follow_up_definition worker f binding)) (\<lambda>_.
     and_then (assert_subset (fu_allowed_actions f) (wi_delegable_actions parent)) (\<lambda>_.
     and_then (assert_subset (fu_delegable_actions f) (wi_delegable_actions parent)) (\<lambda>_.
     Inr (f, binding))))))))))))"

definition child_work ::
    "string \<Rightarrow> timestamp \<Rightarrow> string \<Rightarrow> work_item \<Rightarrow> follow_up_input \<Rightarrow> pull_request_cure option \<Rightarrow> new_work"
where
  "child_work id' now worker parent f cure =
     \<lparr>nw_id = id', nw_root_id = wi_root_id parent, nw_parent_id = Some (wi_id parent),
      nw_repository = wi_repository parent, nw_kind = fu_kind f, nw_objective = fu_objective f,
      nw_instructions = fu_instructions f, nw_acceptance_criteria = fu_acceptance_criteria f,
      nw_allowed_actions = fu_allowed_actions f, nw_delegable_actions = fu_delegable_actions f,
      nw_required_artifact = Some (fu_required_artifact f),
      nw_execution_target = Some (fu_execution_target f), nw_priority = wi_priority parent,
      nw_created_by = worker, nw_admitted = False, nw_created_at = now, nw_source_ref = None,
      nw_predecessors = None, nw_cure = cure, nw_review = None\<rparr>"

text \<open>
  One turn of the follow-up loop. A child is never admitted, so its insertion reads no clock;
  \<open>now\<close> is the reading shared by all children and by the completion itself.
\<close>

definition follow_up_step ::
    "ctx \<Rightarrow> string \<Rightarrow> timestamp \<Rightarrow> work_item \<Rightarrow> nat \<times> follow_up_proposal \<Rightarrow>
       work_item list \<times> store \<Rightarrow> (work_item list \<times> store) res"
where
  "follow_up_step cx worker now parent entry acc =
     (case entry of (index, proposal) \<Rightarrow>
      case acc of (children, s) \<Rightarrow>
      and_then (check_follow_up worker parent proposal) (\<lambda>(f, cure).
      let w = child_work (cx_uuid cx index) now worker parent f cure in
      and_then (insert_work cx now w s) (\<lambda>s1.
      let s2 =
        add_event (nw_id w) (EvProposedChild (wi_id parent) (wi_root_id parent)) worker
          (cx_clock cx (3 + index)) s1 in
      and_then (get_required (nw_id w) s2) (\<lambda>child. Inr (children @ [child], s2)))))"

definition completed_row ::
    "work_result \<Rightarrow> pull_request_review option \<Rightarrow> timestamp \<Rightarrow> row \<Rightarrow> row" where
  "completed_row result review now r =
     clear_lease
       (r\<lparr>r_status := RCompleted, r_result := Json result,
         r_review := (case review of None \<Rightarrow> r_review r | Some v \<Rightarrow> Json v), r_updated_at := now\<rparr>)"

definition completion_model :: "work_result \<Rightarrow> string option" where
  "completion_model result =
     (case wr_model result of None \<Rightarrow> None | Some m \<Rightarrow> if m = [] then None else Some m)"

definition finish_completion ::
    "ctx \<Rightarrow> completion_input \<Rightarrow> timestamp \<Rightarrow> work_item \<Rightarrow> pull_request_review option \<Rightarrow>
       work_item list \<Rightarrow> store \<Rightarrow> (work_item \<times> store) res"
where
  "finish_completion cx input now parent review children s =
     (let id' = co_id input; n = length (co_follow_ups input);
          s1 = update_row id' (completed_row (co_result input) review now) s;
          s2 =
            add_event id'
              (EvCompleted (map wi_id children) (length (wr_artifacts (co_result input)))
                (completion_model (co_result input)))
              (co_worker input) (cx_clock cx (3 + n)) s1;
          s3 =
            (case (co_review input, wi_review parent) of
               (Some v, Some record') \<Rightarrow>
                 add_event id'
                   (EvReviewed (rr_decision v) (pr_round record') (pr_head_sha record')
                     (pr_pull_request_url record') (map rb_fingerprint (rr_blockers v)))
                   (co_worker input) (cx_clock cx (4 + n)) s2
             | _ \<Rightarrow> s2) in
      and_then (get_required id' s3) (\<lambda>item. Inr (item, s3)))"

definition complete ::
    "ctx \<Rightarrow> completion_input \<Rightarrow> store \<Rightarrow> ((work_item \<times> work_item list) \<times> store) res" where
  "complete cx input s =
     and_then (validate_worker_principal (co_worker input)) (\<lambda>_.
     and_then (validate_result (co_result input)) (\<lambda>_.
     and_then
       (require (length (co_follow_ups input) \<le> max_follow_ups) (FollowUpError TooManyFollowUps)) (\<lambda>_.
     transaction (\<lambda>s.
       and_then
         (assert_active_lease (co_id input) (co_lease_token input) (co_worker input) (cx_clock cx 0) s) (\<lambda>parent.
       and_then
         (require (co_follow_ups input = [] \<or> CreateFollowup \<in> set (wi_allowed_actions parent))
           (FollowUpError FollowUpsNotAllowed)) (\<lambda>_.
       and_then
         (if co_follow_ups input = [] then Inr ()
          else
            and_then (lineage_depth parent s) (\<lambda>depth.
            require (depth < max_lineage_depth) (FollowUpError LineageTooDeep))) (\<lambda>_.
       and_then (assert_artifacts_allowed parent (wr_artifacts (co_result input))) (\<lambda>_.
       and_then (assert_required_artifact_reported parent (wr_artifacts (co_result input))) (\<lambda>_.
       and_then (completion_review (cx_clock cx 1) parent (co_review input)) (\<lambda>review.
       let now = cx_clock cx 2 in
       and_then
         (fold_res (follow_up_step cx (co_worker input) now parent)
           (zip [0..<length (co_follow_ups input)] (co_follow_ups input)) ([], s)) (\<lambda>(children, s1).
       and_then (finish_completion cx input now parent review children s1) (\<lambda>(item, s2).
       Inr ((item, children), s2)))))))))) s)))"

end
