(* ===== verification/Repositories.thy ===== *)
theory Repositories
  imports Database_Laws
begin

text \<open>
  The opt-in table of \<open>src/src/queue/store.ts\<close>: opting a repository in or out, renaming it,
  the cure and review-gate settings, and the two observations the sweeps overwrite.
\<close>

definition new_repo_row :: "string \<Rightarrow> bool \<Rightarrow> timestamp \<Rightarrow> repo_row" where
  "new_repo_row slug enabled now =
     \<lparr>rp_slug = slug, rp_enabled = enabled, rp_cure_foreign = False, rp_review_gate = False,
      rp_unreported = SqlNull, rp_labeled_issues = SqlNull, rp_created_at = now, rp_updated_at = now\<rparr>"

definition set_repository_enabled :: "ctx \<Rightarrow> string \<Rightarrow> bool \<Rightarrow> store \<Rightarrow> (unit \<times> store) res" where
  "set_repository_enabled cx repository enabled s =
     and_then (validate_repository repository) (\<lambda>_.
     transaction (\<lambda>s.
       let now = cx_clock cx 0 in
       Inr ((),
         (case find_repository repository s of
            None \<Rightarrow>
              s\<lparr>st_repositories := st_repositories s @ [new_repo_row repository enabled now]\<rparr>
          | Some _ \<Rightarrow>
              update_repository repository
                (\<lambda>r. r\<lparr>rp_enabled := enabled, rp_updated_at := now\<rparr>) s))) s)"

definition enabled_repositories :: "store \<Rightarrow> string list" where
  "enabled_repositories s = sort (map rp_slug (filter rp_enabled (st_repositories s)))"

text \<open>
  The three statements of a rename: a new opt-in row with the settings (the two observation
  columns are not among the copied ones), the items, and the removal of the old row.
\<close>

definition move_repository :: "string \<Rightarrow> string \<Rightarrow> timestamp \<Rightarrow> repo_row \<Rightarrow> store \<Rightarrow> store" where
  "move_repository from_slug to_slug now r s =
     s\<lparr>st_repositories :=
         filter (\<lambda>x. rp_slug x \<noteq> from_slug)
           (st_repositories s @
              [(new_repo_row to_slug (rp_enabled r) now)
                 \<lparr>rp_cure_foreign := rp_cure_foreign r, rp_review_gate := rp_review_gate r,
                  rp_created_at := rp_created_at r\<rparr>]),
       st_items :=
         map (\<lambda>x. if r_repository x = from_slug then x\<lparr>r_repository := to_slug\<rparr> else x) (st_items s)\<rparr>"

definition rename_repository ::
    "ctx \<Rightarrow> string \<Rightarrow> string \<Rightarrow> string \<Rightarrow> store \<Rightarrow> ((string \<times> string \<times> nat) \<times> store) res" where
  "rename_repository cx from_slug to_slug actor s =
     and_then (validate_repository from_slug) (\<lambda>_.
     and_then (validate_repository to_slug) (\<lambda>_.
     and_then (validate_operator_actor actor) (\<lambda>_.
     and_then (require (to_lower from_slug \<noteq> to_lower to_slug) (DefinitionError SameRepository)) (\<lambda>_.
     transaction (\<lambda>s.
       (case find_repository from_slug s of
          None \<Rightarrow> Inl (DefinitionError (RepositoryUnknown from_slug))
        | Some r \<Rightarrow>
            and_then
              (require (find_repository to_slug s = None) (DefinitionError (RepositoryExists to_slug))) (\<lambda>_.
            Inr
              ((from_slug, to_slug,
                length (filter (\<lambda>x. r_repository x = from_slug) (st_items s))),
               move_repository from_slug to_slug (cx_clock cx 0) r s)))) s))))"

subsection \<open>Settings\<close>

definition update_enabled_repository ::
    "string \<Rightarrow> (repo_row \<Rightarrow> repo_row) \<Rightarrow> store \<Rightarrow> (unit \<times> store) res" where
  "update_enabled_repository repository f =
     transaction (\<lambda>s.
       and_then (assert_repository_enabled repository s) (\<lambda>_.
       Inr ((), update_repository repository f s)))"

definition set_repository_cure_foreign :: "ctx \<Rightarrow> string \<Rightarrow> bool \<Rightarrow> store \<Rightarrow> (unit \<times> store) res" where
  "set_repository_cure_foreign cx repository enabled =
     update_enabled_repository repository
       (\<lambda>r. r\<lparr>rp_cure_foreign := enabled, rp_updated_at := cx_clock cx 0\<rparr>)"

definition set_repository_review_gate :: "ctx \<Rightarrow> string \<Rightarrow> bool \<Rightarrow> store \<Rightarrow> (unit \<times> store) res" where
  "set_repository_review_gate cx repository enabled =
     update_enabled_repository repository
       (\<lambda>r. r\<lparr>rp_review_gate := enabled, rp_updated_at := cx_clock cx 0\<rparr>)"

definition repository_cure_settings :: "store \<Rightarrow> (string \<times> bool) list" where
  "repository_cure_settings s =
     map (\<lambda>r. (rp_slug r, rp_cure_foreign r)) (sort_key rp_slug (filter rp_enabled (st_repositories s)))"

definition repository_review_gate_settings :: "store \<Rightarrow> (string \<times> bool) list" where
  "repository_review_gate_settings s =
     map (\<lambda>r. (rp_slug r, rp_review_gate r)) (sort_key rp_slug (filter rp_enabled (st_repositories s)))"

definition review_gate_enabled :: "string \<Rightarrow> store \<Rightarrow> bool res" where
  "review_gate_enabled repository s =
     and_then (validate_repository repository) (\<lambda>_.
     Inr (case find_repository repository s of None \<Rightarrow> False | Some r \<Rightarrow> rp_enabled r \<and> rp_review_gate r))"

subsection \<open>Observations\<close>

definition check_unreported :: "unreported_pull_request \<Rightarrow> unreported_pull_request res" where
  "check_unreported pull =
     and_then
       (require (pull_request_url_nospace (up_url pull)) (RecordError (UnreportedUrl (up_url pull)))) (\<lambda>_.
     and_then (require (valid_number (up_number pull)) (RecordError UnreportedNumber)) (\<lambda>_.
     Inr (pull\<lparr>up_created_at :=
       (case up_created_at pull of None \<Rightarrow> None | Some t \<Rightarrow> if t = [] then None else Some t)\<rparr>)))"

definition record_unreported_pull_requests ::
    "ctx \<Rightarrow> string \<Rightarrow> unreported_observation \<Rightarrow> string \<Rightarrow> store \<Rightarrow> (unit \<times> store) res" where
  "record_unreported_pull_requests cx repository observation actor s =
     and_then (validate_operator_actor actor) (\<lambda>_.
     and_then (map_res check_unreported (uo_pull_requests observation)) (\<lambda>pulls.
     update_enabled_repository repository
       (\<lambda>r. r\<lparr>rp_unreported :=
           Json \<lparr>uo_observed_at = uo_observed_at observation, uo_pull_requests = pulls\<rparr>,
         rp_updated_at := cx_clock cx 0\<rparr>) s))"

definition repository_unreported_pull_requests ::
    "string \<Rightarrow> store \<Rightarrow> unreported_observation option res" where
  "repository_unreported_pull_requests repository s =
     and_then (validate_repository repository) (\<lambda>_.
     Inr (case find_repository repository s of None \<Rightarrow> None | Some r \<Rightarrow> json_option (rp_unreported r)))"

definition max_labeled_issue_observations :: nat where "max_labeled_issue_observations = 500"

definition check_labeled_issue ::
    "string \<Rightarrow> string \<times> string \<times> issue_outcome \<Rightarrow> (string \<times> string \<times> issue_outcome) res" where
  "check_labeled_issue repository issue =
     (case issue of (url, title, outcome) \<Rightarrow>
      and_then
        (require
          (case issue_url_parts url of
             None \<Rightarrow> False
           | Some (owner, name) \<Rightarrow> to_lower (owner @ ''/'' @ name) = to_lower repository)
          (RecordError (LabeledIssueUrl url))) (\<lambda>_.
      and_then (require (\<not> blank title) (RecordError LabeledIssueTitle)) (\<lambda>_.
      Inr (url, trim title, outcome))))"

definition record_labeled_issue_observations ::
    "ctx \<Rightarrow> string \<Rightarrow> (string \<times> string \<times> issue_outcome) list \<Rightarrow> string \<Rightarrow> store \<Rightarrow>
       (labeled_issue_observations \<times> store) res"
where
  "record_labeled_issue_observations cx repository issues actor s =
     and_then (validate_operator_actor actor) (\<lambda>_.
     and_then (map_res (check_labeled_issue repository) issues) (\<lambda>validated.
     transaction (\<lambda>s.
       and_then (assert_repository_enabled repository s) (\<lambda>_.
       let seen_at = cx_clock cx 0;
           observation =
             \<lparr>lo_issues =
                map (\<lambda>(url, title, outcome).
                      \<lparr>li_url = url, li_title = title, li_seen_at = seen_at, li_outcome = outcome\<rparr>)
                  (take max_labeled_issue_observations validated),
              lo_truncated = (max_labeled_issue_observations < length validated)\<rparr> in
       Inr (observation,
         update_repository repository
           (\<lambda>r. r\<lparr>rp_labeled_issues := Json observation, rp_updated_at := seen_at\<rparr>) s))) s))"

definition repository_labeled_issue_observations ::
    "string \<Rightarrow> store \<Rightarrow> labeled_issue_observations option res" where
  "repository_labeled_issue_observations repository s =
     and_then (validate_repository repository) (\<lambda>_.
     Inr (case find_repository repository s of
       None \<Rightarrow> None | Some r \<Rightarrow> json_option (rp_labeled_issues r)))"

end
