(* ===== verification/Mcp_Tokens.thy ===== *)
theory Mcp_Tokens
  imports Database_Laws
begin

text \<open>
  MCP tokens (\<open>mintMcpToken\<close>, \<open>verifyMcpToken\<close>, \<open>revokeMcpToken\<close>, \<open>listMcpTokens\<close> of
  \<open>src/src/queue/store.ts\<close>). \<open>node:crypto\<close> is a parameter: \<open>hash\<close> stands for the hexadecimal
  SHA-256 of a string, and the random identifier and secret of a new token are arguments.
  Minting and verifying run outside a transaction in the source, so neither re-checks the
  schema version.
\<close>

definition client_char :: "char \<Rightarrow> bool" where
  "client_char c = (is_alnum c \<or> c \<in> set '' ._:@/-'')"

definition client_name_pattern :: "string \<Rightarrow> bool" where
  "client_name_pattern s =
     (case s of
        [] \<Rightarrow> False
      | c # cs \<Rightarrow> length s \<le> 100 \<and> is_alnum c \<and> list_all client_char cs)"

definition secret_char :: "char \<Rightarrow> bool" where
  "secret_char c = (is_alnum c \<or> c = CHR ''_'' \<or> c = CHR ''-'')"

text \<open>\<open>/^snowcat_([0-9a-f]{16})_([A-Za-z0-9_-]{20,})$/\<close> on the trimmed text: id and secret.\<close>

definition parse_token :: "string \<Rightarrow> (string \<times> string) option" where
  "parse_token presented =
     (case strip_prefix ''snowcat_'' (trim presented) of
        None \<Rightarrow> None
      | Some rest \<Rightarrow>
          (let id' = take 16 rest; tail' = drop 16 rest in
           case tail' of
             [] \<Rightarrow> None
           | c # secret \<Rightarrow>
               if length id' = 16 \<and> list_all is_hex_lower id' \<and> c = CHR ''_'' \<and>
                  20 \<le> length secret \<and> list_all secret_char secret
               then Some (id', secret) else None))"

definition format_token :: "string \<Rightarrow> string \<Rightarrow> string" where
  "format_token id' secret = ''snowcat_'' @ id' @ ''_'' @ secret"

text \<open>\<open>Buffer.from(s, "hex")\<close>: pairs of digits up to the first that is not one.\<close>

fun hex_bytes :: "string \<Rightarrow> int list" where
  "hex_bytes (a # b # cs) =
     (if is_hex_char a \<and> is_hex_char b
      then (16 * hex_value a + hex_value b) # hex_bytes cs else [])"
| "hex_bytes _ = []"

definition find_token :: "string \<Rightarrow> store \<Rightarrow> token_row option" where
  "find_token id' s = List.find (\<lambda>t. tk_id t = id') (st_tokens s)"

definition update_token :: "string \<Rightarrow> (token_row \<Rightarrow> token_row) \<Rightarrow> store \<Rightarrow> store" where
  "update_token id' f s = s\<lparr>st_tokens := map (\<lambda>t. if tk_id t = id' then f t else t) (st_tokens s)\<rparr>"

interpretation token_table: keyed_table st_tokens tk_id find_token update_token
  by unfold_locales (simp_all add: find_token_def update_token_def)

record mcp_token =
  mt_id :: string
  mt_owner :: string
  mt_client :: string
  mt_token_hash :: string
  mt_created_at :: timestamp
  mt_kinds :: "string list option"
  mt_tools :: "string list option"
  mt_last_used_at :: "timestamp option"
  mt_revoked_at :: "timestamp option"
  mt_revoked_by :: "string option"

fun optional_json :: "'a list json_col \<Rightarrow> 'a list option" where
  "optional_json SqlNull = None"
| "optional_json (Json x) = Some x"
| "optional_json BadJson = Some []"

definition decode_mcp_token :: "token_row \<Rightarrow> mcp_token" where
  "decode_mcp_token t =
     \<lparr>mt_id = tk_id t, mt_owner = tk_owner t, mt_client = tk_client t,
      mt_token_hash = tk_token_hash t, mt_created_at = tk_created_at t,
      mt_kinds = optional_json (tk_kinds t), mt_tools = optional_json (tk_tools t),
      mt_last_used_at = tk_last_used_at t, mt_revoked_at = tk_revoked_at t,
      mt_revoked_by = tk_revoked_by t\<rparr>"

record mint_input =
  mi_owner :: string
  mi_client :: string
  mi_kinds :: "string list option"
  mi_tools :: "string list option"

definition mint_mcp_token ::
    "(string \<Rightarrow> string) \<Rightarrow> ctx \<Rightarrow> string \<Rightarrow> string \<Rightarrow> mint_input \<Rightarrow> store \<Rightarrow>
       ((string \<times> mcp_token) \<times> store) res"
where
  "mint_mcp_token hash cx id' secret input s =
     and_then (validate_member_principal (mi_owner input)) (\<lambda>owner.
     let client = trim (mi_client input) in
     and_then (require (client_name_pattern client) (PrincipalError TokenClientShape)) (\<lambda>_.
     and_then (optional_res validate_work_kinds (mi_kinds input)) (\<lambda>kinds.
     and_then (optional_res validate_mcp_tools (mi_tools input)) (\<lambda>tools.
     let t =
       \<lparr>tk_id = id', tk_owner = owner, tk_client = client, tk_token_hash = hash secret,
        tk_created_at = cx_clock cx 0, tk_kinds = json_of_option kinds,
        tk_tools = json_of_option tools, tk_last_used_at = None, tk_revoked_at = None,
        tk_revoked_by = None\<rparr> in
     and_then
       (require (\<not> list_ex (\<lambda>x. tk_id x = id' \<or> tk_token_hash x = hash secret) (st_tokens s))
         (StorageError DuplicateTokenKey)) (\<lambda>_.
     Inr ((format_token id' secret, decode_mcp_token t), s\<lparr>st_tokens := st_tokens s @ [t]\<rparr>))))))"

definition token_secret_matches :: "(string \<Rightarrow> string) \<Rightarrow> token_row \<Rightarrow> string \<Rightarrow> bool" where
  "token_secret_matches hash t secret = (hex_bytes (tk_token_hash t) = hex_bytes (hash secret))"

definition verify_mcp_token ::
    "(string \<Rightarrow> string) \<Rightarrow> ctx \<Rightarrow> string \<Rightarrow> store \<Rightarrow> mcp_token option \<times> store" where
  "verify_mcp_token hash cx presented s =
     (case parse_token presented of
        None \<Rightarrow> (None, s)
      | Some (id', secret) \<Rightarrow>
          (case find_token id' s of
             None \<Rightarrow> (None, s)
           | Some t \<Rightarrow>
               if tk_revoked_at t \<noteq> None \<or> \<not> token_secret_matches hash t secret then (None, s)
               else
                 (let now = cx_clock cx 0; record' = decode_mcp_token t in
                  if (case tk_last_used_at t of None \<Rightarrow> True | Some used \<Rightarrow> 60000 < now - used)
                  then
                    (Some (record'\<lparr>mt_last_used_at := Some now\<rparr>),
                     update_token id' (\<lambda>x. x\<lparr>tk_last_used_at := Some now\<rparr>) s)
                  else (Some record', s))))"

definition revoke_mcp_token :: "ctx \<Rightarrow> string \<Rightarrow> string \<Rightarrow> store \<Rightarrow> (mcp_token \<times> store) res" where
  "revoke_mcp_token cx id' actor s =
     and_then (validate_operator_actor actor) (\<lambda>principal.
     transaction (\<lambda>s.
       (case find_token id' s of
          None \<Rightarrow> Inl (PrincipalError (TokenNotFound id'))
        | Some t \<Rightarrow>
            and_then
              (require
                (\<not> (prefix ''member:'' (to_lower principal) \<and> to_lower principal \<noteq> to_lower (tk_owner t)))
                (PrincipalError (TokenBelongsTo (tk_owner t)))) (\<lambda>_.
            if tk_revoked_at t \<noteq> None then Inr (decode_mcp_token t, s)
            else
              (let f = (\<lambda>x. x\<lparr>tk_revoked_at := Some (cx_clock cx 0), tk_revoked_by := Some principal\<rparr>) in
               Inr (decode_mcp_token (f t), update_token id' f s))))) s)"

text \<open>
  \<open>ORDER BY created_at DESC\<close>; an empty owner is falsy. Hashes are blanked.
\<close>

definition list_mcp_tokens :: "ctx \<Rightarrow> string option \<Rightarrow> store \<Rightarrow> mcp_token list" where
  "list_mcp_tokens cx owner s =
     map (\<lambda>t. (decode_mcp_token t)\<lparr>mt_token_hash := []\<rparr>)
       (sort_key (\<lambda>t. (- tk_created_at t, cx_tie cx (tk_id t)))
         (case owner of
            None \<Rightarrow> st_tokens s
          | Some w \<Rightarrow> if w = [] then st_tokens s else filter (\<lambda>t. tk_owner t = w) (st_tokens s)))"

end
