(* ===== verification/Lifecycle.thy ===== *)
theory Lifecycle
  imports Lease_Operations Repositories Mcp_Tokens
begin

text \<open>
  The global invariant of the queue. \<open>atom\<close> lists the ways a committed operation changes
  the tables: a new row with its event, one row rewritten with the events that say so, a change
  of the opt-in table or of the tokens, and a rename. The invariant is proved for each of them here;
  \<open>Lifecycle_Steps\<close> shows that every operation of the store is a sequence of them.
\<close>

subsection \<open>The status machine\<close>

definition lifecycle_edges :: "(work_status \<times> work_status) set" where
  "lifecycle_edges = Id \<union>
     {(Proposed, Queued), (Queued, Proposed), (Proposed, Cancelled), (Queued, Claimed),
      (Claimed, Queued), (Claimed, Blocked), (Claimed, Completed), (Blocked, Queued),
      (Blocked, Cancelled), (Queued, Cancelled)}"

lemma lifecycle_edges_refl [simp]: "(st, st) \<in> lifecycle_edges"
  by (simp add: lifecycle_edges_def)

subsection \<open>The ledger\<close>

definition item_events :: "string \<Rightarrow> event_row list \<Rightarrow> event_body list" where
  "item_events id' evs = map ev_body (filter (\<lambda>e. ev_item e = id') evs)"

definition replay_all :: "event_body list \<Rightarrow> work_status option \<Rightarrow> work_status option" where
  "replay_all bodies st = foldl (\<lambda>st b. replay_status b st) st bodies"

definition ledger_status :: "string \<Rightarrow> store \<Rightarrow> work_status option" where
  "ledger_status id' s = replay_all (item_events id' (st_events s)) None"

primrec add_events :: "string \<Rightarrow> (event_body \<times> string \<times> timestamp) list \<Rightarrow> store \<Rightarrow> store" where
  "add_events i [] s = s"
| "add_events i (e # es) s = add_events i es (add_event i (fst e) (fst (snd e)) (snd (snd e)) s)"

lemma item_events_append [simp]:
  "item_events i (es @ fs) = item_events i es @ item_events i fs"
  by (simp add: item_events_def)

lemma replay_all_append [simp]: "replay_all (as @ bs) st = replay_all bs (replay_all as st)"
  by (simp add: replay_all_def)

lemma replay_all_simps [simp]:
  "replay_all [] st = st" "replay_all (b # bs) st = replay_all bs (replay_status b st)"
  by (simp_all add: replay_all_def)

lemma ledger_status_add_event:
  "ledger_status j (add_event i b a t s) =
     (if j = i then replay_status b (ledger_status j s) else ledger_status j s)"
  by (simp add: ledger_status_def st_events_add_event item_events_def)

lemma ledger_status_add_events:
  "ledger_status j (add_events i es s) =
     (if j = i then replay_all (map fst es) (ledger_status j s) else ledger_status j s)"
  by (induction es arbitrary: s) (auto simp: ledger_status_add_event)

lemma add_events_simps [simp]:
  "st_items (add_events i es s) = st_items s"
  "st_repositories (add_events i es s) = st_repositories s"
  "st_tokens (add_events i es s) = st_tokens s"
  "st_user_version (add_events i es s) = st_user_version s"
  by (induction es arbitrary: s) simp_all

lemma ledger_status_cong [simp]:
  "ledger_status j (update_row i f s) = ledger_status j s"
  "ledger_status j (s\<lparr>st_items := rs\<rparr>) = ledger_status j s"
  "ledger_status j (s\<lparr>st_repositories := gs\<rparr>) = ledger_status j s"
  by (simp_all add: ledger_status_def)

definition ledger_ok :: "store \<Rightarrow> bool" where
  "ledger_ok s =
     (map ev_sequence (st_events s) = [1..<Suc (st_sequence s)] \<and>
      ev_item ` set (st_events s) \<subseteq> r_id ` set (st_items s))"

lemma ledger_ok_add_event:
  "ledger_ok s \<Longrightarrow> i \<in> r_id ` set (st_items s) \<Longrightarrow> ledger_ok (add_event i b a t s)"
  by (auto simp: ledger_ok_def st_events_add_event)

lemma ledger_ok_items:
  assumes "ledger_ok s" and "st_events s' = st_events s" and "st_sequence s' = st_sequence s"
    and "r_id ` set (st_items s) \<subseteq> r_id ` set (st_items s')"
  shows "ledger_ok s'"
  using assms(1,4) unfolding ledger_ok_def assms(2,3) by blast

lemma ledger_ok_add_events:
  "ledger_ok s \<Longrightarrow> i \<in> r_id ` set (st_items s) \<Longrightarrow> ledger_ok (add_events i es s)"
  by (induction es arbitrary: s) (auto simp: ledger_ok_add_event)

subsection \<open>Rows and their lineage\<close>

definition row_actions :: "row \<Rightarrow> action set" where
  "row_actions r = set (parse_json (r_allowed_actions r) [])"

definition row_delegable :: "row \<Rightarrow> action set" where
  "row_delegable r = set (parse_json (r_delegable_actions r) [])"

text \<open>A stored definition: known actions, a declared target, and a contract without problem.\<close>

definition definition_ok :: "row \<Rightarrow> bool" where
  "definition_ok r =
     (row_actions r \<subseteq> set allowed_actions \<and> row_delegable r \<subseteq> set allowed_actions \<and>
      known_required_artifact (r_required_artifact r) \<and>
      known_execution_target (r_execution_target r) \<and> work_kind_pattern (r_kind r) \<and>
      contract_problem (item_view (item_of r) None) = None)"

text \<open>A child stays inside what its parent may delegate, and belongs where its parent belongs.\<close>

definition child_of :: "row \<Rightarrow> row \<Rightarrow> bool" where
  "child_of r p =
     (r_parent_id r = Some (r_id p) \<and> r_root_id r = r_root_id p \<and>
      r_repository r = r_repository p \<and> row_actions r \<subseteq> row_delegable p \<and>
      row_delegable r \<subseteq> row_delegable p)"

inductive lineage :: "row set \<Rightarrow> row \<Rightarrow> nat \<Rightarrow> bool" for rows where
  root: "r \<in> rows \<Longrightarrow> r_parent_id r = None \<Longrightarrow> r_root_id r = r_id r \<Longrightarrow> lineage rows r 0"
| child: "lineage rows p n \<Longrightarrow> r \<in> rows \<Longrightarrow> child_of r p \<Longrightarrow> lineage rows r (Suc n)"

definition lineage_ok :: "row set \<Rightarrow> bool" where
  "lineage_ok rows = (\<forall>r \<in> rows. \<exists>n \<le> max_lineage_depth. lineage rows r n)"

definition source_refs_unique :: "row list \<Rightarrow> bool" where
  "source_refs_unique rows =
     (\<forall>r \<in> set rows. \<forall>r' \<in> set rows.
        r_source_ref r \<noteq> None \<longrightarrow> r_source_ref r' = r_source_ref r \<longrightarrow>
        r_repository r' = r_repository r \<longrightarrow> r_id r' = r_id r)"

definition store_ok :: "store \<Rightarrow> bool" where
  "store_ok s =
     (distinct (map r_id (st_items s)) \<and> (\<forall>r \<in> set (st_items s). r_id r \<noteq> []) \<and>
      (\<forall>r \<in> set (st_items s). row_consistent r \<and> definition_ok r \<and>
         r_repository r \<in> rp_slug ` set (st_repositories s) \<and>
         ledger_status (r_id r) s = Some (logical_status r)) \<and>
      lineage_ok (set (st_items s)) \<and> source_refs_unique (st_items s) \<and> ledger_ok s)"

subsection \<open>Lineage is kept by every change\<close>

lemma lineage_in: "lineage rows r n \<Longrightarrow> r \<in> rows"
  by (induction rule: lineage.induct) auto

lemma lineage_mono: "lineage rows r n \<Longrightarrow> rows \<subseteq> rows' \<Longrightarrow> lineage rows' r n"
  by (induction rule: lineage.induct) (auto intro: lineage.intros)

text \<open>An image of the rows keeps the lineage when it keeps what lineage is made of.\<close>

definition keeps_lineage :: "(row \<Rightarrow> row) \<Rightarrow> bool" where
  "keeps_lineage g =
     (\<forall>r. r_id (g r) = r_id r \<and> r_parent_id (g r) = r_parent_id r \<and> r_root_id (g r) = r_root_id r \<and>
        row_actions (g r) = row_actions r \<and> row_delegable (g r) = row_delegable r \<and>
        (\<forall>r'. r_repository r' = r_repository r \<longrightarrow> r_repository (g r') = r_repository (g r)))"

lemma keeps_lineageD:
  assumes "keeps_lineage g"
  shows "r_id (g r) = r_id r" and "r_parent_id (g r) = r_parent_id r"
    and "r_root_id (g r) = r_root_id r" and "row_actions (g r) = row_actions r"
    and "row_delegable (g r) = row_delegable r"
    and "r_repository r' = r_repository r \<Longrightarrow> r_repository (g r') = r_repository (g r)"
  using assms unfolding keeps_lineage_def by blast+

lemma child_of_image:
  assumes "keeps_lineage g" and "child_of r p"
  shows "child_of (g r) (g p)"
  using keeps_lineageD(6) [OF assms(1), of r p] assms(2)
  by (simp add: child_of_def keeps_lineageD(1-5) [OF assms(1)])

lemma lineage_image: "lineage rows r n \<Longrightarrow> keeps_lineage g \<Longrightarrow> lineage (g ` rows) (g r) n"
proof (induction rule: lineage.induct)
  case (root r)
  then show ?case by (intro lineage.root) (simp_all add: keeps_lineageD(1-5))
next
  case (child p n r)
  from child.IH [OF child.prems] child.hyps(2) child_of_image [OF child.prems child.hyps(3)]
  show ?case by (intro lineage.child) simp_all
qed

lemma lineage_ok_image:
  assumes "lineage_ok rows" and "keeps_lineage g"
  shows "lineage_ok (g ` rows)"
  unfolding lineage_ok_def
proof (rule ballI, elim imageE)
  fix x r assume x: "x = g r" and "r \<in> rows"
  then obtain n where "n \<le> max_lineage_depth" and "lineage rows r n"
    using assms(1) unfolding lineage_ok_def by blast
  then show "\<exists>n \<le> max_lineage_depth. lineage (g ` rows) x n"
    unfolding x using lineage_image [OF _ assms(2)] by blast
qed

lemma lineage_ok_insert_root:
  assumes "lineage_ok rows" and "r_parent_id r = None" and "r_root_id r = r_id r"
  shows "lineage_ok (insert r rows)"
  unfolding lineage_ok_def
proof
  fix x assume "x \<in> insert r rows"
  then show "\<exists>n \<le> max_lineage_depth. lineage (insert r rows) x n"
  proof
    assume "x = r"
    then have "lineage (insert r rows) x 0" using assms by (auto intro: lineage.root)
    then show ?thesis by auto
  next
    assume "x \<in> rows"
    then show ?thesis using assms(1) by (meson lineage_ok_def lineage_mono subset_insertI)
  qed
qed

lemma lineage_ok_insert_child:
  assumes "lineage_ok rows" and "lineage rows p n" and "n < max_lineage_depth" and "child_of r p"
  shows "lineage_ok (insert r rows)"
  unfolding lineage_ok_def
proof
  fix x assume "x \<in> insert r rows"
  then show "\<exists>n \<le> max_lineage_depth. lineage (insert r rows) x n"
  proof
    assume "x = r"
    moreover have "lineage (insert r rows) p n" using assms(2) by (rule lineage_mono) auto
    ultimately have "lineage (insert r rows) x (Suc n)" using assms(4) by (auto intro: lineage.child)
    with assms(3) show ?thesis by (intro exI [of _ "Suc n"]) auto
  next
    assume "x \<in> rows"
    then show ?thesis using assms(1) by (meson lineage_ok_def lineage_mono subset_insertI)
  qed
qed

subsection \<open>Contracts are kept when a binding appears\<close>

lemma if_Some_None_iff: "(if c then Some a else e) = None \<longleftrightarrow> \<not> c \<and> e = None"
  by simp

lemma contract_problem_mono:
  assumes "contract_problem v = None"
    and "cv_allowed_actions v' = cv_allowed_actions v"
    and "cv_required_artifact v' = cv_required_artifact v"
    and "cv_execution_target v' = cv_execution_target v" and "cv_kind v' = cv_kind v"
    and "cv_parent_id v' \<noteq> None \<Longrightarrow> cv_parent_id v \<noteq> None"
    and "cv_parent_delegable_actions v' = None"
    and "has_pull_request_binding (cv_source_ref v) (cv_cure v) (cv_review v) \<Longrightarrow>
           has_pull_request_binding (cv_source_ref v') (cv_cure v') (cv_review v')"
  shows "contract_problem v' = None"
proof -
  have "cv_parent_id v' \<noteq> None \<longrightarrow> cv_parent_id v \<noteq> None" using assms(6) by blast
  moreover have "has_pull_request_binding (cv_source_ref v) (cv_cure v) (cv_review v) \<longrightarrow>
      has_pull_request_binding (cv_source_ref v') (cv_cure v') (cv_review v')"
    using assms(8) by blast
  moreover have "\<not> includes_opt None CreateFollowup" by (simp add: includes_opt_def)
  ultimately show ?thesis
    using assms(1) unfolding contract_problem_def Let_def if_Some_None_iff assms(2-5) assms(7)
    by blast
qed

lemma definition_ok_update:
  assumes "definition_ok r" and "same_definition r r'"
    and "json_option (r_review r) \<noteq> None \<Longrightarrow> json_option (r_review r') \<noteq> None"
  shows "definition_ok r'"
proof -
  have "contract_problem (item_view (item_of r') None) = None"
    by (rule contract_problem_mono [of "item_view (item_of r) None"])
      (use assms in \<open>auto simp: definition_ok_def item_view_def same_definition_def
        has_pull_request_binding_def split: option.splits if_splits\<close>)
  with assms(1,2) show ?thesis
    by (auto simp: definition_ok_def row_actions_def row_delegable_def same_definition_def)
qed

subsection \<open>The atomic changes\<close>

text \<open>What a row must be to be inserted, given the rows already there.\<close>

definition insertable :: "store \<Rightarrow> row \<Rightarrow> bool" where
  "insertable s r =
     (r_id r \<noteq> [] \<and> r_status r = RQueued \<and> row_consistent r \<and> definition_ok r \<and>
      (case r_parent_id r of
         None \<Rightarrow> r_root_id r = r_id r
       | Some _ \<Rightarrow> \<exists>p n. lineage (set (st_items s)) p n \<and> n < max_lineage_depth \<and> child_of r p))"

text \<open>An update of the row with key \<open>i\<close>, with the events written about it.\<close>

definition lawful_update ::
    "string \<Rightarrow> (row \<Rightarrow> row) \<Rightarrow> event_body list \<Rightarrow> store \<Rightarrow> bool" where
  "lawful_update i f bodies s =
     (\<exists>r. find_row i s = Some r \<and>
        (\<forall>x. same_definition x (f x) \<and> r_repository (f x) = r_repository x) \<and>
        (json_option (r_review r) \<noteq> None \<longrightarrow> json_option (r_review (f r)) \<noteq> None) \<and>
        (row_consistent r \<longrightarrow>
           row_consistent (f r) \<and> (logical_status r, logical_status (f r)) \<in> lifecycle_edges \<and>
           replay_all bodies (Some (logical_status r)) = Some (logical_status (f r))))"

inductive insertion :: "store \<Rightarrow> store \<Rightarrow> bool" where
  "insert_row r s = Inr s1 \<Longrightarrow> insertable s r \<Longrightarrow>
     replay_status body None = Some (logical_status r) \<Longrightarrow>
     insertion s (add_event (r_id r) body actor at s1)"

inductive atom :: "store \<Rightarrow> store \<Rightarrow> bool" where
  insert: "insertion s s' \<Longrightarrow> atom s s'"
| update: "lawful_update i f (map fst es) s \<Longrightarrow> atom s (add_events i es (update_row i f s))"
| repositories: "rp_slug ` set (st_repositories s) \<subseteq> rp_slug ` set gs \<Longrightarrow>
     atom s (s\<lparr>st_repositories := gs\<rparr>)"
| rename: "find_repository a s = Some g \<Longrightarrow> find_repository b s = None \<Longrightarrow> a \<noteq> b \<Longrightarrow>
     atom s (move_repository a b now g s)"
| tokens: "atom s (s\<lparr>st_tokens := ts\<rparr>)"

subsection \<open>Each atom keeps the invariant\<close>

lemma store_ok_rows:
  assumes "store_ok s" and "r \<in> set (st_items s)"
  shows "row_consistent r" and "definition_ok r" and "find_row (r_id r) s = Some r"
    and "r_repository r \<in> rp_slug ` set (st_repositories s)"
    and "ledger_status (r_id r) s = Some (logical_status r)"
  using assms by (auto simp: store_ok_def item_table.lookup_in_rows)

lemma source_refs_unique_append:
  assumes "source_refs_unique rows"
    and "\<And>x. x \<in> set rows \<Longrightarrow> r_source_ref r \<noteq> None \<Longrightarrow>
           \<not> (r_source_ref x = r_source_ref r \<and> r_repository x = r_repository r)"
  shows "source_refs_unique (rows @ [r])"
  unfolding source_refs_unique_def
proof (intro ballI impI)
  fix a b
  assume ab: "a \<in> set (rows @ [r])" "b \<in> set (rows @ [r])" "r_source_ref a \<noteq> None"
    "r_source_ref b = r_source_ref a" "r_repository b = r_repository a"
  consider "a = r" "b = r" | "a = r" "b \<in> set rows" | "a \<in> set rows" "b = r"
    | "a \<in> set rows" "b \<in> set rows" using ab(1,2) by auto
  then show "r_id b = r_id a"
  proof cases
    case 2
    with assms(2) [of b] ab show ?thesis by simp
  next
    case 3
    with assms(2) [of a] ab show ?thesis by simp
  next
    case 4
    with assms(1) ab(3-5) show ?thesis unfolding source_refs_unique_def by blast
  qed simp
qed

lemma store_ok_map:
  assumes "store_ok s" and "st_items s' = map g (st_items s)" and "keeps_lineage g"
    and "\<And>x. x \<in> set (st_items s) \<Longrightarrow>
           row_consistent (g x) \<and> definition_ok (g x) \<and>
           r_repository (g x) \<in> rp_slug ` set (st_repositories s') \<and>
           ledger_status (r_id x) s' = Some (logical_status (g x))"
    and "source_refs_unique (map g (st_items s))" and "ledger_ok s'"
  shows "store_ok s'"
proof -
  note g = keeps_lineageD(1) [OF assms(3)]
  have "map r_id (st_items s') = map r_id (st_items s)" using g by (simp add: assms(2))
  then have "distinct (map r_id (st_items s'))" using assms(1) by (simp add: store_ok_def)
  moreover have "\<forall>x \<in> set (st_items s'). r_id x \<noteq> []"
    using assms(1) g by (auto simp: assms(2) store_ok_def)
  moreover have "\<forall>x \<in> set (st_items s'). row_consistent x \<and> definition_ok x \<and>
      r_repository x \<in> rp_slug ` set (st_repositories s') \<and>
      ledger_status (r_id x) s' = Some (logical_status x)"
    using assms(4) g by (auto simp: assms(2))
  moreover have "lineage_ok (set (st_items s'))"
    using lineage_ok_image [OF _ assms(3)] assms(1) by (simp add: assms(2) store_ok_def)
  ultimately show ?thesis using assms(5,6) by (simp add: store_ok_def assms(2))
qed

lemma store_ok_insert:
  assumes ok: "store_ok s" and ins: "insert_row r s = Inr s1" and able: "insertable s r"
    and body: "replay_status body None = Some (logical_status r)"
  shows "store_ok (add_event (r_id r) body actor at s1)"
proof -
  have s1: "s1 = s\<lparr>st_items := st_items s @ [r]\<rparr>" and new: "r_id r \<notin> r_id ` set (st_items s)"
    and repo: "r_repository r \<in> rp_slug ` set (st_repositories s)"
    and ref: "\<And>x. r_source_ref r = Some x \<Longrightarrow> \<not> source_ref_exists (r_repository r) x s"
    using ins by (auto simp: insert_row_Inr item_table.lookup_None_iff repo_table.lookup_None_iff)
  have none: "ledger_status (r_id r) s = None"
  proof -
    have "filter (\<lambda>e. ev_item e = r_id r) (st_events s) = []"
      using ok new unfolding store_ok_def ledger_ok_def filter_empty_conv by (metis imageI subsetD)
    then show ?thesis by (simp add: ledger_status_def item_events_def)
  qed
  have line: "lineage_ok (set (st_items s1))"
  proof (cases "r_parent_id r")
    case None
    then show ?thesis
      using ok able by (auto simp: s1 store_ok_def insertable_def intro: lineage_ok_insert_root)
  next
    case (Some q)
    with able obtain p n where "lineage (set (st_items s)) p n" "n < max_lineage_depth" "child_of r p"
      by (auto simp: insertable_def)
    then show ?thesis using ok by (auto simp: s1 store_ok_def intro: lineage_ok_insert_child)
  qed
  have refs: "source_refs_unique (st_items s1)"
  proof -
    have old: "source_refs_unique (st_items s)" using ok by (simp add: store_ok_def)
    have "\<not> (r_source_ref x = r_source_ref r \<and> r_repository x = r_repository r)"
      if "x \<in> set (st_items s)" "r_source_ref r \<noteq> None" for x
      using ref that by (auto simp: source_ref_exists_iff)
    from source_refs_unique_append [OF old this] show ?thesis by (simp add: s1)
  qed
  have led: "ledger_ok (add_event (r_id r) body actor at s1)"
  proof (rule ledger_ok_add_event)
    have "ledger_ok s" using ok by (simp add: store_ok_def)
    then show "ledger_ok s1" by (rule ledger_ok_items) (auto simp: s1)
  qed (simp add: s1)
  have new_row: "row_consistent r" "definition_ok r" "r_id r \<noteq> []"
    using able unfolding insertable_def by blast+
  have led_status: "ledger_status j (add_event (r_id r) body actor at s1) =
      (if j = r_id r then Some (logical_status r) else ledger_status j s)" for j
    using none body by (simp add: s1 ledger_status_add_event)
  have "row_consistent x \<and> definition_ok x \<and> r_repository x \<in> rp_slug ` set (st_repositories s) \<and>
      ledger_status (r_id x) (add_event (r_id r) body actor at s1) = Some (logical_status x)"
    if "x \<in> set (st_items s1)" for x
  proof (cases "x = r")
    case True
    with new_row repo led_status show ?thesis by simp
  next
    case False
    with that have x: "x \<in> set (st_items s)" by (auto simp: s1)
    with new have "r_id x \<noteq> r_id r" by (metis imageI)
    with store_ok_rows [OF ok x] led_status show ?thesis by simp
  qed
  with line refs led show ?thesis
    using ok new_row(3) new by (auto simp: store_ok_def s1)
qed

lemma keeps_lineage_update:
  assumes "\<And>x. same_definition x (f x) \<and> r_repository (f x) = r_repository x"
  shows "keeps_lineage (\<lambda>r. if r_id r = i then f r else r)"
  using assms by (auto simp: keeps_lineage_def same_definition_def row_actions_def row_delegable_def)

lemma source_refs_unique_map:
  assumes "\<And>x. r_source_ref (g x) = r_source_ref x" and "\<And>x. r_repository (g x) = r_repository x"
    and "\<And>x. r_id (g x) = r_id x"
  shows "source_refs_unique (map g rows) = source_refs_unique rows"
  by (simp add: source_refs_unique_def assms)

lemma store_ok_update:
  assumes ok: "store_ok s" and law: "lawful_update i f (map fst es) s"
  shows "store_ok (add_events i es (update_row i f s))"
proof -
  let ?g = "\<lambda>r. if r_id r = i then f r else r"
  obtain r where r: "find_row i s = Some r"
    and same: "\<And>x. same_definition x (f x) \<and> r_repository (f x) = r_repository x"
    and rev: "json_option (r_review r) \<noteq> None \<longrightarrow> json_option (r_review (f r)) \<noteq> None"
    and upd: "row_consistent r \<longrightarrow> row_consistent (f r) \<and>
        replay_all (map fst es) (Some (logical_status r)) = Some (logical_status (f r))"
    using law by (auto simp: lawful_update_def)
  have inr: "r \<in> set (st_items s)" "r_id r = i" using r by (auto dest: item_table.lookup_SomeD)
  have items: "st_items (add_events i es (update_row i f s)) = map ?g (st_items s)"
    by (simp add: item_table.rows_modify)
  have only: "x = r" if "x \<in> set (st_items s)" "r_id x = i" for x
    using store_ok_rows(3) [OF ok that(1)] that(2) r by simp
  have rows: "row_consistent (?g x) \<and> definition_ok (?g x) \<and>
      r_repository (?g x) \<in> rp_slug ` set (st_repositories s) \<and> r_id (?g x) = r_id x \<and>
      ledger_status (r_id x) (add_events i es (update_row i f s)) = Some (logical_status (?g x))"
    if "x \<in> set (st_items s)" for x
  proof (cases "r_id x = i")
    case False
    then show ?thesis using store_ok_rows [OF ok that] by (simp add: ledger_status_add_events)
  next
    case True
    with only that have x: "x = r" by blast
    have "definition_ok (f r)"
      using definition_ok_update [of r "f r"] store_ok_rows(2) [OF ok inr(1)] same rev by blast
    with x True show ?thesis
      using store_ok_rows [OF ok inr(1)] upd same [of r]
      by (auto simp: ledger_status_add_events same_definition_def)
  qed
  have refs: "source_refs_unique (map ?g (st_items s))"
    using ok same by (subst source_refs_unique_map) (auto simp: store_ok_def same_definition_def)
  have ids: "map r_id (map ?g (st_items s)) = map r_id (st_items s)"
    using same by (auto simp: same_definition_def)
  have idset: "r_id ` set (st_items (update_row i f s)) = r_id ` set (st_items s)"
    using ids by (metis item_table.rows_modify list.set_map)
  have "ledger_ok s" using ok by (simp add: store_ok_def)
  then have "ledger_ok (update_row i f s)" by (rule ledger_ok_items) (simp_all add: idset)
  then have led: "ledger_ok (add_events i es (update_row i f s))"
    using inr by (intro ledger_ok_add_events) (auto simp: idset)
  show ?thesis
    by (rule store_ok_map [OF ok items keeps_lineage_update _ refs led]) (use same rows in simp_all)
qed

lemma store_ok_frame:
  assumes "store_ok s" and "st_items s' = st_items s" and "st_events s' = st_events s"
    and "st_sequence s' = st_sequence s"
    and "rp_slug ` set (st_repositories s) \<subseteq> rp_slug ` set (st_repositories s')"
  shows "store_ok s'"
  using assms unfolding store_ok_def ledger_ok_def ledger_status_def by auto

lemma store_ok_rename:
  assumes ok: "store_ok s" and a: "find_repository a s = Some g" and b: "find_repository b s = None"
    and "a \<noteq> b"
  shows "store_ok (move_repository a b now g s)"
proof -
  let ?s = "move_repository a b now g s"
  let ?g = "\<lambda>x :: row. if r_repository x = a then x\<lparr>r_repository := b\<rparr> else x"
  have items: "st_items ?s = map ?g (st_items s)" by (simp add: move_repository_def)
  have slugs: "rp_slug ` set (st_repositories ?s) = rp_slug ` set (st_repositories s) - {a} \<union> {b}"
    using assms(4) by (auto simp: move_repository_def new_repo_row_def)
  have unused: "r_repository x \<noteq> b" if "x \<in> set (st_items s)" for x
    using store_ok_rows(4) [OF ok that] b by (auto simp: repo_table.lookup_None_iff)
  have keeps: "keeps_lineage ?g"
    by (simp add: keeps_lineage_def row_actions_def row_delegable_def)
  have "row_consistent (?g x) \<and> definition_ok (?g x) \<and>
      r_repository (?g x) \<in> rp_slug ` set (st_repositories ?s) \<and>
      ledger_status (r_id x) ?s = Some (logical_status (?g x))"
    if "x \<in> set (st_items s)" for x
  proof -
    have "definition_ok (?g x)"
      by (rule definition_ok_update [OF store_ok_rows(2) [OF ok that]])
        (simp_all add: same_definition_def)
    moreover have "row_consistent (?g x)"
      using store_ok_rows(1) [OF ok that] by (auto simp: row_consistency)
    moreover have "ledger_status (r_id x) ?s = ledger_status (r_id x) s"
      by (simp add: ledger_status_def move_repository_def)
    ultimately show ?thesis using store_ok_rows(4,5) [OF ok that] slugs by simp
  qed
  moreover have "source_refs_unique (map ?g (st_items s))"
  proof -
    have old: "source_refs_unique (st_items s)" using ok by (simp add: store_ok_def)
    have inj: "r_repository x = r_repository y"
      if "x \<in> set (st_items s)" "y \<in> set (st_items s)" "r_repository (?g x) = r_repository (?g y)" for x y
      using that unused by (auto split: if_splits)
    have fields: "r_source_ref (?g x) = r_source_ref x" "r_id (?g x) = r_id x" for x by simp_all
    show ?thesis
      unfolding source_refs_unique_def set_map
    proof (intro ballI impI, elim imageE)
      fix u v x y
      assume "r_source_ref u \<noteq> None" "r_source_ref v = r_source_ref u"
        "r_repository v = r_repository u" "u = ?g x" "x \<in> set (st_items s)" "v = ?g y"
        "y \<in> set (st_items s)"
      moreover from this have "r_repository y = r_repository x" using inj [of y x] by simp
      ultimately show "r_id v = r_id u"
        using old fields unfolding source_refs_unique_def by metis
    qed
  qed
  moreover have "ledger_ok ?s"
  proof (rule ledger_ok_items [of s])
    have "r_id \<circ> ?g = r_id" by auto
    then have "r_id ` ?g ` set (st_items s) = r_id ` set (st_items s)" by (simp only: image_comp)
    then show "r_id ` set (st_items s) \<subseteq> r_id ` set (st_items ?s)"
      unfolding items set_map by (rule equalityD2)
  qed (use ok in \<open>simp_all add: store_ok_def move_repository_def\<close>)
  ultimately show ?thesis by (intro store_ok_map [OF ok items keeps])
qed

theorem atom_keeps_store_ok:
  assumes "atom s s'" and "store_ok s"
  shows "store_ok s'"
  using assms
proof (induction rule: atom.induct)
  case (insert s s')
  then show ?case by (cases rule: insertion.cases) (simp add: store_ok_insert)
next
  case (update i f es s)
  then show ?case by (intro store_ok_update)
next
  case (repositories s gs)
  then show ?case by (intro store_ok_frame [of s "s\<lparr>st_repositories := gs\<rparr>"]) simp_all
next
  case (rename a s g b now)
  then show ?case by (intro store_ok_rename)
next
  case (tokens s ts)
  then show ?case by (intro store_ok_frame [of s "s\<lparr>st_tokens := ts\<rparr>"]) simp_all
qed

subsection \<open>The shape of one committed operation\<close>

text \<open>Some insertions, then at most one further change.\<close>

definition committed :: "store \<Rightarrow> store \<Rightarrow> bool" where
  "committed s s' = (\<exists>t. insertion\<^sup>*\<^sup>* s t \<and> (s' = t \<or> atom t s'))"

lemma committed_refl [simp]: "committed s s"
  by (auto simp: committed_def)

lemma committed_atom: "atom s s' \<Longrightarrow> committed s s'"
  by (auto simp: committed_def)

lemma committed_insertions: "insertion\<^sup>*\<^sup>* s s' \<Longrightarrow> committed s s'"
  by (auto simp: committed_def)

lemma insertions_keep_store_ok: "insertion\<^sup>*\<^sup>* s t \<Longrightarrow> store_ok s \<Longrightarrow> store_ok t"
  by (induction rule: rtranclp_induct) (auto intro: atom_keeps_store_ok atom.insert)

lemma committed_keeps_store_ok: "committed s s' \<Longrightarrow> store_ok s \<Longrightarrow> store_ok s'"
  by (auto simp: committed_def intro: insertions_keep_store_ok atom_keeps_store_ok)

text \<open>What an operation may do to a row that was there before it.\<close>

definition row_moves :: "row \<Rightarrow> row \<Rightarrow> bool" where
  "row_moves r r' = (same_definition r r' \<and> (logical_status r, logical_status r') \<in> lifecycle_edges)"

lemma row_moves_refl [simp]: "row_moves r r"
  by (simp add: row_moves_def lifecycle_edges_def)

lemma insertion_keeps_row: "insertion s t \<Longrightarrow> find_row i s = Some r \<Longrightarrow> find_row i t = Some r"
  by (auto simp: insertion.simps insert_row_Inr find_row_append)

lemma insertions_keep_row: "insertion\<^sup>*\<^sup>* s t \<Longrightarrow> find_row i s = Some r \<Longrightarrow> find_row i t = Some r"
  by (induction rule: rtranclp_induct) (auto intro: insertion_keeps_row)

lemma find_row_map:
  assumes "st_items s' = map g (st_items s)" and "\<And>x. r_id (g x) = r_id x"
  shows "find_row i s' = map_option g (find_row i s)"
proof -
  have "List.find (\<lambda>r. r_id r = i) (map g xs) = map_option g (List.find (\<lambda>r. r_id r = i) xs)" for xs
    by (induction xs) (auto simp: assms(2))
  then show ?thesis by (simp add: find_row_def assms(1))
qed

lemma atom_moves:
  assumes "atom s s'" and "store_ok s" and "find_row i s = Some r"
  shows "\<exists>r'. find_row i s' = Some r' \<and> row_moves r r'"
  using assms
proof (induction rule: atom.induct)
  case (insert s s')
  then show ?case by (auto dest: insertion_keeps_row)
next
  case (update j f es s)
  then obtain q where q: "find_row j s = Some q"
    and same: "\<And>x. same_definition x (f x)"
    and edge: "row_consistent q \<longrightarrow> (logical_status q, logical_status (f q)) \<in> lifecycle_edges"
    by (auto simp: lawful_update_def)
  have "find_row i (add_events j es (update_row j f s)) =
      (if i = j then map_option f (find_row i s) else find_row i s)"
  proof -
    have "find_row i (add_events j es (update_row j f s)) = find_row i (update_row j f s)"
      by (simp add: find_row_def)
    then show ?thesis using same_definition_id [OF same] by (simp add: item_table.lookup_modify)
  qed
  moreover have "row_consistent q"
    using update.prems(1) q by (auto dest: item_table.lookup_SomeD intro: store_ok_rows)
  ultimately show ?case
    using update.prems(2) q edge same [of q] by (auto simp: row_moves_def)
next
  case (repositories s gs)
  then show ?case by (intro exI [of _ r]) (simp add: find_row_def)
next
  case (rename a s g b now)
  have "find_row i (move_repository a b now g s) =
      map_option (\<lambda>x. if r_repository x = a then x\<lparr>r_repository := b\<rparr> else x) (find_row i s)"
    by (rule find_row_map) (simp_all add: move_repository_def)
  with rename.prems(2) show ?case
    by (auto simp: row_moves_def same_definition_def lifecycle_edges_def)
next
  case (tokens s ts)
  then show ?case by (intro exI [of _ r]) (simp add: find_row_def)
qed

lemma committed_moves:
  assumes "committed s s'" and "store_ok s" and "find_row i s = Some r"
  shows "\<exists>r'. find_row i s' = Some r' \<and> row_moves r r'"
proof -
  obtain t where t: "insertion\<^sup>*\<^sup>* s t" and last: "s' = t \<or> atom t s'"
    using assms(1) by (auto simp: committed_def)
  have "find_row i t = Some r" using t assms(3) by (rule insertions_keep_row)
  with last insertions_keep_store_ok [OF t assms(2)] show ?thesis by (auto intro: atom_moves)
qed

end
