(* ===== verification/Lifecycle_Steps.thy ===== *)
theory Lifecycle_Steps
  imports Lifecycle
begin

text \<open>
  Every operation of the store, when it commits, has the shape \<open>committed\<close> of \<open>Lifecycle\<close>.
  \<open>step\<close> is the transition relation of the queue: one rule per operation of \<open>QueueStore\<close> that
  writes, for any arguments and any context whose identifiers are not empty (what
  \<open>randomUUID\<close> promises). \<open>reachable\<close> starts from a migrated, empty queue.
\<close>

definition proper_ctx :: "ctx \<Rightarrow> bool" where
  "proper_ctx cx = (\<forall>n. cx_uuid cx n \<noteq> [])"

subsection \<open>Single-row mutations\<close>

lemma mutates_committed:
  assumes "mutates edges i s (item, s')" and "edges \<subseteq> lifecycle_edges"
  shows "committed s s'"
proof -
  obtain r f body actor at where r: "find_row i s = Some r"
    and s': "s' = add_event i body actor at (update_row i f s)"
    and same: "\<forall>x. same_definition x (f x)"
    and kept: "\<forall>x. r_repository (f x) = r_repository x \<and> r_review (f x) = r_review x"
    and ok: "row_consistent r \<longrightarrow> row_consistent (f r) \<and>
        (logical_status r, logical_status (f r)) \<in> edges \<and>
        replay_status body (Some (logical_status r)) = Some (logical_status (f r))"
    using assms(1) by (auto simp: mutates_def)
  have "lawful_update i f (map fst [(body, actor, at)]) s"
    using r same kept ok assms(2) by (auto simp: lawful_update_def)
  then have "atom s (add_events i [(body, actor, at)] (update_row i f s))" by (rule atom.update)
  then show ?thesis by (auto simp: s' intro: committed_atom)
qed

lemmas mutation_shapes =
  approving.shape deferring.shape noting.shape prioritizing.shape rejecting.shape requeuing.shape
  releasing_lease.shape cancelling.shape retiring.shape replacing_predecessors.shape
  recording_verification.shape attaching.shape recording_ready.shape heartbeating.shape
  blocking.shape releasing.shape

lemma mutations_committed:
  "approve cx i actor pre s = Inr (item, s') \<Longrightarrow> committed s s'"
  "defer_item cx i actor reason pre s = Inr (item, s') \<Longrightarrow> committed s s'"
  "note_item cx i actor reason pre s = Inr (item, s') \<Longrightarrow> committed s s'"
  "prioritize cx i actor p reason pre s = Inr (item, s') \<Longrightarrow> committed s s'"
  "reject cx i actor reason pre s = Inr (item, s') \<Longrightarrow> committed s s'"
  "requeue cx i actor reason pre s = Inr (item, s') \<Longrightarrow> committed s s'"
  "release_lease cx i actor reason pre s = Inr (item, s') \<Longrightarrow> committed s s'"
  "cancel cx i actor reason pre s = Inr (item, s') \<Longrightarrow> committed s s'"
  "retire_pull_request_bound_work cx i actor reason s = Inr (item, s') \<Longrightarrow> committed s s'"
  "replace_proposed_predecessors cx i ps actor s = Inr (item, s') \<Longrightarrow> committed s s'"
  "record_artifact_verification cx i url v actor s = Inr (item, s') \<Longrightarrow> committed s s'"
  "attach_artifact cx i actor artifact pre s = Inr (item, s') \<Longrightarrow> committed s s'"
  "record_pull_request_ready cx i url actor sha review s = Inr (item, s') \<Longrightarrow> committed s s'"
  "heartbeat cx i tok w n s = Inr (item, s') \<Longrightarrow> committed s s'"
  "block cx i tok w reason s = Inr (item, s') \<Longrightarrow> committed s s'"
  "release cx i tok w reason s = Inr (item, s') \<Longrightarrow> committed s s'"
  by (drule mutation_shapes, erule mutates_committed, force simp: lifecycle_edges_def)+

subsection \<open>Insertions\<close>

lemma row_of_work_simps [simp]:
  "r_id (row_of_work p w) = nw_id w" "r_root_id (row_of_work p w) = nw_root_id w"
  "r_parent_id (row_of_work p w) = nw_parent_id w" "r_status (row_of_work p w) = RQueued"
  "r_admitted (row_of_work p w) = nw_admitted w"
  "r_repository (row_of_work p w) = nw_repository w" "r_kind (row_of_work p w) = nw_kind w"
  "r_source_ref (row_of_work p w) = nw_source_ref w"
  "r_priority (row_of_work p w) = nw_priority w"
  "row_actions (row_of_work p w) = set (nw_allowed_actions w)"
  "row_delegable (row_of_work p w) = set (nw_delegable_actions w)"
  "row_consistent (row_of_work p w)"
  "logical_status (row_of_work p w) = (if nw_admitted w then Queued else Proposed)"
  by (simp_all add: row_of_work_def row_consistency row_actions_def row_delegable_def
      logical_status_def)

lemma create_item_insertion:
  assumes "create_item cx site w body s = Inr (item, s')"
    and "\<And>p. insertable s (row_of_work p w)"
    and "replay_status body None = Some (if nw_admitted w then Queued else Proposed)"
  shows "insertion s s'" and "item = item_of (the (find_row (nw_id w) s'))"
    and "find_row (nw_id w) s' \<noteq> None"
proof -
  obtain p s1 where p: "insert_row (row_of_work p w) s = Inr s1"
    and s': "s' = add_event (nw_id w) body (nw_created_by w) (cx_clock cx (site + 2)) s1"
    using assms(1) by (auto simp: create_item_def insert_work_def Let_def and_then_Inr_iff)
  show "insertion s s'"
    using insertion.intros [OF p assms(2) [of p], of body "nw_created_by w" "cx_clock cx (site + 2)"]
      assms(3) by (simp add: s')
  show "item = item_of (the (find_row (nw_id w) s'))" "find_row (nw_id w) s' \<noteq> None"
    using assms(1) by (auto simp: create_item_def Let_def and_then_Inr_iff get_required_Inr)
qed

lemma definition_ok_of_work:
  assumes "validate_work_definition d = Inr u"
    and "nw_kind w = wd_kind d" and "nw_allowed_actions w = wd_allowed_actions d"
    and "nw_delegable_actions w = wd_delegable_actions d"
    and "nw_required_artifact w = wd_required_artifact d"
    and "nw_execution_target w = wd_execution_target d"
    and "nw_parent_id w = None"
    and "has_pull_request_binding (wd_source_ref d) (wd_cure d) (wd_review d) \<Longrightarrow>
           has_pull_request_binding (nw_source_ref w) (nw_cure w) (nw_review w)"
  shows "definition_ok (row_of_work p w)"
proof -
  note d = assms(1) [unfolded validate_work_definition_Inr]
  have "contract_problem (item_view (item_of (row_of_work p w)) None) = None"
    by (rule contract_problem_mono [of "definition_view d"])
      (use d assms(2-) in \<open>auto simp: item_view_def definition_view_def row_of_work_def
        decode_required_artifact_def known_required_artifact_def decode_execution_target_def\<close>)
  with d assms(2-) show ?thesis
    by (auto simp: definition_ok_def row_of_work_def row_actions_def row_delegable_def)
qed

lemma insertable_root:
  assumes "validate_work_definition (definition_of_seed ref cure review input) = Inr u"
    and "id' \<noteq> []"
    and "ref \<noteq> None \<Longrightarrow> ref' = ref" and "cure \<noteq> None \<Longrightarrow> cure' \<noteq> None"
    and "review \<noteq> None \<Longrightarrow> review' \<noteq> None"
  shows "insertable s (row_of_work p ((root_of_seed id' admitted at input)
           \<lparr>nw_source_ref := ref', nw_predecessors := ps, nw_cure := cure', nw_review := review'\<rparr>))"
proof -
  have "definition_ok (row_of_work p ((root_of_seed id' admitted at input)
      \<lparr>nw_source_ref := ref', nw_predecessors := ps, nw_cure := cure', nw_review := review'\<rparr>))"
    by (rule definition_ok_of_work [OF assms(1)])
      (use assms(3-5) in \<open>auto simp: root_of_seed_def definition_of_seed_def
        has_pull_request_binding_def split: if_splits option.splits\<close>)
  with assms(2) show ?thesis by (simp add: insertable_def root_of_seed_def)
qed

lemma insertable_roots:
  assumes "id' \<noteq> []"
  shows "validate_work_definition (definition_of_seed None None None input) = Inr u \<Longrightarrow>
           insertable s (row_of_work p (root_of_seed id' admitted at input))"
    and "validate_work_definition (definition_of_seed None None None input) = Inr u \<Longrightarrow>
           insertable s (row_of_work p ((root_of_seed id' admitted at input)
             \<lparr>nw_source_ref := ref', nw_predecessors := ps\<rparr>))"
    and "validate_work_definition (definition_of_seed (Some ref) (Some cure) None input) = Inr u \<Longrightarrow>
           insertable s (row_of_work p ((root_of_seed id' admitted at input)
             \<lparr>nw_source_ref := Some ref, nw_cure := Some cure\<rparr>))"
    and "validate_work_definition (definition_of_seed (Some ref) None (Some review) input) = Inr u \<Longrightarrow>
           insertable s (row_of_work p ((root_of_seed id' admitted at input)
             \<lparr>nw_source_ref := Some ref, nw_review := Some review\<rparr>))"
  using insertable_root [where ref = None and cure = None and review = None and ref' = None
      and ps = None and cure' = None and review' = None, OF _ assms, of input u s p admitted at]
    insertable_root [where ref = None and cure = None and review = None and ref' = ref'
      and ps = ps and cure' = None and review' = None, OF _ assms, of input u s p admitted at]
    insertable_root [where ref = "Some ref" and cure = "Some cure" and review = None
      and ref' = "Some ref" and ps = None and cure' = "Some cure" and review' = None,
      OF _ assms, of input u s p admitted at]
    insertable_root [where ref = "Some ref" and cure = None and review = "Some review"
      and ref' = "Some ref" and ps = None and cure' = None and review' = "Some review",
      OF _ assms, of input u s p admitted at]
  by (simp_all add: root_of_seed_def)

subsection \<open>Roots\<close>

lemma root_of_seed_simps [simp]:
  "nw_id (root_of_seed i a t input) = i" "nw_admitted (root_of_seed i a t input) = a"
  "nw_parent_id (root_of_seed i a t input) = None"
  by (simp_all add: root_of_seed_def)

lemma created_roots:
  assumes "proper_ctx cx"
  shows "create_item cx site (root_of_seed (cx_uuid cx n) True at input) (EvQueued None None) s = Inr (item, s') \<Longrightarrow>
           validate_work_definition (definition_of_seed None None None input) = Inr u \<Longrightarrow> insertion s s'"
    and "create_item cx site ((root_of_seed (cx_uuid cx n) False at input)
             \<lparr>nw_source_ref := Some ref, nw_predecessors := ps\<rparr>) (EvProposedRoot ref ps) s = Inr (item, s') \<Longrightarrow>
           validate_work_definition (definition_of_seed None None None input) = Inr u \<Longrightarrow> insertion s s'"
    and "create_item cx site ((root_of_seed (cx_uuid cx n) True at input)
             \<lparr>nw_source_ref := Some ref, nw_cure := Some cure\<rparr>) (EvQueued c r) s = Inr (item, s') \<Longrightarrow>
           validate_work_definition (definition_of_seed (Some ref) (Some cure) None input) = Inr u \<Longrightarrow>
           insertion s s'"
    and "create_item cx site ((root_of_seed (cx_uuid cx n) True at input)
             \<lparr>nw_source_ref := Some ref, nw_review := Some review\<rparr>) (EvQueued c r) s = Inr (item, s') \<Longrightarrow>
           validate_work_definition (definition_of_seed (Some ref) None (Some review) input) = Inr u \<Longrightarrow>
           insertion s s'"
proof -
  have ids: "cx_uuid cx n \<noteq> []" using assms by (simp add: proper_ctx_def)
  note able = insertable_roots [OF ids]
  show "create_item cx site (root_of_seed (cx_uuid cx n) True at input) (EvQueued None None) s = Inr (item, s') \<Longrightarrow>
      validate_work_definition (definition_of_seed None None None input) = Inr u \<Longrightarrow> insertion s s'"
    by (erule create_item_insertion(1), erule able(1)) simp
  show "create_item cx site ((root_of_seed (cx_uuid cx n) False at input)
        \<lparr>nw_source_ref := Some ref, nw_predecessors := ps\<rparr>) (EvProposedRoot ref ps) s = Inr (item, s') \<Longrightarrow>
      validate_work_definition (definition_of_seed None None None input) = Inr u \<Longrightarrow> insertion s s'"
    by (erule create_item_insertion(1), erule able(2)) simp
  show "create_item cx site ((root_of_seed (cx_uuid cx n) True at input)
        \<lparr>nw_source_ref := Some ref, nw_cure := Some cure\<rparr>) (EvQueued c r) s = Inr (item, s') \<Longrightarrow>
      validate_work_definition (definition_of_seed (Some ref) (Some cure) None input) = Inr u \<Longrightarrow> insertion s s'"
    by (erule create_item_insertion(1), erule able(3)) simp
  show "create_item cx site ((root_of_seed (cx_uuid cx n) True at input)
        \<lparr>nw_source_ref := Some ref, nw_review := Some review\<rparr>) (EvQueued c r) s = Inr (item, s') \<Longrightarrow>
      validate_work_definition (definition_of_seed (Some ref) None (Some review) input) = Inr u \<Longrightarrow> insertion s s'"
    by (erule create_item_insertion(1), erule able(4)) simp
qed

lemma enqueue_seed_insertion:
  assumes "enqueue_seed cx input s = Inr (item, s')" and "proper_ctx cx"
  shows "insertion s s'"
  using assms(1) created_roots(1) [OF assms(2)]
  by (auto simp: enqueue_seed_def and_then_Inr_iff transaction_Inr)

lemma enqueue_cure_root_insertions:
  assumes "enqueue_cure_root cx g input cure s = Inr (item, s')" and "proper_ctx cx"
  shows "insertion\<^sup>*\<^sup>* s s'"
  using assms(1) created_roots(3) [OF assms(2)]
  by (auto simp: enqueue_cure_root_def and_then_Inr_iff transaction_Inr Let_def
      intro!: r_into_rtranclp split: if_splits)

lemma enqueue_review_root_insertions:
  assumes "enqueue_review_root cx g input review s = Inr (item, s')" and "proper_ctx cx"
  shows "insertion\<^sup>*\<^sup>* s s'"
  using assms(1) created_roots(4) [OF assms(2)]
  by (auto simp: enqueue_review_root_def and_then_Inr_iff transaction_Inr Let_def
      intro!: r_into_rtranclp split: if_splits)

lemma batch_step_insertions:
  assumes "batch_step cx g nf entry (outcome, active, s) = Inr (outcome', active', s')" and "proper_ctx cx"
  shows "s' = s \<or> insertion s s'"
  using assms(1) created_roots(1) [OF assms(2)]
  by (auto simp: batch_step_def and_then_Inr_iff Let_def split: if_splits prod.splits)

lemma proposal_step_insertions:
  assumes "proposal_step cx g entry (outcome, seen, s) = Inr (outcome', seen', s')" and "proper_ctx cx"
  shows "s' = s \<or> insertion s s'"
  using assms(1) created_roots(2) [OF assms(2)]
  by (auto simp: proposal_step_def and_then_Inr_iff Let_def split: if_splits prod.splits)

lemma enqueue_inactive_root_batch_insertions:
  assumes "enqueue_inactive_root_batch cx g cands over s = Inr (outcome, s')" and "proper_ctx cx"
  shows "insertion\<^sup>*\<^sup>* s s'"
proof -
  obtain nf entries acc active out act where
    "fold_res (batch_step cx g nf) entries (acc, active, s) = Inr (out, act, s')"
    using assms(1)
    by (auto simp: enqueue_inactive_root_batch_def and_then_Inr_iff transaction_Inr Let_def)
  then have "(\<lambda>(_, _, t). insertion\<^sup>*\<^sup>* s t) (out, act, s')"
    by (rule fold_res_invariant)
      (auto dest!: batch_step_insertions [OF _ assms(2)] intro: rtranclp.rtrancl_into_rtrancl)
  then show ?thesis by simp
qed

lemma enqueue_proposed_roots_insertions:
  assumes "enqueue_proposed_roots cx g cands s = Inr (outcome, s')" and "proper_ctx cx"
  shows "insertion\<^sup>*\<^sup>* s s'"
proof -
  obtain entries acc seen out seen' where
    "fold_res (proposal_step cx g) entries (acc, seen, s) = Inr (out, seen', s')"
    using assms(1) by (auto simp: enqueue_proposed_roots_def and_then_Inr_iff transaction_Inr)
  then have "(\<lambda>(_, _, t). insertion\<^sup>*\<^sup>* s t) (out, seen', s')"
    by (rule fold_res_invariant)
      (auto dest!: proposal_step_insertions [OF _ assms(2)] intro: rtranclp.rtrancl_into_rtrancl)
  then show ?thesis by simp
qed

subsection \<open>Claims\<close>

lemma update_row_add_event:
  "update_row i f (add_event j b a t s) = add_event j b a t (update_row i f s)"
  by (simp add: update_row_def add_event_def)

definition lease_events :: "ctx \<Rightarrow> claim_request \<Rightarrow> row \<Rightarrow> (event_body \<times> string \<times> timestamp) list" where
  "lease_events cx q r =
     (if r_status r = RClaimed
      then [(EvLeaseExpired (r_lease_owner r) (r_lease_expires_at r), ''system'', cx_clock cx 2)]
      else []) @ [(leased_event cx q, cq_worker q, cx_clock cx 4)]"

lemma leased_store_events:
  "leased_store cx q r s = add_events (r_id r) (lease_events cx q r) (update_row (r_id r) (leased_row cx q) s)"
  by (simp add: leased_store_def lease_start_def lease_events_def update_row_add_event)

lemma claim_committed:
  assumes "claim cx input s = Inr (res, s')" and ok: "store_ok s"
  shows "committed s s'"
  using assms(1)
proof (cases rule: claim_cases)
  case (idle q)
  then show ?thesis by simp
next
  case (leased q flt r)
  then have r: "r \<in> set (st_items s)" "claimable cx flt s r" by (auto simp: claim_succeeds_def)
  have "distinct (map r_id (st_items s))" using ok by (simp add: store_ok_def)
  with leased r(1) have adm: "r_admitted r" and s': "s' = leased_store cx q r s"
    by (auto simp: claim_succeeds_def take_lease_Inr)
  note row = store_ok_rows [OF ok r(1)]
  have "lawful_update (r_id r) (leased_row cx q) (map fst (lease_events cx q r)) s"
    using row(1,3) r(2) adm
    by (auto simp: lawful_update_def lease_events_def leased_event_def claimable_def candidate_row_def
        lease_available_def row_consistent_def lease_consistent_def result_consistent_def
        logical_status_at lifecycle_edges_def leased_row_def claimed_row_def same_definition_def)
  then show ?thesis by (auto simp: s' leased_store_events intro: committed_atom atom.update)
qed

subsection \<open>Completions\<close>

lemma lineage_depth_exact:
  assumes "lineage (set (st_items s)) r n" and "store_ok s"
  shows "lineage_depth_from d (item_of r) s =
           (if d + n \<le> max_lineage_depth then Inr (d + n) else Inl (FollowUpError LineageExceedsDepth))
         \<or> max_lineage_depth < d"
  using assms(1)
proof (induction arbitrary: d rule: lineage.induct)
  case (root r)
  then show ?case by (subst lineage_depth_from.simps) auto
next
  case (child p n r)
  have p: "p \<in> set (st_items s)" using child.hyps(1) by (rule lineage_in)
  then have "r_id p \<noteq> []" using assms(2) by (auto simp: store_ok_def)
  moreover have "get_required (r_id p) s = Inr (item_of p)"
    using store_ok_rows(3) [OF assms(2) p] by (rule get_required_row)
  moreover have "r_parent_id r = Some (r_id p)" using child.hyps(3) by (simp add: child_of_def)
  ultimately show ?case
    using child.IH [of "Suc d"] by (subst lineage_depth_from.simps) auto
qed

lemma lineage_depth_of:
  assumes "lineage (set (st_items s)) r n" and "store_ok s" and "n \<le> max_lineage_depth"
  shows "lineage_depth (item_of r) s = Inr n"
  using lineage_depth_exact [OF assms(1,2), of 0] assms(3) by (simp add: lineage_depth_def)

lemma check_follow_up_Inr:
  assumes "check_follow_up worker parent p = Inr (f, cure)"
  shows "contract_problem (follow_up_view parent f cure) = None"
    and "validate_work_definition (follow_up_definition worker f cure) = Inr ()"
    and "set (fu_allowed_actions f) \<subseteq> set (wi_delegable_actions parent)"
    and "set (fu_delegable_actions f) \<subseteq> set (wi_delegable_actions parent)"
    and "cure = inherited_cure_binding parent f"
    and "normalize_follow_up_intent (wi_delegable_actions parent) (wi_cure parent) p = Inr f"
  using assms
  by (auto simp: check_follow_up_def and_then_Inr_iff Let_def assert_subset_Inr split: option.splits)

lemma definition_ok_child:
  assumes "check_follow_up worker parent p = Inr (f, cure)"
  shows "definition_ok (row_of_work pol (child_work i now worker parent f cure))"
proof -
  note c = check_follow_up_Inr [OF assms]
  note d = c(2) [unfolded validate_work_definition_Inr]
  let ?r = "row_of_work pol (child_work i now worker parent f cure)"
  have "contract_problem (item_view (item_of ?r) None) = None"
    by (rule contract_problem_mono [OF c(1)])
      (use d in \<open>auto simp: item_view_def follow_up_view_def row_of_work_def child_work_def
        follow_up_definition_def required_or_none_def decode_required_artifact_def
        known_required_artifact_def decode_execution_target_def\<close>)
  with d show ?thesis
    by (auto simp: definition_ok_def row_of_work_def child_work_def follow_up_definition_def
        row_actions_def row_delegable_def required_or_none_def)
qed

lemma child_work_simps [simp]:
  "nw_id (child_work i now worker parent f cure) = i"
  "nw_root_id (child_work i now worker parent f cure) = wi_root_id parent"
  "nw_parent_id (child_work i now worker parent f cure) = Some (wi_id parent)"
  "nw_repository (child_work i now worker parent f cure) = wi_repository parent"
  "nw_priority (child_work i now worker parent f cure) = wi_priority parent"
  "nw_allowed_actions (child_work i now worker parent f cure) = fu_allowed_actions f"
  "nw_delegable_actions (child_work i now worker parent f cure) = fu_delegable_actions f"
  "nw_admitted (child_work i now worker parent f cure) = False"
  "nw_kind (child_work i now worker parent f cure) = fu_kind f"
  "nw_source_ref (child_work i now worker parent f cure) = None"
  by (simp_all add: child_work_def)

lemma follow_up_step_parts:
  assumes "follow_up_step cx worker now parent (index, proposal) (kids, s) = Inr (kids', s')"
  obtains f cure p s1 where "check_follow_up worker parent proposal = Inr (f, cure)"
    and "insert_row (row_of_work p (child_work (cx_uuid cx index) now worker parent f cure)) s = Inr s1"
    and "s' = add_event (cx_uuid cx index) (EvProposedChild (wi_id parent) (wi_root_id parent)) worker
           (cx_clock cx (3 + index)) s1"
    and "find_row (cx_uuid cx index) s' =
           Some (row_of_work p (child_work (cx_uuid cx index) now worker parent f cure))"
    and "kids' = kids @ [item_of (row_of_work p (child_work (cx_uuid cx index) now worker parent f cure))]"
proof -
  obtain f cure p s1 child where f: "check_follow_up worker parent proposal = Inr (f, cure)"
    and p: "insert_row (row_of_work p (child_work (cx_uuid cx index) now worker parent f cure)) s = Inr s1"
    and s': "s' = add_event (cx_uuid cx index) (EvProposedChild (wi_id parent) (wi_root_id parent)) worker
               (cx_clock cx (3 + index)) s1"
    and child: "get_required (cx_uuid cx index) s' = Inr child" "kids' = kids @ [child]"
    using assms by (auto simp: follow_up_step_def insert_work_def and_then_Inr_iff Let_def)
  let ?r = "row_of_work p (child_work (cx_uuid cx index) now worker parent f cure)"
  have row: "find_row (cx_uuid cx index) s' = Some ?r"
    using p by (auto simp: s' insert_row_Inr find_row_append)
  with child have "kids' = kids @ [item_of ?r]" by (simp add: get_required_Inr)
  with that f p s' row show thesis by blast
qed

lemma follow_up_step_insertion:
  assumes "follow_up_step cx worker now (item_of r) entry (kids, s) = Inr (kids', s')"
    and "proper_ctx cx" and "lineage (set (st_items s)) r n" and "n < max_lineage_depth"
  shows "insertion s s'"
proof -
  obtain index proposal where entry: "entry = (index, proposal)" by fastforce
  from assms(1) [unfolded entry] show ?thesis
  proof (rule follow_up_step_parts)
    fix f cure p s1
    let ?w = "child_work (cx_uuid cx index) now worker (item_of r) f cure"
    assume f: "check_follow_up worker (item_of r) proposal = Inr (f, cure)"
      and p: "insert_row (row_of_work p ?w) s = Inr s1"
      and s': "s' = add_event (cx_uuid cx index) (EvProposedChild (wi_id (item_of r)) (wi_root_id (item_of r)))
        worker (cx_clock cx (3 + index)) s1"
    note c = check_follow_up_Inr [OF f]
    have id: "cx_uuid cx index \<noteq> []" using assms(2) by (simp add: proper_ctx_def)
    have "child_of (row_of_work p ?w) r"
      using c(3,4) by (simp add: child_of_def row_delegable_def [of r])
    then have "insertable s (row_of_work p ?w)"
      using assms(3,4) id definition_ok_child [OF f] by (auto simp: insertable_def)
    from insertion.intros [OF p this, of "EvProposedChild (r_id r) (r_root_id r)" worker
        "cx_clock cx (3 + index)"]
    show "insertion s s'" by (simp add: s')
  qed
qed

lemma follow_ups_insertions:
  assumes "fold_res (follow_up_step cx worker now (item_of r)) entries ([], s) = Inr (kids, t)"
    and "proper_ctx cx" and "lineage (set (st_items s)) r n" and "n < max_lineage_depth"
  shows "insertion\<^sup>*\<^sup>* s t"
proof -
  have "(\<lambda>(_, t). insertion\<^sup>*\<^sup>* s t \<and> lineage (set (st_items t)) r n) (kids, t)"
  proof (rule fold_res_invariant [OF assms(1)])
    show "(\<lambda>(_, t). insertion\<^sup>*\<^sup>* s t \<and> lineage (set (st_items t)) r n) ([], s)"
      using assms(3) by simp
  next
    fix x a b
    assume "(\<lambda>(_, t). insertion\<^sup>*\<^sup>* s t \<and> lineage (set (st_items t)) r n) a"
      and step: "follow_up_step cx worker now (item_of r) x a = Inr b"
    then have a: "insertion\<^sup>*\<^sup>* s (snd a)" "lineage (set (st_items (snd a))) r n"
      by (cases a; simp)+
    have ins: "insertion (snd a) (snd b)"
      by (rule follow_up_step_insertion [of cx worker now r x "fst a" "snd a" "fst b" "snd b" n])
        (use step a assms(2,4) in simp_all)
    have "lineage (set (st_items (snd b))) r n"
      using a(2) by (rule lineage_mono) (use ins in \<open>auto simp: insertion.simps insert_row_Inr\<close>)
    then show "(\<lambda>(_, t). insertion\<^sup>*\<^sup>* s t \<and> lineage (set (st_items t)) r n) b"
      using a(1) ins by (cases b) (auto intro: rtranclp.rtrancl_into_rtrancl)
  qed
  then show ?thesis by simp
qed

lemma finish_completion_atom:
  assumes "finish_completion cx input now (item_of r) review kids s = Inr (item, s')"
    and "find_row (co_id input) s = Some r" and "r_status r = RClaimed"
    and "review = None \<or> json_option (r_review r) \<noteq> None"
  shows "atom s s'" and "item = item_of (completed_row (co_result input) review now r)"
    and "find_row (co_id input) s' = Some (completed_row (co_result input) review now r)"
proof -
  let ?f = "completed_row (co_result input) review now" and ?i = "co_id input"
    and ?n = "length (co_follow_ups input)"
  let ?done = "(EvCompleted (map wi_id kids) (length (wr_artifacts (co_result input)))
      (completion_model (co_result input)), co_worker input, cx_clock cx (3 + ?n))"
  let ?rev = "case (co_review input, json_option (r_review r)) of
      (Some v, Some record') \<Rightarrow>
        [(EvReviewed (rr_decision v) (pr_round record') (pr_head_sha record')
            (pr_pull_request_url record') (map rb_fingerprint (rr_blockers v)),
          co_worker input, cx_clock cx (4 + ?n))]
    | _ \<Rightarrow> []"
  have same: "same_definition x (?f x) \<and> r_repository (?f x) = r_repository x" for x
    by (simp add: completed_row_def clear_lease_def same_definition_def)
  have s': "s' = add_events ?i (?done # ?rev) (update_row ?i ?f s)"
    and item: "get_required ?i s' = Inr item"
    using assms(1)
    by (auto simp: finish_completion_def Let_def and_then_Inr_iff split: option.splits)
  have "lawful_update ?i ?f (map fst (?done # ?rev)) s"
    unfolding lawful_update_def
  proof (intro exI [of _ r] conjI)
    show "find_row ?i s = Some r" by (rule assms(2))
    show "\<forall>x. same_definition x (?f x) \<and> r_repository (?f x) = r_repository x" using same by blast
    show "json_option (r_review r) \<noteq> None \<longrightarrow> json_option (r_review (?f r)) \<noteq> None"
      by (auto simp: completed_row_def clear_lease_def split: option.splits)
    show "row_consistent r \<longrightarrow> row_consistent (?f r) \<and>
        (logical_status r, logical_status (?f r)) \<in> lifecycle_edges \<and>
        replay_all (map fst (?done # ?rev)) (Some (logical_status r)) = Some (logical_status (?f r))"
      using assms(3)
      by (auto simp: row_consistency completed_row_def clear_lease_def lifecycle_edges_def
          logical_status_at split: option.splits)
  qed
  then show "atom s s'" unfolding s' by (rule atom.update)
  have row: "find_row ?i s' = Some (?f r)"
  proof -
    have "find_row ?i s' = find_row ?i (update_row ?i ?f s)" by (simp add: s' find_row_def)
    then show ?thesis
      using assms(2) same_definition_id [of _ "?f _"] same by (simp add: item_table.lookup_modify)
  qed
  then show "find_row ?i s' = Some (?f r)" .
  with item show "item = item_of (?f r)" by (simp add: get_required_Inr)
qed

lemma complete_parts:
  assumes "complete cx input s = Inr ((item, kids), s')"
  obtains r e review t where "find_row (co_id input) s = Some r" and "r_status r = RClaimed"
    and "r_lease_token r = Some (co_lease_token input)" and "r_lease_owner r = Some (co_worker input)"
    and "r_lease_expires_at r = Some e" and "cx_clock cx 0 < e"
    and "validate_result (co_result input) = Inr ()"
    and "length (co_follow_ups input) \<le> max_follow_ups"
    and "co_follow_ups input = [] \<or>
           CreateFollowup \<in> row_actions r \<and> (\<exists>d < max_lineage_depth. lineage_depth (item_of r) s = Inr d)"
    and "assert_artifacts_allowed (item_of r) (wr_artifacts (co_result input)) = Inr ()"
    and "assert_required_artifact_reported (item_of r) (wr_artifacts (co_result input)) = Inr ()"
    and "completion_review (cx_clock cx (Suc 0)) (item_of r) (co_review input) = Inr review"
    and "fold_res (follow_up_step cx (co_worker input) (cx_clock cx 2) (item_of r))
           (zip [0..<length (co_follow_ups input)] (co_follow_ups input)) ([], s) = Inr (kids, t)"
    and "finish_completion cx input (cx_clock cx 2) (item_of r) review kids t = Inr (item, s')"
proof -
  have if_unit: "(if c then Inr () else m) = Inr () \<longleftrightarrow> c \<or> m = Inr ()" for c and m :: "unit res"
    by simp
  show thesis
    using assms
    by (clarsimp simp: complete_def and_then_Inr_iff require_Inr_iff transaction_Inr
        assert_active_lease_Inr Let_def if_unit)
      (rule that; (assumption | (simp add: row_actions_def, blast)))
qed

lemma completion_review_kept:
  "completion_review at item verdict = Inr review \<Longrightarrow> review = None \<or> wi_review item \<noteq> None"
  by (auto simp: completion_review_def and_then_Inr_iff split: if_splits option.splits)

lemma complete_lineage:
  assumes "store_ok s" and "find_row i s = Some r"
  obtains n where "lineage (set (st_items s)) r n" and "n \<le> max_lineage_depth"
    and "lineage_depth (item_of r) s = Inr n"
proof -
  have "r \<in> set (st_items s)" using assms(2) by (auto dest: item_table.lookup_SomeD)
  then obtain n where "n \<le> max_lineage_depth" "lineage (set (st_items s)) r n"
    using assms(1) by (auto simp: store_ok_def lineage_ok_def)
  with that lineage_depth_of [OF _ assms(1)] show thesis by blast
qed

lemma complete_insertions:
  assumes "fold_res (follow_up_step cx worker now (item_of r)) (zip [0..<length ps] ps) ([], s) = Inr (kids, t)"
    and "store_ok s" and "find_row i s = Some r" and "proper_ctx cx"
    and "ps = [] \<or> (\<exists>d < max_lineage_depth. lineage_depth (item_of r) s = Inr d)"
  shows "insertion\<^sup>*\<^sup>* s t"
proof (cases "ps = []")
  case True
  with assms(1) show ?thesis by simp
next
  case False
  obtain n where n: "lineage (set (st_items s)) r n" "lineage_depth (item_of r) s = Inr n"
    using complete_lineage [OF assms(2,3)] by blast
  with False assms(5) have "n < max_lineage_depth" by auto
  with assms(1,4) n(1) show ?thesis by (intro follow_ups_insertions)
qed

lemma complete_committed:
  assumes "complete cx input s = Inr (out, s')" and ok: "store_ok s" and "proper_ctx cx"
  shows "committed s s'"
proof -
  obtain item kids where "out = (item, kids)" by fastforce
  with assms(1) have "complete cx input s = Inr ((item, kids), s')" by simp
  then show ?thesis
  proof (rule complete_parts)
    fix r e review t
    assume r: "find_row (co_id input) s = Some r" "r_status r = RClaimed"
      and depth: "co_follow_ups input = [] \<or>
        CreateFollowup \<in> row_actions r \<and> (\<exists>d < max_lineage_depth. lineage_depth (item_of r) s = Inr d)"
      and rev: "completion_review (cx_clock cx (Suc 0)) (item_of r) (co_review input) = Inr review"
      and loop: "fold_res (follow_up_step cx (co_worker input) (cx_clock cx 2) (item_of r))
        (zip [0..<length (co_follow_ups input)] (co_follow_ups input)) ([], s) = Inr (kids, t)"
      and fin: "finish_completion cx input (cx_clock cx 2) (item_of r) review kids t = Inr (item, s')"
    have ins: "insertion\<^sup>*\<^sup>* s t"
      using depth by (intro complete_insertions [OF loop ok r(1) assms(3)]) auto
    have "atom t s'"
      using finish_completion_atom(1) [OF fin insertions_keep_row [OF ins r(1)] r(2)]
        completion_review_kept [OF rev] by simp
    with ins show ?thesis by (auto simp: committed_def)
  qed
qed

subsection \<open>The opt-in table and the tokens\<close>

lemma slugs_update_repository:
  assumes "\<And>r. rp_slug (f r) = rp_slug r"
  shows "rp_slug ` set (st_repositories (update_repository g f s)) = rp_slug ` set (st_repositories s)"
  using repo_table.keys_modify [of f g s] assms by (metis list.set_map)

lemma update_repository_committed:
  assumes "\<And>r. rp_slug (f r) = rp_slug r"
  shows "committed s (update_repository g f s)"
proof -
  have "atom s (s\<lparr>st_repositories := st_repositories (update_repository g f s)\<rparr>)"
    by (rule atom.repositories) (simp only: slugs_update_repository [of f, OF assms] order_refl)
  then show ?thesis by (auto simp: update_repository_def intro: committed_atom)
qed

lemma update_enabled_repository_committed:
  assumes "update_enabled_repository g f s = Inr (u, s')" and "\<And>r. rp_slug (f r) = rp_slug r"
  shows "committed s s'"
  using assms(1) update_repository_committed [of f, OF assms(2)]
  by (auto simp: update_enabled_repository_def transaction_Inr and_then_Inr_iff)

lemma repository_operations_committed:
  "set_repository_enabled cx g b s = Inr (u, s') \<Longrightarrow> committed s s'"
  "rename_repository cx g g' actor s = Inr (out, s') \<Longrightarrow> committed s s'"
  "set_repository_cure_foreign cx g b s = Inr (u, s') \<Longrightarrow> committed s s'"
  "set_repository_review_gate cx g b s = Inr (u, s') \<Longrightarrow> committed s s'"
  "record_unreported_pull_requests cx g obs actor s = Inr (u, s') \<Longrightarrow> committed s s'"
  "record_labeled_issue_observations cx g issues actor s = Inr (lo, s') \<Longrightarrow> committed s s'"
proof -
  show "set_repository_enabled cx g b s = Inr (u, s') \<Longrightarrow> committed s s'"
    by (auto simp: set_repository_enabled_def and_then_Inr_iff transaction_Inr Let_def
        intro: committed_atom [OF atom.repositories] update_repository_committed split: option.splits)
  show "rename_repository cx g g' actor s = Inr (out, s') \<Longrightarrow> committed s s'"
    by (auto simp: rename_repository_def and_then_Inr_iff transaction_Inr require_Inr_iff
        intro!: committed_atom atom.rename split: option.splits)
  show "set_repository_cure_foreign cx g b s = Inr (u, s') \<Longrightarrow> committed s s'"
    "set_repository_review_gate cx g b s = Inr (u, s') \<Longrightarrow> committed s s'"
    "record_unreported_pull_requests cx g obs actor s = Inr (u, s') \<Longrightarrow> committed s s'"
    by (auto simp: set_repository_cure_foreign_def set_repository_review_gate_def
        record_unreported_pull_requests_def and_then_Inr_iff
        intro: update_enabled_repository_committed)
  show "record_labeled_issue_observations cx g issues actor s = Inr (lo, s') \<Longrightarrow> committed s s'"
    by (auto simp: record_labeled_issue_observations_def and_then_Inr_iff transaction_Inr Let_def
        intro!: update_repository_committed)
qed

lemma tokens_committed: "committed s (s\<lparr>st_tokens := ts\<rparr>)"
  by (rule committed_atom) (rule atom.tokens)

lemma token_operations_committed:
  "mint_mcp_token hash cx i sec input s = Inr (out, s') \<Longrightarrow> committed s s'"
  "verify_mcp_token hash cx presented s = (t, s') \<Longrightarrow> committed s s'"
  "revoke_mcp_token cx i actor s = Inr (rec, s') \<Longrightarrow> committed s s'"
proof -
  show "mint_mcp_token hash cx i sec input s = Inr (out, s') \<Longrightarrow> committed s s'"
    by (auto simp: mint_mcp_token_def and_then_Inr_iff Let_def tokens_committed)
  show "verify_mcp_token hash cx presented s = (t, s') \<Longrightarrow> committed s s'"
    by (auto simp: verify_mcp_token_def update_token_def Let_def tokens_committed
        split: option.splits prod.splits if_splits)
  show "revoke_mcp_token cx i actor s = Inr (rec, s') \<Longrightarrow> committed s s'"
    by (auto simp: revoke_mcp_token_def update_token_def res_iffs Let_def tokens_committed
        split: if_splits)
qed

subsection \<open>The transition relation\<close>

inductive step :: "store \<Rightarrow> store \<Rightarrow> bool" where
  "set_repository_enabled cx g b s = Inr (u, s') \<Longrightarrow> step s s'"
| "rename_repository cx g g' actor s = Inr (moved, s') \<Longrightarrow> step s s'"
| "set_repository_cure_foreign cx g b s = Inr (u, s') \<Longrightarrow> step s s'"
| "set_repository_review_gate cx g b s = Inr (u, s') \<Longrightarrow> step s s'"
| "record_unreported_pull_requests cx g obs actor s = Inr (u, s') \<Longrightarrow> step s s'"
| "record_labeled_issue_observations cx g issues actor s = Inr (lo, s') \<Longrightarrow> step s s'"
| "mint_mcp_token hash cx i secret mint s = Inr (minted, s') \<Longrightarrow> step s s'"
| "verify_mcp_token hash cx presented s = (token, s') \<Longrightarrow> step s s'"
| "revoke_mcp_token cx i actor s = Inr (record', s') \<Longrightarrow> step s s'"
| "proper_ctx cx \<Longrightarrow> enqueue_seed cx seed s = Inr (item, s') \<Longrightarrow> step s s'"
| "proper_ctx cx \<Longrightarrow> enqueue_inactive_root_batch cx g batch over s = Inr (outcome, s') \<Longrightarrow> step s s'"
| "proper_ctx cx \<Longrightarrow> enqueue_cure_root cx g bound cure s = Inr (created, s') \<Longrightarrow> step s s'"
| "proper_ctx cx \<Longrightarrow> enqueue_review_root cx g bound review s = Inr (created, s') \<Longrightarrow> step s s'"
| "proper_ctx cx \<Longrightarrow> enqueue_proposed_roots cx g proposals s = Inr (proposed, s') \<Longrightarrow> step s s'"
| "replace_proposed_predecessors cx i ps actor s = Inr (item, s') \<Longrightarrow> step s s'"
| "claim cx request s = Inr (claimed, s') \<Longrightarrow> step s s'"
| "heartbeat cx i tok w n s = Inr (item, s') \<Longrightarrow> step s s'"
| "proper_ctx cx \<Longrightarrow> complete cx completion s = Inr (completed, s') \<Longrightarrow> step s s'"
| "block cx i tok w reason s = Inr (item, s') \<Longrightarrow> step s s'"
| "release cx i tok w reason s = Inr (item, s') \<Longrightarrow> step s s'"
| "approve cx i actor pre s = Inr (item, s') \<Longrightarrow> step s s'"
| "defer_item cx i actor reason pre s = Inr (item, s') \<Longrightarrow> step s s'"
| "note_item cx i actor reason pre s = Inr (item, s') \<Longrightarrow> step s s'"
| "prioritize cx i actor priority reason pre s = Inr (item, s') \<Longrightarrow> step s s'"
| "reject cx i actor reason pre s = Inr (item, s') \<Longrightarrow> step s s'"
| "requeue cx i actor reason pre s = Inr (item, s') \<Longrightarrow> step s s'"
| "release_lease cx i actor reason pre s = Inr (item, s') \<Longrightarrow> step s s'"
| "cancel cx i actor reason pre s = Inr (item, s') \<Longrightarrow> step s s'"
| "retire_pull_request_bound_work cx i actor reason s = Inr (item, s') \<Longrightarrow> step s s'"
| "record_artifact_verification cx i url v actor s = Inr (item, s') \<Longrightarrow> step s s'"
| "attach_artifact cx i actor artifact pre s = Inr (item, s') \<Longrightarrow> step s s'"
| "record_pull_request_ready cx i url actor sha review_id s = Inr (item, s') \<Longrightarrow> step s s'"

lemma step_committed:
  assumes "step s s'" and "store_ok s"
  shows "committed s s'"
  using assms
  by (cases rule: step.cases)
    (erule mutations_committed repository_operations_committed token_operations_committed
       claim_committed complete_committed
       committed_atom [OF atom.insert, OF enqueue_seed_insertion]
       committed_insertions [OF enqueue_inactive_root_batch_insertions]
       committed_insertions [OF enqueue_cure_root_insertions]
       committed_insertions [OF enqueue_review_root_insertions]
       committed_insertions [OF enqueue_proposed_roots_insertions]; assumption)+

lemma step_keeps_store_ok: "step s s' \<Longrightarrow> store_ok s \<Longrightarrow> store_ok s'"
  by (blast intro: committed_keeps_store_ok step_committed)

definition empty_queue :: store where
  "empty_queue =
     \<lparr>st_repositories = [], st_items = [], st_events = [], st_sequence = 0, st_tokens = [],
      st_user_version = schema_version\<rparr>"

inductive reachable :: "store \<Rightarrow> bool" where
  start: "reachable empty_queue"
| move: "reachable s \<Longrightarrow> step s s' \<Longrightarrow> reachable s'"

lemma store_ok_empty_queue: "store_ok empty_queue"
  by (simp add: store_ok_def empty_queue_def lineage_ok_def source_refs_unique_def ledger_ok_def)

lemma reachable_store_ok: "reachable s \<Longrightarrow> store_ok s"
  by (induction rule: reachable.induct) (auto intro: store_ok_empty_queue step_keeps_store_ok)

lemma reachable_moves:
  assumes "reachable s" and "step s s'" and "find_row i s = Some r"
  obtains r' where "find_row i s' = Some r'" and "row_moves r r'"
  using committed_moves [OF step_committed [OF assms(2) reachable_store_ok] reachable_store_ok assms(3)]
    assms(1) by blast

end
