(* ===== verification/Sample_Run.thy ===== *)
theory Sample_Run
  imports Lifecycle_Steps
begin

text \<open>
  A short run of the queue on concrete values, which the witnesses of the properties evaluate:
  a repository is opted in, a root is seeded, claimed and completed with one follow-up.
\<close>

definition sample_ctx :: "int \<Rightarrow> string \<Rightarrow> ctx" where
  "sample_ctx t u =
     \<lparr>cx_clock = (\<lambda>n. t + int n), cx_uuid = (\<lambda>n. u @ replicate n CHR ''x''), cx_tie = (\<lambda>_. 0),
      cx_claim_eligibility = None, cx_policy_authority = None\<rparr>"

lemma proper_sample_ctx: "u \<noteq> [] \<Longrightarrow> proper_ctx (sample_ctx t u)"
  by (simp add: proper_ctx_def sample_ctx_def)

definition sample_seed :: seed_input where
  "sample_seed =
     \<lparr>si_repository = ''acme/tool'', si_kind = ''audit'', si_objective = ''o'',
      si_instructions = ''i'', si_acceptance_criteria = [''c''],
      si_allowed_actions = [Read, CreateFollowup],
      si_delegable_actions = [Read, Write, OpenPr, CreateFollowup],
      si_required_artifact = None, si_execution_target = Some ReadOnly, si_priority = None,
      si_created_by = ''operator:ann'', si_extra = []\<rparr>"

definition sample_claim :: claim_input where
  "sample_claim =
     \<lparr>ci_worker = ''w'', ci_repository = None, ci_kinds = None, ci_allowed_kinds = None,
      ci_allowed_tools = None, ci_lease_seconds = None, ci_label = None\<rparr>"

definition sample_follow_up :: follow_up_proposal where
  "sample_follow_up =
     \<lparr>fp_intent = Some IntentNewPrChange, fp_kind = Some ''fix'', fp_objective = ''o'',
      fp_instructions = ''i'', fp_acceptance_criteria = [''c''], fp_allowed_actions = None,
      fp_delegable_actions = None, fp_required_artifact = None, fp_execution_target = None,
      fp_extra = []\<rparr>"

definition sample_completion :: completion_input where
  "sample_completion =
     \<lparr>co_id = ''A'', co_lease_token = ''T'', co_worker = ''w'',
      co_result = \<lparr>wr_summary = ''done'', wr_evidence = [], wr_artifacts = [], wr_model = None\<rparr>,
      co_follow_ups = [sample_follow_up], co_review = None\<rparr>"

definition after :: "('a \<times> store) res \<Rightarrow> store" where
  "after m = (case m of Inl _ \<Rightarrow> empty_queue | Inr (_, s) \<Rightarrow> s)"

definition succeeds :: "('a \<times> store) res \<Rightarrow> bool" where
  "succeeds m = (case m of Inl _ \<Rightarrow> False | Inr _ \<Rightarrow> True)"

lemma succeeds_iff: "succeeds m \<longleftrightarrow> (\<exists>x. m = Inr (x, after m))"
  by (cases m) (auto simp: succeeds_def after_def)

definition sample1 :: store where
  "sample1 = after (set_repository_enabled (sample_ctx 0 ''R'') ''acme/tool'' True empty_queue)"

definition sample2 :: store where
  "sample2 = after (enqueue_seed (sample_ctx 10 ''A'') sample_seed sample1)"

definition sample3 :: store where
  "sample3 = after (claim (sample_ctx 20 ''T'') sample_claim sample2)"

definition sample4 :: store where
  "sample4 = after (complete (sample_ctx 30 ''B'') sample_completion sample3)"

text \<open>
  Each step succeeds, and the stores it leaves, written out: the evaluations that start from one
  of them use these values and not the operations that led there.
\<close>

lemma sample_runs:
  shows sample1_ok: "succeeds (set_repository_enabled (sample_ctx 0 ''R'') ''acme/tool'' True empty_queue)"
    and sample2_ok: "succeeds (enqueue_seed (sample_ctx 10 ''A'') sample_seed sample1)"
    and sample3_ok: "succeeds (claim (sample_ctx 20 ''T'') sample_claim sample2)"
    and sample4_ok: "succeeds (complete (sample_ctx 30 ''B'') sample_completion sample3)"
    and sample1_value: "sample1 =
     \<lparr>st_repositories =
              [\<lparr>rp_slug = ''acme/tool'', rp_enabled = True,
                  rp_cure_foreign = False, rp_review_gate = False,
                  rp_unreported = SqlNull, rp_labeled_issues = SqlNull,
                  rp_created_at = 0, rp_updated_at = 0\<rparr>],
       st_items = [], st_events = [], st_sequence = 0, st_tokens = [],
       st_user_version = 17\<rparr>"
    and sample2_value: "sample2 =
     \<lparr>st_repositories =
              [\<lparr>rp_slug = ''acme/tool'', rp_enabled = True,
                  rp_cure_foreign = False, rp_review_gate = False,
                  rp_unreported = SqlNull, rp_labeled_issues = SqlNull,
                  rp_created_at = 0, rp_updated_at = 0\<rparr>],
       st_items =
         [\<lparr>r_id = ''A'', r_root_id = ''A'', r_parent_id = None,
             r_repository = ''acme/tool'', r_kind = ''audit'',
             r_objective = ''o'', r_instructions = ''i'',
             r_acceptance_criteria = Json [''c''],
             r_allowed_actions = Json [Read, CreateFollowup],
             r_delegable_actions = Json [Read, Write, OpenPr, CreateFollowup],
             r_required_artifact = NoArtifact,
             r_execution_target = Some ReadOnly, r_policy = SqlNull,
             r_priority = 0, r_status = RQueued, r_admitted = True,
             r_created_by = ''operator:ann'', r_created_at = 10,
             r_updated_at = 10, r_source_ref = None, r_predecessors = SqlNull,
             r_cure = SqlNull, r_review = SqlNull, r_lease_owner = None,
             r_lease_token = None, r_lease_expires_at = None,
             r_result = SqlNull, r_operator_notes = Json [],
             r_previous_results = Json []\<rparr>],
       st_events =
         [\<lparr>ev_sequence = 1, ev_item = ''A'',
             ev_body = EvQueued None None, ev_actor = ''operator:ann'',
             ev_occurred_at = 12\<rparr>],
       st_sequence = 1, st_tokens = [], st_user_version = 17\<rparr>"
    and sample3_value: "sample3 =
     \<lparr>st_repositories =
              [\<lparr>rp_slug = ''acme/tool'', rp_enabled = True,
                  rp_cure_foreign = False, rp_review_gate = False,
                  rp_unreported = SqlNull, rp_labeled_issues = SqlNull,
                  rp_created_at = 0, rp_updated_at = 0\<rparr>],
       st_items =
         [\<lparr>r_id = ''A'', r_root_id = ''A'', r_parent_id = None,
             r_repository = ''acme/tool'', r_kind = ''audit'',
             r_objective = ''o'', r_instructions = ''i'',
             r_acceptance_criteria = Json [''c''],
             r_allowed_actions = Json [Read, CreateFollowup],
             r_delegable_actions = Json [Read, Write, OpenPr, CreateFollowup],
             r_required_artifact = NoArtifact,
             r_execution_target = Some ReadOnly, r_policy = SqlNull,
             r_priority = 0, r_status = RClaimed, r_admitted = True,
             r_created_by = ''operator:ann'', r_created_at = 10,
             r_updated_at = 20, r_source_ref = None, r_predecessors = SqlNull,
             r_cure = SqlNull, r_review = SqlNull, r_lease_owner = Some ''w'',
             r_lease_token = Some ''T'', r_lease_expires_at = Some 900023,
             r_result = SqlNull, r_operator_notes = Json [],
             r_previous_results = Json []\<rparr>],
       st_events =
         [\<lparr>ev_sequence = 1, ev_item = ''A'',
             ev_body = EvQueued None None, ev_actor = ''operator:ann'',
             ev_occurred_at = 12\<rparr>,
          \<lparr>ev_sequence = 2, ev_item = ''A'',
             ev_body = EvClaimed 900023 None None None, ev_actor = ''w'',
             ev_occurred_at = 24\<rparr>],
       st_sequence = 2, st_tokens = [], st_user_version = 17\<rparr>"
    and sample4_value: "sample4 =
     \<lparr>st_repositories =
              [\<lparr>rp_slug = ''acme/tool'', rp_enabled = True,
                  rp_cure_foreign = False, rp_review_gate = False,
                  rp_unreported = SqlNull, rp_labeled_issues = SqlNull,
                  rp_created_at = 0, rp_updated_at = 0\<rparr>],
       st_items =
         [\<lparr>r_id = ''A'', r_root_id = ''A'', r_parent_id = None,
             r_repository = ''acme/tool'', r_kind = ''audit'',
             r_objective = ''o'', r_instructions = ''i'',
             r_acceptance_criteria = Json [''c''],
             r_allowed_actions = Json [Read, CreateFollowup],
             r_delegable_actions = Json [Read, Write, OpenPr, CreateFollowup],
             r_required_artifact = NoArtifact,
             r_execution_target = Some ReadOnly, r_policy = SqlNull,
             r_priority = 0, r_status = RCompleted, r_admitted = True,
             r_created_by = ''operator:ann'', r_created_at = 10,
             r_updated_at = 32, r_source_ref = None, r_predecessors = SqlNull,
             r_cure = SqlNull, r_review = SqlNull, r_lease_owner = None,
             r_lease_token = None, r_lease_expires_at = None,
             r_result =
               Json
                \<lparr>wr_summary = ''done'', wr_evidence = [],
                   wr_artifacts = [], wr_model = None\<rparr>,
             r_operator_notes = Json [], r_previous_results = Json []\<rparr>,
          \<lparr>r_id = ''B'', r_root_id = ''A'', r_parent_id = Some ''A'',
             r_repository = ''acme/tool'', r_kind = ''fix'',
             r_objective = ''o'', r_instructions = ''i'',
             r_acceptance_criteria = Json [''c''],
             r_allowed_actions = Json [Read, Write, OpenPr, CreateFollowup],
             r_delegable_actions = Json [Read, Write, OpenPr, CreateFollowup],
             r_required_artifact = PullRequestArtifact,
             r_execution_target = Some NewPullRequest, r_policy = SqlNull,
             r_priority = 0, r_status = RQueued, r_admitted = False,
             r_created_by = ''w'', r_created_at = 32, r_updated_at = 32,
             r_source_ref = None, r_predecessors = SqlNull, r_cure = SqlNull,
             r_review = SqlNull, r_lease_owner = None, r_lease_token = None,
             r_lease_expires_at = None, r_result = SqlNull,
             r_operator_notes = Json [], r_previous_results = Json []\<rparr>],
       st_events =
         [\<lparr>ev_sequence = 1, ev_item = ''A'',
             ev_body = EvQueued None None, ev_actor = ''operator:ann'',
             ev_occurred_at = 12\<rparr>,
          \<lparr>ev_sequence = 2, ev_item = ''A'',
             ev_body = EvClaimed 900023 None None None, ev_actor = ''w'',
             ev_occurred_at = 24\<rparr>,
          \<lparr>ev_sequence = 3, ev_item = ''B'',
             ev_body = EvProposedChild ''A'' ''A'', ev_actor = ''w'',
             ev_occurred_at = 33\<rparr>,
          \<lparr>ev_sequence = 4, ev_item = ''A'',
             ev_body = EvCompleted [''B''] 0 None, ev_actor = ''w'',
             ev_occurred_at = 34\<rparr>],
       st_sequence = 4, st_tokens = [], st_user_version = 17\<rparr>"
  by code_simp+

declare sample1_value [code]
declare sample2_value [code]
declare sample3_value [code]
declare sample4_value [code]

lemma sample_steps:
  "step empty_queue sample1" "step sample1 sample2" "step sample2 sample3" "step sample3 sample4"
proof -
  show "step empty_queue sample1"
    using sample1_ok [unfolded succeeds_iff, folded sample1_def] by (elim exE) (rule step.intros(1))
  show "step sample1 sample2"
    using sample2_ok [unfolded succeeds_iff, folded sample2_def]
    by (elim exE) (rule step.intros(10), simp_all add: proper_sample_ctx)
  show "step sample2 sample3"
    using sample3_ok [unfolded succeeds_iff, folded sample3_def] by (elim exE) (rule step.intros(16))
  show "step sample3 sample4"
    using sample4_ok [unfolded succeeds_iff, folded sample4_def]
    by (elim exE) (rule step.intros(18), simp_all add: proper_sample_ctx)
qed

lemma sample_reachable:
  shows sample1_reachable: "reachable sample1" and sample2_reachable: "reachable sample2"
    and sample3_reachable: "reachable sample3" and sample4_reachable: "reachable sample4"
proof -
  show 1: "reachable sample1" by (rule reachable.move [OF reachable.start sample_steps(1)])
  show 2: "reachable sample2" by (rule reachable.move [OF 1 sample_steps(2)])
  show 3: "reachable sample3" by (rule reachable.move [OF 2 sample_steps(3)])
  show "reachable sample4" by (rule reachable.move [OF 3 sample_steps(4)])
qed

end
