(* ===== verification/Lease_Guarantees.thy ===== *)
theory Lease_Guarantees
  imports Claim_Guarantees
begin

text \<open>
  What the lease and the completion promise: authority only under a live lease, fencing of the
  tokens that lost it, one holder at a time, and completions that honour the item's contract
  and bound what the proposed children may do.
\<close>

subsection \<open>Authority\<close>

text \<open>The lease check of the four worker operations, as one predicate on the database.\<close>

definition holds_lease :: "string \<Rightarrow> string \<Rightarrow> string \<Rightarrow> timestamp \<Rightarrow> store \<Rightarrow> bool" where
  "holds_lease i tok w now s =
     (\<exists>r e. find_row i s = Some r \<and> r_status r = RClaimed \<and> r_lease_token r = Some tok \<and>
        r_lease_owner r = Some w \<and> r_lease_expires_at r = Some e \<and> now < e)"

lemma worker_operation_lease:
  "heartbeat cx i tok w n s = Inr out1 \<Longrightarrow> holds_lease i tok w (cx_clock cx 0) s"
  "block cx i tok w reason s = Inr out1 \<Longrightarrow> holds_lease i tok w (cx_clock cx 0) s"
  "release cx i tok w reason s = Inr out1 \<Longrightarrow> holds_lease i tok w (cx_clock cx 0) s"
  "complete cx input s = Inr out2 \<Longrightarrow>
     holds_lease (co_id input) (co_lease_token input) (co_worker input) (cx_clock cx 0) s"
  by (auto simp: heartbeat_def block_def release_def complete_def holds_lease_def and_then_Inr_iff
      transaction_Inr assert_active_lease_Inr Let_def)

text \<open>C3: Heartbeat, block, release and complete succeed only for the worker and token of the
  claimed row while its lease has not expired at the operation's first clock reading.\<close>

theorem worker_operations_need_live_lease:
  assumes "heartbeat cx i tok w n s = Inr out \<or> block cx i tok w reason s = Inr out \<or>
      release cx i tok w reason s = Inr out \<or>
      (\<exists>result kids verdict done'. complete cx \<lparr>co_id = i, co_lease_token = tok, co_worker = w,
         co_result = result, co_follow_ups = kids, co_review = verdict\<rparr> s = Inr done')"
  shows "\<exists>r e. find_row i s = Some r \<and> r_status r = RClaimed \<and> r_lease_token r = Some tok \<and>
      r_lease_owner r = Some w \<and> r_lease_expires_at r = Some e \<and> cx_clock cx 0 < e"
proof -
  have "holds_lease i tok w (cx_clock cx 0) s"
    using assms
    by (elim disjE exE)
      (drule worker_operation_lease, simp)+
  then show ?thesis unfolding holds_lease_def .
qed

theorem worker_operations_need_live_lease_witness:
  "\<exists>r e. find_row ''A'' sample3 = Some r \<and> r_status r = RClaimed \<and> r_lease_token r = Some ''T'' \<and>
     r_lease_owner r = Some ''w'' \<and> r_lease_expires_at r = Some e \<and> (50::int) < e"
proof -
  have "succeeds (heartbeat (sample_ctx 50 ''H'') ''A'' ''T'' ''w'' None sample3)" by code_simp
  then obtain x where
    "heartbeat (sample_ctx 50 ''H'') ''A'' ''T'' ''w'' None sample3 = Inr x"
    by (auto simp: succeeds_iff)
  then have "heartbeat (sample_ctx 50 ''H'') ''A'' ''T'' ''w'' None sample3 = Inr x \<or>
      block (sample_ctx 50 ''H'') ''A'' ''T'' ''w'' [] sample3 = Inr x \<or>
      release (sample_ctx 50 ''H'') ''A'' ''T'' ''w'' [] sample3 = Inr x \<or>
      (\<exists>result kids verdict done'. complete (sample_ctx 50 ''H'') \<lparr>co_id = ''A'', co_lease_token = ''T'',
         co_worker = ''w'', co_result = result, co_follow_ups = kids, co_review = verdict\<rparr> sample3 = Inr done')"
    by (rule disjI1)
  from worker_operations_need_live_lease [OF this] show ?thesis by (simp add: sample_ctx_def)
qed

subsection \<open>Fencing\<close>

lemma not_holding:
  assumes "find_row i s = Some r" and "r_lease_token r \<noteq> Some tok"
  shows "\<not> holds_lease i tok w now s"
  using assms by (simp add: holds_lease_def)

lemma fenced:
  assumes "\<And>w now. \<not> holds_lease i tok w now s"
  shows "(\<exists>e. heartbeat cx i tok w n s = Inl e) \<and> (\<exists>e. block cx i tok w reason s = Inl e) \<and>
    (\<exists>e. release cx i tok w reason s = Inl e) \<and>
    (\<exists>e. complete cx \<lparr>co_id = i, co_lease_token = tok, co_worker = w, co_result = result,
       co_follow_ups = kids, co_review = verdict\<rparr> s = Inl e)"
proof -
  have not_Inr: "(\<And>y. x \<noteq> Inr y) \<Longrightarrow> \<exists>e. x = Inl e" for x :: "'b res"
    by (cases x) auto
  have "complete cx \<lparr>co_id = i, co_lease_token = tok, co_worker = w, co_result = result,
      co_follow_ups = kids, co_review = verdict\<rparr> s \<noteq> Inr y" for y
    using worker_operation_lease(4) [of cx _ s y] assms [of w "cx_clock cx 0"] by fastforce
  then show ?thesis
    using worker_operation_lease(1-3) assms not_Inr by (intro conjI) (metis sum.exhaust)+
qed

text \<open>C4: After a claim re-issues an item under a new token, and after an operator releases its
  lease, every operation with the old token is refused, whoever presents it and whatever the
  clock reads.\<close>

theorem superseded_token_is_fenced:
  assumes "store_ok s"
    and "(\<exists>input item. claim cx input s = Inr (Some item, s') \<and> wi_id item = i \<and> tok \<noteq> cx_uuid cx 0) \<or>
      (\<exists>actor why pre item. release_lease cx i actor why pre s = Inr (item, s'))"
  shows "(\<exists>e. heartbeat cx' i tok w n s' = Inl e) \<and> (\<exists>e. block cx' i tok w reason s' = Inl e) \<and>
    (\<exists>e. release cx' i tok w reason s' = Inl e) \<and>
    (\<exists>e. complete cx' \<lparr>co_id = i, co_lease_token = tok, co_worker = w, co_result = result,
       co_follow_ups = kids, co_review = verdict\<rparr> s' = Inl e)"
proof -
  have ids: "distinct (map r_id (st_items s))" using assms(1) by (simp add: store_ok_def)
  obtain r where "find_row i s' = Some r" "r_lease_token r \<noteq> Some tok"
    using assms(2)
  proof (elim disjE exE conjE)
    fix input item
    assume c: "claim cx input s = Inr (Some item, s')" "wi_id item = i" "tok \<noteq> cx_uuid cx 0"
    obtain q r where "find_row (r_id r) s = Some r" "item = item_of (leased_row cx q r)"
      "s' = leased_store cx q r s"
      using claim_Some [OF c(1) ids] by metis
    with c(2,3) that [of "leased_row cx q r"] show thesis by (simp add: find_row_leased_store)
  next
    fix actor why pre item
    assume "release_lease cx i actor why pre s = Inr (item, s')"
    then obtain f r where "find_row i s = Some r" "s' = add_event i (EvReleased why
        (Some (r_lease_owner r, r_lease_expires_at r))) actor (cx_clock cx 1) (update_row i f s)"
      and f: "\<And>x. r_id (f x) = r_id x" "r_lease_token (f r) = None"
      by (auto simp: release_lease_def res_iffs Let_def commit_row_Inr clear_lease_def)
    with that [of "f r"] show thesis by (simp add: item_table.lookup_modify)
  qed
  then show ?thesis by (intro fenced not_holding)
qed

theorem superseded_token_is_fenced_witness:
  "\<exists>e. heartbeat (sample_ctx 60 ''H'') ''A'' ''T'' ''w'' None
     (after (release_lease (sample_ctx 50 ''L'') ''A'' ''operator:ann'' ''gone'' None sample3)) = Inl e"
proof -
  have "succeeds (release_lease (sample_ctx 50 ''L'') ''A'' ''operator:ann'' ''gone'' None sample3)"
    by code_simp
  then obtain item where "release_lease (sample_ctx 50 ''L'') ''A'' ''operator:ann'' ''gone'' None sample3
      = Inr (item, after (release_lease (sample_ctx 50 ''L'') ''A'' ''operator:ann'' ''gone'' None sample3))"
    by (auto simp: succeeds_iff)
  from superseded_token_is_fenced [OF reachable_store_ok [OF sample3_reachable] disjI2, OF exI, OF exI,
      OF exI, OF exI, OF this]
  show ?thesis by blast
qed

text \<open>While a claimed item's lease is live, no claim leases it again: a second claim whose
  clock has not reached the expiry returns another item or nothing.\<close>

theorem live_lease_is_exclusive:
  assumes "distinct (map r_id (st_items s))" and "find_row i s = Some r" and "r_status r = RClaimed"
    and "r_lease_expires_at r = Some e" and "cx_clock cx 0 < e"
    and "claim cx input s = Inr (Some item, s')"
  shows "wi_id item \<noteq> i \<and> find_row i s' = Some r"
proof -
  obtain q flt c where c: "find_row (r_id c) s = Some c" "claimable cx flt s c"
    "item = item_of (leased_row cx q c)" "s' = leased_store cx q c s"
    using claim_Some [OF assms(6,1)] by metis
  have "c \<noteq> r"
    using c(2) assms(3-5) by (auto simp: claimable_def candidate_row_def lease_available_def)
  with c(1) assms(2) have "r_id c \<noteq> i" by auto
  with c assms(2) show ?thesis by (simp add: find_row_leased_store)
qed

definition sample_twin :: store where
  "sample_twin = after (enqueue_seed (sample_ctx 25 ''Z'') sample_seed sample3)"

theorem live_lease_is_exclusive_witness:
  "wi_id (the (get_item ''Z'' (after (claim (sample_ctx 40 ''V'') sample_claim sample_twin)))) \<noteq> ''A''"
proof -
  let ?s = "after (claim (sample_ctx 40 ''V'') sample_claim sample_twin)"
  have d: "distinct (map r_id (st_items sample_twin))" by code_simp
  have r: "find_row ''A'' sample_twin = Some (the (find_row ''A'' sample_twin))" by code_simp
  have c: "r_status (the (find_row ''A'' sample_twin)) = RClaimed" by code_simp
  have e: "r_lease_expires_at (the (find_row ''A'' sample_twin)) = Some 900023" by code_simp
  have t: "cx_clock (sample_ctx 40 ''V'') 0 < 900023" by code_simp
  have k: "claim (sample_ctx 40 ''V'') sample_claim sample_twin = Inr (Some (the (get_item ''Z'' ?s)), ?s)"
    by code_simp
  from live_lease_is_exclusive [OF d r c e t k] show ?thesis by blast
qed

end
