(* ===== verification/Completion_Guarantees.thy ===== *)
theory Completion_Guarantees
  imports Lease_Guarantees
begin

text \<open>
  What a completion promises: the delivery contract of the item, and the children it proposes.
\<close>

lemma artifact_allowed_Inr:
  assumes "artifact_allowed item a = Inr u"
  shows "required_action (wa_kind a) = Some act \<Longrightarrow> act \<in> set (wi_allowed_actions item)"
    and "wa_kind a \<in> {Issue, PullRequest, Commit, Release} \<Longrightarrow>
      \<exists>url. parse_url (wa_url a) = Some url \<and> github_scope_ok (wi_repository item) (wa_kind a) url"
  using assms
  by (auto simp: artifact_allowed_def and_then_Inr_iff require_Inr_iff assert_github_artifact_scope_Inr
      split: option.splits if_splits)

lemma completion_review_iff:
  "completion_review at item verdict = Inr review \<Longrightarrow> wi_kind item = ''pr-review'' \<longleftrightarrow> verdict \<noteq> None"
  by (auto simp: completion_review_def split: if_splits option.splits)

lemma completed_row_simps [simp]:
  "r_id (completed_row result review now r) = r_id r"
  "r_status (completed_row result review now r) = RCompleted"
  "r_result (completed_row result review now r) = Json result"
  "r_lease_owner (completed_row result review now r) = None"
  "r_lease_token (completed_row result review now r) = None"
  by (simp_all add: completed_row_def clear_lease_def)


lemma sample_completed: "complete (sample_ctx 30 ''B'') sample_completion sample3 =
    Inr ((the (get_item ''A'' sample4), [the (get_item ''B'' sample4)]), sample4)"
  unfolding sample4_def by code_simp


subsection \<open>Children\<close>

definition proper_child :: "row \<Rightarrow> string \<Rightarrow> store \<Rightarrow> work_item \<Rightarrow> bool" where
  "proper_child r worker s child =
     (wi_status child = Proposed \<and> wi_parent_id child = Some (r_id r) \<and>
      wi_root_id child = r_root_id r \<and> wi_repository child = r_repository r \<and>
      wi_priority child = r_priority r \<and> wi_created_by child = worker \<and>
      set (wi_allowed_actions child) \<subseteq> row_delegable r \<and>
      set (wi_delegable_actions child) \<subseteq> row_delegable r \<and>
      wi_source_ref child = None \<and> wi_review child = None \<and>
      (wi_cure child = None \<or> wi_cure child = json_option (r_cure r)) \<and>
      (\<exists>row. find_row (wi_id child) s = Some row \<and> child = item_of row))"

lemma follow_up_step_child:
  assumes "follow_up_step cx worker now (item_of r) entry (kids, s) = Inr (kids', s')"
  shows "\<exists>child. kids' = kids @ [child] \<and> proper_child r worker s' child"
proof -
  obtain index proposal where entry: "entry = (index, proposal)" by fastforce
  from assms [unfolded entry] show ?thesis
  proof (rule follow_up_step_parts)
    fix f cure p
    let ?w = "child_work (cx_uuid cx index) now worker (item_of r) f cure"
    assume f: "check_follow_up worker (item_of r) proposal = Inr (f, cure)"
      and row: "find_row (cx_uuid cx index) s' = Some (row_of_work p ?w)"
      and kids: "kids' = kids @ [item_of (row_of_work p ?w)]"
    note c = check_follow_up_Inr [OF f]
    have "wi_created_by (item_of (row_of_work p ?w)) = worker"
      "wi_cure (item_of (row_of_work p ?w)) = cure" "wi_review (item_of (row_of_work p ?w)) = None"
      "wi_allowed_actions (item_of (row_of_work p ?w)) = fu_allowed_actions f"
      "wi_delegable_actions (item_of (row_of_work p ?w)) = fu_delegable_actions f"
      by (simp_all add: row_of_work_def child_work_def)
    with c(3-5) row have "proper_child r worker s' (item_of (row_of_work p ?w))"
      by (simp add: proper_child_def row_delegable_def inherited_cure_binding_def)
    with kids show ?thesis by blast
  qed
qed

lemma follow_up_step_rows:
  "follow_up_step cx worker now parent entry (kids, s) = Inr (kids', s') \<Longrightarrow>
     find_row j s = Some r \<Longrightarrow> find_row j s' = Some r"
  by (cases entry)
    (auto elim!: follow_up_step_parts simp: insert_row_Inr find_row_append)

lemma follow_ups_children:
  assumes "fold_res (follow_up_step cx worker now (item_of r)) entries (kids0, s) = Inr (kids, t)"
    and "\<forall>child \<in> set kids0. proper_child r worker s child"
  shows "length kids = length kids0 + length entries \<and>
    (\<forall>child \<in> set kids. proper_child r worker t child)"
  using assms
proof (induction entries arbitrary: kids0 s)
  case Nil
  then show ?case by simp
next
  case (Cons x entries)
  note old = Cons.prems(2)
  obtain kids1 s1 where st: "follow_up_step cx worker now (item_of r) x (kids0, s) = Inr (kids1, s1)"
    and rest: "fold_res (follow_up_step cx worker now (item_of r)) entries (kids1, s1) = Inr (kids, t)"
    using Cons.prems(1) by (auto simp: and_then_Inr_iff)
  obtain child where child: "kids1 = kids0 @ [child]" "proper_child r worker s1 child"
    using follow_up_step_child [OF st] by blast
  have "proper_child r worker s1 c" if "c \<in> set kids0" for c
    using old that follow_up_step_rows [OF st] by (auto simp: proper_child_def)
  with child have "\<forall>c \<in> set kids1. proper_child r worker s1 c" by auto
  from Cons.IH [OF rest this] child show ?case by simp
qed



end
