(* ===== verification/Lifecycle_Guarantees.thy ===== *)
theory Lifecycle_Guarantees
  imports Completion_Guarantees
begin

text \<open>
  What holds of every queue the store can reach from an empty one, whatever operations ran and
  in which order: the status machine, the ledger, the lineage of the rows, the stored contracts
  and the columns tied to the status. The invariant itself is \<open>store_ok\<close> of \<open>Lifecycle\<close>.
\<close>

subsection \<open>The status machine\<close>

text \<open>C10: In a reachable queue no operation removes a work item, changes its id, lineage, kind,
  objective, instructions, criteria, actions, required artifact, execution target, creator,
  creation time, source reference or cure binding, or moves its status along anything but an
  edge of the lifecycle.\<close>

theorem work_moves_along_lifecycle:
  assumes "reachable s" and "step s s'" and "find_row i s = Some r"
  shows "\<exists>r'. find_row i s' = Some r' \<and>
    (logical_status r' = logical_status r \<or>
     (logical_status r, logical_status r') \<in>
       {(Proposed, Queued), (Queued, Proposed), (Proposed, Cancelled), (Queued, Claimed),
        (Claimed, Queued), (Claimed, Blocked), (Claimed, Completed), (Blocked, Queued),
        (Blocked, Cancelled), (Queued, Cancelled)}) \<and>
    r_id r' = r_id r \<and> r_root_id r' = r_root_id r \<and> r_parent_id r' = r_parent_id r \<and>
    r_kind r' = r_kind r \<and> r_objective r' = r_objective r \<and>
    r_instructions r' = r_instructions r \<and> r_acceptance_criteria r' = r_acceptance_criteria r \<and>
    r_allowed_actions r' = r_allowed_actions r \<and> r_delegable_actions r' = r_delegable_actions r \<and>
    r_required_artifact r' = r_required_artifact r \<and>
    r_execution_target r' = r_execution_target r \<and> r_created_by r' = r_created_by r \<and>
    r_created_at r' = r_created_at r \<and> r_source_ref r' = r_source_ref r \<and> r_cure r' = r_cure r"
  using assms
proof (rule reachable_moves)
  fix r' assume found: "find_row i s' = Some r'" and moves: "row_moves r r'"
  from moves have edge: "logical_status r' = logical_status r \<or>
     (logical_status r, logical_status r') \<in>
       {(Proposed, Queued), (Queued, Proposed), (Proposed, Cancelled), (Queued, Claimed),
        (Claimed, Queued), (Claimed, Blocked), (Claimed, Completed), (Blocked, Queued),
        (Blocked, Cancelled), (Queued, Cancelled)}"
    unfolding row_moves_def lifecycle_edges_def by force
  have same: "same_definition r r'" using moves by (simp add: row_moves_def)
  show ?thesis
    using found edge same unfolding same_definition_def by (intro exI [of _ r']) (elim conjE, intro conjI)
qed

theorem work_moves_along_lifecycle_witness:
  "\<exists>r'. find_row ''A'' sample4 = Some r' \<and> r_kind r' = r_kind (the (find_row ''A'' sample3))"
proof -
  have "find_row ''A'' sample3 = Some (the (find_row ''A'' sample3))" by code_simp
  from work_moves_along_lifecycle [OF sample3_reachable sample_steps(4) this] show ?thesis by blast
qed

lemma finished_row_stays:
  assumes "step\<^sup>*\<^sup>* s s'" and "reachable s" and "find_row i s = Some r"
    and "logical_status r \<in> {Completed, Cancelled}"
  shows "reachable s' \<and> (\<exists>r'. find_row i s' = Some r' \<and> logical_status r' = logical_status r)"
  using assms(1)
proof (induction rule: rtranclp_induct)
  case base
  then show ?case using assms(2,3) by blast
next
  case (step t u)
  then obtain q where q: "find_row i t = Some q" "logical_status q = logical_status r" by blast
  obtain q' where "find_row i u = Some q'" "row_moves q q'"
    using reachable_moves [OF _ step.hyps(2) q(1)] step.IH by blast
  then show ?case
    using q(2) assms(4) step by (auto simp: row_moves_def lifecycle_edges_def intro: reachable.move)
qed

text \<open>C16: Completed and cancelled are final: once a row of a reachable queue has one of these
  statuses, every later state of the queue has the row with that status.\<close>

theorem finished_work_is_final:
  assumes "reachable s" and "step\<^sup>*\<^sup>* s s'" and "find_row i s = Some r"
    and "logical_status r = Completed \<or> logical_status r = Cancelled"
  shows "\<exists>r'. find_row i s' = Some r' \<and> logical_status r' = logical_status r"
  using finished_row_stays [OF assms(2,1,3)] assms(4) by auto

definition sample5 :: store where
  "sample5 = after (approve (sample_ctx 40 ''C'') ''B'' ''operator:ann'' None sample4)"

lemma sample5_run:
  shows sample5_ok: "succeeds (approve (sample_ctx 40 ''C'') ''B'' ''operator:ann'' None sample4)"
    and sample5_value: "sample5 =
     \<lparr>st_repositories =
              [\<lparr>rp_slug = ''acme/tool'', rp_enabled = True,
                  rp_cure_foreign = False, rp_review_gate = False,
                  rp_unreported = SqlNull, rp_labeled_issues = SqlNull,
                  rp_created_at = 0, rp_updated_at = 0\<rparr>],
       st_items =
         [\<lparr>r_id = ''A'', r_root_id = ''A'', r_parent_id = None,
             r_repository = ''acme/tool'', r_kind = ''audit'',
             r_objective = ''o'', r_instructions = ''i'',
             r_acceptance_criteria = Json [''c''],
             r_allowed_actions = Json [Read, CreateFollowup],
             r_delegable_actions = Json [Read, Write, OpenPr, CreateFollowup],
             r_required_artifact = NoArtifact,
             r_execution_target = Some ReadOnly, r_policy = SqlNull,
             r_priority = 0, r_status = RCompleted, r_admitted = True,
             r_created_by = ''operator:ann'', r_created_at = 10,
             r_updated_at = 32, r_source_ref = None, r_predecessors = SqlNull,
             r_cure = SqlNull, r_review = SqlNull, r_lease_owner = None,
             r_lease_token = None, r_lease_expires_at = None,
             r_result =
               Json
                \<lparr>wr_summary = ''done'', wr_evidence = [],
                   wr_artifacts = [], wr_model = None\<rparr>,
             r_operator_notes = Json [], r_previous_results = Json []\<rparr>,
          \<lparr>r_id = ''B'', r_root_id = ''A'', r_parent_id = Some ''A'',
             r_repository = ''acme/tool'', r_kind = ''fix'',
             r_objective = ''o'', r_instructions = ''i'',
             r_acceptance_criteria = Json [''c''],
             r_allowed_actions = Json [Read, Write, OpenPr, CreateFollowup],
             r_delegable_actions = Json [Read, Write, OpenPr, CreateFollowup],
             r_required_artifact = PullRequestArtifact,
             r_execution_target = Some NewPullRequest, r_policy = SqlNull,
             r_priority = 0, r_status = RQueued, r_admitted = True,
             r_created_by = ''w'', r_created_at = 32, r_updated_at = 40,
             r_source_ref = None, r_predecessors = SqlNull, r_cure = SqlNull,
             r_review = SqlNull, r_lease_owner = None, r_lease_token = None,
             r_lease_expires_at = None, r_result = SqlNull,
             r_operator_notes = Json [], r_previous_results = Json []\<rparr>],
       st_events =
         [\<lparr>ev_sequence = 1, ev_item = ''A'',
             ev_body = EvQueued None None, ev_actor = ''operator:ann'',
             ev_occurred_at = 12\<rparr>,
          \<lparr>ev_sequence = 2, ev_item = ''A'',
             ev_body = EvClaimed 900023 None None None, ev_actor = ''w'',
             ev_occurred_at = 24\<rparr>,
          \<lparr>ev_sequence = 3, ev_item = ''B'',
             ev_body = EvProposedChild ''A'' ''A'', ev_actor = ''w'',
             ev_occurred_at = 33\<rparr>,
          \<lparr>ev_sequence = 4, ev_item = ''A'',
             ev_body = EvCompleted [''B''] 0 None, ev_actor = ''w'',
             ev_occurred_at = 34\<rparr>,
          \<lparr>ev_sequence = 5, ev_item = ''B'', ev_body = EvApproved None,
             ev_actor = ''operator:ann'', ev_occurred_at = 41\<rparr>],
       st_sequence = 5, st_tokens = [], st_user_version = 17\<rparr>"
  by code_simp+

declare sample5_value [code]

lemma sample5_step: "step sample4 sample5"
  using sample5_ok [unfolded succeeds_iff, folded sample5_def] by (elim exE) (rule step.intros(21))

theorem finished_work_is_final_witness:
  "\<exists>r'. find_row ''A'' sample5 = Some r' \<and> logical_status r' = Completed"
proof -
  have r: "find_row ''A'' sample4 = Some (the (find_row ''A'' sample4))" by code_simp
  have c: "logical_status (the (find_row ''A'' sample4)) = Completed" by code_simp
  have "step\<^sup>*\<^sup>* sample4 sample5" using sample5_step by (rule r_into_rtranclp)
  from finished_work_is_final [OF sample4_reachable this r disjI1 [OF c]]
  show ?thesis unfolding c .
qed

subsection \<open>The ledger\<close>

text \<open>C17: In a reachable queue the ledger accounts for every row: replaying the events about an
  item, oldest first, gives its status, event sequences are 1, 2, 3 and so on without a gap,
  and no event is about an item that does not exist.\<close>

theorem ledger_accounts_for_every_row:
  assumes "reachable s"
  shows "map ev_sequence (st_events s) = [1..<Suc (length (st_events s))] \<and>
    (\<forall>e \<in> set (st_events s). \<exists>r. find_row (ev_item e) s = Some r) \<and>
    (\<forall>i r. find_row i s = Some r \<longrightarrow>
       foldl (\<lambda>st b. replay_status b st) None
         (map ev_body (filter (\<lambda>e. ev_item e = i) (st_events s))) = Some (logical_status r))"
proof (intro conjI allI impI ballI)
  note ok = reachable_store_ok [OF assms]
  then have seq: "map ev_sequence (st_events s) = [1..<Suc (st_sequence s)]"
    and items: "ev_item ` set (st_events s) \<subseteq> r_id ` set (st_items s)"
    by (simp_all add: store_ok_def ledger_ok_def)
  from seq have "length (st_events s) = st_sequence s" by (metis diff_Suc_1 length_map length_upt)
  with seq show "map ev_sequence (st_events s) = [1..<Suc (length (st_events s))]" by simp
  {
    fix e assume "e \<in> set (st_events s)"
    then obtain r where "r \<in> set (st_items s)" "r_id r = ev_item e" using items by force
    then show "\<exists>r. find_row (ev_item e) s = Some r" using store_ok_rows(3) [OF ok] by metis
  }
  {
    fix i r assume "find_row i s = Some r"
    then have r: "r \<in> set (st_items s)" "r_id r = i" by (auto dest: item_table.lookup_SomeD)
    show "foldl (\<lambda>st b. replay_status b st) None
         (map ev_body (filter (\<lambda>e. ev_item e = i) (st_events s))) = Some (logical_status r)"
      using store_ok_rows(5) [OF ok r(1)] r(2)
      by (simp add: ledger_status_def replay_all_def item_events_def)
  }
qed

theorem ledger_accounts_for_every_row_witness:
  "map ev_sequence (st_events sample4) = [1..<Suc (length (st_events sample4))]"
  using ledger_accounts_for_every_row [OF sample4_reachable] by (rule conjunct1)

subsection \<open>Lineage\<close>

text \<open>C18: In a reachable queue every item's walk to its root ends within four steps; a root is
  its own root; a child's parent exists, has the same root and repository, and may delegate
  every action the child may do or delegate.\<close>

theorem lineage_is_bounded_and_contained:
  assumes "reachable s" and "find_row i s = Some r"
  shows "(\<exists>d \<le> 4. lineage_depth (item_of r) s = Inr d) \<and>
    (r_parent_id r = None \<longrightarrow> r_root_id r = i) \<and>
    (\<forall>parent. r_parent_id r = Some parent \<longrightarrow>
       (\<exists>p. find_row parent s = Some p \<and> r_root_id p = r_root_id r \<and>
          r_repository p = r_repository r \<and> row_actions r \<subseteq> row_delegable p \<and>
          row_delegable r \<subseteq> row_delegable p))"
proof -
  note ok = reachable_store_ok [OF assms(1)]
  have r: "r \<in> set (st_items s)" "r_id r = i"
    using assms(2) by (auto dest: item_table.lookup_SomeD)
  then obtain n where n: "n \<le> max_lineage_depth" and line: "lineage (set (st_items s)) r n"
    using ok by (auto simp: store_ok_def lineage_ok_def)
  have depth: "\<exists>d \<le> 4. lineage_depth (item_of r) s = Inr d"
    using lineage_depth_of [OF line ok n] n by (auto simp: max_lineage_depth_def)
  from line show ?thesis
  proof cases
    case root
    with depth r show ?thesis by simp
  next
    case (child p m)
    then have "p \<in> set (st_items s)" by (auto intro: lineage_in)
    then have "find_row (r_id p) s = Some p" by (rule store_ok_rows(3) [OF ok])
    with child depth show ?thesis by (auto simp: child_of_def)
  qed
qed

theorem lineage_is_bounded_and_contained_witness:
  "row_actions (the (find_row ''B'' sample4)) \<subseteq> row_delegable (the (find_row ''A'' sample4))"
proof -
  have b: "find_row ''B'' sample4 = Some (the (find_row ''B'' sample4))" by code_simp
  have "r_parent_id (the (find_row ''B'' sample4)) = Some ''A''" by code_simp
  with lineage_is_bounded_and_contained [OF sample4_reachable b] show ?thesis by auto
qed

subsection \<open>Stored contracts and columns\<close>



text \<open>In a reachable queue at most one work item of a repository carries a given source
  reference.\<close>

theorem source_references_are_unique:
  assumes "reachable s" and "find_row i s = Some r" and "find_row j s = Some q"
    and "r_source_ref r = Some ref" and "r_source_ref q = Some ref"
    and "r_repository r = r_repository q"
  shows "i = j"
proof -
  have rq: "r \<in> set (st_items s)" "r_id r = i" "q \<in> set (st_items s)" "r_id q = j"
    using assms(2,3) by (auto dest: item_table.lookup_SomeD)
  have "source_refs_unique (st_items s)"
    using reachable_store_ok [OF assms(1)] by (simp add: store_ok_def)
  then have "r_id q = r_id r"
    using rq assms(4-6) unfolding source_refs_unique_def by (metis option.distinct(1))
  with rq show ?thesis by simp
qed

definition sample_import :: proposed_root_input where
  "sample_import = \<lparr>pi_seed = sample_seed, pi_source_ref = ''item:1'', pi_predecessors = None\<rparr>"

definition sample_imported :: store where
  "sample_imported =
     after (enqueue_proposed_roots (sample_ctx 10 ''I'') ''acme/tool'' [sample_import] sample1)"

lemma sample_imported_ok:
  "succeeds (enqueue_proposed_roots (sample_ctx 10 ''I'') ''acme/tool'' [sample_import] sample1)"
  by code_simp

lemma sample_imported_reachable: "reachable sample_imported"
proof (rule reachable.move [OF sample1_reachable])
  show "step sample1 sample_imported"
    using sample_imported_ok [unfolded succeeds_iff, folded sample_imported_def]
    by (elim exE) (rule step.intros(14), simp_all add: proper_sample_ctx)
qed

theorem source_references_are_unique_witness:
  "r_source_ref (the (find_row ''I'' sample_imported)) = Some ''item:1'' \<and> ''I'' = ''I''"
proof -
  have r: "find_row ''I'' sample_imported = Some (the (find_row ''I'' sample_imported))" by code_simp
  have ref: "r_source_ref (the (find_row ''I'' sample_imported)) = Some ''item:1''" by code_simp
  from source_references_are_unique [OF sample_imported_reachable r r ref ref refl] ref
  show ?thesis by blast
qed

text \<open>C20: In a reachable queue an item carries a lease owner, token and expiry exactly while it
  is claimed, claimed, completed and blocked items were admitted, work that is still to be
  done has no result, and work that ended has one.\<close>

theorem lease_and_result_follow_status:
  assumes "reachable s" and "find_row i s = Some r"
  shows "(r_status r = RClaimed \<longleftrightarrow> r_lease_token r \<noteq> None) \<and>
    (r_lease_owner r \<noteq> None \<longleftrightarrow> r_lease_token r \<noteq> None) \<and>
    (r_lease_expires_at r \<noteq> None \<longleftrightarrow> r_lease_token r \<noteq> None) \<and>
    (r_status r \<in> {RClaimed, RCompleted, RBlocked} \<longrightarrow> r_admitted r) \<and>
    (wi_result (item_of r) \<noteq> None \<longleftrightarrow> r_status r \<in> {RCompleted, RBlocked, RCancelled})"
proof -
  have r: "r \<in> set (st_items s)" using assms(2) by (auto dest: item_table.lookup_SomeD)
  have "row_consistent r" by (rule store_ok_rows(1) [OF reachable_store_ok [OF assms(1)] r])
  then show ?thesis
    by (cases "r_status r") (auto simp: row_consistency decode_simps)
qed

theorem lease_and_result_follow_status_witness:
  "r_lease_token (the (find_row ''A'' sample4)) = None"
proof -
  have r: "find_row ''A'' sample4 = Some (the (find_row ''A'' sample4))" by code_simp
  have "r_status (the (find_row ''A'' sample4)) = RCompleted" by code_simp
  with lease_and_result_follow_status [OF sample4_reachable r] show ?thesis by auto
qed

end
