(* ===== verification/Queries.thy ===== *)
theory Queries
  imports Claiming Artifact_Identity
begin

text \<open>
  The reads of \<open>src/src/queue/store.ts\<close> behind the operator commands, the surface and the feeders:
  \<open>children\<close>, \<open>list\<close>, \<open>recentlyUpdatedItems\<close>, \<open>churningItems\<close>, the pending-artifact read
  (without its delivery-observation mode), \<open>counts\<close>, \<open>metricsWindow\<close>,
  \<open>pullRequestReviewItems\<close>, \<open>events\<close>, \<open>attempts\<close>, \<open>recentEvents\<close>, \<open>eventsSince\<close> and
  \<open>auditContracts\<close>. A limit is an integer: the callers pass integers or the default.
\<close>

subsection \<open>Filters\<close>

record list_options =
  lq_status :: "work_status option"
  lq_repository :: "string option"
  lq_kind :: "string option"
  lq_lease_owner :: "string option"
  lq_label :: "string option"
  lq_limit :: "int option"

definition newest_claim_label :: "string \<Rightarrow> store \<Rightarrow> string option" where
  "newest_claim_label id' s =
     (case List.find (\<lambda>e. ev_item e = id' \<and> (case ev_body e of EvClaimed _ _ _ _ \<Rightarrow> True | _ \<Rightarrow> False))
             (rev (sort_key ev_sequence (st_events s))) of
        Some e \<Rightarrow> (case ev_body e of EvClaimed _ label _ _ \<Rightarrow> label | _ \<Rightarrow> None)
      | None \<Rightarrow> None)"

definition status_clause :: "work_status option \<Rightarrow> row \<Rightarrow> bool" where
  "status_clause status r =
     (case status of
        None \<Rightarrow> True
      | Some Proposed \<Rightarrow> r_status r = RQueued \<and> \<not> r_admitted r
      | Some Queued \<Rightarrow> r_status r = RQueued \<and> r_admitted r
      | Some Claimed \<Rightarrow> r_status r = RClaimed
      | Some Completed \<Rightarrow> r_status r = RCompleted
      | Some Blocked \<Rightarrow> r_status r = RBlocked
      | Some Cancelled \<Rightarrow> r_status r = RCancelled)"

definition validate_optional_repository :: "string option \<Rightarrow> unit res" where
  "validate_optional_repository g =
     (case non_empty g of None \<Rightarrow> Inr () | Some slug \<Rightarrow> validate_repository slug)"

definition repository_clause :: "string option \<Rightarrow> row \<Rightarrow> bool" where
  "repository_clause g r = (case non_empty g of None \<Rightarrow> True | Some slug \<Rightarrow> r_repository r = slug)"

definition filter_clauses :: "list_options \<Rightarrow> store \<Rightarrow> (row \<Rightarrow> bool) res" where
  "filter_clauses options s =
     and_then (validate_optional_repository (lq_repository options)) (\<lambda>_.
     and_then (optional_res validate_worker_principal (lq_lease_owner options)) (\<lambda>owner.
     and_then (optional_res validate_claim_label (lq_label options)) (\<lambda>label.
     Inr (\<lambda>r. status_clause (lq_status options) r \<and>
              repository_clause (lq_repository options) r \<and>
              (case non_empty (lq_kind options) of None \<Rightarrow> True | Some k \<Rightarrow> r_kind r = k) \<and>
              (case owner of None \<Rightarrow> True | Some w \<Rightarrow> r_lease_owner r = Some w) \<and>
              (case label of None \<Rightarrow> True | Some l \<Rightarrow> newest_claim_label (r_id r) s = Some l)))))"

subsection \<open>Item reads\<close>

definition children :: "string \<Rightarrow> store \<Rightarrow> work_item list" where
  "children id' s =
     map item_of
       (sort_key (\<lambda>r. (r_created_at r, r_id r)) (filter (\<lambda>r. r_parent_id r = Some id') (st_items s)))"

definition list_limit :: "int option \<Rightarrow> nat" where
  "list_limit l = nat (max 1 (min (case l of None \<Rightarrow> 50 | Some n \<Rightarrow> n) 100))"

definition list_items :: "ctx \<Rightarrow> list_options \<Rightarrow> store \<Rightarrow> work_item list res" where
  "list_items cx options s =
     and_then (filter_clauses options s) (\<lambda>p.
     Inr (map item_of
       (take (list_limit (lq_limit options)) (claim_order cx (filter p (st_items s))))))"

definition open_limit :: "int option \<Rightarrow> nat" where
  "open_limit l = nat (max 1 (case l of None \<Rightarrow> 100 | Some n \<Rightarrow> n))"

definition recently_updated_items :: "list_options \<Rightarrow> store \<Rightarrow> work_item list res" where
  "recently_updated_items options s =
     and_then (filter_clauses (options\<lparr>lq_lease_owner := None, lq_label := None\<rparr>) s) (\<lambda>p.
     Inr (map item_of
       (take (open_limit (lq_limit options))
         (rev (sort_key (\<lambda>r. (r_updated_at r, r_created_at r, r_id r)) (filter p (st_items s)))))))"

subsection \<open>Churning items\<close>

record churning_item =
  ch_item :: work_item
  ch_releases :: "(timestamp \<times> string \<times> string) list"
  ch_backoff_until :: timestamp

definition release_reason :: "event_body \<Rightarrow> string" where
  "release_reason body = (case body of EvReleased reason _ \<Rightarrow> reason | _ \<Rightarrow> [])"

definition backoff_releases :: "timestamp \<Rightarrow> string \<Rightarrow> store \<Rightarrow> event_row list" where
  "backoff_releases since id' s =
     rev (sort_key (\<lambda>e. (ev_occurred_at e, ev_sequence e))
       (filter (\<lambda>e. ev_item e = id' \<and> worker_release e \<and> since < ev_occurred_at e) (st_events s)))"

definition churning_of :: "timestamp \<Rightarrow> store \<Rightarrow> row \<Rightarrow> churning_item" where
  "churning_of since s r =
     (let releases =
        map (\<lambda>e. (ev_occurred_at e, ev_actor e, release_reason (ev_body e)))
          (backoff_releases since (r_id r) s) in
      \<lparr>ch_item = item_of r, ch_releases = releases,
       ch_backoff_until =
         fst (releases ! (claim_backoff_releases - 1)) + claim_backoff_window_seconds * 1000\<rparr>)"

definition churning_items :: "ctx \<Rightarrow> string option \<Rightarrow> store \<Rightarrow> churning_item list res" where
  "churning_items cx repository s =
     (let since = cx_clock cx 0 - claim_backoff_window_seconds * 1000 in
      and_then (validate_optional_repository repository) (\<lambda>_.
      Inr (map (churning_of since s)
        (claim_order cx
          (filter (\<lambda>r. r_status r = RQueued \<and> r_admitted r \<and>
               claim_backoff_releases \<le> backoff_release_count since (r_id r) s \<and>
               repository_clause repository r) (st_items s))))))"

subsection \<open>Pending artifacts\<close>

datatype pending_mode = PendingArtifacts | UnverifiedOnly | HandoffAttention

definition artifact_unverified :: "work_artifact \<Rightarrow> bool" where
  "artifact_unverified a = (case wa_verification a of Some (Unverified _ _) \<Rightarrow> True | _ \<Rightarrow> False)"

definition pending_artifact :: "pending_mode \<Rightarrow> work_artifact \<Rightarrow> bool" where
  "pending_artifact mode a =
     (wa_kind a \<in> {Issue, PullRequest, Release} \<and>
      (case mode of
         HandoffAttention \<Rightarrow>
           artifact_unverified a \<or>
           (case wa_verification a of Some (Verified v) \<Rightarrow> vo_handoff v \<noteq> None | _ \<Rightarrow> False)
       | UnverifiedOnly \<Rightarrow> artifact_unverified a
       | PendingArtifacts \<Rightarrow>
           wa_verification a = None \<or> artifact_unverified a \<or>
           (case wa_verification a of
              Some (Verified v) \<Rightarrow> vo_state v = Open \<or> vo_state v = DraftRelease
            | _ \<Rightarrow> False)))"

definition completed_items_with_pending_artifacts ::
    "ctx \<Rightarrow> pending_mode \<Rightarrow> string option \<Rightarrow> int option \<Rightarrow> store \<Rightarrow> work_item list res"
where
  "completed_items_with_pending_artifacts cx mode repository limit s =
     and_then (validate_optional_repository repository) (\<lambda>_.
     Inr (map item_of
       (take (open_limit limit)
         (sort_key (\<lambda>r. (- r_updated_at r, - r_created_at r, cx_tie cx (r_id r)))
           (filter (\<lambda>r. r_status r = RCompleted \<and> repository_clause repository r \<and>
                list_ex (pending_artifact mode) (artifacts_of (json_option (r_result r))))
             (st_items s))))))"

subsection \<open>Counts and the metrics window\<close>

definition counts :: "string option \<Rightarrow> store \<Rightarrow> (work_status \<times> nat) list res" where
  "counts repository s =
     and_then (case repository of None \<Rightarrow> Inr () | Some g \<Rightarrow> validate_repository g) (\<lambda>_.
     Inr (map (\<lambda>st. (st,
         length (filter (\<lambda>r. logical_status r = st \<and>
           (case repository of None \<Rightarrow> True | Some g \<Rightarrow> r_repository r = g)) (st_items s))))
       work_statuses))"

record metrics_created =
  mc_repository :: string
  mc_status :: work_status
  mc_count :: nat

record metrics_event =
  me_body :: event_body
  me_repository :: string
  me_item :: string
  me_occurred_at :: timestamp
  me_result :: "work_result option"

record metrics_window =
  mw_since :: timestamp
  mw_until :: timestamp
  mw_repository :: "string option"
  mw_created :: "metrics_created list"
  mw_events :: "metrics_event list"

definition max_metrics_window_events :: nat where "max_metrics_window_events = 100000"

definition metrics_event_type :: "event_body \<Rightarrow> bool" where
  "metrics_event_type body =
     (case body of
        EvClaimed _ _ _ _ \<Rightarrow> True | EvCompleted _ _ _ \<Rightarrow> True | EvBlocked _ \<Rightarrow> True
      | EvCancelled _ \<Rightarrow> True | _ \<Rightarrow> False)"

definition metrics_created_rows :: "row list \<Rightarrow> metrics_created list" where
  "metrics_created_rows rows =
     concat (map (\<lambda>g.
       concat (map (\<lambda>st.
         let n = length (filter (\<lambda>r. r_repository r = g \<and> logical_status r = st) rows) in
         if n = 0 then [] else [\<lparr>mc_repository = g, mc_status = st, mc_count = n\<rparr>])
       (sort_key status_name work_statuses)))
     (sorted_unique (map r_repository rows)))"

text \<open>\<open>None\<close> for a bound is text that \<open>new Date\<close> does not parse.\<close>

definition metrics_window ::
    "timestamp option \<Rightarrow> timestamp option \<Rightarrow> string option \<Rightarrow> store \<Rightarrow> metrics_window res"
where
  "metrics_window since_text until_text repository s =
     (case since_text of None \<Rightarrow> Inl (StateError TimestampInvalid) | Some since \<Rightarrow>
      case until_text of None \<Rightarrow> Inl (StateError TimestampInvalid) | Some until \<Rightarrow>
      and_then (require (since < until) (StateError WindowEmpty)) (\<lambda>_.
      and_then (case repository of None \<Rightarrow> Inr () | Some g \<Rightarrow> validate_repository g) (\<lambda>_.
      let chosen = (\<lambda>r. case repository of None \<Rightarrow> True | Some g \<Rightarrow> r_repository r = g);
          created = filter (\<lambda>r. since \<le> r_created_at r \<and> r_created_at r < until \<and> chosen r) (st_items s);
          events =
            List.map_filter
              (\<lambda>e. case find_row (ev_item e) s of
                 None \<Rightarrow> None
               | Some r \<Rightarrow>
                   if metrics_event_type (ev_body e) \<and> since \<le> ev_occurred_at e \<and>
                      ev_occurred_at e < until \<and> chosen r
                   then Some \<lparr>me_body = ev_body e, me_repository = r_repository r, me_item = ev_item e,
                     me_occurred_at = ev_occurred_at e, me_result = json_option (r_result r)\<rparr>
                   else None)
              (sort_key ev_sequence (st_events s)) in
      and_then (require (length events \<le> max_metrics_window_events) (StateError WindowTooLarge)) (\<lambda>_.
      Inr \<lparr>mw_since = since, mw_until = until, mw_repository = repository,
        mw_created = metrics_created_rows created, mw_events = events\<rparr>))))"

subsection \<open>Pull-request reviews of a repository\<close>

definition plain_pull_request :: "string \<Rightarrow> work_artifact" where
  "plain_pull_request url =
     \<lparr>wa_kind = PullRequest, wa_url = url, wa_description = None, wa_verification = None\<rparr>"

definition pull_request_review_items :: "string \<Rightarrow> string \<Rightarrow> store \<Rightarrow> work_item list res" where
  "pull_request_review_items repository url s =
     and_then (validate_repository repository) (\<lambda>_.
     let identity = pull_request_artifact_identity repository (plain_pull_request url) in
     Inr (filter
       (\<lambda>item. case wi_review item of
          None \<Rightarrow> False
        | Some review \<Rightarrow>
            pull_request_artifact_identity repository
              (plain_pull_request (pr_pull_request_url review)) = identity)
       (map item_of
         (sort_key r_created_at
           (filter (\<lambda>r. r_repository r = repository \<and> r_kind r \<in> {''pr-review'', ''pr-review-fix''})
             (st_items s))))))"

end
