(* ===== verification/Ledger_Reads.thy ===== *)
theory Ledger_Reads
  imports Queries Operator_Decisions
begin

text \<open>
  The reads of the event ledger and the contract audit: \<open>events\<close>, \<open>attempts\<close>,
  \<open>recentEvents\<close>, \<open>eventsSince\<close> and \<open>auditContracts\<close> of \<open>src/src/queue/store.ts\<close>.
\<close>

definition item_ledger :: "string \<Rightarrow> store \<Rightarrow> event_row list" where
  "item_ledger id' s = sort_key ev_sequence (filter (\<lambda>e. ev_item e = id') (st_events s))"

text \<open>\<open>ORDER BY sequence DESC LIMIT n\<close>, read back in ascending order.\<close>

definition newest :: "nat \<Rightarrow> 'a list \<Rightarrow> 'a list" where
  "newest n xs = drop (length xs - n) xs"

fun limit_within :: "int \<Rightarrow> jsnum \<Rightarrow> nat res" where
  "limit_within most n =
     (if \<not> is_safe_integer n \<or> js_int n < 1 \<or> js_int n > most then Inl (StateError LimitInvalid)
      else Inr (nat (js_int n)))"

definition max_events_since_limit :: int where "max_events_since_limit = 500"
definition default_events_since_limit :: int where "default_events_since_limit = 100"

definition events :: "string \<Rightarrow> store \<Rightarrow> event_row list" where
  "events id' s = item_ledger id' s"

definition recent_events :: "string \<Rightarrow> jsnum option \<Rightarrow> store \<Rightarrow> event_row list res" where
  "recent_events id' limit s =
     and_then
       (limit_within max_events_since_limit
         (case limit of None \<Rightarrow> JInt default_events_since_limit | Some n \<Rightarrow> n)) (\<lambda>n.
     Inr (newest n (item_ledger id' s)))"

subsection \<open>Attempts\<close>

definition lifecycle_event :: "event_body \<Rightarrow> bool" where
  "lifecycle_event body =
     (case body of
        EvClaimed _ _ _ _ \<Rightarrow> True | EvCompleted _ _ _ \<Rightarrow> True | EvBlocked _ \<Rightarrow> True
      | EvReleased _ _ \<Rightarrow> True | EvLeaseExpired _ _ \<Rightarrow> True | _ \<Rightarrow> False)"

fun attempt_outcome_by_event :: "event_body \<Rightarrow> attempt_outcome option" where
  "attempt_outcome_by_event (EvCompleted _ _ _) = Some AttemptCompleted"
| "attempt_outcome_by_event (EvBlocked _) = Some AttemptBlocked"
| "attempt_outcome_by_event (EvReleased _ _) = Some AttemptReleased"
| "attempt_outcome_by_event (EvLeaseExpired _ _) = Some AttemptExpired"
| "attempt_outcome_by_event _ = None"

text \<open>The accumulated attempts, the open or newest one first.\<close>

definition attempt_step :: "work_attempt list \<Rightarrow> event_row \<Rightarrow> work_attempt list" where
  "attempt_step acc e =
     (case ev_body e of
        EvClaimed _ label kinds _ \<Rightarrow>
          \<lparr>at_sequence = ev_sequence e, at_claimed_at = ev_occurred_at e, at_worker = ev_actor e,
           at_label = (case label of Some l \<Rightarrow> if claim_label_pattern l then Some l else None | None \<Rightarrow> None),
           at_kinds_restriction = kinds, at_outcome = None, at_ended_at = None, at_ended_by = None\<rparr> # acc
      | body \<Rightarrow>
          (case acc of
             [] \<Rightarrow> []
           | open' # closed \<Rightarrow>
               if at_outcome open' \<noteq> None then acc
               else
                 open'\<lparr>at_outcome := attempt_outcome_by_event body,
                   at_ended_at :=
                     Some (case body of EvLeaseExpired _ (Some t) \<Rightarrow> t | _ \<Rightarrow> ev_occurred_at e),
                   at_ended_by := Some (ev_actor e)\<rparr> # closed))"

definition lapse_newest :: "ctx \<Rightarrow> row \<Rightarrow> work_attempt list \<Rightarrow> work_attempt list" where
  "lapse_newest cx r acc =
     (case acc of
        [] \<Rightarrow> []
      | newest' # older \<Rightarrow>
          if at_outcome newest' = None \<and>
             (r_status r \<noteq> RClaimed \<or>
              (case r_lease_expires_at r of None \<Rightarrow> False | Some e \<Rightarrow> e \<le> cx_clock cx 0))
          then
            newest'\<lparr>at_outcome := Some AttemptExpired,
              at_ended_at := Some (case r_lease_expires_at r of Some e \<Rightarrow> e | None \<Rightarrow> cx_clock cx 0),
              at_ended_by := Some ''system''\<rparr> # older
          else acc)"

definition attempts :: "ctx \<Rightarrow> string \<Rightarrow> jsnum option \<Rightarrow> store \<Rightarrow> work_attempt list res" where
  "attempts cx id' limit s =
     and_then
       (limit_within (int max_item_attempts)
         (case limit of None \<Rightarrow> JInt (int max_item_attempts) | Some n \<Rightarrow> n)) (\<lambda>n.
     case find_row id' s of
       None \<Rightarrow> Inr []
     | Some r \<Rightarrow>
         let rows = newest (2 * n + 1) (filter (lifecycle_event \<circ> ev_body) (item_ledger id' s)) in
         Inr (newest n (rev (lapse_newest cx r (foldl attempt_step [] rows)))))"

subsection \<open>The ledger across items\<close>

record observed_event =
  oe_event :: event_row
  oe_repository :: string
  oe_kind :: string
  oe_source_ref :: "string option"
  oe_status :: work_status

definition observe :: "store \<Rightarrow> event_row \<Rightarrow> observed_event option" where
  "observe s e =
     map_option
       (\<lambda>r. \<lparr>oe_event = e, oe_repository = r_repository r, oe_kind = r_kind r,
         oe_source_ref = r_source_ref r, oe_status = logical_status r\<rparr>)
       (find_row (ev_item e) s)"

definition events_since ::
    "jsnum \<Rightarrow> string option \<Rightarrow> jsnum option \<Rightarrow> store \<Rightarrow> observed_event list res"
where
  "events_since sequence repository limit s =
     and_then (require (is_safe_integer sequence \<and> 0 \<le> js_int sequence) (StateError SequenceInvalid)) (\<lambda>_.
     and_then
       (limit_within max_events_since_limit
         (case limit of None \<Rightarrow> JInt default_events_since_limit | Some n \<Rightarrow> n)) (\<lambda>n.
     and_then (validate_optional_repository repository) (\<lambda>_.
     Inr (take n
       (filter (\<lambda>o'. case non_empty repository of None \<Rightarrow> True | Some g \<Rightarrow> oe_repository o' = g)
         (List.map_filter (observe s)
           (filter (\<lambda>e. js_int sequence < int (ev_sequence e))
             (sort_key ev_sequence (st_events s)))))))))"

subsection \<open>The contract audit\<close>

datatype audit_command = RejectCommand | NoteCommand | CancelCommand

record contract_finding =
  fi_item :: work_item
  fi_problem :: contract_code
  fi_suggested :: audit_command

definition suggested_command :: "work_item \<Rightarrow> audit_command" where
  "suggested_command item =
     (if wi_status item = Proposed then RejectCommand
      else if wi_status item = Claimed then NoteCommand
      else CancelCommand)"

definition audit_problem :: "ctx \<Rightarrow> work_item \<Rightarrow> contract_code option" where
  "audit_problem cx item =
     (case contract_problem (item_view item None) of
        Some code \<Rightarrow> Some code
      | None \<Rightarrow>
          if wi_execution_target item = None then Some UndeclaredExecutionTarget
          else if cx_policy_authority cx \<noteq> None \<and> wi_policy item = None then Some UnboundPolicy
          else None)"

definition audit_contracts :: "ctx \<Rightarrow> string option \<Rightarrow> store \<Rightarrow> contract_finding list res" where
  "audit_contracts cx repository s =
     and_then (case repository of None \<Rightarrow> Inr () | Some g \<Rightarrow> validate_repository g) (\<lambda>_.
     Inr (List.map_filter
       (\<lambda>r. map_option
            (\<lambda>code. \<lparr>fi_item = decode_work_item r, fi_problem = code,
              fi_suggested = suggested_command (decode_work_item r)\<rparr>)
              (audit_problem cx (decode_work_item r)))
       (sort_key (\<lambda>r. (r_created_at r, r_id r))
         (filter (\<lambda>r. r_status r \<in> {RQueued, RClaimed, RBlocked} \<and>
              (case repository of None \<Rightarrow> True | Some g \<Rightarrow> r_repository r = g)) (st_items s)))))"

end
