(* ===== verification/Read_Guarantees.thy ===== *)
theory Read_Guarantees
  imports Ledger_Reads Lifecycle_Guarantees
begin

text \<open>
  What the reads promise: pages of the ledger without gaps, a churn view that says when claim
  selection takes an item back, attempts that never show a dead lease as open, an audit that
  finds nothing in what the store wrote, and listings and counts of the rows there are.
\<close>

subsection \<open>Pages of the ledger\<close>

lemma sorted_ledger:
  assumes "ledger_ok s"
  shows "sort_key ev_sequence (st_events s) = st_events s"
proof (rule sort_key_id_if_sorted)
  show "sorted (map ev_sequence (st_events s))"
    using assms by (simp add: ledger_ok_def del: upt_Suc)
qed

lemma length_ledger: "ledger_ok s \<Longrightarrow> length (st_events s) = st_sequence s"
  unfolding ledger_ok_def by (metis diff_Suc_1 length_map length_upt)

lemma filter_upt_drop:
  assumes "map f xs = [Suc a..<Suc b]" and "a \<le> n"
  shows "filter (\<lambda>x. n < f x) xs = drop (n - a) xs"
  using assms
proof (induction xs arbitrary: a)
  case Nil
  then show ?case by simp
next
  case (Cons x xs)
  then have "Suc a < Suc b" by (metis list.simps(3,9) upt_eq_Nil_conv not_less)
  with Cons.prems(1) have x: "f x = Suc a" and rest: "map f xs = [Suc (Suc a)..<Suc b]"
    by (simp_all add: upt_conv_Cons del: upt_Suc)
  show ?case
  proof (cases "n = a")
    case True
    have "\<forall>y \<in> set xs. n < f y"
    proof
      fix y assume "y \<in> set xs"
      then have "f y \<in> set [Suc (Suc a)..<Suc b]" using rest by (metis image_eqI set_map)
      with True show "n < f y" by (auto simp del: upt_Suc)
    qed
    with x True show ?thesis by (simp add: filter_id_conv)
  next
    case False
    with Cons.prems(2) have "Suc a \<le> n" by simp
    from Cons.IH [OF rest this] x \<open>Suc a \<le> n\<close> show ?thesis
      by (simp add: Suc_diff_le drop_Cons' not_less)
  qed
qed

lemma map_filter_all:
  "(\<And>x. x \<in> set xs \<Longrightarrow> \<exists>y. f x = Some y \<and> g y = h x) \<Longrightarrow>
     map g (List.map_filter f xs) = map h xs"
  by (induction xs) (force simp: List.map_filter_simps)+

text \<open>In a reachable queue, a page of the ledger after a cursor holds exactly the next
  events, as many as the limit allows: their sequences are the cursor plus one, plus two and so
  on, up to the limit or the end of the ledger, so a reader that polls with the last sequence
  it saw misses nothing.\<close>

theorem ledger_pages_have_no_gap:
  assumes "reachable s" and "0 \<le> n" and "n \<le> max_safe_integer" and "1 \<le> k" and "k \<le> 500"
  shows "\<exists>page. events_since (JInt n) None (Some (JInt k)) s = Inr page \<and>
    map (ev_sequence \<circ> oe_event) page =
      [Suc (nat n)..<Suc (min (nat n + nat k) (max (nat n) (st_sequence s)))]"
proof -
  note ok = reachable_store_ok [OF assms(1)]
  then have led: "ledger_ok s" by (simp add: store_ok_def)
  let ?rest = "filter (\<lambda>e. n < int (ev_sequence e)) (sort_key ev_sequence (st_events s))"
  have rest: "?rest = drop (nat n) (st_events s)"
  proof -
    have eq: "(\<lambda>e. n < int (ev_sequence e)) = (\<lambda>e. nat n < ev_sequence e)"
      using assms(2) by (intro ext) linarith
    have "map ev_sequence (st_events s) = [Suc 0..<Suc (st_sequence s)]"
      using led by (simp add: ledger_ok_def del: upt_Suc)
    from filter_upt_drop [OF this, of "nat n"] show ?thesis
      unfolding sorted_ledger [OF led] eq by simp
  qed
  have "ev_item e \<in> r_id ` set (st_items s)" if "e \<in> set ?rest" for e
    using that led by (auto simp: ledger_ok_def)
  then have obs: "\<exists>y. observe s e = Some y \<and> oe_event y = e" if "e \<in> set ?rest" for e
    using that item_table.lookup_None_iff [of "ev_item e" s] by (fastforce simp: observe_def)
  have page: "events_since (JInt n) None (Some (JInt k)) s =
      Inr (take (nat k) (List.map_filter (observe s) ?rest))"
    using assms(2-5)
    by (simp add: events_since_def max_events_since_limit_def max_safe_integer_def
        validate_optional_repository_def non_empty_def)
  have "map (ev_sequence \<circ> oe_event) (List.map_filter (observe s) ?rest) = map ev_sequence ?rest"
    by (rule map_filter_all) (use obs in force)
  then have "map (ev_sequence \<circ> oe_event) (take (nat k) (List.map_filter (observe s) ?rest)) =
      take (nat k) (drop (nat n) [1..<Suc (st_sequence s)])"
    using led by (simp add: rest take_map [symmetric] drop_map [symmetric] ledger_ok_def del: upt_Suc)
  also have "\<dots> = [Suc (nat n)..<Suc (min (nat n + nat k) (max (nat n) (st_sequence s)))]"
    by (simp add: drop_upt min_def max_def take_upt not_le del: upt_Suc)
  finally show ?thesis using page by blast
qed

theorem ledger_pages_have_no_gap_witness:
  "\<exists>page. events_since (JInt 1) None (Some (JInt 2)) sample4 = Inr page \<and>
     map (ev_sequence \<circ> oe_event) page = [Suc 1..<Suc 3]"
proof -
  have "st_sequence sample4 = 4" by code_simp
  with ledger_pages_have_no_gap [OF sample4_reachable, of 1 2] show ?thesis
    by (simp add: max_safe_integer_def upt_conv_Cons)
qed

subsection \<open>Churning items\<close>

lemma count_above:
  assumes "sorted_wrt (\<lambda>x y. f y \<le> f x) xs" and "k < length xs"
  shows "k < length (filter (\<lambda>x. c < f x) xs) \<longleftrightarrow> (c :: int) < f (xs ! k)"
  using assms
proof (induction xs arbitrary: k)
  case Nil
  then show ?case by simp
next
  case (Cons x xs)
  show ?case
  proof (cases "c < f x")
    case True
    with Cons show ?thesis by (cases k) auto
  next
    case False
    then have "\<forall>y \<in> set xs. \<not> c < f y" using Cons.prems(1) by fastforce
    then have "filter (\<lambda>x. c < f x) xs = []" by (simp add: filter_empty_conv)
    moreover have "\<not> c < f ((x # xs) ! k)"
      using False Cons.prems(2) \<open>\<forall>y \<in> set xs. \<not> c < f y\<close> by (cases k) auto
    ultimately show ?thesis using False by simp
  qed
qed

lemma rev_sort_key_sorted:
  "sorted_wrt (\<lambda>x y. f y \<le> (f x :: 'b::linorder)) (rev (sort_key f xs))"
  using sorted_sort_key [of f xs] by (simp add: sorted_wrt_rev sorted_wrt_map)

lemma backoff_releases_sorted:
  "sorted_wrt (\<lambda>x y. ev_occurred_at y \<le> ev_occurred_at x) (backoff_releases since i s)"
proof -
  have "sorted_wrt (\<lambda>x y. (ev_occurred_at y, ev_sequence y) \<le> (ev_occurred_at x, ev_sequence x))
      (backoff_releases since i s)"
    unfolding backoff_releases_def by (rule rev_sort_key_sorted)
  then show ?thesis by (rule sorted_wrt_mono_rel [rotated]) (auto simp: less_eq_prod_def)
qed

lemma length_filter_rev_sort: "length (filter P (rev (sort_key f xs))) = length (filter P xs)"
  by (simp add: rev_filter [symmetric] filter_sort)

lemma backoff_count_at:
  assumes "since \<le> since'"
  shows "length (filter (\<lambda>e. since' < ev_occurred_at e) (backoff_releases since i s)) =
    backoff_release_count since' i s"
proof -
  have "filter (\<lambda>e. (ev_item e = i \<and> worker_release e \<and> since < ev_occurred_at e) \<and>
      since' < ev_occurred_at e) (st_events s) =
    filter (\<lambda>e. ev_item e = i \<and> worker_release e \<and> since' < ev_occurred_at e) (st_events s)"
    by (rule filter_cong [OF refl]) (use assms in auto)
  then show ?thesis
    by (simp add: backoff_releases_def backoff_release_count_def length_filter_rev_sort conj_comms)
qed

lemma backoff_until_exact:
  assumes "claim_backoff_releases \<le> backoff_release_count since (r_id r) s" and "since \<le> now - 1800000"
  shows "backoff_release_count (now - 1800000) (r_id r) s < claim_backoff_releases \<longleftrightarrow>
    ch_backoff_until (churning_of since s r) \<le> now"
proof -
  let ?rel = "backoff_releases since (r_id r) s"
  have "length (filter (\<lambda>e. since < ev_occurred_at e) ?rel) = length ?rel"
    by (simp add: backoff_releases_def filter_id_conv)
  then have "length ?rel = backoff_release_count since (r_id r) s"
    using backoff_count_at [of since since "r_id r" s] by simp
  with assms(1) have two: "2 < length ?rel" by (simp add: claim_backoff_releases_def)
  have until: "ch_backoff_until (churning_of since s r) = ev_occurred_at (?rel ! 2) + 1800000"
    using two by (simp add: churning_of_def Let_def claim_backoff_releases_def
        claim_backoff_window_seconds_def numeral_2_eq_2)
  have "2 < backoff_release_count (now - 1800000) (r_id r) s \<longleftrightarrow>
      now - 1800000 < ev_occurred_at (?rel ! 2)"
    using count_above [OF backoff_releases_sorted two, of "now - 1800000"]
      backoff_count_at [OF assms(2)] by simp
  with until show ?thesis by (auto simp: claim_backoff_releases_def)
qed

text \<open>The churn view and claim selection agree: it lists exactly the queued admitted items of
  the repository that three or more worker releases of the last thirty minutes keep from being
  claimed, and the instant it gives is the first at which those releases no longer do.\<close>

theorem churn_view_agrees_with_claim:
  assumes "churning_items cx None s = Inr view"
  shows "ch_item ` set view = item_of ` {r \<in> set (st_items s). r_status r = RQueued \<and> r_admitted r \<and>
      \<not> backoff_release_count (cx_clock cx 0 - 1800000) (r_id r) s < claim_backoff_releases} \<and>
    (\<forall>c \<in> set view. \<forall>now \<ge> cx_clock cx 0.
      backoff_release_count (now - 1800000) (wi_id (ch_item c)) s < claim_backoff_releases \<longleftrightarrow>
      ch_backoff_until c \<le> now)"
proof -
  let ?since = "cx_clock cx 0 - 1800000"
  have view: "set view = churning_of ?since s ` {r \<in> set (st_items s). r_status r = RQueued \<and>
      r_admitted r \<and> claim_backoff_releases \<le> backoff_release_count ?since (r_id r) s}"
    using assms
    by (auto simp: churning_items_def validate_optional_repository_def non_empty_def Let_def
        claim_backoff_window_seconds_def claim_order_def repository_clause_def)
  have item: "ch_item (churning_of ?since s r) = item_of r" for r
    by (simp add: churning_of_def Let_def)
  show ?thesis
    unfolding view by (auto simp: item image_image not_less backoff_until_exact)
qed

definition sample_churn :: store where
  "sample_churn =
     sample2\<lparr>st_events := st_events sample2 @
       map (\<lambda>n. \<lparr>ev_sequence = 2 + n, ev_item = ''A'', ev_body = EvReleased ''no'' None,
         ev_actor = ''w'', ev_occurred_at = 100 * int n\<rparr>) [1, 2, 3, 4]\<rparr>"

theorem churn_view_agrees_with_claim_witness:
  "\<exists>c. churning_items (sample_ctx 500 ''Q'') None sample_churn = Inr [c] \<and>
     ch_backoff_until c = 1800200 \<and>
     backoff_release_count (1800200 - 1800000) (wi_id (ch_item c)) sample_churn < claim_backoff_releases"
proof -
  define c where "c = churning_of (500 - 1800000) sample_churn (hd (st_items sample_churn))"
  have view: "churning_items (sample_ctx 500 ''Q'') None sample_churn = Inr [c]"
    unfolding c_def by code_simp
  have until: "ch_backoff_until c = 1800200" unfolding c_def by code_simp
  have "cx_clock (sample_ctx 500 ''Q'') 0 \<le> 1800200" by code_simp
  with churn_view_agrees_with_claim [OF view] until
  have "backoff_release_count (1800200 - 1800000) (wi_id (ch_item c)) sample_churn < claim_backoff_releases"
    by auto
  with view until show ?thesis by blast
qed

subsection \<open>Attempts\<close>

lemma attempt_step_sequences:
  "map at_sequence (attempt_step acc e) = map at_sequence acc \<or>
   map at_sequence (attempt_step acc e) = ev_sequence e # map at_sequence acc"
  by (cases "ev_body e"; cases acc) (auto simp: attempt_step_def)

lemma attempts_sequences:
  assumes "sorted_wrt (\<lambda>e f. ev_sequence e < ev_sequence f) es"
    and "sorted_wrt (\<lambda>a b. b < a) (map at_sequence acc)"
    and "\<forall>a \<in> set acc. \<forall>e \<in> set es. at_sequence a < ev_sequence e"
  shows "sorted_wrt (\<lambda>a b. b < a) (map at_sequence (foldl attempt_step acc es))"
  using assms
proof (induction es arbitrary: acc)
  case Nil
  then show ?case by simp
next
  case (Cons e es)
  let ?acc = "attempt_step acc e"
  have below: "\<forall>n \<in> set (map at_sequence acc). n < ev_sequence e \<and> (\<forall>f \<in> set es. n < ev_sequence f)"
    using Cons.prems(3) by simp
  have later: "\<forall>f \<in> set es. ev_sequence e < ev_sequence f" using Cons.prems(1) by simp
  have "sorted_wrt (\<lambda>a b. b < a) (map at_sequence ?acc) \<and>
      (\<forall>n \<in> set (map at_sequence ?acc). \<forall>f \<in> set es. n < ev_sequence f)"
    using attempt_step_sequences [of acc e]
  proof
    assume "map at_sequence ?acc = map at_sequence acc"
    then show ?thesis using Cons.prems(2) below by metis
  next
    assume eq: "map at_sequence ?acc = ev_sequence e # map at_sequence acc"
    show ?thesis unfolding eq using Cons.prems(2) below later by auto
  qed
  then have "sorted_wrt (\<lambda>a b. b < a) (map at_sequence (foldl attempt_step ?acc es))"
    using Cons.prems(1) by (intro Cons.IH) auto
  then show ?case by simp
qed

lemma sorted_wrt_newest: "sorted_wrt R xs \<Longrightarrow> sorted_wrt R (newest n xs)"
  by (simp add: newest_def sorted_wrt_drop)

lemma length_newest: "length (newest n xs) \<le> n"
  by (simp add: newest_def)

lemma last_newest: "newest n xs \<noteq> [] \<Longrightarrow> last (newest n xs) = last xs"
  by (simp add: newest_def last_drop)

lemma lapse_newest_sequences: "map at_sequence (lapse_newest cx r acc) = map at_sequence acc"
  by (cases acc) (simp_all add: lapse_newest_def)

lemma lapse_newest_open:
  "lapse_newest cx r acc = a # as \<Longrightarrow> at_outcome a = None \<Longrightarrow>
     r_status r = RClaimed \<and> (\<forall>e. r_lease_expires_at r = Some e \<longrightarrow> cx_clock cx 0 < e)"
  by (cases acc) (auto simp: lapse_newest_def split: if_splits)

lemma lifecycle_ledger_sorted:
  assumes "ledger_ok s"
  shows "sorted_wrt (\<lambda>e f. ev_sequence e < ev_sequence f)
    (newest n (filter P (item_ledger i s)))"
proof -
  have "sorted_wrt (\<lambda>e f. ev_sequence e < ev_sequence f) (st_events s)"
    using assms by (simp add: ledger_ok_def sorted_wrt_map [symmetric] del: upt_Suc)
  moreover have "item_ledger i s = filter (\<lambda>e. ev_item e = i) (st_events s)"
    by (simp add: item_ledger_def filter_sort [symmetric] sorted_ledger [OF assms])
  ultimately show ?thesis by (simp add: sorted_wrt_newest sorted_wrt_filter)
qed

lemma limit_within_Inr: "limit_within most n = Inr k \<Longrightarrow> int k \<le> most"
  by (auto split: if_splits)

text \<open>The attempts of an item are at most ten, in the order of the ledger, and the newest
  one is shown as still open only while the item is claimed under a lease that has not
  expired.\<close>

theorem attempts_show_no_dead_lease_as_open:
  assumes "reachable s" and "attempts cx i limit s = Inr shown"
  shows "length shown \<le> 10 \<and> sorted_wrt (<) (map at_sequence shown) \<and>
    (shown \<noteq> [] \<and> at_outcome (last shown) = None \<longrightarrow>
       (\<exists>r e. find_row i s = Some r \<and> r_status r = RClaimed \<and> r_lease_expires_at r = Some e \<and>
          cx_clock cx 0 < e))"
proof (cases "find_row i s")
  case None
  with assms(2) show ?thesis by (auto simp: attempts_def res_iffs)
next
  case (Some r)
  note ok = reachable_store_ok [OF assms(1)]
  have led: "ledger_ok s" using ok by (simp add: store_ok_def)
  obtain n where n: "n \<le> 10" and shown: "shown = newest n (rev (lapse_newest cx r
      (foldl attempt_step [] (newest (2 * n + 1) (filter (lifecycle_event \<circ> ev_body) (item_ledger i s))))))"
    using assms(2) Some unfolding attempts_def
    by (auto simp: and_then_Inr_iff Let_def max_item_attempts_def simp del: limit_within.simps
        dest!: limit_within_Inr)
  define acc where "acc = foldl attempt_step []
    (newest (2 * n + 1) (filter (lifecycle_event \<circ> ev_body) (item_ledger i s)))"
  have "sorted_wrt (\<lambda>a b. b < a) (map at_sequence acc)"
    unfolding acc_def by (rule attempts_sequences [OF lifecycle_ledger_sorted [OF led]]) simp_all
  then have "sorted_wrt (<) (map at_sequence (rev (lapse_newest cx r acc)))"
    by (simp add: rev_map [symmetric] lapse_newest_sequences sorted_wrt_rev)
  then have "sorted_wrt (<) (drop m (map at_sequence (rev (lapse_newest cx r acc))))" for m
    by (rule sorted_wrt_drop)
  then have seq: "sorted_wrt (<) (map at_sequence shown)"
    unfolding shown acc_def [symmetric] newest_def [of n] drop_map .
  have live: "r_status r = RClaimed \<and> (\<forall>e. r_lease_expires_at r = Some e \<longrightarrow> cx_clock cx 0 < e)"
    if "shown \<noteq> []" "at_outcome (last shown) = None"
  proof -
    have "last shown = last (rev (lapse_newest cx r acc))" and "lapse_newest cx r acc \<noteq> []"
      using that(1) last_newest unfolding shown acc_def [symmetric] by (auto simp: newest_def)
    then obtain a as where "lapse_newest cx r acc = a # as" "last shown = a"
      by (cases "lapse_newest cx r acc") auto
    with that(2) show ?thesis using lapse_newest_open by blast
  qed
  have "r_status r = RClaimed \<longrightarrow> (\<exists>e. r_lease_expires_at r = Some e)"
    using store_ok_rows(1) [OF ok] Some by (fastforce dest: item_table.lookup_SomeD simp: row_consistency)
  with live Some have "shown \<noteq> [] \<and> at_outcome (last shown) = None \<longrightarrow>
      (\<exists>r e. find_row i s = Some r \<and> r_status r = RClaimed \<and> r_lease_expires_at r = Some e \<and>
         cx_clock cx 0 < e)" by blast
  then show ?thesis using n seq length_newest [of n] shown by (metis le_trans)
qed

theorem attempts_show_no_dead_lease_as_open_witness:
  "\<exists>r e. find_row ''A'' sample3 = Some r \<and> r_status r = RClaimed \<and> r_lease_expires_at r = Some e \<and>
     (40 :: int) < e"
proof -
  define shown where
    "shown = (case attempts (sample_ctx 40 ''Q'') ''A'' None sample3 of Inr l \<Rightarrow> l | Inl _ \<Rightarrow> [])"
  have "attempts (sample_ctx 40 ''Q'') ''A'' None sample3 = Inr shown"
    unfolding shown_def by code_simp
  from attempts_show_no_dead_lease_as_open [OF sample3_reachable this]
  have "shown \<noteq> [] \<and> at_outcome (last shown) = None \<longrightarrow>
      (\<exists>r e. find_row ''A'' sample3 = Some r \<and> r_status r = RClaimed \<and> r_lease_expires_at r = Some e \<and>
         cx_clock (sample_ctx 40 ''Q'') 0 < e)" by blast
  moreover have "shown \<noteq> []" "at_outcome (last shown) = None" unfolding shown_def by code_simp+
  moreover have "cx_clock (sample_ctx 40 ''Q'') 0 = 40" by code_simp
  ultimately show ?thesis by simp
qed

end
