(* ===== verification/Listing_Guarantees.thy ===== *)
theory Listing_Guarantees
  imports Read_Guarantees
begin

text \<open>
  What the listings, the counts and the contract audit say of the rows there are.
\<close>

subsection \<open>The audit\<close>

lemma item_view_decode: "item_view (decode_work_item r) c = item_view (item_of r) c"
  by (simp add: item_view_def item_of_def with_delivery_def)

lemma decode_fields:
  "wi_policy (decode_work_item r) = json_option (r_policy r)"
  "wi_execution_target (decode_work_item r) = decode_execution_target (r_execution_target r)"
  by (simp_all add: decode_work_item_def)

lemma definition_ok_audit:
  assumes "definition_ok r" and "audit_problem cx (decode_work_item r) = Some code"
  shows "code = UnboundPolicy \<and> cx_policy_authority cx \<noteq> None \<and> json_option (r_policy r) = None"
proof -
  have "decode_execution_target (r_execution_target r) \<noteq> None"
    using assms(1)
    by (auto simp: definition_ok_def decode_execution_target_def known_execution_target_def
        split: option.splits)
  moreover have "contract_problem (item_view (decode_work_item r) None) = None"
    using assms(1) by (simp add: item_view_decode definition_ok_def)
  ultimately show ?thesis
    using assms(2) by (simp add: audit_problem_def decode_fields split: if_splits)
qed

lemma set_map_filter: "y \<in> set (List.map_filter f xs) \<longleftrightarrow> (\<exists>x \<in> set xs. f x = Some y)"
  by (induction xs) (auto simp: List.map_filter_simps split: option.splits)

text \<open>The contract audit of a reachable queue finds no item whose authority and delivery
  contract disagree and none without an execution target: what it can report is an item that
  carries no policy binding, and that only when a policy authority is configured.\<close>

theorem audit_finds_only_unbound_policy:
  assumes "reachable s" and "audit_contracts cx repository s = Inr findings" and "f \<in> set findings"
  shows "fi_problem f = UnboundPolicy \<and> cx_policy_authority cx \<noteq> None \<and> wi_policy (fi_item f) = None"
proof -
  let ?rows = "sort_key (\<lambda>r. (r_created_at r, r_id r))
    (filter (\<lambda>r. r_status r \<in> {RQueued, RClaimed, RBlocked} \<and>
      (case repository of None \<Rightarrow> True | Some g \<Rightarrow> r_repository r = g)) (st_items s))"
  obtain r code where r: "r \<in> set ?rows" and code: "audit_problem cx (decode_work_item r) = Some code"
    and f: "f = \<lparr>fi_item = decode_work_item r, fi_problem = code,
      fi_suggested = suggested_command (decode_work_item r)\<rparr>"
    using assms(2,3) unfolding audit_contracts_def and_then_Inr_iff sum.inject
    by (elim exE conjE, hypsubst) (unfold set_map_filter map_option_eq_Some, blast)
  have "definition_ok r"
    using store_ok_rows(2) [OF reachable_store_ok [OF assms(1)]] r by simp
  from definition_ok_audit [OF this code] f show ?thesis by (simp add: decode_fields)
qed

theorem audit_finds_only_unbound_policy_witness:
  "\<exists>f. audit_contracts (sample_ctx 50 ''Q''\<lparr>cx_policy_authority := Some (\<lambda>_. Inr None)\<rparr>) None sample5
     = Inr [f] \<and> fi_problem f = UnboundPolicy"
proof -
  let ?cx = "sample_ctx 50 ''Q''\<lparr>cx_policy_authority := Some (\<lambda>_. Inr None)\<rparr>"
  have "audit_contracts ?cx None sample5 = Inr [
      (case audit_contracts ?cx None sample5 of Inr l \<Rightarrow> hd l)]" by code_simp
  from this audit_finds_only_unbound_policy [OF _ this, of _] show ?thesis
    using reachable.move [OF sample4_reachable sample5_step] by (metis list.set_intros(1))
qed

subsection \<open>Listings\<close>

lemma status_clause_iff: "status_clause (Some st) r \<longleftrightarrow> logical_status r = st"
  by (cases st; cases "r_status r") (auto simp: status_clause_def logical_status_def)

lemma sort_key_take:
  assumes "x \<in> set (take n (sort_key f xs))" and "y \<in> set (drop n (sort_key f xs))"
  shows "f x \<le> (f y :: 'b::linorder)"
proof -
  have "sorted (map f (take n (sort_key f xs) @ drop n (sort_key f xs)))" by simp
  then show ?thesis using assms by (simp only: map_append sorted_append) auto
qed

text \<open>A listing holds only rows that pass its filter, in claim order, at most a hundred of
  them, and it leaves a matching row out only when it is full and every row it shows comes no
  later in claim order.\<close>

theorem listing_is_the_head_of_claim_order:
  assumes "list_items cx options s = Inr items" and "filter_clauses options s = Inr p"
  shows "length items \<le> 100 \<and>
    sorted (map (\<lambda>i. (- wi_priority i, wi_created_at i)) items) \<and>
    (\<forall>i \<in> set items. \<exists>r \<in> set (st_items s). i = item_of r \<and> p r \<and>
       (\<forall>st. lq_status options = Some st \<longrightarrow> wi_status i = st)) \<and>
    (\<forall>r \<in> set (st_items s). p r \<and> item_of r \<notin> set items \<longrightarrow>
       length items = list_limit (lq_limit options) \<and>
       (\<forall>i \<in> set items. (- wi_priority i, wi_created_at i) \<le> (- r_priority r, r_created_at r)))"
proof -
  let ?key = "\<lambda>r. (- r_priority r, r_created_at r, cx_tie cx (r_id r))"
  let ?rows = "filter p (st_items s)" and ?n = "list_limit (lq_limit options)"
  have items: "items = map item_of (take ?n (sort_key ?key ?rows))"
    using assms by (auto simp: list_items_def claim_order_def res_iffs)
  have "?n \<le> 100" by (simp add: list_limit_def)
  then have len: "length items \<le> 100" by (simp add: items)
  have rank: "(- wi_priority (item_of r), wi_created_at (item_of r)) = claim_rank r" for r
    by (simp add: claim_rank_def)
  have "sorted_wrt (\<lambda>x y. ?key x \<le> ?key y) (sort_key ?key ?rows)"
    using sorted_sort_key [of ?key ?rows] by (simp add: sorted_wrt_map)
  then have "sorted_wrt (\<lambda>x y. claim_rank x \<le> claim_rank y) (sort_key ?key ?rows)"
    by (rule sorted_wrt_mono_rel [rotated]) (rule claim_order_rank)
  then have "sorted (map claim_rank (take ?n (sort_key ?key ?rows)))"
    by (simp add: sorted_wrt_map sorted_wrt_take)
  then have srt: "sorted (map (\<lambda>i. (- wi_priority i, wi_created_at i)) items)"
    unfolding items map_map o_def rank .
  have mem: "\<exists>r \<in> set (st_items s). i = item_of r \<and> p r \<and>
      (\<forall>st. lq_status options = Some st \<longrightarrow> wi_status i = st)" if "i \<in> set items" for i
  proof -
    have "i \<in> item_of ` set (take ?n (sort_key ?key ?rows))"
      using that by (simp only: items set_map)
    then obtain r where i: "i = item_of r" and taken: "r \<in> set (take ?n (sort_key ?key ?rows))"
      by (rule imageE)
    from in_set_takeD [OF taken] have r: "r \<in> set ?rows" by simp
    moreover have "status_clause (lq_status options) r"
      using r assms(2) by (auto simp: filter_clauses_def and_then_Inr_iff)
    ultimately show ?thesis using i r by (auto simp: status_clause_iff)
  qed
  have full: "length items = ?n \<and> (\<forall>i \<in> set items.
      (- wi_priority i, wi_created_at i) \<le> (- r_priority r, r_created_at r))"
    if "r \<in> set (st_items s)" "p r" "item_of r \<notin> set items" for r
  proof -
    have "r \<in> set (sort_key ?key ?rows)" "r \<notin> set (take ?n (sort_key ?key ?rows))"
      using that by (auto simp: items)
    then have out: "r \<in> set (drop ?n (sort_key ?key ?rows))"
      by (metis UnE append_take_drop_id set_append)
    then have "?n < length (sort_key ?key ?rows)" by (cases "?n < length (sort_key ?key ?rows)") auto
    moreover have "claim_rank x \<le> claim_rank r" if "x \<in> set (take ?n (sort_key ?key ?rows))" for x
      using sort_key_take [OF that out] by (rule claim_order_rank)
    ultimately show ?thesis by (auto simp: items claim_rank_def)
  qed
  from len srt mem full show ?thesis by blast
qed

definition sample_listing :: list_options where
  "sample_listing = \<lparr>lq_status = Some Queued, lq_repository = None, lq_kind = None,
     lq_lease_owner = None, lq_label = None, lq_limit = None\<rparr>"

theorem listing_is_the_head_of_claim_order_witness:
  "\<exists>i. list_items (sample_ctx 50 ''Q'') sample_listing sample2 = Inr [i] \<and> wi_status i = Queued"
proof -
  define i where "i = the (get_item ''A'' sample2)"
  have l: "list_items (sample_ctx 50 ''Q'') sample_listing sample2 = Inr [i]"
    unfolding i_def by code_simp
  then obtain p where p: "filter_clauses sample_listing sample2 = Inr p"
    by (auto simp: list_items_def and_then_Inr_iff)
  have "lq_status sample_listing = Some Queued" by (simp add: sample_listing_def)
  with listing_is_the_head_of_claim_order [OF l p] l show ?thesis by auto
qed

subsection \<open>Counts\<close>

lemma sum_over_statuses:
  "sum_list (map (\<lambda>st. length (filter (\<lambda>r. f r = st \<and> q r) rows)) work_statuses) = length (filter q rows)"
proof (induction rows)
  case Nil
  then show ?case by (simp add: work_statuses_def)
next
  case (Cons r rows)
  then show ?case by (cases "f r") (auto simp: work_statuses_def)
qed

text \<open>The counts name each of the six statuses once, with the number of rows of the
  repository that have it, and add up to the number of its rows.\<close>

theorem counts_partition_the_rows:
  assumes "counts repository s = Inr out"
  shows "map fst out = work_statuses \<and>
    sum_list (map snd out) =
      length (filter (\<lambda>r. case repository of None \<Rightarrow> True | Some g \<Rightarrow> r_repository r = g) (st_items s)) \<and>
    (\<forall>st n. (st, n) \<in> set out \<longrightarrow> n = length (filter (\<lambda>r. wi_status (item_of r) = st \<and>
       (case repository of None \<Rightarrow> True | Some g \<Rightarrow> r_repository r = g)) (st_items s)))"
proof -
  have out: "out = map (\<lambda>st. (st, length (filter (\<lambda>r. logical_status r = st \<and>
      (case repository of None \<Rightarrow> True | Some g \<Rightarrow> r_repository r = g)) (st_items s)))) work_statuses"
    using assms by (auto simp: counts_def and_then_Inr_iff)
  have "sum_list (map snd out) =
      length (filter (\<lambda>r. case repository of None \<Rightarrow> True | Some g \<Rightarrow> r_repository r = g) (st_items s))"
    unfolding out map_map o_def snd_conv by (rule sum_over_statuses)
  moreover have "map fst out = work_statuses" by (simp add: out o_def)
  ultimately show ?thesis by (auto simp: out)
qed

theorem counts_partition_the_rows_witness:
  "(Completed, 1) \<in> set (case counts None sample4 of Inr out \<Rightarrow> out) \<and>
   sum_list (map snd (case counts None sample4 of Inr out \<Rightarrow> out)) = 2"
proof -
  have "counts None sample4 = Inr (case counts None sample4 of Inr out \<Rightarrow> out)"
    and "length (filter (\<lambda>r. True) (st_items sample4)) = 2"
    and "(Completed, 1) \<in> set (case counts None sample4 of Inr out \<Rightarrow> out)" by code_simp+
  with counts_partition_the_rows [of None sample4] show ?thesis by auto
qed

end
