(* ===== verification/Ordered_Map.thy ===== *)
theory Ordered_Map
  imports Snowcat_Prelude
begin

text \<open>
  A JavaScript \<open>Map\<close> as an association list in insertion order: \<open>upsert\<close> is the
  read-modify-write the code does on one (\<open>get\<close>, then \<open>set\<close>), which keeps the place of a
  key that is there and appends one that is not. Loops that aggregate into a \<open>Map\<close> are
  \<open>collect\<close>, and the grouping law says what such a loop leaves under a key: the fold of
  the elements with that key.
\<close>

fun upsert :: "'k \<Rightarrow> ('v option \<Rightarrow> 'v) \<Rightarrow> ('k \<times> 'v) list \<Rightarrow> ('k \<times> 'v) list" where
  "upsert k f [] = [(k, f None)]"
| "upsert k f ((k', v) # m) = (if k' = k then (k', f (Some v)) # m else (k', v) # upsert k f m)"

lemma map_of_upsert:
  "map_of (upsert k f m) k' = (if k' = k then Some (f (map_of m k)) else map_of m k')"
  by (induction k f m rule: upsert.induct) auto

lemma keys_upsert: "fst ` set (upsert k f m) = insert k (fst ` set m)"
  by (induction k f m rule: upsert.induct) auto

lemma distinct_upsert: "distinct (map fst m) \<Longrightarrow> distinct (map fst (upsert k f m))"
proof (induction k f m rule: upsert.induct)
  case (1 k f)
  then show ?case by simp
next
  case (2 k f k' v m)
  have "set (map fst (upsert k f m)) = insert k (set (map fst m))"
    using keys_upsert [of k f m] by simp
  with 2 show ?case by auto
qed

definition collect ::
    "('a \<Rightarrow> 'k) \<Rightarrow> ('v option \<Rightarrow> 'a \<Rightarrow> 'v) \<Rightarrow> 'a list \<Rightarrow> ('k \<times> 'v) list \<Rightarrow> ('k \<times> 'v) list"
where
  "collect key step xs m = foldl (\<lambda>m x. upsert (key x) (\<lambda>v. step v x) m) m xs"

lemma collect_simps [simp]:
  "collect key step [] m = m"
  "collect key step (x # xs) m = collect key step xs (upsert (key x) (\<lambda>v. step v x) m)"
  by (simp_all add: collect_def)

lemma distinct_collect: "distinct (map fst m) \<Longrightarrow> distinct (map fst (collect key step xs m))"
  by (induction xs arbitrary: m) (simp_all add: distinct_upsert)

lemma keys_collect: "fst ` set (collect key step xs m) = fst ` set m \<union> key ` set xs"
  by (induction xs arbitrary: m) (auto simp: keys_upsert)

definition fold_group :: "('v option \<Rightarrow> 'a \<Rightarrow> 'v) \<Rightarrow> 'a list \<Rightarrow> 'v option \<Rightarrow> 'v option" where
  "fold_group step xs v = foldl (\<lambda>v x. Some (step v x)) v xs"

lemma fold_group_simps [simp]:
  "fold_group step [] v = v"
  "fold_group step (x # xs) v = fold_group step xs (Some (step v x))"
  by (simp_all add: fold_group_def)

lemma map_of_collect:
  "map_of (collect key step xs m) k = fold_group step (filter (\<lambda>x. key x = k) xs) (map_of m k)"
  by (induction xs arbitrary: m) (auto simp: map_of_upsert)

lemma fold_group_Some:
  assumes "xs \<noteq> [] \<or> v \<noteq> None"
  shows "\<exists>w. fold_group step xs v = Some w"
  using assms by (induction xs arbitrary: v) auto

lemma collect_entry:
  assumes "(k, v) \<in> set (collect key step xs [])"
  shows "fold_group step (filter (\<lambda>x. key x = k) xs) None = Some v" and "k \<in> key ` set xs"
proof -
  have "distinct (map fst (collect key step xs []))" by (rule distinct_collect) simp
  with assms have "map_of (collect key step xs []) k = Some v" by simp
  then show "fold_group step (filter (\<lambda>x. key x = k) xs) None = Some v" by (simp add: map_of_collect)
  have "k \<in> fst ` set (collect key step xs [])" using assms by force
  then show "k \<in> key ` set xs" by (simp add: keys_collect)
qed

lemma collect_covers:
  assumes "x \<in> set xs"
  shows "\<exists>v. (key x, v) \<in> set (collect key step xs [])"
proof -
  have "key x \<in> fst ` set (collect key step xs [])" using assms by (simp add: keys_collect)
  then show ?thesis by force
qed

text \<open>A merge that keeps the better of two values by a key keeps a best one of the group.\<close>

definition keep_max :: "('a \<Rightarrow> 'o::linorder) \<Rightarrow> 'a option \<Rightarrow> 'a \<Rightarrow> 'a" where
  "keep_max ord v x = (case v of None \<Rightarrow> x | Some y \<Rightarrow> if ord y < ord x then x else y)"

lemma fold_group_keep_max:
  assumes "fold_group (keep_max ord) xs v = Some w"
  shows "(w \<in> set xs \<or> v = Some w) \<and> (\<forall>x \<in> set xs. ord x \<le> ord w) \<and>
    (\<forall>y. v = Some y \<longrightarrow> ord y \<le> ord w)"
  using assms
proof (induction xs arbitrary: v)
  case Nil
  then show ?case by simp
next
  case (Cons x xs)
  have "fold_group (keep_max ord) xs (Some (keep_max ord v x)) = Some w" using Cons.prems by simp
  from Cons.IH [OF this] have w: "w \<in> set xs \<or> keep_max ord v x = w"
    and top: "\<forall>y \<in> set xs. ord y \<le> ord w" and last: "ord (keep_max ord v x) \<le> ord w" by auto
  have "ord x \<le> ord (keep_max ord v x)" by (auto simp: keep_max_def split: option.split)
  moreover have "ord y \<le> ord (keep_max ord v x)" if "v = Some y" for y
    using that by (auto simp: keep_max_def)
  moreover have "w = x \<or> v = Some w" if "keep_max ord v x = w"
    using that by (auto simp: keep_max_def split: option.splits if_splits)
  ultimately show ?case using w top last by (auto intro: order_trans)
qed

end
