(* ===== verification/Deliveries.thy ===== *)
theory Deliveries
  imports Ordered_Map Artifact_Identity
begin

text \<open>
  Pending deliveries (\<open>src/src/queue/deliveries.ts\<close>): the items that report one artifact are
  merged into one entry under its identity, which takes its context from the oldest item, its
  state from the newest observation and its handoff marker from the newest marker; entries
  whose newest observation is open or a draft are listed, the ones ready to merge or publish
  first. The code orders observations by the string \<open>verifiedAt\0updatedAt\<close>, which is the
  order of the pair for texts without a NUL; \<open>localeCompare\<close> on URLs is the order of the
  sort keys \<open>collate\<close> of the locale, a parameter.
\<close>

datatype delivery_handoff = HandVerify | HandRepair | HandReview | HandMerge | HandPublish

record delivery_context =
  dc_work_item_id :: string
  dc_repository :: string
  dc_work_kind :: string
  dc_objective :: string
  dc_source_ref :: "string option"
  dc_created_at :: timestamp

record delivery_source =
  ds_kind :: artifact_kind
  ds_url :: string
  ds_state :: observed_state
  ds_draft :: bool
  ds_verified_at :: string
  ds_head_sha :: "string option"
  ds_order :: "string \<times> timestamp"

record delivery_marker =
  dm_rejected :: bool
  dm_reason :: string
  dm_order :: "string \<times> timestamp"

record delivery_aggregate =
  da_context :: delivery_context
  da_source :: delivery_source
  da_handoff :: "delivery_marker option"

record pending_delivery =
  pd_context :: delivery_context
  pd_source :: delivery_source
  pd_handoff :: delivery_handoff
  pd_reason :: "string option"
  pd_ready :: bool

text \<open>What the loop reads off one verified pull request or release of one item.\<close>

record delivery_observation =
  ob_identity :: artifact_identity
  ob_context :: delivery_context
  ob_source :: delivery_source
  ob_marker :: "delivery_marker option"

definition handoff_observed_at :: "handoff \<Rightarrow> string" where
  "handoff_observed_at h = (case h of HandoffUnverified t _ \<Rightarrow> t | HandoffRejected t _ \<Rightarrow> t)"

definition marker_of :: "timestamp \<Rightarrow> handoff \<Rightarrow> delivery_marker" where
  "marker_of updated_at h =
     \<lparr>dm_rejected = (case h of HandoffRejected _ _ \<Rightarrow> True | _ \<Rightarrow> False),
      dm_reason = handoff_reason h, dm_order = (handoff_observed_at h, updated_at)\<rparr>"

definition context_of :: "work_item \<Rightarrow> delivery_context" where
  "context_of item =
     \<lparr>dc_work_item_id = wi_id item, dc_repository = wi_repository item, dc_work_kind = wi_kind item,
      dc_objective = wi_objective item, dc_source_ref = wi_source_ref item,
      dc_created_at = wi_created_at item\<rparr>"

definition observe_artifact :: "work_item \<Rightarrow> work_artifact \<Rightarrow> delivery_observation option" where
  "observe_artifact item a =
     (case wa_verification a of
        Some (Verified v) \<Rightarrow>
          map_option
            (\<lambda>identity.
              \<lparr>ob_identity = identity, ob_context = context_of item,
               ob_source =
                 \<lparr>ds_kind = wa_kind a, ds_url = wa_url a, ds_state = vo_state v,
                  ds_draft = (vo_draft v = Some True), ds_verified_at = vo_verified_at v,
                  ds_head_sha = vo_head_sha v, ds_order = (vo_verified_at v, wi_updated_at item)\<rparr>,
               ob_marker = map_option (marker_of (wi_updated_at item)) (vo_handoff v)\<rparr>)
            (delivery_artifact_identity (wi_repository item) a)
      | _ \<Rightarrow> None)"

definition delivery_observations :: "work_item list \<Rightarrow> delivery_observation list" where
  "delivery_observations items =
     concat (map (\<lambda>item. List.map_filter (observe_artifact item) (artifacts_of (wi_result item))) items)"

definition merge_marker :: "delivery_marker option \<Rightarrow> delivery_marker option \<Rightarrow> delivery_marker option" where
  "merge_marker old new =
     (case new of
        None \<Rightarrow> old
      | Some m \<Rightarrow> (case old of None \<Rightarrow> Some m | Some o' \<Rightarrow> if dm_order o' < dm_order m then Some m else old))"

definition merge_observation :: "delivery_aggregate option \<Rightarrow> delivery_observation \<Rightarrow> delivery_aggregate" where
  "merge_observation existing obs =
     (case existing of
        None \<Rightarrow> \<lparr>da_context = ob_context obs, da_source = ob_source obs, da_handoff = ob_marker obs\<rparr>
      | Some a \<Rightarrow>
          \<lparr>da_context =
             (if dc_created_at (ob_context obs) < dc_created_at (da_context a) then ob_context obs
              else da_context a),
           da_source =
             (if ds_order (da_source a) < ds_order (ob_source obs) then ob_source obs else da_source a),
           da_handoff = merge_marker (da_handoff a) (ob_marker obs)\<rparr>)"

definition next_handoff :: "delivery_aggregate \<Rightarrow> delivery_handoff" where
  "next_handoff a =
     (if ds_kind (da_source a) = Release then HandPublish
      else
        (case da_handoff a of
           Some m \<Rightarrow> if dm_rejected m then HandRepair else HandVerify
         | None \<Rightarrow> if ds_draft (da_source a) then HandReview else HandMerge))"

definition project_delivery :: "delivery_aggregate \<Rightarrow> pending_delivery option" where
  "project_delivery a =
     (if ds_state (da_source a) \<noteq> Open \<and> ds_state (da_source a) \<noteq> DraftRelease then None
      else
        Some \<lparr>pd_context = da_context a, pd_source = da_source a, pd_handoff = next_handoff a,
          pd_reason = map_option dm_reason (da_handoff a),
          pd_ready = (next_handoff a = HandMerge \<or> next_handoff a = HandPublish)\<rparr>)"

definition pending_deliveries :: "(string \<Rightarrow> string) \<Rightarrow> work_item list \<Rightarrow> pending_delivery list" where
  "pending_deliveries collate items =
     sort_key
       (\<lambda>d. (\<not> pd_ready d, dc_created_at (pd_context d), collate (ds_url (pd_source d))))
       (List.map_filter (project_delivery \<circ> snd)
         (collect ob_identity merge_observation (delivery_observations items) []))"

subsection \<open>The newest observation of an artifact decides\<close>

lemma merge_observation_source:
  "map_option da_source (fold_group merge_observation xs v) =
     fold_group (keep_max ds_order) (map ob_source xs) (map_option da_source v)"
  by (induction xs arbitrary: v) (auto simp: merge_observation_def keep_max_def split: option.splits)

lemma merge_observation_context:
  "map_option da_context (fold_group merge_observation xs v) =
     fold_group (keep_max (\<lambda>c. - dc_created_at c)) (map ob_context xs) (map_option da_context v)"
  by (induction xs arbitrary: v) (auto simp: merge_observation_def keep_max_def split: option.splits)

lemma merged_group:
  assumes "fold_group merge_observation xs None = Some a"
  shows "da_source a \<in> ob_source ` set xs \<and> (\<forall>x \<in> set xs. ds_order (ob_source x) \<le> ds_order (da_source a))"
    and "da_context a \<in> ob_context ` set xs \<and>
      (\<forall>x \<in> set xs. dc_created_at (da_context a) \<le> dc_created_at (ob_context x))"
proof -
  have "fold_group (keep_max ds_order) (map ob_source xs) None = Some (da_source a)"
    using merge_observation_source [of xs None] assms by simp
  from fold_group_keep_max [OF this]
  show "da_source a \<in> ob_source ` set xs \<and>
      (\<forall>x \<in> set xs. ds_order (ob_source x) \<le> ds_order (da_source a))" by auto
  have "fold_group (keep_max (\<lambda>c. - dc_created_at c)) (map ob_context xs) None = Some (da_context a)"
    using merge_observation_context [of xs None] assms by simp
  from fold_group_keep_max [OF this]
  show "da_context a \<in> ob_context ` set xs \<and>
      (\<forall>x \<in> set xs. dc_created_at (da_context a) \<le> dc_created_at (ob_context x))" by auto
qed

lemma map_filter_iff: "y \<in> set (List.map_filter f xs) \<longleftrightarrow> (\<exists>x \<in> set xs. f x = Some y)"
  by (induction xs) (auto simp: List.map_filter_simps split: option.splits)

lemma pending_iff:
  "d \<in> set (pending_deliveries collate items) \<longleftrightarrow>
     (\<exists>k a. (k, a) \<in> set (collect ob_identity merge_observation (delivery_observations items) []) \<and>
        project_delivery a = Some d)"
  by (force simp: pending_deliveries_def map_filter_iff)

text \<open>C21: Every pending delivery shows the newest observation of its artifact, which is open or a
  draft, in the context of the oldest item that reports the artifact; an artifact whose newest
  observation is open or a draft is listed; and what is ready to merge or publish comes first.\<close>

theorem pending_deliveries_show_newest_observation:
  assumes "out = pending_deliveries collate items" and "obs = set (delivery_observations items)"
  shows "(\<forall>d \<in> set out. \<exists>x \<in> obs. \<exists>y \<in> obs. pd_source d = ob_source x \<and> pd_context d = ob_context y \<and>
      ob_identity y = ob_identity x \<and> ds_state (ob_source x) \<in> {Open, DraftRelease} \<and>
      (\<forall>z \<in> obs. ob_identity z = ob_identity x \<longrightarrow>
         ds_order (ob_source z) \<le> ds_order (ob_source x) \<and>
         dc_created_at (ob_context y) \<le> dc_created_at (ob_context z))) \<and>
    (\<forall>x \<in> obs. ds_state (ob_source x) \<in> {Open, DraftRelease} \<and>
      (\<forall>z \<in> obs. ob_identity z = ob_identity x \<and> ds_order (ob_source x) \<le> ds_order (ob_source z) \<longrightarrow>
         ob_source z = ob_source x) \<longrightarrow>
      (\<exists>d \<in> set out. pd_source d = ob_source x)) \<and>
    sorted (map (\<lambda>d. \<not> pd_ready d) out)"
proof (intro conjI ballI impI)
  let ?obs = "delivery_observations items"
  let ?group = "\<lambda>k. filter (\<lambda>o'. ob_identity o' = k) ?obs"
  {
    fix d assume "d \<in> set out"
    then obtain k a where a: "(k, a) \<in> set (collect ob_identity merge_observation ?obs [])"
      and d: "project_delivery a = Some d" unfolding assms(1) pending_iff by blast
    note g = merged_group [OF collect_entry(1) [OF a]]
    from g obtain x y where x: "x \<in> set (?group k)" "da_source a = ob_source x"
      and y: "y \<in> set (?group k)" "da_context a = ob_context y" by (meson imageE)
    have "pd_source d = da_source a" "pd_context d = da_context a"
      "ds_state (da_source a) \<in> {Open, DraftRelease}"
      using d by (auto simp: project_delivery_def split: if_splits)
    with g x y show "\<exists>x \<in> obs. \<exists>y \<in> obs. pd_source d = ob_source x \<and> pd_context d = ob_context y \<and>
      ob_identity y = ob_identity x \<and> ds_state (ob_source x) \<in> {Open, DraftRelease} \<and>
      (\<forall>z \<in> obs. ob_identity z = ob_identity x \<longrightarrow>
         ds_order (ob_source z) \<le> ds_order (ob_source x) \<and>
         dc_created_at (ob_context y) \<le> dc_created_at (ob_context z))"
      unfolding assms(2) by (intro bexI [of _ x] bexI [of _ y]) auto
  }
  {
    fix x assume x: "x \<in> obs"
      and newest: "ds_state (ob_source x) \<in> {Open, DraftRelease} \<and>
        (\<forall>z \<in> obs. ob_identity z = ob_identity x \<and> ds_order (ob_source x) \<le> ds_order (ob_source z) \<longrightarrow>
           ob_source z = ob_source x)"
    obtain a where a: "(ob_identity x, a) \<in> set (collect ob_identity merge_observation ?obs [])"
      using collect_covers x unfolding assms(2) by metis
    note g = merged_group(1) [OF collect_entry(1) [OF a]]
    have "da_source a = ob_source x" using g x newest unfolding assms(2) by auto
    with newest obtain d where "project_delivery a = Some d" "pd_source d = ob_source x"
      by (auto simp: project_delivery_def)
    with a show "\<exists>d \<in> set out. pd_source d = ob_source x" unfolding assms(1) using pending_iff by blast
  }
  let ?key = "\<lambda>d. (\<not> pd_ready d, dc_created_at (pd_context d), collate (ds_url (pd_source d)))"
  have "sorted (map ?key out)" unfolding assms(1) pending_deliveries_def by (rule sorted_sort_key)
  then have "sorted_wrt (\<lambda>x y. ?key x \<le> ?key y) out" by (simp add: sorted_wrt_map)
  then show "sorted (map (\<lambda>d. \<not> pd_ready d) out)"
    unfolding sorted_wrt_map by (rule sorted_wrt_mono_rel [rotated]) (auto simp: less_eq_prod_def)
qed

definition sample_delivery :: work_item where
  "sample_delivery =
     \<lparr>wi_id = ''A'', wi_root_id = ''A'', wi_parent_id = None, wi_repository = ''acme/tool'',
      wi_kind = ''fix'', wi_objective = ''o'', wi_instructions = ''i'', wi_acceptance_criteria = [''c''],
      wi_allowed_actions = [Write, OpenPr], wi_delegable_actions = [],
      wi_required_artifact = PullRequestArtifact, wi_execution_target = Some NewPullRequest,
      wi_policy = None, wi_priority = 0, wi_status = Completed, wi_created_by = ''operator:ann'',
      wi_source_ref = None, wi_predecessors = None, wi_cure = None, wi_review = None,
      wi_created_at = 1, wi_updated_at = 9, wi_lease_owner = None, wi_lease_token = None,
      wi_lease_expires_at = None,
      wi_result = Some \<lparr>wr_summary = ''s'', wr_evidence = [],
        wr_artifacts =
          [\<lparr>wa_kind = PullRequest, wa_url = ''https://github.com/acme/tool/pull/7'', wa_description = None,
            wa_verification = Some (Verified
              \<lparr>vo_verified_at = ''2026-01-01'', vo_number = JInt 7, vo_state = Open, vo_head_sha = None,
               vo_merged_at = None, vo_closed_at = None, vo_draft = None, vo_tag = None,
               vo_published_at = None, vo_handoff = None\<rparr>)\<rparr>], wr_model = None\<rparr>,
      wi_delivery = None, wi_operator_notes = [], wi_previous_results = []\<rparr>"

theorem pending_deliveries_show_newest_observation_witness:
  "\<exists>d \<in> set (pending_deliveries id [sample_delivery]). ds_verified_at (pd_source d) = ''2026-01-01''"
proof -
  let ?x = "hd (delivery_observations [sample_delivery])"
  have obs: "delivery_observations [sample_delivery] = [?x]" by code_simp
  have "ds_state (ob_source ?x) = Open" "ds_verified_at (ob_source ?x) = ''2026-01-01''" by code_simp+
  with pending_deliveries_show_newest_observation [OF refl refl, of id "[sample_delivery]"] obs
  show ?thesis by (metis insertCI list.set(1,2) singletonD)
qed

end
