(* ===== verification/Predecessor_Cycles.thy ===== *)
theory Predecessor_Cycles
  imports Sample_Run
begin

text \<open>
  What the surface says about the predecessors of an item
  (\<open>src/src/surface/predecessor-state.ts\<close>): the verdicts of the store, a label for each, and
  whether the unmet edges lead back to the item. The walk is a depth-first search that gives up
  after two hundred items; it is first a function of any successor function, so that its
  soundness and completeness are facts about graphs. The cache of the source memoizes reads of
  an unchanged database and is left out.
\<close>

subsection \<open>The bounded walk\<close>

definition cycle_walk_limit :: nat where "cycle_walk_limit = 200"

text \<open>\<open>frontier.pop()\<close> takes the newest entry, which is the head here.\<close>

function walk :: "('i \<Rightarrow> 'e + 'i list) \<Rightarrow> 'i \<Rightarrow> 'i list \<Rightarrow> 'i list \<Rightarrow> 'e + bool" where
  "walk next' start [] seen = Inr False"
| "walk next' start (i # frontier) seen =
     (if cycle_walk_limit \<le> length seen then Inr False
      else if i = start then Inr True
      else if i \<in> set seen then walk next' start frontier seen
      else
        (case next' i of
           Inl e \<Rightarrow> Inl e
         | Inr targets \<Rightarrow> walk next' start (rev targets @ frontier) (i # seen)))"
  by pat_completeness auto
termination
  by (relation "measures [\<lambda>(_, _, _, seen). cycle_walk_limit - length seen,
        \<lambda>(_, _, frontier, _). length frontier]") auto

definition edges_of :: "('i \<Rightarrow> 'e + 'i list) \<Rightarrow> ('i \<times> 'i) set" where
  "edges_of next' = {(i, j). \<exists>targets. next' i = Inr targets \<and> j \<in> set targets}"

lemma walk_sound:
  "walk next' start frontier seen = Inr True \<Longrightarrow> \<exists>i \<in> set frontier. (i, start) \<in> (edges_of next')\<^sup>*"
proof (induction next' start frontier seen rule: walk.induct)
  case (1 next' start seen)
  then show ?case by simp
next
  case (2 next' start i frontier seen)
  consider "i = start" | "walk next' start frontier seen = Inr True" "i \<in> set seen" "i \<noteq> start"
      "\<not> cycle_walk_limit \<le> length seen"
    | targets where "next' i = Inr targets" "i \<notin> set seen" "i \<noteq> start"
      "\<not> cycle_walk_limit \<le> length seen"
      "walk next' start (rev targets @ frontier) (i # seen) = Inr True"
    using "2.prems" by (auto split: if_splits sum.splits)
  then show ?case
  proof cases
    case 1
    then show ?thesis by auto
  next
    case 2
    with "2.IH"(1) show ?thesis by auto
  next
    case 3
    with "2.IH"(2) obtain j where j: "j \<in> set targets \<or> j \<in> set frontier" "(j, start) \<in> (edges_of next')\<^sup>*"
      by auto
    then show ?thesis
    proof (elim disjE)
      assume "j \<in> set targets"
      with 3(1) have "(i, j) \<in> edges_of next'" by (auto simp: edges_of_def)
      with j(2) show ?thesis by (auto intro: converse_rtrancl_into_rtrancl)
    qed auto
  qed
qed

lemma walk_complete:
  assumes "walk next' start frontier seen = Inr False"
    and "finite U" and "card U < cycle_walk_limit" and "set frontier \<subseteq> U"
    and "\<And>i targets. i \<in> U \<Longrightarrow> next' i = Inr targets \<Longrightarrow> set targets \<subseteq> U"
    and "distinct seen" and "set seen \<subseteq> U" and "start \<notin> set seen"
    and "\<forall>i \<in> set seen. \<exists>targets. next' i = Inr targets \<and> set targets \<subseteq> set seen \<union> set frontier"
  shows "\<exists>closed. set frontier \<union> set seen \<subseteq> closed \<and> start \<notin> closed \<and>
    edges_of next' `` closed \<subseteq> closed"
  using assms
proof (induction next' start frontier seen rule: walk.induct)
  case (1 next' start seen)
  have "edges_of next' `` set seen \<subseteq> set seen" using "1.prems"(9) by (force simp: edges_of_def)
  with "1.prems"(8) show ?case by (intro exI [of _ "set seen"]) auto
next
  case (2 next' start i frontier seen)
  have "length seen = card (set seen)" using "2.prems"(6) by (simp add: distinct_card)
  with "2.prems"(2,3,7) have low: "\<not> cycle_walk_limit \<le> length seen"
    using card_mono [of U "set seen"] by linarith
  with "2.prems"(1) have other: "i \<noteq> start" by auto
  show ?case
  proof (cases "i \<in> set seen")
    case True
    have "set seen \<union> set (i # frontier) = set seen \<union> set frontier" using True by auto
    note closed = "2.prems"(9) [unfolded this]
    have more: "walk next' start frontier seen = Inr False" using "2.prems"(1) low other True by simp
    have sub: "set frontier \<subseteq> U" using "2.prems"(4) by simp
    have "\<exists>closed. set frontier \<union> set seen \<subseteq> closed \<and> start \<notin> closed \<and>
        edges_of next' `` closed \<subseteq> closed"
      by (rule "2.IH"(1) [OF low other True more "2.prems"(2,3) sub _ "2.prems"(6-8) closed])
        (rule "2.prems"(5))
    then obtain C where "set frontier \<union> set seen \<subseteq> C" "start \<notin> C" "edges_of next' `` C \<subseteq> C"
      by (elim exE conjE)
    with True show ?thesis by (intro exI [of _ C]) auto
  next
    case False
    with "2.prems"(1) low other obtain targets where targets: "next' i = Inr targets"
      and rest: "walk next' start (rev targets @ frontier) (i # seen) = Inr False"
      by (auto split: sum.splits)
    have "i \<in> U" using "2.prems"(4) by simp
    then have sub: "set targets \<subseteq> U" using targets by (rule "2.prems"(5))
    have "\<exists>closed. set (rev targets @ frontier) \<union> set (i # seen) \<subseteq> closed \<and> start \<notin> closed \<and>
        edges_of next' `` closed \<subseteq> closed"
    proof (rule "2.IH"(2) [OF low other False targets rest "2.prems"(2,3)])
      show "\<forall>j \<in> set (i # seen). \<exists>ts. next' j = Inr ts \<and>
          set ts \<subseteq> set (i # seen) \<union> set (rev targets @ frontier)"
        using "2.prems"(9) targets by fastforce
    qed (use "2.prems" sub other False in auto)
    then show ?thesis by auto
  qed
qed

subsection \<open>The predecessors of one item\<close>

datatype predecessor_label =
  LabelMet | LabelCycle | LabelNotImported | LabelCancelled | LabelNotCompleted | LabelNotDelivered

record predecessor_entry =
  pe_status :: predecessor_status
  pe_label :: predecessor_label
  pe_cycle :: bool

record predecessor_summary =
  su_entries :: "predecessor_entry list"
  su_unmet :: "predecessor_entry list"
  su_nearest :: "predecessor_entry option"
  su_cycle :: bool

definition label_for :: "predecessor_status \<Rightarrow> bool \<Rightarrow> predecessor_label" where
  "label_for status cycle =
     (if ps_satisfied status then LabelMet
      else if cycle then LabelCycle
      else if ps_item_id status = None then LabelNotImported
      else if ps_status status = Some Cancelled then LabelCancelled
      else if ps_status status \<noteq> Some Completed then LabelNotCompleted
      else LabelNotDelivered)"

text \<open>The unmet edges of one item that lead to another item.\<close>

definition unmet_targets :: "store \<Rightarrow> string \<Rightarrow> string list res" where
  "unmet_targets s i =
     and_then (predecessor_statuses i s) (\<lambda>statuses.
     Inr (List.map_filter ps_item_id (filter (\<lambda>status. \<not> ps_satisfied status) statuses)))"

definition loops_back :: "store \<Rightarrow> string \<Rightarrow> string \<Rightarrow> bool res" where
  "loops_back s start from' = walk (unmet_targets s) start [from'] []"

definition predecessor_entry_of :: "store \<Rightarrow> string \<Rightarrow> predecessor_status \<Rightarrow> predecessor_entry res" where
  "predecessor_entry_of s i status =
     and_then
       (case ps_item_id status of
          Some j \<Rightarrow> if ps_satisfied status then Inr False else loops_back s i j
        | None \<Rightarrow> Inr False) (\<lambda>cycle.
     Inr \<lparr>pe_status = status, pe_label = label_for status cycle, pe_cycle = cycle\<rparr>)"

definition read_predecessors :: "store \<Rightarrow> work_item \<Rightarrow> predecessor_summary option res" where
  "read_predecessors s item =
     (case non_empty (wi_predecessors item) of
        None \<Rightarrow> Inr None
      | Some _ \<Rightarrow>
          and_then (predecessor_statuses (wi_id item) s) (\<lambda>statuses.
          and_then (map_res (predecessor_entry_of s (wi_id item)) statuses) (\<lambda>entries.
          let unmet = filter (\<lambda>e. \<not> ps_satisfied (pe_status e)) entries in
          Inr (Some
            \<lparr>su_entries = entries, su_unmet = unmet,
             su_nearest = (case unmet of [] \<Rightarrow> None | e # _ \<Rightarrow> Some e),
             su_cycle = list_ex pe_cycle entries\<rparr>))))"

datatype wait_chip =
    InQueue
  | WaitingFor string predecessor_label
  | CycleStop string

definition predecessor_wait :: "predecessor_summary \<Rightarrow> wait_chip" where
  "predecessor_wait summary =
     (case su_nearest summary of
        None \<Rightarrow> InQueue
      | Some nearest \<Rightarrow>
          if su_cycle summary
          then CycleStop (ps_source_ref (pe_status
            (case List.find pe_cycle (su_entries summary) of Some e \<Rightarrow> e | None \<Rightarrow> nearest)))
          else WaitingFor (ps_source_ref (pe_status nearest)) (pe_label nearest))"

subsection \<open>The walk follows the unmet edges of the store\<close>

lemma evaluate_predecessor_item:
  assumes "ps_item_id (evaluate_predecessor s ref) = Some j"
  shows "j \<in> r_id ` set (st_items s)"
proof -
  have "\<exists>item \<in> set (carriers ref s). wi_id item = j"
    using assms by (cases "carriers ref s")
      (auto simp: evaluate_predecessor_def split: option.splits if_splits dest!: find_SomeD)
  then show ?thesis by (auto simp: set_carriers)
qed

definition unmet_edges :: "store \<Rightarrow> (string \<times> string) set" where
  "unmet_edges s =
     {(i, j). \<exists>r ref. find_row i s = Some r \<and> ref \<in> set (parse_json (r_predecessors r) []) \<and>
        \<not> ps_satisfied (evaluate_predecessor s ref) \<and>
        ps_item_id (evaluate_predecessor s ref) = Some j}"

lemma predecessor_statuses_Inr:
  "predecessor_statuses i s = Inr statuses \<longleftrightarrow>
     (\<exists>r. find_row i s = Some r \<and> statuses = map (evaluate_predecessor s) (parse_json (r_predecessors r) []))"
proof -
  have "(case wi_predecessors (item_of r) of None \<Rightarrow> [] | Some ps \<Rightarrow> ps) = parse_json (r_predecessors r) []"
    for r by (cases "r_predecessors r") simp_all
  then show ?thesis
    unfolding predecessor_statuses_def and_then_Inr_iff get_required_Inr by auto
qed

lemma unmet_targets_Inr:
  assumes "unmet_targets s i = Inr targets"
  shows "set targets = {j. (i, j) \<in> unmet_edges s}" and "\<exists>r. find_row i s = Some r"
proof -
  obtain r where r: "find_row i s = Some r" and targets: "targets = List.map_filter ps_item_id
      (filter (\<lambda>status. \<not> ps_satisfied status)
        (map (evaluate_predecessor s) (parse_json (r_predecessors r) [])))"
    using assms unfolding unmet_targets_def and_then_Inr_iff predecessor_statuses_Inr by auto
  show "\<exists>r. find_row i s = Some r" using r by blast
  show "set targets = {j. (i, j) \<in> unmet_edges s}"
    using r by (force simp: targets unmet_edges_def map_filter_def)
qed

lemma unmet_targets_row: "find_row i s = Some r \<Longrightarrow> \<exists>targets. unmet_targets s i = Inr targets"
  by (auto simp: unmet_targets_def and_then_Inr_iff predecessor_statuses_Inr)

lemma edges_unmet: "edges_of (unmet_targets s) = unmet_edges s"
proof (intro set_eqI, clarify)
  fix i j
  show "(i, j) \<in> edges_of (unmet_targets s) \<longleftrightarrow> (i, j) \<in> unmet_edges s"
  proof
    assume "(i, j) \<in> edges_of (unmet_targets s)"
    then show "(i, j) \<in> unmet_edges s" using unmet_targets_Inr(1) by (fastforce simp: edges_of_def)
  next
    assume ij: "(i, j) \<in> unmet_edges s"
    then obtain targets where "unmet_targets s i = Inr targets"
      using unmet_targets_row by (fastforce simp: unmet_edges_def)
    with ij unmet_targets_Inr(1) show "(i, j) \<in> edges_of (unmet_targets s)"
      by (fastforce simp: edges_of_def)
  qed
qed

lemma unmet_edges_ids: "(i, j) \<in> unmet_edges s \<Longrightarrow> j \<in> r_id ` set (st_items s)"
  by (auto simp: unmet_edges_def dest: evaluate_predecessor_item)

lemma loops_back_sound:
  "loops_back s start j = Inr True \<Longrightarrow> (j, start) \<in> (unmet_edges s)\<^sup>*"
  unfolding loops_back_def using walk_sound [of "unmet_targets s" start "[j]" "[]"]
  by (simp add: edges_unmet)

lemma loops_back_complete:
  assumes "loops_back s start j = Inr False" and "length (st_items s) < cycle_walk_limit"
    and "j \<in> r_id ` set (st_items s)"
  shows "(j, start) \<notin> (unmet_edges s)\<^sup>*"
proof
  assume path: "(j, start) \<in> (unmet_edges s)\<^sup>*"
  have card: "card (r_id ` set (st_items s)) < cycle_walk_limit"
    using assms(2) card_image_le [of "set (st_items s)" r_id] card_length [of "st_items s"] by simp
  have "\<exists>closed. set [j] \<union> set [] \<subseteq> closed \<and> start \<notin> closed \<and>
      edges_of (unmet_targets s) `` closed \<subseteq> closed"
    by (rule walk_complete [OF assms(1) [unfolded loops_back_def] _ card])
      (use assms(3) unmet_targets_Inr(1) unmet_edges_ids in auto)
  then obtain closed where "j \<in> closed" "start \<notin> closed" "unmet_edges s `` closed \<subseteq> closed"
    by (auto simp: edges_unmet)
  moreover from this(3) have "(unmet_edges s)\<^sup>* `` closed = closed" by (rule Image_closed_trancl)
  ultimately show False using path by blast
qed

lemma walk_total:
  assumes "\<And>i. i \<in> U \<Longrightarrow> \<exists>targets. next' i = Inr targets \<and> set targets \<subseteq> U"
    and "set frontier \<subseteq> U"
  shows "\<exists>b. walk next' start frontier seen = Inr b"
  using assms
proof (induction next' start frontier seen rule: walk.induct)
  case (1 next' start seen)
  then show ?case by (intro exI [of _ False]) simp
next
  case (2 next' start i frontier seen)
  consider "cycle_walk_limit \<le> length seen \<or> i = start" | "\<not> cycle_walk_limit \<le> length seen" "i \<noteq> start" "i \<in> set seen"
    | "\<not> cycle_walk_limit \<le> length seen" "i \<noteq> start" "i \<notin> set seen" by blast
  then show ?case
  proof cases
    case 1
    then show ?thesis by (cases "cycle_walk_limit \<le> length seen") auto
  next
    case 2
    have "\<exists>b. walk next' start frontier seen = Inr b"
      by (rule "2.IH"(1) [OF 2 "2.prems"(1)]) (use "2.prems"(2) in auto)
    with 2 show ?thesis by simp
  next
    case 3
    obtain targets where targets: "next' i = Inr targets" "set targets \<subseteq> U"
      using "2.prems" by (metis insertCI list.set(2) subsetD)
    have "\<exists>b. walk next' start (rev targets @ frontier) (i # seen) = Inr b"
      by (rule "2.IH"(2) [OF 3 targets(1) "2.prems"(1)]) (use "2.prems"(2) targets(2) in auto)
    with 3 targets(1) show ?thesis by simp
  qed
qed

lemma map_res_Inr:
  "map_res f xs = Inr ys \<Longrightarrow> length ys = length xs \<and> (\<forall>i < length xs. f (xs ! i) = Inr (ys ! i))"
proof (induction xs arbitrary: ys)
  case Nil
  then show ?case by simp
next
  case (Cons x xs)
  then show ?case by (auto simp: and_then_Inr_iff nth_Cons split: nat.split)
qed

lemma map_res_total: "(\<And>x. x \<in> set xs \<Longrightarrow> \<exists>y. f x = Inr y) \<Longrightarrow> \<exists>ys. map_res f xs = Inr ys"
  by (induction xs) fastforce+

lemma loops_back_total:
  assumes "distinct (map r_id (st_items s))" and "j \<in> r_id ` set (st_items s)"
  shows "\<exists>b. loops_back s start j = Inr b"
  unfolding loops_back_def
proof (rule walk_total)
  fix i assume "i \<in> r_id ` set (st_items s)"
  then have "\<exists>r. find_row i s = Some r"
    using item_table.lookup_None_iff [of i s] by (metis not_None_eq)
  then obtain targets where "unmet_targets s i = Inr targets" using unmet_targets_row by blast
  then show "\<exists>targets. unmet_targets s i = Inr targets \<and> set targets \<subseteq> r_id ` set (st_items s)"
    using unmet_targets_Inr(1) unmet_edges_ids by blast
qed (use assms(2) in simp)

lemma read_predecessors_entries:
  assumes "find_row i s = Some r" and "distinct (map r_id (st_items s))"
    and "parse_json (r_predecessors r) [] \<noteq> []"
  obtains summary where "read_predecessors s (item_of r) = Inr (Some summary)"
    and "map pe_status (su_entries summary) = map (evaluate_predecessor s) (parse_json (r_predecessors r) [])"
    and "\<forall>e \<in> set (su_entries summary).
      predecessor_entry_of s i (pe_status e) = Inr e"
    and "su_unmet summary = filter (\<lambda>e. \<not> ps_satisfied (pe_status e)) (su_entries summary)"
proof -
  let ?refs = "parse_json (r_predecessors r) []"
  let ?sts = "map (evaluate_predecessor s) ?refs"
  have id: "wi_id (item_of r) = i" using assms(1) by (auto dest: item_table.lookup_SomeD)
  have some: "non_empty (wi_predecessors (item_of r)) = Some ?refs"
    using assms(3) by (cases "r_predecessors r") (simp_all add: non_empty_def)
  have total: "\<exists>e. predecessor_entry_of s i st = Inr e" if "st \<in> set ?sts" for st
    using that loops_back_total [OF assms(2), of _ i] evaluate_predecessor_item
    by (fastforce simp: predecessor_entry_of_def split: option.split)
  have "\<exists>entries. map_res (predecessor_entry_of s i) ?sts = Inr entries"
    by (rule map_res_total) (rule total)
  then obtain entries where entries: "map_res (predecessor_entry_of s i) ?sts = Inr entries" by blast
  note nth = map_res_Inr [OF entries]
  have status: "pe_status e = st" if "predecessor_entry_of s i st = Inr e" for st e
    using that by (auto simp: predecessor_entry_of_def and_then_Inr_iff)
  have "map pe_status entries = ?sts"
    by (rule nth_equalityI) (use nth status in auto)
  moreover have "\<forall>e \<in> set entries. predecessor_entry_of s i (pe_status e) = Inr e"
    using nth status by (metis in_set_conv_nth)
  moreover have "predecessor_statuses i s = Inr ?sts"
    using assms(1) predecessor_statuses_Inr by blast
  ultimately show thesis
    using that some id entries by (simp add: read_predecessors_def Let_def)
qed


definition sample_loop :: store where
  "sample_loop =
     (let r = hd (st_items sample2) in
      sample2\<lparr>st_items :=
        [r\<lparr>r_source_ref := Some ''a'', r_predecessors := Json [''b'']\<rparr>,
         r\<lparr>r_id := ''B'', r_source_ref := Some ''b'', r_predecessors := Json [''a'']\<rparr>]\<rparr>)"


end
