(* ===== verification/Review_Board.thy ===== *)
theory Review_Board
  imports Work_Records
begin

text \<open>
  The review gate as the board shows it (\<open>src/src/surface/review-state.ts\<close>), with the partition
  of blockers of \<open>src/src/queue/pull-request-review.ts\<close>: one row per pull request, derived from
  the \<open>pr-review\<close> and \<open>pr-review-fix\<close> items bound to it, its head and whether it is a draft. The
  reason text of a row is the list of the parts the code joins by \<open>"; "\<close>, empty where the code
  has none. Rounds are integers, which the store checks of every review record.
\<close>

subsection \<open>Blockers\<close>

definition description_blocker_prefix :: string where
  "description_blocker_prefix = ''contract:pr-body:''"

definition describes_body :: "review_blocker \<Rightarrow> bool" where
  "describes_body b = prefix description_blocker_prefix (rb_fingerprint b)"

definition description_blockers :: "review_blocker list \<Rightarrow> review_blocker list" where
  "description_blockers bs = filter describes_body bs"

definition tree_blockers :: "review_blocker list \<Rightarrow> review_blocker list" where
  "tree_blockers bs = filter (\<lambda>b. \<not> describes_body b) bs"

text \<open>\<open>xs ?? []\<close>.\<close>

definition or_empty :: "'a list option \<Rightarrow> 'a list" where
  "or_empty x = (case x of None \<Rightarrow> [] | Some xs \<Rightarrow> xs)"

text \<open>
  The rule both the sweep and the board apply to a blocking verdict: nothing but description
  blockers is left, and the previous round already reported each of them.
\<close>

definition only_outstanding :: "pull_request_review \<Rightarrow> bool" where
  "only_outstanding review =
     (let blockers = or_empty (pr_blockers review);
          prior = map rb_fingerprint (description_blockers (pr_prior_blockers review)) in
      tree_blockers blockers = [] \<and> description_blockers blockers \<noteq> [] \<and>
      list_all (\<lambda>b. rb_fingerprint b \<in> set prior) (description_blockers blockers))"

subsection \<open>Review items\<close>

type_synonym bound_item = "work_item \<times> pull_request_review"

definition bound_items :: "work_item list \<Rightarrow> bound_item list" where
  "bound_items items =
     List.map_filter (\<lambda>item. map_option (\<lambda>review. (item, review)) (wi_review item)) items"

definition review_kind :: string where "review_kind = ''pr-review''"
definition review_fix_kind :: string where "review_fix_kind = ''pr-review-fix''"

definition round_of :: "bound_item \<Rightarrow> int" where
  "round_of b = js_int (pr_round (snd b))"

definition completed_reviews :: "bound_item list \<Rightarrow> bound_item list" where
  "completed_reviews bound =
     sort_key round_of
       (filter (\<lambda>(item, review). wi_kind item = review_kind \<and> wi_status item = Completed \<and>
          pr_decision review \<noteq> None) bound)"

definition last_option :: "'a list \<Rightarrow> 'a option" where
  "last_option xs = (if xs = [] then None else Some (last xs))"

definition in_flight :: "bound_item \<Rightarrow> bool" where
  "in_flight b = (wi_status (fst b) = Queued \<or> wi_status (fst b) = Claimed)"

subsection \<open>The row\<close>

datatype review_reason =
    ReviewerUnable
  | FixWithoutNewHead
  | BlockedAtRound int
  | FixBlocked
  | BudgetExhausted
  | ItemBlocked string
  | DescriptionLead int "review_blocker list"

record review_row =
  rw_item_id :: string
  rw_kind :: string
  rw_status :: work_status
  rw_round :: int
  rw_head_sha :: string
  rw_decision :: "review_decision option"
  rw_active :: bool
  rw_needs_human :: bool
  rw_ready_to_mark :: bool
  rw_reason :: "review_reason list"

definition describe_bound_description_blockers :: "bound_item list \<Rightarrow> string \<Rightarrow> review_reason option" where
  "describe_bound_description_blockers bound head =
     (case last_option
        (sort_key round_of
          (filter (\<lambda>(item, review). wi_kind item = review_kind \<and> wi_status item = Completed \<and>
             pr_decision review = Some Block \<and> to_lower (pr_head_sha review) = head) bound)) of
        None \<Rightarrow> None
      | Some blocked \<Rightarrow>
          (let ds = description_blockers (or_empty (pr_blockers (snd blocked))) in
           if ds = [] then None else Some (DescriptionLead (round_of blocked) ds)))"

definition with_note :: "review_reason option \<Rightarrow> string option \<Rightarrow> review_row \<Rightarrow> review_row" where
  "with_note note head row =
     (case note of
        None \<Rightarrow> row
      | Some n \<Rightarrow>
          if Some (to_lower (rw_head_sha row)) \<noteq> head then row
          else row\<lparr>rw_needs_human := True, rw_reason := rw_reason row @ [n]\<rparr>)"

definition row_of_item :: "bound_item \<Rightarrow> review_row" where
  "row_of_item b =
     \<lparr>rw_item_id = wi_id (fst b), rw_kind = wi_kind (fst b), rw_status = wi_status (fst b),
      rw_round = round_of b, rw_head_sha = pr_head_sha (snd b), rw_decision = pr_decision (snd b),
      rw_active = False, rw_needs_human = False, rw_ready_to_mark = False, rw_reason = []\<rparr>"

text \<open>The row of a pull request whose current head the newest completed round has judged.\<close>

definition judged_row :: "bound_item list \<Rightarrow> string \<Rightarrow> bool \<Rightarrow> bound_item \<Rightarrow> review_row" where
  "judged_row bound head draft latest =
     (let base = (row_of_item latest)\<lparr>rw_kind := review_kind\<rparr>; review = snd latest in
      if pr_decision review = Some Pass then base\<lparr>rw_ready_to_mark := draft\<rparr>
      else if pr_decision review = Some UnableToReview
      then base\<lparr>rw_needs_human := True, rw_reason := [ReviewerUnable]\<rparr>
      else if only_outstanding review then base\<lparr>rw_ready_to_mark := draft\<rparr>
      else if list_ex (\<lambda>(item, r). wi_kind item = review_fix_kind \<and> wi_status item = Completed \<and>
                to_lower (pr_head_sha r) = head) bound
      then base\<lparr>rw_needs_human := True, rw_reason := [FixWithoutNewHead]\<rparr>
      else if max_review_rounds \<le> round_of latest
      then base\<lparr>rw_needs_human := True, rw_reason := [BlockedAtRound (round_of latest)]\<rparr>
      else
        (case List.find (\<lambda>(item, r). wi_kind item = review_fix_kind \<and> wi_status item = Blocked \<and>
                to_lower (pr_head_sha r) = head) bound of
           Some fix' \<Rightarrow>
             (row_of_item fix')\<lparr>rw_kind := review_fix_kind, rw_status := Blocked,
               rw_decision := Some Block, rw_needs_human := True, rw_reason := [FixBlocked]\<rparr>
         | None \<Rightarrow> base))"

text \<open>The row of a pull request whose current head no completed round has judged.\<close>

definition unjudged_row :: "bound_item list \<Rightarrow> bound_item list \<Rightarrow> review_row" where
  "unjudged_row bound completed =
     (let newest = last bound; round = int (length completed) + 1;
          decision =
            (case last_option completed of None \<Rightarrow> None | Some latest \<Rightarrow> pr_decision (snd latest));
          base = (row_of_item newest)\<lparr>rw_decision := decision\<rparr> in
      if max_review_rounds < round
      then base\<lparr>rw_round := int (length completed), rw_needs_human := True,
             rw_reason := [BudgetExhausted]\<rparr>
      else if wi_status (fst newest) = Blocked
      then base\<lparr>rw_needs_human := True, rw_reason := [ItemBlocked (wi_kind (fst newest))]\<rparr>
      else base)"

definition derive_review_state ::
    "work_item list \<Rightarrow> string option \<Rightarrow> bool \<Rightarrow> review_row option"
where
  "derive_review_state items current_head draft =
     (let bound = bound_items items;
          head = map_option to_lower current_head;
          note =
            (case head of
               None \<Rightarrow> None
             | Some h \<Rightarrow> if h = [] then None else describe_bound_description_blockers bound h);
          completed = completed_reviews bound in
      if bound = [] then None
      else
        Some (with_note note head
          (case List.find in_flight bound of
             Some b \<Rightarrow> (row_of_item b)\<lparr>rw_decision := None, rw_active := True\<rparr>
           | None \<Rightarrow>
               (case (last_option completed, head) of
                  (Some latest, Some h) \<Rightarrow>
                    if h \<noteq> [] \<and> to_lower (pr_head_sha (snd latest)) = h
                    then judged_row bound h draft latest
                    else unjudged_row bound completed
                | _ \<Rightarrow> unjudged_row bound completed))))"

definition settle_review_state :: "review_row option \<Rightarrow> review_row option" where
  "settle_review_state row =
     map_option
       (\<lambda>r. r\<lparr>rw_active := False, rw_needs_human := False, rw_ready_to_mark := False, rw_reason := []\<rparr>)
       row"

end
