(* ===== verification/Path_Boundary.thy ===== *)
theory Path_Boundary
  imports Snowcat_Prelude
begin

text \<open>
  Does a changed path fall inside a protected boundary (\<open>pathTouchesBoundary\<close> of
  \<open>src/src/queue/pull-request-review.ts\<close>)? The code turns the pattern into a regular expression:
  \<open>**\<close> becomes \<open>.*\<close>, \<open>*\<close> becomes \<open>[^/]*\<close>, and the other characters are escaped by the class
  \<open>[.+^${}()|[\]\\]\<close>, which leaves \<open>?\<close> out. A question mark in a pattern is therefore the
  quantifier of what stands before it (an optional character, or a lazy star), or a syntax error
  where there is nothing to quantify; \<open>path_pieces\<close> is that reading of a pattern.
\<close>

datatype piece =
    Literal char
  | Optional char
  | AnySegment
  | AnyPath

definition line_end :: "char \<Rightarrow> bool" where
  "line_end c = (c = CHR 0x0A \<or> c = CHR 0x0D)"

datatype atom = AChar char | AStar | AStarStar | AQuestion

definition atom_of :: "char \<Rightarrow> atom" where
  "atom_of c = (if c = CHR ''*'' then AStar else if c = CHR ''?'' then AQuestion else AChar c)"

fun atoms :: "string \<Rightarrow> atom list" where
  "atoms [] = []"
| "atoms [c] = [atom_of c]"
| "atoms (c # d # cs) =
     (if c = CHR ''*'' \<and> d = CHR ''*'' then AStarStar # atoms cs else atom_of c # atoms (d # cs))"

text \<open>
  A lazy star matches what the greedy star matches, so the \<open>?\<close> after it disappears; the second
  \<open>?\<close> after a character only makes the first lazy. One more is an error.
\<close>

fun quantify :: "atom list \<Rightarrow> piece list option" where
  "quantify [] = Some []"
| "quantify (AQuestion # as) = None"
| "quantify (AStar # AQuestion # as) = map_option ((#) AnySegment) (quantify as)"
| "quantify (AStar # as) = map_option ((#) AnySegment) (quantify as)"
| "quantify (AStarStar # AQuestion # as) = map_option ((#) AnyPath) (quantify as)"
| "quantify (AStarStar # as) = map_option ((#) AnyPath) (quantify as)"
| "quantify (AChar c # AQuestion # AQuestion # as) = map_option ((#) (Optional c)) (quantify as)"
| "quantify (AChar c # AQuestion # as) = map_option ((#) (Optional c)) (quantify as)"
| "quantify (AChar c # as) = map_option ((#) (Literal c)) (quantify as)"

definition path_pieces :: "string \<Rightarrow> piece list option" where
  "path_pieces pattern = quantify (atoms pattern)"

fun pieces_match :: "piece list \<Rightarrow> string \<Rightarrow> bool" where
  "pieces_match [] s = (s = [])"
| "pieces_match (Literal c # ps) s = (case s of [] \<Rightarrow> False | x # xs \<Rightarrow> x = c \<and> pieces_match ps xs)"
| "pieces_match (Optional c # ps) s =
     (pieces_match ps s \<or> (case s of [] \<Rightarrow> False | x # xs \<Rightarrow> x = c \<and> pieces_match ps xs))"
| "pieces_match (AnySegment # ps) [] = pieces_match ps []"
| "pieces_match (AnySegment # ps) (x # xs) =
     (pieces_match ps (x # xs) \<or> x \<noteq> CHR ''/'' \<and> pieces_match (AnySegment # ps) xs)"
| "pieces_match (AnyPath # ps) [] = pieces_match ps []"
| "pieces_match (AnyPath # ps) (x # xs) =
     (pieces_match ps (x # xs) \<or> \<not> line_end x \<and> pieces_match (AnyPath # ps) xs)"

text \<open>\<open>None\<close> is the syntax error of \<open>new RegExp\<close>.\<close>

definition path_touches_boundary :: "string \<Rightarrow> string \<Rightarrow> bool option" where
  "path_touches_boundary path pattern = map_option (\<lambda>ps. pieces_match ps path) (path_pieces pattern)"

subsection \<open>The language of a pattern\<close>

fun piece_language :: "piece \<Rightarrow> string set" where
  "piece_language (Literal c) = {[c]}"
| "piece_language (Optional c) = {[], [c]}"
| "piece_language AnySegment = {s. CHR ''/'' \<notin> set s}"
| "piece_language AnyPath = {s. \<forall>c \<in> set s. \<not> line_end c}"

fun pattern_language :: "piece list \<Rightarrow> string set" where
  "pattern_language [] = {[]}"
| "pattern_language (p # ps) = {u @ v | u v. u \<in> piece_language p \<and> v \<in> pattern_language ps}"

lemma star_language:
  "(\<exists>u v. x # xs = u @ v \<and> (\<forall>c \<in> set u. P c) \<and> v \<in> L) \<longleftrightarrow>
     x # xs \<in> L \<or> P x \<and> (\<exists>u v. xs = u @ v \<and> (\<forall>c \<in> set u. P c) \<and> v \<in> L)"
  (is "?lhs \<longleftrightarrow> ?rhs")
proof
  assume ?lhs
  then obtain u v where uv: "x # xs = u @ v" "\<forall>c \<in> set u. P c" "v \<in> L" by blast
  then show ?rhs by (cases u) auto
next
  assume ?rhs
  then show ?lhs
  proof
    assume "x # xs \<in> L"
    then show ?lhs by (intro exI [of _ "[]"] exI [of _ "x # xs"]) simp
  next
    assume "P x \<and> (\<exists>u v. xs = u @ v \<and> (\<forall>c \<in> set u. P c) \<and> v \<in> L)"
    then obtain u v where "P x" "xs = u @ v" "\<forall>c \<in> set u. P c" "v \<in> L" by blast
    then show ?lhs by (intro exI [of _ "x # u"] exI [of _ v]) simp
  qed
qed

lemma in_pattern_language:
  "s \<in> pattern_language (p # ps) \<longleftrightarrow>
     (\<exists>u v. s = u @ v \<and> u \<in> piece_language p \<and> v \<in> pattern_language ps)"
  by simp

lemma stars_are_runs:
  "u \<in> piece_language AnySegment \<longleftrightarrow> (\<forall>c \<in> set u. c \<noteq> CHR ''/'')"
  "u \<in> piece_language AnyPath \<longleftrightarrow> (\<forall>c \<in> set u. \<not> line_end c)"
  by auto

lemma pieces_match_language: "pieces_match ps s \<longleftrightarrow> s \<in> pattern_language ps"
proof (induction ps s rule: pieces_match.induct)
  case (1 s)
  then show ?case by simp
next
  case (2 c ps s)
  then show ?case by (cases s) auto
next
  case (3 c ps s)
  have "s \<in> pattern_language (Optional c # ps) \<longleftrightarrow>
      s \<in> pattern_language ps \<or> (\<exists>v. s = [c] @ v \<and> v \<in> pattern_language ps)"
    unfolding in_pattern_language piece_language.simps by (metis append_Nil insert_iff singletonD)
  with 3 show ?case by (cases s) auto
next
  case (4 ps)
  have "[] \<in> pattern_language (AnySegment # ps) \<longleftrightarrow> [] \<in> pattern_language ps" by simp
  with 4 show ?case by simp
next
  case (5 ps x xs)
  show ?case
    unfolding in_pattern_language stars_are_runs star_language pieces_match.simps
    by (simp only: 5 in_pattern_language stars_are_runs)
next
  case (6 ps)
  have "[] \<in> pattern_language (AnyPath # ps) \<longleftrightarrow> [] \<in> pattern_language ps" by simp
  with 6 show ?case by simp
next
  case (7 ps x xs)
  show ?case
    unfolding in_pattern_language stars_are_runs star_language pieces_match.simps
    by (simp only: 7 in_pattern_language stars_are_runs)
qed

lemma quantify_Some: "AQuestion \<notin> set as \<Longrightarrow> \<exists>ps. quantify as = Some ps"
  by (induction as rule: quantify.induct) auto

lemma atoms_plain: "CHR ''?'' \<notin> set s \<Longrightarrow> AQuestion \<notin> set (atoms s)"
  by (induction s rule: atoms.induct) (auto simp: atom_of_def split: if_splits)



text \<open>A boundary whose path has a question mark does not protect that path, and protects others.\<close>

lemma question_mark_is_not_literal:
  "path_touches_boundary ''a?b'' ''a?b'' = Some False"
  "path_touches_boundary ''b'' ''a?b'' = Some True"
  "path_touches_boundary ''x'' ''?x'' = None"
  by code_simp+

subsection \<open>The paths that are looked at\<close>

text \<open>
  \<open>readChangedFilenames\<close>: three pages of at most a hundred files. \<open>pages\<close> is what GitHub answers
  for a page, \<open>None\<close> when it is not a list; \<open>None\<close> in a page is an entry with no file name. A
  third page that is full ends the loop like one that is not.
\<close>

fun read_filenames ::
    "(nat \<Rightarrow> string option list option) \<Rightarrow> nat \<Rightarrow> nat \<Rightarrow> string list \<Rightarrow> string list option"
where
  "read_filenames pages page 0 names = Some names"
| "read_filenames pages page (Suc left) names =
     (case pages page of
        None \<Rightarrow> None
      | Some entries \<Rightarrow>
          if None \<in> set entries then None
          else
            let names' = names @ List.map_filter id entries in
            if length entries < 100 then Some names' else read_filenames pages (Suc page) left names')"

definition read_changed_filenames :: "(nat \<Rightarrow> string option list option) \<Rightarrow> string list option" where
  "read_changed_filenames pages = read_filenames pages 1 3 []"

text \<open>
  When three full pages do not hold every changed file, the answer is the first three hundred
  names and not a refusal: a protected path on the fourth page is not looked at.
\<close>

lemma fourth_page_is_not_read:
  assumes "pages 1 = Some e1" "pages 2 = Some e2" "pages 3 = Some e3"
    and "length e1 = 100" "length e2 = 100" "length e3 = 100"
    and "None \<notin> set e1" "None \<notin> set e2" "None \<notin> set e3"
  shows "read_changed_filenames pages = Some (map the (e1 @ e2 @ e3))"
proof -
  have "List.map_filter id es = map the es" if "None \<notin> set es" for es :: "string option list"
    using that
  proof (induction es)
    case (Cons e es)
    then show ?case by (cases e) (simp_all add: List.map_filter_simps)
  qed (simp add: List.map_filter_simps)
  then show ?thesis
    using assms by (simp add: read_changed_filenames_def eval_nat_numeral)
qed

end
