(* ===== verification/Review_Sweep.thy ===== *)
theory Review_Sweep
  imports Review_Board Path_Boundary Ordered_Map Queries Operator_Decisions Work_Creation Repositories
begin

text \<open>
  The review sweep (\<open>reviewPullRequests\<close>, \<open>applyPassConsequence\<close>,
  \<open>observeUnreportedPullRequests\<close>, \<open>assertReviewGate\<close> and \<open>assertReviewCompletion\<close> of
  \<open>src/src/queue/pull-request-review.ts\<close>) on the modelled queue. What the sweep learns from GitHub
  is a parameter, \<open>outside\<close>: the outcome of each read and write it makes there. The prose of the
  roots it enqueues is a parameter too (\<open>prose\<close>); the actions, targets, records and source
  references of those roots are the code's.
\<close>

subsection \<open>What the sweep reads outside the queue\<close>

datatype pull_state = PullOpen | PullClosed | PullMerged

record pull_head =
  hd_number :: int
  hd_url :: string
  hd_node_id :: "string option"
  hd_head_sha :: string
  hd_state :: pull_state
  hd_draft :: bool
  hd_title :: string

datatype head_check =
    HeadRead pull_head
  | HeadUnavailable string
  | HeadRejected string

record listed_pull =
  ls_url :: string
  ls_number :: jsnum
  ls_draft :: bool
  ls_created_at :: "string option"

text \<open>
  \<open>gh_head\<close> answers the first and the second read of a head; a write returns the reason it
  failed for, if it did. \<open>gh_date\<close> is \<open>Date.parse\<close> and \<open>gh_iso\<close> is \<open>toISOString\<close>.
\<close>

record outside =
  gh_head :: "nat \<Rightarrow> string \<Rightarrow> string \<Rightarrow> head_check"
  gh_files :: "string \<Rightarrow> string \<Rightarrow> string list option"
  gh_mark_ready :: "string \<Rightarrow> string option"
  gh_to_draft :: "string \<Rightarrow> string option"
  gh_digest :: "string \<Rightarrow> string \<Rightarrow> string option"
  gh_edited_after :: "string \<Rightarrow> pull_request_review \<Rightarrow> bool"
  gh_open_pulls :: "string \<Rightarrow> (listed_pull list \<times> bool) option"
  gh_date :: "string \<Rightarrow> timestamp option"
  gh_iso :: "timestamp \<Rightarrow> string"

record prose =
  pz_objective :: string
  pz_instructions :: string
  pz_criteria :: "string list"

record review_prose =
  rp_review :: "string \<Rightarrow> pull_head \<Rightarrow> pull_request_review \<Rightarrow> string option \<Rightarrow> policy_boundary list \<Rightarrow> prose"
  rp_fix :: "string \<Rightarrow> pull_head \<Rightarrow> pull_request_review \<Rightarrow> prose"

subsection \<open>The roots the sweep enqueues\<close>

definition review_actions :: "action list" where
  "review_actions = [Read, RunTests]"

definition review_root_definition ::
    "review_prose \<Rightarrow> string \<Rightarrow> pull_head \<Rightarrow> pull_request_review \<Rightarrow> string \<Rightarrow> string option \<Rightarrow>
       policy_boundary list \<Rightarrow> jsnum \<Rightarrow> seed_input"
where
  "review_root_definition pz repository head review created_by previous boundaries priority =
     (let text' = rp_review pz repository head review previous boundaries in
      \<lparr>si_repository = repository, si_kind = review_kind, si_objective = pz_objective text',
       si_instructions = pz_instructions text', si_acceptance_criteria = pz_criteria text',
       si_allowed_actions = review_actions, si_delegable_actions = [],
       si_required_artifact = Some NoArtifact, si_execution_target = Some ReadOnly,
       si_priority = Some priority, si_created_by = created_by, si_extra = []\<rparr>)"

definition review_fix_root_definition ::
    "review_prose \<Rightarrow> string \<Rightarrow> pull_head \<Rightarrow> pull_request_review \<Rightarrow> string \<Rightarrow> jsnum \<Rightarrow> seed_input"
where
  "review_fix_root_definition pz repository head review created_by priority =
     (let text' = rp_fix pz repository head review in
      \<lparr>si_repository = repository, si_kind = review_fix_kind, si_objective = pz_objective text',
       si_instructions = pz_instructions text', si_acceptance_criteria = pz_criteria text',
       si_allowed_actions = review_fix_actions, si_delegable_actions = [],
       si_required_artifact = Some PullRequestArtifact, si_execution_target = Some ExistingPullRequest,
       si_priority = Some priority, si_created_by = created_by, si_extra = []\<rparr>)"

subsection \<open>The report\<close>

datatype human_reason =
    GateReason review_reason
  | DescriptionAdjudication review_reason bool
  | TouchesBoundary "policy_boundary list"
  | HeadMoved string
  | HeadLost string

datatype skip_reason =
    HeadRefused string
  | PullRequestIs pull_state
  | NotADraft
  | ReviewInFlight
  | AlreadyHasFix string
  | AlreadyHasReview string
  | ListingTruncated

datatype unavailable_reason =
    HeadUnread string
  | BoundariesUnchecked
  | NoNodeId
  | MarkFailed string
  | RevertFailed "string option" string
  | ListingUnavailable

record sweep_result =
  sw_inspected :: nat
  sw_enqueued :: "(string \<times> string \<times> string \<times> string \<times> int) list"
  sw_marked_ready :: "(string \<times> string \<times> string) list"
  sw_ready_to_mark :: "(string \<times> string \<times> string) list"
  sw_needs_human :: "(string \<times> string \<times> int \<times> human_reason) list"
  sw_skipped :: "(string \<times> skip_reason) list"
  sw_unavailable :: "(string \<times> unavailable_reason) list"
  sw_unreported :: "unreported_pull_request list"
  sw_pending :: "listed_pull list"

definition empty_sweep :: sweep_result where
  "empty_sweep =
     \<lparr>sw_inspected = 0, sw_enqueued = [], sw_marked_ready = [], sw_ready_to_mark = [],
      sw_needs_human = [], sw_skipped = [], sw_unavailable = [], sw_unreported = [], sw_pending = []\<rparr>"

definition needs_human :: "string \<Rightarrow> string \<Rightarrow> int \<Rightarrow> human_reason \<Rightarrow> sweep_result \<Rightarrow> sweep_result" where
  "needs_human url sha n reason w = w\<lparr>sw_needs_human := sw_needs_human w @ [(url, sha, n, reason)]\<rparr>"

definition skipped :: "string \<Rightarrow> skip_reason \<Rightarrow> sweep_result \<Rightarrow> sweep_result" where
  "skipped url reason w = w\<lparr>sw_skipped := sw_skipped w @ [(url, reason)]\<rparr>"

definition unavailable :: "string \<Rightarrow> unavailable_reason \<Rightarrow> sweep_result \<Rightarrow> sweep_result" where
  "unavailable url reason w = w\<lparr>sw_unavailable := sw_unavailable w @ [(url, reason)]\<rparr>"

subsection \<open>The pass consequence\<close>

text \<open>\<open>xs.some(p)\<close> with a callback that may throw.\<close>

primrec some_res :: "('a \<Rightarrow> 'e + bool) \<Rightarrow> 'a list \<Rightarrow> 'e + bool" where
  "some_res p [] = Inr False"
| "some_res p (x # xs) = and_then (p x) (\<lambda>b. if b then Inr True else some_res p xs)"

definition policy_authority_for :: "ctx \<Rightarrow> string \<Rightarrow> policy_authority option res" where
  "policy_authority_for cx repository =
     (case cx_policy_authority cx of None \<Rightarrow> Inr None | Some hook \<Rightarrow> hook repository)"

definition guarded_boundaries :: "policy_authority option \<Rightarrow> policy_boundary list" where
  "guarded_boundaries authority =
     filter (\<lambda>b. pb_decision b \<noteq> Allow)
       (case authority of None \<Rightarrow> [] | Some pa \<Rightarrow> pa_protected_boundaries pa)"

definition touches :: "string list \<Rightarrow> policy_boundary \<Rightarrow> bool res" where
  "touches files boundary =
     some_res
       (\<lambda>pattern.
         some_res
           (\<lambda>file.
             case path_touches_boundary file pattern of
               None \<Rightarrow> Inl (PolicyError (BoundaryPattern pattern))
             | Some b \<Rightarrow> Inr b)
           files)
       (pb_paths boundary)"

record sweep_origin =
  og_repository :: string
  og_priority :: int
  og_item_id :: string
  og_author_model :: "string option"

definition release_head ::
    "ctx \<Rightarrow> outside \<Rightarrow> bool \<Rightarrow> string \<Rightarrow> sweep_origin \<Rightarrow> string \<Rightarrow> pull_head \<Rightarrow> int \<Rightarrow> string \<Rightarrow>
       sweep_result \<times> store \<Rightarrow> (sweep_result \<times> store) res"
where
  "release_head cx gh writes actor origin url head n review_item_id acc =
     (case acc of (w, s) \<Rightarrow>
      if \<not> writes
      then Inr (w\<lparr>sw_ready_to_mark := sw_ready_to_mark w @ [(url, hd_head_sha head, review_item_id)]\<rparr>, s)
      else
        (case non_empty (hd_node_id head) of
           None \<Rightarrow> Inr (unavailable url NoNodeId w, s)
         | Some node \<Rightarrow>
             (case gh_mark_ready gh node of
                Some reason \<Rightarrow> Inr (unavailable url (MarkFailed reason) w, s)
              | None \<Rightarrow>
                  let after' = gh_head gh 1 (og_repository origin) url;
                      moved =
                        (case after' of
                           HeadRead h \<Rightarrow>
                             if hd_state h = PullOpen \<and> hd_head_sha h \<noteq> hd_head_sha head
                             then Some (hd_head_sha h) else None
                         | _ \<Rightarrow> None);
                      lost = (case after' of HeadUnavailable reason \<Rightarrow> Some reason | _ \<Rightarrow> None) in
                  if lost \<noteq> None \<or> moved \<noteq> None
                  then
                    (case gh_to_draft gh node of
                       None \<Rightarrow>
                         Inr (needs_human url
                           (case moved of Some sha \<Rightarrow> sha | None \<Rightarrow> hd_head_sha head) n
                           (case moved of Some sha \<Rightarrow> HeadMoved sha
                            | None \<Rightarrow> HeadLost (case lost of Some r \<Rightarrow> r | None \<Rightarrow> [])) w, s)
                     | Some failure \<Rightarrow> Inr (unavailable url (RevertFailed moved failure) w, s))
                  else
                    and_then
                      (record_pull_request_ready cx (og_item_id origin) url actor (hd_head_sha head)
                        review_item_id s) (\<lambda>(item, s').
                    Inr (w\<lparr>sw_marked_ready :=
                          sw_marked_ready w @ [(url, hd_head_sha head, review_item_id)]\<rparr>, s')))))"

text \<open>\<open>parsePullRequestUrl\<close> of \<open>src/src/queue/pull-request-cure.ts\<close>; the number as a double.\<close>

definition parse_pull_request_url :: "string \<Rightarrow> string \<Rightarrow> (string \<times> string \<times> jsnum) option" where
  "parse_pull_request_url repository text' =
     (case parse_url text' of
        None \<Rightarrow> None
      | Some url \<Rightarrow>
          (case (split_char CHR ''/'' repository, split_char CHR ''/'' (u_pathname url)) of
             (owner # name # _, [_, seg1, seg2, seg3, seg4]) \<Rightarrow>
               if to_lower (u_hostname url) = ''github.com'' \<and> to_lower seg1 = to_lower owner \<and>
                  to_lower seg2 = to_lower name \<and> seg3 = ''pull'' \<and> positive_numeral seg4
               then Some (owner, name, JInt (nearest_double (decimal_value seg4)))
               else None
           | _ \<Rightarrow> None))"

definition apply_pass_consequence ::
    "ctx \<Rightarrow> outside \<Rightarrow> bool \<Rightarrow> string \<Rightarrow> sweep_origin \<Rightarrow> string \<Rightarrow> pull_head \<Rightarrow> int \<Rightarrow> string \<Rightarrow>
       sweep_result \<times> store \<Rightarrow> (sweep_result \<times> store) res"
where
  "apply_pass_consequence cx gh writes actor origin url head n review_item_id acc =
     and_then (policy_authority_for cx (og_repository origin)) (\<lambda>authority.
     let guarded = guarded_boundaries authority in
     if guarded = [] \<or> parse_pull_request_url (og_repository origin) url = None
     then release_head cx gh writes actor origin url head n review_item_id acc
     else
       (case gh_files gh (og_repository origin) url of
          None \<Rightarrow> Inr (unavailable url BoundariesUnchecked (fst acc), snd acc)
        | Some files \<Rightarrow>
            and_then (filter_res (touches files) guarded) (\<lambda>touched.
            if touched \<noteq> []
            then Inr (needs_human url (hd_head_sha head) n (TouchesBoundary touched) (fst acc), snd acc)
            else release_head cx gh writes actor origin url head n review_item_id acc)))"

subsection \<open>One draft\<close>

definition enqueue_root_of ::
    "ctx \<Rightarrow> sweep_origin \<Rightarrow> string \<Rightarrow> string \<Rightarrow> pull_head \<Rightarrow> seed_input \<Rightarrow> pull_request_review \<Rightarrow>
       skip_reason \<Rightarrow> sweep_result \<times> store \<Rightarrow> (sweep_result \<times> store) res"
where
  "enqueue_root_of cx origin kind url head seed review known acc =
     (case acc of (w, s) \<Rightarrow>
      and_then
        (enqueue_review_root cx (og_repository origin)
          \<lparr>br_seed = seed, br_source_ref = kind @ '':'' @ url @ ''@'' @ hd_head_sha head\<rparr> review s)
        (\<lambda>(created, s').
      case created of
        None \<Rightarrow> Inr (skipped url known w, s')
      | Some item \<Rightarrow>
          Inr (w\<lparr>sw_enqueued := sw_enqueued w @
                [(wi_id item, kind, url, hd_head_sha head, js_int (pr_round review))]\<rparr>, s')))"

definition fix_review :: "string \<Rightarrow> pull_head \<Rightarrow> bound_item \<Rightarrow> pull_request_review" where
  "fix_review url head latest =
     (let verdict = snd latest in
      \<lparr>pr_pull_request_url = url, pr_head_sha = hd_head_sha head,
       pr_patch_digest = non_empty (pr_patch_digest verdict), pr_round = pr_round verdict,
       pr_origin_item_id = non_empty (pr_origin_item_id verdict),
       pr_author_model = non_empty (pr_author_model verdict), pr_prior_reviewer_model = None,
       pr_prior_blockers = [], pr_review_item_id = Some (wi_id (fst latest)),
       pr_reviewer_model =
         (case wi_result (fst latest) of None \<Rightarrow> None | Some result \<Rightarrow> non_empty (wr_model result)),
       pr_decision = None,
       pr_blockers = Some (tree_blockers (or_empty (pr_blockers verdict))),
       pr_advisories = Some (or_empty (pr_advisories verdict)), pr_reviewed_at = None\<rparr>)"

definition round_review ::
    "outside \<Rightarrow> sweep_origin \<Rightarrow> string \<Rightarrow> pull_head \<Rightarrow> bound_item list \<Rightarrow> pull_request_review"
where
  "round_review gh origin url head completed =
     (let latest = last_option completed in
      \<lparr>pr_pull_request_url = url, pr_head_sha = hd_head_sha head,
       pr_patch_digest = gh_digest gh (og_repository origin) url,
       pr_round = JInt (int (length completed) + 1),
       pr_origin_item_id = Some (og_item_id origin), pr_author_model = non_empty (og_author_model origin),
       pr_prior_reviewer_model =
         (case latest of
            None \<Rightarrow> None
          | Some b \<Rightarrow>
              (case wi_result (fst b) of None \<Rightarrow> None | Some result \<Rightarrow> non_empty (wr_model result))),
       pr_prior_blockers =
         (case latest of None \<Rightarrow> [] | Some b \<Rightarrow> or_empty (pr_blockers (snd b))),
       pr_review_item_id = None, pr_reviewer_model = None, pr_decision = None, pr_blockers = None,
       pr_advisories = None, pr_reviewed_at = None\<rparr>)"

text \<open>A blocking verdict for the current head.\<close>

definition act_on_block ::
    "ctx \<Rightarrow> outside \<Rightarrow> review_prose \<Rightarrow> bool \<Rightarrow> string \<Rightarrow> sweep_origin \<Rightarrow> string \<Rightarrow> pull_head \<Rightarrow>
       bound_item list \<Rightarrow> bound_item \<Rightarrow> sweep_result \<times> store \<Rightarrow> (sweep_result \<times> store) res"
where
  "act_on_block cx gh pz writes actor origin url head bound latest acc =
     (let verdict = snd latest; n = round_of latest;
          ds = description_blockers (or_empty (pr_blockers verdict));
          ts = tree_blockers (or_empty (pr_blockers verdict));
          acc1 =
            (if ds = [] then acc
             else (needs_human url (hd_head_sha head) n
               (DescriptionAdjudication (DescriptionLead n ds) (gh_edited_after gh url verdict))
               (fst acc), snd acc)) in
      if only_outstanding verdict
      then apply_pass_consequence cx gh writes actor origin url head n (wi_id (fst latest)) acc1
      else if list_ex (\<lambda>(item, r). wi_kind item = review_fix_kind \<and> wi_status item = Completed \<and>
                pr_head_sha r = hd_head_sha head) bound
      then Inr (needs_human url (hd_head_sha head) n (GateReason FixWithoutNewHead) (fst acc1), snd acc1)
      else if max_review_rounds \<le> n
      then Inr (needs_human url (hd_head_sha head) n (GateReason (BlockedAtRound n)) (fst acc1), snd acc1)
      else if ts = [] then Inr acc1
      else
        enqueue_root_of cx origin review_fix_kind url head
          (review_fix_root_definition pz (og_repository origin) head (fix_review url head latest) actor
            (JInt (og_priority origin)))
          (fix_review url head latest) (AlreadyHasFix (hd_head_sha head)) acc1)"

definition next_round ::
    "ctx \<Rightarrow> outside \<Rightarrow> review_prose \<Rightarrow> string \<Rightarrow> sweep_origin \<Rightarrow> string \<Rightarrow> pull_head \<Rightarrow>
       bound_item list \<Rightarrow> sweep_result \<times> store \<Rightarrow> (sweep_result \<times> store) res"
where
  "next_round cx gh pz actor origin url head completed acc =
     (let n = int (length completed) + 1; review = round_review gh origin url head completed in
      if max_review_rounds < n
      then Inr (needs_human url (hd_head_sha head) n (GateReason BudgetExhausted) (fst acc), snd acc)
      else
        and_then (policy_authority_for cx (og_repository origin)) (\<lambda>authority.
        enqueue_root_of cx origin review_kind url head
          (review_root_definition pz (og_repository origin) head review actor
            (map_option (\<lambda>b. pr_head_sha (snd b)) (last_option completed))
            (guarded_boundaries authority) (JInt (og_priority origin)))
          review (AlreadyHasReview (hd_head_sha head)) acc))"

definition judge_draft ::
    "ctx \<Rightarrow> outside \<Rightarrow> review_prose \<Rightarrow> bool \<Rightarrow> string \<Rightarrow> sweep_origin \<Rightarrow> string \<Rightarrow> pull_head \<Rightarrow>
       bound_item list \<Rightarrow> sweep_result \<times> store \<Rightarrow> (sweep_result \<times> store) res"
where
  "judge_draft cx gh pz writes actor origin url head bound acc =
     (let completed = completed_reviews bound in
      case last_option completed of
        None \<Rightarrow> next_round cx gh pz actor origin url head completed acc
      | Some latest \<Rightarrow>
          if pr_head_sha (snd latest) \<noteq> hd_head_sha head
          then next_round cx gh pz actor origin url head completed acc
          else if pr_decision (snd latest) = Some Pass
          then apply_pass_consequence cx gh writes actor origin url head (round_of latest)
                 (wi_id (fst latest)) acc
          else if pr_decision (snd latest) = Some UnableToReview
          then Inr (needs_human url (hd_head_sha head) (round_of latest) (GateReason ReviewerUnable)
                 (fst acc), snd acc)
          else act_on_block cx gh pz writes actor origin url head bound latest acc)"

definition sweep_draft ::
    "ctx \<Rightarrow> outside \<Rightarrow> review_prose \<Rightarrow> bool \<Rightarrow> string \<Rightarrow> sweep_origin \<times> string \<Rightarrow>
       sweep_result \<times> store \<Rightarrow> (sweep_result \<times> store) res"
where
  "sweep_draft cx gh pz writes actor target acc =
     (case target of (origin, url) \<Rightarrow>
      case acc of (w0, s) \<Rightarrow>
      let w = w0\<lparr>sw_inspected := Suc (sw_inspected w0)\<rparr> in
      case gh_head gh 0 (og_repository origin) url of
        HeadUnavailable reason \<Rightarrow> Inr (unavailable url (HeadUnread reason) w, s)
      | HeadRejected reason \<Rightarrow> Inr (skipped url (HeadRefused reason) w, s)
      | HeadRead head \<Rightarrow>
          if hd_state head \<noteq> PullOpen then Inr (skipped url (PullRequestIs (hd_state head)) w, s)
          else if \<not> hd_draft head then Inr (skipped url NotADraft w, s)
          else
            and_then (pull_request_review_items (og_repository origin) url s) (\<lambda>reviews.
            if list_ex (\<lambda>item. wi_status item = Queued \<or> wi_status item = Claimed) reviews
            then Inr (skipped url ReviewInFlight w, s)
            else
              judge_draft cx gh pz writes actor origin url head (bound_items reviews) (w, s)))"

subsection \<open>Which drafts there are\<close>

type_synonym pull_sighting = "work_item \<times> work_artifact"

definition gated_repositories :: "string option \<Rightarrow> store \<Rightarrow> string list" where
  "gated_repositories repository s =
     map fst
       (filter
         (\<lambda>(slug, gate). gate \<and>
            (case repository of None \<Rightarrow> True | Some g \<Rightarrow> to_lower slug = to_lower g))
         (repository_review_gate_settings s))"

text \<open>The artifacts the loop over the items looks at, in its order.\<close>

definition pull_sightings :: "string list \<Rightarrow> work_item list \<Rightarrow> pull_sighting list" where
  "pull_sightings gated items =
     concat
       (map
         (\<lambda>item.
           map (Pair item)
             (filter (\<lambda>a. wa_kind a = PullRequest \<and> wa_verification a \<noteq> None)
               (artifacts_of (wi_result item))))
         (filter (\<lambda>item. to_lower (wi_repository item) \<in> to_lower ` set gated) items))"

definition sighting_key :: "pull_sighting \<Rightarrow> artifact_identity" where
  "sighting_key x = pull_request_artifact_identity (wi_repository (fst x)) (snd x)"

fun sighted_verification :: "pull_sighting \<Rightarrow> verified_observation option" where
  "sighted_verification (item, a) =
     (case wa_verification a of Some (Verified v) \<Rightarrow> Some v | _ \<Rightarrow> None)"

record sweep_observation =
  so_url :: string
  so_order :: "string \<times> timestamp \<times> bool"
  so_state :: observed_state
  so_draft :: bool

text \<open>
  The code orders observations by the string \<open>observedAt\0updatedAt\0isFix\<close>, which is the order
  of the triple for texts without a NUL.
\<close>

definition observation_of :: "pull_sighting \<Rightarrow> sweep_observation option" where
  "observation_of x =
     map_option
       (\<lambda>v. \<lparr>so_url = wa_url (snd x),
             so_order = (vo_verified_at v, wi_updated_at (fst x), wi_kind (fst x) = review_fix_kind),
             so_state = vo_state v, so_draft = (vo_draft v = Some True)\<rparr>)
       (sighted_verification x)"

definition origin_of :: "pull_sighting \<Rightarrow> sweep_origin option" where
  "origin_of x =
     (if sighted_verification x = None \<or> wi_kind (fst x) \<in> {review_kind, review_fix_kind} then None
      else
        Some \<lparr>og_repository = wi_repository (fst x), og_priority = wi_priority (fst x),
          og_item_id = wi_id (fst x),
          og_author_model =
            (case wi_result (fst x) of None \<Rightarrow> None | Some result \<Rightarrow> non_empty (wr_model result))\<rparr>)"

definition keyed :: "(pull_sighting \<Rightarrow> 'a option) \<Rightarrow> pull_sighting list \<Rightarrow> (artifact_identity \<times> 'a) list" where
  "keyed f xs = List.map_filter (\<lambda>x. map_option (Pair (sighting_key x)) (f x)) xs"

definition sweep_origins :: "pull_sighting list \<Rightarrow> (artifact_identity \<times> sweep_origin) list" where
  "sweep_origins xs =
     collect fst (\<lambda>v x. keep_max og_priority v (snd x)) (keyed origin_of xs) []"

definition sweep_observations :: "pull_sighting list \<Rightarrow> (artifact_identity \<times> sweep_observation) list" where
  "sweep_observations xs =
     collect fst (\<lambda>v x. keep_max so_order v (snd x)) (keyed observation_of xs) []"

definition unresolved_sources :: "pull_sighting list \<Rightarrow> artifact_identity set" where
  "unresolved_sources xs = sighting_key ` {x \<in> set xs. sighted_verification x = None}"

definition unresolved_handoffs :: "pull_sighting list \<Rightarrow> artifact_identity set" where
  "unresolved_handoffs xs =
     sighting_key `
       {x \<in> set xs. case sighted_verification x of None \<Rightarrow> False | Some v \<Rightarrow> vo_handoff v \<noteq> None}"

text \<open>The drafts the second loop of the sweep inspects, each with the item its work comes from.\<close>

definition sweep_targets :: "pull_sighting list \<Rightarrow> (sweep_origin \<times> string) list" where
  "sweep_targets xs =
     List.map_filter
       (\<lambda>(key, origin).
         case map_of (sweep_observations xs) key of
           None \<Rightarrow> None
         | Some ob \<Rightarrow>
             if key \<in> unresolved_sources xs \<or> key \<in> unresolved_handoffs xs \<or> so_state ob \<noteq> Open \<or>
                \<not> so_draft ob
             then None else Some (origin, so_url ob))
       (sweep_origins xs)"

subsection \<open>Pull requests nobody reported\<close>

definition known_pull_request_urls :: "string \<Rightarrow> store \<Rightarrow> string list res" where
  "known_pull_request_urls repository s =
     and_then (validate_repository repository) (\<lambda>_.
     let rows = filter (\<lambda>r. r_repository r = repository) (st_items s) in
     Inr (filter (\<lambda>url. url \<noteq> ''null'' \<and> url \<noteq> [])
       (sorted_unique
         (map to_lower
           (concat
             (map
               (\<lambda>r. if r_status r = RCompleted
                    then map wa_url (filter (\<lambda>a. wa_kind a = PullRequest)
                           (artifacts_of (json_option (r_result r))))
                    else []) rows) @
            List.map_filter (\<lambda>r. map_option pr_pull_request_url (json_option (r_review r))) rows @
            List.map_filter (\<lambda>r. map_option pc_pull_request_url (json_option (r_cure r))) rows)))))"

definition claimed_in :: "string \<Rightarrow> list_options" where
  "claimed_in repository =
     \<lparr>lq_status = Some Claimed, lq_repository = Some repository, lq_kind = None,
      lq_lease_owner = None, lq_label = None, lq_limit = Some 100\<rparr>"

definition unreported_of :: "listed_pull \<Rightarrow> unreported_pull_request" where
  "unreported_of pull =
     \<lparr>up_url = ls_url pull, up_number = ls_number pull, up_draft = ls_draft pull,
      up_created_at = non_empty (ls_created_at pull)\<rparr>"

text \<open>
  A listed pull request is pending, not unreported, while it is younger than the longest lease,
  or while the repository has a live claim (if GitHub gave its creation time).
\<close>

definition still_pending :: "outside \<Rightarrow> timestamp \<Rightarrow> bool \<Rightarrow> listed_pull \<Rightarrow> bool" where
  "still_pending gh now live pull =
     (case ls_created_at pull of
        None \<Rightarrow> False
      | Some text' \<Rightarrow>
          live \<or> (case gh_date gh text' of None \<Rightarrow> False | Some t \<Rightarrow> now - t < max_lease_seconds * 1000))"

fun sort_listing ::
    "outside \<Rightarrow> timestamp \<Rightarrow> bool \<Rightarrow> string set \<Rightarrow> listed_pull list \<Rightarrow>
       listed_pull list \<times> unreported_pull_request list"
where
  "sort_listing gh now live seen [] = ([], [])"
| "sort_listing gh now live seen (pull # pulls) =
     (if to_lower (ls_url pull) \<in> seen then sort_listing gh now live seen pulls
      else
        (case sort_listing gh now live (insert (to_lower (ls_url pull)) seen) pulls of
           (pending, unreported) \<Rightarrow>
             if still_pending gh now live pull then (pull # pending, unreported)
             else (pending, unreported_of pull # unreported)))"

definition listing_address :: "string \<Rightarrow> string" where
  "listing_address repository = ''https://github.com/'' @ repository @ ''/pulls''"

definition observe_unreported ::
    "ctx \<Rightarrow> outside \<Rightarrow> timestamp \<Rightarrow> string \<Rightarrow> string \<Rightarrow> sweep_result \<times> store \<Rightarrow>
       (sweep_result \<times> store) res"
where
  "observe_unreported cx gh now actor repository acc =
     (case acc of (w0, s) \<Rightarrow>
      case gh_open_pulls gh repository of
        None \<Rightarrow> Inr (unavailable (listing_address repository) ListingUnavailable w0, s)
      | Some (pulls, truncated) \<Rightarrow>
          let w = (if truncated then skipped (listing_address repository) ListingTruncated w0 else w0) in
          and_then (known_pull_request_urls repository s) (\<lambda>known.
          and_then (list_items cx (claimed_in repository) s) (\<lambda>claimed.
          let live =
                list_ex (\<lambda>item. case wi_lease_expires_at item of None \<Rightarrow> False | Some e \<Rightarrow> now < e) claimed;
              split = sort_listing gh now live (set known) pulls in
          and_then
            (record_unreported_pull_requests cx repository
              \<lparr>uo_observed_at = gh_iso gh now, uo_pull_requests = snd split\<rparr> actor s) (\<lambda>(u, s').
          Inr (w\<lparr>sw_pending := sw_pending w @ fst split,
                 sw_unreported := sw_unreported w @ snd split\<rparr>, s')))))"

subsection \<open>The sweep\<close>

record sweep_options =
  op_repository :: "string option"
  op_limit :: "int option"
  op_writes :: bool
  op_actor :: string

text \<open>
  Each step of the sweep calls the queue with a clock and identifiers of its own: \<open>cxs i\<close> is
  the context of the \<open>i\<close>-th one. A step that throws ends the sweep; the steps before it stay
  committed, each was a transaction of its own.
\<close>

definition review_pull_requests ::
    "(nat \<Rightarrow> ctx) \<Rightarrow> outside \<Rightarrow> review_prose \<Rightarrow> timestamp \<Rightarrow> sweep_options \<Rightarrow> store \<Rightarrow>
       (sweep_result \<times> store) res"
where
  "review_pull_requests cxs gh pz now options s =
     (let gated = gated_repositories (op_repository options) s in
      if gated = [] then Inr (empty_sweep, s)
      else
        and_then
          (completed_items_with_pending_artifacts (cxs 0) PendingArtifacts (op_repository options)
            (Some (case op_limit options of None \<Rightarrow> 100 | Some n \<Rightarrow> n)) s) (\<lambda>items.
        let targets = sweep_targets (pull_sightings gated items) in
        and_then
          (fold_res
            (\<lambda>(i, target). sweep_draft (cxs i) gh pz (op_writes options) (op_actor options) target)
            (List.enumerate 0 targets) (empty_sweep, s)) (\<lambda>acc.
        fold_res
          (\<lambda>(i, repository). observe_unreported (cxs i) gh now (op_actor options) repository)
          (List.enumerate (length targets) gated) acc)))"

subsection \<open>The rules of the gate on a completion\<close>

definition released_by_gate :: "work_item list \<Rightarrow> bool" where
  "released_by_gate rounds =
     list_ex
       (\<lambda>item. wi_kind item = review_kind \<and> wi_status item = Completed \<and>
          (case wi_review item of None \<Rightarrow> False | Some review \<Rightarrow> pr_decision review = Some Pass))
       rounds"

definition cure_kinds :: "string list" where
  "cure_kinds = [''pr-cure'', ''pr-cure-change'']"

definition assert_review_gate :: "work_item \<Rightarrow> work_artifact list \<Rightarrow> store \<Rightarrow> unit res" where
  "assert_review_gate item artifacts s =
     (if wi_kind item \<in> set cure_kinds then Inr ()
      else
        and_then (review_gate_enabled (wi_repository item) s) (\<lambda>enabled.
        if \<not> enabled then Inr ()
        else
          check_all
            (\<lambda>a. case wa_verification a of
               Some (Verified v) \<Rightarrow>
                 if wa_kind a \<noteq> PullRequest \<or> vo_state v \<noteq> Open \<or> vo_draft v = Some True then Inr ()
                 else
                   and_then (pull_request_review_items (wi_repository item) (wa_url a) s) (\<lambda>rounds.
                   require (released_by_gate rounds) (ResultError (OpenPullRequestNotDraft (wa_url a))))
             | _ \<Rightarrow> Inr ())
            artifacts))"

definition refuse_verdict :: "review_result option \<Rightarrow> unit res" where
  "refuse_verdict review = require (review = None) (ResultError ReviewResultRefused)"

definition assert_review_completion ::
    "outside \<Rightarrow> work_item \<Rightarrow> work_artifact list \<Rightarrow> review_result option \<Rightarrow> unit res"
where
  "assert_review_completion gh item artifacts review =
     (if wi_kind item = review_fix_kind
      then
        (case wi_review item of
           None \<Rightarrow> Inl (ResultError ReviewRecordMissing)
         | Some record' \<Rightarrow>
             and_then
               (require
                 (list_ex (\<lambda>a. wa_kind a = PullRequest \<and>
                     to_lower (wa_url a) = to_lower (pr_pull_request_url record')) artifacts)
                 (ResultError (ReviewFixUnreported (pr_pull_request_url record')))) (\<lambda>_.
             refuse_verdict review))
      else if wi_kind item \<noteq> review_kind then refuse_verdict review
      else
        (case wi_review item of
           None \<Rightarrow> Inl (ResultError ReviewRecordMissing)
         | Some record' \<Rightarrow>
             (case review of
                None \<Rightarrow> Inl (ResultError ReviewResultRequired)
              | Some verdict \<Rightarrow>
                  and_then
                    (require (\<not> (rr_decision verdict = Block \<and> rr_blockers verdict = []))
                      (RecordError BlockWithoutBlocker)) (\<lambda>_.
                  and_then
                    (require (\<not> (rr_decision verdict = Pass \<and> rr_blockers verdict \<noteq> []))
                      (RecordError PassWithBlocker)) (\<lambda>_.
                  case gh_head gh 0 (wi_repository item) (pr_pull_request_url record') of
                    HeadUnavailable reason \<Rightarrow> Inl (ResultError ReviewHeadUnconfirmed)
                  | HeadRejected reason \<Rightarrow> Inl (ResultError ReviewHeadRefused)
                  | HeadRead head \<Rightarrow>
                      require
                        (\<not> (hd_state head = PullOpen \<and> hd_head_sha head \<noteq> pr_head_sha record'))
                        (ResultError ReviewHeadMoved))))))"

end
