(* ===== verification/Review_Sample.thy ===== *)
theory Review_Sample
  imports Review_Sweep Sample_Run
begin

text \<open>
  A run of the queue with the review gate on, which the witnesses evaluate: a change is completed
  with a draft pull request, the sweep enqueues a review round for its head, and the reviewer
  passes it.
\<close>

definition sample_origin :: sweep_origin where
  "sample_origin =
     \<lparr>og_repository = ''acme/tool'', og_priority = 0, og_item_id = ''A'', og_author_model = None\<rparr>"

definition draft_pull :: work_artifact where
  "draft_pull =
     \<lparr>wa_kind = PullRequest, wa_url = ''https://github.com/acme/tool/pull/7'', wa_description = None,
      wa_verification = Some (Verified
        \<lparr>vo_verified_at = ''2026'', vo_number = JInt 7, vo_state = Open, vo_head_sha = None,
         vo_merged_at = None, vo_closed_at = None, vo_draft = Some True, vo_tag = None,
         vo_published_at = None, vo_handoff = None\<rparr>)\<rparr>"

definition change_seed :: seed_input where
  "change_seed =
     sample_seed\<lparr>si_kind := ''fix'', si_allowed_actions := [Read, Write, OpenPr],
       si_delegable_actions := [], si_required_artifact := Some PullRequestArtifact,
       si_execution_target := Some NewPullRequest\<rparr>"

definition change_completion :: completion_input where
  "change_completion =
     \<lparr>co_id = ''A'', co_lease_token = ''T'', co_worker = ''w'',
      co_result = \<lparr>wr_summary = ''done'', wr_evidence = [], wr_artifacts = [draft_pull], wr_model = None\<rparr>,
      co_follow_ups = [], co_review = None\<rparr>"

definition reviewed_head :: pull_head where
  "reviewed_head =
     \<lparr>hd_number = 7, hd_url = ''https://github.com/acme/tool/pull/7'', hd_node_id = Some ''N'',
      hd_head_sha = replicate 40 CHR ''a'', hd_state = PullOpen, hd_draft = True, hd_title = ''t''\<rparr>"

definition sample_outside :: outside where
  "sample_outside =
     \<lparr>gh_head = (\<lambda>n g url. HeadRead reviewed_head), gh_files = (\<lambda>g url. Some [''a.ts'']),
      gh_mark_ready = (\<lambda>node. None), gh_to_draft = (\<lambda>node. None), gh_digest = (\<lambda>g url. None),
      gh_edited_after = (\<lambda>url review. False), gh_open_pulls = (\<lambda>g. Some ([], False)),
      gh_date = (\<lambda>t. None), gh_iso = (\<lambda>t. ''now'')\<rparr>"

definition sample_prose :: review_prose where
  "sample_prose =
     \<lparr>rp_review = (\<lambda>g head review sha bs. \<lparr>pz_objective = ''o'', pz_instructions = ''i'', pz_criteria = [''c'']\<rparr>),
      rp_fix = (\<lambda>g head review. \<lparr>pz_objective = ''o'', pz_instructions = ''i'', pz_criteria = [''c'']\<rparr>)\<rparr>"

definition sweep_with :: "bool \<Rightarrow> sweep_options" where
  "sweep_with writes =
     \<lparr>op_repository = None, op_limit = None, op_writes = writes, op_actor = ''policy:review-gate''\<rparr>"

definition sample_sweep :: "bool \<Rightarrow> int \<Rightarrow> string \<Rightarrow> store \<Rightarrow> (sweep_result \<times> store) res" where
  "sample_sweep writes t u s =
     review_pull_requests (\<lambda>i. sample_ctx (t + int i) u) sample_outside sample_prose t (sweep_with writes) s"

definition gated1 :: store where
  "gated1 = after (set_repository_review_gate (sample_ctx 5 ''G'') ''acme/tool'' True sample1)"

definition gated2 :: store where
  "gated2 = after (enqueue_seed (sample_ctx 10 ''A'') change_seed gated1)"

definition gated3 :: store where
  "gated3 = after (claim (sample_ctx 20 ''T'') sample_claim gated2)"

definition gated4 :: store where
  "gated4 = after (complete (sample_ctx 30 ''B'') change_completion gated3)"

definition gated5 :: store where
  "gated5 = after (sample_sweep False 40 ''R'' gated4)"

lemma gated_ok:
  shows gated1_ok: "succeeds (set_repository_review_gate (sample_ctx 5 ''G'') ''acme/tool'' True sample1)"
    and gated2_ok: "succeeds (enqueue_seed (sample_ctx 10 ''A'') change_seed gated1)"
    and gated3_ok: "succeeds (claim (sample_ctx 20 ''T'') sample_claim gated2)"
    and gated4_ok: "succeeds (complete (sample_ctx 30 ''B'') change_completion gated3)"
    and gated4_value: "gated4 =
     \<lparr>st_repositories =
              [\<lparr>rp_slug = ''acme/tool'', rp_enabled = True,
                  rp_cure_foreign = False, rp_review_gate = True,
                  rp_unreported = SqlNull, rp_labeled_issues = SqlNull,
                  rp_created_at = 0, rp_updated_at = 5\<rparr>],
       st_items =
         [\<lparr>r_id = ''A'', r_root_id = ''A'', r_parent_id = None,
             r_repository = ''acme/tool'', r_kind = ''fix'',
             r_objective = ''o'', r_instructions = ''i'',
             r_acceptance_criteria = Json [''c''],
             r_allowed_actions = Json [Read, Write, OpenPr],
             r_delegable_actions = Json [],
             r_required_artifact = PullRequestArtifact,
             r_execution_target = Some NewPullRequest, r_policy = SqlNull,
             r_priority = 0, r_status = RCompleted, r_admitted = True,
             r_created_by = ''operator:ann'', r_created_at = 10,
             r_updated_at = 32, r_source_ref = None, r_predecessors = SqlNull,
             r_cure = SqlNull, r_review = SqlNull, r_lease_owner = None,
             r_lease_token = None, r_lease_expires_at = None,
             r_result =
               Json
                \<lparr>wr_summary = ''done'', wr_evidence = [],
                   wr_artifacts =
                     [\<lparr>wa_kind = PullRequest,
                         wa_url = ''https://github.com/acme/tool/pull/7'',
                         wa_description = None,
                         wa_verification =
                           Some
                            (Verified
                              \<lparr>vo_verified_at = ''2026'',
                                 vo_number = JInt 7, vo_state = Open,
                                 vo_head_sha = None, vo_merged_at = None,
                                 vo_closed_at = None, vo_draft = Some True,
                                 vo_tag = None, vo_published_at = None,
                                 vo_handoff = None\<rparr>)\<rparr>],
                   wr_model = None\<rparr>,
             r_operator_notes = Json [], r_previous_results = Json []\<rparr>],
       st_events =
         [\<lparr>ev_sequence = 1, ev_item = ''A'',
             ev_body = EvQueued None None, ev_actor = ''operator:ann'',
             ev_occurred_at = 12\<rparr>,
          \<lparr>ev_sequence = 2, ev_item = ''A'',
             ev_body = EvClaimed 900023 None None None, ev_actor = ''w'',
             ev_occurred_at = 24\<rparr>,
          \<lparr>ev_sequence = 3, ev_item = ''A'',
             ev_body = EvCompleted [] 1 None, ev_actor = ''w'',
             ev_occurred_at = 33\<rparr>],
       st_sequence = 3, st_tokens = [], st_user_version = 17\<rparr>"
  by code_simp+

declare gated4_value [code]

definition report_of :: "(sweep_result \<times> store) res \<Rightarrow> sweep_result" where
  "report_of m = (case m of Inl _ \<Rightarrow> empty_sweep | Inr (w, _) \<Rightarrow> w)"

lemma gated5_run:
  shows gated5_ok: "succeeds (sample_sweep False 40 ''R'' gated4)"
    and gated_sweep_enqueues: "report_of (sample_sweep False 40 ''R'' gated4) =
      empty_sweep\<lparr>sw_inspected := 1, sw_enqueued :=
        [(''R'', ''pr-review'', ''https://github.com/acme/tool/pull/7'', replicate 40 CHR ''a'', 1)]\<rparr>"
    and gated5_value: "gated5 =
     \<lparr>st_repositories =
              [\<lparr>rp_slug = ''acme/tool'', rp_enabled = True,
                  rp_cure_foreign = False, rp_review_gate = True,
                  rp_unreported =
                    Json
                     \<lparr>uo_observed_at = ''now'',
                        uo_pull_requests = []\<rparr>,
                  rp_labeled_issues = SqlNull, rp_created_at = 0,
                  rp_updated_at = 41\<rparr>],
       st_items =
         [\<lparr>r_id = ''A'', r_root_id = ''A'', r_parent_id = None,
             r_repository = ''acme/tool'', r_kind = ''fix'',
             r_objective = ''o'', r_instructions = ''i'',
             r_acceptance_criteria = Json [''c''],
             r_allowed_actions = Json [Read, Write, OpenPr],
             r_delegable_actions = Json [],
             r_required_artifact = PullRequestArtifact,
             r_execution_target = Some NewPullRequest, r_policy = SqlNull,
             r_priority = 0, r_status = RCompleted, r_admitted = True,
             r_created_by = ''operator:ann'', r_created_at = 10,
             r_updated_at = 32, r_source_ref = None, r_predecessors = SqlNull,
             r_cure = SqlNull, r_review = SqlNull, r_lease_owner = None,
             r_lease_token = None, r_lease_expires_at = None,
             r_result =
               Json
                \<lparr>wr_summary = ''done'', wr_evidence = [],
                   wr_artifacts =
                     [\<lparr>wa_kind = PullRequest,
                         wa_url = ''https://github.com/acme/tool/pull/7'',
                         wa_description = None,
                         wa_verification =
                           Some
                            (Verified
                              \<lparr>vo_verified_at = ''2026'',
                                 vo_number = JInt 7, vo_state = Open,
                                 vo_head_sha = None, vo_merged_at = None,
                                 vo_closed_at = None, vo_draft = Some True,
                                 vo_tag = None, vo_published_at = None,
                                 vo_handoff = None\<rparr>)\<rparr>],
                   wr_model = None\<rparr>,
             r_operator_notes = Json [], r_previous_results = Json []\<rparr>,
          \<lparr>r_id = ''R'', r_root_id = ''R'', r_parent_id = None,
             r_repository = ''acme/tool'', r_kind = ''pr-review'',
             r_objective = ''o'', r_instructions = ''i'',
             r_acceptance_criteria = Json [''c''],
             r_allowed_actions = Json [Read, RunTests],
             r_delegable_actions = Json [], r_required_artifact = NoArtifact,
             r_execution_target = Some ReadOnly, r_policy = SqlNull,
             r_priority = 0, r_status = RQueued, r_admitted = True,
             r_created_by = ''policy:review-gate'', r_created_at = 40,
             r_updated_at = 40,
             r_source_ref =
               Some
                ''pr-review:https://github.com/acme/tool/pull/7@aaaaaaaaaaaaaaaaaaaaaaaaaaaaaaaaaaaaaaaa'',
             r_predecessors = SqlNull, r_cure = SqlNull,
             r_review =
               Json
                \<lparr>pr_pull_request_url =
                          ''https://github.com/acme/tool/pull/7'',
                   pr_head_sha = ''aaaaaaaaaaaaaaaaaaaaaaaaaaaaaaaaaaaaaaaa'',
                   pr_patch_digest = None, pr_round = JInt 1,
                   pr_origin_item_id = Some ''A'', pr_author_model = None,
                   pr_prior_reviewer_model = None, pr_prior_blockers = [],
                   pr_review_item_id = None, pr_reviewer_model = None,
                   pr_decision = None, pr_blockers = None, pr_advisories = None,
                   pr_reviewed_at = None\<rparr>,
             r_lease_owner = None, r_lease_token = None,
             r_lease_expires_at = None, r_result = SqlNull,
             r_operator_notes = Json [], r_previous_results = Json []\<rparr>],
       st_events =
         [\<lparr>ev_sequence = 1, ev_item = ''A'',
             ev_body = EvQueued None None, ev_actor = ''operator:ann'',
             ev_occurred_at = 12\<rparr>,
          \<lparr>ev_sequence = 2, ev_item = ''A'',
             ev_body = EvClaimed 900023 None None None, ev_actor = ''w'',
             ev_occurred_at = 24\<rparr>,
          \<lparr>ev_sequence = 3, ev_item = ''A'',
             ev_body = EvCompleted [] 1 None, ev_actor = ''w'',
             ev_occurred_at = 33\<rparr>,
          \<lparr>ev_sequence = 4, ev_item = ''R'',
             ev_body =
               EvQueued None
                (Some
                  (''pr-review'', ''https://github.com/acme/tool/pull/7'',
                   ''aaaaaaaaaaaaaaaaaaaaaaaaaaaaaaaaaaaaaaaa'', JInt 1, None,
                   None)),
             ev_actor = ''policy:review-gate'', ev_occurred_at = 42\<rparr>],
       st_sequence = 4, st_tokens = [], st_user_version = 17\<rparr>"
  by code_simp+

declare gated5_value [code]

lemma gated4_reachable: "reachable gated4"
proof -
  have "reachable gated1"
    using reachable.move [OF sample1_reachable] gated1_ok by (auto simp: succeeds_iff gated1_def intro: step.intros)
  then have "reachable gated2"
    using gated2_ok proper_sample_ctx [of "''A''"]
    by (auto simp: succeeds_iff gated2_def intro: step.intros reachable.move)
  then have "reachable gated3"
    using gated3_ok by (auto simp: succeeds_iff gated3_def intro: step.intros reachable.move)
  then show ?thesis
    using gated4_ok proper_sample_ctx [of "''B''"]
    by (auto simp: succeeds_iff gated4_def intro: step.intros reachable.move)
qed

lemma succeeds_report: "succeeds m \<Longrightarrow> \<exists>s'. m = Inr (report_of m, s')"
  by (cases m) (auto simp: succeeds_def report_of_def)

text \<open>The same queue after the reviewer has passed the head.\<close>

definition sample_row :: "string \<Rightarrow> string \<Rightarrow> row" where
  "sample_row id' kind =
     \<lparr>r_id = id', r_root_id = id', r_parent_id = None, r_repository = ''acme/tool'', r_kind = kind,
      r_objective = ''o'', r_instructions = ''i'', r_acceptance_criteria = Json [''c''],
      r_allowed_actions = Json [Read], r_delegable_actions = Json [],
      r_required_artifact = NoArtifact, r_execution_target = Some ReadOnly, r_policy = SqlNull,
      r_priority = 0, r_status = RCompleted, r_admitted = True, r_created_by = ''operator:ann'',
      r_created_at = 1, r_updated_at = 2, r_source_ref = None, r_predecessors = SqlNull,
      r_cure = SqlNull, r_review = SqlNull, r_lease_owner = None, r_lease_token = None,
      r_lease_expires_at = None,
      r_result = Json \<lparr>wr_summary = ''s'', wr_evidence = [], wr_artifacts = [], wr_model = None\<rparr>,
      r_operator_notes = Json [], r_previous_results = Json []\<rparr>"

definition pass_record :: pull_request_review where
  "pass_record =
     \<lparr>pr_pull_request_url = ''https://github.com/acme/tool/pull/7'', pr_head_sha = hd_head_sha reviewed_head,
      pr_patch_digest = None, pr_round = JInt 1, pr_origin_item_id = Some ''A'', pr_author_model = None,
      pr_prior_reviewer_model = None, pr_prior_blockers = [], pr_review_item_id = None,
      pr_reviewer_model = None, pr_decision = Some Pass, pr_blockers = Some [], pr_advisories = Some [],
      pr_reviewed_at = Some 2\<rparr>"

definition passed_queue :: store where
  "passed_queue =
     \<lparr>st_repositories =
        [\<lparr>rp_slug = ''acme/tool'', rp_enabled = True, rp_cure_foreign = False, rp_review_gate = True,
          rp_unreported = SqlNull, rp_labeled_issues = SqlNull, rp_created_at = 0, rp_updated_at = 0\<rparr>],
      st_items =
        [(sample_row ''A'' ''fix'')
           \<lparr>r_result := Json \<lparr>wr_summary = ''s'', wr_evidence = [], wr_artifacts = [draft_pull], wr_model = None\<rparr>\<rparr>,
         (sample_row ''R'' ''pr-review'')\<lparr>r_review := Json pass_record\<rparr>],
      st_events = [], st_sequence = 0, st_tokens = [], st_user_version = schema_version\<rparr>"

lemma passed_sweep_marks:
  "report_of (sample_sweep True 70 ''V'' passed_queue) =
     empty_sweep\<lparr>sw_inspected := 1, sw_marked_ready :=
       [(''https://github.com/acme/tool/pull/7'', replicate 40 CHR ''a'', ''R'')]\<rparr>"
  "succeeds (sample_sweep True 70 ''V'' passed_queue)"
  by code_simp+

end
