(* ===== verification/Review_Guarantees.thy ===== *)
theory Review_Guarantees
  imports Review_Sample
begin

text \<open>
  What the review sweep guarantees: every change it makes is an operation of the queue, it marks a
  pull request ready only for the exact head a completed review passed and whose diff touches no
  guarded boundary, it stays within the round budget, and the board predicts its verdict.
\<close>

subsection \<open>What one draft leads to\<close>

definition same_gate_report :: "sweep_result \<Rightarrow> sweep_result \<Rightarrow> bool" where
  "same_gate_report w w' =
     (sw_marked_ready w' = sw_marked_ready w \<and> sw_enqueued w' = sw_enqueued w)"

text \<open>The head was not seen to move away from the reviewed one by the read after the mark.\<close>

definition head_settled :: "outside \<Rightarrow> string \<Rightarrow> string \<Rightarrow> string \<Rightarrow> bool" where
  "head_settled gh repository url sha =
     (case gh_head gh 1 repository url of
        HeadUnavailable _ \<Rightarrow> False
      | HeadRejected _ \<Rightarrow> True
      | HeadRead h \<Rightarrow> hd_state h = PullOpen \<longrightarrow> hd_head_sha h = sha)"

definition boundaries_clear :: "ctx \<Rightarrow> outside \<Rightarrow> string \<Rightarrow> string \<Rightarrow> bool" where
  "boundaries_clear cx gh repository url =
     (\<exists>authority. policy_authority_for cx repository = Inr authority \<and>
        (parse_pull_request_url repository url = None \<or> guarded_boundaries authority = [] \<or>
         (\<exists>files. gh_files gh repository url = Some files \<and>
            (\<forall>b \<in> set (guarded_boundaries authority). \<forall>pattern \<in> set (pb_paths b).
               \<forall>file \<in> set files. path_touches_boundary file pattern = Some False))))"

definition passed_review :: "string \<Rightarrow> string \<Rightarrow> string \<Rightarrow> string \<Rightarrow> store \<Rightarrow> bool" where
  "passed_review repository url sha review_item_id s =
     (\<exists>reviews item review. pull_request_review_items repository url s = Inr reviews \<and>
        item \<in> set reviews \<and> wi_id item = review_item_id \<and> wi_kind item = review_kind \<and>
        wi_status item = Completed \<and> wi_review item = Some review \<and> pr_head_sha review = sha \<and>
        (pr_decision review = Some Pass \<or> only_outstanding review))"

definition cleanly_reviewed :: "ctx \<Rightarrow> outside \<Rightarrow> string \<Rightarrow> string \<times> string \<times> string \<Rightarrow> store \<Rightarrow> bool" where
  "cleanly_reviewed cx gh repository mark s =
     (case mark of (url, sha, review_item_id) \<Rightarrow>
        (\<exists>head. gh_head gh 0 repository url = HeadRead head \<and> hd_state head = PullOpen \<and>
           hd_draft head \<and> hd_head_sha head = sha) \<and>
        head_settled gh repository url sha \<and> boundaries_clear cx gh repository url \<and>
        passed_review repository url sha review_item_id s)"

lemma some_res_False: "some_res p xs = Inr False \<longleftrightarrow> (\<forall>x \<in> set xs. p x = Inr False)"
  by (induction xs) (auto simp: and_then_Inr_iff split: if_splits)

lemma filter_res_none: "filter_res p xs = Inr [] \<longleftrightarrow> (\<forall>x \<in> set xs. p x = Inr False)"
proof (induction xs)
  case Nil
  then show ?case by simp
next
  case (Cons x xs)
  then show ?case by (auto simp: and_then_Inr_iff split: if_splits)
qed

lemma touches_False:
  "touches files b = Inr False \<longleftrightarrow>
     (\<forall>pattern \<in> set (pb_paths b). \<forall>file \<in> set files. path_touches_boundary file pattern = Some False)"
proof -
  have "(case x of None \<Rightarrow> Inl e | Some b \<Rightarrow> Inr b) = Inr False \<longleftrightarrow> x = Some False" for x :: "bool option" and e :: error
    by (auto split: option.splits)
  then show ?thesis by (simp add: touches_def some_res_False)
qed

lemma report_simps [simp]:
  "sw_marked_ready (needs_human url sha n reason w) = sw_marked_ready w"
  "sw_enqueued (needs_human url sha n reason w) = sw_enqueued w"
  "sw_ready_to_mark (needs_human url sha n reason w) = sw_ready_to_mark w"
  "sw_marked_ready (skipped url why w) = sw_marked_ready w"
  "sw_enqueued (skipped url why w) = sw_enqueued w"
  "sw_ready_to_mark (skipped url why w) = sw_ready_to_mark w"
  "sw_marked_ready (unavailable url cause w) = sw_marked_ready w"
  "sw_enqueued (unavailable url cause w) = sw_enqueued w"
  "sw_ready_to_mark (unavailable url cause w) = sw_ready_to_mark w"
  by (simp_all add: needs_human_def skipped_def unavailable_def)

lemma release_head_outcome:
  assumes "release_head cx gh writes actor origin url head n rid (w, s) = Inr (w', s')"
  shows "s' = s \<and> same_gate_report w w' \<or>
    writes \<and> head_settled gh (og_repository origin) url (hd_head_sha head) \<and>
    (\<exists>item. record_pull_request_ready cx (og_item_id origin) url actor (hd_head_sha head) rid s =
       Inr (item, s')) \<and>
    sw_marked_ready w' = sw_marked_ready w @ [(url, hd_head_sha head, rid)] \<and>
    sw_enqueued w' = sw_enqueued w"
  using assms
  by (auto simp: release_head_def same_gate_report_def head_settled_def Let_def and_then_Inr_iff
      split: if_splits option.splits head_check.splits)

lemma apply_pass_outcome:
  assumes "apply_pass_consequence cx gh writes actor origin url head n rid (w, s) = Inr (w', s')"
  shows "s' = s \<and> same_gate_report w w' \<or>
    writes \<and> head_settled gh (og_repository origin) url (hd_head_sha head) \<and>
    boundaries_clear cx gh (og_repository origin) url \<and>
    (\<exists>item. record_pull_request_ready cx (og_item_id origin) url actor (hd_head_sha head) rid s =
       Inr (item, s')) \<and>
    sw_marked_ready w' = sw_marked_ready w @ [(url, hd_head_sha head, rid)] \<and>
    sw_enqueued w' = sw_enqueued w"
proof -
  let ?release = "release_head cx gh writes actor origin url head n rid (w, s) = Inr (w', s')"
  obtain authority where authority: "policy_authority_for cx (og_repository origin) = Inr authority"
    using assms by (auto simp: apply_pass_consequence_def and_then_Inr_iff)
  have "s' = s \<and> same_gate_report w w' \<or> ?release \<and> boundaries_clear cx gh (og_repository origin) url"
  proof (cases "guarded_boundaries authority = [] \<or> parse_pull_request_url (og_repository origin) url = None")
    case True
    then have "boundaries_clear cx gh (og_repository origin) url"
      using authority by (auto simp: boundaries_clear_def)
    with True assms authority show ?thesis by (simp add: apply_pass_consequence_def)
  next
    case False
    show ?thesis
    proof (cases "gh_files gh (og_repository origin) url")
      case None
      with False assms authority show ?thesis
        by (auto simp: apply_pass_consequence_def same_gate_report_def)
    next
      case (Some files)
      with False assms authority
      have "and_then (filter_res (touches files) (guarded_boundaries authority)) (\<lambda>touched.
              if touched \<noteq> [] then Inr (needs_human url (hd_head_sha head) n (TouchesBoundary touched) w, s)
              else release_head cx gh writes actor origin url head n rid (w, s)) = Inr (w', s')"
        by (simp only: apply_pass_consequence_def and_then.simps Let_def False if_False Some
            option.case fst_conv snd_conv)
      then obtain touched
        where touched: "filter_res (touches files) (guarded_boundaries authority) = Inr touched"
          and rest: "(if touched \<noteq> [] then Inr (needs_human url (hd_head_sha head) n (TouchesBoundary touched) w, s)
                      else release_head cx gh writes actor origin url head n rid (w, s)) = Inr (w', s')"
        unfolding and_then_Inr_iff by blast
      have "boundaries_clear cx gh (og_repository origin) url" if "touched = []"
        using touched that authority Some unfolding boundaries_clear_def touches_False [symmetric]
        by (auto simp: filter_res_none)
      with rest show ?thesis by (auto simp: same_gate_report_def split: if_splits)
    qed
  qed
  then show ?thesis using release_head_outcome by blast
qed

text \<open>What the sweep asks the queue for, about one draft.\<close>

definition within_budget :: "string \<times> string \<times> string \<times> string \<times> int \<Rightarrow> bool" where
  "within_budget e =
     (case e of (id', kind, url, sha, n) \<Rightarrow>
        (kind = review_kind \<or> kind = review_fix_kind \<and> n < max_review_rounds) \<and>
        1 \<le> n \<and> n \<le> max_review_rounds)"

inductive gate_step ::
    "ctx \<Rightarrow> outside \<Rightarrow> bool \<Rightarrow> string \<Rightarrow> sweep_result \<times> store \<Rightarrow> sweep_result \<times> store \<Rightarrow> bool"
  for cx gh writes repository
where
  report: "same_gate_report w w' \<Longrightarrow> gate_step cx gh writes repository (w, s) (w', s)"
| mark:
    "writes \<Longrightarrow> cleanly_reviewed cx gh repository (url, sha, rid) s \<Longrightarrow>
     record_pull_request_ready cx origin url actor sha rid s = Inr (item, s') \<Longrightarrow>
     sw_marked_ready w' = sw_marked_ready w @ [(url, sha, rid)] \<Longrightarrow>
     sw_enqueued w' = sw_enqueued w \<Longrightarrow> gate_step cx gh writes repository (w, s) (w', s')"
| enqueue:
    "enqueue_review_root cx repository bound review s = Inr (created, s') \<Longrightarrow>
     sw_marked_ready w' = sw_marked_ready w \<Longrightarrow>
     sw_enqueued w' = sw_enqueued w \<or>
       (\<exists>e. sw_enqueued w' = sw_enqueued w @ [e] \<and> within_budget e \<and> created \<noteq> None) \<Longrightarrow>
     gate_step cx gh writes repository (w, s) (w', s')"

lemma enqueue_root_gate_step:
  assumes "enqueue_root_of cx origin kind url head seed review known (w, s) = Inr (w', s')"
    and "\<forall>any m. pr_round review = JInt m \<and> 1 \<le> m \<longrightarrow> within_budget (any, kind, url, hd_head_sha head, m)"
  shows "gate_step cx gh writes (og_repository origin) (w, s) (w', s')"
proof -
  obtain created bound where enq: "enqueue_review_root cx (og_repository origin) bound review s = Inr (created, s')"
    and w': "w' = (case created of None \<Rightarrow> skipped url known w
      | Some item \<Rightarrow> w\<lparr>sw_enqueued := sw_enqueued w @
          [(wi_id item, kind, url, hd_head_sha head, js_int (pr_round review))]\<rparr>)"
    using assms(1) by (auto simp: enqueue_root_of_def and_then_Inr_iff split: option.splits)
  have "\<exists>u. validate_review review = Inr u"
    using enq by (auto simp: enqueue_review_root_def Let_def and_then_Inr_iff)
  then obtain n where n: "pr_round review = JInt n" "1 \<le> n"
    by (cases "pr_round review") (auto simp: validate_review_def res_iffs)
  have "within_budget (wi_id item, kind, url, hd_head_sha head, js_int (pr_round review))" for item
    using assms(2) n by simp
  then show ?thesis
    using w' by (intro gate_step.enqueue [OF enq]) (auto split: option.splits)
qed

lemma same_gate_report_add:
  "same_gate_report w (needs_human url sha n reason w)" "same_gate_report w w"
  "same_gate_report w (skipped url why w)" "same_gate_report w (unavailable url cause w)"
  by (simp_all add: same_gate_report_def)

lemma gate_step_after_report:
  "gate_step cx gh writes g (w1, s) (w', s') \<Longrightarrow> same_gate_report w w1 \<Longrightarrow> gate_step cx gh writes g (w, s) (w', s')"
  by (auto simp: same_gate_report_def elim!: gate_step.cases intro: gate_step.intros)

text \<open>The draft at hand: read open, a draft, at this head, with these review items.\<close>

definition draft_at_hand ::
    "outside \<Rightarrow> string \<Rightarrow> string \<Rightarrow> pull_head \<Rightarrow> work_item list \<Rightarrow> store \<Rightarrow> bool"
where
  "draft_at_hand gh repository url head reviews s =
     (gh_head gh 0 repository url = HeadRead head \<and> hd_state head = PullOpen \<and> hd_draft head \<and>
      pull_request_review_items repository url s = Inr reviews)"

lemma in_bound_items:
  "(item, review) \<in> set (bound_items items) \<longleftrightarrow> item \<in> set items \<and> wi_review item = Some review"
  by (force simp: bound_items_def List.map_filter_def)

lemma last_option_Some: "last_option xs = Some x \<Longrightarrow> x \<in> set xs"
  by (auto simp: last_option_def split: if_splits)

lemma latest_completed:
  assumes "last_option (completed_reviews (bound_items reviews)) = Some latest"
  shows "fst latest \<in> set reviews" and "wi_review (fst latest) = Some (snd latest)"
    and "wi_kind (fst latest) = review_kind" and "wi_status (fst latest) = Completed"
  using last_option_Some [OF assms] by (auto simp: completed_reviews_def in_bound_items)

lemma passed_review_latest:
  assumes "draft_at_hand gh repository url head reviews s"
    and "last_option (completed_reviews (bound_items reviews)) = Some latest"
    and "pr_head_sha (snd latest) = hd_head_sha head"
    and "pr_decision (snd latest) = Some Pass \<or> only_outstanding (snd latest)"
  shows "passed_review repository url (hd_head_sha head) (wi_id (fst latest)) s"
  using assms latest_completed [OF assms(2)] unfolding passed_review_def draft_at_hand_def by blast

lemma pass_gate_step:
  assumes "apply_pass_consequence cx gh writes actor origin url head n (wi_id (fst latest)) (w, s) = Inr (w', s')"
    and "draft_at_hand gh (og_repository origin) url head reviews s"
    and "last_option (completed_reviews (bound_items reviews)) = Some latest"
    and "pr_head_sha (snd latest) = hd_head_sha head"
    and "pr_decision (snd latest) = Some Pass \<or> only_outstanding (snd latest)"
  shows "gate_step cx gh writes (og_repository origin) (w, s) (w', s')"
  using apply_pass_outcome [OF assms(1)]
proof (elim disjE conjE exE)
  assume "s' = s" "same_gate_report w w'"
  then show ?thesis by (simp add: gate_step.report)
next
  fix item
  assume writes
    and settled: "head_settled gh (og_repository origin) url (hd_head_sha head)"
    and clear: "boundaries_clear cx gh (og_repository origin) url"
    and ready: "record_pull_request_ready cx (og_item_id origin) url actor (hd_head_sha head)
      (wi_id (fst latest)) s = Inr (item, s')"
    and w': "sw_marked_ready w' = sw_marked_ready w @ [(url, hd_head_sha head, wi_id (fst latest))]"
      "sw_enqueued w' = sw_enqueued w"
  have "cleanly_reviewed cx gh (og_repository origin) (url, hd_head_sha head, wi_id (fst latest)) s"
    using settled clear passed_review_latest [OF assms(2-5)] assms(2)
    by (simp add: cleanly_reviewed_def draft_at_hand_def)
  then show ?thesis by (rule gate_step.mark [OF \<open>writes\<close> _ ready w'])
qed

lemma next_round_gate_step:
  assumes "next_round cx gh pz actor origin url head completed (w, s) = Inr (w', s')"
  shows "gate_step cx gh writes (og_repository origin) (w, s) (w', s')"
proof (cases "max_review_rounds < int (length completed) + 1")
  case True
  then have "s' = s" "same_gate_report w w'"
    using assms by (auto simp: next_round_def Let_def same_gate_report_def)
  then show ?thesis by (simp add: gate_step.report)
next
  case False
  then obtain seed where
    "enqueue_root_of cx origin review_kind url head seed (round_review gh origin url head completed)
       (AlreadyHasReview (hd_head_sha head)) (w, s) = Inr (w', s')"
    using assms by (auto simp: next_round_def Let_def and_then_Inr_iff)
  then show ?thesis
    by (rule enqueue_root_gate_step)
      (use False in \<open>auto simp: within_budget_def round_review_def Let_def\<close>)
qed

lemma act_on_block_gate_step:
  assumes "act_on_block cx gh pz writes actor origin url head (bound_items reviews) latest (w, s) = Inr (w', s')"
    and "draft_at_hand gh (og_repository origin) url head reviews s"
    and "last_option (completed_reviews (bound_items reviews)) = Some latest"
    and "pr_head_sha (snd latest) = hd_head_sha head"
  shows "gate_step cx gh writes (og_repository origin) (w, s) (w', s')"
proof -
  let ?n = "round_of latest" and ?fix = "fix_review url head latest"
  obtain w1 where w1: "same_gate_report w w1" and
    cases: "only_outstanding (snd latest) \<and>
        apply_pass_consequence cx gh writes actor origin url head ?n (wi_id (fst latest)) (w1, s) = Inr (w', s') \<or>
      s' = s \<and> same_gate_report w1 w' \<or>
      ?n < max_review_rounds \<and> (\<exists>seed. enqueue_root_of cx origin review_fix_kind url head seed ?fix
        (AlreadyHasFix (hd_head_sha head)) (w1, s) = Inr (w', s'))"
  proof -
    let ?ds = "description_blockers (or_empty (pr_blockers (snd latest)))"
    let ?w1 = "if ?ds = [] then w else needs_human url (hd_head_sha head) ?n
      (DescriptionAdjudication (DescriptionLead ?n ?ds) (gh_edited_after gh url (snd latest))) w"
    have "same_gate_report w ?w1" by (simp add: same_gate_report_add)
    moreover have acc: "(if ?ds = [] then (w, s) else (needs_human url (hd_head_sha head) ?n
      (DescriptionAdjudication (DescriptionLead ?n ?ds) (gh_edited_after gh url (snd latest))) w, s)) = (?w1, s)"
      by simp
    have "only_outstanding (snd latest) \<and>
        apply_pass_consequence cx gh writes actor origin url head ?n (wi_id (fst latest)) (?w1, s) = Inr (w', s') \<or>
      s' = s \<and> same_gate_report ?w1 w' \<or>
      ?n < max_review_rounds \<and> (\<exists>seed. enqueue_root_of cx origin review_fix_kind url head seed ?fix
        (AlreadyHasFix (hd_head_sha head)) (?w1, s) = Inr (w', s'))"
      using assms(1) unfolding act_on_block_def Let_def fst_conv snd_conv acc
      by (simp add: same_gate_report_def split: if_splits) (blast | force)+
    ultimately show ?thesis using that by blast
  qed
  have "gate_step cx gh writes (og_repository origin) (w1, s) (w', s')"
    using cases
  proof (elim disjE conjE exE)
    assume "only_outstanding (snd latest)"
      "apply_pass_consequence cx gh writes actor origin url head ?n (wi_id (fst latest)) (w1, s) = Inr (w', s')"
    then show ?thesis using pass_gate_step [OF _ assms(2,3,4)] by blast
  next
    assume "s' = s" "same_gate_report w1 w'"
    then show ?thesis by (simp add: gate_step.report)
  next
    fix seed
    assume n: "?n < max_review_rounds"
      and "enqueue_root_of cx origin review_fix_kind url head seed ?fix
        (AlreadyHasFix (hd_head_sha head)) (w1, s) = Inr (w', s')"
    from this(2) show ?thesis
      by (rule enqueue_root_gate_step)
        (use n in \<open>auto simp: within_budget_def fix_review_def Let_def round_of_def\<close>)
  qed
  then show ?thesis using w1 by (rule gate_step_after_report)
qed

lemma sweep_draft_gate_step:
  assumes "sweep_draft cx gh pz writes actor (origin, url) (w, s) = Inr (w', s')"
  shows "gate_step cx gh writes (og_repository origin) (w, s) (w', s')"
proof -
  let ?w1 = "w\<lparr>sw_inspected := Suc (sw_inspected w)\<rparr>"
  have start: "same_gate_report w ?w1" by (simp add: same_gate_report_def)
  consider "s' = s" "same_gate_report ?w1 w'"
    | head reviews where "draft_at_hand gh (og_repository origin) url head reviews s"
        "judge_draft cx gh pz writes actor origin url head (bound_items reviews) (?w1, s) = Inr (w', s')"
    using assms
    by (auto simp: sweep_draft_def Let_def and_then_Inr_iff same_gate_report_def draft_at_hand_def
        split: head_check.splits if_splits)
  then have "gate_step cx gh writes (og_repository origin) (?w1, s) (w', s')"
  proof cases
    case 1
    then show ?thesis by (simp add: gate_step.report)
  next
    case (2 head reviews)
    let ?latest = "last_option (completed_reviews (bound_items reviews))"
    show ?thesis
    proof (cases ?latest)
      case None
      with 2 show ?thesis by (simp add: judge_draft_def Let_def next_round_gate_step)
    next
      case (Some latest)
      consider "next_round cx gh pz actor origin url head (completed_reviews (bound_items reviews)) (?w1, s) = Inr (w', s')"
        | "pr_head_sha (snd latest) = hd_head_sha head" "pr_decision (snd latest) = Some Pass"
          "apply_pass_consequence cx gh writes actor origin url head (round_of latest)
             (wi_id (fst latest)) (?w1, s) = Inr (w', s')"
        | "s' = s" "same_gate_report ?w1 w'"
        | "pr_head_sha (snd latest) = hd_head_sha head"
          "act_on_block cx gh pz writes actor origin url head (bound_items reviews) latest (?w1, s) = Inr (w', s')"
        using 2(2) Some by (auto simp: judge_draft_def Let_def same_gate_report_def split: if_splits)
      then show ?thesis
      proof cases
        case 1
        then show ?thesis by (rule next_round_gate_step)
      next
        case p: 2
        then show ?thesis using pass_gate_step [OF p(3) 2(1) Some p(1)] by simp
      next
        case 3
        then show ?thesis by (simp add: gate_step.report)
      next
        case 4
        then show ?thesis using act_on_block_gate_step [OF 4(2) 2(1) Some 4(1)] by simp
      qed
    qed
  qed
  then show ?thesis using start by (rule gate_step_after_report)
qed

subsection \<open>The whole sweep\<close>

lemma gate_step_invariant:
  assumes "gate_step cx gh writes g (w, s) (w', s')" and "proper_ctx cx"
    and "step\<^sup>*\<^sup>* s0 s"
  shows "step\<^sup>*\<^sup>* s0 s'"
    and "m \<in> set (sw_marked_ready w') \<Longrightarrow> m \<notin> set (sw_marked_ready w) \<Longrightarrow>
           writes \<and> cleanly_reviewed cx gh g m s"
    and "\<forall>e \<in> set (sw_enqueued w). within_budget e \<Longrightarrow> e \<in> set (sw_enqueued w') \<Longrightarrow> within_budget e"
  using assms
  by (auto elim!: gate_step.cases simp: same_gate_report_def intro: step.intros
      rtranclp.rtrancl_into_rtrancl)

definition sweep_in_order ::
    "(nat \<Rightarrow> ctx) \<Rightarrow> outside \<Rightarrow> bool \<Rightarrow> store \<Rightarrow> sweep_result \<times> store \<Rightarrow> bool"
where
  "sweep_in_order cxs gh writes s0 acc =
     (step\<^sup>*\<^sup>* s0 (snd acc) \<and>
      (\<forall>m \<in> set (sw_marked_ready (fst acc)).
         writes \<and> (\<exists>i g t. step\<^sup>*\<^sup>* s0 t \<and> cleanly_reviewed (cxs i) gh g m t)) \<and>
      (\<forall>e \<in> set (sw_enqueued (fst acc)). within_budget e))"

lemma sweep_draft_in_order:
  assumes "sweep_draft (cxs i) gh pz writes actor target acc = Inr acc'"
    and "sweep_in_order cxs gh writes s0 acc" and "proper_ctx (cxs i)"
  shows "sweep_in_order cxs gh writes s0 acc'"
proof -
  obtain origin url w s w' s' where [simp]: "target = (origin, url)" "acc = (w, s)" "acc' = (w', s')"
    by (cases target, cases acc, cases acc') auto
  have run: "step\<^sup>*\<^sup>* s0 s" using assms(2) by (simp add: sweep_in_order_def)
  have "gate_step (cxs i) gh writes (og_repository origin) (w, s) (w', s')"
    using assms(1) by (simp add: sweep_draft_gate_step)
  note gate = gate_step_invariant [OF this assms(3) run]
  have "writes \<and> (\<exists>i g t. step\<^sup>*\<^sup>* s0 t \<and> cleanly_reviewed (cxs i) gh g m t)"
    if "m \<in> set (sw_marked_ready w')" for m
    using gate(2) [OF that] assms(2) run unfolding sweep_in_order_def by (cases "m \<in> set (sw_marked_ready w)") auto
  then show ?thesis using gate(1,3) assms(2) by (simp add: sweep_in_order_def)
qed

lemma observe_unreported_report:
  assumes "observe_unreported cx gh now actor repository (w, s) = Inr (w', s')"
  shows "same_gate_report w w'" and "s' = s \<or> step s s'"
  using assms
  by (auto simp: observe_unreported_def Let_def and_then_Inr_iff same_gate_report_def
      split: option.splits if_splits intro: step.intros)

lemma observe_unreported_in_order:
  assumes "observe_unreported cx gh now actor repository acc = Inr acc'"
    and "sweep_in_order cxs gh writes s0 acc"
  shows "sweep_in_order cxs gh writes s0 acc'"
proof -
  obtain w s w' s' where acc: "acc = (w, s)" "acc' = (w', s')" by (cases acc, cases acc') auto
  with assms(1) observe_unreported_report [of cx gh now actor repository w s w' s']
  have "same_gate_report w w'" "s' = s \<or> step s s'" by simp_all
  with assms(2) acc show ?thesis
    by (auto simp: sweep_in_order_def same_gate_report_def intro: rtranclp.rtrancl_into_rtrancl)
qed

lemma sweep_keeps_order:
  assumes "review_pull_requests cxs gh pz now options s = Inr acc" and "\<forall>i. proper_ctx (cxs i)"
  shows "sweep_in_order cxs gh (op_writes options) s acc"
proof (cases "gated_repositories (op_repository options) s = []")
  case True
  with assms(1) show ?thesis
    by (auto simp: review_pull_requests_def sweep_in_order_def empty_sweep_def)
next
  case False
  let ?gated = "gated_repositories (op_repository options) s"
  obtain targets acc1 where drafts:
      "fold_res (\<lambda>(i, target). sweep_draft (cxs i) gh pz (op_writes options) (op_actor options) target)
         (List.enumerate 0 targets) (empty_sweep, s) = Inr acc1"
    and rest: "fold_res (\<lambda>(i, repository). observe_unreported (cxs i) gh now (op_actor options) repository)
         (List.enumerate (length targets) ?gated) acc1 = Inr acc"
    using assms(1) unfolding review_pull_requests_def Let_def if_not_P [OF False] and_then_Inr_iff by blast
  have "sweep_in_order cxs gh (op_writes options) s (empty_sweep, s)"
    by (simp add: sweep_in_order_def empty_sweep_def)
  with drafts have "sweep_in_order cxs gh (op_writes options) s acc1"
    by (rule fold_res_invariant) (auto intro: sweep_draft_in_order assms(2) [rule_format])
  with rest show ?thesis
    by (rule fold_res_invariant) (auto intro: observe_unreported_in_order)
qed







subsection \<open>The board and the gate\<close>

lemma with_note_keeps [simp]:
  "rw_ready_to_mark (with_note note h row) = rw_ready_to_mark row"
  "rw_item_id (with_note note h row) = rw_item_id row"
  by (simp_all add: with_note_def split: option.splits)

lemma judged_row_ready:
  "rw_ready_to_mark (judged_row bound h True latest) \<longleftrightarrow>
     pr_decision (snd latest) = Some Pass \<or>
     pr_decision (snd latest) \<noteq> Some UnableToReview \<and> only_outstanding (snd latest)"
  "rw_ready_to_mark (judged_row bound h True latest) \<Longrightarrow>
     rw_item_id (judged_row bound h True latest) = wi_id (fst latest)"
  by (auto simp: judged_row_def row_of_item_def Let_def split: option.splits if_splits)

lemma unjudged_row_ready: "\<not> rw_ready_to_mark (unjudged_row bound completed)"
  by (simp add: unjudged_row_def row_of_item_def Let_def)

lemma commit_sha_lower: "commit_sha sha \<Longrightarrow> to_lower sha = sha \<and> sha \<noteq> []"
proof -
  assume "commit_sha sha"
  then have "length sha = 40" "\<forall>c \<in> set sha. lower_char c = c"
    by (auto simp: commit_sha_def list_all_iff is_hex_lower_def lower_char_def is_digit_char_def is_upper_char_def)
  then show ?thesis by (auto simp: to_lower_def map_idI)
qed

lemma enqueue_root_of_ready:
  "enqueue_root_of cx origin kind url head seed review known (w, s) = Inr (w', s') \<Longrightarrow>
     sw_ready_to_mark w' = sw_ready_to_mark w"
  by (auto simp: enqueue_root_of_def and_then_Inr_iff split: option.splits)

lemma next_round_ready:
  "next_round cx gh pz actor origin url head completed (w, s) = Inr (w', s') \<Longrightarrow>
     sw_ready_to_mark w' = sw_ready_to_mark w"
  by (auto simp: next_round_def Let_def and_then_Inr_iff dest: enqueue_root_of_ready split: if_splits)

lemma apply_pass_ready:
  assumes "apply_pass_consequence cx gh False actor origin url head n rid (w, s) = Inr (w', s')"
    and "policy_authority_for cx (og_repository origin) = Inr authority"
    and "guarded_boundaries authority = []"
  shows "sw_ready_to_mark w' = sw_ready_to_mark w @ [(url, hd_head_sha head, rid)]"
  using assms by (auto simp: apply_pass_consequence_def release_head_def)

lemma act_on_block_ready:
  assumes "act_on_block cx gh pz False actor origin url head bound latest (w, s) = Inr (w', s')"
    and "policy_authority_for cx (og_repository origin) = Inr authority"
    and "guarded_boundaries authority = []"
  shows "sw_ready_to_mark w' =
    sw_ready_to_mark w @ (if only_outstanding (snd latest) then [(url, hd_head_sha head, wi_id (fst latest))] else [])"
proof -
  obtain w1 where w1: "sw_ready_to_mark w1 = sw_ready_to_mark w"
    and rest: "if only_outstanding (snd latest)
      then apply_pass_consequence cx gh False actor origin url head (round_of latest) (wi_id (fst latest)) (w1, s) = Inr (w', s')
      else sw_ready_to_mark w' = sw_ready_to_mark w1"
  proof
    let ?ds = "description_blockers (or_empty (pr_blockers (snd latest)))"
    let ?w1 = "if ?ds = [] then w else needs_human url (hd_head_sha head) (round_of latest)
      (DescriptionAdjudication (DescriptionLead (round_of latest) ?ds) (gh_edited_after gh url (snd latest))) w"
    show "sw_ready_to_mark ?w1 = sw_ready_to_mark w" by simp
    have acc: "(if ?ds = [] then (w, s) else (needs_human url (hd_head_sha head) (round_of latest)
      (DescriptionAdjudication (DescriptionLead (round_of latest) ?ds) (gh_edited_after gh url (snd latest))) w, s)) = (?w1, s)"
      by simp
    show "if only_outstanding (snd latest)
      then apply_pass_consequence cx gh False actor origin url head (round_of latest) (wi_id (fst latest)) (?w1, s) = Inr (w', s')
      else sw_ready_to_mark w' = sw_ready_to_mark ?w1"
      using assms(1) unfolding act_on_block_def Let_def fst_conv snd_conv acc
      by (simp split: if_splits) (auto dest: enqueue_root_of_ready)
  qed
  with apply_pass_ready [OF _ assms(2,3)] show ?thesis by (auto split: if_splits)
qed

lemma in_flight_bound:
  assumes "pull_request_review_items repository url s = Inr reviews"
  shows "list_ex (\<lambda>item. wi_status item = Queued \<or> wi_status item = Claimed) reviews \<longleftrightarrow>
    List.find in_flight (bound_items reviews) \<noteq> None"
proof -
  have "\<forall>item \<in> set reviews. \<exists>r. wi_review item = Some r"
    using assms by (auto simp: pull_request_review_items_def Let_def and_then_Inr_iff split: option.splits)
  then show ?thesis
    unfolding find_None_iff list_ex_iff in_flight_def not_not Bex_def split_paired_Ex in_bound_items fst_conv
    by blast
qed

definition gate_verdict :: "string \<Rightarrow> bound_item list \<Rightarrow> bound_item option" where
  "gate_verdict sha bound =
     (case last_option (completed_reviews bound) of
        None \<Rightarrow> None
      | Some latest \<Rightarrow>
          if pr_head_sha (snd latest) = sha \<and>
             (pr_decision (snd latest) = Some Pass \<or>
              pr_decision (snd latest) \<noteq> Some UnableToReview \<and> only_outstanding (snd latest))
          then Some latest else None)"

lemma judge_draft_ready:
  assumes "judge_draft cx gh pz False actor origin url head bound (w, s) = Inr (w', s')"
    and "policy_authority_for cx (og_repository origin) = Inr authority"
    and "guarded_boundaries authority = []"
  shows "sw_ready_to_mark w' =
    sw_ready_to_mark w @
      (case gate_verdict (hd_head_sha head) bound of
         None \<Rightarrow> [] | Some latest \<Rightarrow> [(url, hd_head_sha head, wi_id (fst latest))])"
proof (cases "\<exists>latest. last_option (completed_reviews bound) = Some latest \<and>
    pr_head_sha (snd latest) = hd_head_sha head")
  case False
  then obtain completed where "next_round cx gh pz actor origin url head completed (w, s) = Inr (w', s')"
    using assms(1) by (auto simp: judge_draft_def Let_def split: option.splits)
  from next_round_ready [OF this] False show ?thesis
    by (auto simp: gate_verdict_def split: option.split)
next
  case True
  then obtain latest where latest: "last_option (completed_reviews bound) = Some latest"
    "pr_head_sha (snd latest) = hd_head_sha head" by blast
  let ?pass = "apply_pass_consequence cx gh False actor origin url head (round_of latest)
    (wi_id (fst latest)) (w, s) = Inr (w', s')"
  let ?block = "act_on_block cx gh pz False actor origin url head bound latest (w, s) = Inr (w', s')"
  consider "pr_decision (snd latest) = Some Pass" ?pass
    | "pr_decision (snd latest) = Some UnableToReview" "sw_ready_to_mark w' = sw_ready_to_mark w"
    | "pr_decision (snd latest) \<noteq> Some Pass" "pr_decision (snd latest) \<noteq> Some UnableToReview" ?block
    using assms(1) latest by (auto simp: judge_draft_def Let_def split: if_splits)
  then show ?thesis
  proof cases
    case 1
    with apply_pass_ready [OF 1(2) assms(2,3)] latest show ?thesis by (simp add: gate_verdict_def)
  next
    case 2
    with latest show ?thesis by (simp add: gate_verdict_def)
  next
    case 3
    with act_on_block_ready [OF 3(3) assms(2,3)] latest show ?thesis by (simp add: gate_verdict_def)
  qed
qed

lemma board_ready:
  assumes "List.find in_flight (bound_items items) = None" and "to_lower h = h" and "h \<noteq> []"
    and "\<And>latest. last_option (completed_reviews (bound_items items)) = Some latest \<Longrightarrow>
      to_lower (pr_head_sha (snd latest)) = pr_head_sha (snd latest)"
  shows "(case derive_review_state items (Some h) True of None \<Rightarrow> []
      | Some row \<Rightarrow> if rw_ready_to_mark row then [(url, h, rw_item_id row)] else []) =
    (case gate_verdict h (bound_items items) of None \<Rightarrow> [] | Some latest \<Rightarrow> [(url, h, wi_id (fst latest))])"
proof (cases "\<exists>latest. last_option (completed_reviews (bound_items items)) = Some latest \<and>
    pr_head_sha (snd latest) = h")
  case False
  then have "gate_verdict h (bound_items items) = None"
    by (auto simp: gate_verdict_def split: option.split)
  with assms False show ?thesis
    by (auto simp: derive_review_state_def Let_def unjudged_row_ready split: option.splits)
next
  case True
  then obtain latest where latest: "last_option (completed_reviews (bound_items items)) = Some latest"
    "pr_head_sha (snd latest) = h" by blast
  let ?row = "judged_row (bound_items items) h True latest"
  have "bound_items items \<noteq> []" using latest(1) by (auto simp: completed_reviews_def last_option_def)
  then obtain note' where
    "derive_review_state items (Some h) True = Some (with_note note' (Some h) ?row)"
    using assms(1,2,3) latest assms(4) [OF latest(1)] by (auto simp: derive_review_state_def Let_def)
  then show ?thesis
    using judged_row_ready [of "bound_items items" h latest] latest by (simp add: gate_verdict_def)
qed

text \<open>C27: The board and the sweep are two implementations of one gate. For an open draft whose
  head and review records name full lower-case commits, in a repository without guarded
  boundaries, the board shows ``ready to mark'' exactly when the sweep (with writes off) reports
  the draft's head as ready to mark, and both name the same review.\<close>

theorem board_agrees_with_the_gate:
  assumes "sweep_draft cx gh pz False actor (origin, url) (w, s) = Inr (w', s')"
    and "draft_at_hand gh (og_repository origin) url head reviews s"
    and "commit_sha (hd_head_sha head)"
    and "\<forall>item \<in> set reviews. \<forall>r. wi_review item = Some r \<longrightarrow> commit_sha (pr_head_sha r)"
    and "policy_authority_for cx (og_repository origin) = Inr authority"
    and "guarded_boundaries authority = []"
  shows "sw_ready_to_mark w' =
    sw_ready_to_mark w @
      (case derive_review_state reviews (Some (hd_head_sha head)) True of
         None \<Rightarrow> []
       | Some row \<Rightarrow>
           if rw_ready_to_mark row then [(url, hd_head_sha head, rw_item_id row)] else [])"
proof -
  let ?bound = "bound_items reviews" and ?h = "hd_head_sha head"
  let ?latest = "last_option (completed_reviews ?bound)"
  let ?w1 = "w\<lparr>sw_inspected := Suc (sw_inspected w)\<rparr>"
  let ?board = "case derive_review_state reviews (Some ?h) True of None \<Rightarrow> []
    | Some row \<Rightarrow> if rw_ready_to_mark row then [(url, ?h, rw_item_id row)] else []"
  have hand: "gh_head gh 0 (og_repository origin) url = HeadRead head" "hd_state head = PullOpen" "hd_draft head"
      "pull_request_review_items (og_repository origin) url s = Inr reviews"
    using assms(2) by (auto simp: draft_at_hand_def)
  have lower: "to_lower ?h = ?h" "?h \<noteq> []" using assms(3) commit_sha_lower by blast+
  have same: "to_lower (pr_head_sha (snd latest)) = pr_head_sha (snd latest)" if "?latest = Some latest" for latest
    using latest_completed(1,2) [OF that] assms(4) commit_sha_lower by blast
  show ?thesis
  proof (cases "List.find in_flight ?bound")
    case (Some b)
    then have "list_ex (\<lambda>item. wi_status item = Queued \<or> wi_status item = Claimed) reviews"
      using in_flight_bound [OF hand(4)] by simp
    then have "sw_ready_to_mark w' = sw_ready_to_mark w"
      using assms(1) hand by (auto simp: sweep_draft_def Let_def)
    moreover have "?board = []"
      using Some by (auto simp: derive_review_state_def Let_def row_of_item_def)
    ultimately show ?thesis by simp
  next
    case None
    then have "\<not> list_ex (\<lambda>item. wi_status item = Queued \<or> wi_status item = Claimed) reviews"
      using in_flight_bound [OF hand(4)] by simp
    then have "judge_draft cx gh pz False actor origin url head ?bound (?w1, s) = Inr (w', s')"
      using assms(1) hand by (simp add: sweep_draft_def Let_def)
    from judge_draft_ready [OF this assms(5,6)] board_ready [OF None lower, of url] same
    show ?thesis by simp
  qed
qed

theorem board_agrees_with_the_gate_witness:
  "sw_ready_to_mark (report_of (sweep_draft (sample_ctx 70 ''V'') sample_outside sample_prose False
     ''policy:review-gate'' (sample_origin, hd_url reviewed_head) (empty_sweep, passed_queue))) =
   [(hd_url reviewed_head, hd_head_sha reviewed_head, ''R'')]"
proof -
  let ?sweep = "sweep_draft (sample_ctx 70 ''V'') sample_outside sample_prose False
     ''policy:review-gate'' (sample_origin, hd_url reviewed_head) (empty_sweep, passed_queue)"
  have "succeeds ?sweep" by code_simp
  then obtain s' where run: "?sweep = Inr (report_of ?sweep, s')" using succeeds_report by blast
  let ?reviews = "map item_of (tl (st_items passed_queue))"
  have hand: "draft_at_hand sample_outside (og_repository sample_origin) (hd_url reviewed_head)
      reviewed_head ?reviews passed_queue" by code_simp
  have sha: "commit_sha (hd_head_sha reviewed_head)" by code_simp
  have "list_all (\<lambda>item. case wi_review item of None \<Rightarrow> True | Some r \<Rightarrow> commit_sha (pr_head_sha r)) ?reviews"
    by code_simp
  then have shas: "\<forall>item \<in> set ?reviews. \<forall>r. wi_review item = Some r \<longrightarrow> commit_sha (pr_head_sha r)"
    unfolding list_all_iff by fastforce
  have auth: "policy_authority_for (sample_ctx 70 ''V'') (og_repository sample_origin) = Inr None" by code_simp
  have free: "guarded_boundaries None = []" by code_simp
  have "(case derive_review_state ?reviews (Some (hd_head_sha reviewed_head)) True of None \<Rightarrow> []
      | Some row \<Rightarrow> if rw_ready_to_mark row then [(hd_url reviewed_head, hd_head_sha reviewed_head, rw_item_id row)] else []) =
      [(hd_url reviewed_head, hd_head_sha reviewed_head, ''R'')]" by code_simp
  with board_agrees_with_the_gate [OF run hand sha shas auth free] show ?thesis
    by (simp add: empty_sweep_def)
qed

end
