(* ===== verification/Review_Refusals.thy ===== *)
theory Review_Refusals
  imports Review_Sample
begin

text \<open>
  What the review gate refuses on a completion, and what it reports as unaccounted for: the
  rules \<open>assertReviewGate\<close> and \<open>assertReviewCompletion\<close>, and the unreported pass of the sweep.
\<close>

subsection \<open>The draft rule\<close>

definition ready_pull :: "work_artifact \<Rightarrow> bool" where
  "ready_pull a =
     (wa_kind a = PullRequest \<and>
      (case wa_verification a of
         Some (Verified v) \<Rightarrow> vo_state v = Open \<and> vo_draft v \<noteq> Some True
       | _ \<Rightarrow> False))"

definition gate_released :: "string \<Rightarrow> string \<Rightarrow> store \<Rightarrow> bool" where
  "gate_released repository url s =
     (case pull_request_review_items repository url s of
        Inl _ \<Rightarrow> False | Inr rounds \<Rightarrow> released_by_gate rounds)"

text \<open>In a repository with the review gate on, a completion passes the draft rule exactly when
  each verified pull request it reports that is open and not a draft was released by a completed,
  passing review round. The cure kinds are exempt, and so is a repository without the gate.\<close>

theorem review_gate_accepts_only_released_pull_requests:
  assumes "repository_slug (wi_repository item)"
  shows "assert_review_gate item artifacts s = Inr () \<longleftrightarrow>
    wi_kind item \<in> set cure_kinds \<or> review_gate_enabled (wi_repository item) s = Inr False \<or>
    (\<forall>a \<in> set artifacts. ready_pull a \<longrightarrow> gate_released (wi_repository item) (wa_url a) s)"
proof (cases "wi_kind item \<in> set cure_kinds \<or> review_gate_enabled (wi_repository item) s = Inr False")
  case True
  then show ?thesis by (auto simp: assert_review_gate_def)
next
  case False
  then have on: "review_gate_enabled (wi_repository item) s = Inr True"
    using assms by (auto simp: review_gate_enabled_def validate_repository_def require_def)
  let ?check = "\<lambda>a. case wa_verification a of
      Some (Verified v) \<Rightarrow>
        if wa_kind a \<noteq> PullRequest \<or> vo_state v \<noteq> Open \<or> vo_draft v = Some True then Inr ()
        else
          and_then (pull_request_review_items (wi_repository item) (wa_url a) s) (\<lambda>rounds.
          require (released_by_gate rounds) (ResultError (OpenPullRequestNotDraft (wa_url a))))
    | _ \<Rightarrow> Inr ()"
  have "assert_review_gate item artifacts s = check_all ?check artifacts"
    using False on by (simp add: assert_review_gate_def)
  moreover have "?check a = Inr () \<longleftrightarrow> (ready_pull a \<longrightarrow> gate_released (wi_repository item) (wa_url a) s)" for a
    by (auto simp: ready_pull_def gate_released_def and_then_Inr_iff require_def
        split: option.splits verification.splits sum.splits)
  ultimately show ?thesis using False by (simp add: check_all_Inr_iff)
qed

definition ready_change :: work_artifact where
  "ready_change =
     draft_pull\<lparr>wa_verification := map_option
       (\<lambda>v. case v of Verified o' \<Rightarrow> Verified (o'\<lparr>vo_draft := None\<rparr>) | _ \<Rightarrow> v) (wa_verification draft_pull)\<rparr>"

theorem review_gate_accepts_only_released_pull_requests_witness:
  "assert_review_gate (item_of (hd (st_items passed_queue))) [ready_change]
     (passed_queue\<lparr>st_items := []\<rparr>) \<noteq> Inr ()"
proof -
  let ?item = "item_of (hd (st_items passed_queue))" and ?s = "passed_queue\<lparr>st_items := []\<rparr>"
  have "repository_slug (wi_repository ?item)" by code_simp
  note accepts = review_gate_accepts_only_released_pull_requests [OF this, of "[ready_change]" ?s]
  have "wi_kind ?item \<notin> set cure_kinds" "review_gate_enabled (wi_repository ?item) ?s \<noteq> Inr False"
    "ready_pull ready_change" "\<not> gate_released (wi_repository ?item) (wa_url ready_change) ?s"
    by code_simp+
  with accepts show ?thesis by simp
qed

subsection \<open>The verdict of a review\<close>

text \<open>A review completes only with a verdict that is consistent (a block names a blocker, a pass
  names none) and only if GitHub confirms the pull request, with its head, where it is still
  open, the one the round was bound to; a fix completes only if it reports the pull request it
  was created for; no other kind of work may carry a verdict.\<close>

theorem review_completes_only_on_its_head:
  assumes "assert_review_completion gh item artifacts review = Inr ()"
  shows "(wi_kind item = ''pr-review'' \<longrightarrow>
      (\<exists>bound verdict head. wi_review item = Some bound \<and> review = Some verdict \<and>
        (rr_decision verdict = Block \<longrightarrow> rr_blockers verdict \<noteq> []) \<and>
        (rr_decision verdict = Pass \<longrightarrow> rr_blockers verdict = []) \<and>
        gh_head gh 0 (wi_repository item) (pr_pull_request_url bound) = HeadRead head \<and>
        (hd_state head = PullOpen \<longrightarrow> hd_head_sha head = pr_head_sha bound))) \<and>
    (wi_kind item \<noteq> ''pr-review'' \<longrightarrow> review = None) \<and>
    (wi_kind item = ''pr-review-fix'' \<longrightarrow>
      (\<exists>bound. wi_review item = Some bound \<and>
        (\<exists>a \<in> set artifacts. wa_kind a = PullRequest \<and>
           to_lower (wa_url a) = to_lower (pr_pull_request_url bound))))"
  using assms
  by (auto simp: assert_review_completion_def refuse_verdict_def review_kind_def review_fix_kind_def
      and_then_Inr_iff require_def list_ex_iff split: if_splits option.splits head_check.splits)

theorem review_completes_only_on_its_head_witness:
  "\<exists>bound. wi_review (item_of (last (st_items passed_queue))) = Some bound \<and>
     pr_head_sha bound = hd_head_sha reviewed_head"
proof -
  let ?item = "item_of (last (st_items passed_queue))"
  have fine: "assert_review_completion sample_outside ?item []
      (Some \<lparr>rr_decision = Pass, rr_blockers = [], rr_advisories = []\<rparr>) = Inr ()" by code_simp
  have "wi_kind ?item = ''pr-review''" by code_simp
  with review_completes_only_on_its_head [OF fine] obtain bound head where
    "wi_review ?item = Some bound"
    "gh_head sample_outside 0 (wi_repository ?item) (pr_pull_request_url bound) = HeadRead head"
    "hd_state head = PullOpen \<longrightarrow> hd_head_sha head = pr_head_sha bound" by blast
  moreover have "hd_state reviewed_head = PullOpen" by code_simp
  ultimately show ?thesis by (auto simp: sample_outside_def)
qed

subsection \<open>Unaccounted pull requests\<close>

lemma sort_listing_partition:
  assumes "sort_listing gh now live seen pulls = (pending, unreported)"
  shows "to_lower ` (ls_url ` set pending \<union> up_url ` set unreported) = to_lower ` ls_url ` set pulls - seen"
    and "distinct (map (to_lower \<circ> ls_url) pending @ map (to_lower \<circ> up_url) unreported)"
    and "\<forall>p \<in> set pending. still_pending gh now live p"
    and "\<forall>u \<in> set unreported. \<exists>p \<in> set pulls. u = unreported_of p \<and> \<not> still_pending gh now live p"
proof -
  have url: "up_url (unreported_of p) = ls_url p" for p by (simp add: unreported_of_def)
  have all: "to_lower ` (ls_url ` set pending \<union> up_url ` set unreported) = to_lower ` ls_url ` set pulls - seen \<and>
      distinct (map (to_lower \<circ> ls_url) pending @ map (to_lower \<circ> up_url) unreported) \<and>
      (\<forall>p \<in> set pending. still_pending gh now live p) \<and>
      (\<forall>u \<in> set unreported. \<exists>p \<in> set pulls. u = unreported_of p \<and> \<not> still_pending gh now live p)"
    using assms
  proof (induction pulls arbitrary: seen pending unreported)
    case Nil
    then show ?case by auto
  next
    case (Cons p pulls)
    show ?case
    proof (cases "to_lower (ls_url p) \<in> seen")
      case True
      with Cons.prems have "sort_listing gh now live seen pulls = (pending, unreported)" by simp
      with Cons.IH [OF this] True show ?thesis by auto
    next
      case False
      obtain ps us where rest: "sort_listing gh now live (insert (to_lower (ls_url p)) seen) pulls = (ps, us)"
        by fastforce
      note ih = Cons.IH [OF rest]
      have gone: "to_lower (ls_url p) \<notin> to_lower ` (ls_url ` set ps \<union> up_url ` set us)" using ih by blast
      have new: "\<forall>x \<in> set ps. to_lower (ls_url p) \<noteq> to_lower (ls_url x)"
        "\<forall>x \<in> set us. to_lower (ls_url p) \<noteq> to_lower (up_url x)"
      proof -
        show "\<forall>x \<in> set ps. to_lower (ls_url p) \<noteq> to_lower (ls_url x)" using gone by auto
        show "\<forall>x \<in> set us. to_lower (ls_url p) \<noteq> to_lower (up_url x)" using gone by auto
      qed
      show ?thesis
      proof (cases "still_pending gh now live p")
        case True
        with Cons.prems False rest have "pending = p # ps" "unreported = us" by auto
        then show ?thesis using ih new True False by auto
      next
        case np: False
        with Cons.prems False rest have "pending = ps" "unreported = unreported_of p # us" by auto
        then show ?thesis using ih new np False by (auto simp: url)
      qed
    qed
  qed
  then show "to_lower ` (ls_url ` set pending \<union> up_url ` set unreported) = to_lower ` ls_url ` set pulls - seen"
    and "distinct (map (to_lower \<circ> ls_url) pending @ map (to_lower \<circ> up_url) unreported)"
    and "\<forall>p \<in> set pending. still_pending gh now live p"
    and "\<forall>u \<in> set unreported. \<exists>p \<in> set pulls. u = unreported_of p \<and> \<not> still_pending gh now live p"
    by blast+
qed

text \<open>The unreported pass accounts for every pull request GitHub lists: by its lower-case URL
  each is known to the queue, or reported as pending, or reported as unreported, exactly once
  and never twice; and what is unreported is neither younger than the longest lease nor, with
  its creation time known, in a repository with a live claim.\<close>

theorem unreported_pass_accounts_for_every_pull_request:
  assumes "observe_unreported cx gh now actor repository (w, s) = Inr (w', s')"
    and "gh_open_pulls gh repository = Some (pulls, truncated)"
    and "known_pull_request_urls repository s = Inr known"
  shows "\<exists>live pending unreported.
    sw_pending w' = sw_pending w @ pending \<and> sw_unreported w' = sw_unreported w @ unreported \<and>
    to_lower ` (ls_url ` set pending \<union> up_url ` set unreported) = to_lower ` ls_url ` set pulls - set known \<and>
    distinct (map (to_lower \<circ> ls_url) pending @ map (to_lower \<circ> up_url) unreported) \<and>
    (\<forall>u \<in> set unreported. \<exists>p \<in> set pulls. u = unreported_of p \<and> \<not> still_pending gh now live p)"
proof -
  obtain claimed where claimed: "list_items cx (claimed_in repository) s = Inr claimed"
    using assms by (auto simp: observe_unreported_def Let_def and_then_Inr_iff)
  let ?live = "list_ex (\<lambda>item. case wi_lease_expires_at item of None \<Rightarrow> False | Some e \<Rightarrow> now < e) claimed"
  let ?split = "sort_listing gh now ?live (set known) pulls"
  have "sw_pending w' = sw_pending w @ fst ?split" "sw_unreported w' = sw_unreported w @ snd ?split"
    using assms claimed by (auto simp: observe_unreported_def Let_def and_then_Inr_iff skipped_def)
  with sort_listing_partition [of gh now ?live "set known" pulls "fst ?split" "snd ?split"]
  show ?thesis by (intro exI [of _ ?live] exI [of _ "fst ?split"] exI [of _ "snd ?split"]) simp
qed

definition two_open_pulls :: outside where
  "two_open_pulls =
     sample_outside\<lparr>gh_open_pulls := (\<lambda>g. Some
       ([\<lparr>ls_url = ''https://github.com/acme/tool/pull/7'', ls_number = JInt 7, ls_draft = True, ls_created_at = None\<rparr>,
         \<lparr>ls_url = ''https://github.com/acme/tool/pull/8'', ls_number = JInt 8, ls_draft = True, ls_created_at = None\<rparr>],
        False))\<rparr>"

theorem unreported_pass_accounts_for_every_pull_request_witness:
  "\<exists>w' :: sweep_result. to_lower ` (ls_url ` set (sw_pending w') \<union> up_url ` set (sw_unreported w')) =
     {''https://github.com/acme/tool/pull/8''}"
proof -
  let ?run = "observe_unreported (sample_ctx 80 ''W'') two_open_pulls 80 ''policy:review-gate'' ''acme/tool''
    (empty_sweep, passed_queue)"
  have "succeeds ?run" by code_simp
  then obtain w' s' where run: "?run = Inr (w', s')" by (auto simp: succeeds_iff)
  let ?pulls = "fst (the (gh_open_pulls two_open_pulls ''acme/tool''))"
  have pulls: "gh_open_pulls two_open_pulls ''acme/tool'' = Some (?pulls, False)"
    by (simp add: two_open_pulls_def)
  have known: "known_pull_request_urls ''acme/tool'' passed_queue = Inr [''https://github.com/acme/tool/pull/7'']"
    by code_simp
  have rest: "to_lower ` ls_url ` set ?pulls - set [''https://github.com/acme/tool/pull/7''] =
      {''https://github.com/acme/tool/pull/8''}" by code_simp
  obtain pending unreported where w': "sw_pending w' = sw_pending empty_sweep @ pending"
      "sw_unreported w' = sw_unreported empty_sweep @ unreported"
    and split: "to_lower ` (ls_url ` set pending \<union> up_url ` set unreported) =
      to_lower ` ls_url ` set ?pulls - set [''https://github.com/acme/tool/pull/7'']"
    using unreported_pass_accounts_for_every_pull_request [OF run pulls known] by (elim exE conjE) blast
  have w'': "sw_pending w' = pending" "sw_unreported w' = unreported"
    using w' by (simp_all only: empty_sweep_def sweep_result.simps append_Nil)
  show ?thesis
    by (rule exI [of _ w'], unfold w'') (rule trans [OF split rest])
qed

end
