(* ===== verification/Release_Versions.thy ===== *)
theory Release_Versions
  imports Artifact_Identity Ordered_Map
begin

text \<open>
  The pure half of the internal dependency sweep (\<open>src/src/queue/internal-dependencies.ts\<close>):
  release tags and their order, the suggested bump, the module paths of the organisation, the
  commit types and the requirements of a \<open>go.mod\<close>. Components of a version are the doubles
  \<open>Number\<close> reads; printing them is the decimal notation, which JavaScript uses below 10 to the 21.
\<close>

subsection \<open>Decimal notation\<close>

definition digit_char :: "int \<Rightarrow> char" where
  "digit_char d = char_of (48 + d)"

function decimal_text :: "int \<Rightarrow> string" where
  "decimal_text n = (if n < 10 then [digit_char n] else decimal_text (n div 10) @ [digit_char (n mod 10)])"
  by auto
termination by (relation "measure nat") auto

declare decimal_text.simps [simp del]

definition numeral_text :: "string \<Rightarrow> bool" where
  "numeral_text s = (s \<noteq> [] \<and> list_all is_digit_char s)"

lemma digit_value_append: "digit_value n (s @ t) = digit_value (digit_value n s) t"
  by (induction n s rule: digit_value.induct) auto

lemma code_unit_digit_char: "0 \<le> d \<Longrightarrow> d < 10 \<Longrightarrow> code_unit (digit_char d) = 48 + d"
  by (simp add: code_unit_def digit_char_def)

lemma decimal_text_value: "0 \<le> n \<Longrightarrow> decimal_value (decimal_text n) = n"
proof (induction n rule: decimal_text.induct)
  case (1 n)
  show ?case
  proof (cases "n < 10")
    case True
    with "1.prems" show ?thesis
      by (simp add: decimal_text.simps [of n] decimal_value_def code_unit_digit_char)
  next
    case False
    have "decimal_value (decimal_text (n div 10)) = n div 10" using "1.IH" [OF False] "1.prems" by simp
    then show ?thesis
      using False by (simp add: decimal_text.simps [of n] decimal_value_def digit_value_append
          code_unit_digit_char)
  qed
qed

lemma decimal_text_numeral: "0 \<le> n \<Longrightarrow> numeral_text (decimal_text n)"
proof (induction n rule: decimal_text.induct)
  case (1 n)
  have "is_digit_char (digit_char d)" if "0 \<le> d" "d < 10" for d
    using code_unit_digit_char [OF that] that by (simp add: is_digit_char_def)
  with 1 show ?case by (simp add: decimal_text.simps [of n] numeral_text_def)
qed

subsection \<open>Versions\<close>

type_synonym version = "int \<times> int \<times> int"

definition number_of :: "string \<Rightarrow> int" where
  "number_of s = nearest_double (decimal_value s)"

text \<open>
  \<open>/^v?(\d+)\.(\d+)\.(\d+)$/\<close> on \<open>v\<close> and the value less one leading \<open>v\<close> and all from the first
  hyphen on: three non-empty runs of digits.
\<close>

definition bare_version :: "string \<Rightarrow> string" where
  "bare_version value =
     hd (split_char CHR ''-'' (case strip_prefix ''v'' value of None \<Rightarrow> value | Some rest \<Rightarrow> rest))"

definition parse_semver :: "string \<Rightarrow> version option" where
  "parse_semver value =
     (case split_char CHR ''.'' (bare_version value) of
        [a, b, c] \<Rightarrow>
          if numeral_text a \<and> numeral_text b \<and> numeral_text c
          then Some (number_of a, number_of b, number_of c) else None
      | _ \<Rightarrow> None)"

fun compare_semver :: "version \<Rightarrow> version \<Rightarrow> int" where
  "compare_semver (a, b, c) (a', b', c') =
     (if a \<noteq> a' then (if a < a' then -1 else 1)
      else if b \<noteq> b' then (if b < b' then -1 else 1)
      else if c \<noteq> c' then (if c < c' then -1 else 1)
      else 0)"

lemma compare_semver_order:
  "compare_semver v w < 0 \<longleftrightarrow> v < w" "compare_semver v w = 0 \<longleftrightarrow> v = w" "0 < compare_semver v w \<longleftrightarrow> w < v"
  by (cases v; cases w; auto simp: less_prod_def)+

definition version_text :: "version \<Rightarrow> string" where
  "version_text v =
     (case v of (a, b, c) \<Rightarrow> ''v'' @ decimal_text a @ ''.'' @ decimal_text b @ ''.'' @ decimal_text c)"

definition next_version :: "version \<Rightarrow> string list \<Rightarrow> version \<times> string" where
  "next_version v types =
     (case v of (major, minor, patch) \<Rightarrow>
      let breaking = list_ex (\<lambda>t. suffix ''!'' t \<or> t = ''breaking'') types; feature = ''feat'' \<in> set types in
      if breaking \<and> major > 0 then ((major + 1, 0, 0), ''major'')
      else if breaking \<or> feature then ((major, minor + 1, 0), ''minor'')
      else ((major, minor, patch + 1), ''patch''))"

definition suggest_bump :: "string \<Rightarrow> string list \<Rightarrow> string" where
  "suggest_bump latest_tag types =
     (case parse_semver latest_tag of
        None \<Rightarrow> ''unknown''
      | Some v \<Rightarrow>
          (case next_version v types of (w, level) \<Rightarrow> version_text w @ '' ('' @ level @ '')''))"

text \<open>The highest release tag, with its commit: the first of the highest ones in the listing.\<close>

definition latest_tag :: "(string \<times> string) list \<Rightarrow> (string \<times> string) option" where
  "latest_tag tags =
     map_option (\<lambda>(tag, sha, v). (tag, sha))
       (foldl
         (\<lambda>latest (tag, sha).
           case parse_semver tag of
             None \<Rightarrow> latest
           | Some v \<Rightarrow>
               (case latest of
                  None \<Rightarrow> Some (tag, sha, v)
                | Some (t, h, w) \<Rightarrow> if compare_semver v w > 0 then Some (tag, sha, v) else latest))
         None tags)"

subsection \<open>Modules, commit types and requirements\<close>

definition module_char :: "char \<Rightarrow> bool" where
  "module_char c = (is_alnum c \<or> c \<in> set ''._-'')"

text \<open>\<open>/^github\.com\/frostyard\/([A-Za-z0-9._-]+)(?:\/v[0-9]+)?$/\<close>.\<close>

definition frostyard_repository_of :: "string \<Rightarrow> string option" where
  "frostyard_repository_of module =
     (case strip_prefix ''github.com/frostyard/'' module of
        None \<Rightarrow> None
      | Some rest \<Rightarrow>
          let named = (\<lambda>n. n \<noteq> [] \<and> list_all module_char n) in
          (case split_char CHR ''/'' rest of
             [n] \<Rightarrow> if named n then Some (''frostyard/'' @ n) else None
           | [n, major] \<Rightarrow>
               if named n \<and> (case major of CHR ''v'' # ds \<Rightarrow> numeral_text ds | _ \<Rightarrow> False)
               then Some (''frostyard/'' @ n) else None
           | _ \<Rightarrow> None))"

definition is_letter :: "char \<Rightarrow> bool" where
  "is_letter c = (is_lower_char c \<or> is_upper_char c)"

text \<open>\<open>/^([a-z]+)(\([^)]*\))?(!)?:/i\<close> on the first line: the type, and whether it carries a bang.\<close>

definition subject_type :: "string \<Rightarrow> string option" where
  "subject_type subject =
     (let word = takeWhile is_letter subject; rest = dropWhile is_letter subject;
          after_scope =
            (case rest of
               CHR ''('' # cs \<Rightarrow>
                 (case dropWhile (\<lambda>c. c \<noteq> CHR '')'') cs of [] \<Rightarrow> rest | _ # ds \<Rightarrow> ds)
             | _ \<Rightarrow> rest) in
      if word = [] then None
      else
        (case after_scope of
           CHR ''!'' # CHR '':'' # _ \<Rightarrow> Some (to_lower word @ ''!'')
         | CHR '':'' # _ \<Rightarrow> Some (to_lower word)
         | _ \<Rightarrow> None))"

text \<open>\<open>/^BREAKING CHANGE:/m\<close>: at the start of the message or after a line terminator.\<close>

fun breaking_note :: "bool \<Rightarrow> string \<Rightarrow> bool" where
  "breaking_note start [] = False"
| "breaking_note start (c # cs) =
     (start \<and> prefix ''BREAKING CHANGE:'' (c # cs) \<or>
      breaking_note (c = CHR 0x0A \<or> c = CHR 0x0D) cs)"

definition commit_types_of :: "string \<Rightarrow> string list" where
  "commit_types_of message =
     (case subject_type (hd (split_char CHR 0x0A message)) of None \<Rightarrow> [] | Some t \<Rightarrow> [t]) @
     (if breaking_note True message then [''breaking''] else [])"

text \<open>\<open>line.replace(/\/\/.*$/, "")\<close>: a dot does not match a carriage return.\<close>

fun strip_comment :: "string \<Rightarrow> string" where
  "strip_comment [] = []"
| "strip_comment (c # cs) =
     (if prefix ''//'' (c # cs) \<and> CHR 0x0A \<notin> set cs \<and> CHR 0x0D \<notin> set cs then [] else c # strip_comment cs)"

function words :: "string \<Rightarrow> string list" where
  "words s =
     (let r = dropWhile is_space s in
      if r = [] then [] else takeWhile (\<lambda>c. \<not> is_space c) r # words (dropWhile (\<lambda>c. \<not> is_space c) r))"
  by auto
termination
proof (relation "measure length")
  fix s r :: string
  assume r: "r = dropWhile is_space s" "r \<noteq> []"
  then have "\<not> is_space (hd r)" using hd_dropWhile by blast
  then have "length (dropWhile (\<lambda>c. \<not> is_space c) r) < length r"
    using r(2) by (cases r) (auto simp: le_imp_less_Suc length_dropWhile_le)
  also have "length r \<le> length s" using r(1) by (simp add: length_dropWhile_le)
  finally show "(dropWhile (\<lambda>c. \<not> is_space c) r, s) \<in> measure length" by simp
qed simp

declare words.simps [simp del]

definition go_mod_line :: "string \<Rightarrow> bool \<times> (string \<times> string) list \<Rightarrow> bool \<times> (string \<times> string) list" where
  "go_mod_line raw acc =
     (case acc of (in_block, requires) \<Rightarrow>
      let line = trim (strip_comment raw) in
      if line = [] then acc
      else if line = ''require ('' then (True, requires)
      else if in_block \<and> line = '')'' then (False, requires)
      else
        (case words line of
           [a, b] \<Rightarrow> if in_block then (in_block, upsert a (\<lambda>_. b) requires) else acc
         | [r, a, b] \<Rightarrow> if r = ''require'' then (in_block, upsert a (\<lambda>_. b) requires) else acc
         | _ \<Rightarrow> acc))"

definition parse_go_mod_requires :: "string \<Rightarrow> (string \<times> string) list" where
  "parse_go_mod_requires go_mod =
     snd (foldl (\<lambda>acc raw. go_mod_line raw acc) (False, []) (split_char CHR 0x0A go_mod))"

subsection \<open>Reading and printing versions\<close>

lemma split_char_none: "c \<notin> set s \<Longrightarrow> split_char c s = [s]"
  by (induction s) auto

lemma split_char_at: "c \<notin> set s \<Longrightarrow> split_char c (s @ c # t) = s # split_char c t"
proof (induction s)
  case Nil
  then show ?case using split_char_nonempty [of c t] by (auto split: list.splits)
next
  case (Cons x s)
  then show ?case by (auto split: list.splits)
qed

lemma digits_only:
  assumes "numeral_text s" and "\<not> is_digit_char c"
  shows "c \<notin> set s"
  using assms by (auto simp: numeral_text_def list_all_iff)

lemma separators_no_digit: "\<not> is_digit_char CHR ''-''" "\<not> is_digit_char CHR ''.''"
  by code_simp+

definition printable :: "version \<Rightarrow> bool" where
  "printable v =
     (case v of (a, b, c) \<Rightarrow>
        0 \<le> a \<and> a < 9007199254740992 \<and> 0 \<le> b \<and> b < 9007199254740992 \<and> 0 \<le> c \<and> c < 9007199254740992)"

lemma parse_version_text:
  assumes "printable v"
  shows "parse_semver (version_text v) = Some v"
proof -
  obtain a b c where v: "v = (a, b, c)" by (cases v) auto
  let ?a = "decimal_text a" and ?b = "decimal_text b" and ?c = "decimal_text c"
  have num: "numeral_text ?a" "numeral_text ?b" "numeral_text ?c"
    using assms v by (simp_all add: printable_def decimal_text_numeral)
  note plain = num [THEN digits_only, OF separators_no_digit(1)] num [THEN digits_only, OF separators_no_digit(2)]
  have "bare_version (version_text v) = ?a @ ''.'' @ ?b @ ''.'' @ ?c"
    using plain(1-3) by (simp add: bare_version_def version_text_def v strip_prefix_def split_char_none)
  moreover have "split_char CHR ''.'' (?a @ ''.'' @ ?b @ ''.'' @ ?c) = [?a, ?b, ?c]"
    using plain(4-6) by (simp add: split_char_at split_char_none)
  moreover have "number_of (decimal_text n) = n" if "0 \<le> n" "n < 9007199254740992" for n
    using that by (simp add: number_of_def decimal_text_value nearest_double_exact)
  ultimately show ?thesis
    using num assms by (simp add: parse_semver_def v printable_def)
qed

definition room_above :: "version \<Rightarrow> bool" where
  "room_above v =
     (case v of (a, b, c) \<Rightarrow>
        0 \<le> a \<and> a < 9007199254740991 \<and> 0 \<le> b \<and> b < 9007199254740991 \<and> 0 \<le> c \<and> c < 9007199254740991)"

lemma next_version_ahead: "room_above v \<Longrightarrow> v < fst (next_version v types) \<and> printable (fst (next_version v types))"
  by (cases v) (auto simp: next_version_def Let_def room_above_def printable_def less_prod_def)

text \<open>The version a release proposal suggests is written in a form the sweep itself reads back,
  and it is strictly ahead of the latest release: the suggestion can never be the tag that
  exists or an older one.\<close>

theorem suggested_bump_reads_back_ahead:
  assumes "parse_semver latest = Some v" and "room_above v"
  shows "\<exists>w level. suggest_bump latest types = version_text w @ '' ('' @ level @ '')'' \<and>
    parse_semver (version_text w) = Some w \<and> compare_semver w v > 0 \<and>
    level \<in> {''major'', ''minor'', ''patch''}"
proof -
  obtain w level where w: "next_version v types = (w, level)" by fastforce
  then have "level \<in> {''major'', ''minor'', ''patch''}"
    by (auto simp: next_version_def Let_def split: prod.splits if_splits)
  with w next_version_ahead [OF assms(2), of types] assms(1) show ?thesis
    by (intro exI [of _ w] exI [of _ level])
      (simp add: suggest_bump_def compare_semver_order parse_version_text)
qed

theorem suggested_bump_reads_back_ahead_witness:
  "\<exists>w level. suggest_bump ''v1.9.3'' [''fix'', ''feat''] = version_text w @ '' ('' @ level @ '')'' \<and>
     parse_semver (version_text w) = Some w \<and> compare_semver w (1, 9, 3) > 0"
proof -
  have "parse_semver ''v1.9.3'' = Some (1, 9, 3)" "room_above (1, 9, 3)" by code_simp+
  from suggested_bump_reads_back_ahead [OF this, of "[''fix'', ''feat'']"] show ?thesis by blast
qed

lemma latest_tag_spec:
  "(case latest_tag tags of
      None \<Rightarrow> \<forall>(t, h) \<in> set tags. parse_semver t = None
    | Some (tag, sha) \<Rightarrow> (tag, sha) \<in> set tags \<and>
        (\<exists>v. parse_semver tag = Some v \<and> (\<forall>(t, h) \<in> set tags. \<forall>w. parse_semver t = Some w \<longrightarrow> w \<le> v)))"
proof -
  let ?f = "\<lambda>latest (tag, sha).
     case parse_semver tag of
       None \<Rightarrow> latest
     | Some v \<Rightarrow>
         (case latest of
            None \<Rightarrow> Some (tag, sha, v)
          | Some (t, h, w) \<Rightarrow> if compare_semver v w > 0 then Some (tag, sha, v) else latest)"
  have "case foldl ?f None tags of
      None \<Rightarrow> \<forall>(t, h) \<in> set tags. parse_semver t = None
    | Some (tag, sha, v) \<Rightarrow> (tag, sha) \<in> set tags \<and> parse_semver tag = Some v \<and>
        (\<forall>(t, h) \<in> set tags. \<forall>w. parse_semver t = Some w \<longrightarrow> w \<le> v)"
  proof (induction tags rule: rev_induct)
    case Nil
    then show ?case by simp
  next
    case (snoc x tags)
    obtain tag sha where x: "x = (tag, sha)" by fastforce
    show ?case
    proof (cases "parse_semver tag")
      case None
      with snoc x show ?thesis by (auto split: option.splits)
    next
      case (Some v)
      show ?thesis
      proof (cases "foldl ?f None tags")
        case None
        with snoc x Some show ?thesis by auto
      next
        case before: (Some y)
        obtain t h w where y: "y = (t, h, w)" by (cases y) auto
        show ?thesis
          using snoc x Some before y by (auto simp: compare_semver_order not_less dest: order_trans less_imp_le)
      qed
    qed
  qed
  then show ?thesis by (auto simp: latest_tag_def split: option.splits)
qed

text \<open>
  A pseudo-version or a pre-release is read as its base. The source takes such a version to be
  ``behind or at the base release''; as \<open>parse_semver\<close> makes it equal to the base, a requirement
  of \<open>v1.2.4-0...\<close> (a commit before \<open>v1.2.4\<close>) is not behind the tag \<open>v1.2.4\<close>.
\<close>

lemma prerelease_is_not_behind_its_release:
  "map_option (\<lambda>v. compare_semver v (1, 2, 4)) (parse_semver ''v1.2.4-0.20260818120000-abcdef123456'') = Some 0"
  by code_simp

end
