(* ===== verification/Dependency_Sweep.thy ===== *)
theory Dependency_Sweep
  imports Release_Versions Queries Work_Creation Repositories
begin

text \<open>
  The internal dependency sweep (\<open>sweepInternalDependencies\<close> of
  \<open>src/src/queue/internal-dependencies.ts\<close>) on the modelled queue. The repositories the control
  plane has enrolled and what GitHub answers are parameters; so is the prose of a proposal. An
  answer GitHub cannot give is the message the code records for the repository.
\<close>

subsection \<open>What the sweep reads\<close>

record github_reads =
  gr_head :: "string \<Rightarrow> string + string \<times> string"
  gr_tags :: "string \<Rightarrow> string + (string \<times> string) list"
  gr_compare :: "string \<Rightarrow> string \<Rightarrow> string \<Rightarrow> string + int \<times> string list"
  gr_go_mod :: "string \<Rightarrow> string \<Rightarrow> string + string option"

record repository_release =
  rr_default_branch :: string
  rr_head_sha :: string
  rr_latest_tag :: "string option"
  rr_latest_tag_sha :: "string option"
  rr_ahead_by :: int
  rr_commit_types :: "string list"

definition read_repository_release :: "github_reads \<Rightarrow> string \<Rightarrow> string + repository_release" where
  "read_repository_release gr repository =
     and_then (gr_head gr repository) (\<lambda>(branch, head_sha).
     and_then (gr_tags gr repository) (\<lambda>tags.
     let release =
       \<lparr>rr_default_branch = branch, rr_head_sha = to_lower head_sha, rr_latest_tag = None,
        rr_latest_tag_sha = None, rr_ahead_by = 0, rr_commit_types = []\<rparr> in
     case latest_tag tags of
       None \<Rightarrow> Inr release
     | Some (tag, sha) \<Rightarrow>
         and_then (gr_compare gr repository tag branch) (\<lambda>(ahead_by, messages).
         Inr (release\<lparr>rr_latest_tag := Some tag, rr_latest_tag_sha := Some sha,
           rr_ahead_by := ahead_by, rr_commit_types := concat (map commit_types_of messages)\<rparr>))))"

definition read_go_mod_requires :: "github_reads \<Rightarrow> string \<Rightarrow> string \<Rightarrow> string + (string \<times> string) list" where
  "read_go_mod_requires gr repository ref =
     and_then (gr_go_mod gr repository ref) (\<lambda>content.
     Inr (case content of None \<Rightarrow> [] | Some text' \<Rightarrow> parse_go_mod_requires text'))"

subsection \<open>The report and the proposals\<close>

datatype sweep_skip =
    NoReleaseTag
  | UpToDate string
  | ReleaseOpen string
  | ReleaseDeclined string timestamp
  | HeadKnown string

record dependency_report =
  dr_swept :: "string list"
  dr_release_needed :: "(string \<times> string \<times> string \<times> int \<times> string) list"
  dr_bumps :: "(string \<times> string \<times> string \<times> string \<times> string) list"
  dr_skipped :: "(string \<times> sweep_skip) list"
  dr_failed :: "(string \<times> string) list"
  dr_not_opted_in :: "string list"

definition empty_report :: dependency_report where
  "empty_report =
     \<lparr>dr_swept = [], dr_release_needed = [], dr_bumps = [], dr_skipped = [], dr_failed = [],
      dr_not_opted_in = []\<rparr>"

definition release_needed_kind :: string where "release_needed_kind = ''release-needed''"
definition dependency_bump_kind :: string where "dependency_bump_kind = ''dependency-bump''"
definition decline_cooldown_ms :: int where "decline_cooldown_ms = 7 * 24 * 60 * 60 * 1000"

definition implementation_actions :: "action list" where
  "implementation_actions = [Read, Write, RunTests, OpenPr]"

text \<open>The objective, instructions and acceptance criteria of a proposal.\<close>

record dependency_prose =
  dp_release :: "string \<Rightarrow> repository_release \<Rightarrow> string \<Rightarrow> string \<times> string \<times> string list"
  dp_bump :: "string \<Rightarrow> string \<Rightarrow> string \<Rightarrow> string \<Rightarrow> string \<Rightarrow> string \<times> string \<times> string list"

definition sweep_seed :: "string \<Rightarrow> string \<Rightarrow> string \<times> string \<times> string list \<Rightarrow> seed_input" where
  "sweep_seed repository kind text' =
     \<lparr>si_repository = repository, si_kind = kind, si_objective = fst text',
      si_instructions = fst (snd text'), si_acceptance_criteria = snd (snd text'),
      si_allowed_actions = implementation_actions, si_delegable_actions = [],
      si_required_artifact = Some PullRequestArtifact, si_execution_target = Some NewPullRequest,
      si_priority = None, si_created_by = ''operator:dependency-sweep'', si_extra = []\<rparr>"

definition release_needed_proposal ::
    "dependency_prose \<Rightarrow> string \<Rightarrow> repository_release \<Rightarrow> string \<Rightarrow> string \<Rightarrow> proposed_root_input"
where
  "release_needed_proposal dp repository release tag suggested =
     \<lparr>pi_seed = sweep_seed repository release_needed_kind (dp_release dp repository release suggested),
      pi_source_ref =
        ''release-needed:'' @ repository @ ''@'' @ tag @ ''+'' @ rr_head_sha release,
      pi_predecessors = None\<rparr>"

definition dependency_bump_proposal ::
    "dependency_prose \<Rightarrow> string \<Rightarrow> string \<Rightarrow> string \<Rightarrow> string \<Rightarrow> string \<Rightarrow> proposed_root_input"
where
  "dependency_bump_proposal dp repository module from' to' upstream =
     \<lparr>pi_seed = sweep_seed repository dependency_bump_kind (dp_bump dp repository module from' to' upstream),
      pi_source_ref = ''dependency-bump:'' @ repository @ '':'' @ module @ ''@'' @ to',
      pi_predecessors = None\<rparr>"

subsection \<open>One repository\<close>

definition is_terminal :: "work_item \<Rightarrow> bool" where
  "is_terminal item = (wi_status item = Completed \<or> wi_status item = Cancelled)"

definition release_items :: "string \<Rightarrow> list_options" where
  "release_items repository =
     \<lparr>lq_status = None, lq_repository = Some repository, lq_kind = Some release_needed_kind,
      lq_lease_owner = None, lq_label = None, lq_limit = Some 100\<rparr>"

text \<open>When the newest declined proposal for the tag was declined.\<close>

definition declined_at :: "string \<Rightarrow> work_item list \<Rightarrow> timestamp option" where
  "declined_at tag items =
     fold_group (keep_max id)
       (map wi_updated_at
         (filter
           (\<lambda>item. wi_status item = Cancelled \<and>
              (case wi_source_ref item of None \<Rightarrow> False
               | Some ref \<Rightarrow> includes_string (''@'' @ tag @ ''+'') ref))
           items))
       None"

definition skip_release :: "string \<Rightarrow> sweep_skip \<Rightarrow> dependency_report \<Rightarrow> dependency_report" where
  "skip_release repository reason w = w\<lparr>dr_skipped := dr_skipped w @ [(repository, reason)]\<rparr>"

definition propose_release ::
    "ctx \<Rightarrow> dependency_prose \<Rightarrow> string \<Rightarrow> repository_release \<Rightarrow> string \<Rightarrow>
       dependency_report \<times> store \<Rightarrow> (dependency_report \<times> store) res"
where
  "propose_release cx dp repository release tag acc =
     (case acc of (w, s) \<Rightarrow>
      let suggested = suggest_bump tag (rr_commit_types release) in
      and_then
        (enqueue_proposed_roots cx repository
          [release_needed_proposal dp repository release tag suggested] s) (\<lambda>(outcome, s').
      let w1 = w\<lparr>dr_release_needed := dr_release_needed w @
            map (\<lambda>item. (repository, wi_id item, tag, rr_ahead_by release, suggested)) (po_created outcome)\<rparr> in
      Inr (if po_created outcome = [] then skip_release repository (HeadKnown (rr_head_sha release)) w1 else w1, s')))"

definition release_step ::
    "ctx \<Rightarrow> dependency_prose \<Rightarrow> timestamp \<Rightarrow> string \<Rightarrow> repository_release \<Rightarrow>
       dependency_report \<times> store \<Rightarrow> (dependency_report \<times> store) res"
where
  "release_step cx dp now repository release acc =
     (case acc of (w, s) \<Rightarrow>
      case non_empty (rr_latest_tag release) of
        None \<Rightarrow> Inr (skip_release repository NoReleaseTag w, s)
      | Some tag \<Rightarrow>
          if rr_ahead_by release = 0 then Inr (skip_release repository (UpToDate tag) w, s)
          else
            and_then (list_items cx (release_items repository) s) (\<lambda>existing.
            case List.find (\<lambda>item. \<not> is_terminal item) existing of
              Some open' \<Rightarrow> Inr (skip_release repository (ReleaseOpen (wi_id open')) w, s)
            | None \<Rightarrow>
                (case declined_at tag existing of
                   Some t \<Rightarrow>
                     if now - t < decline_cooldown_ms
                     then Inr (skip_release repository (ReleaseDeclined tag t) w, s)
                     else propose_release cx dp repository release tag (w, s)
                 | None \<Rightarrow> propose_release cx dp repository release tag (w, s))))"

text \<open>One requirement of a manifest: not behind a release, or proposed to move to it.\<close>

definition not_behind :: "string \<Rightarrow> string \<Rightarrow> bool" where
  "not_behind required latest =
     (case (parse_semver required, parse_semver latest) of
        (Some v, Some l) \<Rightarrow> compare_semver v l \<ge> 0 | _ \<Rightarrow> False)"

definition bump_step ::
    "ctx \<Rightarrow> dependency_prose \<Rightarrow> (string \<Rightarrow> repository_release option) \<Rightarrow> string \<Rightarrow> string \<times> string \<Rightarrow>
       dependency_report \<times> store \<Rightarrow> (dependency_report \<times> store) res"
where
  "bump_step cx dp releases repository requirement acc =
     (case acc of (w, s) \<Rightarrow>
      case requirement of (module, required) \<Rightarrow>
      case frostyard_repository_of module of
        None \<Rightarrow> Inr (w, s)
      | Some upstream \<Rightarrow>
          (case releases upstream of
             None \<Rightarrow> Inr (w, s)
           | Some release \<Rightarrow>
               (case non_empty (rr_latest_tag release) of
                  None \<Rightarrow> Inr (w, s)
                | Some latest \<Rightarrow>
                    if not_behind required latest
                    then Inr (w, s)
                    else
                      and_then
                        (enqueue_proposed_roots cx repository
                          [dependency_bump_proposal dp repository module required latest upstream] s)
                        (\<lambda>(outcome, s').
                      Inr (w\<lparr>dr_bumps := dr_bumps w @
                          map (\<lambda>item. (repository, wi_id item, module, required, latest)) (po_created outcome)\<rparr>,
                        s')))))"

subsection \<open>The sweep\<close>

datatype sweep_error =
    RepositoryNotOptedIn string
  | ControlPlaneNotConfigured
  | QueueRefused error

definition queue_call :: "'a res \<Rightarrow> sweep_error + 'a" where
  "queue_call m = (case m of Inl e \<Rightarrow> Inl (QueueRefused e) | Inr x \<Rightarrow> Inr x)"

lemma queue_call_Inr: "queue_call m = Inr x \<longleftrightarrow> m = Inr x"
  by (cases m) (auto simp: queue_call_def)

text \<open>\<open>new Map(slugs.map((slug) => [slug.toLowerCase(), slug]))\<close>: the last of two wins.\<close>

definition opted_in :: "string list \<Rightarrow> string \<Rightarrow> string option" where
  "opted_in slugs slug = map_of (rev (map (\<lambda>g. (to_lower g, g)) slugs)) (to_lower slug)"

definition sweep_targets_of ::
    "string list \<Rightarrow> string list option \<Rightarrow> string option \<Rightarrow> sweep_error + string list \<times> string list"
where
  "sweep_targets_of slugs enrolled repository =
     (case non_empty repository of
        Some g \<Rightarrow>
          (case opted_in slugs g of
             None \<Rightarrow> Inl (RepositoryNotOptedIn g) | Some target \<Rightarrow> Inr ([target], []))
      | None \<Rightarrow>
          (case enrolled of
             None \<Rightarrow> Inl ControlPlaneNotConfigured
           | Some gs \<Rightarrow>
               Inr (List.map_filter (opted_in slugs) (sort gs),
                    filter (\<lambda>g. opted_in slugs g = None) (sort gs))))"

record sweep_reads =
  sr_releases :: "(string \<times> repository_release) list"
  sr_manifests :: "(string \<times> (string \<times> string) list) list"
  sr_swept :: "string list"
  sr_failed :: "(string \<times> string) list"
  sr_attempts :: "string list"

definition read_target :: "github_reads \<Rightarrow> string \<Rightarrow> sweep_reads \<Rightarrow> sweep_reads" where
  "read_target gr repository reads0 =
     (let reads = reads0\<lparr>sr_attempts := repository # sr_attempts reads0\<rparr>;
          failed = (\<lambda>why r. r\<lparr>sr_failed := sr_failed r @ [(repository, why)]\<rparr>) in
      case read_repository_release gr repository of
        Inl why \<Rightarrow> failed why reads
      | Inr release \<Rightarrow>
          let reads1 = reads\<lparr>sr_releases := upsert repository (\<lambda>_. release) (sr_releases reads)\<rparr> in
          (case read_go_mod_requires gr repository (rr_head_sha release) of
             Inl why \<Rightarrow> failed why reads1
           | Inr requires \<Rightarrow>
               reads1\<lparr>sr_manifests := upsert repository (\<lambda>_. requires) (sr_manifests reads1),
                 sr_swept := sr_swept reads1 @ [repository]\<rparr>))"

definition read_upstream :: "github_reads \<Rightarrow> string \<Rightarrow> sweep_reads \<Rightarrow> sweep_reads" where
  "read_upstream gr module reads0 =
     (case frostyard_repository_of module of
        None \<Rightarrow> reads0
      | Some upstream \<Rightarrow>
          if upstream \<in> set (sr_attempts reads0) then reads0
          else
            let reads = reads0\<lparr>sr_attempts := upstream # sr_attempts reads0\<rparr> in
            (case read_repository_release gr upstream of
               Inl why \<Rightarrow> reads\<lparr>sr_failed := sr_failed reads @ [(upstream, why)]\<rparr>
             | Inr release \<Rightarrow>
                 reads\<lparr>sr_releases := upsert upstream (\<lambda>_. release) (sr_releases reads)\<rparr>))"

definition read_all :: "github_reads \<Rightarrow> string list \<Rightarrow> sweep_reads" where
  "read_all gr targets =
     (let own = fold (read_target gr) targets
            \<lparr>sr_releases = [], sr_manifests = [], sr_swept = [], sr_failed = [], sr_attempts = []\<rparr> in
      fold (read_upstream gr) (concat (map (map fst \<circ> snd) (sr_manifests own))) own)"

text \<open>
  One repository of the sweep. \<open>cxs repository i\<close> is the context of the \<open>i\<close>-th call of the queue
  made for it: the release first, then one per requirement.
\<close>

definition sweep_repository ::
    "(string \<Rightarrow> nat \<Rightarrow> ctx) \<Rightarrow> dependency_prose \<Rightarrow> timestamp \<Rightarrow> sweep_reads \<Rightarrow> string \<Rightarrow>
       dependency_report \<times> store \<Rightarrow> (dependency_report \<times> store) res"
where
  "sweep_repository cxs dp now reads repository acc =
     (case map_of (sr_releases reads) repository of
        None \<Rightarrow> Inr acc
      | Some release \<Rightarrow>
          and_then (release_step (cxs repository 0) dp now repository release acc) (\<lambda>acc1.
          fold_res
            (\<lambda>(i, requirement).
              bump_step (cxs repository (Suc i)) dp (map_of (sr_releases reads)) repository requirement)
            (List.enumerate 0
              (case map_of (sr_manifests reads) repository of None \<Rightarrow> [] | Some requires \<Rightarrow> requires))
            acc1))"

definition sweep_internal_dependencies ::
    "(string \<Rightarrow> nat \<Rightarrow> ctx) \<Rightarrow> github_reads \<Rightarrow> dependency_prose \<Rightarrow> timestamp \<Rightarrow> string list option \<Rightarrow>
       string option \<Rightarrow> store \<Rightarrow> sweep_error + dependency_report \<times> store"
where
  "sweep_internal_dependencies cxs gr dp now enrolled repository s =
     and_then (sweep_targets_of (enabled_repositories s) enrolled repository) (\<lambda>(targets, not_opted_in).
     let reads = read_all gr targets;
         w = empty_report\<lparr>dr_not_opted_in := not_opted_in, dr_swept := sr_swept reads,
           dr_failed := sr_failed reads\<rparr> in
     queue_call (fold_res (sweep_repository cxs dp now reads) (sr_swept reads) (w, s)))"

definition sweep_failure :: "dependency_report \<Rightarrow> string list option" where
  "sweep_failure w =
     (if dr_failed w = [] \<or> dr_swept w \<noteq> [] then None else Some (map fst (dr_failed w)))"

end
