(* ===== verification/Dependency_Guarantees.thy ===== *)
theory Dependency_Guarantees
  imports Dependency_Sweep Sample_Run
begin

text \<open>
  What the dependency sweep guarantees: it bumps a module only to its highest released tag and
  only forward, it asks for a release only when none is open and none was declined within the
  week, and it acts on the queue only through proposals.
\<close>

subsection \<open>What was read\<close>

definition read_faithfully :: "github_reads \<Rightarrow> sweep_reads \<Rightarrow> bool" where
  "read_faithfully gr reads =
     (\<forall>(g, rls) \<in> set (sr_releases reads). read_repository_release gr g = Inr rls)"

lemma set_upsert_subset: "set (upsert k (\<lambda>_. v) m) \<subseteq> insert (k, v) (set m)"
  by (induction k "\<lambda>_ :: 'b option. v" m rule: upsert.induct) auto

lemma read_target_faithful: "read_faithfully gr reads \<Longrightarrow> read_faithfully gr (read_target gr g reads)"
  using set_upsert_subset [of g _ "sr_releases reads"]
  by (fastforce simp: read_faithfully_def read_target_def Let_def split: sum.splits)

lemma read_upstream_faithful: "read_faithfully gr reads \<Longrightarrow> read_faithfully gr (read_upstream gr m reads)"
  using set_upsert_subset [of _ _ "sr_releases reads"]
  by (fastforce simp: read_faithfully_def read_upstream_def Let_def split: sum.splits option.splits)

lemma fold_keeps: "P x \<Longrightarrow> (\<And>y z. P z \<Longrightarrow> P (f y z)) \<Longrightarrow> P (fold f ys x)"
  by (induction ys arbitrary: x) auto

lemma read_all_faithful: "read_faithfully gr (read_all gr targets)"
  unfolding read_all_def Let_def
  by (rule fold_keeps [where P = "read_faithfully gr"], rule fold_keeps [where P = "read_faithfully gr"])
    (simp_all add: read_upstream_faithful read_target_faithful read_faithfully_def [of gr "sweep_reads.make _ _ _ _ _"] sweep_reads.defs,
      simp add: read_faithfully_def)

lemma release_tag_is_highest:
  assumes "read_repository_release gr g = Inr rls" and "rr_latest_tag rls = Some tag"
  shows "\<exists>tags sha v. gr_tags gr g = Inr tags \<and> (tag, sha) \<in> set tags \<and> parse_semver tag = Some v \<and>
    (\<forall>(t, h) \<in> set tags. \<forall>u. parse_semver t = Some u \<longrightarrow> u \<le> v)"
proof -
  obtain tags sha where "gr_tags gr g = Inr tags" "latest_tag tags = Some (tag, sha)"
    using assms by (auto simp: read_repository_release_def Let_def and_then_Inr_iff split: option.splits)
  with latest_tag_spec [of tags] show ?thesis by auto
qed

subsection \<open>Bumps\<close>

definition forward_bump :: "github_reads \<Rightarrow> string \<times> string \<times> string \<times> string \<times> string \<Rightarrow> bool" where
  "forward_bump gr bump =
     (case bump of (repository, id', module, from', to') \<Rightarrow>
        \<exists>upstream tags sha v. frostyard_repository_of module = Some upstream \<and>
          gr_tags gr upstream = Inr tags \<and> (to', sha) \<in> set tags \<and> parse_semver to' = Some v \<and>
          (\<forall>(t, h) \<in> set tags. \<forall>u. parse_semver t = Some u \<longrightarrow> u \<le> v) \<and>
          (\<forall>u. parse_semver from' = Some u \<longrightarrow> u < v))"

definition bumps_forward :: "github_reads \<Rightarrow> dependency_report \<times> store \<Rightarrow> bool" where
  "bumps_forward gr acc = (\<forall>bump \<in> set (dr_bumps (fst acc)). forward_bump gr bump)"

lemma propose_release_bumps:
  "propose_release cx dp g rls tag (w, s) = Inr (w', s') \<Longrightarrow> dr_bumps w' = dr_bumps w"
  by (auto simp: propose_release_def Let_def skip_release_def and_then_Inr_iff)

lemma release_step_bumps:
  "release_step cx dp now g rls (w, s) = Inr (w', s') \<Longrightarrow> dr_bumps w' = dr_bumps w"
  by (auto simp: release_step_def skip_release_def and_then_Inr_iff dest: propose_release_bumps
      split: option.splits if_splits)

lemma bump_step_cases:
  assumes "bump_step cx dp releases g (module, required) (w, s) = Inr (w', s')"
  shows "dr_bumps w' = dr_bumps w \<or>
    (\<exists>upstream rls latest ids. frostyard_repository_of module = Some upstream \<and>
       releases upstream = Some rls \<and> rr_latest_tag rls = Some latest \<and> \<not> not_behind required latest \<and>
       dr_bumps w' = dr_bumps w @ map (\<lambda>i. (g, i, module, required, latest)) ids)"
proof (cases "\<exists>upstream rls latest. frostyard_repository_of module = Some upstream \<and>
    releases upstream = Some rls \<and> non_empty (rr_latest_tag rls) = Some latest \<and> \<not> not_behind required latest")
  case False
  with assms show ?thesis by (auto simp: bump_step_def split: option.splits if_splits)
next
  case True
  then obtain upstream rls latest where up: "frostyard_repository_of module = Some upstream"
      "releases upstream = Some rls" "non_empty (rr_latest_tag rls) = Some latest" "\<not> not_behind required latest"
    by blast
  obtain outcome where "enqueue_proposed_roots cx g
        [dependency_bump_proposal dp g module required latest upstream] s = Inr (outcome, s')"
      "w' = w\<lparr>dr_bumps := dr_bumps w @
        map (\<lambda>item. (g, wi_id item, module, required, latest)) (po_created outcome)\<rparr>"
    using assms up by (auto simp: bump_step_def and_then_Inr_iff)
  then have "dr_bumps w' = dr_bumps w @
      map (\<lambda>i. (g, i, module, required, latest)) (map wi_id (po_created outcome))" by simp
  moreover have "rr_latest_tag rls = Some latest"
    using up(3) by (auto simp: non_empty_def split: option.splits if_splits)
  ultimately show ?thesis using up by blast
qed

lemma bump_step_forward:
  assumes "bump_step cx dp (map_of (sr_releases reads)) g requirement acc = Inr acc'"
    and "bumps_forward gr acc" and "read_faithfully gr reads"
  shows "bumps_forward gr acc'"
proof -
  obtain w s w' s' module required where
    acc: "acc = (w, s)" "acc' = (w', s')" "requirement = (module, required)"
    by (cases acc, cases acc', cases requirement) auto
  from bump_step_cases [OF assms(1) [unfolded acc]] show ?thesis
  proof (elim disjE exE conjE)
    assume "dr_bumps w' = dr_bumps w"
    with assms(2) acc show ?thesis by (simp add: bumps_forward_def)
  next
    fix upstream rls latest ids
    assume up: "frostyard_repository_of module = Some upstream"
        "map_of (sr_releases reads) upstream = Some rls" "rr_latest_tag rls = Some latest"
      and behind: "\<not> not_behind required latest"
      and w': "dr_bumps w' = dr_bumps w @ map (\<lambda>i. (g, i, module, required, latest)) ids"
    have "read_repository_release gr upstream = Inr rls"
      using assms(3) map_of_SomeD [OF up(2)] by (auto simp: read_faithfully_def)
    from release_tag_is_highest [OF this up(3)] obtain tags sha v where
      high: "gr_tags gr upstream = Inr tags" "(latest, sha) \<in> set tags" "parse_semver latest = Some v"
        "\<forall>(t, h) \<in> set tags. \<forall>u. parse_semver t = Some u \<longrightarrow> u \<le> v" by blast
    have "\<forall>u. parse_semver required = Some u \<longrightarrow> u < v"
    proof (intro allI impI)
      fix u assume "parse_semver required = Some u"
      with behind high(3) show "u < v" by (simp add: not_behind_def not_le compare_semver_order)
    qed
    with up(1) high have "forward_bump gr (g, i, module, required, latest)" for i
      unfolding forward_bump_def prod.case by blast
    with assms(2) acc w' show ?thesis by (auto simp: bumps_forward_def)
  qed
qed

lemma sweep_repository_forward:
  assumes "sweep_repository cxs dp now reads g acc = Inr acc'"
    and "bumps_forward gr acc" and "read_faithfully gr reads"
  shows "bumps_forward gr acc'"
proof (cases "map_of (sr_releases reads) g")
  case None
  with assms show ?thesis by (simp add: sweep_repository_def)
next
  case (Some rls)
  then obtain acc1 requirements where
    rel: "release_step (cxs g 0) dp now g rls acc = Inr acc1" and
    rest: "fold_res (\<lambda>(i, requirement). bump_step (cxs g (Suc i)) dp (map_of (sr_releases reads)) g requirement)
      (List.enumerate 0 requirements) acc1 = Inr acc'"
    using assms(1) by (auto simp: sweep_repository_def and_then_Inr_iff)
  have "bumps_forward gr acc1"
    using release_step_bumps [of "cxs g 0" dp now g rls "fst acc" "snd acc" "fst acc1" "snd acc1"] rel assms(2)
    by (simp add: bumps_forward_def)
  with rest show ?thesis
    by (rule fold_res_invariant) (auto intro: bump_step_forward [OF _ _ assms(3)])
qed

text \<open>Every dependency bump the sweep proposes goes to a released tag, the highest one GitHub
  lists for the module's repository, and that version is strictly ahead of the required one
  (whenever the requirement is a version at all): never to an unreleased commit, never sideways
  and never back.\<close>

theorem dependency_bumps_go_forward_to_releases:
  assumes "sweep_internal_dependencies cxs gr dp now enrolled repository s = Inr (w, s')"
    and "(g, id', module, from', to') \<in> set (dr_bumps w)"
  shows "\<exists>upstream tags sha v. frostyard_repository_of module = Some upstream \<and>
    gr_tags gr upstream = Inr tags \<and> (to', sha) \<in> set tags \<and> parse_semver to' = Some v \<and>
    (\<forall>(t, h) \<in> set tags. \<forall>u. parse_semver t = Some u \<longrightarrow> u \<le> v) \<and>
    (\<forall>u. parse_semver from' = Some u \<longrightarrow> u < v)"
proof -
  obtain targets not_opted_in where run:
    "fold_res (sweep_repository cxs dp now (read_all gr targets)) (sr_swept (read_all gr targets))
       (empty_report\<lparr>dr_not_opted_in := not_opted_in, dr_swept := sr_swept (read_all gr targets),
          dr_failed := sr_failed (read_all gr targets)\<rparr>, s) = Inr (w, s')"
    using assms(1)
    by (auto simp: sweep_internal_dependencies_def Let_def and_then_Inr_iff queue_call_Inr)
  have "bumps_forward gr (w, s')"
  proof (rule fold_res_invariant [OF run])
    show "bumps_forward gr (empty_report\<lparr>dr_not_opted_in := not_opted_in,
        dr_swept := sr_swept (read_all gr targets), dr_failed := sr_failed (read_all gr targets)\<rparr>, s)"
      by (simp add: bumps_forward_def empty_report_def)
  qed (rule sweep_repository_forward [OF _ _ read_all_faithful])
  with assms(2) show ?thesis by (auto simp: bumps_forward_def forward_bump_def)
qed

definition sample_reads :: github_reads where
  "sample_reads =
     \<lparr>gr_head = (\<lambda>g. Inr (''main'', replicate 40 CHR ''a'')),
      gr_tags = (\<lambda>g. Inr (if g = ''frostyard/lib'' then [(''v1.2.0'', ''t''), (''v1.10.0'', ''u'')] else [(''v0.1.0'', ''x'')])),
      gr_compare = (\<lambda>g tag branch. Inr (2, [''feat: one'', ''fix: two''])),
      gr_go_mod = (\<lambda>g ref. Inr (if g = ''acme/tool'' then Some ''require github.com/frostyard/lib v1.9.0'' else None))\<rparr>"

definition sample_dependency_prose :: dependency_prose where
  "sample_dependency_prose =
     \<lparr>dp_release = (\<lambda>g facts next'. (''o'', ''i'', [''c''])), dp_bump = (\<lambda>g m a b u. (''o'', ''i'', [''c'']))\<rparr>"

definition sample_dependency_sweep :: "sweep_error + dependency_report \<times> store" where
  "sample_dependency_sweep =
     sweep_internal_dependencies (\<lambda>g i. sample_ctx (100 + int i) (''S'' @ replicate i CHR ''n''))
       sample_reads sample_dependency_prose 100 (Some [''acme/tool'']) None sample1"

lemma sample_sweep_bumps:
  "(case sample_dependency_sweep of Inl _ \<Rightarrow> [] | Inr (w, _) \<Rightarrow> dr_bumps w) =
     [(''acme/tool'', ''Sn'', ''github.com/frostyard/lib'', ''v1.9.0'', ''v1.10.0'')]"
  by code_simp

theorem dependency_bumps_go_forward_to_releases_witness:
  "\<exists>v. parse_semver ''v1.10.0'' = Some v \<and> (\<forall>u. parse_semver ''v1.9.0'' = Some u \<longrightarrow> u < v)"
proof -
  obtain w s' where run: "sample_dependency_sweep = Inr (w, s')"
    and w: "dr_bumps w = [(''acme/tool'', ''Sn'', ''github.com/frostyard/lib'', ''v1.9.0'', ''v1.10.0'')]"
    using sample_sweep_bumps by (auto split: sum.splits prod.splits)
  have "(''acme/tool'', ''Sn'', ''github.com/frostyard/lib'', ''v1.9.0'', ''v1.10.0'') \<in> set (dr_bumps w)"
    by (simp add: w)
  from dependency_bumps_go_forward_to_releases [OF run [unfolded sample_dependency_sweep_def] this]
  show ?thesis by blast
qed

subsection \<open>Release proposals\<close>

lemma declined_at_newest:
  assumes "item \<in> set items" and "wi_status item = Cancelled" and "wi_source_ref item = Some ref"
    and "includes_string (''@'' @ tag @ ''+'') ref"
  shows "\<exists>t. declined_at tag items = Some t \<and> wi_updated_at item \<le> t"
proof -
  let ?declined = "filter (\<lambda>item. wi_status item = Cancelled \<and>
      (case wi_source_ref item of None \<Rightarrow> False
       | Some ref \<Rightarrow> includes_string (''@'' @ tag @ ''+'') ref)) items"
  have mem: "wi_updated_at item \<in> set (map wi_updated_at ?declined)" using assms by auto
  then have "map wi_updated_at ?declined \<noteq> []" by (metis empty_iff list.set(1))
  then obtain t where t: "declined_at tag items = Some t"
    using fold_group_Some [of "map wi_updated_at ?declined" None "keep_max id"]
    unfolding declined_at_def by blast
  have "\<forall>x \<in> set (map wi_updated_at ?declined). id x \<le> id t"
    using fold_group_keep_max [OF t [unfolded declined_at_def]] by blast
  with mem t show ?thesis by auto
qed

lemma release_listing:
  assumes "list_items cx (release_items g) s = Inr existing" and "g \<noteq> []"
    and "length (filter (\<lambda>r. r_repository r = g \<and> r_kind r = release_needed_kind) (st_items s)) \<le> 100"
    and "r \<in> set (st_items s)" and "r_repository r = g" and "r_kind r = release_needed_kind"
  shows "item_of r \<in> set existing"
proof -
  let ?p = "\<lambda>r. r_repository r = g \<and> r_kind r = release_needed_kind"
  have "existing = map item_of (take 100 (claim_order cx (filter ?p (st_items s))))"
    using assms(1,2)
    by (auto simp: list_items_def filter_clauses_def release_items_def status_clause_def optional_res_def
        repository_clause_def non_empty_def list_limit_def release_needed_kind_def and_then_Inr_iff)
  with assms(3-) show ?thesis by (simp add: claim_order_def)
qed

lemma release_step_asks:
  assumes "release_step cx dp now g facts (w, s) = Inr (w', s')"
    and "dr_release_needed w' \<noteq> dr_release_needed w"
  shows "\<exists>tag existing. rr_latest_tag facts = Some tag \<and> rr_ahead_by facts \<noteq> 0 \<and>
    list_items cx (release_items g) s = Inr existing \<and>
    List.find (\<lambda>item. \<not> is_terminal item) existing = None \<and>
    (\<forall>t. declined_at tag existing = Some t \<longrightarrow> \<not> now - t < decline_cooldown_ms)"
proof -
  obtain tag where tag: "non_empty (rr_latest_tag facts) = Some tag"
    using assms by (cases "non_empty (rr_latest_tag facts)") (auto simp: release_step_def skip_release_def)
  then have latest: "rr_latest_tag facts = Some tag"
    by (auto simp: non_empty_def split: option.splits if_splits)
  have ahead: "rr_ahead_by facts \<noteq> 0"
    using assms tag by (auto simp: release_step_def skip_release_def)
  then obtain existing where existing: "list_items cx (release_items g) s = Inr existing"
    using assms tag by (auto simp: release_step_def and_then_Inr_iff)
  have closed: "List.find (\<lambda>item. \<not> is_terminal item) existing = None"
    using assms tag ahead existing
    by (cases "List.find (\<lambda>item. \<not> is_terminal item) existing") (auto simp: release_step_def skip_release_def)
  have "\<forall>t. declined_at tag existing = Some t \<longrightarrow> \<not> now - t < decline_cooldown_ms"
    using assms tag ahead existing closed by (auto simp: release_step_def skip_release_def)
  with latest ahead existing closed show ?thesis by blast
qed

text \<open>The sweep asks for a release of a repository only when GitHub shows commits after the
  latest tag, every release proposal the repository ever had is completed or cancelled, and
  none for the same tag was cancelled within the last seven days (as long as the repository
  has at most a hundred such proposals, the page the sweep reads).\<close>

theorem release_is_asked_for_once:
  assumes "release_step cx dp now g facts (w, s) = Inr (w', s')"
    and "dr_release_needed w' \<noteq> dr_release_needed w" and "g \<noteq> []"
    and "length (filter (\<lambda>r. r_repository r = g \<and> r_kind r = ''release-needed'') (st_items s)) \<le> 100"
    and "r \<in> set (st_items s)" and "r_repository r = g" and "r_kind r = ''release-needed''"
  shows "\<exists>tag. rr_latest_tag facts = Some tag \<and> rr_ahead_by facts \<noteq> 0 \<and>
    (logical_status r = Completed \<or> logical_status r = Cancelled) \<and>
    (logical_status r = Cancelled \<longrightarrow>
       (\<forall>ref. r_source_ref r = Some ref \<longrightarrow> includes_string (''@'' @ tag @ ''+'') ref \<longrightarrow>
          r_updated_at r + 604800000 \<le> now))"
proof -
  obtain tag existing where tag: "rr_latest_tag facts = Some tag" "rr_ahead_by facts \<noteq> 0"
    and existing: "list_items cx (release_items g) s = Inr existing"
    and closed: "List.find (\<lambda>item. \<not> is_terminal item) existing = None"
    and waited: "\<forall>t. declined_at tag existing = Some t \<longrightarrow> \<not> now - t < decline_cooldown_ms"
    using release_step_asks [OF assms(1,2)] by blast
  have mem: "item_of r \<in> set existing"
    using release_listing [OF existing assms(3)] assms(4-) by (simp add: release_needed_kind_def)
  then have "is_terminal (item_of r)" using closed by (auto simp: find_None_iff)
  then have done': "logical_status r = Completed \<or> logical_status r = Cancelled"
    by (simp add: is_terminal_def)
  have "r_updated_at r + 604800000 \<le> now"
    if hyp: "logical_status r = Cancelled" "r_source_ref r = Some ref" "includes_string (''@'' @ tag @ ''+'') ref" for ref
  proof -
    obtain t where "declined_at tag existing = Some t" "r_updated_at r \<le> t"
      using declined_at_newest [OF mem, of ref tag] hyp by auto
    with waited show ?thesis by (auto simp: decline_cooldown_ms_def)
  qed
  with tag done' show ?thesis by blast
qed

definition declined_release :: store where
  "declined_release =
     sample1\<lparr>st_items :=
       [\<lparr>r_id = ''D'', r_root_id = ''D'', r_parent_id = None, r_repository = ''acme/tool'',
         r_kind = ''release-needed'', r_objective = ''o'', r_instructions = ''i'',
         r_acceptance_criteria = Json [''c''], r_allowed_actions = Json [Read], r_delegable_actions = Json [],
         r_required_artifact = PullRequestArtifact, r_execution_target = Some NewPullRequest,
         r_policy = SqlNull, r_priority = 0, r_status = RCancelled, r_admitted = False,
         r_created_by = ''operator:dependency-sweep'', r_created_at = 1, r_updated_at = 2,
         r_source_ref = Some ''release-needed:acme/tool@v0.1.0+bb'', r_predecessors = SqlNull,
         r_cure = SqlNull, r_review = SqlNull, r_lease_owner = None, r_lease_token = None,
         r_lease_expires_at = None, r_result = SqlNull, r_operator_notes = SqlNull,
         r_previous_results = SqlNull\<rparr>]\<rparr>"

definition sample_release :: repository_release where
  "sample_release =
     \<lparr>rr_default_branch = ''main'', rr_head_sha = replicate 40 CHR ''a'', rr_latest_tag = Some ''v0.1.0'',
      rr_latest_tag_sha = Some ''x'', rr_ahead_by = 2, rr_commit_types = [''fix'']\<rparr>"

theorem release_is_asked_for_once_witness:
  "r_updated_at (hd (st_items declined_release)) + 604800000 \<le> (700000000 :: int)"
proof -
  let ?run = "release_step (sample_ctx 100 ''S'') sample_dependency_prose 700000000 ''acme/tool'' sample_release
    (empty_report, declined_release)" and ?r = "hd (st_items declined_release)"
  have bumped: "map fst (case ?run of Inl _ \<Rightarrow> [] | Inr (w, _) \<Rightarrow> dr_release_needed w) = [''acme/tool'']" by code_simp
  then obtain w' s' where run: "?run = Inr (w', s')" and w': "map fst (dr_release_needed w') = [''acme/tool'']"
    by (auto split: sum.splits prod.splits)
  have new: "dr_release_needed w' \<noteq> dr_release_needed empty_report"
    using w' by (auto simp: empty_report_def)
  have few: "length (filter (\<lambda>r. r_repository r = ''acme/tool'' \<and> r_kind r = ''release-needed'')
      (st_items declined_release)) \<le> 100" by code_simp
  have r: "?r \<in> set (st_items declined_release)" "r_repository ?r = ''acme/tool''" "r_kind ?r = ''release-needed''"
    "logical_status ?r = Cancelled" "r_source_ref ?r = Some ''release-needed:acme/tool@v0.1.0+bb''"
    "includes_string ''@v0.1.0+'' ''release-needed:acme/tool@v0.1.0+bb''" "rr_latest_tag sample_release = Some ''v0.1.0''"
    by code_simp+
  from release_is_asked_for_once [OF run new _ few r(1,2,3)] r(4-7) show ?thesis by auto
qed

end
