(* ===== verification/Pull_Request_Cure.thy ===== *)
theory Pull_Request_Cure
  imports Review_Sweep Release_Versions
begin

text \<open>
  The cure of pull requests (\<open>src/src/queue/pull-request-cure.ts\<close>, with the title lint of
  \<open>src/src/queue/pr-title-lint.ts\<close>): the health of a pull request out of what GitHub answers, the
  identity of its patch, the sweep that enqueues one cure root per decayed head, and the check
  of a cure completion. Each read of GitHub is a parameter with the outcomes the code tells
  apart; \<open>cg_digest\<close> stands for SHA-256 over the rendered list of files.
\<close>

subsection \<open>The title lint\<close>

definition conventional_commit_types :: "string list" where
  "conventional_commit_types =
     [''build'', ''chore'', ''ci'', ''docs'', ''feat'', ''fix'', ''perf'', ''refactor'', ''revert'', ''style'', ''test'']"

definition scope_start :: "char \<Rightarrow> bool" where
  "scope_start c = (is_lower_char c \<or> is_digit_char c)"

definition scope_char :: "char \<Rightarrow> bool" where
  "scope_char c = (scope_start c \<or> c \<in> set ''./-'')"

text \<open>What follows the type: an optional scope in parentheses, a colon, a space and a summary.\<close>

definition summary_tail :: "string \<Rightarrow> bool" where
  "summary_tail s =
     (case strip_prefix '': '' s of
        None \<Rightarrow> False
      | Some text' \<Rightarrow> text' \<noteq> [] \<and> CHR 0x0A \<notin> set text' \<and> CHR 0x0D \<notin> set text')"

definition scoped_tail :: "string \<Rightarrow> bool" where
  "scoped_tail s =
     (case s of
        CHR ''('' # c # cs \<Rightarrow>
          scope_start c \<and>
          (case dropWhile scope_char cs of CHR '')'' # rest \<Rightarrow> summary_tail rest | _ \<Rightarrow> False)
      | _ \<Rightarrow> summary_tail s)"

definition title_pattern :: "string \<Rightarrow> bool" where
  "title_pattern title =
     list_ex (\<lambda>t. case strip_prefix t title of None \<Rightarrow> False | Some rest \<Rightarrow> scoped_tail rest)
       conventional_commit_types"

definition lint_pull_request_title :: "string \<Rightarrow> bool" where
  "lint_pull_request_title title = (let trimmed = trim title in trimmed \<noteq> [] \<and> title_pattern trimmed)"

subsection \<open>What GitHub answers\<close>

record pull_facts =
  pf_number :: int
  pf_head_sha :: string
  pf_state :: pull_state
  pf_draft :: bool
  pf_title :: string
  pf_mergeable_state :: "string option"

datatype pull_check =
    PullRead pull_facts
  | PullUnavailable string
  | PullRejected string

record check_run =
  cr_completed :: bool
  cr_conclusion :: "string option"
  cr_name :: "string option"

record changed_file =
  cf_filename :: string
  cf_status :: string
  cf_previous :: "string option"
  cf_patch :: "string option"
  cf_additions :: int
  cf_deletions :: int
  cf_sha :: "string option"

text \<open>One file as the patch identity sees it.\<close>

record file_identity =
  fi_filename :: string
  fi_status :: string
  fi_previous :: "string option"
  fi_changes :: "string list"
  fi_sha :: "string option"

text \<open>
  \<open>None\<close> in a page is an entry that is not a file; \<open>None\<close> for a page, for the checks or for the
  reviews is an answer the code calls unavailable.
\<close>

record cure_reads =
  cg_pull :: "string \<Rightarrow> string \<Rightarrow> pull_check"
  cg_checks :: "string \<Rightarrow> string \<Rightarrow> check_run list option"
  cg_reviews :: "string \<Rightarrow> string \<Rightarrow> (string \<times> string) list option"
  cg_threads :: "string \<Rightarrow> string \<Rightarrow> string + nat"
  cg_files :: "string \<Rightarrow> string \<Rightarrow> nat \<Rightarrow> changed_file option list option"
  cg_digest :: "file_identity list \<Rightarrow> string"
  cg_listing :: "string \<Rightarrow> nat \<Rightarrow> (int \<times> bool \<times> string option) option list option"

subsection \<open>The identity of a patch\<close>

definition change_line :: "string \<Rightarrow> bool" where
  "change_line line =
     (prefix ''+'' line \<and> \<not> prefix ''+++'' line \<or> prefix ''-'' line \<and> \<not> prefix ''---'' line)"

datatype patch_outcome =
    PatchDigest string
  | PatchUncomputable string
  | PatchUnavailable string

fun collect_files ::
    "changed_file option list \<Rightarrow> file_identity list \<Rightarrow> patch_outcome + file_identity list"
where
  "collect_files [] files = Inr files"
| "collect_files (None # entries) files = Inl (PatchUnavailable ''GitHub pull-request file entry was malformed'')"
| "collect_files (Some f # entries) files =
     (case cf_patch f of
        Some patch \<Rightarrow>
          collect_files entries
            (files @
              [\<lparr>fi_filename = cf_filename f, fi_status = cf_status f, fi_previous = cf_previous f,
                fi_changes = filter change_line (split_char CHR 0x0A patch), fi_sha = None\<rparr>])
      | None \<Rightarrow>
          if cf_additions f = 0 \<and> cf_deletions f = 0 \<and> cf_sha f \<noteq> None
          then
            collect_files entries
              (files @
                [\<lparr>fi_filename = cf_filename f, fi_status = cf_status f, fi_previous = cf_previous f,
                  fi_changes = [], fi_sha = cf_sha f\<rparr>])
          else Inl (PatchUncomputable (cf_filename f)))"

definition max_file_pages :: nat where "max_file_pages = 3"

text \<open>The loop over the pages, from page \<open>page\<close> on, with \<open>left\<close> pages to go.\<close>

fun read_file_pages ::
    "(nat \<Rightarrow> changed_file option list option) \<Rightarrow> (file_identity list \<Rightarrow> string) \<Rightarrow> nat \<Rightarrow> nat \<Rightarrow>
       file_identity list \<Rightarrow> patch_outcome"
where
  "read_file_pages pages digest page 0 files = PatchUncomputable ''more than 300 changed files''"
| "read_file_pages pages digest page (Suc left) files =
     (case pages page of
        None \<Rightarrow> PatchUnavailable ''GitHub pull-request files unavailable''
      | Some entries \<Rightarrow>
          (case collect_files entries files of
             Inl outcome \<Rightarrow> outcome
           | Inr files' \<Rightarrow>
               if length entries < 100 then PatchDigest (digest (sort_key fi_filename files'))
               else read_file_pages pages digest (Suc page) left files'))"

definition read_patch_digest :: "cure_reads \<Rightarrow> string \<Rightarrow> string \<Rightarrow> patch_outcome" where
  "read_patch_digest cg repository url =
     read_file_pages (cg_files cg repository url) (cg_digest cg) 1 max_file_pages []"

subsection \<open>The health of a pull request\<close>

record pull_health =
  ph_head_sha :: string
  ph_state :: pull_state
  ph_draft :: bool
  ph_number :: int
  ph_title :: string
  ph_mergeable_state :: "string option"
  ph_failing_checks :: "string list"
  ph_changes_requested :: bool
  ph_unresolved_threads :: "nat option"
  ph_notes :: "string list"
  ph_patch_digest :: "string option"
  ph_patch_unavailable :: "string option"
  ph_decay :: "pull_request_decay list"

datatype health_check =
    Health pull_health
  | HealthUnavailable string
  | HealthRejected string

definition failing_conclusions :: "string list" where
  "failing_conclusions = [''failure'', ''timed_out'', ''startup_failure'', ''action_required'']"

definition failing_checks :: "check_run list \<Rightarrow> string list" where
  "failing_checks runs =
     sort
       (map (\<lambda>run. case cr_name run of None \<Rightarrow> ''unnamed check'' | Some n \<Rightarrow> n)
         (filter
           (\<lambda>run. cr_completed run \<and>
              (case cr_conclusion run of None \<Rightarrow> False | Some c \<Rightarrow> c \<in> set failing_conclusions))
           runs))"

text \<open>Each reviewer's latest review that is not a comment.\<close>

definition changes_requested :: "(string \<times> string) list \<Rightarrow> bool" where
  "changes_requested reviews =
     (''CHANGES_REQUESTED'' \<in>
        snd ` set (collect fst (\<lambda>_ x. snd x) (filter (\<lambda>(login, state). state \<noteq> ''COMMENTED'') reviews) []))"

definition decay_of :: "pull_health \<Rightarrow> pull_request_decay list" where
  "decay_of h =
     (if ph_draft h then []
      else
        (if ph_mergeable_state h = Some ''behind'' then [Behind] else []) @
        (if ph_mergeable_state h = Some ''dirty'' then [Dirty] else []) @
        (if ph_failing_checks h \<noteq> [] then [FailingChecks] else []) @
        (if ph_changes_requested h then [ChangesRequested] else []) @
        (case ph_unresolved_threads h of None \<Rightarrow> [] | Some n \<Rightarrow> if 0 < n then [UnresolvedThreads] else []) @
        (if \<not> lint_pull_request_title (ph_title h) then [BadTitle] else []))"

definition bare_health :: "pull_facts \<Rightarrow> pull_health" where
  "bare_health pull =
     \<lparr>ph_head_sha = to_lower (pf_head_sha pull), ph_state = pf_state pull, ph_draft = pf_draft pull,
      ph_number = pf_number pull, ph_title = pf_title pull, ph_mergeable_state = pf_mergeable_state pull,
      ph_failing_checks = [], ph_changes_requested = False, ph_unresolved_threads = None, ph_notes = [],
      ph_patch_digest = None, ph_patch_unavailable = None, ph_decay = []\<rparr>"

definition inspect_open ::
    "cure_reads \<Rightarrow> string \<Rightarrow> string \<Rightarrow> pull_facts \<Rightarrow> health_check"
where
  "inspect_open cg repository url pull =
     (case cg_checks cg repository (pf_head_sha pull) of
        None \<Rightarrow> HealthUnavailable ''GitHub check runs unavailable''
      | Some runs \<Rightarrow>
          (case cg_reviews cg repository url of
             None \<Rightarrow> HealthUnavailable ''GitHub reviews unavailable''
           | Some reviews \<Rightarrow>
               let threads = cg_threads cg repository url;
                   h = (bare_health pull)
                     \<lparr>ph_failing_checks := failing_checks runs,
                      ph_changes_requested := changes_requested reviews,
                      ph_unresolved_threads := (case threads of Inl _ \<Rightarrow> None | Inr n \<Rightarrow> Some n),
                      ph_notes := (case threads of Inl why \<Rightarrow> [''review threads unavailable: '' @ why] | Inr n \<Rightarrow> [])\<rparr> in
               (case read_patch_digest cg repository url of
                  PatchUnavailable why \<Rightarrow> HealthUnavailable why
                | PatchDigest d \<Rightarrow>
                    let h1 = h\<lparr>ph_patch_digest := Some d\<rparr> in Health (h1\<lparr>ph_decay := decay_of h1\<rparr>)
                | PatchUncomputable why \<Rightarrow>
                    let h1 = h\<lparr>ph_patch_unavailable := Some why\<rparr> in Health (h1\<lparr>ph_decay := decay_of h1\<rparr>))))"

definition inspect_pull_request_health :: "cure_reads \<Rightarrow> string \<Rightarrow> string \<Rightarrow> health_check" where
  "inspect_pull_request_health cg repository url =
     (if parse_pull_request_url repository url = None
      then HealthRejected (url @ '' is not a '' @ repository @ '' pull-request URL'')
      else
        (case cg_pull cg repository url of
           PullUnavailable why \<Rightarrow> HealthUnavailable why
         | PullRejected why \<Rightarrow> HealthRejected why
         | PullRead pull \<Rightarrow>
             if pf_state pull \<noteq> PullOpen then Health (bare_health pull)
             else inspect_open cg repository url pull))"

subsection \<open>The open pull requests of a repository\<close>

definition max_listing_pages :: nat where "max_listing_pages = 3"

text \<open>A number is the \<open>Number\<close> of the entry when it is an integer of at least one.\<close>

fun list_pages ::
    "string \<Rightarrow> (nat \<Rightarrow> (int \<times> bool \<times> string option) option list option) \<Rightarrow> nat \<Rightarrow> nat \<Rightarrow>
       listed_pull list \<Rightarrow> (listed_pull list \<times> bool) option"
where
  "list_pages repository pages page 0 pulls = Some (pulls, True)"
| "list_pages repository pages page (Suc left) pulls =
     (case pages page of
        None \<Rightarrow> None
      | Some entries \<Rightarrow>
          if list_ex (\<lambda>e. case e of None \<Rightarrow> True | Some (n, _, _) \<Rightarrow> n < 1) entries then None
          else
            let pulls' = pulls @
              map (\<lambda>(n, draft, created).
                \<lparr>ls_url = ''https://github.com/'' @ repository @ ''/pull/'' @ decimal_text n,
                 ls_number = JInt n, ls_draft = draft, ls_created_at = created\<rparr>)
                (List.map_filter id entries) in
            if length entries < 100 then Some (pulls', False)
            else list_pages repository pages (Suc page) left pulls')"

definition list_open_pull_requests :: "cure_reads \<Rightarrow> string \<Rightarrow> (listed_pull list \<times> bool) option" where
  "list_open_pull_requests cg repository = list_pages repository (cg_listing cg repository) 1 max_listing_pages []"

subsection \<open>The sweep\<close>

definition cure_kind :: string where "cure_kind = ''pr-cure''"

definition cure_actions :: "action list" where
  "cure_actions = [Read, Write, RunTests, OpenPr, CreateFollowup]"

definition cure_child_ceiling :: "action list" where
  "cure_child_ceiling = [Read, Write, RunTests, OpenPr]"

text \<open>The prose of a cure root: for the repository, the health, and whether the pull request is foreign.\<close>

type_synonym cure_prose = "string \<Rightarrow> pull_health \<Rightarrow> bool \<Rightarrow> prose"

definition cure_root_definition :: "cure_prose \<Rightarrow> string \<Rightarrow> pull_health \<Rightarrow> string \<Rightarrow> bool \<Rightarrow> jsnum \<Rightarrow> seed_input" where
  "cure_root_definition cp repository health created_by foreign priority =
     (let text' = cp repository health foreign in
      \<lparr>si_repository = repository, si_kind = cure_kind, si_objective = pz_objective text',
       si_instructions = pz_instructions text', si_acceptance_criteria = pz_criteria text',
       si_allowed_actions = cure_actions, si_delegable_actions = cure_child_ceiling,
       si_required_artifact = Some PullRequestArtifact, si_execution_target = Some ExistingPullRequest,
       si_priority = Some priority, si_created_by = created_by, si_extra = []\<rparr>)"

datatype cure_skip =
    CureRejected string
  | CureStateIs pull_state
  | CureDraft
  | CurePatchUncomputable "string option"
  | CureHeadKnown string
  | CureListingTruncated

record cure_result =
  cu_inspected :: nat
  cu_foreign_listed :: nat
  cu_foreign_inspected :: nat
  cu_enqueued :: "(string \<times> string \<times> string \<times> pull_request_decay list) list"
  cu_healthy :: "string list"
  cu_skipped :: "(string \<times> cure_skip) list"
  cu_unavailable :: "(string \<times> string) list"
  cu_notes :: "(string \<times> string) list"

definition empty_cure :: cure_result where
  "empty_cure =
     \<lparr>cu_inspected = 0, cu_foreign_listed = 0, cu_foreign_inspected = 0, cu_enqueued = [], cu_healthy = [],
      cu_skipped = [], cu_unavailable = [], cu_notes = []\<rparr>"

definition cure_skipped :: "string \<Rightarrow> cure_skip \<Rightarrow> cure_result \<Rightarrow> cure_result" where
  "cure_skipped url why w = w\<lparr>cu_skipped := cu_skipped w @ [(url, why)]\<rparr>"

record cure_origin =
  ko_repository :: string
  ko_priority :: int
  ko_item_id :: "string option"

definition cure_record :: "string \<Rightarrow> pull_health \<Rightarrow> string \<Rightarrow> cure_origin \<Rightarrow> pull_request_cure" where
  "cure_record url health digest origin =
     \<lparr>pc_pull_request_url = url, pc_head_sha = ph_head_sha health, pc_patch_digest = digest,
      pc_decay = ph_decay health, pc_origin_item_id = ko_item_id origin\<rparr>"

definition enqueue_cure ::
    "ctx \<Rightarrow> cure_prose \<Rightarrow> string \<Rightarrow> string \<Rightarrow> cure_origin \<Rightarrow> pull_health \<Rightarrow> string \<Rightarrow>
       cure_result \<times> store \<Rightarrow> (cure_result \<times> store) res"
where
  "enqueue_cure cx cp actor url origin health digest acc =
     (case acc of (w, s) \<Rightarrow>
      and_then
        (enqueue_cure_root cx (ko_repository origin)
          \<lparr>br_seed =
             cure_root_definition cp (ko_repository origin) health actor (ko_item_id origin = None)
               (JInt (ko_priority origin)),
           br_source_ref = url @ ''@'' @ ph_head_sha health\<rparr>
          (cure_record url health digest origin) s) (\<lambda>(created, s').
      case created of
        None \<Rightarrow> Inr (cure_skipped url (CureHeadKnown (ph_head_sha health)) w, s')
      | Some item \<Rightarrow>
          Inr (w\<lparr>cu_enqueued := cu_enqueued w @ [(wi_id item, url, ph_head_sha health, ph_decay health)]\<rparr>, s')))"

definition inspect_candidate ::
    "ctx \<Rightarrow> cure_reads \<Rightarrow> cure_prose \<Rightarrow> string \<Rightarrow> string \<Rightarrow> cure_origin \<Rightarrow>
       cure_result \<times> store \<Rightarrow> (cure_result \<times> store) res"
where
  "inspect_candidate cx cg cp actor url origin acc =
     (case acc of (w, s) \<Rightarrow>
      case inspect_pull_request_health cg (ko_repository origin) url of
        HealthUnavailable why \<Rightarrow> Inr (w\<lparr>cu_unavailable := cu_unavailable w @ [(url, why)]\<rparr>, s)
      | HealthRejected why \<Rightarrow> Inr (cure_skipped url (CureRejected why) w, s)
      | Health health \<Rightarrow>
          let w1 = w\<lparr>cu_notes := cu_notes w @ map (Pair url) (ph_notes health)\<rparr> in
          if ph_state health \<noteq> PullOpen then Inr (cure_skipped url (CureStateIs (ph_state health)) w1, s)
          else if ph_draft health then Inr (cure_skipped url CureDraft w1, s)
          else if ph_decay health = [] then Inr (w1\<lparr>cu_healthy := cu_healthy w1 @ [url]\<rparr>, s)
          else
            (case non_empty (ph_patch_digest health) of
               None \<Rightarrow> Inr (cure_skipped url (CurePatchUncomputable (ph_patch_unavailable health)) w1, s)
             | Some digest \<Rightarrow> enqueue_cure cx cp actor url origin health digest (w1, s)))"

text \<open>The open pull requests completed items reported, each with the item of highest priority.\<close>

definition cure_sightings :: "work_item list \<Rightarrow> (string \<times> cure_origin) list" where
  "cure_sightings items =
     concat
       (map
         (\<lambda>item.
           map
             (\<lambda>a. (wa_url a, \<lparr>ko_repository = wi_repository item, ko_priority = wi_priority item,
                ko_item_id = Some (wi_id item)\<rparr>))
             (filter
               (\<lambda>a. wa_kind a = PullRequest \<and>
                  (case wa_verification a of Some (Verified v) \<Rightarrow> vo_state v = Open | _ \<Rightarrow> False))
               (artifacts_of (wi_result item))))
         items)"

definition cure_candidates :: "work_item list \<Rightarrow> (string \<times> cure_origin) list" where
  "cure_candidates items = collect fst (\<lambda>v x. keep_max ko_priority v (snd x)) (cure_sightings items) []"

text \<open>One reported candidate: \<open>cxs url\<close> is the context of the call made for it.\<close>

definition cure_reported ::
    "(string \<Rightarrow> ctx) \<Rightarrow> cure_reads \<Rightarrow> cure_prose \<Rightarrow> string \<Rightarrow> string \<times> cure_origin \<Rightarrow>
       cure_result \<times> store \<Rightarrow> (cure_result \<times> store) res"
where
  "cure_reported cxs cg cp actor candidate acc =
     (case candidate of (url, origin) \<Rightarrow>
      inspect_candidate (cxs url) cg cp actor url origin
        ((fst acc)\<lparr>cu_inspected := Suc (cu_inspected (fst acc))\<rparr>, snd acc))"

text \<open>One listed pull request of a repository that cures foreign ones; \<open>seen\<close> are the URLs done.\<close>

definition cure_listed ::
    "(string \<Rightarrow> ctx) \<Rightarrow> cure_reads \<Rightarrow> cure_prose \<Rightarrow> string \<Rightarrow> string \<Rightarrow> listed_pull \<Rightarrow>
       string list \<times> cure_result \<times> store \<Rightarrow> (string list \<times> cure_result \<times> store) res"
where
  "cure_listed cxs cg cp actor repository pull acc =
     (case acc of (seen, w, s) \<Rightarrow>
      let key = to_lower (ls_url pull) in
      if key \<in> set seen then Inr acc
      else if ls_draft pull then Inr (key # seen, cure_skipped (ls_url pull) CureDraft w, s)
      else
        and_then
          (inspect_candidate (cxs (ls_url pull)) cg cp actor (ls_url pull)
            \<lparr>ko_repository = repository, ko_priority = 0, ko_item_id = None\<rparr>
            (w\<lparr>cu_inspected := Suc (cu_inspected w), cu_foreign_inspected := Suc (cu_foreign_inspected w)\<rparr>, s))
          (\<lambda>acc'. Inr (key # seen, acc')))"

definition cure_foreign ::
    "(string \<Rightarrow> ctx) \<Rightarrow> cure_reads \<Rightarrow> cure_prose \<Rightarrow> string \<Rightarrow> string \<Rightarrow>
       string list \<times> cure_result \<times> store \<Rightarrow> (string list \<times> cure_result \<times> store) res"
where
  "cure_foreign cxs cg cp actor repository acc =
     (case acc of (seen, w, s) \<Rightarrow>
      case list_open_pull_requests cg repository of
        None \<Rightarrow>
          Inr (seen, w\<lparr>cu_unavailable := cu_unavailable w @
            [(listing_address repository, ''GitHub open pull-request listing unavailable'')]\<rparr>, s)
      | Some (pulls, truncated) \<Rightarrow>
          let w1 = w\<lparr>cu_foreign_listed := cu_foreign_listed w + length pulls\<rparr>;
              w2 = (if truncated then cure_skipped (listing_address repository) CureListingTruncated w1 else w1) in
          fold_res (cure_listed cxs cg cp actor repository) pulls (seen, w2, s))"

definition cure_repositories :: "string option \<Rightarrow> store \<Rightarrow> string list" where
  "cure_repositories repository s =
     map fst
       (filter
         (\<lambda>(slug, foreign). foreign \<and>
            (case repository of None \<Rightarrow> True | Some g \<Rightarrow> to_lower slug = to_lower g))
         (repository_cure_settings s))"

definition cure_pull_requests ::
    "(string \<Rightarrow> ctx) \<Rightarrow> cure_reads \<Rightarrow> cure_prose \<Rightarrow> string option \<Rightarrow> int option \<Rightarrow> string \<Rightarrow> store \<Rightarrow>
       (cure_result \<times> store) res"
where
  "cure_pull_requests cxs cg cp repository limit actor s =
     and_then
       (completed_items_with_pending_artifacts (cxs []) PendingArtifacts repository
         (Some (case limit of None \<Rightarrow> 100 | Some n \<Rightarrow> n)) s) (\<lambda>items.
     let candidates = cure_candidates items in
     and_then (fold_res (cure_reported cxs cg cp actor) candidates (empty_cure, s)) (\<lambda>(w, s1).
     and_then
       (fold_res (cure_foreign cxs cg cp actor) (cure_repositories repository s1)
         (map (to_lower \<circ> fst) candidates, w, s1)) (\<lambda>(seen, acc).
     Inr acc)))"

subsection \<open>The completion of a cure\<close>

datatype cure_refusal =
    CureRecordMissing
  | CureUnreported string
  | CureUnverifiable string
  | CureHeadRejected string
  | CureIdentityUncomputable "string option"
  | CurePatchChanged string string

definition assert_cure_completion ::
    "cure_reads \<Rightarrow> work_item \<Rightarrow> work_artifact list \<Rightarrow> cure_refusal + unit"
where
  "assert_cure_completion cg item artifacts =
     (if wi_kind item \<noteq> cure_kind then Inr ()
      else
        (case wi_cure item of
           None \<Rightarrow> Inl CureRecordMissing
         | Some cure \<Rightarrow>
             if \<not> list_ex (\<lambda>a. wa_kind a = PullRequest \<and>
                 to_lower (wa_url a) = to_lower (pc_pull_request_url cure)) artifacts
             then Inl (CureUnreported (pc_pull_request_url cure))
             else
               (case inspect_pull_request_health cg (wi_repository item) (pc_pull_request_url cure) of
                  HealthUnavailable why \<Rightarrow> Inl (CureUnverifiable why)
                | HealthRejected why \<Rightarrow> Inl (CureHeadRejected why)
                | Health health \<Rightarrow>
                    if ph_state health \<noteq> PullOpen then Inr ()
                    else
                      (case non_empty (ph_patch_digest health) of
                         None \<Rightarrow> Inl (CureIdentityUncomputable (ph_patch_unavailable health))
                       | Some digest \<Rightarrow>
                           if digest \<noteq> pc_patch_digest cure
                           then Inl (CurePatchChanged (pc_patch_digest cure) digest)
                           else Inr ()))))"

end
