(* ===== verification/Cure_Guarantees.thy ===== *)
theory Cure_Guarantees
  imports Pull_Request_Cure Review_Sample
begin

text \<open>
  What the cure sweep guarantees: it acts on the queue only by enqueuing cure roots, each for an
  open head that is not a draft, has decayed, and whose patch identity is recorded; and a cure
  completes on an open pull request only with that identity unchanged.
\<close>

definition decayed_head ::
    "cure_reads \<Rightarrow> string \<times> string \<times> string \<times> pull_request_decay list \<Rightarrow> bool"
where
  "decayed_head cg e =
     (case e of (id', url, sha, decay) \<Rightarrow>
        \<exists>repository h. inspect_pull_request_health cg repository url = Health h \<and> ph_state h = PullOpen \<and>
          \<not> ph_draft h \<and> ph_head_sha h = sha \<and> ph_decay h = decay \<and> decay \<noteq> [] \<and>
          ph_patch_digest h \<noteq> None)"

definition cures_in_order :: "cure_reads \<Rightarrow> store \<Rightarrow> cure_result \<times> store \<Rightarrow> bool" where
  "cures_in_order cg s0 acc =
     (step\<^sup>*\<^sup>* s0 (snd acc) \<and> (\<forall>e \<in> set (cu_enqueued (fst acc)). decayed_head cg e))"

lemma enqueue_cure_in_order:
  assumes "enqueue_cure cx cp actor url origin h digest (w, s) = Inr acc" and "proper_ctx cx"
    and "cures_in_order cg s0 (w, s)" and "decayed_head cg ([], url, ph_head_sha h, ph_decay h)"
  shows "cures_in_order cg s0 acc"
proof -
  obtain bound cure created s' where enq: "enqueue_cure_root cx (ko_repository origin) bound cure s = Inr (created, s')"
    and acc: "acc = (case created of
        None \<Rightarrow> (cure_skipped url (CureHeadKnown (ph_head_sha h)) w, s')
      | Some item \<Rightarrow> (w\<lparr>cu_enqueued := cu_enqueued w @ [(wi_id item, url, ph_head_sha h, ph_decay h)]\<rparr>, s'))"
    using assms(1) by (auto simp: enqueue_cure_def and_then_Inr_iff split: option.splits)
  have "step s s'" using enq assms(2) by (rule step.intros(12) [rotated])
  then have "step\<^sup>*\<^sup>* s0 s'"
    using assms(3) by (auto simp: cures_in_order_def intro: rtranclp.rtrancl_into_rtrancl)
  moreover have "decayed_head cg (i, url, ph_head_sha h, ph_decay h)" for i
    using assms(4) by (simp add: decayed_head_def)
  ultimately show ?thesis
    using assms(3) acc by (auto simp: cures_in_order_def cure_skipped_def split: option.splits)
qed

lemma cures_in_order_report:
  "cures_in_order cg s0 (w, s) \<Longrightarrow> cu_enqueued w' = cu_enqueued w \<Longrightarrow> cures_in_order cg s0 (w', s)"
  by (simp add: cures_in_order_def)

lemma cure_skipped_enqueued [simp]: "cu_enqueued (cure_skipped url why w) = cu_enqueued w"
  by (simp add: cure_skipped_def)

lemma inspect_candidate_in_order:
  assumes "inspect_candidate cx cg cp actor url origin acc = Inr acc'" and "proper_ctx cx"
    and "cures_in_order cg s0 acc"
  shows "cures_in_order cg s0 acc'"
proof (cases acc)
  case (Pair w s)
  show ?thesis
  proof (cases "inspect_pull_request_health cg (ko_repository origin) url")
    case (Health h)
    let ?w1 = "w\<lparr>cu_notes := cu_notes w @ map (Pair url) (ph_notes h)\<rparr>"
    show ?thesis
    proof (cases "ph_state h = PullOpen \<and> \<not> ph_draft h \<and> ph_decay h \<noteq> [] \<and> non_empty (ph_patch_digest h) \<noteq> None")
      case True
      then obtain digest where digest: "non_empty (ph_patch_digest h) = Some digest" by blast
      with True assms(1) Pair Health
      have enq: "enqueue_cure cx cp actor url origin h digest (?w1, s) = Inr acc'"
        by (simp add: inspect_candidate_def Let_def)
      have "ph_patch_digest h \<noteq> None" using digest by (auto simp: non_empty_def split: option.splits if_splits)
      with True Health have "decayed_head cg ([], url, ph_head_sha h, ph_decay h)"
        unfolding decayed_head_def prod.case by blast
      moreover have "cures_in_order cg s0 (?w1, s)"
        using assms(3) Pair by (simp add: cures_in_order_def)
      ultimately show ?thesis using enqueue_cure_in_order [OF enq assms(2)] by blast
    next
      case False
      then obtain w' where "acc' = (w', s)" "cu_enqueued w' = cu_enqueued w"
        using assms(1) Pair Health
        by (cases "non_empty (ph_patch_digest h)") (auto simp: inspect_candidate_def Let_def split: if_splits)
      with assms(3) Pair show ?thesis by (simp add: cures_in_order_def)
    qed
  next
    case (HealthUnavailable why)
    with assms Pair show ?thesis by (auto simp: inspect_candidate_def cures_in_order_def)
  next
    case (HealthRejected why)
    with assms Pair show ?thesis by (auto simp: inspect_candidate_def cures_in_order_def)
  qed
qed

lemma cure_reported_in_order:
  assumes "cure_reported cxs cg cp actor candidate acc = Inr acc'" and "\<forall>url. proper_ctx (cxs url)"
    and "cures_in_order cg s0 acc"
  shows "cures_in_order cg s0 acc'"
proof -
  obtain url origin where candidate: "candidate = (url, origin)" by (cases candidate) auto
  have "cures_in_order cg s0 ((fst acc)\<lparr>cu_inspected := Suc (cu_inspected (fst acc))\<rparr>, snd acc)"
    using assms(3) by (simp add: cures_in_order_def)
  with assms(1,2) show ?thesis
    unfolding candidate cure_reported_def prod.case by (blast intro: inspect_candidate_in_order)
qed

lemma cure_listed_in_order:
  assumes "cure_listed cxs cg cp actor g pull acc = Inr acc'" and "\<forall>url. proper_ctx (cxs url)"
    and "cures_in_order cg s0 (snd acc)"
  shows "cures_in_order cg s0 (snd acc')"
proof -
  obtain seen w s where acc: "acc = (seen, w, s)" by (cases acc) auto
  let ?w1 = "w\<lparr>cu_inspected := Suc (cu_inspected w), cu_foreign_inspected := Suc (cu_foreign_inspected w)\<rparr>"
  have w1: "cures_in_order cg s0 (?w1, s)" using assms(3) acc by (simp add: cures_in_order_def)
  consider "acc' = acc" | "acc' = (to_lower (ls_url pull) # seen, cure_skipped (ls_url pull) CureDraft w, s)"
    | rest where "acc' = (to_lower (ls_url pull) # seen, rest)"
      "inspect_candidate (cxs (ls_url pull)) cg cp actor (ls_url pull)
         \<lparr>ko_repository = g, ko_priority = 0, ko_item_id = None\<rparr> (?w1, s) = Inr rest"
    using assms(1) acc by (auto simp: cure_listed_def Let_def and_then_Inr_iff split: if_splits)
  then show ?thesis
  proof cases
    case 1
    with assms(3) show ?thesis by simp
  next
    case 2
    with assms(3) acc show ?thesis by (simp add: cures_in_order_def)
  next
    case 3
    with inspect_candidate_in_order [OF 3(2) _ w1] assms(2) show ?thesis by simp
  qed
qed

lemma cure_foreign_in_order:
  assumes "cure_foreign cxs cg cp actor g acc = Inr acc'" and "\<forall>url. proper_ctx (cxs url)"
    and "cures_in_order cg s0 (snd acc)"
  shows "cures_in_order cg s0 (snd acc')"
proof -
  obtain seen w s where acc: "acc = (seen, w, s)" by (cases acc) auto
  show ?thesis
  proof (cases "list_open_pull_requests cg g")
    case None
    with assms acc show ?thesis by (auto simp: cure_foreign_def cures_in_order_def)
  next
    case (Some listing)
    obtain pulls truncated where listing: "listing = (pulls, truncated)" by (cases listing) auto
    let ?w1 = "w\<lparr>cu_foreign_listed := cu_foreign_listed w + length pulls\<rparr>"
    let ?w2 = "if truncated then cure_skipped (listing_address g) CureListingTruncated ?w1 else ?w1"
    have run: "fold_res (cure_listed cxs cg cp actor g) pulls (seen, ?w2, s) = Inr acc'"
      using assms(1) acc Some listing by (simp add: cure_foreign_def Let_def)
    show ?thesis
    proof (rule fold_res_invariant [OF run, where I = "\<lambda>acc. cures_in_order cg s0 (snd acc)"])
      show "cures_in_order cg s0 (snd (seen, ?w2, s))"
        using assms(3) acc by (simp add: cures_in_order_def)
    qed (rule cure_listed_in_order [OF _ assms(2)])
  qed
qed

lemma cure_sweep_in_order:
  assumes "cure_pull_requests cxs cg cp repository limit actor s = Inr acc" and "\<forall>url. proper_ctx (cxs url)"
  shows "cures_in_order cg s acc"
proof -
  obtain items w s1 seen where
    reported: "fold_res (cure_reported cxs cg cp actor) (cure_candidates items) (empty_cure, s) = Inr (w, s1)"
    and foreign: "fold_res (cure_foreign cxs cg cp actor) (cure_repositories repository s1)
      (map (to_lower \<circ> fst) (cure_candidates items), w, s1) = Inr (seen, acc)"
    using assms(1) by (auto simp: cure_pull_requests_def Let_def and_then_Inr_iff)
  have "cures_in_order cg s (w, s1)"
  proof (rule fold_res_invariant [OF reported, where I = "cures_in_order cg s"])
    show "cures_in_order cg s (empty_cure, s)" by (simp add: cures_in_order_def empty_cure_def)
  qed (rule cure_reported_in_order [OF _ assms(2)])
  then have "cures_in_order cg s (snd (seen, acc))"
    using fold_res_invariant [OF foreign, where I = "\<lambda>acc. cures_in_order cg s (snd acc)"]
      cure_foreign_in_order [OF _ assms(2)] by auto
  then show ?thesis by simp
qed

text \<open>The cure sweep is a run of the queue, and each root it enqueues is for a pull request
  GitHub showed open and not a draft, at the recorded head, with at least one sign of decay and
  with a patch identity to hold the cure to.\<close>

theorem cure_sweep_cures_only_decayed_heads:
  assumes "cure_pull_requests cxs cg cp repository limit actor s = Inr (w, s')"
    and "\<forall>url. proper_ctx (cxs url)"
  shows "step\<^sup>*\<^sup>* s s' \<and>
    (\<forall>(id', url, sha, decay) \<in> set (cu_enqueued w).
       \<exists>g h. inspect_pull_request_health cg g url = Health h \<and> ph_state h = PullOpen \<and> \<not> ph_draft h \<and>
         ph_head_sha h = sha \<and> ph_decay h = decay \<and> decay \<noteq> [] \<and> ph_patch_digest h \<noteq> None)"
  using cure_sweep_in_order [OF assms] unfolding cures_in_order_def decayed_head_def fst_conv snd_conv by blast

definition ready_queue :: store where
  "ready_queue =
     passed_queue\<lparr>st_items :=
       [(sample_row ''A'' ''fix'')
          \<lparr>r_result := Json \<lparr>wr_summary = ''s'', wr_evidence = [], wr_artifacts = [draft_pull], wr_model = None\<rparr>\<rparr>]\<rparr>"

definition decayed_pull :: cure_reads where
  "decayed_pull =
     \<lparr>cg_pull = (\<lambda>g url. PullRead
        \<lparr>pf_number = 7, pf_head_sha = replicate 40 CHR ''a'', pf_state = PullOpen, pf_draft = False,
         pf_title = ''fix: it'', pf_mergeable_state = Some ''behind''\<rparr>),
      cg_checks = (\<lambda>g sha. Some []), cg_reviews = (\<lambda>g url. Some []), cg_threads = (\<lambda>g url. Inr 0),
      cg_files = (\<lambda>g url page. Some []), cg_digest = (\<lambda>files. ''sha256:'' @ replicate 64 CHR ''0''),
      cg_listing = (\<lambda>g page. None)\<rparr>"

definition sample_cure_prose :: cure_prose where
  "sample_cure_prose =
     (\<lambda>g h foreign. \<lparr>pz_objective = ''o'', pz_instructions = ''i'', pz_criteria = [''c'']\<rparr>)"

definition sample_cure_sweep :: "(cure_result \<times> store) res" where
  "sample_cure_sweep =
     cure_pull_requests (\<lambda>url. sample_ctx 90 ''K'') decayed_pull sample_cure_prose None None ''operator:cli'' ready_queue"

lemma sample_cure_enqueues:
  "(case sample_cure_sweep of Inl _ \<Rightarrow> [] | Inr (w, _) \<Rightarrow> cu_enqueued w) =
     [(''K'', ''https://github.com/acme/tool/pull/7'', replicate 40 CHR ''a'', [Behind])]"
  by code_simp

theorem cure_sweep_cures_only_decayed_heads_witness:
  "\<exists>g h. inspect_pull_request_health decayed_pull g ''https://github.com/acme/tool/pull/7'' = Health h \<and>
     ph_state h = PullOpen \<and> ph_decay h = [Behind]"
proof -
  obtain w s' where run: "sample_cure_sweep = Inr (w, s')"
    and w: "cu_enqueued w = [(''K'', ''https://github.com/acme/tool/pull/7'', replicate 40 CHR ''a'', [Behind])]"
    using sample_cure_enqueues by (auto split: sum.splits prod.splits)
  have "\<forall>url :: string. proper_ctx (sample_ctx 90 ''K'')" by (simp add: proper_sample_ctx)
  from cure_sweep_cures_only_decayed_heads [OF run [unfolded sample_cure_sweep_def] this] w
  show ?thesis by auto
qed

text \<open>A cure completes only if it reports the pull request it was created for and GitHub's
  answer allows it: as long as the pull request is open, the identity of its patch must be the
  one recorded when the cure was created.\<close>

theorem cure_completion_keeps_the_patch:
  assumes "assert_cure_completion cg item artifacts = Inr ()" and "wi_kind item = ''pr-cure''"
  shows "\<exists>cure h. wi_cure item = Some cure \<and>
    (\<exists>a \<in> set artifacts. wa_kind a = PullRequest \<and> to_lower (wa_url a) = to_lower (pc_pull_request_url cure)) \<and>
    inspect_pull_request_health cg (wi_repository item) (pc_pull_request_url cure) = Health h \<and>
    (ph_state h = PullOpen \<longrightarrow> ph_patch_digest h = Some (pc_patch_digest cure))"
proof -
  obtain cure where cure: "wi_cure item = Some cure"
    using assms by (auto simp: assert_cure_completion_def cure_kind_def split: option.splits)
  have reported: "\<exists>a \<in> set artifacts. wa_kind a = PullRequest \<and> to_lower (wa_url a) = to_lower (pc_pull_request_url cure)"
    using assms cure by (auto simp: assert_cure_completion_def cure_kind_def list_ex_iff split: if_splits)
  obtain h where h: "inspect_pull_request_health cg (wi_repository item) (pc_pull_request_url cure) = Health h"
    using assms cure reported
    by (auto simp: assert_cure_completion_def cure_kind_def split: if_splits health_check.splits)
  have "ph_patch_digest h = Some (pc_patch_digest cure)" if "ph_state h = PullOpen"
    using assms cure h that
    by (auto simp: assert_cure_completion_def cure_kind_def non_empty_def
        split: if_splits option.splits)
  with cure reported h show ?thesis by blast
qed

definition cure_item :: work_item where
  "cure_item =
     (item_of (sample_row ''K'' ''pr-cure''))
       \<lparr>wi_cure := Some \<lparr>pc_pull_request_url = ''https://github.com/acme/tool/pull/7'',
          pc_head_sha = replicate 40 CHR ''a'', pc_patch_digest = ''sha256:'' @ replicate 64 CHR ''0'',
          pc_decay = [Behind], pc_origin_item_id = Some ''A''\<rparr>\<rparr>"

theorem cure_completion_keeps_the_patch_witness:
  "\<exists>cure h. wi_cure cure_item = Some cure \<and>
     inspect_pull_request_health decayed_pull (wi_repository cure_item) (pc_pull_request_url cure) = Health h \<and>
     (ph_state h = PullOpen \<longrightarrow> ph_patch_digest h = Some (pc_patch_digest cure))"
proof -
  have "assert_cure_completion decayed_pull cure_item [draft_pull] = Inr ()" "wi_kind cure_item = ''pr-cure''"
    by code_simp+
  from cure_completion_keeps_the_patch [OF this] show ?thesis by blast
qed

text \<open>
  Reported candidates are told apart by the URL as written. GitHub ignores the case of owner and
  name, so one pull request two items reported in different case is inspected and cured twice.
\<close>

lemma same_pull_request_two_candidates:
  "map fst (cure_candidates
     [item_of ((sample_row ''A'' ''fix'')\<lparr>r_result := Json \<lparr>wr_summary = ''s'', wr_evidence = [],
        wr_artifacts = [draft_pull], wr_model = None\<rparr>\<rparr>),
      item_of ((sample_row ''B'' ''fix'')\<lparr>r_result := Json \<lparr>wr_summary = ''s'', wr_evidence = [],
        wr_artifacts = [draft_pull\<lparr>wa_url := ''https://github.com/Acme/tool/pull/7''\<rparr>], wr_model = None\<rparr>\<rparr>)]) =
   [''https://github.com/acme/tool/pull/7'', ''https://github.com/Acme/tool/pull/7'']"
  by code_simp

end
