(* ===== verification/Pull_Request_Lifecycle.thy ===== *)
theory Pull_Request_Lifecycle
  imports Review_Sample
begin

text \<open>
  Work bound to a pull request that merged or closed (\<open>src/src/queue/pull-request-lifecycle.ts\<close>):
  the refusal to requeue it and the sweep that retires what is still queued or blocked. The map
  of states the source keeps per pull request saves reads of an answer that is a function here;
  it only decides how many pull requests were inspected.
\<close>

definition pull_request_bound_kinds :: "string list" where
  "pull_request_bound_kinds = [''pr-review'', ''pr-review-fix'', ''pr-cure'', ''pr-cure-change'']"

record pull_request_binding =
  pb_url :: string
  pb_head_sha :: string

definition binding_of :: "work_item \<Rightarrow> pull_request_binding option" where
  "binding_of item =
     (case wi_review item of
        Some review \<Rightarrow> Some \<lparr>pb_url = pr_pull_request_url review, pb_head_sha = pr_head_sha review\<rparr>
      | None \<Rightarrow>
          (case wi_cure item of
             Some cure \<Rightarrow> Some \<lparr>pb_url = pc_pull_request_url cure, pb_head_sha = pc_head_sha cure\<rparr>
           | None \<Rightarrow> None))"

datatype requeue_refusal = NothingDeliverable string pull_state

definition assert_requeueable :: "outside \<Rightarrow> work_item \<Rightarrow> requeue_refusal + unit" where
  "assert_requeueable gh item =
     (case binding_of item of
        None \<Rightarrow> Inr ()
      | Some b \<Rightarrow>
          (case gh_head gh 0 (wi_repository item) (pb_url b) of
             HeadRead h \<Rightarrow>
               if hd_state h \<noteq> PullOpen then Inl (NothingDeliverable (pb_url b) (hd_state h)) else Inr ()
           | _ \<Rightarrow> Inr ()))"

subsection \<open>The sweep\<close>

record lifecycle_result =
  lr_inspected :: nat
  lr_retired :: "(string \<times> string \<times> string \<times> pull_state) list"
  lr_unavailable :: "(string \<times> string) list"

definition bound_in_status :: "work_status \<Rightarrow> string option \<Rightarrow> int \<Rightarrow> list_options" where
  "bound_in_status status repository limit =
     \<lparr>lq_status = Some status, lq_repository = repository, lq_kind = None, lq_lease_owner = None,
      lq_label = None, lq_limit = Some limit\<rparr>"

definition bound_candidates :: "ctx \<Rightarrow> string option \<Rightarrow> int \<Rightarrow> store \<Rightarrow> work_item list res" where
  "bound_candidates cx repository limit s =
     and_then (list_items cx (bound_in_status Queued repository limit) s) (\<lambda>queued.
     and_then (list_items cx (bound_in_status Blocked repository limit) s) (\<lambda>blocked.
     Inr (filter (\<lambda>item. wi_kind item \<in> set pull_request_bound_kinds) (queued @ blocked))))"

text \<open>The reason text names the pull request and its state; \<open>lifecycle_reason\<close> is that sentence.\<close>

definition state_name :: "pull_state \<Rightarrow> string" where
  "state_name st = (case st of PullOpen \<Rightarrow> ''open'' | PullClosed \<Rightarrow> ''closed'' | PullMerged \<Rightarrow> ''merged'')"

definition lifecycle_reason :: "string \<Rightarrow> pull_state \<Rightarrow> string" where
  "lifecycle_reason url st =
     ''pull request '' @ url @ '' is '' @ state_name st @ ''; nothing can be delivered on it''"

definition retire_step ::
    "(string \<Rightarrow> ctx) \<Rightarrow> outside \<Rightarrow> string \<Rightarrow> work_item \<Rightarrow>
       (string \<times> string) list \<times> lifecycle_result \<times> store \<Rightarrow>
       ((string \<times> string) list \<times> lifecycle_result \<times> store) res"
where
  "retire_step cxs gh actor item acc =
     (case acc of (seen, w0, s) \<Rightarrow>
      case binding_of item of
        None \<Rightarrow> Inr acc
      | Some b \<Rightarrow>
          let key = (to_lower (wi_repository item), pb_url b);
              w = (if key \<in> set seen then w0 else w0\<lparr>lr_inspected := Suc (lr_inspected w0)\<rparr>);
              unread = (\<lambda>why. Inr (key # seen, w\<lparr>lr_unavailable := lr_unavailable w @ [(pb_url b, why)]\<rparr>, s)) in
          (case gh_head gh 0 (wi_repository item) (pb_url b) of
             HeadUnavailable why \<Rightarrow> unread why
           | HeadRejected why \<Rightarrow> unread why
           | HeadRead h \<Rightarrow>
               if hd_state h = PullOpen then Inr (key # seen, w, s)
               else
                 and_then
                   (retire_pull_request_bound_work (cxs (wi_id item)) (wi_id item) actor
                     (lifecycle_reason (pb_url b) (hd_state h)) s) (\<lambda>(retired, s').
                 Inr (key # seen,
                   w\<lparr>lr_retired := lr_retired w @ [(wi_id item, wi_kind item, pb_url b, hd_state h)]\<rparr>, s'))))"

definition retire_bound_work ::
    "(string \<Rightarrow> ctx) \<Rightarrow> outside \<Rightarrow> string option \<Rightarrow> int option \<Rightarrow> string \<Rightarrow> store \<Rightarrow>
       (lifecycle_result \<times> store) res"
where
  "retire_bound_work cxs gh repository limit actor s =
     and_then (bound_candidates (cxs []) repository (case limit of None \<Rightarrow> 100 | Some n \<Rightarrow> n) s) (\<lambda>items.
     and_then
       (fold_res (retire_step cxs gh actor) items
         ([], \<lparr>lr_inspected = 0, lr_retired = [], lr_unavailable = []\<rparr>, s)) (\<lambda>(seen, acc).
     Inr acc))"

subsection \<open>What the sweep retires\<close>

definition undeliverable :: "outside \<Rightarrow> work_item \<Rightarrow> bool" where
  "undeliverable gh item =
     (\<exists>b h. binding_of item = Some b \<and> gh_head gh 0 (wi_repository item) (pb_url b) = HeadRead h \<and>
        hd_state h \<noteq> PullOpen)"

definition cancelled_in :: "string \<Rightarrow> store \<Rightarrow> bool" where
  "cancelled_in i s = (\<exists>r. find_row i s = Some r \<and> r_status r = RCancelled)"

lemma retire_cancels:
  assumes "retire_pull_request_bound_work cx i actor reason s = Inr (item, s')"
  shows "cancelled_in i s'" and "j \<noteq> i \<Longrightarrow> find_row j s' = find_row j s"
proof -
  obtain r where "find_row i s = Some r"
    and s': "s' = add_event i (EvCancelled reason) actor (cx_clock cx 1)
      (update_row i (cancelled_row (cx_clock cx 0) reason) s)"
    using assms
    by (auto simp: retire_pull_request_bound_work_def res_iffs Let_def commit_row_Inr cancelled_row_def clear_lease_def)
  then have "find_row i s' = Some (cancelled_row (cx_clock cx 0) reason r)"
    by (simp add: item_table.lookup_modify cancelled_row_def clear_lease_def)
  then show "cancelled_in i s'" by (simp add: cancelled_in_def cancelled_row_def clear_lease_def)
  show "j \<noteq> i \<Longrightarrow> find_row j s' = find_row j s" by (rule retiring.others_unchanged [OF assms])
qed

lemma retire_step_effect:
  assumes "retire_step cxs gh actor item (seen, w, s) = Inr (seen', w', s')"
  shows "undeliverable gh item \<Longrightarrow> cancelled_in (wi_id item) s'"
    and "\<not> undeliverable gh item \<Longrightarrow> s' = s"
    and "j \<noteq> wi_id item \<Longrightarrow> find_row j s' = find_row j s"
proof -
  have cases: "if undeliverable gh item
      then \<exists>reason retired. retire_pull_request_bound_work (cxs (wi_id item)) (wi_id item) actor reason s = Inr (retired, s')
      else s' = s"
    using assms
    by (auto simp: retire_step_def undeliverable_def Let_def and_then_Inr_iff
        split: option.splits head_check.splits if_splits)
  then show "undeliverable gh item \<Longrightarrow> cancelled_in (wi_id item) s'" using retire_cancels(1) by auto
  show "\<not> undeliverable gh item \<Longrightarrow> s' = s" using cases by simp
  show "j \<noteq> wi_id item \<Longrightarrow> find_row j s' = find_row j s"
    using cases retire_cancels(2) by (auto split: if_splits)
qed

lemma retire_steps_effect:
  assumes "fold_res (retire_step cxs gh actor) items (seen, w, s) = Inr (seen', w', s')"
  shows "(\<forall>i. cancelled_in i s \<longrightarrow> cancelled_in i s') \<and>
    (\<forall>item \<in> set items. undeliverable gh item \<longrightarrow> cancelled_in (wi_id item) s') \<and>
    (\<forall>j. (\<forall>item \<in> set items. undeliverable gh item \<longrightarrow> wi_id item \<noteq> j) \<longrightarrow> find_row j s' = find_row j s)"
  using assms
proof (induction items arbitrary: seen w s)
  case Nil
  then show ?case by simp
next
  case (Cons item items)
  obtain seen1 w1 s1 where step': "retire_step cxs gh actor item (seen, w, s) = Inr (seen1, w1, s1)"
    and rest: "fold_res (retire_step cxs gh actor) items (seen1, w1, s1) = Inr (seen', w', s')"
    using Cons.prems by (auto simp: and_then_Inr_iff)
  note effect = retire_step_effect [OF step'] and ih = Cons.IH [OF rest]
  have keeps: "cancelled_in i s \<Longrightarrow> cancelled_in i s1" for i
    using effect by (cases "undeliverable gh item"; cases "i = wi_id item") (auto simp: cancelled_in_def)
  have same: "find_row j s1 = find_row j s" if "undeliverable gh item \<longrightarrow> wi_id item \<noteq> j" for j
    using effect(2,3) that by (cases "undeliverable gh item") auto
  show ?case using ih keeps effect(1) same by auto
qed

text \<open>After the lifecycle sweep every pull-request-bound item it looked at whose pull request
  GitHub showed merged or closed is cancelled, and every other row of the queue is as it was.\<close>

theorem lifecycle_sweep_retires_dead_work:
  assumes "retire_bound_work cxs gh repository limit actor s = Inr (w, s')"
    and "bound_candidates (cxs []) repository (case limit of None \<Rightarrow> 100 | Some n \<Rightarrow> n) s = Inr items"
  shows "(\<forall>item \<in> set items. undeliverable gh item \<longrightarrow>
      (\<exists>r. find_row (wi_id item) s' = Some r \<and> r_status r = RCancelled)) \<and>
    (\<forall>j. (\<forall>item \<in> set items. undeliverable gh item \<longrightarrow> wi_id item \<noteq> j) \<longrightarrow> find_row j s' = find_row j s)"
proof -
  obtain seen where "fold_res (retire_step cxs gh actor) items
      ([], \<lparr>lr_inspected = 0, lr_retired = [], lr_unavailable = []\<rparr>, s) = Inr (seen, w, s')"
    using assms by (auto simp: retire_bound_work_def and_then_Inr_iff)
  from retire_steps_effect [OF this] show ?thesis by (simp add: cancelled_in_def)
qed

definition merged_outside :: outside where
  "merged_outside = sample_outside\<lparr>gh_head := (\<lambda>n g url. HeadRead (reviewed_head\<lparr>hd_state := PullMerged\<rparr>))\<rparr>"

theorem lifecycle_sweep_retires_dead_work_witness:
  "cancelled_in ''R'' (after (retire_bound_work (\<lambda>i. sample_ctx 90 ''L'') merged_outside None None
     ''policy:pull-request-lifecycle'' gated5))"
proof -
  let ?run = "retire_bound_work (\<lambda>i. sample_ctx 90 ''L'') merged_outside None None
     ''policy:pull-request-lifecycle'' gated5" and ?cx = "(\<lambda>i :: string. sample_ctx 90 ''L'') []"
  have "succeeds ?run" by code_simp
  then obtain w where run: "?run = Inr (w, after ?run)" by (auto simp: succeeds_iff)
  let ?items = "map item_of (filter (\<lambda>r. r_id r = ''R'') (st_items gated5))"
  have items: "bound_candidates ?cx None (case None of None \<Rightarrow> 100 | Some n \<Rightarrow> n) gated5 = Inr ?items"
    by code_simp
  have "list_all (\<lambda>item. wi_id item = ''R'' \<and> binding_of item \<noteq> None) ?items" "?items \<noteq> []" by code_simp+
  then have hd: "hd ?items \<in> set ?items" "wi_id (hd ?items) = ''R''" "binding_of (hd ?items) \<noteq> None"
    unfolding list_all_iff by (metis hd_in_set)+
  then have "undeliverable merged_outside (hd ?items)"
    by (auto simp: undeliverable_def merged_outside_def)
  with lifecycle_sweep_retires_dead_work [OF run items] hd(1,2)
  show ?thesis unfolding cancelled_in_def by metis
qed

end
