(* ===== verification/Token_Guarantees.thy ===== *)
theory Token_Guarantees
  imports Mcp_Tokens Sample_Run
begin

text \<open>
  The life of an MCP token: the text a mint hands out parses back to the identifier and the
  secret it was made of, so it authenticates as the record the mint stored until the token is
  revoked, and nothing else authenticates under that identifier.
\<close>

lemma hex_lower_not_space: "is_hex_lower c \<Longrightarrow> \<not> is_space c"
  by (auto simp: is_hex_lower_def is_space_def is_digit_char_def)

lemma secret_char_not_space: "secret_char c \<Longrightarrow> \<not> is_space c"
  by (auto simp: secret_char_def is_space_def is_alnum_def is_digit_char_def is_lower_char_def
      is_upper_char_def code_unit_def)

lemma trim_format_token:
  assumes "list_all is_hex_lower id'" and "list_all secret_char secret"
  shows "trim (format_token id' secret) = format_token id' secret"
proof -
  have "list_all (\<lambda>c. \<not> is_space c) ''snowcat_''" "\<not> is_space (CHR ''_'')" by code_simp+
  then have "list_all (\<lambda>c. \<not> is_space c) (format_token id' secret)"
    using assms hex_lower_not_space secret_char_not_space
    unfolding format_token_def list_all_append by (auto simp: list_all_iff)
  then show ?thesis by (rule trim_no_space)
qed

text \<open>The printer and the parser of a token are inverse on the shapes a mint draws.\<close>

lemma parse_format_token:
  assumes "length id' = 16" and "list_all is_hex_lower id'"
    and "20 \<le> length secret" and "list_all secret_char secret"
  shows "parse_token (format_token id' secret) = Some (id', secret)"
proof -
  have "strip_prefix ''snowcat_'' (trim (format_token id' secret)) = Some (id' @ ''_'' @ secret)"
    using trim_format_token [OF assms(2,4)] by (simp add: format_token_def strip_prefix_def)
  then show ?thesis using assms by (simp add: parse_token_def Let_def)
qed

lemma find_minted:
  assumes "mint_mcp_token hash cx id' secret input s = Inr ((text', t), s')"
  obtains row where "find_token id' s' = Some row" and "t = decode_mcp_token row"
    and "tk_token_hash row = hash secret" and "tk_revoked_at row = None"
    and "tk_last_used_at row = None" and "text' = format_token id' secret"
proof -
  have fresh: "List.find (\<lambda>x. tk_id x = i) (xs @ [y]) = Some y"
    if "\<forall>x \<in> set xs. tk_id x \<noteq> i" "tk_id y = i" for i xs y
    using that by (induction xs) auto
  show thesis
    using assms
    by (auto simp: mint_mcp_token_def Let_def res_iffs list_ex_iff find_token_def
        intro!: that fresh)
qed

lemma verify_needs_matching_row:
  assumes "fst (verify_mcp_token hash cx presented s) = Some u"
  obtains i other row where "parse_token presented = Some (i, other)"
    and "find_token i s = Some row" and "tk_revoked_at row = None"
    and "token_secret_matches hash row other"
  using assms
  by (auto simp: verify_mcp_token_def Let_def split: option.splits prod.splits if_splits)

lemma revoked_token_row:
  assumes "revoke_mcp_token cx id' actor s = Inr (t, s')"
  shows "\<exists>row. find_token id' s' = Some row \<and> tk_revoked_at row \<noteq> None"
proof (cases "find_token id' s")
  case None
  with assms show ?thesis by (simp add: revoke_mcp_token_def res_iffs)
next
  case (Some row)
  then show ?thesis
    using assms
    by (cases "tk_revoked_at row")
      (auto simp: revoke_mcp_token_def res_iffs Let_def token_table.lookup_modify)
qed

text \<open>A minted token reads back: until it is revoked the text it was handed out as verifies
  to the stored record with its owner, kinds and tools, stamped with the time of use; a text
  with the same identifier whose secret hashes differently verifies to nothing; and once it is
  revoked no text with its identifier verifies at all.\<close>

theorem minted_token_verifies_until_revoked:
  assumes minted: "mint_mcp_token hash cx id' secret input s = Inr ((handed, t), s1)"
    and shape: "length id' = 16" "list_all is_hex_lower id'" "20 \<le> length secret"
      "list_all secret_char secret"
  shows "fst (verify_mcp_token hash cx1 handed s1) =
      Some (t\<lparr>mt_last_used_at := Some (cx_clock cx1 0)\<rparr>) \<and>
    (\<forall>presented other. parse_token presented = Some (id', other) \<longrightarrow>
      hex_bytes (hash other) \<noteq> hex_bytes (hash secret) \<longrightarrow>
      fst (verify_mcp_token hash cx1 presented s1) = None) \<and>
    (\<forall>cx2 actor revoked s2 presented other.
      revoke_mcp_token cx2 id' actor s1 = Inr (revoked, s2) \<longrightarrow>
      parse_token presented = Some (id', other) \<longrightarrow>
      fst (verify_mcp_token hash cx3 presented s2) = None)"
proof -
  obtain row where row: "find_token id' s1 = Some row" "t = decode_mcp_token row"
    "tk_token_hash row = hash secret" "tk_revoked_at row = None" "tk_last_used_at row = None"
    "handed = format_token id' secret"
    by (rule find_minted [OF minted])
  have "fst (verify_mcp_token hash cx1 handed s1) = Some (t\<lparr>mt_last_used_at := Some (cx_clock cx1 0)\<rparr>)"
    using row parse_format_token [OF shape]
    by (simp add: verify_mcp_token_def token_secret_matches_def Let_def)
  moreover have "fst (verify_mcp_token hash cx1 presented s1) = None"
    if "parse_token presented = Some (id', other)" "hex_bytes (hash other) \<noteq> hex_bytes (hash secret)"
    for presented other
  proof (rule ccontr)
    assume "fst (verify_mcp_token hash cx1 presented s1) \<noteq> None"
    then obtain u where "fst (verify_mcp_token hash cx1 presented s1) = Some u" by blast
    then show False
      by (rule verify_needs_matching_row) (use that row in \<open>auto simp: token_secret_matches_def\<close>)
  qed
  moreover have "fst (verify_mcp_token hash cx3 presented s2) = None"
    if r: "revoke_mcp_token cx2 id' actor s1 = Inr (revoked, s2)"
      and p: "parse_token presented = Some (id', other)"
    for cx2 actor revoked s2 presented other
  proof (rule ccontr)
    assume "fst (verify_mcp_token hash cx3 presented s2) \<noteq> None"
    then obtain u where "fst (verify_mcp_token hash cx3 presented s2) = Some u" by blast
    then show False
      by (rule verify_needs_matching_row) (use revoked_token_row [OF r] p in auto)
  qed
  ultimately show ?thesis by blast
qed

definition sample_mint :: mint_input where
  "sample_mint =
     \<lparr>mi_owner = ''member:ann'', mi_client = ''laptop'', mi_kinds = Some [''audit''], mi_tools = None\<rparr>"

definition sample_hash :: "string \<Rightarrow> string" where
  "sample_hash s = (case s of [] \<Rightarrow> ''00'' | c # _ \<Rightarrow> if c = CHR ''a'' then ''1f'' else ''2e'')"

theorem minted_token_verifies_until_revoked_witness:
  "\<exists>t s1. mint_mcp_token sample_hash (sample_ctx 0 ''M'') (replicate 16 CHR ''0'')
      (replicate 20 CHR ''a'') sample_mint empty_queue =
      Inr ((format_token (replicate 16 CHR ''0'') (replicate 20 CHR ''a''), t), s1) \<and>
    mt_owner t = ''member:ann'' \<and>
    fst (verify_mcp_token sample_hash (sample_ctx 5 ''V'')
      (format_token (replicate 16 CHR ''0'') (replicate 20 CHR ''a'')) s1) =
      Some (t\<lparr>mt_last_used_at := Some 5\<rparr>)"
proof -
  let ?m = "mint_mcp_token sample_hash (sample_ctx 0 ''M'') (replicate 16 CHR ''0'')
      (replicate 20 CHR ''a'') sample_mint empty_queue"
  have ok: "case ?m of Inl _ \<Rightarrow> False
      | Inr ((handed, t), _) \<Rightarrow>
          handed = format_token (replicate 16 CHR ''0'') (replicate 20 CHR ''a'') \<and>
          mt_owner t = ''member:ann''"
    by code_simp
  then obtain t s1 where m: "?m =
      Inr ((format_token (replicate 16 CHR ''0'') (replicate 20 CHR ''a''), t), s1)"
    and owner: "mt_owner t = ''member:ann''"
    by (auto split: sum.splits)
  have shape: "length (replicate 16 CHR ''0'') = 16" "list_all is_hex_lower (replicate 16 CHR ''0'')"
    "20 \<le> length (replicate 20 CHR ''a'')" "list_all secret_char (replicate 20 CHR ''a'')"
    by code_simp+
  from minted_token_verifies_until_revoked [OF m shape, of "sample_ctx 5 ''V''"] m owner
  show ?thesis by (simp add: sample_ctx_def)
qed

end
