(* ===== verification/Decision_Guarantees.thy ===== *)
theory Decision_Guarantees
  imports Operator_Decisions Sample_Run
begin

text \<open>
  What an operator's decision is refused for: acting on an item that has changed since it was
  read, and acting as a principal that does not decide.
\<close>

subsection \<open>Stale decisions\<close>

definition stale :: "precondition \<Rightarrow> row \<Rightarrow> bool" where
  "stale pre r = (case pre of None \<Rightarrow> False | Some (st, at) \<Rightarrow> logical_status r \<noteq> st \<or> r_updated_at r \<noteq> at)"

abbreviation mismatch :: "row \<Rightarrow> 'a res" where
  "mismatch r \<equiv> Inl (StateError (PreconditionMismatch (r_id r) (logical_status r) (r_updated_at r)))"

lemma stale_precondition:
  "stale pre r \<Longrightarrow> assert_precondition (item_of r) pre = mismatch r"
  by (auto simp: stale_def assert_precondition_def require_def split: option.splits)

lemma read_then_stale:
  assumes "st_user_version s \<le> schema_version" and "find_row i s = Some r" and "stale pre r"
  shows "transaction (\<lambda>s. and_then (get_required i s) (\<lambda>item.
      and_then (assert_precondition item pre) (body item s))) s = mismatch r"
  using assms stale_precondition [OF assms(3)]
  by (simp add: transaction_def assert_supported_schema_version_def get_required_row)

text \<open>A decision made on an older reading of an item is refused whatever it decides: with a
  valid actor and reason, when the status or the update time the operator saw is no longer the
  stored one, approving, deferring, noting, prioritising, rejecting, requeueing, releasing and
  cancelling all fail with the status and time the item has now.\<close>

theorem stale_decisions_are_refused:
  assumes "st_user_version s \<le> schema_version" and "find_row i s = Some r" and "stale pre r"
    and "validate_operator_actor actor = Inr who" and "validate_operator_note_reason reason = Inr ()"
  shows "approve cx i actor pre s = mismatch r \<and> defer_item cx i actor reason pre s = mismatch r \<and>
    note_item cx i actor reason pre s = mismatch r \<and>
    (is_safe_integer n \<longrightarrow> prioritize cx i actor n reason pre s = mismatch r) \<and>
    reject cx i actor reason pre s = mismatch r \<and> requeue cx i actor reason pre s = mismatch r \<and>
    release_lease cx i actor reason pre s = mismatch r \<and> cancel cx i actor reason pre s = mismatch r"
proof -
  have "\<not> blank reason" using assms(5) by (simp add: validate_operator_note_reason_Inr)
  then show ?thesis
    unfolding approve_def defer_item_def note_item_def prioritize_def reject_def requeue_def
      release_lease_def cancel_def
    by (simp add: assms(4,5) read_then_stale [OF assms(1-3)])
qed

theorem stale_decisions_are_refused_witness:
  "approve (sample_ctx 90 ''D'') ''A'' ''operator:ann'' (Some (Proposed, 10)) sample3 =
     Inl (StateError (PreconditionMismatch ''A'' Claimed 20)) \<and>
   requeue (sample_ctx 90 ''D'') ''A'' ''operator:ann'' ''again'' (Some (Proposed, 10)) sample3 =
     Inl (StateError (PreconditionMismatch ''A'' Claimed 20))"
proof -
  let ?r = "the (find_row ''A'' sample3)"
  have r: "find_row ''A'' sample3 = Some ?r" by code_simp
  have now: "r_id ?r = ''A''" "logical_status ?r = Claimed" "r_updated_at ?r = 20" by code_simp+
  then have stale: "stale (Some (Proposed, 10)) ?r" by (simp add: stale_def)
  have "st_user_version sample3 \<le> schema_version"
    "validate_operator_actor ''operator:ann'' = Inr ''operator:ann''"
    "validate_operator_note_reason ''again'' = Inr ()"
    by code_simp+
  from stale_decisions_are_refused [OF this(1) r stale this(2,3), of "sample_ctx 90 ''D''"] now
  show ?thesis by simp
qed

subsection \<open>Workers do not decide\<close>

text \<open>The two kinds of principal are disjoint except for members: whoever a claim accepted as
  its worker, unless a member, is refused as the actor of every operator decision, for want of
  an operator or policy namespace and before the database is read.\<close>

theorem workers_decide_nothing:
  assumes "claim cx input s = Inr claimed"
    and "\<not> prefix ''member:'' (to_lower (trim (ci_worker input)))"
  shows "\<forall>op \<in> {\<lambda>w. approve cx' i w pre s', \<lambda>w. defer_item cx' i w reason pre s',
      \<lambda>w. note_item cx' i w reason pre s', \<lambda>w. prioritize cx' i w n reason pre s',
      \<lambda>w. reject cx' i w reason pre s', \<lambda>w. requeue cx' i w reason pre s',
      \<lambda>w. release_lease cx' i w reason pre s', \<lambda>w. cancel cx' i w reason pre s',
      \<lambda>w. attach_artifact cx' i w artifact pre s',
      \<lambda>w. record_pull_request_ready cx' i url w sha review_id s',
      \<lambda>w. replace_proposed_predecessors cx' i ps w s',
      \<lambda>w. retire_pull_request_bound_work cx' i w reason s'}.
    op (ci_worker input) = Inl (PrincipalError (ActorNamespace (trim (ci_worker input))))"
proof -
  have "\<exists>w. validate_worker_principal (ci_worker input) = Inr w"
    using assms(1) by (auto simp: claim_def check_claim_def and_then_Inr_iff)
  then have "validate_operator_actor (ci_worker input) =
      Inl (PrincipalError (ActorNamespace (trim (ci_worker input))))"
    using assms(2)
    by (auto simp: validate_worker_principal_Inr validate_operator_actor_def Let_def)
  then show ?thesis
    by (simp add: approve_def defer_item_def note_item_def prioritize_def reject_def requeue_def
        release_lease_def cancel_def attach_artifact_def record_pull_request_ready_def
        replace_proposed_predecessors_def retire_pull_request_bound_work_def)
qed

theorem workers_decide_nothing_witness:
  "approve (sample_ctx 90 ''D'') ''A'' ''w'' None sample3 =
     Inl (PrincipalError (ActorNamespace ''w''))"
proof -
  have w: "ci_worker sample_claim = ''w''" "trim ''w'' = ''w''" by code_simp+
  have m: "\<not> prefix ''member:'' (to_lower (trim (ci_worker sample_claim)))" by code_simp
  obtain claimed where c: "claim (sample_ctx 20 ''T'') sample_claim sample2 = Inr claimed"
    using sample3_ok by (auto simp: succeeds_iff)
  from workers_decide_nothing [OF c m, of "sample_ctx 90 ''D''" "''A''" None sample3] w
  show ?thesis by simp
qed

end
