(* ===== verification/Divergences.thy ===== *)
theory Divergences
  imports Sample_Run
begin

text \<open>
  Concrete runs on which the modelled code does not do what its comments or its callers take it
  to do. Each lemma evaluates the operations themselves.
\<close>

text \<open>
  A claim records the trimmed worker name; the lease check compares the name as presented. A
  worker that always presents \<open>" w "\<close> is refused under the lease it was given.
\<close>

lemma padded_worker_loses_its_own_lease:
  "case claim (sample_ctx 20 ''T'') (sample_claim\<lparr>ci_worker := '' w ''\<rparr>) sample2 of
     Inl _ \<Rightarrow> False
   | Inr (item, s) \<Rightarrow>
       item \<noteq> None \<and>
       (case heartbeat (sample_ctx 30 ''H'') ''A'' ''T'' '' w '' None s of
          Inl e \<Rightarrow> e = StateError LeaseMismatch | Inr _ \<Rightarrow> False) \<and>
       succeeds (heartbeat (sample_ctx 30 ''H'') ''A'' ''T'' ''w'' None s)"
  by code_simp

text \<open>
  A rename keeps the settings of the repository but not what was observed of it: the two columns
  of the last unreported pull requests and labelled issues are empty under the new name.
\<close>

lemma rename_forgets_observations:
  assumes "rp_slug r = g" and "g \<noteq> g'" and "find_repository g' s = None"
  shows "\<exists>r'. find_repository g' (move_repository g g' now r s) = Some r' \<and>
    rp_unreported r' = SqlNull \<and> rp_labeled_issues r' = SqlNull \<and>
    rp_cure_foreign r' = rp_cure_foreign r \<and> rp_review_gate r' = rp_review_gate r"
proof -
  have found: "List.find (\<lambda>x. rp_slug x = g') (filter (\<lambda>x. rp_slug x \<noteq> g) xs @ [y]) = Some y"
    if "\<forall>x \<in> set xs. rp_slug x \<noteq> g'" "rp_slug y = g'" for xs y
    using that by (induction xs) auto
  let ?y = "(new_repo_row g' (rp_enabled r) now)
      \<lparr>rp_cure_foreign := rp_cure_foreign r, rp_review_gate := rp_review_gate r,
       rp_created_at := rp_created_at r\<rparr>"
  have "find_repository g' (move_repository g g' now r s) = Some ?y"
    using assms(2,3) found [of "st_repositories s" ?y]
    by (simp add: move_repository_def find_repository_def new_repo_row_def find_None_iff)
  then show ?thesis by (simp add: new_repo_row_def)
qed

text \<open>
  An operator's release never counts against an item in the claim backoff, says the comment; a
  member releasing a lease, or an operator name with a leading space, does count.
\<close>

lemma member_release_counts_as_declined:
  "case release_lease (sample_ctx 40 ''R'') ''A'' ''member:ann'' ''stop'' None sample3 of
     Inl _ \<Rightarrow> False | Inr (_, s) \<Rightarrow> backoff_release_count 0 ''A'' s = 1"
  "case release_lease (sample_ctx 40 ''R'') ''A'' '' operator:ann'' ''stop'' None sample3 of
     Inl _ \<Rightarrow> False | Inr (_, s) \<Rightarrow> backoff_release_count 0 ''A'' s = 1"
  "case release_lease (sample_ctx 40 ''R'') ''A'' ''operator:ann'' ''stop'' None sample3 of
     Inl _ \<Rightarrow> False | Inr (_, s) \<Rightarrow> backoff_release_count 0 ''A'' s = 0"
  by code_simp+

text \<open>
  The registry of standing authorizations is an object literal, so the kind \<open>constructor\<close> finds
  the inherited member of that name, which is truthy and has no actions: the lookup does not
  report that no authorization covers the kind.
\<close>

lemma constructor_is_not_an_unknown_kind:
  assumes "bi_kind input = ''constructor''" and "bi_created_by input = ''policy:p''"
  shows "admission_authorization at input required \<noteq>
    Inl (PolicyError (NoStandingAuthorization ''constructor''))"
proof -
  have "to_lower ''policy:p'' = ''policy:p''" by code_simp
  moreover have "standing_authorization_for ''constructor'' = InheritedMember" by code_simp
  ultimately show ?thesis using assms by (simp add: admission_authorization_def Let_def)
qed

end
