(* ===== verification/Json_Values.thy ===== *)
theory Json_Values
  imports Web_Url
begin

text \<open>
  What \<open>JSON.parse\<close> gives and how the code looks at it before it trusts it: a value of unknown
  shape, its fields, and the answer of one GitHub request (\<open>githubApiJson\<close> of
  \<open>src/src/repository/github-api.ts\<close>: no answer, or a status with a body). The names of an object
  are distinct, as \<open>JSON.parse\<close> keeps the last of two.
\<close>

datatype json =
    JNull
  | JBool bool
  | JNumber jsnum
  | JString string
  | JArray "json list"
  | JObject "(string \<times> json) list"

text \<open>\<open>None\<close> is \<open>undefined\<close>: the field is absent, or the value is not an object.\<close>

fun field :: "string \<Rightarrow> json \<Rightarrow> json option" where
  "field name (JObject members) = map_of members name"
| "field name _ = None"

fun json_field :: "string \<Rightarrow> json option \<Rightarrow> json option" where
  "json_field name (Some v) = field name v"
| "json_field name None = None"

fun as_text :: "json option \<Rightarrow> string option" where
  "as_text (Some (JString s)) = Some s"
| "as_text _ = None"

fun is_object :: "json \<Rightarrow> bool" where
  "is_object (JObject _) = True"
| "is_object _ = False"

fun as_array :: "json \<Rightarrow> json list option" where
  "as_array (JArray xs) = Some xs"
| "as_array _ = None"

fun as_number :: "json option \<Rightarrow> jsnum option" where
  "as_number (Some (JNumber n)) = Some n"
| "as_number _ = None"

lemma as_text_Some: "as_text v = Some s \<longleftrightarrow> v = Some (JString s)"
  by (cases v rule: as_text.cases) auto

lemma as_number_Some: "as_number v = Some n \<longleftrightarrow> v = Some (JNumber n)"
  by (cases v rule: as_number.cases) auto

text \<open>\<open>Number.isSafeInteger(v)\<close> and the integer it then is.\<close>

definition safe_integer :: "json option \<Rightarrow> int option" where
  "safe_integer v =
     (case as_number v of
        None \<Rightarrow> None
      | Some n \<Rightarrow> if is_safe_integer n then Some (js_int n) else None)"

datatype github_answer =
    AnswerUnavailable
  | Answer (answer_status: int) (answer_value: json)

subsection \<open>Parts of a path\<close>

definition uri_unreserved :: "char \<Rightarrow> bool" where
  "uri_unreserved c = (is_alnum c \<or> c \<in> set ''-_.!~*()'' \<or> code_unit c = 39)"

definition encode_uri_char :: "char \<Rightarrow> string" where
  "encode_uri_char c =
     (let n = code_unit c in
      if uri_unreserved c then [c]
      else if n \<ge> 128 then percent_byte (192 + n div 64) @ percent_byte (128 + n mod 64)
      else percent_byte n)"

definition encode_uri_component :: "string \<Rightarrow> string" where
  "encode_uri_component s = concat (map encode_uri_char s)"

end
