(* ===== verification/Pull_Request_Handoff.thy ===== *)
theory Pull_Request_Handoff
  imports Json_Values Ordered_Map
begin

text \<open>
  The structural check of an open pull request handed over by a completion
  (\<open>validatePullRequestHandoff\<close> of \<open>src/src/queue/artifact-verification.ts\<close>): the body must have
  the sections of the repository's template, content under its summary and verification, and
  exactly one risk tier. The regular expressions of the source are written out as scans of
  character lists; \<open>JavaScript\<close>'s dot does not match a line feed or a carriage return.
\<close>

subsection \<open>Lines\<close>

definition line_stop :: "char \<Rightarrow> bool" where
  "line_stop c = (c = CHR 0x0A \<or> c = CHR 0x0D)"

definition drop_cr :: "string \<Rightarrow> string" where
  "drop_cr s = (if s \<noteq> [] \<and> last s = CHR 0x0D then butlast s else s)"

text \<open>\<open>split(/\r?\n/)\<close>: every piece but the last loses one carriage return.\<close>

definition split_lines :: "string \<Rightarrow> string list" where
  "split_lines s =
     (let pieces = split_char CHR 0x0A s in map drop_cr (butlast pieces) @ [last pieces])"

definition join_lines :: "string list \<Rightarrow> string" where
  "join_lines ls = (case ls of [] \<Rightarrow> [] | l # rest \<Rightarrow> l @ concat (map (\<lambda>x. CHR 0x0A # x) rest))"

text \<open>Up to three spaces at the start of a line, and a run of one fence character.\<close>

definition drop_indent :: "string \<Rightarrow> string" where
  "drop_indent line =
     (let n = length (takeWhile (\<lambda>c. c = CHR '' '') line) in if n \<le> 3 then drop n line else line)"

definition run_length :: "char \<Rightarrow> string \<Rightarrow> nat" where
  "run_length c s = length (takeWhile (\<lambda>x. x = c) s)"

definition opening_fence :: "string \<Rightarrow> (char \<times> nat) option" where
  "opening_fence line =
     (let s = drop_indent line in
      if 3 \<le> run_length CHR 0x60 s then Some (CHR 0x60, run_length CHR 0x60 s)
      else if 3 \<le> run_length CHR ''~'' s then Some (CHR ''~'', run_length CHR ''~'' s)
      else None)"

definition closes_fence :: "char \<times> nat \<Rightarrow> string \<Rightarrow> bool" where
  "closes_fence f line =
     (let s = drop_indent line; n = run_length (fst f) s in
      snd f \<le> n \<and> list_all is_space (drop n s))"

fun strip_fences :: "(char \<times> nat) option \<Rightarrow> string list \<Rightarrow> string list" where
  "strip_fences fence [] = []"
| "strip_fences (Some f) (line # ls) =
     [] # strip_fences (if closes_fence f line then None else Some f) ls"
| "strip_fences None (line # ls) =
     (case opening_fence line of
        None \<Rightarrow> line # strip_fences None ls
      | Some f \<Rightarrow> [] # strip_fences (Some f) ls)"

definition strip_fenced_code :: "string \<Rightarrow> string" where
  "strip_fenced_code markdown = join_lines (strip_fences None (split_lines markdown))"

text \<open>What follows the first occurrence of a text.\<close>

fun after_first :: "string \<Rightarrow> string \<Rightarrow> string option" where
  "after_first p s =
     (if prefix p s then Some (drop (length p) s)
      else (case s of [] \<Rightarrow> None | c # cs \<Rightarrow> after_first p cs))"

lemma after_first_length: "after_first p s = Some t \<Longrightarrow> length t \<le> length s"
proof (induction p s rule: after_first.induct)
  case (1 p s)
  show ?case
  proof (cases "prefix p s")
    case True
    with "1.prems" show ?thesis by auto
  next
    case False
    with 1 show ?thesis by (cases s) (auto simp: le_SucI)
  qed
qed

text \<open>\<open>replace(/<!--[\s\S]*?-->/g, "")\<close>: a comment that is not closed stays.\<close>

function strip_comments :: "string \<Rightarrow> string" where
  "strip_comments s =
     (case s of
        [] \<Rightarrow> []
      | c # cs \<Rightarrow>
          if prefix ''<!--'' s
          then (case after_first ''-->'' (drop 4 s) of
                  None \<Rightarrow> c # strip_comments cs
                | Some rest \<Rightarrow> strip_comments rest)
          else c # strip_comments cs)"
  by auto
termination
proof (relation "measure length", goal_cases)
  case (3 s c cs rest)
  then have "length rest \<le> length (drop 4 s)" by (blast intro: after_first_length)
  also have "\<dots> < length s" using 3 by simp
  finally show ?case by simp
qed auto

declare strip_comments.simps [simp del]

subsection \<open>Sections\<close>

text \<open>
  The least match of \<open>(.+?)\<close> before a tail: one character at least, none a line terminator. Where
  white space before it took everything, backtracking gives it the last usable character.
\<close>

definition least_match :: "(string \<Rightarrow> bool) \<Rightarrow> string \<Rightarrow> string option" where
  "least_match tail' s =
     map_option (\<lambda>n. take n s)
       (List.find (\<lambda>n. tail' (drop n s) \<and> list_all (\<lambda>c. \<not> line_stop c) (take n s))
         [1..<Suc (length s)])"

definition spaced_match :: "(string \<Rightarrow> bool) \<Rightarrow> string \<Rightarrow> string option" where
  "spaced_match tail' s =
     (let w = takeWhile is_space s; r = dropWhile is_space s in
      if w = [] then None
      else if r \<noteq> [] then least_match tail' r
      else map_option (\<lambda>c. [c]) (List.find (\<lambda>c. \<not> line_stop c) (rev (tl w))))"

definition heading_tail :: "string \<Rightarrow> bool" where
  "heading_tail s = (dropWhile is_space (dropWhile (\<lambda>c. c = CHR ''#'') (dropWhile is_space s)) = [])"

definition heading_of :: "string \<Rightarrow> string option" where
  "heading_of line =
     (case strip_prefix ''##'' line of None \<Rightarrow> None | Some rest \<Rightarrow> spaced_match heading_tail rest)"

text \<open>\<open>replace(/\s+/g, " ")\<close>.\<close>

fun squeeze_spaces :: "string \<Rightarrow> string" where
  "squeeze_spaces [] = []"
| "squeeze_spaces [c] = [if is_space c then CHR '' '' else c]"
| "squeeze_spaces (c # d # cs) =
     (if is_space c
      then (if is_space d then squeeze_spaces (d # cs) else CHR '' '' # squeeze_spaces (d # cs))
      else c # squeeze_spaces (d # cs))"

definition normalize_heading :: "string \<Rightarrow> string" where
  "normalize_heading h =
     squeeze_spaces (to_lower (trim (filter (\<lambda>c. c \<notin> {CHR 0x60, CHR ''*'', CHR ''_''}) h)))"

text \<open>The loop over the lines: the sections so far, and the heading the next line belongs to.\<close>

definition section_line ::
    "(string \<times> string) list \<times> string option \<Rightarrow> string \<Rightarrow> (string \<times> string) list \<times> string option"
where
  "section_line acc line =
     (case acc of (sections, current) \<Rightarrow>
      case heading_of line of
        Some h \<Rightarrow>
          let name = normalize_heading h in
          (upsert name (\<lambda>v. case v of None \<Rightarrow> [] | Some text' \<Rightarrow> text') sections, Some name)
      | None \<Rightarrow>
          (case current of
             None \<Rightarrow> acc
           | Some name \<Rightarrow>
               (upsert name (\<lambda>v. (case v of None \<Rightarrow> [] | Some text' \<Rightarrow> text') @ line @ [CHR 0x0A]) sections,
                current)))"

definition markdown_sections :: "string \<Rightarrow> (string \<times> string) list" where
  "markdown_sections markdown =
     fst (foldl section_line ([], None) (split_lines (strip_comments (strip_fenced_code markdown))))"

definition fallback_template :: string where
  "fallback_template =
     ''## Summary'' @ [CHR 0x0A, CHR 0x0A] @ ''## Verification'' @ [CHR 0x0A, CHR 0x0A] @
     ''## Risk tier'' @ [CHR 0x0A]"

definition fallback_sections :: "(string \<times> string) list" where
  "fallback_sections = markdown_sections fallback_template"

text \<open>\<open>String.includes\<close>.\<close>

definition occurs_in :: "string \<Rightarrow> string \<Rightarrow> bool" where
  "occurs_in p s = (after_first p s \<noteq> None)"

definition find_section ::
    "(string \<times> string) list \<Rightarrow> string list \<Rightarrow> (string \<Rightarrow> bool) option \<Rightarrow> string option"
where
  "find_section sections candidates prefer =
     (let names = map fst sections;
          headings = rev (remdups (rev
            (filter (\<lambda>c. c \<in> set names) candidates @
             concat (map (\<lambda>c. filter (occurs_in c) names) candidates)))) in
      case List.find
        (\<lambda>h. case prefer of
           None \<Rightarrow> False
         | Some p \<Rightarrow> p (case map_of sections h of None \<Rightarrow> [] | Some text' \<Rightarrow> text')) headings of
        Some h \<Rightarrow> Some h
      | None \<Rightarrow> (case headings of [] \<Rightarrow> None | h # _ \<Rightarrow> Some h))"

subsection \<open>Check boxes and content\<close>

text \<open>A bullet, spaces and a box with one of the given characters; what follows the box.\<close>

definition box_rest :: "(char \<Rightarrow> bool) \<Rightarrow> string \<Rightarrow> string option" where
  "box_rest inside s =
     (case s of
        b # cs \<Rightarrow>
          if (b = CHR ''-'' \<or> b = CHR ''*'') \<and> takeWhile is_space cs \<noteq> []
          then (case dropWhile is_space cs of
                  l # x # r # rest \<Rightarrow>
                    if l = CHR ''['' \<and> inside x \<and> r = CHR '']'' then Some rest else None
                | _ \<Rightarrow> None)
          else None
      | [] \<Rightarrow> None)"

definition checked_mark :: "char \<Rightarrow> bool" where
  "checked_mark c = (c = CHR ''x'' \<or> c = CHR ''X'')"

definition any_mark :: "char \<Rightarrow> bool" where
  "any_mark c = (c = CHR '' '' \<or> checked_mark c)"

text \<open>The lines of \<open>hasVisibleSectionContent\<close>: after an unchecked box, indented lines do not count.\<close>

fun visible_lines :: "bool \<Rightarrow> string list \<Rightarrow> bool" where
  "visible_lines unchecked [] = False"
| "visible_lines unchecked (line # ls) =
     (let trimmed = trim line in
      if box_rest is_space trimmed \<noteq> None then visible_lines True ls
      else if box_rest checked_mark trimmed \<noteq> None then True
      else if unchecked \<and> 2 \<le> length (takeWhile is_space line) \<and> dropWhile is_space line \<noteq> []
      then visible_lines True ls
      else if trimmed \<noteq> [] \<and> trimmed \<noteq> ''-'' \<and> trimmed \<noteq> ''*'' then True
      else visible_lines False ls)"

definition has_visible_section_content :: "string \<Rightarrow> bool" where
  "has_visible_section_content content = visible_lines False (split_lines content)"

definition section_has_checkbox :: "string \<Rightarrow> bool" where
  "section_has_checkbox content =
     list_ex (\<lambda>line. box_rest any_mark (dropWhile is_space line) \<noteq> None) (split_lines content)"

definition box_label :: "(char \<Rightarrow> bool) \<Rightarrow> string \<Rightarrow> string option" where
  "box_label inside line =
     (case box_rest inside (dropWhile is_space line) of
        None \<Rightarrow> None
      | Some rest \<Rightarrow> map_option normalize_heading (spaced_match (list_all is_space) rest))"

definition checked_template_checkbox_count :: "string \<Rightarrow> string \<Rightarrow> nat" where
  "checked_template_checkbox_count template actual =
     (let options = List.map_filter (box_label any_mark) (split_lines template) in
      length
        (filter
          (\<lambda>line. case box_label checked_mark line of None \<Rightarrow> False | Some l \<Rightarrow> l \<in> set options)
          (split_lines actual)))"

end
