(* ===== verification/Artifact_Verification.thy ===== *)
theory Artifact_Verification
  imports Pull_Request_Handoff Release_Versions Queries Operator_Decisions
begin

text \<open>
  Checking reported artifacts against GitHub (\<open>src/src/queue/artifact-verification.ts\<close>): what one
  issue, pull request or release URL names, what an answer of GitHub makes of it, the check of a
  completion's artifacts, the refresh of the artifacts that are still open, and the attachment by
  an operator. Answers are a parameter: \<open>vf_get\<close> answers a path at an occasion (the work item the
  check is made for), \<open>vf_template\<close> is the one read of a repository's template per operation.
  \<open>vf_now\<close> and \<open>vf_later\<close> are the two clock readings, as text.
\<close>

record verifier =
  vf_get :: "string \<Rightarrow> string \<Rightarrow> github_answer"
  vf_template :: "string \<Rightarrow> github_answer"
  vf_token :: bool
  vf_now :: "string \<Rightarrow> string \<Rightarrow> string"
  vf_later :: "string \<Rightarrow> string \<Rightarrow> string"

datatype artifact_check =
    CheckVerified verified_observation
  | CheckUnverified string string
  | CheckHandoffRejected verified_observation string
  | CheckRejected string

text \<open>The options of one check: the evidence of a completion, and whether a former name is accepted.\<close>

record check_options =
  ck_evidence :: "string list option"
  ck_former :: bool

subsection \<open>What a URL names\<close>

datatype artifact_locator =
    NumberLocator artifact_kind string string int
  | ReleaseLocator string string string

definition slug_part :: "string \<Rightarrow> bool" where
  "slug_part s = (s \<noteq> [] \<and> list_all slug_char s)"

text \<open>Only the special schemes have a host in \<open>parse_url\<close>; a report with another is refused before.\<close>

definition parse_artifact_url :: "work_artifact \<Rightarrow> artifact_locator option" where
  "parse_artifact_url artifact =
     (case parse_url (wa_url artifact) of
        None \<Rightarrow> None
      | Some url \<Rightarrow>
          let segments = split_char CHR ''/'' (u_pathname url);
              seg = nth_or_empty segments in
          if to_lower (u_hostname url) \<noteq> ''github.com'' \<or> \<not> slug_part (seg 1) \<or> \<not> slug_part (seg 2)
          then None
          else if wa_kind artifact = Release
          then
            (if length segments \<noteq> 6 \<or> seg 3 \<noteq> ''releases'' \<or> seg 4 \<noteq> ''tag'' then None
             else
               (case decode_uri_component (seg 5) of
                  None \<Rightarrow> None
                | Some tag \<Rightarrow>
                    if release_tag_pattern tag then Some (ReleaseLocator (seg 1) (seg 2) tag) else None))
          else
            (let expected_path = (if wa_kind artifact = Issue then ''issues'' else ''pull'') in
             if length segments \<noteq> 5 \<or> seg 3 \<noteq> expected_path \<or> \<not> positive_numeral (seg 4) then None
             else
               Some (NumberLocator (if wa_kind artifact = Issue then Issue else PullRequest)
                 (seg 1) (seg 2) (number_of (seg 4)))))"

definition artifact_kind_from_url :: "string \<Rightarrow> artifact_kind option" where
  "artifact_kind_from_url text' =
     (case parse_url text' of
        None \<Rightarrow> None
      | Some url \<Rightarrow>
          let segments = split_char CHR ''/'' (u_pathname url); seg = nth_or_empty segments in
          if length segments = 6 \<and> seg 3 = ''releases'' \<and> seg 4 = ''tag''
          then
            (case decode_uri_component (seg 5) of
               None \<Rightarrow> None
             | Some tag \<Rightarrow> if release_tag_pattern tag then Some Release else None)
          else if length segments \<noteq> 5 \<or> \<not> positive_numeral (seg 4) then None
          else if seg 3 = ''pull'' then Some PullRequest
          else if seg 3 = ''issues'' then Some Issue
          else None)"

definition repos_path :: "string \<Rightarrow> string \<Rightarrow> string" where
  "repos_path owner name =
     ''/repos/'' @ encode_uri_component owner @ ''/'' @ encode_uri_component name"

definition kind_name :: "artifact_kind \<Rightarrow> string" where
  "kind_name k =
     (case k of Issue \<Rightarrow> ''issue'' | PullRequest \<Rightarrow> ''pull-request'' | Release \<Rightarrow> ''release''
      | Commit \<Rightarrow> ''commit'' | Report \<Rightarrow> ''report'' | OtherKind \<Rightarrow> ''other'')"

definition gone :: "int \<Rightarrow> bool" where
  "gone status = (status = 404 \<or> status = 410)"

definition without_token :: "int \<Rightarrow> string" where
  "without_token status =
     ''GitHub returned '' @ decimal_text status @
     '' without SNOWCAT_GITHUB_TOKEN; private repositories cannot be verified unauthenticated''"

definition http_status :: "int \<Rightarrow> string" where
  "http_status status = ''GitHub API returned HTTP '' @ decimal_text status"

subsection \<open>The template of a repository\<close>

text \<open>\<open>Some (body, exists)\<close>, or the reason the template could not be read.\<close>

definition base64_char :: "char \<Rightarrow> bool" where
  "base64_char c = (is_alnum c \<or> c = CHR ''+'' \<or> c = CHR ''/'')"

definition base64_value :: "char \<Rightarrow> int" where
  "base64_value c =
     (if is_upper_char c then code_unit c - 65
      else if is_lower_char c then code_unit c - 71
      else if is_digit_char c then code_unit c + 4
      else if c = CHR ''+'' then 62 else 63)"

text \<open>
  The bytes of base64 text, \<open>None\<close> where the pattern of the source does not match it or encoding
  the bytes again would not give it back (a last digit with bits that are dropped).
\<close>

fun base64_bytes :: "string \<Rightarrow> int list option" where
  "base64_bytes [] = Some []"
| "base64_bytes (a # b # c # d # rest) =
     (if base64_char a \<and> base64_char b \<and> base64_char c \<and> base64_char d
      then
        (let n = ((base64_value a * 64 + base64_value b) * 64 + base64_value c) * 64 + base64_value d in
         map_option (\<lambda>bs. n div 65536 # n div 256 mod 256 # n mod 256 # bs) (base64_bytes rest))
      else if rest \<noteq> [] \<or> \<not> base64_char a \<or> \<not> base64_char b \<or> d \<noteq> CHR ''='' then None
      else if c = CHR ''=''
      then
        (if base64_value b mod 16 = 0
         then Some [base64_value a * 4 + base64_value b div 16] else None)
      else if base64_char c \<and> base64_value c mod 4 = 0
      then
        Some [base64_value a * 4 + base64_value b div 16,
              base64_value b mod 16 * 16 + base64_value c div 4]
      else None)"
| "base64_bytes _ = None"

text \<open>
  Fatal UTF-8 decoding, after a byte-order mark. A character above 255 is outside the alphabet of
  the model; it is represented by the last character of it, which like most of them is neither
  white space nor syntax.
\<close>

definition tail_byte :: "int \<Rightarrow> bool" where
  "tail_byte b = (128 \<le> b \<and> b \<le> 191)"

fun utf8_chars :: "int list \<Rightarrow> string option" where
  "utf8_chars [] = Some []"
| "utf8_chars (a # bs) =
     (if a < 128 then map_option ((#) (char_of a)) (utf8_chars bs)
      else if 194 \<le> a \<and> a \<le> 223
      then (case bs of
              b # cs \<Rightarrow>
                if tail_byte b
                then map_option ((#) (if a \<le> 195 then char_of ((a - 192) * 64 + (b - 128)) else CHR 0xFF))
                       (utf8_chars cs)
                else None
            | [] \<Rightarrow> None)
      else if 224 \<le> a \<and> a \<le> 239
      then (case bs of
              b # c # cs \<Rightarrow>
                if tail_byte b \<and> tail_byte c \<and> (a = 224 \<longrightarrow> 160 \<le> b) \<and> (a = 237 \<longrightarrow> b \<le> 159)
                then map_option ((#) CHR 0xFF) (utf8_chars cs) else None
            | _ \<Rightarrow> None)
      else if 240 \<le> a \<and> a \<le> 244
      then (case bs of
              b # c # d # cs \<Rightarrow>
                if tail_byte b \<and> tail_byte c \<and> tail_byte d \<and> (a = 240 \<longrightarrow> 144 \<le> b) \<and> (a = 244 \<longrightarrow> b \<le> 143)
                then map_option (\<lambda>s. CHR 0xFF # CHR 0xFF # s) (utf8_chars cs) else None
            | _ \<Rightarrow> None)
      else None)"

definition decode_utf8 :: "int list \<Rightarrow> string option" where
  "decode_utf8 bs = utf8_chars (if prefix [239, 187, 191] bs then drop 3 bs else bs)"

definition max_template_bytes :: nat where "max_template_bytes = 128 * 1024"

definition read_template :: "verifier \<Rightarrow> string \<Rightarrow> bool \<Rightarrow> string + string \<times> bool" where
  "read_template vf repository public =
     (case vf_template vf repository of
        AnswerUnavailable \<Rightarrow> Inl ''GitHub pull-request template API unavailable''
      | Answer status v \<Rightarrow>
          if gone status
          then
            (if \<not> vf_token vf
             then Inl (''GitHub returned '' @ decimal_text status @
               '' for the pull-request template without SNOWCAT_GITHUB_TOKEN'')
             else if \<not> public
             then Inl (''GitHub returned '' @ decimal_text status @
               '' for the pull-request template without proving the repository is public'')
             else Inr (fallback_template, False))
          else if status \<noteq> 200
          then Inl (''GitHub pull-request template API returned HTTP '' @ decimal_text status)
          else if \<not> is_object v then Inl ''GitHub pull-request template response was not an object''
          else
            (case as_text (field ''content'' v) of
               None \<Rightarrow> Inl ''GitHub pull-request template response has no base64 content''
             | Some content \<Rightarrow>
                 if field ''encoding'' v \<noteq> Some (JString ''base64'')
                 then Inl ''GitHub pull-request template response has no base64 content''
                 else
                   (case base64_bytes (filter (\<lambda>c. \<not> is_space c) content) of
                      None \<Rightarrow> Inl ''GitHub pull-request template content is not base64''
                    | Some bytes \<Rightarrow>
                        if max_template_bytes < length bytes
                        then Inl (''GitHub pull-request template exceeds '' @
                          decimal_text (int max_template_bytes) @ '' bytes'')
                        else
                          (case decode_utf8 bytes of
                             None \<Rightarrow> Inl ''GitHub pull-request template is not UTF-8''
                           | Some body \<Rightarrow> Inr (body, True)))))"

subsection \<open>The hand-off of an open pull request\<close>

datatype handoff_check = HandoffValid | HandoffUnread string | HandoffRefused string

definition missing_sections :: "(string \<times> string) list \<Rightarrow> (string \<times> string) list \<Rightarrow> string list" where
  "missing_sections required actual = filter (\<lambda>h. h \<notin> set (map fst actual)) (map fst required)"

definition section_text :: "(string \<times> string) list \<Rightarrow> string \<Rightarrow> string" where
  "section_text sections h = (case map_of sections h of None \<Rightarrow> [] | Some text' \<Rightarrow> text')"

text \<open>What is wrong with the sections of a body that has them all.\<close>

definition section_problem ::
    "(string \<times> string) list \<Rightarrow> (string \<times> string) list \<Rightarrow> string option"
where
  "section_problem required actual =
     (let empty = (\<lambda>s. case s of None \<Rightarrow> False
            | Some h \<Rightarrow> \<not> has_visible_section_content (section_text actual h));
          summary = find_section required [''summary''] None;
          verification' = find_section required [''checks'', ''verification''] None;
          risk = find_section required [''risk classification'', ''risk tier'', ''risk'']
            (Some section_has_checkbox) in
      if empty summary then Some ''summary section has no completion content''
      else if empty verification' then Some ''verification section has no completion content''
      else
        (case risk of
           None \<Rightarrow> None
         | Some h \<Rightarrow>
             if section_has_checkbox (section_text required h)
             then
               (let checked = checked_template_checkbox_count (section_text required h) (section_text actual h) in
                if checked \<noteq> 1
                then Some (''risk section must select exactly one tier (found '' @ decimal_text (int checked) @ '')'')
                else None)
             else if empty risk then Some ''risk section has no completion content''
             else None))"

definition required_sections :: "string \<times> bool \<Rightarrow> (string \<times> string) list" where
  "required_sections template =
     (if snd template then markdown_sections (fst template) else fallback_sections)"

definition validate_handoff_body ::
    "verifier \<Rightarrow> string \<Rightarrow> string \<Rightarrow> json \<Rightarrow> string list \<Rightarrow> bool \<Rightarrow> handoff_check"
where
  "validate_handoff_body vf repository url' response evidence public =
     (let pull = ''pull request '' @ url' in
      if evidence = [] then HandoffRefused (pull @ '' completion reports no evidence'')
      else
        (case as_text (field ''body'' response) of
           None \<Rightarrow> HandoffRefused (pull @ '' has an empty body'')
         | Some body \<Rightarrow>
             if blank body then HandoffRefused (pull @ '' has an empty body'')
             else
               (case read_template vf repository public of
                  Inl why \<Rightarrow> HandoffUnread why
                | Inr template \<Rightarrow>
                    let required = required_sections template; actual = markdown_sections body;
                        missing = missing_sections required actual in
                    if missing \<noteq> []
                    then HandoffRefused (pull @ '' body is missing '' @ decimal_text (int (length missing)) @
                      '' required template section'' @ (if length missing = 1 then [] else ''s''))
                    else
                      (case section_problem required actual of
                         Some why \<Rightarrow> HandoffRefused (pull @ CHR '' '' # why)
                       | None \<Rightarrow> HandoffValid))))"

subsection \<open>One artifact\<close>

definition head_sha_text :: "string \<Rightarrow> bool" where
  "head_sha_text s = (7 \<le> length s \<and> length s \<le> 64 \<and> list_all is_hex_char s)"

definition pull_request_verification ::
    "json \<Rightarrow> int \<Rightarrow> observed_state \<Rightarrow> string \<Rightarrow> handoff option \<Rightarrow> verified_observation"
where
  "pull_request_verification response n state at handoff' =
     (let merged = (field ''merged'' response = Some (JBool True)) in
      \<lparr>vo_verified_at = at, vo_number = JInt n, vo_state = (if merged then Merged else state),
       vo_head_sha =
         (case as_text (json_field ''sha'' (field ''head'' response)) of
            None \<Rightarrow> None | Some sha \<Rightarrow> if head_sha_text sha then Some sha else None),
       vo_merged_at = as_text (field ''merged_at'' response),
       vo_closed_at = as_text (field ''closed_at'' response),
       vo_draft =
         (if field ''draft'' response = Some (JBool True) \<and> \<not> merged \<and> state = Open then Some True else None),
       vo_tag = None, vo_published_at = None, vo_handoff = handoff'\<rparr>)"

definition read_pull_request ::
    "verifier \<Rightarrow> string \<Rightarrow> string \<Rightarrow> json \<Rightarrow> int \<Rightarrow> observed_state \<Rightarrow> string \<Rightarrow> check_options \<Rightarrow> artifact_check"
where
  "read_pull_request vf repository url' response n state at options =
     (let base = json_field ''repo'' (field ''base'' response) in
      case as_text (json_field ''full_name'' base) of
        None \<Rightarrow> CheckUnverified at ''GitHub response has no base repository''
      | Some full_name \<Rightarrow>
          if to_lower full_name \<noteq> to_lower repository
          then CheckRejected (''pull request '' @ url' @ '' targets '' @ full_name @ '', not '' @ repository)
          else
            (let verified = pull_request_verification response n state at;
                 public = (json_field ''private'' base = Some (JBool False)) in
             case ck_evidence options of
               None \<Rightarrow> CheckVerified (verified None)
             | Some evidence \<Rightarrow>
                 if field ''merged'' response = Some (JBool True) \<or> state \<noteq> Open
                 then CheckVerified (verified None)
                 else
                   (case validate_handoff_body vf repository url' response evidence public of
                      HandoffRefused why \<Rightarrow>
                        CheckHandoffRejected (verified (Some (HandoffRejected at why))) why
                    | HandoffUnread why \<Rightarrow> CheckVerified (verified (Some (HandoffUnverified at why)))
                    | HandoffValid \<Rightarrow> CheckVerified (verified None))))"

definition suffix_of :: "string \<Rightarrow> string \<Rightarrow> bool" where
  "suffix_of t s = (length t \<le> length s \<and> drop (length s - length t) s = t)"

definition read_issue ::
    "string \<Rightarrow> string \<Rightarrow> json \<Rightarrow> int \<Rightarrow> observed_state \<Rightarrow> string \<Rightarrow> artifact_check"
where
  "read_issue repository url' response n state at =
     (if field ''pull_request'' response \<noteq> None
      then CheckRejected (url' @ '' is a pull request; report it as a pull-request artifact'')
      else
        (case as_text (field ''repository_url'' response) of
           None \<Rightarrow> CheckUnverified at ''GitHub response has no repository''
         | Some url2 \<Rightarrow>
             if \<not> suffix_of (''/repos/'' @ to_lower repository) (to_lower url2)
             then CheckRejected (''issue '' @ url' @ '' belongs to another repository'')
             else
               CheckVerified
                 \<lparr>vo_verified_at = at, vo_number = JInt n, vo_state = state, vo_head_sha = None,
                  vo_merged_at = None, vo_closed_at = as_text (field ''closed_at'' response),
                  vo_draft = None, vo_tag = None, vo_published_at = None, vo_handoff = None\<rparr>))"

definition issue_state :: "json \<Rightarrow> observed_state option" where
  "issue_state response =
     (if field ''state'' response = Some (JString ''open'') then Some Open
      else if field ''state'' response = Some (JString ''closed'') then Some Closed else None)"

text \<open>The answer to the read of an issue or a pull request, after its status was 200.\<close>

definition read_numbered ::
    "verifier \<Rightarrow> string \<Rightarrow> work_artifact \<Rightarrow> bool \<Rightarrow> int \<Rightarrow> json \<Rightarrow> string \<Rightarrow> check_options \<Rightarrow> artifact_check"
where
  "read_numbered vf repository artifact former n response at options =
     (let kind = wa_kind artifact; url' = wa_url artifact;
          expected_url =
            (if former
             then ''https://github.com/'' @ repository @ ''/'' @
               (if kind = Issue then ''issues'' else ''pull'') @ ''/'' @ decimal_text n
             else url') in
      if \<not> is_object response then CheckUnverified at ''GitHub response was not an object''
      else if safe_integer (field ''number'' response) \<noteq> Some n
      then CheckRejected (kind_name kind @ '' number does not match '' @ url')
      else if (case as_text (field ''html_url'' response) of
          None \<Rightarrow> True | Some html \<Rightarrow> to_lower html \<noteq> to_lower expected_url)
      then CheckRejected (kind_name kind @ '' '' @ url' @ '' resolves to a different location'')
      else
        (case issue_state response of
           None \<Rightarrow> CheckUnverified at ''GitHub response has no recognizable state''
         | Some state \<Rightarrow>
             if kind = PullRequest then read_pull_request vf repository url' response n state at options
             else read_issue repository url' response n state at))"

subsection \<open>Releases\<close>

definition api_origin :: string where "api_origin = ''https://api.github.com''"

definition read_release :: "string \<Rightarrow> string \<Rightarrow> string \<Rightarrow> json \<Rightarrow> string \<Rightarrow> artifact_check" where
  "read_release repository url' tag response at =
     (if \<not> is_object response then CheckUnverified at ''GitHub response was not an object''
      else
        (case as_text (field ''url'' response) of
           None \<Rightarrow> CheckUnverified at ''GitHub response has no repository''
         | Some api \<Rightarrow>
             if \<not> prefix (api_origin @ ''/repos/'' @ to_lower repository @ ''/releases/'') (to_lower api)
             then CheckRejected (''release '' @ url' @ '' belongs to another repository'')
             else if field ''tag_name'' response \<noteq> Some (JString tag)
             then CheckRejected (''release tag does not match '' @ url')
             else
               (case safe_integer (field ''id'' response) of
                  None \<Rightarrow> CheckUnverified at ''GitHub response has no release id''
                | Some n \<Rightarrow>
                    if n < 1 then CheckUnverified at ''GitHub response has no release id''
                    else if field ''draft'' response \<noteq> Some (JBool True) \<and>
                      field ''draft'' response \<noteq> Some (JBool False)
                    then CheckUnverified at ''GitHub response has no recognizable state''
                    else
                      CheckVerified
                        \<lparr>vo_verified_at = at, vo_number = JInt n,
                         vo_state = (if field ''draft'' response = Some (JBool True) then DraftRelease else Published),
                         vo_head_sha = None, vo_merged_at = None, vo_closed_at = None, vo_draft = None,
                         vo_tag = Some tag, vo_published_at = as_text (field ''published_at'' response),
                         vo_handoff = None\<rparr>)))"

definition draft_entry :: "string \<Rightarrow> json \<Rightarrow> bool" where
  "draft_entry tag entry =
     (is_object entry \<and> field ''tag_name'' entry = Some (JString tag) \<and>
      field ''draft'' entry = Some (JBool True))"

definition find_draft_release ::
    "verifier \<Rightarrow> string \<Rightarrow> string \<Rightarrow> string \<Rightarrow> string \<Rightarrow> string \<Rightarrow> string \<Rightarrow> artifact_check"
where
  "find_draft_release vf occasion repository url' base tag at =
     (case vf_get vf occasion (base @ ''?per_page=100'') of
        AnswerUnavailable \<Rightarrow> CheckUnverified at ''GitHub API unavailable''
      | Answer status v \<Rightarrow>
          if gone status then CheckRejected (''release '' @ url' @ '' does not exist on GitHub'')
          else if status \<noteq> 200 then CheckUnverified at (http_status status)
          else
            (case as_array v of
               None \<Rightarrow> CheckUnverified at ''GitHub release listing was not an array''
             | Some entries \<Rightarrow>
                 (case List.find (draft_entry tag) entries of
                    None \<Rightarrow> CheckRejected (''release '' @ url' @ '' does not exist on GitHub'')
                  | Some entry \<Rightarrow> read_release repository url' tag entry at)))"

definition verify_release ::
    "verifier \<Rightarrow> string \<Rightarrow> string \<Rightarrow> string \<Rightarrow> string \<Rightarrow> string \<Rightarrow> string \<Rightarrow> string \<Rightarrow> artifact_check"
where
  "verify_release vf occasion repository url' owner name tag at =
     (let base = repos_path owner name @ ''/releases'' in
      case vf_get vf occasion (base @ ''/tags/'' @ encode_uri_component tag) of
        AnswerUnavailable \<Rightarrow> CheckUnverified at ''GitHub API unavailable''
      | Answer status v \<Rightarrow>
          if gone status
          then
            (if \<not> vf_token vf then CheckUnverified at (without_token status)
             else find_draft_release vf occasion repository url' base tag at)
          else if status \<noteq> 200 then CheckUnverified at (http_status status)
          else read_release repository url' tag v at)"

subsection \<open>The check\<close>

definition other_slug :: "string \<Rightarrow> string \<Rightarrow> string \<Rightarrow> bool" where
  "other_slug repository owner name =
     (let parts = split_char CHR ''/'' repository in
      to_lower owner \<noteq> to_lower (nth_or_empty parts 0) \<or> to_lower name \<noteq> to_lower (nth_or_empty parts 1))"

definition verify_github_artifact ::
    "verifier \<Rightarrow> string \<Rightarrow> string \<Rightarrow> work_artifact \<Rightarrow> check_options \<Rightarrow> artifact_check"
where
  "verify_github_artifact vf occasion repository artifact options =
     (let url' = wa_url artifact; kind = wa_kind artifact; at = vf_now vf occasion url';
          foreign = CheckRejected (''artifact '' @ kind_name kind @ '' URL is not a '' @ repository @ '' '' @
            kind_name kind @ '' URL'') in
      case parse_artifact_url artifact of
        None \<Rightarrow> foreign
      | Some (ReleaseLocator owner name tag) \<Rightarrow>
          if other_slug repository owner name \<and> \<not> ck_former options then foreign
          else verify_release vf occasion repository url' owner name tag at
      | Some (NumberLocator _ owner name n) \<Rightarrow>
          let former = other_slug repository owner name in
          if former \<and> \<not> ck_former options then foreign
          else
            (case vf_get vf occasion
                (repos_path owner name @ (if kind = PullRequest then ''/pulls/'' else ''/issues/'') @ decimal_text n) of
               AnswerUnavailable \<Rightarrow> CheckUnverified at ''GitHub API unavailable''
             | Answer status v \<Rightarrow>
                 if gone status
                 then
                   (if \<not> vf_token vf then CheckUnverified at (without_token status)
                    else CheckRejected (kind_name kind @ '' '' @ url' @ '' does not exist on GitHub''))
                 else if status \<noteq> 200 then CheckUnverified at (http_status status)
                 else read_numbered vf repository artifact former n v at options))"

subsection \<open>The artifacts of a completion\<close>

datatype artifact_refusal = CompletionWithoutEvidence | ReportRejected string

definition verified_completion_artifact ::
    "verifier \<Rightarrow> string \<Rightarrow> string \<Rightarrow> check_options \<Rightarrow> work_artifact \<Rightarrow> artifact_refusal + work_artifact"
where
  "verified_completion_artifact vf occasion repository options artifact =
     (if \<not> verifiable_kind (wa_kind artifact) then Inr artifact
      else
        (case verify_github_artifact vf occasion repository artifact options of
           CheckRejected why \<Rightarrow> Inl (ReportRejected why)
         | CheckHandoffRejected v why \<Rightarrow> Inl (ReportRejected why)
         | CheckVerified v \<Rightarrow> Inr (artifact\<lparr>wa_verification := Some (Verified v)\<rparr>)
         | CheckUnverified at why \<Rightarrow> Inr (artifact\<lparr>wa_verification := Some (Unverified at why)\<rparr>)))"

definition verify_completion_artifacts ::
    "verifier \<Rightarrow> string \<Rightarrow> string \<Rightarrow> work_artifact list \<Rightarrow> check_options \<Rightarrow>
       artifact_refusal + work_artifact list"
where
  "verify_completion_artifacts vf occasion repository artifacts options =
     (if list_ex (\<lambda>a. wa_kind a = PullRequest) artifacts \<and>
         \<not> (case ck_evidence options of None \<Rightarrow> False | Some es \<Rightarrow> list_ex (\<lambda>e. \<not> blank e) es)
      then Inl CompletionWithoutEvidence
      else map_res (verified_completion_artifact vf occasion repository options) artifacts)"

subsection \<open>The refresh\<close>

record refresh_result =
  rf_checked :: nat
  rf_updated :: "(string \<times> string \<times> observed_state) list"
  rf_unavailable :: "(string \<times> string \<times> string) list"
  rf_rejected :: "(string \<times> string \<times> string) list"

definition empty_refresh :: refresh_result where
  "empty_refresh = \<lparr>rf_checked = 0, rf_updated = [], rf_unavailable = [], rf_rejected = []\<rparr>"

definition pending_artifacts :: "work_item \<Rightarrow> work_artifact list" where
  "pending_artifacts item = filter (pending_artifact PendingArtifacts) (artifacts_of (wi_result item))"

text \<open>An open pull request is held to the hand-off when it was reported with evidence or has one.\<close>

definition should_check_handoff :: "work_item \<Rightarrow> work_artifact \<Rightarrow> bool" where
  "should_check_handoff item artifact =
     (wa_kind artifact = PullRequest \<and>
      (case wa_verification artifact of
         Some (Unverified _ _) \<Rightarrow> (case wi_result item of None \<Rightarrow> False | Some w \<Rightarrow> wr_evidence w \<noteq> [])
       | Some (Verified v) \<Rightarrow> vo_handoff v \<noteq> None
       | None \<Rightarrow> False))"

definition refresh_options :: "work_item \<Rightarrow> work_artifact \<Rightarrow> check_options" where
  "refresh_options item artifact =
     \<lparr>ck_evidence = (if should_check_handoff item artifact then map_option wr_evidence (wi_result item) else None),
      ck_former = True\<rparr>"

fun handoff_parts :: "handoff option \<Rightarrow> (bool \<times> string) option" where
  "handoff_parts None = None"
| "handoff_parts (Some (HandoffUnverified _ why)) = Some (False, why)"
| "handoff_parts (Some (HandoffRejected _ why)) = Some (True, why)"

definition same_observation :: "verification option \<Rightarrow> verified_observation \<Rightarrow> bool" where
  "same_observation previous v =
     (case previous of
        Some (Verified p) \<Rightarrow>
          vo_state p = vo_state v \<and> vo_head_sha p = vo_head_sha v \<and> vo_draft p = vo_draft v \<and>
          handoff_parts (vo_handoff p) = handoff_parts (vo_handoff v)
      | _ \<Rightarrow> False)"

text \<open>A check that did not look at the hand-off keeps the one recorded before.\<close>

definition keep_handoff :: "work_item \<Rightarrow> work_artifact \<Rightarrow> verified_observation \<Rightarrow> verified_observation" where
  "keep_handoff item artifact v =
     (case wa_verification artifact of
        Some (Verified p) \<Rightarrow>
          if vo_handoff p \<noteq> None \<and> vo_handoff v = None \<and> \<not> should_check_handoff item artifact
          then v\<lparr>vo_handoff := vo_handoff p\<rparr> else v
      | _ \<Rightarrow> v)"

definition refresh_artifact ::
    "(string \<Rightarrow> string \<Rightarrow> ctx) \<Rightarrow> verifier \<Rightarrow> string \<Rightarrow> work_item \<Rightarrow> work_artifact \<Rightarrow>
       refresh_result \<times> store \<Rightarrow> (refresh_result \<times> store) res"
where
  "refresh_artifact cxs vf actor item artifact acc =
     (let i = wi_id item; url' = wa_url artifact; s = snd acc;
          w = (fst acc)\<lparr>rf_checked := Suc (rf_checked (fst acc))\<rparr>;
          store_it = (\<lambda>v. record_artifact_verification (cxs i url') i url' v actor s);
          rejected = (\<lambda>why. w\<lparr>rf_rejected := rf_rejected w @ [(i, url', why)]\<rparr>) in
      case verify_github_artifact vf i (wi_repository item) artifact (refresh_options item artifact) of
        CheckUnverified at why \<Rightarrow>
          Inr (w\<lparr>rf_unavailable := rf_unavailable w @ [(i, url', why)]\<rparr>, s)
      | CheckRejected why \<Rightarrow>
          and_then (store_it (Unverified (vf_later vf i url') (''rejected: '' @ why))) (\<lambda>(item', s').
          Inr (rejected why, s'))
      | CheckHandoffRejected v why \<Rightarrow>
          if same_observation (wa_verification artifact) v then Inr (rejected why, s)
          else and_then (store_it (Verified v)) (\<lambda>(item', s'). Inr (rejected why, s'))
      | CheckVerified v0 \<Rightarrow>
          let v = keep_handoff item artifact v0 in
          if same_observation (wa_verification artifact) v then Inr (w, s)
          else
            and_then (store_it (Verified v)) (\<lambda>(item', s').
            Inr (w\<lparr>rf_updated := rf_updated w @ [(i, url', vo_state v)]\<rparr>, s')))"

definition refresh_item ::
    "(string \<Rightarrow> string \<Rightarrow> ctx) \<Rightarrow> verifier \<Rightarrow> string \<Rightarrow> work_item \<Rightarrow>
       refresh_result \<times> store \<Rightarrow> (refresh_result \<times> store) res"
where
  "refresh_item cxs vf actor item = fold_res (refresh_artifact cxs vf actor item) (pending_artifacts item)"

definition default_refresh_limit :: int where "default_refresh_limit = 100"

definition refresh_artifact_verifications ::
    "(string \<Rightarrow> string \<Rightarrow> ctx) \<Rightarrow> verifier \<Rightarrow> string option \<Rightarrow> int option \<Rightarrow> string \<Rightarrow> store \<Rightarrow>
       (refresh_result \<times> store) res"
where
  "refresh_artifact_verifications cxs vf repository limit actor s =
     and_then
       (completed_items_with_pending_artifacts (cxs [] []) PendingArtifacts repository
         (Some (case limit of None \<Rightarrow> default_refresh_limit | Some n \<Rightarrow> n)) s) (\<lambda>items.
     fold_res (refresh_item cxs vf actor) items (empty_refresh, s))"

subsection \<open>The attachment by an operator\<close>

datatype attach_refusal =
    AttachNotFound string
  | AttachUrlShape string
  | AttachRejected string
  | AttachRefused error

definition attach_verified_artifact ::
    "ctx \<Rightarrow> verifier \<Rightarrow> string \<Rightarrow> string \<Rightarrow> string \<Rightarrow> artifact_kind option \<Rightarrow> string option \<Rightarrow>
       check_options \<Rightarrow> precondition \<Rightarrow> store \<Rightarrow> attach_refusal + work_item \<times> store"
where
  "attach_verified_artifact cx vf id' actor url' kind description options pre s =
     (case get_item id' s of
        None \<Rightarrow> Inl (AttachNotFound id')
      | Some item \<Rightarrow>
          (case (case kind of Some k \<Rightarrow> Some k | None \<Rightarrow> artifact_kind_from_url url') of
             None \<Rightarrow> Inl (AttachUrlShape url')
           | Some k \<Rightarrow>
               let artifact = \<lparr>wa_kind = k, wa_url = url', wa_description = description, wa_verification = None\<rparr>;
                   attach = (\<lambda>v. case attach_artifact cx id' actor (artifact\<lparr>wa_verification := Some v\<rparr>) pre s of
                     Inl e \<Rightarrow> Inl (AttachRefused e) | Inr out \<Rightarrow> Inr out) in
               (case verify_github_artifact vf id' (wi_repository item) artifact options of
                  CheckRejected why \<Rightarrow> Inl (AttachRejected why)
                | CheckVerified v \<Rightarrow> attach (Verified v)
                | CheckHandoffRejected v _ \<Rightarrow> attach (Verified v)
                | CheckUnverified at why \<Rightarrow> attach (Unverified at why))))"

end
