(* ===== verification/Verification_Guarantees.thy ===== *)
theory Verification_Guarantees
  imports Artifact_Verification Review_Sample
begin

text \<open>
  What checking artifacts against GitHub promises: the refresh writes nothing but what GitHub
  answered into the verifications of completed items, and a completion is accepted with an open
  pull request only when its body hands the work over.
\<close>

subsection \<open>What one record writes\<close>

text \<open>A verification that some check of the URL for the item gives rise to.\<close>

definition checked_verification :: "verifier \<Rightarrow> string \<Rightarrow> string \<Rightarrow> string \<Rightarrow> verification \<Rightarrow> bool" where
  "checked_verification vf i repository url' v =
     (\<exists>b options. wa_url b = url' \<and>
        (case verify_github_artifact vf i repository b options of
           CheckRejected why \<Rightarrow> v = Unverified (vf_later vf i url') (''rejected: '' @ why)
         | CheckVerified u \<Rightarrow> (\<exists>h. v = Verified (u\<lparr>vo_handoff := h\<rparr>))
         | CheckHandoffRejected u why \<Rightarrow> v = Verified u
         | CheckUnverified at why \<Rightarrow> False))"

definition rechecked :: "verifier \<Rightarrow> string \<Rightarrow> string \<Rightarrow> work_artifact \<Rightarrow> work_artifact \<Rightarrow> bool" where
  "rechecked vf i repository a a' =
     (a' = a \<or> (\<exists>v. a' = a\<lparr>wa_verification := Some v\<rparr> \<and> checked_verification vf i repository (wa_url a) v))"

definition kept_report :: "verifier \<Rightarrow> row \<Rightarrow> row \<Rightarrow> bool" where
  "kept_report vf r r' =
     (r' = r \<or>
      r_status r = RCompleted \<and>
      (\<exists>w artifacts n. r_result r = Json w \<and> r' = set_artifacts n w artifacts r \<and>
         list_all2 (rechecked vf (r_id r) (r_repository r)) (wr_artifacts w) artifacts))"

lemma rechecked_refl [simp]: "rechecked vf i g a a"
  by (simp add: rechecked_def)

lemma rechecked_trans: "rechecked vf i g a b \<Longrightarrow> rechecked vf i g b c \<Longrightarrow> rechecked vf i g a c"
  by (auto simp: rechecked_def)

lemma rechecked_list_refl: "list_all2 (rechecked vf i g) as as"
  by (rule list_all2_refl) simp

lemma kept_report_same [simp]: "kept_report vf r r"
  by (simp add: kept_report_def)

lemma kept_report_facts:
  assumes "kept_report vf r r'"
  shows "r_id r' = r_id r" and "r_repository r' = r_repository r" and "r_status r' = r_status r"
  using assms by (auto simp: kept_report_def set_artifacts_def)

lemma kept_report_trans:
  assumes "kept_report vf r r'" and "kept_report vf r' r''"
  shows "kept_report vf r r''"
proof (cases "r' = r \<or> r'' = r'")
  case True
  with assms show ?thesis by auto
next
  case False
  let ?R = "rechecked vf (r_id r) (r_repository r)"
  obtain w as n where 1: "r_status r = RCompleted" "r_result r = Json w" "r' = set_artifacts n w as r"
    "list_all2 ?R (wr_artifacts w) as"
    using assms(1) False by (auto simp: kept_report_def)
  obtain w' as' n' where 2: "r_result r' = Json w'" "r'' = set_artifacts n' w' as' r'"
    "list_all2 (rechecked vf (r_id r') (r_repository r')) (wr_artifacts w') as'"
    using assms(2) False by (auto simp: kept_report_def)
  have w': "w' = w\<lparr>wr_artifacts := as\<rparr>" using 1(3) 2(1) by (simp add: set_artifacts_def)
  have "r'' = set_artifacts n' w as' r" using 1(3) 2(2) w' by (simp add: set_artifacts_def)
  moreover have "list_all2 ?R (wr_artifacts w) as'"
    using list_all2_trans [OF rechecked_trans 1(4)] 2(3) w' kept_report_facts [OF assms(1)] by simp
  ultimately show ?thesis using 1(1,2) unfolding kept_report_def by blast
qed

lemma recorded_verification_keeps_report:
  assumes "record_artifact_verification cx i url' v actor s = Inr (item, s')"
    and "\<And>r. find_row i s = Some r \<Longrightarrow> checked_verification vf i (r_repository r) url' v"
  shows "rel_option (kept_report vf) (find_row j s) (find_row j s')"
proof -
  obtain r w k where r: "find_row i s = Some r" "json_option (r_result r) = Some w" "r_status r = RCompleted"
    and k: "find_index (\<lambda>a. wa_url a = url') (wr_artifacts w) = Some k"
    and s': "find_row j s' = find_row j (update_row i (set_artifacts (cx_clock cx 0) w
      ((wr_artifacts w)[k := (wr_artifacts w ! k)\<lparr>wa_verification := Some v\<rparr>])) s)"
    using assms(1)
    by (auto simp: record_artifact_verification_def res_iffs Let_def commit_row_Inr set_artifacts_def)
  let ?as = "(wr_artifacts w)[k := (wr_artifacts w ! k)\<lparr>wa_verification := Some v\<rparr>]"
  have id: "r_id r = i" using r(1) by (auto dest: item_table.lookup_SomeD)
  have at: "k < length (wr_artifacts w)" "wa_url (wr_artifacts w ! k) = url'"
    using find_index_Some [OF k] by auto
  have "rechecked vf i (r_repository r) (wr_artifacts w ! n) (?as ! n)" if "n < length (wr_artifacts w)" for n
    using that at assms(2) [OF r(1)] by (cases "n = k") (auto simp: rechecked_def)
  then have "list_all2 (rechecked vf (r_id r) (r_repository r)) (wr_artifacts w) ?as"
    by (simp add: list_all2_conv_all_nth id)
  moreover have "r_result r = Json w" using r(2) by (cases "r_result r") auto
  ultimately have "kept_report vf r (set_artifacts (cx_clock cx 0) w ?as r)"
    using r(3) unfolding kept_report_def by blast
  then show ?thesis
    using s' r(1) by (cases "find_row j s") (auto simp: item_table.lookup_modify set_artifacts_def)
qed

subsection \<open>The whole refresh\<close>

text \<open>Every item is what it was, up to verifications GitHub answered.\<close>

definition reports_kept :: "verifier \<Rightarrow> store \<Rightarrow> store \<Rightarrow> bool" where
  "reports_kept vf s s' = (\<forall>j. rel_option (kept_report vf) (find_row j s) (find_row j s'))"

lemma reports_kept_refl [simp]: "reports_kept vf s s"
proof -
  have "rel_option (kept_report vf) x x" for x by (cases x) auto
  then show ?thesis by (simp add: reports_kept_def)
qed

lemma reports_kept_trans:
  assumes "reports_kept vf s t" and "reports_kept vf t u"
  shows "reports_kept vf s u"
proof -
  have "rel_option (kept_report vf) x z"
    if "rel_option (kept_report vf) x y" "rel_option (kept_report vf) y z" for x y z
    using that by (cases x; cases y; cases z) (auto intro: kept_report_trans)
  with assms show ?thesis unfolding reports_kept_def by blast
qed

lemma reports_kept_repository:
  assumes "reports_kept vf s s'" and "find_row i s = Some r" and "find_row i s' = Some r'"
  shows "r_repository r' = r_repository r"
proof -
  have "rel_option (kept_report vf) (Some r) (Some r')" using assms unfolding reports_kept_def by metis
  then show ?thesis by (simp add: kept_report_facts)
qed

lemma refresh_artifact_keeps_reports:
  assumes "refresh_artifact cxs vf actor item artifact (w, s) = Inr (w', s')"
    and "\<And>r. find_row (wi_id item) s = Some r \<Longrightarrow> r_repository r = wi_repository item"
  shows "reports_kept vf s s'"
proof -
  let ?check = "verify_github_artifact vf (wi_id item) (wi_repository item) artifact (refresh_options item artifact)"
  have "s' = s \<or> (\<exists>v out. record_artifact_verification (cxs (wi_id item) (wa_url artifact)) (wi_id item)
      (wa_url artifact) v actor s = Inr (out, s') \<and>
      checked_verification vf (wi_id item) (wi_repository item) (wa_url artifact) v)"
  proof (cases ?check)
    case (CheckVerified u)
    then have "checked_verification vf (wi_id item) (wi_repository item) (wa_url artifact)
        (Verified (keep_handoff item artifact u))"
      unfolding checked_verification_def
      by (intro exI [of _ artifact] exI [of _ "refresh_options item artifact"])
        (auto simp: keep_handoff_def split: option.splits verification.splits intro: exI [of _ "vo_handoff u"])
    with assms(1) CheckVerified show ?thesis
      by (auto simp: refresh_artifact_def Let_def and_then_Inr_iff split: if_splits)
  next
    case (CheckUnverified at why)
    with assms(1) show ?thesis by (simp add: refresh_artifact_def Let_def)
  next
    case (CheckHandoffRejected u why)
    then have "checked_verification vf (wi_id item) (wi_repository item) (wa_url artifact) (Verified u)"
      unfolding checked_verification_def
      by (intro exI [of _ artifact] exI [of _ "refresh_options item artifact"]) simp
    with assms(1) CheckHandoffRejected show ?thesis
      by (auto simp: refresh_artifact_def Let_def and_then_Inr_iff split: if_splits)
  next
    case (CheckRejected why)
    then have "checked_verification vf (wi_id item) (wi_repository item) (wa_url artifact)
        (Unverified (vf_later vf (wi_id item) (wa_url artifact)) (''rejected: '' @ why))"
      unfolding checked_verification_def
      by (intro exI [of _ artifact] exI [of _ "refresh_options item artifact"]) simp
    with assms(1) CheckRejected show ?thesis
      by (auto simp: refresh_artifact_def Let_def and_then_Inr_iff)
  qed
  then show ?thesis
  proof (elim disjE exE conjE)
    fix v out
    assume rec: "record_artifact_verification (cxs (wi_id item) (wa_url artifact)) (wi_id item)
        (wa_url artifact) v actor s = Inr (out, s')"
      and v: "checked_verification vf (wi_id item) (wi_repository item) (wa_url artifact) v"
    show ?thesis
      unfolding reports_kept_def
      by (intro allI recorded_verification_keeps_report [OF rec]) (use v assms(2) in auto)
  qed simp
qed

text \<open>The refresh of verifications rewrites nothing a worker reported: every item of the queue
  keeps its definition, status and report; only completed items change, and of them only the
  verification of an artifact, to what a check of its URL against GitHub gave, a rejection being
  recorded as unverified with its reason and an unavailable answer leaving what was there.\<close>

theorem refresh_only_records_answers:
  assumes "store_ok s" and "refresh_artifact_verifications cxs vf repository limit actor s = Inr (w, s')"
  shows "\<forall>j. rel_option (kept_report vf) (find_row j s) (find_row j s')"
proof -
  obtain items where items: "completed_items_with_pending_artifacts (cxs [] []) PendingArtifacts repository
      (Some (case limit of None \<Rightarrow> default_refresh_limit | Some n \<Rightarrow> n)) s = Inr items"
    and run: "fold_res (refresh_item cxs vf actor) items (empty_refresh, s) = Inr (w, s')"
    using assms(2) by (auto simp: refresh_artifact_verifications_def and_then_Inr_iff)
  have known: "\<exists>r. find_row (wi_id item) s = Some r \<and> wi_repository item = r_repository r"
    if "item \<in> set items" for item
  proof -
    have "item \<in> item_of ` set (st_items s)"
      using items that
      by (auto simp: completed_items_with_pending_artifacts_def and_then_Inr_iff dest!: in_set_takeD)
    then obtain r where "r \<in> set (st_items s)" "item = item_of r" by auto
    then show ?thesis
      using assms(1) item_table.lookup_in_rows [of s r] by (auto simp: store_ok_def)
  qed
  have step: "reports_kept vf s (snd acc')"
    if "item \<in> set items" "reports_kept vf s (snd acc)" "refresh_artifact cxs vf actor item a acc = Inr acc'"
    for item a acc acc'
  proof -
    obtain r where r: "find_row (wi_id item) s = Some r" "wi_repository item = r_repository r"
      using known [OF \<open>item \<in> set items\<close>] by blast
    have "reports_kept vf (snd acc) (snd acc')"
      using that(3) r reports_kept_repository [OF that(2) r(1)]
      by (cases acc; cases acc') (auto intro!: refresh_artifact_keeps_reports)
    with that(2) show ?thesis by (rule reports_kept_trans)
  qed
  have "reports_kept vf s (snd (w, s'))"
  proof (rule fold_res_invariant [OF run, where I = "\<lambda>acc. reports_kept vf s (snd acc)"])
    show "reports_kept vf s (snd (empty_refresh, s))" by simp
    fix item acc acc'
    assume "item \<in> set items" "reports_kept vf s (snd acc)" "refresh_item cxs vf actor item acc = Inr acc'"
    then show "reports_kept vf s (snd acc')"
      unfolding refresh_item_def
      by (elim fold_res_invariant [where I = "\<lambda>acc. reports_kept vf s (snd acc)"]) (use step in blast)+
  qed
  then show ?thesis by (simp add: reports_kept_def)
qed

subsection \<open>An evaluated refresh\<close>

text \<open>GitHub answers that pull request 7 of \<open>acme/tool\<close> has merged.\<close>

definition sample_pull_answer :: "json \<Rightarrow> string \<Rightarrow> string \<Rightarrow> json" where
  "sample_pull_answer merged state body =
     JObject
       [(''number'', JNumber (JInt 7)), (''html_url'', JString ''https://github.com/acme/tool/pull/7''),
        (''state'', JString state), (''merged'', merged), (''merged_at'', JString ''m''), (''body'', JString body),
        (''base'', JObject [(''repo'', JObject [(''full_name'', JString ''acme/tool''), (''private'', JBool False)])])]"

definition sample_verifier :: "json \<Rightarrow> verifier" where
  "sample_verifier response =
     \<lparr>vf_get = (\<lambda>i path. if path = ''/repos/acme/tool/pulls/7'' then Answer 200 response else AnswerUnavailable),
      vf_template = (\<lambda>g. Answer 404 JNull), vf_token = True, vf_now = (\<lambda>i u. ''now''), vf_later = (\<lambda>i u. ''later'')\<rparr>"

definition sample_refresh :: "(refresh_result \<times> store) res" where
  "sample_refresh =
     refresh_artifact_verifications (\<lambda>i u. sample_ctx 60 ''F'')
       (sample_verifier (sample_pull_answer (JBool True) ''closed'' [])) None None ''operator:cli'' gated4"

theorem refresh_only_records_answers_witness:
  "succeeds sample_refresh \<and>
   (\<exists>r'. find_row ''A'' (after sample_refresh) = Some r' \<and>
      kept_report (sample_verifier (sample_pull_answer (JBool True) ''closed'' [])) (the (find_row ''A'' gated4)) r')"
proof -
  let ?vf = "sample_verifier (sample_pull_answer (JBool True) ''closed'' [])"
  have ok: "succeeds sample_refresh" and "find_row ''A'' gated4 \<noteq> None" by code_simp+
  then obtain r where r: "find_row ''A'' gated4 = Some r" by blast
  from ok obtain w where run: "sample_refresh = Inr (w, after sample_refresh)" by (auto simp: succeeds_iff)
  have "rel_option (kept_report ?vf) (find_row ''A'' gated4) (find_row ''A'' (after sample_refresh))"
    using refresh_only_records_answers
      [OF reachable_store_ok [OF gated4_reachable] run [unfolded sample_refresh_def]]
    by (simp add: sample_refresh_def)
  then have "rel_option (kept_report ?vf) (Some r) (find_row ''A'' (after sample_refresh))" by (simp only: r)
  then obtain r' where "find_row ''A'' (after sample_refresh) = Some r'" "kept_report ?vf r r'"
    by (cases "find_row ''A'' (after sample_refresh)") auto
  with ok r show ?thesis by auto
qed

lemma sample_refresh_observes_merge:
  "(case sample_refresh of Inl _ \<Rightarrow> [] | Inr (w, _) \<Rightarrow> rf_updated w) =
     [(''A'', ''https://github.com/acme/tool/pull/7'', Merged)]"
  by code_simp

subsection \<open>Open pull requests are handed over\<close>

lemma verified_pull_request_answer:
  assumes "verify_github_artifact vf i repository a options = CheckVerified v" and "wa_kind a = PullRequest"
  obtains owner name n response where "other_slug repository owner name \<longrightarrow> ck_former options"
    and "vf_get vf i (repos_path owner name @ ''/pulls/'' @ decimal_text n) = Answer 200 response"
    and "safe_integer (field ''number'' response) = Some n"
    and "read_pull_request vf repository (wa_url a) response n (the (issue_state response))
      (vf_now vf i (wa_url a)) options = CheckVerified v"
    and "issue_state response \<noteq> None"
proof -
  have "\<exists>k owner name n. parse_artifact_url a = Some (NumberLocator k owner name n)"
    using assms by (auto simp: verify_github_artifact_def parse_artifact_url_def Let_def
        split: option.splits if_splits)
  then obtain k owner name n where loc: "parse_artifact_url a = Some (NumberLocator k owner name n)" by blast
  have allowed: "other_slug repository owner name \<longrightarrow> ck_former options"
    using assms loc by (auto simp: verify_github_artifact_def Let_def split: if_splits)
  obtain response where got: "vf_get vf i (repos_path owner name @ ''/pulls/'' @ decimal_text n) = Answer 200 response"
    and num: "read_numbered vf repository a (other_slug repository owner name) n response
      (vf_now vf i (wa_url a)) options = CheckVerified v"
    using assms loc allowed
    by (auto simp: verify_github_artifact_def Let_def split: if_splits github_answer.splits)
  show thesis
    by (rule that [OF allowed got])
      (use num assms(2) in \<open>auto simp: read_numbered_def Let_def split: if_splits option.splits\<close>)
qed

lemma open_pull_request_handed_over:
  assumes "read_pull_request vf repository url' response n state at options = CheckVerified v"
  shows "\<exists>full_name. as_text (json_field ''full_name'' (json_field ''repo'' (field ''base'' response))) = Some full_name \<and>
      to_lower full_name = to_lower repository"
    and "vo_number v = JInt n"
    and "vo_state v = (if field ''merged'' response = Some (JBool True) then Merged else state)"
    and "vo_state v = Open \<Longrightarrow> vo_handoff v = None \<Longrightarrow> ck_evidence options = Some es \<Longrightarrow>
      validate_handoff_body vf repository url' response es
        (json_field ''private'' (json_field ''repo'' (field ''base'' response)) = Some (JBool False)) = HandoffValid"
  using assms
  by (auto simp: read_pull_request_def Let_def pull_request_verification_def
      split: option.splits if_splits handoff_check.splits)

lemma handoff_valid_body:
  assumes "validate_handoff_body vf repository url' response es public = HandoffValid"
  shows "\<exists>body template. es \<noteq> [] \<and> as_text (field ''body'' response) = Some body \<and> \<not> blank body \<and>
    read_template vf repository public = Inr template \<and>
    missing_sections (required_sections template) (markdown_sections body) = [] \<and>
    section_problem (required_sections template) (markdown_sections body) = None"
  using assms
  by (auto simp: validate_handoff_body_def Let_def split: option.splits if_splits sum.splits)

lemma map_res_Inr_set:
  assumes "map_res f xs = Inr ys" and "y \<in> set ys"
  shows "\<exists>x \<in> set xs. f x = Inr y"
  using assms
proof (induction xs arbitrary: ys)
  case Nil
  then show ?case by simp
next
  case (Cons x xs)
  then show ?case by (auto simp: and_then_Inr_iff)
qed

text \<open>A completion is accepted with a pull request as verified only on GitHub's word: the number
  of the URL, the repository of the item and the merged state are those of the answer; and if it
  is open and not marked as unread, its body has every section of the repository's template (or
  of the fallback), with content under summary and verification and its risk settled.\<close>

theorem verified_completion_pull_requests_are_handed_over:
  assumes "verify_completion_artifacts vf i repository artifacts options = Inr out"
    and "a \<in> set out" and "wa_kind a = PullRequest" and "wa_verification a = Some (Verified v)"
  shows "\<exists>owner name n response full_name.
    (other_slug repository owner name \<longrightarrow> ck_former options) \<and>
    vf_get vf i (repos_path owner name @ ''/pulls/'' @ decimal_text n) = Answer 200 response \<and>
    as_text (json_field ''full_name'' (json_field ''repo'' (field ''base'' response))) = Some full_name \<and>
    to_lower full_name = to_lower repository \<and>
    safe_integer (field ''number'' response) = Some n \<and> vo_number v = JInt n \<and>
    (vo_state v = Merged \<longleftrightarrow> field ''merged'' response = Some (JBool True)) \<and>
    (vo_state v = Open \<and> vo_handoff v = None \<longrightarrow>
      (\<exists>body template. as_text (field ''body'' response) = Some body \<and>
        read_template vf repository
          (json_field ''private'' (json_field ''repo'' (field ''base'' response)) = Some (JBool False)) = Inr template \<and>
        missing_sections (required_sections template) (markdown_sections body) = [] \<and>
        section_problem (required_sections template) (markdown_sections body) = None))"
proof -
  have ev: "\<not> list_ex (\<lambda>a. wa_kind a = PullRequest) artifacts \<or>
      (\<exists>es. ck_evidence options = Some es \<and> list_ex (\<lambda>e. \<not> blank e) es)"
    and run: "map_res (verified_completion_artifact vf i repository options) artifacts = Inr out"
    using assms(1) by (auto simp: verify_completion_artifacts_def split: if_splits option.splits)
  obtain b where b: "b \<in> set artifacts" "verified_completion_artifact vf i repository options b = Inr a"
    using map_res_Inr_set [OF run assms(2)] by blast
  have kind: "wa_kind b = PullRequest" and check: "verify_github_artifact vf i repository b options = CheckVerified v"
    using b(2) assms(3,4)
    by (auto simp: verified_completion_artifact_def verifiable_kind_def split: artifact_check.splits if_splits)
  obtain es where es: "ck_evidence options = Some es" using ev b(1) kind by (auto simp: list_ex_iff)
  obtain owner name n response where q: "other_slug repository owner name \<longrightarrow> ck_former options"
    "vf_get vf i (repos_path owner name @ ''/pulls/'' @ decimal_text n) = Answer 200 response"
    "safe_integer (field ''number'' response) = Some n"
    "read_pull_request vf repository (wa_url b) response n (the (issue_state response))
      (vf_now vf i (wa_url b)) options = CheckVerified v" "issue_state response \<noteq> None"
    by (rule verified_pull_request_answer [OF check kind])
  note open' = open_pull_request_handed_over [OF q(4)]
  have "the (issue_state response) \<noteq> Merged" using q(5) by (auto simp: issue_state_def)
  then have merged: "vo_state v = Merged \<longleftrightarrow> field ''merged'' response = Some (JBool True)"
    using open'(3) by simp
  have handed: "vo_state v = Open \<and> vo_handoff v = None \<longrightarrow>
      (\<exists>body template. as_text (field ''body'' response) = Some body \<and>
        read_template vf repository
          (json_field ''private'' (json_field ''repo'' (field ''base'' response)) = Some (JBool False)) = Inr template \<and>
        missing_sections (required_sections template) (markdown_sections body) = [] \<and>
        section_problem (required_sections template) (markdown_sections body) = None)"
  proof
    assume "vo_state v = Open \<and> vo_handoff v = None"
    from handoff_valid_body [OF open'(4) [OF this [THEN conjunct1] this [THEN conjunct2] es]]
    show "\<exists>body template. as_text (field ''body'' response) = Some body \<and>
        read_template vf repository
          (json_field ''private'' (json_field ''repo'' (field ''base'' response)) = Some (JBool False)) = Inr template \<and>
        missing_sections (required_sections template) (markdown_sections body) = [] \<and>
        section_problem (required_sections template) (markdown_sections body) = None" by blast
  qed
  obtain full_name where
    "as_text (json_field ''full_name'' (json_field ''repo'' (field ''base'' response))) = Some full_name"
    "to_lower full_name = to_lower repository" using open'(1) by blast
  with q(1-3) open'(2) merged handed show ?thesis by (intro exI conjI)
qed

definition sample_body :: string where
  "sample_body =
     ''## Summary'' @ [CHR 0x0A] @ ''Fixes it.'' @ [CHR 0x0A] @ ''## Verification'' @ [CHR 0x0A] @
     ''make check'' @ [CHR 0x0A] @ ''## Risk tier'' @ [CHR 0x0A] @ ''low'' @ [CHR 0x0A]"

theorem verified_completion_pull_requests_witness:
  "\<exists>n. safe_integer (field ''number'' (sample_pull_answer (JBool False) ''open'' sample_body)) = Some n"
proof -
  let ?vf = "sample_verifier (sample_pull_answer (JBool False) ''open'' sample_body)"
  let ?a = "draft_pull\<lparr>wa_verification := None\<rparr>"
  let ?options = "\<lparr>ck_evidence = Some [''ran it''], ck_former = False\<rparr>"
  define v where "v = pull_request_verification (sample_pull_answer (JBool False) ''open'' sample_body) 7 Open ''now'' None"
  have "verify_completion_artifacts ?vf ''A'' ''acme/tool'' [?a] ?options =
      Inr [?a\<lparr>wa_verification := Some (Verified v)\<rparr>]"
    unfolding v_def by code_simp
  from verified_completion_pull_requests_are_handed_over [OF this, of "?a\<lparr>wa_verification := Some (Verified v)\<rparr>" v]
  obtain owner name n response where
    "vf_get ?vf ''A'' (repos_path owner name @ ''/pulls/'' @ decimal_text n) = Answer 200 response"
    "safe_integer (field ''number'' response) = Some n"
    by (auto simp: draft_pull_def)
  then show ?thesis by (auto simp: sample_verifier_def split: if_splits)
qed

end
