(* ===== verification/Control_Schedules.thy ===== *)
theory Control_Schedules
  imports Release_Versions
begin

text \<open>
  The timing rules of the control plane: how often Core is polled and how a source that is down is
  retried (\<open>src/src/core/poll-policy.ts\<close>), the same for the delivery audit
  (\<open>src/src/github/audit-policy.ts\<close>), and which details of past checks may be deleted
  (\<open>src/src/control/check-detail-retention.ts\<close>). Instants are milliseconds.
\<close>

subsection \<open>Polling Core\<close>

definition core_poll_default_interval_seconds :: int where
  "core_poll_default_interval_seconds = 900"
definition core_poll_minimum_interval_seconds :: int where
  "core_poll_minimum_interval_seconds = 60"
definition core_poll_maximum_interval_seconds :: int where
  "core_poll_maximum_interval_seconds = 3600"
definition core_poll_first_source_backoff_seconds :: int where
  "core_poll_first_source_backoff_seconds = 1800"
definition core_poll_maximum_source_backoff_seconds :: int where
  "core_poll_maximum_source_backoff_seconds = 3600"

datatype interval_error = IntervalShape | IntervalRange | StreakShape

definition parse_core_poll_interval :: "string option \<Rightarrow> interval_error + int" where
  "parse_core_poll_interval value =
     (case value of
        None \<Rightarrow> Inr core_poll_default_interval_seconds
      | Some text' \<Rightarrow>
          and_then (require (positive_numeral text') IntervalShape) (\<lambda>_.
          let interval = number_of text' in
          if interval > max_safe_integer \<or> interval < core_poll_minimum_interval_seconds \<or>
             interval > core_poll_maximum_interval_seconds
          then Inl IntervalRange else Inr interval))"

definition core_poll_delay_seconds :: "int \<Rightarrow> string option \<Rightarrow> int \<Rightarrow> int" where
  "core_poll_delay_seconds healthy source_outcome streak =
     (if source_outcome \<noteq> Some ''source-unavailable'' then healthy
      else if streak \<le> 1 then max healthy core_poll_first_source_backoff_seconds
      else max healthy core_poll_maximum_source_backoff_seconds)"

definition add_seconds :: "timestamp \<Rightarrow> int \<Rightarrow> timestamp" where
  "add_seconds instant seconds = instant + seconds * 1000"

subsection \<open>The delivery audit\<close>

definition delivery_audit_default_interval_seconds :: int where
  "delivery_audit_default_interval_seconds = 300"
definition delivery_audit_minimum_interval_seconds :: int where
  "delivery_audit_minimum_interval_seconds = 60"
definition delivery_audit_maximum_interval_seconds :: int where
  "delivery_audit_maximum_interval_seconds = 900"

definition incomplete_retry_seconds :: "int list" where
  "incomplete_retry_seconds = [60, 300, 900]"

definition assert_delivery_audit_interval :: "jsnum \<Rightarrow> interval_error + unit" where
  "assert_delivery_audit_interval value =
     require
       (is_safe_integer value \<and> delivery_audit_minimum_interval_seconds \<le> js_int value \<and>
        js_int value \<le> delivery_audit_maximum_interval_seconds) IntervalRange"

definition parse_delivery_audit_interval :: "string option \<Rightarrow> interval_error + int" where
  "parse_delivery_audit_interval value =
     (case value of
        None \<Rightarrow> Inr delivery_audit_default_interval_seconds
      | Some text' \<Rightarrow>
          and_then (require (positive_numeral text') IntervalShape) (\<lambda>_.
          let interval = number_of text' in
          and_then (assert_delivery_audit_interval (JInt interval)) (\<lambda>_. Inr interval)))"

definition delivery_audit_retry_seconds :: "jsnum \<Rightarrow> interval_error + int" where
  "delivery_audit_retry_seconds streak =
     and_then (require (is_safe_integer streak \<and> 1 \<le> js_int streak) StreakShape) (\<lambda>_.
     Inr (incomplete_retry_seconds !
       nat (min (js_int streak) (int (length incomplete_retry_seconds)) - 1)))"

text \<open>Whatever is configured, the two schedules stay inside their bounds: an interval that is
  accepted is between its minimum and its maximum, an unavailable source never makes the next poll
  come sooner nor later than an hour from an interval in bounds, and a longer streak of incomplete
  audits never shortens the wait.\<close>

theorem schedules_stay_in_bounds:
  "(case parse_core_poll_interval text' of
      Inl _ \<Rightarrow> True
    | Inr n \<Rightarrow>
        core_poll_minimum_interval_seconds \<le> n \<and> n \<le> core_poll_maximum_interval_seconds \<and>
        n \<le> core_poll_delay_seconds n outcome streak \<and>
        core_poll_delay_seconds n outcome streak \<le> core_poll_maximum_interval_seconds \<and>
        core_poll_delay_seconds n outcome streak \<le> core_poll_delay_seconds n outcome (streak + 1)) \<and>
   (case parse_delivery_audit_interval text' of
      Inl _ \<Rightarrow> True
    | Inr n \<Rightarrow> delivery_audit_minimum_interval_seconds \<le> n \<and> n \<le> delivery_audit_maximum_interval_seconds) \<and>
   (case delivery_audit_retry_seconds (JInt k) of
      Inl _ \<Rightarrow> k < 1 \<or> k > max_safe_integer
    | Inr n \<Rightarrow>
        delivery_audit_minimum_interval_seconds \<le> n \<and> n \<le> delivery_audit_maximum_interval_seconds \<and>
        (case delivery_audit_retry_seconds (JInt (k + 1)) of Inl _ \<Rightarrow> k = max_safe_integer | Inr m \<Rightarrow> n \<le> m))"
proof -
  have retry: "incomplete_retry_seconds ! nat (min j 3 - 1) = (if j = 1 then 60 else if j = 2 then 300 else 900)"
    if "1 \<le> j" for j
  proof -
    have "j = 1 \<or> j = 2 \<or> 3 \<le> j" using that by linarith
    then show ?thesis by (elim disjE) (simp_all add: incomplete_retry_seconds_def min_def)
  qed
  have "case delivery_audit_retry_seconds (JInt k) of
      Inl _ \<Rightarrow> k < 1 \<or> k > max_safe_integer
    | Inr n \<Rightarrow>
        delivery_audit_minimum_interval_seconds \<le> n \<and> n \<le> delivery_audit_maximum_interval_seconds \<and>
        (case delivery_audit_retry_seconds (JInt (k + 1)) of Inl _ \<Rightarrow> k = max_safe_integer | Inr m \<Rightarrow> n \<le> m)"
    using retry [of k] retry [of "k + 1"]
    by (auto simp: delivery_audit_retry_seconds_def require_def incomplete_retry_seconds_def [THEN arg_cong [of _ _ length]]
        delivery_audit_minimum_interval_seconds_def delivery_audit_maximum_interval_seconds_def
        max_safe_integer_def)
  then show ?thesis
    by (auto simp: parse_core_poll_interval_def parse_delivery_audit_interval_def require_def Let_def
        assert_delivery_audit_interval_def core_poll_delay_seconds_def
        core_poll_default_interval_seconds_def core_poll_minimum_interval_seconds_def
        core_poll_maximum_interval_seconds_def core_poll_first_source_backoff_seconds_def
        core_poll_maximum_source_backoff_seconds_def delivery_audit_default_interval_seconds_def
        delivery_audit_minimum_interval_seconds_def delivery_audit_maximum_interval_seconds_def
        split: option.splits if_splits)
qed

subsection \<open>Details of past checks\<close>

definition check_detail_retention_days :: int where "check_detail_retention_days = 30"
definition maximum_eligible_checks :: nat where "maximum_eligible_checks = 10000"

record check_detail =
  cd_sequence :: int
  cd_recorded_at :: timestamp
  cd_check_id :: string

definition check_detail_cutoff :: "timestamp \<Rightarrow> timestamp" where
  "check_detail_cutoff evaluated_at = evaluated_at - check_detail_retention_days * 86400000"

definition select_check_detail_for_prune ::
    "check_detail list \<Rightarrow> string set \<Rightarrow> timestamp \<Rightarrow> check_detail list"
where
  "select_check_detail_for_prune candidates protected cutoff_at =
     (let newest_first =
        sort_key (\<lambda>c. - cd_sequence c) (filter (\<lambda>c. cd_check_id c \<notin> protected) candidates);
          retained = filter (\<lambda>c. cutoff_at \<le> cd_recorded_at c) newest_first;
          overflow = set (map cd_sequence (drop maximum_eligible_checks retained)) in
      sort_key cd_sequence
        (filter (\<lambda>c. cd_recorded_at c < cutoff_at \<or> cd_sequence c \<in> overflow) newest_first))"

text \<open>The details that a count of the newest ones would keep before \<open>c\<close>.\<close>

definition newer_retained :: "check_detail list \<Rightarrow> string set \<Rightarrow> timestamp \<Rightarrow> check_detail \<Rightarrow> check_detail list" where
  "newer_retained candidates protected cutoff_at c =
     filter (\<lambda>d. cd_check_id d \<notin> protected \<and> cutoff_at \<le> cd_recorded_at d \<and>
        cd_sequence c < cd_sequence d) candidates"

lemma drop_sorted_iff:
  fixes key :: "'a \<Rightarrow> int"
  assumes "sorted (map key xs)" and "distinct (map key xs)" and "x \<in> set xs"
  shows "x \<in> set (drop n xs) \<longleftrightarrow> n \<le> length (filter (\<lambda>y. key y < key x) xs)"
  using assms
proof (induction xs arbitrary: n)
  case Nil
  then show ?case by simp
next
  case (Cons y ys)
  show ?case
  proof (cases "x = y")
    case True
    have "filter (\<lambda>z. key z < key x) (y # ys) = []"
      using Cons.prems(1) True by (auto simp: filter_empty_conv)
    moreover have "x \<in> set (drop n (y # ys)) \<longleftrightarrow> n = 0"
      using True Cons.prems(2) by (cases n) (auto dest: in_set_dropD)
    ultimately show ?thesis by simp
  next
    case False
    then have x: "x \<in> set ys" using Cons.prems(3) by simp
    have "key y < key x" using Cons.prems(1,2) x by (auto simp: order.strict_iff_order)
    then show ?thesis using Cons.IH [of "n - 1"] Cons.prems x by (cases n) auto
  qed
qed

text \<open>Given distinct sequence numbers, a check's detail is selected for deletion exactly when
  its check is not protected and it is older than the cutoff or ten thousand newer unprotected
  details inside the window come before it; the selection is in sequence order without
  repetition.\<close>

theorem prune_selects_old_and_overflowing:
  assumes "distinct (map cd_sequence candidates)"
  shows "(c \<in> set (select_check_detail_for_prune candidates protected cutoff_at) \<longleftrightarrow>
      c \<in> set candidates \<and> cd_check_id c \<notin> protected \<and>
      (cd_recorded_at c < cutoff_at \<or>
       maximum_eligible_checks \<le> length (newer_retained candidates protected cutoff_at c))) \<and>
    sorted (map cd_sequence (select_check_detail_for_prune candidates protected cutoff_at)) \<and>
    distinct (select_check_detail_for_prune candidates protected cutoff_at)"
proof -
  let ?key = "\<lambda>c. - cd_sequence c"
  define newest where "newest = sort_key ?key (filter (\<lambda>c. cd_check_id c \<notin> protected) candidates)"
  define retained where "retained = filter (\<lambda>c. cutoff_at \<le> cd_recorded_at c) newest"
  define overflow where "overflow = drop maximum_eligible_checks retained"
  have sel: "select_check_detail_for_prune candidates protected cutoff_at =
      sort_key cd_sequence
        (filter (\<lambda>c. cd_recorded_at c < cutoff_at \<or> cd_sequence c \<in> set (map cd_sequence overflow)) newest)"
    by (simp add: select_check_detail_for_prune_def Let_def newest_def retained_def overflow_def)
  have inj: "inj_on cd_sequence (set candidates)" and dist: "distinct candidates"
    using assms by (simp_all add: distinct_map)
  have newest: "set newest = {c \<in> set candidates. cd_check_id c \<notin> protected}" "distinct newest"
    using dist by (auto simp: newest_def)
  have over: "set overflow \<subseteq> set newest"
    by (auto simp: overflow_def retained_def dest: in_set_dropD)
  have "inj_on ?key (set candidates)" using inj by (auto simp: inj_on_def)
  then have dk: "distinct (map ?key retained)"
    using newest by (auto simp: retained_def distinct_map intro: inj_on_subset)
  have sk: "sorted (map ?key retained)"
    unfolding retained_def newest_def by (metis sorted_filter sorted_sort_key)
  have count: "length (filter (\<lambda>y. ?key y < ?key c) retained) =
      length (newer_retained candidates protected cutoff_at c)" for c
    by (simp add: retained_def newest_def newer_retained_def filter_sort conj_commute conj_left_commute)
  have overflow: "cd_sequence c \<in> set (map cd_sequence overflow) \<longleftrightarrow>
      cutoff_at \<le> cd_recorded_at c \<and>
      maximum_eligible_checks \<le> length (newer_retained candidates protected cutoff_at c)"
    if c: "c \<in> set newest"
  proof -
    have "cd_sequence c \<in> set (map cd_sequence overflow) \<longleftrightarrow> c \<in> set overflow"
      using over c newest inj by (auto simp: inj_on_def)
    moreover have "c \<in> set overflow \<longleftrightarrow> c \<in> set retained \<and>
        maximum_eligible_checks \<le> length (newer_retained candidates protected cutoff_at c)"
    proof -
      have "c \<in> set retained \<Longrightarrow> c \<in> set overflow \<longleftrightarrow>
          maximum_eligible_checks \<le> length (newer_retained candidates protected cutoff_at c)"
        using drop_sorted_iff [OF sk dk, of c maximum_eligible_checks] unfolding overflow_def count .
      then show ?thesis by (auto simp: overflow_def dest: in_set_dropD)
    qed
    ultimately show ?thesis using c by (auto simp: retained_def)
  qed
  have "c \<in> set (select_check_detail_for_prune candidates protected cutoff_at) \<longleftrightarrow>
      c \<in> set newest \<and> (cd_recorded_at c < cutoff_at \<or>
        maximum_eligible_checks \<le> length (newer_retained candidates protected cutoff_at c))"
    using overflow unfolding sel by auto
  moreover have "sorted (map cd_sequence (select_check_detail_for_prune candidates protected cutoff_at))"
    unfolding sel by simp
  moreover have "distinct (select_check_detail_for_prune candidates protected cutoff_at)"
    unfolding sel using newest(2) by simp
  ultimately show ?thesis using newest(1) by auto
qed

theorem prune_selects_old_and_overflowing_witness:
  "select_check_detail_for_prune
     [\<lparr>cd_sequence = 2, cd_recorded_at = 50, cd_check_id = ''b''\<rparr>,
      \<lparr>cd_sequence = 1, cd_recorded_at = 10, cd_check_id = ''a''\<rparr>] {''b''} 40 =
     [\<lparr>cd_sequence = 1, cd_recorded_at = 10, cd_check_id = ''a''\<rparr>] \<and>
   \<lparr>cd_sequence = 2, cd_recorded_at = 50, cd_check_id = ''b''\<rparr> \<notin>
     set (select_check_detail_for_prune
       [\<lparr>cd_sequence = 2, cd_recorded_at = 50, cd_check_id = ''b''\<rparr>,
        \<lparr>cd_sequence = 1, cd_recorded_at = 10, cd_check_id = ''a''\<rparr>] {''b''} 40)"
  using prune_selects_old_and_overflowing [of "[\<lparr>cd_sequence = 2, cd_recorded_at = 50, cd_check_id = ''b''\<rparr>,
      \<lparr>cd_sequence = 1, cd_recorded_at = 10, cd_check_id = ''a''\<rparr>]"
      "\<lparr>cd_sequence = 2, cd_recorded_at = 50, cd_check_id = ''b''\<rparr>" "{''b''}" 40]
  by (simp add: select_check_detail_for_prune_def Let_def)

end
