(* ===== verification/Run_Rate.thy ===== *)
theory Run_Rate
  imports Json_Values Release_Versions Complex_Main
begin

text \<open>
  The one verification mechanism there is (\<open>src/src/verification/conclusive-run-rate.ts\<close>) and the
  registry that names it (\<open>src/src/verification/registry.ts\<close>). The input is a JSON value; of its
  \<open>minimumRate\<close> the evaluation only ever reads the text \<open>toString\<close> gives, so that text is an
  argument of its own (\<open>None\<close> when the field is not a finite number), and the two comparisons of
  the guard are made on it: no double lies between a bound 0 or 1 and its shortest text.
\<close>

datatype classification = Conclusive | Inconclusive | Missing

definition classification_of :: "json option \<Rightarrow> classification option" where
  "classification_of v =
     (if v = Some (JString ''conclusive'') then Some Conclusive
      else if v = Some (JString ''inconclusive'') then Some Inconclusive
      else if v = Some (JString ''missing'') then Some Missing
      else None)"

record run_rate_input =
  ri_minimum_rate :: string
  ri_window_open :: bool
  ri_coverage_complete :: bool
  ri_occurrences :: "(string \<times> classification) list"

datatype run_rate_reason = ThresholdMet | ThresholdNotMet | WindowOpen | SourceIncomplete | PopulationEmpty

datatype run_rate_outcome = Satisfied | Failed | Unable

record run_rate_result =
  rt_outcome :: run_rate_outcome
  rt_reason :: run_rate_reason
  rt_minimum_rate :: string
  rt_conclusive :: nat
  rt_inconclusive :: nat
  rt_missing :: nat
  rt_total :: nat
  rt_rate :: "(nat \<times> nat) option"

datatype run_rate_error =
    RateInputShape
  | RateMinimum
  | RateWindow
  | RateCoverage
  | RateOccurrences
  | OccurrenceShape nat
  | OccurrenceKey nat
  | DuplicateKey string
  | OccurrenceClass nat

subsection \<open>Decimal fractions\<close>

definition exponent_of :: "string \<Rightarrow> int" where
  "exponent_of text' =
     (case text' of
        [] \<Rightarrow> 0
      | c # cs \<Rightarrow>
          if c = CHR ''-'' then - decimal_value cs
          else if c = CHR ''+'' then decimal_value cs else decimal_value text')"

definition decimal_fraction :: "string \<Rightarrow> int \<times> int" where
  "decimal_fraction text' =
     (let parts = split_char CHR ''e'' (to_lower text');
          exponent = (case tl parts of [] \<Rightarrow> 0 | e # _ \<Rightarrow> exponent_of e);
          pieces = split_char CHR ''.'' (hd parts);
          whole = hd pieces;
          fraction = (case tl pieces of [] \<Rightarrow> [] | f # _ \<Rightarrow> f);
          digits = decimal_value (whole @ fraction);
          scale = int (length fraction) - exponent in
      if scale \<le> 0 then (digits * 10 ^ nat (- scale), 1) else (digits, 10 ^ nat scale))"

definition ratio_meets_minimum :: "nat \<Rightarrow> nat \<Rightarrow> string \<Rightarrow> bool" where
  "ratio_meets_minimum numerator denominator minimum_rate =
     (case decimal_fraction minimum_rate of
        (minimum_numerator, minimum_denominator) \<Rightarrow>
          int numerator * minimum_denominator \<ge> int denominator * minimum_numerator)"

subsection \<open>The input\<close>

text \<open>The rate is a number from zero to one.\<close>

definition rate_in_range :: "string \<Rightarrow> bool" where
  "rate_in_range text' =
     (\<not> prefix ''-'' text' \<and> fst (decimal_fraction text') \<le> snd (decimal_fraction text'))"

definition key_control :: "char \<Rightarrow> bool" where
  "key_control c = (code_unit c \<le> 31 \<or> code_unit c = 127)"

primrec read_occurrences ::
    "nat \<Rightarrow> json list \<Rightarrow> (string \<times> classification) list \<Rightarrow>
       run_rate_error + (string \<times> classification) list"
where
  "read_occurrences index [] found = Inr found"
| "read_occurrences index (value # rest) found =
     and_then (require (is_object value) (OccurrenceShape index)) (\<lambda>_.
     case as_text (field ''key'' value) of
       None \<Rightarrow> Inl (OccurrenceKey index)
     | Some key \<Rightarrow>
         and_then
           (require (1 \<le> length key \<and> length key \<le> 512 \<and> \<not> list_ex key_control key)
             (OccurrenceKey index)) (\<lambda>_.
         and_then (require (key \<notin> set (map fst found)) (DuplicateKey key)) (\<lambda>_.
         case classification_of (field ''classification'' value) of
           None \<Rightarrow> Inl (OccurrenceClass index)
         | Some c \<Rightarrow> read_occurrences (Suc index) rest (found @ [(key, c)]))))"

definition assert_run_rate_input :: "string option \<Rightarrow> json \<Rightarrow> run_rate_error + run_rate_input" where
  "assert_run_rate_input rate_text input =
     and_then (require (is_object input) RateInputShape) (\<lambda>_.
     case rate_text of
       None \<Rightarrow> Inl RateMinimum
     | Some rate \<Rightarrow>
         and_then (require (rate_in_range rate) RateMinimum) (\<lambda>_.
         let window = field ''windowState'' input; coverage = field ''sourceCoverage'' input in
         and_then
           (require (window = Some (JString ''open'') \<or> window = Some (JString ''closed'')) RateWindow) (\<lambda>_.
         and_then
           (require (coverage = Some (JString ''complete'') \<or> coverage = Some (JString ''incomplete''))
             RateCoverage) (\<lambda>_.
         case field ''occurrences'' input of
           Some (JArray values) \<Rightarrow>
             and_then (read_occurrences 0 values []) (\<lambda>occurrences.
             Inr \<lparr>ri_minimum_rate = rate, ri_window_open = (window = Some (JString ''open'')),
               ri_coverage_complete = (coverage = Some (JString ''complete'')),
               ri_occurrences = occurrences\<rparr>)
         | _ \<Rightarrow> Inl RateOccurrences))))"

subsection \<open>The evaluation\<close>

definition count_class :: "classification \<Rightarrow> (string \<times> classification) list \<Rightarrow> nat" where
  "count_class c occurrences = length (filter (\<lambda>o'. snd o' = c) occurrences)"

definition evaluate_run_rate :: "run_rate_input \<Rightarrow> run_rate_result" where
  "evaluate_run_rate input =
     (let occurrences = ri_occurrences input;
          conclusive = count_class Conclusive occurrences;
          total = length occurrences;
          result = (\<lambda>outcome reason rate.
            \<lparr>rt_outcome = outcome, rt_reason = reason, rt_minimum_rate = ri_minimum_rate input,
             rt_conclusive = conclusive, rt_inconclusive = count_class Inconclusive occurrences,
             rt_missing = count_class Missing occurrences, rt_total = total, rt_rate = rate\<rparr>) in
      if ri_window_open input then result Unable WindowOpen None
      else if \<not> ri_coverage_complete input then result Unable SourceIncomplete None
      else if total = 0 then result Unable PopulationEmpty None
      else if ratio_meets_minimum conclusive total (ri_minimum_rate input)
      then result Satisfied ThresholdMet (Some (conclusive, total))
      else result Failed ThresholdNotMet (Some (conclusive, total)))"

definition evaluate_conclusive_run_rate :: "string option \<Rightarrow> json \<Rightarrow> run_rate_error + run_rate_result" where
  "evaluate_conclusive_run_rate rate_text input =
     and_then (assert_run_rate_input rate_text input) (\<lambda>normalized. Inr (evaluate_run_rate normalized))"

subsection \<open>The registry\<close>

definition verification_evaluator ::
    "string \<Rightarrow> (string \<times> int \<times> (string option \<Rightarrow> json \<Rightarrow> run_rate_error + run_rate_result)) option"
where
  "verification_evaluator key =
     (if key = ''conclusive-run-rate:v1'' then Some (''conclusive-run-rate'', 1, evaluate_conclusive_run_rate)
      else None)"

definition supports_verification_evaluator :: "string \<Rightarrow> bool" where
  "supports_verification_evaluator key = (verification_evaluator key \<noteq> None)"

definition source_adapter_keys :: "string list" where "source_adapter_keys = []"
definition attestation_policy_keys :: "string list" where "attestation_policy_keys = []"

definition supports_verification_source_adapter :: "string \<Rightarrow> bool" where
  "supports_verification_source_adapter key = (key \<in> set source_adapter_keys)"

definition supports_verification_attestation_policy :: "string \<Rightarrow> bool" where
  "supports_verification_attestation_policy key = (key \<in> set attestation_policy_keys)"

subsection \<open>The rate is exact\<close>

text \<open>The rational number a decimal text with an exponent writes.\<close>

definition decimal_rat :: "string \<Rightarrow> rat" where
  "decimal_rat text' =
     (let parts = split_char CHR ''e'' (to_lower text');
          exponent = (case tl parts of [] \<Rightarrow> 0 | e # _ \<Rightarrow> exponent_of e);
          pieces = split_char CHR ''.'' (hd parts);
          whole = hd pieces;
          fraction = (case tl pieces of [] \<Rightarrow> [] | f # _ \<Rightarrow> f) in
      (of_int (decimal_value whole) +
         of_int (decimal_value fraction) / 10 ^ length fraction) * 10 powi exponent)"

lemma digit_value_shift: "digit_value n s = n * 10 ^ length s + digit_value 0 s"
proof (induction s arbitrary: n)
  case Nil
  then show ?case by simp
next
  case (Cons c s)
  show ?case
    using Cons [of "10 * n + (code_unit c - 48)"] Cons [of "code_unit c - 48"]
    by (simp add: algebra_simps)
qed


lemma decimal_value_append:
  "decimal_value (s @ t) = decimal_value s * 10 ^ length t + decimal_value t"
  using digit_value_shift [of "digit_value 0 s" t] by (simp add: decimal_value_def digit_value_append)

lemma decimal_fraction_rat:
  assumes "decimal_fraction text' = (n, d)"
  shows "0 < d" and "of_int n = decimal_rat text' * of_int d"
proof -
  define parts where "parts = split_char CHR ''e'' (to_lower text')"
  define exponent where "exponent = (case tl parts of [] \<Rightarrow> 0 | e # _ \<Rightarrow> exponent_of e)"
  define pieces where "pieces = split_char CHR ''.'' (hd parts)"
  define fraction where "fraction = (case tl pieces of [] \<Rightarrow> [] | f # _ \<Rightarrow> f)"
  define digits where "digits = decimal_value (hd pieces @ fraction)"
  let ?l = "length fraction"
  have f: "decimal_fraction text' =
      (if int ?l - exponent \<le> 0 then (digits * 10 ^ nat (exponent - int ?l), 1)
       else (digits, 10 ^ nat (int ?l - exponent)))"
    by (simp add: decimal_fraction_def Let_def digits_def fraction_def pieces_def exponent_def parts_def)
  show "0 < d" using assms f by (auto split: if_splits)
  have "decimal_rat text' = (of_int (decimal_value (hd pieces)) +
      of_int (decimal_value fraction) / 10 ^ ?l) * 10 powi exponent"
    by (simp add: decimal_rat_def Let_def fraction_def pieces_def exponent_def parts_def)
  also have "\<dots> = of_int digits / 10 ^ ?l * 10 powi exponent"
    by (simp add: digits_def decimal_value_append add_divide_distrib)
  also have "\<dots> = of_int digits * 10 powi (exponent - int ?l)"
    by (simp add: power_int_diff)
  finally have r: "decimal_rat text' = of_int digits * 10 powi (exponent - int ?l)" .
  show "of_int n = decimal_rat text' * of_int d"
  proof (cases "int ?l - exponent \<le> 0")
    case True
    then have "(10 :: rat) powi (exponent - int ?l) = 10 ^ nat (exponent - int ?l)"
      by (simp add: power_int_def)
    moreover have "n = digits * 10 ^ nat (exponent - int ?l)" "d = 1" using True assms f by auto
    ultimately show ?thesis by (simp add: r)
  next
    case False
    then have "(10 :: rat) powi (exponent - int ?l) * 10 ^ nat (int ?l - exponent) = 1"
      by (simp add: power_int_def field_simps)
    with False assms f show ?thesis by (auto simp: r)
  qed
qed

text \<open>C29: The mechanism is satisfied exactly when the window is closed, the sources are complete,
  there is an occurrence, and the share of conclusive occurrences is at least the minimum rate,
  compared as exact rational numbers, without rounding; it is unable exactly when one of the
  first three fails; and every occurrence is counted once.\<close>

theorem conclusive_run_rate_is_exact:
  "(rt_outcome (evaluate_run_rate input) = Satisfied) =
     (\<not> ri_window_open input \<and> ri_coverage_complete input \<and> ri_occurrences input \<noteq> [] \<and>
      decimal_rat (ri_minimum_rate input) \<le>
        of_nat (count_class Conclusive (ri_occurrences input)) / of_nat (length (ri_occurrences input))) \<and>
   (rt_outcome (evaluate_run_rate input) = Unable) =
     (\<not> (\<not> ri_window_open input \<and> ri_coverage_complete input \<and> ri_occurrences input \<noteq> [])) \<and>
   rt_conclusive (evaluate_run_rate input) + rt_inconclusive (evaluate_run_rate input) +
     rt_missing (evaluate_run_rate input) = rt_total (evaluate_run_rate input) \<and>
   rt_total (evaluate_run_rate input) = length (ri_occurrences input)"
proof -
  let ?o = "ri_occurrences input" and ?r = "decimal_rat (ri_minimum_rate input)"
  let ?c = "count_class Conclusive ?o" and ?t = "length ?o"
  obtain n d where nd: "decimal_fraction (ri_minimum_rate input) = (n, d)" by fastforce
  note f = decimal_fraction_rat [OF nd]
  have meets: "ratio_meets_minimum ?c ?t (ri_minimum_rate input) \<longleftrightarrow> ?r \<le> of_nat ?c / of_nat ?t"
    if "?o \<noteq> []"
  proof -
    have "ratio_meets_minimum ?c ?t (ri_minimum_rate input) \<longleftrightarrow>
        (of_int (int ?t * n) :: rat) \<le> of_int (int ?c * d)"
      by (simp only: ratio_meets_minimum_def nd case_prod_conv of_int_le_iff)
    also have "\<dots> \<longleftrightarrow> of_nat ?t * ?r * of_int d \<le> of_nat ?c * of_int d"
      by (simp add: f(2) mult.assoc)
    also have "\<dots> \<longleftrightarrow> of_nat ?t * ?r \<le> of_nat ?c"
      using f(1) by (simp add: mult_le_cancel_right)
    also have "\<dots> \<longleftrightarrow> ?r \<le> of_nat ?c / of_nat ?t"
      using that by (simp add: pos_le_divide_eq mult.commute)
    finally show ?thesis .
  qed
  have "count_class Conclusive xs + count_class Inconclusive xs + count_class Missing xs = length xs" for xs
  proof (induction xs)
    case (Cons x xs)
    then show ?case by (cases "snd x") (simp_all add: count_class_def)
  qed (simp add: count_class_def)
  then show ?thesis using meets by (auto simp: evaluate_run_rate_def Let_def)
qed

lemma read_occurrences_distinct:
  "read_occurrences i values found = Inr occurrences \<Longrightarrow> distinct (map fst found) \<Longrightarrow>
     distinct (map fst occurrences) \<and> length occurrences = length found + length values"
  by (induction "values" arbitrary: i found)
    (fastforce simp: and_then_Inr_iff require_Inr_iff split: option.splits)+

lemma sample_rates:
  shows "decimal_fraction ''0.95'' = (95, 100)" and "decimal_fraction ''1e-7'' = (1, 10000000)"
    and "decimal_fraction ''1'' = (1, 1)"
  by code_simp+

end
