(* ===== verification/Queue_Metrics.thy ===== *)
theory Queue_Metrics
  imports Queries Ordered_Map Complex_Main
begin

text \<open>
  The numbers the \<open>metrics\<close> command reports (\<open>src/src/queue/metrics.ts\<close>): the window, one
  accumulator for the whole of it and one per repository, and the summary of each. The divisions
  and roundings are those of IEEE doubles: a double is the rational it stands for, \<open>nearest\<close> rounds
  a rational to one (to 53 bits, ties to even).

  The calendar of the standard library is a parameter: \<open>iso_text\<close> writes an instant and \<open>parse\<close> reads a
  text, \<open>None\<close> where it is no date.
\<close>

subsection \<open>Doubles\<close>

text \<open>
  A quotient to 53 bits: of the two hundred fractional bits that are kept, which is more than any
  quotient here needs, the last one also records whether something was cut off.
\<close>

definition fraction_bits :: nat where "fraction_bits = 200"

definition nearest_ratio :: "int \<Rightarrow> int \<Rightarrow> rat" where
  "nearest_ratio p q =
     of_int (nearest_double (2 * (p * 2 ^ fraction_bits div q) + (if q dvd p * 2 ^ fraction_bits then 0 else 1)))
       / 2 ^ Suc fraction_bits"

definition nearest :: "rat \<Rightarrow> rat" where
  "nearest x =
     (case quotient_of x of
        (p, q) \<Rightarrow> if p < 0 then - nearest_ratio (- p) q else nearest_ratio p q)"

definition round3 :: "rat \<Rightarrow> rat" where
  "round3 v = nearest (of_int \<lfloor>nearest (v * 1000) + 1 / 2\<rfloor> / 1000)"

subsection \<open>The window\<close>

definition hour_ms :: int where "hour_ms = 60 * 60 * 1000"
definition default_metrics_window_hours :: int where "default_metrics_window_hours = 24"

definition parse_metrics_timestamp :: "(string \<Rightarrow> timestamp option) \<Rightarrow> string \<Rightarrow> timestamp res" where
  "parse_metrics_timestamp parse value =
     (case parse value of None \<Rightarrow> Inl (StateError TimestampInvalid) | Some t \<Rightarrow> Inr t)"

definition resolve_metrics_window ::
    "(string \<Rightarrow> timestamp option) \<Rightarrow> string option \<Rightarrow> string option \<Rightarrow> timestamp \<Rightarrow> (timestamp \<times> timestamp) res"
where
  "resolve_metrics_window parse since_text until_text now =
     and_then (case until_text of None \<Rightarrow> Inr now | Some u \<Rightarrow> parse_metrics_timestamp parse u) (\<lambda>until.
     and_then
       (case since_text of
          None \<Rightarrow> Inr (until - default_metrics_window_hours * hour_ms)
        | Some t \<Rightarrow> parse_metrics_timestamp parse t) (\<lambda>since.
     and_then (require (since < until) (StateError WindowEmpty)) (\<lambda>_.
     Inr (since, until))))"

subsection \<open>The accumulators\<close>

datatype sample_state = SampleUnverified | SampleOpen | SampleClosed | SampleMerged

record pull_sample =
  sm_state :: sample_state
  sm_observed_at :: string
  sm_reported_at :: string
  sm_completed_at :: timestamp
  sm_merged_at :: "string option"

record accumulator =
  ac_created :: "(work_status \<times> nat) list"
  ac_attempts :: nat
  ac_completed :: nat
  ac_by_delivery :: "(delivery_state \<times> nat) list"
  ac_excluded :: nat
  ac_pulls :: "(artifact_identity \<times> pull_sample) list"
  ac_blocked :: nat
  ac_cancelled :: nat

definition empty_accumulator :: accumulator where
  "empty_accumulator =
     \<lparr>ac_created = map (\<lambda>st. (st, 0)) work_statuses, ac_attempts = 0, ac_completed = 0,
      ac_by_delivery = map (\<lambda>d. (d, 0)) delivery_states, ac_excluded = 0, ac_pulls = [],
      ac_blocked = 0, ac_cancelled = 0\<rparr>"

definition bump :: "'k \<Rightarrow> nat \<Rightarrow> ('k \<times> nat) list \<Rightarrow> ('k \<times> nat) list" where
  "bump k n m = upsert k (\<lambda>v. (case v of None \<Rightarrow> 0 | Some old \<Rightarrow> old) + n) m"

definition merge_pull_request_sample :: "pull_sample option \<Rightarrow> pull_sample \<Rightarrow> pull_sample" where
  "merge_pull_request_sample existing next' =
     (case existing of
        None \<Rightarrow> next'
      | Some old \<Rightarrow>
          let old_verified = (sm_state old \<noteq> SampleUnverified);
              next_verified = (sm_state next' \<noteq> SampleUnverified);
              observation =
                (if old_verified \<noteq> next_verified then (if next_verified then next' else old)
                 else if sm_observed_at old @ CHR 0x00 # sm_reported_at old <
                         sm_observed_at next' @ CHR 0x00 # sm_reported_at next'
                 then next' else old) in
          observation\<lparr>sm_completed_at := min (sm_completed_at old) (sm_completed_at next')\<rparr>)"

definition sample_of :: "(timestamp \<Rightarrow> string) \<Rightarrow> timestamp \<Rightarrow> work_artifact \<Rightarrow> pull_sample" where
  "sample_of iso_text occurred_at artifact =
     \<lparr>sm_state =
        (case wa_verification artifact of
           Some (Verified v) \<Rightarrow>
             (case vo_state v of
                Merged \<Rightarrow> SampleMerged | Closed \<Rightarrow> SampleClosed | Open \<Rightarrow> SampleOpen
              | _ \<Rightarrow> SampleUnverified)
         | _ \<Rightarrow> SampleUnverified),
      sm_observed_at =
        (case wa_verification artifact of
           Some (Verified v) \<Rightarrow> vo_verified_at v
         | Some (Unverified attempted _) \<Rightarrow> attempted
         | None \<Rightarrow> iso_text occurred_at),
      sm_reported_at = iso_text occurred_at, sm_completed_at = occurred_at,
      sm_merged_at =
        (case wa_verification artifact of
           Some (Verified v) \<Rightarrow> (case vo_merged_at v of Some t \<Rightarrow> if t = [] then None else Some t | None \<Rightarrow> None)
         | _ \<Rightarrow> None)\<rparr>"

definition pull_requests_of :: "work_result option \<Rightarrow> work_artifact list" where
  "pull_requests_of result = filter (\<lambda>a. wa_kind a = PullRequest) (artifacts_of result)"

definition add_metrics_event :: "(timestamp \<Rightarrow> string) \<Rightarrow> metrics_event \<Rightarrow> accumulator \<Rightarrow> accumulator" where
  "add_metrics_event iso_text event a =
     (case me_body event of
        EvClaimed _ _ _ _ \<Rightarrow> a\<lparr>ac_attempts := ac_attempts a + 1\<rparr>
      | EvBlocked _ \<Rightarrow> a\<lparr>ac_blocked := ac_blocked a + 1\<rparr>
      | EvCancelled _ \<Rightarrow> a\<lparr>ac_cancelled := ac_cancelled a + 1\<rparr>
      | EvCompleted _ _ _ \<Rightarrow>
          let b = a\<lparr>ac_completed := ac_completed a + 1,
                    ac_by_delivery := bump (derive_delivery (me_result event)) 1 (ac_by_delivery a)\<rparr>;
              pulls = pull_requests_of (me_result event) in
          if pulls = [] then b\<lparr>ac_excluded := ac_excluded b + 1\<rparr>
          else
            b\<lparr>ac_pulls :=
              collect (pull_request_artifact_identity (me_repository event))
                (\<lambda>old artifact. merge_pull_request_sample old (sample_of iso_text (me_occurred_at event) artifact))
                pulls (ac_pulls b)\<rparr>
      | _ \<Rightarrow> a)"

definition add_metrics_created :: "metrics_created \<Rightarrow> accumulator \<Rightarrow> accumulator" where
  "add_metrics_created r a = a\<lparr>ac_created := bump (mc_status r) (mc_count r) (ac_created a)\<rparr>"

definition for_repository :: "string \<Rightarrow> (accumulator \<Rightarrow> accumulator) \<Rightarrow> (string \<times> accumulator) list \<Rightarrow>
    (string \<times> accumulator) list" where
  "for_repository g f m = upsert g (\<lambda>v. f (case v of None \<Rightarrow> empty_accumulator | Some a \<Rightarrow> a)) m"

definition accumulate :: "(timestamp \<Rightarrow> string) \<Rightarrow> metrics_window \<Rightarrow> accumulator \<times> (string \<times> accumulator) list" where
  "accumulate iso_text w =
     foldl (\<lambda>(all', m) e. (add_metrics_event iso_text e all', for_repository (me_repository e) (add_metrics_event iso_text e) m))
       (foldl (\<lambda>(all', m) r. (add_metrics_created r all', for_repository (mc_repository r) (add_metrics_created r) m))
         (empty_accumulator, []) (mw_created w))
       (mw_events w)"

subsection \<open>The numbers\<close>

record merge_hours =
  mh_count :: nat
  mh_median :: "rat option"
  mh_p90 :: "rat option"

record repository_metrics =
  rm_created :: "(work_status \<times> nat) list"
  rm_attempts :: nat
  rm_completed :: nat
  rm_by_delivery :: "(delivery_state \<times> nat) list"
  rm_accepted :: nat
  rm_denominator :: nat
  rm_rate :: "rat option"
  rm_open :: nat
  rm_unavailable :: nat
  rm_excluded :: nat
  rm_blocked :: nat
  rm_cancelled :: nat
  rm_merge_hours :: merge_hours

definition summarize :: "rat list \<Rightarrow> merge_hours" where
  "summarize samples =
     (if samples = [] then \<lparr>mh_count = 0, mh_median = None, mh_p90 = None\<rparr>
      else
        (let sorted = sort samples; n = length sorted; middle = n div 2;
             median =
               (if odd n then sorted ! middle
                else round3 (nearest (nearest (sorted ! (middle - 1) + sorted ! middle) / 2)));
             rank = min (int n) (max 1 \<lceil>nearest (nearest (9 / 10) * of_nat n)\<rceil>) in
         \<lparr>mh_count = n, mh_median = Some median, mh_p90 = Some (sorted ! nat (rank - 1))\<rparr>))"

definition merge_hours_of :: "(string \<Rightarrow> timestamp option) \<Rightarrow> pull_sample list \<Rightarrow> rat list" where
  "merge_hours_of parse samples =
     List.map_filter
       (\<lambda>m. if sm_state m \<noteq> SampleMerged then None
            else
              (case sm_merged_at m of
                 None \<Rightarrow> None
               | Some text' \<Rightarrow>
                   (case parse text' of
                      None \<Rightarrow> None
                    | Some merged_at \<Rightarrow>
                        Some (round3 (nearest (of_int (merged_at - sm_completed_at m) / of_int hour_ms))))))
       samples"

definition count_state :: "sample_state \<Rightarrow> pull_sample list \<Rightarrow> nat" where
  "count_state st samples = length (filter (\<lambda>m. sm_state m = st) samples)"

definition finalize :: "(string \<Rightarrow> timestamp option) \<Rightarrow> accumulator \<Rightarrow> repository_metrics" where
  "finalize parse a =
     (let samples = map snd (ac_pulls a);
          accepted = count_state SampleMerged samples;
          closed = count_state SampleClosed samples in
      \<lparr>rm_created = ac_created a, rm_attempts = ac_attempts a, rm_completed = ac_completed a,
       rm_by_delivery = ac_by_delivery a, rm_accepted = accepted, rm_denominator = accepted + closed,
       rm_rate =
         (if accepted + closed = 0 then None
          else Some (round3 (nearest (of_nat accepted / of_nat (accepted + closed))))),
       rm_open = count_state SampleOpen samples,
       rm_unavailable = count_state SampleUnverified samples, rm_excluded = ac_excluded a,
       rm_blocked = ac_blocked a, rm_cancelled = ac_cancelled a,
       rm_merge_hours = summarize (merge_hours_of parse samples)\<rparr>)"

record queue_metrics_result =
  qm_since :: timestamp
  qm_until :: timestamp
  qm_repository :: "string option"
  qm_all :: repository_metrics
  qm_repositories :: "(string \<times> repository_metrics) list"

definition compute_queue_metrics ::
    "(timestamp \<Rightarrow> string) \<Rightarrow> (string \<Rightarrow> timestamp option) \<Rightarrow> metrics_window \<Rightarrow> queue_metrics_result"
where
  "compute_queue_metrics iso_text parse w =
     (case accumulate iso_text w of
        (all', m) \<Rightarrow>
          \<lparr>qm_since = mw_since w, qm_until = mw_until w, qm_repository = mw_repository w,
           qm_all = finalize parse all',
           qm_repositories = map (\<lambda>(g, a). (g, finalize parse a)) (sort_key fst m)\<rparr>)"

definition queue_metrics ::
    "(timestamp \<Rightarrow> string) \<Rightarrow> (string \<Rightarrow> timestamp option) \<Rightarrow> string option \<Rightarrow> string option \<Rightarrow> string option \<Rightarrow>
       timestamp \<Rightarrow> store \<Rightarrow> queue_metrics_result res"
where
  "queue_metrics iso_text parse repository since_text until_text now s =
     and_then (resolve_metrics_window parse since_text until_text now) (\<lambda>(since, until).
     and_then (metrics_window (Some since) (Some until) repository s) (\<lambda>w.
     Inr (compute_queue_metrics iso_text parse w)))"


subsection \<open>What the numbers count\<close>

text \<open>The pull requests of a list of completions, with their identity, in the order of the loop.\<close>

definition reported_samples ::
    "(timestamp \<Rightarrow> string) \<Rightarrow> metrics_event list \<Rightarrow> (artifact_identity \<times> pull_sample) list"
where
  "reported_samples iso_text events =
     concat (map
       (\<lambda>e. case me_body e of
          EvCompleted _ _ _ \<Rightarrow>
            map (\<lambda>a. (pull_request_artifact_identity (me_repository e) a, sample_of iso_text (me_occurred_at e) a))
              (pull_requests_of (me_result e))
        | _ \<Rightarrow> [])
       events)"

definition event_count :: "(event_body \<Rightarrow> bool) \<Rightarrow> metrics_event list \<Rightarrow> nat" where
  "event_count p events = length (filter (\<lambda>e. p (me_body e)) events)"

definition is_completed :: "event_body \<Rightarrow> bool" where
  "is_completed b = (case b of EvCompleted _ _ _ \<Rightarrow> True | _ \<Rightarrow> False)"

definition is_claimed :: "event_body \<Rightarrow> bool" where
  "is_claimed b = (case b of EvClaimed _ _ _ _ \<Rightarrow> True | _ \<Rightarrow> False)"

definition is_blocked :: "event_body \<Rightarrow> bool" where
  "is_blocked b = (case b of EvBlocked _ \<Rightarrow> True | _ \<Rightarrow> False)"

definition is_cancelled :: "event_body \<Rightarrow> bool" where
  "is_cancelled b = (case b of EvCancelled _ \<Rightarrow> True | _ \<Rightarrow> False)"

definition count_at :: "'k \<Rightarrow> ('k \<times> nat) list \<Rightarrow> nat" where
  "count_at k m = (case map_of m k of None \<Rightarrow> 0 | Some n \<Rightarrow> n)"

lemma count_at_bump: "count_at k (bump j n m) = count_at k m + (if k = j then n else 0)"
  by (auto simp: count_at_def bump_def map_of_upsert)

text \<open>What an accumulator holds after a list of created rows and a list of events.\<close>

definition accumulated ::
    "(timestamp \<Rightarrow> string) \<Rightarrow> metrics_created list \<Rightarrow> metrics_event list \<Rightarrow> accumulator \<Rightarrow> bool"
where
  "accumulated iso_text created events a =
     ((\<forall>st. count_at st (ac_created a) =
         sum_list (map mc_count (filter (\<lambda>r. mc_status r = st) created))) \<and>
      ac_attempts a = event_count is_claimed events \<and>
      ac_blocked a = event_count is_blocked events \<and>
      ac_cancelled a = event_count is_cancelled events \<and>
      ac_completed a = event_count is_completed events \<and>
      (\<forall>d. count_at d (ac_by_delivery a) =
         length (filter (\<lambda>e. is_completed (me_body e) \<and> derive_delivery (me_result e) = d) events)) \<and>
      ac_excluded a =
        length (filter (\<lambda>e. is_completed (me_body e) \<and> pull_requests_of (me_result e) = []) events) \<and>
      ac_pulls a =
        collect fst (\<lambda>old x. merge_pull_request_sample old (snd x)) (reported_samples iso_text events) [])"

lemma accumulated_empty: "accumulated iso_text [] [] empty_accumulator"
  by (auto simp: accumulated_def empty_accumulator_def event_count_def reported_samples_def count_at_def
      split: option.splits dest!: map_of_SomeD)

lemma collect_map: "collect key step (map f xs) m = collect (key \<circ> f) (\<lambda>v x. step v (f x)) xs m"
  by (induction xs arbitrary: m) simp_all

lemma collect_append: "collect key step (xs @ ys) m = collect key step ys (collect key step xs m)"
  by (simp add: collect_def)

lemma accumulated_created:
  "accumulated iso_text created events a \<Longrightarrow> accumulated iso_text (created @ [r]) events (add_metrics_created r a)"
  by (simp add: accumulated_def add_metrics_created_def count_at_bump)

lemma accumulated_event:
  "accumulated iso_text created events a \<Longrightarrow>
     accumulated iso_text created (events @ [e]) (add_metrics_event iso_text e a)"
  by (cases "me_body e")
    (auto simp: accumulated_def add_metrics_event_def event_count_def Let_def is_claimed_def is_blocked_def
      is_cancelled_def is_completed_def reported_samples_def count_at_bump collect_append collect_map o_def)


text \<open>The state of the two loops: the total, and one accumulator for every repository met so far.\<close>

definition accumulators_ok ::
    "(timestamp \<Rightarrow> string) \<Rightarrow> metrics_created list \<Rightarrow> metrics_event list \<Rightarrow>
       accumulator \<times> (string \<times> accumulator) list \<Rightarrow> bool"
where
  "accumulators_ok iso_text created events st =
     (accumulated iso_text created events (fst st) \<and> distinct (map fst (snd st)) \<and>
      fst ` set (snd st) = mc_repository ` set created \<union> me_repository ` set events \<and>
      (\<forall>g. accumulated iso_text (filter (\<lambda>r. mc_repository r = g) created)
         (filter (\<lambda>e. me_repository e = g) events)
         (case map_of (snd st) g of None \<Rightarrow> empty_accumulator | Some a \<Rightarrow> a)))"

lemma map_of_for_repository:
  "map_of (for_repository g f m) g' =
     (if g' = g then Some (f (case map_of m g of None \<Rightarrow> empty_accumulator | Some a \<Rightarrow> a)) else map_of m g')"
  by (simp add: for_repository_def map_of_upsert)

lemma for_repository_keys:
  "fst ` set (for_repository g f m) = insert g (fst ` set m)"
  "distinct (map fst m) \<Longrightarrow> distinct (map fst (for_repository g f m))"
  by (simp_all add: for_repository_def keys_upsert distinct_upsert)

lemma accumulators_ok_created:
  "accumulators_ok iso_text created events (a, m) \<Longrightarrow>
     accumulators_ok iso_text (created @ [r]) events
       (add_metrics_created r a, for_repository (mc_repository r) (add_metrics_created r) m)"
  by (auto simp: accumulators_ok_def accumulated_created for_repository_keys map_of_for_repository)

lemma accumulators_ok_event:
  "accumulators_ok iso_text created events (a, m) \<Longrightarrow>
     accumulators_ok iso_text created (events @ [e])
       (add_metrics_event iso_text e a, for_repository (me_repository e) (add_metrics_event iso_text e) m)"
  by (auto simp: accumulators_ok_def accumulated_event for_repository_keys map_of_for_repository)

lemma foldl_prefixes:
  assumes "P [] st" and "\<And>ys x st. P ys st \<Longrightarrow> P (ys @ [x]) (f st x)"
  shows "P xs (foldl f st xs)"
proof (induction xs rule: rev_induct)
  case Nil
  then show ?case using assms(1) by simp
next
  case (snoc x xs)
  then show ?case using assms(2) by simp
qed

lemma accumulate_ok: "accumulators_ok iso_text (mw_created w) (mw_events w) (accumulate iso_text w)"
proof -
  have "accumulators_ok iso_text [] [] (empty_accumulator, [])"
    by (simp add: accumulators_ok_def accumulated_empty)
  then have "accumulators_ok iso_text (mw_created w) []
      (foldl (\<lambda>(all', m) r. (add_metrics_created r all', for_repository (mc_repository r) (add_metrics_created r) m))
        (empty_accumulator, []) (mw_created w))"
    by (rule foldl_prefixes [where P = "\<lambda>created st. accumulators_ok iso_text created [] st"])
      (auto intro: accumulators_ok_created)
  then show ?thesis
    unfolding accumulate_def
    by (rule foldl_prefixes [where P = "\<lambda>events st. accumulators_ok iso_text (mw_created w) events st"])
      (auto intro: accumulators_ok_event)
qed

text \<open>What the numbers of one repository, or of the whole window, must be.\<close>

definition numbers_of :: "(timestamp \<Rightarrow> string) \<Rightarrow> metrics_event list \<Rightarrow> repository_metrics \<Rightarrow> bool" where
  "numbers_of iso_text events m =
     (rm_attempts m = event_count is_claimed events \<and> rm_completed m = event_count is_completed events \<and>
      rm_blocked m = event_count is_blocked events \<and> rm_cancelled m = event_count is_cancelled events \<and>
      rm_excluded m =
        length (filter (\<lambda>e. is_completed (me_body e) \<and> pull_requests_of (me_result e) = []) events) \<and>
      rm_accepted m \<le> rm_denominator m \<and>
      rm_denominator m + rm_open m + rm_unavailable m = card (fst ` set (reported_samples iso_text events)))"

lemma numbers_of_accumulated:
  assumes "accumulated iso_text created events a"
  shows "numbers_of iso_text events (finalize parse a)"
proof -
  have states: "count_state SampleMerged xs + count_state SampleClosed xs + count_state SampleOpen xs +
      count_state SampleUnverified xs = length xs" for xs
  proof (induction xs)
    case (Cons x xs)
    then show ?case by (cases "sm_state x") (simp_all add: count_state_def)
  qed (simp add: count_state_def)
  have pulls: "ac_pulls a =
      collect fst (\<lambda>old x. merge_pull_request_sample old (snd x)) (reported_samples iso_text events) []"
    using assms by (simp add: accumulated_def)
  have "distinct (map fst (ac_pulls a))" unfolding pulls by (rule distinct_collect) simp
  then have "length (ac_pulls a) = card (fst ` set (ac_pulls a))"
    by (metis distinct_card length_map list.set_map)
  also have "fst ` set (ac_pulls a) = fst ` set (reported_samples iso_text events)"
    by (simp add: pulls keys_collect)
  finally show ?thesis
    using assms states [of "map snd (ac_pulls a)"]
    by (simp add: numbers_of_def finalize_def Let_def accumulated_def)
qed

lemma sum_list_indicator:
  "distinct gs \<Longrightarrow> k \<in> set gs \<Longrightarrow> (\<Sum>g\<leftarrow>gs. if k = g then n else 0 :: nat) = n"
proof (induction gs)
  case (Cons g gs)
  have "k \<notin> set gs \<Longrightarrow> (\<Sum>g\<leftarrow>gs. if k = g then n else 0) = 0"
    by (induction gs) auto
  with Cons show ?case by auto
qed simp

lemma length_filter_groups:
  assumes "distinct gs" and "key ` set xs \<subseteq> set gs"
  shows "(\<Sum>g\<leftarrow>gs. length (filter P (filter (\<lambda>x. key x = g) xs))) = length (filter P xs)"
  using assms(2)
proof (induction xs)
  case Nil
  then show ?case by simp
next
  case (Cons x xs)
  have split: "length (filter P (filter (\<lambda>x. key x = g) (x # xs))) =
      (if key x = g then (if P x then 1 else 0) else 0) + length (filter P (filter (\<lambda>x. key x = g) xs))" for g
    by simp
  show ?case
    unfolding split sum_list_addf using Cons sum_list_indicator [OF assms(1), of "key x"] by simp
qed


end
