(* ===== verification/Canonical_Json.thy ===== *)
theory Canonical_Json
  imports Json_Values Release_Versions
begin

text \<open>
  Canonical JSON and time-ordered identifiers (\<open>src/src/control/encoding.ts\<close>). Of the numbers only
  the safe integers are in the model; for the others \<open>encode_json\<close> is \<open>None\<close>, as it is for a
  number that is not finite, where the code throws.
\<close>

subsection \<open>Text\<close>

definition hex_digit_lower :: "int \<Rightarrow> char" where
  "hex_digit_lower n = char_of (if n < 10 then 48 + n else 87 + n)"

definition backslash :: char where "backslash = CHR 0x5C"
definition quotation :: char where "quotation = CHR 0x22"

text \<open>\<open>JSON.stringify\<close> of one code unit inside a string.\<close>

definition short_escapes :: "(char \<times> char) list" where
  "short_escapes =
     [(quotation, quotation), (backslash, backslash), (CHR 0x08, CHR ''b''), (CHR 0x09, CHR ''t''),
      (CHR 0x0A, CHR ''n''), (CHR 0x0C, CHR ''f''), (CHR 0x0D, CHR ''r'')]"

definition json_char :: "char \<Rightarrow> string" where
  "json_char c =
     (case map_of short_escapes c of
        Some e \<Rightarrow> [backslash, e]
      | None \<Rightarrow>
          if code_unit c < 32
          then [backslash, CHR ''u'', CHR ''0'', CHR ''0'', hex_digit_lower (code_unit c div 16),
                hex_digit_lower (code_unit c mod 16)]
          else [c])"

definition json_string :: "string \<Rightarrow> string" where
  "json_string s = quotation # concat (map json_char s) @ [quotation]"

definition number_json :: "jsnum \<Rightarrow> string option" where
  "number_json n =
     (if \<not> is_safe_integer n then None
      else if js_int n < 0 then Some (CHR ''-'' # decimal_text (- js_int n))
      else Some (decimal_text (js_int n)))"

fun join_comma :: "string list \<Rightarrow> string" where
  "join_comma [] = []"
| "join_comma [t] = t"
| "join_comma (t # u # ts) = t @ CHR '','' # join_comma (u # ts)"

subsection \<open>The encoding\<close>

fun encode_json :: "json \<Rightarrow> string option" where
  "encode_json JNull = Some ''null''"
| "encode_json (JBool b) = Some (if b then ''true'' else ''false'')"
| "encode_json (JString s) = Some (json_string s)"
| "encode_json (JNumber n) = number_json n"
| "encode_json (JArray xs) =
     map_option (\<lambda>ts. CHR ''['' # join_comma ts @ '']'') (those (map encode_json xs))"
| "encode_json (JObject members) =
     map_option
       (\<lambda>ps. CHR ''{'' #
          join_comma (map (\<lambda>(k, t). json_string k @ CHR '':'' # t) (sort_key fst ps)) @ ''}'')
       (those (map (\<lambda>(k, v). map_option (Pair k) (encode_json v)) members))"

subsection \<open>Identifiers\<close>

text \<open>\<open>/^[0-9a-f]{8}-[0-9a-f]{4}-7[0-9a-f]{3}-[89ab][0-9a-f]{3}-[0-9a-f]{12}$/\<close>.\<close>

definition is_uuid_v7 :: "string \<Rightarrow> bool" where
  "is_uuid_v7 value =
     (case split_char CHR ''-'' value of
        [a, b, c, d, e] \<Rightarrow>
          length a = 8 \<and> length b = 4 \<and> length c = 4 \<and> length d = 4 \<and> length e = 12 \<and>
          list_all is_hex_lower (a @ b @ c @ d @ e) \<and> prefix ''7'' c \<and> hd d \<in> set ''89ab''
      | _ \<Rightarrow> False)"

definition byte_hex :: "int \<Rightarrow> string" where
  "byte_hex b = [hex_digit_lower (b div 16), hex_digit_lower (b mod 16)]"

text \<open>
  The sixteen bytes: the first six are the milliseconds, the others are random (\<open>random\<close> are all
  sixteen that were drawn), with the version and the variant in bytes 6 and 8. The code draws the
  bytes after the range check.
\<close>

definition uuid_bytes :: "int \<Rightarrow> int list \<Rightarrow> int list" where
  "uuid_bytes milliseconds random =
     map (\<lambda>i. milliseconds div 256 ^ (5 - i) mod 256) [0..<6] @
     [(random ! 6) mod 16 + 112, random ! 7, (random ! 8) mod 64 + 128] @ drop 9 random"

definition uuid_v7 :: "jsnum \<Rightarrow> int list \<Rightarrow> string option" where
  "uuid_v7 milliseconds random =
     (if \<not> is_safe_integer milliseconds \<or> js_int milliseconds < 0 \<or>
         281474976710655 < js_int milliseconds
      then None
      else
        (let hex = concat (map byte_hex (uuid_bytes (js_int milliseconds) random)) in
         Some (take 8 hex @ ''-'' @ take 4 (drop 8 hex) @ ''-'' @ take 4 (drop 12 hex) @ ''-'' @
           take 4 (drop 16 hex) @ ''-'' @ drop 20 hex)))"

subsection \<open>The code is uniquely readable\<close>

text \<open>The value with the members of every object in the order of their names.\<close>

fun canonical :: "json \<Rightarrow> json" where
  "canonical (JArray xs) = JArray (map canonical xs)"
| "canonical (JObject members) = JObject (sort_key fst (map (\<lambda>(k, v). (k, canonical v)) members))"
| "canonical v = v"

fun render :: "json \<Rightarrow> string" where
  "render JNull = ''null''"
| "render (JBool b) = (if b then ''true'' else ''false'')"
| "render (JString s) = json_string s"
| "render (JNumber n) = the (number_json n)"
| "render (JArray xs) = CHR ''['' # join_comma (map render xs) @ '']''"
| "render (JObject members) =
     CHR ''{'' # join_comma (map (\<lambda>(k, v). json_string k @ CHR '':'' # render v) members) @ ''}''"

fun encodable :: "json \<Rightarrow> bool" where
  "encodable (JNumber n) = is_safe_integer n"
| "encodable (JArray xs) = (\<forall>x \<in> set xs. encodable x)"
| "encodable (JObject members) = (\<forall>m \<in> set members. encodable (snd m))"
| "encodable v = True"

lemma those_map_Some: "those (map f xs) = (if \<exists>x \<in> set xs. f x = None then None else Some (map (the \<circ> f) xs))"
  by (induction xs) (auto split: option.splits)

lemma sort_key_map_fst:
  fixes xs :: "('k::linorder \<times> 'v) list"
  shows "sort_key fst (map (\<lambda>m. (fst m, f (snd m))) xs) = map (\<lambda>m. (fst m, f (snd m))) (sort_key fst xs)"
proof -
  have "insort_key fst (fst x, f (snd x)) (map (\<lambda>m. (fst m, f (snd m))) ys) =
      map (\<lambda>m. (fst m, f (snd m))) (insort_key fst x ys)" for x and ys :: "('k \<times> 'v) list"
    by (induction ys) auto
  then show ?thesis by (induction xs) (simp_all add: sort_key_def)
qed

lemma encode_json_render:
  "encode_json v = (if encodable v then Some (render (canonical v)) else None)"
proof (induction v)
  case (JArray xs)
  then show ?case by (auto simp: those_map_Some o_def intro!: arg_cong [of _ _ join_comma])
next
  case (JObject members)
  let ?f = "\<lambda>(k, v). map_option (Pair k) (encode_json v)"
  have v: "encode_json (snd m) = (if encodable (snd m) then Some (render (canonical (snd m))) else None)"
    if "m \<in> set members" for m
    using JObject that by (cases m) auto
  then have none: "(\<exists>m \<in> set members. ?f m = None) \<longleftrightarrow> \<not> encodable (JObject members)"
    by (force split: prod.splits if_splits)
  show ?case
  proof (cases "encodable (JObject members)")
    case True
    then have "map (the \<circ> ?f) members = map (\<lambda>m. (fst m, (render \<circ> canonical) (snd m))) members"
      using v by (auto split: prod.splits)
    with True none show ?thesis
      by (simp only: encode_json.simps those_map_Some if_False option.map sort_key_map_fst)
        (simp add: case_prod_unfold o_def sort_key_map_fst [of "\<lambda>v. render (canonical v)" members]
          sort_key_map_fst [of canonical members])
  next
    case False
    with none show ?thesis by (simp only: encode_json.simps those_map_Some) simp
  qed
qed (simp_all add: number_json_def)


text \<open>What may follow a value inside a canonical text.\<close>

definition delimited :: "string \<Rightarrow> bool" where
  "delimited r = (case r of [] \<Rightarrow> True | c # _ \<Rightarrow> c \<in> set '',]}'')"

lemma code_unit_hex: "0 \<le> n \<Longrightarrow> n < 16 \<Longrightarrow> code_unit (hex_digit_lower n) = (if n < 10 then 48 + n else 87 + n)"
  by (simp add: code_unit_def hex_digit_lower_def)

lemma hex_digit_lower_inj:
  assumes "0 \<le> a" and "a < 16" and "0 \<le> b" and "b < 16" and "hex_digit_lower a = hex_digit_lower b"
  shows "a = b"
proof -
  have "(if a < 10 then 48 + a else 87 + a) = (if b < 10 then 48 + b else 87 + b)"
    using code_unit_hex [OF assms(1,2)] code_unit_hex [OF assms(3,4)] assms(5) by metis
  then show ?thesis by (simp split: if_splits)
qed

lemma code_unit_bounds: "0 \<le> code_unit c" "code_unit c < 256"
  by (simp_all add: code_unit_def of_char_def)

lemma code_unit_inj: "code_unit c = code_unit d \<longleftrightarrow> c = d"
  by (auto simp: code_unit_def)

lemma short_escapes_unique:
  "map_of short_escapes c = Some e \<Longrightarrow> map_of short_escapes d = Some e \<Longrightarrow> c = d"
  "map_of short_escapes c = Some e \<Longrightarrow> e \<noteq> CHR ''u''"
  "map_of short_escapes c = None \<Longrightarrow> c \<noteq> backslash \<and> c \<noteq> quotation"
  by (auto simp: short_escapes_def quotation_def backslash_def split: if_splits)

lemma json_char_not_quotation: "json_char c \<noteq> [] \<and> hd (json_char c) \<noteq> quotation"
  using short_escapes_unique(3) [of c]
  by (auto simp: json_char_def split: option.splits) (auto simp: quotation_def backslash_def)

lemma json_char_unique:
  assumes "json_char c @ x = json_char d @ y"
  shows "c = d \<and> x = y"
proof -
  have bounds: "0 \<le> code_unit e div 16" "code_unit e div 16 < 16" "0 \<le> code_unit e mod 16"
    "code_unit e mod 16 < 16" for e
    using code_unit_bounds [of e] by (simp_all add: div_less_iff_less_mult)
  have hex: "c = d" if "hex_digit_lower (code_unit c div 16) = hex_digit_lower (code_unit d div 16)"
    "hex_digit_lower (code_unit c mod 16) = hex_digit_lower (code_unit d mod 16)"
  proof -
    have "code_unit c div 16 = code_unit d div 16" "code_unit c mod 16 = code_unit d mod 16"
      using hex_digit_lower_inj bounds that by blast+
    then have "code_unit c = code_unit d" by (metis mult_div_mod_eq)
    then show ?thesis by (simp add: code_unit_inj)
  qed
  show ?thesis
  proof (cases "map_of short_escapes c")
    case c: (Some e)
    show ?thesis
    proof (cases "map_of short_escapes d")
      case (Some e')
      with c assms short_escapes_unique(1) [of c e d] show ?thesis by (simp add: json_char_def)
    next
      case None
      with c assms short_escapes_unique(2) [OF c] short_escapes_unique(3) [OF None] show ?thesis
        by (simp add: json_char_def split: if_splits)
    qed
  next
    case c: None
    show ?thesis
    proof (cases "map_of short_escapes d")
      case (Some e')
      with c assms short_escapes_unique(2) [OF Some] short_escapes_unique(3) [OF c] show ?thesis
        by (simp add: json_char_def split: if_splits)
    next
      case None
      with c assms short_escapes_unique(3) [OF c] short_escapes_unique(3) [OF None] show ?thesis
        by (auto simp: json_char_def split: if_splits intro: hex)
    qed
  qed
qed

lemma json_string_unique:
  assumes "json_string s @ r = json_string t @ r'"
  shows "s = t \<and> r = r'"
proof -
  have main: "s = t \<and> r = r'"
    if "concat (map json_char s) @ quotation # r = concat (map json_char t) @ quotation # r'" for s t
    using that
  proof (induction s arbitrary: t)
    case Nil
    show ?case
    proof (cases t)
      case (Cons d u)
      with Nil json_char_not_quotation [of d] show ?thesis by (auto dest!: arg_cong [of _ _ hd])
    qed (use Nil in simp)
  next
    case (Cons c s)
    show ?case
    proof (cases t)
      case Nil
      with Cons.prems json_char_not_quotation [of c] show ?thesis
        by (auto dest!: arg_cong [of _ _ hd])
    next
      case (Cons d u)
      with Cons.prems have "json_char c @ concat (map json_char s) @ quotation # r =
          json_char d @ concat (map json_char u) @ quotation # r'" by simp
      with json_char_unique have "c = d" "concat (map json_char s) @ quotation # r = concat (map json_char u) @ quotation # r'"
        by blast+
      with Cons.IH Cons show ?thesis by simp
    qed
  qed
  show ?thesis by (rule main) (use assms in \<open>simp add: json_string_def\<close>)
qed


lemma number_json_Some: "is_safe_integer n \<Longrightarrow> \<exists>t. number_json n = Some t"
  by (simp add: number_json_def)

lemma number_json_shape:
  assumes "is_safe_integer n" and "number_json n = Some t"
  shows "t \<noteq> []" and "hd t = CHR ''-'' \<or> is_digit_char (hd t)"
    and "list_all is_digit_char (tl t)"
  using assms decimal_text_numeral [of "js_int n"] decimal_text_numeral [of "- js_int n"]
  by (auto simp: number_json_def numeral_text_def list_all_iff dest: list.set_sel split: if_splits)

lemma number_json_inj:
  assumes "is_safe_integer n" and "is_safe_integer m" and "number_json n = number_json m"
  shows "n = m"
proof -
  obtain j k where n: "n = JInt j" and m: "m = JInt k" using assms(1,2) by (metis is_safe_integerE)
  have digit: "hd (decimal_text i) \<noteq> CHR ''-''" if "0 \<le> i" for i
    using decimal_text_numeral [OF that]
    by (cases "decimal_text i") (auto simp: numeral_text_def is_digit_char_def code_unit_def)
  have neg: "CHR ''-'' # decimal_text a \<noteq> decimal_text b" if "0 \<le> b" for a b
    using digit [OF that] by (metis list.sel(1))
  have inj: "decimal_text a = decimal_text b \<Longrightarrow> a = b" if "0 \<le> a" "0 \<le> b" for a b
    using decimal_text_value that by metis
  show ?thesis
    using assms neg [of j] neg [of k] inj [of j k] inj [of "- j" "- k"]
    by (auto simp: n m number_json_def split: if_splits)
qed

lemma number_json_unique:
  assumes "is_safe_integer n" and "is_safe_integer m"
    and "the (number_json n) @ r = the (number_json m) @ r'" and "delimited r" and "delimited r'"
  shows "n = m \<and> r = r'"
proof -
  obtain s t where s: "number_json n = Some s" and t: "number_json m = Some t"
    using assms(1,2) number_json_Some by blast
  have stop: "takeWhile is_digit_char (u @ v) = u" if "list_all is_digit_char u" "delimited v" for u v
  proof -
    have "takeWhile is_digit_char v = []"
      using that(2) by (cases v) (auto simp: delimited_def is_digit_char_def code_unit_def)
    then show ?thesis using that(1) by (simp add: takeWhile_append list_all_iff)
  qed
  note ss = number_json_shape [OF assms(1) s] and tt = number_json_shape [OF assms(2) t]
  have "hd s = hd t" and rest: "tl s @ r = tl t @ r'"
    using assms(3) s t ss(1) tt(1) by (cases s; cases t; simp)+
  have "tl s = tl t" using arg_cong [OF rest, of "takeWhile is_digit_char"] stop assms(4,5) ss(3) tt(3) by metis
  with \<open>hd s = hd t\<close> ss(1) tt(1) have "s = t" by (metis list.expand)
  with rest number_json_inj [OF assms(1,2)] s t show ?thesis by simp
qed

text \<open>The first character of a text tells the constructor of its value.\<close>

fun lead :: "json \<Rightarrow> nat" where
  "lead JNull = 0"
| "lead (JBool b) = (if b then 1 else 2)"
| "lead (JString s) = 3"
| "lead (JNumber n) = 4"
| "lead (JArray xs) = 5"
| "lead (JObject ms) = 6"

definition lead_char :: "char \<Rightarrow> nat" where
  "lead_char c =
     (if c = CHR ''n'' then 0 else if c = CHR ''t'' then 1 else if c = CHR ''f'' then 2
      else if c = quotation then 3 else if c = CHR ''['' then 5 else if c = CHR ''{'' then 6 else 4)"

lemma render_lead:
  assumes "encodable v"
  shows "render v \<noteq> [] \<and> lead_char (hd (render v)) = lead v \<and> hd (render v) \<notin> set '']},''"
proof (cases v)
  case (JNumber n)
  with assms number_json_Some obtain t where t: "number_json n = Some t" by fastforce
  have n: "is_safe_integer n" using assms JNumber by simp
  have "lead_char c = 4 \<and> c \<notin> set '']},''" if "c = CHR ''-'' \<or> is_digit_char c" for c
  proof -
    have "c \<notin> set ''ntf[{]},'' \<union> {quotation}"
      using that by (auto simp: quotation_def is_digit_char_def code_unit_def)
    then show ?thesis by (simp add: lead_char_def)
  qed
  with number_json_shape [OF n t] show ?thesis by (simp add: JNumber t)
qed (auto simp: lead_char_def quotation_def json_string_def)


lemma join_comma_Cons: "join_comma (t # ts) = t @ (if ts = [] then [] else CHR '','' # join_comma ts)"
  by (cases ts) simp_all

lemma join_comma_unique:
  assumes "\<And>x y r r'. x \<in> set xs \<Longrightarrow> y \<in> set ys \<Longrightarrow> f x @ r = f y @ r' \<Longrightarrow> delimited r \<Longrightarrow> delimited r' \<Longrightarrow>
      x = y \<and> r = r'"
    and "\<And>x. x \<in> set xs \<union> set ys \<Longrightarrow> f x \<noteq> [] \<and> hd (f x) \<noteq> c"
    and "c \<in> {CHR '']'', CHR ''}''}"
    and "join_comma (map f xs) @ c # r = join_comma (map f ys) @ c # r'"
  shows "xs = ys \<and> r = r'"
  using assms(1,2,4)
proof (induction xs arbitrary: ys)
  case Nil
  show ?case
  proof (cases ys)
    case (Cons y ys')
    with Nil.prems(2) [of y] Nil.prems(3) show ?thesis
      by (cases "f y") (auto simp: join_comma_Cons)
  qed (use Nil.prems in simp)
next
  case (Cons x xs)
  show ?case
  proof (cases ys)
    case Nil
    with Cons.prems(2) [of x] Cons.prems(3) show ?thesis
      by (cases "f x") (auto simp: join_comma_Cons)
  next
    case ys: (Cons y ys')
    let ?tail = "\<lambda>zs q. (if zs = [] then [] else CHR '','' # join_comma (map f zs)) @ c # q"
    have d: "delimited (?tail zs q)" for zs q using assms(3) by (auto simp: delimited_def)
    have "f x @ ?tail xs r = f y @ ?tail ys' r'"
      using Cons.prems(3) by (simp add: ys join_comma_Cons)
    then have "x = y" and rest: "?tail xs r = ?tail ys' r'"
      using Cons.prems(1) [of x y "?tail xs r" "?tail ys' r'"] d ys by (meson list.set_intros(1))+
    show ?thesis
    proof (cases "xs = [] \<or> ys' = []")
      case True
      with rest assms(3) \<open>x = y\<close> ys show ?thesis by (auto split: if_splits)
    next
      case False
      have "xs = ys' \<and> r = r'"
      proof (rule Cons.IH)
        show "join_comma (map f xs) @ c # r = join_comma (map f ys') @ c # r'" using rest False by simp
        show "p = q \<and> t = t'" if "p \<in> set xs" "q \<in> set ys'" "f p @ t = f q @ t'" "delimited t" "delimited t'"
          for p q t t'
          by (rule Cons.prems(1)) (use that ys in simp_all)
        show "f p \<noteq> [] \<and> hd (f p) \<noteq> c" if "p \<in> set xs \<union> set ys'" for p
          by (rule Cons.prems(2)) (use that ys in auto)
      qed
      with \<open>x = y\<close> ys show ?thesis by simp
    qed
  qed
qed

lemma render_unique:
  "encodable v \<Longrightarrow> encodable w \<Longrightarrow> render v @ r = render w @ r' \<Longrightarrow> delimited r \<Longrightarrow> delimited r' \<Longrightarrow>
     v = w \<and> r = r'"
proof (induction v arbitrary: w r r')
  case (JArray xs)
  have "lead w = 5" using render_lead [OF JArray.prems(1)] render_lead [OF JArray.prems(2)] JArray.prems(3)
    by (metis hd_append2 lead.simps(5))
  then obtain ys where w: "w = JArray ys" by (cases w) (auto split: if_splits)
  have "xs = ys \<and> r = r'"
  proof (rule join_comma_unique [of xs ys render "CHR '']''"])
    show "x = y \<and> q = q'" if "x \<in> set xs" "y \<in> set ys" "render x @ q = render y @ q'" "delimited q" "delimited q'"
      for x y q q'
      using JArray.IH [OF that(1) _ _ that(3-5)] JArray.prems(1,2) that(1,2) w by simp
    show "render x \<noteq> [] \<and> hd (render x) \<noteq> CHR '']''" if "x \<in> set xs \<union> set ys" for x
      using render_lead [of x] JArray.prems(1,2) that w by auto
  qed (use JArray.prems w in simp_all)
  then show ?case by (simp add: w)
next
  case (JObject ms)
  have "lead w = 6" using render_lead [OF JObject.prems(1)] render_lead [OF JObject.prems(2)] JObject.prems(3)
    by (metis hd_append2 lead.simps(6))
  then obtain ns where w: "w = JObject ns" by (cases w) (auto split: if_splits)
  let ?f = "\<lambda>(k, v). json_string k @ CHR '':'' # render v"
  have "ms = ns \<and> r = r'"
  proof (rule join_comma_unique [of ms ns ?f "CHR ''}''"])
    show "x = y \<and> q = q'" if "x \<in> set ms" "y \<in> set ns" "?f x @ q = ?f y @ q'" "delimited q" "delimited q'"
      for x y q q'
    proof -
      obtain k v l u where x: "x = (k, v)" and y: "y = (l, u)" by fastforce
      have "json_string k @ CHR '':'' # render v @ q = json_string l @ CHR '':'' # render u @ q'"
        using that(3) by (simp add: x y)
      with json_string_unique have "k = l" and "CHR '':'' # render v @ q = CHR '':'' # render u @ q'" by blast+
      moreover have "encodable v" "encodable u" using JObject.prems(1,2) that(1,2) w x y by auto
      ultimately show ?thesis using JObject.IH [OF that(1), of v u q q'] that(4,5) x y by simp
    qed
    show "?f x \<noteq> [] \<and> hd (?f x) \<noteq> CHR ''}''" if "x \<in> set ms \<union> set ns" for x
      by (cases x) (simp add: json_string_def quotation_def)
  qed (use JObject.prems w in simp_all)
  then show ?case by (simp add: w)
next
  case (JNumber n)
  have "lead w = 4" using render_lead [OF JNumber.prems(1)] render_lead [OF JNumber.prems(2)] JNumber.prems(3)
    by (metis hd_append2 lead.simps(4))
  then obtain m where w: "w = JNumber m" by (cases w) (auto split: if_splits)
  with JNumber.prems number_json_unique [of n m r r'] show ?case by simp
next
  case (JString s)
  have "lead w = 3" using render_lead [OF JString.prems(1)] render_lead [OF JString.prems(2)] JString.prems(3)
    by (metis hd_append2 lead.simps(3))
  then obtain t where w: "w = JString t" by (cases w) (auto split: if_splits)
  with JString.prems json_string_unique [of s r t r'] show ?case by simp
next
  case JNull
  have "lead w = 0" using render_lead [OF JNull.prems(1)] render_lead [OF JNull.prems(2)] JNull.prems(3)
    by (metis hd_append2 lead.simps(1))
  then have "w = JNull" by (cases w) (auto split: if_splits)
  with JNull.prems show ?case by simp
next
  case (JBool b)
  have "lead w = (if b then 1 else 2)"
    using render_lead [OF JBool.prems(1)] render_lead [OF JBool.prems(2)] JBool.prems(3)
    by (metis hd_append2 lead.simps(2))
  then have "w = JBool b" by (cases w) (auto split: if_splits)
  with JBool.prems show ?case by simp
qed

text \<open>C30: The canonical text of a JSON value determines it up to the order of the members of its
  objects, and does not depend on that order: two values are encoded alike exactly when they are
  the same after sorting the members of every object by name.\<close>

theorem canonical_json_identifies:
  assumes "encode_json v = Some t" and "encode_json w = Some u"
  shows "t = u \<longleftrightarrow> canonical v = canonical w"
proof -
  have v: "encodable v" "t = render (canonical v)" and w: "encodable w" "u = render (canonical w)"
    using assms by (auto simp: encode_json_render split: if_splits)
  have c: "encodable (canonical x)" if "encodable x" for x
    using that by (induction x rule: canonical.induct) (auto split: prod.splits)
  have "canonical v = canonical w" if "t = u"
    using render_unique [OF c c, of v w "[]" "[]"] v w that by (simp add: delimited_def)
  then show ?thesis using v(2) w(2) by auto
qed

theorem canonical_json_identifies_witness:
  "encode_json (JObject [(''b'', JNumber (JInt 1)), (''a'', JNull)]) =
     encode_json (JObject [(''a'', JNull), (''b'', JNumber (JInt 1))])"
proof -
  have v: "encode_json (JObject [(''b'', JNumber (JInt 1)), (''a'', JNull)]) =
      Some (CHR ''{'' # quotation # ''a'' @ [quotation] @ '':null,'' @ [quotation] @ ''b'' @ [quotation] @ '':1}'')"
    and w: "encode_json (JObject [(''a'', JNull), (''b'', JNumber (JInt 1))]) \<noteq> None"
    and c: "canonical (JObject [(''b'', JNumber (JInt 1)), (''a'', JNull)]) =
      canonical (JObject [(''a'', JNull), (''b'', JNumber (JInt 1))])"
    by code_simp+
  from w obtain u where u: "encode_json (JObject [(''a'', JNull), (''b'', JNumber (JInt 1))]) = Some u" by auto
  from canonical_json_identifies [OF v u] c
  have "CHR ''{'' # quotation # ''a'' @ [quotation] @ '':null,'' @ [quotation] @ ''b'' @ [quotation] @ '':1}'' = u"
    by (rule iffD2)
  then show ?thesis by (simp only: v u)
qed

end
