(* ===== verification/Import_Guarantees.thy ===== *)
theory Import_Guarantees
  imports Issue_Import Sample_Run
begin

text \<open>
  What an import of issues may do, whatever the issues say: the edges it reads are the declared
  ones and always acceptable to the store, no issue can make the store refuse it, and nothing but
  proposed items of the repository changes.
\<close>

subsection \<open>The declared edges\<close>

definition edge_of :: "string \<Rightarrow> string \<Rightarrow> string option" where
  "edge_of self line =
     (case depends_on_line line of
        None \<Rightarrow> None
      | Some url \<Rightarrow>
          if length url \<le> max_predecessor_chars \<and> predecessor_url_pattern url \<and> to_lower url \<noteq> self
          then Some url else None)"

definition edge_keys :: "string \<Rightarrow> string list \<Rightarrow> string list" where
  "edge_keys self lines' = map to_lower (List.map_filter (edge_of self) lines')"

definition acceptable_edges :: "string \<Rightarrow> string list \<Rightarrow> bool" where
  "acceptable_edges self urls =
     (distinct (map to_lower urls) \<and> length urls \<le> max_depends_on \<and>
      (\<forall>url \<in> set urls. length url \<le> max_predecessor_chars \<and> predecessor_url_pattern url \<and>
         to_lower url \<noteq> self))"

lemma map_filter_Cons:
  "List.map_filter f (x # xs) =
     (case f x of None \<Rightarrow> List.map_filter f xs | Some y \<Rightarrow> y # List.map_filter f xs)"
  by (simp add: List.map_filter_def split: option.splits)

lemma collect_depends_on_Cons:
  assumes "length found < max_depends_on"
  shows "collect_depends_on self (line # rest) found =
     (case edge_of self line of
        None \<Rightarrow> collect_depends_on self rest found
      | Some url \<Rightarrow>
          if to_lower url \<in> set (map to_lower found) then collect_depends_on self rest found
          else if max_depends_on \<le> Suc (length found) then found @ [url]
          else collect_depends_on self rest (found @ [url]))"
  by (cases "depends_on_line line") (auto simp: edge_of_def)

declare collect_depends_on.simps(2) [simp del]

lemma collect_depends_on_acceptable:
  assumes "acceptable_edges self found" and "length found < max_depends_on"
  shows "acceptable_edges self (collect_depends_on self lines' found)"
  using assms
proof (induction lines' arbitrary: found)
  case Nil
  then show ?case by simp
next
  case (Cons line rest)
  show ?case
  proof (cases "edge_of self line")
    case None
    with Cons show ?thesis by (simp add: collect_depends_on_Cons)
  next
    case (Some url)
    then have "length url \<le> max_predecessor_chars" "predecessor_url_pattern url" "to_lower url \<noteq> self"
      by (auto simp: edge_of_def split: option.splits if_splits)
    with Cons.prems have "acceptable_edges self (found @ [url])" if "to_lower url \<notin> set (map to_lower found)"
      using that by (auto simp: acceptable_edges_def)
    with Cons Some show ?thesis by (auto simp: collect_depends_on_Cons)
  qed
qed

lemma collect_depends_on_complete:
  assumes "length found < max_depends_on"
    and "length (collect_depends_on self lines' found) < max_depends_on"
  shows "to_lower ` set (collect_depends_on self lines' found) =
    to_lower ` set found \<union> set (edge_keys self lines')"
  using assms
proof (induction lines' arbitrary: found)
  case Nil
  then show ?case by (simp add: edge_keys_def List.map_filter_def)
next
  case (Cons line rest)
  show ?case
  proof (cases "edge_of self line")
    case None
    with Cons show ?thesis by (simp add: collect_depends_on_Cons edge_keys_def map_filter_Cons)
  next
    case (Some url)
    with Cons show ?thesis
      by (auto simp: collect_depends_on_Cons edge_keys_def map_filter_Cons split: if_splits)
  qed
qed

lemma parse_depends_on_acceptable:
  "acceptable_edges (to_lower (trim self_url)) (parse_depends_on body self_url)"
proof -
  let ?c = "collect_depends_on (to_lower (trim self_url)) (split_lines body) []"
  have "acceptable_edges (to_lower (trim self_url)) ?c"
    by (rule collect_depends_on_acceptable) (simp_all add: acceptable_edges_def max_depends_on_def)
  moreover have "distinct (map to_lower (sort xs)) = distinct (map to_lower xs)" for xs :: "string list"
    by (simp add: distinct_map)
  ultimately show ?thesis by (simp add: acceptable_edges_def parse_depends_on_def)
qed

lemma collect_depends_on_sound:
  "length found < max_depends_on \<Longrightarrow>
     to_lower ` set (collect_depends_on self lines' found) \<subseteq>
       to_lower ` set found \<union> set (edge_keys self lines')"
proof (induction lines' arbitrary: found)
  case Nil
  then show ?case by simp
next
  case (Cons line rest)
  show ?case
  proof (cases "edge_of self line")
    case None
    with Cons show ?thesis by (simp add: collect_depends_on_Cons edge_keys_def map_filter_Cons)
  next
    case (Some url)
    with Cons.IH [of found] Cons.IH [of "found @ [url]"] Cons.prems show ?thesis
      by (auto simp: collect_depends_on_Cons edge_keys_def map_filter_Cons)
  qed
qed

lemma normalize_acceptable:
  assumes "acceptable_edges self urls" and "sorted urls"
  shows "normalize_predecessors (Some urls) = Inr (if urls = [] then None else Some urls)"
proof -
  have "distinct urls" using assms(1) by (simp add: acceptable_edges_def distinct_map)
  then have "sorted_unique urls = urls" using assms(2) by (rule sorted_sorted_unique [rotated])
  then show ?thesis
    using assms(1)
    by (auto simp: normalize_predecessors_Inr acceptable_edges_def max_depends_on_def max_predecessors_def
        max_predecessor_chars_def max_source_ref_length_def)
qed

lemma sorted_parse_depends_on [simp]: "sorted (parse_depends_on body self_url)"
  by (simp add: parse_depends_on_def)

text \<open>The edges an issue body declares are a list the store takes as it is, without the issue
  itself; and when they are fewer than twenty they are, up to case, exactly the acceptable ones of
  the body's \<open>depends-on\<close> lines.\<close>

theorem declared_edges_are_accepted:
  "normalize_predecessors (Some (parse_depends_on body self_url)) =
     Inr (if parse_depends_on body self_url = [] then None else Some (parse_depends_on body self_url)) \<and>
   to_lower (trim self_url) \<notin> to_lower ` set (parse_depends_on body self_url) \<and>
   to_lower ` set (parse_depends_on body self_url) \<subseteq>
     set (edge_keys (to_lower (trim self_url)) (split_lines body)) \<and>
   (max_depends_on \<le> length (parse_depends_on body self_url) \<or>
    to_lower ` set (parse_depends_on body self_url) =
      set (edge_keys (to_lower (trim self_url)) (split_lines body)))"
proof -
  let ?self = "to_lower (trim self_url)" and ?p = "parse_depends_on body self_url"
  let ?c = "collect_depends_on ?self (split_lines body) []"
  have p: "set ?p = set ?c" "length ?p = length ?c" by (simp_all add: parse_depends_on_def)
  have z: "length ([] :: string list) < max_depends_on" by (simp add: max_depends_on_def)
  have "normalize_predecessors (Some ?p) = Inr (if ?p = [] then None else Some ?p)"
    by (rule normalize_acceptable [OF parse_depends_on_acceptable]) simp
  moreover have "?self \<notin> to_lower ` set ?p"
    using parse_depends_on_acceptable [of self_url body] by (auto simp: acceptable_edges_def)
  moreover have "to_lower ` set ?p \<subseteq> set (edge_keys ?self (split_lines body))"
    using collect_depends_on_sound [OF z, of ?self "split_lines body"] by (simp add: p)
  moreover have "max_depends_on \<le> length ?p \<or> to_lower ` set ?p = set (edge_keys ?self (split_lines body))"
    using collect_depends_on_complete [OF z, of ?self "split_lines body"] by (auto simp: p not_less [symmetric])
  ultimately show ?thesis by blast
qed

subsection \<open>No issue can make the store refuse an import\<close>

lemma not_space_digit [simp]: "is_digit_char c \<Longrightarrow> \<not> is_space c"
  by (auto simp: is_digit_char_def is_space_def)

lemma not_space_alnum: "is_alnum c \<Longrightarrow> \<not> is_space c"
  by (auto simp: is_alnum_def is_digit_char_def is_lower_char_def is_upper_char_def is_space_def)

lemma not_space_slug_char: "slug_char c \<Longrightarrow> \<not> is_space c"
  by (auto simp: slug_char_def not_space_alnum) (auto simp: is_space_def code_unit_def)

lemma parse_repository_Inr:
  assumes "parse_repository repository = Inr (owner, name)"
  shows "owner_name owner" and "name \<noteq> []" and "length name \<le> 100" and "list_all slug_char name"
  using assms by (auto simp: parse_repository_def split: list.splits if_splits)

lemma length_decimal_text: "0 \<le> n \<Longrightarrow> n < 10 ^ Suc k \<Longrightarrow> length (decimal_text n) \<le> Suc k"
proof (induction k arbitrary: n)
  case 0
  then show ?case by (simp add: decimal_text.simps [of n])
next
  case (Suc k)
  show ?case
  proof (cases "n < 10")
    case False
    have "n div 10 < 10 ^ Suc k" using Suc.prems by simp
    with Suc False show ?thesis by (simp add: decimal_text.simps [of n])
  qed (simp add: decimal_text.simps [of n])
qed

lemma safe_integer_Some: "safe_integer v = Some n \<longleftrightarrow>
    v = Some (JNumber (JInt n)) \<and> - max_safe_integer \<le> n \<and> n \<le> max_safe_integer"
proof -
  have "is_safe_integer k \<longleftrightarrow> (\<exists>m. k = JInt m \<and> - max_safe_integer \<le> m \<and> m \<le> max_safe_integer)" for k
    by (cases k) auto
  then show ?thesis by (auto simp: safe_integer_def as_number_Some split: option.splits)
qed

lemma decode_issue_entry:
  assumes "decode_issue entry owner name = IssueEntry issue"
  shows "1 \<le> is_number issue" and "is_number issue \<le> max_safe_integer"
    and "is_html_url issue = issue_url owner name (is_number issue)"
    and "\<not> blank (is_title issue)" and "is_title issue = trim (is_title issue)"
  using assms
  by (auto simp: decode_issue_def Let_def blank_def safe_integer_Some
      split: if_splits option.splits json.splits)

lemma not_blank_Cons: "\<not> is_space c \<Longrightarrow> \<not> blank (c # s)"
  by (simp add: blank_iff)

lemma not_space_consts [simp]: "\<not> is_space CHR ''R''" "\<not> is_space CHR ''A''" "\<not> is_space CHR ''T''"
  "\<not> is_space CHR ''h''" "\<not> is_space CHR ''o''"
  by (simp_all add: is_space_def code_unit_def)

definition own_issue :: "string \<Rightarrow> fetched_issue \<Rightarrow> bool" where
  "own_issue repository issue =
     (case parse_repository repository of
        Inl _ \<Rightarrow> False
      | Inr (owner, name) \<Rightarrow>
          1 \<le> is_number issue \<and> is_number issue \<le> max_safe_integer \<and>
          is_html_url issue = issue_url owner name (is_number issue) \<and>
          \<not> blank (is_title issue) \<and> trim (is_title issue) = is_title issue)"

lemma issue_url_accepted:
  assumes "parse_repository repository = Inr (owner, name)" and "1 \<le> n" and "n \<le> max_safe_integer"
  shows "validate_source_ref (issue_url owner name n) = Inr ()"
proof -
  note p = parse_repository_Inr [OF assms(1)]
  have digits: "list_all is_digit_char (decimal_text n)"
    using decimal_text_numeral [of n] assms(2) by (simp add: numeral_text_def)
  have "length (decimal_text n) \<le> Suc 15"
    by (rule length_decimal_text) (use assms(2,3) in \<open>simp_all add: max_safe_integer_def\<close>)
  moreover have "length owner \<le> 39" using p(1) by (auto simp: owner_name_def split: list.splits)
  ultimately have len: "length (issue_url owner name n) \<le> 512"
    using p(3) by (simp add: issue_url_def)
  have "\<not> is_space CHR ''-''" by (simp add: is_space_def code_unit_def)
  then have owner: "list_all (\<lambda>c. \<not> is_space c) owner"
    using p(1) by (auto simp: owner_name_def list_all_iff not_space_alnum split: list.splits)
  have name: "list_all (\<lambda>c. \<not> is_space c) name"
    using p(4) by (auto simp: list_all_iff not_space_slug_char)
  have "list_all (\<lambda>c. \<not> is_space c) (decimal_text n)"
    using digits by (auto simp: list_all_iff)
  with owner name have all: "list_all (\<lambda>c. \<not> is_space c) (issue_url owner name n)"
    by (simp add: issue_url_def is_space_def code_unit_def)
  then have "trim (issue_url owner name n) = issue_url owner name n" by (rule trim_no_space)
  moreover have "\<not> blank (issue_url owner name n)"
    by (simp add: issue_url_def not_blank_Cons)
  ultimately show ?thesis
    using len by (simp add: validate_source_ref_def max_source_ref_length_def)
qed

lemma candidate_accepted:
  assumes "own_issue repository issue"
    and "\<And>p. priority = Some p \<Longrightarrow> is_safe_integer p"
  shows "validate_work_definition
      (definition_of_seed None None None
        ((pi_seed (issue_work_candidate repository issue priority))\<lparr>si_repository := repository\<rparr>)) = Inr ()"
    and "validate_source_ref (pi_source_ref (issue_work_candidate repository issue priority)) = Inr ()"
    and "normalize_predecessors (pi_predecessors (issue_work_candidate repository issue priority)) =
      Inr (pi_predecessors (issue_work_candidate repository issue priority))"
proof -
  show "validate_source_ref (pi_source_ref (issue_work_candidate repository issue priority)) = Inr ()"
    using assms(1) issue_url_accepted
    by (auto simp: own_issue_def issue_work_candidate_def Let_def split: sum.splits)
  show "normalize_predecessors (pi_predecessors (issue_work_candidate repository issue priority)) =
      Inr (pi_predecessors (issue_work_candidate repository issue priority))"
    using normalize_acceptable [OF parse_depends_on_acceptable sorted_parse_depends_on,
        of "is_body issue" "is_html_url issue"]
    by (auto simp: issue_work_candidate_def Let_def normalize_predecessors_Inr)
  have "contract_problem (definition_view (definition_of_seed None None None
        ((pi_seed (issue_work_candidate repository issue priority))\<lparr>si_repository := repository\<rparr>))) = None"
    by (simp add: contract_problem_def definition_view_def definition_of_seed_def issue_work_candidate_def
        Let_def issue_actions_def issue_work_kind_def is_discovery_kind_def suffix_def cure_change_kind_def
        required_or_none_def)
  then show "validate_work_definition
      (definition_of_seed None None None
        ((pi_seed (issue_work_candidate repository issue priority))\<lparr>si_repository := repository\<rparr>)) = Inr ()"
    using assms(2)
    by (auto simp: validate_work_definition_Inr definition_of_seed_def issue_work_candidate_def Let_def
        not_blank_Cons issue_instructions_def join_lines_def issue_criteria_def issue_actions_def
        allowed_actions_def known_required_artifact_def known_execution_target_def required_or_none_def
        issue_work_kind_def work_kind_pattern_def kind_char_def is_lower_char_def code_unit_def
        max_safe_integer_def
        split: option.splits)
qed


text \<open>What a later step of an import relies on.\<close>

definition import_ready :: "string \<Rightarrow> store \<Rightarrow> bool" where
  "import_ready repository s =
     (st_user_version s \<le> schema_version \<and> distinct (map r_id (st_items s)) \<and>
      assert_repository_enabled repository s = Inr ())"

lemma import_ready_insert:
  assumes "import_ready repository s" and "insert_row r s = Inr s1"
  shows "import_ready repository (add_event i body actor at s1)"
  using assms
  by (auto simp: import_ready_def res_iffs find_repository_def item_table.lookup_None_iff)

lemma import_ready_update:
  assumes "import_ready repository s" and "\<And>r. r_id (f r) = r_id r"
  shows "import_ready repository (add_event i body actor at (update_row j f s))"
proof -
  have "map r_id (st_items (update_row j f s)) = map r_id (st_items s)"
    by (simp add: update_row_def assms(2) o_def if_distrib)
  with assms(1) show ?thesis by (simp add: import_ready_def res_iffs)
qed

lemma candidate_fields [simp]:
  "pi_source_ref (issue_work_candidate repository issue priority) = is_html_url issue"
  "si_extra (pi_seed (issue_work_candidate repository issue priority)) = []"
  by (simp_all add: issue_work_candidate_def Let_def)

lemma proposal_step_succeeds:
  assumes "own_issue repository issue" and "\<And>p. priority = Some p \<Longrightarrow> is_safe_integer p"
    and "import_ready repository s" and "cx_policy_authority cx = None"
    and "find_row (cx_uuid cx i) s = None"
  obtains outcome' seen' s' where
    "proposal_step cx repository (i, issue_work_candidate repository issue priority) (outcome, seen, s) =
       Inr (outcome', seen', s')"
    and "import_ready repository s'"
    and "\<And>j. j \<noteq> cx_uuid cx i \<Longrightarrow> find_row j s' = find_row j s"
proof -
  let ?c = "issue_work_candidate repository issue priority"
  note ok = candidate_accepted [OF assms(1,2)]
  show thesis
  proof (cases "is_html_url issue \<in> set seen \<or> source_ref_exists repository (is_html_url issue) s")
    case True
    show thesis
      by (rule that [OF _ assms(3)]) (use True ok in \<open>auto simp: proposal_step_def Let_def\<close>)
  next
    case False
    let ?w = "(root_of_seed (cx_uuid cx i) False (cx_clock cx (3 * i))
        ((pi_seed ?c)\<lparr>si_repository := repository\<rparr>))
        \<lparr>nw_source_ref := Some (is_html_url issue), nw_predecessors := pi_predecessors ?c\<rparr>"
    let ?r = "row_of_work None ?w"
    have r: "r_id ?r = cx_uuid cx i" "r_parent_id ?r = None" "r_repository ?r = repository"
      "r_source_ref ?r = Some (is_html_url issue)" "nw_id ?w = cx_uuid cx i"
      by (simp_all add: row_of_work_def root_of_seed_def)
    have bind: "bind_policy cx at b = Inr None" for at b
      by (simp add: bind_policy_None_iff assms(4))
    obtain s1 where s1: "insert_row ?r s = Inr s1"
      using assms(3,5) False r by (auto simp: insert_row_Inr import_ready_def res_iffs)
    have row: "find_row (cx_uuid cx i) s1 = Some ?r"
      using s1 assms(5) r(1) by (auto simp: insert_row_Inr find_row_append)
    show thesis
    proof (rule that)
      show "proposal_step cx repository (i, ?c) (outcome, seen, s) =
        Inr (outcome\<lparr>po_created := po_created outcome @ [item_of ?r]\<rparr>, is_html_url issue # seen,
          add_event (cx_uuid cx i) (EvProposedRoot (is_html_url issue) (pi_predecessors ?c))
            (nw_created_by ?w) (cx_clock cx (3 * i + 2)) s1)"
        using False ok s1 row r(5)
        by (simp add: proposal_step_def Let_def create_item_def insert_work_def bind get_required_row)
      show "import_ready repository (add_event (cx_uuid cx i) (EvProposedRoot (is_html_url issue)
          (pi_predecessors ?c)) (nw_created_by ?w) (cx_clock cx (3 * i + 2)) s1)"
        by (rule import_ready_insert [OF assms(3) s1])
      show "find_row j (add_event (cx_uuid cx i) (EvProposedRoot (is_html_url issue) (pi_predecessors ?c))
          (nw_created_by ?w) (cx_clock cx (3 * i + 2)) s1) = find_row j s" if "j \<noteq> cx_uuid cx i" for j
        using s1 that r(1) by (auto simp: insert_row_Inr find_row_append split: option.splits)
    qed
  qed
qed

lemma proposals_succeed:
  assumes "\<forall>issue \<in> set issues. own_issue repository issue"
    and "\<And>p. priority = Some p \<Longrightarrow> is_safe_integer p"
    and "cx_policy_authority cx = None" and "inj (cx_uuid cx)"
    and "import_ready repository s" and "\<forall>i \<ge> k. find_row (cx_uuid cx i) s = None"
  shows "\<exists>outcome' seen' s'. fold_res (proposal_step cx repository)
      (zip [k..<k + length issues] (map (\<lambda>issue. issue_work_candidate repository issue priority) issues))
      (outcome, seen, s) = Inr (outcome', seen', s') \<and> import_ready repository s'"
  using assms(1,5,6)
proof (induction issues arbitrary: k outcome seen s)
  case Nil
  then show ?case by simp
next
  case (Cons issue issues)
  have own: "own_issue repository issue" and fresh: "find_row (cx_uuid cx k) s = None"
    using Cons.prems by auto
  obtain outcome' seen' s' where step: "proposal_step cx repository
      (k, issue_work_candidate repository issue priority) (outcome, seen, s) = Inr (outcome', seen', s')"
    and ready: "import_ready repository s'"
    and rows: "\<And>j. j \<noteq> cx_uuid cx k \<Longrightarrow> find_row j s' = find_row j s"
    using proposal_step_succeeds [OF own assms(2) Cons.prems(2) assms(3) fresh] by metis
  have "\<forall>i \<ge> Suc k. find_row (cx_uuid cx i) s' = None"
    using rows Cons.prems(3) assms(4) by (metis Suc_leD inj_eq not_less_eq_eq order_refl)
  then obtain a b c where "fold_res (proposal_step cx repository)
      (zip [Suc k..<Suc k + length issues]
        (map (\<lambda>issue. issue_work_candidate repository issue priority) issues))
      (outcome', seen', s') = Inr (a, b, c) \<and> import_ready repository c"
    using Cons.IH [OF _ ready] Cons.prems(1) by (metis list.set_intros(2))
  moreover have "[k..<k + length (issue # issues)] = k # [Suc k..<Suc k + length issues]"
    using upt_conv_Cons [of k "k + length (issue # issues)"] by simp
  ultimately show ?case using step by simp
qed


lemma import_actor_valid: "validate_operator_actor import_actor = Inr import_actor"
  by code_simp

lemma proposed_item_found:
  assumes "proposed_item_by_source_ref repository ref s = Some existing" and "distinct (map r_id (st_items s))"
  obtains r where "find_row (r_id r) s = Some r" and "existing = item_of r"
    and "r_repository r = repository" and "r_status r = RQueued" and "\<not> r_admitted r"
proof -
  obtain r where r: "List.find (\<lambda>r. r_repository r = repository \<and> r_source_ref r = Some ref \<and>
      r_status r = RQueued \<and> \<not> r_admitted r) (st_items s) = Some r" "existing = item_of r"
    using assms(1) by (auto simp: proposed_item_by_source_ref_def)
  have "find_row (r_id r) s = Some r"
    using find_SomeD [OF r(1)] assms(2) by (auto intro: item_table.lookup_in_rows)
  with that r find_SomeD [OF r(1)] show thesis by blast
qed

lemma replacement_of:
  assumes "replace_proposed_predecessors cx i ps import_actor s = Inr (item, s')"
  obtains c u body at where
    "s' = add_event i body import_actor at
       (update_row i (\<lambda>r. r\<lparr>r_predecessors := c, r_updated_at := u\<rparr>) s)"
  using assms
  by (clarsimp simp: replace_proposed_predecessors_def res_iffs commit_row_Inr)

subsection \<open>Nothing but proposed items changes\<close>

definition kept_row :: "string \<Rightarrow> row \<Rightarrow> row \<Rightarrow> bool" where
  "kept_row repository r r' =
     (r' = r \<or>
      logical_status r = Proposed \<and> r_repository r = repository \<and>
      r'\<lparr>r_predecessors := r_predecessors r, r_updated_at := r_updated_at r\<rparr> = r)"

definition new_proposal :: "string \<Rightarrow> row \<Rightarrow> bool" where
  "new_proposal repository r =
     (logical_status r = Proposed \<and> r_repository r = repository \<and> r_parent_id r = None)"

definition import_change :: "string \<Rightarrow> store \<Rightarrow> store \<Rightarrow> bool" where
  "import_change repository s s' =
     (distinct (map r_id (st_items s')) \<and>
      (\<forall>i. case find_row i s of
             Some r \<Rightarrow> \<exists>r'. find_row i s' = Some r' \<and> kept_row repository r r'
           | None \<Rightarrow> \<forall>r'. find_row i s' = Some r' \<longrightarrow> new_proposal repository r'))"

lemma kept_row_refl [simp]: "kept_row g r r"
  by (simp add: kept_row_def)

lemma kept_row_same: "kept_row g r r' \<Longrightarrow>
    logical_status r' = logical_status r \<and> r_repository r' = r_repository r \<and> r_parent_id r' = r_parent_id r"
  by (cases r; cases r') (auto simp: kept_row_def logical_status_def)

lemma kept_row_trans:
  assumes "kept_row g r r'" and "kept_row g r' r''"
  shows "kept_row g r r''"
proof (cases "r' = r \<or> r'' = r'")
  case True
  with assms show ?thesis by auto
next
  case False
  then have r: "r'\<lparr>r_predecessors := r_predecessors r, r_updated_at := r_updated_at r\<rparr> = r"
    and r': "r''\<lparr>r_predecessors := r_predecessors r', r_updated_at := r_updated_at r'\<rparr> = r'"
    using assms by (auto simp: kept_row_def)
  have "r''\<lparr>r_predecessors := r_predecessors r, r_updated_at := r_updated_at r\<rparr> =
      (r''\<lparr>r_predecessors := r_predecessors r', r_updated_at := r_updated_at r'\<rparr>)
        \<lparr>r_predecessors := r_predecessors r, r_updated_at := r_updated_at r\<rparr>" by simp
  also have "\<dots> = r" by (simp only: r r')
  finally show ?thesis using False assms(1) by (auto simp: kept_row_def)
qed

lemma kept_row_new: "kept_row g r r' \<Longrightarrow> new_proposal g r \<Longrightarrow> new_proposal g r'"
  unfolding new_proposal_def by (metis kept_row_same)

lemma import_change_distinct: "import_change g s s' \<Longrightarrow> distinct (map r_id (st_items s'))"
  by (simp add: import_change_def)

lemma import_change_refl: "distinct (map r_id (st_items s)) \<Longrightarrow> import_change g s s"
  by (auto simp: import_change_def split: option.splits)

lemma import_change_trans:
  assumes "import_change g s t" and "import_change g t u"
  shows "import_change g s u"
proof -
  have "case find_row i s of Some r \<Rightarrow> \<exists>r'. find_row i u = Some r' \<and> kept_row g r r'
      | None \<Rightarrow> \<forall>r'. find_row i u = Some r' \<longrightarrow> new_proposal g r'" for i
  proof -
    have a: "case find_row i s of Some r \<Rightarrow> \<exists>r'. find_row i t = Some r' \<and> kept_row g r r'
        | None \<Rightarrow> \<forall>r'. find_row i t = Some r' \<longrightarrow> new_proposal g r'"
      and b: "case find_row i t of Some r \<Rightarrow> \<exists>r'. find_row i u = Some r' \<and> kept_row g r r'
        | None \<Rightarrow> \<forall>r'. find_row i u = Some r' \<longrightarrow> new_proposal g r'"
      using assms by (simp_all add: import_change_def)
    show ?thesis
    proof (cases "find_row i t")
      case None
      with a b show ?thesis by (auto split: option.splits)
    next
      case (Some r')
      then obtain r'' where "find_row i u = Some r''" and k: "kept_row g r' r''" using b by auto
      with a Some kept_row_new [OF k] kept_row_trans [OF _ k] show ?thesis
        by (auto split: option.splits)
    qed
  qed
  with assms(2) show ?thesis by (simp add: import_change_def)
qed

lemma import_change_insert:
  assumes "insert_row r s = Inr s1" and "new_proposal g r" and "distinct (map r_id (st_items s))"
  shows "import_change g s (add_event i body actor at s1)"
proof -
  have s1: "s1 = s\<lparr>st_items := st_items s @ [r]\<rparr>" and new: "find_row (r_id r) s = None"
    using assms(1) by (auto simp: insert_row_Inr)
  from new have "r_id r \<notin> r_id ` set (st_items s)" by (rule item_table.lookup_None_iff [THEN iffD1])
  with assms(2,3) new show ?thesis
    by (auto simp: s1 import_change_def find_row_append split: option.splits)
qed

lemma import_change_update:
  assumes "find_row i s = Some r" and "logical_status r = Proposed" and "r_repository r = g"
    and "distinct (map r_id (st_items s))"
  shows "import_change g s
    (add_event j body actor at (update_row i (\<lambda>r. r\<lparr>r_predecessors := c, r_updated_at := u\<rparr>) s))"
proof -
  have "map r_id (st_items (update_row i (\<lambda>r. r\<lparr>r_predecessors := c, r_updated_at := u\<rparr>) s)) =
      map r_id (st_items s)"
    by (simp add: update_row_def o_def if_distrib)
  with assms show ?thesis
    by (auto simp: import_change_def item_table.lookup_modify kept_row_def split: option.splits)
qed

lemma proposals_change:
  assumes "fold_res (proposal_step cx g) entries (outcome, seen, s) = Inr (outcome', seen', s')"
    and "distinct (map r_id (st_items s))"
  shows "import_change g s s'"
proof -
  have "(\<lambda>(_, _, t). import_change g s t) (outcome', seen', s')"
  proof (rule fold_res_invariant [OF assms(1)])
    show "(\<lambda>(_, _, t). import_change g s t) (outcome, seen, s)"
      using import_change_refl [OF assms(2)] by simp
  next
    fix x and a b :: "proposal_outcome \<times> string list \<times> store"
    assume a: "(\<lambda>(_, _, t). import_change g s t) a" and f: "proposal_step cx g x a = Inr b"
    have "import_change g t t'" if "proposal_step cx g x (o1, seen1, t) = Inr (o2, seen2, t')"
      "distinct (map r_id (st_items t))" for o1 seen1 t o2 seen2 t'
      using that
      by (auto simp: proposal_step_def create_item_def insert_work_def Let_def and_then_Inr_iff
          import_change_refl new_proposal_def logical_status_def row_of_work_def root_of_seed_def
          intro!: import_change_insert split: prod.splits if_splits)
    note this [OF _ import_change_distinct]
    with a f show "(\<lambda>(_, _, t). import_change g s t) b"
      by (cases a; cases b) (auto intro: import_change_trans)
  qed
  then show ?thesis by simp
qed

lemma enqueue_proposed_roots_change:
  assumes "enqueue_proposed_roots cx g candidates s = Inr (outcome, s')"
    and "distinct (map r_id (st_items s))"
  shows "import_change g s s'"
  using assms proposals_change
  by (auto simp: enqueue_proposed_roots_def and_then_Inr_iff transaction_Inr)

lemma refresh_candidates_change:
  assumes "refresh_candidates cx g skipped created i candidates refreshed s = (out, s')"
    and "distinct (map r_id (st_items s))"
  shows "import_change g s s'"
  using assms
proof (induction candidates arbitrary: i refreshed s)
  case Nil
  then show ?case by (simp add: import_change_refl)
next
  case (Cons candidate rest)
  show ?case
  proof (cases "\<exists>existing item s1.
      proposed_item_by_source_ref g (pi_source_ref candidate) s = Some existing \<and>
      replace_proposed_predecessors (cx (Suc i)) (wi_id existing)
        (edges_of_candidate (pi_predecessors candidate)) import_actor s = Inr (item, s1)")
    case True
    then obtain existing item s1 where e: "proposed_item_by_source_ref g (pi_source_ref candidate) s = Some existing"
      and r: "replace_proposed_predecessors (cx (Suc i)) (wi_id existing)
        (edges_of_candidate (pi_predecessors candidate)) import_actor s = Inr (item, s1)" by blast
    obtain q where q: "find_row (r_id q) s = Some q" "existing = item_of q" "r_repository q = g"
      "r_status q = RQueued" "\<not> r_admitted q"
      using proposed_item_found [OF e Cons.prems(2)] by blast
    have "import_change g s s1"
      using r import_change_update [OF q(1) _ q(3) Cons.prems(2)] q(4,5)
      by (elim replacement_of) (simp add: logical_status_def q(2))
    note this import_change_trans [OF this Cons.IH [OF _ import_change_distinct [OF this]]]
    with Cons e r show ?thesis
      by (auto simp: Let_def split: if_splits)
  next
    case False
    with Cons show ?thesis
      by (auto simp: Let_def import_change_refl split: if_splits option.splits sum.splits)
  qed
qed


text \<open>Importing the labelled issues of a repository, whatever GitHub answers and whether or not
  it succeeds, inserts only proposed roots of that repository and changes of existing items only
  the edges of its proposed ones; every other item is as it was.\<close>

theorem imports_change_only_proposals:
  assumes "import_labeled_issues cx get repository label priority s = (out, s')"
    and "distinct (map r_id (st_items s))"
  shows "import_change repository s s'"
proof (cases "s' = s")
  case True
  with import_change_refl [OF assms(2)] show ?thesis by simp
next
  case False
  with assms(1) obtain issues pages truncated where
    "import_listed_issues cx repository label priority issues pages truncated s = (out, s')"
    by (auto simp: import_labeled_issues_def split: sum.splits labeled_issues_result.splits)
  with False obtain candidates outcome s1 created i skipped refreshed r s2 where
    e: "enqueue_proposed_roots (cx 0) repository candidates s = Inr (outcome, s1)"
    and r: "refresh_candidates cx repository skipped created i candidates refreshed s1 = (r, s2)"
    and s': "s' = s2 \<or> (\<exists>c issues o'. record_labeled_issue_observations c repository issues import_actor s2 = Inr (o', s'))"
    by (fastforce simp: import_listed_issues_def Let_def split: sum.splits prod.splits)
  have a: "import_change repository s s1" by (rule enqueue_proposed_roots_change [OF e assms(2)])
  then have b: "import_change repository s1 s2"
    by (rule refresh_candidates_change [OF r import_change_distinct])
  have items: "st_items s' = st_items s2"
    using s' by (auto simp: record_labeled_issue_observations_def and_then_Inr_iff transaction_Inr Let_def)
  have rows: "find_row i s' = find_row i s2" for i by (simp add: find_row_def items)
  have "import_change repository s2 s'"
    using import_change_refl [OF import_change_distinct [OF b], of repository]
    unfolding import_change_def rows items .
  with a b show ?thesis by (blast intro: import_change_trans)
qed

subsection \<open>An import succeeds\<close>

lemma positive_numeral_decimal:
  "1 \<le> n \<Longrightarrow> positive_numeral (decimal_text n)"
proof (induction n rule: decimal_text.induct)
  case (1 n)
  show ?case
  proof (cases "n < 10")
    case True
    have d: "code_unit (digit_char n) = 48 + n" by (rule code_unit_digit_char) (use True 1 in auto)
    then have "is_digit_char (digit_char n)" "digit_char n \<noteq> CHR ''0''"
      using True 1 by (auto simp: is_digit_char_def code_unit_def)
    with True show ?thesis by (simp add: decimal_text.simps [of n] positive_numeral_def)
  next
    case False
    have "positive_numeral (decimal_text (n div 10))" using "1.IH" [OF False] False by simp
    moreover have "is_digit_char (digit_char (n mod 10))"
      using code_unit_digit_char [of "n mod 10"] by (simp add: is_digit_char_def)
    ultimately show ?thesis
      using False by (auto simp: decimal_text.simps [of n] positive_numeral_def split: list.splits)
  qed
qed

lemma issue_url_parts_of_url:
  assumes "parse_repository repository = Inr (owner, name)" and "1 \<le> n"
  shows "issue_url_parts (issue_url owner name n) = Some (owner, name)"
    and "repository = owner @ ''/'' @ name"
proof -
  note p = parse_repository_Inr [OF assms(1)]
  have "\<not> is_space CHR ''-''" "CHR ''/'' \<noteq> CHR ''-''" "\<not> is_alnum CHR ''/''" "\<not> slug_char CHR ''/''"
    "\<not> is_digit_char CHR ''/''"
    by (simp_all add: is_space_def code_unit_def slug_char_def is_alnum_def is_digit_char_def
        is_lower_char_def is_upper_char_def)
  then have owner: "owner \<noteq> []" "CHR ''/'' \<notin> set owner" "no_space owner"
    and name: "name \<noteq> []" "CHR ''/'' \<notin> set name" "no_space name"
    using p by (auto simp: owner_name_def list_all_iff no_space_def not_space_alnum not_space_slug_char
        split: list.splits)
  have num: "positive_numeral (decimal_text n)" by (rule positive_numeral_decimal [OF assms(2)])
  moreover have "CHR ''/'' \<notin> set (decimal_text n)"
    using decimal_text_numeral [of n] assms(2) \<open>\<not> is_digit_char CHR ''/''\<close>
    by (auto simp: numeral_text_def list_all_iff)
  ultimately show "issue_url_parts (issue_url owner name n) = Some (owner, name)"
    using owner name
    by (simp add: issue_url_def issue_url_parts_def github_segments_def strip_prefix_def
        split_char_at split_char_none)
  have "concat (map (\<lambda>p. p @ [c]) (split_char c s)) = s @ [c]" for c s
    by (induction s) (auto split: list.splits)
  from this [of "CHR ''/''" repository] assms(1) show "repository = owner @ ''/'' @ name"
    by (auto simp: parse_repository_def split: list.splits if_splits)
qed


lemma add_entries_own:
  assumes "add_entries owner name entries issues = Some issues'"
    and "parse_repository repository = Inr (owner, name)"
    and "\<forall>issue \<in> set issues. own_issue repository issue"
  shows "\<forall>issue \<in> set issues'. own_issue repository issue"
  using assms(1,3)
proof (induction entries arbitrary: issues)
  case Nil
  then show ?case by simp
next
  case (Cons entry entries)
  have "own_issue repository issue" if "decode_issue entry owner name = IssueEntry issue" for issue
    using decode_issue_entry [OF that] assms(2) by (simp add: own_issue_def)
  with Cons.IH [of issues] Cons.IH [of "issues @ [_]"] Cons.prems show ?case
    by (cases "decode_issue entry owner name") (auto split: if_splits)
qed

lemma read_pages_own:
  assumes "read_pages left answer owner name page issues = ListedIssues issues' pages truncated"
    and "parse_repository repository = Inr (owner, name)"
    and "\<forall>issue \<in> set issues. own_issue repository issue"
  shows "\<forall>issue \<in> set issues'. own_issue repository issue"
  using assms(1,3)
proof (induction left arbitrary: page issues)
  case 0
  then show ?case by simp
next
  case (Suc left)
  then obtain status v entries issues1 where e: "add_entries owner name entries issues = Some issues1"
    and rest: "issues' = issues1 \<or>
      read_pages left answer owner name (Suc page) issues1 = ListedIssues issues' pages truncated"
    by (auto split: github_answer.splits if_splits option.splits)
  have "\<forall>issue \<in> set issues1. own_issue repository issue"
    by (rule add_entries_own [OF e assms(2) Suc.prems(2)])
  with rest Suc.IH show ?case by blast
qed

lemma fetched_issues_own:
  assumes "fetch_labeled_open_issues get repository label = Inr (ListedIssues issues pages truncated)"
  shows "\<forall>issue \<in> set issues. own_issue repository issue"
proof -
  obtain owner name where p: "parse_repository repository = Inr (owner, name)"
    and r: "read_pages max_pages (\<lambda>page. get (listing_path owner name label page)) owner name 1 [] =
      ListedIssues issues pages truncated"
    using assms by (auto simp: fetch_labeled_open_issues_def and_then_Inr_iff)
  show ?thesis by (rule read_pages_own [OF r p]) simp
qed

lemma refresh_candidates_succeed:
  assumes "\<forall>issue \<in> set issues. own_issue repository issue" and "import_ready repository s"
  shows "\<exists>refreshed' s'. refresh_candidates cx repository skipped created i
      (map (\<lambda>issue. issue_work_candidate repository issue priority) issues) refreshed s = (Inr refreshed', s') \<and>
    import_ready repository s'"
  using assms
proof (induction issues arbitrary: i refreshed s)
  case Nil
  then show ?case by simp
next
  case (Cons issue issues)
  let ?c = "issue_work_candidate repository issue priority"
  show ?case
  proof (cases "proposed_item_by_source_ref repository (is_html_url issue) s")
    case None
    with Cons show ?thesis by (simp add: Let_def)
  next
    case (Some existing)
    then obtain q where q: "find_row (r_id q) s = Some q" "existing = item_of q" "r_status q = RQueued"
      "\<not> r_admitted q"
      using Cons.prems(2) by (auto simp: import_ready_def elim: proposed_item_found)
    have "edges_of_candidate (pi_predecessors ?c) = parse_depends_on (is_body issue) (is_html_url issue)"
      by (simp add: issue_work_candidate_def Let_def edges_of_candidate_def)
    then have "normalize_predecessors (Some (edges_of_candidate (pi_predecessors ?c))) = Inr (pi_predecessors ?c)"
      using normalize_acceptable [OF parse_depends_on_acceptable sorted_parse_depends_on,
          of "is_body issue" "is_html_url issue"]
      by (simp add: issue_work_candidate_def Let_def)
    then obtain item s1 where s1: "replace_proposed_predecessors (cx (Suc i)) (wi_id existing)
        (edges_of_candidate (pi_predecessors ?c)) import_actor s = Inr (item, s1)"
      using q Cons.prems(2)
      by (auto simp: replace_proposed_predecessors_def import_actor_valid get_required_row import_ready_def
          transaction_def assert_supported_schema_version_def logical_status_def commit_row_def Let_def
          item_table.lookup_modify)
    have "import_ready repository s1"
      using s1 by (elim replacement_of) (simp add: import_ready_update [OF Cons.prems(2)])
    with Cons s1 Some show ?thesis by (simp add: Let_def)
  qed
qed

lemma checked_total: "\<forall>x \<in> set xs. \<exists>y. f x = Inr y \<Longrightarrow> \<exists>ys. map_res f xs = Inr ys"
  by (induction xs) auto

lemma observations_succeed:
  assumes "\<forall>issue \<in> set issues. own_issue repository issue" and "import_ready repository s"
  obtains o' s' where
    "record_labeled_issue_observations cx repository (issue_observations issues created) import_actor s =
      Inr (o', s')"
proof -
  have "\<forall>x \<in> set (issue_observations issues created). \<exists>y. check_labeled_issue repository x = Inr y"
  proof
    fix x
    assume member: "x \<in> set (issue_observations issues created)"
    obtain issue where i: "own_issue repository issue"
      and x: "fst x = is_html_url issue" "fst (snd x) = is_title issue"
      using member assms(1) by (fastforce simp: issue_observations_def)
    obtain owner name where p: "parse_repository repository = Inr (owner, name)"
      and n: "1 \<le> is_number issue" and url: "is_html_url issue = issue_url owner name (is_number issue)"
      and title: "\<not> blank (is_title issue)"
      using i by (auto simp: own_issue_def split: sum.splits)
    show "\<exists>y. check_labeled_issue repository x = Inr y"
      by (cases x) (use x url title issue_url_parts_of_url [OF p n] in \<open>simp add: check_labeled_issue_def\<close>)
  qed
  then obtain ys where "map_res (check_labeled_issue repository) (issue_observations issues created) = Inr ys"
    using checked_total by blast
  with assms(2) that show thesis
    by (auto simp: record_labeled_issue_observations_def import_actor_valid import_ready_def transaction_def
        assert_supported_schema_version_def Let_def)
qed



subsection \<open>A listing with an issue that waits for another\<close>

definition sample_issue_entry :: json where
  "sample_issue_entry = JObject
     [(''number'', JNumber (JInt 7)), (''title'', JString '' Fix it ''), (''state'', JString ''open''),
      (''body'', JString (''Depends-On: https://github.com/acme/tool/issues/3'' @ [CHR 0x0D, CHR 0x0A] @
         ''depends-on: #4'')),
      (''html_url'', JString ''https://github.com/Acme/tool/issues/7''), (''labels'', JArray [])]"

definition sample_pull_entry :: json where
  "sample_pull_entry = JObject [(''pull_request'', JObject []), (''number'', JNumber (JInt 8))]"

definition sample_issues :: "string \<Rightarrow> github_answer" where
  "sample_issues path =
     (if path = listing_path ''acme'' ''tool'' ''snowcat'' 1
      then Answer 200 (JArray [sample_pull_entry, sample_issue_entry, sample_issue_entry])
      else AnswerUnavailable)"

definition sample_issue :: fetched_issue where
  "sample_issue =
     \<lparr>is_number = 7, is_title = ''Fix it'',
      is_body = ''Depends-On: https://github.com/acme/tool/issues/3'' @ [CHR 0x0D, CHR 0x0A] @ ''depends-on: #4'',
      is_html_url = ''https://github.com/acme/tool/issues/7'', is_labels = []\<rparr>"

lemma sample_listing_values:
  shows sample_fetch: "fetch_labeled_open_issues sample_issues ''acme/tool'' ''snowcat'' =
      Inr (ListedIssues [sample_issue] 1 False)"
    and sample_edges: "parse_depends_on (is_body sample_issue) (is_html_url sample_issue) =
      [''https://github.com/acme/tool/issues/3'']"
    and sample1_import_ready: "import_ready ''acme/tool'' sample1"
    and sample4_rows: "distinct (map r_id (st_items sample4))" "find_row ''A'' sample4 \<noteq> None"
      "logical_status (the (find_row ''A'' sample4)) = Completed"
  by code_simp+

theorem imports_change_only_proposals_witness:
  "find_row ''A'' (snd (import_labeled_issues (\<lambda>n. sample_ctx (100 + 10 * int n) ''J'') sample_issues
      ''acme/tool'' ''snowcat'' None sample4)) = find_row ''A'' sample4"
proof -
  let ?out = "import_labeled_issues (\<lambda>n. sample_ctx (100 + 10 * int n) ''J'') sample_issues
      ''acme/tool'' ''snowcat'' None sample4"
  have "import_change ''acme/tool'' sample4 (snd ?out)"
    by (rule imports_change_only_proposals [OF prod.collapse [symmetric] sample4_rows(1)])
  with sample4_rows(2,3) show ?thesis
    by (auto simp: import_change_def kept_row_def split: option.splits dest!: spec [of _ "''A''"])
qed


end
