(* ===== verification/Policy_Authority.thy ===== *)
theory Policy_Authority
  imports Json_Values Release_Versions Claim_Guarantees
begin

text \<open>
  What the queue asks the control plane: which repositories are enrolled
  (\<open>src/src/queue/eligibility.ts\<close>) and what the policy of one allows
  (\<open>src/src/queue/policy-authority.ts\<close>). Each question reads the control-plane database afresh; the
  reading is a parameter: there is no database, it cannot be read, or it gives the status of every
  repository.
\<close>

record control_status =
  cs_owner :: string
  cs_name :: string
  cs_effective_state :: string
  cs_maintenance_programs :: "string list"
  cs_core_snapshot_id :: string
  cs_repository_commit_id :: "string option"
  cs_action_ceiling :: "string list"
  cs_governance_policy :: json

datatype control_reading = NoDatabase | ReadingFails error | Reading "control_status list"

definition control_slug :: "control_status \<Rightarrow> string" where
  "control_slug status = cs_owner status @ ''/'' @ cs_name status"

subsection \<open>Enrollment\<close>

definition enrolled_repository_programs :: "control_reading \<Rightarrow> (string \<times> string list) list res" where
  "enrolled_repository_programs reading =
     (case reading of
        NoDatabase \<Rightarrow> Inl (PolicyError EligibilityHookFailed)
      | ReadingFails e \<Rightarrow> Inl e
      | Reading statuses \<Rightarrow>
          Inr (map (\<lambda>status. (control_slug status, cs_maintenance_programs status))
            (filter (\<lambda>status. cs_effective_state status = ''enrolled'') statuses)))"

definition enrolled_repositories :: "control_reading \<Rightarrow> string list res" where
  "enrolled_repositories reading =
     and_then (enrolled_repository_programs reading) (\<lambda>entries. Inr (map fst entries))"

definition control_plane_claim_eligibility :: "control_reading \<Rightarrow> string \<Rightarrow> bool res" where
  "control_plane_claim_eligibility reading repository =
     and_then (enrolled_repositories reading) (\<lambda>slugs.
     Inr (list_ex (\<lambda>enrolled. to_lower enrolled = to_lower repository) slugs))"

subsection \<open>The policy of a repository\<close>

definition action_of_name :: "string \<Rightarrow> action option" where
  "action_of_name s = List.find (\<lambda>a. action_name a = s) allowed_actions"

definition decision_of :: "json option \<Rightarrow> policy_decision option" where
  "decision_of v =
     (if v = Some (JString ''allow'') then Some Allow
      else if v = Some (JString ''review-required'') then Some ReviewRequired
      else if v = Some (JString ''deny'') then Some Deny
      else None)"

text \<open>\<open>Object.entries\<close> of a value whose type is \<open>object\<close>, an array included.\<close>

fun object_entries :: "json \<Rightarrow> (string \<times> json) list option" where
  "object_entries (JObject members) = Some members"
| "object_entries (JArray xs) = Some (zip (map (\<lambda>i. decimal_text (int i)) [0..<length xs]) xs)"
| "object_entries _ = None"

primrec read_action_decisions ::
    "(string \<times> json) list \<Rightarrow> (action \<times> policy_decision) list option"
where
  "read_action_decisions [] = Some []"
| "read_action_decisions (entry # rest) =
     (case action_of_name (fst entry) of
        None \<Rightarrow> None
      | Some a \<Rightarrow>
          (case decision_of (Some (snd entry)) of
             None \<Rightarrow> None
           | Some d \<Rightarrow> map_option ((#) (a, d)) (read_action_decisions rest)))"

definition read_paths :: "json option \<Rightarrow> string list option" where
  "read_paths v =
     (case v of
        Some (JArray paths) \<Rightarrow> those (map (\<lambda>path. as_text (Some path)) paths)
      | _ \<Rightarrow> None)"

definition read_boundary :: "json \<Rightarrow> policy_boundary option" where
  "read_boundary entry =
     (case (as_text (field ''id'' entry), decision_of (field ''decision'' entry), read_paths (field ''paths'' entry)) of
        (Some i, Some d, Some paths) \<Rightarrow>
          Some \<lparr>pb_id = i, pb_decision = d,
            pb_minimum_risk_tier =
              (case as_text (field ''minimum_risk_tier'' entry) of None \<Rightarrow> ''unstated'' | Some t \<Rightarrow> t),
            pb_paths = paths\<rparr>
      | _ \<Rightarrow> None)"

definition parse_governance_policy ::
    "json \<Rightarrow> (policy_decision \<times> (action \<times> policy_decision) list \<times> policy_boundary list) option"
where
  "parse_governance_policy value =
     (case decision_of (field ''default_decision'' value) of
        None \<Rightarrow> None
      | Some default_decision \<Rightarrow>
          (case field ''actions'' value of
             None \<Rightarrow> None
           | Some actions \<Rightarrow>
               (case object_entries actions of
                  None \<Rightarrow> None
                | Some entries \<Rightarrow>
                    (case read_action_decisions entries of
                       None \<Rightarrow> None
                     | Some decisions \<Rightarrow>
                         map_option (\<lambda>boundaries. (default_decision, decisions, boundaries))
                           (those (map read_boundary
                             (case field ''protected_boundaries'' value of
                                Some (JArray entries) \<Rightarrow> entries | _ \<Rightarrow> [])))))))"

definition control_plane_policy_authority :: "control_reading \<Rightarrow> string \<Rightarrow> policy_authority option res" where
  "control_plane_policy_authority reading repository =
     (case reading of
        NoDatabase \<Rightarrow> Inr None
      | ReadingFails e \<Rightarrow> Inl e
      | Reading statuses \<Rightarrow>
          Inr
            (case List.find
                (\<lambda>status. to_lower (control_slug status) = to_lower repository \<and>
                   cs_effective_state status = ''enrolled'') statuses of
               None \<Rightarrow> None
             | Some status \<Rightarrow>
                 (case parse_governance_policy (cs_governance_policy status) of
                    None \<Rightarrow> None
                  | Some (default_decision, decisions, boundaries) \<Rightarrow>
                      Some
                        \<lparr>pa_core_snapshot_id = cs_core_snapshot_id status,
                         pa_repository_commit_id = cs_repository_commit_id status,
                         pa_action_ceiling = List.map_filter action_of_name (cs_action_ceiling status),
                         pa_default_decision = default_decision,
                         pa_action_decisions = decisions,
                         pa_protected_boundaries = boundaries\<rparr>)))"

text \<open>The two hooks of a host: none where no control plane is configured.\<close>

definition queue_store_options :: "string option \<Rightarrow> (string \<Rightarrow> control_reading) \<Rightarrow> ctx \<Rightarrow> ctx" where
  "queue_store_options configured reading cx =
     (if configured = None \<or> configured = Some [] \<or> configured = Some '':memory:''
      then cx\<lparr>cx_claim_eligibility := None, cx_policy_authority := None\<rparr>
      else
        cx\<lparr>cx_claim_eligibility := Some (control_plane_claim_eligibility (reading (the configured))),
           cx_policy_authority := Some (control_plane_policy_authority (reading (the configured)))\<rparr>)"


subsection \<open>The control plane governs the queue\<close>

definition configured_path :: "string \<Rightarrow> bool" where
  "configured_path path = (path \<noteq> [] \<and> path \<noteq> '':memory:'')"

text \<open>The enrolled declaration a repository of the queue has, whatever the case of its name.\<close>

definition enrolled_as :: "control_reading \<Rightarrow> string \<Rightarrow> control_status \<Rightarrow> bool" where
  "enrolled_as reading repository status =
     (case reading of
        Reading statuses \<Rightarrow>
          status \<in> set statuses \<and> to_lower (control_slug status) = to_lower repository \<and>
          cs_effective_state status = ''enrolled''
      | _ \<Rightarrow> False)"

lemma queue_store_options_hooks:
  assumes "configured_path path"
  shows "cx_claim_eligibility (queue_store_options (Some path) reading cx) =
      Some (control_plane_claim_eligibility (reading path))"
    and "cx_policy_authority (queue_store_options (Some path) reading cx) =
      Some (control_plane_policy_authority (reading path))"
  using assms by (simp_all add: queue_store_options_def configured_path_def)

lemma eligible_iff:
  "control_plane_claim_eligibility reading repository = Inr True \<longleftrightarrow>
     (\<exists>status. enrolled_as reading repository status)"
proof (cases reading)
  case (Reading statuses)
  then show ?thesis
    by (simp add: control_plane_claim_eligibility_def enrolled_repositories_def
        enrolled_repository_programs_def enrolled_as_def list_ex_iff) blast
qed (simp_all add: control_plane_claim_eligibility_def enrolled_repositories_def
    enrolled_repository_programs_def enrolled_as_def)

lemma action_name_inj: "inj_on action_name (set allowed_actions)"
  by (simp add: allowed_actions_def)

lemma action_of_name_Some: "action_of_name s = Some a \<longleftrightarrow> a \<in> set allowed_actions \<and> action_name a = s"
proof
  assume "action_of_name s = Some a"
  then show "a \<in> set allowed_actions \<and> action_name a = s"
    unfolding action_of_name_def by (rule find_SomeD)
next
  assume a: "a \<in> set allowed_actions \<and> action_name a = s"
  then obtain b where b: "action_of_name s = Some b"
    by (cases "action_of_name s") (auto simp: action_of_name_def find_None_iff)
  then have "b \<in> set allowed_actions \<and> action_name b = s"
    unfolding action_of_name_def by (rule find_SomeD)
  with a b action_name_inj show "action_of_name s = Some a" by (auto dest: inj_onD)
qed

lemma read_action_decisions_field:
  "read_action_decisions entries = Some decisions \<Longrightarrow> a \<in> set allowed_actions \<Longrightarrow>
     map_of decisions a = (case map_of entries (action_name a) of None \<Rightarrow> None | Some v \<Rightarrow> decision_of (Some v))"
proof (induction entries arbitrary: decisions)
  case Nil
  then show ?case by simp
next
  case (Cons entry rest)
  then obtain b d ds where b: "action_of_name (fst entry) = Some b" and d: "decision_of (Some (snd entry)) = Some d"
    and ds: "read_action_decisions rest = Some ds" and decisions: "decisions = (b, d) # ds"
    by (auto split: option.splits)
  have "a = b \<longleftrightarrow> action_name a = fst entry"
    using b Cons.prems(2) action_name_inj by (auto simp: action_of_name_Some inj_on_def)
  with Cons.IH [OF ds Cons.prems(2)] d show ?case by (auto simp: decisions split: option.splits)
qed

lemma control_plane_policy_authority_Some:
  assumes "control_plane_policy_authority reading repository = Inr (Some authority)"
  obtains status decisions boundaries default_decision where "enrolled_as reading repository status"
    and "parse_governance_policy (cs_governance_policy status) = Some (default_decision, decisions, boundaries)"
    and "authority =
      \<lparr>pa_core_snapshot_id = cs_core_snapshot_id status,
       pa_repository_commit_id = cs_repository_commit_id status,
       pa_action_ceiling = List.map_filter action_of_name (cs_action_ceiling status),
       pa_default_decision = default_decision, pa_action_decisions = decisions,
       pa_protected_boundaries = boundaries\<rparr>"
  using assms
  by (auto simp: control_plane_policy_authority_def enrolled_as_def split: control_reading.splits option.splits
      dest!: find_SomeD)

text \<open>What the policy document of a repository decides on an action, read directly: its entry, or
  the default of the document.\<close>

definition documented_decision :: "json \<Rightarrow> action \<Rightarrow> policy_decision option" where
  "documented_decision policy a =
     decision_of
       (case json_field (action_name a) (field ''actions'' policy) of
          None \<Rightarrow> field ''default_decision'' policy
        | Some v \<Rightarrow> Some v)"

lemma map_of_index_keys: "map_of (zip (map (\<lambda>i. decimal_text (int i)) is) xs) (action_name a) = None"
  if "a \<in> set allowed_actions"
proof -
  have "\<exists>c cs. action_name a = c # cs \<and> \<not> is_digit_char c"
    using that by (auto simp: allowed_actions_def is_digit_char_def code_unit_def)
  moreover have "numeral_text (decimal_text (int i))" for i by (rule decimal_text_numeral) simp
  ultimately have ne: "decimal_text (int i) \<noteq> action_name a" for i
    unfolding numeral_text_def by (metis list.pred_inject(2))
  have "action_name a \<notin> set (map (\<lambda>i. decimal_text (int i)) is)"
    using ne by (metis (no_types, lifting) imageE list.set_map)
  then show ?thesis by (auto simp: map_of_eq_None_iff dest: set_zip_leftD)
qed

lemma parsed_decision:
  assumes "parse_governance_policy policy = Some (default_decision, decisions, boundaries)"
    and "a \<in> set allowed_actions"
  shows "documented_decision policy a =
    Some (case map_of decisions a of None \<Rightarrow> default_decision | Some d \<Rightarrow> d)"
proof -
  obtain actions entries where d: "decision_of (field ''default_decision'' policy) = Some default_decision"
    and actions: "field ''actions'' policy = Some actions" "object_entries actions = Some entries"
    and decisions: "read_action_decisions entries = Some decisions"
    using assms(1) by (auto simp: parse_governance_policy_def split: option.splits)
  have "json_field (action_name a) (Some actions) = map_of entries (action_name a)"
    using actions(2) by (cases actions) (auto simp: map_of_index_keys [OF assms(2)])
  moreover have "map_of entries (action_name a) = Some v \<Longrightarrow> decision_of (Some v) \<noteq> None" for v
    using decisions
    by (induction entries arbitrary: decisions) (auto split: option.splits if_splits)
  ultimately show ?thesis
    using read_action_decisions_field [OF decisions assms(2)] d actions(1)
    by (auto simp: documented_decision_def split: option.splits)
qed

text \<open>C31: With a control plane configured, a repository whose definition the store accepts is
  enrolled, every action the definition may take or delegate is under the ceiling of its Core
  declaration and not denied by its policy document, read entry by entry, and the record kept with
  the item names the Core snapshot that was read.\<close>

theorem definitions_follow_the_policy_document:
  assumes "configured_path path"
    and "bind_policy (queue_store_options (Some path) reading cx) at input = Inr binding"
  shows "\<exists>status p. enrolled_as (reading path) (bi_repository input) status \<and> binding = Some p \<and>
    pol_core_snapshot_id p = cs_core_snapshot_id status \<and>
    (\<forall>a \<in> set (bi_allowed_actions input) \<union> set (bi_delegable_actions input).
       action_name a \<in> set (cs_action_ceiling status) \<and>
       documented_decision (cs_governance_policy status) a \<in> {Some Allow, Some ReviewRequired})"
proof -
  note hooks = queue_store_options_hooks [OF assms(1), of reading cx]
  have "binding \<noteq> None"
    using assms(2) hooks(2) bind_policy_None_iff [of "queue_store_options (Some path) reading cx" at input]
    by auto
  then obtain p where p: "binding = Some p" by auto
  with assms(2) hooks(2) obtain authority where
    answer: "control_plane_policy_authority (reading path) (bi_repository input) = Inr (Some authority)"
    and ceiling: "set (bi_allowed_actions input) \<union> set (bi_delegable_actions input) \<subseteq> set (pa_action_ceiling authority)"
    and decisions: "\<forall>a \<in> set (bi_allowed_actions input) \<union> set (bi_delegable_actions input).
      effective_decision authority a \<noteq> Deny"
    and core: "pol_core_snapshot_id p = pa_core_snapshot_id authority"
    by (auto elim!: bind_policy_within)
  from answer obtain status ds boundaries default_decision where
    status: "enrolled_as (reading path) (bi_repository input) status"
    and policy: "parse_governance_policy (cs_governance_policy status) = Some (default_decision, ds, boundaries)"
    and authority: "authority =
      \<lparr>pa_core_snapshot_id = cs_core_snapshot_id status,
       pa_repository_commit_id = cs_repository_commit_id status,
       pa_action_ceiling = List.map_filter action_of_name (cs_action_ceiling status),
       pa_default_decision = default_decision, pa_action_decisions = ds,
       pa_protected_boundaries = boundaries\<rparr>"
    by (rule control_plane_policy_authority_Some)
  have "action_name a \<in> set (cs_action_ceiling status) \<and>
      documented_decision (cs_governance_policy status) a \<in> {Some Allow, Some ReviewRequired}"
    if a: "a \<in> set (bi_allowed_actions input) \<union> set (bi_delegable_actions input)" for a
  proof -
    have "a \<in> set (List.map_filter action_of_name (cs_action_ceiling status))"
      using ceiling a authority by auto
    then obtain n where "n \<in> set (cs_action_ceiling status)" "action_of_name n = Some a"
      by (auto simp: List.map_filter_def)
    then have known: "a \<in> set allowed_actions" and name: "action_name a \<in> set (cs_action_ceiling status)"
      by (auto simp: action_of_name_Some)
    from parsed_decision [OF policy known]
    have "documented_decision (cs_governance_policy status) a = Some (effective_decision authority a)"
      by (simp add: effective_decision_def authority split: option.splits)
    with decisions a name show ?thesis by (cases "effective_decision authority a") auto
  qed
  with status p core show ?thesis by (auto simp: authority)
qed

text \<open>A claim with a control plane configured leases work of enrolled repositories only.\<close>

lemma claims_need_enrollment:
  assumes "configured_path path"
    and "claim (queue_store_options (Some path) reading cx) input s = Inr (Some item, s')"
    and "distinct (map r_id (st_items s))"
  shows "\<exists>r \<in> set (st_items s). r_id r = wi_id item \<and>
    (\<exists>status. enrolled_as (reading path) (r_repository r) status)"
  using assms(2)
proof (cases rule: claim_cases)
  case (leased q flt r)
  then have r: "r \<in> set (st_items s)" "hook_allows (queue_store_options (Some path) reading cx) (r_repository r)"
    by (auto simp: claim_succeeds_def claimable_def)
  then have "\<exists>status. enrolled_as (reading path) (r_repository r) status"
    using queue_store_options_hooks(1) [OF assms(1)] by (simp add: hook_allows_def eligible_iff)
  moreover have "wi_id item = r_id r"
    using leased(4) r(1) assms(3) by (auto simp: claim_succeeds_def take_lease_Inr leased_row_def claimed_row_def)
  ultimately show ?thesis using r(1) by auto
qed simp

subsection \<open>A sample\<close>

definition sample_policy :: json where
  "sample_policy = JObject
     [(''default_decision'', JString ''deny''),
      (''actions'', JObject [(''read'', JString ''allow''), (''create-followup'', JString ''review-required'')]),
      (''protected_boundaries'', JArray [])]"

definition sample_status :: control_status where
  "sample_status =
     \<lparr>cs_owner = ''Acme'', cs_name = ''tool'', cs_effective_state = ''enrolled'',
      cs_maintenance_programs = [], cs_core_snapshot_id = ''core'', cs_repository_commit_id = None,
      cs_action_ceiling = [''read'', ''write'', ''create-followup''], cs_governance_policy = sample_policy\<rparr>"

definition sample_binding_input :: binding_input where
  "sample_binding_input =
     \<lparr>bi_repository = ''acme/tool'', bi_kind = ''audit'', bi_allowed_actions = [Read, CreateFollowup],
      bi_delegable_actions = [Read], bi_created_by = ''operator:o'', bi_admitted = False\<rparr>"

theorem definitions_follow_the_policy_document_witness:
  "\<exists>status. enrolled_as (Reading [sample_status]) ''acme/tool'' status \<and>
     documented_decision (cs_governance_policy status) CreateFollowup \<in> {Some Allow, Some ReviewRequired}"
proof -
  have ok: "bind_policy (queue_store_options (Some ''core.db'') (\<lambda>_. Reading [sample_status]) (sample_ctx 5 ''P''))
      7 sample_binding_input =
    Inr (Some \<lparr>pol_core_snapshot_id = ''core'', pol_repository_commit_id = None,
      pol_review_required = [CreateFollowup], pol_authorization = None\<rparr>)" by code_simp
  have path: "configured_path ''core.db''" by (simp add: configured_path_def)
  from definitions_follow_the_policy_document [OF path ok] show ?thesis
    by (auto simp: sample_binding_input_def)
qed

end
