(* ===== verification/Repository_Settings.thy ===== *)
theory Repository_Settings
  imports Canonical_Json Import_Guarantees Policy_Authority
begin

text \<open>
  The settings conformance sweep (\<open>src/src/queue/repository-settings.ts\<close>): one repository's settings on
  GitHub against the contract of the active Core snapshot, and the proposal a drift becomes. The
  answers of GitHub, the contract of the active snapshot and SHA-256 are parameters. A value is
  compared by its JSON text; as an expected value is a flag, a number or a text, that is equality
  of the values.
\<close>

record settings_contract =
  sc_repository :: "(string \<times> json) list"
  sc_default_workflow_permissions :: json
  sc_can_approve_pull_request_reviews :: bool
  sc_vulnerability_alerts :: bool
  sc_dependabot_security_updates :: bool
  sc_secret_scanning :: bool
  sc_secret_scanning_push_protection :: bool
  sc_private_vulnerability_reporting :: bool
  sc_require_pull_request :: bool
  sc_required_approving_review_count :: jsnum
  sc_require_conversation_resolution :: bool
  sc_require_status_checks :: bool
  sc_strict_required_status_checks :: bool
  sc_block_deletions :: bool
  sc_block_force_pushes :: bool
  sc_merge_queue :: bool
  sc_tag_pattern :: string
  sc_tag_block_deletions :: bool
  sc_tag_block_force_pushes :: bool
  sc_tag_restrict_creation :: bool
  sc_license_required :: bool
  sc_description_required :: bool
  sc_topics_include :: "string list"
  sc_required_labels :: "string list"

record setting_drift =
  sd_setting :: string
  sd_expected :: json
  sd_observed :: "json option"

record settings_report =
  sr_repository :: string
  sr_default_branch :: string
  sr_drifts :: "setting_drift list"
  sr_unreadable :: "(string \<times> string) list"
  sr_visibility :: "string option"
  sr_has_discussions :: bool
  sr_required_checks :: "string list option"

subsection \<open>JavaScript values\<close>

definition as_object :: "json option \<Rightarrow> json option" where
  "as_object v = (case v of Some (JObject members) \<Rightarrow> Some (JObject members) | _ \<Rightarrow> None)"

definition truthy :: "json option \<Rightarrow> bool" where
  "truthy v =
     (case v of
        None \<Rightarrow> False
      | Some JNull \<Rightarrow> False
      | Some (JBool b) \<Rightarrow> b
      | Some (JNumber n) \<Rightarrow> n \<noteq> JInt 0
      | Some (JString s) \<Rightarrow> s \<noteq> []
      | _ \<Rightarrow> True)"

text \<open>\<open>String(v)\<close>; the text of a fraction is outside the model.\<close>

fun string_of_json :: "json \<Rightarrow> string" where
  "string_of_json JNull = ''null''"
| "string_of_json (JBool b) = (if b then ''true'' else ''false'')"
| "string_of_json (JNumber n) = (case number_json n of Some t \<Rightarrow> t | None \<Rightarrow> ''NaN'')"
| "string_of_json (JString s) = s"
| "string_of_json (JArray xs) = join_comma (map (\<lambda>x. if x = JNull then [] else string_of_json x) xs)"
| "string_of_json (JObject _) = ''[object Object]''"

text \<open>\<open>String(v ?? d)\<close>.\<close>

definition text_or :: "string \<Rightarrow> json option \<Rightarrow> string" where
  "text_or d v = (case v of None \<Rightarrow> d | Some JNull \<Rightarrow> d | Some w \<Rightarrow> string_of_json w)"

text \<open>
  \<open>Number(v ?? 0)\<close>, with \<open>JNull\<close> for NaN, as \<open>JSON.stringify\<close> writes it; of the texts only plain
  digits are read as a number.
\<close>

definition number_or_zero :: "json option \<Rightarrow> json" where
  "number_or_zero v =
     (case v of
        None \<Rightarrow> JNumber (JInt 0)
      | Some JNull \<Rightarrow> JNumber (JInt 0)
      | Some (JNumber n) \<Rightarrow> JNumber n
      | Some (JBool b) \<Rightarrow> JNumber (JInt (if b then 1 else 0))
      | Some (JString s) \<Rightarrow>
          if blank s then JNumber (JInt 0)
          else if numeral_text (trim s) then JNumber (JInt (number_of (trim s))) else JNull
      | _ \<Rightarrow> JNull)"

definition answer_problem :: "github_answer \<Rightarrow> string" where
  "answer_problem answer =
     (case answer of
        AnswerUnavailable \<Rightarrow> ''unavailable'' | Answer status _ \<Rightarrow> ''HTTP '' @ decimal_text status)"

subsection \<open>A report\<close>

definition drift :: "string \<Rightarrow> json \<Rightarrow> json option \<Rightarrow> settings_report \<Rightarrow> settings_report" where
  "drift setting expected observed report =
     (if observed = Some expected then report
      else
        report\<lparr>sr_drifts := sr_drifts report @
          [\<lparr>sd_setting = setting, sd_expected = expected, sd_observed = observed\<rparr>]\<rparr>)"

definition drift_flag :: "string \<Rightarrow> bool \<Rightarrow> bool \<Rightarrow> settings_report \<Rightarrow> settings_report" where
  "drift_flag setting expected observed = drift setting (JBool expected) (Some (JBool observed))"

definition unreadable :: "string \<Rightarrow> string \<Rightarrow> settings_report \<Rightarrow> settings_report" where
  "unreadable setting reason report =
     report\<lparr>sr_unreadable := sr_unreadable report @ [(setting, reason)]\<rparr>"

definition empty_settings_report :: "string \<Rightarrow> settings_report" where
  "empty_settings_report repository =
     \<lparr>sr_repository = repository, sr_default_branch = ''main'', sr_drifts = [], sr_unreadable = [],
      sr_visibility = None, sr_has_discussions = False, sr_required_checks = None\<rparr>"

text \<open>The repository object; a value \<open>null\<close> has no fields to read, and reading one throws.\<close>

definition security_enabled :: "json \<Rightarrow> string \<Rightarrow> bool" where
  "security_enabled security key =
     (json_field ''status'' (as_object (field key security)) = Some (JString ''enabled''))"

definition check_security :: "settings_contract \<Rightarrow> json \<Rightarrow> settings_report \<Rightarrow> settings_report" where
  "check_security contract repo report =
     (case as_object (field ''security_and_analysis'' repo) of
        None \<Rightarrow>
          unreadable ''security.secret_scanning''
            ''security_and_analysis absent from the repository read (needs admin scope)'' report
      | Some security \<Rightarrow>
          drift_flag ''security.dependabot_security_updates'' (sc_dependabot_security_updates contract)
            (security_enabled security ''dependabot_security_updates'')
          (drift_flag ''security.secret_scanning_push_protection''
            (sc_secret_scanning_push_protection contract)
            (security_enabled security ''secret_scanning_push_protection'')
          (drift_flag ''security.secret_scanning'' (sc_secret_scanning contract)
            (security_enabled security ''secret_scanning'') report)))"

definition check_metadata :: "settings_contract \<Rightarrow> json \<Rightarrow> settings_report \<Rightarrow> settings_report" where
  "check_metadata contract repo report =
     (let report1 =
        (if sc_license_required contract
         then drift_flag ''metadata.license_required'' True
           (truthy (json_field ''spdx_id'' (as_object (field ''license'' repo)))) report
         else report);
          report2 =
        (if sc_description_required contract
         then drift_flag ''metadata.description_required'' True
           (case as_text (field ''description'' repo) of None \<Rightarrow> False | Some d \<Rightarrow> \<not> blank d) report1
         else report1);
          topics = (case field ''topics'' repo of Some (JArray ts) \<Rightarrow> ts | _ \<Rightarrow> []) in
      foldl
        (\<lambda>r topic. drift_flag (''metadata.topics_include.'' @ topic) True (JString topic \<in> set topics) r)
        report2 (sc_topics_include contract))"

definition check_repository :: "settings_contract \<Rightarrow> json \<Rightarrow> settings_report \<Rightarrow> settings_report" where
  "check_repository contract repo report =
     (let report1 =
        report\<lparr>sr_default_branch := text_or ''main'' (field ''default_branch'' repo),
          sr_visibility := as_text (field ''visibility'' repo),
          sr_has_discussions := (field ''has_discussions'' repo = Some (JBool True))\<rparr>;
          report2 =
        foldl (\<lambda>r (key, expected). drift (''repository.'' @ key) expected (field key repo) r) report1
          (sc_repository contract) in
      check_security contract repo (check_metadata contract repo report2))"

definition check_actions :: "settings_contract \<Rightarrow> github_answer \<Rightarrow> settings_report \<Rightarrow> settings_report option" where
  "check_actions contract answer report =
     (case answer of
        Answer status v \<Rightarrow>
          if status \<noteq> 200 then Some (unreadable ''actions'' (answer_problem answer) report)
          else if v = JNull then None
          else
            Some
              (drift_flag ''actions.can_approve_pull_request_reviews''
                (sc_can_approve_pull_request_reviews contract)
                (field ''can_approve_pull_request_reviews'' v = Some (JBool True))
              (drift ''actions.default_workflow_permissions'' (sc_default_workflow_permissions contract)
                (field ''default_workflow_permissions'' v) report))
      | AnswerUnavailable \<Rightarrow> Some (unreadable ''actions'' (answer_problem answer) report))"

definition check_alerts :: "settings_contract \<Rightarrow> github_answer \<Rightarrow> settings_report \<Rightarrow> settings_report" where
  "check_alerts contract answer report =
     (case answer of
        Answer status v \<Rightarrow>
          if status = 204 \<or> status = 404
          then drift_flag ''security.vulnerability_alerts'' (sc_vulnerability_alerts contract) (status = 204) report
          else unreadable ''security.vulnerability_alerts'' (answer_problem answer) report
      | AnswerUnavailable \<Rightarrow> unreadable ''security.vulnerability_alerts'' (answer_problem answer) report)"

definition check_private_reporting ::
    "settings_contract \<Rightarrow> github_answer \<Rightarrow> settings_report \<Rightarrow> settings_report option"
where
  "check_private_reporting contract answer report =
     (let problem =
        (if sr_visibility report = Some ''private'' then report
         else unreadable ''security.private_vulnerability_reporting'' (answer_problem answer) report) in
      case answer of
        Answer status v \<Rightarrow>
          if status \<noteq> 200 then Some problem
          else if v = JNull then None
          else
            Some (drift_flag ''security.private_vulnerability_reporting''
              (sc_private_vulnerability_reporting contract) (field ''enabled'' v = Some (JBool True)) report)
      | AnswerUnavailable \<Rightarrow> Some problem)"

subsection \<open>Rulesets\<close>

definition array_of :: "json option \<Rightarrow> json list" where
  "array_of v = (case v of Some (JArray xs) \<Rightarrow> xs | _ \<Rightarrow> [])"

definition includes_ref :: "string list \<Rightarrow> json \<Rightarrow> bool" where
  "includes_ref refs ruleset =
     (let include = json_field ''include'' (as_object (json_field ''ref_name''
        (as_object (field ''conditions'' ruleset)))) in
      list_ex (\<lambda>r. r \<in> JString ` set refs) (array_of include))"

definition includes_default_branch :: "json \<Rightarrow> bool" where
  "includes_default_branch = includes_ref [''~DEFAULT_BRANCH'', ''~ALL'', ''refs/heads/main'']"

definition includes_pattern :: "string \<Rightarrow> json \<Rightarrow> bool" where
  "includes_pattern pattern = includes_ref [''~ALL'', ''refs/tags/'' @ pattern]"

definition find_rule :: "string \<Rightarrow> json list \<Rightarrow> json option" where
  "find_rule rule_type rules = List.find (\<lambda>rule. field ''type'' rule = Some (JString rule_type)) rules"

definition parameters_of :: "json \<Rightarrow> json" where
  "parameters_of rule =
     (case as_object (field ''parameters'' rule) of None \<Rightarrow> JObject [] | Some p \<Rightarrow> p)"

definition check_default_branch_ruleset ::
    "settings_contract \<Rightarrow> json list \<Rightarrow> settings_report \<Rightarrow> settings_report"
where
  "check_default_branch_ruleset contract rulesets report =
     (let rules = concat (map (\<lambda>r. array_of (field ''rules'' r)) rulesets);
          bypass = concat (map (\<lambda>r. array_of (field ''bypass_actors'' r)) rulesets);
          report1 = drift ''default_branch_ruleset.enforcement'' (JString ''active'')
            (Some (JString (if rulesets = [] then ''absent'' else ''active''))) report in
      if rulesets = [] then report1
      else
        (let report2 = drift ''default_branch_ruleset.bypass_actors'' (JString ''none'')
              (Some (JString (if bypass = [] then ''none''
                else decimal_text (int (length bypass)) @ '' actor(s)''))) report1;
             pull = find_rule ''pull_request'' rules;
             report3 = drift_flag ''default_branch_ruleset.require_pull_request''
               (sc_require_pull_request contract) (pull \<noteq> None) report2;
             report4 =
               (case pull of
                  None \<Rightarrow> report3
                | Some rule \<Rightarrow>
                    drift_flag ''default_branch_ruleset.require_conversation_resolution''
                      (sc_require_conversation_resolution contract)
                      (field ''required_review_thread_resolution'' (parameters_of rule) = Some (JBool True))
                    (drift ''default_branch_ruleset.required_approving_review_count''
                      (JNumber (sc_required_approving_review_count contract))
                      (Some (number_or_zero (field ''required_approving_review_count'' (parameters_of rule))))
                      report3));
             checks = find_rule ''required_status_checks'' rules;
             report5 = drift_flag ''default_branch_ruleset.require_status_checks''
               (sc_require_status_checks contract) (checks \<noteq> None) report4;
             report6 =
               (case checks of
                  None \<Rightarrow> report5
                | Some rule \<Rightarrow>
                    (drift_flag ''default_branch_ruleset.strict_required_status_checks''
                      (sc_strict_required_status_checks contract)
                      (field ''strict_required_status_checks_policy'' (parameters_of rule) = Some (JBool True))
                      report5)
                    \<lparr>sr_required_checks :=
                      Some (map (\<lambda>check. text_or [] (json_field ''context'' (as_object (Some check))))
                        (array_of (field ''required_status_checks'' (parameters_of rule))))\<rparr>) in
         drift_flag ''default_branch_ruleset.merge_queue'' (sc_merge_queue contract)
           (find_rule ''merge_queue'' rules \<noteq> None)
         (drift_flag ''default_branch_ruleset.block_force_pushes'' (sc_block_force_pushes contract)
           (find_rule ''non_fast_forward'' rules \<noteq> None)
         (drift_flag ''default_branch_ruleset.block_deletions'' (sc_block_deletions contract)
           (find_rule ''deletion'' rules \<noteq> None) report6))))"

definition check_tag_ruleset :: "settings_contract \<Rightarrow> json list \<Rightarrow> settings_report \<Rightarrow> settings_report" where
  "check_tag_ruleset contract rulesets report =
     (let rules = concat (map (\<lambda>r. array_of (field ''rules'' r)) rulesets);
          report1 = drift ''tag_ruleset.enforcement'' (JString ''active'')
            (Some (JString (if rulesets = [] then ''absent'' else ''active''))) report in
      if rulesets = [] then report1
      else
        drift_flag ''tag_ruleset.restrict_creation'' (sc_tag_restrict_creation contract)
          (find_rule ''creation'' rules \<noteq> None)
        (drift_flag ''tag_ruleset.block_force_pushes'' (sc_tag_block_force_pushes contract)
          (find_rule ''non_fast_forward'' rules \<noteq> None)
        (drift_flag ''tag_ruleset.block_deletions'' (sc_tag_block_deletions contract)
          (find_rule ''deletion'' rules \<noteq> None) report1)))"

text \<open>The rulesets whose summary says they are active and whose own reading succeeded.\<close>

definition ruleset_details :: "(string \<Rightarrow> github_answer) \<Rightarrow> json list \<Rightarrow> json list" where
  "ruleset_details get summaries =
     List.map_filter
       (\<lambda>summary.
          if field ''enforcement'' summary \<noteq> Some (JString ''active'') then None
          else
            (case get (''/rulesets/'' @
                (case field ''id'' summary of None \<Rightarrow> ''undefined'' | Some i \<Rightarrow> string_of_json i)) of
               Answer status v \<Rightarrow> if status = 200 then as_object (Some v) else None
             | AnswerUnavailable \<Rightarrow> None))
       summaries"

definition check_rulesets ::
    "settings_contract \<Rightarrow> (string \<Rightarrow> github_answer) \<Rightarrow> settings_report \<Rightarrow> settings_report"
where
  "check_rulesets contract get report =
     (let answer = get ''/rulesets?includes_parents=true&per_page=100'' in
      case answer of
        Answer status (JArray summaries) \<Rightarrow>
          if status \<noteq> 200 then unreadable ''default_branch_ruleset'' (answer_problem answer) report
          else
            (let details = ruleset_details get summaries;
                 targeting = (\<lambda>t r. field ''target'' r = Some (JString t)) in
             check_tag_ruleset contract
               (filter (\<lambda>r. targeting ''tag'' r \<and> includes_pattern (sc_tag_pattern contract) r) details)
               (check_default_branch_ruleset contract
                 (filter (\<lambda>r. targeting ''branch'' r \<and> includes_default_branch r) details) report))
      | _ \<Rightarrow> unreadable ''default_branch_ruleset'' (answer_problem answer) report)"

definition check_classic_protection :: "github_answer \<Rightarrow> settings_report \<Rightarrow> settings_report" where
  "check_classic_protection answer report =
     (let setting = ''default_branch_ruleset.classic_branch_protection'' in
      case answer of
        Answer status v \<Rightarrow>
          if status = 200 \<or> status = 404
          then drift setting (JString ''absent'')
            (Some (JString (if status = 200 then ''present'' else ''absent''))) report
          else if status = 403 then unreadable setting ''HTTP 403'' report
          else unreadable setting (answer_problem answer) report
      | AnswerUnavailable \<Rightarrow> unreadable setting (answer_problem answer) report)"

definition check_labels :: "settings_contract \<Rightarrow> github_answer \<Rightarrow> settings_report \<Rightarrow> settings_report" where
  "check_labels contract answer report =
     (case answer of
        Answer status (JArray labels) \<Rightarrow>
          if status \<noteq> 200 then unreadable ''labels'' (answer_problem answer) report
          else
            (let names = map (\<lambda>l. to_lower (text_or [] (json_field ''name'' (as_object (Some l))))) labels in
             foldl
               (\<lambda>r label. drift_flag (''labels.required.'' @ label) True (to_lower label \<in> set names) r)
               report (sc_required_labels contract))
      | _ \<Rightarrow> unreadable ''labels'' (answer_problem answer) report)"

subsection \<open>One repository\<close>

text \<open>\<open>get\<close> answers the paths under the repository; \<open>None\<close> is the refusal \<open>readRepositorySettings\<close>
  throws.\<close>

definition read_repository_settings ::
    "string \<Rightarrow> settings_contract \<Rightarrow> (string \<Rightarrow> github_answer) \<Rightarrow> settings_report option"
where
  "read_repository_settings repository contract get =
     (case get [] of
        AnswerUnavailable \<Rightarrow> None
      | Answer status repo \<Rightarrow>
          if status \<noteq> 200 \<or> repo = JNull then None
          else
            Option.bind
              (check_actions contract (get ''/actions/permissions/workflow'')
                (check_repository contract repo (empty_settings_report repository))) (\<lambda>report.
            Option.bind
              (check_private_reporting contract (get ''/private-vulnerability-reporting'')
                (check_alerts contract (get ''/vulnerability-alerts'') report)) (\<lambda>report.
            let report1 = check_rulesets contract get report in
            Some (check_labels contract (get ''/labels?per_page=100'')
              (check_classic_protection
                (get (''/branches/'' @ encode_uri_component (sr_default_branch report1) @ ''/protection''))
                report1)))))"


subsection \<open>The proposal a drift becomes\<close>

definition quoted :: "string \<Rightarrow> string" where
  "quoted s = quotation # s @ [quotation]"

text \<open>\<open>JSON.stringify\<close> of one drift; an observed value that is undefined is left out.\<close>

definition drift_json :: "setting_drift \<Rightarrow> string" where
  "drift_json d =
     render (JObject
       ([(''setting'', JString (sd_setting d)), (''expected'', sd_expected d)] @
        (case sd_observed d of None \<Rightarrow> [] | Some v \<Rightarrow> [(''observed'', v)])))"

definition drift_material :: "setting_drift list \<Rightarrow> string" where
  "drift_material drifts = CHR ''['' # join_comma (map drift_json (sort_key sd_setting drifts)) @ '']''"

definition drift_digest :: "(string \<Rightarrow> string) \<Rightarrow> setting_drift list \<Rightarrow> string" where
  "drift_digest sha256_hex drifts = ''sha256:'' @ sha256_hex (drift_material drifts)"

definition settings_drift_kind :: string where "settings_drift_kind = ''settings-drift''"

definition join_comma_space :: "string list \<Rightarrow> string" where
  "join_comma_space ts = (case ts of [] \<Rightarrow> [] | t # rest \<Rightarrow> t @ concat (map (\<lambda>u. '', '' @ u) rest))"

text \<open>The dashes of the text are outside the alphabet; its last character stands for one.\<close>

definition drift_instructions :: "string \<Rightarrow> settings_report \<Rightarrow> string option \<Rightarrow> string" where
  "drift_instructions repository report contract_commit =
     (let lines' =
        map (\<lambda>d. ''- '' @ sd_setting d @ '': expected '' @ render (sd_expected d) @ '', observed '' @
              (case sd_observed d of None \<Rightarrow> ''undefined'' | Some v \<Rightarrow> render v)) (sr_drifts report);
          unread =
        (if sr_unreadable report = [] then []
         else
           '' Unreadable this run (not counted): '' @
           join_comma_space (map (\<lambda>(setting, reason). setting @ '' ('' @ reason @ '')'') (sr_unreadable report)) @
           ''.'') in
      ''Snowcat compared '' @ repository @ apostrophe @ ''s live GitHub settings with the organization'' @
      apostrophe @ ''s repository settings contract (core ADR-0040'' @
      (case contract_commit of None \<Rightarrow> [] | Some c \<Rightarrow> if c = [] then [] else '', snapshot '' @ take 7 c) @
      '') and found these differences:'' @ [CHR 0x0A] @ join_lines lines' @ [CHR 0x0A] @ '' '' @
      ''This is a read-only finding. Snowcat holds no admin credential and changes no setting; '' @
      ''the operator applies the contract with core'' @ apostrophe @
      ''s `scripts/apply-repo-settings.sh <owner/repo>` (dry-run first), supplying the repository'' @
      apostrophe @ ''s required-check names. '' @
      ''A worker completing this item verifies, read-only, that the settings now match '' @
      [CHR 0xFF] @ '' re-read the same GitHub endpoints and quote them '' @ [CHR 0xFF] @
      '' and completes with that evidence; if they still drift, block with what remains.'' @ unread)"

definition drift_proposal ::
    "string \<Rightarrow> settings_report \<Rightarrow> string \<Rightarrow> string option \<Rightarrow> proposed_root_input"
where
  "drift_proposal repository report digest contract_commit =
     \<lparr>pi_seed =
        \<lparr>si_repository = repository, si_kind = settings_drift_kind,
         si_objective =
           ''Apply the repository settings contract to '' @ repository @ '': '' @
           decimal_text (int (length (sr_drifts report))) @ '' setting'' @
           (if length (sr_drifts report) = 1 then [] else ''s'') @ '' drifted'',
         si_instructions = drift_instructions repository report contract_commit,
         si_acceptance_criteria =
           [''Every setting listed above reads back as its expected value on GitHub, quoted in the evidence.'',
            ''No setting was changed by a worker; the operator applied the contract.''],
         si_allowed_actions = [Read], si_delegable_actions = [], si_required_artifact = None,
         si_execution_target = Some ReadOnly, si_priority = None,
         si_created_by = ''operator:settings-sweep'', si_extra = []\<rparr>,
      pi_source_ref = ''settings-drift:'' @ repository @ ''@'' @ digest,
      pi_predecessors = None\<rparr>"

subsection \<open>The sweep\<close>

datatype settings_error =
    ControlPathMissing
  | SettingsNotOptedIn string
  | SettingsRefused error

datatype settings_skip = NoContract | AlreadyProposed string

record settings_sweep =
  sw_contract_commit :: "string option"
  sw_swept :: "string list"
  sw_proposed :: "(string \<times> string \<times> nat) list"
  sw_conformant :: "string list"
  sw_skipped :: "(string \<times> settings_skip) list"
  sw_failed :: "string list"
  sw_not_opted_in :: "string list"
  sw_reports :: "settings_report list"

definition empty_settings_sweep :: settings_sweep where
  "empty_settings_sweep =
     \<lparr>sw_contract_commit = None, sw_swept = [], sw_proposed = [], sw_conformant = [], sw_skipped = [],
      sw_failed = [], sw_not_opted_in = [], sw_reports = []\<rparr>"

text \<open>The contract given, or that of the active snapshot with its commit, when it carries one.\<close>

definition choose_contract ::
    "settings_contract option \<Rightarrow> (settings_contract \<times> string) option res \<Rightarrow> bool \<Rightarrow>
       settings_error + (settings_contract \<times> string option) option"
where
  "choose_contract given active control_plane =
     (case given of
        Some contract \<Rightarrow> Inr (Some (contract, None))
      | None \<Rightarrow>
          and_then (require control_plane ControlPathMissing) (\<lambda>_.
          case active of
            Inl e \<Rightarrow> Inl (SettingsRefused e)
          | Inr answer \<Rightarrow> Inr (map_option (\<lambda>(contract, commit). (contract, Some commit)) answer)))"

text \<open>The repositories to read, with the enrolled ones that are not opted in.\<close>

definition choose_targets ::
    "string option \<Rightarrow> control_reading option \<Rightarrow> store \<Rightarrow> settings_error + string list \<times> string list"
where
  "choose_targets repository reading s =
     (case non_empty repository of
        Some slug \<Rightarrow>
          (case import_opted_in s slug of
             None \<Rightarrow> Inl (SettingsNotOptedIn slug)
           | Some r \<Rightarrow> Inr ([r], []))
      | None \<Rightarrow>
          (case reading of
             None \<Rightarrow> Inl ControlPathMissing
           | Some control \<Rightarrow>
               (case enrolled_repositories control of
                  Inl e \<Rightarrow> Inl (SettingsRefused e)
                | Inr slugs \<Rightarrow>
                    Inr (List.map_filter (import_opted_in s) (sort slugs),
                         filter (\<lambda>slug. import_opted_in s slug = None) (sort slugs)))))"

definition sweep_settings_of ::
    "ctx \<Rightarrow> (string \<Rightarrow> string) \<Rightarrow> (string \<Rightarrow> string \<Rightarrow> github_answer) \<Rightarrow> settings_contract \<Rightarrow> string \<Rightarrow>
       settings_sweep \<times> store \<Rightarrow> (settings_error option) \<times> settings_sweep \<times> store"
where
  "sweep_settings_of cx sha256_hex get contract repository acc =
     (case acc of (result, s) \<Rightarrow>
      case read_repository_settings repository contract (get repository) of
        None \<Rightarrow> (None, result\<lparr>sw_failed := sw_failed result @ [repository]\<rparr>, s)
      | Some report \<Rightarrow>
          let result1 =
            result\<lparr>sw_swept := sw_swept result @ [repository], sw_reports := sw_reports result @ [report]\<rparr> in
          if sr_drifts report = []
          then (None, result1\<lparr>sw_conformant := sw_conformant result1 @ [repository]\<rparr>, s)
          else
            (let digest = drift_digest sha256_hex (sr_drifts report) in
             case enqueue_proposed_roots cx repository
                    [drift_proposal repository report digest (sw_contract_commit result1)] s of
               Inl e \<Rightarrow> (Some (SettingsRefused e), result1, s)
             | Inr (outcome, s') \<Rightarrow>
                 (None,
                  (case po_created outcome of
                     [] \<Rightarrow>
                       result1\<lparr>sw_skipped := sw_skipped result1 @ [(repository, AlreadyProposed (take 19 digest))]\<rparr>
                   | item # _ \<Rightarrow>
                       result1\<lparr>sw_proposed := sw_proposed result1 @
                         [(repository, wi_id item, length (sr_drifts report))]\<rparr>),
                  s')))"

text \<open>The loop over the repositories; a refusal of the store ends it, with what was committed.\<close>

primrec sweep_settings_targets ::
    "(nat \<Rightarrow> ctx) \<Rightarrow> (string \<Rightarrow> string) \<Rightarrow> (string \<Rightarrow> string \<Rightarrow> github_answer) \<Rightarrow> settings_contract \<Rightarrow> nat \<Rightarrow>
       string list \<Rightarrow> settings_sweep \<times> store \<Rightarrow> (settings_error + settings_sweep) \<times> store"
where
  "sweep_settings_targets cx sha256_hex get contract i [] acc = (Inr (fst acc), snd acc)"
| "sweep_settings_targets cx sha256_hex get contract i (repository # rest) acc =
     (case sweep_settings_of (cx i) sha256_hex get contract repository acc of
        (Some e, _, s') \<Rightarrow> (Inl e, s')
      | (None, acc') \<Rightarrow> sweep_settings_targets cx sha256_hex get contract (Suc i) rest acc')"

definition sweep_repository_settings ::
    "(nat \<Rightarrow> ctx) \<Rightarrow> (string \<Rightarrow> string) \<Rightarrow> (string \<Rightarrow> string \<Rightarrow> github_answer) \<Rightarrow>
       settings_contract option \<Rightarrow> (settings_contract \<times> string) option res \<Rightarrow> control_reading option \<Rightarrow>
       string option \<Rightarrow> store \<Rightarrow> (settings_error + settings_sweep) \<times> store"
where
  "sweep_repository_settings cx sha256_hex get given active reading repository s =
     (case choose_contract given active (reading \<noteq> None) of
        Inl e \<Rightarrow> (Inl e, s)
      | Inr None \<Rightarrow> (Inr (empty_settings_sweep\<lparr>sw_skipped := [(''*'', NoContract)]\<rparr>), s)
      | Inr (Some (contract, commit)) \<Rightarrow>
          (case choose_targets repository reading s of
             Inl e \<Rightarrow> (Inl e, s)
           | Inr (targets, missing) \<Rightarrow>
               sweep_settings_targets cx sha256_hex get contract 0 targets
                 (empty_settings_sweep\<lparr>sw_contract_commit := commit, sw_not_opted_in := missing\<rparr>, s)))"


subsection \<open>A drift set is proposed once\<close>

definition proposal_admissible :: "string \<Rightarrow> proposed_root_input \<Rightarrow> store \<Rightarrow> bool" where
  "proposal_admissible repository p s =
     (st_user_version s \<le> schema_version \<and> assert_repository_enabled repository s = Inr () \<and>
      validate_work_definition
        (definition_of_seed None None None ((pi_seed p)\<lparr>si_repository := repository\<rparr>)) = Inr () \<and>
      validate_source_ref (pi_source_ref p) = Inr () \<and>
      (\<exists>ps. normalize_predecessors (pi_predecessors p) = Inr ps))"

lemma enqueue_one:
  assumes "enqueue_proposed_roots cx repository [p] s = Inr (outcome, s')"
  shows "proposal_admissible repository p s"
    and "source_ref_exists repository (pi_source_ref p) s'"
    and "st_repositories s' = st_repositories s" and "st_user_version s' = st_user_version s"
    and "source_ref_exists g ref s \<Longrightarrow> source_ref_exists g ref s'"
    and "find_row i s = Some r \<Longrightarrow> find_row i s' = Some r"
proof -
  obtain seen where step: "proposal_step cx repository (0, p)
      (\<lparr>po_created = [], po_skipped_source_refs = []\<rparr>, [], s) = Inr (outcome, seen, s')"
    and v: "st_user_version s \<le> schema_version" "assert_repository_enabled repository s = Inr ()"
    using assms by (auto simp: enqueue_proposed_roots_def and_then_Inr_iff transaction_Inr)
  show "proposal_admissible repository p s"
    using step v by (auto simp: proposal_step_def Let_def and_then_Inr_iff proposal_admissible_def)
  show "source_ref_exists repository (pi_source_ref p) s'" "st_repositories s' = st_repositories s"
    "st_user_version s' = st_user_version s"
    "source_ref_exists g ref s \<Longrightarrow> source_ref_exists g ref s'"
    "find_row i s = Some r \<Longrightarrow> find_row i s' = Some r"
    using step
    by (auto simp: proposal_step_def Let_def and_then_Inr_iff create_item_def insert_work_def
        insert_row_Inr source_ref_exists_def row_of_work_def root_of_seed_def find_row_append
        split: if_splits)
qed

lemma enqueue_again:
  assumes "proposal_admissible repository p s" and "source_ref_exists repository (pi_source_ref p) s"
  shows "enqueue_proposed_roots cx repository [p] s =
    Inr (\<lparr>po_created = [], po_skipped_source_refs = [pi_source_ref p]\<rparr>, s)"
proof -
  have "repository_slug repository" using assms(1) by (auto simp: proposal_admissible_def assert_repository_enabled_Inr)
  with assms show ?thesis
    by (auto simp: enqueue_proposed_roots_def transaction_def assert_supported_schema_version_def
        proposal_admissible_def validate_repository_def proposal_step_def Let_def)
qed

text \<open>A repository about which a further sweep has nothing to propose.\<close>

definition settled ::
    "(string \<Rightarrow> string) \<Rightarrow> (string \<Rightarrow> string \<Rightarrow> github_answer) \<Rightarrow> settings_contract \<Rightarrow> string option \<Rightarrow> string \<Rightarrow>
       store \<Rightarrow> bool"
where
  "settled sha256_hex get contract commit repository s =
     (case read_repository_settings repository contract (get repository) of
        None \<Rightarrow> True
      | Some report \<Rightarrow>
          sr_drifts report = [] \<or>
          (let p = drift_proposal repository report (drift_digest sha256_hex (sr_drifts report)) commit in
           proposal_admissible repository p s \<and> source_ref_exists repository (pi_source_ref p) s))"

lemma sweep_repository_settles:
  assumes "sweep_settings_of cx sha256_hex get contract repository (result, s) = (None, result', s')"
  shows "settled sha256_hex get contract (sw_contract_commit result) repository s'"
    and "sw_contract_commit result' = sw_contract_commit result"
    and "settled sha256_hex get contract commit g s \<Longrightarrow> settled sha256_hex get contract commit g s'"
    and "st_repositories s' = st_repositories s"
    and "find_row i s = Some r \<Longrightarrow> find_row i s' = Some r"
proof -
  have admissible: "proposal_admissible g p s \<Longrightarrow> st_repositories t = st_repositories s \<Longrightarrow>
      st_user_version t = st_user_version s \<Longrightarrow> proposal_admissible g p t" for g p t
    by (simp add: proposal_admissible_def assert_repository_enabled_def find_repository_def)
  consider "s' = s" "settled sha256_hex get contract (sw_contract_commit result) repository s"
      "sw_contract_commit result' = sw_contract_commit result"
    | report outcome where "read_repository_settings repository contract (get repository) = Some report"
      "enqueue_proposed_roots cx repository [drift_proposal repository report
         (drift_digest sha256_hex (sr_drifts report)) (sw_contract_commit result)] s = Inr (outcome, s')"
      "sw_contract_commit result' = sw_contract_commit result"
    using assms
    by (auto simp: sweep_settings_of_def settled_def Let_def
        split: option.splits if_splits sum.splits prod.splits list.splits)
  then show "settled sha256_hex get contract (sw_contract_commit result) repository s'"
    and "sw_contract_commit result' = sw_contract_commit result"
    and "settled sha256_hex get contract commit g s \<Longrightarrow> settled sha256_hex get contract commit g s'"
    and "st_repositories s' = st_repositories s"
    and "find_row i s = Some r \<Longrightarrow> find_row i s' = Some r"
    using admissible
    by (cases; auto simp: settled_def Let_def enqueue_one split: option.splits dest: enqueue_one)+
qed


lemma sweep_targets_settle:
  assumes "sweep_settings_targets cx sha256_hex get contract i targets (result, s) = (Inr r, s')"
  shows "(\<forall>g \<in> set targets. settled sha256_hex get contract (sw_contract_commit result) g s') \<and>
    st_repositories s' = st_repositories s \<and>
    (\<forall>commit g. settled sha256_hex get contract commit g s \<longrightarrow> settled sha256_hex get contract commit g s') \<and>
    (\<forall>j q. find_row j s = Some q \<longrightarrow> find_row j s' = Some q)"
  using assms
proof (induction targets arbitrary: i result s)
  case Nil
  then show ?case by simp
next
  case (Cons g targets)
  obtain result1 s1 where step: "sweep_settings_of (cx i) sha256_hex get contract g (result, s) = (None, result1, s1)"
    and rest: "sweep_settings_targets cx sha256_hex get contract (Suc i) targets (result1, s1) = (Inr r, s')"
    using Cons.prems by (auto split: prod.splits option.splits)
  note one = sweep_repository_settles [OF step] and more = Cons.IH [OF rest]
  from one(1) more have "settled sha256_hex get contract (sw_contract_commit result) g s'" by blast
  moreover have "\<forall>h \<in> set targets. settled sha256_hex get contract (sw_contract_commit result) h s'"
    using more one(2) by simp
  moreover have "st_repositories s' = st_repositories s" using more one(4) by simp
  ultimately show ?case using more one(3,5) by auto
qed

lemma sweep_targets_settled:
  assumes "\<forall>g \<in> set targets. settled sha256_hex get contract (sw_contract_commit result) g s"
  shows "\<exists>r. sweep_settings_targets cx sha256_hex get contract i targets (result, s) = (Inr r, s) \<and>
    sw_proposed r = sw_proposed result"
  using assms
proof (induction targets arbitrary: i result)
  case Nil
  then show ?case by simp
next
  case (Cons g targets)
  have "\<exists>result1. sweep_settings_of (cx i) sha256_hex get contract g (result, s) = (None, result1, s) \<and>
      sw_proposed result1 = sw_proposed result \<and> sw_contract_commit result1 = sw_contract_commit result"
    using Cons.prems
    by (auto simp: sweep_settings_of_def settled_def Let_def enqueue_again split: option.splits)
  then obtain result1 where one: "sweep_settings_of (cx i) sha256_hex get contract g (result, s) = (None, result1, s)"
    "sw_proposed result1 = sw_proposed result" "sw_contract_commit result1 = sw_contract_commit result"
    by blast
  then obtain r where "sweep_settings_targets cx sha256_hex get contract (Suc i) targets (result1, s) = (Inr r, s) \<and>
      sw_proposed r = sw_proposed result1"
    using Cons.IH [of result1 "Suc i"] Cons.prems by auto
  with one show ?case by simp
qed

text \<open>A settings sweep that ran to its end leaves every existing item as it was, and a second
  sweep over the same settings, whenever it runs, proposes nothing and changes nothing: a set of
  drifted settings is proposed once.\<close>

theorem settings_drift_is_proposed_once:
  assumes "sweep_repository_settings cx sha256_hex get given active reading repository s = (Inr r, s')"
  shows "(\<exists>r'. sweep_repository_settings cx' sha256_hex get given active reading repository s' = (Inr r', s') \<and>
      sw_proposed r' = []) \<and>
    (\<forall>i. find_row i s = None \<or> find_row i s' = find_row i s)"
proof -
  have again: "choose_targets repository reading s' = choose_targets repository reading s"
    if "st_repositories s' = st_repositories s"
  proof -
    have same: "import_opted_in s' = import_opted_in s" using that by (simp add: fun_eq_iff import_opted_in_def enabled_repositories_def)
    show ?thesis unfolding choose_targets_def same ..
  qed
  consider "s' = s" "choose_contract given active (reading \<noteq> None) = Inr None"
    | contract commit targets missing where
      "choose_contract given active (reading \<noteq> None) = Inr (Some (contract, commit))"
      "choose_targets repository reading s = Inr (targets, missing)"
      "sweep_settings_targets cx sha256_hex get contract 0 targets
         (empty_settings_sweep\<lparr>sw_contract_commit := commit, sw_not_opted_in := missing\<rparr>, s) = (Inr r, s')"
    using assms by (auto simp: sweep_repository_settings_def split: sum.splits option.splits prod.splits)
  then show ?thesis
  proof cases
    case 1
    then show ?thesis by (simp add: sweep_repository_settings_def empty_settings_sweep_def)
  next
    case 2
    note settle = sweep_targets_settle [OF 2(3)]
    then obtain r' where "sweep_settings_targets cx' sha256_hex get contract 0 targets
        (empty_settings_sweep\<lparr>sw_contract_commit := commit, sw_not_opted_in := missing\<rparr>, s') = (Inr r', s') \<and>
      sw_proposed r' = sw_proposed (empty_settings_sweep\<lparr>sw_contract_commit := commit, sw_not_opted_in := missing\<rparr>)"
      using sweep_targets_settled by blast
    moreover have "choose_targets repository reading s' = Inr (targets, missing)"
      using again settle 2(2) by simp
    ultimately have "\<exists>r'. sweep_repository_settings cx' sha256_hex get given active reading repository s' = (Inr r', s') \<and>
        sw_proposed r' = []"
      using 2(1) by (simp add: sweep_repository_settings_def empty_settings_sweep_def)
    moreover have "find_row i s = None \<or> find_row i s' = find_row i s" for i
      using settle by (cases "find_row i s") auto
    ultimately show ?thesis by blast
  qed
qed

subsection \<open>A sample repository\<close>

definition sample_contract :: settings_contract where
  "sample_contract =
     \<lparr>sc_repository = [(''delete_branch_on_merge'', JBool True)],
      sc_default_workflow_permissions = JString ''read'', sc_can_approve_pull_request_reviews = False,
      sc_vulnerability_alerts = True, sc_dependabot_security_updates = True, sc_secret_scanning = True,
      sc_secret_scanning_push_protection = True, sc_private_vulnerability_reporting = True,
      sc_require_pull_request = True, sc_required_approving_review_count = JInt 0,
      sc_require_conversation_resolution = False, sc_require_status_checks = False,
      sc_strict_required_status_checks = False, sc_block_deletions = True, sc_block_force_pushes = True,
      sc_merge_queue = False, sc_tag_pattern = ''v*'', sc_tag_block_deletions = True,
      sc_tag_block_force_pushes = False, sc_tag_restrict_creation = False, sc_license_required = False,
      sc_description_required = False, sc_topics_include = [], sc_required_labels = []\<rparr>"

text \<open>
  GitHub answers the listing of the rulesets, which has an active one for the branch, and not the
  reading of that ruleset.
\<close>

definition sample_settings :: "string \<Rightarrow> string \<Rightarrow> github_answer" where
  "sample_settings repository path =
     (if path = [] then Answer 200 (JObject [(''delete_branch_on_merge'', JBool True)])
      else if path = ''/rulesets?includes_parents=true&per_page=100''
      then Answer 200 (JArray [JObject [(''id'', JNumber (JInt 3)), (''enforcement'', JString ''active'')]])
      else if path = ''/rulesets/3'' then Answer 403 JNull
      else AnswerUnavailable)"

text \<open>
  The sweep then reports the ruleset as absent, a drift, and nothing about rulesets as unreadable:
  the field \<open>unreadable\<close> of the report is documented as the settings that could not be read,
  \<open>never counted as drift\<close>.
\<close>

lemma unread_ruleset_counts_as_drift:
  "map_option (\<lambda>r. (map sd_setting (sr_drifts r), map fst (sr_unreadable r)))
     (read_repository_settings ''acme/tool'' sample_contract (sample_settings ''acme/tool'')) =
   Some ([''default_branch_ruleset.enforcement'', ''tag_ruleset.enforcement''],
     [''security.secret_scanning'', ''actions'', ''security.vulnerability_alerts'',
      ''security.private_vulnerability_reporting'',
      ''default_branch_ruleset.classic_branch_protection'', ''labels''])"
  by code_simp

text \<open>A ruleset that names a default branch other than \<open>main\<close> is not seen either.\<close>

lemma ruleset_of_another_default_branch_is_not_seen:
  "includes_default_branch
     (JObject [(''conditions'', JObject [(''ref_name'', JObject [(''include'',
        JArray [JString ''refs/heads/master''])])])]) = False"
  by code_simp

definition sample_settings_sweep :: "store \<Rightarrow> (settings_error + settings_sweep) \<times> store" where
  "sample_settings_sweep s =
     sweep_repository_settings (\<lambda>n. sample_ctx (200 + 10 * int n) ''S'') (\<lambda>text'. ''0a'') sample_settings
       (Some sample_contract) (Inr None) None (Some ''acme/tool'') s"

definition swept :: "(settings_error + settings_sweep) \<times> store \<Rightarrow> settings_sweep option" where
  "swept out = (case fst out of Inl _ \<Rightarrow> None | Inr r \<Rightarrow> Some r)"

lemma sample_sweep_proposes:
  "map_option (map (snd \<circ> snd) \<circ> sw_proposed) (swept (sample_settings_sweep sample1)) = Some [2]"
  by code_simp

theorem settings_drift_is_proposed_once_witness:
  "\<exists>r'. sample_settings_sweep (snd (sample_settings_sweep sample1)) = (Inr r', snd (sample_settings_sweep sample1)) \<and> sw_proposed r' = []"
proof -
  have "swept (sample_settings_sweep sample1) \<noteq> None" using sample_sweep_proposes by auto
  then obtain r where "sample_settings_sweep sample1 = (Inr r, snd (sample_settings_sweep sample1))"
    by (cases "sample_settings_sweep sample1") (auto simp: swept_def split: sum.splits)
  from settings_drift_is_proposed_once [OF this [unfolded sample_settings_sweep_def]] show ?thesis
    unfolding sample_settings_sweep_def by blast
qed

end
