(* ===== verification/Maintenance_Programs.thy ===== *)
theory Maintenance_Programs
  imports Issue_Import Policy_Authority "HOL-Library.Multiset"
begin

text \<open>
  The maintenance program catalog (\<open>src/src/queue/programs.ts\<close>) and the feeder that seeds its
  discovery roots (\<open>src/src/queue/seeds.ts\<close>), over the creation paths of \<open>Work_Creation\<close>. The texts
  of the catalog are the source's; a character outside the alphabet stands as \<open>CHR 0xFF\<close>.
\<close>

subsection \<open>The catalog\<close>

text \<open>\<open>SeedWorkInput\<close> without what the feeder supplies.\<close>

record discovery_template =
  dt_kind :: string
  dt_objective :: string
  dt_instructions :: string
  dt_acceptance_criteria :: "string list"
  dt_allowed_actions :: "action list"
  dt_execution_target :: execution_target
  dt_priority :: jsnum

record maintenance_program =
  mp_id :: string
  mp_discovery :: discovery_template
  mp_child_ceiling :: "action list"
  mp_child_admission :: string
  mp_cooldown_seconds :: int

definition discovery_actions :: "action list" where
  "discovery_actions = [Read, CreateFollowup]"

definition conformance_discovery_actions :: "action list" where
  "conformance_discovery_actions = [Read, RunTests, CreateFollowup]"

definition implementation_ceiling :: "action list" where
  "implementation_ceiling = [Read, Write, RunTests, OpenIssue, OpenPr, CreateFollowup]"

definition day_seconds :: int where "day_seconds = 24 * 60 * 60"
definition week_seconds :: int where "week_seconds = 7 * day_seconds"

definition quality_program :: maintenance_program where
  "quality_program =
     \<lparr>mp_id = ''quality'',
      mp_discovery = \<lparr>dt_kind = ''quality-gap-discovery'',
       dt_objective = ''Identify one evidence-backed software quality gap without proposing a new '' @
         ''product feature.'',
       dt_instructions = ''Inspect existing behavior and identify exactly one maintainability, '' @
         ''reliability, or error-handling gap. Do not edit files or open a GitHub '' @
         ''artifact. Report impact and file-level evidence, and propose one bounded '' @
         ''implementation child only when justified.'',
       dt_acceptance_criteria =
        [''The result identifies exactly one gap in existing behavior rather than a '' @
         ''feature request.'',
         ''Evidence names the relevant implementation and any related tests or '' @
         ''documentation.'',
         ''Any follow-up has a bounded change and verifiable project check.''],
       dt_allowed_actions = discovery_actions,
       dt_execution_target = ReadOnly, dt_priority = JInt 0\<rparr>,
      mp_child_ceiling = implementation_ceiling, mp_child_admission = ''proposed'',
      mp_cooldown_seconds = day_seconds\<rparr>"

definition ci_program :: maintenance_program where
  "ci_program =
     \<lparr>mp_id = ''ci'',
      mp_discovery = \<lparr>dt_kind = ''ci-gap-discovery'',
       dt_objective = ''Identify one evidence-backed gap in CI or test signal quality.'',
       dt_instructions = ''Inspect CI workflows, project checks, and tests. Identify exactly one missing, '' @
         ''misleading, flaky, or unnecessarily weak signal. Do not edit files or open a '' @
         ''GitHub artifact. Propose one bounded implementation child only when justified.'',
       dt_acceptance_criteria =
        [''The result identifies exactly one CI or test-signal gap.'',
         ''Evidence cites the relevant workflow, command, source, or test paths.'',
         ''Any follow-up states the signal that will change and how it will be verified.''],
       dt_allowed_actions = discovery_actions,
       dt_execution_target = ReadOnly, dt_priority = JInt 0\<rparr>,
      mp_child_ceiling = implementation_ceiling, mp_child_admission = ''proposed'',
      mp_cooldown_seconds = day_seconds\<rparr>"

definition security_program :: maintenance_program where
  "security_program =
     \<lparr>mp_id = ''security'',
      mp_discovery = \<lparr>dt_kind = ''security-gap-discovery'',
       dt_objective = ''Identify one evidence-backed security hardening gap.'',
       dt_instructions = ''Inspect trust boundaries, input validation, secret handling, dependencies, and '' @
         ''authorization code. Identify exactly one concrete hardening gap without '' @
         ''overstating exploitability. Do not edit files or open a GitHub artifact. '' @
         ''Propose one bounded child only when the evidence justifies it.'',
       dt_acceptance_criteria =
        [''The result identifies exactly one security hardening gap and distinguishes '' @
         ''observation from verified exploitability.'',
         ''Evidence cites the relevant boundary and source, test, configuration, or '' @
         ''dependency paths.'',
         ''Any follow-up has least-authority actions and mechanically verifiable criteria.''],
       dt_allowed_actions = discovery_actions,
       dt_execution_target = ReadOnly, dt_priority = JInt 0\<rparr>,
      mp_child_ceiling = implementation_ceiling, mp_child_admission = ''proposed'',
      mp_cooldown_seconds = day_seconds\<rparr>"

definition architecture_program :: maintenance_program where
  "architecture_program =
     \<lparr>mp_id = ''architecture'',
      mp_discovery = \<lparr>dt_kind = ''architecture-gap-discovery'',
       dt_objective = ''Identify one evidence-backed mismatch between this repository and its '' @
         ''documented current contracts.'',
       dt_instructions = ''Compare implementation and live repository instructions with accepted ADRs, '' @
         ''design documents, and specs. Identify exactly one current mismatch; do not '' @
         ''invent an organization standard or treat an aspiration as implemented truth. Do '' @
         ''not edit files or open a GitHub artifact. Propose one bounded child only when '' @
         ''justified.'',
       dt_acceptance_criteria =
        [''The result identifies exactly one mismatch between live code or instructions '' @
         ''and a current documented contract.'',
         ''Evidence cites both sides of the mismatch.'',
         ''Any follow-up preserves the distinction between current truth and aspiration.''],
       dt_allowed_actions = discovery_actions,
       dt_execution_target = ReadOnly, dt_priority = JInt 0\<rparr>,
      mp_child_ceiling = implementation_ceiling, mp_child_admission = ''proposed'',
      mp_cooldown_seconds = week_seconds\<rparr>"

definition conformance_program :: maintenance_program where
  "conformance_program =
     \<lparr>mp_id = ''conformance'',
      mp_discovery = \<lparr>dt_kind = ''conformance-gap-discovery'',
       dt_objective = ''Identify one evidence-backed way this repository does not satisfy the '' @
         ''organization'' @ apostrophe @ ''s binding contracts.'',
       dt_instructions = ''Compare the repository with frostyard/core'' @ apostrophe @
         ''s binding ADRs (its docs/org-adrs.md against Core'' @ apostrophe @
         ''s current ADR set), the canonical repository surfaces of the surfaces contract '' @
         ''(agent instructions, governance file, skills directory, documentation index '' @
         [CHR 0xFF] @
         '' present, real content, valid), its `make ci` gate and title lint, and the ACMM '' @
         ''criteria (the frostyard-acmm-conformance skill). Identify exactly one current '' @
         ''gap; do not treat an aspiration as a binding contract or invent an organization '' @
         ''standard. Then run `make verify` on this detached read-only checkout (core '' @
         ''ADR-0044: every enrolled repository exposes it '' @ [CHR 0xFF] @
         '' its absence is itself the gap, report it as such and do not substitute another '' @
         ''command), then `git status --porcelain`; a non-empty status is the gap (report '' @
         ''the exact paths it changed). Do not edit files or open a GitHub artifact. '' @
         ''Propose one bounded child only when justified: a compliance change in this '' @
         ''repository, or '' @ [CHR 0xFF] @ '' when the ADR is what should move '' @ [CHR 0xFF] @
         '' one bounded item to raise it with Core.'',
       dt_acceptance_criteria =
        [''The result identifies exactly one gap between the repository and a named, '' @
         ''current, binding organization contract.'',
         ''Evidence cites the contract (ADR, surfaces contract entry, ACMM criterion, or '' @
         ''gate) and the repository path or output that fails it.'',
         ''The result states whether `make verify` ran, its exit status, and the `git '' @
         ''status --porcelain` output afterwards (empty, or the paths it changed).'',
         ''Any follow-up is one bounded compliance change with a mechanically verifiable '' @
         ''check, or one bounded item to raise the contract with Core; never both.''],
       dt_allowed_actions = conformance_discovery_actions,
       dt_execution_target = ReadOnly, dt_priority = JInt 0\<rparr>,
      mp_child_ceiling = implementation_ceiling, mp_child_admission = ''proposed'',
      mp_cooldown_seconds = week_seconds\<rparr>"

definition triage_program :: maintenance_program where
  "triage_program =
     \<lparr>mp_id = ''triage'',
      mp_discovery = \<lparr>dt_kind = ''triage-discovery'',
       dt_objective = ''Identify one open issue that needs a triage action: stale, duplicate, needs '' @
         ''reproduction, mislabeled, or resolved but still open.'',
       dt_instructions = ''Read the repository'' @ apostrophe @
         ''s open issues (and, for each candidate, its linked or referencing pull '' @
         ''requests). Identify exactly one issue that is stale, a duplicate of another, '' @
         ''missing a reproduction the reporter can supply, mislabeled, or resolved by a '' @
         ''merged pull request yet still open. Do not edit files or open a GitHub '' @
         ''artifact, and do not comment on, label, or close anything. Propose at most one '' @
         ''child naming the exact issue and the exact action (close with a reason, label, '' @
         ''ask for reproduction, link the duplicate); its actions may be at most read and '' @
         ''open-issue, never a pull request. Children of this program are always proposals '' @
         ''for the operator to admit.'',
       dt_acceptance_criteria =
        [''The result identifies exactly one open issue and the one triage action it '' @
         ''needs, with the evidence (the merged pull request, the duplicate, the last '' @
         ''activity date, the missing information).'',
         ''Any follow-up names the issue URL and the action verbatim, is bounded to that '' @
         ''one issue, and grants at most read and open-issue.'',
         ''No issue was commented on, labeled, or closed by this item.''],
       dt_allowed_actions = discovery_actions,
       dt_execution_target = ReadOnly, dt_priority = JInt 0\<rparr>,
      mp_child_ceiling = [Read, OpenIssue], mp_child_admission = ''proposed'',
      mp_cooldown_seconds = day_seconds\<rparr>"

definition dependencies_program :: maintenance_program where
  "dependencies_program =
     \<lparr>mp_id = ''dependencies'',
      mp_discovery = \<lparr>dt_kind = ''dependencies-gap-discovery'',
       dt_objective = ''Identify one evidence-backed dependency gap: an outdated or vulnerable module, '' @
         ''Dependabot noise worth consolidating, or license drift.'',
       dt_instructions = ''Read the repository'' @ apostrophe @
         ''s dependency manifests and lockfiles and run its toolchain'' @ apostrophe @
         ''s read-only reports (for Go: `go list -m -u all`, `govulncheck ./...`; for npm: '' @
         ''`npm outdated`, `npm audit`; for others, the equivalent). Identify exactly one '' @
         ''gap: a module with a released newer version worth taking (name why '' @ [CHR 0xFF] @
         '' a fix the repository needs, a security advisory, an unsupported major), a '' @
         ''known vulnerability in the resolved graph, a stream of Dependabot pull requests '' @
         ''that one bump would replace, or a license that drifted from what the repository '' @
         ''allows. Prefer frostyard-owned modules (`github.com/frostyard/*`) that are '' @
         ''behind their latest release. Do not edit files or open a GitHub artifact. '' @
         ''Propose one bounded child only when justified: one bump (or one consolidated '' @
         ''bump) with the exact target versions and the checks that prove it; the '' @
         ''supply-chain boundary is review-required, so the child is a proposal the '' @
         ''operator admits and its pull request is human-merged.'',
       dt_acceptance_criteria =
        [''The result identifies exactly one dependency gap with the module, the resolved '' @
         ''version, the target version or advisory, and why it matters to this repository.'',
         ''Evidence cites the manifest or lockfile path and the report output (`go list -m '' @
         ''-u`, `govulncheck`, `npm outdated`, `npm audit`, or equivalent) observed on the '' @
         ''default branch.'',
         ''Any follow-up names the exact modules and target versions, keeps to one bump or '' @
         ''one consolidated bump, and requires the repository'' @ apostrophe @
         ''s own checks to pass on the change.''],
       dt_allowed_actions = discovery_actions,
       dt_execution_target = ReadOnly, dt_priority = JInt 0\<rparr>,
      mp_child_ceiling = implementation_ceiling, mp_child_admission = ''proposed'',
      mp_cooldown_seconds = week_seconds\<rparr>"

definition docs_program :: maintenance_program where
  "docs_program =
     \<lparr>mp_id = ''docs'',
      mp_discovery = \<lparr>dt_kind = ''docs-drift-discovery'',
       dt_objective = ''Identify one place where the reader-facing documentation no longer matches what '' @
         ''the code does.'',
       dt_instructions = ''Read the README, runbooks, examples, CLI help, and other documentation a user '' @
         ''or operator runs from, and compare each claim, command, flag, path, and example '' @
         ''with the current code and its tests (the frostyard-repo-docs skill is the '' @
         ''procedure). Identify exactly one drift: a command or flag that no longer exists '' @
         ''or behaves as documented, an example that no longer runs, a path or file that '' @
         ''moved, a described default that changed. This program covers what a reader '' @
         ''runs; the architecture program covers contracts versus code and the conformance '' @
         ''program covers whether the canonical surfaces exist '' @ [CHR 0xFF] @
         '' do not report those here. Do not edit files or open a GitHub artifact. Propose '' @
         ''one bounded child only when justified: the exact doc change (or the code fix, '' @
         ''when the code is what drifted) and how a reader would verify it.'',
       dt_acceptance_criteria =
        [''The result identifies exactly one reader-facing documentation drift, quoting '' @
         ''the documented claim and the current behavior it contradicts.'',
         ''Evidence cites the document path and the code, test, or command output that '' @
         ''shows the current behavior.'',
         ''Any follow-up names the exact document (or code) change and a mechanically '' @
         ''verifiable check '' @ [CHR 0xFF] @
         '' the example runs, the flag exists, the path resolves '' @ [CHR 0xFF] @
         '' that a docs gate or test can pin.''],
       dt_allowed_actions = discovery_actions,
       dt_execution_target = ReadOnly, dt_priority = JInt 0\<rparr>,
      mp_child_ceiling = implementation_ceiling, mp_child_admission = ''proposed'',
      mp_cooldown_seconds = week_seconds\<rparr>"

definition maintenance_programs :: "maintenance_program list" where
  "maintenance_programs =
     [quality_program, ci_program, security_program, architecture_program,
      conformance_program, triage_program, dependencies_program, docs_program]"

definition discovery_kinds :: "string list" where
  "discovery_kinds = map (dt_kind \<circ> mp_discovery) maintenance_programs"

text \<open>The lookup throws for an id without entry.\<close>

definition maintenance_program_of :: "string \<Rightarrow> maintenance_program option" where
  "maintenance_program_of i = List.find (\<lambda>program. mp_id program = i) maintenance_programs"

definition discovery_root_for :: "maintenance_program \<Rightarrow> string \<Rightarrow> string \<Rightarrow> seed_input" where
  "discovery_root_for program repository created_by =
     (let d = mp_discovery program in
      \<lparr>si_repository = repository, si_kind = dt_kind d, si_objective = dt_objective d,
       si_instructions = dt_instructions d, si_acceptance_criteria = dt_acceptance_criteria d,
       si_allowed_actions = dt_allowed_actions d, si_delegable_actions = mp_child_ceiling program,
       si_required_artifact = None, si_execution_target = Some (dt_execution_target d),
       si_priority = Some (dt_priority d), si_created_by = created_by, si_extra = []\<rparr>)"

subsection \<open>The feeder\<close>

definition testing_gap_seed :: "string \<Rightarrow> string \<Rightarrow> seed_input" where
  "testing_gap_seed repository created_by =
     \<lparr>si_repository = repository, si_kind = ''testing-gap-discovery'',
      si_objective = ''Identify one meaningful testing gap and propose a test that covers it.'',
      si_instructions =
        ''Inspect the repository and identify exactly one evidence-backed testing gap. '' @
        ''Do not edit files or open a GitHub artifact. '' @
        ''Complete this item with the gap, its impact, and file-level evidence. '' @
        ''Create one implementation follow-up when a concrete test is justified.'',
      si_acceptance_criteria =
        [''The result identifies exactly one testing gap.'',
         ''Evidence names the relevant behavior and source or test locations.'',
         ''Any follow-up specifies a concrete test and verifiable completion criteria.''],
      si_allowed_actions = discovery_actions, si_delegable_actions = implementation_ceiling,
      si_required_artifact = None, si_execution_target = Some ReadOnly,
      si_priority = Some (JInt 0), si_created_by = created_by, si_extra = []\<rparr>"

definition enqueue_testing_gap :: "ctx \<Rightarrow> string \<Rightarrow> string \<Rightarrow> store \<Rightarrow> (work_item \<times> store) res" where
  "enqueue_testing_gap cx repository created_by s =
     enqueue_seed cx (testing_gap_seed repository created_by) s"

record dogfood_options =
  do_cooldown_seconds :: "jsnum option"
  do_programs :: "string list option"

record dogfood_result =
  dr_batch :: batch_outcome
  dr_undeclared_kinds :: "string list"
  dr_unsupported_programs :: "string list"

definition offered_programs :: "string list option \<Rightarrow> maintenance_program list" where
  "offered_programs programs =
     filter (\<lambda>program. case programs of None \<Rightarrow> True | Some ids \<Rightarrow> mp_id program \<in> set ids)
       maintenance_programs"

definition dogfood_candidate :: "string \<Rightarrow> maintenance_program \<Rightarrow> batch_candidate" where
  "dogfood_candidate repository program =
     \<lparr>bc_input = discovery_root_for program repository ''operator:dogfood'',
      bc_cooldown_seconds = Some (JInt (mp_cooldown_seconds program))\<rparr>"

definition enqueue_dogfood_batch ::
    "ctx \<Rightarrow> string \<Rightarrow> dogfood_options \<Rightarrow> store \<Rightarrow> (dogfood_result \<times> store) res"
where
  "enqueue_dogfood_batch cx repository options s =
     (let offered = offered_programs (do_programs options);
          undeclared = filter (\<lambda>program. program \<notin> set offered) maintenance_programs;
          ids = (case do_programs options of None \<Rightarrow> [] | Some programs \<Rightarrow> programs);
          unsupported = filter (\<lambda>program. program \<notin> set (map mp_id maintenance_programs)) ids in
      and_then
        (enqueue_inactive_root_batch cx repository (map (dogfood_candidate repository) offered)
          (do_cooldown_seconds options) s) (\<lambda>(batch, s').
      Inr (\<lparr>dr_batch = batch, dr_undeclared_kinds = map (dt_kind \<circ> mp_discovery) undeclared,
            dr_unsupported_programs = unsupported\<rparr>, s')))"

text \<open>
  The feeder over every enrolled repository: one transaction each, so a refusal ends the loop and
  leaves what was seeded before it.
\<close>

record enrolled_dogfood =
  ed_seeded :: "(string \<times> string list \<times> dogfood_result) list"
  ed_not_opted_in :: "string list"

primrec feed_enrolled ::
    "(nat \<Rightarrow> ctx) \<Rightarrow> jsnum option \<Rightarrow> (string \<Rightarrow> string option) \<Rightarrow> nat \<Rightarrow> (string \<times> string list) list \<Rightarrow>
       enrolled_dogfood \<Rightarrow> store \<Rightarrow> enrolled_dogfood res \<times> store"
where
  "feed_enrolled cx cooldown lookup i [] result s = (Inr result, s)"
| "feed_enrolled cx cooldown lookup i (entry # rest) result s =
     (case lookup (fst entry) of
        None \<Rightarrow>
          feed_enrolled cx cooldown lookup (Suc i) rest
            (result\<lparr>ed_not_opted_in := ed_not_opted_in result @ [fst entry]\<rparr>) s
      | Some repository \<Rightarrow>
          (case enqueue_dogfood_batch (cx i) repository
                  \<lparr>do_cooldown_seconds = cooldown, do_programs = Some (snd entry)\<rparr> s of
             Inl e \<Rightarrow> (Inl e, s)
           | Inr (batch, s') \<Rightarrow>
               feed_enrolled cx cooldown lookup (Suc i) rest
                 (result\<lparr>ed_seeded := ed_seeded result @ [(repository, snd entry, batch)]\<rparr>) s'))"

definition enqueue_dogfood_batch_for_enrolled ::
    "(nat \<Rightarrow> ctx) \<Rightarrow> control_reading \<Rightarrow> jsnum option \<Rightarrow> store \<Rightarrow> enrolled_dogfood res \<times> store"
where
  "enqueue_dogfood_batch_for_enrolled cx reading cooldown s =
     (case enrolled_repository_programs reading of
        Inl e \<Rightarrow> (Inl e, s)
      | Inr enrolled \<Rightarrow>
          feed_enrolled cx cooldown (import_opted_in s) 0 (sort_key fst enrolled)
            \<lparr>ed_seeded = [], ed_not_opted_in = []\<rparr> s)"

subsection \<open>The catalog is deliverable\<close>

lemmas catalog_actions =
  discovery_actions_def conformance_discovery_actions_def implementation_ceiling_def

lemma catalog_distinct: "distinct (map mp_id maintenance_programs)" "distinct discovery_kinds"
  by code_simp+

text \<open>Every template reads as a definition, and may neither write nor open a pull request.\<close>

lemma blank_code [code]: "blank s = list_all is_space s"
  by (simp add: blank_iff list_all_iff)

definition template_ok :: "maintenance_program \<Rightarrow> bool" where
  "template_ok program =
     (let d = mp_discovery program in
      work_kind_pattern (dt_kind d) \<and> dt_kind d \<noteq> cure_change_kind \<and> \<not> blank (dt_objective d) \<and> \<not> blank (dt_instructions d) \<and>
      dt_acceptance_criteria d \<noteq> [] \<and> list_all (\<lambda>c. \<not> blank c) (dt_acceptance_criteria d) \<and>
      list_all (\<lambda>a. a = Read \<or> a = RunTests \<or> a = CreateFollowup) (dt_allowed_actions d) \<and>
      list_all (\<lambda>a. List.member implementation_ceiling a) (mp_child_ceiling program) \<and>
      dt_execution_target d = ReadOnly \<and> dt_priority d = JInt 0)"

lemma templates_ok: "list_all template_ok maintenance_programs"
  by code_simp

lemma catalog_templates:
  assumes "program \<in> set maintenance_programs"
  shows "work_kind_pattern (dt_kind (mp_discovery program))"
    and "\<not> blank (dt_objective (mp_discovery program))"
    and "\<not> blank (dt_instructions (mp_discovery program))"
    and "dt_acceptance_criteria (mp_discovery program) \<noteq> []"
    and "\<forall>c \<in> set (dt_acceptance_criteria (mp_discovery program)). \<not> blank c"
    and "set (dt_allowed_actions (mp_discovery program)) \<subseteq> {Read, RunTests, CreateFollowup}"
    and "set (mp_child_ceiling program) \<subseteq> set implementation_ceiling"
    and "dt_execution_target (mp_discovery program) = ReadOnly"
    and "dt_priority (mp_discovery program) = JInt 0"
    and "dt_kind (mp_discovery program) \<noteq> cure_change_kind"
proof -
  have "template_ok program" using templates_ok assms by (auto simp: list_all_iff)
  then show "work_kind_pattern (dt_kind (mp_discovery program))"
    and "\<not> blank (dt_objective (mp_discovery program))"
    and "\<not> blank (dt_instructions (mp_discovery program))"
    and "dt_acceptance_criteria (mp_discovery program) \<noteq> []"
    and "\<forall>c \<in> set (dt_acceptance_criteria (mp_discovery program)). \<not> blank c"
    and "set (dt_allowed_actions (mp_discovery program)) \<subseteq> {Read, RunTests, CreateFollowup}"
    and "set (mp_child_ceiling program) \<subseteq> set implementation_ceiling"
    and "dt_execution_target (mp_discovery program) = ReadOnly"
    and "dt_priority (mp_discovery program) = JInt 0"
    and "dt_kind (mp_discovery program) \<noteq> cure_change_kind"
    by (auto simp: template_ok_def Let_def list_all_iff)
qed

lemma catalog_roots_are_valid:
  assumes "program \<in> set maintenance_programs" and "\<not> blank created_by"
  shows "validate_work_definition
    (definition_of_seed None None None (discovery_root_for program g created_by)) = Inr ()"
  using catalog_templates [OF assms(1)] assms(2)
  by (auto simp: validate_work_definition_Inr definition_of_seed_def discovery_root_for_def Let_def
      catalog_actions allowed_actions_def max_safe_integer_def known_required_artifact_def
      required_or_none_def known_execution_target_def contract_problem_def definition_view_def)

subsection \<open>What a batch leaves\<close>

lemma created_row:
  assumes "create_item cx site w body s = Inr (item, s')"
  shows "\<exists>p. st_items s' = st_items s @ [row_of_work p w] \<and> item = item_of (row_of_work p w) \<and>
    st_repositories s' = st_repositories s"
  using assms
  by (auto simp: create_item_def insert_work_def Let_def and_then_Inr_iff insert_row_Inr
      get_required_Inr find_row_append split: option.splits)

text \<open>The rows a feeder may add: roots of offered programs, queued and without write authority.\<close>

definition discovery_row :: "string \<Rightarrow> maintenance_program list \<Rightarrow> row \<Rightarrow> bool" where
  "discovery_row g offered r =
     (\<exists>program \<in> set offered.
        r_repository r = g \<and> r_kind r = dt_kind (mp_discovery program) \<and> r_parent_id r = None \<and>
        logical_status r = Queued \<and> row_actions r \<subseteq> {Read, RunTests, CreateFollowup} \<and>
        row_delegable r = set (mp_child_ceiling program))"

definition batch_kinds :: "batch_outcome \<Rightarrow> string multiset" where
  "batch_kinds outcome =
     mset (map wi_kind (bo_created outcome)) + mset (bo_skipped_kinds outcome) +
     mset (bo_cooled_kinds outcome)"

lemma batch_step_row:
  assumes "batch_step cx g nf (index, dogfood_candidate g program, base) (outcome, active, s) =
      Inr (outcome', active', s')"
    and "program \<in> set offered" and "set offered \<subseteq> set maintenance_programs"
  shows "st_repositories s' = st_repositories s"
    and "\<exists>rows. st_items s' = st_items s @ rows \<and>
      bo_created outcome' = bo_created outcome @ map item_of rows \<and> list_all (discovery_row g offered) rows"
    and "batch_kinds outcome' = add_mset (dt_kind (mp_discovery program)) (batch_kinds outcome)"
proof -
  let ?input = "(bc_input (dogfood_candidate g program))\<lparr>si_repository := g\<rparr>"
  let ?w = "root_of_seed (cx_uuid cx index) True (cx_clock cx (4 * index + 1)) ?input"
  have kind: "si_kind (bc_input (dogfood_candidate g program)) = dt_kind (mp_discovery program)"
    by (simp add: dogfood_candidate_def discovery_root_for_def Let_def)
  have row: "discovery_row g offered (row_of_work p (root_of_seed u True at ?input))" for p u at
    using assms(2,3) catalog_templates(6) [of program]
    by (auto simp: discovery_row_def root_of_seed_def dogfood_candidate_def discovery_root_for_def
        Let_def intro!: bexI [of _ program])
  have kind_row: "nw_kind (root_of_seed u True at ?input) = dt_kind (mp_discovery program)" for u at
    by (simp add: root_of_seed_def dogfood_candidate_def discovery_root_for_def Let_def)
  from assms(1) consider
      "outcome' = outcome\<lparr>bo_skipped_kinds := bo_skipped_kinds outcome @ [dt_kind (mp_discovery program)]\<rparr>"
        "s' = s"
    | "outcome' = outcome\<lparr>bo_cooled_kinds := bo_cooled_kinds outcome @ [dt_kind (mp_discovery program)]\<rparr>"
        "s' = s"
    | item where "outcome' = outcome\<lparr>bo_created := bo_created outcome @ [item]\<rparr>"
        "create_item cx (4 * index + 1) ?w (EvQueued None None) s = Inr (item, s')"
    by (auto simp: batch_step_def Let_def and_then_Inr_iff kind split: if_splits)
  then have "st_repositories s' = st_repositories s \<and>
    (\<exists>rows. st_items s' = st_items s @ rows \<and>
      bo_created outcome' = bo_created outcome @ map item_of rows \<and> list_all (discovery_row g offered) rows) \<and>
    batch_kinds outcome' = add_mset (dt_kind (mp_discovery program)) (batch_kinds outcome)"
  proof cases
    case 3
    obtain p where "st_items s' = st_items s @ [row_of_work p ?w]" "item = item_of (row_of_work p ?w)"
      "st_repositories s' = st_repositories s"
      using created_row [OF 3(2)] by blast
    with 3(1) show ?thesis
      by (auto simp: batch_kinds_def kind_row row intro!: exI [of _ "[row_of_work p ?w]"])
  qed (simp_all add: batch_kinds_def)
  then show "st_repositories s' = st_repositories s"
    and "\<exists>rows. st_items s' = st_items s @ rows \<and>
      bo_created outcome' = bo_created outcome @ map item_of rows \<and> list_all (discovery_row g offered) rows"
    and "batch_kinds outcome' = add_mset (dt_kind (mp_discovery program)) (batch_kinds outcome)"
    by simp_all
qed

lemma batch_rows:
  assumes "fold_res (batch_step cx g nf) (zip is (zip (map (dogfood_candidate g) programs) cooldowns))
      (outcome, active, s) = Inr (outcome', active', s')"
    and "set programs \<subseteq> set offered" and "set offered \<subseteq> set maintenance_programs"
    and "length is = length programs" and "length cooldowns = length programs"
  shows "st_repositories s' = st_repositories s \<and>
    (\<exists>rows. st_items s' = st_items s @ rows \<and>
      bo_created outcome' = bo_created outcome @ map item_of rows \<and>
      list_all (discovery_row g offered) rows) \<and>
    batch_kinds outcome' = batch_kinds outcome + mset (map (dt_kind \<circ> mp_discovery) programs)"
  using assms
proof (induction programs arbitrary: "is" cooldowns outcome active s)
  case Nil
  then show ?case by simp
next
  case (Cons program programs)
  obtain i "is'" where i: "is = i # is'" using Cons.prems(4) by (cases "is") auto
  obtain c cs where c: "cooldowns = c # cs" using Cons.prems(5) by (cases cooldowns) auto
  obtain outcome1 active1 s1 where
    one: "batch_step cx g nf (i, dogfood_candidate g program, c) (outcome, active, s) =
      Inr (outcome1, active1, s1)"
    and rest: "fold_res (batch_step cx g nf) (zip is' (zip (map (dogfood_candidate g) programs) cs))
      (outcome1, active1, s1) = Inr (outcome', active', s')"
    using Cons.prems(1) by (auto simp: i c and_then_Inr_iff)
  have offered: "program \<in> set offered" using Cons.prems(2) by simp
  note step = batch_step_row [OF one offered Cons.prems(3)]
  obtain rows1 where rows1: "st_items s1 = st_items s @ rows1"
    "bo_created outcome1 = bo_created outcome @ map item_of rows1" "list_all (discovery_row g offered) rows1"
    using step(2) by blast
  have "st_repositories s' = st_repositories s1 \<and>
    (\<exists>rows. st_items s' = st_items s1 @ rows \<and>
      bo_created outcome' = bo_created outcome1 @ map item_of rows \<and>
      list_all (discovery_row g offered) rows) \<and>
    batch_kinds outcome' = batch_kinds outcome1 + mset (map (dt_kind \<circ> mp_discovery) programs)"
    using Cons.prems by (intro Cons.IH [OF rest]) (auto simp: i c)
  then obtain rows where "st_items s' = st_items s1 @ rows"
    "bo_created outcome' = bo_created outcome1 @ map item_of rows" "list_all (discovery_row g offered) rows"
    "st_repositories s' = st_repositories s1"
    "batch_kinds outcome' = batch_kinds outcome1 + mset (map (dt_kind \<circ> mp_discovery) programs)"
    by blast
  with rows1 step(1,3) show ?case
    by (auto simp: comp_def intro!: exI [of _ "rows1 @ rows"])
qed

lemma mapped_length: "map_res f xs = Inr ys \<Longrightarrow> length ys = length xs"
  by (induction xs arbitrary: ys) (auto simp: and_then_Inr_iff)

lemma offered_in_catalog: "set (offered_programs programs) \<subseteq> set maintenance_programs"
  by (auto simp: offered_programs_def)

lemma dogfood_batch_rows:
  assumes "enqueue_dogfood_batch cx g options s = Inr (result, s')"
  shows "st_repositories s' = st_repositories s"
    and "\<exists>rows. st_items s' = st_items s @ rows \<and>
      bo_created (dr_batch result) = map item_of rows \<and>
      list_all (discovery_row g (offered_programs (do_programs options))) rows"
    and "batch_kinds (dr_batch result) =
      mset (map (dt_kind \<circ> mp_discovery) (offered_programs (do_programs options)))"
proof -
  let ?offered = "offered_programs (do_programs options)"
  let ?candidates = "map (dogfood_candidate g) ?offered"
  obtain cooldowns nf active outcome active' where
    cooldowns: "map_res (cooldown_of (do_cooldown_seconds options)) ?candidates = Inr cooldowns"
    and fold: "fold_res (batch_step cx g nf) (zip [0..<length ?offered] (zip ?candidates cooldowns))
      (\<lparr>bo_created = [], bo_skipped_kinds = [], bo_cooled_kinds = []\<rparr>, active, s) = Inr (outcome, active', s')"
    and outcome: "dr_batch result = outcome"
    using assms
    by (auto simp: enqueue_dogfood_batch_def Let_def enqueue_inactive_root_batch_def and_then_Inr_iff
        transaction_Inr)
  have "length cooldowns = length ?offered" using mapped_length [OF cooldowns] by simp
  from batch_rows [OF fold subset_refl offered_in_catalog _ this] show
    "st_repositories s' = st_repositories s"
    "\<exists>rows. st_items s' = st_items s @ rows \<and>
      bo_created (dr_batch result) = map item_of rows \<and>
      list_all (discovery_row g (offered_programs (do_programs options))) rows"
    "batch_kinds (dr_batch result) =
      mset (map (dt_kind \<circ> mp_discovery) (offered_programs (do_programs options)))"
    by (auto simp: outcome batch_kinds_def)
qed

lemma feed_enrolled_rows:
  assumes "feed_enrolled cx cooldown lookup i entries result s = (outcome, s')"
  shows "\<exists>rows. st_items s' = st_items s @ rows \<and>
    (\<forall>r \<in> set rows. \<exists>slug programs. (slug, programs) \<in> set entries \<and>
       lookup slug = Some (r_repository r) \<and>
       discovery_row (r_repository r) (offered_programs (Some programs)) r)"
  using assms
proof (induction entries arbitrary: i result s)
  case Nil
  then show ?case by simp
next
  case (Cons entry rest)
  show ?case
  proof (cases "lookup (fst entry)")
    case None
    with Cons.prems have "feed_enrolled cx cooldown lookup (Suc i) rest
        (result\<lparr>ed_not_opted_in := ed_not_opted_in result @ [fst entry]\<rparr>) s = (outcome, s')" by simp
    from Cons.IH [OF this] show ?thesis by fastforce
  next
    case (Some g)
    let ?options = "\<lparr>do_cooldown_seconds = cooldown, do_programs = Some (snd entry)\<rparr>"
    show ?thesis
    proof (cases "enqueue_dogfood_batch (cx i) g ?options s")
      case (Inl e)
      with Some Cons.prems show ?thesis by simp
    next
      case (Inr fed)
      obtain batch s1 where batch: "enqueue_dogfood_batch (cx i) g ?options s = Inr (batch, s1)"
        using Inr by (cases fed) auto
      obtain rows1 where rows1: "st_items s1 = st_items s @ rows1"
        "list_all (discovery_row g (offered_programs (Some (snd entry)))) rows1"
        using dogfood_batch_rows(2) [OF batch] by auto
      have "feed_enrolled cx cooldown lookup (Suc i) rest
          (result\<lparr>ed_seeded := ed_seeded result @ [(g, snd entry, batch)]\<rparr>) s1 = (outcome, s')"
        using Cons.prems Some batch by simp
      from Cons.IH [OF this] obtain rows where rows: "st_items s' = st_items s1 @ rows"
        "\<forall>r \<in> set rows. \<exists>slug programs. (slug, programs) \<in> set rest \<and>
           lookup slug = Some (r_repository r) \<and>
           discovery_row (r_repository r) (offered_programs (Some programs)) r" by blast
      have "\<exists>slug programs. (slug, programs) \<in> set (entry # rest) \<and>
          lookup slug = Some (r_repository r) \<and>
          discovery_row (r_repository r) (offered_programs (Some programs)) r"
        if "r \<in> set rows1" for r
      proof -
        have "discovery_row g (offered_programs (Some (snd entry))) r"
          using rows1(2) that by (simp add: list_all_iff)
        then show ?thesis
          using Some by (intro exI [of _ "fst entry"] exI [of _ "snd entry"])
            (auto simp: discovery_row_def)
      qed
      with rows rows1(1) show ?thesis by (intro exI [of _ "rows1 @ rows"]) fastforce
    qed
  qed
qed

subsection \<open>What the feeder promises\<close>

text \<open>One batch of the feeder accounts for every program of the catalog once: its kind is that of a
  created item, skipped because such work is active, cooled down after a run that found nothing, or
  undeclared. The items it adds are exactly the created ones, each a queued root in the repository
  for an offered program that may only read, run tests and propose, with the program's ceiling for
  its children; nothing else of the items and no repository changes.\<close>

theorem feeder_accounts_for_every_program:
  assumes "enqueue_dogfood_batch cx g options s = Inr (result, s')"
  shows "\<exists>rows. st_items s' = st_items s @ rows \<and>
      bo_created (dr_batch result) = map item_of rows \<and>
      (\<forall>r \<in> set rows. \<exists>program \<in> set (offered_programs (do_programs options)).
         r_repository r = g \<and> r_kind r = dt_kind (mp_discovery program) \<and> r_parent_id r = None \<and>
         logical_status r = Queued \<and> row_actions r \<subseteq> {Read, RunTests, CreateFollowup} \<and>
         row_delegable r = set (mp_child_ceiling program)) \<and>
      mset (map r_kind rows) + mset (bo_skipped_kinds (dr_batch result)) +
        mset (bo_cooled_kinds (dr_batch result)) + mset (dr_undeclared_kinds result) =
      mset discovery_kinds \<and>
      st_repositories s' = st_repositories s"
proof -
  let ?offered = "offered_programs (do_programs options)"
  obtain rows where rows: "st_items s' = st_items s @ rows"
    "bo_created (dr_batch result) = map item_of rows" "list_all (discovery_row g ?offered) rows"
    using dogfood_batch_rows(2) [OF assms] by blast
  have undeclared: "dr_undeclared_kinds result =
      map (dt_kind \<circ> mp_discovery) (filter (\<lambda>program. program \<notin> set ?offered) maintenance_programs)"
    using assms by (auto simp: enqueue_dogfood_batch_def Let_def and_then_Inr_iff)
  have "?offered = filter (\<lambda>program. program \<in> set ?offered) maintenance_programs"
    by (auto simp: offered_programs_def intro!: filter_cong)
  then have "mset (map (dt_kind \<circ> mp_discovery) ?offered) + mset (dr_undeclared_kinds result) =
      mset (map (dt_kind \<circ> mp_discovery) (filter (\<lambda>program. program \<in> set ?offered) maintenance_programs @
        filter (\<lambda>program. program \<notin> set ?offered) maintenance_programs))"
    by (simp add: undeclared)
  also have "\<dots> = mset discovery_kinds"
    unfolding discovery_kinds_def mset_map mset_append mset_filter
    by (simp add: multiset_partition [symmetric])
  finally have "batch_kinds (dr_batch result) + mset (dr_undeclared_kinds result) = mset discovery_kinds"
    using dogfood_batch_rows(3) [OF assms] by simp
  moreover have "map wi_kind (bo_created (dr_batch result)) = map r_kind rows"
    by (simp add: rows(2))
  ultimately show ?thesis
    using rows dogfood_batch_rows(1) [OF assms]
    by (intro exI [of _ rows]) (auto simp: batch_kinds_def list_all_iff discovery_row_def comp_def)
qed

definition sample_declared :: dogfood_options where
  "sample_declared = \<lparr>do_cooldown_seconds = None, do_programs = Some [''docs'', ''triage'']\<rparr>"

lemma sample_feed_succeeds:
  "succeeds (enqueue_dogfood_batch (sample_ctx 10 ''A'') ''acme/tool'' sample_declared sample1)"
  by code_simp

theorem feeder_accounts_for_every_program_witness:
  "\<exists>result (rows :: row list). enqueue_dogfood_batch (sample_ctx 10 ''A'') ''acme/tool'' sample_declared sample1 =
      Inr (result, after (enqueue_dogfood_batch (sample_ctx 10 ''A'') ''acme/tool'' sample_declared sample1)) \<and>
    mset (map r_kind rows) + mset (bo_skipped_kinds (dr_batch result)) +
      mset (bo_cooled_kinds (dr_batch result)) + mset (dr_undeclared_kinds result) = mset discovery_kinds"
proof -
  obtain result where fed: "enqueue_dogfood_batch (sample_ctx 10 ''A'') ''acme/tool'' sample_declared sample1 =
      Inr (result, after (enqueue_dogfood_batch (sample_ctx 10 ''A'') ''acme/tool'' sample_declared sample1))"
    using iffD1 [OF succeeds_iff sample_feed_succeeds] by (elim exE)
  from feeder_accounts_for_every_program [OF fed] fed show ?thesis by blast
qed

text \<open>C33: The feeder over the enrolled repositories, however it ends, adds only discovery roots: each in the
  opt-in spelling of a repository the control plane has enrolled, for a program that repository's
  Core declaration lists, and without authority to write or to open a pull request.\<close>

theorem enrolled_feeder_seeds_only_declared_programs:
  assumes "enqueue_dogfood_batch_for_enrolled cx reading cooldown s = (outcome, s')"
  shows "\<exists>rows. st_items s' = st_items s @ rows \<and>
    (\<forall>r \<in> set rows. \<exists>statuses status program. reading = Reading statuses \<and> status \<in> set statuses \<and>
       cs_effective_state status = ''enrolled'' \<and>
       to_lower (control_slug status) = to_lower (r_repository r) \<and>
       r_repository r \<in> set (enabled_repositories s) \<and>
       program \<in> set maintenance_programs \<and> mp_id program \<in> set (cs_maintenance_programs status) \<and>
       r_kind r = dt_kind (mp_discovery program) \<and> r_parent_id r = None \<and>
       row_actions r \<subseteq> {Read, RunTests, CreateFollowup})"
proof (cases "enrolled_repository_programs reading")
  case (Inl e)
  with assms show ?thesis by (simp add: enqueue_dogfood_batch_for_enrolled_def)
next
  case (Inr enrolled)
  then obtain statuses where statuses: "reading = Reading statuses"
    "enrolled = map (\<lambda>status. (control_slug status, cs_maintenance_programs status))
      (filter (\<lambda>status. cs_effective_state status = ''enrolled'') statuses)"
    by (auto simp: enrolled_repository_programs_def split: control_reading.splits)
  have "feed_enrolled cx cooldown (import_opted_in s) 0 (sort_key fst enrolled)
      \<lparr>ed_seeded = [], ed_not_opted_in = []\<rparr> s = (outcome, s')"
    using assms Inr by (simp add: enqueue_dogfood_batch_for_enrolled_def)
  from feed_enrolled_rows [OF this] obtain rows where rows: "st_items s' = st_items s @ rows"
    "\<forall>r \<in> set rows. \<exists>slug programs. (slug, programs) \<in> set enrolled \<and>
       import_opted_in s slug = Some (r_repository r) \<and>
       discovery_row (r_repository r) (offered_programs (Some programs)) r"
    by auto
  show ?thesis
  proof (intro exI [of _ rows] conjI ballI rows(1))
    fix r assume "r \<in> set rows"
    then obtain slug programs where entry: "(slug, programs) \<in> set enrolled"
      and opted: "import_opted_in s slug = Some (r_repository r)"
      and row: "discovery_row (r_repository r) (offered_programs (Some programs)) r"
      using rows(2) by blast
    obtain status where status: "status \<in> set statuses" "cs_effective_state status = ''enrolled''"
      "slug = control_slug status" "programs = cs_maintenance_programs status"
      using entry by (auto simp: statuses(2))
    have "to_lower (r_repository r) = to_lower slug" "r_repository r \<in> set (enabled_repositories s)"
      using opted by (auto simp: import_opted_in_def dest!: find_SomeD)
    with row status statuses(1) show "\<exists>statuses status program. reading = Reading statuses \<and>
        status \<in> set statuses \<and> cs_effective_state status = ''enrolled'' \<and>
        to_lower (control_slug status) = to_lower (r_repository r) \<and>
        r_repository r \<in> set (enabled_repositories s) \<and> program \<in> set maintenance_programs \<and>
        mp_id program \<in> set (cs_maintenance_programs status) \<and>
        r_kind r = dt_kind (mp_discovery program) \<and> r_parent_id r = None \<and>
        row_actions r \<subseteq> {Read, RunTests, CreateFollowup}"
      by (auto simp: discovery_row_def offered_programs_def)
  qed
qed

definition sample_enrollment :: control_reading where
  "sample_enrollment =
     Reading [sample_status\<lparr>cs_maintenance_programs := [''docs'']\<rparr>,
       sample_status\<lparr>cs_name := ''gone'', cs_effective_state := ''held''\<rparr>]"

lemma sample_enrolled_feed:
  "map r_kind (st_items (snd (enqueue_dogfood_batch_for_enrolled (\<lambda>n. sample_ctx (100 + 10 * int n) ''J'')
     sample_enrollment None sample1))) = [''docs-drift-discovery'']"
  by code_simp

theorem enrolled_feeder_seeds_only_declared_programs_witness:
  "\<exists>outcome s' rows. enqueue_dogfood_batch_for_enrolled (\<lambda>n. sample_ctx (100 + 10 * int n) ''J'')
      sample_enrollment None sample1 = (outcome, s') \<and>
    st_items s' = st_items sample1 @ rows \<and> map r_kind (st_items s') = [''docs-drift-discovery'']"
proof -
  let ?fed = "enqueue_dogfood_batch_for_enrolled (\<lambda>n. sample_ctx (100 + 10 * int n) ''J'')
      sample_enrollment None sample1"
  have fed: "?fed = (fst ?fed, snd ?fed)" by simp
  from enrolled_feeder_seeds_only_declared_programs [OF this] obtain rows where
    "st_items (snd ?fed) = st_items sample1 @ rows" by blast
  then show ?thesis
    using sample_enrolled_feed by (intro exI [of _ "fst ?fed"] exI [of _ "snd ?fed"] exI [of _ rows]) simp
qed

end
