(* ===== verification/Progress_State.thy ===== *)
theory Progress_State
  imports Maintenance_Programs Predecessor_Cycles Review_Board Ledger_Reads Ordered_Map
begin

text \<open>
  The lifecycle lanes of the surface (\<open>src/src/surface/progress-state.ts\<close>): one row per primary
  item and per labeled issue not imported yet, its stage, what it waits for, the badge of a stop and
  the instants at which it entered each stage. Three things are parameters: \<open>collation\<close> is the sort
  key behind \<open>localeCompare\<close>, \<open>read_time\<close> is \<open>Date.parse\<close> of an instant GitHub reported (none when
  it gives NaN, which no comparison of the code adopts), and \<open>declared\<close> looks a lower-cased slug up
  in the control plane's enrollments. Instants of the store are numbers, so the code's comparison of
  ISO texts is theirs. The two read caches of a pass are left out: they memoize reads of an unchanged
  database.
\<close>

subsection \<open>Rows\<close>

datatype progress_stage =
  AwaitingImport | StageProposed | StageQueued | StageWorking | PrOpen | InReview | AwaitingMerge | StageMerged

definition progress_stages :: "progress_stage list" where
  "progress_stages =
     [AwaitingImport, StageProposed, StageQueued, StageWorking, PrOpen, InReview, AwaitingMerge,
      StageMerged]"

datatype progress_bucket =
  BucketImport | BucketProposed | BucketQueued | BucketWorking | BucketReview | BucketMerge

definition progress_summary_buckets :: "progress_bucket list" where
  "progress_summary_buckets =
     [BucketImport, BucketProposed, BucketQueued, BucketWorking, BucketReview, BucketMerge]"

datatype badge_tone = Amber | Red | Grey

text \<open>A text of a row: a literal, the chip of an unmet edge, or the round of a review.\<close>

datatype progress_text = Says string | Waits wait_chip | RoundOf int

record progress_badge =
  bg_label :: string
  bg_reason :: progress_text
  bg_tone :: badge_tone

record progress_row =
  pg_key :: string
  pg_repository :: string
  pg_title :: string
  pg_updated_at :: timestamp
  pg_stage :: progress_stage
  pg_active :: bool
  pg_lease_owner :: "string option"
  pg_waiting :: "progress_text option"
  pg_badge :: "progress_badge option"
  pg_item :: "work_item option"
  pg_observation :: "labeled_issue option"
  pg_review_round :: "int option"
  pg_entered_at :: "(progress_stage \<times> timestamp) list"

datatype progress_view = ViewAll | ViewActive

record progress_options =
  po_repository :: "string option"
  po_view :: "progress_view option"

record progress_data =
  pd_as_of :: timestamp
  pd_filter :: "string option \<times> progress_view"
  pd_attention :: "progress_row list"
  pd_repositories :: "(string \<times> progress_row list) list"
  pd_working_now :: "progress_row list"
  pd_up_next :: "progress_row list"
  pd_summary :: "progress_bucket \<Rightarrow> nat"
  pd_total :: nat
  pd_active :: nat
  pd_truncated :: "string list"

definition satellite_kinds :: "string list" where
  "satellite_kinds = [review_kind, review_fix_kind, cure_change_kind]"

definition progress_list_limit :: int where "progress_list_limit = 100"
definition progress_event_limit :: int where "progress_event_limit = 100"
definition up_next_limit :: nat where "up_next_limit = 20"
definition up_next_truncation :: string where "up_next_truncation = ''up-next''"
definition terminal_age_ms :: int where "terminal_age_ms = 7 * 24 * 60 * 60 * 1000"

definition recent_first_statuses :: "work_status list" where
  "recent_first_statuses = [Completed, Cancelled]"

definition pull_request_artifact :: "work_item \<Rightarrow> work_artifact option" where
  "pull_request_artifact item =
     (case wi_result item of
        None \<Rightarrow> None
      | Some result \<Rightarrow> List.find (\<lambda>artifact. wa_kind artifact = PullRequest) (wr_artifacts result))"

definition lease_is_active :: "work_item \<Rightarrow> timestamp \<Rightarrow> bool" where
  "lease_is_active item now =
     (case wi_lease_expires_at item of None \<Rightarrow> False | Some t \<Rightarrow> t > now)"

definition is_delivered_discovery :: "work_item \<Rightarrow> bool" where
  "is_delivered_discovery item =
     (wi_status item = Completed \<and> wi_kind item \<in> set discovery_kinds \<and>
      pull_request_artifact item = None)"

definition is_aged_out :: "work_item \<Rightarrow> timestamp \<Rightarrow> bool" where
  "is_aged_out item now =
     ((wi_status item = Cancelled \<or>
       wi_status item = Completed \<and>
         (wi_delivery item = Some DMerged \<or> wi_delivery item = Some DPublished) \<or>
       is_delivered_discovery item) \<and>
      now - wi_updated_at item > terminal_age_ms)"

definition blocked_badge :: progress_badge where
  "blocked_badge =
     \<lparr>bg_label = ''blocked'', bg_reason = Says ''waiting on operator'', bg_tone = Amber\<rparr>"

subsection \<open>When a row entered its stages\<close>

text \<open>\<open>latestIso\<close> of its values in order; of two equal instants the later value is kept.\<close>

definition latest_iso :: "timestamp option list \<Rightarrow> timestamp option" where
  "latest_iso values =
     foldl (\<lambda>latest v.
       case v of
         None \<Rightarrow> latest
       | Some t \<Rightarrow> (case latest of None \<Rightarrow> Some t | Some l \<Rightarrow> if t \<ge> l then Some t else latest)) None values"

definition latest_matching_event_at :: "event_row list \<Rightarrow> (event_body \<Rightarrow> bool) \<Rightarrow> timestamp option" where
  "latest_matching_event_at evs matches =
     foldl (\<lambda>latest e. if matches (ev_body e) then latest_iso [latest, Some (ev_occurred_at e)] else latest)
       None evs"

fun proposed_event :: "event_body \<Rightarrow> bool" where
  "proposed_event (EvProposedRoot _ _) = True"
| "proposed_event (EvProposedChild _ _) = True"
| "proposed_event _ = False"

fun entered_proposed :: "event_body \<Rightarrow> bool" where
  "entered_proposed (EvDeferred _) = True"
| "entered_proposed body = proposed_event body"

fun entered_queued :: "event_body \<Rightarrow> bool" where
  "entered_queued (EvQueued _ _) = True"
| "entered_queued (EvApproved _) = True"
| "entered_queued (EvRequeued _) = True"
| "entered_queued (EvReleased _ _) = True"
| "entered_queued _ = False"

fun entered_working :: "event_body \<Rightarrow> bool" where
  "entered_working (EvClaimed _ _ _ _) = True"
| "entered_working _ = False"

fun entered_pr_open :: "event_body \<Rightarrow> bool" where
  "entered_pr_open (EvCompleted _ _ _) = True"
| "entered_pr_open (EvArtifactAttached _ _ _) = True"
| "entered_pr_open _ = False"

fun entered_review :: "event_body \<Rightarrow> bool" where
  "entered_review (EvQueued _ _) = True"
| "entered_review (EvRequeued _) = True"
| "entered_review body = proposed_event body"

fun review_passed :: "event_body \<Rightarrow> bool" where
  "review_passed (EvReviewed decision _ _ _ _) = (decision = Pass)"
| "review_passed _ = False"

fun marked_ready :: "event_body \<Rightarrow> bool" where
  "marked_ready (EvArtifactReady _ _ _) = True"
| "marked_ready _ = False"

fun verified_merged :: "event_body \<Rightarrow> bool" where
  "verified_merged (EvArtifactVerified _ _ state _ _ _) = (state = Some Merged)"
| "verified_merged _ = False"

definition reported_merge :: "(string \<Rightarrow> timestamp option) \<Rightarrow> work_item \<Rightarrow> timestamp option" where
  "reported_merge read_time item =
     (case pull_request_artifact item of
        None \<Rightarrow> None
      | Some artifact \<Rightarrow>
          (case wa_verification artifact of
             Some (Verified v) \<Rightarrow>
               (case non_empty (vo_merged_at v) of None \<Rightarrow> None | Some text \<Rightarrow> read_time text)
           | _ \<Rightarrow> None))"

fun stage_candidate ::
    "(string \<Rightarrow> timestamp option) \<Rightarrow> work_item \<Rightarrow> bool \<Rightarrow> event_row list \<Rightarrow> event_row list \<Rightarrow>
       progress_stage \<Rightarrow> timestamp option"
where
  "stage_candidate read_time item gate evs reviews AwaitingImport = Some (wi_created_at item)"
| "stage_candidate read_time item gate evs reviews StageProposed =
     latest_matching_event_at evs entered_proposed"
| "stage_candidate read_time item gate evs reviews StageQueued =
     latest_matching_event_at evs entered_queued"
| "stage_candidate read_time item gate evs reviews StageWorking =
     latest_matching_event_at evs entered_working"
| "stage_candidate read_time item gate evs reviews PrOpen =
     latest_matching_event_at evs entered_pr_open"
| "stage_candidate read_time item gate evs reviews InReview =
     (if gate then latest_matching_event_at reviews entered_review else None)"
| "stage_candidate read_time item gate evs reviews AwaitingMerge =
     latest_iso
       [latest_matching_event_at evs marked_ready,
        if gate then latest_matching_event_at reviews review_passed else None,
        if gate then None else latest_matching_event_at evs entered_pr_open]"
| "stage_candidate read_time item gate evs reviews StageMerged =
     latest_iso [latest_matching_event_at evs verified_merged, reported_merge read_time item]"

primrec enter_stages ::
    "(progress_stage \<Rightarrow> timestamp option) \<Rightarrow> progress_stage list \<Rightarrow> timestamp \<Rightarrow>
       (progress_stage \<times> timestamp) list"
where
  "enter_stages candidate [] cursor = []"
| "enter_stages candidate (stage # rest) cursor =
     (let cursor' =
        (case candidate stage of None \<Rightarrow> cursor | Some t \<Rightarrow> if t \<ge> cursor then t else cursor) in
      (stage, cursor') # enter_stages candidate rest cursor')"

definition up_to_stage :: "progress_stage \<Rightarrow> progress_stage list" where
  "up_to_stage current = takeWhile (\<lambda>stage. stage \<noteq> current) progress_stages @ [current]"

definition derive_stage_entered_at ::
    "(string \<Rightarrow> timestamp option) \<Rightarrow> work_item \<Rightarrow> progress_stage \<Rightarrow> bool \<Rightarrow> event_row list \<Rightarrow>
       event_row list \<Rightarrow> (progress_stage \<times> timestamp) list"
where
  "derive_stage_entered_at read_time item current gate evs reviews =
     enter_stages (stage_candidate read_time item gate evs reviews) (up_to_stage current)
       (wi_created_at item)"

subsection \<open>The row of an item\<close>

record progress_context =
  px_item_events :: "event_row list"
  px_review_events :: "event_row list"
  px_predecessors :: "predecessor_summary option"

text \<open>The members every row of an item shares; \<open>finish\<close> of the code adds the stage's instants.\<close>

definition base_row :: "work_item \<Rightarrow> progress_row" where
  "base_row item =
     \<lparr>pg_key = ''item:'' @ wi_id item, pg_repository = wi_repository item,
      pg_title = wi_objective item, pg_updated_at = wi_updated_at item, pg_stage = StageProposed,
      pg_active = False, pg_lease_owner = None, pg_waiting = None, pg_badge = None,
      pg_item = Some item, pg_observation = None, pg_review_round = None, pg_entered_at = []\<rparr>"

definition stage_row ::
    "work_item \<Rightarrow> progress_stage \<Rightarrow> bool \<Rightarrow> progress_text option \<Rightarrow> progress_badge option \<Rightarrow> progress_row"
where
  "stage_row item stage active waiting badge =
     (base_row item)\<lparr>pg_stage := stage, pg_active := active, pg_waiting := waiting, pg_badge := badge\<rparr>"

text \<open>\<open>stopped?.reason ?? text\<close>.\<close>

definition reason_or :: "progress_badge option \<Rightarrow> progress_text \<Rightarrow> progress_text option" where
  "reason_or stopped text' =
     Some (case stopped of None \<Rightarrow> text' | Some b \<Rightarrow> bg_reason b)"

definition badge_or :: "progress_badge option \<Rightarrow> progress_badge option \<Rightarrow> progress_badge option" where
  "badge_or first second = (case first of None \<Rightarrow> second | Some b \<Rightarrow> Some b)"

text \<open>The badge and the chip of \<open>predecessorWait\<close>, for a summary with an unmet edge.\<close>

definition gate_wait :: "predecessor_summary option \<Rightarrow> (progress_text \<times> progress_badge option) option" where
  "gate_wait predecessors =
     (case predecessors of
        None \<Rightarrow> None
      | Some summary \<Rightarrow>
          if su_unmet summary = [] then None
          else
            (let chip = predecessor_wait summary in
             Some (Waits chip,
               (case chip of
                  CycleStop ref \<Rightarrow>
                    Some \<lparr>bg_label = ''predecessor cycle'', bg_reason = Waits chip, bg_tone = Amber\<rparr>
                | _ \<Rightarrow> None))))"

definition queued_row :: "work_item \<Rightarrow> progress_badge option \<Rightarrow> predecessor_summary option \<Rightarrow> progress_row" where
  "queued_row item stopped predecessors =
     (let gate = gate_wait predecessors in
      stage_row item StageQueued False
        (reason_or stopped (case gate of None \<Rightarrow> Says ''in queue'' | Some g \<Rightarrow> fst g))
        (badge_or stopped (case gate of None \<Rightarrow> None | Some g \<Rightarrow> snd g)))"

definition claimed_row :: "work_item \<Rightarrow> progress_badge option \<Rightarrow> timestamp \<Rightarrow> progress_row" where
  "claimed_row item stopped now =
     (let active = lease_is_active item now in
      (stage_row item StageWorking active
        (Some (Says (if active then ''worker active''
           else ''lease expired '' @ [CHR 0xFF] @ '' awaiting reclaim'')))
        (if active then stopped
         else Some \<lparr>bg_label = ''lease expired'', bg_reason = Says ''awaiting reclaim'', bg_tone = Amber\<rparr>))
        \<lparr>pg_lease_owner := non_empty (wi_lease_owner item)\<rparr>)"

definition without_pull_request :: "work_item \<Rightarrow> progress_badge option \<Rightarrow> progress_row" where
  "without_pull_request item stopped =
     (if is_delivered_discovery item
      then stage_row item StageMerged False
        (Some (Says (''delivered '' @ [CHR 0xFF] @ '' proposals filed''))) None
      else
        stage_row item StageWorking False
          (reason_or stopped
            (Says (if wi_status item = Completed
               then ''completed '' @ [CHR 0xFF] @ '' no pull request reported'' else ''work stopped'')))
          stopped)"

definition satellite_stop :: "work_item option \<Rightarrow> review_row option \<Rightarrow> progress_badge option" where
  "satellite_stop satellite review_state =
     (if map_option wi_status satellite = Some Blocked then Some blocked_badge
      else if map_option wi_status satellite = Some Cancelled
      then Some \<lparr>bg_label = ''cancelled'', bg_reason = Says ''cancelled'', bg_tone = Red\<rparr>
      else
        (case review_state of
           Some r \<Rightarrow>
             if rw_needs_human r \<and> rw_round r \<ge> max_review_rounds
             then Some \<lparr>bg_label = ''human decision'',
               bg_reason = Says ''needs human review decision'', bg_tone = Amber\<rparr>
             else None
         | None \<Rightarrow> None))"

text \<open>\<open>reviewRound ? { reviewRound } : {}\<close>: round zero is dropped.\<close>

definition shown_round :: "review_row option \<Rightarrow> int option" where
  "shown_round review_state =
     (case review_state of
        None \<Rightarrow> None | Some r \<Rightarrow> if rw_round r = 0 then None else Some (rw_round r))"

definition verified_row ::
    "work_item \<Rightarrow> work_item list \<Rightarrow> bool \<Rightarrow> timestamp \<Rightarrow> progress_badge option \<Rightarrow> verified_observation \<Rightarrow>
       progress_row"
where
  "verified_row item reviews gate now stopped v =
     (if vo_state v = Merged
      then stage_row item StageMerged False (map_option bg_reason stopped) stopped
      else
        (let review_state =
               (if gate then derive_review_state reviews (vo_head_sha v) (vo_draft v = Some True) else None);
             satellite =
               (case review_state of
                  None \<Rightarrow> None
                | Some r \<Rightarrow> List.find (\<lambda>candidate. wi_id candidate = rw_item_id r) reviews);
             stop = satellite_stop satellite review_state in
         if vo_state v = Closed
         then (stage_row item (if gate \<and> reviews \<noteq> [] then InReview else AwaitingMerge) False
             (Some (Says ''PR closed without merge''))
             (Some \<lparr>bg_label = ''closed'', bg_reason = Says ''PR closed without merge'', bg_tone = Red\<rparr>))
             \<lparr>pg_review_round := shown_round review_state\<rparr>
         else if \<not> gate \<or> (case review_state of None \<Rightarrow> False | Some r \<Rightarrow> rw_decision r = Some Pass)
         then (stage_row item AwaitingMerge False (reason_or stopped (Says ''waiting for merge'')) stopped)
             \<lparr>pg_review_round := shown_round review_state\<rparr>
         else
           (let round' = (case review_state of None \<Rightarrow> 1 | Some r \<Rightarrow> rw_round r) in
            (stage_row item InReview
               (case satellite of
                  None \<Rightarrow> False | Some sat \<Rightarrow> wi_status sat = Claimed \<and> lease_is_active sat now)
               (reason_or stop (RoundOf round')) (badge_or stopped stop))
               \<lparr>pg_lease_owner :=
                  (case satellite of None \<Rightarrow> None | Some sat \<Rightarrow> non_empty (wi_lease_owner sat)),
                pg_review_round := Some round'\<rparr>)))"

definition row_of_progress ::
    "work_item \<Rightarrow> work_item list \<Rightarrow> bool \<Rightarrow> timestamp \<Rightarrow> predecessor_summary option \<Rightarrow> progress_row"
where
  "row_of_progress item reviews gate now predecessors =
     (let stopped = (if wi_status item = Blocked then Some blocked_badge else None) in
      if wi_status item = Proposed
      then stage_row item StageProposed False (reason_or stopped (Says ''awaiting your admission'')) stopped
      else if wi_status item = Queued then queued_row item stopped predecessors
      else if wi_status item = Claimed then claimed_row item stopped now
      else
        (case pull_request_artifact item of
           None \<Rightarrow> without_pull_request item stopped
         | Some artifact \<Rightarrow>
             (case wa_verification artifact of
                Some (Verified v) \<Rightarrow> verified_row item reviews gate now stopped v
              | _ \<Rightarrow>
                  stage_row item PrOpen False (reason_or stopped (Says ''waiting for validation''))
                    (badge_or stopped
                      (Some \<lparr>bg_label = ''unverified'', bg_reason = Says ''GitHub unavailable'',
                         bg_tone = Grey\<rparr>)))))"

definition derive_progress_row ::
    "(string \<Rightarrow> timestamp option) \<Rightarrow> work_item \<Rightarrow> work_item list \<Rightarrow> bool \<Rightarrow> timestamp \<Rightarrow> progress_context \<Rightarrow>
       progress_row"
where
  "derive_progress_row read_time item reviews gate now context =
     (let row = row_of_progress item reviews gate now (px_predecessors context) in
      row\<lparr>pg_entered_at :=
        derive_stage_entered_at read_time item (pg_stage row) gate (px_item_events context)
          (px_review_events context)\<rparr>)"

definition observation_row :: "string \<Rightarrow> labeled_issue \<Rightarrow> progress_row" where
  "observation_row repository observation =
     \<lparr>pg_key = ''observation:'' @ repository @ '':'' @ li_url observation, pg_repository = repository,
      pg_title = li_title observation, pg_updated_at = li_seen_at observation,
      pg_stage = AwaitingImport, pg_active = False, pg_lease_owner = None,
      pg_waiting = Some (Says ''waiting for import''), pg_badge = None, pg_item = None,
      pg_observation = Some observation, pg_review_round = None,
      pg_entered_at = [(AwaitingImport, li_seen_at observation)]\<rparr>"

subsection \<open>The page\<close>

definition resolve_repository ::
    "(string \<Rightarrow> string option) \<Rightarrow> progress_options \<Rightarrow> store \<Rightarrow> string option option"
where
  "resolve_repository declared options s =
     (case non_empty (po_repository options) of
        None \<Rightarrow> Some None
      | Some slug \<Rightarrow>
          if \<not> repository_slug slug then None
          else
            (case List.find (\<lambda>enabled. to_lower enabled = to_lower slug) (enabled_repositories s) of
               Some enabled \<Rightarrow> Some (Some enabled)
             | None \<Rightarrow> map_option Some (non_empty (declared (to_lower slug)))))"

definition in_repository :: "string option \<Rightarrow> string \<Rightarrow> bool" where
  "in_repository repository slug =
     (case repository of None \<Rightarrow> True | Some g \<Rightarrow> to_lower slug = to_lower g)"

definition items_in_status :: "ctx \<Rightarrow> store \<Rightarrow> work_status \<Rightarrow> work_item list res" where
  "items_in_status cx s status =
     (let query = \<lparr>lq_status = Some status, lq_repository = None, lq_kind = None, lq_lease_owner = None,
            lq_label = None, lq_limit = Some progress_list_limit\<rparr> in
      and_then
        (if status \<in> set recent_first_statuses then recently_updated_items query s
         else list_items cx query s) (\<lambda>rows.
      Inr (map without_lease_token rows)))"

definition is_primary :: "timestamp \<Rightarrow> string option \<Rightarrow> work_item \<Rightarrow> bool" where
  "is_primary now repository item =
     (wi_kind item \<notin> set satellite_kinds \<and> wi_status item \<noteq> Cancelled \<and>
      \<not> is_aged_out item now \<and> in_repository repository (wi_repository item))"

definition origin_of :: "work_item \<Rightarrow> string option" where
  "origin_of item = (case wi_review item of None \<Rightarrow> None | Some review \<Rightarrow> pr_origin_item_id review)"

definition reviews_of :: "work_item list \<Rightarrow> work_item \<Rightarrow> work_item list" where
  "reviews_of all' item =
     filter (\<lambda>r. (wi_kind r = review_kind \<or> wi_kind r = review_fix_kind) \<and>
       origin_of r = Some (wi_id item)) all'"

record progress_entry =
  pn_row :: progress_row
  pn_claimable :: bool
  pn_priority :: int
  pn_created_at :: timestamp

definition progress_events :: "store \<Rightarrow> string \<Rightarrow> event_row list res" where
  "progress_events s i = recent_events i (Some (JInt progress_event_limit)) s"

definition progress_entry_of ::
    "(string \<Rightarrow> timestamp option) \<Rightarrow> timestamp \<Rightarrow> store \<Rightarrow> work_item list \<Rightarrow> work_item \<Rightarrow> progress_entry res"
where
  "progress_entry_of read_time now s all' item =
     (let reviews = reviews_of all' item in
      and_then (if wi_status item = Queued then read_predecessors s item else Inr None) (\<lambda>predecessors.
      and_then (review_gate_enabled (wi_repository item) s) (\<lambda>gate.
      and_then (progress_events s (wi_id item)) (\<lambda>item_events.
      and_then (map_res (\<lambda>review. progress_events s (wi_id review)) reviews) (\<lambda>review_events.
      Inr
        \<lparr>pn_row =
           derive_progress_row read_time item reviews gate now
             \<lparr>px_item_events = item_events, px_review_events = concat review_events,
              px_predecessors = predecessors\<rparr>,
         pn_claimable =
           (wi_status item = Queued \<and>
            (case predecessors of None \<Rightarrow> True | Some summary \<Rightarrow> su_unmet summary = [])),
         pn_priority = wi_priority item, pn_created_at = wi_created_at item\<rparr>)))))"

definition source_refs :: "work_item list \<Rightarrow> (string \<times> string) list" where
  "source_refs primaries =
     List.map_filter (\<lambda>item. map_option (\<lambda>ref. (to_lower (wi_repository item), to_lower ref))
       (non_empty (wi_source_ref item))) primaries"

definition observation_rows ::
    "store \<Rightarrow> (string \<times> string) list \<Rightarrow> string \<Rightarrow> progress_row list res"
where
  "observation_rows s refs repository =
     and_then (repository_labeled_issue_observations repository s) (\<lambda>observations.
     Inr
       (map (observation_row repository)
         (filter (\<lambda>observation. (to_lower repository, to_lower (li_url observation)) \<notin> set refs)
           (case observations of None \<Rightarrow> [] | Some o' \<Rightarrow> lo_issues o'))))"

definition row_order :: "(string \<Rightarrow> string) \<Rightarrow> progress_row \<Rightarrow> int \<times> string" where
  "row_order collation row = (- pg_updated_at row, collation (pg_title row))"

definition active_since :: "progress_row \<Rightarrow> timestamp" where
  "active_since row =
     (case map_of (pg_entered_at row) InReview of
        Some t \<Rightarrow> t
      | None \<Rightarrow>
          (case map_of (pg_entered_at row) StageWorking of Some t \<Rightarrow> t | None \<Rightarrow> pg_updated_at row))"

fun bucket_of :: "progress_stage \<Rightarrow> progress_bucket option" where
  "bucket_of AwaitingImport = Some BucketImport"
| "bucket_of StageProposed = Some BucketProposed"
| "bucket_of StageQueued = Some BucketQueued"
| "bucket_of StageWorking = Some BucketWorking"
| "bucket_of PrOpen = Some BucketReview"
| "bucket_of InReview = Some BucketReview"
| "bucket_of AwaitingMerge = Some BucketMerge"
| "bucket_of StageMerged = None"

definition summarize_progress :: "progress_row list \<Rightarrow> progress_bucket \<Rightarrow> nat" where
  "summarize_progress rows bucket =
     length (filter (\<lambda>row. bucket_of (pg_stage row) = Some bucket \<and>
       (bucket \<noteq> BucketWorking \<or> pg_active row)) rows)"

definition add_row :: "progress_row list option \<Rightarrow> progress_row \<Rightarrow> progress_row list" where
  "add_row listed row = (case listed of None \<Rightarrow> [row] | Some rows \<Rightarrow> rows @ [row])"

definition progress_groups :: "(string \<Rightarrow> string) \<Rightarrow> progress_row list \<Rightarrow> (string \<times> progress_row list) list" where
  "progress_groups collation rows =
     (let attention = map pg_key (filter (\<lambda>row. pg_badge row \<noteq> None) rows) in
      sort_key (\<lambda>group. collation (fst group))
        (collect pg_repository add_row (filter (\<lambda>row. pg_key row \<notin> set attention) rows) []))"

definition offer_order :: "progress_entry \<Rightarrow> int \<times> timestamp" where
  "offer_order entry = (- pn_priority entry, pn_created_at entry)"

text \<open>The page from what was read: the rows of the items and those of the observations.\<close>

definition progress_page ::
    "(string \<Rightarrow> string) \<Rightarrow> timestamp \<Rightarrow> string option \<times> progress_view \<Rightarrow> string list \<Rightarrow> progress_entry list \<Rightarrow>
       progress_row list \<Rightarrow> progress_data"
where
  "progress_page collation now filter' truncated entries observed =
     (let rows = sort_key (row_order collation) (map pn_row entries @ observed);
          claimable = sort_key offer_order (filter pn_claimable entries) in
      \<lparr>pd_as_of = now, pd_filter = filter',
       pd_attention = filter (\<lambda>row. pg_badge row \<noteq> None) rows,
       pd_repositories = progress_groups collation rows,
       pd_working_now = sort_key active_since (filter pg_active rows),
       pd_up_next = map pn_row (take up_next_limit claimable),
       pd_summary = summarize_progress rows, pd_total = length rows,
       pd_active = length (filter pg_active rows),
       pd_truncated =
         truncated @ (if up_next_limit < length claimable then [up_next_truncation] else [])\<rparr>)"

definition read_progress ::
    "(string \<Rightarrow> string) \<Rightarrow> (string \<Rightarrow> timestamp option) \<Rightarrow> (string \<Rightarrow> string option) \<Rightarrow> ctx \<Rightarrow> timestamp \<Rightarrow>
       progress_options \<Rightarrow> store \<Rightarrow> progress_data option res"
where
  "read_progress collation read_time declared cx now options s =
     (case resolve_repository declared options s of
        None \<Rightarrow> Inr None
      | Some repository \<Rightarrow>
          (let view = (if po_view options = Some ViewActive then ViewActive else ViewAll) in
           and_then (map_res (items_in_status cx s) work_statuses) (\<lambda>pages.
           let all' = concat pages;
               truncated = map (status_name \<circ> fst)
                 (filter (\<lambda>page. length (snd page) = nat progress_list_limit) (zip work_statuses pages));
               primaries = filter (is_primary now repository) all' in
           and_then (map_res (progress_entry_of read_time now s all') primaries) (\<lambda>entries.
           and_then
             (map_res (observation_rows s (source_refs primaries))
               (filter (in_repository repository) (enabled_repositories s))) (\<lambda>observed.
           Inr (Some (progress_page collation now (repository, view) truncated entries
             (concat observed))))))))"

text \<open>\<open>progressPath\<close>; the query text is encoded as \<open>URLSearchParams\<close> does, by the parameter.\<close>

definition progress_path :: "(string \<Rightarrow> string) \<Rightarrow> progress_options \<Rightarrow> string" where
  "progress_path encode query =
     (let parts =
        (case non_empty (po_repository query) of None \<Rightarrow> [] | Some g \<Rightarrow> [''repository='' @ encode g]) @
        (if po_view query = Some ViewActive then [''view=active''] else []) in
      case parts of
        [] \<Rightarrow> ''/progress''
      | [part] \<Rightarrow> ''/progress?'' @ part
      | first # rest \<Rightarrow> ''/progress?'' @ first @ ''&'' @ concat rest)"

end
