(* ===== verification/Progress_Guarantees.thy ===== *)
theory Progress_Guarantees
  imports Progress_State
begin

text \<open>
  What the lifecycle lanes promise: the instants of a row run forward through its stages, the page is
  always produced and shows each row once, and what it lists as up next has passed the claim gate.
\<close>

subsection \<open>Stages\<close>

lemma enter_stages_fst: "map fst (enter_stages candidate stages cursor) = stages"
  by (induction stages arbitrary: cursor) (simp_all add: Let_def)

lemma enter_stages_sorted:
  "sorted (map snd (enter_stages candidate stages cursor)) \<and>
   (\<forall>t \<in> set (map snd (enter_stages candidate stages cursor)). cursor \<le> t)"
proof (induction stages arbitrary: cursor)
  case Nil
  then show ?case by simp
next
  case (Cons stage stages)
  let ?next = "case candidate stage of None \<Rightarrow> cursor | Some t \<Rightarrow> if t \<ge> cursor then t else cursor"
  have "cursor \<le> ?next" by (simp split: option.split)
  with Cons.IH [of ?next] show ?case by (force simp: Let_def)
qed

text \<open>C34: The instants a row shows run forward: they cover exactly the stages of the lifecycle up to the
  row's own, in order, the first is the item's creation, and none is earlier than the one before it,
  whatever the ledger and GitHub reported.\<close>

theorem stage_entries_never_go_back:
  "let row = derive_progress_row read_time item reviews gate now context in
     prefix (map fst (pg_entered_at row)) progress_stages \<and>
     last (map fst (pg_entered_at row)) = pg_stage row \<and>
     sorted (map snd (pg_entered_at row)) \<and>
     map_of (pg_entered_at row) AwaitingImport = Some (wi_created_at item)"
proof -
  let ?row = "derive_progress_row read_time item reviews gate now context"
  let ?candidate = "stage_candidate read_time item gate (px_item_events context) (px_review_events context)"
  have entered: "pg_entered_at ?row =
      enter_stages ?candidate (up_to_stage (pg_stage ?row)) (wi_created_at item)"
    by (simp add: derive_progress_row_def Let_def derive_stage_entered_at_def)
  have stages: "prefix (up_to_stage stage) progress_stages \<and> last (up_to_stage stage) = stage \<and>
      hd (up_to_stage stage) = AwaitingImport \<and> up_to_stage stage \<noteq> []" for stage
    by (cases stage) (simp_all add: up_to_stage_def progress_stages_def)
  have first: "map_of (enter_stages ?candidate stages (wi_created_at item)) AwaitingImport =
      Some (wi_created_at item)" if "stages \<noteq> []" "hd stages = AwaitingImport" for stages
    using that by (cases stages) (simp_all add: Let_def)
  show ?thesis
    unfolding Let_def entered enter_stages_fst
    using stages [of "pg_stage ?row"] first enter_stages_sorted by blast
qed

subsection \<open>What a page is made of\<close>

lemma read_without_token: "read_predecessors s (without_lease_token item) = read_predecessors s item"
proof -
  have "wi_predecessors (without_lease_token item) = wi_predecessors item"
    "wi_id (without_lease_token item) = wi_id item"
    unfolding without_lease_token_def by simp_all
  then show ?thesis unfolding read_predecessors_def by (simp only:)
qed

lemma items_in_status_rows:
  assumes "items_in_status cx s status = Inr items" and "item \<in> set items"
  shows "\<exists>r \<in> set (st_items s). item = without_lease_token (item_of r) \<and> status_clause (Some status) r"
  using assms
  by (auto simp: items_in_status_def Let_def recently_updated_items_def list_items_def
      filter_clauses_def and_then_Inr_iff claim_order_def split: if_splits dest!: in_set_takeD) blast+

lemma items_in_status_total: "\<exists>items. items_in_status cx s status = Inr items"
  by (simp add: items_in_status_def Let_def recently_updated_items_def list_items_def
      filter_clauses_def validate_optional_repository_def optional_res_def non_empty_def)

lemma logical_status_of_clause: "status_clause (Some status) r \<Longrightarrow> logical_status r = status"
  by (cases status) (auto simp: status_clause_def logical_status_def)

text \<open>The parts of a page that was produced.\<close>

lemma read_progress_parts:
  assumes "read_progress collation read_time declared cx now options s = Inr (Some data)"
  obtains repository all' entries observed truncated view where
    "resolve_repository declared options s = Some repository"
    and "\<forall>item \<in> set all'. \<exists>r \<in> set (st_items s). item = without_lease_token (item_of r) \<and>
      logical_status r = wi_status item"
    and "map_res (progress_entry_of read_time now s all') (filter (is_primary now repository) all') = Inr entries"
    and "\<forall>row \<in> set observed. \<exists>g observation. row = observation_row g observation \<and>
      in_repository repository g"
    and "data = progress_page collation now (repository, view) truncated entries observed"
proof -
  obtain repository pages entries observed view truncated where
    resolve: "resolve_repository declared options s = Some repository"
    and pages: "map_res (items_in_status cx s) work_statuses = Inr pages"
    and entries: "map_res (progress_entry_of read_time now s (concat pages))
      (filter (is_primary now repository) (concat pages)) = Inr entries"
    and observed: "map_res (observation_rows s (source_refs (filter (is_primary now repository) (concat pages))))
      (filter (in_repository repository) (enabled_repositories s)) = Inr observed"
    and data: "data = progress_page collation now (repository, view) truncated entries (concat observed)"
    using assms by (auto simp: read_progress_def Let_def and_then_Inr_iff split: option.splits)
  show thesis
  proof (rule that [OF resolve _ entries _ data])
    show "\<forall>item \<in> set (concat pages). \<exists>r \<in> set (st_items s). item = without_lease_token (item_of r) \<and>
        logical_status r = wi_status item"
    proof
      fix item assume "item \<in> set (concat pages)"
      then obtain page where "page \<in> set pages" "item \<in> set page" by auto
      then obtain status where "items_in_status cx s status = Inr page" using map_res_mem [OF pages] by blast
      with \<open>item \<in> set page\<close> obtain r where "r \<in> set (st_items s)" "item = without_lease_token (item_of r)"
        using items_in_status_rows by blast
      then show "\<exists>r \<in> set (st_items s). item = without_lease_token (item_of r) \<and> logical_status r = wi_status item"
        by (auto simp: without_lease_token_def)
    qed
    show "\<forall>row \<in> set (concat observed). \<exists>g observation. row = observation_row g observation \<and>
        in_repository repository g"
      using map_res_mem [OF observed] by (fastforce simp: observation_rows_def and_then_Inr_iff)
  qed
qed

lemma stage_row_simps [simp]:
  "pg_key (stage_row item stage active waiting badge) = ''item:'' @ wi_id item"
  "pg_repository (stage_row item stage active waiting badge) = wi_repository item"
  "pg_item (stage_row item stage active waiting badge) = Some item"
  "pg_stage (stage_row item stage active waiting badge) = stage"
  "pg_badge (stage_row item stage active waiting badge) = badge"
  by (simp_all add: stage_row_def base_row_def)

definition row_of_item' :: "work_item \<Rightarrow> progress_row \<Rightarrow> bool" where
  "row_of_item' item row =
     (pg_key row = ''item:'' @ wi_id item \<and> pg_repository row = wi_repository item \<and>
      pg_item row = Some item)"

lemma parts_of_item:
  "row_of_item' item (queued_row item stopped p)" "row_of_item' item (claimed_row item stopped now)"
  "row_of_item' item (without_pull_request item stopped)"
  "row_of_item' item (stage_row item stage active waiting badge)"
  by (simp_all add: row_of_item'_def queued_row_def claimed_row_def without_pull_request_def Let_def)

lemma verified_row_of_item: "row_of_item' item (verified_row item reviews gate now stopped v)"
  unfolding verified_row_def Let_def by (simp add: row_of_item'_def)

lemma item_row_simps [simp]:
  "pg_key (row_of_progress item reviews gate now p) = ''item:'' @ wi_id item"
  "pg_repository (row_of_progress item reviews gate now p) = wi_repository item"
  "pg_item (row_of_progress item reviews gate now p) = Some item"
proof -
  have "row_of_item' item (row_of_progress item reviews gate now p)"
    unfolding row_of_progress_def Let_def
    by (simp add: parts_of_item verified_row_of_item split: option.split verification.split)
  then show "pg_key (row_of_progress item reviews gate now p) = ''item:'' @ wi_id item"
    "pg_repository (row_of_progress item reviews gate now p) = wi_repository item"
    "pg_item (row_of_progress item reviews gate now p) = Some item"
    by (simp_all add: row_of_item'_def)
qed

lemma queued_row_open:
  assumes "wi_status item = Queued" and "\<And>summary. p = Some summary \<Longrightarrow> su_unmet summary = []"
  shows "pg_stage (row_of_progress item reviews gate now p) = StageQueued"
    and "pg_badge (row_of_progress item reviews gate now p) = None"
  using assms
  by (auto simp: row_of_progress_def Let_def queued_row_def gate_wait_def badge_or_def split: option.split)

lemma progress_entry_simps:
  assumes "progress_entry_of read_time now s all' item = Inr entry"
  shows "pg_key (pn_row entry) = ''item:'' @ wi_id item"
    and "pg_repository (pn_row entry) = wi_repository item" and "pg_item (pn_row entry) = Some item"
    and "pn_priority entry = wi_priority item" and "pn_created_at entry = wi_created_at item"
    and "pn_claimable entry \<Longrightarrow> wi_status item = Queued \<and>
      (\<exists>p. read_predecessors s item = Inr p \<and> (\<forall>summary. p = Some summary \<longrightarrow> su_unmet summary = [])) \<and>
      pg_stage (pn_row entry) = StageQueued \<and> pg_badge (pn_row entry) = None"
proof -
  obtain p gate evs reviews where
    p: "(if wi_status item = Queued then read_predecessors s item else Inr None) = Inr p"
    and entry: "entry =
        \<lparr>pn_row = derive_progress_row read_time item (reviews_of all' item) gate now
           \<lparr>px_item_events = evs, px_review_events = reviews, px_predecessors = p\<rparr>,
         pn_claimable = (wi_status item = Queued \<and>
           (case p of None \<Rightarrow> True | Some summary \<Rightarrow> su_unmet summary = [])),
         pn_priority = wi_priority item, pn_created_at = wi_created_at item\<rparr>"
    using assms by (auto simp: progress_entry_of_def Let_def and_then_Inr_iff)
  show "pg_key (pn_row entry) = ''item:'' @ wi_id item" "pg_repository (pn_row entry) = wi_repository item"
    "pg_item (pn_row entry) = Some item" "pn_priority entry = wi_priority item"
    "pn_created_at entry = wi_created_at item"
    by (simp_all add: entry derive_progress_row_def Let_def)
  assume "pn_claimable entry"
  then have open': "wi_status item = Queued" "\<And>summary. p = Some summary \<Longrightarrow> su_unmet summary = []"
    by (auto simp: entry)
  with p queued_row_open [OF this] show "wi_status item = Queued \<and>
      (\<exists>p. read_predecessors s item = Inr p \<and> (\<forall>summary. p = Some summary \<longrightarrow> su_unmet summary = [])) \<and>
      pg_stage (pn_row entry) = StageQueued \<and> pg_badge (pn_row entry) = None"
    by (auto simp: entry derive_progress_row_def Let_def)
qed

subsection \<open>Groups\<close>

lemma fold_group_add_row:
  "fold_group add_row rows listed =
     (if rows = [] then listed else Some ((case listed of None \<Rightarrow> [] | Some xs \<Rightarrow> xs) @ rows))"
  by (induction rows arbitrary: listed) (auto simp: add_row_def split: option.split)

lemma upsert_add_row_length:
  "sum_list (map (length \<circ> snd) (upsert g (\<lambda>listed. add_row listed row) m)) =
     Suc (sum_list (map (length \<circ> snd) m))"
  by (induction g "\<lambda>listed. add_row listed row" m rule: upsert.induct) (auto simp: add_row_def)

lemma collect_add_row_length:
  "sum_list (map (length \<circ> snd) (collect key add_row rows m)) =
     length rows + sum_list (map (length \<circ> snd) m)"
  by (induction rows arbitrary: m) (simp_all add: upsert_add_row_length)

lemma collect_add_row_group:
  assumes "(g, listed) \<in> set (collect key add_row rows [])"
  shows "listed = filter (\<lambda>row. key row = g) rows" and "listed \<noteq> []"
proof -
  have g: "g \<in> key ` set rows" and some: "fold_group add_row (filter (\<lambda>row. key row = g) rows) None = Some listed"
    using collect_entry [OF assms] by auto
  then have "filter (\<lambda>row. key row = g) rows \<noteq> []" by (auto simp: filter_empty_conv)
  with some show "listed = filter (\<lambda>row. key row = g) rows" "listed \<noteq> []"
    by (auto simp: fold_group_add_row)
qed

text \<open>Rows with one key agree on whether they carry a badge.\<close>

definition keys_decide_badges :: "progress_row list \<Rightarrow> bool" where
  "keys_decide_badges rows =
     (\<forall>x \<in> set rows. \<forall>y \<in> set rows. pg_key x = pg_key y \<longrightarrow> (pg_badge x = None \<longleftrightarrow> pg_badge y = None))"

lemma unattended_rows:
  assumes "keys_decide_badges rows"
  shows "filter (\<lambda>row. pg_key row \<notin> set (map pg_key (filter (\<lambda>row. pg_badge row \<noteq> None) rows))) rows =
    filter (\<lambda>row. pg_badge row = None) rows"
proof (rule filter_cong [OF refl])
  fix row assume row: "row \<in> set rows"
  show "pg_key row \<notin> set (map pg_key (filter (\<lambda>row. pg_badge row \<noteq> None) rows)) \<longleftrightarrow> pg_badge row = None"
  proof
    assume "pg_key row \<notin> set (map pg_key (filter (\<lambda>row. pg_badge row \<noteq> None) rows))"
    with row show "pg_badge row = None" by auto
  next
    assume "pg_badge row = None"
    then have "pg_badge y = None" if "y \<in> set rows" "pg_key y = pg_key row" for y
      using assms row that unfolding keys_decide_badges_def by blast
    then show "pg_key row \<notin> set (map pg_key (filter (\<lambda>row. pg_badge row \<noteq> None) rows))" by auto
  qed
qed

lemma progress_groups_listing:
  assumes "keys_decide_badges rows"
  shows "sum_list (map (length \<circ> snd) (progress_groups collation rows)) =
      length (filter (\<lambda>row. pg_badge row = None) rows)"
    and "distinct (map fst (progress_groups collation rows))"
    and "(g, listed) \<in> set (progress_groups collation rows) \<Longrightarrow>
      listed = filter (\<lambda>row. pg_badge row = None \<and> pg_repository row = g) rows \<and> listed \<noteq> []"
proof -
  let ?rows = "filter (\<lambda>row. pg_badge row = None) rows"
  have groups: "progress_groups collation rows =
      sort_key (\<lambda>entry. collation (fst entry)) (collect pg_repository add_row ?rows [])"
    by (simp only: progress_groups_def Let_def unattended_rows [OF assms])
  have "mset (progress_groups collation rows) = mset (collect pg_repository add_row ?rows [])"
    by (simp add: groups)
  then have "mset (map (length \<circ> snd) (progress_groups collation rows)) =
      mset (map (length \<circ> snd) (collect pg_repository add_row ?rows []))"
    and firsts: "mset (map fst (progress_groups collation rows)) = mset (map fst (collect pg_repository add_row ?rows []))"
    by (simp_all only: mset_map)
  then have "sum_list (map (length \<circ> snd) (progress_groups collation rows)) =
      sum_list (map (length \<circ> snd) (collect pg_repository add_row ?rows []))"
    by (metis sum_mset_sum_list)
  then show "sum_list (map (length \<circ> snd) (progress_groups collation rows)) = length ?rows"
    by (simp add: collect_add_row_length)
  show "distinct (map fst (progress_groups collation rows))"
    using distinct_collect [of "[]" pg_repository add_row ?rows] mset_eq_imp_distinct_iff [OF firsts] by simp
  show "listed = filter (\<lambda>row. pg_badge row = None \<and> pg_repository row = g) rows \<and> listed \<noteq> []"
    if "(g, listed) \<in> set (progress_groups collation rows)"
  proof -
    have "(g, listed) \<in> set (collect pg_repository add_row ?rows [])" using that by (simp add: groups)
    from collect_add_row_group [OF this] show ?thesis by (simp add: conj_commute)
  qed
qed

subsection \<open>What a page promises\<close>

lemma page_keys_decide_badges:
  assumes "distinct (map r_id (st_items s))"
    and "\<forall>item \<in> set items. \<exists>r \<in> set (st_items s). item = without_lease_token (item_of r) \<and>
      logical_status r = wi_status item"
    and "map_res (progress_entry_of read_time now s all') items = Inr entries"
    and "\<forall>row \<in> set observed. \<exists>g observation. row = observation_row g observation"
  shows "keys_decide_badges (map pn_row entries @ observed)"
proof -
  have observed: "pg_badge row = None \<and> (\<exists>k. pg_key row = CHR ''o'' # k)" if "row \<in> set observed" for row
    using assms(4) that by (auto simp: observation_row_def)
  have entry: "\<exists>r \<in> set (st_items s). pg_key (pn_row e) = ''item:'' @ r_id r \<and>
      progress_entry_of read_time now s all' (without_lease_token (item_of r)) = Inr e"
    if "e \<in> set entries" for e
  proof -
    obtain item where item: "item \<in> set items" "progress_entry_of read_time now s all' item = Inr e"
      using map_res_mem [OF assms(3) \<open>e \<in> set entries\<close>] by blast
    then obtain r where r: "r \<in> set (st_items s)" "item = without_lease_token (item_of r)"
      using assms(2) by blast
    with progress_entry_simps(1) [OF item(2)] item(2) show ?thesis
      by (intro bexI [of _ r]) (simp_all add: without_lease_token_def)
  qed
  have same: "e = f" if e: "e \<in> set entries" and f: "f \<in> set entries"
    and key: "pg_key (pn_row e) = pg_key (pn_row f)" for e f
  proof -
    obtain r q where "r \<in> set (st_items s)" "q \<in> set (st_items s)" "r_id r = r_id q"
      "progress_entry_of read_time now s all' (without_lease_token (item_of r)) = Inr e"
      "progress_entry_of read_time now s all' (without_lease_token (item_of q)) = Inr f"
      using entry [OF e] entry [OF f] key by auto
    moreover from this have "r = q" using assms(1) by (auto simp: distinct_map inj_on_def)
    ultimately show ?thesis by simp
  qed
  have item_key: "pg_key (pn_row e) = CHR ''i'' # drop 1 (pg_key (pn_row e))" if "e \<in> set entries" for e
    using entry [OF that] by auto
  show ?thesis
    unfolding keys_decide_badges_def
  proof (intro ballI impI)
    fix x y assume x: "x \<in> set (map pn_row entries @ observed)" and y: "y \<in> set (map pn_row entries @ observed)"
      and key: "pg_key x = pg_key y"
    consider e f where "x = pn_row e" "y = pn_row f" "e \<in> set entries" "f \<in> set entries"
      | "x \<in> set observed" "y \<in> set observed"
      | e where "x = pn_row e" "e \<in> set entries" "y \<in> set observed"
      | e where "y = pn_row e" "e \<in> set entries" "x \<in> set observed"
      using x y by auto
    then show "pg_badge x = None \<longleftrightarrow> pg_badge y = None"
    proof cases
      case 1
      with same [of e f] key show ?thesis by simp
    next
      case 2
      then show ?thesis using observed by blast
    next
      case 3
      obtain k where "pg_key y = CHR ''o'' # k" using observed [OF 3(3)] by blast
      with item_key [OF 3(2)] key 3(1) have "CHR ''o'' = CHR ''i''" by (metis list.inject)
      then show ?thesis by simp
    next
      case 4
      obtain k where "pg_key x = CHR ''o'' # k" using observed [OF 4(3)] by blast
      with item_key [OF 4(2)] key 4(1) have "CHR ''o'' = CHR ''i''" by (metis list.inject)
      then show ?thesis by simp
    qed
  qed
qed

lemma summary_within: "(\<Sum>bucket \<leftarrow> progress_summary_buckets. summarize_progress rows bucket) \<le> length rows"
proof (induction rows)
  case Nil
  then show ?case by (simp add: summarize_progress_def progress_summary_buckets_def)
next
  case (Cons row rows)
  then show ?case
    by (cases "pg_stage row") (simp_all add: summarize_progress_def progress_summary_buckets_def)
qed

text \<open>The rows a page was made of, before they are sorted.\<close>

lemma page_rows:
  assumes "reachable s"
    and "read_progress collation read_time declared cx now options s = Inr (Some data)"
  obtains repository all' entries observed truncated view where
    "data = progress_page collation now (repository, view) truncated entries observed"
    and "keys_decide_badges (map pn_row entries @ observed)"
    and "\<forall>row \<in> set (map pn_row entries @ observed). in_repository repository (pg_repository row)"
    and "\<forall>e \<in> set entries. \<exists>r \<in> set (st_items s). logical_status r = wi_status (item_of r) \<and>
      progress_entry_of read_time now s all' (without_lease_token (item_of r)) = Inr e"
proof -
  obtain repository all' entries observed truncated view where
    resolve: "resolve_repository declared options s = Some repository"
    and all': "\<forall>item \<in> set all'. \<exists>r \<in> set (st_items s). item = without_lease_token (item_of r) \<and>
      logical_status r = wi_status item"
    and entries: "map_res (progress_entry_of read_time now s all') (filter (is_primary now repository) all') = Inr entries"
    and observed: "\<forall>row \<in> set observed. \<exists>g observation. row = observation_row g observation \<and>
      in_repository repository g"
    and data: "data = progress_page collation now (repository, view) truncated entries observed"
    by (rule read_progress_parts [OF assms(2)])
  have ids: "distinct (map r_id (st_items s))"
    using reachable_store_ok [OF assms(1)] by (simp add: store_ok_def)
  have sub: "\<forall>item \<in> set (filter (is_primary now repository) all'). \<exists>r \<in> set (st_items s).
      item = without_lease_token (item_of r) \<and> logical_status r = wi_status item"
    using all' by simp
  show thesis
  proof (rule that [OF data])
    show "keys_decide_badges (map pn_row entries @ observed)"
      by (rule page_keys_decide_badges [OF ids sub entries]) (use observed in blast)
    show "\<forall>e \<in> set entries. \<exists>r \<in> set (st_items s). logical_status r = wi_status (item_of r) \<and>
        progress_entry_of read_time now s all' (without_lease_token (item_of r)) = Inr e"
      using map_res_mem [OF entries] sub by fastforce
    show "\<forall>row \<in> set (map pn_row entries @ observed). in_repository repository (pg_repository row)"
    proof
      fix row assume "row \<in> set (map pn_row entries @ observed)"
      then consider e where "e \<in> set entries" "row = pn_row e" | "row \<in> set observed" by auto
      then show "in_repository repository (pg_repository row)"
      proof cases
        case 1
        then obtain item where item: "item \<in> set (filter (is_primary now repository) all')"
          "progress_entry_of read_time now s all' item = Inr e"
          using map_res_mem [OF entries] by blast
        with progress_entry_simps(2) [OF item(2)] 1 show ?thesis by (simp add: is_primary_def)
      next
        case 2
        then show ?thesis using observed by (auto simp: observation_row_def)
      qed
    qed
  qed
qed

text \<open>A progress page shows each row once. The total it states is the number of rows it lists, the
  attention rows and those of the repository groups together; the attention rows are the ones with
  a badge and the groups hold the others, one group per repository inside the requested filter,
  none empty; the working rows are the active ones, the summary counts no row twice, and at most
  twenty rows are up next.\<close>

theorem progress_page_shows_each_row_once:
  assumes "reachable s"
    and "read_progress collation read_time declared cx now options s = Inr (Some data)"
  shows "pd_total data = length (pd_attention data) + sum_list (map (length \<circ> snd) (pd_repositories data)) \<and>
    (\<forall>row \<in> set (pd_attention data). pg_badge row \<noteq> None) \<and>
    distinct (map fst (pd_repositories data)) \<and>
    (\<forall>g rows. (g, rows) \<in> set (pd_repositories data) \<longrightarrow> rows \<noteq> [] \<and> in_repository (fst (pd_filter data)) g \<and>
       (\<forall>row \<in> set rows. pg_repository row = g \<and> pg_badge row = None)) \<and>
    pd_active data = length (pd_working_now data) \<and>
    (\<Sum>bucket \<leftarrow> progress_summary_buckets. pd_summary data bucket) \<le> pd_total data \<and>
    length (pd_up_next data) \<le> 20"
proof -
  obtain repository all' entries observed truncated view where
    data: "data = progress_page collation now (repository, view) truncated entries observed"
    and keys: "keys_decide_badges (map pn_row entries @ observed)"
    and inside: "\<forall>row \<in> set (map pn_row entries @ observed). in_repository repository (pg_repository row)"
    by (rule page_rows [OF assms])
  define rows where "rows = sort_key (row_order collation) (map pn_row entries @ observed)"
  have set_rows: "set rows = set (map pn_row entries @ observed)" by (simp add: rows_def)
  have keys_rows: "keys_decide_badges rows"
    using keys unfolding keys_decide_badges_def set_rows .
  note groups = progress_groups_listing [where collation = collation, OF keys_rows]
  have fields: "pd_attention data = filter (\<lambda>row. pg_badge row \<noteq> None) rows"
    "pd_repositories data = progress_groups collation rows" "pd_total data = length rows"
    "pd_filter data = (repository, view)" "pd_summary data = summarize_progress rows"
    "pd_active data = length (pd_working_now data)" "length (pd_up_next data) \<le> 20"
    by (simp_all add: data progress_page_def Let_def rows_def up_next_limit_def)
  have total: "length rows = length (filter (\<lambda>row. pg_badge row \<noteq> None) rows) +
      length (filter (\<lambda>row. pg_badge row = None) rows)"
    using sum_length_filter_compl [of "\<lambda>row. pg_badge row \<noteq> None" rows] by simp
  have group: "listed \<noteq> [] \<and> in_repository repository g \<and>
      (\<forall>row \<in> set listed. pg_repository row = g \<and> pg_badge row = None)"
    if "(g, listed) \<in> set (progress_groups collation rows)" for g listed
  proof -
    note listed = groups(3) [OF that]
    have "set listed = {row \<in> set rows. pg_badge row = None \<and> pg_repository row = g}"
      by (subst conjunct1 [OF listed]) simp
    moreover have "hd listed \<in> set listed" by (rule hd_in_set [OF conjunct2 [OF listed]])
    ultimately have "hd listed \<in> set rows" "pg_repository (hd listed) = g" by blast+
    with inside set_rows have "in_repository repository g" by blast
    with listed show ?thesis by auto
  qed
  show ?thesis
    unfolding fields(1-6) fst_conv
    using groups(1,2) total group summary_within [of rows] fields(7) by (intro conjI) auto
qed

text \<open>C35: Every row a page lists as up next belongs to a stored item that is queued and admitted, has passed
  the claim gate's verdict on its predecessors and carries no badge; the rows come by priority and
  then by age, as claims do.\<close>

theorem up_next_rows_are_open_to_claim:
  assumes "reachable s"
    and "read_progress collation read_time declared cx now options s = Inr (Some data)"
    and "row \<in> set (pd_up_next data)"
  shows "\<exists>r \<in> set (st_items s). pg_item row = Some (without_lease_token (item_of r)) \<and>
      r_status r = RQueued \<and> r_admitted r \<and> ready s r \<and>
      pg_stage row = StageQueued \<and> pg_badge row = None \<and>
      sorted (map (\<lambda>row. (- wi_priority (the (pg_item row)), wi_created_at (the (pg_item row))))
        (pd_up_next data))"
proof -
  obtain repository all' entries observed truncated view where
    data: "data = progress_page collation now (repository, view) truncated entries observed"
    and entries: "\<forall>e \<in> set entries. \<exists>r \<in> set (st_items s). logical_status r = wi_status (item_of r) \<and>
      progress_entry_of read_time now s all' (without_lease_token (item_of r)) = Inr e"
    by (rule page_rows [OF assms(1,2)])
  let ?offered = "take up_next_limit (sort_key offer_order (filter pn_claimable entries))"
  have up_next: "pd_up_next data = map pn_row ?offered"
    by (simp add: data progress_page_def Let_def)
  have mem: "e \<in> set entries \<and> pn_claimable e" if "e \<in> set ?offered" for e
    using in_set_takeD [OF that] by simp
  have order: "(- wi_priority (the (pg_item (pn_row e))), wi_created_at (the (pg_item (pn_row e)))) =
      offer_order e" if e: "e \<in> set ?offered" for e
  proof -
    obtain r where "progress_entry_of read_time now s all' (without_lease_token (item_of r)) = Inr e"
      using mem [OF e] entries by blast
    from progress_entry_simps(3-5) [OF this] show ?thesis by (simp add: offer_order_def)
  qed
  have "sorted (map offer_order ?offered)"
    unfolding take_map [symmetric] by (rule sorted_wrt_take) simp
  then have sorted: "sorted (map (\<lambda>row. (- wi_priority (the (pg_item row)), wi_created_at (the (pg_item row))))
      (pd_up_next data))"
    unfolding up_next map_map using order by (simp cong: map_cong)
  obtain e where e: "e \<in> set ?offered" "row = pn_row e" using assms(3) by (auto simp: up_next)
  then obtain r where r: "r \<in> set (st_items s)"
    "progress_entry_of read_time now s all' (without_lease_token (item_of r)) = Inr e"
    using mem entries by blast
  let ?item = "without_lease_token (item_of r)"
  note claim = progress_entry_simps(6) [OF r(2) conjunct2 [OF mem [OF e(1)]]]
  have status: "r_status r = RQueued" "r_admitted r"
    using claim by (auto simp: without_lease_token_def logical_status_def split: if_splits row_status.splits)
  have found: "find_row (r_id r) s = Some r" by (rule store_ok_rows(3) [OF reachable_store_ok [OF assms(1)] r(1)])
  have "ready s r"
  proof (cases "parse_json (r_predecessors r) [] = []")
    case True
    then show ?thesis by (simp add: ready_def predecessors_met_def)
  next
    case False
    have ids: "distinct (map r_id (st_items s))"
      using reachable_store_ok [OF assms(1)] by (simp add: store_ok_def)
    obtain summary where read: "read_predecessors s (item_of r) = Inr (Some summary)"
      and sts: "map pe_status (su_entries summary) =
        map (evaluate_predecessor s) (parse_json (r_predecessors r) [])"
      and unmet: "su_unmet summary = filter (\<lambda>e. \<not> ps_satisfied (pe_status e)) (su_entries summary)"
      by (rule read_predecessors_entries [OF found ids False])
    with claim read have "su_unmet summary = []" by (auto simp: read_without_token)
    then have "\<forall>st \<in> pe_status ` set (su_entries summary). ps_satisfied st"
      by (auto simp: unmet filter_empty_conv)
    moreover have "pe_status ` set (su_entries summary) =
        evaluate_predecessor s ` set (parse_json (r_predecessors r) [])"
      using arg_cong [OF sts, of set] by simp
    ultimately show ?thesis by (simp add: ready_def predecessors_met_def list_all_iff)
  qed
  with r(1) status claim e(2) sorted progress_entry_simps(3) [OF r(2)] show ?thesis
    by (intro bexI [of _ r]) simp_all
qed

subsection \<open>The page is always produced\<close>

lemma map_res_Some: "\<forall>x \<in> set xs. \<exists>y. f x = Inr y \<Longrightarrow> \<exists>ys. map_res f xs = Inr ys"
  by (rule map_res_total) blast

lemma recent_events_total: "\<exists>evs. progress_events s i = Inr evs"
  by (simp add: progress_events_def recent_events_def progress_event_limit_def max_events_since_limit_def
      max_safe_integer_def)

definition known_slugs :: "store \<Rightarrow> bool" where
  "known_slugs s = list_all (\<lambda>g. repository_slug (rp_slug g)) (st_repositories s)"

lemma review_gate_answers: "repository_slug g \<Longrightarrow> \<exists>b. review_gate_enabled g s = Inr b"
  by (simp add: review_gate_enabled_def validate_repository_def)

lemma progress_entry_total:
  assumes "reachable s" and "known_slugs s" and "r \<in> set (st_items s)"
  shows "\<exists>entry. progress_entry_of read_time now s all' (without_lease_token (item_of r)) = Inr entry"
proof -
  let ?item = "without_lease_token (item_of r)"
  have same: "wi_repository ?item = r_repository r" unfolding without_lease_token_def by simp
  note ok = reachable_store_ok [OF assms(1)]
  have ids: "distinct (map r_id (st_items s))" using ok by (simp add: store_ok_def)
  have "\<exists>p. read_predecessors s (item_of r) = Inr p"
  proof (cases "parse_json (r_predecessors r) [] = []")
    case True
    then show ?thesis
      by (cases "r_predecessors r") (simp_all add: read_predecessors_def non_empty_def)
  next
    case False
    from read_predecessors_entries [OF store_ok_rows(3) [OF ok assms(3)] ids False] show ?thesis by blast
  qed
  then obtain p where "read_predecessors s ?item = Inr p" by (auto simp: read_without_token)
  then obtain p' where p: "(if wi_status ?item = Queued then read_predecessors s ?item else Inr None) = Inr p'"
    by (cases "wi_status ?item = Queued") auto
  have "repository_slug (r_repository r)"
    using store_ok_rows(4) [OF ok assms(3)] assms(2) by (auto simp: known_slugs_def list_all_iff)
  then obtain gate where gate: "review_gate_enabled (wi_repository ?item) s = Inr gate"
    using review_gate_answers [of "r_repository r" s] same by auto
  obtain evs where evs: "progress_events s (wi_id ?item) = Inr evs" using recent_events_total by blast
  have "\<exists>reviews. map_res (\<lambda>review. progress_events s (wi_id review)) (reviews_of all' ?item) = Inr reviews"
    by (rule map_res_Some) (intro ballI recent_events_total)
  then obtain reviews where reviews:
    "map_res (\<lambda>review. progress_events s (wi_id review)) (reviews_of all' ?item) = Inr reviews" ..
  show ?thesis unfolding progress_entry_of_def Let_def p gate evs reviews by simp
qed


subsection \<open>Samples\<close>

definition sample_page :: "store \<Rightarrow> progress_data option res" where
  "sample_page s =
     read_progress (\<lambda>title. title) (\<lambda>_. None) (\<lambda>_. None) (sample_ctx 40 ''P'') 50
       \<lparr>po_repository = None, po_view = None\<rparr> s"

definition page_of :: "progress_data option res \<Rightarrow> progress_data option" where
  "page_of m = (case m of Inl _ \<Rightarrow> None | Inr page \<Rightarrow> page)"

lemma sample_page_lists:
  "map_option (\<lambda>data. (map pg_key (pd_up_next data), pd_total data)) (page_of (sample_page sample2)) =
     Some ([''item:A''], 1)"
  by code_simp

lemma sample_page_data:
  obtains data where "sample_page sample2 = Inr (Some data)"
    and "map pg_key (pd_up_next data) = [''item:A'']" and "pd_total data = 1"
proof -
  from sample_page_lists obtain data where "page_of (sample_page sample2) = Some data"
    "map pg_key (pd_up_next data) = [''item:A'']" "pd_total data = 1" by auto
  with that show thesis by (auto simp: page_of_def split: sum.splits)
qed

theorem progress_page_shows_each_row_once_witness:
  "\<exists>data. sample_page sample2 = Inr (Some data) \<and> pd_total data = 1 \<and>
     pd_total data = length (pd_attention data) + sum_list (map (length \<circ> snd) (pd_repositories data))"
proof -
  obtain data where data: "sample_page sample2 = Inr (Some data)" "pd_total data = 1" by (rule sample_page_data)
  from progress_page_shows_each_row_once [OF sample2_reachable data(1) [unfolded sample_page_def]] data
  show ?thesis by blast
qed

theorem up_next_rows_are_open_to_claim_witness:
  "\<exists>(row :: progress_row) (r :: row). pg_key row = ''item:A'' \<and> r \<in> set (st_items sample2) \<and> r_admitted r \<and> ready sample2 r \<and>
     pg_item row = Some (without_lease_token (item_of r))"
proof -
  obtain data where data: "sample_page sample2 = Inr (Some data)"
    and keys: "map pg_key (pd_up_next data) = [''item:A'']" by (rule sample_page_data)
  from keys obtain row where row: "row \<in> set (pd_up_next data)" "pg_key row = ''item:A''" by auto
  from up_next_rows_are_open_to_claim [OF sample2_reachable data [unfolded sample_page_def] row(1)] row(2)
  show ?thesis by blast
qed


text \<open>
  What a page lists as up next is wider than what a claim offers: an item of a repository that has
  been disabled since is listed, and no claim offers it.
\<close>

definition sample_disabled :: store where
  "sample_disabled = after (set_repository_enabled (sample_ctx 20 ''R'') ''acme/tool'' False sample2)"

lemma disabled_repository_is_up_next:
  "map_option (\<lambda>data. map pg_key (pd_up_next data)) (page_of (sample_page sample_disabled)) =
     Some [''item:A''] \<and>
   claim (sample_ctx 40 ''T'') sample_claim sample_disabled = Inr (None, sample_disabled)"
  by code_simp

end
