(* ===== verification/Control_Registry.thy ===== *)
theory Control_Registry
  imports Control_Schedules Canonical_Json
begin

text \<open>
  What the control plane may record: the kinds of its records and the checks they share, and then its
  payloads with the contract of each (\<open>src/src/control/registry.ts\<close>).
\<close>

section \<open>Kinds and shared checks\<close>

text \<open>
  What the control plane may write (\<open>src/src/control/registry.ts\<close>): the identities of its subjects,
  revisions and sources, and for each kind of record the payload and the contract it has to meet
  before it is stored. A payload is a record with the fields of the code's object (so the shape of
  the object, which the code checks name by name, is the type); its enumerated fields are texts, as
  they are in the code, and the contract says which texts they may be. Instants are milliseconds of
  the years 0 to 9999, where the order of their texts is the order of time.
\<close>

definition control_plane_schema_version :: int where "control_plane_schema_version = 8"
definition control_plane_registry_version :: int where "control_plane_registry_version = 18"

subsection \<open>Identities\<close>

definition github_number :: "string \<Rightarrow> bool" where
  "github_number s \<longleftrightarrow> positive_numeral s \<and> length s \<le> 20"

definition github_repository_prefix :: string where "github_repository_prefix = ''github.com:''"
definition github_installation_prefix :: string where
  "github_installation_prefix = ''github.com:installation:''"

definition after_prefix :: "string \<Rightarrow> (string \<Rightarrow> bool) \<Rightarrow> string \<Rightarrow> bool" where
  "after_prefix p test s = (case strip_prefix p s of None \<Rightarrow> False | Some rest \<Rightarrow> test rest)"

definition is_github_repository_id :: "string \<Rightarrow> bool" where
  "is_github_repository_id = after_prefix github_repository_prefix github_number"

definition is_github_installation_id :: "string \<Rightarrow> bool" where
  "is_github_installation_id = after_prefix github_installation_prefix github_number"

definition is_github_user_id :: "string \<Rightarrow> bool" where
  "is_github_user_id = after_prefix ''github.com:user:'' github_number"

definition is_github_app_hook_id :: "string \<Rightarrow> bool" where
  "is_github_app_hook_id value =
     (case split_char CHR '':'' value of
        [host, app, n, hook] \<Rightarrow>
          host = ''github.com'' \<and> app = ''app'' \<and> github_number n \<and> hook = ''hook''
      | _ \<Rightarrow> False)"

definition is_github_part_id :: "string \<Rightarrow> string \<Rightarrow> bool" where
  "is_github_part_id part value =
     (case split_char CHR '':'' value of
        [host, repository, p, n] \<Rightarrow>
          host = ''github.com'' \<and> github_number repository \<and> p = part \<and> github_number n
      | _ \<Rightarrow> False)"

definition is_github_delivery_guid :: "string \<Rightarrow> bool" where
  "is_github_delivery_guid value =
     (case split_char CHR ''-'' value of
        [a, b, c, d, e] \<Rightarrow>
          length a = 8 \<and> length b = 4 \<and> length c = 4 \<and> length d = 4 \<and> length e = 12 \<and>
          list_all is_hex_lower (a @ b @ c @ d @ e)
      | _ \<Rightarrow> False)"

definition is_git_commit_id :: "string \<Rightarrow> bool" where
  "is_git_commit_id = after_prefix ''sha1:'' commit_sha"

definition is_sha256 :: "string \<Rightarrow> bool" where
  "is_sha256 s = sha256_digest s"

text \<open>\<open>/^[A-Za-z0-9](?:[A-Za-z0-9-]{0,38})$/\<close> and \<open>/^[A-Za-z0-9._-]{1,100}$/\<close>.\<close>

definition is_owner_name :: "string \<Rightarrow> bool" where
  "is_owner_name s \<longleftrightarrow>
     s \<noteq> [] \<and> length s \<le> 39 \<and> is_alnum (hd s) \<and> list_all (\<lambda>c. is_alnum c \<or> c = CHR ''-'') s"

definition is_repository_name :: "string \<Rightarrow> bool" where
  "is_repository_name s \<longleftrightarrow>
     s \<noteq> [] \<and> length s \<le> 100 \<and> list_all (\<lambda>c. is_alnum c \<or> c \<in> set ''._-'') s"

definition is_branch_name :: "string \<Rightarrow> bool" where
  "is_branch_name s \<longleftrightarrow>
     s \<noteq> [] \<and> length s \<le> 255 \<and> is_alnum (hd s) \<and>
     list_all (\<lambda>c. is_alnum c \<or> c \<in> set ''._/-'') s \<and>
     \<not> sublist ''..'' s \<and> \<not> sublist ''//'' s \<and> \<not> sublist [CHR ''@'', CHR ''{''] s \<and>
     \<not> suffix ''.'' s \<and> \<not> suffix ''/'' s \<and> \<not> suffix ''.lock'' s"

definition is_canonical_core_ref :: "string \<Rightarrow> bool" where
  "is_canonical_core_ref s \<longleftrightarrow>
     after_prefix ''refs/heads/''
       (\<lambda>b. b \<noteq> [] \<and> list_all (\<lambda>c. is_alnum c \<or> c \<in> set ''._/-'') b) s \<and>
     \<not> sublist ''..'' s \<and> \<not> sublist ''//'' s \<and> \<not> sublist [CHR ''@'', CHR ''{''] s \<and>
     \<not> suffix ''/'' s \<and> \<not> suffix ''.'' s"

text \<open>\<open>Buffer.byteLength (value, "utf8")\<close> for the code units of the model.\<close>

definition utf8_length :: "string \<Rightarrow> nat" where
  "utf8_length s = sum_list (map (\<lambda>c. if code_unit c < 128 then 1 else 2) s)"

definition is_bounded_diagnostic :: "string \<Rightarrow> bool" where
  "is_bounded_diagnostic s \<longleftrightarrow>
     1 \<le> utf8_length s \<and> utf8_length s \<le> 512 \<and>
     list_all (\<lambda>c. (32 \<le> code_unit c \<or> code_unit c = 9) \<and> code_unit c \<noteq> 127) s"

text \<open>\<open>/[\u0000-\u001f\u007f]/\<close>.\<close>

definition has_control :: "string \<Rightarrow> bool" where
  "has_control s \<longleftrightarrow> list_ex (\<lambda>c. code_unit c < 32 \<or> code_unit c = 127) s"

definition is_non_negative_integer :: "jsnum \<Rightarrow> bool" where
  "is_non_negative_integer n \<longleftrightarrow> is_safe_integer n \<and> 0 \<le> js_int n"

definition is_positive_integer :: "jsnum \<Rightarrow> bool" where
  "is_positive_integer n \<longleftrightarrow> is_safe_integer n \<and> 0 < js_int n"

definition is_closed_unique_array :: "string list \<Rightarrow> nat \<Rightarrow> string list \<Rightarrow> bool" where
  "is_closed_unique_array allowed maximum value \<longleftrightarrow>
     length value \<le> maximum \<and> list_all (\<lambda>e. e \<in> set allowed) value \<and> distinct value"

definition canonical_string_array :: "string list \<Rightarrow> string list" where
  "canonical_string_array value = sort value"

subsection \<open>Subjects, revisions and sources\<close>

datatype registry_error =
    UnknownSubjectKind string
  | InvalidSubject string string
  | RevisionNotAllowed string string
  | UnknownRevisionKind string
  | InvalidRevision string string
  | UnknownInformationClass string
  | InvalidSource string
  | SourceRevisionNotAllowed string string

definition subject_kind_registry :: "(string \<times> (string \<Rightarrow> bool) \<times> string list) list" where
  "subject_kind_registry =
     [(''control-plane-database'', is_uuid_v7, [''sha256'', ''transaction-sequence'']),
      (''operator-principal'', is_uuid_v7, [''sha256'']),
      (''core-snapshot'', is_uuid_v7, [''core-catalog-sha256'']),
      (''github-repository'', is_github_repository_id,
        [''core-declaration-sha256'', ''github-metadata-sha256'', ''git-commit-sha1'',
         ''repository-surfaces-sha256'', ''github-rules-sha256'', ''github-branch-transition-sha256'',
         ''github-source-checkpoint-sha256'', ''github-source-gap-sha256'',
         ''github-installation-reconciliation-sha256'']),
      (''github-app-hook'', is_github_app_hook_id,
        [''github-webhook-body-sha256'', ''github-delivery-audit-sha256'']),
      (''github-pull-request'', is_github_part_id ''pull'', [''github-pull-request-sha256'']),
      (''github-check-run'', is_github_part_id ''check-run'', [''github-check-run-sha256'']),
      (''github-commit-status'', is_github_part_id ''commit-status'',
        [''github-commit-status-sha256''])]"

definition revision_kind_registry :: "(string \<times> (string \<Rightarrow> bool)) list" where
  "revision_kind_registry =
     [(''sha256'', is_sha256),
      (''transaction-sequence'', \<lambda>s. positive_numeral s \<and> number_of s \<le> max_safe_integer),
      (''core-catalog-sha256'', is_sha256), (''git-commit-sha1'', is_git_commit_id),
      (''core-declaration-sha256'', is_sha256), (''github-metadata-sha256'', is_sha256),
      (''repository-surfaces-sha256'', is_sha256), (''github-webhook-body-sha256'', is_sha256),
      (''github-delivery-audit-sha256'', is_sha256), (''github-rules-sha256'', is_sha256),
      (''github-pull-request-sha256'', is_sha256), (''github-branch-transition-sha256'', is_sha256),
      (''github-check-run-sha256'', is_sha256), (''github-commit-status-sha256'', is_sha256),
      (''github-source-checkpoint-sha256'', is_sha256), (''github-source-gap-sha256'', is_sha256),
      (''github-installation-response-sha256'', is_sha256),
      (''github-installation-reconciliation-sha256'', is_sha256)]"

definition source_kind_registry :: "(string \<times> (string \<Rightarrow> bool) \<times> string list) list" where
  "source_kind_registry =
     [(''fluent-system'', \<lambda>s. s = ''kernel'' \<or> s = ''github-observer'', []),
      (''github-repository'', is_github_repository_id, [''git-commit-sha1'']),
      (''github-api'', \<lambda>s. s = ''api.github.com'',
        [''github-metadata-sha256'', ''git-commit-sha1'', ''github-delivery-audit-sha256'',
         ''github-rules-sha256'', ''github-pull-request-sha256'', ''github-branch-transition-sha256'',
         ''github-check-run-sha256'', ''github-commit-status-sha256'',
         ''github-installation-response-sha256'']),
      (''github-app-webhook'', is_github_app_hook_id, [''github-webhook-body-sha256'']),
      (''operator-principal'', is_uuid_v7, [])]"

definition assert_subject :: "string \<Rightarrow> string \<Rightarrow> registry_error + unit" where
  "assert_subject kind id' =
     (case map_of subject_kind_registry kind of
        None \<Rightarrow> Inl (UnknownSubjectKind kind)
      | Some (validate, _) \<Rightarrow> require (validate id') (InvalidSubject kind id'))"

text \<open>The kind of subject is one of the registry (\<open>SubjectKind\<close>); of another the code reads a field
  of \<open>undefined\<close> and throws, which the model reports as an unknown subject.\<close>

definition assert_revision :: "string \<Rightarrow> string \<Rightarrow> string \<Rightarrow> registry_error + unit" where
  "assert_revision kind value subject_kind =
     (case map_of subject_kind_registry subject_kind of
        None \<Rightarrow> Inl (UnknownSubjectKind subject_kind)
      | Some (_, kinds) \<Rightarrow>
          if kind \<notin> set kinds then Inl (RevisionNotAllowed kind subject_kind)
          else (case map_of revision_kind_registry kind of
                  None \<Rightarrow> Inl (UnknownRevisionKind kind)
                | Some validate \<Rightarrow> require (validate value) (InvalidRevision kind value)))"

definition information_classes :: "string list" where
  "information_classes = [''public'', ''organization'', ''restricted'']"

definition assert_information_class :: "string \<Rightarrow> registry_error + unit" where
  "assert_information_class value =
     require (value \<in> set information_classes) (UnknownInformationClass value)"

definition assert_source :: "string \<Rightarrow> string \<Rightarrow> string option \<Rightarrow> registry_error + unit" where
  "assert_source kind id' revision_kind =
     (case map_of source_kind_registry kind of
        None \<Rightarrow> Inl (InvalidSource kind)
      | Some (validate, kinds) \<Rightarrow>
          and_then (require (validate id') (InvalidSource kind)) (\<lambda>_.
          case revision_kind of
            None \<Rightarrow> Inr ()
          | Some k \<Rightarrow> require (k \<in> set kinds) (SourceRevisionNotAllowed k kind)))"

definition assert_source_revision :: "string \<Rightarrow> string \<Rightarrow> registry_error + unit" where
  "assert_source_revision kind value =
     (case map_of revision_kind_registry kind of
        None \<Rightarrow> Inl (UnknownRevisionKind kind)
      | Some validate \<Rightarrow> require (validate value) (InvalidRevision kind value))"

text \<open>\<open>indexOf\<close>, with -1 for a class that is not there.\<close>

definition class_index :: "string \<Rightarrow> int" where
  "class_index c = (case find_index (\<lambda>d. d = c) information_classes of None \<Rightarrow> -1 | Some i \<Rightarrow> int i)"

definition information_class_at_least :: "string \<Rightarrow> string \<Rightarrow> bool" where
  "information_class_at_least actual minimum \<longleftrightarrow> class_index minimum \<le> class_index actual"

section \<open>Payloads\<close>

text \<open>
  The payloads of the control plane and the contract of each (\<open>is...Payload\<close> of
  \<open>src/src/control/registry.ts\<close>).
\<close>

definition distinct_three :: "string \<Rightarrow> string \<Rightarrow> string \<Rightarrow> bool" where
  "distinct_three a b c \<longleftrightarrow> distinct [a, b, c]"

subsection \<open>Checks of Core\<close>

record rejection_payload =
  rj_check_id :: string
  rj_operation :: string
  rj_stage :: string
  rj_code :: string
  rj_summary :: string
  rj_details :: "string list"
  rj_source_url :: string
  rj_source_ref :: string
  rj_commit_id :: "string option"
  rj_tree_id :: "string option"
  rj_catalog_digest :: "string option"
  rj_active_commit_id :: "string option"
  rj_observed_at :: timestamp

definition https_core_url :: string where
  "https_core_url = ''https://github.com/frostyard/core.git''"
definition scp_core_url :: string where
  "scp_core_url = ''git@github.com:frostyard/core.git''"
definition ssh_colon_core_url :: string where
  "ssh_colon_core_url = ''ssh://git@github.com:frostyard/core.git''"
definition ssh_slash_core_url :: string where
  "ssh_slash_core_url = ''ssh://git@github.com/frostyard/core.git''"

definition rejection_source_url :: "string \<Rightarrow> bool" where
  "rejection_source_url url \<longleftrightarrow> url \<in> {https_core_url, scp_core_url, ssh_colon_core_url}"

definition given_valid :: "('a \<Rightarrow> bool) \<Rightarrow> 'a option \<Rightarrow> bool" where
  "given_valid test v = (case v of None \<Rightarrow> True | Some x \<Rightarrow> test x)"

definition is_rejection_payload :: "rejection_payload \<Rightarrow> bool" where
  "is_rejection_payload value \<longleftrightarrow>
     is_uuid_v7 (rj_check_id value) \<and>
     rj_operation value \<in> {''automatic-source-check'', ''operator-rollback''} \<and>
     rj_stage value \<in> {''source'', ''validation'', ''continuity'', ''persistence''} \<and>
     rj_code value \<in> {''source-unavailable'', ''candidate-invalid'', ''candidate-not-descendant'',
       ''continuity-unverifiable'', ''persistence-failed''} \<and>
     is_bounded_diagnostic (rj_summary value) \<and>
     length (rj_details value) \<le> 8 \<and> list_all is_bounded_diagnostic (rj_details value) \<and>
     rejection_source_url (rj_source_url value) \<and> is_canonical_core_ref (rj_source_ref value) \<and>
     given_valid commit_sha (rj_commit_id value) \<and> given_valid commit_sha (rj_tree_id value) \<and>
     given_valid is_sha256 (rj_catalog_digest value) \<and>
     given_valid commit_sha (rj_active_commit_id value) \<and>
     (if rj_stage value = ''source''
      then rj_code value = ''source-unavailable'' \<and> rj_catalog_digest value = None
      else if rj_commit_id value = None then False
      else if rj_stage value = ''validation''
      then rj_code value = ''candidate-invalid'' \<and> rj_catalog_digest value = None
      else if rj_tree_id value = None \<or> rj_catalog_digest value = None then False
      else if rj_stage value = ''continuity''
      then rj_active_commit_id value \<noteq> None \<and>
        rj_code value \<in> {''candidate-not-descendant'', ''continuity-unverifiable''}
      else rj_code value = ''persistence-failed'')"

record eligible_payload =
  el_check_id :: string
  el_source_url :: string
  el_source_ref :: string
  el_commit_id :: string
  el_tree_id :: string
  el_catalog_digest :: string
  el_active_snapshot_id :: string
  el_active_commit_id :: string
  el_checked_at :: timestamp

definition eligible_source_url :: "string \<Rightarrow> bool" where
  "eligible_source_url url \<longleftrightarrow> url \<in> {https_core_url, scp_core_url, ssh_slash_core_url}"

definition is_eligible_payload :: "eligible_payload \<Rightarrow> bool" where
  "is_eligible_payload value \<longleftrightarrow>
     is_uuid_v7 (el_check_id value) \<and> eligible_source_url (el_source_url value) \<and>
     is_canonical_core_ref (el_source_ref value) \<and> commit_sha (el_commit_id value) \<and>
     commit_sha (el_tree_id value) \<and> is_sha256 (el_catalog_digest value) \<and>
     is_uuid_v7 (el_active_snapshot_id value) \<and> el_active_commit_id value = el_commit_id value"

record override_payload =
  ov_decision_id :: string
  ov_database_lineage_id :: string
  ov_operator_principal_id :: string
  ov_active_snapshot_id :: string
  ov_latest_check_id :: string
  ov_last_validated_at :: timestamp
  ov_stale_at :: timestamp
  ov_expected_sequence :: jsnum
  ov_reason :: string
  ov_decided_at :: timestamp
  ov_expires_at :: timestamp

definition one_day :: int where "one_day = 86400000"

definition is_override_payload :: "override_payload \<Rightarrow> bool" where
  "is_override_payload value \<longleftrightarrow>
     is_uuid_v7 (ov_decision_id value) \<and> is_uuid_v7 (ov_database_lineage_id value) \<and>
     is_uuid_v7 (ov_operator_principal_id value) \<and> is_uuid_v7 (ov_active_snapshot_id value) \<and>
     is_uuid_v7 (ov_latest_check_id value) \<and> is_positive_integer (ov_expected_sequence value) \<and>
     is_bounded_diagnostic (ov_reason value) \<and>
     ov_stale_at value = ov_last_validated_at value + one_day \<and>
     ov_stale_at value \<le> ov_decided_at value \<and> ov_decided_at value < ov_expires_at value \<and>
     ov_expires_at value \<le> ov_decided_at value + one_day"

subsection \<open>Repositories\<close>

datatype accountable_owner = GithubUser string | GithubTeam string

definition is_team_slug :: "string \<Rightarrow> bool" where
  "is_team_slug s \<longleftrightarrow>
     s \<noteq> [] \<and> length s \<le> 100 \<and> (is_lower_char (hd s) \<or> is_digit_char (hd s)) \<and>
     list_all (\<lambda>c. is_lower_char c \<or> is_digit_char c \<or> c = CHR ''-'') s"

fun is_accountable_owner :: "accountable_owner \<Rightarrow> bool" where
  "is_accountable_owner (GithubUser login) = is_owner_name login"
| "is_accountable_owner (GithubTeam slug) = is_team_slug slug"

fun owner_identity :: "accountable_owner \<Rightarrow> string" where
  "owner_identity (GithubUser login) = ''github-user:'' @ to_lower login"
| "owner_identity (GithubTeam slug) = ''github-team:'' @ slug"

definition is_repository_owners :: "accountable_owner list \<Rightarrow> bool" where
  "is_repository_owners value \<longleftrightarrow>
     1 \<le> length value \<and> length value \<le> 20 \<and> list_all is_accountable_owner value \<and>
     distinct (map owner_identity value)"

definition fleet_states :: "string list" where
  "fleet_states = [''enabled'', ''paused'', ''disabled'']"

definition maintenance_program_names :: "string list" where
  "maintenance_program_names =
     [''quality'', ''ci'', ''security'', ''architecture'', ''conformance'', ''triage'',
      ''dependencies'', ''docs'', ''release'']"

definition repository_actions :: "string list" where
  "repository_actions =
     [''read'', ''write'', ''run-tests'', ''open-issue'', ''open-pr'', ''create-followup'']"

record authority_payload =
  ra_repository_id :: string
  ra_core_snapshot_id :: string
  ra_declaration_record_id :: string
  ra_core_authorization_record_id :: string
  ra_event_record_id :: string
  ra_source_commit_id :: string
  ra_declaration_path :: string
  ra_declaration_digest :: string
  ra_owner :: string
  ra_name :: string
  ra_accountable_owners :: "accountable_owner list"
  ra_fleet_state :: string
  ra_maintenance_programs :: "string list"
  ra_action_ceiling :: "string list"
  ra_surface_contract_version :: int
  ra_authorized_at :: timestamp

definition declaration_path_of :: "string \<Rightarrow> string \<Rightarrow> string" where
  "declaration_path_of owner name =
     ''organization/repositories/'' @ owner @ ''/'' @ name @ ''.json''"

definition is_authority_payload :: "authority_payload \<Rightarrow> bool" where
  "is_authority_payload value \<longleftrightarrow>
     is_github_repository_id (ra_repository_id value) \<and> is_uuid_v7 (ra_core_snapshot_id value) \<and>
     is_uuid_v7 (ra_declaration_record_id value) \<and>
     is_uuid_v7 (ra_core_authorization_record_id value) \<and> is_uuid_v7 (ra_event_record_id value) \<and>
     commit_sha (ra_source_commit_id value) \<and> is_owner_name (ra_owner value) \<and>
     is_repository_name (ra_name value) \<and>
     ra_declaration_path value = declaration_path_of (ra_owner value) (ra_name value) \<and>
     is_sha256 (ra_declaration_digest value) \<and> ra_fleet_state value \<in> set fleet_states \<and>
     ra_surface_contract_version value = 1 \<and> is_repository_owners (ra_accountable_owners value) \<and>
     is_closed_unique_array maintenance_program_names (length maintenance_program_names)
       (ra_maintenance_programs value) \<and>
     is_closed_unique_array repository_actions 6 (ra_action_ceiling value) \<and>
     \<not> (ra_fleet_state value = ''enabled'' \<and>
        (ra_maintenance_programs value = [] \<or> ra_action_ceiling value = []))"

record identity_payload =
  gi_repository_id :: string
  gi_core_snapshot_id :: string
  gi_core_authorization_record_id :: string
  gi_observation_record_id :: string
  gi_reconciliation_record_id :: string
  gi_event_record_id :: string
  gi_declared_owner :: string
  gi_declared_name :: string
  gi_declared_repository_id :: string
  gi_fleet_state :: string
  gi_observed_owner :: "string option"
  gi_observed_name :: "string option"
  gi_observed_repository_id :: "string option"
  gi_archived :: "bool option"
  gi_observed_default_branch :: "string option"
  gi_result :: string
  gi_effective_state :: string
  gi_checked_at :: timestamp
  gi_response_digest :: string

definition identity_results :: "string list" where
  "identity_results =
     [''matched'', ''missing'', ''locator-mismatch'', ''identity-mismatch'', ''archived'',
      ''unavailable'']"

definition identity_state_of :: "string \<Rightarrow> string \<Rightarrow> string" where
  "identity_state_of fleet_state result =
     (if fleet_state = ''disabled'' then ''disabled''
      else if fleet_state = ''paused'' then ''paused''
      else if result = ''matched'' then ''awaiting-surfaces''
      else ''github-held'')"

definition expected_identity_result :: "identity_payload \<Rightarrow> string option" where
  "expected_identity_result value =
     (case (gi_observed_owner value, gi_observed_name value, gi_observed_repository_id value,
            gi_archived value, gi_observed_default_branch value) of
        (Some owner, Some name, Some id', Some archived, Some branch) \<Rightarrow>
          if \<not> (is_owner_name owner \<and> is_repository_name name \<and> github_number id' \<and>
                 is_branch_name branch)
          then None
          else Some
            (if id' \<noteq> gi_declared_repository_id value then ''identity-mismatch''
             else if to_lower owner \<noteq> to_lower (gi_declared_owner value) \<or>
                     to_lower name \<noteq> to_lower (gi_declared_name value) then ''locator-mismatch''
             else if archived then ''archived'' else ''matched'')
      | _ \<Rightarrow> None)"

definition is_identity_payload :: "identity_payload \<Rightarrow> bool" where
  "is_identity_payload value \<longleftrightarrow>
     is_github_repository_id (gi_repository_id value) \<and> is_uuid_v7 (gi_core_snapshot_id value) \<and>
     is_uuid_v7 (gi_core_authorization_record_id value) \<and>
     is_uuid_v7 (gi_observation_record_id value) \<and>
     is_uuid_v7 (gi_reconciliation_record_id value) \<and> is_uuid_v7 (gi_event_record_id value) \<and>
     is_owner_name (gi_declared_owner value) \<and> is_repository_name (gi_declared_name value) \<and>
     github_number (gi_declared_repository_id value) \<and>
     gi_repository_id value = github_repository_prefix @ gi_declared_repository_id value \<and>
     gi_fleet_state value \<in> set fleet_states \<and> is_sha256 (gi_response_digest value) \<and>
     gi_result value \<in> set identity_results \<and>
     (if gi_result value \<in> {''missing'', ''unavailable''}
      then gi_observed_owner value = None \<and> gi_observed_name value = None \<and>
        gi_observed_repository_id value = None \<and> gi_archived value = None \<and>
        gi_observed_default_branch value = None
      else expected_identity_result value = Some (gi_result value)) \<and>
     gi_effective_state value = identity_state_of (gi_fleet_state value) (gi_result value)"


definition surface_ids :: "string list" where
  "surface_ids = [''agent-instructions'', ''agent-governance'', ''agent-skills'', ''documentation-index'']"

definition requirement_id_of :: "string \<Rightarrow> string" where
  "requirement_id_of surface_id = ''canonical-surface:'' @ surface_id"

record surface_summary =
  su_surface_id :: string
  su_path :: string
  su_artifact_type :: string
  su_object_id :: string
  su_content_digest :: string
  su_size :: jsnum

definition surface_contracts :: "(string \<times> string \<times> string) list" where
  "surface_contracts =
     [(''agent-instructions'', ''AGENTS.md'', ''file''),
      (''agent-governance'', ''policies/agent-governance.json'', ''file''),
      (''agent-skills'', ''.agents/skills'', ''directory''),
      (''documentation-index'', ''docs/README.md'', ''file'')]"

definition is_surface_summary :: "surface_summary \<Rightarrow> bool" where
  "is_surface_summary value \<longleftrightarrow>
     su_artifact_type value \<in> {''file'', ''directory''} \<and> commit_sha (su_object_id value) \<and>
     is_sha256 (su_content_digest value) \<and> is_non_negative_integer (su_size value) \<and>
     map_of surface_contracts (su_surface_id value) = Some (su_path value, su_artifact_type value)"

record requirement_result =
  rq_requirement_id :: string
  rq_surface_id :: string
  rq_result :: string
  rq_evidence_digest :: "string option"

definition is_requirement_result :: "requirement_result \<Rightarrow> bool" where
  "is_requirement_result value \<longleftrightarrow>
     rq_result value \<in> {''pass'', ''fail'', ''unknown''} \<and>
     given_valid is_sha256 (rq_evidence_digest value) \<and> rq_surface_id value \<in> set surface_ids \<and>
     rq_requirement_id value = requirement_id_of (rq_surface_id value)"

record surfaces_payload =
  sp_repository_id :: string
  sp_core_snapshot_id :: string
  sp_core_authorization_record_id :: string
  sp_github_reconciliation_record_id :: string
  sp_observation_record_id :: string
  sp_policy_decision_record_id :: string
  sp_reconciliation_record_id :: string
  sp_event_record_id :: string
  sp_default_branch :: "string option"
  sp_repository_commit_id :: "string option"
  sp_repository_tree_id :: "string option"
  sp_surface_contract_version :: int
  sp_governance_schema_version :: int
  sp_surface_contract_digest :: string
  sp_governance_schema_digest :: string
  sp_surfaces :: "surface_summary list"
  sp_governance_policy :: "json option"
  sp_decision :: string
  sp_requirement_results :: "requirement_result list"
  sp_result :: string
  sp_failed_surface_id :: "string option"
  sp_checked_at :: timestamp
  sp_probe_digest :: string

definition surface_results :: "string list" where
  "surface_results =
     [''valid'', ''unavailable'', ''missing'', ''wrong-type'', ''invalid'', ''digest-incompatible'']"

text \<open>\<open>every\<close> with the index.\<close>

definition every_indexed :: "(nat \<Rightarrow> 'a \<Rightarrow> bool) \<Rightarrow> 'a list \<Rightarrow> bool" where
  "every_indexed p xs = list_all (\<lambda>i. p i (xs ! i)) [0..<length xs]"

text \<open>\<open>surfaces[index]?.contentDigest\<close>: \<open>undefined\<close> out of range, which no evidence digest is.\<close>

definition digest_at :: "surface_summary list \<Rightarrow> nat \<Rightarrow> string option \<Rightarrow> bool" where
  "digest_at surfaces i evidence \<longleftrightarrow>
     i < length surfaces \<and> evidence = Some (su_content_digest (surfaces ! i))"

definition failed_requirement :: "surfaces_payload \<Rightarrow> nat \<Rightarrow> nat \<Rightarrow> requirement_result \<Rightarrow> bool" where
  "failed_requirement value failed i r =
     (if i < failed
      then rq_result r = ''pass'' \<and> digest_at (sp_surfaces value) i (rq_evidence_digest r)
      else if i = failed
      then rq_result r = ''fail'' \<and>
        (if sp_result value = ''invalid'' then digest_at (sp_surfaces value) i (rq_evidence_digest r)
         else rq_evidence_digest r = None)
      else rq_result r = ''unknown'' \<and> rq_evidence_digest r = None)"

definition surfaces_verdict :: "surfaces_payload \<Rightarrow> bool" where
  "surfaces_verdict value =
     (if sp_result value \<in> {''unavailable'', ''digest-incompatible''}
      then sp_default_branch value = None \<and> sp_repository_commit_id value = None \<and>
        sp_repository_tree_id value = None \<and> sp_surfaces value = [] \<and>
        sp_governance_policy value = None \<and> sp_failed_surface_id value = None \<and>
        sp_decision value = ''deny'' \<and>
        list_all (\<lambda>r. rq_result r = ''unknown'' \<and> rq_evidence_digest r = None)
          (sp_requirement_results value)
      else
        (case (sp_default_branch value, sp_repository_commit_id value, sp_repository_tree_id value) of
           (Some branch, Some commit, Some tree) \<Rightarrow>
             is_branch_name branch \<and> commit_sha commit \<and> commit_sha tree
         | _ \<Rightarrow> False) \<and>
        distinct (map su_surface_id (sp_surfaces value)) \<and>
        every_indexed (\<lambda>i s. i < length surface_ids \<and> su_surface_id s = surface_ids ! i)
          (sp_surfaces value) \<and>
        (if sp_result value = ''valid''
         then length (sp_surfaces value) = 4 \<and>
           (case sp_governance_policy value of None \<Rightarrow> False | Some p \<Rightarrow> is_object p) \<and>
           sp_failed_surface_id value = None \<and> sp_decision value = ''permit'' \<and>
           every_indexed
             (\<lambda>i r. rq_result r = ''pass'' \<and> digest_at (sp_surfaces value) i (rq_evidence_digest r))
             (sp_requirement_results value)
         else
           (case sp_failed_surface_id value of
              None \<Rightarrow> False
            | Some failed_id \<Rightarrow>
                (case find_index (\<lambda>i. i = failed_id) surface_ids of
                   None \<Rightarrow> False
                 | Some failed \<Rightarrow>
                     length (sp_surfaces value) =
                       failed + (if sp_result value = ''invalid'' then 1 else 0) \<and>
                     sp_governance_policy value = None \<and> sp_decision value = ''deny'' \<and>
                     every_indexed (failed_requirement value failed)
                       (sp_requirement_results value)))))"

definition is_surfaces_payload :: "surfaces_payload \<Rightarrow> bool" where
  "is_surfaces_payload value \<longleftrightarrow>
     is_github_repository_id (sp_repository_id value) \<and> is_uuid_v7 (sp_core_snapshot_id value) \<and>
     is_uuid_v7 (sp_core_authorization_record_id value) \<and>
     is_uuid_v7 (sp_github_reconciliation_record_id value) \<and>
     is_uuid_v7 (sp_observation_record_id value) \<and>
     is_uuid_v7 (sp_policy_decision_record_id value) \<and>
     is_uuid_v7 (sp_reconciliation_record_id value) \<and> is_uuid_v7 (sp_event_record_id value) \<and>
     sp_surface_contract_version value = 1 \<and> sp_governance_schema_version value = 1 \<and>
     is_sha256 (sp_surface_contract_digest value) \<and>
     is_sha256 (sp_governance_schema_digest value) \<and> is_sha256 (sp_probe_digest value) \<and>
     sp_result value \<in> set surface_results \<and> length (sp_surfaces value) \<le> 4 \<and>
     list_all is_surface_summary (sp_surfaces value) \<and>
     sp_decision value \<in> {''permit'', ''deny''} \<and>
     length (sp_requirement_results value) = 4 \<and>
     list_all is_requirement_result (sp_requirement_results value) \<and>
     map rq_requirement_id (sp_requirement_results value) = map requirement_id_of surface_ids \<and>
     surfaces_verdict value"

record enrollment_payload =
  en_repository_id :: string
  en_core_snapshot_id :: string
  en_core_authorization_record_id :: string
  en_github_reconciliation_record_id :: string
  en_surface_reconciliation_record_id :: string
  en_surface_policy_decision_record_id :: string
  en_controller_definition_record_id :: string
  en_enrollment_record_id :: string
  en_event_record_id :: string
  en_repository_commit_id :: string
  en_surface_contract_version :: int
  en_maintenance_programs :: "string list"
  en_action_ceiling :: "string list"
  en_enrolled_at :: timestamp

definition is_enrollment_payload :: "enrollment_payload \<Rightarrow> bool" where
  "is_enrollment_payload value \<longleftrightarrow>
     is_github_repository_id (en_repository_id value) \<and> is_uuid_v7 (en_core_snapshot_id value) \<and>
     is_uuid_v7 (en_core_authorization_record_id value) \<and>
     is_uuid_v7 (en_github_reconciliation_record_id value) \<and>
     is_uuid_v7 (en_surface_reconciliation_record_id value) \<and>
     is_uuid_v7 (en_surface_policy_decision_record_id value) \<and>
     is_uuid_v7 (en_controller_definition_record_id value) \<and>
     is_uuid_v7 (en_enrollment_record_id value) \<and> is_uuid_v7 (en_event_record_id value) \<and>
     commit_sha (en_repository_commit_id value) \<and> en_surface_contract_version value = 1 \<and>
     is_closed_unique_array maintenance_program_names (length maintenance_program_names)
       (en_maintenance_programs value) \<and> en_maintenance_programs value \<noteq> [] \<and>
     is_closed_unique_array repository_actions 6 (en_action_ceiling value) \<and>
     en_action_ceiling value \<noteq> []"

definition repository_hold_gates :: "string list" where
  "repository_hold_gates = [''discovery'', ''admission'', ''claim'', ''lease-renewal'']"

record hold_payload =
  ho_decision_record_id :: string
  ho_event_record_id :: string
  ho_choice :: string
  ho_repository_id :: string
  ho_core_snapshot_id :: string
  ho_core_authorization_record_id :: string
  ho_declaration_digest :: string
  ho_operator_principal_id :: string
  ho_hold_decision_id :: string
  ho_previous_decision_record_id :: "string option"
  ho_affected_gates :: "string list"
  ho_reason :: string
  ho_expected_sequence :: jsnum
  ho_decided_at :: timestamp

definition is_hold_payload :: "hold_payload \<Rightarrow> bool" where
  "is_hold_payload value \<longleftrightarrow>
     is_uuid_v7 (ho_decision_record_id value) \<and> is_uuid_v7 (ho_event_record_id value) \<and>
     ho_choice value \<in> {''impose'', ''clear''} \<and>
     is_github_repository_id (ho_repository_id value) \<and> is_uuid_v7 (ho_core_snapshot_id value) \<and>
     is_uuid_v7 (ho_core_authorization_record_id value) \<and>
     is_sha256 (ho_declaration_digest value) \<and> is_uuid_v7 (ho_operator_principal_id value) \<and>
     is_uuid_v7 (ho_hold_decision_id value) \<and>
     given_valid is_uuid_v7 (ho_previous_decision_record_id value) \<and>
     ho_affected_gates value = repository_hold_gates \<and> is_bounded_diagnostic (ho_reason value) \<and>
     trim (ho_reason value) = ho_reason value \<and> \<not> has_control (ho_reason value) \<and>
     is_positive_integer (ho_expected_sequence value) \<and>
     (if ho_choice value = ''impose''
      then ho_decision_record_id value = ho_hold_decision_id value \<and>
        ho_previous_decision_record_id value = None
      else ho_decision_record_id value \<noteq> ho_hold_decision_id value \<and>
        ho_previous_decision_record_id value = Some (ho_hold_decision_id value))"

subsection \<open>Coverage of the GitHub deliveries\<close>

definition github_source_scope :: string where
  "github_source_scope = ''github.pull-request-deliveries:v1''"

definition github_source_gap_causes :: "string list" where
  "github_source_gap_causes =
     [''delivery-audit-incomplete'', ''source-unavailable'', ''pagination-incomplete'',
      ''request-budget-exhausted'', ''unsupported-relevant-delivery'', ''normalization-failed'',
      ''recovery-horizon-expired'']"

definition github_pull_request_actions :: "string list" where
  "github_pull_request_actions =
     [''opened'', ''reopened'', ''synchronize'', ''edited'', ''ready_for_review'',
      ''converted_to_draft'', ''closed'']"

record checkpoint_payload =
  cp_repository_id :: string
  cp_app_id :: string
  cp_installation_id :: string
  cp_run_id :: string
  cp_previous_checkpoint_record_id :: "string option"
  cp_covered_from :: timestamp
  cp_covered_through :: timestamp
  cp_page_count :: jsnum
  cp_delivery_count :: jsnum
  cp_page_proof_digest :: string
  cp_selected_response_digest :: string
  cp_checkpoint_digest :: string
  cp_checkpoint_record_id :: string
  cp_recorded_at :: timestamp

definition is_checkpoint_payload :: "checkpoint_payload \<Rightarrow> bool" where
  "is_checkpoint_payload value \<longleftrightarrow>
     is_github_repository_id (cp_repository_id value) \<and> github_number (cp_app_id value) \<and>
     is_github_installation_id (cp_installation_id value) \<and> is_uuid_v7 (cp_run_id value) \<and>
     given_valid is_uuid_v7 (cp_previous_checkpoint_record_id value) \<and>
     is_positive_integer (cp_page_count value) \<and>
     is_non_negative_integer (cp_delivery_count value) \<and>
     is_sha256 (cp_page_proof_digest value) \<and> is_sha256 (cp_selected_response_digest value) \<and>
     is_sha256 (cp_checkpoint_digest value) \<and> is_uuid_v7 (cp_checkpoint_record_id value) \<and>
     cp_covered_from value \<le> cp_covered_through value"

definition gap_delivery_set :: "string \<Rightarrow> string \<Rightarrow> string list \<Rightarrow> bool" where
  "gap_delivery_set cause failure_kind value \<longleftrightarrow>
     length value \<le> 100 \<and> list_all is_github_delivery_guid value \<and> distinct value \<and>
     canonical_string_array value = value \<and>
     \<not> (cause = ''unsupported-relevant-delivery'' \<and> failure_kind \<noteq> ''delivery-content'') \<and>
     \<not> (cause \<in> {''delivery-audit-incomplete'', ''pagination-incomplete'',
           ''recovery-horizon-expired''} \<and> failure_kind \<noteq> ''interval-coverage'') \<and>
     (if failure_kind = ''delivery-content'' then value \<noteq> [] else value = [])"

record gap_payload =
  ga_repository_id :: string
  ga_app_id :: string
  ga_installation_id :: string
  ga_run_id :: string
  ga_checkpoint_record_id :: string
  ga_gap_id :: string
  ga_gap_record_id :: string
  ga_lower_bound_at :: timestamp
  ga_cause :: string
  ga_failure_kind :: string
  ga_affected_delivery_guids :: "string list"
  ga_gap_digest :: string
  ga_detected_at :: timestamp

definition is_gap_payload :: "gap_payload \<Rightarrow> bool" where
  "is_gap_payload value \<longleftrightarrow>
     is_github_repository_id (ga_repository_id value) \<and> github_number (ga_app_id value) \<and>
     is_github_installation_id (ga_installation_id value) \<and> is_uuid_v7 (ga_run_id value) \<and>
     is_uuid_v7 (ga_checkpoint_record_id value) \<and> is_uuid_v7 (ga_gap_id value) \<and>
     ga_gap_record_id value = ga_gap_id value \<and> ga_cause value \<in> set github_source_gap_causes \<and>
     ga_failure_kind value \<in> {''interval-coverage'', ''delivery-content''} \<and>
     gap_delivery_set (ga_cause value) (ga_failure_kind value) (ga_affected_delivery_guids value) \<and>
     is_sha256 (ga_gap_digest value) \<and> ga_lower_bound_at value \<le> ga_detected_at value"

record repair_payload =
  rp_repository_id :: string
  rp_app_id :: string
  rp_installation_id :: string
  rp_run_id :: string
  rp_gap_id :: string
  rp_gap_record_id :: string
  rp_prior_checkpoint_record_id :: string
  rp_checkpoint_record_id :: string
  rp_repair_record_id :: string
  rp_event_record_id :: string
  rp_lower_bound_at :: timestamp
  rp_exclusive_end_at :: timestamp
  rp_repair_method :: string
  rp_repair_audit_record_ids :: "string list"
  rp_repair_digest :: string
  rp_repaired_at :: timestamp

definition is_repair_payload :: "repair_payload \<Rightarrow> bool" where
  "is_repair_payload value \<longleftrightarrow>
     is_github_repository_id (rp_repository_id value) \<and> github_number (rp_app_id value) \<and>
     is_github_installation_id (rp_installation_id value) \<and> is_uuid_v7 (rp_run_id value) \<and>
     is_uuid_v7 (rp_gap_id value) \<and> rp_gap_record_id value = rp_gap_id value \<and>
     is_uuid_v7 (rp_prior_checkpoint_record_id value) \<and>
     is_uuid_v7 (rp_checkpoint_record_id value) \<and> is_uuid_v7 (rp_repair_record_id value) \<and>
     is_uuid_v7 (rp_event_record_id value) \<and>
     distinct_three (rp_checkpoint_record_id value) (rp_repair_record_id value)
       (rp_event_record_id value) \<and>
     rp_repair_method value \<in>
       {''complete-delivery-audit'', ''delivery-observations-and-complete-audit''} \<and>
     length (rp_repair_audit_record_ids value) \<le> 100 \<and>
     list_all is_uuid_v7 (rp_repair_audit_record_ids value) \<and>
     distinct (rp_repair_audit_record_ids value) \<and>
     canonical_string_array (rp_repair_audit_record_ids value) = rp_repair_audit_record_ids value \<and>
     is_sha256 (rp_repair_digest value) \<and>
     (if rp_repair_method value = ''complete-delivery-audit''
      then rp_repair_audit_record_ids value = [] else rp_repair_audit_record_ids value \<noteq> []) \<and>
     rp_lower_bound_at value < rp_exclusive_end_at value \<and>
     rp_exclusive_end_at value \<le> rp_repaired_at value"

record audit_payload =
  da_app_id :: string
  da_hook_subject_id :: string
  da_delivery_id :: string
  da_delivery_guid :: string
  da_delivered_at :: timestamp
  da_redelivery :: bool
  da_status_code :: jsnum
  da_action :: string
  da_installation_id :: string
  da_repository_id :: string
  da_response_digest :: string
  da_audit_record_id :: string
  da_observation_record_id :: string
  da_event_record_id :: string
  da_observed_at :: timestamp

definition is_audit_payload :: "audit_payload \<Rightarrow> bool" where
  "is_audit_payload value \<longleftrightarrow>
     github_number (da_app_id value) \<and>
     da_hook_subject_id value = ''github.com:app:'' @ da_app_id value @ '':hook'' \<and>
     github_number (da_delivery_id value) \<and> is_github_delivery_guid (da_delivery_guid value) \<and>
     is_non_negative_integer (da_status_code value) \<and> js_int (da_status_code value) \<le> 599 \<and>
     da_action value \<in> set github_pull_request_actions \<and>
     is_github_installation_id (da_installation_id value) \<and>
     is_github_repository_id (da_repository_id value) \<and> is_sha256 (da_response_digest value) \<and>
     is_uuid_v7 (da_audit_record_id value) \<and> is_uuid_v7 (da_observation_record_id value) \<and>
     is_uuid_v7 (da_event_record_id value) \<and>
     distinct_three (da_audit_record_id value) (da_observation_record_id value)
       (da_event_record_id value)"

record installation_payload =
  ip_repository_id :: string
  ip_app_id :: string
  ip_installation_id :: "string option"
  ip_access :: string
  ip_target_type :: "string option"
  ip_repository_selection :: "string option"
  ip_response_digest :: "string option"
  ip_source_observed_at :: timestamp
  ip_observation_record_id :: string
  ip_reconciliation_record_id :: string
  ip_event_record_id :: string
  ip_recorded_at :: timestamp

definition is_installation_payload :: "installation_payload \<Rightarrow> bool" where
  "is_installation_payload value \<longleftrightarrow>
     is_github_repository_id (ip_repository_id value) \<and> github_number (ip_app_id value) \<and>
     ip_access value \<in> {''active'', ''suspended'', ''permission-mismatch'', ''not-installed'',
       ''unavailable''} \<and>
     is_uuid_v7 (ip_observation_record_id value) \<and>
     is_uuid_v7 (ip_reconciliation_record_id value) \<and> is_uuid_v7 (ip_event_record_id value) \<and>
     distinct_three (ip_observation_record_id value) (ip_reconciliation_record_id value)
       (ip_event_record_id value) \<and>
     ip_source_observed_at value \<le> ip_recorded_at value \<and>
     (if ip_access value = ''unavailable''
      then ip_installation_id value = None \<and> ip_target_type value = None \<and>
        ip_repository_selection value = None \<and> ip_response_digest value = None
      else if ip_access value = ''not-installed''
      then ip_installation_id value = None \<and> ip_target_type value = None \<and>
        ip_repository_selection value = None \<and>
        (case ip_response_digest value of None \<Rightarrow> False | Some d \<Rightarrow> is_sha256 d)
      else (case (ip_installation_id value, ip_response_digest value) of
              (Some installation, Some d) \<Rightarrow> is_github_installation_id installation \<and> is_sha256 d
            | _ \<Rightarrow> False) \<and>
        ip_target_type value \<in> {Some ''Organization'', Some ''User''} \<and>
        ip_repository_selection value \<in> {Some ''all'', Some ''selected''})"

end
