(* ===== verification/Control_Store.thy ===== *)
theory Control_Store
  imports Control_Registry
begin

text \<open>
  The control-plane database and what every command does to it (\<open>ControlPlaneStore\<close> of
  \<open>src/src/control/store.ts\<close>): its tables, the constraints they carry, and the four writes in which
  each command ends: a transaction, its durable occurrences, the receipt that lets the command be
  repeated, and the metadata.

  A command runs between \<open>BEGIN IMMEDIATE\<close> and \<open>COMMIT\<close>, so it is a function of the store; what it
  throws is an \<open>Inl\<close>, with the store as it was (\<open>ROLLBACK\<close>). Before it starts, the code verifies the
  whole database again (\<open>verifyExisting\<close>); the model's stores are typed and the invariants below take
  the place of that check. All commands share one scope, \<open>database:\<close> with the lineage, which never
  changes. A row holds its payload and its result as values, not as texts of JSON; the fields that
  are the same in every row (schema version, information class and scope) are left out.
\<close>

subsection \<open>Tables\<close>

datatype control_payload =
    RejectionPayload rejection_payload
  | EligiblePayload eligible_payload
  | OverridePayload override_payload
  | AuthorityPayload authority_payload
  | IdentityPayload identity_payload
  | SurfacesPayload surfaces_payload
  | EnrollmentPayload enrollment_payload
  | HoldPayload hold_payload
  | CheckpointPayload checkpoint_payload
  | GapPayload gap_payload
  | RepairPayload repair_payload
  | AuditPayload audit_payload
  | InstallationPayload installation_payload
  | PlainPayload json

datatype occurrence_type = RecordOccurrence | EventOccurrence

record occurrence =
  oc_record_id :: string
  oc_type :: occurrence_type
  oc_kind :: string
  oc_record_class :: "string option"
  oc_subject_kind :: string
  oc_subject_id :: string
  oc_revision :: "(string \<times> string) option"
  oc_source_kind :: string
  oc_source_id :: string
  oc_source_revision :: "(string \<times> string) option"
  oc_payload :: control_payload
  oc_correlation_id :: string
  oc_causation_record_id :: "string option"
  oc_sequence :: int
  oc_position :: int
  oc_recorded_at :: timestamp

record control_transaction =
  ct_sequence :: int
  ct_transaction_id :: string
  ct_command_kind :: string
  ct_principal_kind :: string
  ct_principal_id :: string
  ct_idempotency_key :: "string option"
  ct_payload_digest :: string
  ct_recorded_at :: timestamp

text \<open>What a command answers, which its receipt keeps: the payload it wrote, the record of its event
  and its transaction (the code picks the answer's fields out of the payload).\<close>

record command_result =
  cr_payload :: control_payload
  cr_event_record_id :: string
  cr_sequence :: int

text \<open>A receipt that is retained for ever has no \<open>rc_retained_until\<close> (in the code, the last instant
  of the year 9999).\<close>

record receipt =
  rc_command_kind :: string
  rc_idempotency_key :: string
  rc_payload_digest :: string
  rc_result :: command_result
  rc_sequence :: int
  rc_retained_until :: "timestamp option"

record declared_repository =
  de_path :: string
  de_content_digest :: string
  de_owner :: string
  de_name :: string
  de_repository_id :: string
  de_accountable_owners :: "accountable_owner list"
  de_fleet_state :: string
  de_maintenance_programs :: "string list"
  de_action_ceiling :: "string list"
  de_surface_contract_version :: int

record core_profile =
  kp_path :: string
  kp_content_digest :: string
  kp_id :: string
  kp_version :: int

record core_goal =
  go_path :: string
  go_id :: string
  go_status :: string

record schema_digests =
  sg_repository :: string
  sg_surfaces :: string
  sg_governance :: string
  sg_verification_profile :: "string option"
  sg_envelope :: "string option"
  sg_goal :: "string option"
  sg_settings :: "string option"

text \<open>What the validation of Core's files reports (\<open>ValidatedCoreCatalog\<close>); the counts of repositories,
  profiles and goals are the lengths of their lists.\<close>

record catalog_report =
  kr_catalog_digest :: string
  kr_file_count :: int
  kr_total_bytes :: int
  kr_valid_fixture_count :: int
  kr_invalid_fixture_count :: int
  kr_schemas :: schema_digests
  kr_repositories :: "declared_repository list"
  kr_profiles :: "core_profile list"
  kr_goals :: "core_goal list"

text \<open>A retained snapshot, with the path and digest of each of its files and what validating them
  gives.\<close>

record core_snapshot =
  sn_snapshot_id :: string
  sn_source_url :: string
  sn_source_ref :: string
  sn_source_commit_id :: string
  sn_source_tree_id :: string
  sn_catalog_digest :: string
  sn_activated_sequence :: int
  sn_files :: "(string \<times> string) list"
  sn_report :: catalog_report

record active_snapshot =
  ac_snapshot_id :: string
  ac_activated_at :: timestamp
  ac_transaction_sequence :: int

record control_store =
  cs_lineage_id :: string
  cs_operator_principal_id :: string
  cs_watermark :: timestamp
  cs_last_sequence :: int
  cs_allocated :: int
  cs_transactions :: "control_transaction list"
  cs_subjects :: "(string \<times> string) list"
  cs_occurrences :: "occurrence list"
  cs_receipts :: "receipt list"
  cs_snapshots :: "core_snapshot list"
  cs_active :: "active_snapshot option"

datatype control_error =
    BadSequence
  | BadInput string
  | KeyReused
  | ClockMovedBack
  | StaleSequence int int
  | NotAllowed string
  | OutsideContract
  | ConstraintFailed string

text \<open>One run of a command: the reading of the clock, the identifiers it draws, and the standard
  library's digest (\<open>sha256\<close> of the canonical JSON) and text of an instant.\<close>

record control_env =
  ce_now :: timestamp
  ce_id :: "nat \<Rightarrow> string"
  ce_digest :: "json \<Rightarrow> string"
  ce_iso :: "timestamp \<Rightarrow> string"

subsection \<open>Checks that commands share\<close>

definition sn_repositories :: "core_snapshot \<Rightarrow> declared_repository list" where
  "sn_repositories n = kr_repositories (sn_report n)"

definition assert_expected_sequence :: "jsnum \<Rightarrow> control_error + unit" where
  "assert_expected_sequence value = require (is_safe_integer value \<and> 1 \<le> js_int value) BadSequence"

definition assert_command_time_and_sequence ::
    "control_store \<Rightarrow> timestamp \<Rightarrow> jsnum \<Rightarrow> control_error + unit"
where
  "assert_command_time_and_sequence s evaluation_time expected =
     and_then (require (cs_watermark s \<le> evaluation_time) ClockMovedBack) (\<lambda>_.
     require (cs_last_sequence s = js_int expected)
       (StaleSequence (js_int expected) (cs_last_sequence s)))"

definition assert_bounded_reason :: "string \<Rightarrow> control_error + unit" where
  "assert_bounded_reason value =
     require
       (1 \<le> utf8_length value \<and> utf8_length value \<le> 512 \<and> \<not> has_control value \<and> trim value = value)
       (BadInput ''reason'')"

definition command_receipt :: "control_store \<Rightarrow> string \<Rightarrow> string \<Rightarrow> receipt option" where
  "command_receipt s kind key =
     List.find (\<lambda>r. rc_command_kind r = kind \<and> rc_idempotency_key r = key) (cs_receipts s)"

text \<open>What a command does first: with a receipt under its key it answers what it answered then, if
  the command is the same, and refuses if it is another.\<close>

definition replay_or ::
    "control_store \<Rightarrow> string \<Rightarrow> string \<Rightarrow> string \<Rightarrow>
     (control_error + command_result \<times> control_store) \<Rightarrow> control_error + command_result \<times> control_store"
where
  "replay_or s kind key digest fresh =
     (case command_receipt s kind key of
        Some prior \<Rightarrow>
          if rc_payload_digest prior \<noteq> digest then Inl KeyReused else Inr (rc_result prior, s)
      | None \<Rightarrow> fresh)"

subsection \<open>Writing\<close>

definition record_ids :: "control_store \<Rightarrow> string set" where
  "record_ids s = set (map oc_record_id (cs_occurrences s))"

text \<open>\<open>AUTOINCREMENT\<close>: one more than any sequence ever allocated.\<close>

definition insert_transaction ::
    "string \<Rightarrow> string \<Rightarrow> string \<Rightarrow> string \<Rightarrow> string option \<Rightarrow> string \<Rightarrow> timestamp \<Rightarrow> control_store \<Rightarrow>
     control_error + control_store"
where
  "insert_transaction transaction_id kind principal_kind principal_id key digest recorded_at s =
     and_then
       (require (transaction_id \<notin> set (map ct_transaction_id (cs_transactions s)))
          (ConstraintFailed ''control_transactions'')) (\<lambda>_.
     let sequence = cs_allocated s + 1 in
     Inr (s\<lparr>cs_allocated := sequence,
       cs_transactions := cs_transactions s @
         [\<lparr>ct_sequence = sequence, ct_transaction_id = transaction_id, ct_command_kind = kind,
           ct_principal_kind = principal_kind, ct_principal_id = principal_id,
           ct_idempotency_key = key, ct_payload_digest = digest, ct_recorded_at = recorded_at\<rparr>]\<rparr>))"

definition occurrence_allowed :: "control_store \<Rightarrow> occurrence \<Rightarrow> bool" where
  "occurrence_allowed s oc \<longleftrightarrow>
     oc_record_id oc \<notin> record_ids s \<and>
     (oc_subject_kind oc, oc_subject_id oc) \<in> set (cs_subjects s) \<and>
     (case oc_causation_record_id oc of None \<Rightarrow> True | Some c \<Rightarrow> c \<in> insert (oc_record_id oc) (record_ids s)) \<and>
     oc_sequence oc \<in> set (map ct_sequence (cs_transactions s)) \<and> 0 \<le> oc_position oc \<and>
     (oc_sequence oc, oc_position oc) \<notin>
       set (map (\<lambda>o'. (oc_sequence o', oc_position o')) (cs_occurrences s)) \<and>
     (oc_type oc = RecordOccurrence \<longrightarrow> oc_record_class oc \<noteq> None)"

definition insert_occurrence :: "occurrence \<Rightarrow> control_store \<Rightarrow> control_error + control_store" where
  "insert_occurrence oc s =
     and_then (require (occurrence_allowed s oc) (ConstraintFailed ''durable_occurrences'')) (\<lambda>_.
     Inr (s\<lparr>cs_occurrences := cs_occurrences s @ [oc]\<rparr>))"

definition insert_receipt ::
    "string \<Rightarrow> string \<Rightarrow> string \<Rightarrow> command_result \<Rightarrow> int \<Rightarrow> timestamp option \<Rightarrow> control_store \<Rightarrow>
     control_error + control_store"
where
  "insert_receipt kind key digest result sequence retained_until s =
     and_then
       (require (command_receipt s kind key = None) (ConstraintFailed ''idempotency_receipts'')) (\<lambda>_.
     Inr (s\<lparr>cs_receipts := cs_receipts s @
       [\<lparr>rc_command_kind = kind, rc_idempotency_key = key, rc_payload_digest = digest,
         rc_result = result, rc_sequence = sequence, rc_retained_until = retained_until\<rparr>]\<rparr>))"

definition advance_control_metadata :: "timestamp \<Rightarrow> int \<Rightarrow> control_store \<Rightarrow> control_store" where
  "advance_control_metadata evaluation_time sequence s =
     s\<lparr>cs_watermark := evaluation_time, cs_last_sequence := sequence\<rparr>"

definition has_subject :: "control_store \<Rightarrow> string \<Rightarrow> string \<Rightarrow> bool" where
  "has_subject s kind id' \<longleftrightarrow> (kind, id') \<in> set (cs_subjects s)"

definition ensure_subject :: "string \<Rightarrow> string \<Rightarrow> control_store \<Rightarrow> control_store" where
  "ensure_subject kind id' s =
     (if has_subject s kind id' then s else s\<lparr>cs_subjects := cs_subjects s @ [(kind, id')]\<rparr>)"

text \<open>What a command writes: the header of its transaction, the subject it makes sure of, its
  occurrences in their positions, and the payload and event of its answer.\<close>

record command =
  cm_transaction_id :: string
  cm_kind :: string
  cm_principal_kind :: string
  cm_principal_id :: string
  cm_key :: string
  cm_digest :: string
  cm_at :: timestamp
  cm_new_subject :: "(string \<times> string) option"
  cm_occurrences :: "(int \<Rightarrow> int \<Rightarrow> occurrence) list"
  cm_payload :: control_payload
  cm_event_record_id :: string
  cm_retained_until :: "timestamp option"

definition placed :: "(int \<Rightarrow> int \<Rightarrow> occurrence) list \<Rightarrow> int \<Rightarrow> occurrence list" where
  "placed drafts sequence = map (\<lambda>i. (drafts ! i) sequence (int i)) [0..<length drafts]"

definition result_of :: "command \<Rightarrow> int \<Rightarrow> command_result" where
  "result_of c sequence =
     \<lparr>cr_payload = cm_payload c, cr_event_record_id = cm_event_record_id c, cr_sequence = sequence\<rparr>"

definition write_command :: "command \<Rightarrow> control_store \<Rightarrow> control_error + command_result \<times> control_store" where
  "write_command c s =
     and_then
       (insert_transaction (cm_transaction_id c) (cm_kind c) (cm_principal_kind c) (cm_principal_id c)
          (Some (cm_key c)) (cm_digest c) (cm_at c) s) (\<lambda>s1.
     let sequence = cs_allocated s1;
         s2 = (case cm_new_subject c of None \<Rightarrow> s1 | Some (k, i) \<Rightarrow> ensure_subject k i s1) in
     and_then (fold_res insert_occurrence (placed (cm_occurrences c) sequence) s2) (\<lambda>s3.
     and_then
       (insert_receipt (cm_kind c) (cm_key c) (cm_digest c) (result_of c sequence) sequence
          (cm_retained_until c) s3) (\<lambda>s4.
     Inr (result_of c sequence, advance_control_metadata (cm_at c) sequence s4))))"

end
