(* ===== verification/Authority_Context.thy ===== *)
theory Authority_Context
  imports Control_Store
begin

text \<open>
  The digest of the inputs that established one enrollment and what becomes of work that was held
  (\<open>src/src/repository/authority-context.ts\<close>), and the reading of a repository's state out of the
  durable records (\<open>repositoryStatuses\<close> and \<open>activeRepositoryOperatorHolds\<close> of
  \<open>src/src/control/store.ts\<close>).
\<close>

subsection \<open>The digest of an enrollment\<close>

definition text_json :: "string option \<Rightarrow> json" where
  "text_json v = (case v of None \<Rightarrow> JNull | Some t \<Rightarrow> JString t)"
definition texts_json :: "string list \<Rightarrow> json" where "texts_json ts = JArray (map JString ts)"
definition bool_json :: "bool option \<Rightarrow> json" where
  "bool_json v = (case v of None \<Rightarrow> JNull | Some b \<Rightarrow> JBool b)"
definition int_json :: "int \<Rightarrow> json" where "int_json n = JNumber (JInt n)"

fun owner_json :: "accountable_owner \<Rightarrow> json" where
  "owner_json (GithubUser login) =
     JObject [(''kind'', JString ''github-user''), (''login'', JString login)]"
| "owner_json (GithubTeam slug) =
     JObject [(''kind'', JString ''github-team''), (''slug'', JString slug)]"

definition summary_json :: "surface_summary \<Rightarrow> json" where
  "summary_json s = JObject
     [(''surfaceId'', JString (su_surface_id s)), (''path'', JString (su_path s)),
      (''artifactType'', JString (su_artifact_type s)), (''objectId'', JString (su_object_id s)),
      (''contentDigest'', JString (su_content_digest s)), (''size'', JNumber (su_size s))]"

definition requirement_json :: "requirement_result \<Rightarrow> json" where
  "requirement_json r = JObject
     [(''requirementId'', JString (rq_requirement_id r)), (''surfaceId'', JString (rq_surface_id r)),
      (''result'', JString (rq_result r)), (''evidenceDigest'', text_json (rq_evidence_digest r))]"

definition core_context_json :: "authority_payload \<Rightarrow> json" where
  "core_context_json a = JObject
     [(''snapshotId'', JString (ra_core_snapshot_id a)),
      (''sourceCommitId'', JString (ra_source_commit_id a)),
      (''declarationPath'', JString (ra_declaration_path a)),
      (''declarationDigest'', JString (ra_declaration_digest a)),
      (''owner'', JString (ra_owner a)), (''name'', JString (ra_name a)),
      (''accountableOwners'', JArray (map owner_json (ra_accountable_owners a))),
      (''fleetState'', JString (ra_fleet_state a)),
      (''maintenancePrograms'', texts_json (ra_maintenance_programs a)),
      (''actionCeiling'', texts_json (ra_action_ceiling a)),
      (''surfaceContractVersion'', int_json (ra_surface_contract_version a))]"

definition github_context_json :: "identity_payload \<Rightarrow> json" where
  "github_context_json g = JObject
     [(''declaredOwner'', JString (gi_declared_owner g)),
      (''declaredName'', JString (gi_declared_name g)),
      (''declaredRepositoryId'', JString (gi_declared_repository_id g)),
      (''observedOwner'', text_json (gi_observed_owner g)),
      (''observedName'', text_json (gi_observed_name g)),
      (''observedRepositoryId'', text_json (gi_observed_repository_id g)),
      (''archived'', bool_json (gi_archived g)),
      (''defaultBranch'', text_json (gi_observed_default_branch g)),
      (''responseDigest'', JString (gi_response_digest g))]"

definition surfaces_context_json :: "surfaces_payload \<Rightarrow> json" where
  "surfaces_context_json p = JObject
     [(''defaultBranch'', text_json (sp_default_branch p)),
      (''repositoryCommitId'', text_json (sp_repository_commit_id p)),
      (''repositoryTreeId'', text_json (sp_repository_tree_id p)),
      (''surfaceContractVersion'', int_json (sp_surface_contract_version p)),
      (''governanceSchemaVersion'', int_json (sp_governance_schema_version p)),
      (''surfaceContractDigest'', JString (sp_surface_contract_digest p)),
      (''governanceSchemaDigest'', JString (sp_governance_schema_digest p)),
      (''surfaces'', JArray (map summary_json (sp_surfaces p))),
      (''governancePolicy'', (case sp_governance_policy p of None \<Rightarrow> JNull | Some j \<Rightarrow> j)),
      (''checkpoint'', JString ''repository-enrollment''),
      (''decision'', JString (sp_decision p)),
      (''requirementResults'', JArray (map requirement_json (sp_requirement_results p))),
      (''exceptionRecordIds'', JArray []),
      (''probeDigest'', JString (sp_probe_digest p))]"

definition enrollment_context_json :: "enrollment_payload \<Rightarrow> json" where
  "enrollment_context_json e = JObject
     [(''repositoryCommitId'', JString (en_repository_commit_id e)),
      (''surfaceContractVersion'', int_json (en_surface_contract_version e)),
      (''maintenancePrograms'', texts_json (en_maintenance_programs e)),
      (''actionCeiling'', texts_json (en_action_ceiling e))]"

definition coherent_context ::
    "authority_payload \<Rightarrow> identity_payload \<Rightarrow> surfaces_payload \<Rightarrow> enrollment_payload \<Rightarrow> bool"
where
  "coherent_context a g p e \<longleftrightarrow>
     ra_repository_id a = gi_repository_id g \<and> ra_repository_id a = sp_repository_id p \<and>
     ra_repository_id a = en_repository_id e \<and>
     ra_core_snapshot_id a = gi_core_snapshot_id g \<and> ra_core_snapshot_id a = sp_core_snapshot_id p \<and>
     ra_core_snapshot_id a = en_core_snapshot_id e \<and>
     ra_core_authorization_record_id a = gi_core_authorization_record_id g \<and>
     ra_core_authorization_record_id a = sp_core_authorization_record_id p \<and>
     ra_core_authorization_record_id a = en_core_authorization_record_id e \<and>
     gi_reconciliation_record_id g = sp_github_reconciliation_record_id p \<and>
     gi_reconciliation_record_id g = en_github_reconciliation_record_id e \<and>
     sp_reconciliation_record_id p = en_surface_reconciliation_record_id e \<and>
     sp_policy_decision_record_id p = en_surface_policy_decision_record_id e \<and>
     ra_surface_contract_version a = sp_surface_contract_version p \<and>
     ra_surface_contract_version a = en_surface_contract_version e \<and>
     gi_observed_default_branch g = sp_default_branch p \<and>
     ra_maintenance_programs a = en_maintenance_programs e \<and>
     ra_action_ceiling a = en_action_ceiling e \<and>
     ra_fleet_state a = ''enabled'' \<and> gi_result g = ''matched'' \<and> sp_result p = ''valid'' \<and>
     sp_decision p = ''permit'' \<and> sp_repository_commit_id p = Some (en_repository_commit_id e)"

definition repository_authority_context_digest ::
    "(json \<Rightarrow> string) \<Rightarrow> authority_payload \<Rightarrow> identity_payload \<Rightarrow> surfaces_payload \<Rightarrow>
     enrollment_payload \<Rightarrow> control_error + string"
where
  "repository_authority_context_digest digest a g p e =
     (if \<not> coherent_context a g p e then Inl (NotAllowed ''authority context'')
      else Inr (digest (JObject
        [(''schemaVersion'', int_json 1), (''repositoryId'', JString (ra_repository_id a)),
         (''core'', core_context_json a), (''github'', github_context_json g),
         (''surfaces'', surfaces_context_json p), (''enrollment'', enrollment_context_json e)])))"

datatype held_work_recovery =
    RemainHeld
  | ResumeAutomatically
  | OperatorContextChanged
  | OperatorNonTransient

definition evaluate_held_work_recovery ::
    "string \<Rightarrow> string \<Rightarrow> string option \<Rightarrow> string \<Rightarrow> control_error + held_work_recovery"
where
  "evaluate_held_work_recovery cause held current state =
     and_then (require (is_sha256 held) (BadInput ''held digest'')) (\<lambda>_.
     and_then (require (given_valid is_sha256 current) (BadInput ''current digest'')) (\<lambda>_.
     Inr
       (if state \<noteq> ''enrolled'' \<or> current = None then RemainHeld
        else if current \<noteq> Some held then OperatorContextChanged
        else if cause \<in> {''github-unavailable'', ''surfaces-unavailable''} then ResumeAutomatically
        else OperatorNonTransient)))"

subsection \<open>Reading the records\<close>

text \<open>\<open>ORDER BY transaction_sequence DESC\<close> (and position).\<close>

definition newest_first :: "occurrence list \<Rightarrow> occurrence list" where
  "newest_first os = rev (sort_key (\<lambda>oc. (oc_sequence oc, oc_position oc)) os)"

definition records_of :: "string \<Rightarrow> string \<Rightarrow> control_store \<Rightarrow> occurrence list" where
  "records_of kind cls s =
     newest_first
       (filter (\<lambda>oc. oc_kind oc = kind \<and> oc_record_class oc = Some cls) (cs_occurrences s))"

definition contract_of :: "(control_payload \<Rightarrow> 'p option) \<Rightarrow> ('p \<Rightarrow> bool) \<Rightarrow> occurrence \<Rightarrow>
    control_error + string \<times> 'p" where
  "contract_of select valid oc =
     (case select (oc_payload oc) of
        None \<Rightarrow> Inl OutsideContract
      | Some p \<Rightarrow> if valid p then Inr (oc_record_id oc, p) else Inl OutsideContract)"

fun authority_of :: "control_payload \<Rightarrow> authority_payload option" where
  "authority_of (AuthorityPayload p) = Some p"
| "authority_of _ = None"
fun identity_of :: "control_payload \<Rightarrow> identity_payload option" where
  "identity_of (IdentityPayload p) = Some p"
| "identity_of _ = None"
fun surfaces_of :: "control_payload \<Rightarrow> surfaces_payload option" where
  "surfaces_of (SurfacesPayload p) = Some p"
| "surfaces_of _ = None"
fun enrollment_of :: "control_payload \<Rightarrow> enrollment_payload option" where
  "enrollment_of (EnrollmentPayload p) = Some p"
| "enrollment_of _ = None"
fun hold_of :: "control_payload \<Rightarrow> hold_payload option" where
  "hold_of (HoldPayload p) = Some p"
| "hold_of _ = None"

definition authority_rows :: "control_store \<Rightarrow> control_error + (string \<times> authority_payload) list" where
  "authority_rows s =
     map_res (contract_of authority_of is_authority_payload) (records_of ''repository.core-authorized'' ''fact'' s)"
definition identity_rows :: "control_store \<Rightarrow> control_error + (string \<times> identity_payload) list" where
  "identity_rows s =
     map_res (contract_of identity_of is_identity_payload)
       (records_of ''repository.github-identity-reconciled'' ''fact'' s)"
definition surfaces_rows :: "control_store \<Rightarrow> control_error + (string \<times> surfaces_payload) list" where
  "surfaces_rows s =
     map_res (contract_of surfaces_of is_surfaces_payload)
       (records_of ''repository.canonical-surfaces-reconciled'' ''fact'' s)"
definition enrollment_rows :: "control_store \<Rightarrow> control_error + (string \<times> enrollment_payload) list" where
  "enrollment_rows s =
     map_res (contract_of enrollment_of is_enrollment_payload) (records_of ''repository.enrolled'' ''fact'' s)"
definition hold_rows :: "control_store \<Rightarrow> control_error + (string \<times> hold_payload) list" where
  "hold_rows s =
     map_res (contract_of hold_of is_hold_payload) (records_of ''repository.operator-hold-decision'' ''decision'' s)"

text \<open>The newest decision about a repository says whether it is held.\<close>

definition active_hold :: "(string \<times> hold_payload) list \<Rightarrow> string \<Rightarrow> hold_payload option" where
  "active_hold rows repository_id =
     (case List.find (\<lambda>(_, p). ho_repository_id p = repository_id) rows of
        None \<Rightarrow> None
      | Some (_, p) \<Rightarrow> if ho_choice p = ''impose'' then Some p else None)"

subsection \<open>The active snapshot\<close>

definition active_core_snapshot :: "control_store \<Rightarrow> (core_snapshot \<times> active_snapshot) option" where
  "active_core_snapshot s =
     (case cs_active s of
        None \<Rightarrow> None
      | Some a \<Rightarrow>
          map_option (\<lambda>n. (n, a)) (List.find (\<lambda>n. sn_snapshot_id n = ac_snapshot_id a) (cs_snapshots s)))"

record repository_status =
  st_repository_id :: string
  st_owner :: string
  st_name :: string
  st_core_snapshot_id :: string
  st_core_authorization_record_id :: "string option"
  st_fleet_state :: string
  st_maintenance_programs :: "string list"
  st_action_ceiling :: "string list"
  st_accountable_owners :: "accountable_owner list"
  st_github_reconciliation_record_id :: "string option"
  st_github_result :: "string option"
  st_github_default_branch :: "string option"
  st_surface_reconciliation_record_id :: "string option"
  st_surface_policy_decision_record_id :: "string option"
  st_surface_result :: "string option"
  st_repository_commit_id :: "string option"
  st_enrollment_record_id :: "string option"
  st_authority_context_digest :: "string option"
  st_operator_hold :: "hold_payload option"
  st_effective_state :: string
  st_governance_policy :: "json option"

definition declared_id :: "declared_repository \<Rightarrow> string" where
  "declared_id d = github_repository_prefix @ de_repository_id d"

definition awaiting_authority :: "string \<Rightarrow> declared_repository \<Rightarrow> hold_payload option \<Rightarrow> repository_status" where
  "awaiting_authority snapshot_id d hold =
     \<lparr>st_repository_id = declared_id d, st_owner = de_owner d, st_name = de_name d,
      st_core_snapshot_id = snapshot_id, st_core_authorization_record_id = None,
      st_fleet_state = de_fleet_state d, st_maintenance_programs = de_maintenance_programs d,
      st_action_ceiling = de_action_ceiling d, st_accountable_owners = de_accountable_owners d,
      st_github_reconciliation_record_id = None, st_github_result = None,
      st_github_default_branch = None, st_surface_reconciliation_record_id = None,
      st_surface_policy_decision_record_id = None, st_surface_result = None,
      st_repository_commit_id = None, st_enrollment_record_id = None,
      st_authority_context_digest = None, st_operator_hold = hold,
      st_effective_state = ''awaiting-authority'', st_governance_policy = None\<rparr>"

definition effective_state ::
    "string \<Rightarrow> hold_payload option \<Rightarrow> identity_payload option \<Rightarrow> surfaces_payload option \<Rightarrow>
     enrollment_payload option \<Rightarrow> string"
where
  "effective_state fleet hold github surface enrollment =
     (if fleet = ''disabled'' then ''disabled''
      else if fleet = ''paused'' then ''paused''
      else if hold \<noteq> None then ''operator-held''
      else (case github of
              None \<Rightarrow> ''awaiting-github''
            | Some g \<Rightarrow>
                if gi_result g \<noteq> ''matched'' then ''github-held''
                else (case surface of
                        None \<Rightarrow> ''awaiting-surfaces''
                      | Some p \<Rightarrow>
                          if sp_result p \<noteq> ''valid'' then ''surface-held''
                          else if enrollment = None then ''awaiting-enrollment''
                          else ''enrolled'')))"

record status_rows =
  sr_authority :: "(string \<times> authority_payload) list"
  sr_identity :: "(string \<times> identity_payload) list"
  sr_surfaces :: "(string \<times> surfaces_payload) list"
  sr_enrollment :: "(string \<times> enrollment_payload) list"
  sr_holds :: "(string \<times> hold_payload) list"

definition repository_status_of ::
    "(json \<Rightarrow> string) \<Rightarrow> string \<Rightarrow> status_rows \<Rightarrow> declared_repository \<Rightarrow> control_error + repository_status"
where
  "repository_status_of digest snapshot_id rows d =
     (let id' = declared_id d; hold = active_hold (sr_holds rows) id' in
      case List.find (\<lambda>(_, p). ra_core_snapshot_id p = snapshot_id \<and> ra_repository_id p = id')
             (sr_authority rows) of
        None \<Rightarrow> Inr (awaiting_authority snapshot_id d hold)
      | Some (record_id, a) \<Rightarrow>
          let github = List.find (\<lambda>(_, p). gi_core_authorization_record_id p = record_id) (sr_identity rows);
              surface = Option.bind github (\<lambda>(g_id, _).
                List.find (\<lambda>(_, p). sp_github_reconciliation_record_id p = g_id) (sr_surfaces rows));
              enrollment = Option.bind surface (\<lambda>(s_id, _).
                List.find (\<lambda>(_, p). en_surface_reconciliation_record_id p = s_id) (sr_enrollment rows));
              state = effective_state (ra_fleet_state a) hold (map_option snd github)
                (map_option snd surface) (map_option snd enrollment) in
          and_then
            (case (github, surface, enrollment) of
               (Some (_, g), Some (_, p), Some (_, e)) \<Rightarrow>
                 if state = ''enrolled''
                 then map_sum id Some (repository_authority_context_digest digest a g p e)
                 else Inr None
             | _ \<Rightarrow> Inr None) (\<lambda>context.
          Inr \<lparr>st_repository_id = id', st_owner = ra_owner a, st_name = ra_name a,
            st_core_snapshot_id = snapshot_id, st_core_authorization_record_id = Some record_id,
            st_fleet_state = ra_fleet_state a, st_maintenance_programs = ra_maintenance_programs a,
            st_action_ceiling = ra_action_ceiling a, st_accountable_owners = ra_accountable_owners a,
            st_github_reconciliation_record_id = map_option fst github,
            st_github_result = map_option (gi_result \<circ> snd) github,
            st_github_default_branch = Option.bind github (gi_observed_default_branch \<circ> snd),
            st_surface_reconciliation_record_id = map_option fst surface,
            st_surface_policy_decision_record_id = map_option (sp_policy_decision_record_id \<circ> snd) surface,
            st_surface_result = map_option (sp_result \<circ> snd) surface,
            st_repository_commit_id = Option.bind surface (sp_repository_commit_id \<circ> snd),
            st_enrollment_record_id = map_option fst enrollment,
            st_authority_context_digest = context, st_operator_hold = hold,
            st_effective_state = state,
            st_governance_policy = Option.bind surface (sp_governance_policy \<circ> snd)\<rparr>))"

definition repository_statuses ::
    "(json \<Rightarrow> string) \<Rightarrow> control_store \<Rightarrow> control_error + repository_status list"
where
  "repository_statuses digest s =
     (case active_core_snapshot s of
        None \<Rightarrow> Inr []
      | Some (snapshot, _) \<Rightarrow>
          and_then (authority_rows s) (\<lambda>authorities.
          and_then (identity_rows s) (\<lambda>identities.
          and_then (surfaces_rows s) (\<lambda>surfaces.
          and_then (enrollment_rows s) (\<lambda>enrollments.
          and_then (hold_rows s) (\<lambda>holds.
          map_sum id (sort_key st_repository_id)
            (map_res
              (repository_status_of digest (sn_snapshot_id snapshot)
                 \<lparr>sr_authority = authorities, sr_identity = identities, sr_surfaces = surfaces,
                  sr_enrollment = enrollments, sr_holds = holds\<rparr>)
              (sn_repositories snapshot))))))))"

definition repository_status ::
    "(json \<Rightarrow> string) \<Rightarrow> control_store \<Rightarrow> string \<Rightarrow> control_error + repository_status option"
where
  "repository_status digest s repository_id =
     map_sum id (List.find (\<lambda>st. st_repository_id st = repository_id)) (repository_statuses digest s)"

end
