(* ===== verification/Source_Coverage.thy ===== *)
theory Source_Coverage
  imports Authority_Context
begin

text \<open>
  How much of GitHub's deliveries a repository has seen (\<open>recordGitHubSourceCheckpoint\<close>,
  \<open>openGitHubSourceGap\<close> and \<open>repairGitHubSourceGap\<close> of \<open>src/src/control/store.ts\<close>): checkpoints that
  continue each other, a gap that stops them, and the repair that closes the gap with the checkpoint
  that covers it.
\<close>

subsection \<open>Inputs\<close>

record checkpoint_input =
  ki_expected_sequence :: jsnum
  ki_run_id :: string
  ki_repository_id :: string
  ki_app_id :: string
  ki_installation_id :: string
  ki_covered_from :: timestamp
  ki_covered_through :: timestamp
  ki_page_count :: jsnum
  ki_delivery_count :: jsnum
  ki_page_proof_digest :: string
  ki_selected_response_digest :: string

definition normalize_checkpoint_input :: "checkpoint_input \<Rightarrow> control_error + unit" where
  "normalize_checkpoint_input i =
     and_then (assert_expected_sequence (ki_expected_sequence i)) (\<lambda>_.
     and_then
       (require
          (is_uuid_v7 (ki_run_id i) \<and> github_number (ki_app_id i) \<and>
           is_github_installation_id (ki_installation_id i) \<and>
           is_github_repository_id (ki_repository_id i) \<and>
           is_safe_integer (ki_page_count i) \<and> 1 \<le> js_int (ki_page_count i) \<and>
           js_int (ki_page_count i) \<le> 100 \<and>
           is_safe_integer (ki_delivery_count i) \<and> 0 \<le> js_int (ki_delivery_count i) \<and>
           js_int (ki_delivery_count i) \<le> 10000 \<and>
           is_sha256 (ki_page_proof_digest i) \<and> is_sha256 (ki_selected_response_digest i))
          (BadInput ''checkpoint'')) (\<lambda>_.
     require (ki_covered_from i \<le> ki_covered_through i) (BadInput ''checkpoint boundaries'')))"

definition canonical_guid_set :: "string list \<Rightarrow> bool" where
  "canonical_guid_set value \<longleftrightarrow>
     length value \<le> 100 \<and> list_all is_github_delivery_guid value \<and> distinct value \<and> sort value = value"

definition gap_shape :: "string \<Rightarrow> string \<Rightarrow> string list \<Rightarrow> bool" where
  "gap_shape cause failure_kind guids =
     (if cause = ''unsupported-relevant-delivery'' \<and> failure_kind \<noteq> ''delivery-content'' then False
      else if cause \<in> {''delivery-audit-incomplete'', ''pagination-incomplete'',
                ''recovery-horizon-expired''} \<and> failure_kind \<noteq> ''interval-coverage'' then False
      else if failure_kind = ''delivery-content'' then guids \<noteq> [] else guids = [])"

record gap_input =
  gx_expected_sequence :: jsnum
  gx_run_id :: string
  gx_repository_id :: string
  gx_app_id :: string
  gx_installation_id :: string
  gx_checkpoint_record_id :: string
  gx_cause :: string
  gx_failure_kind :: string
  gx_affected_delivery_guids :: "string list"

definition normalize_gap_input :: "gap_input \<Rightarrow> control_error + unit" where
  "normalize_gap_input i =
     and_then (assert_expected_sequence (gx_expected_sequence i)) (\<lambda>_.
     require
       (is_uuid_v7 (gx_run_id i) \<and> is_uuid_v7 (gx_checkpoint_record_id i) \<and>
        github_number (gx_app_id i) \<and> is_github_installation_id (gx_installation_id i) \<and>
        is_github_repository_id (gx_repository_id i) \<and> gx_cause i \<in> set github_source_gap_causes \<and>
        gx_failure_kind i \<in> {''interval-coverage'', ''delivery-content''} \<and>
        canonical_guid_set (gx_affected_delivery_guids i) \<and>
        gap_shape (gx_cause i) (gx_failure_kind i) (gx_affected_delivery_guids i))
       (BadInput ''gap''))"

record repair_input =
  ri'_expected_sequence :: jsnum
  ri'_run_id :: string
  ri'_repository_id :: string
  ri'_app_id :: string
  ri'_installation_id :: string
  ri'_covered_through :: timestamp
  ri'_page_count :: jsnum
  ri'_delivery_count :: jsnum
  ri'_page_proof_digest :: string
  ri'_selected_response_digest :: string
  ri'_gap_record_id :: string
  ri'_repair_audit_record_ids :: "string list"

definition point_checkpoint :: "repair_input \<Rightarrow> checkpoint_input" where
  "point_checkpoint i =
     \<lparr>ki_expected_sequence = ri'_expected_sequence i, ki_run_id = ri'_run_id i,
      ki_repository_id = ri'_repository_id i, ki_app_id = ri'_app_id i,
      ki_installation_id = ri'_installation_id i, ki_covered_from = ri'_covered_through i,
      ki_covered_through = ri'_covered_through i, ki_page_count = ri'_page_count i,
      ki_delivery_count = ri'_delivery_count i, ki_page_proof_digest = ri'_page_proof_digest i,
      ki_selected_response_digest = ri'_selected_response_digest i\<rparr>"

definition normalize_repair_input :: "repair_input \<Rightarrow> control_error + unit" where
  "normalize_repair_input i =
     and_then (normalize_checkpoint_input (point_checkpoint i)) (\<lambda>_.
     and_then (require (is_uuid_v7 (ri'_gap_record_id i)) (BadInput ''gap record'')) (\<lambda>_.
     require
       (length (ri'_repair_audit_record_ids i) \<le> 100 \<and>
        list_all is_uuid_v7 (ri'_repair_audit_record_ids i) \<and>
        distinct (ri'_repair_audit_record_ids i) \<and>
        sort (ri'_repair_audit_record_ids i) = ri'_repair_audit_record_ids i)
       (BadInput ''repair citations'')))"

subsection \<open>Digests\<close>

definition checkpoint_digest_json :: "(timestamp \<Rightarrow> string) \<Rightarrow> checkpoint_input \<Rightarrow> json" where
  "checkpoint_digest_json instant i = JObject
     [(''repositoryId'', JString (ki_repository_id i)), (''scope'', JString github_source_scope),
      (''appId'', JString (ki_app_id i)), (''installationId'', JString (ki_installation_id i)),
      (''coveredFrom'', JString (instant (ki_covered_from i))),
      (''coveredThrough'', JString (instant (ki_covered_through i))),
      (''pageCount'', JNumber (ki_page_count i)), (''deliveryCount'', JNumber (ki_delivery_count i)),
      (''pageProofDigest'', JString (ki_page_proof_digest i)),
      (''selectedResponseDigest'', JString (ki_selected_response_digest i))]"

definition checkpoint_input_json :: "(timestamp \<Rightarrow> string) \<Rightarrow> checkpoint_input \<Rightarrow> json" where
  "checkpoint_input_json instant i = JObject
     [(''expectedLastTransactionSequence'', JNumber (ki_expected_sequence i)),
      (''runId'', JString (ki_run_id i)), (''repositoryId'', JString (ki_repository_id i)),
      (''appId'', JString (ki_app_id i)), (''installationId'', JString (ki_installation_id i)),
      (''coveredFrom'', JString (instant (ki_covered_from i))),
      (''coveredThrough'', JString (instant (ki_covered_through i))),
      (''pageCount'', JNumber (ki_page_count i)), (''deliveryCount'', JNumber (ki_delivery_count i)),
      (''pageProofDigest'', JString (ki_page_proof_digest i)),
      (''selectedResponseDigest'', JString (ki_selected_response_digest i))]"

definition gap_input_json :: "gap_input \<Rightarrow> json" where
  "gap_input_json i = JObject
     [(''expectedLastTransactionSequence'', JNumber (gx_expected_sequence i)),
      (''runId'', JString (gx_run_id i)), (''repositoryId'', JString (gx_repository_id i)),
      (''appId'', JString (gx_app_id i)), (''installationId'', JString (gx_installation_id i)),
      (''checkpointRecordId'', JString (gx_checkpoint_record_id i)),
      (''cause'', JString (gx_cause i)), (''coverageFailureKind'', JString (gx_failure_kind i)),
      (''affectedDeliveryGuids'', texts_json (gx_affected_delivery_guids i))]"

definition repair_input_json :: "(timestamp \<Rightarrow> string) \<Rightarrow> repair_input \<Rightarrow> json" where
  "repair_input_json instant i = JObject
     [(''expectedLastTransactionSequence'', JNumber (ri'_expected_sequence i)),
      (''runId'', JString (ri'_run_id i)), (''repositoryId'', JString (ri'_repository_id i)),
      (''appId'', JString (ri'_app_id i)), (''installationId'', JString (ri'_installation_id i)),
      (''coveredThrough'', JString (instant (ri'_covered_through i))),
      (''pageCount'', JNumber (ri'_page_count i)), (''deliveryCount'', JNumber (ri'_delivery_count i)),
      (''pageProofDigest'', JString (ri'_page_proof_digest i)),
      (''selectedResponseDigest'', JString (ri'_selected_response_digest i)),
      (''gapRecordId'', JString (ri'_gap_record_id i)),
      (''repairAuditRecordIds'', texts_json (ri'_repair_audit_record_ids i))]"

definition gap_digest_json ::
    "(timestamp \<Rightarrow> string) \<Rightarrow> gap_input \<Rightarrow> string \<Rightarrow> timestamp \<Rightarrow> timestamp \<Rightarrow> json"
where
  "gap_digest_json instant i gap_id lower_bound_at detected_at = JObject
     [(''repositoryId'', JString (gx_repository_id i)), (''scope'', JString github_source_scope),
      (''appId'', JString (gx_app_id i)), (''installationId'', JString (gx_installation_id i)),
      (''runId'', JString (gx_run_id i)),
      (''checkpointRecordId'', JString (gx_checkpoint_record_id i)), (''gapId'', JString gap_id),
      (''lowerBoundAt'', JString (instant lower_bound_at)), (''cause'', JString (gx_cause i)),
      (''coverageFailureKind'', JString (gx_failure_kind i)),
      (''affectedDeliveryGuids'', texts_json (gx_affected_delivery_guids i)),
      (''detectedAt'', JString (instant detected_at))]"

definition repair_digest_json :: "(timestamp \<Rightarrow> string) \<Rightarrow> repair_payload \<Rightarrow> json" where
  "repair_digest_json instant p = JObject
     [(''repositoryId'', JString (rp_repository_id p)), (''scope'', JString github_source_scope),
      (''appId'', JString (rp_app_id p)), (''installationId'', JString (rp_installation_id p)),
      (''runId'', JString (rp_run_id p)), (''gapId'', JString (rp_gap_id p)),
      (''gapRecordId'', JString (rp_gap_record_id p)),
      (''priorCheckpointRecordId'', JString (rp_prior_checkpoint_record_id p)),
      (''checkpointRecordId'', JString (rp_checkpoint_record_id p)),
      (''repairRecordId'', JString (rp_repair_record_id p)),
      (''eventRecordId'', JString (rp_event_record_id p)),
      (''lowerBoundAt'', JString (instant (rp_lower_bound_at p))),
      (''exclusiveEndAt'', JString (instant (rp_exclusive_end_at p))),
      (''repairMethod'', JString (rp_repair_method p)),
      (''repairAuditRecordIds'', texts_json (rp_repair_audit_record_ids p)),
      (''repairedAt'', JString (instant (rp_repaired_at p)))]"

subsection \<open>Reading the coverage\<close>

definition subject_records :: "string \<Rightarrow> string \<Rightarrow> control_store \<Rightarrow> occurrence list" where
  "subject_records kind repository_id s =
     newest_first
       (filter
         (\<lambda>oc. oc_kind oc = kind \<and> oc_subject_kind oc = ''github-repository'' \<and>
            oc_subject_id oc = repository_id) (cs_occurrences s))"

fun checkpoint_of :: "control_payload \<Rightarrow> checkpoint_payload option" where
  "checkpoint_of (CheckpointPayload p) = Some p"
| "checkpoint_of _ = None"
fun gap_of :: "control_payload \<Rightarrow> gap_payload option" where
  "gap_of (GapPayload p) = Some p"
| "gap_of _ = None"
fun repair_of :: "control_payload \<Rightarrow> repair_payload option" where
  "repair_of (RepairPayload p) = Some p"
| "repair_of _ = None"
fun audit_of :: "control_payload \<Rightarrow> audit_payload option" where
  "audit_of (AuditPayload p) = Some p"
| "audit_of _ = None"

definition first_contract :: "(control_payload \<Rightarrow> 'p option) \<Rightarrow> ('p \<Rightarrow> bool) \<Rightarrow> occurrence list \<Rightarrow>
    control_error + 'p option" where
  "first_contract select valid os =
     (case os of
        [] \<Rightarrow> Inr None
      | oc # _ \<Rightarrow> map_sum id (Some \<circ> snd) (contract_of select valid oc))"

definition checkpoint_kind :: string where
  "checkpoint_kind = ''github.source-checkpoint-observation''"
definition gap_kind :: string where "gap_kind = ''github.source-gap-observation''"
definition repair_kind :: string where "repair_kind = ''github.source-gap-repair-observation''"

definition latest_source_checkpoint ::
    "string \<Rightarrow> control_store \<Rightarrow> control_error + checkpoint_payload option"
where
  "latest_source_checkpoint repository_id s =
     first_contract checkpoint_of is_checkpoint_payload
       (subject_records checkpoint_kind repository_id s)"

text \<open>\<open>json_extract(repair.payload_json, '$.gapRecordId') = gap.record_id\<close>.\<close>

definition gap_repaired :: "control_store \<Rightarrow> string \<Rightarrow> bool" where
  "gap_repaired s gap_record_id \<longleftrightarrow>
     list_ex (\<lambda>oc. oc_kind oc = repair_kind \<and>
        (case repair_of (oc_payload oc) of None \<Rightarrow> False | Some p \<Rightarrow> rp_gap_record_id p = gap_record_id))
       (cs_occurrences s)"

definition find_open_source_gap :: "string \<Rightarrow> control_store \<Rightarrow> control_error + gap_payload option" where
  "find_open_source_gap repository_id s =
     first_contract gap_of is_gap_payload
       (filter (\<lambda>oc. \<not> gap_repaired s (oc_record_id oc)) (subject_records gap_kind repository_id s))"

definition assert_coverage_write ::
    "(json \<Rightarrow> string) \<Rightarrow> jsnum \<Rightarrow> string \<Rightarrow> control_store \<Rightarrow> control_error + unit"
where
  "assert_coverage_write digest expected repository_id s =
     and_then (assert_expected_sequence expected) (\<lambda>_.
     and_then
       (require (cs_last_sequence s = js_int expected)
          (StaleSequence (js_int expected) (cs_last_sequence s))) (\<lambda>_.
     and_then (repository_status digest s repository_id) (\<lambda>status.
     require (Option.bind status st_enrollment_record_id \<noteq> None) (NotAllowed ''enrolled repository''))))"

definition checked_coverage_time :: "control_env \<Rightarrow> control_store \<Rightarrow> timestamp \<Rightarrow> control_error + timestamp" where
  "checked_coverage_time env s boundary =
     and_then (require (cs_watermark s \<le> ce_now env) ClockMovedBack) (\<lambda>_.
     and_then (require (boundary \<le> ce_now env) (NotAllowed ''future boundary'')) (\<lambda>_.
     Inr (ce_now env)))"

definition audit_evidence :: "control_store \<Rightarrow> gap_payload \<Rightarrow> int \<Rightarrow> string \<Rightarrow> control_error + string" where
  "audit_evidence s gap gap_sequence record_id =
     (case List.find (\<lambda>oc. oc_record_id oc = record_id \<and> oc_kind oc = ''github.delivery-audit-observation'')
             (cs_occurrences s) of
        None \<Rightarrow> Inl (NotAllowed ''ineligible audit'')
      | Some oc \<Rightarrow>
          (case audit_of (oc_payload oc) of
             None \<Rightarrow> Inl (NotAllowed ''ineligible audit'')
           | Some audit \<Rightarrow>
               if \<not> is_audit_payload audit \<or> oc_sequence oc \<le> gap_sequence \<or>
                  da_repository_id audit \<noteq> ga_repository_id gap \<or> da_app_id audit \<noteq> ga_app_id gap \<or>
                  da_installation_id audit \<noteq> ga_installation_id gap
               then Inl (NotAllowed ''ineligible audit'')
               else Inr (da_delivery_guid audit)))"

definition assert_content_repair_evidence ::
    "control_store \<Rightarrow> gap_payload \<Rightarrow> string list \<Rightarrow> control_error + unit"
where
  "assert_content_repair_evidence s gap citations =
     and_then
       (require (length citations = length (ga_affected_delivery_guids gap))
          (NotAllowed ''every affected delivery'')) (\<lambda>_.
     case List.find (\<lambda>oc. oc_record_id oc = ga_gap_record_id gap \<and> oc_kind oc = gap_kind)
            (cs_occurrences s) of
       None \<Rightarrow> Inl (NotAllowed ''retained gap'')
     | Some gap_row \<Rightarrow>
         and_then (map_res (audit_evidence s gap (oc_sequence gap_row)) citations) (\<lambda>guids.
         require (sort guids = ga_affected_delivery_guids gap) (NotAllowed ''affected deliveries'')))"

subsection \<open>Commands\<close>

definition coverage_occurrence ::
    "occurrence_type \<Rightarrow> string \<Rightarrow> string option \<Rightarrow> string \<Rightarrow> string \<times> string \<Rightarrow> control_payload \<Rightarrow> string \<Rightarrow>
     string option \<Rightarrow> timestamp \<Rightarrow> string \<Rightarrow> int \<Rightarrow> int \<Rightarrow> occurrence"
where
  "coverage_occurrence type kind record_class repository_id revision payload correlation causation at
       record_id sequence position =
     \<lparr>oc_record_id = record_id, oc_type = type, oc_kind = kind, oc_record_class = record_class,
      oc_subject_kind = ''github-repository'', oc_subject_id = repository_id,
      oc_revision = Some revision, oc_source_kind = ''fluent-system'',
      oc_source_id = ''github-observer'', oc_source_revision = None, oc_payload = payload,
      oc_correlation_id = correlation, oc_causation_record_id = causation, oc_sequence = sequence,
      oc_position = position, oc_recorded_at = at\<rparr>"

definition coverage_command ::
    "control_env \<Rightarrow> string \<Rightarrow> string \<Rightarrow> string \<Rightarrow> (int \<Rightarrow> int \<Rightarrow> occurrence) list \<Rightarrow> control_payload \<Rightarrow>
     string \<Rightarrow> command"
where
  "coverage_command env kind key digest drafts payload event_record_id =
     \<lparr>cm_transaction_id = ce_id env 9, cm_kind = kind, cm_principal_kind = ''fluent-system'',
      cm_principal_id = ''github-observer'', cm_key = key, cm_digest = digest, cm_at = ce_now env,
      cm_new_subject = None, cm_occurrences = drafts, cm_payload = payload,
      cm_event_record_id = event_record_id,
      cm_retained_until = Some (add_seconds (ce_now env) (30 * 24 * 60 * 60))\<rparr>"

definition continues_checkpoint :: "checkpoint_input \<Rightarrow> checkpoint_payload option \<Rightarrow> bool" where
  "continues_checkpoint i previous =
     (case previous of
        Some p \<Rightarrow>
          ki_covered_from i = cp_covered_through p \<and> ki_app_id i = cp_app_id p \<and>
          ki_installation_id i = cp_installation_id p
      | None \<Rightarrow> ki_covered_from i = ki_covered_through i)"

definition checkpoint_payload_of ::
    "control_env \<Rightarrow> checkpoint_input \<Rightarrow> string option \<Rightarrow> string \<Rightarrow> checkpoint_payload"
where
  "checkpoint_payload_of env i previous record_id =
     \<lparr>cp_repository_id = ki_repository_id i, cp_app_id = ki_app_id i,
      cp_installation_id = ki_installation_id i, cp_run_id = ki_run_id i,
      cp_previous_checkpoint_record_id = previous, cp_covered_from = ki_covered_from i,
      cp_covered_through = ki_covered_through i, cp_page_count = ki_page_count i,
      cp_delivery_count = ki_delivery_count i, cp_page_proof_digest = ki_page_proof_digest i,
      cp_selected_response_digest = ki_selected_response_digest i,
      cp_checkpoint_digest = ce_digest env (checkpoint_digest_json (ce_iso env) i),
      cp_checkpoint_record_id = record_id, cp_recorded_at = ce_now env\<rparr>"

definition checkpoint_occurrences ::
    "control_env \<Rightarrow> checkpoint_payload \<Rightarrow> (int \<Rightarrow> int \<Rightarrow> occurrence) list"
where
  "checkpoint_occurrences env p =
     (let revision = (''github-source-checkpoint-sha256'', cp_checkpoint_digest p) in
      [coverage_occurrence RecordOccurrence checkpoint_kind (Some ''observation'')
         (cp_repository_id p) revision (CheckpointPayload p) (cp_run_id p)
         (cp_previous_checkpoint_record_id p) (ce_now env) (ce_id env 0),
       coverage_occurrence EventOccurrence ''github.source-checkpoint-recorded'' None
         (cp_repository_id p) revision (CheckpointPayload p) (cp_run_id p) (Some (ce_id env 0))
         (ce_now env) (ce_id env 1)])"

definition checkpoint_key :: "checkpoint_input \<Rightarrow> string" where
  "checkpoint_key i = ''github-checkpoint:'' @ ki_run_id i"

definition record_source_checkpoint ::
    "control_env \<Rightarrow> checkpoint_input \<Rightarrow> control_store \<Rightarrow> control_error + command_result \<times> control_store"
where
  "record_source_checkpoint env i s =
     and_then (normalize_checkpoint_input i) (\<lambda>_.
     let kind = ''github.record-source-checkpoint'';
         digest = ce_digest env (checkpoint_input_json (ce_iso env) i) in
     replay_or s kind (checkpoint_key i) digest
       (and_then
         (assert_coverage_write (ce_digest env) (ki_expected_sequence i) (ki_repository_id i) s) (\<lambda>_.
        and_then (find_open_source_gap (ki_repository_id i) s) (\<lambda>gap.
        and_then (require (gap = None) (NotAllowed ''open source gap'')) (\<lambda>_.
        and_then (latest_source_checkpoint (ki_repository_id i) s) (\<lambda>previous.
        and_then (require (continues_checkpoint i previous) (NotAllowed ''boundary'')) (\<lambda>_.
        and_then (checked_coverage_time env s (ki_covered_through i)) (\<lambda>recorded_at.
        let p = checkpoint_payload_of env i (map_option cp_checkpoint_record_id previous) (ce_id env 0) in
        write_command
          (coverage_command env kind (checkpoint_key i) digest (checkpoint_occurrences env p)
             (CheckpointPayload p) (ce_id env 1)) s))))))))"

definition gap_payload_of :: "control_env \<Rightarrow> gap_input \<Rightarrow> checkpoint_payload \<Rightarrow> gap_payload" where
  "gap_payload_of env i checkpoint =
     \<lparr>ga_repository_id = gx_repository_id i, ga_app_id = gx_app_id i,
      ga_installation_id = gx_installation_id i, ga_run_id = gx_run_id i,
      ga_checkpoint_record_id = gx_checkpoint_record_id i, ga_gap_id = ce_id env 0,
      ga_gap_record_id = ce_id env 0, ga_lower_bound_at = cp_covered_through checkpoint,
      ga_cause = gx_cause i, ga_failure_kind = gx_failure_kind i,
      ga_affected_delivery_guids = gx_affected_delivery_guids i,
      ga_gap_digest = ce_digest env
        (gap_digest_json (ce_iso env) i (ce_id env 0) (cp_covered_through checkpoint) (ce_now env)),
      ga_detected_at = ce_now env\<rparr>"

definition gap_occurrences :: "control_env \<Rightarrow> gap_payload \<Rightarrow> (int \<Rightarrow> int \<Rightarrow> occurrence) list" where
  "gap_occurrences env p =
     (let revision = (''github-source-gap-sha256'', ga_gap_digest p) in
      [coverage_occurrence RecordOccurrence gap_kind (Some ''observation'') (ga_repository_id p)
         revision (GapPayload p) (ga_run_id p) (Some (ga_checkpoint_record_id p)) (ce_now env)
         (ce_id env 0),
       coverage_occurrence EventOccurrence ''github.source-gap-opened'' None (ga_repository_id p)
         revision (GapPayload p) (ga_run_id p) (Some (ce_id env 0)) (ce_now env) (ce_id env 1)])"

definition gap_key :: "gap_input \<Rightarrow> string" where "gap_key i = ''github-gap:'' @ gx_run_id i"

definition open_source_gap ::
    "control_env \<Rightarrow> gap_input \<Rightarrow> control_store \<Rightarrow> control_error + command_result \<times> control_store"
where
  "open_source_gap env i s =
     and_then (normalize_gap_input i) (\<lambda>_.
     let kind = ''github.open-source-gap''; digest = ce_digest env (gap_input_json i) in
     replay_or s kind (gap_key i) digest
       (and_then
         (assert_coverage_write (ce_digest env) (gx_expected_sequence i) (gx_repository_id i) s) (\<lambda>_.
        and_then (find_open_source_gap (gx_repository_id i) s) (\<lambda>gap.
        and_then (require (gap = None) (NotAllowed ''already open'')) (\<lambda>_.
        and_then (latest_source_checkpoint (gx_repository_id i) s) (\<lambda>latest.
        case latest of
          None \<Rightarrow> Inl (NotAllowed ''latest checkpoint'')
        | Some checkpoint \<Rightarrow>
            and_then
              (require
                 (cp_checkpoint_record_id checkpoint = gx_checkpoint_record_id i \<and>
                  cp_app_id checkpoint = gx_app_id i \<and>
                  cp_installation_id checkpoint = gx_installation_id i)
                 (NotAllowed ''latest checkpoint'')) (\<lambda>_.
            and_then (checked_coverage_time env s (cp_covered_through checkpoint)) (\<lambda>_.
            let p = gap_payload_of env i checkpoint in
            write_command
              (coverage_command env kind (gap_key i) digest (gap_occurrences env p) (GapPayload p)
                 (ce_id env 1)) s))))))))"

definition covering_checkpoint :: "repair_input \<Rightarrow> gap_payload \<Rightarrow> checkpoint_input" where
  "covering_checkpoint i gap = (point_checkpoint i)\<lparr>ki_covered_from := ga_lower_bound_at gap\<rparr>"

definition repair_payload_of :: "control_env \<Rightarrow> repair_input \<Rightarrow> gap_payload \<Rightarrow> repair_payload" where
  "repair_payload_of env i gap =
     (let p =
        \<lparr>rp_repository_id = ri'_repository_id i, rp_app_id = ri'_app_id i,
         rp_installation_id = ri'_installation_id i, rp_run_id = ri'_run_id i,
         rp_gap_id = ga_gap_id gap, rp_gap_record_id = ga_gap_record_id gap,
         rp_prior_checkpoint_record_id = ga_checkpoint_record_id gap,
         rp_checkpoint_record_id = ce_id env 0, rp_repair_record_id = ce_id env 1,
         rp_event_record_id = ce_id env 2, rp_lower_bound_at = ga_lower_bound_at gap,
         rp_exclusive_end_at = ri'_covered_through i,
         rp_repair_method =
           (if ga_failure_kind gap = ''delivery-content''
            then ''delivery-observations-and-complete-audit'' else ''complete-delivery-audit''),
         rp_repair_audit_record_ids = ri'_repair_audit_record_ids i, rp_repair_digest = [],
         rp_repaired_at = ce_now env\<rparr> in
      p\<lparr>rp_repair_digest := ce_digest env (repair_digest_json (ce_iso env) p)\<rparr>)"

definition repair_occurrences ::
    "control_env \<Rightarrow> gap_payload \<Rightarrow> checkpoint_payload \<Rightarrow> repair_payload \<Rightarrow> (int \<Rightarrow> int \<Rightarrow> occurrence) list"
where
  "repair_occurrences env gap c p =
     (let revision = (''github-source-gap-sha256'', rp_repair_digest p) in
      [coverage_occurrence RecordOccurrence checkpoint_kind (Some ''observation'')
         (rp_repository_id p) (''github-source-checkpoint-sha256'', cp_checkpoint_digest c)
         (CheckpointPayload c) (rp_run_id p) (Some (ga_gap_record_id gap)) (ce_now env) (ce_id env 0),
       coverage_occurrence RecordOccurrence repair_kind (Some ''observation'') (rp_repository_id p)
         revision (RepairPayload p) (rp_run_id p) (Some (ce_id env 0)) (ce_now env) (ce_id env 1),
       coverage_occurrence EventOccurrence ''github.source-gap-repaired'' None (rp_repository_id p)
         revision (RepairPayload p) (rp_run_id p) (Some (ce_id env 1)) (ce_now env) (ce_id env 2)])"

definition repair_key :: "repair_input \<Rightarrow> string" where
  "repair_key i = ''github-gap-repair:'' @ ri'_run_id i"

definition repair_source_gap ::
    "control_env \<Rightarrow> repair_input \<Rightarrow> control_store \<Rightarrow> control_error + command_result \<times> control_store"
where
  "repair_source_gap env i s =
     and_then (normalize_repair_input i) (\<lambda>_.
     let kind = ''github.repair-source-gap'';
         digest = ce_digest env (repair_input_json (ce_iso env) i) in
     replay_or s kind (repair_key i) digest
       (and_then
         (assert_coverage_write (ce_digest env) (ri'_expected_sequence i) (ri'_repository_id i) s) (\<lambda>_.
        and_then (find_open_source_gap (ri'_repository_id i) s) (\<lambda>open'.
        case open' of
          None \<Rightarrow> Inl (NotAllowed ''current open gap'')
        | Some gap \<Rightarrow>
            and_then
              (require
                 (ga_gap_record_id gap = ri'_gap_record_id i \<and> ga_app_id gap = ri'_app_id i \<and>
                  ga_installation_id gap = ri'_installation_id i)
                 (NotAllowed ''current open gap'')) (\<lambda>_.
            and_then
              (if ga_failure_kind gap = ''delivery-content''
               then assert_content_repair_evidence s gap (ri'_repair_audit_record_ids i)
               else require (ri'_repair_audit_record_ids i = []) (NotAllowed ''interval citations'')) (\<lambda>_.
            and_then
              (require (ga_lower_bound_at gap < ri'_covered_through i) (NotAllowed ''later end'')) (\<lambda>_.
            and_then (checked_coverage_time env s (ri'_covered_through i)) (\<lambda>_.
            let c = checkpoint_payload_of env (covering_checkpoint i gap)
                      (Some (ga_checkpoint_record_id gap)) (ce_id env 0);
                p = repair_payload_of env i gap in
            write_command
              (coverage_command env kind (repair_key i) digest (repair_occurrences env gap c p)
                 (RepairPayload p) (ce_id env 2)) s))))))))"

end
