(* ===== verification/Core_Snapshots.thy ===== *)
theory Core_Snapshots
  imports Authority_Context
begin

text \<open>
  Core as the control plane knows it: the checks of its source with the readiness they give, and then
  the snapshots that are activated and rolled back.
\<close>

section \<open>Checks of Core\<close>

text \<open>
  What is known of Core and whether it still admits work: the checks of its source that were
  recorded, the readiness they give, and the operator's override of a stale source
  (\<open>recordCoreCandidateRejection\<close>, \<open>recordCoreSourceCheckEligible\<close>, \<open>coreAdmissionReadiness\<close>,
  \<open>issueCoreStaleSourceOverride\<close> and \<open>shouldSuppressCoreCandidateRejection\<close> of
  \<open>src/src/control/store.ts\<close>). A candidate is what the validation of its files made of it
  (\<open>src/src/core/validator.ts\<close>); the code validates the files again and compares the two.
\<close>

subsection \<open>Candidates\<close>

record core_file =
  cf_path :: string
  cf_mode :: string
  cf_object_id :: string
  cf_size :: int
  cf_content_digest :: string

record core_candidate =
  ca_source_url :: string
  ca_ref :: string
  ca_commit_id :: string
  ca_tree_id :: string
  ca_files :: "core_file list"
  ca_report :: catalog_report

definition ca_catalog_digest :: "core_candidate \<Rightarrow> string" where
  "ca_catalog_digest c = kr_catalog_digest (ca_report c)"

definition materialized_source_url :: "string \<Rightarrow> bool" where
  "materialized_source_url url \<longleftrightarrow> url \<in> {https_core_url, scp_core_url, ssh_colon_core_url}"

definition bounded_core_file :: "core_file \<Rightarrow> bool" where
  "bounded_core_file f \<longleftrightarrow>
     cf_mode f \<in> {''100644'', ''100755''} \<and> commit_sha (cf_object_id f) \<and> cf_size f \<le> 1048576 \<and>
     utf8_length (cf_path f) \<le> 512 \<and> length (split_char CHR ''/'' (cf_path f)) \<le> 12 \<and>
     list_all (\<lambda>c. c \<noteq> [] \<and> c \<noteq> ''.'' \<and> c \<noteq> ''..'') (split_char CHR ''/'' (cf_path f))"

definition assert_materialized_candidate :: "core_candidate \<Rightarrow> control_error + unit" where
  "assert_materialized_candidate c =
     and_then (require (materialized_source_url (ca_source_url c)) (BadInput ''source URL'')) (\<lambda>_.
     and_then (require (is_canonical_core_ref (ca_ref c)) (BadInput ''source ref'')) (\<lambda>_.
     and_then
       (require (commit_sha (ca_commit_id c) \<and> commit_sha (ca_tree_id c)) (BadInput ''Git objects'')) (\<lambda>_.
     and_then
       (require (1 \<le> length (ca_files c) \<and> length (ca_files c) \<le> 256) (BadInput ''file count'')) (\<lambda>_.
     and_then
       (check_all (\<lambda>f. require (bounded_core_file f) (BadInput (cf_path f))) (ca_files c)) (\<lambda>_.
     require (sum_list (map cf_size (ca_files c)) \<le> 8388608) (BadInput ''bytes''))))))"

subsection \<open>Recording a check\<close>

definition core_source_id :: string where "core_source_id = ''github.com:1331309458''"

definition check_occurrence ::
    "control_store \<Rightarrow> occurrence_type \<Rightarrow> string \<Rightarrow> string option \<Rightarrow> string option \<Rightarrow> control_payload \<Rightarrow>
     string \<Rightarrow> timestamp \<Rightarrow> string \<Rightarrow> int \<Rightarrow> int \<Rightarrow> occurrence"
where
  "check_occurrence s type kind record_class commit payload check_id at record_id sequence position =
     \<lparr>oc_record_id = record_id, oc_type = type, oc_kind = kind, oc_record_class = record_class,
      oc_subject_kind = ''control-plane-database'', oc_subject_id = cs_lineage_id s,
      oc_revision = Some (''transaction-sequence'', decimal_text (cs_last_sequence s)),
      oc_source_kind = ''github-repository'', oc_source_id = core_source_id,
      oc_source_revision = map_option (\<lambda>c. (''git-commit-sha1'', ''sha1:'' @ c)) commit,
      oc_payload = payload, oc_correlation_id = check_id, oc_causation_record_id = None,
      oc_sequence = sequence, oc_position = position, oc_recorded_at = at\<rparr>"

definition kernel_command ::
    "control_env \<Rightarrow> string \<Rightarrow> string \<Rightarrow> string \<Rightarrow> (string \<times> string) option \<Rightarrow>
     (int \<Rightarrow> int \<Rightarrow> occurrence) list \<Rightarrow> control_payload \<Rightarrow> string \<Rightarrow> command"
where
  "kernel_command env kind key digest new_subject drafts payload event_record_id =
     \<lparr>cm_transaction_id = ce_id env 9, cm_kind = kind, cm_principal_kind = ''fluent-system'',
      cm_principal_id = ''kernel'', cm_key = key, cm_digest = digest, cm_at = ce_now env,
      cm_new_subject = new_subject, cm_occurrences = drafts, cm_payload = payload,
      cm_event_record_id = event_record_id, cm_retained_until = None\<rparr>"

definition rejection_kind :: string where
  "rejection_kind = ''core.candidate-rejection-observation''"
definition eligible_kind :: string where
  "eligible_kind = ''core.source-check-eligible-observation''"

text \<open>The input is the payload without its time, which the validation fills with the epoch.\<close>

definition rejection_json :: "rejection_payload \<Rightarrow> json" where
  "rejection_json p = JObject
     [(''checkId'', JString (rj_check_id p)), (''operation'', JString (rj_operation p)),
      (''stage'', JString (rj_stage p)), (''code'', JString (rj_code p)),
      (''summary'', JString (rj_summary p)), (''details'', texts_json (rj_details p)),
      (''sourceUrl'', JString (rj_source_url p)), (''sourceRef'', JString (rj_source_ref p)),
      (''commitId'', text_json (rj_commit_id p)), (''treeId'', text_json (rj_tree_id p)),
      (''catalogDigest'', text_json (rj_catalog_digest p)),
      (''activeCommitId'', text_json (rj_active_commit_id p))]"

definition rejection_key :: "rejection_payload \<Rightarrow> string" where
  "rejection_key p = ''core-rejection:'' @ rj_check_id p"

definition rejection_occurrences ::
    "control_env \<Rightarrow> control_store \<Rightarrow> rejection_payload \<Rightarrow> (int \<Rightarrow> int \<Rightarrow> occurrence) list"
where
  "rejection_occurrences env s p =
     [check_occurrence s RecordOccurrence rejection_kind (Some ''observation'') (rj_commit_id p)
        (RejectionPayload p) (rj_check_id p) (ce_now env) (ce_id env 0),
      check_occurrence s EventOccurrence ''core.candidate-rejected'' None (rj_commit_id p)
        (RejectionPayload p) (rj_check_id p) (ce_now env) (ce_id env 1)]"

definition record_candidate_rejection ::
    "control_env \<Rightarrow> rejection_payload \<Rightarrow> control_store \<Rightarrow> control_error + command_result \<times> control_store"
where
  "record_candidate_rejection env input s =
     and_then (require (is_rejection_payload (input\<lparr>rj_observed_at := 0\<rparr>)) OutsideContract) (\<lambda>_.
     let kind = ''core.record-candidate-rejection''; digest = ce_digest env (rejection_json input) in
     replay_or s kind (rejection_key input) digest
       (and_then (require (cs_watermark s \<le> ce_now env) ClockMovedBack) (\<lambda>_.
        let p = input\<lparr>rj_observed_at := ce_now env\<rparr> in
        and_then (require (is_rejection_payload p) OutsideContract) (\<lambda>_.
        write_command
          (kernel_command env kind (rejection_key input) digest None (rejection_occurrences env s p)
             (RejectionPayload p) (ce_id env 1)) s))))"

record eligible_input =
  ei_check_id :: string
  ei_candidate :: core_candidate
  ei_expected_sequence :: jsnum

definition eligible_json :: "eligible_input \<Rightarrow> json" where
  "eligible_json i =
     (let c = ei_candidate i in JObject
       [(''checkId'', JString (ei_check_id i)), (''sourceUrl'', JString (ca_source_url c)),
        (''sourceRef'', JString (ca_ref c)), (''commitId'', JString (ca_commit_id c)),
        (''treeId'', JString (ca_tree_id c)), (''catalogDigest'', JString (ca_catalog_digest c)),
        (''expectedLastTransactionSequence'', JNumber (ei_expected_sequence i))])"

definition eligible_key :: "eligible_input \<Rightarrow> string" where
  "eligible_key i = ''core-source-check:'' @ ei_check_id i"

definition eligible_payload_of :: "control_env \<Rightarrow> eligible_input \<Rightarrow> core_snapshot \<Rightarrow> eligible_payload" where
  "eligible_payload_of env i active =
     (let c = ei_candidate i in
      \<lparr>el_check_id = ei_check_id i, el_source_url = ca_source_url c, el_source_ref = ca_ref c,
       el_commit_id = ca_commit_id c, el_tree_id = ca_tree_id c,
       el_catalog_digest = ca_catalog_digest c, el_active_snapshot_id = sn_snapshot_id active,
       el_active_commit_id = sn_source_commit_id active, el_checked_at = ce_now env\<rparr>)"

definition eligible_occurrences ::
    "control_env \<Rightarrow> control_store \<Rightarrow> eligible_payload \<Rightarrow> (int \<Rightarrow> int \<Rightarrow> occurrence) list"
where
  "eligible_occurrences env s p =
     [check_occurrence s RecordOccurrence eligible_kind (Some ''observation'') (Some (el_commit_id p))
        (EligiblePayload p) (el_check_id p) (ce_now env) (ce_id env 0),
      check_occurrence s EventOccurrence ''core.source-check-eligible'' None (Some (el_commit_id p))
        (EligiblePayload p) (el_check_id p) (ce_now env) (ce_id env 1)]"

text \<open>\<open>revalidates\<close> is whether the files validate to the report the candidate carries
  (\<open>validateCoreCatalog\<close> and \<open>assertCandidateReport\<close>).\<close>

definition record_source_check_eligible ::
    "(core_candidate \<Rightarrow> bool) \<Rightarrow> control_env \<Rightarrow> eligible_input \<Rightarrow> control_store \<Rightarrow>
     control_error + command_result \<times> control_store"
where
  "record_source_check_eligible revalidates env i s =
     and_then (require (is_uuid_v7 (ei_check_id i)) (BadInput ''check ID'')) (\<lambda>_.
     and_then (assert_expected_sequence (ei_expected_sequence i)) (\<lambda>_.
     and_then (assert_materialized_candidate (ei_candidate i)) (\<lambda>_.
     and_then (require (revalidates (ei_candidate i)) (BadInput ''candidate report'')) (\<lambda>_.
     let kind = ''core.record-source-check-eligible''; digest = ce_digest env (eligible_json i) in
     replay_or s kind (eligible_key i) digest
       (and_then
         (require (cs_last_sequence s = js_int (ei_expected_sequence i))
            (StaleSequence (js_int (ei_expected_sequence i)) (cs_last_sequence s))) (\<lambda>_.
        case active_core_snapshot s of
          None \<Rightarrow> Inl (NotAllowed ''active snapshot'')
        | Some (active, _) \<Rightarrow>
            and_then
              (require
                 (sn_source_commit_id active = ca_commit_id (ei_candidate i) \<and>
                  sn_catalog_digest active = ca_catalog_digest (ei_candidate i))
                 (NotAllowed ''active snapshot'')) (\<lambda>_.
            and_then (require (cs_watermark s \<le> ce_now env) ClockMovedBack) (\<lambda>_.
            let p = eligible_payload_of env i active in
            and_then (require (is_eligible_payload p) OutsideContract) (\<lambda>_.
            write_command
              (kernel_command env kind (eligible_key i) digest None (eligible_occurrences env s p)
                 (EligiblePayload p) (ce_id env 1)) s)))))))))"

subsection \<open>Readiness\<close>

record source_check =
  ck_check_id :: string
  ck_outcome :: string
  ck_checked_at :: timestamp
  ck_commit_id :: "string option"
  ck_sequence :: int
  ck_validated :: bool

definition stage_outcome :: "string \<Rightarrow> string" where
  "stage_outcome stage =
     (if stage = ''source'' then ''source-unavailable''
      else if stage = ''validation'' then ''candidate-invalid''
      else if stage = ''continuity'' then ''continuity-blocked''
      else ''persistence-failed'')"

fun rejection_of :: "control_payload \<Rightarrow> rejection_payload option" where
  "rejection_of (RejectionPayload p) = Some p"
| "rejection_of _ = None"
fun eligible_of :: "control_payload \<Rightarrow> eligible_payload option" where
  "eligible_of (EligiblePayload p) = Some p"
| "eligible_of _ = None"
fun override_of :: "control_payload \<Rightarrow> override_payload option" where
  "override_of (OverridePayload p) = Some p"
| "override_of _ = None"

definition check_rows :: "control_store \<Rightarrow> occurrence list" where
  "check_rows s =
     newest_first
       (filter
         (\<lambda>oc. oc_type oc = RecordOccurrence \<and> (oc_kind oc = eligible_kind \<or> oc_kind oc = rejection_kind))
         (cs_occurrences s))"

text \<open>A rejection of an operator's rollback is passed over (\<open>continue\<close>).\<close>

definition source_check_of :: "occurrence \<Rightarrow> control_error + source_check list" where
  "source_check_of oc =
     (if oc_kind oc = eligible_kind
      then map_sum id
        (\<lambda>(_, p). [\<lparr>ck_check_id = el_check_id p, ck_outcome = ''eligible'',
           ck_checked_at = el_checked_at p, ck_commit_id = Some (el_commit_id p),
           ck_sequence = oc_sequence oc, ck_validated = True\<rparr>])
        (contract_of eligible_of is_eligible_payload oc)
      else map_sum id
        (\<lambda>(_, p). if rj_operation p \<noteq> ''automatic-source-check'' then []
           else [\<lparr>ck_check_id = rj_check_id p, ck_outcome = stage_outcome (rj_stage p),
             ck_checked_at = rj_observed_at p, ck_commit_id = rj_commit_id p,
             ck_sequence = oc_sequence oc,
             ck_validated = (rj_stage p = ''continuity'' \<or> rj_stage p = ''persistence'')\<rparr>])
        (contract_of rejection_of is_rejection_payload oc))"

definition source_checks :: "control_store \<Rightarrow> control_error + source_check list" where
  "source_checks s = map_sum id concat (map_res source_check_of (check_rows s))"

record admission_readiness =
  ar_reason :: string
  ar_evaluated_at :: timestamp
  ar_sequence :: int
  ar_active_snapshot_id :: "string option"
  ar_active_source_commit_id :: "string option"
  ar_latest_check_id :: "string option"
  ar_latest_check_outcome :: "string option"
  ar_latest_checked_at :: "timestamp option"
  ar_last_validated_at :: "timestamp option"
  ar_stale_at :: "timestamp option"
  ar_override_decision_id :: "string option"
  ar_override_expires_at :: "timestamp option"
  ar_degraded :: bool

definition readiness_ready :: "admission_readiness \<Rightarrow> bool" where
  "readiness_ready r \<longleftrightarrow> ar_reason r = ''ready''"

definition substantive_reason :: "core_snapshot \<Rightarrow> active_snapshot \<Rightarrow> source_check option \<Rightarrow> string" where
  "substantive_reason snapshot active substantive =
     (case substantive of
        None \<Rightarrow> ''ready''
      | Some c \<Rightarrow>
          if ck_outcome c = ''eligible''
          then if ck_commit_id c \<noteq> Some (sn_source_commit_id snapshot) then ''continuity-blocked'' else ''ready''
          else if ck_outcome c = ''candidate-invalid'' then ''candidate-invalid''
          else if ck_outcome c = ''persistence-failed'' then ''persistence-failed''
          else if ck_outcome c = ''continuity-blocked''
          then if ck_commit_id c = Some (sn_source_commit_id snapshot) \<and>
                  ck_sequence c < ac_transaction_sequence active then ''ready'' else ''continuity-blocked''
          else ''ready'')"

definition readiness_reason ::
    "(core_snapshot \<times> active_snapshot) option \<Rightarrow> source_check list \<Rightarrow> timestamp option \<Rightarrow> timestamp \<Rightarrow> string"
where
  "readiness_reason active checks stale_at evaluated_at =
     (case active of
        None \<Rightarrow> ''no-active-snapshot''
      | Some (snapshot, a) \<Rightarrow>
          let reason = substantive_reason snapshot a
                (List.find (\<lambda>c. ck_outcome c \<noteq> ''source-unavailable'') checks) in
          if reason = ''ready'' \<and> (case stale_at of None \<Rightarrow> True | Some t \<Rightarrow> t \<le> evaluated_at)
          then ''source-stale'' else reason)"

definition readiness_without_override ::
    "control_store \<Rightarrow> timestamp \<Rightarrow> control_error + admission_readiness"
where
  "readiness_without_override s evaluated_at =
     and_then (require (cs_watermark s \<le> evaluated_at) ClockMovedBack) (\<lambda>_.
     and_then (source_checks s) (\<lambda>checks.
     let active = active_core_snapshot s;
         latest = (case checks of [] \<Rightarrow> None | c # _ \<Rightarrow> Some c);
         validated = List.find ck_validated checks;
         stale_at = map_option (\<lambda>c. ck_checked_at c + one_day) validated in
     Inr \<lparr>ar_reason = readiness_reason active checks stale_at evaluated_at,
       ar_evaluated_at = evaluated_at, ar_sequence = cs_last_sequence s,
       ar_active_snapshot_id = map_option (sn_snapshot_id \<circ> fst) active,
       ar_active_source_commit_id = map_option (sn_source_commit_id \<circ> fst) active,
       ar_latest_check_id = map_option ck_check_id latest,
       ar_latest_check_outcome = map_option ck_outcome latest,
       ar_latest_checked_at = map_option ck_checked_at latest,
       ar_last_validated_at = map_option ck_checked_at validated, ar_stale_at = stale_at,
       ar_override_decision_id = None, ar_override_expires_at = None, ar_degraded = False\<rparr>))"

definition override_kind :: string where "override_kind = ''core.stale-source-override-decision''"

text \<open>The loop stops at the first override in force, so a later row is read only when no earlier one
  is.\<close>

fun override_in_force ::
    "string \<Rightarrow> timestamp \<Rightarrow> occurrence list \<Rightarrow> control_error + override_payload option"
where
  "override_in_force snapshot_id at [] = Inr None"
| "override_in_force snapshot_id at (oc # rest) =
     and_then (contract_of override_of is_override_payload oc) (\<lambda>(_, p).
     if ov_active_snapshot_id p = snapshot_id \<and> ov_decided_at p \<le> at \<and> at < ov_expires_at p
     then Inr (Some p) else override_in_force snapshot_id at rest)"

definition core_admission_readiness ::
    "control_store \<Rightarrow> timestamp \<Rightarrow> control_error + admission_readiness"
where
  "core_admission_readiness s evaluated_at =
     and_then (readiness_without_override s evaluated_at) (\<lambda>r.
     if ar_reason r \<noteq> ''source-stale'' then Inr r
     else (case ar_active_snapshot_id r of
             None \<Rightarrow> Inr r
           | Some snapshot_id \<Rightarrow>
               map_sum id
                 (\<lambda>found. case found of
                    None \<Rightarrow> r
                  | Some p \<Rightarrow> r\<lparr>ar_reason := ''ready'', ar_override_decision_id := Some (ov_decision_id p),
                      ar_override_expires_at := Some (ov_expires_at p), ar_degraded := True\<rparr>)
                 (override_in_force snapshot_id evaluated_at (records_of override_kind ''decision'' s))))"

subsection \<open>Overriding a stale source\<close>

record override_input =
  oi_expected_sequence :: jsnum
  oi_expires_at :: timestamp
  oi_reason :: string

definition override_json :: "(timestamp \<Rightarrow> string) \<Rightarrow> override_input \<Rightarrow> json" where
  "override_json instant i = JObject
     [(''expectedLastTransactionSequence'', JNumber (oi_expected_sequence i)),
      (''expiresAt'', JString (instant (oi_expires_at i))), (''reason'', JString (oi_reason i))]"

definition override_key :: "override_input \<Rightarrow> string" where
  "override_key i =
     ''core-stale-source-override:'' @ decimal_text (js_int (oi_expected_sequence i)) @ '':'' @
     decimal_text (oi_expires_at i)"

definition override_occurrence ::
    "control_store \<Rightarrow> override_input \<Rightarrow> occurrence_type \<Rightarrow> string \<Rightarrow> string option \<Rightarrow> override_payload \<Rightarrow>
     string option \<Rightarrow> string \<Rightarrow> int \<Rightarrow> int \<Rightarrow> occurrence"
where
  "override_occurrence s i type kind record_class p causation record_id sequence position =
     \<lparr>oc_record_id = record_id, oc_type = type, oc_kind = kind, oc_record_class = record_class,
      oc_subject_kind = ''control-plane-database'', oc_subject_id = cs_lineage_id s,
      oc_revision =
        Some (''transaction-sequence'', decimal_text (js_int (oi_expected_sequence i))),
      oc_source_kind = ''operator-principal'', oc_source_id = cs_operator_principal_id s,
      oc_source_revision = None, oc_payload = OverridePayload p,
      oc_correlation_id = ov_decision_id p, oc_causation_record_id = causation,
      oc_sequence = sequence, oc_position = position, oc_recorded_at = ov_decided_at p\<rparr>"

definition operator_command ::
    "control_env \<Rightarrow> control_store \<Rightarrow> string \<Rightarrow> string \<Rightarrow> string \<Rightarrow> (int \<Rightarrow> int \<Rightarrow> occurrence) list \<Rightarrow>
     control_payload \<Rightarrow> string \<Rightarrow> command"
where
  "operator_command env s kind key digest drafts payload event_record_id =
     (kernel_command env kind key digest None drafts payload event_record_id)
       \<lparr>cm_principal_kind := ''operator-principal'', cm_principal_id := cs_operator_principal_id s\<rparr>"

definition issue_stale_source_override ::
    "control_env \<Rightarrow> override_input \<Rightarrow> control_store \<Rightarrow> control_error + command_result \<times> control_store"
where
  "issue_stale_source_override env i s =
     and_then (assert_expected_sequence (oi_expected_sequence i)) (\<lambda>_.
     and_then (assert_bounded_reason (oi_reason i)) (\<lambda>_.
     let kind = ''core.issue-stale-source-override'';
         digest = ce_digest env (override_json (ce_iso env) i) in
     replay_or s kind (override_key i) digest
       (and_then (assert_command_time_and_sequence s (ce_now env) (oi_expected_sequence i)) (\<lambda>_.
        and_then (require (ce_now env < oi_expires_at i) (NotAllowed ''past expiry'')) (\<lambda>_.
        and_then (require (oi_expires_at i \<le> ce_now env + one_day) (NotAllowed ''24 hours'')) (\<lambda>_.
        and_then (readiness_without_override s (ce_now env)) (\<lambda>r.
        case (ar_reason r = ''source-stale'', ar_active_snapshot_id r, ar_latest_check_id r,
              ar_last_validated_at r, ar_stale_at r) of
          (True, Some snapshot_id, Some check_id, Some validated_at, Some stale_at) \<Rightarrow>
            let p = \<lparr>ov_decision_id = ce_id env 0, ov_database_lineage_id = cs_lineage_id s,
                  ov_operator_principal_id = cs_operator_principal_id s,
                  ov_active_snapshot_id = snapshot_id, ov_latest_check_id = check_id,
                  ov_last_validated_at = validated_at, ov_stale_at = stale_at,
                  ov_expected_sequence = oi_expected_sequence i, ov_reason = oi_reason i,
                  ov_decided_at = ce_now env, ov_expires_at = oi_expires_at i\<rparr> in
            and_then (require (is_override_payload p) OutsideContract) (\<lambda>_.
            write_command
              (operator_command env s kind (override_key i) digest
                 [override_occurrence s i RecordOccurrence override_kind (Some ''decision'') p None (ce_id env 0),
                  override_occurrence s i EventOccurrence ''core.stale-source-override-issued'' None p
                    (Some (ce_id env 0)) (ce_id env 1)]
                 (OverridePayload p) (ce_id env 1)) s)
        | _ \<Rightarrow> Inl (NotAllowed (ar_reason r)))))))))"

subsection \<open>Repeated rejections\<close>

fun suppress_over :: "rejection_payload \<Rightarrow> occurrence list \<Rightarrow> control_error + bool" where
  "suppress_over input [] = Inr False"
| "suppress_over input (oc # rest) =
     (if oc_kind oc = eligible_kind then Inr False
      else and_then (contract_of rejection_of is_rejection_payload oc) (\<lambda>(_, p).
        if rj_operation p \<noteq> ''automatic-source-check'' then suppress_over input rest
        else if rj_stage p \<noteq> rj_stage input \<or> rj_code p \<noteq> rj_code input \<or>
                rj_commit_id p \<noteq> rj_commit_id input
        then Inr False
        else Inr (rj_stage input \<noteq> ''continuity'' \<or>
          rj_active_commit_id p = rj_active_commit_id input)))"

definition should_suppress_rejection :: "rejection_payload \<Rightarrow> control_store \<Rightarrow> control_error + bool" where
  "should_suppress_rejection input s =
     (if rj_operation input \<noteq> ''automatic-source-check'' \<or>
         (rj_stage input \<noteq> ''validation'' \<and> rj_stage input \<noteq> ''continuity'')
      then Inr False else suppress_over input (check_rows s))"

text \<open>\<open>coreCandidateRejections\<close>, newest first.\<close>

definition candidate_rejections ::
    "jsnum \<Rightarrow> control_store \<Rightarrow> control_error + (string \<times> rejection_payload) list"
where
  "candidate_rejections limit s =
     and_then
       (require (is_safe_integer limit \<and> 1 \<le> js_int limit \<and> js_int limit \<le> 100) (BadInput ''limit'')) (\<lambda>_.
     map_res (contract_of rejection_of is_rejection_payload)
       (take (nat (js_int limit)) (records_of rejection_kind ''observation'' s)))"

subsection \<open>Source addresses\<close>

text \<open>The addresses \<open>src/src/core/git-source.ts\<close> lets an operator configure.\<close>

definition configured_source_url :: "string \<Rightarrow> bool" where
  "configured_source_url url \<longleftrightarrow> url \<in> {https_core_url, scp_core_url, ssh_slash_core_url}"

section \<open>Snapshots of Core\<close>

text \<open>
  Activating a snapshot of Core, and the operator's rollback to another (\<open>activateCoreSnapshot\<close>,
  \<open>rollbackCoreSnapshot\<close>, \<open>assertVerificationProfileHistoryRetention\<close> and
  \<open>assertGoalHistoryRetention\<close> of \<open>src/src/control/store.ts\<close>, the retention rules of
  \<open>src/src/core/validator.ts\<close> and the contract of a snapshot in \<open>src/src/control/registry.ts\<close>).
\<close>

subsection \<open>What a new catalog has to keep\<close>

definition kept :: "string list \<Rightarrow> string \<Rightarrow> control_error + unit" where
  "kept violations what = require (violations = []) (NotAllowed what)"

definition assert_declaration_retention :: "catalog_report \<Rightarrow> catalog_report \<Rightarrow> control_error + unit" where
  "assert_declaration_retention active candidate =
     (let ids = set (map de_repository_id (kr_repositories candidate)) in
      kept (map de_path (filter (\<lambda>d. de_repository_id d \<notin> ids) (kr_repositories active)))
        ''repository declarations'')"

definition latest_where :: "('a \<Rightarrow> bool) \<Rightarrow> 'a list \<Rightarrow> 'a option" where
  "latest_where p xs = List.find p (rev xs)"

definition profile_violation :: "catalog_report \<Rightarrow> core_profile \<Rightarrow> bool" where
  "profile_violation candidate p =
     (case latest_where (\<lambda>q. kp_id q = kp_id p \<and> kp_version q = kp_version p) (kr_profiles candidate) of
        None \<Rightarrow> True
      | Some q \<Rightarrow> kp_content_digest q \<noteq> kp_content_digest p)"

definition assert_profile_retention :: "catalog_report \<Rightarrow> catalog_report \<Rightarrow> control_error + unit" where
  "assert_profile_retention active candidate =
     and_then
       (require
          (\<not> (sg_verification_profile (kr_schemas active) \<noteq> None \<and>
              sg_verification_profile (kr_schemas candidate) = None))
          (NotAllowed ''profile schema'')) (\<lambda>_.
     kept (map kp_path (filter (profile_violation candidate) (kr_profiles active))) ''profiles'')"

definition goal_transitions :: "(string \<times> string list) list" where
  "goal_transitions =
     [(''planned'', [''planned'', ''active'', ''paused'', ''cancelled'']),
      (''active'', [''active'', ''paused'', ''completed'', ''cancelled'']),
      (''paused'', [''paused'', ''active'', ''completed'', ''cancelled'']),
      (''completed'', [''completed'']),
      (''cancelled'', [''cancelled''])]"

definition goal_may_become :: "string \<Rightarrow> string \<Rightarrow> bool" where
  "goal_may_become previous next' =
     (case map_of goal_transitions previous of None \<Rightarrow> False | Some ts \<Rightarrow> next' \<in> set ts)"

definition goal_violation :: "catalog_report \<Rightarrow> core_goal \<Rightarrow> bool" where
  "goal_violation candidate g =
     (case latest_where (\<lambda>h. go_id h = go_id g) (kr_goals candidate) of
        None \<Rightarrow> True
      | Some h \<Rightarrow> \<not> goal_may_become (go_status g) (go_status h))"

definition assert_goal_retention :: "catalog_report \<Rightarrow> catalog_report \<Rightarrow> control_error + unit" where
  "assert_goal_retention active candidate =
     and_then
       (require
          (\<not> (sg_goal (kr_schemas active) \<noteq> None \<and>
              (sg_envelope (kr_schemas candidate) = None \<or> sg_goal (kr_schemas candidate) = None)))
          (NotAllowed ''goal schemas'')) (\<lambda>_.
     kept (map go_path (filter (goal_violation candidate) (kr_goals active))) ''goals'')"

definition profile_schema_path :: string where
  "profile_schema_path = ''organization/schemas/v1/verification-profile.schema.json''"
definition envelope_schema_path :: string where
  "envelope_schema_path = ''organization/schemas/v1/envelope.schema.json''"
definition goal_schema_path :: string where
  "goal_schema_path = ''organization/schemas/v1/goal.schema.json''"

text \<open>\<open>LIKE 'organization/goals/%'\<close> (SQLite compares letters without case; the paths are lower case).\<close>

definition retained_files :: "control_store \<Rightarrow> (string \<times> string) list" where
  "retained_files s = concat (map sn_files (cs_snapshots s))"

definition profile_row_violation :: "catalog_report \<Rightarrow> string \<times> string \<Rightarrow> bool" where
  "profile_row_violation candidate row =
     (case latest_where (\<lambda>q. kp_path q = fst row) (kr_profiles candidate) of
        None \<Rightarrow> True
      | Some q \<Rightarrow> kp_content_digest q \<noteq> snd row)"

definition assert_profile_history :: "control_store \<Rightarrow> catalog_report \<Rightarrow> control_error + unit" where
  "assert_profile_history s candidate =
     and_then
       (require
          (\<not> (profile_schema_path \<in> set (map fst (retained_files s)) \<and>
              sg_verification_profile (kr_schemas candidate) = None))
          (NotAllowed ''profile schema'')) (\<lambda>_.
     kept
       (map fst (filter (\<lambda>r. prefix ''organization/contracts/verification-profiles/'' (fst r) \<and>
          profile_row_violation candidate r) (retained_files s))) ''profile history'')"

definition goal_row_violation :: "catalog_report \<Rightarrow> string \<Rightarrow> bool" where
  "goal_row_violation candidate path =
     (if path = envelope_schema_path then sg_envelope (kr_schemas candidate) = None
      else if path = goal_schema_path then sg_goal (kr_schemas candidate) = None
      else prefix ''organization/goals/'' path \<and> path \<notin> set (map go_path (kr_goals candidate)))"

definition assert_goal_history :: "control_store \<Rightarrow> catalog_report \<Rightarrow> control_error + unit" where
  "assert_goal_history s candidate =
     kept (filter (goal_row_violation candidate) (map fst (retained_files s))) ''goal history''"

subsection \<open>The contract of a snapshot\<close>

definition schema_shape :: "schema_digests \<Rightarrow> bool" where
  "schema_shape g \<longleftrightarrow>
     (sg_envelope g = None \<longleftrightarrow> sg_goal g = None) \<and>
     (sg_envelope g \<noteq> None \<longrightarrow> sg_verification_profile g \<noteq> None)"

definition is_snapshot_definition :: "string \<Rightarrow> core_candidate \<Rightarrow> bool" where
  "is_snapshot_definition snapshot_id c \<longleftrightarrow>
     (let r = ca_report c; g = kr_schemas r in
      schema_shape g \<and> is_uuid_v7 snapshot_id \<and> materialized_source_url (ca_source_url c) \<and>
      is_canonical_core_ref (ca_ref c) \<and> commit_sha (ca_commit_id c) \<and> commit_sha (ca_tree_id c) \<and>
      is_sha256 (kr_catalog_digest r) \<and>
      0 < kr_file_count r \<and> kr_file_count r \<le> max_safe_integer \<and>
      0 \<le> kr_total_bytes r \<and> kr_total_bytes r \<le> max_safe_integer \<and>
      0 < kr_valid_fixture_count r \<and> kr_valid_fixture_count r \<le> max_safe_integer \<and>
      0 < kr_invalid_fixture_count r \<and> kr_invalid_fixture_count r \<le> max_safe_integer \<and>
      is_sha256 (sg_repository g) \<and> is_sha256 (sg_surfaces g) \<and> is_sha256 (sg_governance g) \<and>
      given_valid is_sha256 (sg_verification_profile g) \<and> given_valid is_sha256 (sg_envelope g) \<and>
      given_valid is_sha256 (sg_goal g) \<and> given_valid is_sha256 (sg_settings g))"

definition definition_json :: "control_env \<Rightarrow> string \<Rightarrow> core_candidate \<Rightarrow> json" where
  "definition_json env snapshot_id c =
     (let r = ca_report c; g = kr_schemas r;
          given = (\<lambda>k v. case v of None \<Rightarrow> [] | Some d \<Rightarrow> [(k, JString d)]) in
      JObject
        ([(''snapshotId'', JString snapshot_id), (''sourceRepositoryId'', JString core_source_id),
          (''sourceUrl'', JString (ca_source_url c)), (''sourceRef'', JString (ca_ref c)),
          (''sourceCommitId'', JString (ca_commit_id c)), (''sourceTreeId'', JString (ca_tree_id c)),
          (''catalogDigest'', JString (kr_catalog_digest r)), (''fileCount'', int_json (kr_file_count r)),
          (''totalBytes'', int_json (kr_total_bytes r)),
          (''repositoryCount'', int_json (int (length (kr_repositories r)))),
          (''verificationProfileCount'', int_json (int (length (kr_profiles r))))] @
         (if sg_goal g = None then [] else [(''goalCount'', int_json (int (length (kr_goals r))))]) @
         [(''validFixtureCount'', int_json (kr_valid_fixture_count r)),
          (''invalidFixtureCount'', int_json (kr_invalid_fixture_count r)),
          (''schemaDigests'', JObject
             ([(''repository'', JString (sg_repository g)), (''surfaces'', JString (sg_surfaces g)),
               (''governance'', JString (sg_governance g))] @
              given ''verificationProfile'' (sg_verification_profile g) @
              given ''envelope'' (sg_envelope g) @ given ''goal'' (sg_goal g) @
              given ''settings'' (sg_settings g))),
          (''importedAt'', JString (ce_iso env (ce_now env)))]))"

definition active_json :: "control_env \<Rightarrow> control_store \<Rightarrow> string \<Rightarrow> core_candidate \<Rightarrow> json" where
  "active_json env s snapshot_id c = JObject
     [(''databaseLineageId'', JString (cs_lineage_id s)), (''snapshotId'', JString snapshot_id),
      (''catalogDigest'', JString (ca_catalog_digest c)), (''sourceCommitId'', JString (ca_commit_id c)),
      (''activatedAt'', JString (ce_iso env (ce_now env)))]"

subsection \<open>Writing a snapshot\<close>

definition core_occurrence ::
    "string \<times> string \<Rightarrow> string \<times> string \<Rightarrow> string \<Rightarrow> json \<Rightarrow> string \<Rightarrow> string option \<Rightarrow> timestamp \<Rightarrow>
     occurrence_type \<times> string \<times> string option \<Rightarrow> string \<Rightarrow> int \<Rightarrow> int \<Rightarrow> occurrence"
where
  "core_occurrence subject revision commit payload correlation causation at what record_id sequence position =
     (case what of (type, kind, record_class) \<Rightarrow>
       \<lparr>oc_record_id = record_id, oc_type = type, oc_kind = kind, oc_record_class = record_class,
        oc_subject_kind = fst subject, oc_subject_id = snd subject, oc_revision = Some revision,
        oc_source_kind = ''github-repository'', oc_source_id = core_source_id,
        oc_source_revision = Some (''git-commit-sha1'', ''sha1:'' @ commit),
        oc_payload = PlainPayload payload, oc_correlation_id = correlation,
        oc_causation_record_id = causation, oc_sequence = sequence, oc_position = position,
        oc_recorded_at = at\<rparr>)"

text \<open>The subject of the fact that a snapshot is active is the database, at the very sequence.\<close>

definition active_fact_occurrence ::
    "control_env \<Rightarrow> control_store \<Rightarrow> string \<Rightarrow> core_candidate \<Rightarrow> string \<Rightarrow> string option \<Rightarrow> string \<Rightarrow>
     int \<Rightarrow> int \<Rightarrow> occurrence"
where
  "active_fact_occurrence env s snapshot_id c correlation causation record_id sequence position =
     core_occurrence (''control-plane-database'', cs_lineage_id s)
       (''transaction-sequence'', decimal_text sequence) (ca_commit_id c)
       (active_json env s snapshot_id c) correlation causation (ce_now env)
       (RecordOccurrence, ''core.snapshot-active'', Some ''fact'') record_id sequence position"

definition snapshot_of :: "string \<Rightarrow> core_candidate \<Rightarrow> int \<Rightarrow> core_snapshot" where
  "snapshot_of snapshot_id c sequence =
     \<lparr>sn_snapshot_id = snapshot_id, sn_source_url = ca_source_url c, sn_source_ref = ca_ref c,
      sn_source_commit_id = ca_commit_id c, sn_source_tree_id = ca_tree_id c,
      sn_catalog_digest = ca_catalog_digest c, sn_activated_sequence = sequence,
      sn_files = map (\<lambda>f. (cf_path f, cf_content_digest f)) (ca_files c), sn_report = ca_report c\<rparr>"

definition make_active ::
    "control_env \<Rightarrow> string \<Rightarrow> core_candidate \<Rightarrow> command_result \<times> control_store \<Rightarrow> command_result \<times> control_store"
where
  "make_active env snapshot_id c written =
     (case written of (r, s) \<Rightarrow>
       (r, s\<lparr>cs_snapshots := cs_snapshots s @ [snapshot_of snapshot_id c (cr_sequence r)],
         cs_active := Some \<lparr>ac_snapshot_id = snapshot_id, ac_activated_at = ce_now env,
           ac_transaction_sequence = cr_sequence r\<rparr>\<rparr>))"

record activation_input =
  av_candidate :: core_candidate
  av_expected_sequence :: jsnum
  av_continuity_ancestor :: "string option"

definition activation_key :: "activation_input \<Rightarrow> string" where
  "activation_key i =
     ''core-activate:'' @ decimal_text (js_int (av_expected_sequence i)) @ '':'' @ ca_commit_id (av_candidate i)"

definition activation_json :: "activation_input \<Rightarrow> json" where
  "activation_json i =
     (let c = av_candidate i in JObject
       [(''catalogDigest'', JString (ca_catalog_digest c)),
        (''expectedLastTransactionSequence'', JNumber (av_expected_sequence i)),
        (''sourceCommitId'', JString (ca_commit_id c)), (''sourceRef'', JString (ca_ref c)),
        (''sourceTreeId'', JString (ca_tree_id c)), (''sourceUrl'', JString (ca_source_url c))])"

text \<open>The latest snapshot that was taken of a commit (\<open>retainedCoreCandidate\<close>); a commit that is not
  one is refused.\<close>

definition retained_candidate :: "string \<Rightarrow> control_store \<Rightarrow> control_error + core_snapshot option" where
  "retained_candidate commit s =
     and_then (require (commit_sha commit) (BadInput ''retained commit'')) (\<lambda>_.
     Inr (case rev (sort_key sn_activated_sequence
                (filter (\<lambda>n. sn_source_commit_id n = commit) (cs_snapshots s))) of
            [] \<Rightarrow> None
          | n # _ \<Rightarrow> Some n))"

definition assert_continuity :: "control_store \<Rightarrow> activation_input \<Rightarrow> control_error + unit" where
  "assert_continuity s i =
     (case active_core_snapshot s of
        None \<Rightarrow> require (av_continuity_ancestor i = None) (NotAllowed ''initial activation'')
      | Some (active, _) \<Rightarrow>
          and_then (retained_candidate (sn_source_commit_id active) s) (\<lambda>retained.
          case retained of
            None \<Rightarrow> Inl (NotAllowed ''not retained'')
          | Some n \<Rightarrow>
              and_then (assert_declaration_retention (sn_report n) (ca_report (av_candidate i))) (\<lambda>_.
              and_then (assert_profile_retention (sn_report n) (ca_report (av_candidate i))) (\<lambda>_.
              and_then (assert_goal_retention (sn_report n) (ca_report (av_candidate i))) (\<lambda>_.
              require (av_continuity_ancestor i = Some (sn_source_commit_id active))
                (NotAllowed ''source continuity''))))))"

definition activation_occurrences ::
    "control_env \<Rightarrow> control_store \<Rightarrow> core_candidate \<Rightarrow> (int \<Rightarrow> int \<Rightarrow> occurrence) list"
where
  "activation_occurrences env s c =
     (let snapshot = (''core-snapshot'', ce_id env 8);
          revision = (''core-catalog-sha256'', ca_catalog_digest c) in
      [core_occurrence snapshot revision (ca_commit_id c) (definition_json env (ce_id env 8) c)
         (ce_id env 3) None (ce_now env)
         (RecordOccurrence, ''core.snapshot-definition'', Some ''definition'') (ce_id env 0),
       active_fact_occurrence env s (ce_id env 8) c (ce_id env 3) None (ce_id env 1),
       core_occurrence snapshot revision (ca_commit_id c) (active_json env s (ce_id env 8) c)
         (ce_id env 3) None (ce_now env) (EventOccurrence, ''core.snapshot-activated'', None)
         (ce_id env 2)])"

definition activate_snapshot ::
    "(core_candidate \<Rightarrow> bool) \<Rightarrow> control_env \<Rightarrow> activation_input \<Rightarrow> control_store \<Rightarrow>
     control_error + command_result \<times> control_store"
where
  "activate_snapshot revalidates env i s =
     and_then (assert_expected_sequence (av_expected_sequence i)) (\<lambda>_.
     let c = av_candidate i in
     and_then (assert_materialized_candidate c) (\<lambda>_.
     and_then (require (revalidates c) (BadInput ''candidate report'')) (\<lambda>_.
     let kind = ''core.activate-snapshot''; digest = ce_digest env (activation_json i) in
     replay_or s kind (activation_key i) digest
       (and_then (assert_command_time_and_sequence s (ce_now env) (av_expected_sequence i)) (\<lambda>_.
        and_then (assert_profile_history s (ca_report c)) (\<lambda>_.
        and_then (assert_goal_history s (ca_report c)) (\<lambda>_.
        and_then (assert_continuity s i) (\<lambda>_.
        and_then (require (is_snapshot_definition (ce_id env 8) c) OutsideContract) (\<lambda>_.
        and_then
          (require (\<not> has_subject s ''core-snapshot'' (ce_id env 8)) (ConstraintFailed ''subjects'')) (\<lambda>_.
        map_sum id (make_active env (ce_id env 8) c)
          (write_command
             (kernel_command env kind (activation_key i) digest
                (Some (''core-snapshot'', ce_id env 8)) (activation_occurrences env s c)
                (PlainPayload (active_json env s (ce_id env 8) c)) (ce_id env 2)) s)))))))))))"

subsection \<open>Rollback\<close>

record rollback_input =
  rb_candidate :: core_candidate
  rb_expected_sequence :: jsnum
  rb_reason :: string

definition rollback_key :: "rollback_input \<Rightarrow> string" where
  "rollback_key i =
     ''core-rollback:'' @ decimal_text (js_int (rb_expected_sequence i)) @ '':'' @ ca_commit_id (rb_candidate i)"

definition rollback_json :: "rollback_input \<Rightarrow> json" where
  "rollback_json i =
     (let c = rb_candidate i in JObject
       [(''catalogDigest'', JString (ca_catalog_digest c)),
        (''expectedLastTransactionSequence'', JNumber (rb_expected_sequence i)),
        (''reason'', JString (rb_reason i)), (''sourceCommitId'', JString (ca_commit_id c)),
        (''sourceRef'', JString (ca_ref c)), (''sourceTreeId'', JString (ca_tree_id c)),
        (''sourceUrl'', JString (ca_source_url c))])"

definition decision_json :: "control_env \<Rightarrow> control_store \<Rightarrow> rollback_input \<Rightarrow> core_snapshot \<Rightarrow> json" where
  "decision_json env s i previous =
     (let c = rb_candidate i in JObject
       [(''decisionId'', JString (ce_id env 0)), (''decisionType'', JString ''core-rollback''),
        (''state'', JString ''resolved''), (''choice'', JString ''activate-target-commit''),
        (''databaseLineageId'', JString (cs_lineage_id s)),
        (''operatorPrincipalId'', JString (cs_operator_principal_id s)),
        (''activeSnapshotId'', JString (sn_snapshot_id previous)),
        (''activeCommitId'', JString (sn_source_commit_id previous)),
        (''targetCommitId'', JString (ca_commit_id c)),
        (''targetCatalogDigest'', JString (ca_catalog_digest c)), (''reason'', JString (rb_reason i)),
        (''expectedLastTransactionSequence'', JNumber (rb_expected_sequence i)),
        (''decidedAt'', JString (ce_iso env (ce_now env)))])"

definition rollback_event_json :: "control_env \<Rightarrow> control_store \<Rightarrow> rollback_input \<Rightarrow> core_snapshot \<Rightarrow> json" where
  "rollback_event_json env s i previous =
     (let c = rb_candidate i in JObject
       [(''databaseLineageId'', JString (cs_lineage_id s)), (''snapshotId'', JString (ce_id env 8)),
        (''catalogDigest'', JString (ca_catalog_digest c)),
        (''sourceCommitId'', JString (ca_commit_id c)),
        (''previousSnapshotId'', JString (sn_snapshot_id previous)),
        (''previousSourceCommitId'', JString (sn_source_commit_id previous)),
        (''decisionRecordId'', JString (ce_id env 0)),
        (''operatorPrincipalId'', JString (cs_operator_principal_id s)),
        (''reason'', JString (rb_reason i)), (''activatedAt'', JString (ce_iso env (ce_now env)))])"

text \<open>What the contracts of the decision and of its event ask of their fields.\<close>

definition is_rollback_decision ::
    "control_env \<Rightarrow> control_store \<Rightarrow> rollback_input \<Rightarrow> core_snapshot \<Rightarrow> bool"
where
  "is_rollback_decision env s i previous \<longleftrightarrow>
     is_uuid_v7 (ce_id env 0) \<and> is_uuid_v7 (cs_lineage_id s) \<and>
     is_uuid_v7 (cs_operator_principal_id s) \<and> is_uuid_v7 (sn_snapshot_id previous) \<and>
     commit_sha (sn_source_commit_id previous) \<and> commit_sha (ca_commit_id (rb_candidate i)) \<and>
     is_sha256 (ca_catalog_digest (rb_candidate i)) \<and> is_bounded_diagnostic (rb_reason i) \<and>
     is_positive_integer (rb_expected_sequence i)"

definition is_rollback_activated ::
    "control_env \<Rightarrow> control_store \<Rightarrow> rollback_input \<Rightarrow> core_snapshot \<Rightarrow> bool"
where
  "is_rollback_activated env s i previous \<longleftrightarrow>
     is_uuid_v7 (cs_lineage_id s) \<and> is_uuid_v7 (ce_id env 8) \<and>
     is_sha256 (ca_catalog_digest (rb_candidate i)) \<and> commit_sha (ca_commit_id (rb_candidate i)) \<and>
     is_uuid_v7 (sn_snapshot_id previous) \<and> commit_sha (sn_source_commit_id previous) \<and>
     is_uuid_v7 (ce_id env 0) \<and> is_uuid_v7 (cs_operator_principal_id s) \<and>
     is_bounded_diagnostic (rb_reason i)"

definition rollback_occurrences ::
    "control_env \<Rightarrow> control_store \<Rightarrow> rollback_input \<Rightarrow> core_snapshot \<Rightarrow> (int \<Rightarrow> int \<Rightarrow> occurrence) list"
where
  "rollback_occurrences env s i previous =
     (let c = rb_candidate i; snapshot = (''core-snapshot'', ce_id env 8);
          revision = (''core-catalog-sha256'', ca_catalog_digest c); cause = Some (ce_id env 0) in
      [\<lambda>sequence position.
         \<lparr>oc_record_id = ce_id env 0, oc_type = RecordOccurrence, oc_kind = ''core.rollback-decision'',
          oc_record_class = Some ''decision'', oc_subject_kind = ''control-plane-database'',
          oc_subject_id = cs_lineage_id s,
          oc_revision =
            Some (''transaction-sequence'', decimal_text (js_int (rb_expected_sequence i))),
          oc_source_kind = ''operator-principal'', oc_source_id = cs_operator_principal_id s,
          oc_source_revision = None, oc_payload = PlainPayload (decision_json env s i previous),
          oc_correlation_id = ce_id env 0, oc_causation_record_id = None, oc_sequence = sequence,
          oc_position = position, oc_recorded_at = ce_now env\<rparr>,
       core_occurrence snapshot revision (ca_commit_id c) (definition_json env (ce_id env 8) c)
         (ce_id env 0) cause (ce_now env)
         (RecordOccurrence, ''core.snapshot-definition'', Some ''definition'') (ce_id env 1),
       active_fact_occurrence env s (ce_id env 8) c (ce_id env 0) cause (ce_id env 2),
       core_occurrence snapshot revision (ca_commit_id c) (rollback_event_json env s i previous)
         (ce_id env 0) cause (ce_now env) (EventOccurrence, ''core.snapshot-rollback-activated'', None)
         (ce_id env 3)])"

definition rollback_snapshot ::
    "(core_candidate \<Rightarrow> bool) \<Rightarrow> control_env \<Rightarrow> rollback_input \<Rightarrow> control_store \<Rightarrow>
     control_error + command_result \<times> control_store"
where
  "rollback_snapshot revalidates env i s =
     and_then (assert_expected_sequence (rb_expected_sequence i)) (\<lambda>_.
     and_then (assert_bounded_reason (rb_reason i)) (\<lambda>_.
     let c = rb_candidate i in
     and_then (assert_materialized_candidate c) (\<lambda>_.
     and_then (require (revalidates c) (BadInput ''candidate report'')) (\<lambda>_.
     let kind = ''core.rollback-snapshot''; digest = ce_digest env (rollback_json i) in
     replay_or s kind (rollback_key i) digest
       (and_then (assert_command_time_and_sequence s (ce_now env) (rb_expected_sequence i)) (\<lambda>_.
        case active_core_snapshot s of
          None \<Rightarrow> Inl (NotAllowed ''active snapshot'')
        | Some (previous, _) \<Rightarrow>
            and_then (retained_candidate (sn_source_commit_id previous) s) (\<lambda>retained.
            case retained of
              None \<Rightarrow> Inl (NotAllowed ''not retained'')
            | Some n \<Rightarrow>
                and_then (assert_declaration_retention (sn_report n) (ca_report c)) (\<lambda>_.
                and_then
                  (require (sn_source_commit_id previous \<noteq> ca_commit_id c) (NotAllowed ''already active'')) (\<lambda>_.
                and_then (require (is_rollback_decision env s i previous) OutsideContract) (\<lambda>_.
                and_then (require (is_snapshot_definition (ce_id env 8) c) OutsideContract) (\<lambda>_.
                and_then (require (is_rollback_activated env s i previous) OutsideContract) (\<lambda>_.
                and_then
                  (require (\<not> has_subject s ''core-snapshot'' (ce_id env 8)) (ConstraintFailed ''subjects'')) (\<lambda>_.
                map_sum id (make_active env (ce_id env 8) c)
                  (write_command
                     ((operator_command env s kind (rollback_key i) digest
                        (rollback_occurrences env s i previous)
                        (PlainPayload (rollback_event_json env s i previous)) (ce_id env 3))
                      \<lparr>cm_new_subject := Some (''core-snapshot'', ce_id env 8)\<rparr>) s))))))))))))))"

end
