(* ===== verification/Surface_Probe.thy ===== *)
theory Surface_Probe
  imports Control_Store Artifact_Verification
begin

text \<open>
  The canonical surfaces of a repository: reading them from GitHub (\<open>src/src/repository/surfaces.ts\<close>)
  and judging what was read against Core's contract (\<open>normalizeRepositorySurfaceProbe\<close>,
  \<open>evaluateRepositorySurfaceProbe\<close> and \<open>repositorySurfaceRequirementResults\<close> of
  \<open>src/src/control/store.ts\<close>). The hashes of the standard library are parameters, and so is GitHub:
  the answer for each address. One inspection gets one answer for an address, so the cache of trees
  the code keeps is not seen. \<open>localeCompare\<close> on the names of a directory is a parameter too.
\<close>

subsection \<open>Git objects\<close>

record tree_entry =
  te_path :: string
  te_mode :: string
  te_type :: string
  te_object_id :: string
  te_size :: "int option"

record surface_hashes =
  sh_sha1 :: "int list \<Rightarrow> string"
  sh_sha256 :: "int list \<Rightarrow> string"
  sh_locale_sort :: "tree_entry list \<Rightarrow> tree_entry list"
  sh_governance :: "int list \<Rightarrow> json option"

definition utf8_bytes :: "string \<Rightarrow> int list" where
  "utf8_bytes s =
     concat (map (\<lambda>c. let n = code_unit c in
       if n < 128 then [n] else [192 + n div 64, 128 + n mod 64]) s)"

definition nul_byte :: int where "nul_byte = 0"

fun unhex :: "string \<Rightarrow> int list" where
  "unhex (a # b # rest) = (hex_value a * 16 + hex_value b) # unhex rest"
| "unhex _ = []"

definition git_blob_object_id :: "surface_hashes \<Rightarrow> int list \<Rightarrow> string" where
  "git_blob_object_id sh bytes =
     sh_sha1 sh (utf8_bytes (''blob '' @ decimal_text (int (length bytes))) @ [nul_byte] @ bytes)"

definition tree_order :: "tree_entry \<Rightarrow> int list" where
  "tree_order e = utf8_bytes (te_path e @ (if te_type e = ''tree'' then ''/'' else []))"

definition tree_line :: "tree_entry \<Rightarrow> int list" where
  "tree_line e =
     utf8_bytes ((if te_mode e = ''040000'' then ''40000'' else te_mode e) @ '' '' @ te_path e) @
     [nul_byte] @ unhex (te_object_id e)"

definition git_tree_object_id :: "surface_hashes \<Rightarrow> tree_entry list \<Rightarrow> string" where
  "git_tree_object_id sh entries =
     (let content = concat (map tree_line (sort_key tree_order entries)) in
      sh_sha1 sh (utf8_bytes (''tree '' @ decimal_text (int (length content))) @ [nul_byte] @ content))"

definition tree_entry_json :: "tree_entry \<Rightarrow> json" where
  "tree_entry_json e = JObject
     [(''path'', JString (te_path e)), (''mode'', JString (te_mode e)),
      (''type'', JString (te_type e)), (''objectId'', JString (te_object_id e)),
      (''size'', (case te_size e of None \<Rightarrow> JNull | Some n \<Rightarrow> JNumber (JInt n)))]"

definition surface_tree_digest :: "surface_hashes \<Rightarrow> tree_entry list \<Rightarrow> string" where
  "surface_tree_digest sh entries =
     ''sha256:'' @
     sh_sha256 sh (utf8_bytes (render (JArray (map tree_entry_json (sh_locale_sort sh entries)))))"

subsection \<open>Reading GitHub\<close>

definition tree_modes :: "string list" where
  "tree_modes = [''100644'', ''100755'', ''120000'', ''040000'', ''160000'']"

definition object_types :: "string list" where
  "object_types = [''blob'', ''tree'', ''commit'']"

text \<open>\<open>/^[^/\u0000]{1,255}$/\<close>.\<close>

definition tree_name :: "string \<Rightarrow> bool" where
  "tree_name s \<longleftrightarrow> s \<noteq> [] \<and> length s \<le> 255 \<and> list_all (\<lambda>c. c \<noteq> CHR ''/'' \<and> code_unit c \<noteq> 0) s"

definition parse_commit :: "json \<Rightarrow> (string \<times> string) option" where
  "parse_commit value =
     (case (as_text (field ''sha'' value), as_text (json_field ''sha'' (json_field ''tree'' (field ''commit'' value)))) of
        (Some commit, Some tree) \<Rightarrow> if commit_sha commit \<and> commit_sha tree then Some (commit, tree) else None
      | _ \<Rightarrow> None)"

text \<open>The size is absent, or it is a safe integer that is not negative.\<close>

definition parse_tree_entry :: "json \<Rightarrow> tree_entry option" where
  "parse_tree_entry raw =
     (case (as_text (field ''path'' raw), as_text (field ''mode'' raw), as_text (field ''type'' raw),
            as_text (field ''sha'' raw)) of
        (Some path, Some mode, Some type, Some sha) \<Rightarrow>
          (let given = field ''size'' raw in
           if tree_name path \<and> mode \<in> set tree_modes \<and> type \<in> set object_types \<and> commit_sha sha \<and>
              (given = None \<or> (case safe_integer given of None \<Rightarrow> False | Some n \<Rightarrow> 0 \<le> n))
           then Some \<lparr>te_path = path, te_mode = mode, te_type = type, te_object_id = sha,
             te_size = safe_integer given\<rparr>
           else None)
      | _ \<Rightarrow> None)"

definition parse_tree :: "surface_hashes \<Rightarrow> string \<Rightarrow> json \<Rightarrow> tree_entry list option" where
  "parse_tree sh expected value =
     (case (as_text (field ''sha'' value), field ''truncated'' value, map_option as_array (field ''tree'' value)) of
        (Some sha, Some (JBool False), Some (Some raws)) \<Rightarrow>
          if sha \<noteq> expected \<or> length raws > 2000 then None
          else (case those (map parse_tree_entry raws) of
                  None \<Rightarrow> None
                | Some entries \<Rightarrow>
                    if \<not> distinct (map te_path entries) then None
                    else (let sorted' = sh_locale_sort sh entries in
                      if git_tree_object_id sh sorted' = expected then Some sorted' else None))
      | _ \<Rightarrow> None)"

text \<open>Base64 as \<open>Buffer.from\<close> reads it after the test of its form: bits that are left over are dropped.\<close>

fun loose_base64 :: "string \<Rightarrow> int list option" where
  "loose_base64 [] = Some []"
| "loose_base64 (a # b # c # d # rest) =
     (if base64_char a \<and> base64_char b \<and> base64_char c \<and> base64_char d
      then
        (let n = ((base64_value a * 64 + base64_value b) * 64 + base64_value c) * 64 + base64_value d in
         map_option (\<lambda>bs. n div 65536 # n div 256 mod 256 # n mod 256 # bs) (loose_base64 rest))
      else if rest \<noteq> [] \<or> \<not> base64_char a \<or> \<not> base64_char b \<or> d \<noteq> CHR ''='' then None
      else if c = CHR ''='' then Some [base64_value a * 4 + base64_value b div 16]
      else if base64_char c
      then Some [base64_value a * 4 + base64_value b div 16,
                 base64_value b mod 16 * 16 + base64_value c div 4]
      else None)"
| "loose_base64 _ = None"

definition parse_blob :: "surface_hashes \<Rightarrow> string \<Rightarrow> json \<Rightarrow> int list option" where
  "parse_blob sh expected value =
     (case (as_text (field ''sha'' value), as_text (field ''encoding'' value),
            as_text (field ''content'' value), safe_integer (field ''size'' value)) of
        (Some sha, Some encoding, Some content, Some n) \<Rightarrow>
          if sha \<noteq> expected \<or> encoding \<noteq> ''base64'' \<or> n < 0 \<or> 1048576 < n then None
          else (case loose_base64 (filter (\<lambda>c. c \<noteq> CHR 0x0D \<and> c \<noteq> CHR 0x0A) content) of
                  None \<Rightarrow> None
                | Some bytes \<Rightarrow>
                    if int (length bytes) = n \<and> git_blob_object_id sh bytes = expected
                    then Some bytes else None)
      | _ \<Rightarrow> None)"

record surface_definition =
  sd_id :: string
  sd_path :: string
  sd_artifact_type :: string

record found_surface =
  fo_mode :: string
  fo_object_type :: string
  fo_object_id :: string
  fo_bytes :: "int list option"
  fo_tree_entries :: "tree_entry list option"

text \<open>An entry of a probe; without a found object it is missing.\<close>

record probe_entry =
  pe_surface_id :: string
  pe_path :: string
  pe_found :: "found_surface option"

record resolved_probe =
  pr_default_branch :: string
  pr_repository_commit_id :: string
  pr_repository_tree_id :: string
  pr_surfaces :: "probe_entry list"

text \<open>A probe is unavailable or resolved; \<open>None\<close> is unavailable.\<close>

type_synonym surface_probe = "resolved_probe option"

definition answer_value_of :: "github_answer \<Rightarrow> json option" where
  "answer_value_of a = (case a of AnswerUnavailable \<Rightarrow> None | Answer status v \<Rightarrow> if status = 200 then Some v else None)"

definition load_tree ::
    "surface_hashes \<Rightarrow> (string \<Rightarrow> github_answer) \<Rightarrow> string \<Rightarrow> string \<Rightarrow> tree_entry list option"
where
  "load_tree sh api base tree_id =
     Option.bind (answer_value_of (api (base @ ''/git/trees/'' @ tree_id))) (parse_tree sh tree_id)"

definition found_in_tree :: "tree_entry \<Rightarrow> found_surface" where
  "found_in_tree e =
     \<lparr>fo_mode = te_mode e, fo_object_type = te_type e, fo_object_id = te_object_id e,
      fo_bytes = None, fo_tree_entries = None\<rparr>"

text \<open>\<open>Some None\<close> is a surface that is missing, \<open>None\<close> one whose tree could not be read.\<close>

fun resolve_surface ::
    "(string \<Rightarrow> tree_entry list option) \<Rightarrow> string \<Rightarrow> string list \<Rightarrow> found_surface option option"
where
  "resolve_surface load tree_id [] = None"
| "resolve_surface load tree_id (segment # rest) =
     (case load tree_id of
        None \<Rightarrow> None
      | Some entries \<Rightarrow>
          (case List.find (\<lambda>e. te_path e = segment) entries of
             None \<Rightarrow> Some None
           | Some e \<Rightarrow>
               if rest = [] \<or> te_type e \<noteq> ''tree'' \<or> te_mode e \<noteq> ''040000''
               then Some (Some (found_in_tree e))
               else resolve_surface load (te_object_id e) rest))"

definition inspect_surface ::
    "surface_hashes \<Rightarrow> (string \<Rightarrow> github_answer) \<Rightarrow> string \<Rightarrow> string \<Rightarrow> surface_definition \<Rightarrow> probe_entry option"
where
  "inspect_surface sh api base root d =
     (case resolve_surface (load_tree sh api base) root (split_char CHR ''/'' (sd_path d)) of
        None \<Rightarrow> None
      | Some None \<Rightarrow> Some \<lparr>pe_surface_id = sd_id d, pe_path = sd_path d, pe_found = None\<rparr>
      | Some (Some fo) \<Rightarrow>
          map_option
            (\<lambda>fo'. \<lparr>pe_surface_id = sd_id d, pe_path = sd_path d, pe_found = Some fo'\<rparr>)
            (if fo_object_type fo = ''blob''
             then map_option (\<lambda>bytes. fo\<lparr>fo_bytes := Some bytes\<rparr>)
               (Option.bind (answer_value_of (api (base @ ''/git/blobs/'' @ fo_object_id fo)))
                  (parse_blob sh (fo_object_id fo)))
             else if fo_object_type fo = ''tree''
             then map_option (\<lambda>entries. fo\<lparr>fo_tree_entries := Some entries\<rparr>)
               (load_tree sh api base (fo_object_id fo))
             else Some fo))"

definition inspect_repository_surfaces ::
    "surface_hashes \<Rightarrow> (string \<Rightarrow> github_answer) \<Rightarrow> string \<Rightarrow> string \<Rightarrow> string \<Rightarrow>
     surface_definition list \<Rightarrow> control_error + surface_probe"
where
  "inspect_repository_surfaces sh api owner name default_branch contract =
     and_then (require (is_owner_name owner) (BadInput ''owner'')) (\<lambda>_.
     and_then (require (is_repository_name name) (BadInput ''name'')) (\<lambda>_.
     and_then
       (require (default_branch \<noteq> [] \<and> length default_branch \<le> 255) (BadInput ''default branch'')) (\<lambda>_.
     and_then (require (length contract = 4) (BadInput ''contract'')) (\<lambda>_.
     let base = ''/repos/'' @ encode_uri_component owner @ ''/'' @ encode_uri_component name in
     Inr (case Option.bind
                 (answer_value_of (api (base @ ''/commits/'' @ encode_uri_component default_branch)))
                 parse_commit of
            None \<Rightarrow> None
          | Some (commit, tree) \<Rightarrow>
              map_option
                (\<lambda>entries. \<lparr>pr_default_branch = default_branch, pr_repository_commit_id = commit,
                   pr_repository_tree_id = tree, pr_surfaces = entries\<rparr>)
                (those (map (inspect_surface sh api base tree) contract)))))))"

subsection \<open>Judging a probe\<close>

definition normal_tree_entry :: "tree_entry \<Rightarrow> bool" where
  "normal_tree_entry e \<longleftrightarrow>
     tree_name (te_path e) \<and> te_mode e \<in> set tree_modes \<and> te_type e \<in> set object_types \<and>
     commit_sha (te_object_id e) \<and>
     (case te_size e of None \<Rightarrow> True | Some n \<Rightarrow> 0 \<le> n \<and> n \<le> max_safe_integer)"

definition normalize_tree_entries ::
    "surface_hashes \<Rightarrow> tree_entry list \<Rightarrow> control_error + tree_entry list"
where
  "normalize_tree_entries sh entries =
     and_then (require (length entries \<le> 2000) (BadInput ''tree bound'')) (\<lambda>_.
     and_then
       (require (list_all normal_tree_entry entries \<and> distinct (map te_path entries))
          (BadInput ''tree entry'')) (\<lambda>_.
     Inr (sh_locale_sort sh entries)))"

definition normalize_probe_entry :: "surface_hashes \<Rightarrow> probe_entry \<Rightarrow> control_error + probe_entry" where
  "normalize_probe_entry sh e =
     and_then
       (require (1 \<le> length (pe_path e) \<and> length (pe_path e) \<le> 512) (BadInput ''entry identity'')) (\<lambda>_.
     case pe_found e of
       None \<Rightarrow> Inr e
     | Some fo \<Rightarrow>
         and_then
           (require
              (fo_mode fo \<in> set tree_modes \<and> fo_object_type fo \<in> set object_types \<and>
               commit_sha (fo_object_id fo) \<and>
               (case fo_bytes fo of None \<Rightarrow> True | Some bytes \<Rightarrow> length bytes \<le> 1048576))
              (BadInput ''found entry'')) (\<lambda>_.
         case fo_tree_entries fo of
           None \<Rightarrow> Inr e
         | Some entries \<Rightarrow>
             and_then (normalize_tree_entries sh entries) (\<lambda>entries'.
             Inr (e\<lparr>pe_found := Some (fo\<lparr>fo_tree_entries := Some entries'\<rparr>)\<rparr>))))"

definition normalize_surface_probe :: "surface_hashes \<Rightarrow> surface_probe \<Rightarrow> control_error + surface_probe" where
  "normalize_surface_probe sh probe =
     (case probe of
        None \<Rightarrow> Inr None
      | Some p \<Rightarrow>
          and_then
            (require
               (is_branch_name (pr_default_branch p) \<and> commit_sha (pr_repository_commit_id p) \<and>
                commit_sha (pr_repository_tree_id p) \<and> length (pr_surfaces p) \<le> 4)
               (BadInput ''resolved probe'')) (\<lambda>_.
          and_then
            (require (distinct (map pe_surface_id (pr_surfaces p))) (BadInput ''entry identity'')) (\<lambda>_.
          and_then (map_res (normalize_probe_entry sh) (pr_surfaces p)) (\<lambda>entries.
          Inr (Some (p\<lparr>pr_surfaces := entries\<rparr>))))))"

record surface_evaluation =
  sv_default_branch :: "string option"
  sv_repository_commit_id :: "string option"
  sv_repository_tree_id :: "string option"
  sv_surfaces :: "surface_summary list"
  sv_governance_policy :: "json option"
  sv_result :: string
  sv_failed_surface_id :: "string option"

definition surface_failure ::
    "resolved_probe \<Rightarrow> surface_summary list \<Rightarrow> string \<Rightarrow> string \<Rightarrow> surface_evaluation"
where
  "surface_failure p summaries result failed =
     \<lparr>sv_default_branch = Some (pr_default_branch p),
      sv_repository_commit_id = Some (pr_repository_commit_id p),
      sv_repository_tree_id = Some (pr_repository_tree_id p), sv_surfaces = summaries,
      sv_governance_policy = None, sv_result = result, sv_failed_surface_id = Some failed\<rparr>"

definition wrong_type :: "surface_definition \<Rightarrow> found_surface \<Rightarrow> bool" where
  "wrong_type d fo \<longleftrightarrow>
     (if sd_artifact_type d = ''file''
      then fo_object_type fo \<noteq> ''blob'' \<or> fo_mode fo \<notin> {''100644'', ''100755''} \<or>
        fo_bytes fo = None \<or> fo_tree_entries fo \<noteq> None
      else fo_object_type fo \<noteq> ''tree'' \<or> fo_mode fo \<noteq> ''040000'' \<or>
        fo_bytes fo \<noteq> None \<or> fo_tree_entries fo = None)"

definition summary_of ::
    "surface_hashes \<Rightarrow> surface_definition \<Rightarrow> found_surface \<Rightarrow> control_error + surface_summary"
where
  "summary_of sh d fo =
     (if sd_artifact_type d = ''file''
      then
        (let bytes = the (fo_bytes fo) in
         if git_blob_object_id sh bytes \<noteq> fo_object_id fo then Inl (NotAllowed ''blob identity'')
         else Inr \<lparr>su_surface_id = sd_id d, su_path = sd_path d, su_artifact_type = ''file'',
           su_object_id = fo_object_id fo, su_content_digest = ''sha256:'' @ sh_sha256 sh bytes,
           su_size = JInt (int (length bytes))\<rparr>)
      else
        (let entries = the (fo_tree_entries fo) in
         if git_tree_object_id sh entries \<noteq> fo_object_id fo then Inl (NotAllowed ''tree identity'')
         else Inr \<lparr>su_surface_id = sd_id d, su_path = sd_path d, su_artifact_type = ''directory'',
           su_object_id = fo_object_id fo, su_content_digest = surface_tree_digest sh entries,
           su_size = JInt (int (length entries))\<rparr>))"

text \<open>The loop over the contract, with the summaries and the policy found so far.\<close>

fun evaluate_surfaces ::
    "surface_hashes \<Rightarrow> resolved_probe \<Rightarrow> nat \<Rightarrow> surface_summary list \<Rightarrow> json option \<Rightarrow>
     surface_definition list \<Rightarrow> control_error + surface_evaluation"
where
  "evaluate_surfaces sh p expected summaries policy [] =
     (if length (pr_surfaces p) \<noteq> expected \<or> policy = None then Inl (NotAllowed ''incomplete probe'')
      else Inr \<lparr>sv_default_branch = Some (pr_default_branch p),
        sv_repository_commit_id = Some (pr_repository_commit_id p),
        sv_repository_tree_id = Some (pr_repository_tree_id p), sv_surfaces = summaries,
        sv_governance_policy = policy, sv_result = ''valid'', sv_failed_surface_id = None\<rparr>)"
| "evaluate_surfaces sh p expected summaries policy (d # rest) =
     (case List.find (\<lambda>e. pe_surface_id e = sd_id d) (pr_surfaces p) of
        None \<Rightarrow> Inr (surface_failure p summaries ''missing'' (sd_id d))
      | Some e \<Rightarrow>
          (case pe_found e of
             None \<Rightarrow> Inr (surface_failure p summaries ''missing'' (sd_id d))
           | Some fo \<Rightarrow>
               if pe_path e \<noteq> sd_path d then Inr (surface_failure p summaries ''missing'' (sd_id d))
               else if wrong_type d fo then Inr (surface_failure p summaries ''wrong-type'' (sd_id d))
               else
                 and_then (summary_of sh d fo) (\<lambda>summary.
                 if sd_artifact_type d = ''file'' \<and> sd_id d = ''agent-governance''
                 then (case sh_governance sh (the (fo_bytes fo)) of
                         None \<Rightarrow> Inr (surface_failure p (summaries @ [summary]) ''invalid'' (sd_id d))
                       | Some policy' \<Rightarrow>
                           evaluate_surfaces sh p expected (summaries @ [summary]) (Some policy') rest)
                 else evaluate_surfaces sh p expected (summaries @ [summary]) policy rest)))"

definition evaluate_surface_probe ::
    "surface_hashes \<Rightarrow> surface_probe \<Rightarrow> string \<Rightarrow> surface_definition list \<Rightarrow>
     control_error + surface_evaluation"
where
  "evaluate_surface_probe sh probe expected_branch contract =
     (case probe of
        None \<Rightarrow>
          Inr \<lparr>sv_default_branch = None, sv_repository_commit_id = None, sv_repository_tree_id = None,
            sv_surfaces = [], sv_governance_policy = None, sv_result = ''unavailable'',
            sv_failed_surface_id = None\<rparr>
      | Some p \<Rightarrow>
          and_then
            (require (pr_default_branch p = expected_branch) (NotAllowed ''default branch'')) (\<lambda>_.
          evaluate_surfaces sh p (length contract) [] None contract))"

definition requirement_results ::
    "surface_definition list \<Rightarrow> surface_evaluation \<Rightarrow> requirement_result list"
where
  "requirement_results contract v =
     (let failed = Option.bind (sv_failed_surface_id v)
            (\<lambda>f. find_index (\<lambda>d. sd_id d = f) contract) in
      map (\<lambda>i.
        let d = contract ! i;
            summary = List.find (\<lambda>s. su_surface_id s = sd_id d) (sv_surfaces v);
            result =
              (if sv_result v = ''valid'' then ''pass''
               else case failed of
                 None \<Rightarrow> ''unknown''
               | Some f \<Rightarrow> if i < f then ''pass'' else if i = f then ''fail'' else ''unknown'') in
        \<lparr>rq_requirement_id = requirement_id_of (sd_id d), rq_surface_id = sd_id d,
         rq_result = result,
         rq_evidence_digest =
           (if result = ''pass'' \<or> (result = ''fail'' \<and> sv_result v = ''invalid'')
            then map_option su_content_digest summary else None)\<rparr>)
        [0..<length contract])"

end
