(* ===== verification/Repository_Commands.thy ===== *)
theory Repository_Commands
  imports Core_Snapshots Surface_Probe
begin

text \<open>
  The way of a repository to its enrollment and the operator's hold on it
  (\<open>materializeRepositoryCoreAuthority\<close>, \<open>recordRepositoryGitHubIdentity\<close>,
  \<open>recordRepositoryCanonicalSurfaces\<close>, \<open>establishRepositoryEnrollment\<close> and
  \<open>recordRepositoryOperatorHoldDecision\<close> of \<open>src/src/control/store.ts\<close>).
\<close>

subsection \<open>Facts of a repository\<close>

definition fact :: "string \<Rightarrow> string \<Rightarrow> control_store \<Rightarrow> occurrence option" where
  "fact kind record_id s =
     List.find (\<lambda>oc. oc_record_id oc = record_id \<and> oc_kind oc = kind \<and> oc_record_class oc = Some ''fact'')
       (cs_occurrences s)"

definition required_fact ::
    "string \<Rightarrow> (control_payload \<Rightarrow> 'p option) \<Rightarrow> ('p \<Rightarrow> bool) \<Rightarrow> string \<Rightarrow> control_store \<Rightarrow> control_error + 'p"
where
  "required_fact kind select valid record_id s =
     (case fact kind record_id s of
        None \<Rightarrow> Inl (NotAllowed kind)
      | Some oc \<Rightarrow> map_sum id snd (contract_of select valid oc))"

definition authority_kind :: string where "authority_kind = ''repository.core-authorized''"
definition identity_kind :: string where "identity_kind = ''repository.github-identity-reconciled''"
definition surfaces_kind :: string where
  "surfaces_kind = ''repository.canonical-surfaces-reconciled''"
definition enrollment_kind :: string where "enrollment_kind = ''repository.enrolled''"
definition hold_kind :: string where "hold_kind = ''repository.operator-hold-decision''"

definition repository_occurrence ::
    "string \<Rightarrow> string \<times> string \<Rightarrow> string \<times> string \<Rightarrow> (string \<times> string) option \<Rightarrow> control_payload \<Rightarrow> string \<Rightarrow>
     string option \<Rightarrow> timestamp \<Rightarrow> occurrence_type \<times> string \<times> string option \<Rightarrow> string \<Rightarrow> int \<Rightarrow> int \<Rightarrow>
     occurrence"
where
  "repository_occurrence repository_id revision source source_revision payload correlation causation at
       what record_id sequence position =
     (case what of (type, kind, record_class) \<Rightarrow>
       \<lparr>oc_record_id = record_id, oc_type = type, oc_kind = kind, oc_record_class = record_class,
        oc_subject_kind = ''github-repository'', oc_subject_id = repository_id,
        oc_revision = Some revision, oc_source_kind = fst source, oc_source_id = snd source,
        oc_source_revision = source_revision, oc_payload = payload,
        oc_correlation_id = correlation, oc_causation_record_id = causation,
        oc_sequence = sequence, oc_position = position, oc_recorded_at = at\<rparr>)"

subsection \<open>Authority from Core\<close>

record authority_input =
  au_expected_sequence :: jsnum
  au_core_snapshot_id :: string
  au_repository_id :: string

definition authority_key :: "authority_input \<Rightarrow> string" where
  "authority_key i =
     ''repo-core:'' @ au_core_snapshot_id i @ '':'' @
     drop (length github_repository_prefix) (au_repository_id i)"

definition authority_json :: "authority_input \<Rightarrow> json" where
  "authority_json i = JObject
     [(''coreSnapshotId'', JString (au_core_snapshot_id i)),
      (''repositoryId'', JString (au_repository_id i))]"

definition authority_payload_of ::
    "control_env \<Rightarrow> authority_input \<Rightarrow> core_snapshot \<Rightarrow> declared_repository \<Rightarrow> authority_payload"
where
  "authority_payload_of env i snapshot d =
     \<lparr>ra_repository_id = au_repository_id i, ra_core_snapshot_id = sn_snapshot_id snapshot,
      ra_declaration_record_id = ce_id env 0, ra_core_authorization_record_id = ce_id env 1,
      ra_event_record_id = ce_id env 2, ra_source_commit_id = sn_source_commit_id snapshot,
      ra_declaration_path = de_path d, ra_declaration_digest = de_content_digest d,
      ra_owner = de_owner d, ra_name = de_name d, ra_accountable_owners = de_accountable_owners d,
      ra_fleet_state = de_fleet_state d, ra_maintenance_programs = de_maintenance_programs d,
      ra_action_ceiling = de_action_ceiling d,
      ra_surface_contract_version = de_surface_contract_version d, ra_authorized_at = ce_now env\<rparr>"

definition authority_occurrences :: "control_env \<Rightarrow> authority_payload \<Rightarrow> (int \<Rightarrow> int \<Rightarrow> occurrence) list" where
  "authority_occurrences env p =
     (let write = repository_occurrence (ra_repository_id p)
            (''core-declaration-sha256'', ra_declaration_digest p)
            (''github-repository'', core_source_id)
            (Some (''git-commit-sha1'', ''sha1:'' @ ra_source_commit_id p)) (AuthorityPayload p)
            (ce_id env 3) None (ce_now env) in
      [write (RecordOccurrence, ''repository.declaration-definition'', Some ''definition'') (ce_id env 0),
       write (RecordOccurrence, authority_kind, Some ''fact'') (ce_id env 1),
       write (EventOccurrence, ''repository.core-authority-reconciled'', None) (ce_id env 2)])"

definition materialize_core_authority ::
    "control_env \<Rightarrow> authority_input \<Rightarrow> control_store \<Rightarrow> control_error + command_result \<times> control_store"
where
  "materialize_core_authority env i s =
     and_then (assert_expected_sequence (au_expected_sequence i)) (\<lambda>_.
     and_then (require (is_uuid_v7 (au_core_snapshot_id i)) (BadInput ''snapshot ID'')) (\<lambda>_.
     and_then (require (is_github_repository_id (au_repository_id i)) (BadInput ''repository'')) (\<lambda>_.
     let kind = ''repository.materialize-core-authority''; digest = ce_digest env (authority_json i) in
     replay_or s kind (authority_key i) digest
       (and_then (assert_command_time_and_sequence s (ce_now env) (au_expected_sequence i)) (\<lambda>_.
        and_then (core_admission_readiness s (ce_now env)) (\<lambda>r.
        and_then (require (readiness_ready r) (NotAllowed ''readiness'')) (\<lambda>_.
        case active_core_snapshot s of
          None \<Rightarrow> Inl (NotAllowed ''active snapshot'')
        | Some (snapshot, _) \<Rightarrow>
            and_then
              (require (sn_snapshot_id snapshot = au_core_snapshot_id i) (NotAllowed ''active snapshot'')) (\<lambda>_.
            case List.find (\<lambda>d. declared_id d = au_repository_id i) (sn_repositories snapshot) of
              None \<Rightarrow> Inl (NotAllowed ''declared repository'')
            | Some d \<Rightarrow>
                let p = authority_payload_of env i snapshot d in
                and_then (require (is_authority_payload p) OutsideContract) (\<lambda>_.
                write_command
                  (kernel_command env kind (authority_key i) digest
                     (Some (''github-repository'', au_repository_id i)) (authority_occurrences env p)
                     (AuthorityPayload p) (ce_id env 2)) s)))))))))"

subsection \<open>Identity at GitHub\<close>

record found_repository =
  fr_repository_id :: string
  fr_owner :: string
  fr_name :: string
  fr_archived :: bool
  fr_default_branch :: string

datatype inspection = InspectionMissing | InspectionUnavailable | InspectionFound found_repository

definition normalize_inspection :: "inspection \<Rightarrow> control_error + unit" where
  "normalize_inspection inspection =
     (case inspection of
        InspectionFound f \<Rightarrow>
          require
            (github_number (fr_repository_id f) \<and> is_owner_name (fr_owner f) \<and>
             is_repository_name (fr_name f) \<and> is_branch_name (fr_default_branch f))
            (BadInput ''found result'')
      | _ \<Rightarrow> Inr ())"

definition inspection_json :: "inspection \<Rightarrow> json" where
  "inspection_json inspection =
     (case inspection of
        InspectionMissing \<Rightarrow> JObject [(''kind'', JString ''missing'')]
      | InspectionUnavailable \<Rightarrow> JObject [(''kind'', JString ''unavailable'')]
      | InspectionFound f \<Rightarrow> JObject
          [(''kind'', JString ''found''), (''repositoryId'', JString (fr_repository_id f)),
           (''owner'', JString (fr_owner f)), (''name'', JString (fr_name f)),
           (''archived'', JBool (fr_archived f)), (''defaultBranch'', JString (fr_default_branch f))])"

definition classify_inspection :: "authority_payload \<Rightarrow> inspection \<Rightarrow> string" where
  "classify_inspection a inspection =
     (case inspection of
        InspectionMissing \<Rightarrow> ''missing''
      | InspectionUnavailable \<Rightarrow> ''unavailable''
      | InspectionFound f \<Rightarrow>
          if fr_repository_id f \<noteq> drop (length github_repository_prefix) (ra_repository_id a)
          then ''identity-mismatch''
          else if to_lower (fr_owner f) \<noteq> to_lower (ra_owner a) \<or>
                  to_lower (fr_name f) \<noteq> to_lower (ra_name a)
          then ''locator-mismatch''
          else if fr_archived f then ''archived'' else ''matched'')"

fun found_of :: "inspection \<Rightarrow> found_repository option" where
  "found_of (InspectionFound f) = Some f"
| "found_of _ = None"

record identity_input =
  id_expected_sequence :: jsnum
  id_core_authorization_record_id :: string
  id_inspection :: inspection

definition identity_payload_of ::
    "control_env \<Rightarrow> identity_input \<Rightarrow> authority_payload \<Rightarrow> string \<Rightarrow> identity_payload"
where
  "identity_payload_of env i a response_digest =
     (let found = found_of (id_inspection i); result = classify_inspection a (id_inspection i) in
      \<lparr>gi_repository_id = ra_repository_id a, gi_core_snapshot_id = ra_core_snapshot_id a,
       gi_core_authorization_record_id = id_core_authorization_record_id i,
       gi_observation_record_id = ce_id env 0, gi_reconciliation_record_id = ce_id env 1,
       gi_event_record_id = ce_id env 2, gi_declared_owner = ra_owner a,
       gi_declared_name = ra_name a,
       gi_declared_repository_id = drop (length github_repository_prefix) (ra_repository_id a),
       gi_fleet_state = ra_fleet_state a, gi_observed_owner = map_option fr_owner found,
       gi_observed_name = map_option fr_name found,
       gi_observed_repository_id = map_option fr_repository_id found,
       gi_archived = map_option fr_archived found,
       gi_observed_default_branch = map_option fr_default_branch found, gi_result = result,
       gi_effective_state = identity_state_of (ra_fleet_state a) result,
       gi_checked_at = ce_now env, gi_response_digest = response_digest\<rparr>)"

definition identity_occurrences :: "control_env \<Rightarrow> identity_payload \<Rightarrow> (int \<Rightarrow> int \<Rightarrow> occurrence) list" where
  "identity_occurrences env p =
     (let digest = (''github-metadata-sha256'', gi_response_digest p);
          write = repository_occurrence (gi_repository_id p) digest
            (''github-api'', ''api.github.com'') (Some digest) (IdentityPayload p) (ce_id env 3)
            (Some (gi_core_authorization_record_id p)) (ce_now env) in
      [write (RecordOccurrence, ''repository.github-identity-observation'', Some ''observation'') (ce_id env 0),
       write (RecordOccurrence, identity_kind, Some ''fact'') (ce_id env 1),
       write (EventOccurrence, ''repository.github-identity-reconciliation-recorded'', None) (ce_id env 2)])"

text \<open>The newest fact of a kind whose payload refers to a record, whatever its class.\<close>

definition predecessor_fact ::
    "string \<Rightarrow> (control_payload \<Rightarrow> string option) \<Rightarrow> string \<Rightarrow> control_store \<Rightarrow> occurrence option"
where
  "predecessor_fact kind refers record_id s =
     (case newest_first
             (filter (\<lambda>oc. oc_kind oc = kind \<and> refers (oc_payload oc) = Some record_id) (cs_occurrences s)) of
        [] \<Rightarrow> None
      | oc # _ \<Rightarrow> Some oc)"

definition refers_authority :: "control_payload \<Rightarrow> string option" where
  "refers_authority p = map_option gi_core_authorization_record_id (identity_of p)"

definition refers_identity :: "control_payload \<Rightarrow> string option" where
  "refers_identity p = map_option sp_github_reconciliation_record_id (surfaces_of p)"

definition predecessor_name :: "occurrence option \<Rightarrow> string" where
  "predecessor_name predecessor =
     (case predecessor of None \<Rightarrow> ''initial'' | Some oc \<Rightarrow> oc_record_id oc)"

text \<open>The same answer as the last one is not recorded again: the result of that one is returned.\<close>

definition same_answer ::
    "('p \<Rightarrow> control_payload) \<Rightarrow> ('p \<Rightarrow> string) \<Rightarrow> ('p \<Rightarrow> string) \<Rightarrow> string \<Rightarrow> occurrence \<Rightarrow> 'p \<Rightarrow>
     command_result option"
where
  "same_answer wrap digest_of event_of digest oc p =
     (if digest_of p = digest
      then Some \<lparr>cr_payload = wrap p, cr_event_record_id = event_of p, cr_sequence = oc_sequence oc\<rparr>
      else None)"

definition unchanged_answer ::
    "('p \<Rightarrow> control_payload) \<Rightarrow> (control_payload \<Rightarrow> 'p option) \<Rightarrow> ('p \<Rightarrow> bool) \<Rightarrow> ('p \<Rightarrow> string) \<Rightarrow>
     ('p \<Rightarrow> string) \<Rightarrow> string \<Rightarrow> occurrence option \<Rightarrow> control_error + command_result option"
where
  "unchanged_answer wrap select valid digest_of event_of digest predecessor =
     (case predecessor of
        None \<Rightarrow> Inr None
      | Some oc \<Rightarrow>
          map_sum id (\<lambda>(_, p). same_answer wrap digest_of event_of digest oc p)
            (contract_of select valid oc))"

definition digest_hex :: "string \<Rightarrow> string" where "digest_hex d = drop (length ''sha256:'') d"

definition record_github_identity ::
    "control_env \<Rightarrow> identity_input \<Rightarrow> control_store \<Rightarrow> control_error + command_result \<times> control_store"
where
  "record_github_identity env i s =
     and_then (assert_expected_sequence (id_expected_sequence i)) (\<lambda>_.
     and_then (normalize_inspection (id_inspection i)) (\<lambda>_.
     let response_digest = ce_digest env (inspection_json (id_inspection i)) in
     and_then (assert_command_time_and_sequence s (ce_now env) (id_expected_sequence i)) (\<lambda>_.
     and_then
       (required_fact authority_kind authority_of is_authority_payload
          (id_core_authorization_record_id i) s) (\<lambda>a.
     and_then
       (require (map_option (sn_snapshot_id \<circ> fst) (active_core_snapshot s) = Some (ra_core_snapshot_id a))
          (NotAllowed ''active snapshot'')) (\<lambda>_.
     let predecessor = predecessor_fact identity_kind refers_authority (id_core_authorization_record_id i) s in
     and_then
       (unchanged_answer IdentityPayload identity_of is_identity_payload gi_response_digest
          gi_event_record_id response_digest predecessor) (\<lambda>unchanged.
     case unchanged of
       Some r \<Rightarrow> Inr (r, s)
     | None \<Rightarrow>
         let kind = ''repository.record-github-identity'';
             key = ''repo-gh:'' @ id_core_authorization_record_id i @ '':'' @
               predecessor_name predecessor @ '':'' @ digest_hex response_digest;
             digest = ce_digest env (JObject
               [(''coreAuthorizationRecordId'', JString (id_core_authorization_record_id i)),
                (''predecessorReconciliationRecordId'', text_json (map_option oc_record_id predecessor)),
                (''inspection'', inspection_json (id_inspection i))]) in
         replay_or s kind key digest
           (let p = identity_payload_of env i a response_digest in
            and_then (require (is_identity_payload p) OutsideContract) (\<lambda>_.
            write_command
              (kernel_command env kind key digest None (identity_occurrences env p)
                 (IdentityPayload p) (ce_id env 2)) s))))))))"

subsection \<open>Canonical surfaces\<close>

record surfaces_input =
  si_expected_sequence :: jsnum
  si_github_reconciliation_record_id :: string
  si_probe :: surface_probe

text \<open>Core's contract in the active snapshot (\<open>activeCoreSurfaceContract\<close>): its surfaces, its digest
  and the digest of the governance schema. Its JSON is a parameter, as is the JSON of a probe.\<close>

record surface_contract =
  sc_surfaces :: "surface_definition list"
  sc_contract_digest :: string
  sc_governance_schema_digest :: string

record surface_world =
  sw_hashes :: surface_hashes
  sw_contract :: "core_snapshot \<Rightarrow> surface_contract option"
  sw_probe_json :: "surface_probe \<Rightarrow> json"

definition surfaces_payload_of ::
    "control_env \<Rightarrow> surfaces_input \<Rightarrow> authority_payload \<Rightarrow> identity_payload \<Rightarrow> surface_contract \<Rightarrow>
     surface_evaluation \<Rightarrow> string \<Rightarrow> surfaces_payload"
where
  "surfaces_payload_of env i a g c v probe_digest =
     \<lparr>sp_repository_id = ra_repository_id a, sp_core_snapshot_id = ra_core_snapshot_id a,
      sp_core_authorization_record_id = gi_core_authorization_record_id g,
      sp_github_reconciliation_record_id = si_github_reconciliation_record_id i,
      sp_observation_record_id = ce_id env 0, sp_policy_decision_record_id = ce_id env 1,
      sp_reconciliation_record_id = ce_id env 2, sp_event_record_id = ce_id env 3,
      sp_default_branch = sv_default_branch v, sp_repository_commit_id = sv_repository_commit_id v,
      sp_repository_tree_id = sv_repository_tree_id v, sp_surface_contract_version = 1,
      sp_governance_schema_version = 1, sp_surface_contract_digest = sc_contract_digest c,
      sp_governance_schema_digest = sc_governance_schema_digest c, sp_surfaces = sv_surfaces v,
      sp_governance_policy = sv_governance_policy v,
      sp_decision = (if sv_result v = ''valid'' then ''permit'' else ''deny''),
      sp_requirement_results = requirement_results (sc_surfaces c) v, sp_result = sv_result v,
      sp_failed_surface_id = sv_failed_surface_id v, sp_checked_at = ce_now env,
      sp_probe_digest = probe_digest\<rparr>"

definition surfaces_occurrences :: "control_env \<Rightarrow> surfaces_payload \<Rightarrow> (int \<Rightarrow> int \<Rightarrow> occurrence) list" where
  "surfaces_occurrences env p =
     (let source_revision =
            (case sp_repository_commit_id p of
               None \<Rightarrow> (''github-metadata-sha256'', sp_probe_digest p)
             | Some commit \<Rightarrow> (''git-commit-sha1'', ''sha1:'' @ commit));
          write = repository_occurrence (sp_repository_id p)
            (''repository-surfaces-sha256'', sp_probe_digest p) (''github-api'', ''api.github.com'')
            (Some source_revision) (SurfacesPayload p) (ce_id env 4)
            (Some (sp_github_reconciliation_record_id p)) (ce_now env) in
      [write (RecordOccurrence, ''repository.canonical-surface-observation'', Some ''observation'') (ce_id env 0),
       write (RecordOccurrence, ''repository.enrollment-checkpoint-policy-decision'', Some ''decision'') (ce_id env 1),
       write (RecordOccurrence, surfaces_kind, Some ''fact'') (ce_id env 2),
       write (EventOccurrence, ''repository.canonical-surfaces-reconciliation-recorded'', None) (ce_id env 3)])"

text \<open>What is recorded once the identity is known to be the current one.\<close>

definition write_surfaces ::
    "surface_world \<Rightarrow> control_env \<Rightarrow> surfaces_input \<Rightarrow> surface_probe \<Rightarrow> string \<Rightarrow> authority_payload \<Rightarrow>
     identity_payload \<Rightarrow> string \<Rightarrow> surface_contract \<Rightarrow> occurrence option \<Rightarrow> control_store \<Rightarrow>
     control_error + command_result \<times> control_store"
where
  "write_surfaces w env i probe probe_digest a g branch c predecessor s =
     (let kind = ''repository.record-canonical-surfaces'';
          key = ''repo-surfaces:'' @ si_github_reconciliation_record_id i @ '':'' @
            predecessor_name predecessor @ '':'' @ digest_hex probe_digest;
          digest = ce_digest env (JObject
            [(''githubReconciliationRecordId'', JString (si_github_reconciliation_record_id i)),
             (''predecessorReconciliationRecordId'',
                text_json (map_option oc_record_id predecessor)),
             (''probeDigest'', JString probe_digest)]) in
      replay_or s kind key digest
        (and_then (evaluate_surface_probe (sw_hashes w) probe branch (sc_surfaces c)) (\<lambda>v.
         let p = surfaces_payload_of env i a g c v probe_digest in
         and_then (require (is_surfaces_payload p) OutsideContract) (\<lambda>_.
         write_command
           (kernel_command env kind key digest None (surfaces_occurrences env p)
              (SurfacesPayload p) (ce_id env 3)) s))))"

definition record_surfaces_of ::
    "surface_world \<Rightarrow> control_env \<Rightarrow> surfaces_input \<Rightarrow> surface_probe \<Rightarrow> identity_payload \<Rightarrow> string \<Rightarrow>
     control_store \<Rightarrow> control_error + command_result \<times> control_store"
where
  "record_surfaces_of w env i probe g branch s =
     (case active_core_snapshot s of
        None \<Rightarrow> Inl (NotAllowed ''active snapshot'')
      | Some (snapshot, _) \<Rightarrow>
          and_then
            (require (sn_snapshot_id snapshot = gi_core_snapshot_id g) (NotAllowed ''active snapshot'')) (\<lambda>_.
          and_then
            (required_fact authority_kind authority_of is_authority_payload
               (gi_core_authorization_record_id g) s) (\<lambda>a.
          case sw_contract w snapshot of
            None \<Rightarrow> Inl (NotAllowed ''contract'')
          | Some c \<Rightarrow>
              and_then
                (require (sn_snapshot_id snapshot = ra_core_snapshot_id a) (NotAllowed ''contract'')) (\<lambda>_.
              let probe_digest = ce_digest env (sw_probe_json w probe);
                  predecessor = predecessor_fact surfaces_kind refers_identity
                    (si_github_reconciliation_record_id i) s in
              and_then
                (unchanged_answer SurfacesPayload surfaces_of is_surfaces_payload sp_probe_digest
                   sp_event_record_id probe_digest predecessor) (\<lambda>unchanged.
              case unchanged of
                Some r \<Rightarrow> Inr (r, s)
              | None \<Rightarrow> write_surfaces w env i probe probe_digest a g branch c predecessor s)))))"

definition record_canonical_surfaces ::
    "surface_world \<Rightarrow> control_env \<Rightarrow> surfaces_input \<Rightarrow> control_store \<Rightarrow>
     control_error + command_result \<times> control_store"
where
  "record_canonical_surfaces w env i s =
     and_then (assert_expected_sequence (si_expected_sequence i)) (\<lambda>_.
     and_then (require (is_uuid_v7 (si_github_reconciliation_record_id i)) (BadInput ''identity fact'')) (\<lambda>_.
     and_then (normalize_surface_probe (sw_hashes w) (si_probe i)) (\<lambda>probe.
     and_then (assert_command_time_and_sequence s (ce_now env) (si_expected_sequence i)) (\<lambda>_.
     and_then
       (required_fact identity_kind identity_of is_identity_payload
          (si_github_reconciliation_record_id i) s) (\<lambda>g.
     case (gi_result g = ''matched'', gi_observed_default_branch g) of
       (True, Some branch) \<Rightarrow>
         and_then
           (require
              (map_option oc_record_id
                 (List.find
                    (\<lambda>oc. refers_authority (oc_payload oc) = Some (gi_core_authorization_record_id g))
                    (records_of identity_kind ''fact'' s)) =
               Some (si_github_reconciliation_record_id i)) (NotAllowed ''current identity'')) (\<lambda>_.
         record_surfaces_of w env i probe g branch s)
     | _ \<Rightarrow> Inl (NotAllowed ''matched identity''))))))"

subsection \<open>Enrollment\<close>

record enrollment_input =
  ei'_expected_sequence :: jsnum
  ei'_surface_reconciliation_record_id :: string

definition enrollment_key :: "enrollment_input \<Rightarrow> string" where
  "enrollment_key i = ''repo-enroll:'' @ ei'_surface_reconciliation_record_id i"

definition enrollment_json :: "enrollment_input \<Rightarrow> json" where
  "enrollment_json i =
     JObject [(''surfaceReconciliationRecordId'', JString (ei'_surface_reconciliation_record_id i))]"

definition enrollment_current :: "enrollment_input \<Rightarrow> surfaces_payload \<Rightarrow> repository_status option \<Rightarrow> bool" where
  "enrollment_current i p status =
     (case status of
        None \<Rightarrow> False
      | Some st \<Rightarrow>
          st_core_snapshot_id st = sp_core_snapshot_id p \<and>
          st_core_authorization_record_id st = Some (sp_core_authorization_record_id p) \<and>
          st_github_reconciliation_record_id st = Some (sp_github_reconciliation_record_id p) \<and>
          st_surface_reconciliation_record_id st = Some (ei'_surface_reconciliation_record_id i) \<and>
          st_operator_hold st = None \<and> st_fleet_state st = ''enabled'' \<and>
          st_github_result st = Some ''matched'' \<and> st_surface_result st = Some ''valid'')"

definition enrollment_payload_of ::
    "control_env \<Rightarrow> enrollment_input \<Rightarrow> surfaces_payload \<Rightarrow> string \<Rightarrow> authority_payload \<Rightarrow> enrollment_payload"
where
  "enrollment_payload_of env i p commit a =
     \<lparr>en_repository_id = sp_repository_id p, en_core_snapshot_id = sp_core_snapshot_id p,
      en_core_authorization_record_id = sp_core_authorization_record_id p,
      en_github_reconciliation_record_id = sp_github_reconciliation_record_id p,
      en_surface_reconciliation_record_id = ei'_surface_reconciliation_record_id i,
      en_surface_policy_decision_record_id = sp_policy_decision_record_id p,
      en_controller_definition_record_id = ce_id env 0, en_enrollment_record_id = ce_id env 1,
      en_event_record_id = ce_id env 2, en_repository_commit_id = commit,
      en_surface_contract_version = sp_surface_contract_version p,
      en_maintenance_programs = ra_maintenance_programs a,
      en_action_ceiling = ra_action_ceiling a, en_enrolled_at = ce_now env\<rparr>"

definition enrollment_occurrences :: "control_env \<Rightarrow> enrollment_payload \<Rightarrow> (int \<Rightarrow> int \<Rightarrow> occurrence) list" where
  "enrollment_occurrences env p =
     (let commit = (''git-commit-sha1'', ''sha1:'' @ en_repository_commit_id p);
          write = repository_occurrence (en_repository_id p) commit
            (''github-repository'', en_repository_id p) (Some commit) (EnrollmentPayload p)
            (ce_id env 1) (Some (en_surface_reconciliation_record_id p)) (ce_now env) in
      [write (RecordOccurrence, ''repository.controller-definition'', Some ''definition'') (ce_id env 0),
       write (RecordOccurrence, enrollment_kind, Some ''fact'') (ce_id env 1),
       write (EventOccurrence, ''repository.enrollment-established'', None) (ce_id env 2)])"

text \<open>A record of a kind whatever its class, whose payload has to meet the contract.\<close>

definition retained_authority :: "string \<Rightarrow> control_store \<Rightarrow> control_error + authority_payload" where
  "retained_authority record_id s =
     (case List.find (\<lambda>oc. oc_record_id oc = record_id \<and> oc_kind oc = authority_kind) (cs_occurrences s) of
        None \<Rightarrow> Inl OutsideContract
      | Some oc \<Rightarrow> map_sum id snd (contract_of authority_of is_authority_payload oc))"

definition establish_enrollment ::
    "control_env \<Rightarrow> enrollment_input \<Rightarrow> control_store \<Rightarrow> control_error + command_result \<times> control_store"
where
  "establish_enrollment env i s =
     and_then (assert_expected_sequence (ei'_expected_sequence i)) (\<lambda>_.
     and_then (require (is_uuid_v7 (ei'_surface_reconciliation_record_id i)) (BadInput ''surface fact'')) (\<lambda>_.
     let kind = ''repository.establish-enrollment''; digest = ce_digest env (enrollment_json i) in
     replay_or s kind (enrollment_key i) digest
       (and_then (assert_command_time_and_sequence s (ce_now env) (ei'_expected_sequence i)) (\<lambda>_.
        and_then (core_admission_readiness s (ce_now env)) (\<lambda>r.
        and_then (require (readiness_ready r) (NotAllowed ''readiness'')) (\<lambda>_.
        and_then
          (required_fact surfaces_kind surfaces_of is_surfaces_payload
             (ei'_surface_reconciliation_record_id i) s) (\<lambda>p.
        case (sp_result p = ''valid'', sp_repository_commit_id p) of
          (True, Some commit) \<Rightarrow>
            and_then (repository_status (ce_digest env) s (sp_repository_id p)) (\<lambda>status.
            and_then (require (enrollment_current i p status) (NotAllowed ''prerequisites'')) (\<lambda>_.
            and_then (retained_authority (sp_core_authorization_record_id p) s) (\<lambda>a.
            let e = enrollment_payload_of env i p commit a in
            and_then (require (is_enrollment_payload e) OutsideContract) (\<lambda>_.
            write_command
              (kernel_command env kind (enrollment_key i) digest None (enrollment_occurrences env e)
                 (EnrollmentPayload e) (ce_id env 2)) s))))
        | _ \<Rightarrow> Inl (NotAllowed ''valid surfaces''))))))))"

subsection \<open>The operator's hold\<close>

text \<open>With a hold to clear the input is a clearance, without one a hold.\<close>

record hold_input =
  hi_expected_sequence :: jsnum
  hi_repository_id :: string
  hi_reason :: string
  hi_clears :: "string option"

definition hold_choice :: "hold_input \<Rightarrow> string" where
  "hold_choice i = (if hi_clears i = None then ''impose'' else ''clear'')"

definition hold_key :: "hold_input \<Rightarrow> string" where
  "hold_key i =
     (case hi_clears i of
        None \<Rightarrow> ''repo-hold-impose:'' @ decimal_text (js_int (hi_expected_sequence i)) @ '':'' @
          drop (length github_repository_prefix) (hi_repository_id i)
      | Some held \<Rightarrow> ''repo-hold-clear:'' @ decimal_text (js_int (hi_expected_sequence i)) @ '':'' @ held)"

definition hold_command_kind :: "hold_input \<Rightarrow> string" where
  "hold_command_kind i =
     (if hi_clears i = None then ''repository.impose-operator-hold'' else ''repository.clear-operator-hold'')"

definition hold_json :: "hold_input \<Rightarrow> json" where
  "hold_json i = JObject
     [(''expectedLastTransactionSequence'', JNumber (hi_expected_sequence i)),
      (''holdDecisionId'', text_json (hi_clears i)), (''reason'', JString (hi_reason i)),
      (''repositoryId'', JString (hi_repository_id i))]"

definition hold_payload_of ::
    "control_env \<Rightarrow> control_store \<Rightarrow> hold_input \<Rightarrow> repository_status \<Rightarrow> string \<Rightarrow> authority_payload \<Rightarrow> hold_payload"
where
  "hold_payload_of env s i st authority_record_id a =
     (let held = (case hi_clears i of None \<Rightarrow> ce_id env 0 | Some h \<Rightarrow> h) in
      \<lparr>ho_decision_record_id = ce_id env 0, ho_event_record_id = ce_id env 1,
       ho_choice = hold_choice i, ho_repository_id = hi_repository_id i,
       ho_core_snapshot_id = st_core_snapshot_id st,
       ho_core_authorization_record_id = authority_record_id,
       ho_declaration_digest = ra_declaration_digest a,
       ho_operator_principal_id = cs_operator_principal_id s, ho_hold_decision_id = held,
       ho_previous_decision_record_id = hi_clears i, ho_affected_gates = repository_hold_gates,
       ho_reason = hi_reason i, ho_expected_sequence = hi_expected_sequence i,
       ho_decided_at = ce_now env\<rparr>)"

definition hold_occurrences ::
    "control_env \<Rightarrow> hold_input \<Rightarrow> hold_payload \<Rightarrow> (int \<Rightarrow> int \<Rightarrow> occurrence) list"
where
  "hold_occurrences env i p =
     (let write = (\<lambda>causation. repository_occurrence (ho_repository_id p)
            (''core-declaration-sha256'', ho_declaration_digest p)
            (''operator-principal'', ho_operator_principal_id p) None (HoldPayload p)
            (ho_hold_decision_id p) (Some causation) (ce_now env)) in
      [write (if hi_clears i = None then ho_core_authorization_record_id p else ho_hold_decision_id p)
         (RecordOccurrence, hold_kind, Some ''decision'') (ce_id env 0),
       write (ce_id env 0)
         (EventOccurrence,
          (if hi_clears i = None then ''repository.operator-hold-imposed'' else ''repository.operator-hold-cleared''),
          None) (ce_id env 1)])"

definition hold_allowed :: "hold_input \<Rightarrow> repository_status \<Rightarrow> bool" where
  "hold_allowed i st =
     (case hi_clears i of
        None \<Rightarrow> st_operator_hold st = None
      | Some held \<Rightarrow> map_option ho_hold_decision_id (st_operator_hold st) = Some held)"

definition record_hold_decision ::
    "control_env \<Rightarrow> hold_input \<Rightarrow> control_store \<Rightarrow> control_error + command_result \<times> control_store"
where
  "record_hold_decision env i s =
     and_then (require (given_valid is_uuid_v7 (hi_clears i)) (BadInput ''hold decision'')) (\<lambda>_.
     and_then (assert_expected_sequence (hi_expected_sequence i)) (\<lambda>_.
     and_then (require (is_github_repository_id (hi_repository_id i)) (BadInput ''repository'')) (\<lambda>_.
     and_then (assert_bounded_reason (hi_reason i)) (\<lambda>_.
     let digest = ce_digest env (hold_json i) in
     replay_or s (hold_command_kind i) (hold_key i) digest
       (and_then (assert_command_time_and_sequence s (ce_now env) (hi_expected_sequence i)) (\<lambda>_.
        and_then (repository_status (ce_digest env) s (hi_repository_id i)) (\<lambda>status.
        case Option.bind status (\<lambda>st. map_option (Pair st) (st_core_authorization_record_id st)) of
          None \<Rightarrow> Inl (NotAllowed ''authority'')
        | Some (st, authority_record_id) \<Rightarrow>
            and_then (require (hold_allowed i st) (NotAllowed ''hold'')) (\<lambda>_.
            and_then (retained_authority authority_record_id s) (\<lambda>a.
            let p = hold_payload_of env s i st authority_record_id a in
            and_then (require (is_hold_payload p) OutsideContract) (\<lambda>_.
            write_command
              (operator_command env s (hold_command_kind i) (hold_key i) digest
                 (hold_occurrences env i p) (HoldPayload p) (ce_id env 1)) s))))))))))"

end
