(* ===== verification/Control_Ledger.thy ===== *)
theory Control_Ledger
  imports Source_Coverage Repository_Commands Core_Snapshots
begin

text \<open>
  The ledger all commands of the control plane share: what writing a command does to the store, the
  invariant it keeps, and the contract of a command that is repeated. The two locales are that
  contract; \<open>Control_Guarantees\<close> interprets them on the commands.
\<close>

subsection \<open>The effect of a write\<close>

definition well_placed :: "command \<Rightarrow> bool" where
  "well_placed c \<longleftrightarrow>
     (\<forall>i < length (cm_occurrences c). \<forall>n.
        oc_sequence ((cm_occurrences c ! i) n (int i)) = n \<and>
        oc_position ((cm_occurrences c ! i) n (int i)) = int i \<and>
        oc_recorded_at ((cm_occurrences c ! i) n (int i)) = cm_at c)"

definition transaction_of :: "command \<Rightarrow> int \<Rightarrow> control_transaction" where
  "transaction_of c sequence =
     \<lparr>ct_sequence = sequence, ct_transaction_id = cm_transaction_id c, ct_command_kind = cm_kind c,
      ct_principal_kind = cm_principal_kind c, ct_principal_id = cm_principal_id c,
      ct_idempotency_key = Some (cm_key c), ct_payload_digest = cm_digest c,
      ct_recorded_at = cm_at c\<rparr>"

definition receipt_of :: "command \<Rightarrow> int \<Rightarrow> receipt" where
  "receipt_of c sequence =
     \<lparr>rc_command_kind = cm_kind c, rc_idempotency_key = cm_key c, rc_payload_digest = cm_digest c,
      rc_result = result_of c sequence, rc_sequence = sequence,
      rc_retained_until = cm_retained_until c\<rparr>"

definition with_new_subject :: "command \<Rightarrow> control_store \<Rightarrow> (string \<times> string) list" where
  "with_new_subject c s =
     (case cm_new_subject c of None \<Rightarrow> cs_subjects s | Some (k, i) \<Rightarrow> cs_subjects (ensure_subject k i s))"

definition written :: "command \<Rightarrow> control_store \<Rightarrow> control_store" where
  "written c s =
     (let n = cs_allocated s + 1 in
      s\<lparr>cs_watermark := cm_at c, cs_last_sequence := n, cs_allocated := n,
        cs_transactions := cs_transactions s @ [transaction_of c n],
        cs_subjects := with_new_subject c s,
        cs_occurrences := cs_occurrences s @ placed (cm_occurrences c) n,
        cs_receipts := cs_receipts s @ [receipt_of c n]\<rparr>)"

definition opened :: "command \<Rightarrow> control_store \<Rightarrow> control_store" where
  "opened c s =
     s\<lparr>cs_allocated := cs_allocated s + 1,
       cs_transactions := cs_transactions s @ [transaction_of c (cs_allocated s + 1)],
       cs_subjects := with_new_subject c s\<rparr>"

lemma write_command_eq:
  "write_command c s =
     (let n = cs_allocated s + 1 in
      and_then (require (cm_transaction_id c \<notin> set (map ct_transaction_id (cs_transactions s)))
        (ConstraintFailed ''control_transactions'')) (\<lambda>_.
      and_then (fold_res insert_occurrence (placed (cm_occurrences c) n) (opened c s)) (\<lambda>s3.
      and_then (insert_receipt (cm_kind c) (cm_key c) (cm_digest c) (result_of c n) n
        (cm_retained_until c) s3) (\<lambda>s4.
      Inr (result_of c n, advance_control_metadata (cm_at c) n s4)))))"
proof -
  have "opened c s = (case cm_new_subject c of
      None \<Rightarrow> s\<lparr>cs_allocated := cs_allocated s + 1, cs_transactions := cs_transactions s @ [transaction_of c (cs_allocated s + 1)]\<rparr>
    | Some (k, i) \<Rightarrow> ensure_subject k i
        (s\<lparr>cs_allocated := cs_allocated s + 1, cs_transactions := cs_transactions s @ [transaction_of c (cs_allocated s + 1)]\<rparr>))"
    by (auto simp: opened_def with_new_subject_def ensure_subject_def has_subject_def split: option.split)
  then show ?thesis
    unfolding transaction_of_def by (simp add: write_command_def insert_transaction_def require_def Let_def)
qed

lemma insert_occurrence_Inr:
  "insert_occurrence oc s = Inr s' \<longleftrightarrow>
     occurrence_allowed s oc \<and> s' = s\<lparr>cs_occurrences := cs_occurrences s @ [oc]\<rparr>"
  by (auto simp: insert_occurrence_def require_def)

lemma fold_insert_occurrence:
  assumes "fold_res insert_occurrence os s = Inr s'"
  shows "s' = s\<lparr>cs_occurrences := cs_occurrences s @ os\<rparr> \<and> distinct (map oc_record_id os) \<and>
    (\<forall>oc \<in> set os. oc_record_id oc \<notin> record_ids s)"
  using assms
proof (induction os arbitrary: s)
  case Nil
  then show ?case by simp
next
  case (Cons oc os)
  then obtain t where t: "occurrence_allowed s oc" "t = s\<lparr>cs_occurrences := cs_occurrences s @ [oc]\<rparr>"
      "fold_res insert_occurrence os t = Inr s'"
    by (auto simp: and_then_Inr_iff insert_occurrence_Inr)
  from Cons.IH [OF t(3)] t(1,2) show ?case
    by (auto simp: record_ids_def occurrence_allowed_def)
qed

lemma ensure_subject_simps [simp]:
  "cs_occurrences (ensure_subject k i s) = cs_occurrences s"
  "cs_receipts (ensure_subject k i s) = cs_receipts s"
  "cs_transactions (ensure_subject k i s) = cs_transactions s"
  "cs_allocated (ensure_subject k i s) = cs_allocated s"
  by (simp_all add: ensure_subject_def)

lemma command_receipt_cong: "cs_receipts s = cs_receipts t \<Longrightarrow> command_receipt s k i = command_receipt t k i"
  by (simp add: command_receipt_def)

lemma write_command_Inr:
  assumes "write_command c s = Inr (r, s')"
  shows "s' = written c s" "r = result_of c (cs_allocated s + 1)"
    and "command_receipt s (cm_kind c) (cm_key c) = None"
    and "cm_transaction_id c \<notin> set (map ct_transaction_id (cs_transactions s))"
    and "distinct (map oc_record_id (placed (cm_occurrences c) (cs_allocated s + 1)))"
    and "\<forall>oc \<in> set (placed (cm_occurrences c) (cs_allocated s + 1)). oc_record_id oc \<notin> record_ids s"
proof -
  let ?n = "cs_allocated s + 1"
  have o: "cs_occurrences (opened c s) = cs_occurrences s" "cs_receipts (opened c s) = cs_receipts s"
    "record_ids (opened c s) = record_ids s"
    by (simp_all add: opened_def record_ids_def)
  from assms obtain s3 s4 where tid: "cm_transaction_id c \<notin> set (map ct_transaction_id (cs_transactions s))"
      and occ: "fold_res insert_occurrence (placed (cm_occurrences c) ?n) (opened c s) = Inr s3"
      and rcp: "insert_receipt (cm_kind c) (cm_key c) (cm_digest c) (result_of c ?n) ?n (cm_retained_until c) s3 = Inr s4"
      and r: "r = result_of c ?n" and s4: "s' = advance_control_metadata (cm_at c) ?n s4"
    by (auto simp: write_command_eq Let_def and_then_Inr_iff require_def split: if_splits)
  from fold_insert_occurrence [OF occ] o
  have s3: "s3 = (opened c s)\<lparr>cs_occurrences := cs_occurrences s @ placed (cm_occurrences c) ?n\<rparr>"
    and d: "distinct (map oc_record_id (placed (cm_occurrences c) ?n))"
      "\<forall>oc \<in> set (placed (cm_occurrences c) ?n). oc_record_id oc \<notin> record_ids s"
    by auto
  have r3: "command_receipt s3 k i = command_receipt s k i" for k i
    by (rule command_receipt_cong) (simp add: s3 o)
  from rcp have "command_receipt s (cm_kind c) (cm_key c) = None"
    and s': "s' = advance_control_metadata (cm_at c) ?n (s3\<lparr>cs_receipts := cs_receipts s3 @ [receipt_of c ?n]\<rparr>)"
    by (auto simp: s4 insert_receipt_def require_def and_then_Inr_iff r3 receipt_of_def split: if_splits)
  then show "command_receipt s (cm_kind c) (cm_key c) = None" "r = result_of c ?n" using r by auto
  show "s' = written c s"
    by (simp add: s' written_def advance_control_metadata_def s3 opened_def Let_def)
  show "cm_transaction_id c \<notin> set (map ct_transaction_id (cs_transactions s))" by (fact tid)
  show "distinct (map oc_record_id (placed (cm_occurrences c) ?n))"
    "\<forall>oc \<in> set (placed (cm_occurrences c) ?n). oc_record_id oc \<notin> record_ids s"
    by (fact d)+
qed

text \<open>When a write succeeds: its occurrences are allowed one after the other.\<close>

fun admissible :: "control_store \<Rightarrow> occurrence list \<Rightarrow> bool" where
  "admissible s [] = True"
| "admissible s (oc # os) =
     (occurrence_allowed s oc \<and> admissible (s\<lparr>cs_occurrences := cs_occurrences s @ [oc]\<rparr>) os)"

lemma fold_insert_admissible:
  "admissible s os \<Longrightarrow> fold_res insert_occurrence os s = Inr (s\<lparr>cs_occurrences := cs_occurrences s @ os\<rparr>)"
  by (induction os arbitrary: s) (simp_all add: insert_occurrence_def)

lemma write_command_ok:
  assumes "cm_transaction_id c \<notin> set (map ct_transaction_id (cs_transactions s))"
    and "command_receipt s (cm_kind c) (cm_key c) = None"
    and "admissible (opened c s) (placed (cm_occurrences c) (cs_allocated s + 1))"
  shows "write_command c s = Inr (result_of c (cs_allocated s + 1), written c s)"
proof -
  have r: "command_receipt ((opened c s)\<lparr>cs_occurrences := os\<rparr>) k i = command_receipt s k i" for os k i
    by (rule command_receipt_cong) (simp add: opened_def)
  show ?thesis
    using assms(1,2) fold_insert_admissible [OF assms(3)] r
    by (simp add: write_command_eq Let_def insert_receipt_def advance_control_metadata_def written_def
        receipt_of_def opened_def)
qed

lemma write_command_sequence:
  assumes "write_command c s = Inr (r, s')"
  shows "cs_last_sequence s' = cs_allocated s + 1 \<and> cr_sequence r = cs_allocated s + 1"
  by (simp add: write_command_Inr(1,2) [OF assms] written_def Let_def result_of_def)

lemma write_command_receipt:
  assumes "write_command c s = Inr (r, s')"
  shows "receipt_of c (cs_allocated s + 1) \<in> set (cs_receipts s') \<and> rc_result (receipt_of c (cs_allocated s + 1)) = r"
  by (simp add: write_command_Inr(1,2) [OF assms] written_def Let_def receipt_of_def)

subsection \<open>The invariant\<close>

definition place :: "occurrence \<Rightarrow> int \<times> int" where "place oc = (oc_sequence oc, oc_position oc)"

definition receipt_key :: "receipt \<Rightarrow> string \<times> string" where
  "receipt_key r = (rc_command_kind r, rc_idempotency_key r)"

definition ledger_ok :: "control_store \<Rightarrow> bool" where
  "ledger_ok s \<longleftrightarrow>
     cs_last_sequence s = cs_allocated s \<and>
     sorted_wrt (<) (map ct_sequence (cs_transactions s)) \<and>
     sorted (map ct_recorded_at (cs_transactions s)) \<and>
     distinct (map ct_transaction_id (cs_transactions s)) \<and>
     (\<forall>t \<in> set (cs_transactions s). ct_sequence t \<le> cs_allocated s \<and> ct_recorded_at t \<le> cs_watermark s) \<and>
     sorted_wrt (<) (map place (cs_occurrences s)) \<and>
     distinct (map oc_record_id (cs_occurrences s)) \<and>
     (\<forall>oc \<in> set (cs_occurrences s). \<exists>t \<in> set (cs_transactions s).
        ct_sequence t = oc_sequence oc \<and> ct_recorded_at t = oc_recorded_at oc) \<and>
     distinct (map receipt_key (cs_receipts s)) \<and>
     (\<forall>r \<in> set (cs_receipts s). rc_sequence r \<in> set (map ct_sequence (cs_transactions s)) \<and>
        cr_sequence (rc_result r) = rc_sequence r)"

lemma set_placed: "set (placed ds n) = {(ds ! i) n (int i) | i. i < length ds}"
  by (auto simp: placed_def)

lemma placed_of_well_placed:
  assumes "well_placed c" "oc \<in> set (placed (cm_occurrences c) n)"
  shows "oc_sequence oc = n" "oc_recorded_at oc = cm_at c"
  using assms by (auto simp: set_placed well_placed_def)

lemma sorted_placed:
  assumes "well_placed c"
  shows "sorted_wrt (<) (map place (placed (cm_occurrences c) n))"
  using assms by (auto simp: sorted_wrt_iff_nth_less placed_def place_def well_placed_def)

lemma command_receipt_None:
  "command_receipt s k i = None \<longleftrightarrow> (k, i) \<notin> set (map receipt_key (cs_receipts s))"
  by (auto simp: command_receipt_def receipt_key_def find_None_iff)

lemma disjoint_record_ids:
  "record_ids s \<inter> set (map oc_record_id os) = {} \<longleftrightarrow> (\<forall>oc \<in> set os. oc_record_id oc \<notin> record_ids s)"
  by auto

lemma ledger_write_command:
  assumes ok: "ledger_ok s" and w: "write_command c s = Inr (r, s')" and wp: "well_placed c"
    and at: "cs_watermark s \<le> cm_at c"
  shows "ledger_ok s'"
proof -
  let ?n = "cs_allocated s + 1"
  note W = write_command_Inr [OF w]
  have seqs: "\<forall>t \<in> set (cs_transactions s). ct_sequence t < ?n \<and> ct_recorded_at t \<le> cm_at c"
    using ok at by (fastforce simp: ledger_ok_def)
  have occs: "\<forall>oc \<in> set (cs_occurrences s). oc_sequence oc < ?n"
    using ok seqs unfolding ledger_ok_def by metis
  have "sorted_wrt (<) (map place (cs_occurrences s @ placed (cm_occurrences c) ?n))"
    using ok occs placed_of_well_placed(1) [OF wp] sorted_placed [OF wp]
    by (auto simp: ledger_ok_def sorted_wrt_append place_def)
  moreover have "distinct (map oc_record_id (cs_occurrences s @ placed (cm_occurrences c) ?n))"
    using ok W(5) W(6) [folded disjoint_record_ids] by (simp add: ledger_ok_def record_ids_def)
  moreover have "(cm_kind c, cm_key c) \<notin> set (map receipt_key (cs_receipts s))"
    using W(3) by (simp only: command_receipt_None not_False_eq_True)
  ultimately show ?thesis
    using ok seqs W(4) placed_of_well_placed [OF wp]
    by (auto simp: W(1) written_def Let_def ledger_ok_def sorted_wrt_append sorted_append
        transaction_of_def receipt_of_def receipt_key_def result_of_def less_imp_le)
qed

text \<open>Two stores with the same ledger: the snapshots of Core may differ.\<close>

definition same_ledger :: "control_store \<Rightarrow> control_store \<Rightarrow> bool" where
  "same_ledger s t \<longleftrightarrow> (\<exists>ns a. t = s\<lparr>cs_snapshots := ns, cs_active := a\<rparr>)"

lemma same_ledger_refl [simp]: "same_ledger s s"
  unfolding same_ledger_def by (rule exI [of _ "cs_snapshots s"], rule exI [of _ "cs_active s"]) simp

lemma ledger_same_ledger: "same_ledger s t \<Longrightarrow> ledger_ok s \<Longrightarrow> ledger_ok t"
  by (auto simp: same_ledger_def ledger_ok_def)

definition later_ledger :: "control_store \<Rightarrow> control_store \<Rightarrow> bool" where
  "later_ledger s t \<longleftrightarrow>
     prefix (cs_transactions s) (cs_transactions t) \<and> prefix (cs_occurrences s) (cs_occurrences t) \<and>
     prefix (cs_receipts s) (cs_receipts t) \<and> cs_watermark s \<le> cs_watermark t \<and>
     cs_last_sequence s \<le> cs_last_sequence t \<and> cs_lineage_id t = cs_lineage_id s \<and>
     cs_operator_principal_id t = cs_operator_principal_id s"

lemma later_ledger_refl [simp]: "later_ledger s s"
  by (simp add: later_ledger_def)

lemma later_ledger_trans: "later_ledger s t \<Longrightarrow> later_ledger t u \<Longrightarrow> later_ledger s u"
  by (auto simp: later_ledger_def intro: prefix_order.trans)

lemma later_written: "ledger_ok s \<Longrightarrow> cs_watermark s \<le> cm_at c \<Longrightarrow> later_ledger s (written c s)"
  by (simp add: later_ledger_def written_def Let_def ledger_ok_def)

lemma later_same_ledger: "same_ledger s t \<Longrightarrow> later_ledger s t"
  by (auto simp: same_ledger_def later_ledger_def)

text \<open>With sorted places, reading the newest first is reading backwards.\<close>

lemma sort_key_sorted: "sorted (map f xs) \<Longrightarrow> sort_key f xs = xs"
  by (induction xs) (auto simp: insort_is_Cons)

lemma newest_first_rev:
  assumes "ledger_ok s"
  shows "newest_first (filter p (cs_occurrences s)) = rev (filter p (cs_occurrences s))"
proof -
  have "sorted_wrt (<) (map place (filter p (cs_occurrences s)))"
    using assms by (auto simp: ledger_ok_def sorted_wrt_map intro: sorted_wrt_filter)
  then have "sorted (map place (filter p (cs_occurrences s)))"
    by (rule sorted_wrt_mono_rel [rotated]) simp
  then show ?thesis
    by (simp add: newest_first_def place_def [abs_def] sort_key_sorted)
qed

lemma receipt_unique:
  assumes "distinct (map receipt_key (cs_receipts s))" "p \<in> set (cs_receipts s)"
  shows "command_receipt s (rc_command_kind p) (rc_idempotency_key p) = Some p"
proof (cases "command_receipt s (rc_command_kind p) (rc_idempotency_key p)")
  case None
  then show ?thesis using assms(2) by (auto simp: command_receipt_def find_None_iff)
next
  case (Some q)
  then have "q \<in> set (cs_receipts s)" "receipt_key q = receipt_key p"
    by (auto simp: command_receipt_def find_Some_iff receipt_key_def)
  with assms have "q = p" by (auto dest: inj_onD [OF conjunct2 [OF distinct_map [THEN iffD1]]])
  with Some show ?thesis by simp
qed

subsection \<open>The contract of a command\<close>

text \<open>A command that is carried out writes once: only occurrences of its own kinds, at a time that is
  not behind the watermark, and on the sequence its caller had read.\<close>

definition writes_kinds :: "string set \<Rightarrow> command \<Rightarrow> bool" where
  "writes_kinds kinds c \<longleftrightarrow>
     (\<forall>i < length (cm_occurrences c). \<forall>n k. oc_kind ((cm_occurrences c ! i) n k) \<in> kinds)"

definition wrote ::
    "string set \<Rightarrow> jsnum option \<Rightarrow> control_store \<Rightarrow> command_result \<Rightarrow> control_store \<Rightarrow> bool"
where
  "wrote kinds expected s r s' \<longleftrightarrow>
     (\<exists>c s1. write_command c s = Inr (r, s1) \<and> same_ledger s1 s' \<and> well_placed c \<and>
        writes_kinds kinds c \<and> cs_watermark s \<le> cm_at c \<and>
        (\<forall>n. expected = Some n \<longrightarrow> js_int n = cs_last_sequence s))"

lemma wroteI:
  assumes "write_command c s = Inr (r, s1)" "same_ledger s1 s'" "well_placed c" "writes_kinds kinds c"
    and "cs_watermark s \<le> cm_at c" "\<And>n. expected = Some n \<Longrightarrow> js_int n = cs_last_sequence s"
  shows "wrote kinds expected s r s'"
  using assms by (auto simp: wrote_def)

definition wrote_under ::
    "string \<Rightarrow> string \<Rightarrow> string \<Rightarrow> control_store \<Rightarrow> command_result \<Rightarrow> control_store \<Rightarrow> bool"
where
  "wrote_under kind key digest s r s' \<longleftrightarrow>
     (\<exists>c s1. write_command c s = Inr (r, s1) \<and> same_ledger s1 s' \<and> cm_kind c = kind \<and> cm_key c = key \<and>
        cm_digest c = digest)"

lemma wrote_underI:
  assumes "write_command c s = Inr (r, s1)" "same_ledger s1 s'" "cm_kind c = kind" "cm_key c = key"
    "cm_digest c = digest"
  shows "wrote_under kind key digest s r s'"
  using assms by (auto simp: wrote_under_def)

lemma replay_or_Inr:
  "replay_or s kind key digest fresh = Inr (r, s') \<longleftrightarrow>
     (case command_receipt s kind key of
        Some p \<Rightarrow> rc_payload_digest p = digest \<and> r = rc_result p \<and> s' = s
      | None \<Rightarrow> fresh = Inr (r, s'))"
  by (auto simp: replay_or_def split: option.split)

locale ledger_command =
  fixes run :: "control_env \<Rightarrow> 'i \<Rightarrow> control_store \<Rightarrow> control_error + command_result \<times> control_store"
    and kinds :: "string set" and expected :: "'i \<Rightarrow> jsnum option"
  assumes run_writes: "run env i s = Inr (r, s') \<Longrightarrow> s' \<noteq> s \<Longrightarrow> wrote kinds (expected i) s r s'"
begin

lemma keeps_ledger:
  assumes "run env i s = Inr (r, s')" "ledger_ok s"
  shows "ledger_ok s' \<and> later_ledger s s'"
proof (cases "s' = s")
  case True
  with assms show ?thesis by simp
next
  case False
  from run_writes [OF assms(1) False] obtain c s1 where c: "well_placed c" "cs_watermark s \<le> cm_at c" "write_command c s = Inr (r, s1)"
    "same_ledger s1 s'" by (auto simp: wrote_def)
  have "ledger_ok s1" by (rule ledger_write_command [OF assms(2) c(3,1,2)])
  with c(4) have "ledger_ok s'" by (rule ledger_same_ledger)
  moreover have "later_ledger s s1"
    using later_written [OF assms(2) c(2)] write_command_Inr(1) [OF c(3)] by simp
  ultimately show ?thesis using later_same_ledger [OF c(4)] later_ledger_trans by blast
qed

lemma advances_by_one:
  assumes "run env i s = Inr (r, s')" "ledger_ok s"
  shows "s' = s \<or> (cs_last_sequence s' = cs_last_sequence s + 1 \<and> cr_sequence r = cs_last_sequence s')"
  using run_writes [OF assms(1)] assms(2)
  by (auto simp: wrote_def same_ledger_def ledger_ok_def dest!: write_command_sequence)

lemma needs_expected_sequence:
  assumes "run env i s = Inr (r, s')" "expected i = Some n"
  shows "s' = s \<or> js_int n = cs_last_sequence s"
  using run_writes [OF assms(1)] assms(2) by (auto simp: wrote_def)

text \<open>Records of other kinds stay what they are.\<close>

lemma leaves_other_kinds:
  assumes "run env i s = Inr (r, s')" "kind \<notin> kinds"
  shows "filter (\<lambda>oc. oc_kind oc = kind) (cs_occurrences s') = filter (\<lambda>oc. oc_kind oc = kind) (cs_occurrences s)"
proof (cases "s' = s")
  case False
  with run_writes [OF assms(1)] assms(2) show ?thesis
    by (auto simp: wrote_def same_ledger_def written_def Let_def writes_kinds_def set_placed
        filter_empty_conv dest!: write_command_Inr(1))
qed simp

end

locale keyed_command = ledger_command run kinds expected
  for run :: "control_env \<Rightarrow> 'i \<Rightarrow> control_store \<Rightarrow> control_error + command_result \<times> control_store"
    and kinds :: "string set" and expected :: "'i \<Rightarrow> jsnum option" +
  fixes kind :: "'i \<Rightarrow> string" and key :: "'i \<Rightarrow> string" and digest :: "control_env \<Rightarrow> 'i \<Rightarrow> string"
    and valid :: "'i \<Rightarrow> bool"
  assumes run_replays: "valid i \<Longrightarrow> command_receipt s (kind i) (key i) = Some p \<Longrightarrow>
      run env i s = (if rc_payload_digest p \<noteq> digest env i then Inl KeyReused else Inr (rc_result p, s))"
    and run_valid: "run env i s = Inr (r, s') \<Longrightarrow> valid i"
    and run_fresh: "run env i s = Inr (r, s') \<Longrightarrow> command_receipt s (kind i) (key i) = None \<Longrightarrow>
      wrote_under (kind i) (key i) (digest env i) s r s'"
begin

lemma leaves_receipt:
  assumes "run env i s = Inr (r, s')"
  shows "\<exists>p \<in> set (cs_receipts s'). receipt_key p = (kind i, key i) \<and> rc_payload_digest p = digest env i \<and>
    rc_result p = r"
proof (cases "command_receipt s (kind i) (key i)")
  case None
  from run_fresh [OF assms None] show ?thesis
    by (auto simp: wrote_under_def same_ledger_def receipt_of_def receipt_key_def
        dest!: write_command_receipt intro!: bexI)
next
  case (Some p)
  with assms run_replays [OF run_valid [OF assms] Some, of env] show ?thesis
    by (auto simp: command_receipt_def find_Some_iff receipt_key_def split: if_splits)
qed

lemma receipt_stays:
  assumes "run env i s = Inr (r, s')" "later_ledger s' t" "ledger_ok t"
  shows "\<exists>p. command_receipt t (kind i) (key i) = Some p \<and> rc_payload_digest p = digest env i \<and> rc_result p = r"
proof -
  obtain p where p: "p \<in> set (cs_receipts s')" "receipt_key p = (kind i, key i)"
    "rc_payload_digest p = digest env i" "rc_result p = r"
    using leaves_receipt [OF assms(1)] by blast
  with assms(2) have "p \<in> set (cs_receipts t)"
    unfolding later_ledger_def by (blast dest: set_mono_prefix)
  with receipt_unique [of t p] assms(3) p show ?thesis by (auto simp: ledger_ok_def receipt_key_def)
qed

text \<open>A command under a key that has been used gets the first answer, whatever happened since, or is
  refused if it is not the same command.\<close>

lemma answers_by_receipt:
  assumes "run env i s = Inr (r, s')" "later_ledger s' t" "ledger_ok t"
    and "valid j" "kind j = kind i" "key j = key i"
  shows "run env' j t = (if digest env' j = digest env i then Inr (r, t) else Inl KeyReused)"
  using receipt_stays [OF assms(1-3)] run_replays [OF assms(4), of t _ env'] assms(5,6)
  by auto

lemma answers_again:
  assumes "run env i s = Inr (r, s')" "later_ledger s' t" "ledger_ok t"
    and "digest env' i = digest env i"
  shows "run env' i t = Inr (r, t)"
  using answers_by_receipt [OF assms(1-3) run_valid [OF assms(1)] refl refl] assms(4) by simp

end

end
