(* ===== verification/Control_Guarantees.thy ===== *)
theory Control_Guarantees
  imports Control_Ledger
begin

text \<open>
  The commands of the control plane meet the contract of \<open>Control_Ledger\<close>; its runs; and what holds of
  every store they reach.
\<close>

section \<open>The commands meet the contract\<close>

text \<open>
  The commands of the control plane as one step function over its database, from the database
  \<open>initialize\<close> makes (\<open>src/src/control/store.ts\<close>), and the contract of \<open>Control_Ledger\<close> on each.
\<close>

subsection \<open>The commands keep the contract\<close>

lemmas command_shapes =
  kernel_command_def operator_command_def coverage_command_def check_occurrence_def
  override_occurrence_def core_occurrence_def active_fact_occurrence_def repository_occurrence_def
  coverage_occurrence_def

lemmas command_reads =
  and_then_Inr_iff require_def replay_or_Inr assert_command_time_and_sequence_def
  assert_coverage_write_def checked_coverage_time_def

lemmas drafts_simps = well_placed_def writes_kinds_def less_Suc_eq_0_disj

definition snapshot_kinds :: "string set" where
  "snapshot_kinds =
     {''core.rollback-decision'', ''core.snapshot-definition'', ''core.snapshot-active'',
      ''core.snapshot-activated'', ''core.snapshot-rollback-activated''}"

lemma same_ledger_make_active:
  "map_sum id (make_active env n c) x = Inr (r, s') \<Longrightarrow> \<exists>s1. x = Inr (r, s1) \<and> same_ledger s1 s'"
  by (cases x) (auto simp: make_active_def same_ledger_def split: prod.splits)

lemma record_candidate_rejection_writes:
  assumes "record_candidate_rejection env i s = Inr (r, s')" "s' \<noteq> s"
  shows "wrote {rejection_kind, ''core.candidate-rejected''} (None) s r s'"
  using assms
  by (auto simp: record_candidate_rejection_def command_reads Let_def command_shapes rejection_occurrences_def
      drafts_simps split: option.splits if_splits bool.splits
      elim!: wroteI [OF _ same_ledger_refl])

lemma record_source_check_eligible_writes:
  assumes "record_source_check_eligible revalidates env i s = Inr (r, s')" "s' \<noteq> s"
  shows "wrote {eligible_kind, ''core.source-check-eligible''} (Some (ei_expected_sequence i)) s r s'"
  using assms
  by (auto simp: record_source_check_eligible_def command_reads Let_def command_shapes eligible_occurrences_def
      drafts_simps split: option.splits if_splits bool.splits
      elim!: wroteI [OF _ same_ledger_refl])

lemma issue_stale_source_override_writes:
  assumes "issue_stale_source_override env i s = Inr (r, s')" "s' \<noteq> s"
  shows "wrote {override_kind, ''core.stale-source-override-issued''} (Some (oi_expected_sequence i)) s r s'"
  using assms
  by (auto simp: issue_stale_source_override_def command_reads Let_def command_shapes 
      drafts_simps split: option.splits if_splits bool.splits
      elim!: wroteI [OF _ same_ledger_refl])

lemma activate_snapshot_writes:
  assumes "activate_snapshot revalidates env i s = Inr (r, s')" "s' \<noteq> s"
  shows "wrote snapshot_kinds (Some (av_expected_sequence i)) s r s'"
  using assms
  by (auto simp: activate_snapshot_def command_reads Let_def command_shapes activation_occurrences_def snapshot_kinds_def
      drafts_simps split: option.splits if_splits bool.splits
      dest!: same_ledger_make_active elim!: wroteI)

lemma rollback_snapshot_writes:
  assumes "rollback_snapshot revalidates env i s = Inr (r, s')" "s' \<noteq> s"
  shows "wrote snapshot_kinds (Some (rb_expected_sequence i)) s r s'"
  using assms
  by (auto simp: rollback_snapshot_def command_reads Let_def command_shapes rollback_occurrences_def snapshot_kinds_def
      drafts_simps split: option.splits if_splits bool.splits
      dest!: same_ledger_make_active elim!: wroteI)

lemma materialize_core_authority_writes:
  assumes "materialize_core_authority env i s = Inr (r, s')" "s' \<noteq> s"
  shows "wrote {''repository.declaration-definition'', authority_kind, ''repository.core-authority-reconciled''} (Some (au_expected_sequence i)) s r s'"
  using assms
  by (auto simp: materialize_core_authority_def command_reads Let_def command_shapes authority_occurrences_def
      drafts_simps split: option.splits if_splits bool.splits
      elim!: wroteI [OF _ same_ledger_refl])

lemma record_github_identity_writes:
  assumes "record_github_identity env i s = Inr (r, s')" "s' \<noteq> s"
  shows "wrote {''repository.github-identity-observation'', identity_kind,
      ''repository.github-identity-reconciliation-recorded''} (Some (id_expected_sequence i)) s r s'"
  using assms
  by (auto simp: record_github_identity_def command_reads Let_def command_shapes identity_occurrences_def
      drafts_simps split: option.splits if_splits bool.splits
      elim!: wroteI [OF _ same_ledger_refl])

definition surface_kinds :: "string set" where
  "surface_kinds =
     {''repository.canonical-surface-observation'',
      ''repository.enrollment-checkpoint-policy-decision'', surfaces_kind,
      ''repository.canonical-surfaces-reconciliation-recorded''}"

lemma write_surfaces_writes:
  assumes "write_surfaces w env i probe d a g branch c predecessor s = Inr (r, s')" "s' \<noteq> s"
    and "cs_watermark s \<le> ce_now env" "cs_last_sequence s = js_int e"
  shows "wrote surface_kinds (Some e) s r s'"
  using assms
  by (auto simp: write_surfaces_def command_reads Let_def command_shapes surfaces_occurrences_def
      surface_kinds_def drafts_simps split: option.splits elim!: wroteI [OF _ same_ledger_refl])

lemma record_surfaces_of_writes:
  assumes "record_surfaces_of w env i probe g branch s = Inr (r, s')" "s' \<noteq> s"
    and "cs_watermark s \<le> ce_now env" "cs_last_sequence s = js_int e"
  shows "wrote surface_kinds (Some e) s r s'"
  using assms(1,2) write_surfaces_writes [OF _ assms(2-4)]
  by (auto simp: record_surfaces_of_def and_then_Inr_iff require_def Let_def split: option.splits if_splits)

lemma record_canonical_surfaces_writes:
  assumes "record_canonical_surfaces w env i s = Inr (r, s')" "s' \<noteq> s"
  shows "wrote surface_kinds (Some (si_expected_sequence i)) s r s'"
  using assms(1) record_surfaces_of_writes [OF _ assms(2)]
  by (auto simp: record_canonical_surfaces_def and_then_Inr_iff require_def Let_def
      assert_command_time_and_sequence_def split: option.splits if_splits bool.splits)

lemma establish_enrollment_writes:
  assumes "establish_enrollment env i s = Inr (r, s')" "s' \<noteq> s"
  shows "wrote {''repository.controller-definition'', enrollment_kind, ''repository.enrollment-established''} (Some (ei'_expected_sequence i)) s r s'"
  using assms
  by (auto simp: establish_enrollment_def command_reads Let_def command_shapes enrollment_occurrences_def
      drafts_simps split: option.splits if_splits bool.splits
      elim!: wroteI [OF _ same_ledger_refl])

lemma record_hold_decision_writes:
  assumes "record_hold_decision env i s = Inr (r, s')" "s' \<noteq> s"
  shows "wrote {hold_kind, ''repository.operator-hold-imposed'', ''repository.operator-hold-cleared''} (Some (hi_expected_sequence i)) s r s'"
  using assms
  by (auto simp: record_hold_decision_def command_reads Let_def command_shapes hold_occurrences_def
      drafts_simps split: option.splits if_splits bool.splits
      elim!: wroteI [OF _ same_ledger_refl])

lemma record_source_checkpoint_writes:
  assumes "record_source_checkpoint env i s = Inr (r, s')" "s' \<noteq> s"
  shows "wrote {checkpoint_kind, ''github.source-checkpoint-recorded''} (Some (ki_expected_sequence i)) s r s'"
  using assms
  by (auto simp: record_source_checkpoint_def command_reads Let_def command_shapes checkpoint_occurrences_def
      drafts_simps split: option.splits if_splits bool.splits
      elim!: wroteI [OF _ same_ledger_refl])

lemma open_source_gap_writes:
  assumes "open_source_gap env i s = Inr (r, s')" "s' \<noteq> s"
  shows "wrote {gap_kind, ''github.source-gap-opened''} (Some (gx_expected_sequence i)) s r s'"
  using assms
  by (auto simp: open_source_gap_def command_reads Let_def command_shapes gap_occurrences_def
      drafts_simps split: option.splits if_splits bool.splits
      elim!: wroteI [OF _ same_ledger_refl])

lemma repair_source_gap_writes:
  assumes "repair_source_gap env i s = Inr (r, s')" "s' \<noteq> s"
  shows "wrote {checkpoint_kind, repair_kind, ''github.source-gap-repaired''} (Some (ri'_expected_sequence i)) s r s'"
  using assms
  by (auto simp: repair_source_gap_def command_reads Let_def command_shapes repair_occurrences_def
      drafts_simps split: option.splits if_splits bool.splits
      elim!: wroteI [OF _ same_ledger_refl])

subsection \<open>Interpretations\<close>

lemmas keyed_simps =
  and_then_Inr_iff require_def replay_or_def assert_command_time_and_sequence_def
  assert_coverage_write_def checked_coverage_time_def kernel_command_def operator_command_def
  coverage_command_def Let_def

interpretation rejections: keyed_command record_candidate_rejection
  "{rejection_kind, ''core.candidate-rejected''}" "\<lambda>_. None"
  "\<lambda>_. ''core.record-candidate-rejection''" rejection_key "\<lambda>env i. ce_digest env (rejection_json i)"
  "\<lambda>i. is_rejection_payload (i\<lparr>rj_observed_at := 0\<rparr>)"
  by unfold_locales
    (erule record_candidate_rejection_writes, assumption,
     auto simp: record_candidate_rejection_def keyed_simps split: option.splits if_splits bool.splits
       elim!: wrote_underI [OF _ same_ledger_refl])

interpretation checks: keyed_command "record_source_check_eligible revalidates"
  "{eligible_kind, ''core.source-check-eligible''}" "\<lambda>i. Some (ei_expected_sequence i)"
  "\<lambda>_. ''core.record-source-check-eligible''" eligible_key "\<lambda>env i. ce_digest env (eligible_json i)"
  "\<lambda>i. is_uuid_v7 (ei_check_id i) \<and> assert_expected_sequence (ei_expected_sequence i) = Inr () \<and>
    assert_materialized_candidate (ei_candidate i) = Inr () \<and> revalidates (ei_candidate i)" for revalidates
  by unfold_locales
    (erule record_source_check_eligible_writes, assumption,
     auto simp: record_source_check_eligible_def keyed_simps split: option.splits if_splits bool.splits
       elim!: wrote_underI [OF _ same_ledger_refl])

interpretation overrides: keyed_command issue_stale_source_override
  "{override_kind, ''core.stale-source-override-issued''}" "\<lambda>i. Some (oi_expected_sequence i)"
  "\<lambda>_. ''core.issue-stale-source-override''" override_key "\<lambda>env i. ce_digest env (override_json (ce_iso env) i)"
  "\<lambda>i. assert_expected_sequence (oi_expected_sequence i) = Inr () \<and> assert_bounded_reason (oi_reason i) = Inr ()"
  by unfold_locales
    (erule issue_stale_source_override_writes, assumption,
     auto simp: issue_stale_source_override_def keyed_simps split: option.splits if_splits bool.splits
       elim!: wrote_underI [OF _ same_ledger_refl])

interpretation activations: keyed_command "activate_snapshot revalidates"
  snapshot_kinds "\<lambda>i. Some (av_expected_sequence i)"
  "\<lambda>_. ''core.activate-snapshot''" activation_key "\<lambda>env i. ce_digest env (activation_json i)"
  "\<lambda>i. assert_expected_sequence (av_expected_sequence i) = Inr () \<and>
    assert_materialized_candidate (av_candidate i) = Inr () \<and> revalidates (av_candidate i)" for revalidates
  by unfold_locales
    (erule activate_snapshot_writes, assumption,
     auto simp: activate_snapshot_def keyed_simps split: option.splits if_splits bool.splits
       dest!: same_ledger_make_active elim!: wrote_underI)

interpretation rollbacks: keyed_command "rollback_snapshot revalidates"
  snapshot_kinds "\<lambda>i. Some (rb_expected_sequence i)"
  "\<lambda>_. ''core.rollback-snapshot''" rollback_key "\<lambda>env i. ce_digest env (rollback_json i)"
  "\<lambda>i. assert_expected_sequence (rb_expected_sequence i) = Inr () \<and> assert_bounded_reason (rb_reason i) = Inr () \<and>
    assert_materialized_candidate (rb_candidate i) = Inr () \<and> revalidates (rb_candidate i)" for revalidates
  by unfold_locales
    (erule rollback_snapshot_writes, assumption,
     auto simp: rollback_snapshot_def keyed_simps split: option.splits if_splits bool.splits
       dest!: same_ledger_make_active elim!: wrote_underI)

interpretation authorities: keyed_command materialize_core_authority
  "{''repository.declaration-definition'', authority_kind, ''repository.core-authority-reconciled''}" "\<lambda>i. Some (au_expected_sequence i)"
  "\<lambda>_. ''repository.materialize-core-authority''" authority_key "\<lambda>env i. ce_digest env (authority_json i)"
  "\<lambda>i. assert_expected_sequence (au_expected_sequence i) = Inr () \<and> is_uuid_v7 (au_core_snapshot_id i) \<and>
    is_github_repository_id (au_repository_id i)"
  by unfold_locales
    (erule materialize_core_authority_writes, assumption,
     auto simp: materialize_core_authority_def keyed_simps split: option.splits if_splits bool.splits
       elim!: wrote_underI [OF _ same_ledger_refl])

interpretation enrollments: keyed_command establish_enrollment
  "{''repository.controller-definition'', enrollment_kind, ''repository.enrollment-established''}" "\<lambda>i. Some (ei'_expected_sequence i)"
  "\<lambda>_. ''repository.establish-enrollment''" enrollment_key "\<lambda>env i. ce_digest env (enrollment_json i)"
  "\<lambda>i. assert_expected_sequence (ei'_expected_sequence i) = Inr () \<and>
    is_uuid_v7 (ei'_surface_reconciliation_record_id i)"
  by unfold_locales
    (erule establish_enrollment_writes, assumption,
     auto simp: establish_enrollment_def keyed_simps split: option.splits if_splits bool.splits
       elim!: wrote_underI [OF _ same_ledger_refl])

interpretation holds: keyed_command record_hold_decision
  "{hold_kind, ''repository.operator-hold-imposed'', ''repository.operator-hold-cleared''}" "\<lambda>i. Some (hi_expected_sequence i)"
  "hold_command_kind" hold_key "\<lambda>env i. ce_digest env (hold_json i)"
  "\<lambda>i. given_valid is_uuid_v7 (hi_clears i) \<and> assert_expected_sequence (hi_expected_sequence i) = Inr () \<and>
    is_github_repository_id (hi_repository_id i) \<and> assert_bounded_reason (hi_reason i) = Inr ()"
  by unfold_locales
    (erule record_hold_decision_writes, assumption,
     auto simp: record_hold_decision_def keyed_simps split: option.splits if_splits bool.splits
       elim!: wrote_underI [OF _ same_ledger_refl])

interpretation checkpoints: keyed_command record_source_checkpoint
  "{checkpoint_kind, ''github.source-checkpoint-recorded''}" "\<lambda>i. Some (ki_expected_sequence i)"
  "\<lambda>_. ''github.record-source-checkpoint''" checkpoint_key "\<lambda>env i. ce_digest env (checkpoint_input_json (ce_iso env) i)"
  "\<lambda>i. normalize_checkpoint_input i = Inr ()"
  by unfold_locales
    (erule record_source_checkpoint_writes, assumption,
     auto simp: record_source_checkpoint_def keyed_simps split: option.splits if_splits bool.splits
       elim!: wrote_underI [OF _ same_ledger_refl])

interpretation gaps: keyed_command open_source_gap
  "{gap_kind, ''github.source-gap-opened''}" "\<lambda>i. Some (gx_expected_sequence i)"
  "\<lambda>_. ''github.open-source-gap''" gap_key "\<lambda>env i. ce_digest env (gap_input_json i)"
  "\<lambda>i. normalize_gap_input i = Inr ()"
  by unfold_locales
    (erule open_source_gap_writes, assumption,
     auto simp: open_source_gap_def keyed_simps split: option.splits if_splits bool.splits
       elim!: wrote_underI [OF _ same_ledger_refl])

interpretation repairs: keyed_command repair_source_gap
  "{checkpoint_kind, repair_kind, ''github.source-gap-repaired''}" "\<lambda>i. Some (ri'_expected_sequence i)"
  "\<lambda>_. ''github.repair-source-gap''" repair_key "\<lambda>env i. ce_digest env (repair_input_json (ce_iso env) i)"
  "\<lambda>i. normalize_repair_input i = Inr ()"
  by unfold_locales
    (erule repair_source_gap_writes, assumption,
     auto simp: repair_source_gap_def keyed_simps split: option.splits if_splits bool.splits
       elim!: wrote_underI [OF _ same_ledger_refl])

interpretation identities: ledger_command record_github_identity
  "{''repository.github-identity-observation'', identity_kind,
    ''repository.github-identity-reconciliation-recorded''}" "\<lambda>i. Some (id_expected_sequence i)"
  by unfold_locales (rule record_github_identity_writes)

interpretation surfaces: ledger_command "record_canonical_surfaces w" surface_kinds
  "\<lambda>i. Some (si_expected_sequence i)" for w
  by unfold_locales (rule record_canonical_surfaces_writes)

section \<open>Runs\<close>

text \<open>
  Runs of the control plane: the database \<open>initialize\<close> makes (\<open>src/src/control/store.ts\<close>), the commands
  as one step, and what holds of every store that steps reach: the ledger's order, commands that
  need the sequence their caller read, and commands that are repeated.
\<close>

subsection \<open>The new database\<close>

definition initial_payload :: "control_env \<Rightarrow> json" where
  "initial_payload env = JObject
     [(''databaseLineageId'', JString (ce_id env 0)),
      (''operatorPrincipalId'', JString (ce_id env 1)),
      (''registryVersion'', int_json control_plane_registry_version),
      (''schemaVersion'', int_json control_plane_schema_version)]"

definition principal_payload :: json where
  "principal_payload = JObject
     [(''binding'', JString ''local-stdio-implicit''), (''principalKind'', JString ''operator'')]"

definition initial_occurrence ::
    "control_env \<Rightarrow> occurrence_type \<times> string \<times> string option \<Rightarrow> string \<times> string \<Rightarrow> json \<Rightarrow> string \<Rightarrow> int \<Rightarrow>
     int \<Rightarrow> occurrence"
where
  "initial_occurrence env what subject payload record_id sequence position =
     (case what of (type, kind, record_class) \<Rightarrow>
       \<lparr>oc_record_id = record_id, oc_type = type, oc_kind = kind, oc_record_class = record_class,
        oc_subject_kind = fst subject, oc_subject_id = snd subject,
        oc_revision = Some (''sha256'', ce_digest env payload), oc_source_kind = ''fluent-system'',
        oc_source_id = ''kernel'', oc_source_revision = None, oc_payload = PlainPayload payload,
        oc_correlation_id = ce_id env 6, oc_causation_record_id = None, oc_sequence = sequence,
        oc_position = position, oc_recorded_at = ce_now env\<rparr>)"

definition initial_occurrences :: "control_env \<Rightarrow> (int \<Rightarrow> int \<Rightarrow> occurrence) list" where
  "initial_occurrences env =
     (let database = (''control-plane-database'', ce_id env 0) in
      [initial_occurrence env
         (RecordOccurrence, ''control-plane.database-definition'', Some ''definition'') database
         (initial_payload env) (ce_id env 3),
       initial_occurrence env (RecordOccurrence, ''principal.definition'', Some ''definition'')
         (''operator-principal'', ce_id env 1) principal_payload (ce_id env 4),
       initial_occurrence env (EventOccurrence, ''control-plane.initialized'', None) database
         (initial_payload env) (ce_id env 5)])"

definition empty_store :: "control_env \<Rightarrow> control_store" where
  "empty_store env =
     \<lparr>cs_lineage_id = ce_id env 0, cs_operator_principal_id = ce_id env 1, cs_watermark = ce_now env,
      cs_last_sequence = 0, cs_allocated = 0, cs_transactions = [], cs_subjects = [],
      cs_occurrences = [], cs_receipts = [], cs_snapshots = [], cs_active = None\<rparr>"

definition initialize :: "control_env \<Rightarrow> control_error + control_store" where
  "initialize env =
     and_then
       (insert_transaction (ce_id env 2) ''control-plane.initialize'' ''fluent-system'' ''kernel'' None
          (ce_digest env (initial_payload env)) (ce_now env) (empty_store env)) (\<lambda>s1.
     let n = cs_allocated s1;
         s2 = ensure_subject ''operator-principal'' (ce_id env 1)
           (ensure_subject ''control-plane-database'' (ce_id env 0) s1) in
     and_then (fold_res insert_occurrence (placed (initial_occurrences env) n) s2) (\<lambda>s3.
     Inr (advance_control_metadata (ce_now env) n s3)))"

subsection \<open>Commands\<close>

datatype control_command =
    RejectCandidate rejection_payload
  | SourceEligible eligible_input
  | OverrideStaleSource override_input
  | ActivateSnapshot activation_input
  | RollbackSnapshot rollback_input
  | MaterializeAuthority authority_input
  | RecordIdentity identity_input
  | RecordSurfaces surfaces_input
  | EstablishEnrollment enrollment_input
  | DecideHold hold_input
  | RecordCheckpoint checkpoint_input
  | OpenGap gap_input
  | RepairGap repair_input

text \<open>What the commands need from outside the control plane: the validation of a candidate's files and
  the reading of surfaces.\<close>

record control_world =
  cw_revalidates :: "core_candidate \<Rightarrow> bool"
  cw_surfaces :: surface_world

fun run_control ::
    "control_world \<Rightarrow> control_env \<Rightarrow> control_command \<Rightarrow> control_store \<Rightarrow>
     control_error + command_result \<times> control_store"
where
  "run_control w env (RejectCandidate i) s = record_candidate_rejection env i s"
| "run_control w env (SourceEligible i) s = record_source_check_eligible (cw_revalidates w) env i s"
| "run_control w env (OverrideStaleSource i) s = issue_stale_source_override env i s"
| "run_control w env (ActivateSnapshot i) s = activate_snapshot (cw_revalidates w) env i s"
| "run_control w env (RollbackSnapshot i) s = rollback_snapshot (cw_revalidates w) env i s"
| "run_control w env (MaterializeAuthority i) s = materialize_core_authority env i s"
| "run_control w env (RecordIdentity i) s = record_github_identity env i s"
| "run_control w env (RecordSurfaces i) s = record_canonical_surfaces (cw_surfaces w) env i s"
| "run_control w env (EstablishEnrollment i) s = establish_enrollment env i s"
| "run_control w env (DecideHold i) s = record_hold_decision env i s"
| "run_control w env (RecordCheckpoint i) s = record_source_checkpoint env i s"
| "run_control w env (OpenGap i) s = open_source_gap env i s"
| "run_control w env (RepairGap i) s = repair_source_gap env i s"

fun expected_sequence :: "control_command \<Rightarrow> jsnum option" where
  "expected_sequence (RejectCandidate i) = None"
| "expected_sequence (SourceEligible i) = Some (ei_expected_sequence i)"
| "expected_sequence (OverrideStaleSource i) = Some (oi_expected_sequence i)"
| "expected_sequence (ActivateSnapshot i) = Some (av_expected_sequence i)"
| "expected_sequence (RollbackSnapshot i) = Some (rb_expected_sequence i)"
| "expected_sequence (MaterializeAuthority i) = Some (au_expected_sequence i)"
| "expected_sequence (RecordIdentity i) = Some (id_expected_sequence i)"
| "expected_sequence (RecordSurfaces i) = Some (si_expected_sequence i)"
| "expected_sequence (EstablishEnrollment i) = Some (ei'_expected_sequence i)"
| "expected_sequence (DecideHold i) = Some (hi_expected_sequence i)"
| "expected_sequence (RecordCheckpoint i) = Some (ki_expected_sequence i)"
| "expected_sequence (OpenGap i) = Some (gx_expected_sequence i)"
| "expected_sequence (RepairGap i) = Some (ri'_expected_sequence i)"

text \<open>The key of a command's receipt; the two reconciliations derive theirs from the records.\<close>

fun receipt_key_of :: "control_command \<Rightarrow> (string \<times> string) option" where
  "receipt_key_of (RejectCandidate i) = Some (''core.record-candidate-rejection'', rejection_key i)"
| "receipt_key_of (SourceEligible i) = Some (''core.record-source-check-eligible'', eligible_key i)"
| "receipt_key_of (OverrideStaleSource i) = Some (''core.issue-stale-source-override'', override_key i)"
| "receipt_key_of (ActivateSnapshot i) = Some (''core.activate-snapshot'', activation_key i)"
| "receipt_key_of (RollbackSnapshot i) = Some (''core.rollback-snapshot'', rollback_key i)"
| "receipt_key_of (MaterializeAuthority i) = Some (''repository.materialize-core-authority'', authority_key i)"
| "receipt_key_of (RecordIdentity i) = None"
| "receipt_key_of (RecordSurfaces i) = None"
| "receipt_key_of (EstablishEnrollment i) = Some (''repository.establish-enrollment'', enrollment_key i)"
| "receipt_key_of (DecideHold i) = Some (hold_command_kind i, hold_key i)"
| "receipt_key_of (RecordCheckpoint i) = Some (''github.record-source-checkpoint'', checkpoint_key i)"
| "receipt_key_of (OpenGap i) = Some (''github.open-source-gap'', gap_key i)"
| "receipt_key_of (RepairGap i) = Some (''github.repair-source-gap'', repair_key i)"

fun command_digest :: "control_env \<Rightarrow> control_command \<Rightarrow> string" where
  "command_digest env (RejectCandidate i) = ce_digest env (rejection_json i)"
| "command_digest env (SourceEligible i) = ce_digest env (eligible_json i)"
| "command_digest env (OverrideStaleSource i) = ce_digest env (override_json (ce_iso env) i)"
| "command_digest env (ActivateSnapshot i) = ce_digest env (activation_json i)"
| "command_digest env (RollbackSnapshot i) = ce_digest env (rollback_json i)"
| "command_digest env (MaterializeAuthority i) = ce_digest env (authority_json i)"
| "command_digest env (RecordIdentity i) = []"
| "command_digest env (RecordSurfaces i) = []"
| "command_digest env (EstablishEnrollment i) = ce_digest env (enrollment_json i)"
| "command_digest env (DecideHold i) = ce_digest env (hold_json i)"
| "command_digest env (RecordCheckpoint i) = ce_digest env (checkpoint_input_json (ce_iso env) i)"
| "command_digest env (OpenGap i) = ce_digest env (gap_input_json i)"
| "command_digest env (RepairGap i) = ce_digest env (repair_input_json (ce_iso env) i)"

text \<open>The part of a command's input that is looked at before its receipt.\<close>

fun well_formed :: "control_world \<Rightarrow> control_command \<Rightarrow> bool" where
  "well_formed w (RejectCandidate i) = is_rejection_payload (i\<lparr>rj_observed_at := 0\<rparr>)"
| "well_formed w (SourceEligible i) =
     (is_uuid_v7 (ei_check_id i) \<and> assert_expected_sequence (ei_expected_sequence i) = Inr () \<and>
      assert_materialized_candidate (ei_candidate i) = Inr () \<and> cw_revalidates w (ei_candidate i))"
| "well_formed w (OverrideStaleSource i) =
     (assert_expected_sequence (oi_expected_sequence i) = Inr () \<and> assert_bounded_reason (oi_reason i) = Inr ())"
| "well_formed w (ActivateSnapshot i) =
     (assert_expected_sequence (av_expected_sequence i) = Inr () \<and>
      assert_materialized_candidate (av_candidate i) = Inr () \<and> cw_revalidates w (av_candidate i))"
| "well_formed w (RollbackSnapshot i) =
     (assert_expected_sequence (rb_expected_sequence i) = Inr () \<and> assert_bounded_reason (rb_reason i) = Inr () \<and>
      assert_materialized_candidate (rb_candidate i) = Inr () \<and> cw_revalidates w (rb_candidate i))"
| "well_formed w (MaterializeAuthority i) =
     (assert_expected_sequence (au_expected_sequence i) = Inr () \<and> is_uuid_v7 (au_core_snapshot_id i) \<and>
      is_github_repository_id (au_repository_id i))"
| "well_formed w (RecordIdentity i) =
     (assert_expected_sequence (id_expected_sequence i) = Inr () \<and> normalize_inspection (id_inspection i) = Inr ())"
| "well_formed w (RecordSurfaces i) =
     (assert_expected_sequence (si_expected_sequence i) = Inr () \<and>
      is_uuid_v7 (si_github_reconciliation_record_id i) \<and>
      (case normalize_surface_probe (sw_hashes (cw_surfaces w)) (si_probe i) of Inl _ \<Rightarrow> False | Inr _ \<Rightarrow> True))"
| "well_formed w (EstablishEnrollment i) =
     (assert_expected_sequence (ei'_expected_sequence i) = Inr () \<and>
      is_uuid_v7 (ei'_surface_reconciliation_record_id i))"
| "well_formed w (DecideHold i) =
     (given_valid is_uuid_v7 (hi_clears i) \<and> assert_expected_sequence (hi_expected_sequence i) = Inr () \<and>
      is_github_repository_id (hi_repository_id i) \<and> assert_bounded_reason (hi_reason i) = Inr ())"
| "well_formed w (RecordCheckpoint i) = (normalize_checkpoint_input i = Inr ())"
| "well_formed w (OpenGap i) = (normalize_gap_input i = Inr ())"
| "well_formed w (RepairGap i) = (normalize_repair_input i = Inr ())"

inductive control_reachable :: "control_world \<Rightarrow> control_store \<Rightarrow> bool" for w where
  control_start: "initialize env = Inr s \<Longrightarrow> control_reachable w s"
| control_step: "control_reachable w s \<Longrightarrow> run_control w env c s = Inr (r, s') \<Longrightarrow> control_reachable w s'"

subsection \<open>The contract on the composed step\<close>

lemma run_control_wrote:
  assumes "run_control w env c s = Inr (r, s')" "s' \<noteq> s"
  shows "\<exists>kinds. wrote kinds (expected_sequence c) s r s'"
proof (cases c)
  case (RejectCandidate i)
  then show ?thesis using assms rejections.run_writes [of env i s r s'] by auto
next
  case (SourceEligible i)
  then show ?thesis using assms checks.run_writes [of "cw_revalidates w" env i s r s'] by auto
next
  case (OverrideStaleSource i)
  then show ?thesis using assms overrides.run_writes [of env i s r s'] by auto
next
  case (ActivateSnapshot i)
  then show ?thesis using assms activations.run_writes [of "cw_revalidates w" env i s r s'] by auto
next
  case (RollbackSnapshot i)
  then show ?thesis using assms rollbacks.run_writes [of "cw_revalidates w" env i s r s'] by auto
next
  case (MaterializeAuthority i)
  then show ?thesis using assms authorities.run_writes [of env i s r s'] by auto
next
  case (RecordIdentity i)
  then show ?thesis using assms identities.run_writes [of env i s r s'] by auto
next
  case (RecordSurfaces i)
  then show ?thesis using assms surfaces.run_writes [of "cw_surfaces w" env i s r s'] by auto
next
  case (EstablishEnrollment i)
  then show ?thesis using assms enrollments.run_writes [of env i s r s'] by auto
next
  case (DecideHold i)
  then show ?thesis using assms holds.run_writes [of env i s r s'] by auto
next
  case (RecordCheckpoint i)
  then show ?thesis using assms checkpoints.run_writes [of env i s r s'] by auto
next
  case (OpenGap i)
  then show ?thesis using assms gaps.run_writes [of env i s r s'] by auto
next
  case (RepairGap i)
  then show ?thesis using assms repairs.run_writes [of env i s r s'] by auto
qed

section \<open>Guarantees of runs\<close>

text \<open>
  What holds of every store of the control plane that its commands reach: the order of the ledger,
  the check of the sequence a caller had read, and the contract of a command that is repeated.
\<close>

subsection \<open>The composed step\<close>

lemma wrote_UNIV: "wrote kinds expected s r s' \<Longrightarrow> wrote UNIV expected s r s'"
  by (force simp: wrote_def writes_kinds_def)

interpretation control: ledger_command "run_control w" UNIV expected_sequence for w
  by unfold_locales (blast dest: run_control_wrote intro: wrote_UNIV)

definition first_transaction :: "control_env \<Rightarrow> control_transaction" where
  "first_transaction env =
     \<lparr>ct_sequence = 1, ct_transaction_id = ce_id env 2, ct_command_kind = ''control-plane.initialize'',
      ct_principal_kind = ''fluent-system'', ct_principal_id = ''kernel'', ct_idempotency_key = None,
      ct_payload_digest = ce_digest env (initial_payload env), ct_recorded_at = ce_now env\<rparr>"

lemma initialize_Inr:
  assumes "initialize env = Inr s"
  shows "distinct (map oc_record_id (placed (initial_occurrences env) 1))"
    and "s = (empty_store env)\<lparr>cs_last_sequence := 1, cs_allocated := 1,
      cs_transactions := [first_transaction env],
      cs_subjects := [(''control-plane-database'', ce_id env 0), (''operator-principal'', ce_id env 1)],
      cs_occurrences := placed (initial_occurrences env) 1\<rparr>"
proof -
  let ?s2 = "(empty_store env)\<lparr>cs_allocated := 1, cs_transactions := [first_transaction env],
    cs_subjects := [(''control-plane-database'', ce_id env 0), (''operator-principal'', ce_id env 1)]\<rparr>"
  have "initialize env =
      and_then (fold_res insert_occurrence (placed (initial_occurrences env) 1) ?s2) (\<lambda>s3.
      Inr (advance_control_metadata (ce_now env) 1 s3))"
    by (simp add: initialize_def insert_transaction_def require_def Let_def empty_store_def
        ensure_subject_def has_subject_def first_transaction_def)
  with assms obtain s3 where f: "fold_res insert_occurrence (placed (initial_occurrences env) 1) ?s2 = Inr s3"
    and s: "s = advance_control_metadata (ce_now env) 1 s3"
    by (auto simp: and_then_Inr_iff)
  from fold_insert_occurrence [OF f]
  have d: "distinct (map oc_record_id (placed (initial_occurrences env) 1))"
    and s3: "s3 = ?s2\<lparr>cs_occurrences := placed (initial_occurrences env) 1\<rparr>"
    by (simp_all add: empty_store_def)
  show "distinct (map oc_record_id (placed (initial_occurrences env) 1))" by (fact d)
  show "s = (empty_store env)\<lparr>cs_last_sequence := 1, cs_allocated := 1,
      cs_transactions := [first_transaction env],
      cs_subjects := [(''control-plane-database'', ce_id env 0), (''operator-principal'', ce_id env 1)],
      cs_occurrences := placed (initial_occurrences env) 1\<rparr>"
    by (simp add: s s3 advance_control_metadata_def empty_store_def)
qed

lemma initial_occurrences_placed:
  "placed (initial_occurrences env) 1 =
     [(initial_occurrences env ! 0) 1 0, (initial_occurrences env ! 1) 1 1, (initial_occurrences env ! 2) 1 2]"
  by (simp add: placed_def initial_occurrences_def upt_rec Let_def)

lemma ledger_initialize:
  assumes "initialize env = Inr s"
  shows "ledger_ok s"
proof -
  have "map place (placed (initial_occurrences env) 1) = [(1, 0), (1, 1), (1, 2)]"
    unfolding initial_occurrences_placed
    by (simp add: place_def initial_occurrences_def initial_occurrence_def Let_def)
  moreover have "\<forall>oc \<in> set (placed (initial_occurrences env) 1). oc_sequence oc = 1 \<and> oc_recorded_at oc = ce_now env"
    unfolding initial_occurrences_placed
    by (simp add: initial_occurrences_def initial_occurrence_def Let_def)
  ultimately show ?thesis
    using initialize_Inr(1) [OF assms]
    by (simp add: initialize_Inr(2) [OF assms] ledger_ok_def empty_store_def first_transaction_def)
qed

lemma ledger_reachable: "control_reachable w s \<Longrightarrow> ledger_ok s"
  by (induction rule: control_reachable.induct)
    (auto intro: ledger_initialize dest: control.keeps_ledger)

text \<open>Everything a store recorded is still there, in the same place, in every later store.\<close>

inductive control_later :: "control_world \<Rightarrow> control_store \<Rightarrow> control_store \<Rightarrow> bool" for w where
  later_here: "control_later w s s"
| later_step: "control_later w s t \<Longrightarrow> run_control w env c t = Inr (r, t') \<Longrightarrow> control_later w s t'"

lemma later_reachable: "control_later w s t \<Longrightarrow> control_reachable w s \<Longrightarrow> control_reachable w t"
  by (induction rule: control_later.induct) (auto intro: control_step)

lemma later_is_later:
  assumes "control_later w s t" "control_reachable w s"
  shows "later_ledger s t"
  using assms
proof (induction rule: control_later.induct)
  case (later_step s t env c r t')
  then have "ledger_ok t" by (blast intro: ledger_reachable later_reachable)
  with later_step show ?case by (blast intro: later_ledger_trans dest: control.keeps_ledger)
qed simp

subsection \<open>Repeated commands\<close>

lemma commands_answer_by_receipt:
  assumes run: "run_control w env c s = Inr (r, s')" "later_ledger s' t" "ledger_ok t"
    and d: "well_formed w d" "receipt_key_of d = receipt_key_of c" "receipt_key_of c \<noteq> None"
  shows "run_control w env' d t = (if command_digest env' d = command_digest env c then Inr (r, t) else Inl KeyReused)"
proof (cases d)
  case (RejectCandidate j)
  with d(2) obtain i where "c = RejectCandidate i" by (cases c) (auto simp: hold_command_kind_def split: if_splits)
  with RejectCandidate run d(1,2) show ?thesis
    using rejections.answers_by_receipt [of env i s r s' t j env'] by simp
next
  case (SourceEligible j)
  with d(2) obtain i where "c = SourceEligible i" by (cases c) (auto simp: hold_command_kind_def split: if_splits)
  with SourceEligible run d(1,2) show ?thesis
    using checks.answers_by_receipt [of "cw_revalidates w" env i s r s' t j env'] by simp
next
  case (OverrideStaleSource j)
  with d(2) obtain i where "c = OverrideStaleSource i" by (cases c) (auto simp: hold_command_kind_def split: if_splits)
  with OverrideStaleSource run d(1,2) show ?thesis
    using overrides.answers_by_receipt [of env i s r s' t j env'] by simp
next
  case (ActivateSnapshot j)
  with d(2) obtain i where "c = ActivateSnapshot i" by (cases c) (auto simp: hold_command_kind_def split: if_splits)
  with ActivateSnapshot run d(1,2) show ?thesis
    using activations.answers_by_receipt [of "cw_revalidates w" env i s r s' t j env'] by simp
next
  case (RollbackSnapshot j)
  with d(2) obtain i where "c = RollbackSnapshot i" by (cases c) (auto simp: hold_command_kind_def split: if_splits)
  with RollbackSnapshot run d(1,2) show ?thesis
    using rollbacks.answers_by_receipt [of "cw_revalidates w" env i s r s' t j env'] by simp
next
  case (MaterializeAuthority j)
  with d(2) obtain i where "c = MaterializeAuthority i" by (cases c) (auto simp: hold_command_kind_def split: if_splits)
  with MaterializeAuthority run d(1,2) show ?thesis
    using authorities.answers_by_receipt [of env i s r s' t j env'] by simp
next
  case (EstablishEnrollment j)
  with d(2) obtain i where "c = EstablishEnrollment i" by (cases c) (auto simp: hold_command_kind_def split: if_splits)
  with EstablishEnrollment run d(1,2) show ?thesis
    using enrollments.answers_by_receipt [of env i s r s' t j env'] by simp
next
  case (DecideHold j)
  with d(2) obtain i where "c = DecideHold i" by (cases c) (auto simp: hold_command_kind_def split: if_splits)
  with DecideHold run d(1,2) show ?thesis
    using holds.answers_by_receipt [of env i s r s' t j env'] by simp
next
  case (RecordCheckpoint j)
  with d(2) obtain i where "c = RecordCheckpoint i" by (cases c) (auto simp: hold_command_kind_def split: if_splits)
  with RecordCheckpoint run d(1,2) show ?thesis
    using checkpoints.answers_by_receipt [of env i s r s' t j env'] by simp
next
  case (OpenGap j)
  with d(2) obtain i where "c = OpenGap i" by (cases c) (auto simp: hold_command_kind_def split: if_splits)
  with OpenGap run d(1,2) show ?thesis
    using gaps.answers_by_receipt [of env i s r s' t j env'] by simp
next
  case (RepairGap j)
  with d(2) obtain i where "c = RepairGap i" by (cases c) (auto simp: hold_command_kind_def split: if_splits)
  with RepairGap run d(1,2) show ?thesis
    using repairs.answers_by_receipt [of env i s r s' t j env'] by simp
qed (use d(2,3) in auto)

subsection \<open>Guarantees\<close>


text \<open>C8: Commands take turns. A command that is carried out on a reachable store takes exactly the next
  sequence and answers with it, and if it names the sequence its caller had read, that is the last
  one. So of the commands made on one reading at most one is carried out: once it was, every other
  that names that sequence or an older one is refused or answers from its receipt, and changes
  nothing.\<close>

theorem control_commands_take_turns:
  assumes "control_reachable w s" "run_control w env c s = Inr (r, s')" "s' \<noteq> s"
    and "control_later w s' t" "run_control w env' d t = Inr (q, t')"
    and "expected_sequence d = Some n" "js_int n \<le> cs_last_sequence s"
  shows "cs_last_sequence s' = cs_last_sequence s + 1 \<and> cr_sequence r = cs_last_sequence s' \<and>
    cs_watermark s \<le> cs_watermark s' \<and>
    (case expected_sequence c of None \<Rightarrow> True | Some m \<Rightarrow> js_int m = cs_last_sequence s) \<and> t' = t"
proof -
  note ok = ledger_reachable [OF assms(1)]
  have s': "control_reachable w s'" by (rule control_step [OF assms(1,2)])
  have one: "cs_last_sequence s' = cs_last_sequence s + 1 \<and> cr_sequence r = cs_last_sequence s'"
    using control.advances_by_one [OF assms(2) ok] assms(3) by blast
  have "cs_last_sequence s' \<le> cs_last_sequence t"
    using later_is_later [OF assms(4) s'] by (simp add: later_ledger_def)
  with one assms(7) have "t' = t"
    using control.needs_expected_sequence [OF assms(5,6)] by auto
  moreover have "cs_watermark s \<le> cs_watermark s'"
    using control.keeps_ledger [OF assms(2) ok] by (simp add: later_ledger_def)
  ultimately show ?thesis
    using one control.needs_expected_sequence [OF assms(2)] assms(3) by (auto split: option.split)
qed


end
