(* ===== verification/Coverage_Guarantees.thy ===== *)
theory Coverage_Guarantees
  imports Control_Guarantees
begin

text \<open>
  What the records say of the deliveries a repository has seen, in every store the control plane
  reaches: the checkpoints of a repository follow each other without a hole, and a gap stops them
  until a repair covers it.
\<close>

subsection \<open>Records of a kind\<close>

definition of_kind :: "string \<Rightarrow> control_store \<Rightarrow> occurrence list" where
  "of_kind kind s = filter (\<lambda>oc. oc_kind oc = kind) (cs_occurrences s)"

definition of_repository :: "string \<Rightarrow> occurrence \<Rightarrow> bool" where
  "of_repository repository_id oc \<longleftrightarrow>
     oc_subject_kind oc = ''github-repository'' \<and> oc_subject_id oc = repository_id"

lemma subject_records_rev:
  assumes "ledger_ok s"
  shows "subject_records kind repository_id s = rev (filter (of_repository repository_id) (of_kind kind s))"
  using newest_first_rev [OF assms]
  by (simp add: subject_records_def of_kind_def of_repository_def conj_commute)

definition the_checkpoint :: "occurrence \<Rightarrow> checkpoint_payload" where
  "the_checkpoint oc = the (checkpoint_of (oc_payload oc))"
definition the_gap :: "occurrence \<Rightarrow> gap_payload" where
  "the_gap oc = the (gap_of (oc_payload oc))"
definition the_repair :: "occurrence \<Rightarrow> repair_payload" where
  "the_repair oc = the (repair_of (oc_payload oc))"

definition checkpoints_of :: "string \<Rightarrow> control_store \<Rightarrow> checkpoint_payload list" where
  "checkpoints_of repository_id s =
     map the_checkpoint (filter (of_repository repository_id) (of_kind checkpoint_kind s))"

definition repaired_gaps :: "control_store \<Rightarrow> string set" where
  "repaired_gaps s = (rp_gap_record_id \<circ> the_repair) ` set (of_kind repair_kind s)"

definition open_gaps :: "string \<Rightarrow> control_store \<Rightarrow> gap_payload list" where
  "open_gaps repository_id s =
     map the_gap
       (filter (\<lambda>oc. of_repository repository_id oc \<and> oc_record_id oc \<notin> repaired_gaps s) (of_kind gap_kind s))"

subsection \<open>The invariant\<close>

definition checkpoint_record :: "occurrence \<Rightarrow> bool" where
  "checkpoint_record oc \<longleftrightarrow>
     (\<exists>p. oc_payload oc = CheckpointPayload p \<and> cp_checkpoint_record_id p = oc_record_id oc \<and>
        of_repository (cp_repository_id p) oc)"

definition gap_record :: "occurrence \<Rightarrow> bool" where
  "gap_record oc \<longleftrightarrow>
     (\<exists>p. oc_payload oc = GapPayload p \<and> ga_gap_record_id p = oc_record_id oc \<and>
        of_repository (ga_repository_id p) oc)"

definition repair_record :: "control_store \<Rightarrow> occurrence \<Rightarrow> bool" where
  "repair_record s oc \<longleftrightarrow>
     (\<exists>p. oc_payload oc = RepairPayload p \<and> rp_gap_record_id p \<in> oc_record_id ` set (of_kind gap_kind s))"

definition follows :: "checkpoint_payload \<Rightarrow> checkpoint_payload \<Rightarrow> bool" where
  "follows a b \<longleftrightarrow>
     cp_covered_from b = cp_covered_through a \<and> cp_app_id b = cp_app_id a \<and>
     cp_installation_id b = cp_installation_id a \<and>
     cp_previous_checkpoint_record_id b = Some (cp_checkpoint_record_id a)"

definition unbroken :: "checkpoint_payload list \<Rightarrow> bool" where
  "unbroken cs \<longleftrightarrow>
     (case cs of
        [] \<Rightarrow> True
      | c # _ \<Rightarrow> cp_covered_from c = cp_covered_through c \<and> cp_previous_checkpoint_record_id c = None) \<and>
     successively follows cs \<and> list_all (\<lambda>c. cp_covered_from c \<le> cp_covered_through c) cs"

definition gap_after :: "checkpoint_payload \<Rightarrow> gap_payload \<Rightarrow> bool" where
  "gap_after c g \<longleftrightarrow>
     ga_checkpoint_record_id g = cp_checkpoint_record_id c \<and> ga_lower_bound_at g = cp_covered_through c \<and>
     ga_app_id g = cp_app_id c \<and> ga_installation_id g = cp_installation_id c"

definition stopped :: "checkpoint_payload list \<Rightarrow> gap_payload list \<Rightarrow> bool" where
  "stopped cs gs \<longleftrightarrow> length gs \<le> 1 \<and> (\<forall>g \<in> set gs. cs \<noteq> [] \<and> gap_after (last cs) g)"

definition coverage_ok :: "control_store \<Rightarrow> bool" where
  "coverage_ok s \<longleftrightarrow>
     list_all checkpoint_record (of_kind checkpoint_kind s) \<and>
     list_all gap_record (of_kind gap_kind s) \<and>
     list_all (repair_record s) (of_kind repair_kind s) \<and>
     (\<forall>r. unbroken (checkpoints_of r s) \<and> stopped (checkpoints_of r s) (open_gaps r s))"

lemma unbroken_snoc:
  "unbroken (cs @ [c]) \<longleftrightarrow>
     unbroken cs \<and> cp_covered_from c \<le> cp_covered_through c \<and>
     (if cs = [] then cp_covered_from c = cp_covered_through c \<and> cp_previous_checkpoint_record_id c = None
      else follows (last cs) c)"
  by (auto simp: unbroken_def successively_append_iff split: list.split)

lemma coverage_ok_same_kinds:
  assumes "of_kind checkpoint_kind s' = of_kind checkpoint_kind s" "of_kind gap_kind s' = of_kind gap_kind s"
    "of_kind repair_kind s' = of_kind repair_kind s"
  shows "coverage_ok s' \<longleftrightarrow> coverage_ok s"
  by (simp add: coverage_ok_def checkpoints_of_def open_gaps_def repaired_gaps_def repair_record_def [abs_def] assms)

subsection \<open>What the commands read\<close>

lemma latest_source_checkpoint_last:
  assumes "ledger_ok s" "coverage_ok s" "latest_source_checkpoint r s = Inr previous"
  shows "previous = (if checkpoints_of r s = [] then None else Some (last (checkpoints_of r s)))"
proof (cases "filter (of_repository r) (of_kind checkpoint_kind s)" rule: rev_cases)
  case Nil
  with assms show ?thesis
    by (simp add: latest_source_checkpoint_def subject_records_rev first_contract_def checkpoints_of_def)
next
  case (snoc os oc)
  then have "oc \<in> set (filter (of_repository r) (of_kind checkpoint_kind s))" by simp
  then have "oc \<in> set (of_kind checkpoint_kind s)" by simp
  with assms(2) have "checkpoint_record oc" by (auto simp: coverage_ok_def list_all_iff)
  with assms(1,3) snoc show ?thesis
    by (auto simp: latest_source_checkpoint_def subject_records_rev first_contract_def checkpoints_of_def
        contract_of_def checkpoint_record_def the_checkpoint_def split: if_splits)
qed

lemma gap_repaired_iff:
  assumes "coverage_ok s"
  shows "gap_repaired s id' \<longleftrightarrow> id' \<in> repaired_gaps s"
proof -
  have "gap_repaired s id' \<longleftrightarrow> (\<exists>oc \<in> set (of_kind repair_kind s).
      case repair_of (oc_payload oc) of None \<Rightarrow> False | Some p \<Rightarrow> rp_gap_record_id p = id')"
    by (auto simp: gap_repaired_def of_kind_def list_ex_iff)
  also have "\<dots> \<longleftrightarrow> (\<exists>oc \<in> set (of_kind repair_kind s). rp_gap_record_id (the_repair oc) = id')"
  proof (rule bex_cong [OF refl])
    fix oc assume "oc \<in> set (of_kind repair_kind s)"
    with assms obtain p where "oc_payload oc = RepairPayload p"
      unfolding coverage_ok_def list_all_iff repair_record_def by blast
    then show "(case repair_of (oc_payload oc) of None \<Rightarrow> False | Some p \<Rightarrow> rp_gap_record_id p = id') \<longleftrightarrow>
        rp_gap_record_id (the_repair oc) = id'"
      by (simp add: the_repair_def)
  qed
  finally show ?thesis by (auto simp: repaired_gaps_def)
qed

lemma find_open_source_gap_iff:
  assumes "ledger_ok s" "coverage_ok s" "find_open_source_gap r s = Inr found"
  shows "open_gaps r s = (case found of None \<Rightarrow> [] | Some g \<Rightarrow> [g])"
proof -
  let ?os = "filter (\<lambda>oc. of_repository r oc \<and> oc_record_id oc \<notin> repaired_gaps s) (of_kind gap_kind s)"
  have read: "find_open_source_gap r s = first_contract gap_of is_gap_payload (rev ?os)"
    using assms(1,2)
    by (simp add: find_open_source_gap_def subject_records_rev gap_repaired_iff rev_filter conj_commute)
  have "length ?os \<le> 1" using assms(2) by (simp add: coverage_ok_def stopped_def open_gaps_def)
  then consider "?os = []" | oc where "?os = [oc]" by (cases ?os) auto
  then show ?thesis
  proof cases
    case 1
    with read assms(3) show ?thesis by (simp add: first_contract_def open_gaps_def)
  next
    case (2 oc)
    then have "oc \<in> set ?os" by simp
    then have "oc \<in> set (of_kind gap_kind s)" by simp
    with assms(2) have "gap_record oc" by (auto simp: coverage_ok_def list_all_iff)
    with 2 read assms(3) show ?thesis
      by (auto simp: first_contract_def open_gaps_def contract_of_def gap_record_def the_gap_def split: if_splits)
  qed
qed

subsection \<open>What the commands do\<close>

lemma of_kind_write:
  assumes "write_command c s = Inr (r, s')"
  shows "of_kind kind s' =
    of_kind kind s @ filter (\<lambda>oc. oc_kind oc = kind) (placed (cm_occurrences c) (cs_allocated s + 1))"
  by (simp add: write_command_Inr(1) [OF assms] of_kind_def written_def Let_def)

lemmas coverage_kinds = checkpoint_kind_def gap_kind_def repair_kind_def

lemma record_source_checkpoint_effect:
  assumes "record_source_checkpoint env i s = Inr (r, s')" "s' \<noteq> s"
  obtains previous oc where "find_open_source_gap (ki_repository_id i) s = Inr None"
    "latest_source_checkpoint (ki_repository_id i) s = Inr previous" "continues_checkpoint i previous"
    "ki_covered_from i \<le> ki_covered_through i"
    "of_kind checkpoint_kind s' = of_kind checkpoint_kind s @ [oc]" "of_kind gap_kind s' = of_kind gap_kind s"
    "of_kind repair_kind s' = of_kind repair_kind s" "oc_record_id oc = ce_id env 0"
    "of_repository (ki_repository_id i) oc"
    "oc_payload oc =
      CheckpointPayload (checkpoint_payload_of env i (map_option cp_checkpoint_record_id previous) (ce_id env 0))"
proof -
  let ?p = "\<lambda>previous. checkpoint_payload_of env i (map_option cp_checkpoint_record_id previous) (ce_id env 0)"
  from assms obtain previous key digest where f: "find_open_source_gap (ki_repository_id i) s = Inr None"
      "latest_source_checkpoint (ki_repository_id i) s = Inr previous" "continues_checkpoint i previous"
      "ki_covered_from i \<le> ki_covered_through i"
    and w: "write_command (coverage_command env ''github.record-source-checkpoint'' key digest
      (checkpoint_occurrences env (?p previous)) (CheckpointPayload (?p previous)) (ce_id env 1)) s = Inr (r, s')"
    by (auto simp: record_source_checkpoint_def command_reads Let_def normalize_checkpoint_input_def
        split: option.splits if_splits)
  show thesis
    using that [OF f, of "(checkpoint_occurrences env (?p previous) ! 0) (cs_allocated s + 1) 0"]
    by (simp add: of_kind_write [OF w] coverage_command_def checkpoint_occurrences_def placed_def upt_rec
        coverage_occurrence_def of_repository_def checkpoint_payload_of_def coverage_kinds Let_def)
qed

lemma open_source_gap_effect:
  assumes "open_source_gap env i s = Inr (r, s')" "s' \<noteq> s"
  obtains checkpoint oc where "find_open_source_gap (gx_repository_id i) s = Inr None"
    "latest_source_checkpoint (gx_repository_id i) s = Inr (Some checkpoint)"
    "cp_checkpoint_record_id checkpoint = gx_checkpoint_record_id i" "cp_app_id checkpoint = gx_app_id i"
    "cp_installation_id checkpoint = gx_installation_id i"
    "of_kind checkpoint_kind s' = of_kind checkpoint_kind s" "of_kind gap_kind s' = of_kind gap_kind s @ [oc]"
    "of_kind repair_kind s' = of_kind repair_kind s" "oc_record_id oc = ce_id env 0"
    "ce_id env 0 \<notin> record_ids s" "of_repository (gx_repository_id i) oc"
    "oc_payload oc = GapPayload (gap_payload_of env i checkpoint)"
proof -
  from assms obtain checkpoint key digest where f: "find_open_source_gap (gx_repository_id i) s = Inr None"
      "latest_source_checkpoint (gx_repository_id i) s = Inr (Some checkpoint)"
      "cp_checkpoint_record_id checkpoint = gx_checkpoint_record_id i" "cp_app_id checkpoint = gx_app_id i"
      "cp_installation_id checkpoint = gx_installation_id i"
    and w: "write_command (coverage_command env ''github.open-source-gap'' key digest
      (gap_occurrences env (gap_payload_of env i checkpoint)) (GapPayload (gap_payload_of env i checkpoint))
      (ce_id env 1)) s = Inr (r, s')"
    by (auto simp: open_source_gap_def command_reads Let_def split: option.splits if_splits)
  have "ce_id env 0 \<notin> record_ids s"
    using write_command_Inr(6) [OF w]
    by (simp add: coverage_command_def gap_occurrences_def placed_def upt_rec coverage_occurrence_def Let_def)
  then show thesis
    using that [OF f, of "(gap_occurrences env (gap_payload_of env i checkpoint) ! 0) (cs_allocated s + 1) 0"]
    by (simp add: of_kind_write [OF w] coverage_command_def gap_occurrences_def placed_def upt_rec
        coverage_occurrence_def of_repository_def gap_payload_of_def coverage_kinds Let_def)
qed

lemma repair_source_gap_effect:
  assumes "repair_source_gap env i s = Inr (r, s')" "s' \<noteq> s"
  obtains gap c oc oc' where "find_open_source_gap (ri'_repository_id i) s = Inr (Some gap)"
    "ga_app_id gap = ri'_app_id i" "ga_installation_id gap = ri'_installation_id i"
    "ga_lower_bound_at gap < ri'_covered_through i"
    "of_kind checkpoint_kind s' = of_kind checkpoint_kind s @ [oc]" "of_kind gap_kind s' = of_kind gap_kind s"
    "of_kind repair_kind s' = of_kind repair_kind s @ [oc']" "oc_record_id oc = ce_id env 0"
    "of_repository (ri'_repository_id i) oc"
    "oc_payload oc = CheckpointPayload (checkpoint_payload_of env (covering_checkpoint i gap)
       (Some (ga_checkpoint_record_id gap)) (ce_id env 0))"
    "oc_payload oc' = RepairPayload (repair_payload_of env i gap)"
proof -
  let ?c = "\<lambda>gap. checkpoint_payload_of env (covering_checkpoint i gap) (Some (ga_checkpoint_record_id gap)) (ce_id env 0)"
  let ?p = "\<lambda>gap. repair_payload_of env i gap"
  from assms obtain gap key digest where f: "find_open_source_gap (ri'_repository_id i) s = Inr (Some gap)"
      "ga_app_id gap = ri'_app_id i" "ga_installation_id gap = ri'_installation_id i"
      "ga_lower_bound_at gap < ri'_covered_through i"
    and w: "write_command (coverage_command env ''github.repair-source-gap'' key digest
      (repair_occurrences env gap (?c gap) (?p gap)) (RepairPayload (?p gap)) (ce_id env 2)) s = Inr (r, s')"
    by (auto simp: repair_source_gap_def command_reads Let_def split: option.splits if_splits)
  show thesis
    using that [OF f, of "(repair_occurrences env gap (?c gap) (?p gap) ! 0) (cs_allocated s + 1) 0"
        "(repair_occurrences env gap (?c gap) (?p gap) ! 1) (cs_allocated s + 1) 1"]
    by (simp add: of_kind_write [OF w] coverage_command_def repair_occurrences_def placed_def upt_rec
        coverage_occurrence_def of_repository_def repair_payload_of_def coverage_kinds Let_def)
qed

fun reports_coverage :: "control_command \<Rightarrow> bool" where
  "reports_coverage (RecordCheckpoint i) = True"
| "reports_coverage (OpenGap i) = True"
| "reports_coverage (RepairGap i) = True"
| "reports_coverage _ = False"

lemma other_commands_leave_coverage:
  assumes "run_control w env c s = Inr (r, s')" "kind \<in> {checkpoint_kind, gap_kind, repair_kind}"
    and "\<not> reports_coverage c"
  shows "of_kind kind s' = of_kind kind s"
proof -
  note kinds = coverage_kinds rejection_kind_def eligible_kind_def override_kind_def snapshot_kinds_def
    authority_kind_def identity_kind_def surface_kinds_def surfaces_kind_def enrollment_kind_def hold_kind_def
  show ?thesis
  proof (cases c)
    case (RejectCandidate i)
    then show ?thesis
      using assms rejections.leaves_other_kinds [of env i s r s' kind] by (auto simp: kinds of_kind_def)
  next
    case (SourceEligible i)
    then show ?thesis
      using assms checks.leaves_other_kinds [of "cw_revalidates w" env i s r s' kind] by (auto simp: kinds of_kind_def)
  next
    case (OverrideStaleSource i)
    then show ?thesis
      using assms overrides.leaves_other_kinds [of env i s r s' kind] by (auto simp: kinds of_kind_def)
  next
    case (ActivateSnapshot i)
    then show ?thesis
      using assms activations.leaves_other_kinds [of "cw_revalidates w" env i s r s' kind] by (auto simp: kinds of_kind_def)
  next
    case (RollbackSnapshot i)
    then show ?thesis
      using assms rollbacks.leaves_other_kinds [of "cw_revalidates w" env i s r s' kind] by (auto simp: kinds of_kind_def)
  next
    case (MaterializeAuthority i)
    then show ?thesis
      using assms authorities.leaves_other_kinds [of env i s r s' kind] by (auto simp: kinds of_kind_def)
  next
    case (RecordIdentity i)
    then show ?thesis
      using assms identities.leaves_other_kinds [of env i s r s' kind] by (auto simp: kinds of_kind_def)
  next
    case (RecordSurfaces i)
    then show ?thesis
      using assms surfaces.leaves_other_kinds [of "cw_surfaces w" env i s r s' kind] by (auto simp: kinds of_kind_def)
  next
    case (EstablishEnrollment i)
    then show ?thesis
      using assms enrollments.leaves_other_kinds [of env i s r s' kind] by (auto simp: kinds of_kind_def)
  next
    case (DecideHold i)
    then show ?thesis
      using assms holds.leaves_other_kinds [of env i s r s' kind] by (auto simp: kinds of_kind_def)
  qed (use assms(3) in auto)
qed

subsection \<open>Every step keeps the invariant\<close>

lemma filter_other_repository:
  "of_repository a oc \<Longrightarrow> of_repository b oc \<longleftrightarrow> a = b"
  by (auto simp: of_repository_def)

lemma checkpoints_of_snoc:
  assumes "of_kind checkpoint_kind s' = of_kind checkpoint_kind s @ [oc]" "of_repository a oc"
    "oc_payload oc = CheckpointPayload p"
  shows "checkpoints_of r s' = checkpoints_of r s @ (if r = a then [p] else [])"
  using assms by (auto simp: checkpoints_of_def filter_other_repository the_checkpoint_def)

lemma coverage_checkpoint:
  assumes "ledger_ok s" "coverage_ok s" "record_source_checkpoint env i s = Inr (r, s')" "s' \<noteq> s"
  shows "coverage_ok s'"
proof -
  from record_source_checkpoint_effect [OF assms(3,4)] obtain previous oc where
      e: "find_open_source_gap (ki_repository_id i) s = Inr None"
        "latest_source_checkpoint (ki_repository_id i) s = Inr previous" "continues_checkpoint i previous"
        "ki_covered_from i \<le> ki_covered_through i"
    and k: "of_kind checkpoint_kind s' = of_kind checkpoint_kind s @ [oc]" "of_kind gap_kind s' = of_kind gap_kind s"
        "of_kind repair_kind s' = of_kind repair_kind s"
    and oc: "oc_record_id oc = ce_id env 0" "of_repository (ki_repository_id i) oc"
        "oc_payload oc = CheckpointPayload
          (checkpoint_payload_of env i (map_option cp_checkpoint_record_id previous) (ce_id env 0))"
    by metis
  let ?p = "checkpoint_payload_of env i (map_option cp_checkpoint_record_id previous) (ce_id env 0)"
  note cs = checkpoints_of_snoc [OF k(1) oc(2,3)]
  have gaps: "open_gaps a s' = open_gaps a s" for a
    by (simp add: open_gaps_def repaired_gaps_def k)
  have none: "open_gaps (ki_repository_id i) s = []"
    using find_open_source_gap_iff [OF assms(1,2) e(1)] by simp
  have "unbroken (checkpoints_of (ki_repository_id i) s @ [?p])"
    using assms(2) latest_source_checkpoint_last [OF assms(1,2) e(2)] e(3,4)
    by (auto simp: unbroken_snoc coverage_ok_def checkpoint_payload_of_def continues_checkpoint_def follows_def
        split: if_splits)
  then have "unbroken (checkpoints_of a s') \<and> stopped (checkpoints_of a s') (open_gaps a s')" for a
    using assms(2) none by (cases "a = ki_repository_id i") (auto simp: cs gaps coverage_ok_def stopped_def)
  moreover have "checkpoint_record oc"
    using oc by (auto simp: checkpoint_record_def checkpoint_payload_of_def)
  ultimately show ?thesis
    using assms(2) by (simp add: coverage_ok_def k repair_record_def [abs_def])
qed

lemma coverage_gap:
  assumes "ledger_ok s" "coverage_ok s" "open_source_gap env i s = Inr (r, s')" "s' \<noteq> s"
  shows "coverage_ok s'"
proof -
  from open_source_gap_effect [OF assms(3,4)] obtain checkpoint oc where
      e: "find_open_source_gap (gx_repository_id i) s = Inr None"
        "latest_source_checkpoint (gx_repository_id i) s = Inr (Some checkpoint)"
        "cp_checkpoint_record_id checkpoint = gx_checkpoint_record_id i" "cp_app_id checkpoint = gx_app_id i"
        "cp_installation_id checkpoint = gx_installation_id i"
    and k: "of_kind checkpoint_kind s' = of_kind checkpoint_kind s" "of_kind gap_kind s' = of_kind gap_kind s @ [oc]"
        "of_kind repair_kind s' = of_kind repair_kind s"
    and oc: "oc_record_id oc = ce_id env 0" "ce_id env 0 \<notin> record_ids s" "of_repository (gx_repository_id i) oc"
        "oc_payload oc = GapPayload (gap_payload_of env i checkpoint)"
    by metis
  have cs: "checkpoints_of a s' = checkpoints_of a s" for a by (simp add: checkpoints_of_def k)
  have repaired: "repaired_gaps s' = repaired_gaps s" by (simp add: repaired_gaps_def k)
  have "repaired_gaps s \<subseteq> record_ids s"
    using assms(2) by (auto simp: repaired_gaps_def coverage_ok_def list_all_iff repair_record_def the_repair_def
        record_ids_def of_kind_def)
  with oc have "oc_record_id oc \<notin> repaired_gaps s" by auto
  with oc have gaps: "open_gaps a s' = open_gaps a s @
      (if a = gx_repository_id i then [gap_payload_of env i checkpoint] else [])" for a
    by (auto simp: open_gaps_def repaired k filter_other_repository the_gap_def)
  have none: "open_gaps (gx_repository_id i) s = []"
    using find_open_source_gap_iff [OF assms(1,2) e(1)] by simp
  have last: "checkpoints_of (gx_repository_id i) s \<noteq> []" "last (checkpoints_of (gx_repository_id i) s) = checkpoint"
    using latest_source_checkpoint_last [OF assms(1,2) e(2)] by (auto split: if_splits)
  have "stopped (checkpoints_of a s') (open_gaps a s')" for a
    using assms(2) none last e
    by (cases "a = gx_repository_id i")
      (auto simp: cs gaps coverage_ok_def stopped_def gap_after_def gap_payload_of_def)
  moreover have "gap_record oc" using oc by (auto simp: gap_record_def gap_payload_of_def)
  moreover have "repair_record s' x" if "repair_record s x" for x
    using that by (auto simp: repair_record_def k)
  ultimately show ?thesis
    using assms(2) by (auto simp: coverage_ok_def k cs list_all_iff)
qed

lemma coverage_repair:
  assumes "ledger_ok s" "coverage_ok s" "repair_source_gap env i s = Inr (r, s')" "s' \<noteq> s"
  shows "coverage_ok s'"
proof -
  from repair_source_gap_effect [OF assms(3,4)] obtain gap oc oc' where
      e: "find_open_source_gap (ri'_repository_id i) s = Inr (Some gap)" "ga_app_id gap = ri'_app_id i"
        "ga_installation_id gap = ri'_installation_id i" "ga_lower_bound_at gap < ri'_covered_through i"
    and k: "of_kind checkpoint_kind s' = of_kind checkpoint_kind s @ [oc]" "of_kind gap_kind s' = of_kind gap_kind s"
        "of_kind repair_kind s' = of_kind repair_kind s @ [oc']"
    and oc: "oc_record_id oc = ce_id env 0" "of_repository (ri'_repository_id i) oc"
        "oc_payload oc = CheckpointPayload (checkpoint_payload_of env (covering_checkpoint i gap)
          (Some (ga_checkpoint_record_id gap)) (ce_id env 0))"
        "oc_payload oc' = RepairPayload (repair_payload_of env i gap)"
    by metis
  let ?p = "checkpoint_payload_of env (covering_checkpoint i gap) (Some (ga_checkpoint_record_id gap)) (ce_id env 0)"
  note cs = checkpoints_of_snoc [OF k(1) oc(2,3)]
  have one: "open_gaps (ri'_repository_id i) s = [gap]"
    using find_open_source_gap_iff [OF assms(1,2) e(1)] by simp
  then obtain g where os: "filter (\<lambda>x. of_repository (ri'_repository_id i) x \<and>
      oc_record_id x \<notin> repaired_gaps s) (of_kind gap_kind s) = [g]" and g3: "the_gap g = gap"
    by (auto simp: open_gaps_def map_eq_Cons_conv)
  from os have "g \<in> set (filter (\<lambda>x. of_repository (ri'_repository_id i) x \<and>
      oc_record_id x \<notin> repaired_gaps s) (of_kind gap_kind s))" by simp
  with g3 have g: "g \<in> set (of_kind gap_kind s)" "of_repository (ri'_repository_id i) g" "the_gap g = gap" by auto
  with assms(2) have id': "ga_gap_record_id gap = oc_record_id g"
    by (auto simp: coverage_ok_def list_all_iff gap_record_def the_gap_def)
  have repaired: "repaired_gaps s' = insert (oc_record_id g) (repaired_gaps s)"
    using oc(4) by (simp add: repaired_gaps_def k the_repair_def repair_payload_of_def id' Let_def)
  have distinct: "distinct (map oc_record_id (of_kind gap_kind s))"
    using assms(1) by (auto simp: ledger_ok_def of_kind_def distinct_map_filter)
  have "oc_record_id x \<noteq> oc_record_id g" if "x \<in> set (of_kind gap_kind s)" "x \<noteq> g" for x
    using that g(1) distinct by (auto simp: distinct_map dest: inj_onD)
  then have gaps: "open_gaps a s' = map the_gap (filter (\<lambda>x. x \<noteq> g)
      (filter (\<lambda>x. of_repository a x \<and> oc_record_id x \<notin> repaired_gaps s) (of_kind gap_kind s)))" for a
    unfolding open_gaps_def k repaired filter_filter by (intro arg_cong [where f = "map the_gap"] filter_cong) auto
  have other: "open_gaps a s' = open_gaps a s" if "a \<noteq> ri'_repository_id i" for a
    unfolding gaps unfolding open_gaps_def filter_filter
    by (intro arg_cong [where f = "map the_gap"] filter_cong) (use that g(2) in \<open>auto simp: filter_other_repository\<close>)
  have none: "open_gaps (ri'_repository_id i) s' = []"
    unfolding gaps os by simp
  have after: "checkpoints_of (ri'_repository_id i) s \<noteq> []"
      "gap_after (last (checkpoints_of (ri'_repository_id i) s)) gap"
    using assms(2) one unfolding coverage_ok_def stopped_def by (metis list.set_intros(1))+
  then have "unbroken (checkpoints_of (ri'_repository_id i) s @ [?p])"
    using assms(2) e
    by (auto simp: unbroken_snoc coverage_ok_def checkpoint_payload_of_def covering_checkpoint_def
        point_checkpoint_def follows_def gap_after_def)
  then have "unbroken (checkpoints_of a s') \<and> stopped (checkpoints_of a s') (open_gaps a s')" for a
    using assms(2) none other by (cases "a = ri'_repository_id i") (auto simp: cs coverage_ok_def stopped_def)
  moreover have "checkpoint_record oc"
    using oc by (auto simp: checkpoint_record_def checkpoint_payload_of_def covering_checkpoint_def point_checkpoint_def)
  moreover have "repair_record s' oc'"
    using oc(4) g(1) id' by (auto simp: repair_record_def k repair_payload_of_def Let_def)
  moreover have "repair_record s' x" if "repair_record s x" for x
    using that by (auto simp: repair_record_def k)
  ultimately show ?thesis
    using assms(2) by (auto simp: coverage_ok_def k list_all_iff)
qed

lemma coverage_step:
  assumes "run_control w env c s = Inr (r, s')" "ledger_ok s" "coverage_ok s"
  shows "coverage_ok s'"
proof (cases "s' = s")
  case False
  show ?thesis
  proof (cases "reports_coverage c")
    case True
    then show ?thesis
      using assms False
      by (cases c) (auto intro: coverage_checkpoint coverage_gap coverage_repair)
  next
    case other: False
    note leave = other_commands_leave_coverage [OF assms(1) _ other]
    have "coverage_ok s' \<longleftrightarrow> coverage_ok s"
      by (rule coverage_ok_same_kinds) (rule leave, simp)+
    with assms(3) show ?thesis by blast
  qed
qed (use assms(3) in simp)

lemma coverage_initialize:
  assumes "initialize env = Inr s"
  shows "coverage_ok s"
proof -
  have "of_kind kind s = []" if "kind \<in> {checkpoint_kind, gap_kind, repair_kind}" for kind
    using that unfolding of_kind_def initialize_Inr(2) [OF assms] initial_occurrences_placed
    by (auto simp: initial_occurrences_def initial_occurrence_def coverage_kinds Let_def)
  then show ?thesis
    by (simp add: coverage_ok_def checkpoints_of_def open_gaps_def unbroken_def stopped_def)
qed

lemma coverage_reachable: "control_reachable w s \<Longrightarrow> coverage_ok s"
  by (induction rule: control_reachable.induct)
    (auto intro: coverage_initialize coverage_step dest: ledger_reachable)

subsection \<open>No hole\<close>

text \<open>The interval from the first boundary to the last is covered, instant by instant.\<close>

lemma unbroken_covers:
  assumes "unbroken cs" "cs \<noteq> []" "cp_covered_from (hd cs) \<le> at" "at \<le> cp_covered_through (last cs)"
  shows "\<exists>c \<in> set cs. cp_covered_from c \<le> at \<and> at \<le> cp_covered_through c"
  using assms
proof (induction cs rule: rev_induct)
  case (snoc c cs)
  show ?case
  proof (cases "cs = [] \<or> cp_covered_from c \<le> at")
    case True
    with snoc.prems show ?thesis by auto
  next
    case False
    with snoc.prems(1) have "unbroken cs" "cp_covered_from c = cp_covered_through (last cs)"
      by (auto simp: unbroken_snoc follows_def)
    with snoc False show ?thesis by auto
  qed
qed simp

text \<open>C6: The deliveries of a repository are covered without a hole. In every store the control plane
  reaches, the first checkpoint of a repository is a point, each next one begins where the one before it
  ended, of the same App and installation, and names it, so that every instant from the first boundary
  to the last lies in some checkpoint. At most one gap is open; it begins where the last checkpoint ends
  and stops the chain: while it is open no command but its repair adds a checkpoint.\<close>

theorem coverage_has_no_hole:
  assumes "control_reachable w s"
  shows "let cs = checkpoints_of repository_id s; gs = open_gaps repository_id s in
    (cs = [] \<or> cp_covered_from (hd cs) = cp_covered_through (hd cs)) \<and>
    (\<forall>k. Suc k < length cs \<longrightarrow> follows (cs ! k) (cs ! Suc k)) \<and>
    (\<forall>at. cs \<noteq> [] \<and> cp_covered_from (hd cs) \<le> at \<and> at \<le> cp_covered_through (last cs) \<longrightarrow>
       (\<exists>c \<in> set cs. cp_covered_from c \<le> at \<and> at \<le> cp_covered_through c)) \<and>
    length gs \<le> 1 \<and> (\<forall>g \<in> set gs. cs \<noteq> [] \<and> gap_after (last cs) g) \<and>
    (gs \<noteq> [] \<longrightarrow>
       (\<forall>env c r s'. run_control w env c s = Inr (r, s') \<and> (\<forall>i. c \<noteq> RepairGap i) \<longrightarrow>
          checkpoints_of repository_id s' = cs))"
proof -
  note ok = ledger_reachable [OF assms] coverage_reachable [OF assms]
  let ?cs = "checkpoints_of repository_id s"
  have u: "unbroken ?cs" and st: "stopped ?cs (open_gaps repository_id s)"
    using ok(2) by (simp_all add: coverage_ok_def)
  have stays: "checkpoints_of repository_id s' = ?cs"
    if "open_gaps repository_id s \<noteq> []" "run_control w env c s = Inr (r, s')" "\<forall>i. c \<noteq> RepairGap i" for env c r s'
  proof (cases "s' = s")
    case False
    show ?thesis
    proof (cases c)
      case (RecordCheckpoint i)
      with that False record_source_checkpoint_effect [of env i s r s'] obtain oc where
          e: "find_open_source_gap (ki_repository_id i) s = Inr None"
        and k: "of_kind checkpoint_kind s' = of_kind checkpoint_kind s @ [oc]" "of_repository (ki_repository_id i) oc"
        by (metis run_control.simps(11))
      from find_open_source_gap_iff [OF ok e] that(1) have "ki_repository_id i \<noteq> repository_id" by auto
      with k show ?thesis by (auto simp: checkpoints_of_def filter_other_repository)
    next
      case (OpenGap i)
      with that False open_source_gap_effect [of env i s r s']
      have "of_kind checkpoint_kind s' = of_kind checkpoint_kind s" by (metis run_control.simps(12))
      then show ?thesis by (simp add: checkpoints_of_def)
    qed (use that other_commands_leave_coverage [OF that(2), of checkpoint_kind] in \<open>auto simp: checkpoints_of_def\<close>)
  qed simp
  have "?cs = [] \<or> cp_covered_from (hd ?cs) = cp_covered_through (hd ?cs)"
    using u by (cases ?cs) (auto simp: unbroken_def)
  moreover have "follows (?cs ! k) (?cs ! Suc k)" if "Suc k < length ?cs" for k
    using u that by (simp add: unbroken_def successively_conv_nth)
  ultimately show ?thesis
    unfolding Let_def using unbroken_covers [OF u] st stays unfolding stopped_def by blast
qed

end
