(* ===== verification/Authority_Guarantees.thy ===== *)
theory Authority_Guarantees
  imports Coverage_Guarantees
begin

text \<open>
  What the state of a repository rests on: the operator's decisions alternate, and a repository is
  enrolled only on a coherent chain of records, with no hold, while it is declared enabled.
\<close>

subsection \<open>Reading rows\<close>

lemma map_res_map:
  assumes "map_res f xs = Inr ys" "\<And>x y. x \<in> set xs \<Longrightarrow> f x = Inr y \<Longrightarrow> y = g x"
  shows "ys = map g xs"
  using assms by (induction xs arbitrary: ys) (auto simp: and_then_Inr_iff)

lemma map_sum_Inr: "map_sum f g x = Inr y \<longleftrightarrow> (\<exists>z. x = Inr z \<and> y = g z)"
  by (cases x) auto

lemma contract_of_Inr:
  "contract_of select valid oc = Inr (id', p) \<longleftrightarrow> select (oc_payload oc) = Some p \<and> valid p \<and> id' = oc_record_id oc"
  by (auto simp: contract_of_def split: option.splits)

lemma find_mem: "List.find P xs = Some x \<Longrightarrow> x \<in> set xs \<and> P x"
  by (auto simp: find_Some_iff in_set_conv_nth)

lemma records_of_mem: "oc \<in> set (records_of kind cls s) \<longleftrightarrow>
    oc \<in> set (cs_occurrences s) \<and> oc_kind oc = kind \<and> oc_record_class oc = Some cls"
  by (auto simp: records_of_def newest_first_def)

definition recorded :: "control_store \<Rightarrow> string \<Rightarrow> string \<Rightarrow> string \<Rightarrow> control_payload \<Rightarrow> bool" where
  "recorded s kind cls record_id payload \<longleftrightarrow>
     (\<exists>oc \<in> set (cs_occurrences s). oc_kind oc = kind \<and> oc_record_class oc = Some cls \<and>
        oc_record_id oc = record_id \<and> oc_payload oc = payload)"

lemma rows_recorded:
  assumes "map_res (contract_of select valid) (records_of kind cls s) = Inr rows" "(id', p) \<in> set rows"
    and "\<And>q. select q = Some p \<Longrightarrow> q = wrap p"
  shows "recorded s kind cls id' (wrap p) \<and> valid p"
  using map_res_mem [OF assms(1,2)] assms(3)
  by (auto simp: contract_of_Inr records_of_mem recorded_def)

lemma payload_wraps:
  "authority_of q = Some a \<Longrightarrow> q = AuthorityPayload a"
  "identity_of q = Some g \<Longrightarrow> q = IdentityPayload g"
  "surfaces_of q = Some p \<Longrightarrow> q = SurfacesPayload p"
  "enrollment_of q = Some e \<Longrightarrow> q = EnrollmentPayload e"
  "hold_of q = Some h \<Longrightarrow> q = HoldPayload h"
  by (cases q; simp)+

subsection \<open>The state of a repository\<close>

text \<open>Where a repository's status comes from.\<close>

lemma repository_status_reads:
  assumes "repository_status digest s repository_id = Inr (Some st)"
  obtains snapshot active rows d where "active_core_snapshot s = Some (snapshot, active)"
    "authority_rows s = Inr (sr_authority rows)" "identity_rows s = Inr (sr_identity rows)"
    "surfaces_rows s = Inr (sr_surfaces rows)" "enrollment_rows s = Inr (sr_enrollment rows)"
    "hold_rows s = Inr (sr_holds rows)" "d \<in> set (sn_repositories snapshot)"
    "repository_status_of digest (sn_snapshot_id snapshot) rows d = Inr st"
    "declared_id d = repository_id"
proof -
  from assms obtain sts where sts: "repository_statuses digest s = Inr sts"
      "List.find (\<lambda>st. st_repository_id st = repository_id) sts = Some st"
    by (auto simp: repository_status_def map_sum_Inr)
  from find_mem [OF sts(2)] have st: "st \<in> set sts" "st_repository_id st = repository_id" by auto
  show thesis
  proof (cases "active_core_snapshot s")
    case None
    with sts(1) st show thesis by (simp add: repository_statuses_def)
  next
    case (Some x)
    then obtain snapshot active where a: "active_core_snapshot s = Some (snapshot, active)" by (cases x) auto
    with sts(1) obtain authorities identities surfaces enrollments holds ys where
        r: "authority_rows s = Inr authorities" "identity_rows s = Inr identities" "surfaces_rows s = Inr surfaces"
          "enrollment_rows s = Inr enrollments" "hold_rows s = Inr holds"
      and ys: "map_res (repository_status_of digest (sn_snapshot_id snapshot)
          \<lparr>sr_authority = authorities, sr_identity = identities, sr_surfaces = surfaces,
           sr_enrollment = enrollments, sr_holds = holds\<rparr>) (sn_repositories snapshot) = Inr ys"
      and sort: "sts = sort_key st_repository_id ys"
      by (auto simp: repository_statuses_def and_then_Inr_iff map_sum_Inr)
    from st(1) sort have "st \<in> set ys" by simp
    from map_res_mem [OF ys this] obtain d where d: "d \<in> set (sn_repositories snapshot)"
      "repository_status_of digest (sn_snapshot_id snapshot)
          \<lparr>sr_authority = authorities, sr_identity = identities, sr_surfaces = surfaces,
           sr_enrollment = enrollments, sr_holds = holds\<rparr> d = Inr st" by blast
    then have "st_repository_id st = declared_id d"
      by (auto simp: repository_status_of_def awaiting_authority_def Let_def and_then_Inr_iff
          split: option.splits)
    with st(2) that [OF a, of "\<lparr>sr_authority = authorities, sr_identity = identities, sr_surfaces = surfaces,
           sr_enrollment = enrollments, sr_holds = holds\<rparr>"] r d show thesis by simp
  qed
qed

lemma repository_status_of_hold:
  "repository_status_of digest snapshot_id rows d = Inr st \<Longrightarrow>
     st_operator_hold st = active_hold (sr_holds rows) (declared_id d)"
  by (auto simp: repository_status_of_def awaiting_authority_def Let_def and_then_Inr_iff split: option.splits)

lemma effective_state_enrolled:
  "effective_state fleet hold github surface enrollment = ''enrolled'' \<Longrightarrow>
     fleet \<noteq> ''disabled'' \<and> fleet \<noteq> ''paused'' \<and> hold = None \<and>
     (\<exists>g p e. github = Some g \<and> gi_result g = ''matched'' \<and> surface = Some p \<and> sp_result p = ''valid'' \<and>
        enrollment = Some e)"
  by (auto simp: effective_state_def split: if_splits option.splits)

lemma repository_status_of_enrolled:
  assumes "repository_status_of digest snapshot_id rows d = Inr st" "st_effective_state st = ''enrolled''"
  obtains a_id a g_id g p_id p e_id e where "(a_id, a) \<in> set (sr_authority rows)"
    "(g_id, g) \<in> set (sr_identity rows)" "(p_id, p) \<in> set (sr_surfaces rows)"
    "(e_id, e) \<in> set (sr_enrollment rows)" "ra_core_snapshot_id a = snapshot_id"
    "ra_repository_id a = declared_id d" "gi_core_authorization_record_id g = a_id"
    "sp_github_reconciliation_record_id p = g_id" "en_surface_reconciliation_record_id e = p_id"
    "coherent_context a g p e" "active_hold (sr_holds rows) (declared_id d) = None"
    "st_enrollment_record_id st = Some e_id" "st_authority_context_digest st \<noteq> None"
proof (cases "List.find (\<lambda>(_, p). ra_core_snapshot_id p = snapshot_id \<and> ra_repository_id p = declared_id d)
    (sr_authority rows)")
  case None
  with assms show thesis by (auto simp: repository_status_of_def awaiting_authority_def Let_def)
next
  case (Some x)
  obtain a_id a where x: "x = (a_id, a)" by (cases x)
  define github where "github = List.find (\<lambda>(_, p). gi_core_authorization_record_id p = a_id) (sr_identity rows)"
  define surface where "surface = Option.bind github (\<lambda>(g_id, _).
    List.find (\<lambda>(_, p). sp_github_reconciliation_record_id p = g_id) (sr_surfaces rows))"
  define enrollment where "enrollment = Option.bind surface (\<lambda>(s_id, _).
    List.find (\<lambda>(_, p). en_surface_reconciliation_record_id p = s_id) (sr_enrollment rows))"
  define state where "state = effective_state (ra_fleet_state a) (active_hold (sr_holds rows) (declared_id d))
    (map_option snd github) (map_option snd surface) (map_option snd enrollment)"
  note read = assms(1) [unfolded repository_status_of_def Let_def Some [unfolded x] option.case prod.case,
    folded github_def, folded surface_def, folded enrollment_def, folded state_def]
  then obtain dg where
      c: "(case (github, surface, enrollment) of
           (Some (_, g), Some (_, p), Some (_, e)) \<Rightarrow>
             if state = ''enrolled''
             then map_sum id Some (repository_authority_context_digest digest a g p e)
             else Inr None
         | _ \<Rightarrow> Inr None) = Inr dg"
    and st: "st_effective_state st = state" "st_authority_context_digest st = dg"
      "st_enrollment_record_id st = map_option fst enrollment"
    by (auto simp: and_then_Inr_iff)
  from assms(2) st(1) have e: "state = ''enrolled''" by simp
  from effective_state_enrolled [OF e [unfolded state_def]] obtain g_id g p_id p e_id e where
      ids: "github = Some (g_id, g)" "surface = Some (p_id, p)" "enrollment = Some (e_id, e)"
      "active_hold (sr_holds rows) (declared_id d) = None" by auto
  with c e have "coherent_context a g p e" "dg \<noteq> None"
    by (auto simp: repository_authority_context_digest_def split: if_splits)
  note this(1) this(2) [folded st(2)]
  then show thesis
    using that [of a_id a g_id g p_id p e_id e] find_mem [OF Some] ids st(3) x
      find_mem [OF ids(1) [unfolded github_def]] find_mem [OF ids(2) [unfolded surface_def ids(1), simplified]]
      find_mem [OF ids(3) [unfolded enrollment_def ids(2), simplified]]
    by auto
qed


subsection \<open>The operator's decisions\<close>

definition the_hold :: "occurrence \<Rightarrow> hold_payload" where "the_hold oc = the (hold_of (oc_payload oc))"

text \<open>The decisions about a repository, oldest first.\<close>

definition decisions_of :: "string \<Rightarrow> control_store \<Rightarrow> hold_payload list" where
  "decisions_of repository_id s =
     filter (\<lambda>p. ho_repository_id p = repository_id) (map the_hold (of_kind hold_kind s))"

definition answers :: "hold_payload \<Rightarrow> hold_payload \<Rightarrow> bool" where
  "answers a b \<longleftrightarrow>
     (if ho_choice a = ''impose''
      then ho_choice b = ''clear'' \<and> ho_hold_decision_id b = ho_hold_decision_id a \<and>
        ho_previous_decision_record_id b = Some (ho_decision_record_id a)
      else ho_choice b = ''impose'')"

definition alternating :: "hold_payload list \<Rightarrow> bool" where
  "alternating ds \<longleftrightarrow> (ds \<noteq> [] \<longrightarrow> ho_choice (hd ds) = ''impose'') \<and> successively answers ds"

definition in_force :: "hold_payload list \<Rightarrow> hold_payload option" where
  "in_force ds = (if ds \<noteq> [] \<and> ho_choice (last ds) = ''impose'' then Some (last ds) else None)"

definition hold_record :: "occurrence \<Rightarrow> bool" where
  "hold_record oc \<longleftrightarrow>
     oc_record_class oc = Some ''decision'' \<and>
     (\<exists>p. oc_payload oc = HoldPayload p \<and> is_hold_payload p \<and> ho_decision_record_id p = oc_record_id oc)"

definition holds_ok :: "control_store \<Rightarrow> bool" where
  "holds_ok s \<longleftrightarrow> list_all hold_record (of_kind hold_kind s) \<and> (\<forall>r. alternating (decisions_of r s))"

lemma alternating_snoc:
  "alternating (ds @ [d]) \<longleftrightarrow>
     alternating ds \<and> (if ds = [] then ho_choice d = ''impose'' else answers (last ds) d)"
  by (auto simp: alternating_def successively_append_iff)

lemma filter_conj_kind:
  assumes "list_all hold_record (of_kind hold_kind s)"
  shows "filter (\<lambda>oc. oc_kind oc = hold_kind \<and> oc_record_class oc = Some ''decision'') (cs_occurrences s) =
    of_kind hold_kind s"
  unfolding of_kind_def using assms by (intro filter_cong) (auto simp: of_kind_def list_all_iff hold_record_def)

lemma find_append: "List.find P (xs @ ys) = (case List.find P xs of None \<Rightarrow> List.find P ys | Some x \<Rightarrow> Some x)"
  by (induction xs) auto

lemma find_rev_filter:
  "List.find P (rev xs) = (if filter P xs = [] then None else Some (last (filter P xs)))"
  by (induction xs) (auto simp: find_append split: option.split)

lemma active_hold_in_force:
  assumes "ledger_ok s" "holds_ok s" "hold_rows s = Inr rows"
  shows "active_hold rows repository_id = in_force (decisions_of repository_id s)"
proof -
  have all: "list_all hold_record (of_kind hold_kind s)" using assms(2) by (simp add: holds_ok_def)
  have "records_of hold_kind ''decision'' s = rev (of_kind hold_kind s)"
    unfolding records_of_def newest_first_rev [OF assms(1)] by (simp only: filter_conj_kind [OF all])
  with assms(3) have read: "map_res (contract_of hold_of is_hold_payload) (rev (of_kind hold_kind s)) = Inr rows"
    by (simp add: hold_rows_def hold_kind_def)
  have rows: "rows = map (\<lambda>oc. (oc_record_id oc, the_hold oc)) (rev (of_kind hold_kind s))"
    by (rule map_res_map [OF read]) (auto simp: contract_of_Inr the_hold_def)
  have "map snd rows = rev (map the_hold (of_kind hold_kind s))"
    by (simp add: rows rev_map)
  moreover have "map_option snd (List.find (\<lambda>(_, p). ho_repository_id p = repository_id) rows) =
      List.find (\<lambda>p. ho_repository_id p = repository_id) (map snd rows)"
    by (induction rows) auto
  ultimately have "map_option snd (List.find (\<lambda>(_, p). ho_repository_id p = repository_id) rows) =
      (if decisions_of repository_id s = [] then None else Some (last (decisions_of repository_id s)))"
    by (simp add: find_rev_filter decisions_of_def)
  then show ?thesis
    by (auto simp: active_hold_def in_force_def split: option.splits if_splits)
qed

lemma enrolled_is_not_held:
  assumes "repository_status digest s repository_id = Inr (Some st)" "st_effective_state st = ''enrolled''"
  shows "st_operator_hold st = None"
proof -
  obtain snapshot :: core_snapshot and rows :: status_rows and d :: declared_repository where r: "repository_status_of digest (sn_snapshot_id snapshot) rows d = Inr st"
    by (rule repository_status_reads [OF assms(1)]) blast
  have "active_hold (sr_holds rows) (declared_id d) = None"
    by (rule repository_status_of_enrolled [OF r assms(2)])
  with repository_status_of_hold [OF r] show ?thesis by simp
qed

lemma status_hold_in_force:
  assumes "ledger_ok s" "holds_ok s" "repository_status digest s repository_id = Inr (Some st)"
  shows "st_operator_hold st = in_force (decisions_of repository_id s)"
proof -
  obtain snapshot :: core_snapshot and rows :: status_rows and d :: declared_repository where
      "hold_rows s = Inr (sr_holds rows)" "declared_id d = repository_id"
      "repository_status_of digest (sn_snapshot_id snapshot) rows d = Inr st"
    by (rule repository_status_reads [OF assms(3)]) blast
  then show ?thesis
    using active_hold_in_force [OF assms(1,2)] repository_status_of_hold by metis
qed

lemma record_hold_decision_effect:
  assumes "record_hold_decision env i s = Inr (r, s')" "s' \<noteq> s"
  obtains st a_id a oc where "repository_status (ce_digest env) s (hi_repository_id i) = Inr (Some st)"
    "hold_allowed i st" "is_hold_payload (hold_payload_of env s i st a_id a)"
    "of_kind hold_kind s' = of_kind hold_kind s @ [oc]"
    "oc_payload oc = HoldPayload (hold_payload_of env s i st a_id a)" "oc_record_id oc = ce_id env 0"
    "oc_record_class oc = Some ''decision''"
proof -
  from assms obtain st a_id a key kind digest where
      f: "repository_status (ce_digest env) s (hi_repository_id i) = Inr (Some st)" "hold_allowed i st"
        "is_hold_payload (hold_payload_of env s i st a_id a)"
    and w: "write_command (operator_command env s kind key digest
        (hold_occurrences env i (hold_payload_of env s i st a_id a))
        (HoldPayload (hold_payload_of env s i st a_id a)) (ce_id env 1)) s = Inr (r, s')"
    by (auto simp: record_hold_decision_def command_reads Let_def bind_eq_Some_conv split: option.splits if_splits)
  show thesis
    using that [OF f, of "(hold_occurrences env i (hold_payload_of env s i st a_id a) ! 0) (cs_allocated s + 1) 0"]
    by (simp add: of_kind_write [OF w] operator_command_def kernel_command_def hold_occurrences_def placed_def
        upt_rec repository_occurrence_def hold_kind_def Let_def)
qed

lemma holds_decision:
  assumes "ledger_ok s" "holds_ok s" "record_hold_decision env i s = Inr (r, s')" "s' \<noteq> s"
  shows "holds_ok s'"
proof -
  from record_hold_decision_effect [OF assms(3,4)] obtain st a_id a oc where
      f: "repository_status (ce_digest env) s (hi_repository_id i) = Inr (Some st)" "hold_allowed i st"
    and p: "is_hold_payload (hold_payload_of env s i st a_id a)"
    and k: "of_kind hold_kind s' = of_kind hold_kind s @ [oc]"
    and oc: "oc_payload oc = HoldPayload (hold_payload_of env s i st a_id a)" "oc_record_id oc = ce_id env 0"
      "oc_record_class oc = Some ''decision''"
    by metis
  let ?p = "hold_payload_of env s i st a_id a"
  let ?r = "hi_repository_id i"
  have repo: "ho_repository_id ?p = ?r" by (simp add: hold_payload_of_def Let_def)
  have ds: "decisions_of a s' = decisions_of a s @ (if a = ?r then [?p] else [])" for a
    by (simp add: decisions_of_def k oc(1) the_hold_def repo)
  have now: "st_operator_hold st = in_force (decisions_of ?r s)"
    by (rule status_hold_in_force [OF assms(1,2) f(1)])
  have old: "\<forall>d \<in> set (decisions_of ?r s). is_hold_payload d"
    using assms(2) by (auto simp: decisions_of_def holds_ok_def list_all_iff hold_record_def the_hold_def)
  have "alternating (decisions_of ?r s @ [?p])"
  proof (cases "hi_clears i")
    case None
    with f(2) now have "in_force (decisions_of ?r s) = None" by (simp add: hold_allowed_def)
    with None assms(2) show ?thesis
      by (auto simp: alternating_snoc holds_ok_def in_force_def answers_def hold_payload_of_def hold_choice_def
          Let_def split: if_splits)
  next
    case (Some held)
    with f(2) now have "map_option ho_hold_decision_id (in_force (decisions_of ?r s)) = Some held"
      by (simp add: hold_allowed_def)
    then have l: "decisions_of ?r s \<noteq> []" "ho_choice (last (decisions_of ?r s)) = ''impose''"
        "ho_hold_decision_id (last (decisions_of ?r s)) = held"
      by (auto simp: in_force_def split: if_splits)
    moreover from l(1,2) old have "ho_decision_record_id (last (decisions_of ?r s)) = held"
      using l(3) by (auto simp: is_hold_payload_def dest: last_in_set)
    ultimately show ?thesis
      using Some assms(2)
      by (simp add: alternating_snoc holds_ok_def answers_def hold_payload_of_def hold_choice_def Let_def)
  qed
  then have "alternating (decisions_of a s')" for a
    using assms(2) by (simp add: ds holds_ok_def)
  moreover have "hold_record oc"
    using oc p by (auto simp: hold_record_def hold_payload_of_def Let_def)
  ultimately show ?thesis
    using assms(2) by (simp add: holds_ok_def k)
qed

lemma holds_ok_same_kind: "of_kind hold_kind s' = of_kind hold_kind s \<Longrightarrow> holds_ok s' \<longleftrightarrow> holds_ok s"
  by (simp add: holds_ok_def decisions_of_def)

fun decides_hold :: "control_command \<Rightarrow> bool" where
  "decides_hold (DecideHold i) = True"
| "decides_hold _ = False"

lemma other_commands_leave_holds:
  assumes "run_control w env c s = Inr (r, s')" "\<not> decides_hold c"
  shows "of_kind hold_kind s' = of_kind hold_kind s"
proof -
  note kinds = coverage_kinds rejection_kind_def eligible_kind_def override_kind_def snapshot_kinds_def
    authority_kind_def identity_kind_def surface_kinds_def surfaces_kind_def enrollment_kind_def hold_kind_def
  show ?thesis
  proof (cases c)
    case (RejectCandidate i)
    then show ?thesis
      using assms rejections.leaves_other_kinds [of env i s r s' hold_kind] by (auto simp: kinds of_kind_def)
  next
    case (SourceEligible i)
    then show ?thesis
      using assms checks.leaves_other_kinds [of "cw_revalidates w" env i s r s' hold_kind] by (auto simp: kinds of_kind_def)
  next
    case (OverrideStaleSource i)
    then show ?thesis
      using assms overrides.leaves_other_kinds [of env i s r s' hold_kind] by (auto simp: kinds of_kind_def)
  next
    case (ActivateSnapshot i)
    then show ?thesis
      using assms activations.leaves_other_kinds [of "cw_revalidates w" env i s r s' hold_kind] by (auto simp: kinds of_kind_def)
  next
    case (RollbackSnapshot i)
    then show ?thesis
      using assms rollbacks.leaves_other_kinds [of "cw_revalidates w" env i s r s' hold_kind] by (auto simp: kinds of_kind_def)
  next
    case (MaterializeAuthority i)
    then show ?thesis
      using assms authorities.leaves_other_kinds [of env i s r s' hold_kind] by (auto simp: kinds of_kind_def)
  next
    case (RecordIdentity i)
    then show ?thesis
      using assms identities.leaves_other_kinds [of env i s r s' hold_kind] by (auto simp: kinds of_kind_def)
  next
    case (RecordSurfaces i)
    then show ?thesis
      using assms surfaces.leaves_other_kinds [of "cw_surfaces w" env i s r s' hold_kind] by (auto simp: kinds of_kind_def)
  next
    case (EstablishEnrollment i)
    then show ?thesis
      using assms enrollments.leaves_other_kinds [of env i s r s' hold_kind] by (auto simp: kinds of_kind_def)
  next
    case (RecordCheckpoint i)
    then show ?thesis
      using assms checkpoints.leaves_other_kinds [of env i s r s' hold_kind] by (auto simp: kinds of_kind_def)
  next
    case (OpenGap i)
    then show ?thesis
      using assms gaps.leaves_other_kinds [of env i s r s' hold_kind] by (auto simp: kinds of_kind_def)
  next
    case (RepairGap i)
    then show ?thesis
      using assms repairs.leaves_other_kinds [of env i s r s' hold_kind] by (auto simp: kinds of_kind_def)
  qed (use assms(2) in auto)
qed

lemma holds_step:
  assumes "run_control w env c s = Inr (r, s')" "ledger_ok s" "holds_ok s"
  shows "holds_ok s'"
proof (cases "s' = s")
  case False
  show ?thesis
  proof (cases "decides_hold c")
    case True
    then show ?thesis using assms False by (cases c) (auto intro: holds_decision)
  next
    case other: False
    have "holds_ok s' \<longleftrightarrow> holds_ok s"
      by (rule holds_ok_same_kind) (rule other_commands_leave_holds [OF assms(1) other])
    with assms(3) show ?thesis by blast
  qed
qed (use assms(3) in simp)

lemma holds_initialize:
  assumes "initialize env = Inr s"
  shows "holds_ok s"
proof -
  have "of_kind hold_kind s = []"
    unfolding of_kind_def initialize_Inr(2) [OF assms] initial_occurrences_placed
    by (auto simp: initial_occurrences_def initial_occurrence_def hold_kind_def Let_def)
  then show ?thesis
    by (simp add: holds_ok_def decisions_of_def alternating_def)
qed

lemma holds_reachable: "control_reachable w s \<Longrightarrow> holds_ok s"
  by (induction rule: control_reachable.induct)
    (auto intro: holds_initialize holds_step dest: ledger_reachable)

text \<open>C13: In every store the control plane reaches, the operator's decisions about a repository
  alternate: the first imposes a hold, each hold is cleared by naming exactly the decision that
  imposed it, and only then can the next be imposed. What the repository's status shows as its
  hold is the last decision if that imposes one and nothing otherwise, and while it shows a hold the
  repository is not enrolled.\<close>

theorem hold_decisions_alternate:
  assumes "control_reachable w s"
  shows "alternating (decisions_of repository_id s) \<and>
    (case repository_status digest s repository_id of
       Inr (Some st) \<Rightarrow>
         st_operator_hold st = in_force (decisions_of repository_id s) \<and>
         (st_operator_hold st \<noteq> None \<longrightarrow> st_effective_state st \<noteq> ''enrolled'')
     | _ \<Rightarrow> True)"
proof -
  note ok = ledger_reachable [OF assms] holds_reachable [OF assms]
  have "st_operator_hold st = in_force (decisions_of repository_id s) \<and>
      (st_operator_hold st \<noteq> None \<longrightarrow> st_effective_state st \<noteq> ''enrolled'')"
    if "repository_status digest s repository_id = Inr (Some st)" for st
    using status_hold_in_force [OF ok that] enrolled_is_not_held [OF that] by auto
  moreover have "alternating (decisions_of repository_id s)"
    using ok(2) unfolding holds_ok_def by blast
  ultimately show ?thesis by (simp split: sum.split option.split)
qed

end
