(* ===== verification/Core_Guarantees.thy ===== *)
theory Core_Guarantees
  imports Authority_Guarantees
begin

text \<open>
  What work rests on with respect to Core: readiness needs a check of the source that is not older
  than a day, or an override in force, and no snapshot of Core ever drops a declared repository.
\<close>

subsection \<open>Readiness\<close>

lemma override_in_force_found:
  "override_in_force snapshot_id at os = Inr (Some p) \<Longrightarrow>
     \<exists>oc \<in> set os. oc_payload oc = OverridePayload p \<and> is_override_payload p \<and>
       ov_active_snapshot_id p = snapshot_id \<and> ov_decided_at p \<le> at \<and> at < ov_expires_at p"
proof (induction os)
  case (Cons oc os)
  have "override_of (oc_payload oc) = Some q \<Longrightarrow> oc_payload oc = OverridePayload q" for q
    by (cases "oc_payload oc") auto
  with Cons show ?case
    by (fastforce simp: and_then_Inr_iff contract_of_Inr split: if_splits)
qed simp

lemma readiness_reason_ready:
  assumes "readiness_reason active checks stale_at t = ''ready''"
  shows "\<exists>snapshot a b. active = Some (snapshot, a) \<and> stale_at = Some b \<and> t < b \<and>
    substantive_reason snapshot a (List.find (\<lambda>c. ck_outcome c \<noteq> ''source-unavailable'') checks) = ''ready''"
  using assms
  by (auto simp: readiness_reason_def Let_def split: option.splits prod.splits if_splits)

lemma readiness_reason_stale:
  assumes "readiness_reason active checks stale_at t = ''source-stale''"
  shows "\<exists>snapshot a. active = Some (snapshot, a) \<and>
    substantive_reason snapshot a (List.find (\<lambda>c. ck_outcome c \<noteq> ''source-unavailable'') checks) = ''ready''"
proof -
  have "substantive_reason snapshot a c \<noteq> ''source-stale''" for snapshot a c
    by (auto simp: substantive_reason_def split: option.splits)
  with assms show ?thesis
    by (auto simp: readiness_reason_def Let_def split: option.splits prod.splits if_splits)
qed

text \<open>What the newest check that reached Core has to say of the active snapshot.\<close>

definition confirms :: "core_snapshot \<Rightarrow> active_snapshot \<Rightarrow> source_check \<Rightarrow> bool" where
  "confirms snapshot active c \<longleftrightarrow>
     ck_outcome c \<noteq> ''candidate-invalid'' \<and> ck_outcome c \<noteq> ''persistence-failed'' \<and>
     (ck_outcome c = ''eligible'' \<longrightarrow> ck_commit_id c = Some (sn_source_commit_id snapshot)) \<and>
     (ck_outcome c = ''continuity-blocked'' \<longrightarrow>
        ck_commit_id c = Some (sn_source_commit_id snapshot) \<and> ck_sequence c < ac_transaction_sequence active)"

lemma substantive_reason_confirms:
  "substantive_reason snapshot active x = ''ready'' \<Longrightarrow>
     (case x of None \<Rightarrow> True | Some c \<Rightarrow> confirms snapshot active c)"
  by (cases x) (auto simp: substantive_reason_def confirms_def split: if_splits)

text \<open>C14: Work is admitted only on a Core that is known. When the control plane reads as ready there is an
  active snapshot, the newest check that reached Core does not speak against it (it was not an invalid
  candidate nor a failed write, and an eligible one was the active commit itself), and either some
  check validated Core less than a day ago, or the reading is degraded: an operator's override that is
  recorded for this very snapshot is in force, which lasts at most a day from its decision.\<close>

theorem readiness_needs_a_known_core:
  assumes "core_admission_readiness s t = Inr r" "readiness_ready r"
  shows "cs_watermark s \<le> t \<and>
    (\<exists>snapshot active checks. active_core_snapshot s = Some (snapshot, active) \<and> source_checks s = Inr checks \<and>
      (case List.find (\<lambda>c. ck_outcome c \<noteq> ''source-unavailable'') checks of
         None \<Rightarrow> True | Some c \<Rightarrow> confirms snapshot active c) \<and>
      (if ar_degraded r
       then \<exists>oc p. oc \<in> set (cs_occurrences s) \<and> oc_kind oc = override_kind \<and> oc_payload oc = OverridePayload p \<and>
         ov_active_snapshot_id p = sn_snapshot_id snapshot \<and> ov_decided_at p \<le> t \<and> t < ov_expires_at p \<and>
         ov_expires_at p \<le> ov_decided_at p + one_day
       else \<exists>c. c \<in> set checks \<and> ck_validated c \<and> t < ck_checked_at c + one_day))"
proof -
  from assms(1) obtain r0 where r0: "readiness_without_override s t = Inr r0"
    by (auto simp: core_admission_readiness_def and_then_Inr_iff)
  then obtain checks where c: "source_checks s = Inr checks" "cs_watermark s \<le> t"
    and reason: "ar_reason r0 = readiness_reason (active_core_snapshot s) checks
        (map_option (\<lambda>c. ck_checked_at c + one_day) (List.find ck_validated checks)) t"
    and ids: "ar_active_snapshot_id r0 = map_option (sn_snapshot_id \<circ> fst) (active_core_snapshot s)"
    and plain: "\<not> ar_degraded r0"
    by (auto simp: readiness_without_override_def and_then_Inr_iff require_def Let_def split: if_splits)
  show ?thesis
  proof (cases "ar_reason r0 = ''source-stale''")
    case False
    with assms r0 have r: "r = r0" by (auto simp: core_admission_readiness_def and_then_Inr_iff)
    with assms(2) reason have "readiness_reason (active_core_snapshot s) checks
        (map_option (\<lambda>c. ck_checked_at c + one_day) (List.find ck_validated checks)) t = ''ready''"
      by (simp add: readiness_ready_def)
    from readiness_reason_ready [OF this] obtain snapshot a v where
        a: "active_core_snapshot s = Some (snapshot, a)" "List.find ck_validated checks = Some v"
          "t < ck_checked_at v + one_day"
          "substantive_reason snapshot a (List.find (\<lambda>c. ck_outcome c \<noteq> ''source-unavailable'') checks) = ''ready''"
      by auto
    have "case List.find (\<lambda>c. ck_outcome c \<noteq> ''source-unavailable'') checks of None \<Rightarrow> True | Some c \<Rightarrow> confirms snapshot a c"
      using a(4) by (rule substantive_reason_confirms)
    moreover have "\<exists>c. c \<in> set checks \<and> ck_validated c \<and> t < ck_checked_at c + one_day"
      using a(3) find_mem [OF a(2)] by blast
    ultimately show ?thesis
      using a(1) c plain r by auto
  next
    case True
    from readiness_reason_stale [OF True [unfolded reason]] obtain snapshot a where
        a: "active_core_snapshot s = Some (snapshot, a)"
          "substantive_reason snapshot a (List.find (\<lambda>c. ck_outcome c \<noteq> ''source-unavailable'') checks) = ''ready''"
      by auto
    have "case List.find (\<lambda>c. ck_outcome c \<noteq> ''source-unavailable'') checks of None \<Rightarrow> True | Some c \<Rightarrow> confirms snapshot a c"
      using a(2) by (rule substantive_reason_confirms)
    moreover from assms r0 True ids a(1) obtain p where p:
        "override_in_force (sn_snapshot_id snapshot) t (records_of override_kind ''decision'' s) = Inr (Some p)"
        "ar_degraded r"
      by (auto simp: core_admission_readiness_def and_then_Inr_iff map_sum_Inr readiness_ready_def
          split: option.splits)
    moreover from override_in_force_found [OF p(1)] obtain oc where
        "oc \<in> set (cs_occurrences s)" "oc_kind oc = override_kind" "oc_payload oc = OverridePayload p"
        "ov_active_snapshot_id p = sn_snapshot_id snapshot" "ov_decided_at p \<le> t" "t < ov_expires_at p"
        "ov_expires_at p \<le> ov_decided_at p + one_day"
      by (auto simp: records_of_mem is_override_payload_def)
    ultimately show ?thesis using a(1) c by auto
  qed
qed

subsection \<open>Snapshots\<close>

definition declared_in :: "catalog_report \<Rightarrow> string set" where
  "declared_in r = set (map de_repository_id (kr_repositories r))"

definition snapshots_ok :: "control_store \<Rightarrow> bool" where
  "snapshots_ok s \<longleftrightarrow>
     (case cs_active s of
        None \<Rightarrow> cs_snapshots s = []
      | Some a \<Rightarrow> cs_snapshots s \<noteq> [] \<and> ac_snapshot_id a = sn_snapshot_id (last (cs_snapshots s))) \<and>
     distinct (map sn_snapshot_id (cs_snapshots s)) \<and>
     (\<forall>n \<in> set (cs_snapshots s). (''core-snapshot'', sn_snapshot_id n) \<in> set (cs_subjects s)) \<and>
     sorted_wrt (<) (map sn_activated_sequence (cs_snapshots s)) \<and>
     (\<forall>n \<in> set (cs_snapshots s). sn_activated_sequence n \<le> cs_allocated s) \<and>
     sorted_wrt (\<lambda>m n. declared_in (sn_report m) \<subseteq> declared_in (sn_report n)) (cs_snapshots s)"

lemma find_last_distinct:
  assumes "distinct (map f xs)" "xs \<noteq> []"
  shows "List.find (\<lambda>x. f x = f (last xs)) xs = Some (last xs)"
  using assms by (induction xs) (auto dest: last_in_set)

lemma active_is_last:
  assumes "snapshots_ok s" "cs_active s = Some a"
  shows "active_core_snapshot s = Some (last (cs_snapshots s), a)"
  using assms find_last_distinct [of sn_snapshot_id "cs_snapshots s"]
  by (simp add: snapshots_ok_def active_core_snapshot_def)

lemma retained_is_last:
  assumes "snapshots_ok s" "cs_snapshots s \<noteq> []"
    and "retained_candidate (sn_source_commit_id (last (cs_snapshots s))) s = Inr found"
  shows "found = Some (last (cs_snapshots s))"
proof -
  let ?commit = "sn_source_commit_id (last (cs_snapshots s))"
  let ?os = "filter (\<lambda>n. sn_source_commit_id n = ?commit) (cs_snapshots s)"
  have "sorted_wrt (<) (map sn_activated_sequence ?os)"
    using assms(1) by (auto simp: snapshots_ok_def sorted_wrt_map intro: sorted_wrt_filter)
  then have "sorted (map sn_activated_sequence ?os)"
    by (rule sorted_wrt_mono_rel [rotated]) simp
  then have sorted: "sort_key sn_activated_sequence ?os = ?os" by (rule sort_key_sorted)
  obtain ms m where l: "cs_snapshots s = ms @ [m]" using assms(2) by (cases "cs_snapshots s" rule: rev_cases) auto
  show ?thesis
    using assms(3) sorted by (simp add: retained_candidate_def and_then_Inr_iff l)
qed

lemma declaration_retention:
  "assert_declaration_retention a c = Inr u \<longleftrightarrow> declared_in a \<subseteq> declared_in c"
  by (auto simp: assert_declaration_retention_def kept_def declared_in_def filter_empty_conv Let_def require_def)

text \<open>What both commands that take a snapshot do.\<close>

definition takes_snapshot ::
    "control_env \<Rightarrow> core_candidate \<Rightarrow> control_store \<Rightarrow> command_result \<Rightarrow> control_store \<Rightarrow> bool"
where
  "takes_snapshot env c s r s' \<longleftrightarrow>
     (\<exists>w s1. write_command w s = Inr (r, s1) \<and> cm_new_subject w = Some (''core-snapshot'', ce_id env 8) \<and>
        s' = snd (make_active env (ce_id env 8) c (r, s1)) \<and> \<not> has_subject s ''core-snapshot'' (ce_id env 8) \<and>
        (case active_core_snapshot s of
           None \<Rightarrow> True
         | Some (n, a) \<Rightarrow> (\<exists>m. retained_candidate (sn_source_commit_id n) s = Inr (Some m) \<and>
             declared_in (sn_report m) \<subseteq> declared_in (ca_report c))))"

lemma make_active_Inr:
  "map_sum id (make_active env n c) x = Inr (r, s') \<Longrightarrow>
     \<exists>s1. x = Inr (r, s1) \<and> s' = snd (make_active env n c (r, s1))"
  by (cases x) (auto simp: make_active_def split: prod.splits)

lemma activate_snapshot_takes:
  assumes "activate_snapshot revalidates env i s = Inr (r, s')" "s' \<noteq> s"
  shows "takes_snapshot env (av_candidate i) s r s' \<and> assert_continuity s i = Inr () \<and>
    assert_profile_history s (ca_report (av_candidate i)) = Inr () \<and>
    assert_goal_history s (ca_report (av_candidate i)) = Inr ()"
proof -
  from assms obtain w s1 where w: "write_command w s = Inr (r, s1)"
      "cm_new_subject w = Some (''core-snapshot'', ce_id env 8)"
      "s' = snd (make_active env (ce_id env 8) (av_candidate i) (r, s1))"
      "\<not> has_subject s ''core-snapshot'' (ce_id env 8)"
    and a: "assert_continuity s i = Inr ()" "assert_profile_history s (ca_report (av_candidate i)) = Inr ()"
      "assert_goal_history s (ca_report (av_candidate i)) = Inr ()"
    by (auto simp: activate_snapshot_def command_reads Let_def kernel_command_def split: option.splits if_splits
        dest!: make_active_Inr)
  have "case active_core_snapshot s of
           None \<Rightarrow> True
         | Some (n, a) \<Rightarrow> (\<exists>m. retained_candidate (sn_source_commit_id n) s = Inr (Some m) \<and>
             declared_in (sn_report m) \<subseteq> declared_in (ca_report (av_candidate i)))"
    using a(1) by (auto simp: assert_continuity_def and_then_Inr_iff declaration_retention split: option.splits)
  with w a show ?thesis unfolding takes_snapshot_def by blast
qed

lemma rollback_snapshot_takes:
  assumes "rollback_snapshot revalidates env i s = Inr (r, s')" "s' \<noteq> s"
  shows "takes_snapshot env (rb_candidate i) s r s'"
proof -
  from assms obtain w s1 n a m where w: "write_command w s = Inr (r, s1)"
      "cm_new_subject w = Some (''core-snapshot'', ce_id env 8)"
      "s' = snd (make_active env (ce_id env 8) (rb_candidate i) (r, s1))"
      "\<not> has_subject s ''core-snapshot'' (ce_id env 8)"
    and a: "active_core_snapshot s = Some (n, a)" "retained_candidate (sn_source_commit_id n) s = Inr (Some m)"
      "declared_in (sn_report m) \<subseteq> declared_in (ca_report (rb_candidate i))"
    by (auto simp: rollback_snapshot_def command_reads Let_def kernel_command_def declaration_retention
        split: option.splits if_splits dest!: make_active_Inr)
  then show ?thesis unfolding takes_snapshot_def by auto
qed

lemma snapshots_take:
  assumes "ledger_ok s" "snapshots_ok s" "takes_snapshot env c s r s'"
  shows "snapshots_ok s'"
proof -
  from assms(3) obtain w s1 where w: "write_command w s = Inr (r, s1)"
      "cm_new_subject w = Some (''core-snapshot'', ce_id env 8)"
      "s' = snd (make_active env (ce_id env 8) c (r, s1))" "\<not> has_subject s ''core-snapshot'' (ce_id env 8)"
    and a: "case active_core_snapshot s of
           None \<Rightarrow> True
         | Some (n, a) \<Rightarrow> (\<exists>m. retained_candidate (sn_source_commit_id n) s = Inr (Some m) \<and>
             declared_in (sn_report m) \<subseteq> declared_in (ca_report c))"
    unfolding takes_snapshot_def by blast
  note s1 = write_command_Inr(1,2) [OF w(1)]
  let ?n = "snapshot_of (ce_id env 8) c (cs_allocated s + 1)"
  have s': "cs_snapshots s' = cs_snapshots s @ [?n]" "cs_active s' = Some \<lparr>ac_snapshot_id = ce_id env 8,
      ac_activated_at = ce_now env, ac_transaction_sequence = cs_allocated s + 1\<rparr>"
      "cs_allocated s' = cs_allocated s + 1"
      "set (cs_subjects s') = insert (''core-snapshot'', ce_id env 8) (set (cs_subjects s))"
    using w(2,4)
    by (auto simp: w(3) s1 make_active_def written_def with_new_subject_def ensure_subject_def result_of_def Let_def)
  have new: "ce_id env 8 \<notin> set (map sn_snapshot_id (cs_snapshots s))"
    using assms(2) w(4) by (auto simp: snapshots_ok_def has_subject_def)
  have sub: "declared_in (sn_report n) \<subseteq> declared_in (ca_report c)" if n: "n \<in> set (cs_snapshots s)" for n
  proof -
    from n have ne: "cs_snapshots s \<noteq> []" by auto
    with assms(2) obtain b where b: "cs_active s = Some b"
      by (auto simp: snapshots_ok_def split: option.splits)
    with a active_is_last [OF assms(2) b] obtain m where
        m: "retained_candidate (sn_source_commit_id (last (cs_snapshots s))) s = Inr (Some m)"
          "declared_in (sn_report m) \<subseteq> declared_in (ca_report c)" by auto
    from retained_is_last [OF assms(2) ne m(1)] m(2)
    have "declared_in (sn_report (last (cs_snapshots s))) \<subseteq> declared_in (ca_report c)" by simp
    moreover have "declared_in (sn_report n) \<subseteq> declared_in (sn_report (last (cs_snapshots s)))"
      using assms(2) n ne
      by (cases "cs_snapshots s" rule: rev_cases) (auto simp: snapshots_ok_def sorted_wrt_append)
    ultimately show ?thesis by blast
  qed
  show ?thesis
    using assms(2) new sub
    by (auto simp: snapshots_ok_def s' sorted_wrt_append snapshot_of_def dest: bspec)
qed

lemma write_command_snapshots:
  assumes "write_command c s = Inr (r, s')"
  shows "cs_snapshots s' = cs_snapshots s \<and> cs_active s' = cs_active s"
  by (simp add: write_command_Inr(1) [OF assms] written_def Let_def)

lemma snapshots_later:
  assumes "snapshots_ok s" "cs_snapshots s' = cs_snapshots s" "cs_active s' = cs_active s"
    "set (cs_subjects s) \<subseteq> set (cs_subjects s')" "cs_allocated s \<le> cs_allocated s'"
  shows "snapshots_ok s'"
  using assms(1,4,5) unfolding snapshots_ok_def assms(2,3) by (fastforce dest: order_trans)

text \<open>The other commands write the ledger only.\<close>

definition writes_only :: "control_store \<Rightarrow> command_result \<Rightarrow> control_store \<Rightarrow> bool" where
  "writes_only s r s' \<longleftrightarrow> s' = s \<or> (\<exists>c. write_command c s = Inr (r, s'))"

lemma writes_onlyI [intro]: "write_command c s = Inr (r, s') \<Longrightarrow> writes_only s r s'"
  by (auto simp: writes_only_def)

lemma writes_only_refl [simp]: "writes_only s r s"
  by (simp add: writes_only_def)

lemma write_surfaces_only:
  "write_surfaces w env i probe d a g branch c predecessor s = Inr (r, s') \<Longrightarrow> writes_only s r s'"
  by (auto simp: write_surfaces_def command_reads Let_def split: option.splits)

lemma record_surfaces_of_only:
  "record_surfaces_of w env i probe g branch s = Inr (r, s') \<Longrightarrow> writes_only s r s'"
  by (auto simp: record_surfaces_of_def and_then_Inr_iff require_def Let_def intro: write_surfaces_only
      split: option.splits if_splits)

fun takes_snapshots :: "control_command \<Rightarrow> bool" where
  "takes_snapshots (ActivateSnapshot i) = True"
| "takes_snapshots (RollbackSnapshot i) = True"
| "takes_snapshots _ = False"

lemma other_commands_write_only:
  assumes "run_control w env c s = Inr (r, s')" "\<not> takes_snapshots c"
  shows "writes_only s r s'"
proof (cases c)
  case (RejectCandidate i)
  with assms show ?thesis
    by (auto simp: record_candidate_rejection_def command_reads Let_def split: option.splits if_splits bool.splits)
next
  case (SourceEligible i)
  with assms show ?thesis
    by (auto simp: record_source_check_eligible_def command_reads Let_def split: option.splits if_splits bool.splits)
next
  case (OverrideStaleSource i)
  with assms show ?thesis
    by (auto simp: issue_stale_source_override_def command_reads Let_def split: option.splits if_splits bool.splits)
next
  case (MaterializeAuthority i)
  with assms show ?thesis
    by (auto simp: materialize_core_authority_def command_reads Let_def split: option.splits if_splits bool.splits)
next
  case (RecordIdentity i)
  with assms show ?thesis
    by (auto simp: record_github_identity_def command_reads Let_def split: option.splits if_splits bool.splits)
next
  case (RecordSurfaces i)
  with assms show ?thesis
    by (auto simp: record_canonical_surfaces_def command_reads Let_def split: option.splits if_splits bool.splits intro: record_surfaces_of_only)
next
  case (EstablishEnrollment i)
  with assms show ?thesis
    by (auto simp: establish_enrollment_def command_reads Let_def split: option.splits if_splits bool.splits)
next
  case (DecideHold i)
  with assms show ?thesis
    by (auto simp: record_hold_decision_def command_reads Let_def split: option.splits if_splits bool.splits)
next
  case (RecordCheckpoint i)
  with assms show ?thesis
    by (auto simp: record_source_checkpoint_def command_reads Let_def split: option.splits if_splits bool.splits)
next
  case (OpenGap i)
  with assms show ?thesis
    by (auto simp: open_source_gap_def command_reads Let_def split: option.splits if_splits bool.splits)
next
  case (RepairGap i)
  with assms show ?thesis
    by (auto simp: repair_source_gap_def command_reads Let_def split: option.splits if_splits bool.splits)
qed (use assms(2) in auto)

lemma snapshots_step:
  assumes "run_control w env c s = Inr (r, s')" "ledger_ok s" "snapshots_ok s"
  shows "snapshots_ok s'"
proof (cases "s' = s")
  case changed: False
  show ?thesis
  proof (cases "takes_snapshots c")
    case True
    then show ?thesis
      using assms changed
      by (cases c) (auto intro: snapshots_take dest: activate_snapshot_takes rollback_snapshot_takes)
  next
    case False
    with other_commands_write_only [OF assms(1)] changed obtain d where d: "write_command d s = Inr (r, s')"
      by (auto simp: writes_only_def)
    show ?thesis
      by (rule snapshots_later [OF assms(3)])
        (auto simp: write_command_Inr(1) [OF d] written_def Let_def with_new_subject_def ensure_subject_def
          split: option.split)
  qed
qed (use assms(3) in simp)

lemma snapshots_initialize: "initialize env = Inr s \<Longrightarrow> snapshots_ok s"
  by (auto simp: snapshots_ok_def empty_store_def dest!: initialize_Inr(2))

lemma snapshots_reachable: "control_reachable w s \<Longrightarrow> snapshots_ok s"
  by (induction rule: control_reachable.induct)
    (auto intro: snapshots_initialize snapshots_step dest: ledger_reachable)

text \<open>C12: No snapshot of Core drops a repository. In every store the control plane reaches, with
  activations and rollbacks in any order, the repositories a snapshot declares are declared by every
  later one; the active snapshot is the last that was taken, and there is one as soon as any was.\<close>

theorem declared_repositories_are_never_dropped:
  assumes "control_reachable w s"
  shows "(\<forall>i j. i \<le> j \<and> j < length (cs_snapshots s) \<longrightarrow>
      declared_in (sn_report (cs_snapshots s ! i)) \<subseteq> declared_in (sn_report (cs_snapshots s ! j))) \<and>
    (case active_core_snapshot s of
       None \<Rightarrow> cs_snapshots s = [] | Some (n, a) \<Rightarrow> cs_snapshots s \<noteq> [] \<and> n = last (cs_snapshots s))"
proof -
  note ok = snapshots_reachable [OF assms]
  have "declared_in (sn_report (cs_snapshots s ! i)) \<subseteq> declared_in (sn_report (cs_snapshots s ! j))"
    if "i \<le> j" "j < length (cs_snapshots s)" for i j
    using ok that sorted_wrt_nth_less [of "\<lambda>m n. declared_in (sn_report m) \<subseteq> declared_in (sn_report n)" "cs_snapshots s" i j]
    by (cases "i = j") (auto simp: snapshots_ok_def)
  moreover have "case active_core_snapshot s of
       None \<Rightarrow> cs_snapshots s = [] | Some (n, a) \<Rightarrow> cs_snapshots s \<noteq> [] \<and> n = last (cs_snapshots s)"
  proof (cases "cs_active s")
    case None
    with ok show ?thesis by (simp add: active_core_snapshot_def snapshots_ok_def)
  next
    case (Some a)
    with ok active_is_last [OF ok Some] show ?thesis by (simp add: snapshots_ok_def)
  qed
  ultimately show ?thesis by blast
qed

subsection \<open>Activation\<close>

definition keeps_profiles :: "core_snapshot \<Rightarrow> catalog_report \<Rightarrow> bool" where
  "keeps_profiles n candidate \<longleftrightarrow>
     (\<forall>(path, digest) \<in> set (sn_files n). prefix ''organization/contracts/verification-profiles/'' path \<longrightarrow>
        (\<exists>q \<in> set (kr_profiles candidate). kp_path q = path \<and> kp_content_digest q = digest))"

definition keeps_goals :: "catalog_report \<Rightarrow> catalog_report \<Rightarrow> bool" where
  "keeps_goals active candidate \<longleftrightarrow>
     (\<forall>g \<in> set (kr_goals active). \<exists>h \<in> set (kr_goals candidate).
        go_id h = go_id g \<and> goal_may_become (go_status g) (go_status h))"

lemma latest_where_mem: "latest_where p xs = Some x \<Longrightarrow> x \<in> set xs \<and> p x"
  using find_mem [of p "rev xs" x] by (simp add: latest_where_def)

lemma profile_history:
  assumes "assert_profile_history s candidate = Inr u" "n \<in> set (cs_snapshots s)"
  shows "keeps_profiles n candidate"
proof -
  have "\<not> profile_row_violation candidate (path, digest)"
    if "(path, digest) \<in> set (sn_files n)" "prefix ''organization/contracts/verification-profiles/'' path" for path digest
    using assms that
    by (auto simp: assert_profile_history_def kept_def and_then_Inr_iff require_Inr_iff filter_empty_conv retained_files_def)
  then show ?thesis
    by (fastforce simp: keeps_profiles_def profile_row_violation_def split: option.splits dest: latest_where_mem)
qed

lemma goal_retention:
  assumes "assert_goal_retention active candidate = Inr u"
  shows "keeps_goals active candidate"
proof -
  have "\<not> goal_violation candidate g" if "g \<in> set (kr_goals active)" for g
    using assms that
    by (auto simp: assert_goal_retention_def kept_def and_then_Inr_iff require_Inr_iff filter_empty_conv)
  then show ?thesis
    by (fastforce simp: keeps_goals_def goal_violation_def split: option.splits dest: latest_where_mem)
qed

text \<open>C37: An activation of Core keeps its history. When a candidate becomes the active snapshot, it declares
  every repository that any retained snapshot declares, it has every verification profile any
  retained snapshot had, with the same content, and each goal of the snapshot that was active is
  still there in a state its old one may go to, so that a completed or cancelled goal stays so.\<close>

theorem activation_keeps_history:
  assumes "control_reachable w s" "run_control w env (ActivateSnapshot i) s = Inr (r, s')" "s' \<noteq> s"
  shows "let candidate = ca_report (av_candidate i) in
    sn_report (last (cs_snapshots s')) = candidate \<and>
    (\<forall>n \<in> set (cs_snapshots s). declared_in (sn_report n) \<subseteq> declared_in candidate \<and> keeps_profiles n candidate) \<and>
    (\<forall>n a. active_core_snapshot s = Some (n, a) \<longrightarrow>
       keeps_goals (sn_report n) candidate \<and>
       (\<forall>g \<in> set (kr_goals (sn_report n)). go_status g \<in> {''completed'', ''cancelled''} \<longrightarrow>
          (\<exists>h \<in> set (kr_goals candidate). go_id h = go_id g \<and> go_status h = go_status g)))"
proof -
  let ?c = "ca_report (av_candidate i)"
  note ok = ledger_reachable [OF assms(1)] snapshots_reachable [OF assms(1)]
  from assms(2,3) have t: "takes_snapshot env (av_candidate i) s r s'" "assert_continuity s i = Inr ()"
      "assert_profile_history s ?c = Inr ()"
    using activate_snapshot_takes [of "cw_revalidates w" env i s r s'] by auto
  from t(1) obtain w1 s1 where w: "write_command w1 s = Inr (r, s1)"
      "s' = snd (make_active env (ce_id env 8) (av_candidate i) (r, s1))"
    unfolding takes_snapshot_def by blast
  have app: "cs_snapshots s' = cs_snapshots s @ [snapshot_of (ce_id env 8) (av_candidate i) (cr_sequence r)]"
    using write_command_snapshots [OF w(1)] by (simp add: w(2) make_active_def)
  then have last: "sn_report (last (cs_snapshots s')) = ?c" by (simp add: snapshot_of_def)
  have declared: "declared_in (sn_report n) \<subseteq> declared_in ?c" if "n \<in> set (cs_snapshots s)" for n
    using snapshots_take [OF ok t(1)] that by (auto simp: snapshots_ok_def app sorted_wrt_append snapshot_of_def)
  have goals: "keeps_goals (sn_report n) ?c" if n: "active_core_snapshot s = Some (n, a)" for n a
  proof -
    from n obtain b where b: "cs_active s = Some b" by (auto simp: active_core_snapshot_def split: option.splits)
    with ok(2) have ne: "cs_snapshots s \<noteq> []" by (auto simp: snapshots_ok_def)
    from n active_is_last [OF ok(2) b] have l: "n = last (cs_snapshots s)" by simp
    from t(2) n obtain m where m: "retained_candidate (sn_source_commit_id n) s = Inr (Some m)"
        "assert_goal_retention (sn_report m) ?c = Inr ()"
      by (auto simp: assert_continuity_def and_then_Inr_iff split: option.splits)
    from retained_is_last [OF ok(2) ne m(1) [unfolded l]] have "m = n" using l by simp
    with goal_retention [OF m(2)] show ?thesis by simp
  qed
  have final: "go_status h = go_status g"
    if "goal_may_become (go_status g) (go_status h)" "go_status g \<in> {''completed'', ''cancelled''}" for g h :: core_goal
    using that by (auto simp: goal_may_become_def goal_transitions_def)
  show ?thesis
    unfolding Let_def
    using last declared goals profile_history [OF t(3)] final unfolding keeps_goals_def by blast
qed

subsection \<open>The address of Core\<close>

text \<open>C38: The \<open>ssh://\<close> address of Core that may be configured cannot be used. It is one of the three
  addresses the Git source accepts, but with a candidate from it no check of Core, no activation and no
  rollback is ever recorded, and not even the rejection of the candidate: each of these commands is
  refused whatever else it says, because the database knows another spelling.\<close>

theorem ssh_address_of_core_is_a_dead_end:
  "configured_source_url ssh_slash_core_url \<and>
   (ca_source_url c = ssh_slash_core_url \<longrightarrow>
      (\<exists>e. run_control w env (SourceEligible (i\<lparr>ei_candidate := c\<rparr>)) s = Inl e) \<and>
      (\<exists>e. run_control w env (ActivateSnapshot (a\<lparr>av_candidate := c\<rparr>)) s = Inl e) \<and>
      (\<exists>e. run_control w env (RollbackSnapshot (b\<lparr>rb_candidate := c\<rparr>)) s = Inl e)) \<and>
   (rj_source_url p = ssh_slash_core_url \<longrightarrow> run_control w env (RejectCandidate p) s = Inl OutsideContract)"
proof -
  have url: "\<not> materialized_source_url ssh_slash_core_url" "\<not> rejection_source_url ssh_slash_core_url"
    by (simp_all add: materialized_source_url_def rejection_source_url_def https_core_url_def scp_core_url_def
        ssh_colon_core_url_def ssh_slash_core_url_def)
  have refused: "\<exists>e. assert_materialized_candidate c = Inl e" if "ca_source_url c = ssh_slash_core_url"
    using that url by (auto simp: assert_materialized_candidate_def require_def)
  have none: "run_control w env d s \<noteq> Inr x" if "ca_source_url c = ssh_slash_core_url"
      "d \<in> {SourceEligible (i\<lparr>ei_candidate := c\<rparr>), ActivateSnapshot (a\<lparr>av_candidate := c\<rparr>),
        RollbackSnapshot (b\<lparr>rb_candidate := c\<rparr>)}" for d x
    using that refused [OF that(1)]
    by (auto simp: record_source_check_eligible_def activate_snapshot_def rollback_snapshot_def and_then_Inr_iff Let_def)
  have "\<exists>e. run_control w env d s = Inl e" if "ca_source_url c = ssh_slash_core_url"
      "d \<in> {SourceEligible (i\<lparr>ei_candidate := c\<rparr>), ActivateSnapshot (a\<lparr>av_candidate := c\<rparr>),
        RollbackSnapshot (b\<lparr>rb_candidate := c\<rparr>)}" for d
    using none [OF that] by (cases "run_control w env d s") auto
  moreover have "run_control w env (RejectCandidate p) s = Inl OutsideContract" if "rj_source_url p = ssh_slash_core_url"
    using that url(2) by (simp add: record_candidate_rejection_def is_rejection_payload_def)
  moreover have "configured_source_url ssh_slash_core_url" by (simp add: configured_source_url_def)
  ultimately show ?thesis by blast
qed

end
