(* ===== verification/Control_Sample.thy ===== *)
theory Control_Sample
  imports Core_Guarantees
begin

text \<open>
  Concrete inputs of the control plane's commands, and how one command is carried out on a store of which
  only the readings are known; \<open>Control_Sample_Run\<close> makes a run of them.
\<close>

subsection \<open>Inputs\<close>

definition sample_uuid :: "nat \<Rightarrow> nat \<Rightarrow> string" where
  "sample_uuid k n =
     [''0123456789abcdef'' ! k, ''0123456789abcdef'' ! n] @ ''890000-0000-7000-8000-000000000000''"

definition digest_a :: string where "digest_a = ''sha256:'' @ replicate 64 CHR ''a''"
definition digest_b :: string where "digest_b = ''sha256:'' @ replicate 64 CHR ''b''"

text \<open>Stands for the hash of the standard library.\<close>

definition sample_digest :: "json \<Rightarrow> string" where
  "sample_digest j =
     (case j of JObject ms \<Rightarrow> (case snd (last ms) of JNull \<Rightarrow> digest_b | _ \<Rightarrow>
        digest_a) | _ \<Rightarrow> digest_a)"

definition object_c :: string where "object_c = replicate 40 CHR ''c''"

definition sample_env :: "nat \<Rightarrow> control_env" where
  "sample_env k =
     \<lparr>ce_now = 1000 * int k, ce_id = sample_uuid k, ce_digest = sample_digest, ce_iso =
        decimal_text\<rparr>"

definition sample_repository :: declared_repository where
  "sample_repository =
     \<lparr>de_path = ''organization/repositories/frostyard/snosi.json'', de_content_digest = digest_a,
      de_owner = ''frostyard'', de_name = ''snosi'', de_repository_id = ''7'',
      de_accountable_owners = [GithubUser ''bjk''], de_fleet_state = ''enabled'',
      de_maintenance_programs = [''ci''], de_action_ceiling = [''read''],
      de_surface_contract_version = 1\<rparr>"

definition sample_report :: catalog_report where
  "sample_report =
     \<lparr>kr_catalog_digest = digest_a, kr_file_count = 1, kr_total_bytes = 10, kr_valid_fixture_count = 1,
      kr_invalid_fixture_count = 1,
      kr_schemas = \<lparr>sg_repository = digest_a, sg_surfaces = digest_a, sg_governance = digest_a,
        sg_verification_profile = None, sg_envelope = None, sg_goal = None, sg_settings = None\<rparr>,
      kr_repositories = [sample_repository], kr_profiles = [], kr_goals = []\<rparr>"

definition sample_candidate :: core_candidate where
  "sample_candidate =
     \<lparr>ca_source_url = https_core_url, ca_ref = ''refs/heads/main'', ca_commit_id = object_c,
      ca_tree_id = object_c,
      ca_files = [\<lparr>cf_path = ''organization/repositories/frostyard/snosi.json'', cf_mode = ''100644'',
        cf_object_id = object_c, cf_size = 10, cf_content_digest = digest_a\<rparr>],
      ca_report = sample_report\<rparr>"

definition sample_surfaces :: "surface_definition list" where
  "sample_surfaces =
     map (\<lambda>(i, p, t). \<lparr>sd_id = i, sd_path = p, sd_artifact_type = t\<rparr>) surface_contracts"

definition sample_probe :: surface_probe where
  "sample_probe = Some
     \<lparr>pr_default_branch = ''main'', pr_repository_commit_id = object_c, pr_repository_tree_id = object_c,
      pr_surfaces = map (\<lambda>d. \<lparr>pe_surface_id = sd_id d, pe_path = sd_path d, pe_found = Some
        (if sd_artifact_type d = ''file''
         then \<lparr>fo_mode = ''100644'', fo_object_type = ''blob'', fo_object_id = object_c,
           fo_bytes = Some [1], fo_tree_entries = None\<rparr>
         else \<lparr>fo_mode = ''040000'', fo_object_type = ''tree'', fo_object_id = object_c,
           fo_bytes = None, fo_tree_entries = Some []\<rparr>)\<rparr>) sample_surfaces\<rparr>"

definition sample_world :: control_world where
  "sample_world =
     \<lparr>cw_revalidates = (\<lambda>_. True),
      cw_surfaces =
        \<lparr>sw_hashes = \<lparr>sh_sha1 = (\<lambda>_. object_c), sh_sha256 = (\<lambda>_. replicate 64 CHR
        ''b''),
           sh_locale_sort = (\<lambda>es. es), sh_governance = (\<lambda>_. Some (JObject []))\<rparr>,
         sw_contract = (\<lambda>_. Some \<lparr>sc_surfaces = sample_surfaces, sc_contract_digest = digest_a,
           sc_governance_schema_digest = digest_a\<rparr>),
         sw_probe_json = (\<lambda>_. JNull)\<rparr>\<rparr>"

definition sample_checkpoint :: "nat \<Rightarrow> timestamp \<Rightarrow> timestamp \<Rightarrow>
    checkpoint_input" where
  "sample_checkpoint k from through =
     \<lparr>ki_expected_sequence = JInt (int k), ki_run_id = sample_uuid k 15, ki_repository_id =
        ''github.com:7'',
      ki_app_id = ''3'', ki_installation_id = ''github.com:installation:4'', ki_covered_from = from,
      ki_covered_through = through, ki_page_count = JInt 1, ki_delivery_count = JInt 0,
      ki_page_proof_digest = digest_a, ki_selected_response_digest = digest_a\<rparr>"

definition sample_activation :: activation_input where
  "sample_activation =
     \<lparr>av_candidate = sample_candidate, av_expected_sequence = JInt 1, av_continuity_ancestor =
        None\<rparr>"

definition sample_eligible :: eligible_input where
  "sample_eligible =
     \<lparr>ei_check_id = sample_uuid 2 15, ei_candidate = sample_candidate, ei_expected_sequence = JInt
        2\<rparr>"

definition sample_authority_input :: authority_input where
  "sample_authority_input =
     \<lparr>au_expected_sequence = JInt 3, au_core_snapshot_id = sample_uuid 1 8, au_repository_id =
        ''github.com:7''\<rparr>"

definition sample_found :: found_repository where
  "sample_found =
     \<lparr>fr_repository_id = ''7'', fr_owner = ''Frostyard'', fr_name = ''snosi'', fr_archived = False,
      fr_default_branch = ''main''\<rparr>"

definition sample_identity_input :: identity_input where
  "sample_identity_input =
     \<lparr>id_expected_sequence = JInt 4, id_core_authorization_record_id = sample_uuid 3 1,
      id_inspection = InspectionFound sample_found\<rparr>"

definition sample_surfaces_input :: surfaces_input where
  "sample_surfaces_input =
     \<lparr>si_expected_sequence = JInt 5, si_github_reconciliation_record_id = sample_uuid 4 1, si_probe =
        sample_probe\<rparr>"

definition sample_enrollment_input :: enrollment_input where
  "sample_enrollment_input =
     \<lparr>ei'_expected_sequence = JInt 6, ei'_surface_reconciliation_record_id = sample_uuid 5 2\<rparr>"

definition sample_gap_input :: gap_input where
  "sample_gap_input =
     \<lparr>gx_expected_sequence = JInt 9, gx_run_id = sample_uuid 9 15, gx_repository_id = ''github.com:7'',
      gx_app_id = ''3'', gx_installation_id = ''github.com:installation:4'',
      gx_checkpoint_record_id = sample_uuid 8 0, gx_cause = ''pagination-incomplete'',
      gx_failure_kind = ''interval-coverage'', gx_affected_delivery_guids = []\<rparr>"

definition sample_repair_input :: repair_input where
  "sample_repair_input =
     \<lparr>ri'_expected_sequence = JInt 10, ri'_run_id = sample_uuid 10 15, ri'_repository_id =
        ''github.com:7'',
      ri'_app_id = ''3'', ri'_installation_id = ''github.com:installation:4'', ri'_covered_through = 9000,
      ri'_page_count = JInt 1, ri'_delivery_count = JInt 0, ri'_page_proof_digest = digest_a,
      ri'_selected_response_digest = digest_a, ri'_gap_record_id = sample_uuid 9 0,
      ri'_repair_audit_record_ids = []\<rparr>"

definition sample_hold_input :: "int \<Rightarrow> string option \<Rightarrow> hold_input" where
  "sample_hold_input n clears =
     \<lparr>hi_expected_sequence = JInt n, hi_repository_id = ''github.com:7'', hi_reason = ''reviewed'',
      hi_clears = clears\<rparr>"

subsection \<open>Facts about the inputs\<close>

lemma hex_digits: "is_hex_lower CHR ''0''" "is_hex_lower CHR ''7''" "is_hex_lower CHR ''8''" "is_hex_lower CHR
    ''9''"
  "\<not> is_hex_lower CHR ''-''" by code_simp+

lemma hex_nth: "k < 16 \<Longrightarrow> is_hex_lower (''0123456789abcdef'' ! k)"
proof -
  assume "k < 16"
  moreover have "list_all is_hex_lower ''0123456789abcdef''" by code_simp
  ultimately show ?thesis by (simp add: list_all_length)
qed

lemma uuid_cons:
  assumes "is_hex_lower a" "is_hex_lower b"
  shows "is_uuid_v7 ([a, b] @ ''890000-0000-7000-8000-000000000000'')"
proof -
  have "split_char CHR ''-'' ''890000-0000-7000-8000-000000000000'' =
      [''890000'', ''0000'', ''7000'', ''8000'', ''000000000000'']" by code_simp
  moreover have "a \<noteq> CHR ''-'' \<and> b \<noteq> CHR ''-''" using assms hex_digits(5) by auto
  ultimately show ?thesis using assms by (simp add: is_uuid_v7_def hex_digits)
qed

lemma sample_uuid: "k < 16 \<Longrightarrow> n < 16 \<Longrightarrow> is_uuid_v7 (sample_uuid k n)"
  unfolding sample_uuid_def by (intro uuid_cons hex_nth)

lemma sample_uuid_eq:
  "k < 16 \<Longrightarrow> n < 16 \<Longrightarrow> k' < 16 \<Longrightarrow> n' < 16 \<Longrightarrow>
      sample_uuid k n = sample_uuid k' n' \<longleftrightarrow> k = k' \<and> n = n'"
  unfolding sample_uuid_def using nth_eq_iff_index_eq [of "''0123456789abcdef''"] by simp

lemma sample_texts:
  "is_sha256 digest_a" "is_sha256 digest_b" "commit_sha object_c" "is_owner_name ''frostyard''"
  "is_owner_name ''Frostyard''" "is_repository_name ''snosi''" "is_branch_name ''main''" "github_number ''7''"
  "github_number ''3''" "is_github_repository_id ''github.com:7''"
  "is_github_installation_id ''github.com:installation:4''" "is_canonical_core_ref ''refs/heads/main''"
  "eligible_source_url https_core_url" "is_repository_owners [GithubUser ''bjk'']"
  "is_closed_unique_array maintenance_program_names (length maintenance_program_names) [''ci'']"
  "is_closed_unique_array repository_actions 6 [''read'']"
  "declaration_path_of ''frostyard'' ''snosi'' = ''organization/repositories/frostyard/snosi.json''"
  by code_simp+

lemma sample_digest_valid: "is_sha256 (sample_digest j)"
  by (auto simp: sample_digest_def sample_texts split: json.splits)

lemma sample_candidate_fields:
  "ca_source_url sample_candidate = https_core_url" "ca_ref sample_candidate = ''refs/heads/main''"
  "ca_commit_id sample_candidate = object_c" "ca_tree_id sample_candidate = object_c"
  "ca_report sample_candidate = sample_report" "ca_catalog_digest sample_candidate = digest_a"
  "kr_catalog_digest sample_report = digest_a" "kr_repositories sample_report = [sample_repository]"
  "kr_profiles sample_report = []" "kr_goals sample_report = []"
  by (simp_all add: sample_candidate_def sample_report_def ca_catalog_digest_def)

lemma sample_repository_fields:
  "declared_id sample_repository = ''github.com:7''" "de_fleet_state sample_repository = ''enabled''"
  "de_path sample_repository = ''organization/repositories/frostyard/snosi.json''"
  "de_content_digest sample_repository = digest_a" "de_owner sample_repository = ''frostyard''"
  "de_name sample_repository = ''snosi''" "de_accountable_owners sample_repository = [GithubUser ''bjk'']"
  "de_maintenance_programs sample_repository = [''ci'']" "de_action_ceiling sample_repository = [''read'']"
  "de_surface_contract_version sample_repository = 1"
  by (simp_all add: sample_repository_def declared_id_def github_repository_prefix_def)

lemma sample_env_fields:
  "ce_now (sample_env k) = 1000 * int k" "ce_id (sample_env k) = sample_uuid k"
  "ce_digest (sample_env k) = sample_digest" "ce_iso (sample_env k) = decimal_text"
  by (simp_all add: sample_env_def)

lemmas sample_facts =
  sample_uuid sample_uuid_eq sample_texts sample_digest_valid sample_candidate_fields sample_repository_fields
  sample_env_fields

subsection \<open>Steps\<close>

lemma and_then_lazy: "m = m' \<Longrightarrow> and_then m f = and_then m' f"
  by simp

lemma placed_few:
  "placed [a, b] n = [a n 0, b n 1]" "placed [a, b, c] n = [a n 0, b n 1, c n 2]"
  "placed [a, b, c, d] n = [a n 0, b n 1, c n 2, d n 3]"
  by (simp_all add: placed_def upt_rec)

lemma written_fields:
  "cs_lineage_id (written c s) = cs_lineage_id s"
  "cs_operator_principal_id (written c s) = cs_operator_principal_id s"
  "cs_watermark (written c s) = cm_at c" "cs_last_sequence (written c s) = cs_allocated s + 1"
  "cs_allocated (written c s) = cs_allocated s + 1"
  "cs_transactions (written c s) = cs_transactions s @ [transaction_of c (cs_allocated s + 1)]"
  "cs_subjects (written c s) = with_new_subject c s"
  "cs_occurrences (written c s) = cs_occurrences s @ placed (cm_occurrences c) (cs_allocated s + 1)"
  "cs_receipts (written c s) = cs_receipts s @ [receipt_of c (cs_allocated s + 1)]"
  "cs_snapshots (written c s) = cs_snapshots s" "cs_active (written c s) = cs_active s"
  by (simp_all add: written_def Let_def)

lemma opened_fields:
  "cs_transactions (opened c s) = cs_transactions s @ [transaction_of c (cs_allocated s + 1)]"
  "cs_subjects (opened c s) = with_new_subject c s" "cs_occurrences (opened c s) = cs_occurrences s"
  by (simp_all add: opened_def)

lemma ledger_entries:
  "ct_sequence (transaction_of c n) = n" "ct_transaction_id (transaction_of c n) = cm_transaction_id c"
  "rc_command_kind (receipt_of c n) = cm_kind c" "rc_idempotency_key (receipt_of c n) = cm_key c"
  by (simp_all add: transaction_of_def receipt_of_def)

lemmas occurrence_defs =
  core_occurrence_def check_occurrence_def repository_occurrence_def coverage_occurrence_def

lemma command_fields:
  "cm_transaction_id (kernel_command env kind key dg sub ds p ev) = ce_id env 9"
  "cm_kind (kernel_command env kind key dg sub ds p ev) = kind"
  "cm_key (kernel_command env kind key dg sub ds p ev) = key"
  "cm_at (kernel_command env kind key dg sub ds p ev) = ce_now env"
  "cm_new_subject (kernel_command env kind key dg sub ds p ev) = sub"
  "cm_occurrences (kernel_command env kind key dg sub ds p ev) = ds"
  "cm_transaction_id (operator_command env s kind key dg ds p ev) = ce_id env 9"
  "cm_kind (operator_command env s kind key dg ds p ev) = kind"
  "cm_key (operator_command env s kind key dg ds p ev) = key"
  "cm_at (operator_command env s kind key dg ds p ev) = ce_now env"
  "cm_new_subject (operator_command env s kind key dg ds p ev) = None"
  "cm_occurrences (operator_command env s kind key dg ds p ev) = ds"
  by (simp_all add: kernel_command_def operator_command_def)

lemma occurrence_allowed_iff:
  "occurrence_allowed s oc \<longleftrightarrow>
     oc_record_id oc \<notin> set (map oc_record_id (cs_occurrences s)) \<and>
     (oc_subject_kind oc, oc_subject_id oc) \<in> set (cs_subjects s) \<and>
     (case oc_causation_record_id oc of None \<Rightarrow> True
        | Some c \<Rightarrow> c = oc_record_id oc \<or> c \<in> set (map oc_record_id (cs_occurrences s)))
        \<and>
     oc_sequence oc \<in> set (map ct_sequence (cs_transactions s)) \<and> 0 \<le> oc_position oc \<and>
     place oc \<notin> set (map place (cs_occurrences s)) \<and>
     (oc_type oc = RecordOccurrence \<longrightarrow> oc_record_class oc \<noteq> None)"
  by (simp add: occurrence_allowed_def record_ids_def place_def [abs_def] split: option.split)

lemma receipt_iff:
  "command_receipt s k i = None \<longleftrightarrow> (k, i) \<notin> set (map receipt_key (cs_receipts s))"
  by (rule command_receipt_None)

lemmas step_simps = write_command_ok written_fields opened_fields ledger_entries command_fields placed_few
  occurrence_allowed_iff receipt_iff sample_facts with_new_subject_def ensure_subject_def has_subject_def
  receipt_key_def

lemma replay_fresh:
  "(kind, key) \<notin> set (map receipt_key (cs_receipts s)) \<Longrightarrow> replay_or s kind key digest
      fresh = fresh"
  by (simp only: replay_or_def receipt_iff [symmetric] option.case)

lemma timely: "cs_watermark s \<le> t \<Longrightarrow> cs_last_sequence s = js_int n \<Longrightarrow>
    assert_command_time_and_sequence s t n = Inr ()"
  by (simp add: assert_command_time_and_sequence_def)

lemma sequence_ok: "1 \<le> n \<Longrightarrow> n \<le> 20 \<Longrightarrow> assert_expected_sequence (JInt n) =
    Inr ()"
  by (simp add: assert_expected_sequence_def max_safe_integer_def)

subsection \<open>Readings of a store that grows\<close>

lemma records_grow:
  assumes "ledger_ok s" "ledger_ok s'" "cs_occurrences s' = cs_occurrences s @ new"
  shows "records_of kind cls s' = rev (filter (\<lambda>oc. oc_kind oc = kind \<and> oc_record_class oc = Some
      cls) new) @ records_of kind cls s"
    "check_rows s' = rev (filter (\<lambda>oc. oc_type oc = RecordOccurrence \<and>
       (oc_kind oc = eligible_kind \<or> oc_kind oc = rejection_kind)) new) @ check_rows s"
    "subject_records kind r s' = rev (filter (\<lambda>oc. oc_kind oc = kind \<and> oc_subject_kind oc =
        ''github-repository'' \<and>
            oc_subject_id oc = r) new) @ subject_records kind r s"
  unfolding records_of_def check_rows_def subject_records_def newest_first_rev [OF assms(1)] newest_first_rev
      [OF assms(2)]
  by (simp_all add: assms(3))

lemma map_res_append:
  "map_res f (xs @ ys) = and_then (map_res f xs) (\<lambda>as. and_then (map_res f ys) (\<lambda>bs. Inr (as @
      bs)))"
  by (induction xs) (auto simp: and_then_def split: sum.splits)

definition reads :: "control_store \<Rightarrow> source_check list \<Rightarrow> status_rows \<Rightarrow> bool"
    where
  "reads s checks rows \<longleftrightarrow>
     ledger_ok s \<and> source_checks s = Inr checks \<and> authority_rows s = Inr (sr_authority rows) \<and>
     identity_rows s = Inr (sr_identity rows) \<and> surfaces_rows s = Inr (sr_surfaces rows) \<and>
     enrollment_rows s = Inr (sr_enrollment rows) \<and> hold_rows s = Inr (sr_holds rows)"

definition news :: "string \<Rightarrow> string \<Rightarrow> occurrence list \<Rightarrow> occurrence list"
    where
  "news kind cls new = rev (filter (\<lambda>oc. oc_kind oc = kind \<and> oc_record_class oc = Some cls) new)"

definition news_checks :: "occurrence list \<Rightarrow> occurrence list" where
  "news_checks new = rev (filter (\<lambda>oc. oc_type oc = RecordOccurrence \<and>
       (oc_kind oc = eligible_kind \<or> oc_kind oc = rejection_kind)) new)"

lemma reads_grow:
  assumes "reads s checks rows" "ledger_ok s'" "cs_occurrences s' = cs_occurrences s @ new"
    and "map_res source_check_of (news_checks new) = Inr cs"
    and "map_res (contract_of authority_of is_authority_payload) (news ''repository.core-authorized'' ''fact''
        new) = Inr as"
    and "map_res (contract_of identity_of is_identity_payload) (news ''repository.github-identity-reconciled''
        ''fact'' new) = Inr gs"
    and "map_res (contract_of surfaces_of is_surfaces_payload) (news
        ''repository.canonical-surfaces-reconciled'' ''fact'' new) = Inr ps"
    and "map_res (contract_of enrollment_of is_enrollment_payload) (news ''repository.enrolled'' ''fact'' new) =
        Inr es"
    and "map_res (contract_of hold_of is_hold_payload) (news ''repository.operator-hold-decision'' ''decision''
        new) = Inr hs"
  shows "reads s' (concat cs @ checks) \<lparr>sr_authority = as @ sr_authority rows, sr_identity = gs @
      sr_identity rows,
     sr_surfaces = ps @ sr_surfaces rows, sr_enrollment = es @ sr_enrollment rows, sr_holds = hs @ sr_holds
        rows\<rparr>"
proof -
  have l: "ledger_ok s" using assms(1) by (simp add: reads_def)
  note g = records_grow [OF l assms(2,3), folded news_def news_checks_def]
  have c: "source_checks s' = Inr (concat cs @ checks)"
    using assms(1,4) g(2) by (auto simp: reads_def source_checks_def map_res_append split: sum.splits)
      (cases "map_res source_check_of (check_rows s)"; auto)
  show ?thesis
    using assms(1,2,5-) c
    by (simp add: reads_def authority_rows_def identity_rows_def surfaces_rows_def enrollment_rows_def
        hold_rows_def g map_res_append)
qed

lemma row_found:
  assumes "map_res (contract_of sel valid) (records_of kind cls s) = Inr rows" "(i, p) \<in> set rows"
      "ledger_ok s"
  obtains oc where "oc \<in> set (cs_occurrences s)" "oc_kind oc = kind" "oc_record_class oc = Some cls"
      "oc_record_id oc = i"
    "contract_of sel valid oc = Inr (i, p)" "\<And>oc'. oc' \<in> set (cs_occurrences s) \<Longrightarrow>
        oc_record_id oc' = i \<Longrightarrow> oc' = oc"
proof -
  obtain oc where oc: "oc \<in> set (records_of kind cls s)" "contract_of sel valid oc = Inr (i, p)"
    using map_res_mem [OF assms(1,2)] ..
  have i: "oc_record_id oc = i" using oc(2) by (simp add: contract_of_Inr)
  have inj: "inj_on oc_record_id (set (cs_occurrences s))" using assms(3) by (simp add: ledger_ok_def
      distinct_map)
  have m: "oc \<in> set (cs_occurrences s)" "oc_kind oc = kind" "oc_record_class oc = Some cls"
    using oc(1) by (simp_all add: records_of_mem)
  show thesis by (rule that [OF m i oc(2)]) (use inj m(1) i in \<open>simp add: inj_on_def\<close>)
qed

lemma find_unique:
  assumes "x \<in> set xs" "P x" "\<And>y. y \<in> set xs \<Longrightarrow> P y \<Longrightarrow> y = x"
  shows "List.find P xs = Some x"
proof (cases "List.find P xs")
  case None
  with assms(1,2) show ?thesis by (simp add: find_None_iff)
next
  case (Some y)
  from assms(3) find_mem [OF Some] Some show ?thesis by blast
qed

lemma row_required:
  assumes "map_res (contract_of sel valid) (records_of kind ''fact'' s) = Inr rows" "ledger_ok s" "(i, p) \<in>
      set rows"
  shows "required_fact kind sel valid i s = Inr p"
proof -
  from row_found [OF assms(1,3,2)] obtain oc where oc: "oc \<in> set (cs_occurrences s)" "oc_kind oc = kind"
      "oc_record_class oc = Some ''fact''" "oc_record_id oc = i" "contract_of sel valid oc = Inr (i, p)"
    and u: "\<And>oc'. oc' \<in> set (cs_occurrences s) \<Longrightarrow> oc_record_id oc' = i \<Longrightarrow>
        oc' = oc" by blast
  have "fact kind i s = Some oc" unfolding fact_def by (rule find_unique [OF oc(1)]) (use oc(2-4) u in blast)+
  then show ?thesis by (simp add: required_fact_def oc(5))
qed

lemma reads_required:
  assumes "reads s checks rows"
  shows "(i, a) \<in> set (sr_authority rows) \<Longrightarrow> required_fact authority_kind authority_of
      is_authority_payload i s = Inr a"
    "(i, g) \<in> set (sr_identity rows) \<Longrightarrow> required_fact identity_kind identity_of
        is_identity_payload i s = Inr g"
    "(i, p) \<in> set (sr_surfaces rows) \<Longrightarrow> required_fact surfaces_kind surfaces_of
        is_surfaces_payload i s = Inr p"
  using assms unfolding reads_def authority_rows_def identity_rows_def surfaces_rows_def
    authority_kind_def identity_kind_def surfaces_kind_def by (metis row_required)+

lemma reads_retained:
  assumes "reads s checks rows" "(i, a) \<in> set (sr_authority rows)"
  shows "retained_authority i s = Inr a"
proof -
  have r: "map_res (contract_of authority_of is_authority_payload) (records_of authority_kind ''fact'' s) = Inr
      (sr_authority rows)"
    "ledger_ok s" using assms(1) by (simp_all add: reads_def authority_rows_def authority_kind_def)
  from row_found [OF r(1) assms(2) r(2)] obtain oc where oc: "oc \<in> set (cs_occurrences s)" "oc_kind oc =
      authority_kind"
      "oc_record_id oc = i" "contract_of authority_of is_authority_payload oc = Inr (i, a)"
    and u: "\<And>oc'. oc' \<in> set (cs_occurrences s) \<Longrightarrow> oc_record_id oc' = i \<Longrightarrow>
        oc' = oc" by blast
  have "List.find (\<lambda>oc. oc_record_id oc = i \<and> oc_kind oc = authority_kind) (cs_occurrences s) =
      Some oc"
    by (rule find_unique [OF oc(1)]) (use oc(2,3) u in blast)+
  then show ?thesis by (simp add: retained_authority_def oc(4))
qed

lemma kind_absent:
  assumes "kind \<notin> set (map oc_kind (cs_occurrences s))"
  shows "predecessor_fact kind refers i s = None" "records_of kind cls s = []" "subject_records kind r s = []"
proof -
  have "filter (\<lambda>oc. oc_kind oc = kind \<and> P oc) (cs_occurrences s) = []" for P
    using assms by (auto simp: filter_empty_conv)
  then show "predecessor_fact kind refers i s = None" "records_of kind cls s = []" "subject_records kind r s =
      []"
    by (simp_all add: predecessor_fact_def records_of_def subject_records_def newest_first_def)
qed

end
