(* ===== verification/Control_Sample_Run.thy ===== *)
theory Control_Sample_Run
  imports Control_Sample
begin

text \<open>
  One run of the control plane, from its new database through the activation of Core, the check of
  its source and the enrollment of a repository to two checkpoints, a gap, its repair and the
  operator's hold. Each store keeps its own name; what is read of it is listed, and so each step is
  carried out on readings. The guarantees are shown to apply to stores of this run.
\<close>

subsection \<open>The start\<close>

definition store_0 :: control_store where
  "store_0 = (empty_store (sample_env 0))\<lparr>cs_last_sequence := 1, cs_allocated := 1,
     cs_transactions := [first_transaction (sample_env 0)],
     cs_subjects := [(''control-plane-database'', sample_uuid 0 0), (''operator-principal'', sample_uuid 0 1)],
     cs_occurrences := placed (initial_occurrences (sample_env 0)) 1\<rparr>"

lemma start_0: "initialize (sample_env 0) = Inr store_0"
  by (simp add: initialize_def insert_transaction_def empty_store_def sample_env_fields
     ensure_subject_def has_subject_def placed_few initial_occurrences_def initial_occurrence_def
        first_transaction_def
     insert_occurrence_def occurrence_allowed_def record_ids_def sample_uuid_eq advance_control_metadata_def
        store_0_def Let_def)

lemma store_0_fields:
  "cs_lineage_id store_0 = sample_uuid 0 0" "cs_operator_principal_id store_0 = sample_uuid 0 1"
  "cs_watermark store_0 = 0" "cs_last_sequence store_0 = 1" "cs_allocated store_0 = 1"
  "map ct_transaction_id (cs_transactions store_0) = [sample_uuid 0 2]"
  "map ct_sequence (cs_transactions store_0) = [1]"
  "cs_subjects store_0 = [(''control-plane-database'', sample_uuid 0 0), (''operator-principal'', sample_uuid 0
      1)]"
  "cs_receipts store_0 = []" "cs_snapshots store_0 = []" "cs_active store_0 = None"
  "map oc_kind (cs_occurrences store_0) =
     [''control-plane.database-definition'', ''principal.definition'', ''control-plane.initialized'']"
  "map oc_record_id (cs_occurrences store_0) = [sample_uuid 0 3, sample_uuid 0 4, sample_uuid 0 5]"
  "map place (cs_occurrences store_0) = [(1, 0), (1, 1), (1, 2)]"
  by (simp_all add: store_0_def empty_store_def first_transaction_def sample_env_fields initial_occurrences_def
     placed_few place_def initial_occurrence_def Let_def)

lemma candidate_ok: "assert_materialized_candidate sample_candidate = Inr ()" by code_simp
lemma definition_ok: "is_snapshot_definition (sample_uuid (Suc 0) 8) sample_candidate" by code_simp
lemma world_fields: "cw_revalidates sample_world c = True" by (simp add: sample_world_def)

lemma input_fields:
  "id_expected_sequence sample_identity_input = JInt 4"
  "id_core_authorization_record_id sample_identity_input = sample_uuid 3 1"
  "id_inspection sample_identity_input = InspectionFound sample_found"
  "fr_repository_id sample_found = ''7''" "fr_owner sample_found = ''Frostyard''" "fr_name sample_found =
      ''snosi''"
  "fr_archived sample_found = False" "fr_default_branch sample_found = ''main''"
  "si_expected_sequence sample_surfaces_input = JInt 5"
  "si_github_reconciliation_record_id sample_surfaces_input = sample_uuid 4 1"
  "si_probe sample_surfaces_input = sample_probe"
  "ei'_expected_sequence sample_enrollment_input = JInt 6"
  "ei'_surface_reconciliation_record_id sample_enrollment_input = sample_uuid 5 2"
  "av_candidate sample_activation = sample_candidate" "av_expected_sequence sample_activation = JInt 1"
  "av_continuity_ancestor sample_activation = None"
  "ei_check_id sample_eligible = sample_uuid 2 15" "ei_candidate sample_eligible = sample_candidate"
  "ei_expected_sequence sample_eligible = JInt 2"
  "au_expected_sequence sample_authority_input = JInt 3"
  "au_core_snapshot_id sample_authority_input = sample_uuid 1 8"
  "au_repository_id sample_authority_input = ''github.com:7''"
  by (simp_all add: sample_activation_def sample_eligible_def sample_authority_input_def
      sample_identity_input_def sample_found_def sample_surfaces_input_def sample_enrollment_input_def)

lemmas run_simps = candidate_ok world_fields input_fields replay_fresh timely sequence_ok sample_facts

lemmas at_0 = store_0_fields

lemma store_0_ok: "control_reachable sample_world store_0" "ledger_ok store_0"
  using control_start [OF start_0] ledger_reachable by blast+

lemma reads_0: "reads store_0 [] \<lparr>sr_authority = [], sr_identity = [], sr_surfaces = [], sr_enrollment =
    [], sr_holds = []\<rparr>"
  unfolding reads_def using store_0_ok
  by (simp add: source_checks_def check_rows_def authority_rows_def identity_rows_def surfaces_rows_def
      enrollment_rows_def
    hold_rows_def records_of_def newest_first_def store_0_def initial_occurrences_def placed_few
        initial_occurrence_def Let_def
    eligible_kind_def rejection_kind_def)

lemmas news_simps = news_def news_checks_def placed_few occurrence_defs command_fields Let_def
  eligible_kind_def rejection_kind_def authority_kind_def identity_kind_def surfaces_kind_def
      enrollment_kind_def hold_kind_def

lemmas kind_defs = eligible_kind_def rejection_kind_def authority_kind_def identity_kind_def surfaces_kind_def
    enrollment_kind_def
  hold_kind_def checkpoint_kind_def gap_kind_def repair_kind_def

lemmas admit_simps = step_simps place_def Let_def occurrence_defs

definition snapshot_1 :: core_snapshot where "snapshot_1 = snapshot_of (sample_uuid 1 8) sample_candidate 2"
definition active_1 :: active_snapshot where
  "active_1 = \<lparr>ac_snapshot_id = sample_uuid 1 8, ac_activated_at = 1000, ac_transaction_sequence =
      2\<rparr>"
lemma snapshot_1_fields: "sn_snapshot_id snapshot_1 = sample_uuid 1 8" "sn_source_commit_id snapshot_1 =
    object_c"
  "sn_catalog_digest snapshot_1 = digest_a" "sn_repositories snapshot_1 = [sample_repository]"
  "sn_report snapshot_1 = sample_report"
  by (simp_all add: snapshot_1_def snapshot_of_def sample_facts sn_repositories_def)

lemma active_1_fields: "ac_snapshot_id active_1 = sample_uuid 1 8" "ac_transaction_sequence active_1 = 2"
  by (simp_all add: active_1_def)

subsection \<open>Core is activated\<close>

definition command_1 :: command where
  "command_1 = kernel_command (sample_env 1) ''core.activate-snapshot'' (activation_key sample_activation)
      (sample_digest (activation_json sample_activation)) (Some (''core-snapshot'', sample_uuid 1 8))
      (activation_occurrences (sample_env 1) store_0 sample_candidate) (PlainPayload (active_json (sample_env 1)
      store_0 (sample_uuid 1 8) sample_candidate)) (sample_uuid 1 2)"
definition store_1 :: control_store where
  "store_1 = snd (make_active (sample_env 1) (sample_uuid 1 8) sample_candidate (result_of command_1 2, written
      command_1 store_0))"

lemma write_1: "write_command command_1 store_0 = Inr (result_of command_1 2, written command_1 store_0)"
  using write_command_ok [of command_1 store_0]
  by (simp add: admit_simps at_0 command_1_def activation_occurrences_def active_fact_occurrence_def del:
      set_map image_iff)

lemma run_1: "run_control sample_world (sample_env 1) (ActivateSnapshot sample_activation) store_0 = Inr
    (result_of command_1 2, store_1)"
  by (simp add: activate_snapshot_def assert_profile_history_def assert_goal_history_def retained_files_def
      kept_def assert_continuity_def active_core_snapshot_def definition_ok has_subject_def make_active_def
      run_simps at_0 receipt_key_def write_1 command_1_def [symmetric, unfolded One_nat_def append_Cons
      append_Nil] store_1_def Let_def cong: and_then_lazy del: set_map image_iff)

lemma store_1_fields:
  "cs_lineage_id store_1 = sample_uuid 0 0" "cs_operator_principal_id store_1 = sample_uuid 0 1"
  "cs_watermark store_1 = 1000" "cs_last_sequence store_1 = 2" "cs_allocated store_1 = 2"
  "map ct_transaction_id (cs_transactions store_1) = map ct_transaction_id (cs_transactions store_0) @
      [sample_uuid 1 9]"
  "map ct_sequence (cs_transactions store_1) = map ct_sequence (cs_transactions store_0) @ [2]"
  "cs_subjects store_1 = cs_subjects store_0 @ [(''core-snapshot'', sample_uuid 1 8)]"
  "map receipt_key (cs_receipts store_1) = map receipt_key (cs_receipts store_0) @ [(''core.activate-snapshot'',
      activation_key sample_activation)]"
  "map oc_record_id (cs_occurrences store_1) = map oc_record_id (cs_occurrences store_0) @ [sample_uuid 1 0,
      sample_uuid 1 1, sample_uuid 1 2]"
  "map oc_kind (cs_occurrences store_1) = map oc_kind (cs_occurrences store_0) @ [''core.snapshot-definition'',
      ''core.snapshot-active'', ''core.snapshot-activated'']"
  "map place (cs_occurrences store_1) = map place (cs_occurrences store_0) @ [(2, 0), (2, 1), (2, 2)]"
  "cs_snapshots store_1 = [snapshot_1]" "cs_active store_1 = Some active_1"
  by (simp_all add: store_1_def written_fields ledger_entries command_1_def at_0 admit_simps
      activation_occurrences_def active_fact_occurrence_def  make_active_def snapshot_1_def active_1_def
      result_of_def kind_defs)

lemmas at_1 = at_0 store_1_fields

lemma store_1_ok: "control_reachable sample_world store_1" "ledger_ok store_1"
  using control_step [OF store_0_ok(1) run_1] ledger_reachable by blast+

lemma store_1_grows: "cs_occurrences store_1 = cs_occurrences store_0 @ placed (cm_occurrences command_1) 2"
  by (simp add: store_1_def written_fields at_0 make_active_def)

lemma reads_1: "reads store_1 [] \<lparr>sr_authority = [], sr_identity = [], sr_surfaces = [], sr_enrollment =
    [], sr_holds = []\<rparr>"
  using reads_grow [OF reads_0 store_1_ok(2) store_1_grows, where cs = "[]" and as = "[]" and gs = "[]" and ps =
      "[]" and es = "[]" and hs = "[]"]
  by (simp add: news_simps command_1_def activation_occurrences_def active_fact_occurrence_def)

subsection \<open>The source is checked\<close>

definition check_2 :: eligible_payload where "check_2 = eligible_payload_of (sample_env 2) sample_eligible
    snapshot_1"
lemma check_2_fields: "el_check_id check_2 = sample_uuid 2 15" "el_checked_at check_2 = 2000" "el_commit_id
    check_2 = object_c"
  by (simp_all add: check_2_def eligible_payload_of_def Let_def sample_facts input_fields)

lemma check_2_ok: "is_eligible_payload check_2"
  by (simp add: check_2_def is_eligible_payload_def eligible_payload_of_def sample_facts input_fields
      snapshot_1_fields Let_def)
definition seen_2 :: source_check where
  "seen_2 = \<lparr>ck_check_id = sample_uuid 2 15, ck_outcome = ''eligible'', ck_checked_at = 2000,
      ck_commit_id = Some object_c,
     ck_sequence = 3, ck_validated = True\<rparr>"
definition command_2 :: command where
  "command_2 = kernel_command (sample_env 2) ''core.record-source-check-eligible'' (eligible_key
      sample_eligible) (sample_digest (eligible_json sample_eligible)) None (eligible_occurrences (sample_env 2)
      store_1 check_2) (EligiblePayload check_2) (sample_uuid 2 1)"
definition store_2 :: control_store where
  "store_2 = written command_2 store_1"

lemma write_2: "write_command command_2 store_1 = Inr (result_of command_2 3, written command_2 store_1)"
  using write_command_ok [of command_2 store_1]
  by (simp add: admit_simps at_1 command_2_def eligible_occurrences_def check_2_fields del: set_map image_iff)

lemma run_2: "run_control sample_world (sample_env 2) (SourceEligible sample_eligible) store_1 = Inr (result_of
    command_2 3, store_2)"
  by (simp add: record_source_check_eligible_def active_core_snapshot_def snapshot_1_fields active_1_fields
      check_2_def [symmetric] check_2_ok run_simps at_1 receipt_key_def write_2 command_2_def [symmetric,
      unfolded One_nat_def append_Cons append_Nil] store_2_def Let_def cong: and_then_lazy del: set_map
      image_iff)

lemma store_2_fields:
  "cs_lineage_id store_2 = sample_uuid 0 0" "cs_operator_principal_id store_2 = sample_uuid 0 1"
  "cs_watermark store_2 = 2000" "cs_last_sequence store_2 = 3" "cs_allocated store_2 = 3"
  "map ct_transaction_id (cs_transactions store_2) = map ct_transaction_id (cs_transactions store_1) @
      [sample_uuid 2 9]"
  "map ct_sequence (cs_transactions store_2) = map ct_sequence (cs_transactions store_1) @ [3]"
  "cs_subjects store_2 = cs_subjects store_1"
  "map receipt_key (cs_receipts store_2) = map receipt_key (cs_receipts store_1) @
      [(''core.record-source-check-eligible'', eligible_key sample_eligible)]"
  "map oc_record_id (cs_occurrences store_2) = map oc_record_id (cs_occurrences store_1) @ [sample_uuid 2 0,
      sample_uuid 2 1]"
  "map oc_kind (cs_occurrences store_2) = map oc_kind (cs_occurrences store_1) @
      [''core.source-check-eligible-observation'', ''core.source-check-eligible'']"
  "map place (cs_occurrences store_2) = map place (cs_occurrences store_1) @ [(3, 0), (3, 1)]"
  "cs_snapshots store_2 = [snapshot_1]" "cs_active store_2 = Some active_1"
  by (simp_all add: store_2_def written_fields ledger_entries command_2_def at_1 admit_simps
      eligible_occurrences_def check_2_fields  make_active_def snapshot_1_def active_1_def result_of_def
      kind_defs)

lemmas at_2 = at_1 store_2_fields

lemma store_2_ok: "control_reachable sample_world store_2" "ledger_ok store_2"
  using control_step [OF store_1_ok(1) run_2] ledger_reachable by blast+

lemma store_2_grows: "cs_occurrences store_2 = cs_occurrences store_1 @ placed (cm_occurrences command_2) 3"
  by (simp add: store_2_def written_fields at_1 make_active_def)

lemma reads_2: "reads store_2 [seen_2] \<lparr>sr_authority = [], sr_identity = [], sr_surfaces = [],
    sr_enrollment = [], sr_holds = []\<rparr>"
  using reads_grow [OF reads_1 store_2_ok(2) store_2_grows, where cs = "[[seen_2]]" and as = "[]" and gs = "[]"
      and ps = "[]" and es = "[]" and hs = "[]"]
  by (simp add: news_simps command_2_def eligible_occurrences_def check_2_fields source_check_of_def
      contract_of_def check_2_ok check_2_fields seen_2_def)

subsection \<open>Authority from Core\<close>

lemma ready:
  assumes "reads s [seen_2] rows" "active_core_snapshot s = Some (snapshot_1, active_1)" "cs_watermark s \<le>
      t" "t < 2000 + one_day"
  shows "core_admission_readiness s t = Inr \<lparr>ar_reason = ''ready'', ar_evaluated_at = t, ar_sequence =
      cs_last_sequence s,
    ar_active_snapshot_id = Some (sample_uuid 1 8), ar_active_source_commit_id = Some object_c,
    ar_latest_check_id = Some (sample_uuid 2 15), ar_latest_check_outcome = Some ''eligible'',
        ar_latest_checked_at = Some 2000,
    ar_last_validated_at = Some 2000, ar_stale_at = Some (2000 + one_day), ar_override_decision_id = None,
    ar_override_expires_at = None, ar_degraded = False\<rparr>"
  using assms by (simp add: reads_def core_admission_readiness_def readiness_without_override_def
      readiness_reason_def
    substantive_reason_def seen_2_def snapshot_1_fields Let_def)

lemma active_core: "cs_active s = Some active_1 \<Longrightarrow> cs_snapshots s = [snapshot_1]
    \<Longrightarrow> active_core_snapshot s = Some (snapshot_1, active_1)"
  by (simp add: active_core_snapshot_def active_1_fields snapshot_1_fields)

lemma ready_positive: "n < 100000 \<Longrightarrow> n < 2000 + one_day" by (simp add: one_day_def)

definition authority_3 :: authority_payload where
  "authority_3 = authority_payload_of (sample_env 3) sample_authority_input snapshot_1 sample_repository"

lemma authority_3_fields: "ra_repository_id authority_3 = ''github.com:7''" "ra_core_snapshot_id authority_3 =
    sample_uuid 1 8"
  "ra_core_authorization_record_id authority_3 = sample_uuid 3 1" "ra_owner authority_3 = ''frostyard''"
  "ra_name authority_3 = ''snosi''" "ra_fleet_state authority_3 = ''enabled''" "ra_maintenance_programs
      authority_3 = [''ci'']"
  "ra_action_ceiling authority_3 = [''read'']" "ra_surface_contract_version authority_3 = 1" 
  "ra_declaration_digest authority_3 = digest_a"
  "ra_accountable_owners authority_3 = [GithubUser ''bjk'']"
  by (simp_all add: authority_3_def authority_payload_of_def sample_facts input_fields snapshot_1_fields)

lemma authority_3_ok: "is_authority_payload authority_3"
  by (simp add: authority_3_def is_authority_payload_def authority_payload_of_def sample_facts input_fields
      snapshot_1_fields Let_def fleet_states_def)
definition command_3 :: command where
  "command_3 = kernel_command (sample_env 3) ''repository.materialize-core-authority'' (authority_key
      sample_authority_input) (sample_digest (authority_json sample_authority_input)) (Some
      (''github-repository'', ''github.com:7'')) (authority_occurrences (sample_env 3) authority_3)
      (AuthorityPayload authority_3) (sample_uuid 3 2)"
definition store_3 :: control_store where
  "store_3 = written command_3 store_2"

lemma write_3: "write_command command_3 store_2 = Inr (result_of command_3 4, written command_3 store_2)"
  using write_command_ok [of command_3 store_2]
  by (simp add: admit_simps at_2 command_3_def authority_occurrences_def authority_3_fields del: set_map
      image_iff)

lemma run_3: "run_control sample_world (sample_env 3) (MaterializeAuthority sample_authority_input) store_2 =
    Inr (result_of command_3 4, store_3)"
  by (simp add: materialize_core_authority_def active_core snapshot_1_fields ready [OF reads_2]
      readiness_ready_def ready_positive authority_3_def [symmetric] authority_3_ok run_simps at_2
      receipt_key_def write_3 command_3_def [symmetric, unfolded One_nat_def append_Cons append_Nil] store_3_def
      Let_def cong: and_then_lazy del: set_map image_iff)

lemma store_3_fields:
  "cs_lineage_id store_3 = sample_uuid 0 0" "cs_operator_principal_id store_3 = sample_uuid 0 1"
  "cs_watermark store_3 = 3000" "cs_last_sequence store_3 = 4" "cs_allocated store_3 = 4"
  "map ct_transaction_id (cs_transactions store_3) = map ct_transaction_id (cs_transactions store_2) @
      [sample_uuid 3 9]"
  "map ct_sequence (cs_transactions store_3) = map ct_sequence (cs_transactions store_2) @ [4]"
  "cs_subjects store_3 = cs_subjects store_2 @ [(''github-repository'', ''github.com:7'')]"
  "map receipt_key (cs_receipts store_3) = map receipt_key (cs_receipts store_2) @
      [(''repository.materialize-core-authority'', authority_key sample_authority_input)]"
  "map oc_record_id (cs_occurrences store_3) = map oc_record_id (cs_occurrences store_2) @ [sample_uuid 3 0,
      sample_uuid 3 1, sample_uuid 3 2]"
  "map oc_kind (cs_occurrences store_3) = map oc_kind (cs_occurrences store_2) @
      [''repository.declaration-definition'', ''repository.core-authorized'',
      ''repository.core-authority-reconciled'']"
  "map place (cs_occurrences store_3) = map place (cs_occurrences store_2) @ [(4, 0), (4, 1), (4, 2)]"
  "cs_snapshots store_3 = [snapshot_1]" "cs_active store_3 = Some active_1"
  by (simp_all add: store_3_def written_fields ledger_entries command_3_def at_2 admit_simps
      authority_occurrences_def authority_3_fields  make_active_def snapshot_1_def active_1_def result_of_def
      kind_defs)

lemmas at_3 = at_2 store_3_fields

lemma store_3_ok: "control_reachable sample_world store_3" "ledger_ok store_3"
  using control_step [OF store_2_ok(1) run_3] ledger_reachable by blast+

lemma store_3_grows: "cs_occurrences store_3 = cs_occurrences store_2 @ placed (cm_occurrences command_3) 4"
  by (simp add: store_3_def written_fields at_2 make_active_def)

lemma reads_3: "reads store_3 [seen_2] \<lparr>sr_authority = [(sample_uuid 3 1, authority_3)], sr_identity =
    [], sr_surfaces = [], sr_enrollment = [], sr_holds = []\<rparr>"
  using reads_grow [OF reads_2 store_3_ok(2) store_3_grows, where cs = "[]" and as = "[(sample_uuid 3 1,
      authority_3)]" and gs = "[]" and ps = "[]" and es = "[]" and hs = "[]"]
  by (simp add: news_simps command_3_def authority_occurrences_def authority_3_fields contract_of_def
      authority_3_ok authority_3_fields sample_facts)

subsection \<open>Identity at GitHub\<close>

definition response_4 :: string where
  "response_4 = sample_digest (inspection_json (InspectionFound sample_found))"

definition identity_4 :: identity_payload where
  "identity_4 = identity_payload_of (sample_env 4) sample_identity_input authority_3 response_4"

lemma classify_4: "classify_inspection authority_3 (InspectionFound sample_found) = ''matched''"
  by (simp add: classify_inspection_def authority_3_fields input_fields github_repository_prefix_def) code_simp

lemma identity_4_fields: "gi_repository_id identity_4 = ''github.com:7''" "gi_core_snapshot_id identity_4 =
    sample_uuid 1 8"
  "gi_core_authorization_record_id identity_4 = sample_uuid 3 1" "gi_result identity_4 = ''matched''"
  "gi_reconciliation_record_id identity_4 = sample_uuid 4 1" "gi_response_digest identity_4 = response_4"
  "gi_observed_default_branch identity_4 = Some ''main''"
  by (simp_all add: identity_4_def identity_payload_of_def sample_facts input_fields authority_3_fields
      classify_4 Let_def)
lemma identity_texts: "''enabled'' \<in> set fleet_states" "''matched'' \<in> set identity_results" "to_lower
    ''Frostyard'' = ''frostyard''"
  "to_lower ''frostyard'' = ''frostyard''" "to_lower ''snosi'' = ''snosi''" by code_simp+
lemma identity_4_ok: "is_identity_payload identity_4"
  by (simp add: identity_4_def is_identity_payload_def identity_payload_of_def classify_4 sample_facts
      input_fields authority_3_fields
     response_4_def Let_def github_repository_prefix_def identity_texts expected_identity_result_def)
lemma inspection_4: "normalize_inspection (InspectionFound sample_found) = Inr ()"
  by (simp add: normalize_inspection_def input_fields sample_facts)

definition command_4 :: command where
  "command_4 = kernel_command (sample_env 4) ''repository.record-github-identity'' (''repo-gh:'' @ sample_uuid 3
      1 @ '':initial:'' @ digest_hex response_4) (sample_digest (JObject [(''coreAuthorizationRecordId'',
      JString (sample_uuid 3 1)), (''predecessorReconciliationRecordId'', JNull), (''inspection'',
      inspection_json (InspectionFound sample_found))])) None (identity_occurrences (sample_env 4) identity_4)
      (IdentityPayload identity_4) (sample_uuid 4 2)"
definition store_4 :: control_store where
  "store_4 = written command_4 store_3"

lemma write_4: "write_command command_4 store_3 = Inr (result_of command_4 5, written command_4 store_3)"
  using write_command_ok [of command_4 store_3]
  by (simp add: admit_simps at_3 command_4_def identity_occurrences_def identity_4_fields del: set_map
      image_iff)

lemma run_4: "run_control sample_world (sample_env 4) (RecordIdentity sample_identity_input) store_3 = Inr
    (result_of command_4 5, store_4)"
  by (simp add: record_github_identity_def active_core snapshot_1_fields reads_required [OF reads_3]
      authority_3_fields inspection_4 kind_absent(1) unchanged_answer_def predecessor_name_def text_json_def
      identity_kind_def response_4_def [symmetric] identity_4_def [symmetric] identity_4_ok run_simps at_3
      receipt_key_def write_4 command_4_def [symmetric, unfolded One_nat_def append_Cons append_Nil] store_4_def
      Let_def cong: and_then_lazy del: set_map image_iff)

lemma store_4_fields:
  "cs_lineage_id store_4 = sample_uuid 0 0" "cs_operator_principal_id store_4 = sample_uuid 0 1"
  "cs_watermark store_4 = 4000" "cs_last_sequence store_4 = 5" "cs_allocated store_4 = 5"
  "map ct_transaction_id (cs_transactions store_4) = map ct_transaction_id (cs_transactions store_3) @
      [sample_uuid 4 9]"
  "map ct_sequence (cs_transactions store_4) = map ct_sequence (cs_transactions store_3) @ [5]"
  "cs_subjects store_4 = cs_subjects store_3"
  "map receipt_key (cs_receipts store_4) = map receipt_key (cs_receipts store_3) @
      [(''repository.record-github-identity'', ''repo-gh:'' @ sample_uuid 3 1 @ '':initial:'' @ digest_hex
      response_4)]"
  "map oc_record_id (cs_occurrences store_4) = map oc_record_id (cs_occurrences store_3) @ [sample_uuid 4 0,
      sample_uuid 4 1, sample_uuid 4 2]"
  "map oc_kind (cs_occurrences store_4) = map oc_kind (cs_occurrences store_3) @
      [''repository.github-identity-observation'', ''repository.github-identity-reconciled'',
      ''repository.github-identity-reconciliation-recorded'']"
  "map place (cs_occurrences store_4) = map place (cs_occurrences store_3) @ [(5, 0), (5, 1), (5, 2)]"
  "cs_snapshots store_4 = [snapshot_1]" "cs_active store_4 = Some active_1"
  by (simp_all add: store_4_def written_fields ledger_entries command_4_def at_3 admit_simps
      identity_occurrences_def identity_4_fields  make_active_def snapshot_1_def active_1_def result_of_def
      kind_defs)

lemmas at_4 = at_3 store_4_fields

lemma store_4_ok: "control_reachable sample_world store_4" "ledger_ok store_4"
  using control_step [OF store_3_ok(1) run_4] ledger_reachable by blast+

lemma store_4_grows: "cs_occurrences store_4 = cs_occurrences store_3 @ placed (cm_occurrences command_4) 5"
  by (simp add: store_4_def written_fields at_3 make_active_def)

lemma reads_4: "reads store_4 [seen_2] \<lparr>sr_authority = [(sample_uuid 3 1, authority_3)], sr_identity =
    [(sample_uuid 4 1, identity_4)], sr_surfaces = [], sr_enrollment = [], sr_holds = []\<rparr>"
  using reads_grow [OF reads_3 store_4_ok(2) store_4_grows, where cs = "[]" and as = "[]" and gs =
      "[(sample_uuid 4 1, identity_4)]" and ps = "[]" and es = "[]" and hs = "[]"]
  by (simp add: news_simps command_4_def identity_occurrences_def identity_4_fields contract_of_def
      identity_4_ok identity_4_fields sample_facts)

subsection \<open>Canonical surfaces\<close>

definition evaluation_5 :: surface_evaluation where
  "evaluation_5 =
     \<lparr>sv_default_branch = Some ''main'', sv_repository_commit_id = Some object_c, sv_repository_tree_id =
        Some object_c,
      sv_surfaces = map (\<lambda>d. \<lparr>su_surface_id = sd_id d, su_path = sd_path d, su_artifact_type =
        sd_artifact_type d,
        su_object_id = object_c, su_content_digest = digest_b,
        su_size = (if sd_artifact_type d = ''file'' then JInt 1 else JInt 0)\<rparr>) sample_surfaces,
      sv_governance_policy = Some (JObject []), sv_result = ''valid'', sv_failed_surface_id = None\<rparr>"
definition hashes_5 :: surface_hashes where "hashes_5 = sw_hashes (cw_surfaces sample_world)"
lemma hashes_5_fields: "sh_sha1 hashes_5 x = object_c" "sh_sha256 hashes_5 x = replicate 64 CHR ''b''"
  "sh_locale_sort hashes_5 es = es" "sh_governance hashes_5 x = Some (JObject [])"
  by (simp_all add: hashes_5_def sample_world_def)

lemma contracts_5: "sample_surfaces =
    [\<lparr>sd_id = ''agent-instructions'', sd_path = ''AGENTS.md'', sd_artifact_type = ''file''\<rparr>,
     \<lparr>sd_id = ''agent-governance'', sd_path = ''policies/agent-governance.json'', sd_artifact_type =
        ''file''\<rparr>,
     \<lparr>sd_id = ''agent-skills'', sd_path = ''.agents/skills'', sd_artifact_type = ''directory''\<rparr>,
     \<lparr>sd_id = ''documentation-index'', sd_path = ''docs/README.md'', sd_artifact_type =
        ''file''\<rparr>]"
  by (simp add: sample_surfaces_def surface_contracts_def)

lemma modes_5: "''100644'' \<in> set tree_modes" "''040000'' \<in> set tree_modes" "''blob'' \<in> set
    object_types" "''tree'' \<in> set object_types"
  by code_simp+

lemma probe_5: "normalize_surface_probe hashes_5 sample_probe = Inr sample_probe"
  by (simp add: normalize_surface_probe_def sample_probe_def contracts_5 normalize_probe_entry_def
      normalize_tree_entries_def
    hashes_5_fields modes_5 sample_facts)
lemma evaluate_5: "evaluate_surface_probe hashes_5 sample_probe ''main'' sample_surfaces = Inr evaluation_5"
  by (simp add: evaluate_surface_probe_def sample_probe_def contracts_5 wrong_type_def summary_of_def
      git_blob_object_id_def
    git_tree_object_id_def surface_tree_digest_def hashes_5_fields evaluation_5_def digest_b_def Let_def)
definition contract_5 :: surface_contract where
  "contract_5 = \<lparr>sc_surfaces = sample_surfaces, sc_contract_digest = digest_a,
      sc_governance_schema_digest = digest_a\<rparr>"
lemma world_5: "sw_contract (cw_surfaces sample_world) c = Some contract_5" "sw_probe_json (cw_surfaces
    sample_world) q = JNull"
  "sample_digest JNull = digest_a" "sc_surfaces contract_5 = sample_surfaces"
  by (simp_all add: sample_world_def contract_5_def sample_digest_def)

definition surfaces_5 :: surfaces_payload where
  "surfaces_5 = surfaces_payload_of (sample_env 5) sample_surfaces_input authority_3 identity_4 contract_5
      evaluation_5 digest_a"
lemma surfaces_5_fields: "sp_repository_id surfaces_5 = ''github.com:7''" "sp_core_snapshot_id surfaces_5 =
    sample_uuid 1 8"
  "sp_core_authorization_record_id surfaces_5 = sample_uuid 3 1" "sp_github_reconciliation_record_id surfaces_5
      = sample_uuid 4 1"
  "sp_policy_decision_record_id surfaces_5 = sample_uuid 5 1"
  "sp_reconciliation_record_id surfaces_5 = sample_uuid 5 2" "sp_default_branch surfaces_5 = Some ''main''"
  "sp_repository_commit_id surfaces_5 = Some object_c" "sp_result surfaces_5 = ''valid''" "sp_decision
      surfaces_5 = ''permit''"
  "sp_surface_contract_version surfaces_5 = 1" "sp_probe_digest surfaces_5 = digest_a"
  "sp_governance_policy surfaces_5 = Some (JObject [])"
  by (simp_all add: surfaces_5_def surfaces_payload_of_def sample_facts input_fields authority_3_fields
      identity_4_fields evaluation_5_def)
lemma surfaces_5_ok: "is_surfaces_payload surfaces_5"
  by (simp add: surfaces_5_def is_surfaces_payload_def surfaces_payload_of_def surfaces_verdict_def
      evaluation_5_def contracts_5
    contract_5_def requirement_results_def sample_facts input_fields authority_3_fields identity_4_fields
    is_surface_summary_def is_requirement_result_def surface_contracts_def surface_ids_def requirement_id_of_def
    surface_results_def is_non_negative_integer_def digest_at_def Let_def upt_rec max_safe_integer_def
        every_indexed_def given_valid_def)
lemma current_5:
  "map_option oc_record_id (List.find (\<lambda>oc. refers_authority (oc_payload oc) = Some (sample_uuid 3 (Suc
      0)))
     (records_of identity_kind ''fact'' store_4)) = Some (sample_uuid 4 (Suc 0))"
  using records_grow(1) [OF store_3_ok(2) store_4_ok(2) store_4_grows, of identity_kind "''fact''"]
    kind_absent(2) [of identity_kind store_3 "''fact''"]
  by (simp add: at_4 kind_defs command_4_def command_fields identity_occurrences_def placed_few Let_def
      occurrence_defs
    identity_4_fields refers_authority_def sample_facts del: set_map image_iff)

definition command_5 :: command where
  "command_5 = kernel_command (sample_env 5) ''repository.record-canonical-surfaces'' (''repo-surfaces:'' @
      sample_uuid 4 1 @ '':initial:'' @ digest_hex digest_a) (sample_digest (JObject
      [(''githubReconciliationRecordId'', JString (sample_uuid 4 1)), (''predecessorReconciliationRecordId'',
      JNull), (''probeDigest'', JString digest_a)])) None (surfaces_occurrences (sample_env 5) surfaces_5)
      (SurfacesPayload surfaces_5) (sample_uuid 5 3)"
definition store_5 :: control_store where
  "store_5 = written command_5 store_4"

lemma write_5: "write_command command_5 store_4 = Inr (result_of command_5 6, written command_5 store_4)"
  using write_command_ok [of command_5 store_4]
  by (simp add: admit_simps at_4 command_5_def surfaces_occurrences_def surfaces_5_fields del: set_map
      image_iff)

lemma run_5: "run_control sample_world (sample_env 5) (RecordSurfaces sample_surfaces_input) store_4 = Inr
    (result_of command_5 6, store_5)"
  by (simp add: record_canonical_surfaces_def record_surfaces_of_def write_surfaces_def hashes_5_def [symmetric]
      probe_5 evaluate_5 world_5 current_5 active_core snapshot_1_fields reads_required [OF reads_4]
      authority_3_fields identity_4_fields kind_absent(1) unchanged_answer_def predecessor_name_def
      text_json_def surfaces_kind_def surfaces_5_def [symmetric] surfaces_5_ok run_simps at_4 receipt_key_def
      write_5 command_5_def [symmetric, unfolded One_nat_def append_Cons append_Nil] store_5_def Let_def cong:
      and_then_lazy del: set_map image_iff)

lemma store_5_fields:
  "cs_lineage_id store_5 = sample_uuid 0 0" "cs_operator_principal_id store_5 = sample_uuid 0 1"
  "cs_watermark store_5 = 5000" "cs_last_sequence store_5 = 6" "cs_allocated store_5 = 6"
  "map ct_transaction_id (cs_transactions store_5) = map ct_transaction_id (cs_transactions store_4) @
      [sample_uuid 5 9]"
  "map ct_sequence (cs_transactions store_5) = map ct_sequence (cs_transactions store_4) @ [6]"
  "cs_subjects store_5 = cs_subjects store_4"
  "map receipt_key (cs_receipts store_5) = map receipt_key (cs_receipts store_4) @
      [(''repository.record-canonical-surfaces'', ''repo-surfaces:'' @ sample_uuid 4 1 @ '':initial:'' @
      digest_hex digest_a)]"
  "map oc_record_id (cs_occurrences store_5) = map oc_record_id (cs_occurrences store_4) @ [sample_uuid 5 0,
      sample_uuid 5 1, sample_uuid 5 2, sample_uuid 5 3]"
  "map oc_kind (cs_occurrences store_5) = map oc_kind (cs_occurrences store_4) @
      [''repository.canonical-surface-observation'', ''repository.enrollment-checkpoint-policy-decision'',
      ''repository.canonical-surfaces-reconciled'', ''repository.canonical-surfaces-reconciliation-recorded'']"
  "map place (cs_occurrences store_5) = map place (cs_occurrences store_4) @ [(6, 0), (6, 1), (6, 2), (6, 3)]"
  "cs_snapshots store_5 = [snapshot_1]" "cs_active store_5 = Some active_1"
  by (simp_all add: store_5_def written_fields ledger_entries command_5_def at_4 admit_simps
      surfaces_occurrences_def surfaces_5_fields  make_active_def snapshot_1_def active_1_def result_of_def
      kind_defs)

lemmas at_5 = at_4 store_5_fields

lemma store_5_ok: "control_reachable sample_world store_5" "ledger_ok store_5"
  using control_step [OF store_4_ok(1) run_5] ledger_reachable by blast+

lemma store_5_grows: "cs_occurrences store_5 = cs_occurrences store_4 @ placed (cm_occurrences command_5) 6"
  by (simp add: store_5_def written_fields at_4 make_active_def)

lemma reads_5: "reads store_5 [seen_2] \<lparr>sr_authority = [(sample_uuid 3 1, authority_3)], sr_identity =
    [(sample_uuid 4 1, identity_4)], sr_surfaces = [(sample_uuid 5 2, surfaces_5)], sr_enrollment = [], sr_holds
    = []\<rparr>"
  using reads_grow [OF reads_4 store_5_ok(2) store_5_grows, where cs = "[]" and as = "[]" and gs = "[]" and ps =
      "[(sample_uuid 5 2, surfaces_5)]" and es = "[]" and hs = "[]"]
  by (simp add: news_simps command_5_def surfaces_occurrences_def surfaces_5_fields contract_of_def
      surfaces_5_ok surfaces_5_fields sample_facts)

subsection \<open>Enrollment\<close>

lemma status_reads:
  assumes "reads s checks rows" "active_core_snapshot s = Some (snapshot_1, active_1)"
    and "repository_status_of sample_digest (sample_uuid 1 8) rows sample_repository = Inr st"
    and "st_repository_id st = ''github.com:7''"
  shows "repository_status sample_digest s ''github.com:7'' = Inr (Some st)"
  using assms by (cases rows) (simp add: reads_def repository_status_def repository_statuses_def
      snapshot_1_fields)

definition status_5 :: repository_status where
  "status_5 = \<lparr>st_repository_id = ''github.com:7'', st_owner = ''frostyard'', st_name = ''snosi'',
     st_core_snapshot_id = sample_uuid 1 8, st_core_authorization_record_id = Some (sample_uuid 3 1),
     st_fleet_state = ''enabled'', st_maintenance_programs = [''ci''], st_action_ceiling = [''read''],
     st_accountable_owners = [GithubUser ''bjk''], st_github_reconciliation_record_id = Some (sample_uuid 4 1),
     st_github_result = Some ''matched'', st_github_default_branch = Some ''main'',
     st_surface_reconciliation_record_id = Some (sample_uuid 5 2),
     st_surface_policy_decision_record_id = Some (sample_uuid 5 1), st_surface_result = Some ''valid'',
     st_repository_commit_id = Some object_c, st_enrollment_record_id = None, st_authority_context_digest =
        None,
     st_operator_hold = None, st_effective_state = ''awaiting-enrollment'', st_governance_policy = Some (JObject
        [])\<rparr>"

lemma status_5: "repository_status sample_digest store_5 ''github.com:7'' = Inr (Some status_5)"
  by (rule status_reads [OF reads_5])
    (simp_all add: active_core at_5 repository_status_of_def status_5_def active_hold_def effective_state_def
        authority_3_fields
      identity_4_fields surfaces_5_fields sample_facts Let_def)

definition enrollment_6 :: enrollment_payload where
  "enrollment_6 = enrollment_payload_of (sample_env 6) sample_enrollment_input surfaces_5 object_c authority_3"

lemma enrollment_6_fields: "en_repository_id enrollment_6 = ''github.com:7''" "en_core_snapshot_id enrollment_6
    = sample_uuid 1 8"
  "en_core_authorization_record_id enrollment_6 = sample_uuid 3 1" "en_github_reconciliation_record_id
      enrollment_6 = sample_uuid 4 1"
  "en_surface_reconciliation_record_id enrollment_6 = sample_uuid 5 2" "en_surface_policy_decision_record_id
      enrollment_6 = sample_uuid 5 1"
  "en_repository_commit_id enrollment_6 = object_c" "en_surface_contract_version enrollment_6 = 1"
  "en_maintenance_programs enrollment_6 = [''ci'']" "en_action_ceiling enrollment_6 = [''read'']"
  by (simp_all add: enrollment_6_def enrollment_payload_of_def sample_facts input_fields authority_3_fields
      surfaces_5_fields)
lemma enrollment_6_ok: "is_enrollment_payload enrollment_6"
  by (simp add: enrollment_6_def is_enrollment_payload_def enrollment_payload_of_def sample_facts input_fields
      authority_3_fields
    surfaces_5_fields)
lemma enrollment_current_5: "enrollment_current sample_enrollment_input surfaces_5 (Some status_5)"
  by (simp add: enrollment_current_def status_5_def surfaces_5_fields input_fields)

definition command_6 :: command where
  "command_6 = kernel_command (sample_env 6) ''repository.establish-enrollment'' (enrollment_key
      sample_enrollment_input) (sample_digest (enrollment_json sample_enrollment_input)) None
      (enrollment_occurrences (sample_env 6) enrollment_6) (EnrollmentPayload enrollment_6) (sample_uuid 6 2)"
definition store_6 :: control_store where
  "store_6 = written command_6 store_5"

lemma write_6: "write_command command_6 store_5 = Inr (result_of command_6 7, written command_6 store_5)"
  using write_command_ok [of command_6 store_5]
  by (simp add: admit_simps at_5 command_6_def enrollment_occurrences_def enrollment_6_fields del: set_map
      image_iff)

lemma run_6: "run_control sample_world (sample_env 6) (EstablishEnrollment sample_enrollment_input) store_5 =
    Inr (result_of command_6 7, store_6)"
  by (simp add: establish_enrollment_def active_core ready [OF reads_5] readiness_ready_def ready_positive
      reads_required [OF reads_5] reads_retained [OF reads_5] surfaces_5_fields status_5 enrollment_current_5
      enrollment_6_def [symmetric] enrollment_6_ok run_simps at_5 receipt_key_def write_6 command_6_def
      [symmetric, unfolded One_nat_def append_Cons append_Nil] store_6_def Let_def cong: and_then_lazy del:
      set_map image_iff)

lemma store_6_fields:
  "cs_lineage_id store_6 = sample_uuid 0 0" "cs_operator_principal_id store_6 = sample_uuid 0 1"
  "cs_watermark store_6 = 6000" "cs_last_sequence store_6 = 7" "cs_allocated store_6 = 7"
  "map ct_transaction_id (cs_transactions store_6) = map ct_transaction_id (cs_transactions store_5) @
      [sample_uuid 6 9]"
  "map ct_sequence (cs_transactions store_6) = map ct_sequence (cs_transactions store_5) @ [7]"
  "cs_subjects store_6 = cs_subjects store_5"
  "map receipt_key (cs_receipts store_6) = map receipt_key (cs_receipts store_5) @
      [(''repository.establish-enrollment'', enrollment_key sample_enrollment_input)]"
  "map oc_record_id (cs_occurrences store_6) = map oc_record_id (cs_occurrences store_5) @ [sample_uuid 6 0,
      sample_uuid 6 1, sample_uuid 6 2]"
  "map oc_kind (cs_occurrences store_6) = map oc_kind (cs_occurrences store_5) @
      [''repository.controller-definition'', ''repository.enrolled'', ''repository.enrollment-established'']"
  "map place (cs_occurrences store_6) = map place (cs_occurrences store_5) @ [(7, 0), (7, 1), (7, 2)]"
  "cs_snapshots store_6 = [snapshot_1]" "cs_active store_6 = Some active_1"
  by (simp_all add: store_6_def written_fields ledger_entries command_6_def at_5 admit_simps
      enrollment_occurrences_def enrollment_6_fields  make_active_def snapshot_1_def active_1_def result_of_def
      kind_defs)

lemmas at_6 = at_5 store_6_fields

lemma store_6_ok: "control_reachable sample_world store_6" "ledger_ok store_6"
  using control_step [OF store_5_ok(1) run_6] ledger_reachable by blast+

lemma store_6_grows: "cs_occurrences store_6 = cs_occurrences store_5 @ placed (cm_occurrences command_6) 7"
  by (simp add: store_6_def written_fields at_5 make_active_def)

lemma reads_6: "reads store_6 [seen_2] \<lparr>sr_authority = [(sample_uuid 3 1, authority_3)], sr_identity =
    [(sample_uuid 4 1, identity_4)], sr_surfaces = [(sample_uuid 5 2, surfaces_5)], sr_enrollment =
    [(sample_uuid 6 1, enrollment_6)], sr_holds = []\<rparr>"
  using reads_grow [OF reads_5 store_6_ok(2) store_6_grows, where cs = "[]" and as = "[]" and gs = "[]" and ps =
      "[]" and es = "[(sample_uuid 6 1, enrollment_6)]" and hs = "[]"]
  by (simp add: news_simps command_6_def enrollment_occurrences_def enrollment_6_fields contract_of_def
      enrollment_6_ok enrollment_6_fields sample_facts)

lemma no_checkpoint: "checkpoint_kind \<notin> set (map oc_kind (cs_occurrences s)) \<Longrightarrow>
    latest_source_checkpoint r s = Inr None"
  by (simp add: latest_source_checkpoint_def kind_absent(3) first_contract_def)

subsection \<open>The first checkpoint\<close>

definition rows_6 :: status_rows where
  "rows_6 = \<lparr>sr_authority = [(sample_uuid 3 1, authority_3)], sr_identity = [(sample_uuid 4 1,
      identity_4)],
     sr_surfaces = [(sample_uuid 5 2, surfaces_5)], sr_enrollment = [(sample_uuid 6 1, enrollment_6)], sr_holds
        = []\<rparr>"

definition status_6 :: repository_status where
  "status_6 = status_5\<lparr>st_enrollment_record_id := Some (sample_uuid 6 1), st_authority_context_digest :=
      Some digest_a,
     st_effective_state := ''enrolled''\<rparr>"
lemma status_6_fields: "st_enrollment_record_id status_6 = Some (sample_uuid 6 1)"
  "st_core_authorization_record_id status_6 = Some (sample_uuid 3 1)" "st_operator_hold status_6 = None"
  "st_effective_state status_6 = ''enrolled''" "st_core_snapshot_id status_6 = sample_uuid 1 8"
  by (simp_all add: status_6_def status_5_def)

lemma context_6: "repository_authority_context_digest sample_digest authority_3 identity_4 surfaces_5
    enrollment_6 = Inr digest_a"
  by (simp add: repository_authority_context_digest_def coherent_context_def authority_3_fields
      identity_4_fields
    surfaces_5_fields enrollment_6_fields sample_digest_def enrollment_context_json_def)

lemma status_6:
  assumes "reads s [seen_2] rows_6" "active_core_snapshot s = Some (snapshot_1, active_1)"
  shows "repository_status sample_digest s ''github.com:7'' = Inr (Some status_6)"
  by (rule status_reads [OF assms])
    (simp_all add: rows_6_def repository_status_of_def status_6_def status_5_def active_hold_def
        effective_state_def
      authority_3_fields identity_4_fields surfaces_5_fields enrollment_6_fields context_6 sample_facts Let_def)

lemma coverage_write_ok:
  assumes "reads s [seen_2] rows_6" "active_core_snapshot s = Some (snapshot_1, active_1)" "cs_last_sequence s =
      n"
    "1 \<le> n" "n \<le> 20"
  shows "assert_coverage_write sample_digest (JInt n) ''github.com:7'' s = Inr ()"
  using assms status_6 [OF assms(1,2)] sequence_ok [OF assms(4,5)] by (simp add: assert_coverage_write_def
      status_6_fields)

lemma not_repaired: "repair_kind \<notin> set (map oc_kind (cs_occurrences s)) \<Longrightarrow> \<not>
    gap_repaired s i"
  by (auto simp: gap_repaired_def list_ex_iff image_iff)

lemma checkpoint_input_fields:
  "ki_expected_sequence (sample_checkpoint k a b) = JInt (int k)" "ki_run_id (sample_checkpoint k a b) =
      sample_uuid k 15"
  "ki_repository_id (sample_checkpoint k a b) = ''github.com:7''" "ki_app_id (sample_checkpoint k a b) = ''3''"
  "ki_installation_id (sample_checkpoint k a b) = ''github.com:installation:4''"
  "ki_covered_from (sample_checkpoint k a b) = a" "ki_covered_through (sample_checkpoint k a b) = b"
  "ki_page_count (sample_checkpoint k a b) = JInt 1" "ki_delivery_count (sample_checkpoint k a b) = JInt 0"
  "ki_page_proof_digest (sample_checkpoint k a b) = digest_a" "ki_selected_response_digest (sample_checkpoint k
      a b) = digest_a"
  by (simp_all add: sample_checkpoint_def)

lemma checkpoint_input_ok: "1 \<le> k \<Longrightarrow> k < 16 \<Longrightarrow> a \<le> b \<Longrightarrow>
    normalize_checkpoint_input (sample_checkpoint k a b) = Inr ()"
  by (simp add: normalize_checkpoint_input_def checkpoint_input_fields sequence_ok sample_facts
      max_safe_integer_def)

definition checkpoint_7 :: checkpoint_payload where
  "checkpoint_7 = checkpoint_payload_of (sample_env 7) (sample_checkpoint 7 5000 5000) None (sample_uuid 7 0)"

definition checkpoint_8 :: checkpoint_payload where
  "checkpoint_8 = checkpoint_payload_of (sample_env 8) (sample_checkpoint 8 5000 7000) (Some (sample_uuid 7 0))
      (sample_uuid 8 0)"
lemma checkpoint_fields: "cp_repository_id checkpoint_7 = ''github.com:7''" "cp_run_id checkpoint_7 =
    sample_uuid 7 15"
  "cp_previous_checkpoint_record_id checkpoint_7 = None" "cp_checkpoint_record_id checkpoint_7 = sample_uuid 7
      0"
  "cp_covered_from checkpoint_7 = 5000" "cp_covered_through checkpoint_7 = 5000" "cp_app_id checkpoint_7 =
      ''3''"
  "cp_installation_id checkpoint_7 = ''github.com:installation:4''"
  "cp_repository_id checkpoint_8 = ''github.com:7''" "cp_run_id checkpoint_8 = sample_uuid 8 15"
  "cp_previous_checkpoint_record_id checkpoint_8 = Some (sample_uuid 7 0)" "cp_checkpoint_record_id checkpoint_8
      = sample_uuid 8 0"
  "cp_covered_from checkpoint_8 = 5000" "cp_covered_through checkpoint_8 = 7000" "cp_app_id checkpoint_8 =
      ''3''"
  "cp_installation_id checkpoint_8 = ''github.com:installation:4''"
  by (simp_all add: checkpoint_7_def checkpoint_8_def checkpoint_payload_of_def checkpoint_input_fields)

lemma checkpoint_ok: "is_checkpoint_payload checkpoint_7" "is_checkpoint_payload checkpoint_8"
  by (simp_all add: checkpoint_7_def checkpoint_8_def is_checkpoint_payload_def checkpoint_payload_of_def
      checkpoint_input_fields
    sample_facts given_valid_def is_positive_integer_def is_non_negative_integer_def max_safe_integer_def)

lemma coverage_command_fields:
  "cm_transaction_id (coverage_command env kind key dg ds p ev) = ce_id env 9"
  "cm_kind (coverage_command env kind key dg ds p ev) = kind"
  "cm_key (coverage_command env kind key dg ds p ev) = key"
  "cm_at (coverage_command env kind key dg ds p ev) = ce_now env"
  "cm_new_subject (coverage_command env kind key dg ds p ev) = None"
  "cm_occurrences (coverage_command env kind key dg ds p ev) = ds"
  by (simp_all add: coverage_command_def)

lemma no_gap: "gap_kind \<notin> set (map oc_kind (cs_occurrences s)) \<Longrightarrow> find_open_source_gap r s
    = Inr None"
  by (simp add: find_open_source_gap_def kind_absent(3) first_contract_def)

lemmas coverage_simps = coverage_command_fields checkpoint_input_fields checkpoint_input_ok no_gap
  continues_checkpoint_def checked_coverage_time_def active_core

lemma reads_6r: "reads store_6 [seen_2] rows_6"
  using reads_6 by (simp add: rows_6_def)

definition command_7 :: command where
  "command_7 = coverage_command (sample_env 7) ''github.record-source-checkpoint'' (''github-checkpoint:'' @
      sample_uuid 7 15) (sample_digest (checkpoint_input_json decimal_text (sample_checkpoint 7 5000 5000)))
      (checkpoint_occurrences (sample_env 7) checkpoint_7) (CheckpointPayload checkpoint_7) (sample_uuid 7 1)"
definition store_7 :: control_store where
  "store_7 = written command_7 store_6"

lemma write_7: "write_command command_7 store_6 = Inr (result_of command_7 8, written command_7 store_6)"
  using write_command_ok [of command_7 store_6]
  by (simp add: admit_simps at_6 command_7_def checkpoint_occurrences_def checkpoint_fields
      coverage_command_fields checkpoint_key_def checkpoint_input_fields del: set_map image_iff)

lemma run_7: "run_control sample_world (sample_env 7) (RecordCheckpoint (sample_checkpoint 7 5000 5000)) store_6
    = Inr (result_of command_7 8, store_7)"
  by (simp add: record_source_checkpoint_def coverage_simps coverage_write_ok [OF reads_6r] kind_absent(3)
      kind_defs no_checkpoint checkpoint_7_def [symmetric, unfolded One_nat_def] checkpoint_key_def run_simps
      at_6 receipt_key_def write_7 command_7_def [symmetric, unfolded One_nat_def append_Cons append_Nil]
      store_7_def Let_def cong: and_then_lazy del: set_map image_iff)

lemma store_7_fields:
  "cs_lineage_id store_7 = sample_uuid 0 0" "cs_operator_principal_id store_7 = sample_uuid 0 1"
  "cs_watermark store_7 = 7000" "cs_last_sequence store_7 = 8" "cs_allocated store_7 = 8"
  "map ct_transaction_id (cs_transactions store_7) = map ct_transaction_id (cs_transactions store_6) @
      [sample_uuid 7 9]"
  "map ct_sequence (cs_transactions store_7) = map ct_sequence (cs_transactions store_6) @ [8]"
  "cs_subjects store_7 = cs_subjects store_6"
  "map receipt_key (cs_receipts store_7) = map receipt_key (cs_receipts store_6) @
      [(''github.record-source-checkpoint'', ''github-checkpoint:'' @ sample_uuid 7 15)]"
  "map oc_record_id (cs_occurrences store_7) = map oc_record_id (cs_occurrences store_6) @ [sample_uuid 7 0,
      sample_uuid 7 1]"
  "map oc_kind (cs_occurrences store_7) = map oc_kind (cs_occurrences store_6) @
      [''github.source-checkpoint-observation'', ''github.source-checkpoint-recorded'']"
  "map place (cs_occurrences store_7) = map place (cs_occurrences store_6) @ [(8, 0), (8, 1)]"
  "cs_snapshots store_7 = [snapshot_1]" "cs_active store_7 = Some active_1"
  by (simp_all add: store_7_def written_fields ledger_entries command_7_def at_6 admit_simps
      checkpoint_occurrences_def checkpoint_fields coverage_command_fields checkpoint_key_def
      checkpoint_input_fields  make_active_def snapshot_1_def active_1_def result_of_def kind_defs)

lemmas at_7 = at_6 store_7_fields

lemma store_7_ok: "control_reachable sample_world store_7" "ledger_ok store_7"
  using control_step [OF store_6_ok(1) run_7] ledger_reachable by blast+

lemma store_7_grows: "cs_occurrences store_7 = cs_occurrences store_6 @ placed (cm_occurrences command_7) 8"
  by (simp add: store_7_def written_fields at_6 make_active_def)

lemma reads_7r: "reads store_7 [seen_2] rows_6"
  using reads_grow [OF reads_6r store_7_ok(2) store_7_grows, where cs = "[]" and as = "[]" and gs = "[]" and ps
      = "[]" and es = "[]" and hs = "[]"]
  by (simp add: news_simps kind_defs command_7_def checkpoint_occurrences_def checkpoint_fields
      coverage_command_fields checkpoint_key_def checkpoint_input_fields rows_6_def)

lemma newest_7: "latest_source_checkpoint ''github.com:7'' store_7 = Inr (Some checkpoint_7)"
  using records_grow(3) [OF store_6_ok(2) store_7_ok(2) store_7_grows, of checkpoint_kind "''github.com:7''"]
  by (simp add: latest_source_checkpoint_def kind_defs command_7_def coverage_command_fields
      checkpoint_occurrences_def placed_few Let_def
    coverage_occurrence_def checkpoint_fields sample_facts first_contract_def contract_of_def checkpoint_ok del:
        set_map image_iff)

subsection \<open>The next checkpoint\<close>

definition command_8 :: command where
  "command_8 = coverage_command (sample_env 8) ''github.record-source-checkpoint'' (''github-checkpoint:'' @
      sample_uuid 8 15) (sample_digest (checkpoint_input_json decimal_text (sample_checkpoint 8 5000 7000)))
      (checkpoint_occurrences (sample_env 8) checkpoint_8) (CheckpointPayload checkpoint_8) (sample_uuid 8 1)"
definition store_8 :: control_store where
  "store_8 = written command_8 store_7"

lemma write_8: "write_command command_8 store_7 = Inr (result_of command_8 9, written command_8 store_7)"
  using write_command_ok [of command_8 store_7]
  by (simp add: admit_simps at_7 command_8_def checkpoint_occurrences_def checkpoint_fields
      coverage_command_fields checkpoint_key_def checkpoint_input_fields del: set_map image_iff)

lemma run_8: "run_control sample_world (sample_env 8) (RecordCheckpoint (sample_checkpoint 8 5000 7000)) store_7
    = Inr (result_of command_8 9, store_8)"
  by (simp add: record_source_checkpoint_def coverage_simps coverage_write_ok [OF reads_7r] kind_absent(3)
      kind_defs newest_7 checkpoint_fields checkpoint_8_def [symmetric, unfolded One_nat_def] checkpoint_key_def
      run_simps at_7 receipt_key_def write_8 command_8_def [symmetric, unfolded One_nat_def append_Cons
      append_Nil] store_8_def Let_def cong: and_then_lazy del: set_map image_iff)

lemma store_8_fields:
  "cs_lineage_id store_8 = sample_uuid 0 0" "cs_operator_principal_id store_8 = sample_uuid 0 1"
  "cs_watermark store_8 = 8000" "cs_last_sequence store_8 = 9" "cs_allocated store_8 = 9"
  "map ct_transaction_id (cs_transactions store_8) = map ct_transaction_id (cs_transactions store_7) @
      [sample_uuid 8 9]"
  "map ct_sequence (cs_transactions store_8) = map ct_sequence (cs_transactions store_7) @ [9]"
  "cs_subjects store_8 = cs_subjects store_7"
  "map receipt_key (cs_receipts store_8) = map receipt_key (cs_receipts store_7) @
      [(''github.record-source-checkpoint'', ''github-checkpoint:'' @ sample_uuid 8 15)]"
  "map oc_record_id (cs_occurrences store_8) = map oc_record_id (cs_occurrences store_7) @ [sample_uuid 8 0,
      sample_uuid 8 1]"
  "map oc_kind (cs_occurrences store_8) = map oc_kind (cs_occurrences store_7) @
      [''github.source-checkpoint-observation'', ''github.source-checkpoint-recorded'']"
  "map place (cs_occurrences store_8) = map place (cs_occurrences store_7) @ [(9, 0), (9, 1)]"
  "cs_snapshots store_8 = [snapshot_1]" "cs_active store_8 = Some active_1"
  by (simp_all add: store_8_def written_fields ledger_entries command_8_def at_7 admit_simps
      checkpoint_occurrences_def checkpoint_fields coverage_command_fields checkpoint_key_def
      checkpoint_input_fields  make_active_def snapshot_1_def active_1_def result_of_def kind_defs)

lemmas at_8 = at_7 store_8_fields

lemma store_8_ok: "control_reachable sample_world store_8" "ledger_ok store_8"
  using control_step [OF store_7_ok(1) run_8] ledger_reachable by blast+

lemma store_8_grows: "cs_occurrences store_8 = cs_occurrences store_7 @ placed (cm_occurrences command_8) 9"
  by (simp add: store_8_def written_fields at_7 make_active_def)

lemma reads_8r: "reads store_8 [seen_2] rows_6"
  using reads_grow [OF reads_7r store_8_ok(2) store_8_grows, where cs = "[]" and as = "[]" and gs = "[]" and ps
      = "[]" and es = "[]" and hs = "[]"]
  by (simp add: news_simps kind_defs command_8_def checkpoint_occurrences_def checkpoint_fields
      coverage_command_fields checkpoint_key_def checkpoint_input_fields rows_6_def)

lemma newest_8: "latest_source_checkpoint ''github.com:7'' store_8 = Inr (Some checkpoint_8)"
  using records_grow(3) [OF store_7_ok(2) store_8_ok(2) store_8_grows, of checkpoint_kind "''github.com:7''"]
  by (simp add: latest_source_checkpoint_def kind_defs command_8_def coverage_command_fields
      checkpoint_occurrences_def placed_few Let_def
    coverage_occurrence_def checkpoint_fields sample_facts first_contract_def contract_of_def checkpoint_ok del:
        set_map image_iff)

subsection \<open>A gap\<close>

lemma gap_input_fields:
  "gx_expected_sequence sample_gap_input = JInt 9" "gx_run_id sample_gap_input = sample_uuid 9 15"
  "gx_repository_id sample_gap_input = ''github.com:7''" "gx_app_id sample_gap_input = ''3''"
  "gx_installation_id sample_gap_input = ''github.com:installation:4''" "gx_checkpoint_record_id
      sample_gap_input = sample_uuid 8 0"
  "gx_cause sample_gap_input = ''pagination-incomplete''" "gx_failure_kind sample_gap_input =
      ''interval-coverage''"
  "gx_affected_delivery_guids sample_gap_input = []"
  by (simp_all add: sample_gap_input_def)

lemma cause_9: "''pagination-incomplete'' \<in> set github_source_gap_causes"
  by code_simp

lemma gap_input_ok: "normalize_gap_input sample_gap_input = Inr ()"
  by (simp add: normalize_gap_input_def gap_input_fields sequence_ok sample_facts cause_9 canonical_guid_set_def
      gap_shape_def)

definition gap_9 :: gap_payload where "gap_9 = gap_payload_of (sample_env 9) sample_gap_input checkpoint_8"
lemma gap_9_fields: "ga_repository_id gap_9 = ''github.com:7''" "ga_run_id gap_9 = sample_uuid 9 15" "ga_app_id
    gap_9 = ''3''"
  "ga_installation_id gap_9 = ''github.com:installation:4''" "ga_checkpoint_record_id gap_9 = sample_uuid 8 0"
  "ga_gap_record_id gap_9 = sample_uuid 9 0" "ga_gap_id gap_9 = sample_uuid 9 0" "ga_lower_bound_at gap_9 =
      7000"
  "ga_failure_kind gap_9 = ''interval-coverage''"
  by (simp_all add: gap_9_def gap_payload_of_def gap_input_fields checkpoint_fields sample_facts)

lemma gap_9_ok: "is_gap_payload gap_9"
  by (simp add: gap_9_def is_gap_payload_def gap_payload_of_def gap_input_fields checkpoint_fields sample_facts
      cause_9
    gap_delivery_set_def canonical_string_array_def)

definition command_9 :: command where
  "command_9 = coverage_command (sample_env 9) ''github.open-source-gap'' (''github-gap:'' @ sample_uuid 9 15)
      (sample_digest (gap_input_json sample_gap_input)) (gap_occurrences (sample_env 9) gap_9) (GapPayload
      gap_9) (sample_uuid 9 1)"
definition store_9 :: control_store where
  "store_9 = written command_9 store_8"

lemma write_9: "write_command command_9 store_8 = Inr (result_of command_9 10, written command_9 store_8)"
  using write_command_ok [of command_9 store_8]
  by (simp add: admit_simps at_8 command_9_def gap_occurrences_def gap_9_fields coverage_command_fields
      gap_key_def gap_input_fields del: set_map image_iff)

lemma run_9: "run_control sample_world (sample_env 9) (OpenGap sample_gap_input) store_8 = Inr (result_of
    command_9 10, store_9)"
  by (simp add: open_source_gap_def coverage_simps gap_input_ok coverage_write_ok [OF reads_8r] kind_absent(3)
      kind_defs newest_8 checkpoint_fields gap_9_def [symmetric, unfolded One_nat_def] gap_key_def
      gap_input_fields run_simps at_8 receipt_key_def write_9 command_9_def [symmetric, unfolded One_nat_def
      append_Cons append_Nil] store_9_def Let_def cong: and_then_lazy del: set_map image_iff)

lemma store_9_fields:
  "cs_lineage_id store_9 = sample_uuid 0 0" "cs_operator_principal_id store_9 = sample_uuid 0 1"
  "cs_watermark store_9 = 9000" "cs_last_sequence store_9 = 10" "cs_allocated store_9 = 10"
  "map ct_transaction_id (cs_transactions store_9) = map ct_transaction_id (cs_transactions store_8) @
      [sample_uuid 9 9]"
  "map ct_sequence (cs_transactions store_9) = map ct_sequence (cs_transactions store_8) @ [10]"
  "cs_subjects store_9 = cs_subjects store_8"
  "map receipt_key (cs_receipts store_9) = map receipt_key (cs_receipts store_8) @ [(''github.open-source-gap'',
      ''github-gap:'' @ sample_uuid 9 15)]"
  "map oc_record_id (cs_occurrences store_9) = map oc_record_id (cs_occurrences store_8) @ [sample_uuid 9 0,
      sample_uuid 9 1]"
  "map oc_kind (cs_occurrences store_9) = map oc_kind (cs_occurrences store_8) @
      [''github.source-gap-observation'', ''github.source-gap-opened'']"
  "map place (cs_occurrences store_9) = map place (cs_occurrences store_8) @ [(10, 0), (10, 1)]"
  "cs_snapshots store_9 = [snapshot_1]" "cs_active store_9 = Some active_1"
  by (simp_all add: store_9_def written_fields ledger_entries command_9_def at_8 admit_simps gap_occurrences_def
      gap_9_fields coverage_command_fields gap_key_def gap_input_fields  make_active_def snapshot_1_def
      active_1_def result_of_def kind_defs)

lemmas at_9 = at_8 store_9_fields

lemma store_9_ok: "control_reachable sample_world store_9" "ledger_ok store_9"
  using control_step [OF store_8_ok(1) run_9] ledger_reachable by blast+

lemma store_9_grows: "cs_occurrences store_9 = cs_occurrences store_8 @ placed (cm_occurrences command_9) 10"
  by (simp add: store_9_def written_fields at_8 make_active_def)

lemma reads_9r: "reads store_9 [seen_2] rows_6"
  using reads_grow [OF reads_8r store_9_ok(2) store_9_grows, where cs = "[]" and as = "[]" and gs = "[]" and ps
      = "[]" and es = "[]" and hs = "[]"]
  by (simp add: news_simps kind_defs command_9_def gap_occurrences_def gap_9_fields coverage_command_fields
      gap_key_def gap_input_fields rows_6_def)

lemma open_9: "find_open_source_gap ''github.com:7'' store_9 = Inr (Some gap_9)"
  using records_grow(3) [OF store_8_ok(2) store_9_ok(2) store_9_grows, of gap_kind "''github.com:7''"]
    kind_absent(3) [of gap_kind store_8] not_repaired [of store_9]
  by (simp add: find_open_source_gap_def at_9 kind_defs command_9_def coverage_command_fields
      gap_occurrences_def placed_few Let_def
    coverage_occurrence_def gap_9_fields sample_facts first_contract_def contract_of_def gap_9_ok del: set_map
        image_iff)

subsection \<open>The repair\<close>

lemma repair_input_fields:
  "ri'_expected_sequence sample_repair_input = JInt 10" "ri'_run_id sample_repair_input = sample_uuid 10 15"
  "ri'_repository_id sample_repair_input = ''github.com:7''" "ri'_app_id sample_repair_input = ''3''"
  "ri'_installation_id sample_repair_input = ''github.com:installation:4''" "ri'_covered_through
      sample_repair_input = 9000"
  "ri'_page_count sample_repair_input = JInt 1" "ri'_delivery_count sample_repair_input = JInt 0"
  "ri'_page_proof_digest sample_repair_input = digest_a" "ri'_selected_response_digest sample_repair_input =
      digest_a"
  "ri'_gap_record_id sample_repair_input = sample_uuid 9 0" "ri'_repair_audit_record_ids sample_repair_input =
      []"
  by (simp_all add: sample_repair_input_def)

lemma repair_input_ok: "normalize_repair_input sample_repair_input = Inr ()"
  by (simp add: normalize_repair_input_def normalize_checkpoint_input_def point_checkpoint_def
      repair_input_fields sequence_ok
    sample_facts max_safe_integer_def)

definition checkpoint_10 :: checkpoint_payload where
  "checkpoint_10 = checkpoint_payload_of (sample_env 10) (covering_checkpoint sample_repair_input gap_9)
     (Some (sample_uuid 8 0)) (sample_uuid 10 0)"
definition repair_10 :: repair_payload where "repair_10 = repair_payload_of (sample_env 10) sample_repair_input
    gap_9"
lemma repair_10_fields: "rp_repository_id repair_10 = ''github.com:7''" "rp_run_id repair_10 = sample_uuid 10
    15"
  "rp_gap_record_id repair_10 = sample_uuid 9 0"
  "cp_covered_from checkpoint_10 = 7000" "cp_covered_through checkpoint_10 = 9000"
  "cp_repository_id checkpoint_10 = ''github.com:7''"
  by (simp_all add: repair_10_def repair_payload_of_def checkpoint_10_def checkpoint_payload_of_def
      covering_checkpoint_def
    point_checkpoint_def repair_input_fields gap_9_fields Let_def)

definition command_10 :: command where
  "command_10 = coverage_command (sample_env 10) ''github.repair-source-gap'' (''github-gap-repair:'' @
      sample_uuid 10 15) (sample_digest (repair_input_json decimal_text sample_repair_input))
      (repair_occurrences (sample_env 10) gap_9 checkpoint_10 repair_10) (RepairPayload repair_10) (sample_uuid
      10 2)"
definition store_10 :: control_store where
  "store_10 = written command_10 store_9"

lemma write_10: "write_command command_10 store_9 = Inr (result_of command_10 11, written command_10 store_9)"
  using write_command_ok [of command_10 store_9]
  by (simp add: admit_simps at_9 command_10_def repair_occurrences_def repair_10_fields gap_9_fields
      coverage_command_fields repair_key_def repair_input_fields del: set_map image_iff)

lemma run_10: "run_control sample_world (sample_env 10) (RepairGap sample_repair_input) store_9 = Inr (result_of
    command_10 11, store_10)"
  by (simp add: repair_source_gap_def coverage_simps repair_input_ok coverage_write_ok [OF reads_9r] open_9
      gap_9_fields checkpoint_10_def [symmetric, unfolded One_nat_def] repair_10_def [symmetric, unfolded
      One_nat_def] repair_key_def repair_input_fields run_simps at_9 receipt_key_def write_10 command_10_def
      [symmetric, unfolded One_nat_def append_Cons append_Nil] store_10_def Let_def cong: and_then_lazy del:
      set_map image_iff)

lemma store_10_fields:
  "cs_lineage_id store_10 = sample_uuid 0 0" "cs_operator_principal_id store_10 = sample_uuid 0 1"
  "cs_watermark store_10 = 10000" "cs_last_sequence store_10 = 11" "cs_allocated store_10 = 11"
  "map ct_transaction_id (cs_transactions store_10) = map ct_transaction_id (cs_transactions store_9) @
      [sample_uuid 10 9]"
  "map ct_sequence (cs_transactions store_10) = map ct_sequence (cs_transactions store_9) @ [11]"
  "cs_subjects store_10 = cs_subjects store_9"
  "map receipt_key (cs_receipts store_10) = map receipt_key (cs_receipts store_9) @
      [(''github.repair-source-gap'', ''github-gap-repair:'' @ sample_uuid 10 15)]"
  "map oc_record_id (cs_occurrences store_10) = map oc_record_id (cs_occurrences store_9) @ [sample_uuid 10 0,
      sample_uuid 10 1, sample_uuid 10 2]"
  "map oc_kind (cs_occurrences store_10) = map oc_kind (cs_occurrences store_9) @
      [''github.source-checkpoint-observation'', ''github.source-gap-repair-observation'',
      ''github.source-gap-repaired'']"
  "map place (cs_occurrences store_10) = map place (cs_occurrences store_9) @ [(11, 0), (11, 1), (11, 2)]"
  "cs_snapshots store_10 = [snapshot_1]" "cs_active store_10 = Some active_1"
  by (simp_all add: store_10_def written_fields ledger_entries command_10_def at_9 admit_simps
      repair_occurrences_def repair_10_fields gap_9_fields coverage_command_fields repair_key_def
      repair_input_fields  make_active_def snapshot_1_def active_1_def result_of_def kind_defs)

lemmas at_10 = at_9 store_10_fields

lemma store_10_ok: "control_reachable sample_world store_10" "ledger_ok store_10"
  using control_step [OF store_9_ok(1) run_10] ledger_reachable by blast+

lemma store_10_grows: "cs_occurrences store_10 = cs_occurrences store_9 @ placed (cm_occurrences command_10) 11"
  by (simp add: store_10_def written_fields at_9 make_active_def)

lemma reads_10r: "reads store_10 [seen_2] rows_6"
  using reads_grow [OF reads_9r store_10_ok(2) store_10_grows, where cs = "[]" and as = "[]" and gs = "[]" and
      ps = "[]" and es = "[]" and hs = "[]"]
  by (simp add: news_simps kind_defs command_10_def repair_occurrences_def repair_10_fields gap_9_fields
      coverage_command_fields repair_key_def repair_input_fields rows_6_def)

subsection \<open>The operator's hold\<close>

lemma hold_input_fields:
  "hi_expected_sequence (sample_hold_input n c) = JInt n" "hi_repository_id (sample_hold_input n c) =
      ''github.com:7''"
  "hi_reason (sample_hold_input n c) = ''reviewed''" "hi_clears (sample_hold_input n c) = c"
  by (simp_all add: sample_hold_input_def)

lemma reason_11: "assert_bounded_reason ''reviewed'' = Inr ()" "is_bounded_diagnostic ''reviewed''" "trim
    ''reviewed'' = ''reviewed''"
  "\<not> has_control ''reviewed''"
  by code_simp+

definition hold_11 :: hold_payload where
  "hold_11 = hold_payload_of (sample_env 11) store_10 (sample_hold_input 11 None) status_6 (sample_uuid 3 1)
      authority_3"
lemma hold_11_fields: "ho_repository_id hold_11 = ''github.com:7''" "ho_choice hold_11 = ''impose''"
  "ho_hold_decision_id hold_11 = sample_uuid 11 0" "ho_core_authorization_record_id hold_11 = sample_uuid 3 1"
  by (simp_all add: hold_11_def hold_payload_of_def hold_input_fields hold_choice_def sample_facts Let_def)

lemma hold_11_ok: "is_hold_payload hold_11"
  by (simp add: hold_11_def is_hold_payload_def hold_payload_of_def hold_input_fields hold_choice_def
      sample_facts Let_def
    status_6_fields authority_3_fields at_10 reason_11 given_valid_def is_positive_integer_def
        max_safe_integer_def)

definition command_11 :: command where
  "command_11 = operator_command (sample_env 11) store_10 ''repository.impose-operator-hold'' (hold_key
      (sample_hold_input 11 None)) (sample_digest (hold_json (sample_hold_input 11 None))) (hold_occurrences
      (sample_env 11) (sample_hold_input 11 None) hold_11) (HoldPayload hold_11) (sample_uuid 11 1)"
definition store_11 :: control_store where
  "store_11 = written command_11 store_10"

lemma write_11: "write_command command_11 store_10 = Inr (result_of command_11 12, written command_11 store_10)"
  using write_command_ok [of command_11 store_10]
  by (simp add: admit_simps at_10 command_11_def hold_occurrences_def hold_11_fields hold_input_fields del:
      set_map image_iff)

lemma run_11: "run_control sample_world (sample_env 11) (DecideHold (sample_hold_input 11 None)) store_10 = Inr
    (result_of command_11 12, store_11)"
  by (simp add: record_hold_decision_def hold_command_kind_def hold_input_fields given_valid_def active_core
      status_6 [OF reads_10r] reads_retained [OF reads_10r] rows_6_def status_6_fields hold_allowed_def
      reason_11 hold_11_def [symmetric, unfolded One_nat_def] hold_11_ok run_simps at_10 receipt_key_def
      write_11 command_11_def [symmetric, unfolded One_nat_def append_Cons append_Nil] store_11_def Let_def
      cong: and_then_lazy del: set_map image_iff)

lemma store_11_fields:
  "cs_lineage_id store_11 = sample_uuid 0 0" "cs_operator_principal_id store_11 = sample_uuid 0 1"
  "cs_watermark store_11 = 11000" "cs_last_sequence store_11 = 12" "cs_allocated store_11 = 12"
  "map ct_transaction_id (cs_transactions store_11) = map ct_transaction_id (cs_transactions store_10) @
      [sample_uuid 11 9]"
  "map ct_sequence (cs_transactions store_11) = map ct_sequence (cs_transactions store_10) @ [12]"
  "cs_subjects store_11 = cs_subjects store_10"
  "map receipt_key (cs_receipts store_11) = map receipt_key (cs_receipts store_10) @
      [(''repository.impose-operator-hold'', hold_key (sample_hold_input 11 None))]"
  "map oc_record_id (cs_occurrences store_11) = map oc_record_id (cs_occurrences store_10) @ [sample_uuid 11 0,
      sample_uuid 11 1]"
  "map oc_kind (cs_occurrences store_11) = map oc_kind (cs_occurrences store_10) @
      [''repository.operator-hold-decision'', ''repository.operator-hold-imposed'']"
  "map place (cs_occurrences store_11) = map place (cs_occurrences store_10) @ [(12, 0), (12, 1)]"
  "cs_snapshots store_11 = [snapshot_1]" "cs_active store_11 = Some active_1"
  by (simp_all add: store_11_def written_fields ledger_entries command_11_def at_10 admit_simps
      hold_occurrences_def hold_11_fields hold_input_fields  make_active_def snapshot_1_def active_1_def
      result_of_def kind_defs)

lemmas at_11 = at_10 store_11_fields

lemma store_11_ok: "control_reachable sample_world store_11" "ledger_ok store_11"
  using control_step [OF store_10_ok(1) run_11] ledger_reachable by blast+

lemma store_11_grows: "cs_occurrences store_11 = cs_occurrences store_10 @ placed (cm_occurrences command_11)
    12"
  by (simp add: store_11_def written_fields at_10 make_active_def)

subsection \<open>A second activation, instead of the check\<close>

definition second_activation :: activation_input where
  "second_activation =
     \<lparr>av_candidate = sample_candidate, av_expected_sequence = JInt 2, av_continuity_ancestor = Some
        object_c\<rparr>"
lemma second_fields: "av_candidate second_activation = sample_candidate" "av_expected_sequence second_activation
    = JInt 2"
  "av_continuity_ancestor second_activation = Some object_c"
  by (simp_all add: second_activation_def)

definition command_1b :: command where
  "command_1b = kernel_command (sample_env 2) ''core.activate-snapshot'' (activation_key second_activation)
     (sample_digest (activation_json second_activation)) (Some (''core-snapshot'', sample_uuid 2 8))
     (activation_occurrences (sample_env 2) store_1 sample_candidate)
     (PlainPayload (active_json (sample_env 2) store_1 (sample_uuid 2 8) sample_candidate)) (sample_uuid 2 2)"
definition store_1b :: control_store where
  "store_1b = snd (make_active (sample_env 2) (sample_uuid 2 8) sample_candidate (result_of command_1b 3,
      written command_1b store_1))"

lemma keys_1b: "activation_key second_activation \<noteq> activation_key sample_activation"
  by code_simp

lemma write_1b: "write_command command_1b store_1 = Inr (result_of command_1b 3, written command_1b store_1)"
  using write_command_ok [of command_1b store_1] keys_1b
  by (simp add: admit_simps at_1 command_1b_def activation_occurrences_def active_fact_occurrence_def del:
      set_map image_iff)

lemma definition_1b: "is_snapshot_definition (sample_uuid 2 8) sample_candidate"
  by code_simp

lemma retention_1b: "assert_profile_history store_1 sample_report = Inr ()" "assert_goal_history store_1
    sample_report = Inr ()"
  "assert_continuity store_1 second_activation = Inr ()"
  by (simp_all add: assert_profile_history_def assert_goal_history_def retained_files_def kept_def
      assert_continuity_def at_1
    active_core snapshot_1_def snapshot_of_def sample_candidate_def sample_report_def profile_schema_path_def
        goal_row_violation_def
    envelope_schema_path_def goal_schema_path_def retained_candidate_def sample_texts
        assert_declaration_retention_def
    assert_profile_retention_def assert_goal_retention_def second_fields)

lemma run_1b: "run_control sample_world (sample_env 2) (ActivateSnapshot second_activation) store_1 =
    Inr (result_of command_1b 3, store_1b)"
  using keys_1b
  by (simp add: activate_snapshot_def retention_1b second_fields definition_1b has_subject_def make_active_def
      run_simps at_1
    receipt_key_def write_1b command_1b_def [symmetric, unfolded One_nat_def append_Cons append_Nil]
        store_1b_def Let_def
    cong: and_then_lazy del: set_map image_iff)

lemma store_1b_ok: "control_reachable sample_world store_1b"
  by (rule control_step [OF store_1_ok(1) run_1b])

lemma store_1b_fields: "cs_snapshots store_1b = [snapshot_1, snapshot_of (sample_uuid 2 8) sample_candidate 3]"
  "cs_active store_1b \<noteq> None" "cs_last_sequence store_1b = 3"
  by (simp_all add: store_1b_def make_active_def written_fields at_1 result_of_def)

subsection \<open>What the run leaves\<close>

lemma kinds_grow:
  "cs_occurrences s' = cs_occurrences s @ new \<Longrightarrow> of_kind kind s' = of_kind kind s @ filter
      (\<lambda>oc. oc_kind oc = kind) new"
  by (simp add: of_kind_def)

lemma kind_none: "kind \<notin> set (map oc_kind (cs_occurrences s)) \<Longrightarrow> of_kind kind s = []"
  by (auto simp: of_kind_def filter_empty_conv)

lemmas occurrence_simps = coverage_command_fields placed_few Let_def kind_defs occurrence_defs

lemma checkpoints_run: "checkpoints_of ''github.com:7'' store_10 = [checkpoint_7, checkpoint_8, checkpoint_10]"
proof -
  have "of_kind checkpoint_kind store_6 = []" by (rule kind_none) (simp add: at_6 kind_defs del: set_map
      image_iff)
  then have "of_kind checkpoint_kind store_10 = filter (\<lambda>oc. oc_kind oc = checkpoint_kind)
      (placed (cm_occurrences command_7) 8 @ placed (cm_occurrences command_8) 9 @ placed (cm_occurrences
        command_9) 10 @
       placed (cm_occurrences command_10) 11)"
    by (simp add: kinds_grow [OF store_7_grows] kinds_grow [OF store_8_grows] kinds_grow [OF store_9_grows]
      kinds_grow [OF store_10_grows])
  then show ?thesis
    by (simp add: checkpoints_of_def of_repository_def command_7_def command_8_def command_9_def command_10_def
        occurrence_simps
      checkpoint_occurrences_def gap_occurrences_def repair_occurrences_def checkpoint_fields gap_9_fields
        repair_10_fields the_checkpoint_def)
qed

lemma decisions_run: "decisions_of ''github.com:7'' store_11 = [hold_11]"
proof -
  have "of_kind hold_kind store_10 = []" by (rule kind_none) (simp add: at_10 kind_defs del: set_map image_iff)
  then show ?thesis
    by (simp add: decisions_of_def kinds_grow [OF store_11_grows] command_11_def command_fields
        hold_occurrences_def placed_few
      Let_def kind_defs occurrence_defs hold_11_fields hold_input_fields the_hold_def)
qed

lemma later_run: "control_later sample_world store_7 store_11"
  by (rule later_step [OF later_step [OF later_step [OF later_step [OF later_here run_8] run_9] run_10] run_11])

lemma again_run: "run_control sample_world (sample_env 12) (RecordCheckpoint (sample_checkpoint 7 5000 5000))
    store_11 =
    Inr (result_of command_7 8, store_11)"
  using commands_answer_by_receipt [OF run_7 later_is_later [OF later_run store_7_ok(1)] store_11_ok(2),
      of "RecordCheckpoint (sample_checkpoint 7 5000 5000)" "sample_env 12"]
  by (simp add: checkpoint_input_ok sample_facts)

subsection \<open>The guarantees apply\<close>


theorem control_commands_take_turns_witness:
  "cs_last_sequence store_7 = cs_last_sequence store_6 + 1 \<and> cr_sequence (result_of command_7 8) =
      cs_last_sequence store_7"
proof -
  have "cs_last_sequence store_7 \<noteq> cs_last_sequence store_6" by (simp add: store_7_fields store_6_fields)
  then have "store_7 \<noteq> store_6" by auto
  from control_commands_take_turns [OF store_6_ok(1) run_7 this later_run again_run, of "JInt 7"] show ?thesis
    by (simp add: checkpoint_input_fields at_6)
qed


theorem coverage_has_no_hole_witness:
  "length (checkpoints_of ''github.com:7'' store_10) = 3 \<and> follows checkpoint_7 checkpoint_8 \<and>
   follows checkpoint_8 checkpoint_10 \<and>
   (\<exists>c \<in> set (checkpoints_of ''github.com:7'' store_10). cp_covered_from c \<le> 8000 \<and> 8000
       \<le> cp_covered_through c)"
proof -
  note c = coverage_has_no_hole [OF store_10_ok(1), of "''github.com:7''", unfolded Let_def, unfolded
      checkpoints_run]
  have "follows checkpoint_7 checkpoint_8" using c by (auto dest: spec [of _ 0])
  moreover have "follows checkpoint_8 checkpoint_10" using c by (auto dest: spec [of _ 1])
  moreover have "\<exists>c \<in> set [checkpoint_7, checkpoint_8, checkpoint_10]. cp_covered_from c \<le> 8000
      \<and> 8000 \<le> cp_covered_through c"
    using c by (fastforce simp: checkpoint_fields repair_10_fields dest: spec [of _ 8000])
  ultimately show ?thesis by (simp add: checkpoints_run)
qed


theorem hold_decisions_alternate_witness:
  "alternating (decisions_of ''github.com:7'' store_11) \<and> decisions_of ''github.com:7'' store_11 =
      [hold_11]"
  using hold_decisions_alternate [OF store_11_ok(1), of "''github.com:7''" sample_digest] decisions_run by blast

theorem readiness_needs_a_known_core_witness:
  "\<exists>snapshot active checks c. active_core_snapshot store_5 = Some (snapshot, active) \<and>
      source_checks store_5 = Inr checks \<and>
     c \<in> set checks \<and> ck_validated c \<and> 6000 < ck_checked_at c + one_day"
proof -
  have "active_core_snapshot store_5 = Some (snapshot_1, active_1)" using active_core at_5 by blast
  from readiness_needs_a_known_core [OF ready [OF reads_5 this, of 6000]] show ?thesis
    by (auto simp: at_5 one_day_def readiness_ready_def)
qed

theorem declared_repositories_are_never_dropped_witness:
  "declared_in (sn_report (cs_snapshots store_1b ! 0)) \<subseteq> declared_in (sn_report (cs_snapshots store_1b
      ! 1)) \<and>
   (\<exists>a. active_core_snapshot store_1b = Some (snapshot_of (sample_uuid 2 8) sample_candidate 3, a))"
proof -
  have "declared_in (sn_report (cs_snapshots store_1b ! 0)) \<subseteq> declared_in (sn_report (cs_snapshots
      store_1b ! 1))"
    by (rule declared_repositories_are_never_dropped [OF store_1b_ok, THEN conjunct1, rule_format]) (simp add:
        store_1b_fields)
  moreover have "\<exists>a. active_core_snapshot store_1b = Some (snapshot_of (sample_uuid 2 8)
      sample_candidate 3, a)"
    using declared_repositories_are_never_dropped [OF store_1b_ok] by (auto simp: store_1b_fields split:
        option.splits)
  ultimately show ?thesis ..
qed

theorem activation_keeps_history_witness:
  "sn_report (last (cs_snapshots store_1b)) = sample_report \<and> declared_in (sn_report snapshot_1)
      \<subseteq> declared_in sample_report \<and>
   keeps_profiles snapshot_1 sample_report \<and> keeps_goals (sn_report snapshot_1) sample_report"
proof -
  have "cs_last_sequence store_1b \<noteq> cs_last_sequence store_1" by (simp add: store_1_fields
      store_1b_fields)
  then have "store_1b \<noteq> store_1" by auto
  from activation_keeps_history [OF store_1_ok(1) run_1b this] active_core [of store_1] show ?thesis
    by (simp add: at_1 second_fields sample_candidate_fields Let_def)
qed

theorem ssh_address_of_core_is_a_dead_end_witness:
  "configured_source_url ssh_slash_core_url \<and>
   (\<exists>e. run_control sample_world (sample_env 2)
      (SourceEligible (sample_eligible\<lparr>ei_candidate := sample_candidate\<lparr>ca_source_url :=
        ssh_slash_core_url\<rparr>\<rparr>)) store_1 = Inl e)"
  using ssh_address_of_core_is_a_dead_end [of "sample_candidate\<lparr>ca_source_url :=
      ssh_slash_core_url\<rparr>" sample_world "sample_env 2"
      sample_eligible store_1] by simp

end
