(* ===== verification/Control_Polls.thy ===== *)
theory Control_Polls
  imports Control_Store
begin

text \<open>
  The leased schedules of the control plane, the poll of Core and the audit of deliveries, and what
  their leases guarantee.
\<close>

section \<open>Schedules\<close>

text \<open>
  The two schedules the control plane keeps in its database: polling Core and auditing GitHub's
  deliveries (\<open>claimCorePoll\<close>, \<open>completeCorePoll\<close>, \<open>claimGitHubDeliveryAudit\<close>,
  \<open>completeGitHubDeliveryAudit\<close> and the decoding of their rows in \<open>src/src/control/store.ts\<close>). Each is
  one row: when the next run is due, the run that is in flight with its lease, and the last run that
  was completed. A run that crashed keeps its lease until it expires.

  Every command reads its row back before it commits, so a row the decoding refuses is rolled back.
\<close>

definition lease_seconds :: int where "lease_seconds = 600"
definition prune_interval_seconds :: int where "prune_interval_seconds = 86400"

datatype poll_error =
    PollInterval
  | PollRow string
  | PollClock
  | PollInput string
  | PollNotOwner
  | PollBound string

definition assert_core_poll_interval :: "jsnum \<Rightarrow> poll_error + unit" where
  "assert_core_poll_interval value =
     require
       (is_safe_integer value \<and> core_poll_minimum_interval_seconds \<le> js_int value \<and>
        js_int value \<le> core_poll_maximum_interval_seconds) PollInterval"

definition safe_count :: "int \<Rightarrow> bool" where
  "safe_count n \<longleftrightarrow> 0 \<le> n \<and> n \<le> max_safe_integer"

record lease =
  le_run_id :: string
  le_started_at :: timestamp
  le_expires_at :: timestamp

text \<open>Three columns that are null together.\<close>

definition lease_columns :: "string option \<Rightarrow> timestamp option \<Rightarrow> timestamp option \<Rightarrow> poll_error + lease option" where
  "lease_columns run_id started_at expires_at =
     (case (run_id, started_at, expires_at) of
        (None, None, None) \<Rightarrow> Inr None
      | (Some run, Some started, Some expires) \<Rightarrow>
          and_then (require (is_uuid_v7 run) (PollRow ''lease run'')) (\<lambda>_.
          and_then (require (add_seconds started lease_seconds = expires) (PollRow ''lease duration'')) (\<lambda>_.
          Inr (Some \<lparr>le_run_id = run, le_started_at = started, le_expires_at = expires\<rparr>)))
      | _ \<Rightarrow> Inl (PollRow ''lease columns''))"

subsection \<open>Polling Core\<close>

record poll_state =
  ps_healthy_interval :: int
  ps_next_poll_at :: timestamp
  ps_next_prune_at :: timestamp
  ps_streak :: int
  ps_run_id :: "string option"
  ps_started_at :: "timestamp option"
  ps_expires_at :: "timestamp option"
  ps_last_run_id :: "string option"
  ps_last_started_at :: "timestamp option"
  ps_last_completed_at :: "timestamp option"
  ps_last_status :: "string option"
  ps_last_outcome :: "string option"
  ps_last_disposition :: "string option"
  ps_completed :: int
  ps_suppressed :: int

definition poll_statuses :: "string list" where
  "poll_statuses = [''completed'', ''controller-error'']"
definition poll_outcomes :: "string list" where
  "poll_outcomes =
     [''eligible'', ''source-unavailable'', ''candidate-invalid'', ''continuity-blocked'',
      ''persistence-failed'']"
definition poll_dispositions :: "string list" where
  "poll_dispositions = [''recorded'', ''suppressed'', ''record-failed'', ''none'']"

definition last_poll_valid :: "poll_state \<Rightarrow> bool" where
  "last_poll_valid s \<longleftrightarrow>
     (if ps_completed s = 0
      then ps_last_run_id s = None \<and> ps_last_started_at s = None \<and> ps_last_completed_at s = None \<and>
        ps_last_status s = None \<and> ps_last_disposition s = None \<and> ps_last_outcome s = None
      else
        (case (ps_last_run_id s, ps_last_started_at s, ps_last_completed_at s, ps_last_status s,
               ps_last_disposition s) of
           (Some run, Some started, Some completed, Some status, Some disposition) \<Rightarrow>
             is_uuid_v7 run \<and> started \<le> completed \<and> status \<in> set poll_statuses \<and>
             given_valid (\<lambda>o'. o' \<in> set poll_outcomes) (ps_last_outcome s) \<and>
             disposition \<in> set poll_dispositions \<and>
             (ps_last_outcome s = None \<longleftrightarrow> disposition = ''none'') \<and>
             \<not> (status = ''completed'' \<and> ps_last_outcome s = None)
         | _ \<Rightarrow> False))"

definition decode_poll_state :: "poll_state \<Rightarrow> poll_error + poll_state" where
  "decode_poll_state s =
     and_then (assert_core_poll_interval (JInt (ps_healthy_interval s))) (\<lambda>_.
     and_then (require (safe_count (ps_streak s)) (PollRow ''streak'')) (\<lambda>_.
     and_then
       (require
          (safe_count (ps_completed s) \<and> safe_count (ps_suppressed s) \<and>
           ps_suppressed s \<le> ps_completed s) (PollRow ''counters'')) (\<lambda>_.
     and_then (lease_columns (ps_run_id s) (ps_started_at s) (ps_expires_at s)) (\<lambda>_.
     and_then (require (last_poll_valid s) (PollRow ''last run'')) (\<lambda>_.
     Inr s)))))"

definition initial_poll_state :: "timestamp \<Rightarrow> poll_state" where
  "initial_poll_state at =
     \<lparr>ps_healthy_interval = core_poll_default_interval_seconds, ps_next_poll_at = at,
      ps_next_prune_at = add_seconds at prune_interval_seconds, ps_streak = 0, ps_run_id = None,
      ps_started_at = None, ps_expires_at = None, ps_last_run_id = None, ps_last_started_at = None,
      ps_last_completed_at = None, ps_last_status = None, ps_last_outcome = None,
      ps_last_disposition = None, ps_completed = 0, ps_suppressed = 0\<rparr>"

datatype poll_claim =
    PollClaimed string timestamp timestamp bool
  | PollNotDue timestamp
  | PollInFlight string timestamp

definition behind :: "timestamp \<Rightarrow> timestamp option \<Rightarrow> bool" where
  "behind now completed = (case completed of None \<Rightarrow> False | Some t \<Rightarrow> now < t)"

definition in_flight :: "string option \<Rightarrow> timestamp option \<Rightarrow> timestamp \<Rightarrow> (string \<times> timestamp) option" where
  "in_flight run_id expires_at now =
     (case (run_id, expires_at) of
        (Some run, Some expires) \<Rightarrow> if now < expires then Some (run, expires) else None
      | _ \<Rightarrow> None)"

text \<open>The watermark is that of the control plane's metadata; \<open>run\<close> is the identifier that is drawn.\<close>

definition claim_core_poll ::
    "jsnum \<Rightarrow> timestamp \<Rightarrow> string \<Rightarrow> timestamp \<Rightarrow> poll_state \<Rightarrow> poll_error + poll_claim \<times> poll_state"
where
  "claim_core_poll interval now run watermark row =
     and_then (assert_core_poll_interval interval) (\<lambda>_.
     and_then (decode_poll_state row) (\<lambda>s.
     and_then
       (require (\<not> (now < watermark \<or> behind now (ps_last_completed_at s))) PollClock) (\<lambda>_.
     case in_flight (ps_run_id s) (ps_expires_at s) now of
       Some (held, expires) \<Rightarrow> Inr (PollInFlight held expires, s)
     | None \<Rightarrow>
         if now < ps_next_poll_at s then Inr (PollNotDue (ps_next_poll_at s), s)
         else
           (let expires = add_seconds now lease_seconds in
            and_then
              (decode_poll_state
                (s\<lparr>ps_healthy_interval := js_int interval, ps_run_id := Some run,
                   ps_started_at := Some now, ps_expires_at := Some expires\<rparr>)) (\<lambda>claimed.
            Inr (PollClaimed run now expires (ps_next_prune_at s \<le> now), claimed))))))"

record poll_completion =
  pc_run_id :: string
  pc_status :: string
  pc_outcome :: "string option"
  pc_disposition :: string
  pc_prune_ran :: bool

definition poll_completion_valid :: "poll_completion \<Rightarrow> poll_error + unit" where
  "poll_completion_valid i =
     and_then (require (is_uuid_v7 (pc_run_id i)) (PollInput ''run'')) (\<lambda>_.
     and_then
       (require (\<not> (pc_status i = ''completed'' \<and> pc_outcome i = None)) (PollInput ''outcome'')) (\<lambda>_.
     and_then
       (require (\<not> (pc_outcome i = None \<and> pc_disposition i \<noteq> ''none'')) (PollInput ''disposition'')) (\<lambda>_.
     and_then
       (require (\<not> (pc_outcome i \<noteq> None \<and> pc_disposition i = ''none'')) (PollInput ''disposition'')) (\<lambda>_.
     and_then (require (pc_status i \<in> set poll_statuses) (PollInput ''status'')) (\<lambda>_.
     require (pc_disposition i \<in> set poll_dispositions) (PollInput ''disposition''))))))"

definition next_streak :: "string option \<Rightarrow> int \<Rightarrow> int" where
  "next_streak outcome streak =
     (if outcome = Some ''source-unavailable'' then streak + 1
      else if outcome = None then streak else 0)"

definition complete_core_poll ::
    "poll_completion \<Rightarrow> timestamp \<Rightarrow> timestamp \<Rightarrow> poll_state \<Rightarrow> poll_error + poll_state"
where
  "complete_core_poll i now watermark row =
     and_then (poll_completion_valid i) (\<lambda>_.
     and_then (decode_poll_state row) (\<lambda>s.
     case (ps_run_id s = Some (pc_run_id i), ps_started_at s) of
       (True, Some started) \<Rightarrow>
         and_then (require (\<not> (now < watermark \<or> now < started)) PollClock) (\<lambda>_.
         let streak = next_streak (pc_outcome i) (ps_streak s) in
         decode_poll_state
           (s\<lparr>ps_next_poll_at :=
                add_seconds now (core_poll_delay_seconds (ps_healthy_interval s) (pc_outcome i) streak),
              ps_next_prune_at :=
                (if pc_prune_ran i then add_seconds now prune_interval_seconds else ps_next_prune_at s),
              ps_streak := streak, ps_run_id := None, ps_started_at := None, ps_expires_at := None,
              ps_last_run_id := Some (pc_run_id i), ps_last_started_at := Some started,
              ps_last_completed_at := Some now, ps_last_status := Some (pc_status i),
              ps_last_outcome := pc_outcome i, ps_last_disposition := Some (pc_disposition i),
              ps_completed := ps_completed s + 1,
              ps_suppressed := ps_suppressed s + (if pc_disposition i = ''suppressed'' then 1 else 0)\<rparr>))
     | _ \<Rightarrow> Inl PollNotOwner))"

subsection \<open>Auditing the deliveries\<close>

record audit_state =
  as_app_id :: "string option"
  as_healthy_interval :: int
  as_next_audit_at :: timestamp
  as_streak :: int
  as_run_id :: "string option"
  as_started_at :: "timestamp option"
  as_expires_at :: "timestamp option"
  as_last_run_id :: "string option"
  as_last_started_at :: "timestamp option"
  as_last_completed_at :: "timestamp option"
  as_last_status :: "string option"
  as_last_outcome :: "string option"
  as_last_retry_at :: "timestamp option"
  as_last_boundary_at :: "timestamp option"
  as_completed :: int

definition audit_outcomes :: "string list" where
  "audit_outcomes =
     [''complete'', ''source-unavailable'', ''pagination-incomplete'', ''request-budget-exhausted'',
      ''unsupported-relevant-delivery'', ''normalization-failed'']"

definition last_audit_valid :: "audit_state \<Rightarrow> bool" where
  "last_audit_valid s \<longleftrightarrow>
     (if as_completed s = 0
      then as_last_run_id s = None \<and> as_last_started_at s = None \<and> as_last_completed_at s = None \<and>
        as_last_status s = None \<and> as_last_outcome s = None \<and> as_last_retry_at s = None \<and>
        as_last_boundary_at s = None \<and> as_streak s = 0
      else
        (case (as_app_id s, as_last_run_id s, as_last_started_at s, as_last_completed_at s,
               as_last_status s) of
           (Some app, Some run, Some started, Some completed, Some status) \<Rightarrow>
             is_uuid_v7 run \<and> started \<le> completed \<and> completed \<le> as_next_audit_at s \<and>
             status \<in> set poll_statuses \<and>
             given_valid (\<lambda>o'. o' \<in> set audit_outcomes) (as_last_outcome s) \<and>
             (status = ''completed'' \<longleftrightarrow> as_last_outcome s \<noteq> None) \<and>
             (as_last_outcome s = Some ''complete'' \<longleftrightarrow> as_streak s = 0) \<and>
             (as_last_retry_at s = None \<or>
               \<not> (as_last_outcome s = Some ''complete'' \<or> status = ''controller-error'')) \<and>
             given_valid (\<lambda>b. b \<le> completed) (as_last_boundary_at s) \<and>
             \<not> (as_last_outcome s = Some ''complete'' \<and> as_last_boundary_at s = None)
         | _ \<Rightarrow> False))"

definition decode_audit_state :: "audit_state \<Rightarrow> poll_error + audit_state" where
  "decode_audit_state s =
     and_then (require (given_valid github_number (as_app_id s)) (PollRow ''App'')) (\<lambda>_.
     and_then (map_sum (\<lambda>_. PollInterval) id (assert_delivery_audit_interval (JInt (as_healthy_interval s)))) (\<lambda>_.
     and_then (require (safe_count (as_streak s)) (PollRow ''streak'')) (\<lambda>_.
     and_then (require (safe_count (as_completed s)) (PollRow ''counters'')) (\<lambda>_.
     and_then (lease_columns (as_run_id s) (as_started_at s) (as_expires_at s)) (\<lambda>_.
     and_then (require (last_audit_valid s) (PollRow ''last run'')) (\<lambda>_.
     Inr s))))))"

definition initial_audit_state :: "timestamp \<Rightarrow> audit_state" where
  "initial_audit_state at =
     \<lparr>as_app_id = None, as_healthy_interval = delivery_audit_default_interval_seconds,
      as_next_audit_at = at, as_streak = 0, as_run_id = None, as_started_at = None,
      as_expires_at = None, as_last_run_id = None, as_last_started_at = None,
      as_last_completed_at = None, as_last_status = None, as_last_outcome = None,
      as_last_retry_at = None, as_last_boundary_at = None, as_completed = 0\<rparr>"

datatype audit_claim =
    AuditClaimed string timestamp timestamp
  | AuditNotDue timestamp
  | AuditInFlight string timestamp

definition claim_delivery_audit ::
    "string \<Rightarrow> jsnum \<Rightarrow> timestamp \<Rightarrow> string \<Rightarrow> timestamp \<Rightarrow> audit_state \<Rightarrow>
     poll_error + audit_claim \<times> audit_state"
where
  "claim_delivery_audit app interval now run watermark row =
     and_then (require (github_number app) (PollInput ''App'')) (\<lambda>_.
     and_then (map_sum (\<lambda>_. PollInterval) id (assert_delivery_audit_interval interval)) (\<lambda>_.
     and_then (decode_audit_state row) (\<lambda>s.
     and_then
       (require (given_valid (\<lambda>bound. bound = app) (as_app_id s)) (PollBound app)) (\<lambda>_.
     and_then
       (require (\<not> (now < watermark \<or> behind now (as_last_completed_at s))) PollClock) (\<lambda>_.
     case in_flight (as_run_id s) (as_expires_at s) now of
       Some (held, expires) \<Rightarrow> Inr (AuditInFlight held expires, s)
     | None \<Rightarrow>
         if now < as_next_audit_at s then Inr (AuditNotDue (as_next_audit_at s), s)
         else
           (let expires = add_seconds now lease_seconds in
            and_then
              (decode_audit_state
                (s\<lparr>as_app_id := Some app, as_healthy_interval := js_int interval, as_run_id := Some run,
                   as_started_at := Some now, as_expires_at := Some expires\<rparr>)) (\<lambda>claimed.
            Inr (AuditClaimed run now expires, claimed))))))))"

record audit_completion =
  ac'_run_id :: string
  ac'_status :: string
  ac'_outcome :: "string option"
  ac'_boundary_at :: "timestamp option"
  ac'_retry_at :: "timestamp option"

definition audit_completion_valid :: "audit_completion \<Rightarrow> poll_error + unit" where
  "audit_completion_valid i =
     and_then (require (is_uuid_v7 (ac'_run_id i)) (PollInput ''run'')) (\<lambda>_.
     and_then (require (ac'_status i \<in> set poll_statuses) (PollInput ''status'')) (\<lambda>_.
     and_then
       (require (given_valid (\<lambda>o'. o' \<in> set audit_outcomes) (ac'_outcome i)) (PollInput ''outcome'')) (\<lambda>_.
     and_then
       (require (ac'_status i = ''completed'' \<longleftrightarrow> ac'_outcome i \<noteq> None) (PollInput ''outcome'')) (\<lambda>_.
     and_then
       (require (ac'_outcome i = Some ''complete'' \<longleftrightarrow> ac'_boundary_at i \<noteq> None)
          (PollInput ''boundary'')) (\<lambda>_.
     require (\<not> (ac'_outcome i = Some ''complete'' \<and> ac'_retry_at i \<noteq> None)) (PollInput ''retry''))))))"

definition boundary_behind :: "timestamp \<Rightarrow> timestamp option \<Rightarrow> timestamp option \<Rightarrow> bool" where
  "boundary_behind now boundary latest =
     (case boundary of
        None \<Rightarrow> False
      | Some b \<Rightarrow> now < b \<or> (case latest of None \<Rightarrow> False | Some l \<Rightarrow> b < l))"

definition complete_delivery_audit ::
    "audit_completion \<Rightarrow> timestamp \<Rightarrow> timestamp \<Rightarrow> audit_state \<Rightarrow> poll_error + audit_state"
where
  "complete_delivery_audit i now watermark row =
     and_then (audit_completion_valid i) (\<lambda>_.
     and_then (decode_audit_state row) (\<lambda>s.
     case (as_run_id s = Some (ac'_run_id i), as_started_at s) of
       (True, Some started) \<Rightarrow>
         and_then
           (require
              (\<not> (now < watermark \<or> now < started \<or>
                  boundary_behind now (ac'_boundary_at i) (as_last_boundary_at s))) PollClock) (\<lambda>_.
         let streak = (if ac'_outcome i = Some ''complete'' then 0 else as_streak s + 1) in
         and_then
           (if ac'_outcome i = Some ''complete'' then Inr (as_healthy_interval s)
            else map_sum (\<lambda>_. PollRow ''streak'') id (delivery_audit_retry_seconds (JInt streak))) (\<lambda>delay.
         let ordinary = add_seconds now delay in
         decode_audit_state
           (s\<lparr>as_next_audit_at :=
                (case ac'_retry_at i of None \<Rightarrow> ordinary | Some t \<Rightarrow> if ordinary < t then t else ordinary),
              as_streak := streak, as_run_id := None, as_started_at := None, as_expires_at := None,
              as_last_run_id := Some (ac'_run_id i), as_last_started_at := Some started,
              as_last_completed_at := Some now, as_last_status := Some (ac'_status i),
              as_last_outcome := ac'_outcome i, as_last_retry_at := ac'_retry_at i,
              as_last_boundary_at :=
                (case ac'_boundary_at i of None \<Rightarrow> as_last_boundary_at s | Some b \<Rightarrow> Some b),
              as_completed := as_completed s + 1\<rparr>)))
     | _ \<Rightarrow> Inl PollNotOwner))"

section \<open>Guarantees\<close>

text \<open>
  The lease of a schedule: whoever claimed the poll of Core or the audit of the deliveries keeps it
  until it completes it or the lease expires, and a schedule never sticks.
\<close>

subsection \<open>The contract of a leased schedule\<close>

locale leased_schedule =
  fixes holder :: "'row \<Rightarrow> (string \<times> timestamp) option"
    and step :: "'event \<Rightarrow> 'row \<Rightarrow> 'row"
    and instant :: "'event \<Rightarrow> timestamp"
    and completes :: "'event \<Rightarrow> string option"
  assumes keeps: "holder row = Some (run, expires) \<Longrightarrow> instant e < expires \<Longrightarrow> completes e \<noteq> Some run \<Longrightarrow>
    holder (step e row) = Some (run, expires)"
begin

lemma lease_holds:
  assumes "holder row = Some (run, expires)" "\<forall>e \<in> set es. instant e < expires \<and> completes e \<noteq> Some run"
  shows "holder (fold step es row) = Some (run, expires)"
  using assms by (induction es arbitrary: row) (simp_all add: keeps)

end

definition lease_holder :: "string option \<Rightarrow> timestamp option \<Rightarrow> (string \<times> timestamp) option" where
  "lease_holder run_id expires_at =
     (case (run_id, expires_at) of (Some run, Some expires) \<Rightarrow> Some (run, expires) | _ \<Rightarrow> None)"

lemma in_flight_holder:
  "in_flight run_id expires_at now =
     (case lease_holder run_id expires_at of None \<Rightarrow> None | Some (run, expires) \<Rightarrow> if now < expires then Some (run, expires) else None)"
  by (auto simp: in_flight_def lease_holder_def split: option.split)

lemma lease_columns_Inr:
  "lease_columns a b c = Inr l \<Longrightarrow>
     (a = None \<and> b = None \<and> c = None) \<or>
     (\<exists>run started. a = Some run \<and> b = Some started \<and> c = Some (add_seconds started lease_seconds) \<and> is_uuid_v7 run)"
  by (auto simp: lease_columns_def require_def and_then_Inr_iff split: option.splits if_splits)

subsection \<open>The poll of Core\<close>

datatype poll_event =
    ClaimPoll jsnum timestamp string timestamp
  | CompletePoll poll_completion timestamp timestamp

text \<open>A refused command rolls back.\<close>

fun poll_step :: "poll_event \<Rightarrow> poll_state \<Rightarrow> poll_state" where
  "poll_step (ClaimPoll interval now run watermark) s =
     (case claim_core_poll interval now run watermark s of Inl _ \<Rightarrow> s | Inr (_, s') \<Rightarrow> s')"
| "poll_step (CompletePoll i now watermark) s =
     (case complete_core_poll i now watermark s of Inl _ \<Rightarrow> s | Inr s' \<Rightarrow> s')"

fun poll_instant :: "poll_event \<Rightarrow> timestamp" where
  "poll_instant (ClaimPoll interval now run watermark) = now"
| "poll_instant (CompletePoll i now watermark) = now"

fun poll_completes :: "poll_event \<Rightarrow> string option" where
  "poll_completes (ClaimPoll interval now run watermark) = None"
| "poll_completes (CompletePoll i now watermark) = Some (pc_run_id i)"

definition poll_holder :: "poll_state \<Rightarrow> (string \<times> timestamp) option" where
  "poll_holder s = lease_holder (ps_run_id s) (ps_expires_at s)"

lemma decode_poll_state_same: "decode_poll_state s = Inr t \<Longrightarrow> t = s"
  by (auto simp: decode_poll_state_def and_then_Inr_iff)

lemma claim_core_poll_held:
  assumes "poll_holder s = Some (run, expires)" "now < expires"
    "claim_core_poll interval now run' watermark s = Inr (r, s')"
  shows "s' = s \<and> r = PollInFlight run expires"
  using assms
  by (auto simp: claim_core_poll_def and_then_Inr_iff in_flight_holder poll_holder_def dest!: decode_poll_state_same)

lemma complete_core_poll_other:
  assumes "poll_holder s = Some (run, expires)" "pc_run_id i \<noteq> run"
  shows "\<exists>e. complete_core_poll i now watermark s = Inl e"
  using assms
  by (cases "poll_completion_valid i"; cases "decode_poll_state s")
    (auto simp: complete_core_poll_def poll_holder_def lease_holder_def and_then_def
      dest!: decode_poll_state_same split: option.splits bool.splits)

interpretation poll: leased_schedule poll_holder poll_step poll_instant poll_completes
proof
  fix row run expires e
  assume a: "poll_holder row = Some (run, expires)" "poll_instant e < expires" "poll_completes e \<noteq> Some run"
  show "poll_holder (poll_step e row) = Some (run, expires)"
  proof (cases e)
    case (ClaimPoll interval now run' watermark)
    with a claim_core_poll_held [of row run expires now interval run' watermark] show ?thesis
      by (auto split: sum.split)
  next
    case (CompletePoll i now watermark)
    with a complete_core_poll_other [of row run expires i now watermark] show ?thesis
      by (auto split: sum.split)
  qed
qed

subsection \<open>The audit of the deliveries\<close>

datatype audit_event =
    ClaimAudit string jsnum timestamp string timestamp
  | CompleteAudit audit_completion timestamp timestamp

fun audit_step :: "audit_event \<Rightarrow> audit_state \<Rightarrow> audit_state" where
  "audit_step (ClaimAudit app interval now run watermark) s =
     (case claim_delivery_audit app interval now run watermark s of Inl _ \<Rightarrow> s | Inr (_, s') \<Rightarrow> s')"
| "audit_step (CompleteAudit i now watermark) s =
     (case complete_delivery_audit i now watermark s of Inl _ \<Rightarrow> s | Inr s' \<Rightarrow> s')"

fun audit_instant :: "audit_event \<Rightarrow> timestamp" where
  "audit_instant (ClaimAudit app interval now run watermark) = now"
| "audit_instant (CompleteAudit i now watermark) = now"

fun audit_completes :: "audit_event \<Rightarrow> string option" where
  "audit_completes (ClaimAudit app interval now run watermark) = None"
| "audit_completes (CompleteAudit i now watermark) = Some (ac'_run_id i)"

definition audit_holder :: "audit_state \<Rightarrow> (string \<times> timestamp) option" where
  "audit_holder s = lease_holder (as_run_id s) (as_expires_at s)"

lemma decode_audit_state_same: "decode_audit_state s = Inr t \<Longrightarrow> t = s"
  by (auto simp: decode_audit_state_def and_then_Inr_iff)

lemma claim_delivery_audit_held:
  assumes "audit_holder s = Some (run, expires)" "now < expires"
    "claim_delivery_audit app interval now run' watermark s = Inr (r, s')"
  shows "s' = s \<and> r = AuditInFlight run expires"
  using assms
  by (auto simp: claim_delivery_audit_def and_then_Inr_iff in_flight_holder audit_holder_def
      dest!: decode_audit_state_same)

lemma complete_delivery_audit_other:
  assumes "audit_holder s = Some (run, expires)" "ac'_run_id i \<noteq> run"
  shows "\<exists>e. complete_delivery_audit i now watermark s = Inl e"
  using assms
  by (cases "audit_completion_valid i"; cases "decode_audit_state s")
    (auto simp: complete_delivery_audit_def audit_holder_def lease_holder_def and_then_def
      dest!: decode_audit_state_same split: option.splits bool.splits)

interpretation audit: leased_schedule audit_holder audit_step audit_instant audit_completes
proof
  fix row run expires e
  assume a: "audit_holder row = Some (run, expires)" "audit_instant e < expires" "audit_completes e \<noteq> Some run"
  show "audit_holder (audit_step e row) = Some (run, expires)"
  proof (cases e)
    case (ClaimAudit app interval now run' watermark)
    with a claim_delivery_audit_held [of row run expires now app interval run' watermark] show ?thesis
      by (auto split: sum.split)
  next
    case (CompleteAudit i now watermark)
    with a complete_delivery_audit_other [of row run expires i now watermark] show ?thesis
      by (auto split: sum.split)
  qed
qed

subsection \<open>Exclusive leases\<close>

lemma claim_core_poll_claims:
  "claim_core_poll interval now run watermark s = Inr (PollClaimed run' started expires prune, s') \<Longrightarrow>
     run' = run \<and> started = now \<and> expires = add_seconds now lease_seconds \<and> poll_holder s' = Some (run, expires)"
  by (auto simp: claim_core_poll_def and_then_Inr_iff Let_def poll_holder_def lease_holder_def
      dest!: decode_poll_state_same split: option.splits if_splits)

lemma claim_delivery_audit_claims:
  "claim_delivery_audit app interval now run watermark s = Inr (AuditClaimed run' started expires, s') \<Longrightarrow>
     run' = run \<and> started = now \<and> expires = add_seconds now lease_seconds \<and> audit_holder s' = Some (run, expires)"
  by (auto simp: claim_delivery_audit_def and_then_Inr_iff Let_def audit_holder_def lease_holder_def
      dest!: decode_audit_state_same split: option.splits if_splits)

text \<open>C39: A poll of Core that was claimed belongs to its run for ten minutes or until that run
  completes it. Whatever other runs try in between, in any order, a claim answers that the poll is in
  flight or is refused and changes nothing, and the completion of another run is refused.\<close>

theorem core_poll_lease_is_exclusive:
  assumes claimed: "claim_core_poll interval now run watermark s = Inr (PollClaimed run started expires prune, s1)"
    and others: "\<forall>e \<in> set es. poll_instant e < expires \<and> poll_completes e \<noteq> Some run"
    and t: "t = fold poll_step es s1"
  shows "expires = add_seconds now lease_seconds \<and>
    (case claim_core_poll interval' now' run' watermark' t of
       Inl _ \<Rightarrow> True
     | Inr (c, t') \<Rightarrow> now' < expires \<longrightarrow> c = PollInFlight run expires \<and> t' = t) \<and>
    (pc_run_id i \<noteq> run \<longrightarrow> (\<exists>e. complete_core_poll i now' watermark' t = Inl e))"
proof -
  note c = claim_core_poll_claims [OF claimed]
  then have held: "poll_holder t = Some (run, expires)"
    unfolding t using others by (intro poll.lease_holds) auto
  show ?thesis
    using c claim_core_poll_held [OF held, of now'] complete_core_poll_other [OF held]
    by (auto split: sum.split)
qed

text \<open>The same of the audit of the deliveries.\<close>

theorem delivery_audit_lease_is_exclusive:
  assumes claimed: "claim_delivery_audit app interval now run watermark s = Inr (AuditClaimed run started expires, s1)"
    and others: "\<forall>e \<in> set es. audit_instant e < expires \<and> audit_completes e \<noteq> Some run"
    and t: "t = fold audit_step es s1"
  shows "expires = add_seconds now lease_seconds \<and>
    (case claim_delivery_audit app' interval' now' run' watermark' t of
       Inl _ \<Rightarrow> True
     | Inr (c, t') \<Rightarrow> now' < expires \<longrightarrow> c = AuditInFlight run expires \<and> t' = t) \<and>
    (ac'_run_id i \<noteq> run \<longrightarrow> (\<exists>e. complete_delivery_audit i now' watermark' t = Inl e))"
proof -
  note c = claim_delivery_audit_claims [OF claimed]
  then have held: "audit_holder t = Some (run, expires)"
    unfolding t using others by (intro audit.lease_holds) auto
  show ?thesis
    using c claim_delivery_audit_held [OF held, of now'] complete_delivery_audit_other [OF held]
    by (auto split: sum.split)
qed

subsection \<open>A schedule does not stick\<close>

definition poll_counted :: "int \<Rightarrow> poll_state \<Rightarrow> bool" where
  "poll_counted n s \<longleftrightarrow> decode_poll_state s = Inr s \<and> ps_completed s \<le> n \<and> ps_streak s \<le> n"

lemma poll_counted_mono: "poll_counted n s \<Longrightarrow> poll_counted (n + 1) s"
  by (simp add: poll_counted_def)

lemma poll_counted_claim:
  assumes "poll_counted n s" "claim_core_poll interval now run watermark s = Inr (r, s')"
  shows "poll_counted n s'"
proof -
  have "decode_poll_state s' = Inr s'" "ps_completed s' = ps_completed s" "ps_streak s' = ps_streak s"
    using assms
    by (auto simp: claim_core_poll_def poll_counted_def and_then_Inr_iff Let_def
        split: option.splits if_splits dest: decode_poll_state_same)
  with assms(1) show ?thesis by (simp add: poll_counted_def)
qed

lemma poll_counted_complete:
  assumes "poll_counted n s" "complete_core_poll i now watermark s = Inr s'" "0 \<le> n"
  shows "poll_counted (n + 1) s'"
proof -
  have "decode_poll_state s' = Inr s'" "ps_completed s' = ps_completed s + 1" "ps_streak s' \<le> n + 1"
    using assms
    by (auto simp: complete_core_poll_def poll_counted_def and_then_Inr_iff Let_def next_streak_def
        split: option.splits if_splits bool.splits dest: decode_poll_state_same)
  with assms(1) show ?thesis by (simp add: poll_counted_def)
qed

lemma poll_counted_step: "poll_counted n s \<Longrightarrow> 0 \<le> n \<Longrightarrow> poll_counted (n + 1) (poll_step e s)"
proof (cases e)
  case (ClaimPoll interval now run watermark)
  assume "poll_counted n s" "0 \<le> n"
  with ClaimPoll show ?thesis
    using poll_counted_claim [of n s interval now run watermark] poll_counted_mono
    by (auto split: sum.split)
next
  case (CompletePoll i now watermark)
  assume "poll_counted n s" "0 \<le> n"
  with CompletePoll show ?thesis
    using poll_counted_complete [of n s i now watermark] poll_counted_mono
    by (auto split: sum.split)
qed

lemma poll_counted_initial: "poll_counted 0 (initial_poll_state at)"
  by (simp add: poll_counted_def initial_poll_state_def decode_poll_state_def assert_core_poll_interval_def
      require_def core_poll_default_interval_seconds_def core_poll_minimum_interval_seconds_def
      core_poll_maximum_interval_seconds_def safe_count_def lease_columns_def last_poll_valid_def
      max_safe_integer_def)

lemma poll_counted_fold:
  "poll_counted n s \<Longrightarrow> 0 \<le> n \<Longrightarrow> poll_counted (n + int (length es)) (fold poll_step es s)"
proof (induction es arbitrary: n s)
  case (Cons e es)
  have "poll_counted (n + 1 + int (length es)) (fold poll_step es (poll_step e s))"
    by (rule Cons.IH [OF poll_counted_step [OF Cons.prems]]) (use Cons.prems in simp)
  then show ?case by (simp add: algebra_simps)
qed simp

lemma last_poll_valid_lease:
  "last_poll_valid (s\<lparr>ps_healthy_interval := a, ps_run_id := b, ps_started_at := c, ps_expires_at := d\<rparr>) =
     last_poll_valid s"
  by (cases s, hypsubst)
    (unfold last_poll_valid_def poll_state.update_convs poll_state.select_convs, rule refl)

lemma claim_core_poll_due:
  assumes s: "poll_counted n s" and interval: "assert_core_poll_interval interval = Inr ()"
    and run: "is_uuid_v7 run" and clock: "watermark \<le> now" "given_valid (\<lambda>t. t \<le> now) (ps_last_completed_at s)"
    and due: "ps_next_poll_at s \<le> now"
    and free: "case poll_holder s of None \<Rightarrow> True | Some (_, expires) \<Rightarrow> expires \<le> now"
  shows "\<exists>s1. claim_core_poll interval now run watermark s =
        Inr (PollClaimed run now (add_seconds now lease_seconds) (ps_next_prune_at s \<le> now), s1) \<and>
      s1 = s\<lparr>ps_healthy_interval := js_int interval, ps_run_id := Some run, ps_started_at := Some now,
        ps_expires_at := Some (add_seconds now lease_seconds)\<rparr> \<and> poll_counted n s1"
proof -
  let ?s1 = "s\<lparr>ps_healthy_interval := js_int interval, ps_run_id := Some run, ps_started_at := Some now,
        ps_expires_at := Some (add_seconds now lease_seconds)\<rparr>"
  have d: "safe_count (ps_streak s)" "safe_count (ps_completed s)" "safe_count (ps_suppressed s)"
      "ps_suppressed s \<le> ps_completed s" "last_poll_valid s"
    using s by (auto simp: poll_counted_def decode_poll_state_def and_then_Inr_iff require_def split: if_splits)
  have "assert_core_poll_interval (JInt (js_int interval)) = Inr ()"
    using interval
    by (auto simp: assert_core_poll_interval_def require_def core_poll_minimum_interval_seconds_def
        core_poll_maximum_interval_seconds_def max_safe_integer_def split: if_splits)
  then have decoded: "decode_poll_state ?s1 = Inr ?s1"
    using d run
    by (simp add: decode_poll_state_def require_def lease_columns_def last_poll_valid_lease)
  have "in_flight (ps_run_id s) (ps_expires_at s) now = None"
    using free by (auto simp: in_flight_holder poll_holder_def split: option.splits)
  moreover have "\<not> behind now (ps_last_completed_at s)"
    using clock(2) by (auto simp: behind_def given_valid_def split: option.splits)
  ultimately show ?thesis
    using s interval clock(1) due decoded
    by (simp add: claim_core_poll_def poll_counted_def require_def Let_def not_less)
qed

lemma complete_core_poll_owned:
  assumes s: "poll_counted n s" "n < max_safe_integer" "0 \<le> n"
    and mine: "ps_run_id s = Some (pc_run_id i)" "ps_started_at s = Some started"
    and i: "poll_completion_valid i = Inr ()" "given_valid (\<lambda>x. x \<in> set poll_outcomes) (pc_outcome i)"
    and clock: "watermark \<le> now" "started \<le> now"
  shows "\<exists>t. complete_core_poll i now watermark s = Inr t \<and> poll_holder t = None \<and>
    add_seconds now (ps_healthy_interval s) \<le> ps_next_poll_at t \<and>
    ps_next_poll_at t \<le> add_seconds now core_poll_maximum_interval_seconds"
proof -
  let ?streak = "next_streak (pc_outcome i) (ps_streak s)"
  let ?t = "s\<lparr>ps_next_poll_at :=
                add_seconds now (core_poll_delay_seconds (ps_healthy_interval s) (pc_outcome i) ?streak),
              ps_next_prune_at :=
                (if pc_prune_ran i then add_seconds now prune_interval_seconds else ps_next_prune_at s),
              ps_streak := ?streak, ps_run_id := None, ps_started_at := None, ps_expires_at := None,
              ps_last_run_id := Some (pc_run_id i), ps_last_started_at := Some started,
              ps_last_completed_at := Some now, ps_last_status := Some (pc_status i),
              ps_last_outcome := pc_outcome i, ps_last_disposition := Some (pc_disposition i),
              ps_completed := ps_completed s + 1,
              ps_suppressed := ps_suppressed s + (if pc_disposition i = ''suppressed'' then 1 else 0)\<rparr>"
  have d: "assert_core_poll_interval (JInt (ps_healthy_interval s)) = Inr ()" "safe_count (ps_streak s)"
      "safe_count (ps_completed s)" "safe_count (ps_suppressed s)" "ps_suppressed s \<le> ps_completed s"
    using s(1) by (auto simp: poll_counted_def decode_poll_state_def and_then_Inr_iff require_def split: if_splits)
  have counts: "safe_count ?streak" "safe_count (ps_completed s + 1)"
      "safe_count (ps_suppressed s + (if pc_disposition i = ''suppressed'' then 1 else 0))"
    using s d by (auto simp: safe_count_def poll_counted_def next_streak_def)
  have last: "last_poll_valid ?t"
    using i clock(2) counts(2) d(3)
    by (auto simp: last_poll_valid_def poll_completion_valid_def and_then_Inr_iff require_def safe_count_def
        split: if_splits)
  have "decode_poll_state ?t = Inr ?t"
    unfolding decode_poll_state_def
    using d counts last by (simp add: require_def lease_columns_def)
  then have "complete_core_poll i now watermark s = Inr ?t"
    using s(1) mine i(1) clock
    by (simp add: complete_core_poll_def poll_counted_def require_def Let_def not_less)
  moreover have "poll_holder ?t = None" by (simp add: poll_holder_def lease_holder_def)
  moreover have "add_seconds now (ps_healthy_interval s) \<le> ps_next_poll_at ?t"
      "ps_next_poll_at ?t \<le> add_seconds now core_poll_maximum_interval_seconds"
    using d(1)
    by (auto simp: add_seconds_def core_poll_delay_seconds_def assert_core_poll_interval_def require_def
        core_poll_maximum_source_backoff_seconds_def core_poll_first_source_backoff_seconds_def
        core_poll_maximum_interval_seconds_def split: if_splits)
  ultimately show ?thesis by blast
qed

text \<open>C40: The poll of Core does not stick. Whatever was claimed and completed since the database was new,
  with whatever was refused in between, once the poll is due and no lease is running a claim with a valid
  interval and a clock that is not behind gets it, for ten minutes; and every valid completion by its run
  is accepted then, frees the poll, and makes the next one due no earlier than the interval that was
  claimed and no later than an hour.\<close>

theorem core_poll_never_sticks:
  assumes s: "s = fold poll_step es (initial_poll_state at)" "int (length es) < max_safe_integer"
    and interval: "assert_core_poll_interval interval = Inr ()" and run: "is_uuid_v7 run"
    and clock: "watermark \<le> now" "given_valid (\<lambda>t. t \<le> now) (ps_last_completed_at s)"
    and due: "ps_next_poll_at s \<le> now"
    and free: "case poll_holder s of None \<Rightarrow> True | Some (_, expires) \<Rightarrow> expires \<le> now"
  shows "\<exists>prune s1. claim_core_poll interval now run watermark s =
      Inr (PollClaimed run now (add_seconds now lease_seconds) prune, s1) \<and>
    (\<forall>i later watermark'. pc_run_id i = run \<and> poll_completion_valid i = Inr () \<and>
       given_valid (\<lambda>x. x \<in> set poll_outcomes) (pc_outcome i) \<and> watermark' \<le> later \<and> now \<le> later \<longrightarrow>
       (\<exists>t. complete_core_poll i later watermark' s1 = Inr t \<and> poll_holder t = None \<and>
          add_seconds later (js_int interval) \<le> ps_next_poll_at t \<and>
          ps_next_poll_at t \<le> add_seconds later core_poll_maximum_interval_seconds))"
proof -
  have n: "poll_counted (int (length es)) s"
    using poll_counted_fold [OF poll_counted_initial [of at], of es] by (simp add: s(1))
  obtain s1 where s1: "claim_core_poll interval now run watermark s =
        Inr (PollClaimed run now (add_seconds now lease_seconds) (ps_next_prune_at s \<le> now), s1)"
      "s1 = s\<lparr>ps_healthy_interval := js_int interval, ps_run_id := Some run, ps_started_at := Some now,
        ps_expires_at := Some (add_seconds now lease_seconds)\<rparr>" "poll_counted (int (length es)) s1"
    using claim_core_poll_due [OF n interval run clock due free] by blast
  have "\<exists>t. complete_core_poll i later watermark' s1 = Inr t \<and> poll_holder t = None \<and>
      add_seconds later (js_int interval) \<le> ps_next_poll_at t \<and>
      ps_next_poll_at t \<le> add_seconds later core_poll_maximum_interval_seconds"
    if "pc_run_id i = run" "poll_completion_valid i = Inr ()"
      "given_valid (\<lambda>x. x \<in> set poll_outcomes) (pc_outcome i)" "watermark' \<le> later" "now \<le> later"
    for i later watermark'
    using complete_core_poll_owned [OF s1(3) s(2) _ _ _ that(2-5)] that(1) by (simp add: s1(2))
  then show ?thesis using s1(1) by blast
qed

subsection \<open>Concrete runs\<close>

definition poll_run_a :: string where "poll_run_a = ''01890000-0000-7000-8000-00000000000a''"
definition poll_run_b :: string where "poll_run_b = ''01890000-0000-7000-8000-00000000000b''"

lemma poll_runs: "is_uuid_v7 poll_run_a" "is_uuid_v7 poll_run_b" "poll_run_a \<noteq> poll_run_b"
  by code_simp+

definition claimed_sample :: poll_state where
  "claimed_sample = (initial_poll_state 0)\<lparr>ps_healthy_interval := 900, ps_run_id := Some poll_run_a,
     ps_started_at := Some 0, ps_expires_at := Some 600000\<rparr>"

definition completion_sample :: "string \<Rightarrow> poll_completion" where
  "completion_sample run =
     \<lparr>pc_run_id = run, pc_status = ''completed'', pc_outcome = Some ''eligible'',
      pc_disposition = ''recorded'', pc_prune_ran = False\<rparr>"

lemma claimed_sample:
  "claim_core_poll (JInt 900) 0 poll_run_a 0 (initial_poll_state 0) =
     Inr (PollClaimed poll_run_a 0 600000 False, claimed_sample)"
  using claim_core_poll_due [OF poll_counted_initial [of 0], of "JInt 900" poll_run_a 0 0] poll_runs
  by (simp add: initial_poll_state_def claimed_sample_def assert_core_poll_interval_def require_def
      core_poll_minimum_interval_seconds_def core_poll_maximum_interval_seconds_def max_safe_integer_def
      given_valid_def poll_holder_def lease_holder_def add_seconds_def lease_seconds_def
      prune_interval_seconds_def)

definition contested_sample :: poll_state where
  "contested_sample =
     fold poll_step [ClaimPoll (JInt 60) 1000 poll_run_b 0, CompletePoll (completion_sample poll_run_b) 2000 0]
       claimed_sample"

theorem core_poll_lease_is_exclusive_witness:
  "(case claim_core_poll (JInt 900) 300000 poll_run_b 0 contested_sample of
      Inl _ \<Rightarrow> True | Inr (c, t) \<Rightarrow> c = PollInFlight poll_run_a 600000 \<and> t = contested_sample) \<and>
   (\<exists>e. complete_core_poll (completion_sample poll_run_b) 300000 0 contested_sample = Inl e)"
  using core_poll_lease_is_exclusive [where interval' = "JInt 900" and now' = 300000 and run' = poll_run_b
      and watermark' = 0 and i = "completion_sample poll_run_b", OF claimed_sample _ contested_sample_def] poll_runs(3)
  by (simp add: completion_sample_def split: sum.splits prod.splits)

definition rested_sample :: poll_state where
  "rested_sample =
     fold poll_step [ClaimPoll (JInt 900) 0 poll_run_a 0, CompletePoll (completion_sample poll_run_a) 5000 0]
       (initial_poll_state 0)"

lemma rested_sample:
  "ps_last_completed_at rested_sample = Some 5000 \<and> ps_next_poll_at rested_sample = 905000 \<and>
   poll_holder rested_sample = None"
  by code_simp

theorem core_poll_never_sticks_witness:
  "ps_last_run_id rested_sample \<noteq> None \<and>
   (\<exists>prune s1. claim_core_poll (JInt 60) 905000 poll_run_b 0 rested_sample =
      Inr (PollClaimed poll_run_b 905000 1505000 prune, s1))"
proof -
  have "ps_last_run_id rested_sample \<noteq> None" by code_simp
  moreover have "\<exists>prune s1. claim_core_poll (JInt 60) 905000 poll_run_b 0 rested_sample =
      Inr (PollClaimed poll_run_b 905000 1505000 prune, s1)"
    using core_poll_never_sticks [OF rested_sample_def, of "JInt 60" poll_run_b 0 905000] rested_sample
      poll_runs(2)
    by (simp add: assert_core_poll_interval_def require_def max_safe_integer_def given_valid_def
        core_poll_minimum_interval_seconds_def core_poll_maximum_interval_seconds_def add_seconds_def
        lease_seconds_def) blast
  ultimately show ?thesis by blast
qed

end
