(* ===== verification/Spec2Isabelle.thy ===== *)
theory Spec2Isabelle
  imports Lifecycle_Guarantees Listing_Guarantees Deliveries Predecessor_Cycles Review_Guarantees Review_Refusals
    Dependency_Guarantees Cure_Guarantees Pull_Request_Lifecycle Token_Guarantees Decision_Guarantees Divergences
    Verification_Guarantees Control_Schedules Run_Rate Queue_Metrics Repository_Settings Progress_Guarantees
    Control_Sample_Run Control_Polls
begin

text \<open>
  A verification development for the work queue of Snowcat (\<open>src/src/queue\<close>, with the three
  derivations of state of \<open>src/src/surface\<close> that read it) and for its control plane
  (\<open>src/src/control\<close>, with the parts of \<open>src/src/repository\<close>, \<open>src/src/core\<close>, \<open>src/src/github\<close> and
  \<open>src/src/verification\<close> that decide what it records): the parts of the program that decide which
  piece of repository work exists, who may do it, what counts as done, and on what facts a repository
  is enrolled at all.

  The program. A SQLite database holds repositories, work items, an append-only ledger of events
  and MCP tokens (\<open>store.ts\<close>). Work is created as admitted seeds, as proposals, or as roots of
  the review gate and of the cure; workers claim it under a lease, renew, release, block or
  complete it; completions create follow-ups within bounds; operators admit, defer, requeue,
  reject and cancel. Sweeps run over the queue and over what GitHub answers: the review gate
  (\<open>pull-request-review.ts\<close>), the cure (\<open>pull-request-cure.ts\<close>), the retiring of work bound to
  a finished pull request (\<open>pull-request-lifecycle.ts\<close>) and the dependency sweep
  (\<open>internal-dependencies.ts\<close>). Feeders propose work: the labeled issues of a repository
  (\<open>github-issues.ts\<close>), its maintenance programs (\<open>programs.ts\<close>, \<open>seeds.ts\<close>) and the drift of
  its settings (\<open>repository-settings.ts\<close>). Reported artifacts are checked against GitHub
  (\<open>artifact-verification.ts\<close>), and a control plane, when there is one, says which repositories
  are enrolled and what their policy allows (\<open>eligibility.ts\<close>, \<open>policy-authority.ts\<close>). The
  surface shows predecessors, reviews and progress; \<open>metrics.ts\<close> counts.

  The control plane is a second database (\<open>control/store.ts\<close>), an append-only ledger: each command
  writes one transaction with a few records and events and a receipt, by which the same command
  given again gets the same answer. Its commands record checks of the Core repository, activate and
  roll back Core snapshots (\<open>core/validator.ts\<close> says what a new catalog has to keep), take a
  repository from Core authority over its identity at GitHub and its canonical surfaces
  (\<open>repository/surfaces.ts\<close>) to enrollment, place and clear holds, and record how far the
  deliveries of GitHub are covered. The status of a repository is read out of those records, and
  \<open>repository/authority-context.ts\<close> digests the facts it rests on. Two leased rows, the Core poll
  and the delivery audit, say which run may act.

  Modelling. The database is the record \<open>store\<close>: one list per table, with JSON columns as a
  datatype that tells null, a value and text that does not parse apart. Each method of
  \<open>QueueStore\<close> is a function from its arguments and the store to an error or a result and the
  new store; every \<open>throw\<close> is an \<open>Inl\<close>, so a failed transaction keeps the store by construction.
  The clock, the random identifiers, the order SQLite gives equal rows and the answers of the
  control plane come in a context \<open>ctx\<close>. What GitHub answers is a record of functions per sweep
  (\<open>outside\<close>, \<open>cure_reads\<close>, \<open>github_reads\<close>, \<open>verifier\<close>) or a function from paths to
  \<open>github_answer\<close>; SHA-256 and the prose of review, cure and dependency roots are parameters, the
  prose of imported issues, programs and settings drift is written out. JSON values are the
  datatype of \<open>Json_Values\<close>; what the queue reads of the control plane is a \<open>control_reading\<close>.
  Strings are lists of characters below code unit 256, instants are milliseconds.

  The control-plane database is the record \<open>control_store\<close>; a payload is a record per kind, with the
  contract \<open>registry.ts\<close> has for it as a predicate. A command is a function from its input, a
  \<open>control_env\<close> (clock, fresh identifiers, digest) and the store; \<open>run_control\<close> composes them, with
  a \<open>control_world\<close> for what is outside: whether files validate to the report a candidate carries,
  the hashes of Git objects, the collation, the validation of a governance document.

  Theories and what they model.

  \<^item> \<open>Snowcat_Prelude\<close>: fallible computations, loops that may throw, JavaScript strings and
    numbers. \<open>Ordered_Map\<close>: a JavaScript \<open>Map\<close> filled in a loop, and its groups.
  \<^item> \<open>Queue_Types\<close>, \<open>Queue_Errors\<close>: \<open>types.ts\<close>, the tables, one error per refusal.
  \<^item> \<open>Text_Patterns\<close>, \<open>Principals\<close>, \<open>Web_Url\<close>, \<open>Work_Contract\<close>, \<open>Work_Records\<close>: the validators
    of \<open>store.ts\<close> for kinds, identities, URLs, delivery contracts, results and artifacts.
  \<^item> \<open>Queue_Database\<close>: rows, decoding, the shared statements, lease check and precondition.
    \<open>Database_Laws\<close>: the locales \<open>keyed_table\<close> (a table updated by key) and \<open>item_mutation\<close>
    (one row written, one event appended, one edge of the status machine).
  \<^item> \<open>Policy_Binding\<close>, \<open>Artifact_Identity\<close>, \<open>Predecessors\<close>, \<open>Follow_Up_Intent\<close>: the policy record
    of an admission, the identity of reported artifacts, when a predecessor counts as delivered,
    the contract an intent stands for.
  \<^item> \<open>Operator_Decisions\<close>, \<open>Claiming\<close>, \<open>Work_Creation\<close>, \<open>Lease_Operations\<close>, \<open>Repositories\<close>,
    \<open>Mcp_Tokens\<close>: the operations of \<open>QueueStore\<close>.
  \<^item> \<open>Lifecycle\<close>, \<open>Lifecycle_Steps\<close>: the invariant of the store, what each operation keeps of it,
    the relation \<open>step\<close> with one rule per operation, and \<open>reachable\<close>.
  \<^item> \<open>Queries\<close>, \<open>Ledger_Reads\<close>, \<open>Deliveries\<close>, \<open>Predecessor_Cycles\<close>, \<open>Review_Board\<close>: listings, churn,
    counts, event pages, attempts, the audit, pending deliveries (\<open>deliveries.ts\<close>), the views of
    \<open>predecessor-state.ts\<close> and \<open>review-state.ts\<close>.
  \<^item> \<open>Path_Boundary\<close>, \<open>Review_Sweep\<close>: the protected boundaries, the review sweep with its pass
    consequence and unreported pass, and the refusals of review completions.
  \<^item> \<open>Release_Versions\<close>, \<open>Dependency_Sweep\<close>, \<open>Pull_Request_Cure\<close>, \<open>Pull_Request_Lifecycle\<close>: the
    other sweeps, with \<open>pr-title-lint.ts\<close>.
  \<^item> \<open>Json_Values\<close>, \<open>Pull_Request_Handoff\<close>, \<open>Artifact_Verification\<close>: the JSON an answer carries,
    the Markdown of a handoff, the verification of a reported artifact, the refresh and the attach.
  \<^item> \<open>Issue_Import\<close>, \<open>Maintenance_Programs\<close>, \<open>Repository_Settings\<close>: the feeders.
  \<^item> \<open>Policy_Authority\<close>: enrollment and the governance policy, as the hooks of a queue.
  \<^item> \<open>Queue_Metrics\<close>, \<open>Progress_State\<close>: the metrics of a window, the progress page.
  \<^item> \<open>Control_Schedules\<close>, \<open>Run_Rate\<close>, \<open>Canonical_Json\<close>: poll and audit intervals and retention,
    the conclusive-run-rate mechanism, canonical JSON and UUIDv7.
  \<^item> \<open>Control_Registry\<close>: kinds, identities and payloads of \<open>registry.ts\<close>. \<open>Control_Store\<close>: the ledger,
    its insertions and receipts. \<open>Authority_Context\<close>: the status of a repository and its digest.
  \<^item> \<open>Source_Coverage\<close>, \<open>Core_Snapshots\<close>, \<open>Surface_Probe\<close>, \<open>Repository_Commands\<close>: the commands on
    coverage, Core checks and snapshots, surfaces, and enrollment with its holds. \<open>Control_Polls\<close>:
    the two leased rows.
  \<^item> \<open>Control_Ledger\<close>: what a command keeps of the ledger, as the locale \<open>ledger_command\<close>.
    \<open>Control_Guarantees\<close>: the new database, \<open>run_control\<close>, and \<open>control_reachable\<close>.
  \<^item> \<open>Sample_Run\<close>, \<open>Review_Sample\<close>, \<open>Control_Sample\<close>, \<open>Control_Sample_Run\<close>: the concrete queue and the
    concrete control plane the witnesses evaluate.

  What is shown. \<open>Claim_Guarantees\<close>: a claim takes the best row that every condition allows and
  finds one when there is one. \<open>Lease_Guarantees\<close>: authority only under a live lease, fencing,
  exclusion. \<open>Completion_Guarantees\<close>: contracts and bounds of a completion. \<open>Lifecycle_Guarantees\<close>:
  the invariants of every reachable queue. \<open>Read_Guarantees\<close>, \<open>Listing_Guarantees\<close>: reads agree
  with what the operations act on. \<open>Review_Guarantees\<close>, \<open>Review_Refusals\<close>: a sweep is a run of the
  queue, marks only heads a review passed, stays in its budget and agrees with the board.
  \<open>Dependency_Guarantees\<close>, \<open>Cure_Guarantees\<close>: what the other sweeps may enqueue.
  \<open>Verification_Guarantees\<close>: a refresh records what GitHub answered and moves nothing else, and a
  completed pull request has passed the handoff check. \<open>Import_Guarantees\<close>: declared edges are
  accepted by the store, an import touches proposals only and imports what the listing shows.
  \<open>Maintenance_Programs\<close>, \<open>Repository_Settings\<close>: the feeders add what was declared, once.
  \<open>Policy_Authority\<close>: a bound definition follows the policy document. \<open>Queue_Metrics\<close>: every
  event is counted once. \<open>Progress_Guarantees\<close>: the page is always produced, shows each row once,
  offers only rows past the claim gate, and its instants run forward. \<open>Canonical_Json\<close>,
  \<open>Run_Rate\<close>, \<open>Control_Schedules\<close>: the canonical text identifies a value, the rate is decided
  exactly, the intervals stay in their bounds.
  \<open>Control_Guarantees\<close>: the ledger of a reachable control plane only grows, commands take turns by
  the sequence they expect, and a repeated command gets its first answer. \<open>Coverage_Guarantees\<close>:
  checkpoints leave no hole but an open gap. \<open>Authority_Guarantees\<close>: an enrolled repository rests on
  a chain of recorded facts, and hold decisions alternate. \<open>Core_Guarantees\<close>: what readiness,
  activation and rollback guarantee. \<open>Control_Polls\<close>: a poll lease is exclusive and never sticks.
  \<open>Token_Guarantees\<close>: tokens read back until revoked. \<open>Decision_Guarantees\<close>: stale decisions and
  decisions of workers are refused. \<open>Divergences\<close>: runs on which the code departs from what it says.

  Bounds are the code's: lineage depth 4, 10 follow-ups, leases of 30 to 3600 seconds, pages of at
  most 500 events, 3 review rounds, 3 pages of files and of listings, 200 predecessor statuses in
  the cycle walk. Recursion is structural or has a measure; no definition needs fuel beyond the
  limit the source itself has.

  Not modelled: HTTP, SQLite and its migrations, the MCP adapter, the pages of the surface and the
  command lines. Of the control-plane store: the verification of an existing file, the projections
  that are rebuilt from the ledger, backups, the prune of check detail, the parsing of stored results,
  the integrity check, deliveries of pull requests and the recording of installations. Of Core: the
  validation of its files against JSON schemas (a third-party package) and the driving of git. The
  collection of GitHub deliveries and the requests of the repository controller are sequences of
  HTTP calls around the commands that are modelled.
\<close>

end
